(* ===== verification/Prelude.thy ===== *)
theory Prelude
  imports Main "HOL-Library.List_Lexorder" "HOL-Library.Char_ord" "HOL-Library.Product_Lexorder"
    "HOL-Library.Option_ord"
begin

text \<open>
  The vocabulary the components share.

  \<^item> Machine integers. An \<open>i64\<close> is an \<open>int\<close> and a \<open>u64\<close> or \<open>usize\<close> is a
    \<open>nat\<close>; where the code adds, the width is written out: \<open>saturating_add\<close>,
    \<open>saturating_sub\<close> and \<open>saturating_mul\<close> clamp to the \<open>i64\<close> range.
  \<^item> Text. A Rust \<open>String\<close> is its sequence of UTF-8 bytes, one HOL \<open>char\<close> per byte.
    \<open>trim\<close> recognises every character of Unicode's White_Space in its UTF-8 form, so
    that a blank text is what \<open>str::trim\<close> says it is.
  \<^item> Ordered maps. A \<open>BTreeMap\<close> is an association list whose keys increase.
  \<^item> Fallible code returns \<open>'e + 'a\<close>: \<open>Inl\<close> is \<open>Err\<close>, \<open>Inr\<close> is \<open>Ok\<close>.
\<close>

section \<open>Collections of rules\<close>

named_theorems btree_simps \<open>laws of the ordered-map operations\<close>
named_theorems sql_simps \<open>laws of the table operations\<close>
named_theorems step_defs \<open>definitions of the operations a step relation unfolds\<close>

section \<open>Machine integers\<close>

type_synonym i64 = int
type_synonym u64 = nat

definition i64_max :: i64 where "i64_max = 9223372036854775807"
definition i64_min :: i64 where "i64_min = - 9223372036854775808"

definition in_i64 :: "int \<Rightarrow> bool" where
  "in_i64 x \<longleftrightarrow> i64_min \<le> x \<and> x \<le> i64_max"

definition clamp_i64 :: "int \<Rightarrow> i64" where
  "clamp_i64 x = max i64_min (min i64_max x)"

definition saturating_add :: "i64 \<Rightarrow> i64 \<Rightarrow> i64" where
  "saturating_add a b = clamp_i64 (a + b)"

definition saturating_sub :: "i64 \<Rightarrow> i64 \<Rightarrow> i64" where
  "saturating_sub a b = clamp_i64 (a - b)"

definition saturating_mul :: "i64 \<Rightarrow> i64 \<Rightarrow> i64" where
  "saturating_mul a b = clamp_i64 (a * b)"

lemma clamp_i64_range [simp]: "in_i64 (clamp_i64 x)"
  by (auto simp: in_i64_def clamp_i64_def i64_min_def i64_max_def)

lemma clamp_i64_id: "in_i64 x \<Longrightarrow> clamp_i64 x = x"
  by (auto simp: in_i64_def clamp_i64_def)

lemma clamp_i64_mono: "x \<le> y \<Longrightarrow> clamp_i64 x \<le> clamp_i64 y"
  by (auto simp: clamp_i64_def)

lemma saturating_add_eq: "in_i64 (a + b) \<Longrightarrow> saturating_add a b = a + b"
  by (simp add: saturating_add_def clamp_i64_id)

lemma saturating_sub_eq: "in_i64 (a - b) \<Longrightarrow> saturating_sub a b = a - b"
  by (simp add: saturating_sub_def clamp_i64_id)

lemma saturating_mul_eq: "in_i64 (a * b) \<Longrightarrow> saturating_mul a b = a * b"
  by (simp add: saturating_mul_def clamp_i64_id)

lemma saturating_add_ge: "in_i64 a \<Longrightarrow> 0 \<le> b \<Longrightarrow> a \<le> saturating_add a b"
  by (auto simp: saturating_add_def clamp_i64_def in_i64_def)

lemma saturating_add_le: "in_i64 a \<Longrightarrow> saturating_add a b \<le> max a (a + b)"
  by (auto simp: saturating_add_def clamp_i64_def in_i64_def)

lemma saturating_sub_le: "in_i64 a \<Longrightarrow> 0 \<le> b \<Longrightarrow> saturating_sub a b \<le> a"
  by (auto simp: saturating_sub_def clamp_i64_def in_i64_def)

section \<open>Results\<close>

definition is_ok :: "'e + 'a \<Rightarrow> bool" where
  "is_ok r = (case r of Inl _ \<Rightarrow> False | Inr _ \<Rightarrow> True)"

definition ok_or :: "'a option \<Rightarrow> 'e \<Rightarrow> 'e + 'a" where
  "ok_or v e = (case v of None \<Rightarrow> Inl e | Some x \<Rightarrow> Inr x)"

definition or_else :: "'a option \<Rightarrow> 'a option \<Rightarrow> 'a option" where
  "or_else a b = (case a of None \<Rightarrow> b | Some _ \<Rightarrow> a)"

definition unwrap_or :: "'a option \<Rightarrow> 'a \<Rightarrow> 'a" where
  "unwrap_or a d = (case a of None \<Rightarrow> d | Some x \<Rightarrow> x)"

definition filter_opt :: "('a \<Rightarrow> bool) \<Rightarrow> 'a option \<Rightarrow> 'a option" where
  "filter_opt p a = (case a of None \<Rightarrow> None | Some x \<Rightarrow> if p x then a else None)"

lemma is_ok_simps [simp]: "is_ok (Inl e) = False" "is_ok (Inr x) = True"
  by (simp_all add: is_ok_def)

lemma or_else_simps [simp]: "or_else None b = b" "or_else (Some x) b = Some x"
  by (simp_all add: or_else_def)

lemma or_else_None [simp]: "or_else a None = a"
  by (cases a) simp_all

lemma unwrap_or_simps [simp]: "unwrap_or None d = d" "unwrap_or (Some x) d = x"
  by (simp_all add: unwrap_or_def)

lemma ok_or_simps [simp]: "ok_or None e = Inl e" "ok_or (Some x) e = Inr x"
  by (simp_all add: ok_or_def)

lemma filter_opt_Some [simp]: "filter_opt p a = Some x \<longleftrightarrow> a = Some x \<and> p x"
  by (auto simp: filter_opt_def split: option.splits)

end
