(* ===== verification/RustText.thy ===== *)
theory RustText
  imports Prelude
begin

text \<open>
  The part of Rust's \<open>str\<close> API the code uses, on UTF-8 byte sequences: \<open>trim\<close>, the blank
  test \<open>trim().is_empty()\<close>, \<open>split_whitespace\<close>, ASCII case folding and the ASCII
  character classes.
\<close>

section \<open>Bytes\<close>

definition byte :: "char \<Rightarrow> nat" where
  "byte c = of_char c"

definition is_digit :: "char \<Rightarrow> bool" where
  "is_digit c \<longleftrightarrow> 48 \<le> byte c \<and> byte c \<le> 57"

definition is_hexdigit :: "char \<Rightarrow> bool" where
  "is_hexdigit c \<longleftrightarrow> is_digit c \<or> (65 \<le> byte c \<and> byte c \<le> 70) \<or> (97 \<le> byte c \<and> byte c \<le> 102)"

definition ascii_lower :: "char \<Rightarrow> char" where
  "ascii_lower c = (if 65 \<le> byte c \<and> byte c \<le> 90 then char_of (byte c + 32) else c)"

definition ascii_upper :: "char \<Rightarrow> char" where
  "ascii_upper c = (if 97 \<le> byte c \<and> byte c \<le> 122 then char_of (byte c - 32) else c)"

definition to_ascii_lowercase :: "string \<Rightarrow> string" where
  "to_ascii_lowercase s = map ascii_lower s"

definition to_ascii_uppercase :: "string \<Rightarrow> string" where
  "to_ascii_uppercase s = map ascii_upper s"

lemma byte_char_of: "n < 256 \<Longrightarrow> byte (char_of n) = n"
  by (simp add: byte_def)

lemma byte_lt [simp]: "byte c < 256"
  by (simp add: byte_def)

lemma ascii_lower_idem [simp]: "ascii_lower (ascii_lower c) = ascii_lower c"
  by (auto simp: ascii_lower_def byte_char_of)

lemma to_ascii_lowercase_idem [simp]:
  "to_ascii_lowercase (to_ascii_lowercase s) = to_ascii_lowercase s"
  by (simp add: to_ascii_lowercase_def comp_def)

lemma length_to_ascii_lowercase [simp]: "length (to_ascii_lowercase s) = length s"
  by (simp add: to_ascii_lowercase_def)

lemma is_hexdigit_lower [simp]: "is_hexdigit (ascii_lower c) = is_hexdigit c"
  by (auto simp: is_hexdigit_def is_digit_def ascii_lower_def byte_char_of)

section \<open>White space\<close>

text \<open>
  The three-byte encodings of White_Space: U+1680, U+2000 to U+200A, U+2028, U+2029, U+202F,
  U+205F and U+3000.
\<close>

definition ws3 :: "nat \<Rightarrow> nat \<Rightarrow> nat \<Rightarrow> bool" where
  "ws3 a b c \<longleftrightarrow>
     (a = 225 \<and> b = 154 \<and> c = 128)
   \<or> (a = 226 \<and> b = 128 \<and> ((128 \<le> c \<and> c \<le> 138) \<or> c = 168 \<or> c = 169 \<or> c = 175))
   \<or> (a = 226 \<and> b = 129 \<and> c = 159)
   \<or> (a = 227 \<and> b = 128 \<and> c = 128)"

definition ws2 :: "nat \<Rightarrow> nat \<Rightarrow> bool" where
  "ws2 a b \<longleftrightarrow> a = 194 \<and> (b = 133 \<or> b = 160)"

definition ws1 :: "nat \<Rightarrow> bool" where
  "ws1 a \<longleftrightarrow> (9 \<le> a \<and> a \<le> 13) \<or> a = 32"

text \<open>The number of bytes of the white-space character a text starts with; 0 if it starts with none.\<close>

definition ws_width :: "string \<Rightarrow> nat" where
  "ws_width s = (case s of
     [] \<Rightarrow> 0
   | a # s1 \<Rightarrow> if ws1 (byte a) then 1 else (case s1 of
       [] \<Rightarrow> 0
     | b # s2 \<Rightarrow> if ws2 (byte a) (byte b) then 2 else (case s2 of
         [] \<Rightarrow> 0
       | c # _ \<Rightarrow> if ws3 (byte a) (byte b) (byte c) then 3 else 0)))"

text \<open>The same for the character a text ends with, on the reversed bytes.\<close>

definition ws_width_rev :: "string \<Rightarrow> nat" where
  "ws_width_rev s = (case s of
     [] \<Rightarrow> 0
   | a # s1 \<Rightarrow> if ws1 (byte a) then 1 else (case s1 of
       [] \<Rightarrow> 0
     | b # s2 \<Rightarrow> if ws2 (byte b) (byte a) then 2 else (case s2 of
         [] \<Rightarrow> 0
       | c # _ \<Rightarrow> if ws3 (byte c) (byte b) (byte a) then 3 else 0)))"

lemma ws_width_Nil [simp]: "ws_width [] = 0" "ws_width_rev [] = 0"
  by (simp_all add: ws_width_def ws_width_rev_def)

function strip_ws :: "(string \<Rightarrow> nat) \<Rightarrow> string \<Rightarrow> string" where
  "strip_ws w s = (if w s = 0 \<or> s = [] then s else strip_ws w (drop (w s) s))"
  by pat_completeness auto
termination
  by (relation "measure (\<lambda>(w, s). length s)") auto

declare strip_ws.simps [simp del]

definition trim_start :: "string \<Rightarrow> string" where
  "trim_start s = strip_ws ws_width s"

definition trim_end :: "string \<Rightarrow> string" where
  "trim_end s = rev (strip_ws ws_width_rev (rev s))"

definition trim :: "string \<Rightarrow> string" where
  "trim s = trim_end (trim_start s)"

text \<open>\<open>value.trim().is_empty()\<close>\<close>

definition is_blank :: "string \<Rightarrow> bool" where
  "is_blank s \<longleftrightarrow> trim s = []"

lemma strip_ws_Nil [simp]: "strip_ws w [] = []"
  by (simp add: strip_ws.simps)

lemma is_blank_Nil [simp]: "is_blank []"
  by (simp add: is_blank_def trim_def trim_start_def trim_end_def)

lemma strip_ws_stop: "w s = 0 \<Longrightarrow> strip_ws w s = s"
  by (simp add: strip_ws.simps)

text \<open>A text that starts and ends with ASCII characters that are not white space is its own trim.\<close>

lemma strip_ws_fixed: "w (strip_ws w s) = 0 \<or> strip_ws w s = []"
proof (induction w s rule: strip_ws.induct)
  case (1 w s)
  then show ?case
    by (cases "w s = 0 \<or> s = []") (auto simp: strip_ws.simps [of w s])
qed

lemma strip_ws_idem [simp]: "strip_ws w (strip_ws w s) = strip_ws w s"
  using strip_ws_fixed [of w s] by (auto intro: strip_ws_stop)

lemma trim_start_idem [simp]: "trim_start (trim_start s) = trim_start s"
  by (simp add: trim_start_def)

lemma trim_end_idem [simp]: "trim_end (trim_end s) = trim_end s"
  by (simp add: trim_end_def)

lemma strip_ws_suffix: "\<exists>p. s = p @ strip_ws w s"
proof (induction w s rule: strip_ws.induct)
  case (1 w s)
  show ?case
  proof (cases "w s = 0 \<or> s = []")
    case True
    then show ?thesis by (auto simp: strip_ws.simps [of w s])
  next
    case False
    with "1.IH" obtain p where "drop (w s) s = p @ strip_ws w (drop (w s) s)" by blast
    then have "s = (take (w s) s @ p) @ strip_ws w s"
      using False by (metis append.assoc append_take_drop_id strip_ws.simps)
    then show ?thesis by blast
  qed
qed

lemma set_trim: "set (trim s) \<subseteq> set s"
proof -
  obtain p where p: "s = p @ trim_start s" using strip_ws_suffix by (metis trim_start_def)
  obtain q where "rev (trim_start s) = q @ strip_ws ws_width_rev (rev (trim_start s))"
    using strip_ws_suffix by blast
  then have "set (strip_ws ws_width_rev (rev (trim_start s))) \<subseteq> set (trim_start s)"
    by (metis Un_upper2 set_append set_rev)
  with p show ?thesis by (metis Un_upper2 order_trans set_append set_rev trim_def trim_end_def)
qed

section \<open>Words of a text\<close>

text \<open>\<open>split_whitespace().next()\<close>: the bytes up to the next white space.\<close>

fun take_word :: "string \<Rightarrow> string" where
  "take_word [] = []"
| "take_word (c # s) = (if ws_width (c # s) = 0 then c # take_word s else [])"

definition first_word :: "string \<Rightarrow> string option" where
  "first_word s = (case trim_start s of [] \<Rightarrow> None | c # t \<Rightarrow> Some (take_word (c # t)))"

text \<open>\<open>split_once\<close> at the first occurrence of a byte.\<close>

fun split_once :: "char \<Rightarrow> string \<Rightarrow> (string \<times> string) option" where
  "split_once d [] = None"
| "split_once d (c # s) =
     (if c = d then Some ([], s) else map_option (\<lambda>(a, b). (c # a, b)) (split_once d s))"

lemma split_once_None: "split_once d s = None \<longleftrightarrow> d \<notin> set s"
  by (induction s) auto

lemma split_once_Some: "split_once d s = Some (a, b) \<Longrightarrow> s = a @ d # b \<and> d \<notin> set a"
proof (induction s arbitrary: a)
  case Nil
  then show ?case by simp
next
  case (Cons c s)
  then show ?case by (cases "c = d") auto
qed

lemma split_once_append: "d \<notin> set a \<Longrightarrow> split_once d (a @ d # b) = Some (a, b)"
  by (induction a) auto

lemma take_word_ascii: "\<forall>c \<in> set s. byte c < 128 \<and> \<not> ws1 (byte c) \<Longrightarrow> take_word s = s"
proof (induction s)
  case Nil
  then show ?case by simp
next
  case (Cons c s)
  then have "ws_width (c # s) = 0"
    by (auto simp: ws_width_def ws2_def ws3_def split: list.splits)
  with Cons show ?case by simp
qed

text \<open>\<open>trim_end_matches\<close> of one byte.\<close>

definition trim_end_matches :: "char \<Rightarrow> string \<Rightarrow> string" where
  "trim_end_matches d s = rev (dropWhile (\<lambda>c. c = d) (rev s))"

section \<open>UTF-8\<close>

definition cont_byte :: "char \<Rightarrow> bool" where
  "cont_byte c \<longleftrightarrow> 128 \<le> byte c \<and> byte c \<le> 191"

text \<open>\<open>String::from_utf8\<close> accepts exactly the well-formed byte sequences of Unicode's table 3-7.\<close>

fun utf8_valid :: "string \<Rightarrow> bool" where
  "utf8_valid [] = True"
| "utf8_valid (a # s) =
     (if byte a < 128 then utf8_valid s
      else case s of
        [] \<Rightarrow> False
      | b # s2 \<Rightarrow>
          if 194 \<le> byte a \<and> byte a \<le> 223 then cont_byte b \<and> utf8_valid s2
          else (case s2 of
            [] \<Rightarrow> False
          | c # s3 \<Rightarrow>
              if 224 \<le> byte a \<and> byte a \<le> 239
              then cont_byte b \<and> cont_byte c \<and> (byte a = 224 \<longrightarrow> 160 \<le> byte b)
                \<and> (byte a = 237 \<longrightarrow> byte b \<le> 159) \<and> utf8_valid s3
              else (case s3 of
                [] \<Rightarrow> False
              | d # s4 \<Rightarrow> 240 \<le> byte a \<and> byte a \<le> 244 \<and> cont_byte b \<and> cont_byte c \<and> cont_byte d
                  \<and> (byte a = 240 \<longrightarrow> 144 \<le> byte b) \<and> (byte a = 244 \<longrightarrow> byte b \<le> 143)
                  \<and> utf8_valid s4)))"

section \<open>Decimal numerals\<close>

fun show_nat :: "nat \<Rightarrow> string" where
  "show_nat n = (if n < 10 then [char_of (48 + n)] else show_nat (n div 10) @ [char_of (48 + n mod 10)])"

declare show_nat.simps [simp del]

definition show_int :: "int \<Rightarrow> string" where
  "show_int i = (if i < 0 then CHR ''-'' # show_nat (nat (- i)) else show_nat (nat i))"

text \<open>\<open>format!("{:0w}")\<close> of an unsigned number.\<close>

definition show_padded :: "nat \<Rightarrow> nat \<Rightarrow> string" where
  "show_padded w n = (let s = show_nat n in replicate (w - length s) CHR ''0'' @ s)"

lemma is_digit_char_of: "n < 10 \<Longrightarrow> is_digit (char_of (48 + n :: nat))"
  by (simp add: is_digit_def byte_char_of)

lemma show_nat_digits: "list_all is_digit (show_nat n)"
proof (induction n rule: show_nat.induct)
  case (1 n)
  have "n mod 10 < 10" by simp
  with 1 show ?case
    by (subst show_nat.simps) (simp add: is_digit_char_of)
qed

lemma show_nat_nonempty [simp]: "show_nat n \<noteq> []"
  by (subst show_nat.simps) simp

lemma length_show_nat: "0 < w \<Longrightarrow> n < 10 ^ w \<Longrightarrow> length (show_nat n) \<le> w"
proof (induction n arbitrary: w rule: show_nat.induct)
  case (1 n)
  show ?case
  proof (cases "n < 10")
    case True
    with 1 show ?thesis by (subst show_nat.simps) simp
  next
    case False
    with 1 obtain v where v: "w = Suc v" "0 < v" by (cases w) (auto, metis One_nat_def power_one_right
          not_gr_zero power_Suc)
    with 1 False have "n div 10 < 10 ^ v" by (simp add: less_mult_imp_div_less mult.commute)
    from 1(1) [OF False v(2) this] False v(1) show ?thesis by (subst show_nat.simps) simp
  qed
qed

lemma length_show_padded: "0 < w \<Longrightarrow> n < 10 ^ w \<Longrightarrow> length (show_padded w n) = w"
  using length_show_nat [of w n] by (simp add: show_padded_def Let_def)

lemma show_padded_digits: "list_all is_digit (show_padded w n)"
  using show_nat_digits [of n] by (auto simp: show_padded_def Let_def list_all_iff is_digit_def byte_def)

section \<open>Lines and affixes\<close>

definition newline :: char where "newline = char_of (10 :: nat)"
definition carriage_return :: char where "carriage_return = char_of (13 :: nat)"

text \<open>\<open>strip_prefix\<close> and \<open>strip_suffix\<close> of a text.\<close>

definition strip_prefix :: "string \<Rightarrow> string \<Rightarrow> string option" where
  "strip_prefix p s = (if take (length p) s = p then Some (drop (length p) s) else None)"

definition strip_suffix :: "string \<Rightarrow> string \<Rightarrow> string option" where
  "strip_suffix p s = map_option rev (strip_prefix (rev p) (rev s))"

definition starts_with :: "string \<Rightarrow> string \<Rightarrow> bool" where
  "starts_with p s \<longleftrightarrow> strip_prefix p s \<noteq> None"

lemma strip_prefix_append [simp]: "strip_prefix p (p @ s) = Some s"
  by (simp add: strip_prefix_def)

lemma strip_suffix_append [simp]: "strip_suffix p (s @ p) = Some s"
  by (simp add: strip_suffix_def)

lemma strip_prefix_Some: "strip_prefix p s = Some t \<longleftrightarrow> s = p @ t"
  by (auto simp: strip_prefix_def) (metis append_take_drop_id)

lemma strip_suffix_Some: "strip_suffix p s = Some t \<longleftrightarrow> s = t @ p"
  by (auto simp: strip_suffix_def strip_prefix_Some) (metis rev_append rev_rev_ident)

lemma split_once_length: "split_once d s = Some (a, b) \<Longrightarrow> length b < length s"
  using split_once_Some [of d s a b] by simp

text \<open>\<open>str::lines\<close>: a line end is a line feed, with the carriage return before it if there is one.\<close>

function rust_lines :: "string \<Rightarrow> string list" where
  "rust_lines s = (if s = [] then [] else case split_once newline s of
     None \<Rightarrow> [s]
   | Some (a, b) \<Rightarrow> unwrap_or (strip_suffix [carriage_return] a) a # rust_lines b)"
  by pat_completeness auto
termination
  by (relation "measure length") (auto dest: split_once_length)

declare rust_lines.simps [simp del]

lemma rust_lines_Nil [simp]: "rust_lines [] = []"
  by (simp add: rust_lines.simps)

lemma strip_suffix_None: "d \<notin> set a \<Longrightarrow> strip_suffix [d] a = None"
  by (cases "strip_suffix [d] a") (auto simp: strip_suffix_Some)

lemma rust_lines_Cons:
  "newline \<notin> set a \<Longrightarrow> carriage_return \<notin> set a \<Longrightarrow> rust_lines (a @ newline # s) = a # rust_lines s"
  by (subst rust_lines.simps) (simp add: split_once_append strip_suffix_None)

text \<open>\<open>chars().any(char::is_whitespace)\<close>\<close>

fun has_whitespace :: "string \<Rightarrow> bool" where
  "has_whitespace [] = False"
| "has_whitespace (c # s) = (ws_width (c # s) \<noteq> 0 \<or> has_whitespace s)"

section \<open>Visible ASCII\<close>

text \<open>A visible ASCII character: part of a word, however the word goes on.\<close>

definition visible :: "char \<Rightarrow> bool" where
  "visible c \<longleftrightarrow> byte c < 128 \<and> \<not> ws1 (byte c)"

lemma ws_width_visible: "visible c \<Longrightarrow> ws_width (c # s) = 0" "visible c \<Longrightarrow> ws_width_rev (c # s) = 0"
  by (auto simp: visible_def ws_width_def ws_width_rev_def ws2_def ws3_def split: list.splits)

lemma visible_no_whitespace: "list_all visible s \<Longrightarrow> \<not> has_whitespace s"
  by (induction s) (auto simp: ws_width_visible)

lemma trim_visible_ends:
  assumes "s \<noteq> []" and "visible (hd s)" and "visible (last s)"
  shows "trim s = s"
proof -
  from assms(1,2) have "trim_start s = s"
    by (cases s) (auto simp: trim_start_def strip_ws_stop ws_width_visible)
  moreover from assms(1,3) have "trim_end s = s"
    by (cases s rule: rev_cases) (auto simp: trim_end_def strip_ws_stop ws_width_visible)
  ultimately show ?thesis by (simp add: trim_def)
qed

lemma newline_invisible: "visible c \<Longrightarrow> c \<noteq> newline \<and> c \<noteq> carriage_return"
  by (auto simp: visible_def newline_def carriage_return_def ws1_def byte_char_of)

end
