(* ===== verification/BTree.thy ===== *)
theory BTree
  imports Prelude
begin

text \<open>
  \<open>std::collections::BTreeMap\<close> and \<open>BTreeSet\<close> as association lists whose keys strictly
  increase. The order of the list is the iteration order of the Rust map, which the code's
  effects depend on. \<open>bt_get\<close> is \<open>get\<close>, \<open>bt_insert\<close> is \<open>insert\<close> (it replaces the value of
  a present key), \<open>bt_remove\<close> is \<open>remove\<close> and \<open>bt_map\<close> is a pass over \<open>values_mut\<close>.
\<close>

type_synonym ('k, 'v) btree = "('k \<times> 'v) list"

definition bt_get :: "('k, 'v) btree \<Rightarrow> 'k \<Rightarrow> 'v option" where
  "bt_get m k = map_of m k"

fun bt_insert :: "'k::linorder \<Rightarrow> 'v \<Rightarrow> ('k, 'v) btree \<Rightarrow> ('k, 'v) btree" where
  "bt_insert k v [] = [(k, v)]"
| "bt_insert k v (e # m) =
     (if fst e < k then e # bt_insert k v m
      else if fst e = k then (k, v) # m
      else (k, v) # e # m)"

definition bt_remove :: "'k \<Rightarrow> ('k, 'v) btree \<Rightarrow> ('k, 'v) btree" where
  "bt_remove k m = filter (\<lambda>e. fst e \<noteq> k) m"

definition bt_map :: "('v \<Rightarrow> 'v) \<Rightarrow> ('k, 'v) btree \<Rightarrow> ('k, 'v) btree" where
  "bt_map f m = map (\<lambda>(k, v). (k, f v)) m"

definition bt_keys :: "('k, 'v) btree \<Rightarrow> 'k list" where
  "bt_keys m = map fst m"

definition bt_values :: "('k, 'v) btree \<Rightarrow> 'v list" where
  "bt_values m = map snd m"

definition bt_ok :: "('k::linorder, 'v) btree \<Rightarrow> bool" where
  "bt_ok m \<longleftrightarrow> sorted_wrt (<) (map fst m)"

text \<open>A \<open>BTreeSet\<close>: inserting keeps the elements increasing.\<close>

fun bs_insert :: "'k::linorder \<Rightarrow> 'k list \<Rightarrow> 'k list" where
  "bs_insert k [] = [k]"
| "bs_insert k (x # xs) = (if x < k then x # bs_insert k xs else if x = k then x # xs else k # x # xs)"

definition bs_extend :: "'k::linorder list \<Rightarrow> 'k list \<Rightarrow> 'k list" where
  "bs_extend ks s = fold bs_insert ks s"

section \<open>Laws\<close>

lemma bt_get_Nil [simp, btree_simps]: "bt_get [] k = None"
  by (simp add: bt_get_def)

lemma bt_get_insert [simp, btree_simps]:
  "bt_get (bt_insert k v m) j = (if j = k then Some v else bt_get m j)"
  by (induction m) (auto simp: bt_get_def)

lemma bt_get_remove [simp, btree_simps]:
  "bt_get (bt_remove k m) j = (if j = k then None else bt_get m j)"
  by (induction m) (auto simp: bt_get_def bt_remove_def)

lemma bt_get_map [simp, btree_simps]: "bt_get (bt_map f m) k = map_option f (bt_get m k)"
  by (induction m) (auto simp: bt_get_def bt_map_def)

lemma set_keys_insert [simp, btree_simps]:
  "fst ` set (bt_insert k v m) = insert k (fst ` set m)"
  by (induction m) auto

lemma bt_keys_map [simp, btree_simps]: "bt_keys (bt_map f m) = bt_keys m"
  by (auto simp: bt_keys_def bt_map_def)

lemma bt_ok_Nil [simp]: "bt_ok []"
  by (simp add: bt_ok_def)

lemma bt_ok_insert [simp]: "bt_ok m \<Longrightarrow> bt_ok (bt_insert k v m)"
proof (induction m)
  case Nil
  then show ?case by (simp add: bt_ok_def)
next
  case (Cons e m)
  then have ih: "bt_ok (bt_insert k v m)" by (simp add: bt_ok_def)
  have below: "fst e < k \<Longrightarrow> \<forall>j \<in> fst ` set (bt_insert k v m). fst e < j"
    using Cons.prems by (auto simp: bt_ok_def)
  from ih below Cons.prems show ?case
    by (auto simp: bt_ok_def elim: less_trans)
qed

lemma bt_ok_remove [simp]: "bt_ok m \<Longrightarrow> bt_ok (bt_remove k m)"
  by (induction m) (auto simp: bt_ok_def bt_remove_def)

lemma bt_ok_map [simp]: "bt_ok (bt_map f m) = bt_ok m"
proof -
  have "map fst (bt_map f m) = map fst m" by (auto simp: bt_map_def)
  then show ?thesis by (simp only: bt_ok_def)
qed

lemma bt_ok_distinct: "bt_ok m \<Longrightarrow> distinct (map fst m)"
  by (simp add: bt_ok_def strict_sorted_iff)

lemma bt_in_set: "bt_ok m \<Longrightarrow> (k, v) \<in> set m \<longleftrightarrow> bt_get m k = Some v"
  by (metis bt_get_def bt_ok_distinct map_of_eq_Some_iff)

lemma bt_get_in_set: "bt_get m k = Some v \<Longrightarrow> (k, v) \<in> set m"
  by (simp add: bt_get_def map_of_SomeD)

lemma bt_get_key: "(\<exists>v. bt_get m k = Some v) \<longleftrightarrow> k \<in> fst ` set m"
  by (metis bt_get_def map_of_eq_None_iff not_None_eq)

lemma length_bt_insert:
  "length (bt_insert k v m) \<le> Suc (length m)"
  by (induction m) auto

lemma length_bt_remove: "length (bt_remove k m) \<le> length m"
  by (simp add: bt_remove_def)

lemma length_bt_remove_less: "bt_get m k \<noteq> None \<Longrightarrow> length (bt_remove k m) < length m"
  by (auto simp: bt_remove_def dest!: bt_get_in_set intro!: length_filter_less)

lemma set_bs_insert [simp]: "set (bs_insert k s) = insert k (set s)"
  by (induction s) auto

lemma set_bs_extend [simp]: "set (bs_extend ks s) = set ks \<union> set s"
  by (induction ks arbitrary: s) (auto simp: bs_extend_def)

lemma sorted_bs_insert: "sorted_wrt (<) s \<Longrightarrow> sorted_wrt (<) (bs_insert k s)"
  by (induction s) (auto elim: less_trans)

lemma sorted_bs_extend: "sorted_wrt (<) s \<Longrightarrow> sorted_wrt (<) (bs_extend ks s)"
  by (induction ks arbitrary: s) (auto simp: bs_extend_def sorted_bs_insert)

lemma bt_values_iff: "bt_ok m \<Longrightarrow> v \<in> set (bt_values m) \<longleftrightarrow> (\<exists>k. bt_get m k = Some v)"
  by (force simp: bt_values_def simp flip: bt_in_set)

end
