(* ===== verification/Json.thy ===== *)
theory Json
  imports RustText BTree
begin

text \<open>
  \<open>serde_json::Value\<close>. An object is an ordered map by key, as \<open>serde_json::Map\<close> is without the
  \<open>preserve_order\<close> feature (no crate of the workspace enables it). A number is an integer in the
  range of \<open>i64\<close> or \<open>u64\<close>, or a float given by its 64 bits, which no modelled code reads.
\<close>

datatype json =
    JNull
  | JBool bool
  | JInt int
  | JFloat nat
  | JStr string
  | JArr "json list"
  | JObj "(string \<times> json) list"

section \<open>Accessors\<close>

definition as_str :: "json \<Rightarrow> string option" where
  "as_str v = (case v of JStr s \<Rightarrow> Some s | _ \<Rightarrow> None)"

definition as_bool :: "json \<Rightarrow> bool option" where
  "as_bool v = (case v of JBool b \<Rightarrow> Some b | _ \<Rightarrow> None)"

definition as_i64 :: "json \<Rightarrow> i64 option" where
  "as_i64 v = (case v of JInt n \<Rightarrow> if in_i64 n then Some n else None | _ \<Rightarrow> None)"

definition as_u64 :: "json \<Rightarrow> u64 option" where
  "as_u64 v = (case v of JInt n \<Rightarrow> if 0 \<le> n then Some (nat n) else None | _ \<Rightarrow> None)"

definition as_array :: "json \<Rightarrow> json list option" where
  "as_array v = (case v of JArr vs \<Rightarrow> Some vs | _ \<Rightarrow> None)"

definition as_object :: "json \<Rightarrow> (string \<times> json) list option" where
  "as_object v = (case v of JObj m \<Rightarrow> Some m | _ \<Rightarrow> None)"

definition is_object :: "json \<Rightarrow> bool" where
  "is_object v = (case v of JObj _ \<Rightarrow> True | _ \<Rightarrow> False)"

definition is_string :: "json \<Rightarrow> bool" where
  "is_string v = (case v of JStr _ \<Rightarrow> True | _ \<Rightarrow> False)"

definition is_boolean :: "json \<Rightarrow> bool" where
  "is_boolean v = (case v of JBool _ \<Rightarrow> True | _ \<Rightarrow> False)"

definition jget :: "string \<Rightarrow> json \<Rightarrow> json option" where
  "jget k v = (case v of JObj m \<Rightarrow> bt_get m k | _ \<Rightarrow> None)"

text \<open>\<open>Value::pointer\<close> on a path none of whose segments is a number.\<close>

fun jpointer :: "string list \<Rightarrow> json \<Rightarrow> json option" where
  "jpointer [] v = Some v"
| "jpointer (k # ks) v = Option.bind (jget k v) (jpointer ks)"

text \<open>\<open>value.get(key).and_then(Value::as_str)\<close> and its relatives.\<close>

definition jstr :: "string \<Rightarrow> json \<Rightarrow> string option" where
  "jstr k v = Option.bind (jget k v) as_str"

definition jbool :: "string \<Rightarrow> json \<Rightarrow> bool option" where
  "jbool k v = Option.bind (jget k v) as_bool"

definition ji64 :: "string \<Rightarrow> json \<Rightarrow> i64 option" where
  "ji64 k v = Option.bind (jget k v) as_i64"

text \<open>\<open>json!({...})\<close> and \<open>value[key] = x\<close> on an object.\<close>

definition jobj :: "(string \<times> json) list \<Rightarrow> json" where
  "jobj kvs = JObj (fold (\<lambda>(k, v) m. bt_insert k v m) kvs [])"

text \<open>
  \<open>value[key] = x\<close>: a null becomes an object first; on any other value that is not an object
  \<open>serde_json\<close> panics, which is \<open>None\<close>.
\<close>

definition jset :: "string \<Rightarrow> json \<Rightarrow> json \<Rightarrow> json option" where
  "jset k x v = (case v of
     JObj m \<Rightarrow> Some (JObj (bt_insert k x m))
   | JNull \<Rightarrow> Some (JObj [(k, x)])
   | _ \<Rightarrow> None)"

text \<open>The entries of \<open>json!({...})\<close>, to which the code then adds by \<open>value[key] = x\<close>.\<close>

definition jmap :: "(string \<times> json) list \<Rightarrow> (string \<times> json) list" where
  "jmap kvs = fold (\<lambda>(k, v) m. bt_insert k v m) kvs []"

section \<open>Printing\<close>

text \<open>
  \<open>Value::to_string\<close>: compact, keys in order, every byte but the quotation mark, the backslash and
  the control characters printed as it is. How a float is printed is a parameter.
\<close>

definition hex_digit :: "nat \<Rightarrow> char" where
  "hex_digit n = char_of (if n < 10 then 48 + n else 87 + n)"

definition json_escape :: "char \<Rightarrow> string" where
  "json_escape c = (let b = byte c; bs = CHR 0x5C in
     if b = 34 then [bs, CHR 0x22] else if b = 92 then [bs, bs]
     else if b = 8 then [bs, CHR ''b''] else if b = 9 then [bs, CHR ''t''] else if b = 10 then [bs, CHR ''n'']
     else if b = 12 then [bs, CHR ''f''] else if b = 13 then [bs, CHR ''r'']
     else if b < 32 then [bs, CHR ''u'', CHR ''0'', CHR ''0'', hex_digit (b div 16), hex_digit (b mod 16)]
     else [c])"

definition json_quote :: "string \<Rightarrow> string" where
  "json_quote s = CHR 0x22 # concat (map json_escape s) @ [CHR 0x22]"

fun comma_join :: "string list \<Rightarrow> string" where
  "comma_join [] = []"
| "comma_join [s] = s"
| "comma_join (s # t # ss) = s @ '','' @ comma_join (t # ss)"

fun json_text :: "(nat \<Rightarrow> string) \<Rightarrow> json \<Rightarrow> string" where
  "json_text fl JNull = ''null''"
| "json_text fl (JBool b) = (if b then ''true'' else ''false'')"
| "json_text fl (JInt n) = show_int n"
| "json_text fl (JFloat n) = fl n"
| "json_text fl (JStr s) = json_quote s"
| "json_text fl (JArr vs) = ''['' @ comma_join (map (json_text fl) vs) @ '']''"
| "json_text fl (JObj m) = ''{'' @ comma_join (map (\<lambda>(k, v). json_quote k @ '':'' @ json_text fl v) m) @ ''}''"

section \<open>Laws\<close>

lemma jget_JObj [simp]: "jget k (JObj m) = bt_get m k"
  by (simp add: jget_def)

lemma as_str_Some [simp]: "as_str v = Some s \<longleftrightarrow> v = JStr s"
  by (auto simp: as_str_def split: json.splits)

lemma as_object_Some [simp]: "as_object v = Some m \<longleftrightarrow> v = JObj m"
  by (auto simp: as_object_def split: json.splits)

lemma as_array_Some [simp]: "as_array v = Some m \<longleftrightarrow> v = JArr m"
  by (auto simp: as_array_def split: json.splits)

lemma as_i64_Some [simp]: "as_i64 v = Some n \<longleftrightarrow> v = JInt n \<and> in_i64 n"
  by (auto simp: as_i64_def split: json.splits if_splits)

lemma as_bool_Some [simp]: "as_bool v = Some b \<longleftrightarrow> v = JBool b"
  by (auto simp: as_bool_def split: json.splits)

lemma accessors_simps [simp]:
  "as_str (JStr s) = Some s" "as_bool (JBool b) = Some b" "as_array (JArr vs) = Some vs"
  "as_object (JObj m) = Some m" "is_object (JObj m)" "is_string (JStr s)" "is_boolean (JBool b)"
  by (simp_all add: as_str_def as_bool_def as_array_def as_object_def is_object_def is_string_def
      is_boolean_def)

lemma jset_get: "jset k x v = Some w \<Longrightarrow> jget j w = (if j = k then Some x else jget j v)"
  by (auto simp: jset_def jget_def bt_get_def [of "[(k, x)]"] split: json.splits)

lemma jset_is_object: "jset k x v = Some w \<Longrightarrow> is_object w"
  by (auto simp: jset_def split: json.splits)

lemma jset_object: "is_object v \<Longrightarrow> \<exists>w. jset k x v = Some w"
  by (auto simp: jset_def is_object_def split: json.splits)

end
