(* ===== verification/Domain.thy ===== *)
theory Domain
  imports Json
begin

text \<open>
  The business entities of \<open>rust/crates/domain/src/lib.rs\<close>: identifiers that are never blank,
  sessions, approvals with their one decision, artifacts with a checked digest, scheduled
  commands, prompts, the contract types the adapters share, and the domain events.
  A constructor that can fail returns \<open>domain_error + entity\<close>.
\<close>

section \<open>Errors and identifiers\<close>

type_synonym timestamp_ms = i64

datatype domain_error =
    EmptyIdentifier string
  | EmptyTitle
  | EmptyArtifactPath
  | InvalidSha256
  | EmptyPrompt
  | InvalidApprovalTransition
  | ApprovalAlreadyDecided

text \<open>The \<open>identifier!\<close> macro's \<open>new\<close>, given the name it expands for.\<close>

definition identifier_new :: "string \<Rightarrow> string \<Rightarrow> domain_error + string" where
  "identifier_new name value =
     (if is_blank value then Inl (EmptyIdentifier name) else Inr value)"

datatype session_id = SessionId (session_id_str: string)
datatype approval_id = ApprovalId (approval_id_str: string)
datatype artifact_id = ArtifactId (artifact_id_str: string)
datatype command_id = CommandId (command_id_str: string)
datatype event_id = EventId (event_id_str: string)
datatype thread_id = ThreadId (thread_id_str: string)
datatype turn_id = TurnId (turn_id_str: string)

definition session_id_new :: "string \<Rightarrow> domain_error + session_id" where
  "session_id_new s = map_sum id SessionId (identifier_new ''SessionId'' s)"

definition approval_id_new :: "string \<Rightarrow> domain_error + approval_id" where
  "approval_id_new s = map_sum id ApprovalId (identifier_new ''ApprovalId'' s)"

definition artifact_id_new :: "string \<Rightarrow> domain_error + artifact_id" where
  "artifact_id_new s = map_sum id ArtifactId (identifier_new ''ArtifactId'' s)"

definition thread_id_new :: "string \<Rightarrow> domain_error + thread_id" where
  "thread_id_new s = map_sum id ThreadId (identifier_new ''ThreadId'' s)"

section \<open>Sessions\<close>

datatype session_status = Active | Paused | Closed

definition session_status_str :: "session_status \<Rightarrow> string" where
  "session_status_str s =
     (case s of Active \<Rightarrow> ''active'' | Paused \<Rightarrow> ''paused'' | Closed \<Rightarrow> ''closed'')"

record session =
  ses_id :: session_id
  ses_title :: string
  ses_status :: session_status
  ses_created_at_ms :: timestamp_ms
  ses_updated_at_ms :: timestamp_ms

definition session_new :: "session_id \<Rightarrow> string \<Rightarrow> timestamp_ms \<Rightarrow> domain_error + session" where
  "session_new i title now_ms =
     (if is_blank title then Inl EmptyTitle
      else Inr \<lparr>ses_id = i, ses_title = title, ses_status = Active,
                ses_created_at_ms = now_ms, ses_updated_at_ms = now_ms\<rparr>)"

section \<open>Approvals\<close>

datatype approval_decision = Pending | Approved | Rejected | Expired

definition approval_decision_str :: "approval_decision \<Rightarrow> string" where
  "approval_decision_str d = (case d of
     Pending \<Rightarrow> ''pending'' | Approved \<Rightarrow> ''approved''
   | Rejected \<Rightarrow> ''rejected'' | Expired \<Rightarrow> ''expired'')"

datatype approval_action =
    ExecuteCommand string
  | SendPrompt string
  | TransferArtifact artifact_id

definition approval_action_summary :: "approval_action \<Rightarrow> string" where
  "approval_action_summary a = (case a of
     ExecuteCommand command \<Rightarrow> command
   | SendPrompt prompt \<Rightarrow> prompt
   | TransferArtifact i \<Rightarrow> artifact_id_str i)"

record approval_request =
  apr_id :: approval_id
  apr_session_id :: session_id
  apr_action :: approval_action
  apr_decision :: approval_decision
  apr_requested_at_ms :: timestamp_ms
  apr_decided_at_ms :: "timestamp_ms option"

definition approval_pending ::
  "approval_id \<Rightarrow> session_id \<Rightarrow> approval_action \<Rightarrow> timestamp_ms \<Rightarrow> approval_request" where
  "approval_pending i sid action requested_at_ms =
     \<lparr>apr_id = i, apr_session_id = sid, apr_action = action, apr_decision = Pending,
      apr_requested_at_ms = requested_at_ms, apr_decided_at_ms = None\<rparr>"

definition approval_decide ::
  "approval_decision \<Rightarrow> timestamp_ms \<Rightarrow> approval_request \<Rightarrow> domain_error + approval_request" where
  "approval_decide decision decided_at_ms a =
     (if decision = Pending then Inl InvalidApprovalTransition
      else if apr_decision a \<noteq> Pending then Inl ApprovalAlreadyDecided
      else Inr (a\<lparr>apr_decision := decision, apr_decided_at_ms := Some decided_at_ms\<rparr>))"

section \<open>Artifacts\<close>

record artifact =
  art_id :: artifact_id
  art_session_id :: session_id
  art_path :: string
  art_sha256 :: string
  art_bytes :: u64
  art_created_at_ms :: timestamp_ms

definition artifact_new ::
  "artifact_id \<Rightarrow> session_id \<Rightarrow> string \<Rightarrow> string \<Rightarrow> u64 \<Rightarrow> timestamp_ms \<Rightarrow> domain_error + artifact" where
  "artifact_new i sid path sha256 bytes created_at_ms =
     (if is_blank path then Inl EmptyArtifactPath
      else if length sha256 \<noteq> 64 \<or> \<not> list_all is_hexdigit sha256 then Inl InvalidSha256
      else Inr \<lparr>art_id = i, art_session_id = sid, art_path = path,
                art_sha256 = to_ascii_lowercase sha256, art_bytes = bytes,
                art_created_at_ms = created_at_ms\<rparr>)"

section \<open>Commands and prompts\<close>

record scheduled_command =
  cmd_id :: command_id
  cmd_session_id :: session_id
  cmd_prompt :: string
  cmd_enqueued_at_ms :: timestamp_ms

definition scheduled_command_new ::
  "command_id \<Rightarrow> session_id \<Rightarrow> string \<Rightarrow> timestamp_ms \<Rightarrow> domain_error + scheduled_command" where
  "scheduled_command_new i sid prompt enqueued_at_ms =
     (if is_blank prompt then Inl EmptyPrompt
      else Inr \<lparr>cmd_id = i, cmd_session_id = sid, cmd_prompt = prompt,
                cmd_enqueued_at_ms = enqueued_at_ms\<rparr>)"

datatype prompt_input =
    PText string "json list"
  | PLocalImage string string
  | PMention string string

definition prompt_input_text :: "string \<Rightarrow> domain_error + prompt_input" where
  "prompt_input_text text = (if is_blank text then Inl EmptyPrompt else Inr (PText text []))"

section \<open>The contract types the adapters share\<close>

record agent_server_request =
  asr_id :: json
  asr_method :: string
  asr_params :: json
  asr_generation :: u64

record agent_event =
  aev_method :: string
  aev_params :: json
  aev_generation :: u64

datatype prompt_intent_state =
    PiReceived | PiAwaitingChoice | PiQueued | PiSubmitting | PiStarted | PiSteered
  | PiCompleted | PiFailed | PiUncertain | PiCancelled

record prompt_intent =
  pin_intent_id :: string
  pin_client_message_id :: string
  pin_source :: string
  pin_prompt :: string
  pin_mode :: string
  pin_thread_id :: "thread_id option"
  pin_space_id :: "string option"
  pin_generation :: u64
  pin_state :: prompt_intent_state
  pin_turn_id :: "turn_id option"
  pin_queue_id :: "i64 option"
  pin_error :: "string option"
  pin_created_at_ms :: timestamp_ms
  pin_updated_at_ms :: timestamp_ms

record question_request =
  qre_request_key :: string
  qre_request_id :: json
  qre_generation :: u64
  qre_thread_id :: thread_id
  qre_turn_id :: turn_id
  qre_item_id :: string
  qre_questions :: json
  qre_expires_at_ms :: "timestamp_ms option"

datatype plan_publication_state =
    PpPublished | PpExecuting | PpRevising | PpRevisionStarted | PpExecuted | PpFailed
  | PpDismissed | PpSuperseded

record plan_publication =
  ppu_space_id :: string
  ppu_generation :: u64
  ppu_item_id :: string
  ppu_revision_key :: string
  ppu_thread_id :: thread_id
  ppu_turn_id :: turn_id
  ppu_status :: plan_publication_state
  ppu_plan_text :: string
  ppu_message_ids :: "i64 list"
  ppu_action_message_ids :: "i64 list"
  ppu_revision_prompt_message_id :: "i64 option"
  ppu_decision_turn_id :: "turn_id option"
  ppu_updated_at_ms :: timestamp_ms

section \<open>Domain events\<close>

datatype domain_event_kind =
    SessionCreated session
  | ApprovalRequested approval_request
  | ApprovalDecided approval_request
  | ArtifactRecorded artifact
  | CommandScheduled scheduled_command

definition event_type :: "domain_event_kind \<Rightarrow> string" where
  "event_type k = (case k of
     SessionCreated _ \<Rightarrow> ''session.created''
   | ApprovalRequested _ \<Rightarrow> ''approval.requested''
   | ApprovalDecided _ \<Rightarrow> ''approval.decided''
   | ArtifactRecorded _ \<Rightarrow> ''artifact.recorded''
   | CommandScheduled _ \<Rightarrow> ''command.scheduled'')"

record domain_event =
  evt_id :: event_id
  evt_occurred_at_ms :: timestamp_ms
  evt_kind :: domain_event_kind

section \<open>Lemmas\<close>

lemma identifier_new_Inr [simp]:
  "identifier_new n s = Inr t \<longleftrightarrow> \<not> is_blank s \<and> t = s"
  by (auto simp: identifier_new_def)

lemma session_id_new_Inr [simp]:
  "session_id_new s = Inr i \<longleftrightarrow> \<not> is_blank s \<and> i = SessionId s"
  by (auto simp: session_id_new_def identifier_new_def)

lemma approval_id_new_Inr [simp]:
  "approval_id_new s = Inr i \<longleftrightarrow> \<not> is_blank s \<and> i = ApprovalId s"
  by (auto simp: approval_id_new_def identifier_new_def)

lemma artifact_id_new_Inr [simp]:
  "artifact_id_new s = Inr i \<longleftrightarrow> \<not> is_blank s \<and> i = ArtifactId s"
  by (auto simp: artifact_id_new_def identifier_new_def)

lemma session_status_str_inj [simp]:
  "session_status_str a = session_status_str b \<longleftrightarrow> a = b"
  by (cases a; cases b) (simp_all add: session_status_str_def)

lemma approval_decision_str_inj [simp]:
  "approval_decision_str a = approval_decision_str b \<longleftrightarrow> a = b"
  by (cases a; cases b) (simp_all add: approval_decision_str_def)

text \<open>The fields of an approval that a decision leaves alone.\<close>

lemma approval_decide_frame:
  "approval_decide d t a = Inr b \<Longrightarrow>
     apr_id b = apr_id a \<and> apr_session_id b = apr_session_id a \<and> apr_action b = apr_action a
     \<and> apr_requested_at_ms b = apr_requested_at_ms a"
  by (auto simp: approval_decide_def split: if_splits)

lemma approval_decide_Inr:
  "approval_decide d t a = Inr b \<longleftrightarrow>
     d \<noteq> Pending \<and> apr_decision a = Pending
     \<and> b = a\<lparr>apr_decision := d, apr_decided_at_ms := Some t\<rparr>"
  by (auto simp: approval_decide_def)

section \<open>Properties\<close>

text \<open>
  An approval is decided at most once. A pending approval accepts exactly the three terminal
  decisions and records the decision and its time. Once it holds any decision, every further
  \<open>decide\<close> is refused and returns no new value, and \<open>Pending\<close> is never accepted as a decision.
\<close>

theorem approval_decided_once:
  "(case approval_decide d t a of
      Inr b \<Rightarrow> d \<noteq> Pending \<and> apr_decision a = Pending \<and> apr_decision b = d
        \<and> apr_decided_at_ms b = Some t \<and> apr_id b = apr_id a
        \<and> apr_session_id b = apr_session_id a \<and> apr_action b = apr_action a
        \<and> (\<forall>d' t'. approval_decide d' t' b =
              Inl (if d' = Pending then InvalidApprovalTransition else ApprovalAlreadyDecided))
    | Inl e \<Rightarrow> e = (if d = Pending then InvalidApprovalTransition else ApprovalAlreadyDecided)
        \<and> \<not> (d \<noteq> Pending \<and> apr_decision a = Pending))"
  by (auto simp: approval_decide_def)

text \<open>
  An artifact that was constructed has a path that is not blank and a digest of exactly 64
  lower-case hexadecimal digits which is the given digest up to ASCII case. Giving the constructor
  its own digest again changes nothing.
\<close>

theorem artifact_new_digest:
  assumes "artifact_new i sid path sha bytes t = Inr a"
  shows "\<not> is_blank (art_path a) \<and> length (art_sha256 a) = 64
    \<and> list_all is_hexdigit (art_sha256 a) \<and> to_ascii_lowercase (art_sha256 a) = art_sha256 a
    \<and> art_sha256 a = to_ascii_lowercase sha
    \<and> artifact_new i sid path (art_sha256 a) bytes t = Inr a"
proof -
  from assms have p: "\<not> is_blank path" "length sha = 64" "list_all is_hexdigit sha"
    and a: "art_path a = path" "art_sha256 a = to_ascii_lowercase sha"
    by (auto simp: artifact_new_def split: if_splits)
  have hex: "list_all is_hexdigit (to_ascii_lowercase sha)"
    using p(3) by (simp add: to_ascii_lowercase_def list.pred_map comp_def)
  from assms p a hex show ?thesis
    by (auto simp: artifact_new_def)
qed

theorem artifact_new_digest_witness:
  "\<exists>a. artifact_new (ArtifactId ''a'') (SessionId ''s'') ''report.txt'' (replicate 64 CHR ''A'') 3 1 = Inr a
     \<and> art_sha256 a = replicate 64 CHR ''a''"
proof -
  let ?r = "artifact_new (ArtifactId ''a'') (SessionId ''s'') ''report.txt'' (replicate 64 CHR ''A'') 3 1"
  have "is_ok ?r" by code_simp
  then obtain a where a: "?r = Inr a" by (cases ?r) auto
  have low: "to_ascii_lowercase (replicate 64 CHR ''A'') = replicate 64 CHR ''a''" by code_simp
  from artifact_new_digest [OF a] low have "art_sha256 a = replicate 64 CHR ''a''" by simp
  with a show ?thesis by blast
qed

end
