(* ===== verification/Contracts.thy ===== *)
theory Contracts
  imports Prelude
begin

text \<open>
  Interfaces that several components promise, as locales. A provider interprets the locale on
  its own operations, which proves the laws for the code's model; what a client needs is proved
  once, here.

  \<^item> \<open>machine\<close>: operations that keep an invariant, and what follows for a run of them.
  \<^item> \<open>one_shot\<close>: a token (a callback nonce, a recovery code, an update id, a request key)
    whose use succeeds at most once, whatever operations run in between.
  \<^item> \<open>leased\<close>: a row that one worker claims for a fixed time, so that a second claim fails
    until the lease is over or the holder gives the row back.
\<close>

section \<open>Operations that keep an invariant\<close>

locale machine =
  fixes step :: "'op \<Rightarrow> 's \<Rightarrow> 's"
    and inv :: "'s \<Rightarrow> bool"
  assumes step_inv: "inv s \<Longrightarrow> inv (step op s)"
begin

lemma run_inv: "inv s \<Longrightarrow> inv (fold step ops s)"
  by (induction ops arbitrary: s) (auto intro: step_inv)

lemma run_stable:
  assumes stable: "\<And>op s. inv s \<Longrightarrow> P s \<Longrightarrow> P (step op s)"
  shows "inv s \<Longrightarrow> P s \<Longrightarrow> P (fold step ops s)"
  by (induction ops arbitrary: s) (auto intro: step_inv stable)

lemma run_monotone:
  fixes m :: "'s \<Rightarrow> 'o::preorder"
  assumes mono: "\<And>op s. inv s \<Longrightarrow> m s \<le> m (step op s)"
  shows "inv s \<Longrightarrow> m s \<le> m (fold step ops s)"
proof (induction ops arbitrary: s)
  case Nil
  then show ?case by simp
next
  case (Cons op ops)
  then have "m (step op s) \<le> m (fold step ops (step op s))" by (auto intro: step_inv)
  with mono [OF Cons.prems, of op] show ?case by (auto intro: order_trans)
qed

end

section \<open>Tokens that are used once\<close>

locale one_shot = machine +
  fixes spent :: "'k \<Rightarrow> 's \<Rightarrow> bool"
    and takes :: "'k \<Rightarrow> 's \<Rightarrow> bool"
    and taken :: "'k \<Rightarrow> 's \<Rightarrow> 's"
  assumes take_spends: "inv s \<Longrightarrow> takes k s \<Longrightarrow> spent k (taken k s)"
    and take_inv: "inv s \<Longrightarrow> takes k s \<Longrightarrow> inv (taken k s)"
    and spent_refused: "inv s \<Longrightarrow> spent k s \<Longrightarrow> \<not> takes k s"
    and spent_stable: "inv s \<Longrightarrow> spent k s \<Longrightarrow> spent k (step op s)"
begin

lemma spent_run: "inv s \<Longrightarrow> spent k s \<Longrightarrow> spent k (fold step ops s)"
  by (rule run_stable) (auto intro: spent_stable)

lemma taken_once:
  assumes "inv s" and "takes k s"
  shows "\<not> takes k (fold step ops (taken k s))"
proof -
  from assms have i: "inv (taken k s)" and sp: "spent k (taken k s)"
    by (auto intro: take_inv take_spends)
  from i sp have "spent k (fold step ops (taken k s))" by (rule spent_run)
  with run_inv [OF i] show ?thesis by (rule spent_refused)
qed

end

section \<open>Rows claimed for a time\<close>

locale leased =
  fixes holder :: "'k \<Rightarrow> 's \<Rightarrow> i64 option"
    and claims :: "'k \<Rightarrow> i64 \<Rightarrow> 's \<Rightarrow> bool"
    and claimed :: "'k \<Rightarrow> i64 \<Rightarrow> 's \<Rightarrow> 's"
    and lease :: i64
  assumes claim_holds: "claims k now s \<Longrightarrow> holder k (claimed k now s) = Some now"
    and held_refuses: "holder k s = Some t \<Longrightarrow> in_i64 now \<Longrightarrow> saturating_sub now lease < t \<Longrightarrow>
      \<not> claims k now s"
begin

lemma exclusive:
  assumes "claims k t s" and "in_i64 now" and "saturating_sub now lease < t"
  shows "\<not> claims k now (claimed k t s)"
  using held_refuses [OF claim_holds [OF assms(1)] assms(2,3)] .

end

end
