(* ===== verification/Workflow.thy ===== *)
theory Workflow
  imports Domain Contracts
begin

text \<open>
  \<open>CodexWorkflowProjection\<close> of \<open>rust/crates/engine/src/lib.rs\<close>: the queue of prompts of each
  conversation, the delivery of each prompt to Codex, the interactive requests of the server and
  the published plans. A method on \<open>&mut self\<close> takes the projection and returns its result
  and the new projection, also where it returns an error, because one of them changes the state
  before it fails. Maps are the code's \<open>BTreeMap\<close>s, so effects come out in the code's order.
\<close>

section \<open>Scopes, states, effects and errors\<close>

datatype workflow_scope = WorkflowScope
  (ws_thread_id: string) (ws_space_id: "string option") (ws_generation: u64)

definition scope_key :: "workflow_scope \<Rightarrow> string \<times> string option \<times> u64" where
  "scope_key s = (ws_thread_id s, ws_space_id s, ws_generation s)"

lemma scope_key_inj: "scope_key a = scope_key b \<longleftrightarrow> a = b"
  by (cases a; cases b) (auto simp: scope_key_def)

text \<open>The derived order of the Rust type: by field, in the order of the declaration.\<close>

instantiation workflow_scope :: linorder
begin
definition less_eq_workflow_scope :: "workflow_scope \<Rightarrow> workflow_scope \<Rightarrow> bool" where
  "less_eq_workflow_scope a b \<longleftrightarrow> scope_key a \<le> scope_key b"
definition less_workflow_scope :: "workflow_scope \<Rightarrow> workflow_scope \<Rightarrow> bool" where
  "less_workflow_scope a b \<longleftrightarrow> scope_key a < scope_key b"
instance
  by standard (auto simp: less_eq_workflow_scope_def less_workflow_scope_def scope_key_inj
      dest: antisym)
end

definition scope_legacy :: "string \<Rightarrow> workflow_scope" where
  "scope_legacy t = WorkflowScope t None 0"

definition scope_space :: "string \<Rightarrow> string \<Rightarrow> u64 \<Rightarrow> workflow_scope" where
  "scope_space t s g = WorkflowScope t (Some s) g"

datatype pstate =
    Received | AwaitingChoice | Queued | Submitting | Started | Steered
  | Completed | Failed | Uncertain | Cancelled

definition is_terminal :: "pstate \<Rightarrow> bool" where
  "is_terminal s = (case s of Completed \<Rightarrow> True | Failed \<Rightarrow> True | Cancelled \<Rightarrow> True
     | Uncertain \<Rightarrow> True | _ \<Rightarrow> False)"

record intent =
  pi_client_message_id :: string
  pi_scope :: workflow_scope
  pi_state :: pstate
  pi_turn_id :: "string option"

datatype turn_status = TurnCompleted | TurnFailed | TurnInterrupted

definition intent_state :: "turn_status \<Rightarrow> pstate" where
  "intent_state s = (case s of TurnCompleted \<Rightarrow> Completed | TurnFailed \<Rightarrow> Failed
     | TurnInterrupted \<Rightarrow> Cancelled)"

datatype delivery = Present string "turn_status option" | Absent | Unknown

datatype request_kind = UserInput | Approval

datatype request_state = Available | Claimed | Responded | Resolved | Retired

record server_request =
  psr_key :: string
  psr_request_id :: string
  psr_generation :: u64
  psr_scope :: workflow_scope
  psr_kind :: request_kind
  psr_state :: request_state

record plan_item =
  pli_scope :: workflow_scope
  pli_turn_id :: string
  pli_item_id :: string
  pli_revision_key :: string
  pli_text :: string

datatype workflow_effect =
    ReconcileThread workflow_scope
  | RetryQueue workflow_scope
  | PromptFinished string workflow_scope string turn_status
  | RetireServerRequest string
  | ServerRequestResolved string
  | PublishPlan plan_item

datatype workflow_error =
    EmptyClientMessageId
  | EmptyThreadId
  | IntentCollision string
  | UnknownPrompt string
  | InvalidPromptTransition pstate pstate
  | StaleGeneration u64 u64
  | UnknownServerRequest string
  | ServerRequestUnavailable string
  | InvalidPlanPublication

record projection =
  wf_generation :: "u64 option"
  wf_connected :: bool
  wf_intents :: "(string, intent) btree"
  wf_queues :: "(workflow_scope, string list) btree"
  wf_requests :: "(string, server_request) btree"
  wf_terminal_turns :: "(string \<times> string, turn_status) btree"
  wf_plans :: "(workflow_scope \<times> string, plan_item) btree"

definition wf_new :: projection where
  "wf_new = \<lparr>wf_generation = None, wf_connected = False, wf_intents = [], wf_queues = [],
     wf_requests = [], wf_terminal_turns = [], wf_plans = []\<rparr>"

definition queued_client_message_ids :: "workflow_scope \<Rightarrow> projection \<Rightarrow> string list" where
  "queued_client_message_ids s p = unwrap_or (bt_get (wf_queues p) s) []"

section \<open>Guards\<close>

definition validate_scope :: "workflow_scope \<Rightarrow> workflow_error option" where
  "validate_scope s = (if is_blank (ws_thread_id s) then Some EmptyThreadId else None)"

definition valid_transition :: "pstate \<Rightarrow> pstate \<Rightarrow> bool" where
  "valid_transition a b \<longleftrightarrow> (a, b) \<in> set
     [(Received, AwaitingChoice), (Received, Queued), (Received, Submitting),
      (AwaitingChoice, Queued), (AwaitingChoice, Submitting), (Queued, Submitting),
      (Submitting, Queued), (Submitting, Started), (Submitting, Uncertain),
      (Started, Completed), (Started, Failed), (Steered, Completed), (Steered, Failed)]"

definition transition_prompt :: "intent \<Rightarrow> pstate \<Rightarrow> workflow_error + intent" where
  "transition_prompt i target =
     (if pi_state i = target then Inr i
      else if \<not> valid_transition (pi_state i) target
      then Inl (InvalidPromptTransition (pi_state i) target)
      else Inr (i\<lparr>pi_state := target\<rparr>))"

definition put_intent :: "string \<Rightarrow> intent \<Rightarrow> projection \<Rightarrow> projection" where
  "put_intent cid i p = p\<lparr>wf_intents := bt_insert cid i (wf_intents p)\<rparr>"

section \<open>The connection\<close>

definition retirable :: "u64 \<Rightarrow> server_request \<Rightarrow> bool" where
  "retirable g r \<longleftrightarrow> psr_generation r \<noteq> g \<and> psr_state r \<in> set [Available, Claimed, Responded]"

definition make_uncertain :: "intent \<Rightarrow> intent" where
  "make_uncertain i = (if pi_state i = Submitting then i\<lparr>pi_state := Uncertain\<rparr> else i)"

definition needs_reconcile :: "intent \<Rightarrow> bool" where
  "needs_reconcile i \<longleftrightarrow> \<not> is_terminal (pi_state i) \<or> pi_state i = Uncertain"

definition observe_connection ::
  "u64 \<Rightarrow> bool \<Rightarrow> projection \<Rightarrow> (workflow_error + workflow_effect list) \<times> projection" where
  "observe_connection g c p =
     (case filter_opt (\<lambda>current. g < current) (wf_generation p) of
        Some current \<Rightarrow> (Inl (StaleGeneration current g), p)
      | None \<Rightarrow>
          let p1 = p\<lparr>wf_generation := Some g, wf_connected := c\<rparr> in
          if \<not> c \<or> wf_generation p = Some g then (Inr [], p1)
          else
            let retired = filter (retirable g) (bt_values (wf_requests p));
                requests = bt_map (\<lambda>r. if retirable g r then r\<lparr>psr_state := Retired\<rparr> else r)
                  (wf_requests p);
                intents = bt_map make_uncertain (wf_intents p);
                scopes = bs_extend (bt_keys (wf_queues p))
                  (bs_extend (map pi_scope (filter needs_reconcile (bt_values intents))) [])
            in (Inr (map (\<lambda>r. RetireServerRequest (psr_key r)) retired @ map ReconcileThread scopes),
                p1\<lparr>wf_requests := requests, wf_intents := intents\<rparr>))"

section \<open>Prompts\<close>

definition create_prompt ::
  "string \<Rightarrow> workflow_scope \<Rightarrow> projection \<Rightarrow> (workflow_error + intent) \<times> projection" where
  "create_prompt cid scope p =
     (if is_blank cid then (Inl EmptyClientMessageId, p)
      else case validate_scope scope of
        Some e \<Rightarrow> (Inl e, p)
      | None \<Rightarrow> (case bt_get (wf_intents p) cid of
          Some existing \<Rightarrow>
            if pi_scope existing = scope then (Inr existing, p)
            else (Inl (IntentCollision cid), p)
        | None \<Rightarrow>
            let i = \<lparr>pi_client_message_id = cid, pi_scope = scope, pi_state = Received,
                     pi_turn_id = None\<rparr>
            in (Inr i, put_intent cid i p)))"

definition queue_prompt :: "string \<Rightarrow> projection \<Rightarrow> (workflow_error + unit) \<times> projection" where
  "queue_prompt cid p =
     (case bt_get (wf_intents p) cid of
        None \<Rightarrow> (Inl (UnknownPrompt cid), p)
      | Some i \<Rightarrow> (case transition_prompt i Queued of
          Inl e \<Rightarrow> (Inl e, p)
        | Inr j \<Rightarrow>
            let q = queued_client_message_ids (pi_scope j) p;
                q' = (if cid \<in> set q then q else q @ [cid])
            in (Inr (), (put_intent cid j p)
                  \<lparr>wf_queues := bt_insert (pi_scope j) q' (wf_queues p)\<rparr>)))"

definition await_choice :: "string \<Rightarrow> projection \<Rightarrow> (workflow_error + unit) \<times> projection" where
  "await_choice cid p =
     (case bt_get (wf_intents p) cid of
        None \<Rightarrow> (Inl (UnknownPrompt cid), p)
      | Some i \<Rightarrow> (case transition_prompt i AwaitingChoice of
          Inl e \<Rightarrow> (Inl e, p)
        | Inr j \<Rightarrow> (Inr (), put_intent cid j p)))"

definition begin_dispatch ::
  "workflow_scope \<Rightarrow> projection \<Rightarrow> (workflow_error + intent option) \<times> projection" where
  "begin_dispatch scope p =
     (case queued_client_message_ids scope p of
        [] \<Rightarrow> (Inr None, p)
      | cid # _ \<Rightarrow> (case bt_get (wf_intents p) cid of
          None \<Rightarrow> (Inl (UnknownPrompt cid), p)
        | Some i \<Rightarrow>
            if pi_state i \<noteq> Queued then (Inr None, p)
            else (case transition_prompt i Submitting of
                Inl e \<Rightarrow> (Inl e, p)
              | Inr j \<Rightarrow> (Inr (Some j), put_intent cid j p))))"

definition finish_prompt ::
  "string \<Rightarrow> turn_status \<Rightarrow> projection \<Rightarrow> (workflow_error + workflow_effect list) \<times> projection" where
  "finish_prompt cid status p =
     (case bt_get (wf_intents p) cid of
        None \<Rightarrow> (Inl (UnknownPrompt cid), p)
      | Some i \<Rightarrow> (case pi_turn_id i of
          None \<Rightarrow> (Inl (InvalidPromptTransition (pi_state i) (intent_state status)), p)
        | Some turn \<Rightarrow>
            let scope = pi_scope i;
                queues = (case bt_get (wf_queues p) scope of
                    None \<Rightarrow> wf_queues p
                  | Some q \<Rightarrow> bt_insert scope (filter (\<lambda>c. c \<noteq> cid) q) (wf_queues p));
                p1 = (put_intent cid (i\<lparr>pi_state := intent_state status\<rparr>) p)\<lparr>wf_queues := queues\<rparr>;
                retry = (if unwrap_or (bt_get queues scope) [] \<noteq> [] then [RetryQueue scope] else [])
            in (Inr (PromptFinished cid scope turn status # retry), p1)))"

definition observe_delivery ::
  "string \<Rightarrow> delivery \<Rightarrow> projection \<Rightarrow> (workflow_error + workflow_effect list) \<times> projection" where
  "observe_delivery cid obs p =
     (case bt_get (wf_intents p) cid of
        None \<Rightarrow> (Inl (UnknownPrompt cid), p)
      | Some i \<Rightarrow>
          if pi_state i \<in> set [Completed, Failed, Cancelled] then (Inr [], p)
          else (case obs of
            Present turn terminal \<Rightarrow>
              if is_blank turn \<or> (pi_state i = Started \<and> pi_turn_id i \<noteq> Some turn)
              then (Inl (InvalidPromptTransition (pi_state i) Started), p)
              else (case terminal of
                  Some status \<Rightarrow>
                    finish_prompt cid status (put_intent cid
                      (i\<lparr>pi_turn_id := Some turn, pi_state := intent_state status\<rparr>) p)
                | None \<Rightarrow>
                    (Inr [], put_intent cid (i\<lparr>pi_turn_id := Some turn, pi_state := Started\<rparr>) p))
          | Absent \<Rightarrow>
              let j = (if pi_state i \<in> set [Submitting, Uncertain] then i\<lparr>pi_state := Queued\<rparr> else i)
              in (Inr [RetryQueue (pi_scope i)], put_intent cid j p)
          | Unknown \<Rightarrow>
              let j = (if \<not> is_terminal (pi_state i) then i\<lparr>pi_state := Uncertain\<rparr> else i)
              in (Inr [ReconcileThread (pi_scope i)], put_intent cid j p)))"

definition observe_turn_started ::
  "string \<Rightarrow> string \<Rightarrow> projection \<Rightarrow> (workflow_error + workflow_effect list) \<times> projection" where
  "observe_turn_started cid turn p =
     (case bt_get (wf_intents p) cid of
        None \<Rightarrow> (Inl (UnknownPrompt cid), p)
      | Some i \<Rightarrow>
          let refused = (Inl (InvalidPromptTransition (pi_state i) Started), p);
              report = (\<lambda>q. case bt_get (wf_terminal_turns q) (ws_thread_id (pi_scope i), turn) of
                  Some status \<Rightarrow> finish_prompt cid status q
                | None \<Rightarrow> (Inr [], q))
          in if is_blank turn \<or> is_blank (ws_thread_id (pi_scope i)) then refused
             else if pi_state i = Started \<and> pi_turn_id i = Some turn then report p
             else if pi_state i \<notin> set [Submitting, Queued, AwaitingChoice] then refused
             else report (put_intent cid (i\<lparr>pi_turn_id := Some turn, pi_state := Started\<rparr>) p))"

text \<open>The prompts a completed turn ends, one \<open>finish_prompt\<close> after the other.\<close>

fun finish_all ::
  "string list \<Rightarrow> turn_status \<Rightarrow> projection \<Rightarrow> workflow_effect list \<times> projection" where
  "finish_all [] status p = ([], p)"
| "finish_all (cid # cids) status p =
     (let (r, p1) = finish_prompt cid status p;
          (effs, p2) = finish_all cids status p1
      in (case r of Inl _ \<Rightarrow> effs | Inr es \<Rightarrow> es @ effs, p2))"

definition affected_prompts :: "string \<Rightarrow> string \<Rightarrow> projection \<Rightarrow> string list" where
  "affected_prompts thread turn p =
     map fst (filter (\<lambda>(k, i). ws_thread_id (pi_scope i) = thread \<and> pi_turn_id i = Some turn
       \<and> \<not> is_terminal (pi_state i)) (wf_intents p))"

definition observe_turn_completed ::
  "string \<Rightarrow> string \<Rightarrow> turn_status \<Rightarrow> projection \<Rightarrow> workflow_effect list \<times> projection" where
  "observe_turn_completed thread turn status p =
     (if is_blank thread \<or> is_blank turn then ([], p)
      else
        let p1 = p\<lparr>wf_terminal_turns := bt_insert (thread, turn) status (wf_terminal_turns p)\<rparr>
        in finish_all (affected_prompts thread turn p1) status p1)"

section \<open>Plans\<close>

definition observe_plan ::
  "plan_item \<Rightarrow> projection \<Rightarrow> (workflow_error + workflow_effect list) \<times> projection" where
  "observe_plan pub p =
     (case validate_scope (pli_scope pub) of
        Some e \<Rightarrow> (Inl e, p)
      | None \<Rightarrow>
          if is_blank (pli_item_id pub) \<or> is_blank (pli_revision_key pub)
          then (Inl InvalidPlanPublication, p)
          else
            let key = (pli_scope pub, pli_item_id pub) in
            if map_option pli_revision_key (bt_get (wf_plans p) key) = Some (pli_revision_key pub)
            then (Inr [], p)
            else (Inr [PublishPlan pub], p\<lparr>wf_plans := bt_insert key pub (wf_plans p)\<rparr>))"

section \<open>Requests of the server\<close>

definition put_request :: "string \<Rightarrow> server_request \<Rightarrow> projection \<Rightarrow> projection" where
  "put_request k r p = p\<lparr>wf_requests := bt_insert k r (wf_requests p)\<rparr>"

definition register_server_request ::
  "server_request \<Rightarrow> projection \<Rightarrow> (workflow_error + bool) \<times> projection" where
  "register_server_request r p =
     (case validate_scope (psr_scope r) of
        Some e \<Rightarrow> (Inl e, p)
      | None \<Rightarrow> (case wf_generation p of
          None \<Rightarrow> (Inl (StaleGeneration 0 (psr_generation r)), p)
        | Some current \<Rightarrow>
            if current \<noteq> psr_generation r \<or> \<not> wf_connected p
            then (Inl (StaleGeneration current (psr_generation r)), p)
            else if is_blank (psr_key r) then (Inl (UnknownServerRequest []), p)
            else (case bt_get (wf_requests p) (psr_key r) of
                Some e \<Rightarrow>
                  if psr_request_id e = psr_request_id r \<and> psr_generation e = psr_generation r
                     \<and> psr_scope e = psr_scope r \<and> psr_kind e = psr_kind r
                  then (Inr False, p)
                  else (Inl (IntentCollision (psr_key r)), p)
              | None \<Rightarrow> (Inr True, put_request (psr_key r) (r\<lparr>psr_state := Available\<rparr>) p))))"

definition claim_server_request ::
  "string \<Rightarrow> projection \<Rightarrow> (workflow_error + server_request) \<times> projection" where
  "claim_server_request key p =
     (let current = unwrap_or (wf_generation p) 0 in
      case bt_get (wf_requests p) key of
        None \<Rightarrow> (Inl (UnknownServerRequest key), p)
      | Some r \<Rightarrow>
          if \<not> wf_connected p \<or> psr_generation r \<noteq> current
          then (Inl (StaleGeneration current (psr_generation r)),
                put_request key (r\<lparr>psr_state := Retired\<rparr>) p)
          else if psr_state r \<noteq> Available then (Inl (ServerRequestUnavailable key), p)
          else (Inr (r\<lparr>psr_state := Claimed\<rparr>), put_request key (r\<lparr>psr_state := Claimed\<rparr>) p))"

definition mark_server_request_responded ::
  "string \<Rightarrow> projection \<Rightarrow> (workflow_error + unit) \<times> projection" where
  "mark_server_request_responded key p =
     (case bt_get (wf_requests p) key of
        None \<Rightarrow> (Inl (UnknownServerRequest key), p)
      | Some r \<Rightarrow>
          if psr_state r \<noteq> Claimed then (Inl (ServerRequestUnavailable key), p)
          else (Inr (), put_request key (r\<lparr>psr_state := Responded\<rparr>) p))"

definition resolves :: "u64 \<Rightarrow> string \<Rightarrow> server_request \<Rightarrow> bool" where
  "resolves g rid r \<longleftrightarrow> psr_generation r = g \<and> psr_request_id r = rid \<and> psr_state r \<noteq> Resolved"

definition observe_server_request_resolved ::
  "u64 \<Rightarrow> string \<Rightarrow> projection \<Rightarrow> workflow_effect list \<times> projection" where
  "observe_server_request_resolved g rid p =
     (map (\<lambda>r. ServerRequestResolved (psr_key r)) (filter (resolves g rid) (bt_values (wf_requests p))),
      p\<lparr>wf_requests := bt_map (\<lambda>r. if resolves g rid r then r\<lparr>psr_state := Resolved\<rparr> else r)
          (wf_requests p)\<rparr>)"

section \<open>One operation of any kind\<close>

datatype workflow_op =
    OpConnection u64 bool
  | OpCreate string workflow_scope
  | OpQueue string
  | OpAwait string
  | OpDispatch workflow_scope
  | OpDelivery string delivery
  | OpStarted string string
  | OpCompleted string string turn_status
  | OpPlan plan_item
  | OpRegister server_request
  | OpClaim string
  | OpResponded string
  | OpResolved u64 string

definition ok_effects :: "(workflow_error + workflow_effect list) \<times> projection \<Rightarrow>
    workflow_effect list \<times> projection" where
  "ok_effects r = (case fst r of Inl _ \<Rightarrow> [] | Inr es \<Rightarrow> es, snd r)"

fun wf_exec :: "workflow_op \<Rightarrow> projection \<Rightarrow> workflow_effect list \<times> projection" where
  "wf_exec (OpConnection g c) p = ok_effects (observe_connection g c p)"
| "wf_exec (OpCreate cid s) p = ([], snd (create_prompt cid s p))"
| "wf_exec (OpQueue cid) p = ([], snd (queue_prompt cid p))"
| "wf_exec (OpAwait cid) p = ([], snd (await_choice cid p))"
| "wf_exec (OpDispatch s) p = ([], snd (begin_dispatch s p))"
| "wf_exec (OpDelivery cid d) p = ok_effects (observe_delivery cid d p)"
| "wf_exec (OpStarted cid t) p = ok_effects (observe_turn_started cid t p)"
| "wf_exec (OpCompleted th t st) p = observe_turn_completed th t st p"
| "wf_exec (OpPlan pub) p = ok_effects (observe_plan pub p)"
| "wf_exec (OpRegister r) p = ([], snd (register_server_request r p))"
| "wf_exec (OpClaim k) p = ([], snd (claim_server_request k p))"
| "wf_exec (OpResponded k) p = ([], snd (mark_server_request_responded k p))"
| "wf_exec (OpResolved g rid) p = observe_server_request_resolved g rid p"

definition wf_step :: "workflow_op \<Rightarrow> projection \<Rightarrow> projection" where
  "wf_step op p = snd (wf_exec op p)"

text \<open>A run, with the effects it hands to the adapter in order.\<close>

fun wf_run :: "workflow_op list \<Rightarrow> projection \<Rightarrow> workflow_effect list \<times> projection" where
  "wf_run [] p = ([], p)"
| "wf_run (op # ops) p =
     (let (es, p1) = wf_exec op p; (fs, p2) = wf_run ops p1 in (es @ fs, p2))"

inductive wf_reachable :: "projection \<Rightarrow> bool" where
  start: "wf_reachable wf_new"
| step: "wf_reachable p \<Longrightarrow> wf_reachable (wf_step op p)"

lemma wf_run_state: "snd (wf_run ops p) = fold wf_step ops p"
proof (induction ops arbitrary: p)
  case (Cons op ops)
  from Cons [of "snd (wf_exec op p)"] show ?case
    by (cases "wf_exec op p"; cases "wf_run ops (snd (wf_exec op p))") (auto simp: wf_step_def)
qed simp

end
