(* ===== verification/WorkflowSafety.thy ===== *)
theory WorkflowSafety
  imports Workflow
begin

text \<open>
  What the workflow projection guarantees whatever the order of its events: an invariant of its
  maps, and from it that one prompt per conversation is in flight, that a finished prompt stays
  finished and is reported once, and that an interactive request is claimed once.
\<close>

section \<open>The invariant\<close>

definition finished :: "pstate \<Rightarrow> bool" where
  "finished s \<longleftrightarrow> s \<in> set [Completed, Failed, Cancelled]"

definition intent_ok :: "projection \<Rightarrow> string \<Rightarrow> intent \<Rightarrow> bool" where
  "intent_ok p cid i \<longleftrightarrow>
     pi_client_message_id i = cid
   \<and> (pi_state i = Submitting \<longrightarrow> (\<exists>q. queued_client_message_ids (pi_scope i) p = cid # q))
   \<and> (finished (pi_state i) \<longrightarrow>
        cid \<notin> set (queued_client_message_ids (pi_scope i) p) \<and> pi_turn_id i \<noteq> None)
   \<and> (pi_state i = Started \<longrightarrow> pi_turn_id i \<noteq> None)"

definition queue_ok :: "projection \<Rightarrow> workflow_scope \<Rightarrow> string list \<Rightarrow> bool" where
  "queue_ok p s q \<longleftrightarrow> distinct q
     \<and> (\<forall>cid \<in> set q. \<exists>i. bt_get (wf_intents p) cid = Some i \<and> pi_scope i = s)"

definition wf_inv :: "projection \<Rightarrow> bool" where
  "wf_inv p \<longleftrightarrow>
     bt_ok (wf_intents p) \<and> bt_ok (wf_queues p) \<and> bt_ok (wf_requests p)
   \<and> (\<forall>cid i. bt_get (wf_intents p) cid = Some i \<longrightarrow> intent_ok p cid i)
   \<and> (\<forall>s. queue_ok p s (queued_client_message_ids s p))
   \<and> (\<forall>k r. bt_get (wf_requests p) k = Some r \<longrightarrow> psr_key r = k)"

lemma finished_simps [simp]:
  "finished Completed" "finished Failed" "finished Cancelled" "\<not> finished Received"
  "\<not> finished AwaitingChoice" "\<not> finished Queued" "\<not> finished Submitting" "\<not> finished Started"
  "\<not> finished Steered" "\<not> finished Uncertain" "finished (intent_state st)"
  by (simp_all add: finished_def intent_state_def split: turn_status.splits)

lemma intent_state_neq [simp]:
  "intent_state st \<noteq> Submitting" "intent_state st \<noteq> Started" "intent_state st \<noteq> Queued"
  by (simp_all add: intent_state_def split: turn_status.splits)

lemma terminal_iff: "is_terminal s \<longleftrightarrow> finished s \<or> s = Uncertain"
  by (cases s) (simp_all add: is_terminal_def)

lemma wf_inv_new: "wf_inv wf_new"
  by (simp add: wf_inv_def wf_new_def queue_ok_def queued_client_message_ids_def)

lemma wf_invD:
  assumes "wf_inv p" and "bt_get (wf_intents p) cid = Some i"
  shows "intent_ok p cid i"
  using assms by (simp add: wf_inv_def)

text \<open>
  Updating one prompt and the queue of its conversation. The queue may lose the prompt or gain
  it, but another prompt at its head stays there.
\<close>

lemma inv_update:
  assumes inv: "wf_inv p" and i: "bt_get (wf_intents p) cid = Some i"
    and j: "pi_client_message_id j = cid" "pi_scope j = pi_scope i"
    and qs: "bt_ok qs"
      "\<And>s. unwrap_or (bt_get qs s) [] =
         (if s = pi_scope i then q' else queued_client_message_ids s p)"
    and q': "distinct q'" "set q' \<subseteq> insert cid (set (queued_client_message_ids (pi_scope i) p))"
      "\<And>c q. c \<noteq> cid \<Longrightarrow> queued_client_message_ids (pi_scope i) p = c # q \<Longrightarrow> \<exists>q2. q' = c # q2"
    and st: "pi_state j = Submitting \<Longrightarrow> \<exists>q. q' = cid # q"
      "finished (pi_state j) \<Longrightarrow> cid \<notin> set q' \<and> pi_turn_id j \<noteq> None"
      "pi_state j = Started \<Longrightarrow> pi_turn_id j \<noteq> None"
  shows "wf_inv (p\<lparr>wf_intents := bt_insert cid j (wf_intents p), wf_queues := qs\<rparr>)"
    (is "wf_inv ?p")
proof -
  have queue: "queued_client_message_ids s ?p
      = (if s = pi_scope i then q' else queued_client_message_ids s p)" for s
    using qs(2) by (simp add: queued_client_message_ids_def)
  have old: "intent_ok p c k" if "bt_get (wf_intents p) c = Some k" for c k
    using inv that by (rule wf_invD)
  have intents: "intent_ok ?p c k" if "bt_get (wf_intents ?p) c = Some k" for c k
  proof (cases "c = cid")
    case True
    with that have k: "k = j" by simp
    show ?thesis unfolding k True intent_ok_def queue using j st by auto
  next
    case False
    with that have "bt_get (wf_intents p) c = Some k" by simp
    note old = old [OF this]
    show ?thesis unfolding intent_ok_def queue
      using old False q'(2,3) by (auto simp: intent_ok_def)
  qed
  have "queue_ok p s (queued_client_message_ids s p)" for s
    using inv by (simp add: wf_inv_def)
  then have "queue_ok ?p s (queued_client_message_ids s ?p)" for s
    unfolding queue using q'(1,2) i j(2) by (fastforce simp: queue_ok_def split: if_splits)
  with intents inv qs(1) show ?thesis by (simp add: wf_inv_def)
qed

lemma inv_put:
  assumes inv: "wf_inv p" and i: "bt_get (wf_intents p) cid = Some i"
    and j: "pi_client_message_id j = cid" "pi_scope j = pi_scope i"
    and st: "pi_state j = Submitting \<Longrightarrow> \<exists>q. queued_client_message_ids (pi_scope i) p = cid # q"
      "finished (pi_state j) \<Longrightarrow>
        cid \<notin> set (queued_client_message_ids (pi_scope i) p) \<and> pi_turn_id j \<noteq> None"
      "pi_state j = Started \<Longrightarrow> pi_turn_id j \<noteq> None"
  shows "wf_inv (put_intent cid j p)"
proof -
  have "wf_inv (p\<lparr>wf_intents := bt_insert cid j (wf_intents p), wf_queues := wf_queues p\<rparr>)"
    by (rule inv_update [OF inv i j]) (use inv st in \<open>auto simp: wf_inv_def queue_ok_def
        queued_client_message_ids_def\<close>)
  then show ?thesis by (simp add: put_intent_def)
qed

section \<open>Every operation keeps the invariant\<close>

lemma bt_insert_same: "bt_ok m \<Longrightarrow> bt_get m k = Some v \<Longrightarrow> bt_insert k v m = m"
proof (induction m)
  case (Cons e m)
  show ?case
  proof (cases "fst e = k")
    case True
    with Cons.prems show ?thesis by (cases e) (simp add: bt_get_def)
  next
    case False
    with Cons.prems have m: "bt_get m k = Some v" "bt_ok m"
      by (cases e, simp add: bt_get_def, simp add: bt_ok_def)
    then have "k \<in> fst ` set m" by (metis bt_get_key)
    with Cons.prems(1) have "fst e < k" by (auto simp: bt_ok_def)
    with Cons.IH m show ?thesis by simp
  qed
qed simp

lemma bt_insert_twice [simp]: "bt_insert k a (bt_insert k b m) = bt_insert k a m"
  by (induction m) auto

lemma put_intent_simps [simp]:
  "wf_queues (put_intent cid j p) = wf_queues p"
  "wf_requests (put_intent cid j p) = wf_requests p"
  "wf_terminal_turns (put_intent cid j p) = wf_terminal_turns p"
  "wf_plans (put_intent cid j p) = wf_plans p"
  "wf_generation (put_intent cid j p) = wf_generation p"
  "wf_connected (put_intent cid j p) = wf_connected p"
  "wf_intents (put_intent cid j p) = bt_insert cid j (wf_intents p)"
  "queued_client_message_ids s (put_intent cid j p) = queued_client_message_ids s p"
  by (simp_all add: put_intent_def queued_client_message_ids_def)

lemma put_intent_same:
  assumes "wf_inv p" and "bt_get (wf_intents p) cid = Some i"
  shows "put_intent cid i p = p"
  using assms by (simp add: put_intent_def bt_insert_same wf_inv_def)

lemma intent_scope:
  "wf_inv p \<Longrightarrow> bt_get (wf_intents p) cid = Some i \<Longrightarrow> pi_client_message_id i = cid"
  by (drule (1) wf_invD) (simp add: intent_ok_def)

lemma transition_prompt_Inr:
  "transition_prompt i t = Inr j \<longleftrightarrow>
     (pi_state i = t \<or> valid_transition (pi_state i) t) \<and> j = i\<lparr>pi_state := t\<rparr>"
  by (cases i) (auto simp: transition_prompt_def)

text \<open>The queue a finished prompt leaves behind.\<close>

definition finish_queues :: "string \<Rightarrow> workflow_scope \<Rightarrow> projection \<Rightarrow> (workflow_scope, string list) btree" where
  "finish_queues cid s p = (case bt_get (wf_queues p) s of
      None \<Rightarrow> wf_queues p
    | Some q \<Rightarrow> bt_insert s (filter (\<lambda>c. c \<noteq> cid) q) (wf_queues p))"

lemma finish_queues_get:
  "unwrap_or (bt_get (finish_queues cid s p) s') [] =
     (if s' = s then filter (\<lambda>c. c \<noteq> cid) (queued_client_message_ids s p)
      else queued_client_message_ids s' p)"
  by (auto simp: finish_queues_def queued_client_message_ids_def split: option.splits)

lemma finish_queues_ok: "bt_ok (wf_queues p) \<Longrightarrow> bt_ok (finish_queues cid s p)"
  by (auto simp: finish_queues_def split: option.splits)

lemma finish_prompt_put:
  assumes "pi_turn_id k = Some turn"
  shows "finish_prompt cid st (put_intent cid k p) =
    (Inr (PromptFinished cid (pi_scope k) turn st #
       (if filter (\<lambda>c. c \<noteq> cid) (queued_client_message_ids (pi_scope k) p) \<noteq> []
        then [RetryQueue (pi_scope k)] else [])),
     p\<lparr>wf_intents := bt_insert cid (k\<lparr>pi_state := intent_state st\<rparr>) (wf_intents p),
       wf_queues := finish_queues cid (pi_scope k) p\<rparr>)"
  using assms by (cases "bt_get (wf_queues p) (pi_scope k)")
    (simp_all add: finish_prompt_def put_intent_def finish_queues_def queued_client_message_ids_def
        Let_def)

lemma finish_prompt_put_inv:
  assumes inv: "wf_inv p" and i: "bt_get (wf_intents p) cid = Some i"
    and k: "pi_client_message_id k = cid" "pi_scope k = pi_scope i" "pi_turn_id k = Some turn"
  shows "wf_inv (snd (finish_prompt cid st (put_intent cid k p)))"
proof -
  let ?q' = "filter (\<lambda>c. c \<noteq> cid) (queued_client_message_ids (pi_scope i) p)"
  have "queue_ok p (pi_scope i) (queued_client_message_ids (pi_scope i) p)"
    using inv by (simp add: wf_inv_def)
  then have d: "distinct ?q'" by (simp add: queue_ok_def)
  have "wf_inv (p\<lparr>wf_intents := bt_insert cid (k\<lparr>pi_state := intent_state st\<rparr>) (wf_intents p),
       wf_queues := finish_queues cid (pi_scope i) p\<rparr>)"
    by (rule inv_update [OF inv i _ _ _ finish_queues_get d])
      (use inv k in \<open>auto simp: wf_inv_def intro: finish_queues_ok\<close>)
  with k show ?thesis by (simp add: finish_prompt_put)
qed

lemma finish_prompt_inv:
  assumes inv: "wf_inv p" shows "wf_inv (snd (finish_prompt cid st p))"
proof (cases "bt_get (wf_intents p) cid")
  case None
  with inv show ?thesis by (simp add: finish_prompt_def)
next
  case (Some i)
  show ?thesis
  proof (cases "pi_turn_id i")
    case None
    with inv Some show ?thesis by (simp add: finish_prompt_def)
  next
    case (Some turn)
    from finish_prompt_put_inv [OF inv \<open>bt_get (wf_intents p) cid = Some i\<close> _ _ Some]
    show ?thesis
      using intent_scope [OF inv] put_intent_same [OF inv] \<open>bt_get (wf_intents p) cid = Some i\<close>
      by simp
  qed
qed

lemma finish_all_inv: "wf_inv p \<Longrightarrow> wf_inv (snd (finish_all cids st p))"
proof (induction cids arbitrary: p)
  case (Cons c cids)
  from Cons.IH [OF finish_prompt_inv [OF Cons.prems]] show ?case
    by (auto split: prod.splits) (metis snd_conv)
qed simp

lemma make_uncertain_simps [simp]:
  "pi_scope (make_uncertain i) = pi_scope i"
  "pi_client_message_id (make_uncertain i) = pi_client_message_id i"
  "pi_turn_id (make_uncertain i) = pi_turn_id i"
  "pi_state (make_uncertain i) \<noteq> Submitting"
  "finished (pi_state (make_uncertain i)) = finished (pi_state i)"
  "pi_state (make_uncertain i) = Started \<longleftrightarrow> pi_state i = Started"
  by (auto simp: make_uncertain_def)

lemma observe_connection_inv:
  assumes inv: "wf_inv p" shows "wf_inv (snd (observe_connection g c p))"
proof -
  have gen: "wf_inv (p\<lparr>wf_generation := g', wf_connected := c'\<rparr>)" for g' c'
    using inv by (simp add: wf_inv_def intent_ok_def queue_ok_def queued_client_message_ids_def)
  have "wf_inv (p\<lparr>wf_generation := g', wf_connected := c', wf_requests := bt_map f (wf_requests p),
      wf_intents := bt_map make_uncertain (wf_intents p)\<rparr>)"
    if f: "\<And>r. psr_key (f r) = psr_key r" for g' c' f
    using inv f by (fastforce simp: wf_inv_def intent_ok_def queue_ok_def queued_client_message_ids_def)
  then have "wf_inv (p\<lparr>wf_generation := Some g, wf_connected := c,
      wf_requests := bt_map (\<lambda>r. if retirable g r then r\<lparr>psr_state := Retired\<rparr> else r) (wf_requests p),
      wf_intents := bt_map make_uncertain (wf_intents p)\<rparr>)" by simp
  with gen inv show ?thesis
    by (auto simp: observe_connection_def Let_def split: option.splits)
qed

lemma create_prompt_inv:
  assumes inv: "wf_inv p" shows "wf_inv (snd (create_prompt cid s p))"
proof -
  have "wf_inv (put_intent cid \<lparr>pi_client_message_id = cid, pi_scope = s, pi_state = Received,
      pi_turn_id = None\<rparr> p)" (is "wf_inv ?p") if new: "bt_get (wf_intents p) cid = None"
  proof -
    have "intent_ok ?p c k" if "bt_get (wf_intents ?p) c = Some k" for c k
      using that inv by (auto simp: wf_inv_def intent_ok_def split: if_splits)
    moreover have "queue_ok ?p s' (queued_client_message_ids s' ?p)" for s'
    proof -
      have "queue_ok p s' (queued_client_message_ids s' p)" using inv by (simp add: wf_inv_def)
      with new show ?thesis by (force simp: queue_ok_def)
    qed
    ultimately show ?thesis using inv by (simp add: wf_inv_def)
  qed
  with inv show ?thesis
    by (auto simp: create_prompt_def Let_def split: option.splits)
qed

lemma queue_prompt_inv:
  assumes inv: "wf_inv p" shows "wf_inv (snd (queue_prompt cid p))"
proof -
  have "wf_inv (p\<lparr>wf_intents := bt_insert cid (i\<lparr>pi_state := Queued\<rparr>) (wf_intents p),
      wf_queues := bt_insert (pi_scope i) q' (wf_queues p)\<rparr>)"
    if i: "bt_get (wf_intents p) cid = Some i"
      and q': "q' = (if cid \<in> set (queued_client_message_ids (pi_scope i) p)
        then queued_client_message_ids (pi_scope i) p
        else queued_client_message_ids (pi_scope i) p @ [cid])" for i q'
  proof -
    have "queue_ok p (pi_scope i) (queued_client_message_ids (pi_scope i) p)"
      using inv by (simp add: wf_inv_def)
    then have "distinct q'" by (auto simp: q' queue_ok_def)
    then show ?thesis
      by (intro inv_update [OF inv i, where q' = q'])
        (use inv intent_scope [OF inv i] in
          \<open>auto simp: q' wf_inv_def queued_client_message_ids_def\<close>)
  qed
  with inv show ?thesis
    by (auto simp: queue_prompt_def Let_def transition_prompt_Inr put_intent_def
        split: option.splits sum.splits)
qed

lemma await_choice_inv:
  assumes inv: "wf_inv p" shows "wf_inv (snd (await_choice cid p))"
proof -
  have "wf_inv (put_intent cid (i\<lparr>pi_state := AwaitingChoice\<rparr>) p)"
    if i: "bt_get (wf_intents p) cid = Some i" for i
    by (rule inv_put [OF inv i]) (use intent_scope [OF inv i] in auto)
  with inv show ?thesis
    by (auto simp: await_choice_def transition_prompt_Inr split: option.splits sum.splits)
qed

lemma begin_dispatch_inv:
  assumes inv: "wf_inv p" shows "wf_inv (snd (begin_dispatch s p))"
proof -
  have "wf_inv (put_intent cid (i\<lparr>pi_state := Submitting\<rparr>) p)"
    if i: "bt_get (wf_intents p) cid = Some i" and q: "queued_client_message_ids s p = cid # q"
    for i cid q
  proof -
    have "queue_ok p s (queued_client_message_ids s p)" using inv by (simp add: wf_inv_def)
    with q i have "pi_scope i = s" by (simp add: queue_ok_def)
    then show ?thesis
      by (intro inv_put [OF inv i]) (use intent_scope [OF inv i] q in auto)
  qed
  with inv show ?thesis
    by (auto simp: begin_dispatch_def transition_prompt_Inr
        split: option.splits sum.splits list.splits)
qed

lemma observe_delivery_inv:
  assumes inv: "wf_inv p" shows "wf_inv (snd (observe_delivery cid d p))"
proof (cases "bt_get (wf_intents p) cid")
  case None
  with inv show ?thesis by (simp add: observe_delivery_def)
next
  case i: (Some i)
  note cid = intent_scope [OF inv i]
  have fin: "wf_inv (snd (finish_prompt cid st (put_intent cid
      (i\<lparr>pi_turn_id := Some t, pi_state := intent_state st\<rparr>) p)))" for st t
    by (rule finish_prompt_put_inv [OF inv i]) (use cid in auto)
  have put: "wf_inv (put_intent cid (i\<lparr>pi_turn_id := t, pi_state := s\<rparr>) p)"
    if "s \<noteq> Submitting" "\<not> finished s" "s = Started \<longrightarrow> t \<noteq> None" for s t
    by (rule inv_put [OF inv i]) (use cid that in auto)
  have "i\<lparr>pi_state := s\<rparr> = i\<lparr>pi_turn_id := pi_turn_id i, pi_state := s\<rparr>" for s by simp
  then have put': "wf_inv (put_intent cid (i\<lparr>pi_state := s\<rparr>) p)"
    if "s = Queued \<or> s = Uncertain" for s
    using put [of s "pi_turn_id i"] that by auto
  have same: "put_intent cid i p = p" using inv i by (rule put_intent_same)
  show ?thesis
    using inv i fin put put' same
    by (auto simp: observe_delivery_def Let_def split: delivery.splits option.splits)
qed

lemma observe_turn_started_inv:
  assumes inv: "wf_inv p" shows "wf_inv (snd (observe_turn_started cid t p))"
proof (cases "bt_get (wf_intents p) cid")
  case None
  with inv show ?thesis by (simp add: observe_turn_started_def)
next
  case i: (Some i)
  note cid = intent_scope [OF inv i]
  have "wf_inv (put_intent cid (i\<lparr>pi_turn_id := Some t, pi_state := Started\<rparr>) p)"
    by (rule inv_put [OF inv i]) (use cid in auto)
  with inv i show ?thesis
    by (auto simp: observe_turn_started_def Let_def finish_prompt_inv split: option.splits)
qed

lemma observe_turn_completed_inv:
  assumes inv: "wf_inv p" shows "wf_inv (snd (observe_turn_completed th t st p))"
proof -
  have "wf_inv (p\<lparr>wf_terminal_turns := m\<rparr>)" for m
    using inv by (simp add: wf_inv_def intent_ok_def queue_ok_def queued_client_message_ids_def)
  with inv show ?thesis
    by (simp add: observe_turn_completed_def Let_def finish_all_inv)
qed

lemma inv_plans: "wf_inv p \<Longrightarrow> wf_inv (p\<lparr>wf_plans := m\<rparr>)"
  by (simp add: wf_inv_def intent_ok_def queue_ok_def queued_client_message_ids_def)

lemma inv_requests:
  "wf_inv p \<Longrightarrow> bt_ok m \<Longrightarrow> (\<And>k r. bt_get m k = Some r \<Longrightarrow> psr_key r = k) \<Longrightarrow>
     wf_inv (p\<lparr>wf_requests := m\<rparr>)"
  by (simp add: wf_inv_def intent_ok_def queue_ok_def queued_client_message_ids_def)

lemma inv_put_request:
  "wf_inv p \<Longrightarrow> psr_key r = k \<Longrightarrow> wf_inv (put_request k r p)"
  unfolding put_request_def
  by (rule inv_requests) (auto simp: wf_inv_def split: if_splits)

lemma request_key: "wf_inv p \<Longrightarrow> bt_get (wf_requests p) k = Some r \<Longrightarrow> psr_key r = k"
  by (simp add: wf_inv_def)

theorem wf_step_inv: "wf_inv p \<Longrightarrow> wf_inv (wf_step op p)"
proof (cases op)
  case (OpResolved g rid)
  assume inv: "wf_inv p"
  have "wf_inv (p\<lparr>wf_requests := bt_map (\<lambda>r. if resolves g rid r then r\<lparr>psr_state := Resolved\<rparr> else r)
      (wf_requests p)\<rparr>)"
    by (rule inv_requests [OF inv]) (use inv in \<open>auto simp: wf_inv_def\<close>)
  with OpResolved show ?thesis by (simp add: wf_step_def observe_server_request_resolved_def)
qed (auto simp: wf_step_def ok_effects_def observe_connection_inv create_prompt_inv queue_prompt_inv
    await_choice_inv begin_dispatch_inv observe_delivery_inv observe_turn_started_inv
    observe_turn_completed_inv observe_plan_def register_server_request_def
    claim_server_request_def mark_server_request_responded_def Let_def inv_plans
    split: option.splits intro!: inv_put_request dest: request_key)

interpretation wfm: machine wf_step wf_inv
  by unfold_locales (rule wf_step_inv)

lemma reachable_inv: "wf_reachable p \<Longrightarrow> wf_inv p"
  by (induction rule: wf_reachable.induct) (auto intro: wf_inv_new wf_step_inv)

section \<open>Finished prompts\<close>

definition is_finish :: "string \<Rightarrow> workflow_effect \<Rightarrow> bool" where
  "is_finish cid e = (case e of PromptFinished c _ _ _ \<Rightarrow> c = cid | _ \<Rightarrow> False)"

definition finish_reports :: "string \<Rightarrow> workflow_effect list \<Rightarrow> nat" where
  "finish_reports cid es = length (filter (is_finish cid) es)"

definition finish_mark :: "string \<Rightarrow> projection \<Rightarrow> nat" where
  "finish_mark cid p = (case bt_get (wf_intents p) cid of
     None \<Rightarrow> 0 | Some i \<Rightarrow> if finished (pi_state i) then 1 else 0)"

lemma finish_reports_simps [simp]:
  "finish_reports cid [] = 0"
  "finish_reports cid (e # es) = (if is_finish cid e then 1 else 0) + finish_reports cid es"
  "finish_reports cid (es @ fs) = finish_reports cid es + finish_reports cid fs"
  by (simp_all add: finish_reports_def)

lemma is_finish_simps [simp]:
  "is_finish cid (PromptFinished c s t st) \<longleftrightarrow> c = cid"
  "\<not> is_finish cid (ReconcileThread s)" "\<not> is_finish cid (RetryQueue s)"
  "\<not> is_finish cid (RetireServerRequest k)" "\<not> is_finish cid (ServerRequestResolved k)"
  "\<not> is_finish cid (PublishPlan pub)"
  by (simp_all add: is_finish_def)

lemma finish_reports_map:
  "(\<And>x. \<not> is_finish cid (f x)) \<Longrightarrow> finish_reports cid (map f xs) = 0"
  by (induction xs) auto

lemma finish_mark_put [simp]:
  "finish_mark c (put_intent cid j p) =
     (if c = cid then if finished (pi_state j) then 1 else 0 else finish_mark c p)"
  by (simp add: finish_mark_def)

text \<open>
  One operation reports a prompt as finished exactly when it makes it finished: the reports and
  the mark of the state add up.
\<close>

definition reports_balance :: "string \<Rightarrow> projection \<Rightarrow> workflow_effect list \<times> projection \<Rightarrow> bool" where
  "reports_balance cid p r \<longleftrightarrow> finish_reports cid (fst r) + finish_mark cid p = finish_mark cid (snd r)"

lemma finish_prompt_balance:
  assumes "bt_get (wf_intents p) cid = Some i" and "pi_turn_id k = Some t"
  shows "finish_mark c p + (if c = cid then 1 - finish_mark cid p else 0)
    = finish_mark c (snd (finish_prompt cid st (put_intent cid k p)))"
    and "finish_reports c (fst (ok_effects (finish_prompt cid st (put_intent cid k p))))
    = (if c = cid then 1 else 0)"
  using assms by (auto simp: finish_prompt_put finish_mark_def ok_effects_def)

lemma finish_prompt_self:
  assumes "wf_inv p" and "bt_get (wf_intents p) cid = Some i" and "\<not> finished (pi_state i)"
    and "pi_turn_id i = Some t"
  shows "reports_balance c p (ok_effects (finish_prompt cid st p))"
proof -
  have "put_intent cid i p = p" using assms(1,2) by (rule put_intent_same)
  with finish_prompt_balance [OF assms(2,4), of c st] assms(2,3) show ?thesis
    by (auto simp: reports_balance_def ok_effects_def finish_mark_def)
qed

lemma finish_prompt_frame:
  "c \<noteq> cid \<Longrightarrow> bt_get (wf_intents (snd (finish_prompt cid st p))) c = bt_get (wf_intents p) c"
  by (auto simp: finish_prompt_def Let_def split: option.splits)

lemma finish_all_balance:
  "wf_inv p \<Longrightarrow> distinct cids \<Longrightarrow>
   (\<And>c. c \<in> set cids \<Longrightarrow> \<exists>i t. bt_get (wf_intents p) c = Some i \<and> \<not> finished (pi_state i)
      \<and> pi_turn_id i = Some t) \<Longrightarrow>
   reports_balance cid p (finish_all cids st p)"
proof (induction cids arbitrary: p)
  case Nil
  then show ?case by (simp add: reports_balance_def)
next
  case (Cons c cids)
  let ?r = "finish_prompt c st p"
  obtain i t where i: "bt_get (wf_intents p) c = Some i" "\<not> finished (pi_state i)"
    "pi_turn_id i = Some t" using Cons.prems(3) [of c] by auto
  have here: "reports_balance cid p (ok_effects ?r)"
    by (rule finish_prompt_self [OF Cons.prems(1) i])
  have "reports_balance cid (snd ?r) (finish_all cids st (snd ?r))"
  proof (rule Cons.IH)
    show "wf_inv (snd ?r)" using Cons.prems(1) by (rule finish_prompt_inv)
    show "distinct cids" using Cons.prems(2) by simp
    fix d assume "d \<in> set cids"
    with Cons.prems(2,3) show "\<exists>i t. bt_get (wf_intents (snd ?r)) d = Some i
        \<and> \<not> finished (pi_state i) \<and> pi_turn_id i = Some t"
      by (subst finish_prompt_frame) auto
  qed
  with here show ?case
    by (auto simp: reports_balance_def ok_effects_def split: prod.splits sum.splits)
qed

lemma affected_prompts_distinct: "bt_ok (wf_intents p) \<Longrightarrow> distinct (affected_prompts th t p)"
  unfolding affected_prompts_def
  by (rule distinct_map_filter) (rule bt_ok_distinct)

lemma affected_promptsD:
  assumes "bt_ok (wf_intents p)" and "cid \<in> set (affected_prompts th t p)"
  shows "\<exists>i. bt_get (wf_intents p) cid = Some i \<and> ws_thread_id (pi_scope i) = th
    \<and> pi_turn_id i = Some t \<and> \<not> is_terminal (pi_state i)"
  using assms by (auto simp: affected_prompts_def bt_in_set)

lemma observe_turn_completed_balance:
  assumes inv: "wf_inv p" shows "reports_balance cid p (observe_turn_completed th t st p)"
proof (cases "is_blank th \<or> is_blank t")
  case True
  then show ?thesis by (simp add: observe_turn_completed_def reports_balance_def)
next
  case False
  let ?p = "p\<lparr>wf_terminal_turns := bt_insert (th, t) st (wf_terminal_turns p)\<rparr>"
  have ip: "wf_inv ?p"
    using inv by (simp add: wf_inv_def intent_ok_def queue_ok_def queued_client_message_ids_def)
  then have ok: "bt_ok (wf_intents ?p)" by (simp add: wf_inv_def)
  have "reports_balance cid ?p (finish_all (affected_prompts th t ?p) st ?p)"
    by (rule finish_all_balance [OF ip affected_prompts_distinct [OF ok]])
      (use affected_promptsD [OF ok] in \<open>fastforce simp: terminal_iff\<close>)
  with False show ?thesis
    by (simp add: observe_turn_completed_def reports_balance_def finish_mark_def Let_def)
qed

lemma observe_delivery_balance:
  assumes inv: "wf_inv p" shows "reports_balance cid p (ok_effects (observe_delivery c d p))"
proof (cases "bt_get (wf_intents p) c")
  case None
  then show ?thesis by (simp add: observe_delivery_def reports_balance_def ok_effects_def)
next
  case i: (Some i)
  have fin: "finish_mark c p = (if finished (pi_state i) then 1 else 0)"
    using i by (simp add: finish_mark_def)
  have pres: "reports_balance cid p (ok_effects (finish_prompt c st (put_intent c
      (i\<lparr>pi_turn_id := Some t, pi_state := intent_state st\<rparr>) p)))"
    if "\<not> finished (pi_state i)" for st t
    using that fin finish_prompt_balance [OF i, of "i\<lparr>pi_turn_id := Some t, pi_state := intent_state st\<rparr>" t cid st]
    by (simp add: reports_balance_def ok_effects_def split: if_splits)
  show ?thesis
    using i fin pres
    by (auto simp: observe_delivery_def Let_def finished_def terminal_iff reports_balance_def ok_effects_def
        split: delivery.splits option.splits)
qed

lemma valid_transition_unfinished: "valid_transition s t \<Longrightarrow> \<not> finished s"
  by (auto simp: valid_transition_def)

lemma transition_unfinished:
  "transition_prompt i t = Inr j \<Longrightarrow> \<not> finished t \<Longrightarrow> \<not> finished (pi_state i) \<and> \<not> finished (pi_state j)"
  by (auto simp: transition_prompt_Inr dest: valid_transition_unfinished)

lemma observe_turn_started_balance:
  assumes inv: "wf_inv p" shows "reports_balance cid p (ok_effects (observe_turn_started c t p))"
proof (cases "bt_get (wf_intents p) c")
  case None
  then show ?thesis by (simp add: observe_turn_started_def reports_balance_def ok_effects_def)
next
  case i: (Some i)
  have fin: "finish_mark c p = (if finished (pi_state i) then 1 else 0)"
    using i by (simp add: finish_mark_def)
  have self: "reports_balance cid p (ok_effects (finish_prompt c st p))"
    if "pi_state i = Started" "pi_turn_id i = Some t" for st
    by (rule finish_prompt_self [OF inv i _ that(2)]) (simp add: that)
  have pres: "reports_balance cid p (ok_effects (finish_prompt c st (put_intent c
      (i\<lparr>pi_turn_id := Some t, pi_state := Started\<rparr>) p)))"
    if "\<not> finished (pi_state i)" for st
    using that fin finish_prompt_balance [OF i, of "i\<lparr>pi_turn_id := Some t, pi_state := Started\<rparr>" t cid st]
    by (simp add: reports_balance_def ok_effects_def split: if_splits)
  have open_states: "pi_state i \<in> {Submitting, Queued, AwaitingChoice} \<Longrightarrow> \<not> finished (pi_state i)"
    by auto
  show ?thesis
    using i fin self pres open_states
    by (auto simp: observe_turn_started_def Let_def reports_balance_def ok_effects_def
        split: option.splits)
qed

lemma observe_connection_balance:
  "reports_balance cid p (ok_effects (observe_connection g c p))"
proof -
  have "finish_mark cid (p\<lparr>wf_generation := a, wf_connected := b, wf_requests := m,
      wf_intents := bt_map make_uncertain (wf_intents p)\<rparr>) = finish_mark cid p" for a b m
    by (simp add: finish_mark_def split: option.splits)
  moreover have "finish_mark cid (p\<lparr>wf_generation := a, wf_connected := b\<rparr>) = finish_mark cid p" for a b
    by (simp add: finish_mark_def)
  ultimately show ?thesis
    by (auto simp: observe_connection_def Let_def reports_balance_def ok_effects_def
        finish_reports_map split: option.splits)
qed

lemma wf_exec_balance:
  assumes inv: "wf_inv p" shows "reports_balance cid p (wf_exec op p)"
proof (cases op)
  case (OpCreate c s)
  then show ?thesis
    by (auto simp: create_prompt_def reports_balance_def Let_def finish_mark_def split: option.splits)
next
  case (OpQueue c)
  then show ?thesis
    by (auto simp: queue_prompt_def reports_balance_def Let_def finish_mark_def
        split: option.splits sum.splits dest: transition_unfinished)
next
  case (OpAwait c)
  then show ?thesis
    by (auto simp: await_choice_def reports_balance_def finish_mark_def
        split: option.splits sum.splits dest: transition_unfinished)
next
  case (OpDispatch s)
  then show ?thesis
    by (auto simp: begin_dispatch_def reports_balance_def finish_mark_def
        split: option.splits sum.splits list.splits dest: transition_unfinished)
next
  case (OpPlan pub)
  then show ?thesis
    by (auto simp: observe_plan_def reports_balance_def finish_mark_def ok_effects_def Let_def
        split: option.splits)
next
  case (OpRegister r)
  then show ?thesis
    by (auto simp: register_server_request_def reports_balance_def finish_mark_def put_request_def
        split: option.splits)
next
  case (OpClaim k)
  then show ?thesis
    by (auto simp: claim_server_request_def reports_balance_def finish_mark_def put_request_def Let_def
        split: option.splits)
next
  case (OpResponded k)
  then show ?thesis
    by (auto simp: mark_server_request_responded_def reports_balance_def finish_mark_def
        put_request_def split: option.splits)
next
  case (OpResolved g rid)
  then show ?thesis
    by (auto simp: observe_server_request_resolved_def reports_balance_def finish_mark_def
        finish_reports_map)
qed (use inv in \<open>auto simp: observe_connection_balance observe_delivery_balance
    observe_turn_started_balance observe_turn_completed_balance\<close>)

lemma wf_run_balance: "wf_inv p \<Longrightarrow> reports_balance cid p (wf_run ops p)"
proof (induction ops arbitrary: p)
  case Nil
  then show ?case by (simp add: reports_balance_def)
next
  case (Cons op ops)
  have "wf_inv (snd (wf_exec op p))"
    using wf_step_inv [OF Cons.prems, of op] by (simp add: wf_step_def)
  with Cons.IH wf_exec_balance [OF Cons.prems, of cid op] show ?case
    by (fastforce simp: reports_balance_def split: prod.splits)
qed

text \<open>A finished prompt is never written again.\<close>

lemma finish_all_frame:
  "c \<notin> set cids \<Longrightarrow> bt_get (wf_intents (snd (finish_all cids st p))) c = bt_get (wf_intents p) c"
proof (induction cids arbitrary: p)
  case (Cons d cids)
  from Cons.IH [of "snd (finish_prompt d st p)"] Cons.prems show ?case
    by (simp add: finish_prompt_frame split: prod.splits) (metis finish_prompt_frame snd_conv)
qed simp

lemma finished_kept:
  assumes inv: "wf_inv p" and i: "bt_get (wf_intents p) cid = Some i" "finished (pi_state i)"
  shows "bt_get (wf_intents (wf_step op p)) cid = Some i"
proof (cases op)
  case (OpCompleted th t st)
  let ?p = "p\<lparr>wf_terminal_turns := bt_insert (th, t) st (wf_terminal_turns p)\<rparr>"
  have "bt_ok (wf_intents ?p)" using inv by (simp add: wf_inv_def)
  then have "cid \<notin> set (affected_prompts th t ?p)"
    using i affected_promptsD [of ?p cid th t] by (auto simp: terminal_iff)
  with OpCompleted i show ?thesis
    by (simp add: wf_step_def observe_turn_completed_def Let_def finish_all_frame)
next
  case (OpDelivery c d)
  with i finish_prompt_frame [of cid c] show ?thesis
    by (cases "cid = c") (auto simp: wf_step_def ok_effects_def observe_delivery_def Let_def
        finished_def split: option.splits delivery.splits)
next
  case (OpStarted c t)
  with i finish_prompt_frame [of cid c] show ?thesis
    by (cases "cid = c") (auto simp: wf_step_def ok_effects_def observe_turn_started_def Let_def
        finished_def split: option.splits)
next
  case (OpConnection g c)
  have "make_uncertain i = i" using i(2) by (auto simp: make_uncertain_def)
  with OpConnection i show ?thesis
    by (auto simp: wf_step_def ok_effects_def observe_connection_def Let_def split: option.splits)
qed (use i in \<open>auto simp: wf_step_def ok_effects_def create_prompt_def queue_prompt_def
    await_choice_def begin_dispatch_def observe_plan_def register_server_request_def
    claim_server_request_def mark_server_request_responded_def observe_server_request_resolved_def
    put_request_def Let_def split: option.splits sum.splits list.splits
    dest: transition_unfinished\<close>)

lemma finished_run:
  "wf_inv p \<Longrightarrow> bt_get (wf_intents p) cid = Some i \<Longrightarrow> finished (pi_state i) \<Longrightarrow>
     bt_get (wf_intents (fold wf_step ops p)) cid = Some i"
  using wfm.run_stable [where P = "\<lambda>p. bt_get (wf_intents p) cid = Some i"]
  by (metis finished_kept)

section \<open>Interactive requests\<close>

definition request_spent :: "string \<Rightarrow> projection \<Rightarrow> bool" where
  "request_spent k p = (case bt_get (wf_requests p) k of
     None \<Rightarrow> False | Some r \<Rightarrow> psr_state r \<noteq> Available)"

lemma finish_prompt_requests [simp]: "wf_requests (snd (finish_prompt c st p)) = wf_requests p"
  by (auto simp: finish_prompt_def Let_def split: option.splits)

lemma finish_all_requests [simp]: "wf_requests (snd (finish_all cs st p)) = wf_requests p"
proof (induction cs arbitrary: p)
  case (Cons c cs)
  from Cons.IH [of "snd (finish_prompt c st p)"] show ?case
    by (cases "finish_prompt c st p"; cases "finish_all cs st (snd (finish_prompt c st p))")
      (auto split: prod.splits simp flip: finish_prompt_requests [of c st p])
qed simp

lemma prompt_ops_requests [simp]:
  "wf_requests (snd (create_prompt c s p)) = wf_requests p"
  "wf_requests (snd (queue_prompt c p)) = wf_requests p"
  "wf_requests (snd (await_choice c p)) = wf_requests p"
  "wf_requests (snd (begin_dispatch s p)) = wf_requests p"
  "wf_requests (snd (observe_delivery c d p)) = wf_requests p"
  "wf_requests (snd (observe_turn_started c t p)) = wf_requests p"
  "wf_requests (snd (observe_turn_completed th t st p)) = wf_requests p"
  "wf_requests (snd (observe_plan pub p)) = wf_requests p"
  by (auto simp: create_prompt_def queue_prompt_def await_choice_def begin_dispatch_def
      observe_delivery_def observe_turn_started_def observe_turn_completed_def observe_plan_def
      Let_def split: option.splits sum.splits list.splits delivery.splits)

lemma request_spent_stable:
  assumes "request_spent k p" shows "request_spent k (wf_step op p)"
proof (cases op)
  case (OpConnection g c)
  with assms show ?thesis
    by (auto simp: wf_step_def ok_effects_def request_spent_def observe_connection_def Let_def
        split: option.splits)
qed (use assms in \<open>auto simp: wf_step_def ok_effects_def request_spent_def
    register_server_request_def claim_server_request_def mark_server_request_responded_def
    observe_server_request_resolved_def put_request_def Let_def split: option.splits if_splits\<close>)

definition claim_succeeds :: "string \<Rightarrow> projection \<Rightarrow> bool" where
  "claim_succeeds k p = is_ok (fst (claim_server_request k p))"

interpretation claim: one_shot wf_step wf_inv request_spent claim_succeeds
  "\<lambda>k p. snd (claim_server_request k p)"
proof unfold_locales
  fix k p
  show "claim_succeeds k p \<Longrightarrow> request_spent k (snd (claim_server_request k p))"
    by (auto simp: claim_succeeds_def request_spent_def claim_server_request_def put_request_def
        Let_def split: option.splits if_splits)
  show "wf_inv p \<Longrightarrow> wf_inv (snd (claim_server_request k p))"
    using wf_step_inv [of p "OpClaim k"] by (simp add: wf_step_def)
  show "request_spent k p \<Longrightarrow> \<not> claim_succeeds k p"
    by (auto simp: claim_succeeds_def request_spent_def claim_server_request_def Let_def
        split: option.splits)
qed (rule request_spent_stable)

section \<open>Runs for the witnesses\<close>

text \<open>
  A first connection, two prompts queued on one conversation, the first of them being sent to
  Codex, and an approval request of the server.
\<close>

lemma reachable_run: "wf_reachable p \<Longrightarrow> wf_reachable (snd (wf_run ops p))"
  unfolding wf_run_state by (induction ops arbitrary: p) (auto intro: wf_reachable.step)

definition demo_request :: server_request where
  "demo_request = \<lparr>psr_key = ''k'', psr_request_id = ''7'', psr_generation = 1,
     psr_scope = scope_legacy ''t'', psr_kind = Approval, psr_state = Available\<rparr>"

definition demo :: projection where
  "demo = snd (wf_run [OpConnection 1 True, OpCreate ''a'' (scope_legacy ''t''), OpQueue ''a'',
     OpCreate ''b'' (scope_legacy ''t''), OpQueue ''b'', OpDispatch (scope_legacy ''t''),
     OpRegister demo_request] wf_new)"

definition demo_done :: projection where
  "demo_done = snd (wf_run [OpStarted ''a'' ''u'', OpCompleted ''t'' ''u'' TurnFailed] demo)"

definition demo_intent :: "string \<Rightarrow> pstate \<Rightarrow> string option \<Rightarrow> intent" where
  "demo_intent cid st turn = \<lparr>pi_client_message_id = cid, pi_scope = scope_legacy ''t'',
     pi_state = st, pi_turn_id = turn\<rparr>"

lemma demo_reachable: "wf_reachable demo" "wf_reachable demo_done"
  unfolding demo_done_def demo_def by (intro reachable_run wf_reachable.start)+

lemma demo_facts:
  "queued_client_message_ids (scope_legacy ''t'') demo = [''a'', ''b'']"
  "bt_get (wf_intents demo) ''a'' = Some (demo_intent ''a'' Submitting None)"
  "bt_get (wf_intents demo_done) ''a'' = Some (demo_intent ''a'' Failed (Some ''u''))"
  "queued_client_message_ids (scope_legacy ''t'') demo_done = [''b'']"
  "wf_generation demo = Some 1"
  by code_simp+

section \<open>Properties\<close>

text \<open>
  In every state the projection can reach, the queue of a conversation holds no prompt twice,
  and every id in it is a known prompt of that very conversation that has not finished.
\<close>

theorem queue_entries_live:
  assumes "wf_reachable p" and "cid \<in> set (queued_client_message_ids s p)"
  shows "distinct (queued_client_message_ids s p)
    \<and> (\<exists>i. bt_get (wf_intents p) cid = Some i \<and> pi_client_message_id i = cid \<and> pi_scope i = s
         \<and> pi_state i \<notin> {Completed, Failed, Cancelled})"
proof -
  have inv: "wf_inv p" using assms(1) by (rule reachable_inv)
  then have q: "queue_ok p s (queued_client_message_ids s p)" by (simp add: wf_inv_def)
  then obtain i where i: "bt_get (wf_intents p) cid = Some i" "pi_scope i = s"
    using assms(2) by (auto simp: queue_ok_def)
  from wf_invD [OF inv i(1)] i(2) assms(2) have "\<not> finished (pi_state i)" "pi_client_message_id i = cid"
    by (auto simp: intent_ok_def)
  with q i show ?thesis by (auto simp: queue_ok_def finished_def)
qed

text \<open>
  C1. At most one prompt of a conversation is being submitted to Codex at any time, and it is the
  head of the conversation's queue: nothing overtakes it while its delivery is open.
\<close>

theorem one_submission_per_scope:
  assumes "wf_reachable p"
    and "bt_get (wf_intents p) a = Some i" and "pi_state i = Submitting"
    and "bt_get (wf_intents p) b = Some j" and "pi_state j = Submitting"
    and "pi_scope i = pi_scope j"
  shows "a = b \<and> (\<exists>q. queued_client_message_ids (pi_scope i) p = a # q)"
  using wf_invD [OF reachable_inv [OF assms(1)] assms(2)]
    wf_invD [OF reachable_inv [OF assms(1)] assms(4)] assms(3,5,6)
  by (auto simp: intent_ok_def)

text \<open>
  C9. However the events interleave, the adapter is told that a prompt finished exactly once if
  the prompt is completed, failed or cancelled, and never if it is not.
\<close>

theorem finish_reported_exactly_once:
  "length (filter (\<lambda>e. case e of PromptFinished c _ _ _ \<Rightarrow> c = cid | _ \<Rightarrow> False)
     (fst (wf_run ops wf_new)))
   = (case bt_get (wf_intents (snd (wf_run ops wf_new))) cid of
        None \<Rightarrow> 0
      | Some i \<Rightarrow> if pi_state i \<in> {Completed, Failed, Cancelled} then 1 else 0)"
proof -
  have "finish_mark cid wf_new = 0" by (simp add: finish_mark_def wf_new_def)
  with wf_run_balance [OF wf_inv_new, of cid ops]
  have "finish_reports cid (fst (wf_run ops wf_new)) = finish_mark cid (snd (wf_run ops wf_new))"
    by (simp add: reports_balance_def)
  moreover have "finished st \<longleftrightarrow> st \<in> {Completed, Failed, Cancelled}" for st
    by (simp add: finished_def)
  ultimately show ?thesis
    by (simp add: finish_reports_def is_finish_def [abs_def] finish_mark_def split: option.split)
qed

text \<open>
  Completed, failed and cancelled are final: no later event, and no sequence of events,
  changes anything recorded of a finished prompt.
\<close>

theorem finished_prompt_final:
  assumes "wf_reachable p" and "bt_get (wf_intents p) cid = Some i"
    and "pi_state i \<in> {Completed, Failed, Cancelled}"
  shows "bt_get (wf_intents (snd (wf_run ops p))) cid = Some i"
  using finished_run [OF reachable_inv [OF assms(1)] assms(2)] assms(3)
  by (simp add: wf_run_state finished_def)

text \<open>
  An interactive request is claimed at most once: after a claim that succeeded, every later
  claim of the same key fails, whatever connections, registrations or resolutions come between.
\<close>

theorem request_claimed_once:
  assumes "wf_reachable p" and "claim_server_request k p = (Inr r, p')"
  shows "\<exists>e. fst (claim_server_request k (snd (wf_run ops p'))) = Inl e"
proof -
  have "claim_succeeds k p" and p': "p' = snd (claim_server_request k p)"
    using assms(2) by (simp_all add: claim_succeeds_def)
  with claim.taken_once [OF reachable_inv [OF assms(1)], of k ops]
  have "\<not> claim_succeeds k (snd (wf_run ops p'))" by (simp add: wf_run_state)
  then show ?thesis by (auto simp: claim_succeeds_def is_ok_def split: sum.splits)
qed

text \<open>
  C37. Reconnecting under a new connection generation leaves nothing of the old connection in
  flight: requests of the old generation are retired, and exactly those that were still open are
  announced; no prompt is still being submitted; and every conversation with an unfinished
  prompt is reconciled.
\<close>

theorem reconnect_reconciles:
  assumes "wf_reachable p" and "wf_generation p \<noteq> Some g"
    and "observe_connection g True p = (Inr effs, p')"
  shows "wf_generation p' = Some g
    \<and> (\<forall>k r. bt_get (wf_requests p') k = Some r \<longrightarrow>
         psr_generation r = g \<or> psr_state r \<in> {Resolved, Retired})
    \<and> (\<forall>k. RetireServerRequest k \<in> set effs \<longleftrightarrow> (\<exists>r. bt_get (wf_requests p) k = Some r
         \<and> psr_generation r \<noteq> g \<and> psr_state r \<notin> {Resolved, Retired}))
    \<and> (\<forall>cid i. bt_get (wf_intents p') cid = Some i \<longrightarrow> pi_state i \<noteq> Submitting
         \<and> (pi_state i \<notin> {Completed, Failed, Cancelled} \<longrightarrow>
              ReconcileThread (pi_scope i) \<in> set effs))"
proof (intro conjI allI)
  have inv: "wf_inv p" using assms(1) by (rule reachable_inv)
  then have reqs: "bt_ok (wf_requests p)" and keys: "\<And>k r. bt_get (wf_requests p) k = Some r \<Longrightarrow> psr_key r = k"
    by (simp_all add: wf_inv_def)
  have eqs: "effs = map (\<lambda>r. RetireServerRequest (psr_key r)) (filter (retirable g) (bt_values (wf_requests p)))
       @ map ReconcileThread (bs_extend (bt_keys (wf_queues p)) (bs_extend (map pi_scope
           (filter needs_reconcile (bt_values (bt_map make_uncertain (wf_intents p))))) []))"
    and p': "wf_generation p' = Some g" "wf_intents p' = bt_map make_uncertain (wf_intents p)"
      "wf_requests p' = bt_map (\<lambda>r. if retirable g r then r\<lparr>psr_state := Retired\<rparr> else r) (wf_requests p)"
    using assms(2,3) by (auto simp: observe_connection_def Let_def split: option.splits)
  show "wf_generation p' = Some g" by fact
  show "bt_get (wf_requests p') k = Some r \<longrightarrow>
      psr_generation r = g \<or> psr_state r \<in> {Resolved, Retired}" for k r
  proof
    assume "bt_get (wf_requests p') k = Some r"
    then obtain r0 where "r = (if retirable g r0 then r0\<lparr>psr_state := Retired\<rparr> else r0)"
      unfolding p' by (auto simp only: bt_get_map map_option_eq_Some)
    then show "psr_generation r = g \<or> psr_state r \<in> {Resolved, Retired}"
      by (cases "psr_state r0") (auto simp: retirable_def split: if_splits)
  qed
  show "RetireServerRequest k \<in> set effs \<longleftrightarrow> (\<exists>r. bt_get (wf_requests p) k = Some r
      \<and> psr_generation r \<noteq> g \<and> psr_state r \<notin> {Resolved, Retired})" for k
  proof -
    have open_iff: "retirable g r \<longleftrightarrow> psr_generation r \<noteq> g \<and> psr_state r \<notin> {Resolved, Retired}" for r
      by (cases "psr_state r") (auto simp: retirable_def)
    have "RetireServerRequest k \<in> RetireServerRequest ` K \<union> ReconcileThread ` S \<longleftrightarrow> k \<in> K"
      for K S by auto
    moreover have "set effs = RetireServerRequest ` psr_key ` {r \<in> set (bt_values (wf_requests p)). retirable g r}
       \<union> ReconcileThread ` set (bs_extend (bt_keys (wf_queues p)) (bs_extend (map pi_scope
           (filter needs_reconcile (bt_values (bt_map make_uncertain (wf_intents p))))) []))"
      unfolding eqs by (simp add: image_image)
    ultimately have "RetireServerRequest k \<in> set effs \<longleftrightarrow>
        (\<exists>r \<in> set (bt_values (wf_requests p)). retirable g r \<and> psr_key r = k)"
      by (simp only:) blast
    also have "\<dots> \<longleftrightarrow> (\<exists>r. bt_get (wf_requests p) k = Some r \<and> retirable g r)"
      using keys by (metis bt_values_iff [OF reqs])
    finally show ?thesis by (simp only: open_iff)
  qed
  have ok: "bt_ok (wf_intents p')" using inv by (simp add: p' wf_inv_def)
  show "bt_get (wf_intents p') cid = Some i \<longrightarrow> pi_state i \<noteq> Submitting
      \<and> (pi_state i \<notin> {Completed, Failed, Cancelled} \<longrightarrow> ReconcileThread (pi_scope i) \<in> set effs)" for cid i
  proof (intro impI conjI)
    assume i: "bt_get (wf_intents p') cid = Some i"
    then show "pi_state i \<noteq> Submitting" by (auto simp: p')
    assume "pi_state i \<notin> {Completed, Failed, Cancelled}"
    then have "needs_reconcile i" by (auto simp: needs_reconcile_def terminal_iff finished_def)
    moreover have "i \<in> set (bt_values (wf_intents p'))"
      using bt_get_in_set [OF i] by (force simp: bt_values_def)
    ultimately show "ReconcileThread (pi_scope i) \<in> set effs" by (auto simp: eqs p')
  qed
qed

theorem reconnect_reconciles_witness:
  "wf_generation (snd (observe_connection 2 True demo)) = Some 2
   \<and> RetireServerRequest ''k'' \<in> set [RetireServerRequest ''k'', ReconcileThread (scope_legacy ''t'')]"
proof -
  have e: "fst (observe_connection 2 True demo)
      = Inr [RetireServerRequest ''k'', ReconcileThread (scope_legacy ''t'')]" by code_simp
  have "observe_connection 2 True demo = (Inr [RetireServerRequest ''k'',
      ReconcileThread (scope_legacy ''t'')], snd (observe_connection 2 True demo))"
    by (simp add: prod_eq_iff e)
  from reconnect_reconciles [OF demo_reachable(1) _ this] show ?thesis
    by (simp add: demo_facts)
qed

text \<open>
  Dispatch never fails and never reorders. In a reachable state it returns a prompt exactly
  when the head of the conversation's queue is waiting; that prompt becomes the one being
  submitted, and no queue and no other prompt changes.
\<close>

theorem dispatch_is_fifo:
  assumes "wf_reachable p"
  shows "case queued_client_message_ids s p of
      [] \<Rightarrow> begin_dispatch s p = (Inr None, p)
    | cid # _ \<Rightarrow> (\<exists>i. bt_get (wf_intents p) cid = Some i \<and> pi_scope i = s
        \<and> begin_dispatch s p =
          (if pi_state i = Queued
           then (Inr (Some (i\<lparr>pi_state := Submitting\<rparr>)),
             p\<lparr>wf_intents := bt_insert cid (i\<lparr>pi_state := Submitting\<rparr>) (wf_intents p)\<rparr>)
           else (Inr None, p)))"
proof (cases "queued_client_message_ids s p")
  case (Cons cid q)
  have "queue_ok p s (queued_client_message_ids s p)"
    using reachable_inv [OF assms] by (simp add: wf_inv_def)
  with Cons obtain i where "bt_get (wf_intents p) cid = Some i" "pi_scope i = s"
    by (auto simp: queue_ok_def)
  with Cons show ?thesis
    by (simp add: begin_dispatch_def transition_prompt_def valid_transition_def put_intent_def)
qed (simp add: begin_dispatch_def)

theorem dispatch_is_fifo_witness:
  "begin_dispatch (scope_legacy ''t'') demo_done = (Inr (Some (demo_intent ''b'' Submitting None)),
     demo_done\<lparr>wf_intents := bt_insert ''b'' (demo_intent ''b'' Submitting None) (wf_intents demo_done)\<rparr>)"
proof -
  have "bt_get (wf_intents demo_done) ''b'' = Some (demo_intent ''b'' Queued None)" by code_simp
  with dispatch_is_fifo [OF demo_reachable(2), of "scope_legacy ''t''"] show ?thesis
    by (simp add: demo_facts) (simp add: demo_intent_def)
qed

text \<open>
  A message id names one prompt. Creating it again for the same conversation returns the
  prompt as it stands and changes nothing; creating it for another conversation is refused and
  changes nothing; a new id starts as received, outside every queue.
\<close>

theorem create_prompt_idempotent:
  assumes "wf_reachable p" and "\<not> is_blank cid" and "\<not> is_blank (ws_thread_id s)"
  shows "create_prompt cid s p = (case bt_get (wf_intents p) cid of
      Some i \<Rightarrow> if pi_scope i = s then (Inr i, p) else (Inl (IntentCollision cid), p)
    | None \<Rightarrow> (Inr \<lparr>pi_client_message_id = cid, pi_scope = s, pi_state = Received, pi_turn_id = None\<rparr>,
        p\<lparr>wf_intents := bt_insert cid \<lparr>pi_client_message_id = cid, pi_scope = s, pi_state = Received,
          pi_turn_id = None\<rparr> (wf_intents p)\<rparr>))
    \<and> (bt_get (wf_intents p) cid = None \<longrightarrow> (\<forall>s'. cid \<notin> set (queued_client_message_ids s' p)))"
proof
  show "bt_get (wf_intents p) cid = None \<longrightarrow> (\<forall>s'. cid \<notin> set (queued_client_message_ids s' p))"
  proof (intro impI allI notI)
    fix s' assume "bt_get (wf_intents p) cid = None" "cid \<in> set (queued_client_message_ids s' p)"
    moreover have "queue_ok p s' (queued_client_message_ids s' p)"
      using reachable_inv [OF assms(1)] by (simp add: wf_inv_def)
    ultimately show False by (auto simp: queue_ok_def)
  qed
qed (use assms in \<open>simp add: create_prompt_def validate_scope_def put_intent_def Let_def
    split: option.split\<close>)

theorem create_prompt_idempotent_witness:
  "create_prompt ''a'' (scope_legacy ''t'') demo = (Inr (demo_intent ''a'' Submitting None), demo)
   \<and> fst (create_prompt ''a'' (scope_legacy ''u'') demo) = Inl (IntentCollision ''a'')"
proof -
  have "\<not> is_blank ''a''" "\<not> is_blank (ws_thread_id (scope_legacy ''t''))"
    "\<not> is_blank (ws_thread_id (scope_legacy ''u''))" by code_simp+
  with create_prompt_idempotent [OF demo_reachable(1), of "''a''" "scope_legacy ''t''"]
    create_prompt_idempotent [OF demo_reachable(1), of "''a''" "scope_legacy ''u''"]
  show ?thesis by (simp add: demo_facts) (simp add: demo_intent_def scope_legacy_def)
qed

text \<open>
  A prompt whose delivery was unknown and then turns out absent goes back to waiting and its
  conversation is told to retry; a prompt that had not been queued before is in no queue
  afterwards either, so no dispatch returns it until it is queued again.
\<close>

theorem absent_delivery_requeues_in_place:
  assumes "wf_reachable p" and "bt_get (wf_intents p) cid = Some i"
    and "pi_state i \<in> {Received, AwaitingChoice, Queued, Submitting, Uncertain}"
  shows "let r = wf_run [OpDelivery cid Unknown, OpDelivery cid Absent] p in
      fst r = [ReconcileThread (pi_scope i), RetryQueue (pi_scope i)]
    \<and> bt_get (wf_intents (snd r)) cid = Some (i\<lparr>pi_state := Queued\<rparr>)
    \<and> wf_queues (snd r) = wf_queues p"
  using assms(2,3)
  by (cases "pi_state i") (simp_all add: Let_def observe_delivery_def ok_effects_def is_terminal_def)

theorem absent_delivery_requeues_in_place_witness:
  "let p = snd (wf_run [OpCreate ''c'' (scope_legacy ''x'')] demo);
       r = wf_run [OpDelivery ''c'' Unknown, OpDelivery ''c'' Absent] p in
     fst r = [ReconcileThread (scope_legacy ''x''), RetryQueue (scope_legacy ''x'')]
   \<and> wf_queues (snd r) = wf_queues p"
proof -
  have "bt_get (wf_intents (snd (wf_run [OpCreate ''c'' (scope_legacy ''x'')] demo))) ''c''
      = Some \<lparr>pi_client_message_id = ''c'', pi_scope = scope_legacy ''x'', pi_state = Received,
          pi_turn_id = None\<rparr>" by code_simp
  from absent_delivery_requeues_in_place [OF reachable_run [OF demo_reachable(1)] this]
  show ?thesis by (simp add: Let_def)
qed

theorem queue_entries_live_witness:
  "distinct (queued_client_message_ids (scope_legacy ''t'') demo)"
  using queue_entries_live [OF demo_reachable(1), of "''a''" "scope_legacy ''t''"]
  by (simp add: demo_facts)

theorem one_submission_per_scope_witness:
  "\<exists>q. queued_client_message_ids (scope_legacy ''t'') demo = ''a'' # q"
  using one_submission_per_scope [OF demo_reachable(1) demo_facts(2) _ demo_facts(2)]
  by (simp add: demo_intent_def)

theorem finished_prompt_final_witness:
  "bt_get (wf_intents (snd (wf_run [OpStarted ''a'' ''v'', OpQueue ''a''] demo_done))) ''a''
     = Some (demo_intent ''a'' Failed (Some ''u''))"
  by (rule finished_prompt_final [OF demo_reachable(2) demo_facts(3)]) (simp add: demo_intent_def)

theorem request_claimed_once_witness:
  "\<exists>e. fst (claim_server_request ''k''
     (snd (wf_run [OpRegister demo_request] (snd (claim_server_request ''k'' demo))))) = Inl e"
proof -
  have "fst (claim_server_request ''k'' demo) = Inr (demo_request\<lparr>psr_state := Claimed\<rparr>)"
    by code_simp
  then have "claim_server_request ''k'' demo = (Inr (demo_request\<lparr>psr_state := Claimed\<rparr>),
      snd (claim_server_request ''k'' demo))" by (simp add: prod_eq_iff)
  from request_claimed_once [OF demo_reachable(1) this] show ?thesis .
qed

end
