(* ===== verification/Sql.thy ===== *)
theory Sql
  imports Contracts
begin

text \<open>
  What the SQLite adapter uses of SQL. A table is the list of its rows in the order of their
  insertion. An \<open>UPDATE .. WHERE\<close> is \<open>update_where\<close> and its change count \<open>count_where\<close>; a
  \<open>SELECT\<close> read with \<open>query_row\<close> is \<open>first_where\<close>; \<open>INSERT .. ON CONFLICT(key) DO UPDATE\<close> is
  \<open>upsert\<close>; \<open>ORDER BY .. LIMIT\<close> is \<open>take n (sort_key k rows)\<close>. A nullable column is an option.
  A transaction is a function on the tables, so an error returns them unchanged.

  The lock of the connection and I/O failures are left out: an operation runs alone and either
  reports one of the errors below or commits.
\<close>

section \<open>Errors of the ports\<close>

datatype port_error =
    NotFound string
  | Conflict string
  | Denied string
  | Adapter string

type_synonym 'a port_result = "port_error + 'a"

text \<open>\<open>sql_error\<close> on the three failures of SQLite a statement of this adapter can meet.\<close>

datatype sqlite_failure =
    UniqueFailed string
  | ForeignKeyFailed
  | RealInIntegerColumn string

definition sqlite_message :: "sqlite_failure \<Rightarrow> string" where
  "sqlite_message f = (case f of
     UniqueFailed cols \<Rightarrow> ''UNIQUE constraint failed: '' @ cols
   | ForeignKeyFailed \<Rightarrow> ''FOREIGN KEY constraint failed''
   | RealInIntegerColumn col \<Rightarrow> ''cannot store REAL value in INTEGER column '' @ col)"

definition sql_error :: "sqlite_failure \<Rightarrow> port_error" where
  "sql_error f = (case f of
     UniqueFailed _ \<Rightarrow> Conflict (sqlite_message f)
   | _ \<Rightarrow> Adapter (sqlite_message f))"

text \<open>A column whose text does not convert: \<open>FromSqlConversionFailure\<close>, then \<open>sql_error\<close>.\<close>

definition conversion_error :: "string \<Rightarrow> string \<Rightarrow> port_error" where
  "conversion_error index e =
     Adapter (''Conversion error from type Text at index: '' @ index @ '', '' @ e)"

text \<open>A serializer of the \<open>serde_json\<close> crate: a text, or the message of its error.\<close>

type_synonym 'a serializer = "'a \<Rightarrow> string + string"
type_synonym 'a deserializer = "string \<Rightarrow> string + 'a"

section \<open>Statements\<close>

definition first_where :: "('r \<Rightarrow> bool) \<Rightarrow> 'r list \<Rightarrow> 'r option" where
  "first_where P rows = List.find P rows"

definition update_where :: "('r \<Rightarrow> bool) \<Rightarrow> ('r \<Rightarrow> 'r) \<Rightarrow> 'r list \<Rightarrow> 'r list" where
  "update_where P f rows = map (\<lambda>r. if P r then f r else r) rows"

definition count_where :: "('r \<Rightarrow> bool) \<Rightarrow> 'r list \<Rightarrow> nat" where
  "count_where P rows = length (filter P rows)"

definition delete_where :: "('r \<Rightarrow> bool) \<Rightarrow> 'r list \<Rightarrow> 'r list" where
  "delete_where P rows = filter (\<lambda>r. \<not> P r) rows"

definition exists_where :: "('r \<Rightarrow> bool) \<Rightarrow> 'r list \<Rightarrow> bool" where
  "exists_where P rows \<longleftrightarrow> list_ex P rows"

text \<open>\<open>same\<close> tells the rows with the key of the new one, \<open>merge\<close> is the \<open>DO UPDATE SET\<close>.\<close>

definition upsert :: "('r \<Rightarrow> bool) \<Rightarrow> 'r \<Rightarrow> ('r \<Rightarrow> 'r) \<Rightarrow> 'r list \<Rightarrow> 'r list" where
  "upsert same new merge rows =
     (if exists_where same rows then update_where same merge rows else rows @ [new])"

text \<open>\<open>column IS NULL OR column <= bound\<close>.\<close>

definition null_or_le :: "i64 option \<Rightarrow> i64 \<Rightarrow> bool" where
  "null_or_le c b = (case c of None \<Rightarrow> True | Some t \<Rightarrow> t \<le> b)"

text \<open>\<open>COALESCE(a, b)\<close> is \<open>or_else a b\<close>. An integer sum stored in an INTEGER column.\<close>

definition stored_int :: "string \<Rightarrow> int \<Rightarrow> i64 port_result" where
  "stored_int col x = (if in_i64 x then Inr x else Inl (sql_error (RealInIntegerColumn col)))"

definition is_nil :: "'a option \<Rightarrow> bool" where
  "is_nil c = (case c of None \<Rightarrow> True | Some _ \<Rightarrow> False)"

section \<open>Laws\<close>

lemma is_nil_iff [simp]: "is_nil c \<longleftrightarrow> c = None"
  by (cases c) (simp_all add: is_nil_def)

lemma null_or_le_simps [simp]: "null_or_le None b" "null_or_le (Some t) b \<longleftrightarrow> t \<le> b"
  by (simp_all add: null_or_le_def)

lemma first_where_Nil [simp]: "first_where P [] = None"
  by (simp add: first_where_def)

lemma first_where_Cons [simp]:
  "first_where P (r # rows) = (if P r then Some r else first_where P rows)"
  by (simp add: first_where_def)

lemma first_where_append: "first_where P (xs @ ys) =
    (case first_where P xs of None \<Rightarrow> first_where P ys | Some r \<Rightarrow> Some r)"
  by (induction xs) simp_all

lemma first_where_None: "first_where P rows = None \<longleftrightarrow> (\<forall>r \<in> set rows. \<not> P r)"
  by (induction rows) auto

lemma first_where_SomeD: "first_where P rows = Some r \<Longrightarrow> r \<in> set rows \<and> P r"
  by (induction rows) (auto split: if_splits)

lemma first_where_cong: "(\<And>r. r \<in> set rows \<Longrightarrow> P r = Q r) \<Longrightarrow> first_where P rows = first_where Q rows"
  by (induction rows) auto

lemma first_where_unique:
  assumes "distinct (map k rows)" and "r \<in> set rows" and "k r = x"
  shows "first_where (\<lambda>r. k r = x) rows = Some r"
  using assms by (induction rows) force+

lemma first_where_key_iff:
  assumes "distinct (map k rows)"
  shows "first_where (\<lambda>r. k r = x \<and> P r) rows = Some r \<longleftrightarrow> r \<in> set rows \<and> k r = x \<and> P r"
  using assms by (induction rows) (auto split: if_splits)

lemma first_where_key_cases:
  assumes "distinct (map k rows)"
  shows "first_where (\<lambda>r. k r = x \<and> P r) rows =
    filter_opt P (first_where (\<lambda>r. k r = x) rows)"
  using assms
proof (induction rows)
  case (Cons r rows)
  show ?case
  proof (cases "k r = x")
    case True
    with Cons.prems have "first_where (\<lambda>r. k r = x \<and> P r) rows = None"
      by (auto simp: first_where_None) (metis image_eqI)
    with True show ?thesis by (simp add: filter_opt_def)
  qed (use Cons in simp)
qed (simp add: filter_opt_def)

lemma count_where_0: "count_where P rows = 0 \<longleftrightarrow> (\<forall>r \<in> set rows. \<not> P r)"
  by (auto simp: count_where_def filter_empty_conv)

lemma count_where_first: "count_where P rows = 0 \<longleftrightarrow> first_where P rows = None"
  by (simp add: count_where_0 first_where_None)

lemma count_where_key:
  assumes "distinct (map k rows)"
  shows "count_where (\<lambda>r. k r = x \<and> P r) rows =
    (case first_where (\<lambda>r. k r = x \<and> P r) rows of None \<Rightarrow> 0 | Some _ \<Rightarrow> 1)"
  using assms
proof (induction rows)
  case (Cons r rows)
  have "count_where (\<lambda>r. k r = x \<and> P r) rows = 0" if "k r = x"
    using Cons.prems that by (auto simp: count_where_0) (metis image_eqI)
  with Cons show ?case by (auto simp: count_where_def)
qed (simp add: count_where_def)

lemma count_where_key1:
  assumes "distinct (map k rows)"
  shows "count_where (\<lambda>r. k r = x) rows = (case first_where (\<lambda>r. k r = x) rows of None \<Rightarrow> 0 | Some _ \<Rightarrow> 1)"
  using count_where_key [OF assms, of x "\<lambda>_. True"] by simp

lemma update_where_keys:
  assumes "\<And>r. P r \<Longrightarrow> k (f r) = k r"
  shows "map k (update_where P f rows) = map k rows"
  using assms by (simp add: update_where_def)

lemma update_where_Nil [simp]: "update_where P f [] = []"
  by (simp add: update_where_def)

lemma update_where_Cons [simp]:
  "update_where P f (r # rows) = (if P r then f r else r) # update_where P f rows"
  by (simp add: update_where_def)

lemma update_where_id: "(\<And>r. r \<in> set rows \<Longrightarrow> \<not> P r) \<Longrightarrow> update_where P f rows = rows"
  by (simp add: update_where_def map_idI)

lemma set_update_where: "set (update_where P f rows) = (\<lambda>r. if P r then f r else r) ` set rows"
  by (simp add: update_where_def)

lemma update_where_misses:
  assumes "\<And>r. Q r \<Longrightarrow> P r" and "\<And>r. P r \<Longrightarrow> \<not> Q (f r)"
  shows "r \<in> set (update_where P f rows) \<Longrightarrow> \<not> Q r"
  using assms by (auto simp: update_where_def split: if_splits)

lemma update_where_inv:
  assumes "\<And>r. r \<in> set rows \<Longrightarrow> Q r" and "\<And>r. P r \<Longrightarrow> Q r \<Longrightarrow> Q (f r)"
  shows "r \<in> set (update_where P f rows) \<Longrightarrow> Q r"
  using assms by (auto simp: update_where_def split: if_splits)

lemma first_where_update:
  assumes "\<And>r. P r \<Longrightarrow> k (f r) = k r"
  shows "first_where (\<lambda>r. k r = x) (update_where P f rows)
    = map_option (\<lambda>r. if P r then f r else r) (first_where (\<lambda>r. k r = x) rows)"
  using assms by (induction rows) (auto simp: update_where_def)

lemma first_where_delete:
  "(\<And>r. k r = x \<Longrightarrow> \<not> P r) \<Longrightarrow>
    first_where (\<lambda>r. k r = x) (delete_where P rows) = first_where (\<lambda>r. k r = x) rows"
  by (induction rows) (auto simp: delete_where_def)

lemma first_where_deleted:
  "(\<And>r. k r = x \<Longrightarrow> P r) \<Longrightarrow> first_where (\<lambda>r. k r = x) (delete_where P rows) = None"
  by (auto simp: delete_where_def first_where_None)

lemma delete_where_distinct: "distinct (map k rows) \<Longrightarrow> distinct (map k (delete_where P rows))"
  by (auto simp: delete_where_def distinct_map_filter)

lemma exists_where_first: "exists_where P rows \<longleftrightarrow> first_where P rows \<noteq> None"
  by (auto simp: exists_where_def list_ex_iff first_where_None)

lemma upsert_distinct:
  assumes "distinct (map k rows)" and "\<And>r. k r = k new \<Longrightarrow> k (merge r) = k r"
  shows "distinct (map k (upsert (\<lambda>r. k r = k new) new merge rows))"
proof (cases "exists_where (\<lambda>r. k r = k new) rows")
  case True
  have "map k (update_where (\<lambda>r. k r = k new) merge rows) = map k rows"
    by (rule update_where_keys) (rule assms(2))
  with True assms(1) show ?thesis by (simp add: upsert_def)
next
  case False
  with assms(1) show ?thesis by (auto simp: upsert_def exists_where_def list_ex_iff)
qed

lemma first_where_upsert:
  assumes "\<And>r. k r = k new \<Longrightarrow> k (merge r) = k r"
  shows "first_where (\<lambda>r. k r = x) (upsert (\<lambda>r. k r = k new) new merge rows) =
    (if x = k new then Some (case first_where (\<lambda>r. k r = x) rows of None \<Rightarrow> new | Some r \<Rightarrow> merge r)
     else first_where (\<lambda>r. k r = x) rows)"
proof (cases "exists_where (\<lambda>r. k r = k new) rows")
  case True
  have upd: "first_where (\<lambda>r. k r = x) (update_where (\<lambda>r. k r = k new) merge rows)
      = map_option (\<lambda>r. if k r = k new then merge r else r) (first_where (\<lambda>r. k r = x) rows)"
    by (rule first_where_update) (rule assms)
  with True show ?thesis
    by (cases "first_where (\<lambda>r. k r = x) rows")
      (auto simp: upsert_def exists_where_first dest: first_where_SomeD)
next
  case False
  then show ?thesis
    by (auto simp: upsert_def first_where_append exists_where_first split: option.splits)
qed

lemma stored_int_Inr [simp]: "stored_int c x = Inr y \<longleftrightarrow> in_i64 x \<and> y = x"
  by (auto simp: stored_int_def)

lemma stored_int_ok [simp]: "in_i64 x \<Longrightarrow> stored_int c x = Inr x"
  by simp

lemmas sql_defs = first_where_def update_where_def count_where_def delete_where_def
  exists_where_def upsert_def

end
