(* ===== verification/TotpStore.thy ===== *)
theory TotpStore
  imports Sql
begin

text \<open>
  The durable write lock of \<open>rust/crates/storage-sqlite/src/lib.rs\<close>: the one row of
  \<open>rust_security_state\<close> and the table of recovery codes. \<open>migrate\<close> inserts the row and no
  statement deletes it, so the model holds it directly; a statement on it changes one row.
\<close>

section \<open>State\<close>

record totp_state =
  tot_last_timecode :: i64
  tot_unlocked_until_ms :: i64
  tot_force_locked :: bool
  tot_auth_epoch :: i64
  tot_failures :: i64
  tot_locked_until_ms :: i64

record recovery_code =
  rec_digest :: string
  rec_salt :: string
  rec_consumed_at_ms :: "i64 option"

record security_db =
  sec_state :: totp_state
  sec_codes :: "recovery_code list"

text \<open>The row \<open>migrate\<close> inserts: nothing used yet, locked by force.\<close>

definition security_init :: security_db where
  "security_init = \<lparr>sec_state = \<lparr>tot_last_timecode = -1, tot_unlocked_until_ms = 0,
     tot_force_locked = True, tot_auth_epoch = 0, tot_failures = 0, tot_locked_until_ms = 0\<rparr>,
     sec_codes = []\<rparr>"

section \<open>Operations\<close>

definition is_totp_unlocked :: "i64 \<Rightarrow> security_db \<Rightarrow> bool" where
  "is_totp_unlocked now db \<longleftrightarrow>
     \<not> tot_force_locked (sec_state db) \<and> now < tot_unlocked_until_ms (sec_state db)"

definition accept_totp_timecode ::
  "i64 \<Rightarrow> i64 \<Rightarrow> i64 \<Rightarrow> security_db \<Rightarrow> bool port_result \<times> security_db" where
  "accept_totp_timecode timecode now unlock_seconds db =
     (if timecode < 0 \<or> unlock_seconds \<le> 0 then (Inl (Adapter ''invalid TOTP state input''), db)
      else if timecode \<le> tot_last_timecode (sec_state db) then (Inr False, db)
      else (Inr True, db\<lparr>sec_state := (sec_state db)
        \<lparr>tot_last_timecode := timecode,
         tot_unlocked_until_ms := saturating_add now (saturating_mul unlock_seconds 1000),
         tot_force_locked := False, tot_failures := 0, tot_locked_until_ms := 0\<rparr>\<rparr>))"

definition accept_totp_timecode_for_space ::
  "i64 \<Rightarrow> security_db \<Rightarrow> bool port_result \<times> security_db" where
  "accept_totp_timecode_for_space timecode db =
     (if timecode < 0 then (Inl (Adapter ''invalid TOTP timecode''), db)
      else if timecode \<le> tot_last_timecode (sec_state db) then (Inr False, db)
      else (Inr True, db\<lparr>sec_state := (sec_state db)
        \<lparr>tot_last_timecode := timecode, tot_unlocked_until_ms := 0,
         tot_force_locked := False, tot_failures := 0, tot_locked_until_ms := 0\<rparr>\<rparr>))"

definition unlock_totp_after_recovery ::
  "i64 \<Rightarrow> i64 \<Rightarrow> security_db \<Rightarrow> bool port_result \<times> security_db" where
  "unlock_totp_after_recovery now unlock_seconds db =
     (if unlock_seconds \<le> 0 then (Inl (Adapter ''invalid TOTP unlock duration''), db)
      else (Inr True, db\<lparr>sec_state := (sec_state db)
        \<lparr>tot_unlocked_until_ms := saturating_add now (saturating_mul unlock_seconds 1000),
         tot_force_locked := False, tot_failures := 0, tot_locked_until_ms := 0\<rparr>\<rparr>))"

definition accept_recovery_for_space :: "security_db \<Rightarrow> bool port_result \<times> security_db" where
  "accept_recovery_for_space db = (Inr True, db\<lparr>sec_state := (sec_state db)
     \<lparr>tot_force_locked := False, tot_failures := 0, tot_locked_until_ms := 0\<rparr>\<rparr>)"

definition lock_totp :: "security_db \<Rightarrow> unit port_result \<times> security_db" where
  "lock_totp db =
     (case stored_int ''rust_security_state.auth_epoch'' (tot_auth_epoch (sec_state db) + 1) of
        Inl e \<Rightarrow> (Inl e, db)
      | Inr epoch \<Rightarrow> (Inr (), db\<lparr>sec_state := (sec_state db)
          \<lparr>tot_unlocked_until_ms := 0, tot_force_locked := True, tot_auth_epoch := epoch\<rparr>\<rparr>))"

definition record_totp_failure :: "i64 \<Rightarrow> security_db \<Rightarrow> i64 port_result \<times> security_db" where
  "record_totp_failure now db =
     (if now < tot_locked_until_ms (sec_state db) then (Inr (tot_failures (sec_state db)), db)
      else
        let failures = saturating_add (tot_failures (sec_state db)) 1;
            locked_until = (if 5 \<le> failures then saturating_add now 300000 else 0)
        in (Inr failures, db\<lparr>sec_state := (sec_state db)
             \<lparr>tot_failures := failures, tot_locked_until_ms := locked_until\<rparr>\<rparr>))"

fun insert_recovery_codes :: "(string \<times> string) list \<Rightarrow> recovery_code list \<Rightarrow>
    recovery_code list port_result" where
  "insert_recovery_codes [] rows = Inr rows"
| "insert_recovery_codes ((digest, salt) # entries) rows =
     (if exists_where (\<lambda>r. rec_digest r = digest) rows
      then Inl (sql_error (UniqueFailed ''rust_totp_recovery_codes.digest''))
      else insert_recovery_codes entries
        (rows @ [\<lparr>rec_digest = digest, rec_salt = salt, rec_consumed_at_ms = None\<rparr>]))"

definition replace_recovery_codes ::
  "(string \<times> string) list \<Rightarrow> security_db \<Rightarrow> unit port_result \<times> security_db" where
  "replace_recovery_codes entries db =
     (case insert_recovery_codes entries [] of
        Inl e \<Rightarrow> (Inl e, db)
      | Inr rows \<Rightarrow> (Inr (), db\<lparr>sec_codes := rows\<rparr>))"

definition unused_recovery_codes :: "security_db \<Rightarrow> (string \<times> string) list" where
  "unused_recovery_codes db =
     map (\<lambda>r. (rec_digest r, rec_salt r)) (filter (\<lambda>r. is_nil (rec_consumed_at_ms r)) (sec_codes db))"

definition consume_recovery_code ::
  "string \<Rightarrow> i64 \<Rightarrow> security_db \<Rightarrow> bool port_result \<times> security_db" where
  "consume_recovery_code digest now db =
     (let P = (\<lambda>r. rec_digest r = digest \<and> is_nil (rec_consumed_at_ms r))
      in (Inr (count_where P (sec_codes db) = 1),
          db\<lparr>sec_codes := update_where P (\<lambda>r. r\<lparr>rec_consumed_at_ms := Some now\<rparr>) (sec_codes db)\<rparr>))"

section \<open>One operation of any kind\<close>

datatype totp_op =
    TAccept i64 i64 i64
  | TAcceptSpace i64
  | TRecover i64 i64
  | TRecoverSpace
  | TLock
  | TFail i64
  | TReplaceCodes "(string \<times> string) list"
  | TConsume string i64

fun totp_step :: "totp_op \<Rightarrow> security_db \<Rightarrow> security_db" where
  "totp_step (TAccept t now secs) db = snd (accept_totp_timecode t now secs db)"
| "totp_step (TAcceptSpace t) db = snd (accept_totp_timecode_for_space t db)"
| "totp_step (TRecover now secs) db = snd (unlock_totp_after_recovery now secs db)"
| "totp_step TRecoverSpace db = snd (accept_recovery_for_space db)"
| "totp_step TLock db = snd (lock_totp db)"
| "totp_step (TFail now) db = snd (record_totp_failure now db)"
| "totp_step (TReplaceCodes entries) db = snd (replace_recovery_codes entries db)"
| "totp_step (TConsume digest now) db = snd (consume_recovery_code digest now db)"

section \<open>The invariant\<close>

text \<open>A forced lock leaves no open lease behind, counters do not run backwards below their start.\<close>

definition totp_inv :: "security_db \<Rightarrow> bool" where
  "totp_inv db \<longleftrightarrow>
     (tot_force_locked (sec_state db) \<longrightarrow> tot_unlocked_until_ms (sec_state db) = 0)
   \<and> -1 \<le> tot_last_timecode (sec_state db)
   \<and> 0 \<le> tot_auth_epoch (sec_state db) \<and> in_i64 (tot_auth_epoch (sec_state db))
   \<and> 0 \<le> tot_failures (sec_state db) \<and> in_i64 (tot_failures (sec_state db))
   \<and> (tot_failures (sec_state db) < 5 \<longrightarrow> tot_locked_until_ms (sec_state db) = 0)
   \<and> distinct (map rec_digest (sec_codes db))"

lemmas totp_defs = accept_totp_timecode_def accept_totp_timecode_for_space_def
  unlock_totp_after_recovery_def accept_recovery_for_space_def lock_totp_def
  record_totp_failure_def replace_recovery_codes_def consume_recovery_code_def

lemma in_i64_0 [simp]: "in_i64 0"
  by (simp add: in_i64_def i64_min_def i64_max_def)

lemma totp_inv_init: "totp_inv security_init"
  by (simp add: totp_inv_def security_init_def)

lemma insert_recovery_codes_distinct:
  "insert_recovery_codes entries rows = Inr rows' \<Longrightarrow> distinct (map rec_digest rows) \<Longrightarrow>
     distinct (map rec_digest rows')"
  by (induction entries rows rule: insert_recovery_codes.induct)
    (auto simp: exists_where_def list_ex_iff split: if_splits)

lemma totp_step_inv: "totp_inv db \<Longrightarrow> totp_inv (totp_step op db)"
proof (cases op)
  case (TFail now)
  assume inv: "totp_inv db"
  have "0 \<le> tot_failures (sec_state db)" using inv by (simp add: totp_inv_def)
  then have "0 \<le> saturating_add (tot_failures (sec_state db)) 1"
    by (simp add: saturating_add_def clamp_i64_def i64_min_def i64_max_def)
  with inv TFail show ?thesis
    by (auto simp: totp_inv_def record_totp_failure_def Let_def saturating_add_def)
next
  case (TReplaceCodes entries)
  then show "totp_inv db \<Longrightarrow> ?thesis"
    by (auto simp: totp_inv_def replace_recovery_codes_def split: sum.splits
        dest: insert_recovery_codes_distinct)
next
  case (TConsume digest now)
  then show "totp_inv db \<Longrightarrow> ?thesis"
    by (simp add: totp_inv_def consume_recovery_code_def Let_def update_where_keys)
qed (auto simp: totp_inv_def totp_defs split: sum.splits)

interpretation totp: machine totp_step totp_inv
  by unfold_locales (rule totp_step_inv)

section \<open>Tokens\<close>

definition accepts :: "i64 \<Rightarrow> security_db \<Rightarrow> bool" where
  "accepts t db \<longleftrightarrow> 0 \<le> t \<and> tot_last_timecode (sec_state db) < t"

lemma accept_iff:
  "fst (accept_totp_timecode t now secs db) = Inr True \<longleftrightarrow> accepts t db \<and> 0 < secs"
  "fst (accept_totp_timecode_for_space t db) = Inr True \<longleftrightarrow> accepts t db"
  by (auto simp: accept_totp_timecode_def accept_totp_timecode_for_space_def accepts_def)

lemma last_timecode_mono:
  "totp_inv db \<Longrightarrow> tot_last_timecode (sec_state db) \<le> tot_last_timecode (sec_state (totp_step op db))"
  by (cases op) (auto simp: totp_defs Let_def split: sum.splits)

lemma last_timecode_run:
  "totp_inv db \<Longrightarrow>
     tot_last_timecode (sec_state db) \<le> tot_last_timecode (sec_state (fold totp_step ops db))"
  by (rule totp.run_monotone [where m = "\<lambda>db. tot_last_timecode (sec_state db)"])
    (rule last_timecode_mono)

interpretation timecode: one_shot totp_step totp_inv
  "\<lambda>t db. t \<le> tot_last_timecode (sec_state db)" accepts
  "\<lambda>t db. snd (accept_totp_timecode_for_space t db)"
proof unfold_locales
  show "totp_inv db \<Longrightarrow> totp_inv (snd (accept_totp_timecode_for_space k db))" for k db
    using totp_step_inv [of db "TAcceptSpace k"] by simp
  show "totp_inv db \<Longrightarrow> k \<le> tot_last_timecode (sec_state db) \<Longrightarrow>
      k \<le> tot_last_timecode (sec_state (totp_step op db))" for k db op
    using last_timecode_mono [of db op] by simp
qed (auto simp: accepts_def accept_totp_timecode_for_space_def)

definition code_live :: "string \<Rightarrow> security_db \<Rightarrow> bool" where
  "code_live d db \<longleftrightarrow> (\<exists>r \<in> set (sec_codes db). rec_digest r = d \<and> rec_consumed_at_ms r = None)"

lemma consume_iff:
  assumes "totp_inv db"
  shows "fst (consume_recovery_code d now db) = Inr True \<longleftrightarrow> code_live d db"
proof -
  have dist: "distinct (map rec_digest (sec_codes db))" using assms by (simp add: totp_inv_def)
  have "count_where (\<lambda>r. rec_digest r = d \<and> is_nil (rec_consumed_at_ms r)) (sec_codes db) = 1 \<longleftrightarrow>
      first_where (\<lambda>r. rec_digest r = d \<and> is_nil (rec_consumed_at_ms r)) (sec_codes db) \<noteq> None"
    unfolding count_where_key [OF dist] by (simp split: option.split)
  also have "\<dots> \<longleftrightarrow> code_live d db"
    by (simp only: first_where_None code_live_def is_nil_iff) blast
  finally show ?thesis by (simp add: consume_recovery_code_def Let_def)
qed

lemma consume_dead: "\<not> code_live d (snd (consume_recovery_code d now db))"
proof -
  let ?P = "\<lambda>r. rec_digest r = d \<and> is_nil (rec_consumed_at_ms r)"
  have "\<not> ?P r" if "r \<in> set (update_where ?P (\<lambda>r. r\<lparr>rec_consumed_at_ms := Some now\<rparr>) (sec_codes db))" for r
    using that by (rule update_where_misses [rotated 2]) simp_all
  then show ?thesis by (simp add: code_live_def consume_recovery_code_def Let_def)
qed

end
