(* ===== verification/Security.thy ===== *)
theory Security
  imports TotpStore RustText "HOL-Library.Word"
begin

unbundle bit_operations_syntax

text \<open>
  \<open>TotpManager\<close> of \<open>rust/crates/cli/src/security.rs\<close>: one-time passwords, recovery codes, the
  durable write lock and the leases of the sessions in memory. The hash functions and the base32
  and hexadecimal decoders are other packages: the record \<open>crypto\<close> holds them. What \<open>read_secret\<close>
  sees of the secret's file is the record \<open>secret_file\<close>.
\<close>

section \<open>One-time passwords\<close>

record crypto =
  cr_sha1 :: "string \<Rightarrow> string"
  cr_sha256_hex :: "string \<Rightarrow> string"
  cr_base32 :: "string \<Rightarrow> string option"
  cr_hexlower :: "string \<Rightarrow> string option"

definition xor_byte :: "nat \<Rightarrow> char \<Rightarrow> char" where
  "xor_byte k c = char_of (byte c XOR k)"

definition hmac_block :: "crypto \<Rightarrow> string \<Rightarrow> string" where
  "hmac_block cr key =
     (let k = (if 64 < length key then cr_sha1 cr key else key)
      in k @ replicate (64 - length k) (char_of (0::nat)))"

definition hmac_sha1 :: "crypto \<Rightarrow> string \<Rightarrow> string \<Rightarrow> string" where
  "hmac_sha1 cr key message =
     (let block = hmac_block cr key;
          inner = map (xor_byte 0x36) block @ message;
          outer = map (xor_byte 0x5c) block @ cr_sha1 cr inner
      in cr_sha1 cr outer)"

text \<open>\<open>u64::to_be_bytes\<close>\<close>

definition be64 :: "nat \<Rightarrow> string" where
  "be64 n = map (\<lambda>i. char_of (n div 256 ^ (7 - i) mod 256)) [0..<8]"

definition u32_of :: "char \<Rightarrow> 32 word" where
  "u32_of c = word_of_nat (byte c)"

definition hotp :: "crypto \<Rightarrow> string \<Rightarrow> nat \<Rightarrow> string" where
  "hotp cr key counter =
     (let digest = hmac_sha1 cr key (be64 counter);
          offset = byte (digest ! 19) AND 0x0f;
          binary = push_bit 24 (u32_of (digest ! offset) AND 0x7f)
            OR push_bit 16 (u32_of (digest ! (offset + 1)))
            OR push_bit 8 (u32_of (digest ! (offset + 2)))
            OR u32_of (digest ! (offset + 3))
      in show_padded 6 (unat binary mod 10 ^ 6))"

section \<open>Errors and the secret\<close>

datatype totp_error =
    SecretUnavailable
  | UnsafeSecret
  | InvalidCode
  | State string

text \<open>\<open>PortError\<close>'s \<open>Display\<close>\<close>

definition port_error_display :: "port_error \<Rightarrow> string" where
  "port_error_display e = (case e of
     NotFound m \<Rightarrow> ''not found: '' @ m
   | Conflict m \<Rightarrow> ''conflict: '' @ m
   | Denied m \<Rightarrow> ''policy denied: '' @ m
   | Adapter m \<Rightarrow> ''adapter failure: '' @ m)"

definition state_error :: "port_error \<Rightarrow> totp_error" where
  "state_error e = State (port_error_display e)"

record secret_file =
  sf_regular :: bool
  sf_mode :: nat
  sf_uid :: nat
  sf_payload :: string

definition read_secret_file :: "string \<Rightarrow> totp_error + string" where
  "read_secret_file contents =
     (let payload = take 257 contents in
      if 256 < length payload then Inl SecretUnavailable
      else if \<not> utf8_valid payload then Inl SecretUnavailable
      else if is_blank payload then Inl SecretUnavailable
      else Inr (trim payload))"

text \<open>
  \<open>None\<close>: the file does not open without following a link. The mask 63 is the octal 077: no
  permission for group or others.
\<close>

definition read_secret :: "nat \<Rightarrow> secret_file option \<Rightarrow> totp_error + string" where
  "read_secret uid file = (case file of
     None \<Rightarrow> Inl SecretUnavailable
   | Some f \<Rightarrow>
       if \<not> sf_regular f \<or> sf_mode f AND 63 \<noteq> 0 \<or> (sf_uid f \<noteq> uid \<and> sf_uid f \<noteq> 0)
       then Inl UnsafeSecret
       else read_secret_file (sf_payload f))"

section \<open>Recovery codes\<close>

definition recovery_format :: "string \<Rightarrow> bool" where
  "recovery_format s \<longleftrightarrow> length s = 13 \<and> s ! 6 = CHR ''-''
     \<and> list_all (\<lambda>(i, c). i = 6 \<or> is_hexdigit c) (zip [0..<length s] s)"

definition recovery_matches :: "crypto \<Rightarrow> string \<Rightarrow> string \<times> string \<Rightarrow> bool" where
  "recovery_matches cr normalized entry = (case cr_hexlower cr (snd entry) of
     None \<Rightarrow> False
   | Some salt \<Rightarrow> cr_sha256_hex cr (salt @ normalized) = fst entry)"

fun try_codes :: "crypto \<Rightarrow> string \<Rightarrow> i64 \<Rightarrow> (string \<times> string) list \<Rightarrow> security_db \<Rightarrow>
    (totp_error + bool) \<times> security_db" where
  "try_codes cr normalized now [] db = (Inr False, db)"
| "try_codes cr normalized now (entry # entries) db =
     (if recovery_matches cr normalized entry
      then (case consume_recovery_code (fst entry) now db of
          (Inl e, db1) \<Rightarrow> (Inl (state_error e), db1)
        | (Inr consumed, db1) \<Rightarrow>
            if consumed then (Inr True, db1) else try_codes cr normalized now entries db1)
      else try_codes cr normalized now entries db)"

definition verify_recovery_code ::
  "crypto \<Rightarrow> string \<Rightarrow> i64 \<Rightarrow> security_db \<Rightarrow> (totp_error + bool) \<times> security_db" where
  "verify_recovery_code cr value now db =
     (let normalized = to_ascii_uppercase (trim value) in
      if \<not> recovery_format normalized then (Inr False, db)
      else try_codes cr normalized now (unused_recovery_codes db) db)"

section \<open>The manager\<close>

record totp_manager =
  mgr_db :: security_db
  mgr_unlock_seconds :: i64
  mgr_leases :: "string \<Rightarrow> (i64 \<times> i64) option"

definition totp_manager_new :: "security_db \<Rightarrow> u64 \<Rightarrow> totp_manager" where
  "totp_manager_new db unlock_seconds =
     \<lparr>mgr_db = db,
      mgr_unlock_seconds = (if int unlock_seconds \<le> i64_max then int unlock_seconds else i64_max),
      mgr_leases = (\<lambda>_. None)\<rparr>"

definition is_unlocked :: "i64 \<Rightarrow> totp_manager \<Rightarrow> bool" where
  "is_unlocked now m = is_totp_unlocked now (mgr_db m)"

definition mgr_lock :: "totp_manager \<Rightarrow> (totp_error + unit) \<times> totp_manager" where
  "mgr_lock m =
     (case lock_totp (mgr_db m) of
        (Inl e, db) \<Rightarrow> (Inl (state_error e), m\<lparr>mgr_leases := (\<lambda>_. None), mgr_db := db\<rparr>)
      | (Inr _, db) \<Rightarrow> (Inr (), m\<lparr>mgr_leases := (\<lambda>_. None), mgr_db := db\<rparr>))"

definition lock_space :: "string \<Rightarrow> totp_manager \<Rightarrow> totp_manager" where
  "lock_space sid m =
     (if is_blank sid then m else m\<lparr>mgr_leases := (mgr_leases m)(sid := None)\<rparr>)"

definition is_unlocked_for_space :: "string \<Rightarrow> i64 \<Rightarrow> totp_manager \<Rightarrow> bool \<times> totp_manager" where
  "is_unlocked_for_space sid now m =
     (if is_blank sid then (is_unlocked now m, m)
      else if tot_force_locked (sec_state (mgr_db m)) then (False, m)
      else case mgr_leases m sid of
        None \<Rightarrow> (False, m)
      | Some (until, epoch) \<Rightarrow>
          if epoch \<noteq> tot_auth_epoch (sec_state (mgr_db m)) \<or> until \<le> now
          then (False, m\<lparr>mgr_leases := (mgr_leases m)(sid := None)\<rparr>)
          else (True, m))"

definition space_unlock_remaining_ms :: "string \<Rightarrow> i64 \<Rightarrow> totp_manager \<Rightarrow> i64 \<times> totp_manager" where
  "space_unlock_remaining_ms sid now m =
     (let st = sec_state (mgr_db m) in
      if is_blank sid
      then (max 0 (if tot_force_locked st then 0
              else saturating_sub (tot_unlocked_until_ms st) now), m)
      else if tot_force_locked st then (0, m)
      else case mgr_leases m sid of
        None \<Rightarrow> (0, m)
      | Some (until, epoch) \<Rightarrow>
          if epoch \<noteq> tot_auth_epoch st \<or> until \<le> now
          then (0, m\<lparr>mgr_leases := (mgr_leases m)(sid := None)\<rparr>)
          else (saturating_sub until now, m))"

definition space_unlock_expires_at_ms ::
  "string \<Rightarrow> totp_manager \<Rightarrow> i64 option \<times> totp_manager" where
  "space_unlock_expires_at_ms sid m =
     (let st = sec_state (mgr_db m) in
      if is_blank sid
      then (if tot_force_locked st then None else Some (tot_unlocked_until_ms st), m)
      else if tot_force_locked st then (None, m)
      else case mgr_leases m sid of
        None \<Rightarrow> (None, m)
      | Some (until, epoch) \<Rightarrow>
          if epoch \<noteq> tot_auth_epoch st then (None, m\<lparr>mgr_leases := (mgr_leases m)(sid := None)\<rparr>)
          else (Some until, m))"

text \<open>The loop over the offsets -1, 0, 1: the first time code that is not negative and matches.\<close>

fun matching_timecode :: "crypto \<Rightarrow> string \<Rightarrow> string \<Rightarrow> i64 list \<Rightarrow> i64 option" where
  "matching_timecode cr key value [] = None"
| "matching_timecode cr key value (t # ts) =
     (if t < 0 then matching_timecode cr key value ts
      else if hotp cr key (nat t) = value then Some t
      else matching_timecode cr key value ts)"

definition candidate_timecodes :: "i64 \<Rightarrow> i64 list" where
  "candidate_timecodes now =
     map (saturating_add ((now div 1000) div 30)) [-1, 0, 1]"

definition totp_format :: "string \<Rightarrow> bool" where
  "totp_format v \<longleftrightarrow> length v = 6 \<and> list_all is_digit v"

text \<open>The middle of \<open>verify_and_unlock_inner\<close>: whether the value is accepted, and the new tables.\<close>

definition check_value ::
  "crypto \<Rightarrow> (totp_error + string) \<Rightarrow> string \<Rightarrow> i64 \<Rightarrow> bool \<Rightarrow> totp_manager \<Rightarrow>
    (totp_error + bool) \<times> security_db" where
  "check_value cr secret value now global m =
     (let db = mgr_db m; secs = mgr_unlock_seconds m;
          lift = (\<lambda>(r, db1). (map_sum state_error id r, db1)) in
      if totp_format value
      then (case secret of
          Inl e \<Rightarrow> (Inl e, db)
        | Inr s \<Rightarrow> (case cr_base32 cr (trim_end_matches (CHR ''='') s) of
            None \<Rightarrow> (Inl SecretUnavailable, db)
          | Some key \<Rightarrow> (case matching_timecode cr key value (candidate_timecodes now) of
              None \<Rightarrow> (Inr False, db)
            | Some t \<Rightarrow>
                if global then lift (accept_totp_timecode t now secs db)
                else lift (accept_totp_timecode_for_space t db))))
      else (case verify_recovery_code cr value now db of
          (Inl e, db1) \<Rightarrow> (Inl e, db1)
        | (Inr False, db1) \<Rightarrow> (Inr False, db1)
        | (Inr True, db1) \<Rightarrow>
            if global then lift (unlock_totp_after_recovery now secs db1)
            else lift (accept_recovery_for_space db1)))"

definition verify_and_unlock_inner ::
  "crypto \<Rightarrow> (totp_error + string) \<Rightarrow> string \<Rightarrow> string \<Rightarrow> i64 \<Rightarrow> bool \<Rightarrow> totp_manager \<Rightarrow>
    (totp_error + bool) \<times> totp_manager" where
  "verify_and_unlock_inner cr secret sid value now global m =
     (if is_blank sid then (Inr False, m)
      else if now < tot_locked_until_ms (sec_state (mgr_db m)) then (Inr False, m)
      else case check_value cr secret (trim value) now global m of
        (Inl e, db) \<Rightarrow> (Inl e, m\<lparr>mgr_db := db\<rparr>)
      | (Inr True, db) \<Rightarrow>
          (Inr True, m\<lparr>mgr_db := db, mgr_leases := (mgr_leases m)(sid \<mapsto>
             (saturating_add now (saturating_mul (mgr_unlock_seconds m) 1000),
              tot_auth_epoch (sec_state db)))\<rparr>)
      | (Inr False, db) \<Rightarrow> (case record_totp_failure now db of
            (Inl e, db1) \<Rightarrow> (Inl (state_error e), m\<lparr>mgr_db := db1\<rparr>)
          | (Inr _, db1) \<Rightarrow> (Inr False, m\<lparr>mgr_db := db1\<rparr>)))"

definition verify_and_unlock ::
  "crypto \<Rightarrow> (totp_error + string) \<Rightarrow> string \<Rightarrow> i64 \<Rightarrow> totp_manager \<Rightarrow>
    (totp_error + bool) \<times> totp_manager" where
  "verify_and_unlock cr secret value now m =
     verify_and_unlock_inner cr secret ''__legacy__'' value now True m"

definition verify_and_unlock_for_space ::
  "crypto \<Rightarrow> (totp_error + string) \<Rightarrow> string \<Rightarrow> string \<Rightarrow> i64 \<Rightarrow> totp_manager \<Rightarrow>
    (totp_error + bool) \<times> totp_manager" where
  "verify_and_unlock_for_space cr secret sid value now m =
     verify_and_unlock_inner cr secret sid value now False m"

section \<open>One operation of any kind\<close>

datatype mgr_op =
    MVerify crypto "totp_error + string" string i64
  | MVerifySpace crypto "totp_error + string" string string i64
  | MLock
  | MLockSpace string
  | MQuery string i64
  | MRemaining string i64
  | MExpires string
  | MExternal totp_op

text \<open>\<open>MExternal\<close>: another process on the same database, such as the command line's lock.\<close>

fun mgr_step :: "mgr_op \<Rightarrow> totp_manager \<Rightarrow> totp_manager" where
  "mgr_step (MVerify cr secret value now) m = snd (verify_and_unlock cr secret value now m)"
| "mgr_step (MVerifySpace cr secret sid value now) m =
     snd (verify_and_unlock_for_space cr secret sid value now m)"
| "mgr_step MLock m = snd (mgr_lock m)"
| "mgr_step (MLockSpace sid) m = lock_space sid m"
| "mgr_step (MQuery sid now) m = snd (is_unlocked_for_space sid now m)"
| "mgr_step (MRemaining sid now) m = snd (space_unlock_remaining_ms sid now m)"
| "mgr_step (MExpires sid) m = snd (space_unlock_expires_at_ms sid m)"
| "mgr_step (MExternal op) m = m\<lparr>mgr_db := totp_step op (mgr_db m)\<rparr>"

inductive mgr_reachable :: "totp_manager \<Rightarrow> bool" where
  start: "mgr_reachable (totp_manager_new (fold totp_step ops security_init) secs)"
| step: "mgr_reachable m \<Longrightarrow> mgr_reachable (mgr_step op m)"

text \<open>The operation asks to unlock the given session.\<close>

fun asks_space :: "string \<Rightarrow> mgr_op \<Rightarrow> bool" where
  "asks_space sid (MVerify cr secret value now) = (sid = ''__legacy__'')"
| "asks_space sid (MVerifySpace cr secret sid' value now) = (sid = sid')"
| "asks_space sid op = False"

fun asks_global :: "mgr_op \<Rightarrow> bool" where
  "asks_global (MVerify cr secret value now) = True"
| "asks_global (MExternal (TAccept t now secs)) = True"
| "asks_global (MExternal (TRecover now secs)) = True"
| "asks_global op = False"

end
