(* ===== verification/SecurityProps.thy ===== *)
theory SecurityProps
  imports Security
begin

text \<open>
  What the write lock guarantees: a time code and a recovery code are used once, a lock revokes
  every lease, a lease covers one session for its time, and repeated failures lock verification.
\<close>

section \<open>The manager runs operations of the store\<close>

text \<open>The operations of the store a verification may run.\<close>

fun verify_op :: "bool \<Rightarrow> totp_op \<Rightarrow> bool" where
  "verify_op g (TAccept t now secs) = g"
| "verify_op g (TRecover now secs) = g"
| "verify_op g (TAcceptSpace t) = (\<not> g)"
| "verify_op g TRecoverSpace = (\<not> g)"
| "verify_op g (TConsume d now) = True"
| "verify_op g (TFail now) = True"
| "verify_op g op = False"

definition via :: "bool \<Rightarrow> security_db \<Rightarrow> security_db \<Rightarrow> bool" where
  "via g db db' \<longleftrightarrow> (\<exists>ops. list_all (verify_op g) ops \<and> db' = fold totp_step ops db)"

lemma via_refl [simp]: "via g db db"
  unfolding via_def by (intro exI [of _ "[]"]) simp

lemma via_step: "via g db db1 \<Longrightarrow> verify_op g op \<Longrightarrow> db' = totp_step op db1 \<Longrightarrow> via g db db'"
  unfolding via_def by (elim exE conjE, rule_tac x = "ops @ [op]" in exI) simp

lemma via_induct:
  assumes "via g db db'" and "P db"
    and "\<And>op d. verify_op g op \<Longrightarrow> P d \<Longrightarrow> P (totp_step op d)"
  shows "P db'"
proof -
  from assms(1) obtain ops where "list_all (verify_op g) ops" "db' = fold totp_step ops db"
    by (auto simp: via_def)
  then show ?thesis using assms(2,3) by (induction ops arbitrary: db) auto
qed

lemma try_codes_via: "via g db0 db \<Longrightarrow> via g db0 (snd (try_codes cr n now entries db))"
proof (induction entries arbitrary: db)
  case (Cons e entries)
  have "via g db0 (snd (consume_recovery_code (fst e) now db))"
    by (rule via_step [OF Cons.prems, of "TConsume (fst e) now"]) simp_all
  then show ?case
    using Cons by (auto split: prod.splits sum.splits)
qed simp

lemma verify_recovery_code_via: "via g db (snd (verify_recovery_code cr v now db))"
  by (simp add: verify_recovery_code_def Let_def try_codes_via)

lemma accept_via:
  "via True db0 db \<Longrightarrow> via True db0 (snd (accept_totp_timecode t now secs db))"
  "via False db0 db \<Longrightarrow> via False db0 (snd (accept_totp_timecode_for_space t db))"
  "via True db0 db \<Longrightarrow> via True db0 (snd (unlock_totp_after_recovery now secs db))"
  "via False db0 db \<Longrightarrow> via False db0 (snd (accept_recovery_for_space db))"
  "via g db0 db \<Longrightarrow> via g db0 (snd (record_totp_failure now db))"
  by (auto intro: via_step [where op = "TAccept t now secs"] via_step [where op = "TAcceptSpace t"]
      via_step [where op = "TRecover now secs"] via_step [where op = TRecoverSpace]
      via_step [where op = "TFail now"])

lemma check_value_via: "via g (mgr_db m) (snd (check_value cr secret v now g m))"
proof -
  have a: "via g (mgr_db m) (snd (verify_recovery_code cr v now (mgr_db m)))"
    by (rule verify_recovery_code_via)
  show ?thesis
    using a by (cases g) (auto simp: check_value_def Let_def case_prod_beta accept_via
        split: sum.splits option.splits bool.splits prod.splits)
qed

text \<open>What these operations leave alone.\<close>

lemma verify_op_frame:
  "verify_op g op \<Longrightarrow> tot_auth_epoch (sec_state (totp_step op db)) = tot_auth_epoch (sec_state db)"
  by (cases op) (auto simp: totp_defs Let_def)

lemma via_epoch: "via g db db' \<Longrightarrow> tot_auth_epoch (sec_state db') = tot_auth_epoch (sec_state db)"
  by (erule via_induct) (simp_all add: verify_op_frame)

lemma via_inv: "via g db db' \<Longrightarrow> totp_inv db \<Longrightarrow> totp_inv db'"
  by (erule via_induct) (auto intro: totp_step_inv)

lemma via_closed:
  assumes "via False db db'" and "is_totp_unlocked t db'"
    and "tot_force_locked (sec_state db) \<longrightarrow> tot_unlocked_until_ms (sec_state db) = 0" and "0 \<le> t"
  shows "is_totp_unlocked t db"
proof -
  have "is_totp_unlocked t db' \<longrightarrow> is_totp_unlocked t db"
    by (rule conjunct1, rule via_induct [OF assms(1), where P = "\<lambda>d. (is_totp_unlocked t d \<longrightarrow> is_totp_unlocked t db)
        \<and> (tot_force_locked (sec_state d) \<longrightarrow> tot_unlocked_until_ms (sec_state d) = 0)"])
      (use assms(3,4) in \<open>auto simp: is_totp_unlocked_def totp_defs Let_def elim!: verify_op.elims split: if_splits\<close>)
  with assms(2) show ?thesis by simp
qed

section \<open>Verification\<close>

lemma verify_inner_db_via:
  "via g (mgr_db m) (mgr_db (snd (verify_and_unlock_inner cr secret sid v now g m)))"
proof -
  have c: "via g (mgr_db m) (snd (check_value cr secret (trim v) now g m))" by (rule check_value_via)
  then have "via g (mgr_db m) (snd (record_totp_failure now (snd (check_value cr secret (trim v) now g m))))"
    by (rule accept_via)
  with c show ?thesis
    by (auto simp: verify_and_unlock_inner_def split: prod.splits sum.splits bool.splits)
qed

lemma verify_inner_leases:
  "mgr_leases (snd (verify_and_unlock_inner cr secret sid v now g m)) s =
    (if s = sid \<and> fst (verify_and_unlock_inner cr secret sid v now g m) = Inr True
       \<and> \<not> is_blank sid
     then Some (saturating_add now (saturating_mul (mgr_unlock_seconds m) 1000),
       tot_auth_epoch (sec_state (mgr_db m)))
     else mgr_leases m s)"
proof -
  have "tot_auth_epoch (sec_state (snd (check_value cr secret (trim v) now g m)))
      = tot_auth_epoch (sec_state (mgr_db m))"
    by (rule via_epoch) (rule check_value_via)
  then show ?thesis
    by (auto simp: verify_and_unlock_inner_def split: prod.splits sum.splits bool.splits)
qed

lemma verify_inner_accepted:
  assumes "fst (verify_and_unlock_inner cr secret sid v now g m) = Inr True"
  shows "\<not> tot_force_locked (sec_state (mgr_db (snd (verify_and_unlock_inner cr secret sid v now g m))))"
    and "mgr_db (snd (verify_and_unlock_inner cr secret sid v now g m))
      = snd (check_value cr secret (trim v) now g m)"
    and "fst (check_value cr secret (trim v) now g m) = Inr True"
    and "\<not> is_blank sid" and "tot_locked_until_ms (sec_state (mgr_db m)) \<le> now"
proof -
  show c: "fst (check_value cr secret (trim v) now g m) = Inr True"
    and d: "mgr_db (snd (verify_and_unlock_inner cr secret sid v now g m))
      = snd (check_value cr secret (trim v) now g m)"
    and "\<not> is_blank sid" and "tot_locked_until_ms (sec_state (mgr_db m)) \<le> now"
    using assms by (auto simp: verify_and_unlock_inner_def split: prod.splits sum.splits bool.splits if_splits)
  from c show "\<not> tot_force_locked (sec_state (mgr_db (snd (verify_and_unlock_inner cr secret sid v now g m))))"
    unfolding d by (auto simp: check_value_def Let_def case_prod_beta accept_totp_timecode_def
        accept_totp_timecode_for_space_def unlock_totp_after_recovery_def accept_recovery_for_space_def
        split: sum.splits option.splits bool.splits prod.splits if_splits)
qed

section \<open>The invariant of the manager\<close>

text \<open>No lease is of a later epoch, and none of the current epoch survives a forced lock.\<close>

definition mgr_inv :: "totp_manager \<Rightarrow> bool" where
  "mgr_inv m \<longleftrightarrow> totp_inv (mgr_db m)
     \<and> (\<forall>sid until epoch. mgr_leases m sid = Some (until, epoch) \<longrightarrow>
          epoch \<le> tot_auth_epoch (sec_state (mgr_db m))
        \<and> (tot_force_locked (sec_state (mgr_db m)) \<longrightarrow> epoch < tot_auth_epoch (sec_state (mgr_db m))))"

lemma mgr_inv_drop: "mgr_inv m \<Longrightarrow> mgr_inv (m\<lparr>mgr_leases := (mgr_leases m)(sid := None)\<rparr>)"
  by (simp add: mgr_inv_def)

lemma external_lock:
  "tot_auth_epoch (sec_state db) \<le> tot_auth_epoch (sec_state (totp_step op db))"
  "tot_force_locked (sec_state (totp_step op db)) \<Longrightarrow>
     tot_force_locked (sec_state db) \<or> tot_auth_epoch (sec_state db) < tot_auth_epoch (sec_state (totp_step op db))"
proof -
  show "tot_auth_epoch (sec_state db) \<le> tot_auth_epoch (sec_state (totp_step op db))"
    by (cases op) (auto simp: totp_defs Let_def split: sum.split)
  show "tot_force_locked (sec_state (totp_step op db)) \<Longrightarrow>
     tot_force_locked (sec_state db) \<or> tot_auth_epoch (sec_state db) < tot_auth_epoch (sec_state (totp_step op db))"
    by (cases op) (auto simp: totp_defs Let_def stored_int_def split: sum.splits if_splits)
qed

lemma verify_inner_mgr_inv:
  assumes "mgr_inv m" shows "mgr_inv (snd (verify_and_unlock_inner cr secret sid v now g m))"
proof -
  let ?m = "snd (verify_and_unlock_inner cr secret sid v now g m)"
  have via: "via g (mgr_db m) (mgr_db ?m)" by (rule verify_inner_db_via)
  have ep: "tot_auth_epoch (sec_state (mgr_db ?m)) = tot_auth_epoch (sec_state (mgr_db m))"
    using via by (rule via_epoch)
  have forced: "tot_force_locked (sec_state (mgr_db ?m)) \<longrightarrow> tot_force_locked (sec_state (mgr_db m))"
    by (rule via_induct [OF via]) (auto simp: totp_defs Let_def elim!: verify_op.elims split: if_splits)
  show ?thesis
    using assms via_inv [OF via] ep forced verify_inner_accepted(1) [of cr secret sid v now g m]
    by (auto simp: mgr_inv_def verify_inner_leases split: if_splits)
qed

lemma mgr_step_inv: "mgr_inv m \<Longrightarrow> mgr_inv (mgr_step op m)"
proof (cases op)
  case MLock
  have "totp_inv (mgr_db m) \<Longrightarrow> totp_inv (snd (lock_totp (mgr_db m)))"
    using totp_step_inv [of "mgr_db m" TLock] by simp
  with MLock show "mgr_inv m \<Longrightarrow> ?thesis"
    by (auto simp: mgr_inv_def mgr_lock_def split: prod.splits sum.splits)
next
  case (MExternal e)
  assume inv: "mgr_inv m"
  show ?thesis unfolding MExternal mgr_inv_def
  proof (intro conjI allI impI)
    show "totp_inv (mgr_db (mgr_step (MExternal e) m))"
      using inv by (simp add: mgr_inv_def totp_step_inv)
  qed (use inv external_lock [where db = "mgr_db m" and op = e] in \<open>fastforce simp: mgr_inv_def\<close>)+
qed (auto simp: verify_and_unlock_def verify_and_unlock_for_space_def verify_inner_mgr_inv
    lock_space_def is_unlocked_for_space_def space_unlock_remaining_ms_def
    space_unlock_expires_at_ms_def Let_def mgr_inv_drop split: option.splits prod.splits)

interpretation mgr: machine mgr_step mgr_inv
  by unfold_locales (rule mgr_step_inv)

lemma mgr_reachable_inv: "mgr_reachable m \<Longrightarrow> mgr_inv m"
proof (induction rule: mgr_reachable.induct)
  case (start ops secs)
  have "totp_inv (fold totp_step ops security_init)"
    by (rule totp.run_inv) (rule totp_inv_init)
  then show ?case by (simp add: mgr_inv_def totp_manager_new_def)
qed (rule mgr_step_inv)

text \<open>A session without a current lease stays without one until someone asks to unlock it.\<close>

definition lease_stale :: "string \<Rightarrow> totp_manager \<Rightarrow> bool" where
  "lease_stale sid m \<longleftrightarrow> (\<forall>until epoch. mgr_leases m sid = Some (until, epoch) \<longrightarrow>
     epoch < tot_auth_epoch (sec_state (mgr_db m)))"

lemma lease_stale_locked: "lease_stale sid m \<Longrightarrow> \<not> is_blank sid \<Longrightarrow> \<not> fst (is_unlocked_for_space sid t m)"
  by (auto simp: lease_stale_def is_unlocked_for_space_def split: option.splits prod.splits)

lemma lease_stale_step:
  assumes "lease_stale sid m" and "\<not> asks_space sid op"
  shows "lease_stale sid (mgr_step op m)"
proof (cases op)
  case (MVerify cr secret v now)
  with assms show ?thesis
    using via_epoch [OF verify_inner_db_via [of True m cr secret "''__legacy__''" v now]]
    by (auto simp: lease_stale_def verify_and_unlock_def verify_inner_leases)
next
  case (MVerifySpace cr secret sid' v now)
  with assms show ?thesis
    using via_epoch [OF verify_inner_db_via [of False m cr secret sid' v now]]
    by (auto simp: lease_stale_def verify_and_unlock_for_space_def verify_inner_leases)
next
  case (MExternal e)
  with assms external_lock(1) [where db = "mgr_db m" and op = e] show ?thesis by (fastforce simp: lease_stale_def)
qed (use assms in \<open>auto simp: lease_stale_def lock_space_def is_unlocked_for_space_def mgr_lock_def
    space_unlock_remaining_ms_def space_unlock_expires_at_ms_def Let_def
    split: option.splits prod.splits sum.splits if_splits\<close>)

lemma lease_stale_run:
  "lease_stale sid m \<Longrightarrow> list_all (\<lambda>op. \<not> asks_space sid op) ops \<Longrightarrow> lease_stale sid (fold mgr_step ops m)"
  by (induction ops arbitrary: m) (auto intro: lease_stale_step)

text \<open>The same for the lease of the whole bridge.\<close>

definition global_closed :: "totp_manager \<Rightarrow> bool" where
  "global_closed m \<longleftrightarrow> tot_unlocked_until_ms (sec_state (mgr_db m)) = 0"

lemma via_unopened:
  assumes "via False db db'" and "tot_unlocked_until_ms (sec_state db) = 0"
  shows "tot_unlocked_until_ms (sec_state db') = 0"
  by (rule via_induct [OF assms(1), where P = "\<lambda>d. tot_unlocked_until_ms (sec_state d) = 0"])
    (use assms(2) in \<open>auto simp: totp_defs Let_def elim!: verify_op.elims\<close>)

lemma global_closed_step:
  assumes "global_closed m" and "\<not> asks_global op"
  shows "global_closed (mgr_step op m)"
proof (cases op)
  case (MVerifySpace cr secret sid v now)
  with assms show ?thesis
    using via_unopened [OF verify_inner_db_via [of False m cr secret sid v now]]
    by (simp add: global_closed_def verify_and_unlock_for_space_def)
next
  case (MExternal e)
  with assms show ?thesis
    by (cases e) (auto simp: global_closed_def totp_defs Let_def split: sum.splits)
qed (use assms in \<open>auto simp: global_closed_def lock_space_def is_unlocked_for_space_def mgr_lock_def
    lock_totp_def space_unlock_remaining_ms_def space_unlock_expires_at_ms_def Let_def
    split: option.splits prod.splits sum.splits if_splits\<close>)

lemma global_closed_run:
  "global_closed m \<Longrightarrow> list_all (\<lambda>op. \<not> asks_global op) ops \<Longrightarrow> global_closed (fold mgr_step ops m)"
  by (induction ops arbitrary: m) (auto intro: global_closed_step)

lemma consume_dead_id:
  assumes "totp_inv db" and "\<not> code_live d db"
  shows "consume_recovery_code d now db = (Inr False, db)"
proof -
  have "fst (consume_recovery_code d now db) \<noteq> Inr True" using assms by (simp add: consume_iff)
  moreover have "update_where (\<lambda>r. rec_digest r = d \<and> is_nil (rec_consumed_at_ms r)) f (sec_codes db)
      = sec_codes db" for f
    using assms(2) by (intro update_where_id) (auto simp: code_live_def)
  ultimately show ?thesis by (simp add: consume_recovery_code_def Let_def)
qed

text \<open>Going through the unused codes: the one that matches and is still live is used up.\<close>

lemma try_codes_result:
  assumes "totp_inv db" and "\<And>e. e \<in> set entries \<Longrightarrow> code_live (fst e) db"
  shows "try_codes cr n now entries db =
    (case List.find (recovery_matches cr n) entries of
       None \<Rightarrow> (Inr False, db)
     | Some e \<Rightarrow> (Inr True, snd (consume_recovery_code (fst e) now db)))"
  using assms(2)
proof (induction entries)
  case (Cons e entries)
  have "fst (consume_recovery_code (fst e) now db) = Inr True"
    using Cons.prems assms(1) by (simp add: consume_iff)
  with Cons show ?case by (auto split: prod.splits)
qed simp

lemma unused_live: "e \<in> set (unused_recovery_codes db) \<longleftrightarrow>
    (\<exists>r \<in> set (sec_codes db). e = (rec_digest r, rec_salt r) \<and> rec_consumed_at_ms r = None)"
  by (auto simp: unused_recovery_codes_def)

lemma verify_recovery_code_result:
  assumes "totp_inv db"
  shows "verify_recovery_code cr v now db =
    (case (if recovery_format (to_ascii_uppercase (trim v))
           then List.find (recovery_matches cr (to_ascii_uppercase (trim v))) (unused_recovery_codes db)
           else None) of
       None \<Rightarrow> (Inr False, db)
     | Some e \<Rightarrow> (Inr True, snd (consume_recovery_code (fst e) now db)))"
proof -
  have "code_live (fst e) db" if "e \<in> set (unused_recovery_codes db)" for e
    using that by (auto simp: unused_live code_live_def)
  then show ?thesis
    using try_codes_result [OF assms, of "unused_recovery_codes db" cr "to_ascii_uppercase (trim v)" now]
    by (simp add: verify_recovery_code_def Let_def)
qed

lemma matching_timecode_Some:
  "matching_timecode cr key v ts = Some t \<Longrightarrow> t \<in> set ts \<and> 0 \<le> t \<and> hotp cr key (nat t) = v"
  by (induction ts) (auto split: if_splits)

section \<open>The truncation of the one-time password\<close>

lemma or_is_add:
  fixes a x :: nat
  assumes "x < 2 ^ k"
  shows "push_bit k a OR x = a * 2 ^ k + x"
proof -
  have "x = take_bit k x" using assms by (simp add: take_bit_nat_eq_self)
  then have "\<not> bit (push_bit k a) n \<or> \<not> bit x n" for n
    by (metis bit_push_bit_iff bit_take_bit_iff not_le)
  then have "push_bit k a + x = push_bit k a OR x" by (rule disjunctive_add)
  then show ?thesis by (simp add: push_bit_eq_mult)
qed

lemma u32_or:
  fixes a b c d :: nat
  assumes "a < 128" "b < 256" "c < 256" "d < 256"
  shows "unat (push_bit 24 (word_of_nat a) OR push_bit 16 (word_of_nat b) OR push_bit 8 (word_of_nat c)
      OR word_of_nat d :: 32 word) = a * 2 ^ 24 + b * 2 ^ 16 + c * 2 ^ 8 + d"
proof -
  have s: "push_bit 24 a = push_bit 16 (push_bit 8 a)" "push_bit 16 x = push_bit 8 (push_bit 8 x)" for x :: nat
    by (simp_all add: push_bit_push_bit)
  have "push_bit 24 a OR push_bit 16 b OR push_bit 8 c OR d
      = push_bit 8 (push_bit 8 (push_bit 8 a OR b) OR c) OR d"
    by (simp only: s push_bit_or or.assoc)
  also have "\<dots> = a * 2 ^ 24 + b * 2 ^ 16 + c * 2 ^ 8 + d"
    using assms by (simp add: or_is_add)
  finally have n: "push_bit 24 a OR push_bit 16 b OR push_bit 8 c OR d
      = a * 2 ^ 24 + b * 2 ^ 16 + c * 2 ^ 8 + d" .
  have "(push_bit 24 (word_of_nat a) OR push_bit 16 (word_of_nat b) OR push_bit 8 (word_of_nat c)
      OR word_of_nat d :: 32 word) = word_of_nat (push_bit 24 a OR push_bit 16 b OR push_bit 8 c OR d)"
    by (simp only: of_nat_or_eq of_nat_push_bit)
  also have "unat (word_of_nat (push_bit 24 a OR push_bit 16 b OR push_bit 8 c OR d) :: 32 word)
      = a * 2 ^ 24 + b * 2 ^ 16 + c * 2 ^ 8 + d"
    unfolding n by (subst unat_of_nat) (use assms in simp)
  finally show ?thesis .
qed

lemma u32_mask: "(u32_of c AND 0x7f) = word_of_nat (byte c mod 128)"
proof -
  have "(0x7f :: 32 word) = mask 7" by (simp add: mask_eq_exp_minus_1)
  moreover have "u32_of c AND mask 7 = word_of_nat (take_bit 7 (byte c))"
    unfolding u32_of_def by (simp add: take_bit_eq_mask [symmetric] take_bit_of_nat)
  ultimately show ?thesis by (simp add: take_bit_eq_mod)
qed

lemma u32_value:
  "unat (push_bit 24 (u32_of c0 AND 0x7f) OR push_bit 16 (u32_of c1) OR push_bit 8 (u32_of c2) OR u32_of c3)
    = byte c0 mod 128 * 2 ^ 24 + byte c1 * 2 ^ 16 + byte c2 * 2 ^ 8 + byte c3"
  unfolding u32_mask unfolding u32_of_def by (rule u32_or) simp_all

lemma nibble: "(n :: nat) AND 0x0f = n mod 16"
proof -
  have "(0x0f :: nat) = mask 4" by (simp add: mask_eq_exp_minus_1)
  then show ?thesis by (simp only: take_bit_eq_mask [symmetric] take_bit_eq_mod) simp
qed


section \<open>Runs for the witnesses\<close>

text \<open>
  A hash and decoders that make every one-time password 000000, and a manager that locked out
  nobody. \<open>toy\<close> only shows that the hypotheses can hold.
\<close>

definition toy :: crypto where
  "toy = \<lparr>cr_sha1 = (\<lambda>_. replicate 20 (char_of (0::nat))), cr_sha256_hex = (\<lambda>s. s),
     cr_base32 = Some, cr_hexlower = Some\<rparr>"

definition demo_mgr :: totp_manager where
  "demo_mgr = totp_manager_new security_init 60"

definition demo_unlocked :: totp_manager where
  "demo_unlocked = mgr_step (MVerifySpace toy (Inr ''KEY'') ''s'' '' 000000 '' 90000) demo_mgr"

lemma demo_mgr_reachable: "mgr_reachable demo_mgr" "mgr_reachable demo_unlocked"
proof -
  show m: "mgr_reachable demo_mgr"
    using mgr_reachable.start [of "[]" 60] by (simp add: demo_mgr_def)
  show "mgr_reachable demo_unlocked"
    unfolding demo_unlocked_def by (rule mgr_reachable.step) (rule m)
qed

lemma toy_hotp: "hotp toy key n = ''000000''"
proof -
  have "hmac_sha1 toy k m = replicate 20 (char_of (0::nat))" for k m
    by (simp add: hmac_sha1_def toy_def Let_def)
  moreover have "show_padded 6 0 = ''000000''" by code_simp
  ultimately show ?thesis by (simp add: hotp_def Let_def u32_of_def byte_char_of)
qed

lemma demo_unlock_facts:
  "trim '' 000000 '' = ''000000''" "totp_format ''000000''" "totp_format ''123456''" "\<not> is_blank ''s''"
  "candidate_timecodes 90000 = [2, 3, 4]" "trim ''123456'' = ''123456''"
  "saturating_add 90000 60000 = 150000" "saturating_mul 60 1000 = 60000" "saturating_add 0 1 = 1"
  by code_simp+

lemma toy_base32: "cr_base32 toy x = Some x"
  by (simp add: toy_def)

lemmas demo_defs = toy_base32 verify_and_unlock_for_space_def verify_and_unlock_inner_def check_value_def
  toy_hotp demo_unlock_facts demo_mgr_def totp_manager_new_def security_init_def i64_max_def

lemma demo_verifies:
  "verify_and_unlock_for_space toy (Inr ''KEY'') ''s'' '' 000000 '' 90000 demo_mgr = (Inr True, demo_unlocked)"
proof -
  have "fst (verify_and_unlock_for_space toy (Inr ''KEY'') ''s'' '' 000000 '' 90000 demo_mgr) = Inr True"
    by (simp add: demo_defs accept_totp_timecode_for_space_def)
  then show ?thesis by (simp add: demo_unlocked_def prod_eq_iff)
qed

lemma demo_state:
  "sec_state (mgr_db demo_unlocked) = \<lparr>tot_last_timecode = 2, tot_unlocked_until_ms = 0,
     tot_force_locked = False, tot_auth_epoch = 0, tot_failures = 0, tot_locked_until_ms = 0\<rparr>"
  "mgr_leases demo_unlocked ''s'' = Some (150000, 0)" "mgr_unlock_seconds demo_mgr = 60"
  by (simp_all add: demo_unlocked_def demo_defs accept_totp_timecode_for_space_def)

section \<open>Properties\<close>

text \<open>
  A time code is accepted once. After either way of accepting it, whatever operations any
  process runs on the write lock, every further attempt with the same or an older time code is
  refused and leaves the lock as it is.
\<close>

theorem timecode_accepted_once:
  assumes "db = fold totp_step ops security_init"
    and "accept_totp_timecode t now secs db = (Inr True, db') \<or>
         accept_totp_timecode_for_space t db = (Inr True, db')"
    and "0 \<le> t'" and "t' \<le> t" and "0 < secs'"
    and "db2 = fold totp_step ops' db'"
  shows "accept_totp_timecode t' now' secs' db2 = (Inr False, db2)
    \<and> accept_totp_timecode_for_space t' db2 = (Inr False, db2)"
proof -
  have inv: "totp_inv db" unfolding assms(1) by (rule totp.run_inv) (rule totp_inv_init)
  have last: "tot_last_timecode (sec_state db') = t"
    using assms(2) by (auto simp: accept_totp_timecode_def accept_totp_timecode_for_space_def split: if_splits)
  have "db' = totp_step (TAccept t now secs) db \<or> db' = totp_step (TAcceptSpace t) db"
    using assms(2) by auto
  then have "totp_inv db'" using inv by (auto simp del: totp_step.simps intro: totp_step_inv)
  then have "t \<le> tot_last_timecode (sec_state db2)"
    unfolding assms(6) using timecode.spent_run [of db' t ops'] last by simp
  with assms(3-5) show ?thesis
    by (simp add: accept_totp_timecode_def accept_totp_timecode_for_space_def)
qed

theorem timecode_accepted_once_witness:
  "\<exists>db. fst (accept_totp_timecode_for_space 7 security_init) = Inr True
     \<and> db = totp_step TLock (snd (accept_totp_timecode_for_space 7 security_init))
     \<and> accept_totp_timecode 7 0 60 db = (Inr False, db)"
proof -
  have a: "fst (accept_totp_timecode_for_space 7 security_init) = Inr True" by code_simp
  then have "accept_totp_timecode_for_space 7 security_init
      = (Inr True, snd (accept_totp_timecode_for_space 7 security_init))" by (simp add: prod_eq_iff)
  from timecode_accepted_once [of security_init "[]" 7 0 0 _ 7 60 _ "[TLock]"] this a
  show ?thesis by simp
qed

text \<open>
  A recovery code is used once: after it was consumed, no later attempt consumes it, until
  the whole set of codes is replaced.
\<close>

theorem recovery_code_used_once:
  assumes "db = fold totp_step ops security_init"
    and "consume_recovery_code d now db = (Inr True, db')"
    and "\<forall>entries. TReplaceCodes entries \<notin> set ops'"
    and "db2 = fold totp_step ops' db'"
  shows "consume_recovery_code d now' db2 = (Inr False, db2)"
proof -
  have inv: "totp_inv db" unfolding assms(1) by (rule totp.run_inv) (rule totp_inv_init)
  have db': "db' = totp_step (TConsume d now) db" using assms(2) by simp
  then have inv': "totp_inv db'" using inv by (metis totp_step_inv)
  have dead: "\<not> code_live d db'" using consume_dead [of d now db] by (simp add: db')
  have step: "\<not> code_live d (totp_step op s)"
    if "\<not> code_live d s" "\<forall>entries. op \<noteq> TReplaceCodes entries" for op s
  proof (cases op)
    case (TConsume d' now')
    let ?Q = "\<lambda>r. \<not> (rec_digest r = d \<and> rec_consumed_at_ms r = None)"
    have "?Q r" if r: "r \<in> set (update_where (\<lambda>r. rec_digest r = d' \<and> is_nil (rec_consumed_at_ms r))
        (\<lambda>r. r\<lparr>rec_consumed_at_ms := Some now'\<rparr>) (sec_codes s))" for r
      by (rule update_where_inv [OF _ _ r]) (use \<open>\<not> code_live d s\<close> in \<open>simp_all add: code_live_def\<close>)
    then show ?thesis
      unfolding TConsume by (simp add: code_live_def consume_recovery_code_def Let_def)
  qed (use that in \<open>auto simp: code_live_def totp_defs Let_def split: sum.splits\<close>)
  have "\<not> code_live d (fold totp_step ops' s)" if "\<not> code_live d s" for s
    using assms(3) that
  proof (induction ops' arbitrary: s)
    case (Cons op ops')
    then have "\<not> code_live d (totp_step op s)" by (intro step) auto
    with Cons show ?case by simp
  qed simp
  then have dead2: "\<not> code_live d db2" unfolding assms(4) using dead by blast
  have "totp_inv db2" unfolding assms(4) by (rule totp.run_inv) (rule inv')
  with dead2 have "\<not> code_live d db2" "totp_inv db2" by simp_all
  then show ?thesis by (simp add: consume_dead_id)
qed

theorem recovery_code_used_once_witness:
  "let db = fold totp_step [TReplaceCodes [(''d'', ''s'')]] security_init;
       db2 = fold totp_step [TLock] (snd (consume_recovery_code ''d'' 5 db)) in
     consume_recovery_code ''d'' 6 db2 = (Inr False, db2)"
proof -
  let ?db = "fold totp_step [TReplaceCodes [(''d'', ''s'')]] security_init"
  have "fst (consume_recovery_code ''d'' 5 ?db) = Inr True" by code_simp
  then have "consume_recovery_code ''d'' 5 ?db = (Inr True, snd (consume_recovery_code ''d'' 5 ?db))"
    by (simp add: prod_eq_iff)
  from recovery_code_used_once [OF refl this, of "[TLock]"] show ?thesis by (simp add: Let_def)
qed

text \<open>
  C17. Locking revokes everything at once. Whether this process locks or another one does on the
  same database, afterwards the bridge as a whole stays locked until someone asks to unlock it as
  a whole, and every session stays locked until someone asks to unlock that very session; no
  query, no lock and no unlocking of other sessions brings an old lease back.
\<close>

theorem lock_revokes_every_lease:
  assumes "mgr_reachable m" and "fst (lock_totp (mgr_db m)) = Inr ()"
    and "m' = snd (mgr_lock m) \<or> m' = mgr_step (MExternal TLock) m" and "0 \<le> t"
  shows "(list_all (\<lambda>op. \<not> asks_global op) ops \<longrightarrow> \<not> is_unlocked t (fold mgr_step ops m'))
    \<and> (list_all (\<lambda>op. \<not> asks_space sid op) ops \<longrightarrow> \<not> is_blank sid \<longrightarrow>
         \<not> fst (is_unlocked_for_space sid t (fold mgr_step ops m')))"
proof -
  have ep: "tot_auth_epoch (sec_state (snd (lock_totp (mgr_db m)))) = tot_auth_epoch (sec_state (mgr_db m)) + 1"
    "tot_unlocked_until_ms (sec_state (snd (lock_totp (mgr_db m)))) = 0"
    using assms(2) by (auto simp: lock_totp_def stored_int_def split: sum.splits if_splits)
  have db: "mgr_db m' = snd (lock_totp (mgr_db m))"
    using assms(3) by (auto simp: mgr_lock_def split: prod.splits sum.splits)
  have "global_closed m'" by (simp add: global_closed_def db ep)
  moreover have "lease_stale sid m'"
    using assms(3) mgr_reachable_inv [OF assms(1)]
    by (fastforce simp: lease_stale_def db ep mgr_inv_def mgr_lock_def split: prod.splits sum.splits)
  ultimately show ?thesis
    using global_closed_run [of m' ops] lease_stale_run [of sid m' ops] lease_stale_locked assms(4)
    by (auto simp: global_closed_def is_unlocked_def is_totp_unlocked_def)
qed

text \<open>
  A verified value opens exactly one lease. After a session was unlocked, that session is
  unlocked up to the configured time after the verification and not longer, no other session and
  not the bridge as a whole is unlocked that was not before.
\<close>

theorem unlocking_is_confined:
  assumes "mgr_reachable m"
    and "verify_and_unlock_for_space cr secret sid v now m = (Inr True, m')" and "0 \<le> t"
  shows "fst (is_unlocked_for_space sid t m') =
      (t < saturating_add now (saturating_mul (mgr_unlock_seconds m) 1000))
    \<and> (\<forall>s. s \<noteq> sid \<longrightarrow> fst (is_unlocked_for_space s t m') \<longrightarrow> fst (is_unlocked_for_space s t m))
    \<and> (is_unlocked t m' \<longrightarrow> is_unlocked t m)"
proof -
  let ?r = "verify_and_unlock_inner cr secret sid v now False m"
  have r: "fst ?r = Inr True" and m': "m' = snd ?r"
    using assms(2) by (simp_all add: verify_and_unlock_for_space_def)
  note acc = verify_inner_accepted [OF r]
  have via: "via False (mgr_db m) (mgr_db m')" unfolding m' by (rule verify_inner_db_via)
  have ep: "tot_auth_epoch (sec_state (mgr_db m')) = tot_auth_epoch (sec_state (mgr_db m))"
    using via by (rule via_epoch)
  have inv: "mgr_inv m" using assms(1) by (rule mgr_reachable_inv)
  then have "tot_force_locked (sec_state (mgr_db m)) \<longrightarrow> tot_unlocked_until_ms (sec_state (mgr_db m)) = 0"
    by (simp add: mgr_inv_def totp_inv_def)
  from via_closed [OF via _ this assms(3)] have global: "is_unlocked t m' \<longrightarrow> is_unlocked t m"
    by (auto simp: is_unlocked_def)
  have leases: "mgr_leases m' s = (if s = sid
      then Some (saturating_add now (saturating_mul (mgr_unlock_seconds m) 1000),
        tot_auth_epoch (sec_state (mgr_db m))) else mgr_leases m s)" for s
    using acc(4) r by (simp add: m' verify_inner_leases)
  have own: "fst (is_unlocked_for_space sid t m') =
      (t < saturating_add now (saturating_mul (mgr_unlock_seconds m) 1000))"
    using acc(1,4) leases ep by (simp add: m' is_unlocked_for_space_def not_le)
  have "fst (is_unlocked_for_space s t m)"
    if "s \<noteq> sid" "fst (is_unlocked_for_space s t m')" for s
  proof (cases "is_blank s")
    case True
    with that global show ?thesis by (simp add: is_unlocked_for_space_def)
  next
    case False
    with that leases ep obtain until epoch where l: "mgr_leases m s = Some (until, epoch)"
      "epoch = tot_auth_epoch (sec_state (mgr_db m))" "t < until"
      by (auto simp: is_unlocked_for_space_def split: if_splits option.splits)
    with inv have "\<not> tot_force_locked (sec_state (mgr_db m))" by (force simp: mgr_inv_def)
    with l False show ?thesis by (simp add: is_unlocked_for_space_def)
  qed
  with own global show ?thesis by blast
qed

text \<open>
  C4. Nothing unlocks but a fresh secret. When a verification succeeds, the text is either the
  one-time password of the secret for the present time step or one next to it, later than every
  time code accepted before, and that time code is now used up; or it matches a recovery code
  that was unused before and is used up now. While verification is locked out it never succeeds.
\<close>

theorem unlock_needs_fresh_secret:
  assumes "mgr_reachable m"
    and "verify_and_unlock_inner cr secret sid v now global m = (Inr True, m')"
  shows "tot_locked_until_ms (sec_state (mgr_db m)) \<le> now
    \<and> ((\<exists>s key t. secret = Inr s \<and> cr_base32 cr (trim_end_matches (CHR ''='') s) = Some key
          \<and> t \<in> set (candidate_timecodes now) \<and> hotp cr key (nat t) = trim v
          \<and> 0 \<le> t \<and> tot_last_timecode (sec_state (mgr_db m)) < t
          \<and> tot_last_timecode (sec_state (mgr_db m')) = t)
      \<or> (\<exists>entry. entry \<in> set (unused_recovery_codes (mgr_db m))
          \<and> recovery_matches cr (to_ascii_uppercase (trim (trim v))) entry
          \<and> \<not> code_live (fst entry) (mgr_db m')))" (is "_ \<and> ?fresh")
proof -
  let ?r = "verify_and_unlock_inner cr secret sid v now global m"
  let ?c = "check_value cr secret (trim v) now global m"
  have m': "m' = snd ?r" and r: "fst ?r = Inr True" using assms(2) by simp_all
  note acc = verify_inner_accepted [OF r]
  have db: "mgr_db m' = snd ?c" using acc(2) m' by simp
  have inv: "totp_inv (mgr_db m)" using mgr_reachable_inv [OF assms(1)] by (simp add: mgr_inv_def)
  have ?fresh
  proof (cases "totp_format (trim v)")
    case True
    with acc(3) obtain s key t where s: "secret = Inr s"
      "cr_base32 cr (trim_end_matches (CHR ''='') s) = Some key"
      and t: "matching_timecode cr key (trim v) (candidate_timecodes now) = Some t"
      by (auto simp: check_value_def Let_def split: sum.splits option.splits)
    from acc(3) True s t have last: "tot_last_timecode (sec_state (mgr_db m)) < t"
      "tot_last_timecode (sec_state (snd ?c)) = t"
      by (auto simp: check_value_def Let_def accept_totp_timecode_def
          accept_totp_timecode_for_space_def split: if_splits)
    from matching_timecode_Some [OF t] s last show ?thesis unfolding db by blast
  next
    case False
    with acc(3) obtain e where e: "List.find (recovery_matches cr (to_ascii_uppercase (trim (trim v))))
        (unused_recovery_codes (mgr_db m)) = Some e"
      and c: "sec_codes (snd ?c) = sec_codes (snd (consume_recovery_code (fst e) now (mgr_db m)))"
      by (auto simp: check_value_def Let_def verify_recovery_code_result [OF inv]
          unlock_totp_after_recovery_def accept_recovery_for_space_def
          split: if_splits option.splits bool.splits)
    have "e \<in> set (unused_recovery_codes (mgr_db m))"
      "recovery_matches cr (to_ascii_uppercase (trim (trim v))) e"
      using e by (auto simp: find_Some_iff in_set_conv_nth)
    moreover have "\<not> code_live (fst e) (mgr_db m')"
      using consume_dead [of "fst e" now "mgr_db m"] c by (simp add: code_live_def db)
    ultimately show ?thesis by blast
  qed
  with acc(5) show ?thesis by simp
qed

text \<open>
  Guessing is rate-limited. An attempt that was checked and refused raises the failure count
  by one; from the fifth failure on verification is locked out for five minutes, and until the
  lockout ends every attempt, with any value and for any session, is refused and changes nothing.
\<close>

theorem failures_lock_out:
  assumes "mgr_reachable m" and "\<not> is_blank sid"
    and "tot_locked_until_ms (sec_state (mgr_db m)) \<le> now"
    and "verify_and_unlock_inner cr secret sid v now global m = (Inr False, m')"
  shows "tot_failures (sec_state (mgr_db m')) = saturating_add (tot_failures (sec_state (mgr_db m))) 1
    \<and> (5 \<le> tot_failures (sec_state (mgr_db m')) \<longrightarrow>
         tot_locked_until_ms (sec_state (mgr_db m')) = saturating_add now 300000)
    \<and> (\<forall>t sid' v' cr' secret' global'. t < tot_locked_until_ms (sec_state (mgr_db m')) \<longrightarrow>
         verify_and_unlock_inner cr' secret' sid' v' t global' m' = (Inr False, m'))"
proof -
  let ?c = "check_value cr secret (trim v) now global m"
  have inv: "totp_inv (mgr_db m)" using mgr_reachable_inv [OF assms(1)] by (simp add: mgr_inv_def)
  have c: "fst ?c = Inr False" and m': "mgr_db m' = snd (record_totp_failure now (snd ?c))"
    using assms(2-4) by (auto simp: verify_and_unlock_inner_def split: prod.splits sum.splits bool.splits)
  have "snd ?c = mgr_db m"
    using c by (auto simp: check_value_def Let_def verify_recovery_code_result [OF inv] totp_defs
        split: sum.splits option.splits if_splits)
  with m' assms(3) show ?thesis
    by (auto simp: record_totp_failure_def Let_def verify_and_unlock_inner_def)
qed

text \<open>
  A one-time password is always six digits, and it is the dynamic truncation of RFC 4226: the
  four digest bytes at the offset in the last nibble, read big-endian without the top bit,
  modulo a million. No 32-bit operation overflows.
\<close>

theorem hotp_is_rfc4226:
  "let digest = hmac_sha1 cr key (be64 counter); off = byte (digest ! 19) mod 16 in
     hotp cr key counter = show_padded 6
       ((byte (digest ! off) mod 128 * 2 ^ 24 + byte (digest ! (off + 1)) * 2 ^ 16
         + byte (digest ! (off + 2)) * 2 ^ 8 + byte (digest ! (off + 3))) mod 1000000)
   \<and> length (hotp cr key counter) = 6 \<and> list_all is_digit (hotp cr key counter)"
  unfolding Let_def hotp_def nibble u32_value
  by (simp add: length_show_padded show_padded_digits)

theorem lock_revokes_every_lease_witness:
  "fst (is_unlocked_for_space ''s'' 100000 demo_unlocked)
   \<and> \<not> fst (is_unlocked_for_space ''s'' 100000 (snd (mgr_lock demo_unlocked)))"
proof
  show "fst (is_unlocked_for_space ''s'' 100000 demo_unlocked)"
    by (simp add: is_unlocked_for_space_def demo_unlock_facts demo_state)
  have "in_i64 1" by code_simp
  then have "fst (lock_totp (mgr_db demo_unlocked)) = Inr ()" by (simp add: lock_totp_def demo_state)
  then show "\<not> fst (is_unlocked_for_space ''s'' 100000 (snd (mgr_lock demo_unlocked)))"
    using lock_revokes_every_lease [OF demo_mgr_reachable(2), of _ 100000 "[]" "''s''"] demo_unlock_facts(4) by simp
qed

theorem unlocking_is_confined_witness:
  "\<not> fst (is_unlocked_for_space ''s'' 150000 demo_unlocked)
   \<and> fst (is_unlocked_for_space ''s'' 149999 demo_unlocked)"
  using unlocking_is_confined [OF demo_mgr_reachable(1) demo_verifies, of 150000]
    unlocking_is_confined [OF demo_mgr_reachable(1) demo_verifies, of 149999]
  by (simp add: demo_state demo_unlock_facts)

theorem unlock_needs_fresh_secret_witness:
  "tot_locked_until_ms (sec_state (mgr_db demo_mgr)) \<le> 90000"
  using unlock_needs_fresh_secret [OF demo_mgr_reachable(1)
      demo_verifies [unfolded verify_and_unlock_for_space_def]] by simp

theorem failures_lock_out_witness:
  "\<exists>m'. verify_and_unlock_inner toy (Inr ''KEY'') ''s'' ''123456'' 90000 True demo_mgr = (Inr False, m')
     \<and> tot_failures (sec_state (mgr_db m')) = 1"
proof -
  let ?r = "verify_and_unlock_inner toy (Inr ''KEY'') ''s'' ''123456'' 90000 True demo_mgr"
  have "fst ?r = Inr False" by (simp add: demo_defs record_totp_failure_def Let_def)
  then have r: "?r = (Inr False, snd ?r)" by (simp add: prod_eq_iff)
  have "tot_locked_until_ms (sec_state (mgr_db demo_mgr)) \<le> 90000"
    "tot_failures (sec_state (mgr_db demo_mgr)) = 0" by (simp_all add: demo_defs)
  with failures_lock_out [OF demo_mgr_reachable(1) demo_unlock_facts(4) _ r] r show ?thesis
    by (auto simp: demo_unlock_facts)
qed

end
