(* ===== verification/ControlStore.thy ===== *)
theory ControlStore
  imports Sql Json RustText
begin

text \<open>
  The control interactions and control callbacks of \<open>rust/crates/storage-sqlite/src/lib.rs\<close>: the
  durable race boundary of commands such as \<open>/new\<close>. Rows keep their payload as text; \<open>ser\<close> and
  \<open>de\<close> are \<open>serde_json::to_string\<close> and \<open>from_str\<close> on a \<open>Value\<close>.
\<close>

section \<open>Tables\<close>

text \<open>One record for the row (\<open>'p\<close> is the text) and for the value handed out (\<open>'p\<close> is JSON).\<close>

record 'p control_interaction =
  ci_scope_key :: string
  ci_kind :: string
  ci_revision :: i64
  ci_phase :: string
  ci_payload :: 'p
  ci_user_id :: i64
  ci_chat_id :: i64
  ci_message_id :: "i64 option"
  ci_expires_at_ms :: i64
  ci_claimed_at_ms :: "i64 option"
  ci_created_at_ms :: i64
  ci_updated_at_ms :: i64

record 'p control_callback =
  cc_nonce :: string
  cc_scope_key :: "string option"
  cc_revision :: "i64 option"
  cc_user_id :: i64
  cc_chat_id :: i64
  cc_action :: string
  cc_payload :: 'p
  cc_expires_at_ms :: i64
  cc_consumed_at_ms :: "i64 option"
  cc_invalidated_at_ms :: "i64 option"
  cc_created_at_ms :: i64

record control_db =
  ctl_interactions :: "string control_interaction list"
  ctl_callbacks :: "string control_callback list"

definition control_claim_lease_ms :: i64 where "control_claim_lease_ms = 60000"

definition control_interaction_from_row ::
  "json deserializer \<Rightarrow> string control_interaction \<Rightarrow> json control_interaction port_result" where
  "control_interaction_from_row de r = (case de (ci_payload r) of
     Inl e \<Rightarrow> Inl (conversion_error ''4'' e)
   | Inr payload \<Rightarrow> Inr \<lparr>ci_scope_key = ci_scope_key r, ci_kind = ci_kind r,
       ci_revision = ci_revision r, ci_phase = ci_phase r, ci_payload = payload,
       ci_user_id = ci_user_id r, ci_chat_id = ci_chat_id r, ci_message_id = ci_message_id r,
       ci_expires_at_ms = ci_expires_at_ms r, ci_claimed_at_ms = ci_claimed_at_ms r,
       ci_created_at_ms = ci_created_at_ms r, ci_updated_at_ms = ci_updated_at_ms r\<rparr>)"

definition control_callback_from_row ::
  "json deserializer \<Rightarrow> string control_callback \<Rightarrow> json control_callback port_result" where
  "control_callback_from_row de r = (case de (cc_payload r) of
     Inl e \<Rightarrow> Inl (conversion_error ''6'' e)
   | Inr payload \<Rightarrow> Inr \<lparr>cc_nonce = cc_nonce r, cc_scope_key = cc_scope_key r,
       cc_revision = cc_revision r, cc_user_id = cc_user_id r, cc_chat_id = cc_chat_id r,
       cc_action = cc_action r, cc_payload = payload, cc_expires_at_ms = cc_expires_at_ms r,
       cc_consumed_at_ms = cc_consumed_at_ms r, cc_invalidated_at_ms = cc_invalidated_at_ms r,
       cc_created_at_ms = cc_created_at_ms r\<rparr>)"

text \<open>A callback that is neither used nor invalidated.\<close>

definition cc_live :: "'p control_callback \<Rightarrow> bool" where
  "cc_live c \<longleftrightarrow> is_nil (cc_consumed_at_ms c) \<and> is_nil (cc_invalidated_at_ms c)"

definition invalidate :: "(string control_callback \<Rightarrow> bool) \<Rightarrow> i64 \<Rightarrow> control_db \<Rightarrow> control_db" where
  "invalidate P now db = db\<lparr>ctl_callbacks :=
     update_where (\<lambda>c. P c \<and> cc_live c) (\<lambda>c. c\<lparr>cc_invalidated_at_ms := Some now\<rparr>) (ctl_callbacks db)\<rparr>"

section \<open>Interactions\<close>

definition new_interaction :: "string \<Rightarrow> string \<Rightarrow> i64 \<Rightarrow> string \<Rightarrow> 'p \<Rightarrow> i64 \<Rightarrow> i64 \<Rightarrow> i64 option \<Rightarrow>
    i64 \<Rightarrow> i64 \<Rightarrow> i64 \<Rightarrow> 'p control_interaction" where
  "new_interaction scope kind revision phase payload user chat message expires created updated =
     \<lparr>ci_scope_key = scope, ci_kind = kind, ci_revision = revision, ci_phase = phase,
      ci_payload = payload, ci_user_id = user, ci_chat_id = chat, ci_message_id = message,
      ci_expires_at_ms = expires, ci_claimed_at_ms = None, ci_created_at_ms = created,
      ci_updated_at_ms = updated\<rparr>"

text \<open>
  The statement binds one parameter to both \<open>created_at_ms\<close> and \<open>updated_at_ms\<close>, so the row keeps
  the time of its creation in both.
\<close>

definition replace_control_interaction ::
  "json serializer \<Rightarrow> string \<Rightarrow> string \<Rightarrow> string \<Rightarrow> json \<Rightarrow> i64 \<Rightarrow> i64 \<Rightarrow> i64 option \<Rightarrow> i64 \<Rightarrow> i64 \<Rightarrow>
    control_db \<Rightarrow> json control_interaction port_result \<times> control_db" where
  "replace_control_interaction ser scope kind phase payload user chat message expires now db =
     (if is_blank scope \<or> is_blank kind \<or> is_blank phase
      then (Inl (Adapter ''control interaction keys cannot be empty''), db)
      else case ser payload of
        Inl e \<Rightarrow> (Inl (Adapter (''serialize control interaction: '' @ e)), db)
      | Inr payload_json \<Rightarrow>
          let db1 = invalidate (\<lambda>c. cc_scope_key c = Some scope) now db;
              existing = first_where (\<lambda>r. ci_scope_key r = scope) (ctl_interactions db1);
              revision = (case existing of None \<Rightarrow> 1 | Some r \<Rightarrow> saturating_add (ci_revision r) 1);
              created = (case existing of None \<Rightarrow> now | Some r \<Rightarrow> ci_created_at_ms r);
              row = new_interaction scope kind revision phase payload_json user chat message
                expires created created
          in (Inr (new_interaction scope kind revision phase payload user chat message expires
                created now),
              db1\<lparr>ctl_interactions := upsert (\<lambda>r. ci_scope_key r = scope) row
                (\<lambda>r. row\<lparr>ci_created_at_ms := ci_created_at_ms r\<rparr>) (ctl_interactions db1)\<rparr>))"

definition read_interaction ::
  "json deserializer \<Rightarrow> string \<Rightarrow> control_db \<Rightarrow> json control_interaction option port_result" where
  "read_interaction de scope db =
     (case first_where (\<lambda>r. ci_scope_key r = scope) (ctl_interactions db) of
        None \<Rightarrow> Inr None
      | Some r \<Rightarrow> map_sum id Some (control_interaction_from_row de r))"

text \<open>The condition and the assignments of the conditional update, with the callbacks of the old revision.\<close>

definition advanceable :: "string \<Rightarrow> i64 \<Rightarrow> i64 \<Rightarrow> i64 \<Rightarrow> i64 \<Rightarrow> 'p control_interaction \<Rightarrow> bool" where
  "advanceable scope expected user chat now r \<longleftrightarrow>
     ci_scope_key r = scope \<and> ci_revision r = expected \<and> ci_user_id r = user \<and> ci_chat_id r = chat
   \<and> is_nil (ci_claimed_at_ms r) \<and> now < ci_expires_at_ms r"

definition advance_row :: "i64 \<Rightarrow> string \<Rightarrow> 'p \<Rightarrow> i64 \<Rightarrow> i64 \<Rightarrow> i64 option \<Rightarrow> i64 \<Rightarrow> i64 \<Rightarrow>
    'p control_interaction \<Rightarrow> 'p control_interaction" where
  "advance_row revision phase payload user chat message expires now r =
     r\<lparr>ci_revision := revision, ci_phase := phase, ci_payload := payload, ci_user_id := user,
       ci_chat_id := chat, ci_message_id := message, ci_expires_at_ms := expires,
       ci_claimed_at_ms := None, ci_updated_at_ms := now\<rparr>"

definition advance_control_interaction ::
  "json serializer \<Rightarrow> json deserializer \<Rightarrow> string \<Rightarrow> i64 \<Rightarrow> string \<Rightarrow> json \<Rightarrow> i64 \<Rightarrow> i64 \<Rightarrow>
    i64 option \<Rightarrow> i64 \<Rightarrow> i64 \<Rightarrow> control_db \<Rightarrow> json control_interaction option port_result \<times> control_db" where
  "advance_control_interaction ser de scope expected phase payload user chat message expires now db =
     (if is_blank scope \<or> is_blank phase
      then (Inl (Adapter ''control interaction keys cannot be empty''), db)
      else case ser payload of
        Inl e \<Rightarrow> (Inl (Adapter (''serialize control interaction: '' @ e)), db)
      | Inr payload_json \<Rightarrow>
          let P = advanceable scope expected user chat now in
          if \<not> exists_where P (ctl_interactions db) then (Inr None, db)
          else case stored_int ''rust_control_interactions.revision'' (expected + 1) of
            Inl e \<Rightarrow> (Inl e, db)
          | Inr revision \<Rightarrow>
              let db1 = invalidate (\<lambda>c. cc_scope_key c = Some scope \<and> cc_revision c = Some expected) now
                    (db\<lparr>ctl_interactions := update_where P
                      (advance_row revision phase payload_json user chat message expires now)
                      (ctl_interactions db)\<rparr>)
              in (case read_interaction de scope db1 of
                    Inl e \<Rightarrow> (Inl e, db)
                  | Inr None \<Rightarrow> (Inl (Adapter ''Query returned no rows''), db)
                  | Inr (Some i) \<Rightarrow> (Inr (Some i), db1)))"

text \<open>Collecting rows that each may fail to convert stops at the first failure.\<close>

fun collect_rows :: "('r \<Rightarrow> 'e + 'a) \<Rightarrow> 'r list \<Rightarrow> 'e + 'a list" where
  "collect_rows f [] = Inr []"
| "collect_rows f (r # rows) = (case f r of
     Inl e \<Rightarrow> Inl e
   | Inr x \<Rightarrow> map_sum id (\<lambda>xs. x # xs) (collect_rows f rows))"

definition read_interactions ::
  "json deserializer \<Rightarrow> string \<Rightarrow> control_db \<Rightarrow> json control_interaction list port_result" where
  "read_interactions de kind db = collect_rows (control_interaction_from_row de)
     (sort_key (\<lambda>r. (ci_updated_at_ms r, ci_scope_key r))
       (filter (\<lambda>r. ci_kind r = kind) (ctl_interactions db)))"

definition claimable :: "string \<Rightarrow> i64 \<Rightarrow> i64 \<Rightarrow> i64 \<Rightarrow> i64 \<Rightarrow> bool \<Rightarrow> 'p control_interaction \<Rightarrow> bool" where
  "claimable scope user chat revision now live r \<longleftrightarrow>
     ci_scope_key r = scope \<and> ci_user_id r = user \<and> ci_chat_id r = chat \<and> ci_revision r = revision
   \<and> null_or_le (ci_claimed_at_ms r) (saturating_sub now control_claim_lease_ms)
   \<and> (if live then now < ci_expires_at_ms r else ci_expires_at_ms r \<le> now)"

definition claim_control_interaction_with_expiry ::
  "json deserializer \<Rightarrow> string \<Rightarrow> i64 \<Rightarrow> i64 \<Rightarrow> i64 \<Rightarrow> i64 \<Rightarrow> bool \<Rightarrow> control_db \<Rightarrow>
    json control_interaction option port_result \<times> control_db" where
  "claim_control_interaction_with_expiry de scope user chat revision now live db =
     (let P = claimable scope user chat revision now live;
          db1 = db\<lparr>ctl_interactions := update_where P
            (\<lambda>r. r\<lparr>ci_claimed_at_ms := Some now, ci_updated_at_ms := now\<rparr>) (ctl_interactions db)\<rparr>
      in if count_where P (ctl_interactions db) = 0 then (Inr None, db1)
         else (read_interaction de scope db1, db1))"

definition claim_control_interaction ::
  "json deserializer \<Rightarrow> string \<Rightarrow> i64 \<Rightarrow> i64 \<Rightarrow> i64 \<Rightarrow> i64 \<Rightarrow> control_db \<Rightarrow>
    json control_interaction option port_result \<times> control_db" where
  "claim_control_interaction de scope user chat revision now db =
     claim_control_interaction_with_expiry de scope user chat revision now True db"

definition claim_expired_control_interaction ::
  "json deserializer \<Rightarrow> string \<Rightarrow> i64 \<Rightarrow> i64 \<Rightarrow> i64 \<Rightarrow> i64 \<Rightarrow> control_db \<Rightarrow>
    json control_interaction option port_result \<times> control_db" where
  "claim_expired_control_interaction de scope user chat revision now db =
     claim_control_interaction_with_expiry de scope user chat revision now False db"

definition delete_control_interaction ::
  "string \<Rightarrow> i64 \<Rightarrow> control_db \<Rightarrow> bool port_result \<times> control_db" where
  "delete_control_interaction scope now db =
     (let db1 = invalidate (\<lambda>c. cc_scope_key c = Some scope) now db
      in (Inr (count_where (\<lambda>r. ci_scope_key r = scope) (ctl_interactions db1) = 1),
          db1\<lparr>ctl_interactions := delete_where (\<lambda>r. ci_scope_key r = scope) (ctl_interactions db1)\<rparr>))"

definition release_control_interaction_claim ::
  "string \<Rightarrow> i64 \<Rightarrow> i64 \<Rightarrow> i64 \<Rightarrow> control_db \<Rightarrow> bool port_result \<times> control_db" where
  "release_control_interaction_claim scope revision claim_started now db =
     (let P = (\<lambda>r. ci_scope_key r = scope \<and> ci_revision r = revision
            \<and> ci_claimed_at_ms r = Some claim_started)
      in (Inr (count_where P (ctl_interactions db) = 1),
          db\<lparr>ctl_interactions := update_where P
            (\<lambda>r. r\<lparr>ci_claimed_at_ms := None, ci_updated_at_ms := now\<rparr>) (ctl_interactions db)\<rparr>))"

definition update_control_interaction_message ::
  "string \<Rightarrow> i64 \<Rightarrow> i64 \<Rightarrow> i64 \<Rightarrow> control_db \<Rightarrow> bool port_result \<times> control_db" where
  "update_control_interaction_message scope revision message now db =
     (if message \<le> 0 then (Inl (Adapter ''control interaction message id must be positive''), db)
      else
        let P = (\<lambda>r. ci_scope_key r = scope \<and> ci_revision r = revision)
        in (Inr (count_where P (ctl_interactions db) = 1),
            db\<lparr>ctl_interactions := update_where P
              (\<lambda>r. r\<lparr>ci_message_id := Some message, ci_updated_at_ms := now\<rparr>) (ctl_interactions db)\<rparr>))"

section \<open>Callbacks\<close>

text \<open>The values the statement binds: the fields of the callback, its payload as text.\<close>

definition control_callback_row :: "string \<Rightarrow> json control_callback \<Rightarrow> string control_callback" where
  "control_callback_row payload_json c =
     \<lparr>cc_nonce = cc_nonce c, cc_scope_key = cc_scope_key c, cc_revision = cc_revision c,
      cc_user_id = cc_user_id c, cc_chat_id = cc_chat_id c, cc_action = cc_action c,
      cc_payload = payload_json, cc_expires_at_ms = cc_expires_at_ms c,
      cc_consumed_at_ms = cc_consumed_at_ms c, cc_invalidated_at_ms = cc_invalidated_at_ms c,
      cc_created_at_ms = cc_created_at_ms c\<rparr>"

definition upsert_control_callback ::
  "json serializer \<Rightarrow> json control_callback \<Rightarrow> control_db \<Rightarrow> unit port_result \<times> control_db" where
  "upsert_control_callback ser c db =
     (if is_blank (cc_nonce c) \<or> is_blank (cc_action c)
         \<or> (case cc_scope_key c of None \<Rightarrow> False | Some k \<Rightarrow> is_blank k)
      then (Inl (Adapter ''control callback fields cannot be empty''), db)
      else case ser (cc_payload c) of
        Inl e \<Rightarrow> (Inl (Adapter (''serialize control callback: '' @ e)), db)
      | Inr payload_json \<Rightarrow>
          let row = control_callback_row payload_json c
          in (Inr (), db\<lparr>ctl_callbacks := upsert (\<lambda>r. cc_nonce r = cc_nonce c) row
                (\<lambda>r. row\<lparr>cc_created_at_ms := cc_created_at_ms r\<rparr>) (ctl_callbacks db)\<rparr>))"

text \<open>The revision check of a callback that names an interaction and its revision.\<close>

definition callback_current :: "control_db \<Rightarrow> 'p control_callback \<Rightarrow> bool" where
  "callback_current db c = (case (cc_scope_key c, cc_revision c) of
     (Some scope, Some revision) \<Rightarrow>
       map_option ci_revision (first_where (\<lambda>r. ci_scope_key r = scope) (ctl_interactions db)) = Some revision
   | _ \<Rightarrow> True)"

definition consume_control_callback ::
  "json deserializer \<Rightarrow> string \<Rightarrow> i64 \<Rightarrow> i64 \<Rightarrow> i64 \<Rightarrow> control_db \<Rightarrow>
    json control_callback option port_result \<times> control_db" where
  "consume_control_callback de nonce user chat now db =
     (case first_where (\<lambda>c. cc_nonce c = nonce \<and> cc_user_id c = user \<and> cc_chat_id c = chat
          \<and> now \<le> cc_expires_at_ms c \<and> cc_live c) (ctl_callbacks db) of
        None \<Rightarrow> (Inr None, db)
      | Some row \<Rightarrow> (case control_callback_from_row de row of
            Inl e \<Rightarrow> (Inl e, db)
          | Inr c \<Rightarrow>
              if \<not> callback_current db c then (Inr None, db)
              else
                let P = (\<lambda>r. cc_nonce r = nonce \<and> cc_live r)
                in (Inr (if count_where P (ctl_callbacks db) = 1
                         then Some (c\<lparr>cc_consumed_at_ms := Some now\<rparr>) else None),
                    db\<lparr>ctl_callbacks := update_where P (\<lambda>r. r\<lparr>cc_consumed_at_ms := Some now\<rparr>)
                      (ctl_callbacks db)\<rparr>)))"

section \<open>One operation of any kind\<close>

datatype control_op =
    CReplace string string string json i64 i64 "i64 option" i64 i64
  | CAdvance string i64 string json i64 i64 "i64 option" i64 i64
  | CClaim string i64 i64 i64 i64 bool
  | CDelete string i64
  | CRelease string i64 i64 i64
  | CMessage string i64 i64 i64
  | CUpsert "json control_callback"
  | CConsume string i64 i64 i64

fun control_step :: "json serializer \<Rightarrow> json deserializer \<Rightarrow> control_op \<Rightarrow> control_db \<Rightarrow> control_db" where
  "control_step ser de (CReplace scope kind phase payload user chat message expires now) db =
     snd (replace_control_interaction ser scope kind phase payload user chat message expires now db)"
| "control_step ser de (CAdvance scope expected phase payload user chat message expires now) db =
     snd (advance_control_interaction ser de scope expected phase payload user chat message expires now db)"
| "control_step ser de (CClaim scope user chat revision now live) db =
     snd (claim_control_interaction_with_expiry de scope user chat revision now live db)"
| "control_step ser de (CDelete scope now) db = snd (delete_control_interaction scope now db)"
| "control_step ser de (CRelease scope revision started now) db =
     snd (release_control_interaction_claim scope revision started now db)"
| "control_step ser de (CMessage scope revision message now) db =
     snd (update_control_interaction_message scope revision message now db)"
| "control_step ser de (CUpsert c) db = snd (upsert_control_callback ser c db)"
| "control_step ser de (CConsume nonce user chat now) db =
     snd (consume_control_callback de nonce user chat now db)"

definition control_empty :: control_db where
  "control_empty = \<lparr>ctl_interactions = [], ctl_callbacks = []\<rparr>"

end
