(* ===== verification/ControlProps.thy ===== *)
theory ControlProps
  imports ControlStore
begin

text \<open>
  Control interactions and callbacks under every interleaving of their operations: a revision is
  advanced or claimed by one caller, an old revision is refused from then on, a callback is used
  once and dies with the revision it belongs to.
\<close>

lemma row_simps [simp]:
  "cc_nonce (control_callback_row t c) = cc_nonce c"
  "ci_scope_key (new_interaction s k r ph pl u ch m e cr up) = s"
  "ci_revision (new_interaction s k r ph pl u ch m e cr up) = r"
  "ci_claimed_at_ms (new_interaction s k r ph pl u ch m e cr up) = None"
  by (simp_all add: control_callback_row_def new_interaction_def)

section \<open>The invariant: the keys of both tables are unique\<close>

definition control_inv :: "control_db \<Rightarrow> bool" where
  "control_inv db \<longleftrightarrow> distinct (map ci_scope_key (ctl_interactions db))
     \<and> distinct (map cc_nonce (ctl_callbacks db))"

lemma invalidate_simps [simp]:
  "ctl_interactions (invalidate P now db) = ctl_interactions db"
  "map cc_nonce (ctl_callbacks (invalidate P now db)) = map cc_nonce (ctl_callbacks db)"
  by (simp_all add: invalidate_def update_where_keys)

lemma invalidate_inv [simp]: "control_inv (invalidate P now db) = control_inv db"
  by (simp add: control_inv_def)

lemma replace_inv:
  assumes "control_inv db"
  shows "control_inv (snd (replace_control_interaction ser s k ph pl u c m e now db))"
proof -
  have "distinct (map ci_scope_key (upsert (\<lambda>r. ci_scope_key r = s) row
      (\<lambda>r. row\<lparr>ci_created_at_ms := ci_created_at_ms r\<rparr>) (ctl_interactions db)))"
    if "ci_scope_key row = s" for row
    using upsert_distinct [of ci_scope_key "ctl_interactions db" row] assms that
    by (simp add: control_inv_def)
  with assms show ?thesis
    by (simp add: replace_control_interaction_def Let_def control_inv_def split: sum.split)
qed

lemma upsert_callback_inv:
  assumes "control_inv db" shows "control_inv (snd (upsert_control_callback ser c db))"
proof -
  have "distinct (map cc_nonce (upsert (\<lambda>r. cc_nonce r = cc_nonce c) row
      (\<lambda>r. row\<lparr>cc_created_at_ms := cc_created_at_ms r\<rparr>) (ctl_callbacks db)))"
    if "cc_nonce row = cc_nonce c" for row
    using upsert_distinct [of cc_nonce "ctl_callbacks db" row] assms that
    by (simp add: control_inv_def)
  with assms show ?thesis
    by (simp add: upsert_control_callback_def Let_def control_inv_def split: sum.split option.split)
qed

lemma advance_inv:
  assumes "control_inv db"
  shows "control_inv (snd (advance_control_interaction ser de s x ph pl u c m e now db))"
proof -
  have "control_inv (invalidate P now (db\<lparr>ctl_interactions := update_where Q f (ctl_interactions db)\<rparr>))"
    if "\<And>r. ci_scope_key (f r) = ci_scope_key r" for P Q f
    using assms that by (simp add: control_inv_def update_where_keys)
  with assms show ?thesis
    by (simp add: advance_control_interaction_def advance_row_def Let_def split: sum.split option.split)
qed

lemma control_step_inv: "control_inv db \<Longrightarrow> control_inv (control_step ser de op db)"
proof (cases op)
  case (CConsume n u c now)
  then show "control_inv db \<Longrightarrow> ?thesis"
    by (simp add: consume_control_callback_def Let_def control_inv_def update_where_keys
        split: option.split sum.split)
next
  case (CClaim s u c r now live)
  then show "control_inv db \<Longrightarrow> ?thesis"
    by (simp add: claim_control_interaction_with_expiry_def Let_def control_inv_def update_where_keys)
next
  case (CReplace s k ph pl u c m e now)
  then show "control_inv db \<Longrightarrow> ?thesis" by (simp add: replace_inv)
next
  case (CAdvance s x ph pl u c m e now)
  then show "control_inv db \<Longrightarrow> ?thesis" by (simp add: advance_inv)
next
  case (CUpsert c)
  then show "control_inv db \<Longrightarrow> ?thesis" by (simp add: upsert_callback_inv)
qed (simp_all add: delete_control_interaction_def
    release_control_interaction_claim_def update_control_interaction_message_def Let_def
    control_inv_def update_where_keys delete_where_distinct)

interpretation ctl: machine "control_step ser de" control_inv for ser de
  by unfold_locales (rule control_step_inv)

lemma control_inv_empty [simp]: "control_inv control_empty"
  by (simp add: control_inv_def control_empty_def)

lemma control_run_inv: "control_inv (fold (control_step ser de) ops control_empty)"
  by (rule ctl.run_inv) simp

section \<open>Callbacks that are dead\<close>

definition callback_dead :: "string \<Rightarrow> control_db \<Rightarrow> bool" where
  "callback_dead n db \<longleftrightarrow> (\<forall>c \<in> set (ctl_callbacks db). \<not> (cc_nonce c = n \<and> cc_live c))"

fun upserts :: "string \<Rightarrow> control_op \<Rightarrow> bool" where
  "upserts n (CUpsert c) = (cc_nonce c = n)"
| "upserts n op = False"

lemma dead_invalidate: "callback_dead n db \<Longrightarrow> callback_dead n (invalidate P now db)"
  unfolding callback_dead_def
proof (intro ballI)
  fix c assume dead: "\<forall>c \<in> set (ctl_callbacks db). \<not> (cc_nonce c = n \<and> cc_live c)"
    and c: "c \<in> set (ctl_callbacks (invalidate P now db))"
  then have c: "c \<in> set (update_where (\<lambda>c. P c \<and> cc_live c) (\<lambda>c. c\<lparr>cc_invalidated_at_ms := Some now\<rparr>)
      (ctl_callbacks db))" by (simp add: invalidate_def)
  show "\<not> (cc_nonce c = n \<and> cc_live c)"
    by (rule update_where_inv [where Q = "\<lambda>c. \<not> (cc_nonce c = n \<and> cc_live c)", OF _ _ c])
      (use dead in \<open>simp_all add: cc_live_def\<close>)
qed

lemma dead_interactions [simp]:
  "callback_dead n (db\<lparr>ctl_interactions := rows\<rparr>) = callback_dead n db"
  by (simp add: callback_dead_def)

lemma dead_consumed:
  assumes "callback_dead n db"
  shows "callback_dead n (db\<lparr>ctl_callbacks := update_where P (\<lambda>r. r\<lparr>cc_consumed_at_ms := Some now\<rparr>)
    (ctl_callbacks db)\<rparr>)"
  unfolding callback_dead_def
proof (intro ballI)
  fix c assume c: "c \<in> set (ctl_callbacks (db\<lparr>ctl_callbacks := update_where P
      (\<lambda>r. r\<lparr>cc_consumed_at_ms := Some now\<rparr>) (ctl_callbacks db)\<rparr>))"
  then have c: "c \<in> set (update_where P (\<lambda>r. r\<lparr>cc_consumed_at_ms := Some now\<rparr>) (ctl_callbacks db))"
    by simp
  show "\<not> (cc_nonce c = n \<and> cc_live c)"
    by (rule update_where_inv [where Q = "\<lambda>c. \<not> (cc_nonce c = n \<and> cc_live c)", OF _ _ c]) (use assms in \<open>auto simp: callback_dead_def cc_live_def\<close>)
qed

lemma dead_upsert:
  assumes "callback_dead n db" and "cc_nonce row \<noteq> n"
  shows "callback_dead n (db\<lparr>ctl_callbacks := upsert (\<lambda>r. cc_nonce r = cc_nonce row) row
    (\<lambda>r. row\<lparr>cc_created_at_ms := cc_created_at_ms r\<rparr>) (ctl_callbacks db)\<rparr>)"
  unfolding callback_dead_def
proof (intro ballI)
  fix c assume c: "c \<in> set (ctl_callbacks (db\<lparr>ctl_callbacks := upsert (\<lambda>r. cc_nonce r = cc_nonce row) row
      (\<lambda>r. row\<lparr>cc_created_at_ms := cc_created_at_ms r\<rparr>) (ctl_callbacks db)\<rparr>))"
  show "\<not> (cc_nonce c = n \<and> cc_live c)"
  proof (cases "exists_where (\<lambda>r. cc_nonce r = cc_nonce row) (ctl_callbacks db)")
    case True
    with c have c: "c \<in> set (update_where (\<lambda>r. cc_nonce r = cc_nonce row)
        (\<lambda>r. row\<lparr>cc_created_at_ms := cc_created_at_ms r\<rparr>) (ctl_callbacks db))"
      by (simp add: upsert_def)
    show ?thesis
      by (rule update_where_inv [where Q = "\<lambda>c. \<not> (cc_nonce c = n \<and> cc_live c)", OF _ _ c]) (use assms in \<open>auto simp: callback_dead_def\<close>)
  next
    case False
    with c assms show ?thesis by (auto simp: upsert_def callback_dead_def)
  qed
qed

lemma dead_step:
  assumes "callback_dead n db" and "\<not> upserts n op"
  shows "callback_dead n (control_step ser de op db)"
proof (cases op)
  case (CUpsert c)
  with assms show ?thesis
    using dead_upsert [of n db "control_callback_row _ c"]
    by (simp add: upsert_control_callback_def Let_def split: sum.split option.split)
next
  case (CConsume n' u c now)
  with assms show ?thesis
    by (simp add: consume_control_callback_def Let_def dead_consumed split: option.split sum.split)
qed (use assms in \<open>simp_all add: replace_control_interaction_def advance_control_interaction_def
    claim_control_interaction_with_expiry_def delete_control_interaction_def
    release_control_interaction_claim_def update_control_interaction_message_def Let_def
    dead_invalidate split: sum.split option.split\<close>)

lemma dead_run:
  "callback_dead n db \<Longrightarrow> list_all (\<lambda>op. \<not> upserts n op) ops \<Longrightarrow>
     callback_dead n (fold (control_step ser de) ops db)"
  by (induction ops arbitrary: db) (auto intro: dead_step)

lemma dead_refused:
  assumes "callback_dead n db"
  shows "consume_control_callback de n u c now db = (Inr None, db)"
proof -
  have "first_where (\<lambda>c'. cc_nonce c' = n \<and> cc_user_id c' = u \<and> cc_chat_id c' = c
      \<and> now \<le> cc_expires_at_ms c' \<and> cc_live c') (ctl_callbacks db) = None"
    using assms by (auto simp: first_where_None callback_dead_def)
  then show ?thesis by (simp add: consume_control_callback_def)
qed

lemma consumed_dead:
  assumes "fst (consume_control_callback de n u c now db) = Inr (Some i)"
  shows "callback_dead n (snd (consume_control_callback de n u c now db))"
proof -
  let ?P = "\<lambda>r. cc_nonce r = n \<and> cc_live r"
  have "ctl_callbacks (snd (consume_control_callback de n u c now db))
      = update_where ?P (\<lambda>r. r\<lparr>cc_consumed_at_ms := Some now\<rparr>) (ctl_callbacks db)"
    using assms by (auto simp: consume_control_callback_def Let_def split: option.splits sum.splits if_splits)
  moreover have "\<not> ?P r" if "r \<in> set (update_where ?P (\<lambda>r. r\<lparr>cc_consumed_at_ms := Some now\<rparr>) (ctl_callbacks db))" for r
    using that by (rule update_where_misses [rotated 2]) (simp_all add: cc_live_def)
  ultimately show ?thesis by (simp add: callback_dead_def)
qed

lemma invalidated_dead:
  assumes "\<forall>c \<in> set (ctl_callbacks db). cc_nonce c = n \<longrightarrow> P c"
  shows "callback_dead n (invalidate P now db)"
proof -
  let ?P = "\<lambda>c. P c \<and> cc_live c"
  have "\<not> (cc_nonce c = n \<and> cc_live c)"
    if c: "c \<in> set (update_where ?P (\<lambda>c. c\<lparr>cc_invalidated_at_ms := Some now\<rparr>) (ctl_callbacks db))" for c
  proof -
    from c obtain q where q: "q \<in> set (ctl_callbacks db)"
      "c = (if ?P q then q\<lparr>cc_invalidated_at_ms := Some now\<rparr> else q)"
      unfolding set_update_where by blast
    show ?thesis unfolding q(2) using assms q(1) by (auto simp: cc_live_def)
  qed
  then show ?thesis by (simp add: callback_dead_def invalidate_def)
qed

section \<open>Revisions\<close>

definition revision_of :: "string \<Rightarrow> control_db \<Rightarrow> i64 option" where
  "revision_of s db = map_option ci_revision (first_where (\<lambda>r. ci_scope_key r = s) (ctl_interactions db))"

text \<open>The interaction is gone or has passed the revision.\<close>

definition revision_passed :: "string \<Rightarrow> i64 \<Rightarrow> control_db \<Rightarrow> bool" where
  "revision_passed s n db \<longleftrightarrow> (\<exists>m. revision_of s db = Some m \<and> n < m)"

fun deletes :: "string \<Rightarrow> control_op \<Rightarrow> bool" where
  "deletes s (CDelete s' now) = (s = s')"
| "deletes s op = False"

definition revisions_ok :: "control_db \<Rightarrow> bool" where
  "revisions_ok db \<longleftrightarrow> (\<forall>s n. revision_of s db = Some n \<longrightarrow> in_i64 n)"

lemma revision_of_update:
  assumes "\<And>r. P r \<Longrightarrow> ci_scope_key (f r) = ci_scope_key r \<and> ci_revision (f r) = ci_revision r"
  shows "revision_of s (db\<lparr>ctl_interactions := update_where P f (ctl_interactions db)\<rparr>) = revision_of s db"
proof -
  have "first_where (\<lambda>r. ci_scope_key r = s) (update_where P f (ctl_interactions db))
      = map_option (\<lambda>r. if P r then f r else r) (first_where (\<lambda>r. ci_scope_key r = s) (ctl_interactions db))"
    by (rule first_where_update) (use assms in simp)
  then show ?thesis
    using assms by (cases "first_where (\<lambda>r. ci_scope_key r = s) (ctl_interactions db)")
      (simp_all add: revision_of_def)
qed

lemma revision_of_invalidate [simp]: "revision_of s (invalidate P now db) = revision_of s db"
  by (simp add: revision_of_def)

lemma revision_of_callbacks [simp]: "revision_of s (db\<lparr>ctl_callbacks := cs\<rparr>) = revision_of s db"
  by (simp add: revision_of_def)

lemma revision_of_replace:
  assumes "fst (replace_control_interaction ser s k ph pl u c m e now db) = Inr i"
  shows "revision_of s' (snd (replace_control_interaction ser s k ph pl u c m e now db)) =
    (if s' = s then Some (ci_revision i) else revision_of s' db)"
    and "ci_revision i = (case revision_of s db of None \<Rightarrow> 1 | Some n \<Rightarrow> saturating_add n 1)"
proof -
  let ?rev = "case first_where (\<lambda>r. ci_scope_key r = s) (ctl_interactions db) of None \<Rightarrow> 1
    | Some r \<Rightarrow> saturating_add (ci_revision r) 1"
  have "first_where (\<lambda>r. ci_scope_key r = s') (upsert (\<lambda>r. ci_scope_key r = s) row
      (\<lambda>r. row\<lparr>ci_created_at_ms := ci_created_at_ms r\<rparr>) (ctl_interactions db)) =
    (if s' = s then Some (case first_where (\<lambda>r. ci_scope_key r = s') (ctl_interactions db) of
        None \<Rightarrow> row | Some r \<Rightarrow> row\<lparr>ci_created_at_ms := ci_created_at_ms r\<rparr>)
     else first_where (\<lambda>r. ci_scope_key r = s') (ctl_interactions db))"
    if "ci_scope_key row = s" for row
    using first_where_upsert [of ci_scope_key row] that by fastforce
  moreover have "ci_revision i = ?rev"
    using assms by (auto simp: replace_control_interaction_def Let_def split: sum.splits if_splits)
  ultimately show "revision_of s' (snd (replace_control_interaction ser s k ph pl u c m e now db)) =
      (if s' = s then Some (ci_revision i) else revision_of s' db)"
    using assms by (auto simp: replace_control_interaction_def Let_def revision_of_def
        split: sum.splits option.splits if_splits)
  show "ci_revision i = (case revision_of s db of None \<Rightarrow> 1 | Some n \<Rightarrow> saturating_add n 1)"
    using \<open>ci_revision i = ?rev\<close> by (simp add: revision_of_def split: option.split)
qed

lemma replace_failed:
  "fst (replace_control_interaction ser s k ph pl u c m e now db) = Inl x \<Longrightarrow>
     snd (replace_control_interaction ser s k ph pl u c m e now db) = db"
  by (auto simp: replace_control_interaction_def Let_def split: sum.splits if_splits)

lemma advance_cases:
  obtains (same) "snd (advance_control_interaction ser de s x ph pl u c m e now db) = db"
      "\<And>i. fst (advance_control_interaction ser de s x ph pl u c m e now db) \<noteq> Inr (Some i)"
  | (moved) t where "snd (advance_control_interaction ser de s x ph pl u c m e now db) =
        invalidate (\<lambda>c. cc_scope_key c = Some s \<and> cc_revision c = Some x) now
        (db\<lparr>ctl_interactions := update_where (advanceable s x u c now)
          (advance_row (x + 1) ph t u c m e now) (ctl_interactions db)\<rparr>)"
      "in_i64 (x + 1)" "exists_where (advanceable s x u c now) (ctl_interactions db)"
proof (cases "is_blank s \<or> is_blank ph \<or> (\<exists>e. ser pl = Inl e)
    \<or> \<not> exists_where (advanceable s x u c now) (ctl_interactions db) \<or> \<not> in_i64 (x + 1)")
  case True
  then show ?thesis
    by (intro same) (auto simp: advance_control_interaction_def stored_int_def Let_def split: sum.splits if_splits)
next
  case False
  then obtain t where t: "ser pl = Inr t" by (cases "ser pl") auto
  let ?db = "invalidate (\<lambda>c. cc_scope_key c = Some s \<and> cc_revision c = Some x) now
        (db\<lparr>ctl_interactions := update_where (advanceable s x u c now)
          (advance_row (x + 1) ph t u c m e now) (ctl_interactions db)\<rparr>)"
  show ?thesis
  proof (cases "\<exists>i. read_interaction de s ?db = Inr (Some i)")
    case True
    with False t show ?thesis
      by (intro moved [of t]) (auto simp: advance_control_interaction_def Let_def)
  next
    case no: False
    with False t show ?thesis
      by (intro same) (auto simp: advance_control_interaction_def Let_def split: sum.split option.split)
  qed
qed

lemma revision_of_moved:
  assumes "control_inv db" and "exists_where P (ctl_interactions db)"
    and P: "\<And>r. P r \<Longrightarrow> ci_scope_key r = s \<and> ci_revision r = x"
    and f: "\<And>r. ci_scope_key (f r) = ci_scope_key r \<and> ci_revision (f r) = x + 1"
  shows "revision_of s' (invalidate Q now (db\<lparr>ctl_interactions := update_where P f (ctl_interactions db)\<rparr>)) =
    (if s' = s then Some (x + 1) else revision_of s' db)"
    and "revision_of s db = Some x"
proof -
  from assms(2) obtain r where r: "r \<in> set (ctl_interactions db)" "P r"
    by (auto simp: exists_where_def list_ex_iff)
  then have key: "first_where (\<lambda>r. ci_scope_key r = s) (ctl_interactions db) = Some r"
    using assms(1) P by (intro first_where_unique) (auto simp: control_inv_def)
  with r P show "revision_of s db = Some x" by (simp add: revision_of_def)
  have upd: "first_where (\<lambda>r. ci_scope_key r = s') (update_where P f (ctl_interactions db))
      = map_option (\<lambda>r. if P r then f r else r) (first_where (\<lambda>r. ci_scope_key r = s') (ctl_interactions db))"
    by (rule first_where_update) (use f in simp)
  show "revision_of s' (invalidate Q now (db\<lparr>ctl_interactions := update_where P f (ctl_interactions db)\<rparr>)) =
      (if s' = s then Some (x + 1) else revision_of s' db)"
  proof (cases "s' = s")
    case True
    with key r f upd show ?thesis by (simp add: revision_of_def)
  next
    case False
    have "map_option (\<lambda>r. if P r then f r else r) (first_where (\<lambda>r. ci_scope_key r = s') (ctl_interactions db))
        = first_where (\<lambda>r. ci_scope_key r = s') (ctl_interactions db)"
      using False P by (cases "first_where (\<lambda>r. ci_scope_key r = s') (ctl_interactions db)")
        (auto dest: first_where_SomeD)
    with False upd show ?thesis by (simp add: revision_of_def)
  qed
qed

lemma in_i64_1 [simp]: "in_i64 1"
  by (simp add: in_i64_def i64_min_def i64_max_def)

lemma revision_step:
  assumes "control_inv db"
  shows "revision_of s (control_step ser de op db) = revision_of s db
    \<or> (deletes s op \<and> revision_of s (control_step ser de op db) = None)
    \<or> (\<exists>n. revision_of s (control_step ser de op db) = Some n \<and> in_i64 n
         \<and> n = (case revision_of s db of None \<Rightarrow> 1 | Some m \<Rightarrow> saturating_add m 1))"
proof (cases op)
  case (CReplace s' k ph pl u c m e now)
  show ?thesis
  proof (cases "fst (replace_control_interaction ser s' k ph pl u c m e now db)")
    case (Inl x)
    with CReplace show ?thesis by (simp add: replace_failed)
  next
    case (Inr i)
    from revision_of_replace [OF this] CReplace show ?thesis
      by (auto simp: saturating_add_def split: option.splits)
  qed
next
  case (CAdvance s' x ph pl u c m e now)
  show ?thesis
  proof (cases rule: advance_cases [of ser de s' x ph pl u c m e now db])
    case same
    with CAdvance show ?thesis by simp
  next
    case (moved t)
    have r: "revision_of s (snd (advance_control_interaction ser de s' x ph pl u c m e now db)) =
        (if s = s' then Some (x + 1) else revision_of s db)"
      unfolding moved(1)
      by (rule revision_of_moved(1) [OF assms moved(3)]) (simp_all add: advanceable_def advance_row_def)
    have x: "revision_of s' db = Some x"
      by (rule revision_of_moved(2) [OF assms moved(3), where f = "advance_row (x + 1) ph t u c m e now"])
        (simp_all add: advanceable_def advance_row_def)
    with r CAdvance moved(2) show ?thesis by (auto simp: saturating_add_eq)
  qed
next
  case (CClaim s' u c r now live)
  then show ?thesis
    by (simp add: claim_control_interaction_with_expiry_def Let_def revision_of_update)
next
  case (CDelete s' now)
  show ?thesis
  proof (cases "s' = s")
    case True
    have "first_where (\<lambda>r. ci_scope_key r = s) (delete_where (\<lambda>r. ci_scope_key r = s) (ctl_interactions db)) = None"
      by (rule first_where_deleted) simp
    with CDelete True show ?thesis
      by (simp add: delete_control_interaction_def Let_def revision_of_def)
  next
    case False
    have "first_where (\<lambda>r. ci_scope_key r = s) (delete_where (\<lambda>r. ci_scope_key r = s') (ctl_interactions db))
        = first_where (\<lambda>r. ci_scope_key r = s) (ctl_interactions db)"
      by (rule first_where_delete) (use False in simp)
    with CDelete show ?thesis by (simp add: delete_control_interaction_def Let_def revision_of_def)
  qed
next
  case (CConsume n u c now)
  then show ?thesis
    by (simp add: consume_control_callback_def Let_def split: option.split sum.split)
qed (simp_all add: release_control_interaction_claim_def update_control_interaction_message_def
    upsert_control_callback_def Let_def revision_of_update split: sum.split option.split)

lemma passed_step:
  assumes "control_inv db" and "revisions_ok db" and "revision_passed s n db" and "\<not> deletes s op"
  shows "revision_passed s n (control_step ser de op db)"
proof -
  obtain m where m: "revision_of s db = Some m" "n < m" using assms(3) by (auto simp: revision_passed_def)
  then have "m \<le> saturating_add m 1" using assms(2) by (intro saturating_add_ge) (auto simp: revisions_ok_def)
  with m revision_step [OF assms(1), of s ser de op] assms(4) show ?thesis
    by (auto simp: revision_passed_def)
qed

lemma revisions_ok_step:
  assumes "control_inv db" and "revisions_ok db"
  shows "revisions_ok (control_step ser de op db)"
  unfolding revisions_ok_def
proof (intro allI impI)
  fix s n assume n: "revision_of s (control_step ser de op db) = Some n"
  with revision_step [OF assms(1), of s ser de op] assms(2) show "in_i64 n"
    by (auto simp: revisions_ok_def)
qed

lemma revisions_ok_empty [simp]: "revisions_ok control_empty"
  by (simp add: revisions_ok_def revision_of_def control_empty_def)

lemma passed_run:
  "control_inv db \<Longrightarrow> revisions_ok db \<Longrightarrow> revision_passed s n db \<Longrightarrow>
     list_all (\<lambda>op. \<not> deletes s op) ops \<Longrightarrow>
     revision_passed s n (fold (control_step ser de) ops db)"
  by (induction ops arbitrary: db) (auto intro: passed_step control_step_inv revisions_ok_step)

lemma revisions_ok_run: "revisions_ok (fold (control_step ser de) ops control_empty)"
proof -
  have "control_inv db \<Longrightarrow> revisions_ok db \<Longrightarrow> revisions_ok (fold (control_step ser de) ops db)" for db
    by (induction ops arbitrary: db) (auto intro: control_step_inv revisions_ok_step)
  then show ?thesis by simp
qed

lemma passed_refused:
  assumes inv: "control_inv db" and p: "revision_passed s n db"
  shows "claim_control_interaction_with_expiry de s u c n now live db = (Inr None, db)"
    and "\<not> exists_where (advanceable s n u c now) (ctl_interactions db)"
    and "cc_scope_key cb = Some s \<Longrightarrow> cc_revision cb = Some n \<Longrightarrow> \<not> callback_current db cb"
proof -
  obtain m where m: "revision_of s db = Some m" "n < m" using p by (auto simp: revision_passed_def)
  have none: "ci_revision r \<noteq> n" if "r \<in> set (ctl_interactions db)" "ci_scope_key r = s" for r
  proof -
    have "first_where (\<lambda>r. ci_scope_key r = s) (ctl_interactions db) = Some r"
      using inv that by (intro first_where_unique) (auto simp: control_inv_def)
    with m show ?thesis by (auto simp: revision_of_def)
  qed
  have "\<not> claimable s u c n now live r" if "r \<in> set (ctl_interactions db)" for r
    using none [OF that] by (auto simp: claimable_def)
  then show "claim_control_interaction_with_expiry de s u c n now live db = (Inr None, db)"
    by (simp add: claim_control_interaction_with_expiry_def Let_def count_where_0 update_where_id)
  show "\<not> exists_where (advanceable s n u c now) (ctl_interactions db)"
    using none by (auto simp: exists_where_def list_ex_iff advanceable_def)
  show "cc_scope_key cb = Some s \<Longrightarrow> cc_revision cb = Some n \<Longrightarrow> \<not> callback_current db cb"
    using m by (auto simp: callback_current_def revision_of_def)
qed

section \<open>Claims\<close>

text \<open>The time of the claim on an interaction, and a claim that finds its row.\<close>

definition claim_holder :: "string \<Rightarrow> control_db \<Rightarrow> i64 option" where
  "claim_holder s db = (case first_where (\<lambda>r. ci_scope_key r = s) (ctl_interactions db) of
     None \<Rightarrow> None | Some r \<Rightarrow> ci_claimed_at_ms r)"

definition claims_row :: "string \<times> i64 \<times> i64 \<times> i64 \<times> bool \<Rightarrow> i64 \<Rightarrow> control_db \<Rightarrow> bool" where
  "claims_row k now db = (case k of (s, u, c, r, live) \<Rightarrow>
     control_inv db \<and> exists_where (claimable s u c r now live) (ctl_interactions db))"

definition claimed_db :: "string \<times> i64 \<times> i64 \<times> i64 \<times> bool \<Rightarrow> i64 \<Rightarrow> control_db \<Rightarrow> control_db" where
  "claimed_db k now db = (case k of (s, u, c, r, live) \<Rightarrow>
     snd (claim_control_interaction_with_expiry (\<lambda>_. Inl []) s u c r now live db))"

lemma claim_db: "snd (claim_control_interaction_with_expiry de s u c r now live db)
    = claimed_db (s, u, c, r, live) now db"
  by (simp add: claimed_db_def claim_control_interaction_with_expiry_def Let_def)

interpretation control_claim: leased "\<lambda>k. claim_holder (fst k)" claims_row claimed_db control_claim_lease_ms
proof unfold_locales
  fix k :: "string \<times> i64 \<times> i64 \<times> i64 \<times> bool" and now db
  assume c: "claims_row k now db"
  obtain s u ch r live where k: "k = (s, u, ch, r, live)" by (cases k)
  from c k obtain row where row: "row \<in> set (ctl_interactions db)" "claimable s u ch r now live row"
    and inv: "control_inv db" by (auto simp: claims_row_def exists_where_def list_ex_iff)
  then have "first_where (\<lambda>r. ci_scope_key r = s) (ctl_interactions db) = Some row"
    by (intro first_where_unique) (auto simp: control_inv_def claimable_def)
  with row(2) k show "claim_holder (fst k) (claimed_db k now db) = Some now"
    by (simp add: claim_holder_def claimed_db_def claim_control_interaction_with_expiry_def Let_def
        first_where_update claimable_def)
next
  fix k :: "string \<times> i64 \<times> i64 \<times> i64 \<times> bool" and db t now
  assume h: "claim_holder (fst k) db = Some t" "saturating_sub now control_claim_lease_ms < t"
  obtain s u ch r live where k: "k = (s, u, ch, r, live)" by (cases k)
  show "\<not> claims_row k now db"
  proof
    assume "claims_row k now db"
    with k obtain row where row: "row \<in> set (ctl_interactions db)" "claimable s u ch r now live row"
      and inv: "control_inv db" by (auto simp: claims_row_def exists_where_def list_ex_iff)
    then have "first_where (\<lambda>r. ci_scope_key r = s) (ctl_interactions db) = Some row"
      by (intro first_where_unique) (auto simp: control_inv_def claimable_def)
    with h row(2) k show False by (auto simp: claim_holder_def claimable_def)
  qed
qed

lemma new_interaction_fields:
  "(new_interaction s k r ph pl u c m e cr up)\<lparr>ci_created_at_ms := x\<rparr> = new_interaction s k r ph pl u c m e x up"
  "(new_interaction s k r ph pl u c m e cr up)\<lparr>ci_updated_at_ms := x\<rparr> = new_interaction s k r ph pl u c m e cr x"
  "ci_created_at_ms (new_interaction s k r ph pl u c m e cr up) = cr"
  "ci_updated_at_ms (new_interaction s k r ph pl u c m e cr up) = up"
  by (simp_all add: new_interaction_def)

lemma new_interaction_read:
  "de t = Inr j \<Longrightarrow> control_interaction_from_row de (new_interaction s k r ph t u c m e cr up)
    = Inr (new_interaction s k r ph j u c m e cr up)"
  by (simp add: control_interaction_from_row_def new_interaction_def)

section \<open>Properties\<close>

text \<open>
  C28. One caller advances a revision. After an advance from revision n succeeded, no further
  advance and no claim of revision n succeeds, whatever happens to the interaction short of its
  deletion, and no callback of revision n is accepted, even one stored afterwards.
\<close>

theorem revision_advanced_once:
  assumes "db = fold (control_step ser de) ops control_empty"
    and "advance_control_interaction ser de s n ph pl u c m e now db = (Inr (Some i), db')"
    and "list_all (\<lambda>op. \<not> deletes s op) ops'" and "db2 = fold (control_step ser de) ops' db'"
  shows "ci_revision i = n + 1
    \<and> fst (advance_control_interaction ser de s n ph2 pl2 u2 c2 m2 e2 now2 db2) \<noteq> Inr (Some i2)
    \<and> fst (claim_control_interaction_with_expiry de s u2 c2 n now2 live db2) = Inr None
    \<and> (\<forall>cb. fst (consume_control_callback de k u2 c2 now2 db2) = Inr (Some cb) \<longrightarrow>
         \<not> (cc_scope_key cb = Some s \<and> cc_revision cb = Some n))"
proof -
  have inv: "control_inv db" "revisions_ok db"
    unfolding assms(1) by (rule control_run_inv, rule revisions_ok_run)
  have db': "db' = control_step ser de (CAdvance s n ph pl u c m e now) db" using assms(2) by simp
  then have inv': "control_inv db'" "revisions_ok db'"
    using inv by (simp_all add: control_step_inv revisions_ok_step del: control_step.simps)
  obtain t where moved: "db' = invalidate (\<lambda>cc. cc_scope_key cc = Some s \<and> cc_revision cc = Some n) now
      (db\<lparr>ctl_interactions := update_where (advanceable s n u c now)
        (advance_row (n + 1) ph t u c m e now) (ctl_interactions db)\<rparr>)"
    "exists_where (advanceable s n u c now) (ctl_interactions db)"
    using assms(2) by (cases rule: advance_cases [of ser de s n ph pl u c m e now db]) auto
  have rev: "revision_of s db' = Some (n + 1)"
    unfolding moved(1)
    by (subst revision_of_moved(1) [OF inv(1) moved(2), where s = s and x = n])
      (simp_all add: advanceable_def advance_row_def)
  have "read_interaction de s db' = Inr (Some i)"
    using assms(2) by (auto simp: advance_control_interaction_def Let_def
        split: if_splits sum.splits option.splits)
  with rev have "ci_revision i = n + 1"
    by (auto simp: read_interaction_def revision_of_def control_interaction_from_row_def
        split: option.splits sum.splits)
  moreover have p: "revision_passed s n db2" and inv2: "control_inv db2"
  proof -
    have "revision_passed s n db'" using rev by (simp add: revision_passed_def)
    then show "revision_passed s n db2"
      unfolding assms(4) using inv' assms(3) by (intro passed_run)
    show "control_inv db2" unfolding assms(4) by (rule ctl.run_inv) (rule inv')
  qed
  moreover have "fst (advance_control_interaction ser de s n ph2 pl2 u2 c2 m2 e2 now2 db2) \<noteq> Inr (Some i2)"
    using passed_refused(2) [OF inv2 p] by (simp add: advance_control_interaction_def Let_def split: sum.split)
  moreover have "\<not> (cc_scope_key cb = Some s \<and> cc_revision cb = Some n)"
    if "fst (consume_control_callback de k u2 c2 now2 db2) = Inr (Some cb)" for cb
  proof -
    from that obtain c0 where "callback_current db2 c0" "cb = c0\<lparr>cc_consumed_at_ms := Some now2\<rparr>"
      by (auto simp: consume_control_callback_def Let_def split: option.splits sum.splits if_splits)
    with passed_refused(3) [OF inv2 p, of c0] show ?thesis by auto
  qed
  ultimately show ?thesis using passed_refused(1) [OF inv2 p] by simp
qed

text \<open>
  A control callback is used at most once: after one use, or after its interaction was
  replaced or deleted, every later use is refused and changes nothing, until the same nonce is
  issued again.
\<close>

theorem callback_used_once:
  assumes "fst (consume_control_callback de k u c now db) = Inr (Some cb)
        \<and> db' = snd (consume_control_callback de k u c now db)
    \<or> (\<forall>cb \<in> set (ctl_callbacks db). cc_nonce cb = k \<longrightarrow> cc_scope_key cb = Some s)
        \<and> (db' = snd (delete_control_interaction s now db)
          \<or> (is_ok (fst (replace_control_interaction ser s kind ph pl u c m e now db))
             \<and> db' = snd (replace_control_interaction ser s kind ph pl u c m e now db)))"
    and "list_all (\<lambda>op. \<not> upserts k op) ops" and "db2 = fold (control_step ser de) ops db'"
  shows "consume_control_callback de k u2 c2 now2 db2 = (Inr None, db2)"
proof -
  have inval: "callback_dead k (invalidate (\<lambda>c. cc_scope_key c = Some s) now db)"
    if "\<forall>cb \<in> set (ctl_callbacks db). cc_nonce cb = k \<longrightarrow> cc_scope_key cb = Some s"
    using that by (rule invalidated_dead)
  have "callback_dead k db'"
    using assms(1) inval
    by (auto simp: consumed_dead delete_control_interaction_def replace_control_interaction_def Let_def
        split: sum.splits if_splits)
  then have "callback_dead k db2" unfolding assms(3) using assms(2) by (rule dead_run)
  then show ?thesis by (rule dead_refused)
qed

text \<open>
  A claim on an interaction is exclusive: until a minute has passed, no second claim of it
  succeeds, live or expired, by any user and for any revision.
\<close>

theorem control_claim_exclusive:
  assumes "db = fold (control_step ser de) ops control_empty"
    and "claim_control_interaction_with_expiry de s u c r t live db = (Inr (Some i), db')"
    and "in_i64 now" and "saturating_sub now 60000 < t"
  shows "claim_control_interaction_with_expiry de s u2 c2 r2 now live2 db' = (Inr None, db')"
proof -
  have inv: "control_inv db" unfolding assms(1) by (rule control_run_inv)
  have "count_where (claimable s u c r t live) (ctl_interactions db) \<noteq> 0"
    using assms(2) by (auto simp: claim_control_interaction_with_expiry_def Let_def split: if_splits)
  with inv have claims: "claims_row (s, u, c, r, live) t db"
    by (auto simp: claims_row_def count_where_0 exists_where_def list_ex_iff)
  have db': "db' = claimed_db (s, u, c, r, live) t db" using assms(2) claim_db by (metis snd_conv)
  have held: "claim_holder s db' = Some t"
    using control_claim.claim_holds [OF claims] by (simp add: db')
  have inv': "control_inv db'"
    using control_step_inv [OF inv, of ser de "CClaim s u c r t live"] assms(2) by simp
  have "\<not> claims_row (s, u2, c2, r2, live2) now db'"
    using control_claim.held_refuses [of "(s, u2, c2, r2, live2)" db' t now] held assms(3,4)
    by (simp add: control_claim_lease_ms_def)
  with inv' have "\<not> exists_where (claimable s u2 c2 r2 now live2) (ctl_interactions db')"
    by (simp add: claims_row_def)
  then have none: "\<not> claimable s u2 c2 r2 now live2 r" if "r \<in> set (ctl_interactions db')" for r
    using that by (auto simp: exists_where_def list_ex_iff)
  show ?thesis
    by (simp add: claim_control_interaction_with_expiry_def Let_def count_where_0 none update_where_id)
qed

text \<open>
  Replacing an interaction stores what it returns, with one exception: the row keeps the time
  of creation as its time of update, while the value returned names the present time. So a
  replaced interaction read back later differs from the one handed out, and is ordered by its age.
\<close>

theorem replace_reads_back:
  assumes "db = fold (control_step ser de) ops control_empty"
    and "replace_control_interaction ser s k ph pl u c m e now db = (Inr i, db')"
    and "ser pl = Inr text" and "de text = Inr pl"
  shows "read_interaction de s db' = Inr (Some (i\<lparr>ci_updated_at_ms := ci_created_at_ms i\<rparr>))
    \<and> ci_updated_at_ms i = now"
proof -
  have up: "first_where (\<lambda>r. ci_scope_key r = s) (upsert (\<lambda>r. ci_scope_key r = s)
      (new_interaction s k v ph t u c m e cr up) (\<lambda>r. new_interaction s k v ph t u c m e
        (ci_created_at_ms r) up) rows) =
    Some (new_interaction s k v ph t u c m e
      (case first_where (\<lambda>r. ci_scope_key r = s) rows of None \<Rightarrow> cr | Some r \<Rightarrow> ci_created_at_ms r) up)"
    for v cr up rows and t :: string
    using first_where_upsert [of ci_scope_key "new_interaction s k v ph t u c m e cr up"
        "\<lambda>r. new_interaction s k v ph t u c m e (ci_created_at_ms r) up" s rows]
    by (simp split: option.splits)
  note new = new_interaction_read [where de = de and t = "text" and j = pl, OF assms(4)] new_interaction_fields
  show ?thesis
    using assms(2,3) up
    by (cases "first_where (\<lambda>r. ci_scope_key r = s) (ctl_interactions db)")
      (auto simp: replace_control_interaction_def Let_def read_interaction_def new split: if_splits)
qed

section \<open>Runs for the witnesses\<close>

text \<open>A serializer that writes one text and reads it back as the one value it was given.\<close>

definition toy_ser :: "json serializer" where
  "toy_ser = (\<lambda>_. Inr ''null'')"

definition toy_de :: "json deserializer" where
  "toy_de = (\<lambda>_. Inr JNull)"

definition demo_control_ops :: "control_op list" where
  "demo_control_ops = [CReplace ''s'' ''new'' ''ask'' JNull 1 2 None 100000 10,
     CUpsert \<lparr>cc_nonce = ''n'', cc_scope_key = Some ''s'', cc_revision = Some 1, cc_user_id = 1,
       cc_chat_id = 2, cc_action = ''go'', cc_payload = JNull, cc_expires_at_ms = 90000,
       cc_consumed_at_ms = None, cc_invalidated_at_ms = None, cc_created_at_ms = 10\<rparr>]"

definition demo_control :: control_db where
  "demo_control = fold (control_step toy_ser toy_de) demo_control_ops control_empty"

lemma is_Inr_Some: "(case r of Inr (Some _) \<Rightarrow> True | _ \<Rightarrow> False) \<Longrightarrow> \<exists>i. r = Inr (Some i)"
  by (auto split: sum.splits option.splits)

theorem revision_advanced_once_witness:
  "\<exists>i db'. advance_control_interaction toy_ser toy_de ''s'' 1 ''p'' JNull 1 2 None 200000 20 demo_control
      = (Inr (Some i), db') \<and> ci_revision i = 2
    \<and> fst (claim_control_interaction_with_expiry toy_de ''s'' 1 2 1 30 True db') = Inr None"
proof -
  let ?r = "advance_control_interaction toy_ser toy_de ''s'' 1 ''p'' JNull 1 2 None 200000 20 demo_control"
  have "case fst ?r of Inr (Some _) \<Rightarrow> True | _ \<Rightarrow> False" by code_simp
  from is_Inr_Some [OF this] obtain i where i: "?r = (Inr (Some i), snd ?r)" by (auto simp: prod_eq_iff)
  from revision_advanced_once [OF demo_control_def i, where ops' = "[]"] i show ?thesis by fastforce
qed

theorem callback_used_once_witness:
  "consume_control_callback toy_de ''n'' 1 2 30
     (snd (delete_control_interaction ''s'' 20 demo_control))
   = (Inr None, snd (delete_control_interaction ''s'' 20 demo_control))"
proof -
  have "list_all (\<lambda>cb. cc_nonce cb = ''n'' \<longrightarrow> cc_scope_key cb = Some ''s'') (ctl_callbacks demo_control)"
    by code_simp
  then have "\<forall>cb \<in> set (ctl_callbacks demo_control). cc_nonce cb = ''n'' \<longrightarrow> cc_scope_key cb = Some ''s''"
    by (simp add: list_all_iff)
  then show ?thesis
    by (intro callback_used_once [where ops = "[]" and db = demo_control and s = "''s''" and now = 20]) auto
qed

theorem control_claim_exclusive_witness:
  "\<exists>i db'. claim_control_interaction_with_expiry toy_de ''s'' 1 2 1 50 True demo_control = (Inr (Some i), db')
    \<and> claim_control_interaction_with_expiry toy_de ''s'' 1 2 1 60000 True db' = (Inr None, db')"
proof -
  let ?r = "claim_control_interaction_with_expiry toy_de ''s'' 1 2 1 50 True demo_control"
  have "case fst ?r of Inr (Some _) \<Rightarrow> True | _ \<Rightarrow> False" by code_simp
  from is_Inr_Some [OF this] obtain i where i: "?r = (Inr (Some i), snd ?r)" by (auto simp: prod_eq_iff)
  have "in_i64 60000" "saturating_sub 60000 60000 < 50" by code_simp+
  from control_claim_exclusive [OF demo_control_def i this] i show ?thesis by blast
qed

theorem replace_reads_back_witness:
  "\<exists>i db'. replace_control_interaction toy_ser ''s'' ''new'' ''p'' JNull 1 2 None 200000 77 demo_control
      = (Inr i, db') \<and> ci_updated_at_ms i = 77
    \<and> read_interaction toy_de ''s'' db' = Inr (Some (i\<lparr>ci_updated_at_ms := 10\<rparr>))"
proof -
  let ?r = "replace_control_interaction toy_ser ''s'' ''new'' ''p'' JNull 1 2 None 200000 77 demo_control"
  have "case fst ?r of Inl _ \<Rightarrow> False | Inr i \<Rightarrow> ci_created_at_ms i = 10" by code_simp
  then obtain i where i: "?r = (Inr i, snd ?r)" "ci_created_at_ms i = 10"
    by (auto simp: prod_eq_iff split: sum.splits)
  have "toy_ser JNull = Inr ''null''" "toy_de ''null'' = Inr JNull" by (simp_all add: toy_ser_def toy_de_def)
  from replace_reads_back [OF demo_control_def i(1) this] i show ?thesis by metis
qed

end
