(* ===== verification/DeletionStore.thy ===== *)
theory DeletionStore
  imports Sql RustText
begin

text \<open>
  The queue of scheduled message deletions of \<open>rust/crates/storage-sqlite/src/lib.rs\<close>: a worker
  claims what is due for a minute, completes it or reports a failure; failures back off
  exponentially and a row that failed eight times is abandoned.
\<close>

section \<open>State\<close>

record scheduled_deletion =
  sd_bot_instance_id :: string
  sd_chat_id :: i64
  sd_message_id :: i64
  sd_group_key :: string
  sd_delete_at_ms :: i64
  sd_attempts :: i64
  sd_claimed_at_ms :: "i64 option"
  sd_last_error_class :: "string option"

text \<open>A row has two columns that are not part of the value.\<close>

record deletion_row = scheduled_deletion +
  sd_next_attempt_at_ms :: i64
  sd_abandoned_at_ms :: "i64 option"

type_synonym deletion_db = "deletion_row list"

definition deletion_claim_lease_ms :: i64 where "deletion_claim_lease_ms = 60000"
definition deletion_max_attempts :: i64 where "deletion_max_attempts = 8"
definition deletion_backoff_cap_ms :: i64 where "deletion_backoff_cap_ms = 300000"

definition deletion_key :: "'a scheduled_deletion_scheme \<Rightarrow> string \<times> i64 \<times> i64" where
  "deletion_key r = (sd_bot_instance_id r, sd_chat_id r, sd_message_id r)"

definition scheduled_deletion_from_row :: "deletion_row \<Rightarrow> scheduled_deletion" where
  "scheduled_deletion_from_row r = \<lparr>sd_bot_instance_id = sd_bot_instance_id r,
     sd_chat_id = sd_chat_id r, sd_message_id = sd_message_id r, sd_group_key = sd_group_key r,
     sd_delete_at_ms = sd_delete_at_ms r, sd_attempts = sd_attempts r,
     sd_claimed_at_ms = sd_claimed_at_ms r, sd_last_error_class = sd_last_error_class r\<rparr>"

section \<open>Operations\<close>

text \<open>A row that is inserted and a row that is updated end with the same columns.\<close>

definition deletion_row_of :: "scheduled_deletion \<Rightarrow> deletion_row" where
  "deletion_row_of d = \<lparr>sd_bot_instance_id = sd_bot_instance_id d, sd_chat_id = sd_chat_id d,
     sd_message_id = sd_message_id d, sd_group_key = sd_group_key d,
     sd_delete_at_ms = sd_delete_at_ms d, sd_attempts = sd_attempts d,
     sd_claimed_at_ms = sd_claimed_at_ms d, sd_last_error_class = sd_last_error_class d,
     sd_next_attempt_at_ms = 0, sd_abandoned_at_ms = None\<rparr>"

definition schedule_deletion ::
  "scheduled_deletion \<Rightarrow> deletion_db \<Rightarrow> unit port_result \<times> deletion_db" where
  "schedule_deletion d db =
     (if is_blank (sd_bot_instance_id d) \<or> is_blank (sd_group_key d) \<or> sd_message_id d \<le> 0
      then (Inl (Adapter ''scheduled deletion fields are invalid''), db)
      else (Inr (), upsert (\<lambda>r. deletion_key r = deletion_key (deletion_row_of d)) (deletion_row_of d)
        (\<lambda>_. deletion_row_of d) db))"

definition deletion_due :: "i64 \<Rightarrow> i64 \<Rightarrow> deletion_row \<Rightarrow> bool" where
  "deletion_due now stale_before r \<longleftrightarrow>
     sd_delete_at_ms r \<le> now \<and> is_nil (sd_abandoned_at_ms r) \<and> sd_next_attempt_at_ms r \<le> now
   \<and> null_or_le (sd_claimed_at_ms r) stale_before"

text \<open>The loop over the due rows: each conditional update, and whether it took the row.\<close>

fun claim_rows :: "i64 \<Rightarrow> i64 \<Rightarrow> scheduled_deletion list \<Rightarrow> deletion_db \<Rightarrow>
    scheduled_deletion list \<times> deletion_db" where
  "claim_rows now stale_before [] db = ([], db)"
| "claim_rows now stale_before (d # due) db =
     (let P = (\<lambda>r. deletion_key r = deletion_key d \<and> null_or_le (sd_claimed_at_ms r) stale_before);
          changed = count_where P db;
          (rest, db1) = claim_rows now stale_before due
            (update_where P (\<lambda>r. r\<lparr>sd_claimed_at_ms := Some now\<rparr>) db)
      in ((if changed = 1 then d\<lparr>sd_claimed_at_ms := Some now\<rparr> # rest else rest), db1))"

definition claim_due_deletions ::
  "i64 \<Rightarrow> u64 \<Rightarrow> deletion_db \<Rightarrow> scheduled_deletion list port_result \<times> deletion_db" where
  "claim_due_deletions now limit db =
     (if i64_max < int limit
      then (Inl (Adapter ''deletion limit exceeds SQLite range''), db)
      else
        let stale_before = saturating_sub now deletion_claim_lease_ms;
            due = map scheduled_deletion_from_row (take limit
              (sort_key (\<lambda>r. (sd_delete_at_ms r, deletion_key r)) (filter (deletion_due now stale_before) db)));
            (claimed, db1) = claim_rows now stale_before due db
        in (Inr claimed, db1))"

definition complete_deletion ::
  "string \<Rightarrow> i64 \<Rightarrow> i64 \<Rightarrow> deletion_db \<Rightarrow> bool port_result \<times> deletion_db" where
  "complete_deletion bot_id chat message db =
     (let P = (\<lambda>r. deletion_key r = (bot_id, chat, message))
      in (Inr (count_where P db = 1), delete_where P db))"

text \<open>
  \<open>?1 + MIN(?6, (1 << MIN(attempts + 1, 20)) * 1000)\<close>. SQLite shifts right by a negative
  number of places, and its sum becomes a REAL where it leaves the \<open>i64\<close> range.
\<close>

definition sqlite_shift_one :: "int \<Rightarrow> int" where
  "sqlite_shift_one n = (if n < 0 then 0 else 2 ^ nat n)"

definition backoff_ms :: "i64 \<Rightarrow> int" where
  "backoff_ms attempts = min deletion_backoff_cap_ms (sqlite_shift_one (min (attempts + 1) 20) * 1000)"

definition retried :: "i64 \<Rightarrow> string \<Rightarrow> deletion_row \<Rightarrow> deletion_row" where
  "retried now error_class r = r\<lparr>sd_attempts := sd_attempts r + 1, sd_claimed_at_ms := None,
     sd_last_error_class := Some error_class,
     sd_next_attempt_at_ms := now + backoff_ms (sd_attempts r),
     sd_abandoned_at_ms := (if deletion_max_attempts \<le> sd_attempts r + 1 then Some now
       else sd_abandoned_at_ms r)\<rparr>"

definition retry_deletion ::
  "string \<Rightarrow> i64 \<Rightarrow> i64 \<Rightarrow> string \<Rightarrow> i64 \<Rightarrow> deletion_db \<Rightarrow> bool port_result \<times> deletion_db" where
  "retry_deletion bot_id chat message error_class now db =
     (let P = (\<lambda>r. deletion_key r = (bot_id, chat, message)) in
      case first_where P db of
        None \<Rightarrow> (Inr False, db)
      | Some r \<Rightarrow>
          (case stored_int ''rust_scheduled_deletions.attempts'' (sd_attempts r + 1) of
             Inl e \<Rightarrow> (Inl e, db)
           | Inr _ \<Rightarrow> (case stored_int ''rust_scheduled_deletions.next_attempt_at_ms''
                 (now + backoff_ms (sd_attempts r)) of
               Inl e \<Rightarrow> (Inl e, db)
             | Inr _ \<Rightarrow> (Inr (count_where P db = 1), update_where P (retried now error_class) db))))"

section \<open>One operation of any kind\<close>

datatype deletion_op =
    DSchedule scheduled_deletion
  | DClaim i64 u64
  | DComplete string i64 i64
  | DRetry string i64 i64 string i64

fun deletion_step :: "deletion_op \<Rightarrow> deletion_db \<Rightarrow> deletion_db" where
  "deletion_step (DSchedule d) db = snd (schedule_deletion d db)"
| "deletion_step (DClaim now limit) db = snd (claim_due_deletions now limit db)"
| "deletion_step (DComplete bot_id chat message) db = snd (complete_deletion bot_id chat message db)"
| "deletion_step (DRetry bot_id chat message e now) db = snd (retry_deletion bot_id chat message e now db)"

section \<open>The key is unique\<close>

definition deletion_inv :: "deletion_db \<Rightarrow> bool" where
  "deletion_inv db \<longleftrightarrow> distinct (map deletion_key db)"

lemma deletion_key_simps [simp]:
  "deletion_key (r\<lparr>sd_claimed_at_ms := c\<rparr>) = deletion_key r"
  "deletion_key (retried now e r') = deletion_key r'"
  "deletion_key (scheduled_deletion_from_row r') = deletion_key r'"
  "deletion_key (deletion_row_of d) = deletion_key d"
  by (simp_all add: deletion_key_def retried_def scheduled_deletion_from_row_def deletion_row_of_def)

lemma claim_rows_keys: "map deletion_key (snd (claim_rows now st due db)) = map deletion_key db"
proof (induction due arbitrary: db)
  case (Cons d due)
  show ?case by (simp add: Let_def case_prod_beta Cons update_where_keys)
qed simp

lemma deletion_step_inv: "deletion_inv db \<Longrightarrow> deletion_inv (deletion_step op db)"
proof (cases op)
  case (DSchedule d)
  then show "deletion_inv db \<Longrightarrow> ?thesis"
    using upsert_distinct [of deletion_key db "deletion_row_of d" "\<lambda>_. deletion_row_of d"]
    by (simp add: schedule_deletion_def deletion_inv_def)
next
  case (DClaim now limit)
  then show "deletion_inv db \<Longrightarrow> ?thesis"
    by (simp add: claim_due_deletions_def Let_def case_prod_beta deletion_inv_def claim_rows_keys)
next
  case (DComplete bot_id chat message)
  then show "deletion_inv db \<Longrightarrow> ?thesis"
    by (simp add: complete_deletion_def Let_def deletion_inv_def delete_where_distinct)
next
  case (DRetry bot_id chat message e now)
  then show "deletion_inv db \<Longrightarrow> ?thesis"
    by (simp add: retry_deletion_def Let_def deletion_inv_def update_where_keys split: option.split sum.split)
qed

interpretation deletions: machine deletion_step deletion_inv
  by unfold_locales (rule deletion_step_inv)

lemma deletion_run_inv: "deletion_inv (fold deletion_step ops [])"
  by (rule deletions.run_inv) (simp add: deletion_inv_def)

definition deletion_at :: "string \<times> i64 \<times> i64 \<Rightarrow> deletion_db \<Rightarrow> deletion_row option" where
  "deletion_at k db = first_where (\<lambda>r. deletion_key r = k) db"

section \<open>Claims\<close>

lemma deletion_at_update:
  assumes "\<And>r. deletion_key (f r) = deletion_key r"
  shows "deletion_at k (update_where P f db) = map_option (\<lambda>r. if P r then f r else r) (deletion_at k db)"
  unfolding deletion_at_def by (rule first_where_update) (rule assms)

lemma claim_rows_keep:
  "deletion_at k db = Some r \<Longrightarrow> sd_claimed_at_ms r = Some now \<Longrightarrow>
    \<exists>r'. deletion_at k (snd (claim_rows now st due db)) = Some r' \<and> sd_claimed_at_ms r' = Some now"
proof (induction due arbitrary: db r)
  case (Cons d due)
  let ?db = "update_where (\<lambda>r. deletion_key r = deletion_key d \<and> null_or_le (sd_claimed_at_ms r) st)
    (\<lambda>r. r\<lparr>sd_claimed_at_ms := Some now\<rparr>) db"
  have "\<exists>r'. deletion_at k ?db = Some r' \<and> sd_claimed_at_ms r' = Some now"
    using Cons.prems by (simp add: deletion_at_update)
  with Cons.IH show ?case by (auto simp: Let_def case_prod_beta)
qed simp

lemma claim_rows_held:
  assumes "deletion_inv db" and "k \<in> deletion_key ` set (fst (claim_rows now st due db))"
  shows "\<exists>r. deletion_at k (snd (claim_rows now st due db)) = Some r \<and> sd_claimed_at_ms r = Some now"
  using assms
proof (induction due arbitrary: db)
  case (Cons d due)
  let ?P = "\<lambda>r. deletion_key r = deletion_key d \<and> null_or_le (sd_claimed_at_ms r) st"
  let ?db = "update_where ?P (\<lambda>r. r\<lparr>sd_claimed_at_ms := Some now\<rparr>) db"
  have inv: "deletion_inv ?db" using Cons.prems(1) by (simp add: deletion_inv_def update_where_keys)
  from Cons.prems(2) consider "k \<in> deletion_key ` set (fst (claim_rows now st due ?db))"
    | "k = deletion_key d" "count_where ?P db = 1"
    by (auto simp: Let_def case_prod_beta split: if_splits)
  then show ?case
  proof cases
    case 1
    from Cons.IH [OF inv this] show ?thesis by (simp add: Let_def case_prod_beta)
  next
    case 2
    have "distinct (map deletion_key db)" using Cons.prems(1) by (simp add: deletion_inv_def)
    from 2(2) have "first_where ?P db \<noteq> None" by (simp add: count_where_key [OF \<open>distinct _\<close>] split: option.splits)
    then obtain r where r: "deletion_at k db = Some r" "?P r"
      using first_where_key_cases [OF \<open>distinct _\<close>, of "deletion_key d" "\<lambda>r. null_or_le (sd_claimed_at_ms r) st"] 2(1)
      by (auto simp: deletion_at_def dest: first_where_SomeD)
    have "deletion_at k ?db = Some (r\<lparr>sd_claimed_at_ms := Some now\<rparr>)"
      using r by (simp add: deletion_at_update)
    from claim_rows_keep [OF this, of now st due] show ?thesis by (simp add: Let_def case_prod_beta)
  qed
qed simp

lemma claim_rows_subset: "deletion_key ` set (fst (claim_rows now st due db)) \<subseteq> deletion_key ` set due"
proof (induction due arbitrary: db)
  case (Cons d due)
  from Cons [of "update_where (\<lambda>r. deletion_key r = deletion_key d \<and> null_or_le (sd_claimed_at_ms r) st)
      (\<lambda>r. r\<lparr>sd_claimed_at_ms := Some now\<rparr>) db"]
  show ?case by (auto simp: Let_def case_prod_beta split: if_splits)
qed simp

definition claims_deletion :: "u64 \<Rightarrow> string \<times> i64 \<times> i64 \<Rightarrow> i64 \<Rightarrow> deletion_db \<Rightarrow> bool" where
  "claims_deletion limit k now db \<longleftrightarrow> deletion_inv db
     \<and> (case fst (claim_due_deletions now limit db) of
          Inl _ \<Rightarrow> False | Inr claimed \<Rightarrow> k \<in> deletion_key ` set claimed)"

lemma deletion_due_rows:
  assumes "deletion_inv db" and "claims_deletion limit k now db"
  shows "\<exists>r. deletion_at k db = Some r \<and> deletion_due now (saturating_sub now deletion_claim_lease_ms) r"
proof -
  let ?st = "saturating_sub now deletion_claim_lease_ms"
  let ?due = "map scheduled_deletion_from_row (take limit
      (sort_key (\<lambda>r. (sd_delete_at_ms r, deletion_key r)) (filter (deletion_due now ?st) db)))"
  have "k \<in> deletion_key ` set ?due"
    using assms(2) claim_rows_subset [of now ?st ?due db]
    by (auto simp: claims_deletion_def claim_due_deletions_def Let_def case_prod_beta split: if_splits)
  then obtain r where r: "r \<in> set (take limit
      (sort_key (\<lambda>r. (sd_delete_at_ms r, deletion_key r)) (filter (deletion_due now ?st) db)))" "deletion_key r = k"
    by auto
  then have "r \<in> set db" "deletion_due now ?st r" by (auto dest: in_set_takeD)
  with assms(1) r(2) show ?thesis
    by (auto simp: deletion_at_def deletion_inv_def intro: first_where_unique)
qed

interpretation deletion_claim: leased
  "\<lambda>k db. case deletion_at k db of None \<Rightarrow> None | Some r \<Rightarrow> sd_claimed_at_ms r"
  "claims_deletion limit" "\<lambda>k now db. snd (claim_due_deletions now limit db)" deletion_claim_lease_ms
  for limit
proof unfold_locales
  fix k now db
  assume "claims_deletion limit k now db"
  then have inv: "deletion_inv db" and c: "case fst (claim_due_deletions now limit db) of
      Inl _ \<Rightarrow> False | Inr claimed \<Rightarrow> k \<in> deletion_key ` set claimed"
    by (simp_all add: claims_deletion_def)
  from c have "\<exists>r. deletion_at k (snd (claim_due_deletions now limit db)) = Some r \<and> sd_claimed_at_ms r = Some now"
    using claim_rows_held [OF inv]
    by (auto simp: claim_due_deletions_def Let_def case_prod_beta split: if_splits)
  then show "(case deletion_at k (snd (claim_due_deletions now limit db)) of
      None \<Rightarrow> None | Some r \<Rightarrow> sd_claimed_at_ms r) = Some now" by auto
next
  fix k db t now
  assume h: "(case deletion_at k db of None \<Rightarrow> None | Some r \<Rightarrow> sd_claimed_at_ms r) = Some t"
    "saturating_sub now deletion_claim_lease_ms < t"
  show "\<not> claims_deletion limit k now db"
  proof
    assume c: "claims_deletion limit k now db"
    then have "deletion_inv db" by (simp add: claims_deletion_def)
    from deletion_due_rows [OF this c] h show False
      by (auto simp: deletion_due_def split: option.splits)
  qed
qed

section \<open>Failures\<close>

lemma retry_at:
  assumes "deletion_inv db" and "deletion_at (b, c, m) db = Some r"
    and "in_i64 (sd_attempts r + 1)" and "in_i64 (now + backoff_ms (sd_attempts r))"
  shows "deletion_at (b, c, m) (deletion_step (DRetry b c m e now) db) = Some (retried now e r)"
proof -
  have "first_where (\<lambda>r. deletion_key r = (b, c, m)) db = Some r"
    using assms(2) by (simp add: deletion_at_def)
  moreover have "deletion_key r = (b, c, m)" using first_where_SomeD [OF calculation] by simp
  ultimately show ?thesis
    using assms(2-4) by (simp add: retry_deletion_def Let_def deletion_at_update)
qed

lemma backoff_bounds: "0 \<le> n \<Longrightarrow> 2000 \<le> backoff_ms n \<and> backoff_ms n \<le> 300000"
proof -
  assume n: "0 \<le> n"
  let ?k = "nat (min (n + 1) 20)"
  have k: "1 \<le> ?k" using n by simp
  have "(2::int) ^ 1 \<le> 2 ^ ?k" by (rule power_increasing [OF k]) simp
  then show ?thesis
    using n by (simp add: backoff_ms_def deletion_backoff_cap_ms_def sqlite_shift_one_def)
qed


text \<open>A run of failures of one row, reported at the given times.\<close>

definition failures :: "string \<Rightarrow> i64 \<Rightarrow> i64 \<Rightarrow> string \<Rightarrow> i64 list \<Rightarrow> deletion_db \<Rightarrow> deletion_db" where
  "failures b c m e ts db = fold (\<lambda>t. deletion_step (DRetry b c m e t)) ts db"

lemma failures_at:
  assumes "deletion_inv db" and "deletion_at (b, c, m) db = Some r"
    and "sd_attempts r = 0" and "sd_abandoned_at_ms r = None"
    and "\<forall>t \<in> set ts. 0 \<le> t \<and> t \<le> 9000000000000000000" and "length ts < 1000"
  shows "deletion_inv (failures b c m e ts db) \<and>
    (\<exists>r'. deletion_at (b, c, m) (failures b c m e ts db) = Some r'
       \<and> sd_attempts r' = int (length ts)
       \<and> (sd_abandoned_at_ms r' = None \<longleftrightarrow> length ts < 8)
       \<and> (ts \<noteq> [] \<longrightarrow> sd_claimed_at_ms r' = None
            \<and> sd_next_attempt_at_ms r' = last ts + backoff_ms (int (length ts) - 1)))"
  using assms(5,6)
proof (induction ts rule: rev_induct)
  case Nil
  with assms show ?case by (simp add: failures_def)
next
  case (snoc t ts)
  then obtain r' where inv: "deletion_inv (failures b c m e ts db)"
    and r': "deletion_at (b, c, m) (failures b c m e ts db) = Some r'"
      "sd_attempts r' = int (length ts)" "sd_abandoned_at_ms r' = None \<longleftrightarrow> length ts < 8"
    by auto
  have len: "length ts < 1000" using snoc.prems by simp
  then have a: "in_i64 (sd_attempts r' + 1)" using r'(2) by (simp add: in_i64_def i64_min_def i64_max_def)
  have bk: "2000 \<le> backoff_ms (sd_attempts r') \<and> backoff_ms (sd_attempts r') \<le> 300000"
    by (rule backoff_bounds) (simp add: r'(2))
  have "0 \<le> t \<and> t \<le> 9000000000000000000" using snoc.prems by simp
  with bk have "in_i64 (t + backoff_ms (sd_attempts r'))"
    by (auto simp: in_i64_def i64_min_def i64_max_def)
  from retry_at [OF inv r'(1) a this, of e]
  have at: "deletion_at (b, c, m) (failures b c m e (ts @ [t]) db) = Some (retried t e r')"
    by (simp add: failures_def)
  have inv': "deletion_inv (failures b c m e (ts @ [t]) db)"
    using deletion_step_inv [OF inv] by (simp add: failures_def del: deletion_step.simps)
  from at inv' r'(2,3) show ?case
    by (auto simp: retried_def deletion_max_attempts_def algebra_simps)
qed


section \<open>Properties\<close>

text \<open>
  Two workers do not delete the same message: a row that one call claims is not claimed by
  another within the next minute.
\<close>

theorem deletion_claim_exclusive:
  assumes "db = fold deletion_step ops []"
    and "claim_due_deletions t n db = (Inr claimed, db')" and "d \<in> set claimed"
    and "in_i64 now" and "saturating_sub now 60000 < t"
    and "claim_due_deletions now n2 db' = (Inr claimed2, db2)" and "d2 \<in> set claimed2"
  shows "deletion_key d2 \<noteq> deletion_key d"
proof
  assume same: "deletion_key d2 = deletion_key d"
  have inv: "deletion_inv db" unfolding assms(1) by (rule deletion_run_inv)
  then have c: "claims_deletion n (deletion_key d) t db"
    using assms(2,3) by (auto simp: claims_deletion_def)
  have inv': "deletion_inv db'"
    using deletion_step_inv [OF inv, of "DClaim t n"] assms(2) by simp
  have held: "(case deletion_at (deletion_key d) db' of None \<Rightarrow> None | Some r \<Rightarrow> sd_claimed_at_ms r) = Some t"
    using deletion_claim.claim_holds [OF c] assms(2) by simp
  have "\<not> claims_deletion n2 (deletion_key d) now db'"
    by (rule deletion_claim.held_refuses [OF held assms(4)])
      (use assms(5) in \<open>simp add: deletion_claim_lease_ms_def\<close>)
  with inv' assms(6,7) same show False by (auto simp: claims_deletion_def intro: rev_image_eqI)
qed


definition demo_deletion :: scheduled_deletion where
  "demo_deletion = \<lparr>sd_bot_instance_id = ''bot'', sd_chat_id = 1, sd_message_id = 2,
     sd_group_key = ''g'', sd_delete_at_ms = 5, sd_attempts = 0, sd_claimed_at_ms = None,
     sd_last_error_class = None\<rparr>"

theorem deletion_claim_exclusive_witness:
  "let db = fold deletion_step [DSchedule demo_deletion, DSchedule (demo_deletion\<lparr>sd_message_id := 3, sd_delete_at_ms := 15\<rparr>)] [];
       db1 = snd (claim_due_deletions 10 5 db)
   in fst (claim_due_deletions 10 5 db) = Inr [demo_deletion\<lparr>sd_claimed_at_ms := Some 10\<rparr>]
    \<and> fst (claim_due_deletions 20 5 db1) = Inr [demo_deletion\<lparr>sd_message_id := 3, sd_delete_at_ms := 15,
        sd_claimed_at_ms := Some 20\<rparr>]
    \<and> deletion_key (demo_deletion\<lparr>sd_message_id := 3, sd_delete_at_ms := 15, sd_claimed_at_ms := Some 20\<rparr>)
        \<noteq> deletion_key (demo_deletion\<lparr>sd_claimed_at_ms := Some 10\<rparr>)"
proof -
  let ?d = "demo_deletion\<lparr>sd_claimed_at_ms := Some 10\<rparr>"
  let ?d2 = "demo_deletion\<lparr>sd_message_id := 3, sd_delete_at_ms := 15, sd_claimed_at_ms := Some 20\<rparr>"
  let ?db = "fold deletion_step [DSchedule demo_deletion, DSchedule (demo_deletion\<lparr>sd_message_id := 3, sd_delete_at_ms := 15\<rparr>)] []"
  let ?db1 = "snd (claim_due_deletions 10 5 ?db)"
  have c: "fst (claim_due_deletions 10 5 ?db) = Inr [?d]" and c2: "fst (claim_due_deletions 20 5 ?db1) = Inr [?d2]"
    and t: "in_i64 20" "saturating_sub 20 60000 < 10" by code_simp+
  from c have r: "claim_due_deletions 10 5 ?db = (Inr [?d], ?db1)" by (simp only: prod_eq_iff fst_conv snd_conv)
  from c2 have r2: "claim_due_deletions 20 5 ?db1 = (Inr [?d2], snd (claim_due_deletions 20 5 ?db1))"
    by (simp only: prod_eq_iff fst_conv snd_conv)
  have "deletion_key ?d2 \<noteq> deletion_key ?d"
    by (rule deletion_claim_exclusive [OF refl r _ t r2]) (simp_all only: list.set insertI1)
  with c c2 show ?thesis by (simp only: Let_def simp_thms)
qed


end
