(* ===== verification/UpdateStore.thy ===== *)
theory UpdateStore
  imports Sql RustText
begin

text \<open>
  The record of Telegram updates of \<open>rust/crates/storage-sqlite/src/lib.rs\<close>: an update is recorded
  when it is confirmed, a replay is told apart, and the poll offset of a bot never moves back.
\<close>

section \<open>State\<close>

record processed_update =
  pu_bot_instance_id :: string
  pu_update_id :: i64
  pu_received_at_ms :: i64

record poll_offset =
  po_bot_instance_id :: string
  po_next_update_id :: i64
  po_updated_at_ms :: i64

record update_db =
  upd_processed :: "processed_update list"
  upd_offsets :: "poll_offset list"

definition update_empty :: update_db where
  "update_empty = \<lparr>upd_processed = [], upd_offsets = []\<rparr>"

section \<open>Operations\<close>

definition record_processed_update ::
  "string \<Rightarrow> i64 \<Rightarrow> i64 \<Rightarrow> update_db \<Rightarrow> bool port_result \<times> update_db" where
  "record_processed_update bot_id update received db =
     (if is_blank bot_id then (Inl (Adapter ''bot instance id cannot be empty''), db)
      else if exists_where (\<lambda>r. pu_bot_instance_id r = bot_id \<and> pu_update_id r = update) (upd_processed db)
      then (Inr False, db)
      else
        let row = \<lparr>pu_bot_instance_id = bot_id, pu_update_id = update, pu_received_at_ms = received\<rparr>;
            offset = \<lparr>po_bot_instance_id = bot_id, po_next_update_id = saturating_add update 1,
              po_updated_at_ms = received\<rparr>
        in (Inr True, \<lparr>upd_processed = upd_processed db @ [row],
             upd_offsets = upsert (\<lambda>r. po_bot_instance_id r = bot_id) offset
               (\<lambda>r. r\<lparr>po_next_update_id := max (po_next_update_id r) (saturating_add update 1),
                    po_updated_at_ms := received\<rparr>) (upd_offsets db)\<rparr>))"

definition processed_update_exists :: "string \<Rightarrow> i64 \<Rightarrow> update_db \<Rightarrow> bool" where
  "processed_update_exists bot_id update db =
     exists_where (\<lambda>r. pu_bot_instance_id r = bot_id \<and> pu_update_id r = update) (upd_processed db)"

definition next_update_offset :: "string \<Rightarrow> update_db \<Rightarrow> i64 option" where
  "next_update_offset bot_id db =
     map_option po_next_update_id (first_where (\<lambda>r. po_bot_instance_id r = bot_id) (upd_offsets db))"

section \<open>Runs\<close>

text \<open>A sequence of received updates: bot, update id, time.\<close>

definition record_step :: "string \<times> i64 \<times> i64 \<Rightarrow> update_db \<Rightarrow> update_db" where
  "record_step op db = (case op of (bot_id, update, t) \<Rightarrow> snd (record_processed_update bot_id update t db))"

lemma processed_kept:
  "processed_update_exists b u db \<Longrightarrow> processed_update_exists b u (record_step op db)"
  by (cases op) (auto simp: record_step_def processed_update_exists_def record_processed_update_def
      exists_where_def Let_def)

lemma processed_recorded:
  "\<not> is_blank b \<Longrightarrow> processed_update_exists b u (snd (record_processed_update b u t db))"
  by (auto simp: processed_update_exists_def record_processed_update_def exists_where_def Let_def)

lemma record_iff:
  "fst (record_processed_update b u t db) = Inr True \<longleftrightarrow> \<not> is_blank b \<and> \<not> processed_update_exists b u db"
  by (simp add: record_processed_update_def processed_update_exists_def Let_def)

interpretation update_token: one_shot record_step "\<lambda>_. True"
  "\<lambda>(b, u) db. processed_update_exists b u db"
  "\<lambda>(b, u) db. fst (record_processed_update b u 0 db) = Inr True"
  "\<lambda>(b, u) db. snd (record_processed_update b u 0 db)"
  by unfold_locales (auto simp: record_iff processed_recorded processed_kept)

text \<open>The offset of a bot after one more update.\<close>

lemma offset_step:
  "next_update_offset b (snd (record_processed_update b' u t db)) =
     (if b = b' \<and> fst (record_processed_update b' u t db) = Inr True
      then Some (case next_update_offset b db of None \<Rightarrow> saturating_add u 1
           | Some n \<Rightarrow> max n (saturating_add u 1))
      else next_update_offset b db)"
proof (cases "is_blank b' \<or> processed_update_exists b' u db")
  case True
  then show ?thesis
    by (auto simp: record_processed_update_def processed_update_exists_def)
next
  case False
  let ?new = "\<lparr>po_bot_instance_id = b', po_next_update_id = saturating_add u 1, po_updated_at_ms = t\<rparr>"
  let ?merge = "\<lambda>r. r\<lparr>po_next_update_id := max (po_next_update_id r) (saturating_add u 1), po_updated_at_ms := t\<rparr>"
  have "first_where (\<lambda>r. po_bot_instance_id r = b) (upsert (\<lambda>r. po_bot_instance_id r = b') ?new ?merge (upd_offsets db)) =
    (if b = b' then Some (case first_where (\<lambda>r. po_bot_instance_id r = b) (upd_offsets db) of
        None \<Rightarrow> ?new | Some r \<Rightarrow> ?merge r)
     else first_where (\<lambda>r. po_bot_instance_id r = b) (upd_offsets db))"
    using first_where_upsert [of po_bot_instance_id ?new ?merge b "upd_offsets db"] by simp
  with False show ?thesis
    by (auto simp: record_processed_update_def processed_update_exists_def next_update_offset_def Let_def
        split: option.splits)
qed

lemma offset_mono:
  assumes "next_update_offset b db = Some n"
  shows "\<exists>m. next_update_offset b (fold record_step ops db) = Some m \<and> n \<le> m"
  using assms
proof (induction ops arbitrary: db n)
  case (Cons op ops)
  obtain b' u t where op: "op = (b', u, t)" by (cases op)
  have "\<exists>m. next_update_offset b (record_step op db) = Some m \<and> n \<le> m"
    using Cons.prems by (auto simp: op record_step_def offset_step)
  then obtain m where m: "next_update_offset b (record_step op db) = Some m" "n \<le> m" by blast
  from Cons.IH [OF m(1)] m(2) show ?case by (auto intro: order_trans)
qed simp

section \<open>Properties\<close>

text \<open>
  A confirmed update is never asked for again. Recording it says yes the first
  time only; however many updates of this and other bots follow, recording it again says no, and
  the poll offset stays above it.
\<close>

theorem update_recorded_once:
  assumes "record_processed_update b u t db = (Inr True, db')" and "in_i64 (u + 1)"
    and "db2 = fold record_step ops db'"
  shows "record_processed_update b u t2 db2 = (Inr False, db2)
    \<and> (\<exists>n. next_update_offset b db2 = Some n \<and> u < n)"
proof
  have b: "\<not> is_blank b" and db': "db' = snd (record_processed_update b u t db)"
    and yes: "fst (record_processed_update b u t db) = Inr True"
    using assms(1) by (simp_all add: record_processed_update_def split: if_splits)
  have "processed_update_exists b u db'" unfolding db' using b by (rule processed_recorded)
  then have "processed_update_exists b u db2"
    unfolding assms(3) using update_token.spent_run [where k = "(b, u)" and s = db' and ops = ops] by simp
  with b show "record_processed_update b u t2 db2 = (Inr False, db2)"
    by (simp add: record_processed_update_def processed_update_exists_def)
  have "\<exists>n. next_update_offset b db' = Some n \<and> u + 1 \<le> n"
    using yes assms(2) by (auto simp: db' offset_step saturating_add_eq split: option.split)
  then obtain n where n: "next_update_offset b db' = Some n" "u + 1 \<le> n" by blast
  from offset_mono [OF n(1), of ops] n(2) show "\<exists>n. next_update_offset b db2 = Some n \<and> u < n"
    by (auto simp: assms(3))
qed

theorem update_recorded_once_witness:
  "fst (record_processed_update ''b'' 7 0 (fold record_step [(''b'', 3, 1), (''c'', 9, 1)]
      (snd (record_processed_update ''b'' 7 0 update_empty)))) = Inr False"
proof -
  have "fst (record_processed_update ''b'' 7 0 update_empty) = Inr True" and i: "in_i64 (7 + 1)" by code_simp+
  then have "record_processed_update ''b'' 7 0 update_empty
      = (Inr True, snd (record_processed_update ''b'' 7 0 update_empty))" by (simp add: prod_eq_iff)
  from update_recorded_once [OF this i refl, of 0 "[(''b'', 3, 1), (''c'', 9, 1)]"] show ?thesis by simp
qed

end
