(* ===== verification/SpaceStore.thy ===== *)
theory SpaceStore
  imports Sql Json
begin

text \<open>
  Session spaces, the roots of their comment threads, their callbacks and the workflow records of
  \<open>rust/crates/storage-sqlite/src/lib.rs\<close>. A space is bound to one channel post and moves through
  generations; closing it ends its callbacks and its queued prompts in one transaction.
\<close>

section \<open>Tables\<close>

record session_space =
  sps_space_id :: string
  sps_thread_id :: "string option"
  sps_lifecycle :: string
  sps_generation :: i64
  sps_channel_chat_id :: i64
  sps_channel_post_id :: i64
  sps_discussion_chat_id :: "i64 option"
  sps_discussion_root_message_id :: "i64 option"
  sps_status_message_id :: "i64 option"
  sps_status_bot_instance :: "string option"
  sps_owner_chat_id :: "i64 option"
  sps_plan_mode :: bool
  sps_observed_mode :: "string option"
  sps_normal_model :: "string option"
  sps_normal_effort :: "string option"
  sps_plan_model :: "string option"
  sps_plan_effort :: "string option"
  sps_closed_at_ms :: "i64 option"
  sps_created_at_ms :: i64
  sps_updated_at_ms :: i64

record comment_root =
  rot_channel_chat_id :: i64
  rot_channel_post_id :: i64
  rot_discussion_chat_id :: i64
  rot_root_message_id :: i64

record comment_root_row = comment_root +
  rot_created_at_ms :: i64

record stored_callback =
  cb_nonce :: string
  cb_space_id :: string
  cb_generation :: i64
  cb_action :: string
  cb_expires_at_ms :: i64

record callback_row = stored_callback +
  cb_consumed_at_ms :: "i64 option"
  cb_surface :: string

record legacy_record =
  lr_table_name :: string
  lr_row_key :: string
  lr_source_schema_version :: i64
  lr_row_json :: string
  lr_row_sha256 :: string
  lr_imported_at_ms :: i64

record space_db =
  sp_spaces :: "session_space list"
  sp_roots :: "comment_root_row list"
  sp_callbacks :: "callback_row list"
  sp_records :: "legacy_record list"

definition space_empty :: space_db where
  "space_empty = \<lparr>sp_spaces = [], sp_roots = [], sp_callbacks = [], sp_records = []\<rparr>"

section \<open>Spaces\<close>

definition validate_space :: "session_space \<Rightarrow> unit port_result" where
  "validate_space s =
     (if is_blank (sps_space_id s) \<or> is_blank (sps_lifecycle s)
      then Inl (Adapter ''space id and lifecycle cannot be empty'')
      else if sps_generation s < 0 \<or> sps_channel_post_id s \<le> 0
      then Inl (Adapter ''invalid session-space generation or post id'')
      else if (case sps_discussion_root_message_id s of None \<Rightarrow> False | Some root \<Rightarrow> root \<le> 0)
      then Inl (Adapter ''invalid discussion root id'')
      else Inr ())"

definition post_key :: "session_space \<Rightarrow> i64 \<times> i64" where
  "post_key s = (sps_channel_chat_id s, sps_channel_post_id s)"

text \<open>The \<open>UNIQUE(channel_chat_id, channel_post_id)\<close> constraint of the table.\<close>

definition post_taken :: "session_space \<Rightarrow> session_space list \<Rightarrow> bool" where
  "post_taken s rows = exists_where (\<lambda>r. sps_space_id r \<noteq> sps_space_id s \<and> post_key r = post_key s) rows"

definition space_unique_error :: port_error where
  "space_unique_error = sql_error (UniqueFailed
     ''rust_session_spaces.channel_chat_id, rust_session_spaces.channel_post_id'')"

text \<open>
  The \<open>DO UPDATE\<close>: every column but the creation time is replaced, the discussion columns only
  by a value; and its \<open>WHERE\<close>: a space that is not closed takes a generation that is not older,
  and a closing write is always taken.
\<close>

definition merge_space :: "session_space \<Rightarrow> session_space \<Rightarrow> session_space" where
  "merge_space new old = new\<lparr>
     sps_discussion_chat_id := or_else (sps_discussion_chat_id new) (sps_discussion_chat_id old),
     sps_discussion_root_message_id :=
       or_else (sps_discussion_root_message_id new) (sps_discussion_root_message_id old),
     sps_created_at_ms := sps_created_at_ms old\<rparr>"

definition merge_allowed :: "session_space \<Rightarrow> session_space \<Rightarrow> bool" where
  "merge_allowed new old \<longleftrightarrow>
     (sps_lifecycle old \<noteq> ''closed'' \<and> sps_generation old \<le> sps_generation new)
   \<or> sps_lifecycle new = ''closed''"

definition upsert_session_space :: "session_space \<Rightarrow> space_db \<Rightarrow> unit port_result \<times> space_db" where
  "upsert_session_space s db =
     (case validate_space s of
        Inl e \<Rightarrow> (Inl e, db)
      | Inr _ \<Rightarrow>
          (case first_where (\<lambda>r. sps_space_id r = sps_space_id s) (sp_spaces db) of
             None \<Rightarrow>
               if post_taken s (sp_spaces db) then (Inl space_unique_error, db)
               else (Inr (), db\<lparr>sp_spaces := sp_spaces db @ [s]\<rparr>)
           | Some old \<Rightarrow>
               if \<not> merge_allowed s old then (Inr (), db)
               else if post_taken s (sp_spaces db) then (Inl space_unique_error, db)
               else (Inr (), db\<lparr>sp_spaces := update_where (\<lambda>r. sps_space_id r = sps_space_id s)
                      (merge_space s) (sp_spaces db)\<rparr>)))"

definition get_session_space :: "string \<Rightarrow> space_db \<Rightarrow> session_space option" where
  "get_session_space sid db = first_where (\<lambda>r. sps_space_id r = sid) (sp_spaces db)"

definition session_space_for_channel_post :: "i64 \<Rightarrow> i64 \<Rightarrow> space_db \<Rightarrow> session_space option" where
  "session_space_for_channel_post chat post db =
     first_where (\<lambda>r. post_key r = (chat, post)) (sp_spaces db)"

definition by_update :: "session_space \<Rightarrow> i64 \<times> string" where
  "by_update s = (sps_updated_at_ms s, sps_space_id s)"

definition active_session_spaces :: "space_db \<Rightarrow> session_space list" where
  "active_session_spaces db =
     sort_key by_update (filter (\<lambda>s. sps_lifecycle s = ''active'') (sp_spaces db))"

definition session_spaces :: "space_db \<Rightarrow> session_space list" where
  "session_spaces db =
     sort_key by_update (filter (\<lambda>s. sps_lifecycle s \<noteq> ''closed'') (sp_spaces db))"

text \<open>The row of the join with the root of the space's channel post.\<close>

definition root_of :: "space_db \<Rightarrow> session_space \<Rightarrow> comment_root_row option" where
  "root_of db s = first_where (\<lambda>r. (rot_channel_chat_id r, rot_channel_post_id r) = post_key s) (sp_roots db)"

definition with_root :: "space_db \<Rightarrow> session_space \<Rightarrow> session_space" where
  "with_root db s = s\<lparr>
     sps_discussion_chat_id :=
       or_else (sps_discussion_chat_id s) (map_option rot_discussion_chat_id (root_of db s)),
     sps_discussion_root_message_id :=
       or_else (sps_discussion_root_message_id s) (map_option rot_root_message_id (root_of db s))\<rparr>"

definition pending_session_space_for_discussion :: "i64 \<Rightarrow> space_db \<Rightarrow> session_space option" where
  "pending_session_space_for_discussion chat db =
     (case rev (sort_key by_update (filter (\<lambda>s. sps_discussion_chat_id s = Some chat
          \<and> sps_lifecycle s \<in> set [''pending'', ''repair_required'']) (map (with_root db) (sp_spaces db)))) of
        [] \<Rightarrow> None
      | s # _ \<Rightarrow> Some s)"

definition session_space_for_thread :: "string \<Rightarrow> space_db \<Rightarrow> session_space option" where
  "session_space_for_thread thread db =
     (case sort_key (\<lambda>s. - sps_updated_at_ms s) (filter (\<lambda>s. sps_thread_id s = Some thread) (sp_spaces db)) of
        [] \<Rightarrow> None
      | s # _ \<Rightarrow> Some s)"

definition session_space_for_discussion_root :: "i64 \<Rightarrow> i64 \<Rightarrow> space_db \<Rightarrow> session_space option" where
  "session_space_for_discussion_root chat root db =
     first_where (\<lambda>s. sps_discussion_chat_id s = Some chat \<and> sps_discussion_root_message_id s = Some root)
       (map (with_root db) (sp_spaces db))"

section \<open>Roots of comment threads\<close>

definition bind_native_comment_root ::
  "comment_root \<Rightarrow> i64 \<Rightarrow> space_db \<Rightarrow> unit port_result \<times> space_db" where
  "bind_native_comment_root root now db =
     (let same = (\<lambda>r. rot_channel_chat_id r = rot_channel_chat_id root
            \<and> rot_channel_post_id r = rot_channel_post_id root);
          row = \<lparr>rot_channel_chat_id = rot_channel_chat_id root,
            rot_channel_post_id = rot_channel_post_id root,
            rot_discussion_chat_id = rot_discussion_chat_id root,
            rot_root_message_id = rot_root_message_id root, rot_created_at_ms = now\<rparr>
      in if exists_where (\<lambda>r. \<not> same r \<and> rot_discussion_chat_id r = rot_discussion_chat_id root
              \<and> rot_root_message_id r = rot_root_message_id root) (sp_roots db)
         then (Inl (sql_error (UniqueFailed ''rust_native_comment_roots.discussion_chat_id, rust_native_comment_roots.root_message_id'')), db)
         else (Inr (), db\<lparr>
           sp_roots := upsert same row (\<lambda>r. row\<lparr>rot_created_at_ms := rot_created_at_ms r\<rparr>) (sp_roots db),
           sp_spaces := update_where (\<lambda>s. post_key s = (rot_channel_chat_id root, rot_channel_post_id root))
             (\<lambda>s. s\<lparr>sps_discussion_chat_id := Some (rot_discussion_chat_id root),
                sps_discussion_root_message_id := Some (rot_root_message_id root),
                sps_updated_at_ms := now\<rparr>) (sp_spaces db)\<rparr>))"

definition native_comment_root :: "i64 \<Rightarrow> i64 \<Rightarrow> space_db \<Rightarrow> comment_root option" where
  "native_comment_root chat post db = map_option comment_root.truncate
     (first_where (\<lambda>r. rot_channel_chat_id r = chat \<and> rot_channel_post_id r = post) (sp_roots db))"

section \<open>Callbacks\<close>

definition insert_callback ::
  "string \<Rightarrow> stored_callback \<Rightarrow> space_db \<Rightarrow> unit port_result \<times> space_db" where
  "insert_callback surface c db =
     (if is_blank (cb_nonce c) \<or> is_blank (cb_action c)
      then (Inl (Adapter ''callback nonce and action cannot be empty''), db)
      else if exists_where (\<lambda>r. cb_nonce r = cb_nonce c) (sp_callbacks db)
      then (Inl (sql_error (UniqueFailed ''rust_callbacks.nonce'')), db)
      else if \<not> exists_where (\<lambda>s. sps_space_id s = cb_space_id c) (sp_spaces db)
      then (Inl (sql_error ForeignKeyFailed), db)
      else (Inr (), db\<lparr>sp_callbacks := sp_callbacks db @
        [\<lparr>cb_nonce = cb_nonce c, cb_space_id = cb_space_id c, cb_generation = cb_generation c,
          cb_action = cb_action c, cb_expires_at_ms = cb_expires_at_ms c,
          cb_consumed_at_ms = None, cb_surface = surface\<rparr>]\<rparr>))"

definition create_callback :: "stored_callback \<Rightarrow> space_db \<Rightarrow> unit port_result \<times> space_db" where
  "create_callback c db = insert_callback ''workflow'' c db"

definition create_status_callback :: "stored_callback \<Rightarrow> space_db \<Rightarrow> unit port_result \<times> space_db" where
  "create_status_callback c db = insert_callback ''status'' c db"

definition restore_callback :: "string \<Rightarrow> space_db \<Rightarrow> bool port_result \<times> space_db" where
  "restore_callback nonce db =
     (let P = (\<lambda>r. cb_nonce r = nonce \<and> \<not> is_nil (cb_consumed_at_ms r))
      in (Inr (count_where P (sp_callbacks db) = 1),
          db\<lparr>sp_callbacks := update_where P (\<lambda>r. r\<lparr>cb_consumed_at_ms := None\<rparr>) (sp_callbacks db)\<rparr>))"

definition legacy_status_action :: "json deserializer \<Rightarrow> string \<Rightarrow> bool" where
  "legacy_status_action de action = (case de action of
     Inl _ \<Rightarrow> False
   | Inr value \<Rightarrow> (case jstr ''action'' value of
       None \<Rightarrow> False
     | Some a \<Rightarrow> a \<in> set [''space_refresh'', ''space_unwatch'', ''status_unwatch_execute'',
         ''status_unwatch_cancel'']))"

definition is_status_callback :: "json deserializer \<Rightarrow> callback_row \<Rightarrow> bool" where
  "is_status_callback de r \<longleftrightarrow> cb_surface r = ''status'' \<or> legacy_status_action de (cb_action r)"

definition consume_nonce :: "i64 \<Rightarrow> string \<Rightarrow> callback_row list \<Rightarrow> callback_row list" where
  "consume_nonce now nonce rows = update_where (\<lambda>r. cb_nonce r = nonce \<and> is_nil (cb_consumed_at_ms r))
     (\<lambda>r. r\<lparr>cb_consumed_at_ms := Some now\<rparr>) rows"

text \<open>The clock the code reads between the query and the updates is the argument \<open>now\<close>.\<close>

definition retire_status_callbacks_at ::
  "json deserializer \<Rightarrow> string \<Rightarrow> i64 \<Rightarrow> i64 \<Rightarrow> space_db \<Rightarrow> i64 port_result \<times> space_db" where
  "retire_status_callbacks_at de sid generation now db =
     (let nonces = map cb_nonce (filter (is_status_callback de) (filter (\<lambda>r. cb_space_id r = sid
            \<and> cb_generation r = generation \<and> is_nil (cb_consumed_at_ms r)) (sp_callbacks db)))
      in (Inr now, db\<lparr>sp_callbacks := fold (consume_nonce now) nonces (sp_callbacks db)\<rparr>))"

definition retire_status_callbacks ::
  "json deserializer \<Rightarrow> string \<Rightarrow> i64 \<Rightarrow> i64 \<Rightarrow> space_db \<Rightarrow> nat port_result \<times> space_db" where
  "retire_status_callbacks de sid generation now db =
     (case retire_status_callbacks_at de sid generation now db of
        (Inl e, db1) \<Rightarrow> (Inl e, db1)
      | (Inr retired_at, db1) \<Rightarrow> (Inr (count_where (\<lambda>r. cb_space_id r = sid \<and> cb_generation r = generation
          \<and> cb_consumed_at_ms r = Some retired_at) (sp_callbacks db1)), db1))"

definition restore_status_callbacks ::
  "string \<Rightarrow> i64 \<Rightarrow> i64 \<Rightarrow> space_db \<Rightarrow> nat port_result \<times> space_db" where
  "restore_status_callbacks sid generation retired_at db =
     (let P = (\<lambda>r. cb_space_id r = sid \<and> cb_generation r = generation \<and> cb_surface r = ''status''
            \<and> cb_consumed_at_ms r = Some retired_at)
      in (Inr (count_where P (sp_callbacks db)),
          db\<lparr>sp_callbacks := update_where P (\<lambda>r. r\<lparr>cb_consumed_at_ms := None\<rparr>) (sp_callbacks db)\<rparr>))"

definition cb_live :: "i64 \<Rightarrow> callback_row \<Rightarrow> bool" where
  "cb_live now r \<longleftrightarrow> is_nil (cb_consumed_at_ms r) \<and> now \<le> cb_expires_at_ms r"

definition peek_callback :: "string \<Rightarrow> i64 \<Rightarrow> space_db \<Rightarrow> stored_callback option" where
  "peek_callback nonce now db = map_option stored_callback.truncate
     (first_where (\<lambda>r. cb_nonce r = nonce \<and> cb_live now r) (sp_callbacks db))"

definition callback_surface :: "string \<Rightarrow> i64 \<Rightarrow> space_db \<Rightarrow> string option" where
  "callback_surface nonce now db = map_option cb_surface
     (first_where (\<lambda>r. cb_nonce r = nonce \<and> cb_live now r) (sp_callbacks db))"

definition take_callback_scoped ::
  "string \<Rightarrow> i64 \<Rightarrow> string option \<Rightarrow> i64 option \<Rightarrow> space_db \<Rightarrow>
    stored_callback option port_result \<times> space_db" where
  "take_callback_scoped nonce now space generation db =
     (case first_where (\<lambda>r. cb_nonce r = nonce \<and> cb_live now r
          \<and> (case space of None \<Rightarrow> True | Some sid \<Rightarrow> cb_space_id r = sid)
          \<and> (case generation of None \<Rightarrow> True | Some g \<Rightarrow> cb_generation r = g)) (sp_callbacks db) of
        None \<Rightarrow> (Inr None, db)
      | Some c \<Rightarrow>
          let P = (\<lambda>r. cb_nonce r = nonce \<and> is_nil (cb_consumed_at_ms r))
          in (Inr (if count_where P (sp_callbacks db) = 1 then Some (stored_callback.truncate c) else None),
              db\<lparr>sp_callbacks := consume_nonce now nonce (sp_callbacks db)\<rparr>))"

definition take_callback ::
  "string \<Rightarrow> i64 \<Rightarrow> space_db \<Rightarrow> stored_callback option port_result \<times> space_db" where
  "take_callback nonce now db = take_callback_scoped nonce now None None db"

section \<open>Workflow records\<close>

definition workflow_table :: "string \<Rightarrow> string" where
  "workflow_table kind = ''rust_workflow:'' @ kind"

definition record_key :: "legacy_record \<Rightarrow> string \<times> string" where
  "record_key r = (lr_table_name r, lr_row_key r)"

definition upsert_workflow_record ::
  "json serializer \<Rightarrow> (string \<Rightarrow> string) \<Rightarrow> string \<Rightarrow> string \<Rightarrow> json \<Rightarrow> i64 \<Rightarrow> space_db \<Rightarrow>
    unit port_result \<times> space_db" where
  "upsert_workflow_record ser sha256_hex kind key payload updated db =
     (if is_blank kind \<or> is_blank key
      then (Inl (Adapter ''workflow record key cannot be empty''), db)
      else case ser payload of
        Inl e \<Rightarrow> (Inl (Adapter (''serialize workflow record: '' @ e)), db)
      | Inr row_json \<Rightarrow>
          let row = \<lparr>lr_table_name = workflow_table kind, lr_row_key = key,
                lr_source_schema_version = -1, lr_row_json = row_json,
                lr_row_sha256 = sha256_hex row_json, lr_imported_at_ms = updated\<rparr>
          in (Inr (), db\<lparr>sp_records := upsert (\<lambda>r. record_key r = (workflow_table kind, key)) row
                (\<lambda>r. r\<lparr>lr_row_json := row_json, lr_row_sha256 := sha256_hex row_json,
                     lr_imported_at_ms := updated\<rparr>) (sp_records db)\<rparr>))"

definition workflow_record ::
  "json deserializer \<Rightarrow> string \<Rightarrow> string \<Rightarrow> space_db \<Rightarrow> json option port_result" where
  "workflow_record de kind key db =
     (case first_where (\<lambda>r. record_key r = (workflow_table kind, key)) (sp_records db) of
        None \<Rightarrow> Inr None
      | Some r \<Rightarrow> (case de (lr_row_json r) of Inl e \<Rightarrow> Inl (Adapter e) | Inr v \<Rightarrow> Inr (Some v)))"

fun decode_records :: "json deserializer \<Rightarrow> legacy_record list \<Rightarrow> (string \<times> json) list port_result" where
  "decode_records de [] = Inr []"
| "decode_records de (r # rows) = (case de (lr_row_json r) of
     Inl e \<Rightarrow> Inl (Adapter e)
   | Inr v \<Rightarrow> map_sum id (\<lambda>vs. (lr_row_key r, v) # vs) (decode_records de rows))"

definition workflow_records ::
  "json deserializer \<Rightarrow> string \<Rightarrow> space_db \<Rightarrow> (string \<times> json) list port_result" where
  "workflow_records de kind db = decode_records de (sort_key (\<lambda>r. (lr_imported_at_ms r, lr_row_key r))
     (filter (\<lambda>r. lr_table_name r = workflow_table kind) (sp_records db)))"

definition delete_workflow_record ::
  "string \<Rightarrow> string \<Rightarrow> space_db \<Rightarrow> bool port_result \<times> space_db" where
  "delete_workflow_record kind key db =
     (let P = (\<lambda>r. record_key r = (workflow_table kind, key))
      in (Inr (count_where P (sp_records db) = 1), db\<lparr>sp_records := delete_where P (sp_records db)\<rparr>))"

section \<open>Closing a space\<close>

text \<open>
  Whether a queue record belongs to the space: it names the space, or it has the space's thread
  and a generation that is not newer. Two absent threads are equal, as two \<open>None\<close>s are in Rust.
\<close>

definition queue_of_space :: "session_space \<Rightarrow> i64 \<Rightarrow> json \<Rightarrow> bool" where
  "queue_of_space current expected value \<longleftrightarrow>
     jstr ''space_id'' value = Some (sps_space_id current)
   \<or> (jstr ''thread_id'' value = sps_thread_id current
      \<and> (case ji64 ''generation'' value of None \<Rightarrow> False | Some g \<Rightarrow> g \<le> expected))"

definition cancels_record :: "session_space \<Rightarrow> i64 \<Rightarrow> json \<Rightarrow> bool" where
  "cancels_record current expected value \<longleftrightarrow>
     queue_of_space current expected value \<and> jstr ''status'' value = Some ''queued''"

definition cancelled :: "i64 \<Rightarrow> json \<Rightarrow> json option" where
  "cancelled at value = Option.bind (jset ''status'' (JStr ''cancelled'') value)
     (jset ''cancelled_at_ms'' (JInt at))"

text \<open>
  The loop over the queue records as the query returned them. A record that does not parse is
  skipped. The value of a record with a status is an object, so the two assignments cannot panic.
\<close>

fun cancel_queue ::
  "json serializer \<Rightarrow> json deserializer \<Rightarrow> (string \<Rightarrow> string) \<Rightarrow> session_space \<Rightarrow> i64 \<Rightarrow> i64 \<Rightarrow>
    (string \<times> string) list \<Rightarrow> legacy_record list \<Rightarrow> legacy_record list port_result" where
  "cancel_queue ser de sha current expected at [] records = Inr records"
| "cancel_queue ser de sha current expected at ((key, row_json) # rows) records =
     (case de row_json of
        Inl _ \<Rightarrow> cancel_queue ser de sha current expected at rows records
      | Inr value \<Rightarrow>
          if \<not> cancels_record current expected value
          then cancel_queue ser de sha current expected at rows records
          else (case cancelled at value of
              None \<Rightarrow> cancel_queue ser de sha current expected at rows records
            | Some updated \<Rightarrow> (case ser updated of
                Inl e \<Rightarrow> Inl (Adapter (''serialize cancelled queue: '' @ e))
              | Inr updated_json \<Rightarrow> cancel_queue ser de sha current expected at rows
                  (update_where (\<lambda>r. record_key r = (workflow_table ''queue'', key))
                    (\<lambda>r. r\<lparr>lr_row_json := updated_json, lr_row_sha256 := sha updated_json,
                         lr_imported_at_ms := at\<rparr>) records))))"

definition close_session_space ::
  "json serializer \<Rightarrow> json deserializer \<Rightarrow> (string \<Rightarrow> string) \<Rightarrow> string \<Rightarrow> i64 \<Rightarrow> i64 \<Rightarrow> space_db \<Rightarrow>
    session_space option port_result \<times> space_db" where
  "close_session_space ser de sha sid expected at db =
     (case first_where (\<lambda>r. sps_space_id r = sid \<and> sps_generation r = expected) (sp_spaces db) of
        None \<Rightarrow> (Inr None, db)
      | Some current \<Rightarrow>
          if sps_lifecycle current = ''closed'' then (Inr (Some current), db)
          else
            let generation = saturating_add expected 1;
                closed = current\<lparr>sps_lifecycle := ''closed'', sps_generation := generation,
                  sps_closed_at_ms := Some at, sps_updated_at_ms := at\<rparr>;
                spaces = update_where (\<lambda>r. sps_space_id r = sid \<and> sps_generation r = expected
                    \<and> sps_lifecycle r \<noteq> ''closed'')
                  (\<lambda>r. r\<lparr>sps_lifecycle := ''closed'', sps_generation := generation,
                       sps_closed_at_ms := Some at, sps_updated_at_ms := at\<rparr>) (sp_spaces db);
                callbacks = update_where (\<lambda>r. cb_space_id r = sid \<and> is_nil (cb_consumed_at_ms r))
                  (\<lambda>r. r\<lparr>cb_consumed_at_ms := Some at\<rparr>) (sp_callbacks db);
                queue = map (\<lambda>r. (lr_row_key r, lr_row_json r))
                  (filter (\<lambda>r. lr_table_name r = workflow_table ''queue'') (sp_records db))
            in (case cancel_queue ser de sha current expected at queue (sp_records db) of
                  Inl e \<Rightarrow> (Inl e, db)
                | Inr records \<Rightarrow> (Inr (Some closed),
                    db\<lparr>sp_spaces := spaces, sp_callbacks := callbacks, sp_records := records\<rparr>)))"

section \<open>One operation of any kind\<close>

datatype space_op =
    SpUpsert session_space
  | SpClose string i64 i64
  | SpBind comment_root i64
  | SpCreate stored_callback
  | SpCreateStatus stored_callback
  | SpRestore string
  | SpRetire string i64 i64
  | SpRestoreStatus string i64 i64
  | SpTake string i64 "string option" "i64 option"
  | SpRecord string string json i64
  | SpDeleteRecord string string

record codec =
  cd_ser :: "json serializer"
  cd_de :: "json deserializer"
  cd_sha256_hex :: "string \<Rightarrow> string"

fun space_step :: "codec \<Rightarrow> space_op \<Rightarrow> space_db \<Rightarrow> space_db" where
  "space_step cd (SpUpsert s) db = snd (upsert_session_space s db)"
| "space_step cd (SpClose sid g at) db =
     snd (close_session_space (cd_ser cd) (cd_de cd) (cd_sha256_hex cd) sid g at db)"
| "space_step cd (SpBind root now) db = snd (bind_native_comment_root root now db)"
| "space_step cd (SpCreate c) db = snd (create_callback c db)"
| "space_step cd (SpCreateStatus c) db = snd (create_status_callback c db)"
| "space_step cd (SpRestore nonce) db = snd (restore_callback nonce db)"
| "space_step cd (SpRetire sid g now) db = snd (retire_status_callbacks_at (cd_de cd) sid g now db)"
| "space_step cd (SpRestoreStatus sid g t) db = snd (restore_status_callbacks sid g t db)"
| "space_step cd (SpTake nonce now space g) db = snd (take_callback_scoped nonce now space g db)"
| "space_step cd (SpRecord kind key payload t) db =
     snd (upsert_workflow_record (cd_ser cd) (cd_sha256_hex cd) kind key payload t db)"
| "space_step cd (SpDeleteRecord kind key) db = snd (delete_workflow_record kind key db)"

end
