(* ===== verification/SpaceProps.thy ===== *)
theory SpaceProps
  imports SpaceStore
begin

text \<open>
  Session spaces under every sequence of operations: a closed space stays closed, closing ends
  everything that belongs to the space and nothing else, and a callback is taken once and only
  by its own scope.
\<close>

section \<open>The keys of the tables stay unique\<close>

definition space_inv :: "space_db \<Rightarrow> bool" where
  "space_inv db \<longleftrightarrow> distinct (map sps_space_id (sp_spaces db)) \<and> distinct (map post_key (sp_spaces db))
     \<and> distinct (map cb_nonce (sp_callbacks db)) \<and> distinct (map record_key (sp_records db))"

lemma merge_space_simps [simp]:
  "sps_space_id (merge_space s old) = sps_space_id s" "post_key (merge_space s old) = post_key s"
  "sps_lifecycle (merge_space s old) = sps_lifecycle s" "sps_generation (merge_space s old) = sps_generation s"
  by (simp_all add: merge_space_def post_key_def)

lemma post_key_simps [simp]:
  "post_key (r\<lparr>sps_lifecycle := a, sps_generation := g, sps_closed_at_ms := c, sps_updated_at_ms := u\<rparr>) = post_key r"
  "post_key (r\<lparr>sps_discussion_chat_id := x, sps_discussion_root_message_id := y, sps_updated_at_ms := u\<rparr>) = post_key r"
  by (simp_all add: post_key_def)

lemma record_key_simps [simp]:
  "record_key (r\<lparr>lr_row_json := j, lr_row_sha256 := h, lr_imported_at_ms := t\<rparr>) = record_key r"
  by (simp add: record_key_def)

lemma distinct_post_update:
  assumes "distinct (map sps_space_id rows)" and "distinct (map post_key rows)"
    and "\<not> post_taken s rows"
  shows "distinct (map post_key (update_where (\<lambda>r. sps_space_id r = sps_space_id s) (merge_space s) rows))"
  using assms
proof (induction rows)
  case (Cons r rows)
  have upd: "post_key ` set (update_where (\<lambda>r. sps_space_id r = sps_space_id s) (merge_space s) rows)
      \<subseteq> insert (post_key s) (post_key ` {q \<in> set rows. sps_space_id q \<noteq> sps_space_id s})"
    by (auto simp: set_update_where)
  show ?case
  proof (cases "sps_space_id r = sps_space_id s")
    case True
    with Cons.prems(1) have "sps_space_id q \<noteq> sps_space_id s" if "q \<in> set rows" for q
      using that by (force simp: image_iff)
    then have "update_where (\<lambda>r. sps_space_id r = sps_space_id s) (merge_space s) rows = rows"
      by (intro update_where_id)
    moreover have "post_key s \<notin> post_key ` set rows"
      using Cons.prems(3) \<open>\<And>q. q \<in> set rows \<Longrightarrow> sps_space_id q \<noteq> sps_space_id s\<close>
      by (auto simp: post_taken_def exists_where_def list_ex_iff)
    ultimately show ?thesis using True Cons.prems by simp
  next
    case False
    have "post_key r \<noteq> post_key s"
      using Cons.prems(3) False by (auto simp: post_taken_def exists_where_def)
    moreover have "post_key r \<notin> post_key ` {q \<in> set rows. sps_space_id q \<noteq> sps_space_id s}"
      using Cons.prems(2) by auto
    ultimately have "post_key r \<notin> post_key ` set (update_where (\<lambda>r. sps_space_id r = sps_space_id s) (merge_space s) rows)"
      using upd by blast
    moreover have "distinct (map post_key (update_where (\<lambda>r. sps_space_id r = sps_space_id s) (merge_space s) rows))"
      using Cons by (simp add: post_taken_def exists_where_def)
    ultimately show ?thesis using False by simp
  qed
qed simp

lemma upsert_space_inv:
  assumes "space_inv db" shows "space_inv (snd (upsert_session_space s db))"
proof -
  have "map sps_space_id (update_where (\<lambda>r. sps_space_id r = sps_space_id s) (merge_space s) (sp_spaces db))
      = map sps_space_id (sp_spaces db)" by (rule update_where_keys) simp
  moreover have "post_key s \<notin> post_key ` set (sp_spaces db)"
    if "\<not> post_taken s (sp_spaces db)" "first_where (\<lambda>r. sps_space_id r = sps_space_id s) (sp_spaces db) = None"
    using that by (auto simp: post_taken_def exists_where_def list_ex_iff first_where_None)
  moreover have "sps_space_id s \<notin> sps_space_id ` set (sp_spaces db)"
    if "first_where (\<lambda>r. sps_space_id r = sps_space_id s) (sp_spaces db) = None"
    using that by (auto simp: first_where_None)
  ultimately show ?thesis
    using assms by (simp add: upsert_session_space_def space_inv_def distinct_post_update
        split: sum.split option.split)
qed

lemma cancel_queue_keys:
  "cancel_queue ser de sha current expected at rows records = Inr records' \<Longrightarrow>
     map record_key records' = map record_key records"
  by (induction ser de sha current expected at rows records rule: cancel_queue.induct)
    (auto simp: update_where_keys split: sum.splits option.splits if_splits)

lemma close_inv:
  assumes "space_inv db" shows "space_inv (snd (close_session_space ser de sha sid g at db))"
  using assms by (auto simp: close_session_space_def Let_def space_inv_def update_where_keys
      cancel_queue_keys split: option.split sum.split)

lemma consume_nonce_keys [simp]: "map cb_nonce (consume_nonce now n rows) = map cb_nonce rows"
  unfolding consume_nonce_def by (rule update_where_keys) simp

lemma retire_keys [simp]: "map cb_nonce (fold (consume_nonce now) nonces rows) = map cb_nonce rows"
  by (induction nonces arbitrary: rows) simp_all

lemma record_inv:
  assumes "space_inv db" shows "space_inv (snd (upsert_workflow_record ser sha kind key payload t db))"
proof -
  have "distinct (map record_key (upsert (\<lambda>r. record_key r = (workflow_table kind, key))
      row (\<lambda>r. r\<lparr>lr_row_json := j, lr_row_sha256 := h, lr_imported_at_ms := t\<rparr>) (sp_records db)))"
    if "record_key row = (workflow_table kind, key)" for row j h t
    using upsert_distinct [of record_key "sp_records db" row] assms that by (simp add: space_inv_def)
  with assms show ?thesis
    by (simp add: upsert_workflow_record_def Let_def space_inv_def split: sum.split)
      (simp add: record_key_def)
qed

lemma insert_callback_inv:
  "space_inv db \<Longrightarrow> space_inv (snd (insert_callback surface c db))"
  by (auto simp: insert_callback_def space_inv_def exists_where_def list_ex_iff)

lemma space_step_inv: "space_inv db \<Longrightarrow> space_inv (space_step cd op db)"
proof (cases op)
  case (SpTake nonce now space g)
  then show "space_inv db \<Longrightarrow> ?thesis"
    by (simp add: take_callback_scoped_def Let_def space_inv_def update_where_keys split: option.split)
next
  case (SpRetire sid g now)
  then show "space_inv db \<Longrightarrow> ?thesis"
    by (simp add: retire_status_callbacks_at_def Let_def space_inv_def retire_keys)
next
  case (SpBind root now)
  then show "space_inv db \<Longrightarrow> ?thesis"
    by (simp add: bind_native_comment_root_def Let_def space_inv_def update_where_keys)
next
  case (SpUpsert s)
  then show "space_inv db \<Longrightarrow> ?thesis" by (simp add: upsert_space_inv)
next
  case (SpClose sid g at)
  then show "space_inv db \<Longrightarrow> ?thesis" by (simp add: close_inv)
next
  case (SpRecord kind key payload t)
  then show "space_inv db \<Longrightarrow> ?thesis" by (simp add: record_inv)
next
  case (SpCreate c)
  then show "space_inv db \<Longrightarrow> ?thesis" by (simp add: create_callback_def insert_callback_inv)
next
  case (SpCreateStatus c)
  then show "space_inv db \<Longrightarrow> ?thesis" by (simp add: create_status_callback_def insert_callback_inv)
qed (simp_all add: restore_callback_def restore_status_callbacks_def delete_workflow_record_def Let_def
    space_inv_def update_where_keys delete_where_distinct)

interpretation spaces: machine "space_step cd" space_inv for cd
  by unfold_locales (rule space_step_inv)

lemma space_run_inv: "space_inv (fold (space_step cd) ops space_empty)"
  by (rule spaces.run_inv) (simp add: space_inv_def space_empty_def)

section \<open>Lifecycle\<close>

lemma space_at_update:
  assumes "\<And>r. P r \<Longrightarrow> sps_space_id (f r) = sps_space_id r"
  shows "get_session_space sid (db\<lparr>sp_spaces := update_where P f (sp_spaces db)\<rparr>)
    = map_option (\<lambda>r. if P r then f r else r) (get_session_space sid db)"
  unfolding get_session_space_def by (simp, rule first_where_update, rule assms)

lemma get_space_other [simp]:
  "get_session_space sid (db\<lparr>sp_callbacks := c\<rparr>) = get_session_space sid db"
  "get_session_space sid (db\<lparr>sp_records := rs\<rparr>) = get_session_space sid db"
  "get_session_space sid (db\<lparr>sp_roots := ro\<rparr>) = get_session_space sid db"
  by (simp_all add: get_session_space_def)

lemma get_space_key: "get_session_space sid db = Some r \<Longrightarrow> sps_space_id r = sid"
  by (auto simp: get_session_space_def dest: first_where_SomeD)

definition space_closed :: "string \<Rightarrow> space_db \<Rightarrow> bool" where
  "space_closed sid db \<longleftrightarrow> (\<exists>r. get_session_space sid db = Some r \<and> sps_lifecycle r = ''closed'')"

lemma closed_update:
  assumes "\<And>r. P r \<Longrightarrow> sps_space_id (f r) = sps_space_id r"
    and "\<And>r. P r \<Longrightarrow> sps_lifecycle r = ''closed'' \<Longrightarrow> sps_lifecycle (f r) = ''closed''"
    and "space_closed sid db"
  shows "space_closed sid (db\<lparr>sp_spaces := update_where P f (sp_spaces db)\<rparr>)"
proof -
  obtain r where r: "get_session_space sid db = Some r" "sps_lifecycle r = ''closed''"
    using assms(3) by (auto simp: space_closed_def)
  have "get_session_space sid (db\<lparr>sp_spaces := update_where P f (sp_spaces db)\<rparr>)
      = Some (if P r then f r else r)" using r assms(1) by (simp add: space_at_update)
  with r assms(2) show ?thesis by (cases "P r") (auto simp: space_closed_def)
qed

lemma closed_other [simp]:
  "space_closed sid (db\<lparr>sp_callbacks := c\<rparr>) = space_closed sid db"
  "space_closed sid (db\<lparr>sp_records := rs\<rparr>) = space_closed sid db"
  "space_closed sid (db\<lparr>sp_roots := ro\<rparr>) = space_closed sid db"
  by (simp_all add: space_closed_def)

lemma closed_upsert:
  assumes "space_closed sid db" shows "space_closed sid (snd (upsert_session_space s db))"
proof (cases "validate_space s")
  case (Inr u)
  show ?thesis
  proof (cases "get_session_space (sps_space_id s) db")
    case None
    with assms Inr show ?thesis
      by (auto simp: upsert_session_space_def space_closed_def get_session_space_def first_where_append)
  next
    case (Some old)
    have "space_closed sid (db\<lparr>sp_spaces := update_where (\<lambda>r. sps_space_id r = sps_space_id s)
        (merge_space s) (sp_spaces db)\<rparr>)" if m: "merge_allowed s old"
    proof -
      obtain r where r: "get_session_space sid db = Some r" "sps_lifecycle r = ''closed''"
        using assms by (auto simp: space_closed_def)
      have "sps_lifecycle s = ''closed''" if "sps_space_id r = sps_space_id s"
        using m r Some that get_space_key [OF r(1)] by (auto simp: merge_allowed_def)
      moreover have "get_session_space sid (db\<lparr>sp_spaces := update_where (\<lambda>r. sps_space_id r = sps_space_id s)
          (merge_space s) (sp_spaces db)\<rparr>) = Some (if sps_space_id r = sps_space_id s then merge_space s r else r)"
        using r by (simp add: space_at_update)
      ultimately show ?thesis using r by (auto simp: space_closed_def)
    qed
    with assms Inr Some show ?thesis
      by (simp add: upsert_session_space_def get_session_space_def)
  qed
qed (use assms in \<open>simp add: upsert_session_space_def\<close>)

lemma closed_close:
  assumes "space_closed sid db" shows "space_closed sid (snd (close_session_space ser de sha s g at db))"
proof -
  have "space_closed sid (db\<lparr>sp_spaces := update_where (\<lambda>r. sps_space_id r = s \<and> sps_generation r = g
        \<and> sps_lifecycle r \<noteq> ''closed'') (\<lambda>r. r\<lparr>sps_lifecycle := ''closed'', sps_generation := x,
        sps_closed_at_ms := y, sps_updated_at_ms := z\<rparr>) (sp_spaces db)\<rparr>)" for x y z
    by (rule closed_update) (use assms in simp_all)
  from this [where x = "saturating_add g 1" and y = "Some at" and z = at] assms show ?thesis
    by (auto simp: close_session_space_def Let_def space_closed_def get_session_space_def
        split: option.split sum.split)
qed

lemma closed_step: "space_closed sid db \<Longrightarrow> space_closed sid (space_step cd op db)"
proof (cases op)
  case (SpUpsert s)
  then show "space_closed sid db \<Longrightarrow> ?thesis" by (simp add: closed_upsert)
next
  case (SpClose s g at)
  then show "space_closed sid db \<Longrightarrow> ?thesis" by (simp add: closed_close)
next
  case (SpBind root now)
  assume c: "space_closed sid db"
  have "space_closed sid (db\<lparr>sp_spaces := update_where (\<lambda>s. post_key s = k)
      (\<lambda>s. s\<lparr>sps_discussion_chat_id := x, sps_discussion_root_message_id := y, sps_updated_at_ms := z\<rparr>)
      (sp_spaces db)\<rparr>)" for k x y z
    by (rule closed_update) (use c in simp_all)
  then have "space_closed sid (db\<lparr>sp_roots := ro, sp_spaces := update_where (\<lambda>s. post_key s = k)
      (\<lambda>s. s\<lparr>sps_discussion_chat_id := x, sps_discussion_root_message_id := y, sps_updated_at_ms := z\<rparr>)
      (sp_spaces db)\<rparr>)" for ro k x y z
    by (simp add: space_closed_def get_session_space_def)
  with SpBind c show ?thesis by (simp add: bind_native_comment_root_def Let_def)
qed (simp_all add: create_callback_def create_status_callback_def insert_callback_def restore_callback_def
    retire_status_callbacks_at_def restore_status_callbacks_def take_callback_scoped_def
    upsert_workflow_record_def delete_workflow_record_def Let_def split: option.split sum.split)

lemma closed_run: "space_closed sid db \<Longrightarrow> space_closed sid (fold (space_step cd) ops db)"
  by (induction ops arbitrary: db) (auto intro: closed_step)

section \<open>Callbacks\<close>

definition callback_at :: "string \<Rightarrow> space_db \<Rightarrow> callback_row option" where
  "callback_at n db = first_where (\<lambda>r. cb_nonce r = n) (sp_callbacks db)"

lemma callback_at_other [simp]:
  "callback_at n (db\<lparr>sp_spaces := c\<rparr>) = callback_at n db"
  "callback_at n (db\<lparr>sp_records := rs\<rparr>) = callback_at n db"
  "callback_at n (db\<lparr>sp_roots := ro\<rparr>) = callback_at n db"
  by (simp_all add: callback_at_def)

lemma callback_at_update:
  assumes "\<And>r. P r \<Longrightarrow> cb_nonce (f r) = cb_nonce r"
  shows "callback_at n (db\<lparr>sp_callbacks := update_where P f (sp_callbacks db)\<rparr>)
    = map_option (\<lambda>r. if P r then f r else r) (callback_at n db)"
  unfolding callback_at_def by (simp, rule first_where_update, rule assms)

definition callback_spent :: "string \<Rightarrow> space_db \<Rightarrow> bool" where
  "callback_spent n db \<longleftrightarrow> (\<exists>r. callback_at n db = Some r \<and> cb_consumed_at_ms r \<noteq> None)"

lemma spent_other [simp]:
  "callback_spent n (db\<lparr>sp_spaces := c\<rparr>) = callback_spent n db"
  "callback_spent n (db\<lparr>sp_records := rs\<rparr>) = callback_spent n db"
  "callback_spent n (db\<lparr>sp_roots := ro\<rparr>) = callback_spent n db"
  by (simp_all add: callback_spent_def)

lemma spent_update:
  assumes "\<And>r. P r \<Longrightarrow> cb_nonce (f r) = cb_nonce r"
    and "\<And>r. P r \<Longrightarrow> cb_consumed_at_ms r \<noteq> None \<Longrightarrow> cb_nonce r = n \<Longrightarrow> cb_consumed_at_ms (f r) \<noteq> None"
    and "callback_spent n db"
  shows "callback_spent n (db\<lparr>sp_callbacks := update_where P f (sp_callbacks db)\<rparr>)"
proof -
  obtain r where r: "callback_at n db = Some r" "cb_consumed_at_ms r \<noteq> None"
    using assms(3) by (auto simp: callback_spent_def)
  then have "cb_nonce r = n" by (auto simp: callback_at_def dest: first_where_SomeD)
  moreover have "callback_at n (db\<lparr>sp_callbacks := update_where P f (sp_callbacks db)\<rparr>)
      = Some (if P r then f r else r)" using r assms(1) by (simp add: callback_at_update)
  ultimately show ?thesis using r assms(2) by (cases "P r") (auto simp: callback_spent_def)
qed

lemma spent_consume:
  "callback_spent n db \<Longrightarrow> callback_spent n (db\<lparr>sp_callbacks := consume_nonce now m (sp_callbacks db)\<rparr>)"
  unfolding consume_nonce_def by (rule spent_update) simp_all

lemma spent_retire:
  "callback_spent n db \<Longrightarrow> callback_spent n (db\<lparr>sp_callbacks := fold (consume_nonce now) ns (sp_callbacks db)\<rparr>)"
proof (induction ns arbitrary: db)
  case (Cons m ns)
  from Cons.IH [OF spent_consume [OF Cons.prems, of now m]] show ?case by simp
qed simp

fun may_restore :: "string \<Rightarrow> space_op \<Rightarrow> bool" where
  "may_restore n (SpRestore m) = (m = n)"
| "may_restore n (SpRestoreStatus sid g t) = True"
| "may_restore n op = False"

lemma spent_step:
  assumes "callback_spent n db" and "\<not> may_restore n op"
  shows "callback_spent n (space_step cd op db)"
proof (cases op)
  case (SpUpsert s)
  with assms show ?thesis by (simp add: upsert_session_space_def split: sum.split option.split)
next
  case (SpClose sid g at)
  have "callback_spent n (db\<lparr>sp_callbacks := update_where (\<lambda>r. cb_space_id r = sid \<and> is_nil (cb_consumed_at_ms r))
      (\<lambda>r. r\<lparr>cb_consumed_at_ms := Some at\<rparr>) (sp_callbacks db)\<rparr>)"
    by (rule spent_update) (use assms in simp_all)
  then have "callback_spent n (db\<lparr>sp_spaces := a, sp_callbacks := update_where (\<lambda>r. cb_space_id r = sid
      \<and> is_nil (cb_consumed_at_ms r)) (\<lambda>r. r\<lparr>cb_consumed_at_ms := Some at\<rparr>) (sp_callbacks db),
      sp_records := b\<rparr>)" for a b
    by (simp add: callback_spent_def callback_at_def)
  with SpClose assms show ?thesis
    by (auto simp: close_session_space_def Let_def split: option.split sum.split)
next
  case (SpBind root now)
  with assms show ?thesis
    by (simp add: bind_native_comment_root_def Let_def callback_spent_def callback_at_def)
next
  case (SpRestore m)
  have "callback_spent n (db\<lparr>sp_callbacks := update_where (\<lambda>r. cb_nonce r = m \<and> \<not> is_nil (cb_consumed_at_ms r))
      (\<lambda>r. r\<lparr>cb_consumed_at_ms := None\<rparr>) (sp_callbacks db)\<rparr>)"
    by (rule spent_update) (use assms SpRestore in simp_all)
  with SpRestore show ?thesis by (simp add: restore_callback_def Let_def)
next
  case (SpRetire sid g now)
  with assms show ?thesis by (simp add: retire_status_callbacks_at_def Let_def spent_retire)
next
  case (SpTake m now sp g)
  with assms show ?thesis by (simp add: take_callback_scoped_def Let_def spent_consume split: option.split)
next
  case (SpCreate c)
  with assms show ?thesis
    by (auto simp: create_callback_def insert_callback_def callback_spent_def callback_at_def first_where_append)
next
  case (SpCreateStatus c)
  with assms show ?thesis
    by (auto simp: create_status_callback_def insert_callback_def callback_spent_def callback_at_def
        first_where_append)
qed (use assms in \<open>simp_all add: upsert_workflow_record_def delete_workflow_record_def Let_def split: sum.split\<close>)

lemma callback_spent_run:
  "callback_spent n db \<Longrightarrow> list_all (\<lambda>op. \<not> may_restore n op) ops \<Longrightarrow>
     callback_spent n (fold (space_step cd) ops db)"
  by (induction ops arbitrary: db) (auto intro: spent_step)

definition in_scope :: "string option \<Rightarrow> i64 option \<Rightarrow> callback_row \<Rightarrow> bool" where
  "in_scope space generation r \<longleftrightarrow> (case space of None \<Rightarrow> True | Some sid \<Rightarrow> cb_space_id r = sid)
     \<and> (case generation of None \<Rightarrow> True | Some g \<Rightarrow> cb_generation r = g)"

lemma take_result:
  assumes "space_inv db"
  shows "take_callback_scoped n now space g db =
    (case callback_at n db of
       None \<Rightarrow> (Inr None, db)
     | Some r \<Rightarrow> if cb_live now r \<and> in_scope space g r
         then (Inr (Some (stored_callback.truncate r)), db\<lparr>sp_callbacks := consume_nonce now n (sp_callbacks db)\<rparr>)
         else (Inr None, db))"
proof -
  have dist: "distinct (map cb_nonce (sp_callbacks db))" using assms by (simp add: space_inv_def)
  have f: "first_where (\<lambda>r. cb_nonce r = n \<and> cb_live now r
        \<and> (case space of None \<Rightarrow> True | Some sid \<Rightarrow> cb_space_id r = sid)
        \<and> (case g of None \<Rightarrow> True | Some g \<Rightarrow> cb_generation r = g)) (sp_callbacks db)
      = filter_opt (\<lambda>r. cb_live now r \<and> in_scope space g r) (callback_at n db)"
    using first_where_key_cases [OF dist, of n "\<lambda>r. cb_live now r \<and> in_scope space g r"]
    by (simp add: in_scope_def callback_at_def)
  have c: "count_where (\<lambda>r. cb_nonce r = n \<and> is_nil (cb_consumed_at_ms r)) (sp_callbacks db) = 1"
    if "callback_at n db = Some r" "cb_live now r" for r
    unfolding count_where_key [OF dist] first_where_key_cases [OF dist]
    using that by (simp add: callback_at_def filter_opt_def cb_live_def)
  show ?thesis
    using c by (cases "callback_at n db")
      (simp_all add: take_callback_scoped_def f filter_opt_def Let_def)
qed

lemma taken_spent:
  assumes "space_inv db" and "fst (take_callback_scoped n now space g db) = Inr (Some c)"
  shows "callback_spent n (snd (take_callback_scoped n now space g db))"
proof -
  obtain r where r: "callback_at n db = Some r" "cb_live now r" "in_scope space g r"
    using assms by (auto simp: take_result split: option.splits if_splits)
  then have n: "cb_nonce r = n" by (auto simp: callback_at_def dest: first_where_SomeD)
  have "callback_at n (db\<lparr>sp_callbacks := consume_nonce now n (sp_callbacks db)\<rparr>)
      = Some (r\<lparr>cb_consumed_at_ms := Some now\<rparr>)"
    unfolding consume_nonce_def using r n by (subst callback_at_update) (simp_all add: cb_live_def)
  with r assms(1) show ?thesis by (simp add: take_result callback_spent_def)
qed

section \<open>The queue a closing cancels\<close>

definition record_at :: "string \<times> string \<Rightarrow> legacy_record list \<Rightarrow> legacy_record option" where
  "record_at k rows = first_where (\<lambda>r. record_key r = k) rows"

text \<open>The text a queue record is replaced by, if it is one the closing cancels.\<close>

definition cancelled_text ::
  "json serializer \<Rightarrow> json deserializer \<Rightarrow> session_space \<Rightarrow> i64 \<Rightarrow> i64 \<Rightarrow> string \<Rightarrow> string option" where
  "cancelled_text ser de current expected at j = (case de j of
     Inl _ \<Rightarrow> None
   | Inr v \<Rightarrow> if \<not> cancels_record current expected v then None
       else (case cancelled at v of
           None \<Rightarrow> None
         | Some u \<Rightarrow> (case ser u of Inl _ \<Rightarrow> None | Inr t \<Rightarrow> Some t)))"

definition set_json :: "(string \<Rightarrow> string) \<Rightarrow> i64 \<Rightarrow> string \<Rightarrow> legacy_record \<Rightarrow> legacy_record" where
  "set_json sha at t r = r\<lparr>lr_row_json := t, lr_row_sha256 := sha t, lr_imported_at_ms := at\<rparr>"

lemma set_json_key [simp]: "record_key (set_json sha at t r) = record_key r"
  by (simp add: set_json_def record_key_def)

lemma cancel_queue_Cons:
  "cancel_queue ser de sha cur ex at ((k, j) # rows) records = Inr records' \<Longrightarrow>
     cancel_queue ser de sha cur ex at rows
       (case cancelled_text ser de cur ex at j of None \<Rightarrow> records
        | Some t \<Rightarrow> update_where (\<lambda>r. record_key r = (workflow_table ''queue'', k)) (set_json sha at t) records)
     = Inr records'"
  by (auto simp: cancelled_text_def set_json_def [abs_def] split: sum.splits option.splits if_splits)

lemma record_at_update:
  "record_at k (update_where (\<lambda>r. record_key r = k') (set_json sha at t) rows)
     = (if k = k' then map_option (set_json sha at t) (record_at k rows) else record_at k rows)"
proof -
  have "record_at k (update_where (\<lambda>r. record_key r = k') (set_json sha at t) rows)
      = map_option (\<lambda>r. if record_key r = k' then set_json sha at t r else r) (record_at k rows)"
    unfolding record_at_def by (rule first_where_update) simp
  then show ?thesis
    by (cases "record_at k rows") (auto simp: record_at_def dest: first_where_SomeD)
qed

lemma cancel_queue_other:
  assumes "cancel_queue ser de sha cur ex at rows records = Inr records'"
    and "fst key \<noteq> workflow_table ''queue'' \<or> snd key \<notin> fst ` set rows"
  shows "record_at key records' = record_at key records"
  using assms
proof (induction rows arbitrary: records)
  case (Cons row rows)
  obtain k j where row: "row = (k, j)" by (cases row)
  from Cons.IH [OF cancel_queue_Cons [OF Cons.prems(1) [unfolded row]]] Cons.prems(2) row
  show ?case by (auto simp: record_at_update split: option.splits)
qed simp

lemma cancel_queue_at:
  assumes "cancel_queue ser de sha cur ex at rows records = Inr records'"
    and "distinct (map fst rows)" and "(k, j) \<in> set rows"
  shows "record_at (workflow_table ''queue'', k) records' =
    (case cancelled_text ser de cur ex at j of
       None \<Rightarrow> record_at (workflow_table ''queue'', k) records
     | Some t \<Rightarrow> map_option (set_json sha at t) (record_at (workflow_table ''queue'', k) records))"
  using assms
proof (induction rows arbitrary: records)
  case (Cons row rows)
  obtain k' j' where row: "row = (k', j')" by (cases row)
  note rest = cancel_queue_Cons [OF Cons.prems(1) [unfolded row]]
  show ?case
  proof (cases "k' = k")
    case True
    then have "k \<notin> fst ` set rows" "j' = j"
      using Cons.prems(2,3) row by (auto simp: image_iff rev_image_eqI)
    with cancel_queue_other [OF rest, of "(workflow_table ''queue'', k)"] True show ?thesis
      by (simp add: record_at_update split: option.splits)
  next
    case False
    then have "(k, j) \<in> set rows" "distinct (map fst rows)" using Cons.prems row by auto
    from Cons.IH [OF rest this(2,1)] False show ?thesis
      by (simp add: record_at_update split: option.splits)
  qed
qed simp

lemma cancel_queue_Inr:
  assumes "cancel_queue ser de sha cur ex at rows records = Inr records'"
    and "(k, j) \<in> set rows" and "de j = Inr v" and "cancels_record cur ex v" and "cancelled at v = Some u"
  shows "\<exists>t. ser u = Inr t"
  using assms(1,2)
proof (induction rows arbitrary: records)
  case (Cons row rows)
  obtain k' j' where row: "row = (k', j')" by (cases row)
  show ?case
  proof (cases "(k, j) = row")
    case True
    with Cons.prems(1) row assms(3-5) show ?thesis by (auto split: sum.splits)
  next
    case False
    with Cons.IH [OF cancel_queue_Cons [OF Cons.prems(1) [unfolded row]]] Cons.prems(2) show ?thesis
      by auto
  qed
qed simp

lemma queue_rows_distinct:
  assumes "distinct (map record_key records)"
  shows "distinct (map fst (map (\<lambda>r. (lr_row_key r, lr_row_json r))
    (filter (\<lambda>r. lr_table_name r = tbl) records)))"
proof -
  have "inj_on lr_row_key (set (filter (\<lambda>r. lr_table_name r = tbl) records))"
    using assms by (auto simp: inj_on_def distinct_map record_key_def)
  moreover have "distinct records" using assms by (simp add: distinct_map)
  ultimately show ?thesis by (simp add: distinct_map comp_def)
qed

text \<open>The three parts of a closing that went through.\<close>

lemma close_cases:
  assumes "close_session_space ser de sha sid g at db = (Inr (Some s), db')"
    and "first_where (\<lambda>r. sps_space_id r = sid \<and> sps_generation r = g) (sp_spaces db) = Some old"
    and "sps_lifecycle old \<noteq> ''closed''"
  shows "s = old\<lparr>sps_lifecycle := ''closed'', sps_generation := saturating_add g 1,
      sps_closed_at_ms := Some at, sps_updated_at_ms := at\<rparr>"
    and "sp_spaces db' = update_where (\<lambda>r. sps_space_id r = sid \<and> sps_generation r = g
        \<and> sps_lifecycle r \<noteq> ''closed'') (\<lambda>r. r\<lparr>sps_lifecycle := ''closed'',
        sps_generation := saturating_add g 1, sps_closed_at_ms := Some at, sps_updated_at_ms := at\<rparr>)
        (sp_spaces db)"
    and "sp_callbacks db' = update_where (\<lambda>r. cb_space_id r = sid \<and> is_nil (cb_consumed_at_ms r))
        (\<lambda>r. r\<lparr>cb_consumed_at_ms := Some at\<rparr>) (sp_callbacks db)"
    and "cancel_queue ser de sha old g at (map (\<lambda>r. (lr_row_key r, lr_row_json r))
        (filter (\<lambda>r. lr_table_name r = workflow_table ''queue'') (sp_records db))) (sp_records db)
        = Inr (sp_records db')"
  using assms by (auto simp: close_session_space_def Let_def split: sum.splits)

section \<open>Properties\<close>


text \<open>
  C38. Closed is final. Once a space is closed, no sequence of operations makes it anything else:
  a later write that is not itself a closing write is ignored, and closing it again at any
  generation changes nothing.
\<close>

theorem closed_space_is_final:
  assumes "db = fold (space_step cd) ops space_empty" and "get_session_space sid db = Some old"
    and "sps_lifecycle old = ''closed''" and "db2 = fold (space_step cd) ops' db"
  shows "\<exists>r. get_session_space sid db2 = Some r \<and> sps_lifecycle r = ''closed''
    \<and> snd (close_session_space ser de sha sid g at db2) = db2
    \<and> (\<forall>s. sps_space_id s = sid \<longrightarrow> sps_lifecycle s \<noteq> ''closed'' \<longrightarrow>
         snd (upsert_session_space s db2) = db2)"
proof -
  have inv2: "space_inv db2" unfolding assms(4) assms(1) by (intro spaces.run_inv space_run_inv)
  have "space_closed sid db" using assms(2,3) by (simp add: space_closed_def)
  then have "space_closed sid db2" unfolding assms(4) by (rule closed_run)
  then obtain r where r: "get_session_space sid db2 = Some r" "sps_lifecycle r = ''closed''"
    by (auto simp: space_closed_def)
  have ids: "distinct (map sps_space_id (sp_spaces db2))" using inv2 by (simp add: space_inv_def)
  have "first_where (\<lambda>r. sps_space_id r = sid \<and> sps_generation r = g) (sp_spaces db2)
      = filter_opt (\<lambda>r. sps_generation r = g) (Some r)"
    unfolding first_where_key_cases [OF ids] using r(1) by (simp add: get_session_space_def)
  then have "snd (close_session_space ser de sha sid g at db2) = db2"
    using r(2) by (simp add: close_session_space_def filter_opt_def)
  moreover have "snd (upsert_session_space s db2) = db2"
    if "sps_space_id s = sid" "sps_lifecycle s \<noteq> ''closed''" for s
    using that r by (simp add: upsert_session_space_def get_session_space_def merge_allowed_def
        split: sum.split)
  ultimately show ?thesis using r by blast
qed

text \<open>
  A callback is taken once and only by its own scope. A take that names another space or
  another generation, or comes after the expiry, gets nothing and burns nothing. A take that
  succeeds hands out the stored callback, and no later take gets it unless it was given back.
\<close>

theorem callback_taken_once_in_scope:
  assumes "db = fold (space_step cd) ops space_empty"
    and "callback_at n db = Some r"
  shows "(\<not> in_scope space g r \<or> cb_expires_at_ms r < now \<longrightarrow>
         take_callback_scoped n now space g db = (Inr None, db))
    \<and> (\<forall>c db'. take_callback_scoped n now space g db = (Inr (Some c), db') \<longrightarrow>
         c = stored_callback.truncate r \<and> in_scope space g r
         \<and> (\<forall>ops' now2 space2 g2. list_all (\<lambda>op. \<not> may_restore n op) ops' \<longrightarrow>
              fst (take_callback_scoped n now2 space2 g2 (fold (space_step cd) ops' db')) = Inr None))"
proof (intro conjI impI allI)
  have inv: "space_inv db" unfolding assms(1) by (rule space_run_inv)
  note take = take_result [OF inv, of n now space g, unfolded assms(2), simplified]
  show "take_callback_scoped n now space g db = (Inr None, db)"
    if "\<not> in_scope space g r \<or> cb_expires_at_ms r < now"
    using that by (auto simp: take cb_live_def)
  fix c db' assume t: "take_callback_scoped n now space g db = (Inr (Some c), db')"
  then show "c = stored_callback.truncate r" "in_scope space g r"
    by (auto simp: take split: if_splits)
  fix ops' :: "space_op list" and now2 space2 g2
  assume quiet: "list_all (\<lambda>op. \<not> may_restore n op) ops'"
  have "callback_spent n db'" using taken_spent [OF inv, of n now space g c] t by simp
  then have spent: "callback_spent n (fold (space_step cd) ops' db')" using quiet by (rule callback_spent_run)
  have "space_inv db'" using space_step_inv [OF inv, of cd "SpTake n now space g"] t by simp
  then have "space_inv (fold (space_step cd) ops' db')" by (rule spaces.run_inv)
  with spent show "fst (take_callback_scoped n now2 space2 g2 (fold (space_step cd) ops' db')) = Inr None"
    by (auto simp: take_result callback_spent_def cb_live_def)
qed

text \<open>
  The unscoped take does not look at the generation: any live callback is handed out and used
  up, also when its space has moved on to a later generation.
\<close>

theorem unscoped_take_ignores_generation:
  assumes "db = fold (space_step cd) ops space_empty"
    and "callback_at n db = Some r" and "cb_consumed_at_ms r = None" and "now \<le> cb_expires_at_ms r"
  shows "fst (take_callback n now db) = Inr (Some (stored_callback.truncate r))"
proof -
  have inv: "space_inv db" unfolding assms(1) by (rule space_run_inv)
  show ?thesis
    using assms(2-4) by (simp add: take_callback_def take_result [OF inv] cb_live_def in_scope_def)
qed

section \<open>Runs for the witnesses\<close>

definition demo_space :: session_space where
  "demo_space = \<lparr>sps_space_id = ''s'', sps_thread_id = Some ''t'', sps_lifecycle = ''active'',
     sps_generation = 1, sps_channel_chat_id = 10, sps_channel_post_id = 20,
     sps_discussion_chat_id = None, sps_discussion_root_message_id = None,
     sps_status_message_id = None, sps_status_bot_instance = None, sps_owner_chat_id = None,
     sps_plan_mode = False, sps_observed_mode = None, sps_normal_model = None,
     sps_normal_effort = None, sps_plan_model = None, sps_plan_effort = None,
     sps_closed_at_ms = None, sps_created_at_ms = 1, sps_updated_at_ms = 1\<rparr>"

text \<open>A codec that reads every text as the one queue record the run stores.\<close>

definition demo_queue :: json where
  "demo_queue = jobj [(''space_id'', JStr ''s''), (''status'', JStr ''queued'')]"

definition demo_codec :: codec where
  "demo_codec = \<lparr>cd_ser = (\<lambda>_. Inr ''x''), cd_de = (\<lambda>_. Inr demo_queue), cd_sha256_hex = (\<lambda>s. s)\<rparr>"

definition demo_ops :: "space_op list" where
  "demo_ops = [SpUpsert demo_space,
     SpCreate \<lparr>cb_nonce = ''n'', cb_space_id = ''s'', cb_generation = 1, cb_action = ''go'', cb_expires_at_ms = 100\<rparr>,
     SpRecord ''queue'' ''q'' demo_queue 5, SpUpsert (demo_space\<lparr>sps_generation := 2\<rparr>)]"

definition demo_db :: space_db where
  "demo_db = fold (space_step demo_codec) demo_ops space_empty"

definition demo_row :: callback_row where
  "demo_row = \<lparr>cb_nonce = ''n'', cb_space_id = ''s'', cb_generation = 1, cb_action = ''go'',
     cb_expires_at_ms = 100, cb_consumed_at_ms = None, cb_surface = ''workflow''\<rparr>"

lemma demo_db_facts:
  "get_session_space ''s'' demo_db = Some (demo_space\<lparr>sps_generation := 2\<rparr>)"
  "callback_at ''n'' demo_db = Some demo_row"
  by code_simp+


theorem closed_space_is_final_witness:
  "\<exists>r. get_session_space ''s'' (fold (space_step demo_codec) [SpUpsert demo_space]
      (fold (space_step demo_codec) (demo_ops @ [SpClose ''s'' 2 50]) space_empty)) = Some r
    \<and> sps_lifecycle r = ''closed''"
proof -
  let ?db = "fold (space_step demo_codec) (demo_ops @ [SpClose ''s'' 2 50]) space_empty"
  have "case get_session_space ''s'' ?db of None \<Rightarrow> False | Some r \<Rightarrow> sps_lifecycle r = ''closed''" by code_simp
  then obtain r where "get_session_space ''s'' ?db = Some r" "sps_lifecycle r = ''closed''"
    by (auto split: option.splits)
  from closed_space_is_final [OF refl this refl, of "[SpUpsert demo_space]"] show ?thesis by blast
qed

theorem callback_taken_once_in_scope_witness:
  "take_callback_scoped ''n'' 60 (Some ''other'') None demo_db = (Inr None, demo_db)
   \<and> fst (take_callback_scoped ''n'' 70 None None (snd (take_callback_scoped ''n'' 60 None None demo_db))) = Inr None"
proof -
  note once = callback_taken_once_in_scope [OF demo_db_def demo_db_facts(2)]
  have "fst (take_callback_scoped ''n'' 60 None None demo_db) = Inr (Some (stored_callback.truncate demo_row))"
    by code_simp
  then have t: "take_callback_scoped ''n'' 60 None None demo_db = (Inr (Some (stored_callback.truncate demo_row)),
      snd (take_callback_scoped ''n'' 60 None None demo_db))" by (simp add: prod_eq_iff)
  have "\<not> in_scope (Some ''other'') None demo_row" by (simp add: in_scope_def demo_row_def)
  then have "take_callback_scoped ''n'' 60 (Some ''other'') None demo_db = (Inr None, demo_db)"
    using once [where now = 60 and space = "Some ''other''" and g = None] by blast
  moreover have "fst (take_callback_scoped ''n'' 70 None None (fold (space_step demo_codec) []
      (snd (take_callback_scoped ''n'' 60 None None demo_db)))) = Inr None"
    using once [where now = 60 and space = None and g = None] t by (metis list.pred_inject(1))
  ultimately show ?thesis by simp
qed

theorem unscoped_take_ignores_generation_witness:
  "fst (take_callback ''n'' 60 demo_db) = Inr (Some (stored_callback.truncate demo_row))
   \<and> cb_generation demo_row = 1 \<and> map_option sps_generation (get_session_space ''s'' demo_db) = Some 2"
  using unscoped_take_ignores_generation [OF demo_db_def demo_db_facts(2), of 60] demo_db_facts(1)
  by (simp add: demo_row_def)

end
