(* ===== verification/RecordStore.thy ===== *)
theory RecordStore
  imports Domain Sql
begin

text \<open>
  The remaining tables of \<open>rust/crates/storage-sqlite/src/lib.rs\<close>: prompt intents, pending
  questions, plan publications, thread projections and the fingerprints of rendered messages.
\<close>

section \<open>Tables\<close>

record intent_row =
  ir_intent_id :: string
  ir_client_message_id :: string
  ir_state :: string
  ir_payload_json :: string
  ir_created_at_ms :: i64
  ir_updated_at_ms :: i64

record question_row =
  qr_request_key :: string
  qr_generation :: i64
  qr_status :: string
  qr_payload_json :: string
  qr_response_json :: "string option"
  qr_created_at_ms :: i64
  qr_updated_at_ms :: i64

record plan_row =
  pr_space_id :: string
  pr_generation :: i64
  pr_item_id :: string
  pr_revision_key :: string
  pr_status :: string
  pr_payload_json :: string
  pr_updated_at_ms :: i64

record projection_row =
  jr_thread_id :: string
  jr_generation :: i64
  jr_projection_json :: string
  jr_updated_at_ms :: i64

record fingerprint_row =
  fr_bot_instance_id :: string
  fr_chat_id :: i64
  fr_message_id :: i64
  fr_semantic_key :: string
  fr_fingerprint :: string
  fr_updated_at_ms :: i64

record record_db =
  rd_intents :: "intent_row list"
  rd_questions :: "question_row list"
  rd_plans :: "plan_row list"
  rd_projections :: "projection_row list"
  rd_fingerprints :: "fingerprint_row list"

record record_codec =
  rc_intent :: "prompt_intent serializer"
  rc_read_intent :: "prompt_intent deserializer"
  rc_question :: "question_request serializer"
  rc_plan :: "plan_publication serializer"
  rc_json :: "json serializer"
  rc_read_json :: "json deserializer"

section \<open>Prompt intents\<close>

text \<open>\<open>format!("{:?}", state)\<close>\<close>

definition prompt_intent_state_debug :: "prompt_intent_state \<Rightarrow> string" where
  "prompt_intent_state_debug s = (case s of
     PiReceived \<Rightarrow> ''Received'' | PiAwaitingChoice \<Rightarrow> ''AwaitingChoice'' | PiQueued \<Rightarrow> ''Queued''
   | PiSubmitting \<Rightarrow> ''Submitting'' | PiStarted \<Rightarrow> ''Started'' | PiSteered \<Rightarrow> ''Steered''
   | PiCompleted \<Rightarrow> ''Completed'' | PiFailed \<Rightarrow> ''Failed'' | PiUncertain \<Rightarrow> ''Uncertain''
   | PiCancelled \<Rightarrow> ''Cancelled'')"

definition plan_publication_state_debug :: "plan_publication_state \<Rightarrow> string" where
  "plan_publication_state_debug s = (case s of
     PpPublished \<Rightarrow> ''Published'' | PpExecuting \<Rightarrow> ''Executing'' | PpRevising \<Rightarrow> ''Revising''
   | PpRevisionStarted \<Rightarrow> ''RevisionStarted'' | PpExecuted \<Rightarrow> ''Executed'' | PpFailed \<Rightarrow> ''Failed''
   | PpDismissed \<Rightarrow> ''Dismissed'' | PpSuperseded \<Rightarrow> ''Superseded'')"

text \<open>A new row must not reuse the client message id of another intent.\<close>

definition upsert_prompt_intent ::
  "record_codec \<Rightarrow> prompt_intent \<Rightarrow> record_db \<Rightarrow> unit port_result \<times> record_db" where
  "upsert_prompt_intent cd i db = (case rc_intent cd i of
     Inl e \<Rightarrow> (Inl (Adapter e), db)
   | Inr payload \<Rightarrow>
       let state = to_ascii_lowercase (prompt_intent_state_debug (pin_state i));
           row = \<lparr>ir_intent_id = pin_intent_id i, ir_client_message_id = pin_client_message_id i,
             ir_state = state, ir_payload_json = payload, ir_created_at_ms = pin_created_at_ms i,
             ir_updated_at_ms = pin_updated_at_ms i\<rparr>;
           same = (\<lambda>r. ir_intent_id r = pin_intent_id i)
       in if \<not> exists_where same (rd_intents db)
             \<and> exists_where (\<lambda>r. ir_client_message_id r = pin_client_message_id i) (rd_intents db)
          then (Inl (sql_error (UniqueFailed ''rust_prompt_intents.client_message_id'')), db)
          else (Inr (), db\<lparr>rd_intents := upsert same row
            (\<lambda>r. r\<lparr>ir_state := state, ir_payload_json := payload, ir_updated_at_ms := pin_updated_at_ms i\<rparr>)
            (rd_intents db)\<rparr>))"

definition prompt_intent_by_client_message_id ::
  "record_codec \<Rightarrow> string \<Rightarrow> record_db \<Rightarrow> prompt_intent option port_result" where
  "prompt_intent_by_client_message_id cd cid db =
     (case first_where (\<lambda>r. ir_client_message_id r = cid) (rd_intents db) of
        None \<Rightarrow> Inr None
      | Some r \<Rightarrow> (case rc_read_intent cd (ir_payload_json r) of
          Inl e \<Rightarrow> Inl (Adapter e) | Inr i \<Rightarrow> Inr (Some i)))"

fun read_intents :: "record_codec \<Rightarrow> intent_row list \<Rightarrow> prompt_intent list port_result" where
  "read_intents cd [] = Inr []"
| "read_intents cd (r # rows) = (case rc_read_intent cd (ir_payload_json r) of
     Inl e \<Rightarrow> Inl (Adapter e)
   | Inr i \<Rightarrow> map_sum id (\<lambda>is. i # is) (read_intents cd rows))"

definition prompt_intents :: "record_codec \<Rightarrow> record_db \<Rightarrow> prompt_intent list port_result" where
  "prompt_intents cd db = read_intents cd
     (sort_key (\<lambda>r. (ir_updated_at_ms r, ir_intent_id r)) (rd_intents db))"

section \<open>Questions\<close>

definition upsert_question ::
  "record_codec \<Rightarrow> question_request \<Rightarrow> i64 \<Rightarrow> record_db \<Rightarrow> unit port_result \<times> record_db" where
  "upsert_question cd q now db = (case rc_question cd q of
     Inl e \<Rightarrow> (Inl (Adapter e), db)
   | Inr payload \<Rightarrow>
       if i64_max < int (qre_generation q)
       then (Inl (Adapter ''question generation exceeds SQLite range''), db)
       else
         let generation = int (qre_generation q);
             row = \<lparr>qr_request_key = qre_request_key q, qr_generation = generation,
               qr_status = ''pending'', qr_payload_json = payload, qr_response_json = None,
               qr_created_at_ms = now, qr_updated_at_ms = now\<rparr>
         in (Inr (), db\<lparr>rd_questions := upsert (\<lambda>r. qr_request_key r = qre_request_key q) row
              (\<lambda>r. r\<lparr>qr_generation := generation, qr_payload_json := payload, qr_updated_at_ms := now\<rparr>)
              (rd_questions db)\<rparr>))"

definition resolve_question ::
  "record_codec \<Rightarrow> string \<Rightarrow> json \<Rightarrow> i64 \<Rightarrow> record_db \<Rightarrow> unit port_result \<times> record_db" where
  "resolve_question cd key response resolved db = (case rc_json cd response of
     Inl e \<Rightarrow> (Inl (Adapter e), db)
   | Inr payload \<Rightarrow>
       let P = (\<lambda>r. qr_request_key r = key \<and> qr_status r = ''pending'');
           db1 = db\<lparr>rd_questions := update_where P (\<lambda>r. r\<lparr>qr_status := ''resolved'',
             qr_response_json := Some payload, qr_updated_at_ms := resolved\<rparr>) (rd_questions db)\<rparr>
       in if count_where P (rd_questions db) = 0
          then (Inl (Conflict ''question is missing or already resolved''), db1)
          else (Inr (), db1))"

section \<open>Plans\<close>

definition plan_key :: "plan_row \<Rightarrow> string \<times> i64 \<times> string \<times> string" where
  "plan_key r = (pr_space_id r, pr_generation r, pr_item_id r, pr_revision_key r)"

definition upsert_plan_publication ::
  "record_codec \<Rightarrow> plan_publication \<Rightarrow> record_db \<Rightarrow> unit port_result \<times> record_db" where
  "upsert_plan_publication cd p db = (case rc_plan cd p of
     Inl e \<Rightarrow> (Inl (Adapter e), db)
   | Inr payload \<Rightarrow>
       if i64_max < int (ppu_generation p)
       then (Inl (Adapter ''plan generation exceeds SQLite range''), db)
       else
         let status = to_ascii_lowercase (plan_publication_state_debug (ppu_status p));
             row = \<lparr>pr_space_id = ppu_space_id p, pr_generation = int (ppu_generation p),
               pr_item_id = ppu_item_id p, pr_revision_key = ppu_revision_key p, pr_status = status,
               pr_payload_json = payload, pr_updated_at_ms = ppu_updated_at_ms p\<rparr>
         in (Inr (), db\<lparr>rd_plans := upsert (\<lambda>r. plan_key r = plan_key row) row
              (\<lambda>r. r\<lparr>pr_status := status, pr_payload_json := payload,
                   pr_updated_at_ms := ppu_updated_at_ms p\<rparr>) (rd_plans db)\<rparr>))"

section \<open>Thread projections\<close>

definition upsert_thread_projection ::
  "record_codec \<Rightarrow> string \<Rightarrow> i64 \<Rightarrow> json \<Rightarrow> i64 \<Rightarrow> record_db \<Rightarrow> unit port_result \<times> record_db" where
  "upsert_thread_projection cd thread generation projection updated db =
     (if is_blank thread then (Inl (Adapter ''thread projection id cannot be empty''), db)
      else case rc_json cd projection of
        Inl e \<Rightarrow> (Inl (Adapter (''serialize thread projection: '' @ e)), db)
      | Inr payload \<Rightarrow>
          let row = \<lparr>jr_thread_id = thread, jr_generation = generation, jr_projection_json = payload,
                jr_updated_at_ms = updated\<rparr>
          in (Inr (), db\<lparr>rd_projections := upsert (\<lambda>r. jr_thread_id r = thread) row (\<lambda>_. row)
               (rd_projections db)\<rparr>))"

definition projection_of_row ::
  "record_codec \<Rightarrow> projection_row \<Rightarrow> (string \<times> i64 \<times> json \<times> i64) port_result" where
  "projection_of_row cd r = (case rc_read_json cd (jr_projection_json r) of
     Inl e \<Rightarrow> Inl (conversion_error ''0'' e)
   | Inr v \<Rightarrow> Inr (jr_thread_id r, jr_generation r, v, jr_updated_at_ms r))"

definition thread_projection ::
  "record_codec \<Rightarrow> string \<Rightarrow> record_db \<Rightarrow> (string \<times> i64 \<times> json \<times> i64) option port_result" where
  "thread_projection cd thread db =
     (case first_where (\<lambda>r. jr_thread_id r = thread) (rd_projections db) of
        None \<Rightarrow> Inr None
      | Some r \<Rightarrow> map_sum id Some (projection_of_row cd r))"

fun read_projections ::
  "record_codec \<Rightarrow> projection_row list \<Rightarrow> (string \<times> i64 \<times> json \<times> i64) list port_result" where
  "read_projections cd [] = Inr []"
| "read_projections cd (r # rows) = (case projection_of_row cd r of
     Inl e \<Rightarrow> Inl e
   | Inr p \<Rightarrow> map_sum id (\<lambda>ps. p # ps) (read_projections cd rows))"

definition thread_projections ::
  "record_codec \<Rightarrow> record_db \<Rightarrow> (string \<times> i64 \<times> json \<times> i64) list port_result" where
  "thread_projections cd db = read_projections cd
     (sort_key (\<lambda>r. (jr_updated_at_ms r, jr_thread_id r)) (rd_projections db))"

section \<open>Fingerprints of rendered messages\<close>

definition fingerprint_key :: "fingerprint_row \<Rightarrow> string \<times> i64 \<times> i64 \<times> string" where
  "fingerprint_key r = (fr_bot_instance_id r, fr_chat_id r, fr_message_id r, fr_semantic_key r)"

definition telegram_fingerprint ::
  "string \<Rightarrow> i64 \<Rightarrow> i64 \<Rightarrow> string \<Rightarrow> record_db \<Rightarrow> string option" where
  "telegram_fingerprint bot_id chat message key db = map_option fr_fingerprint
     (first_where (\<lambda>r. fingerprint_key r = (bot_id, chat, message, key)) (rd_fingerprints db))"

definition set_telegram_fingerprint ::
  "string \<Rightarrow> i64 \<Rightarrow> i64 \<Rightarrow> string \<Rightarrow> string \<Rightarrow> i64 \<Rightarrow> record_db \<Rightarrow> unit port_result \<times> record_db" where
  "set_telegram_fingerprint bot_id chat message key fingerprint updated db =
     (if is_blank bot_id \<or> is_blank key
      then (Inl (Adapter ''telegram fingerprint key cannot be empty''), db)
      else
        let row = \<lparr>fr_bot_instance_id = bot_id, fr_chat_id = chat, fr_message_id = message,
              fr_semantic_key = key, fr_fingerprint = fingerprint, fr_updated_at_ms = updated\<rparr>
        in (Inr (), db\<lparr>rd_fingerprints := upsert (\<lambda>r. fingerprint_key r = (bot_id, chat, message, key)) row
             (\<lambda>_. row) (rd_fingerprints db)\<rparr>))"

definition record_empty :: record_db where
  "record_empty = \<lparr>rd_intents = [], rd_questions = [], rd_plans = [], rd_projections = [],
     rd_fingerprints = []\<rparr>"

section \<open>Laws\<close>

lemma question_at_update:
  "first_where (\<lambda>r. qr_request_key r = k) (update_where (\<lambda>r. qr_request_key r = k' \<and> qr_status r = ''pending'')
      (\<lambda>r. r\<lparr>qr_status := s, qr_response_json := p, qr_updated_at_ms := t\<rparr>) rows)
   = map_option (\<lambda>r. if qr_request_key r = k' \<and> qr_status r = ''pending''
        then r\<lparr>qr_status := s, qr_response_json := p, qr_updated_at_ms := t\<rparr> else r)
     (first_where (\<lambda>r. qr_request_key r = k) rows)"
  by (rule first_where_update) simp

section \<open>Operations that a question lives through\<close>

datatype question_op =
    QUpsert question_request i64
  | QResolve string json i64

fun question_step :: "record_codec \<Rightarrow> question_op \<Rightarrow> record_db \<Rightarrow> record_db" where
  "question_step cd (QUpsert q now) db = snd (upsert_question cd q now db)"
| "question_step cd (QResolve key response t) db = snd (resolve_question cd key response t db)"

definition question_resolved :: "string \<Rightarrow> record_db \<Rightarrow> bool" where
  "question_resolved k db \<longleftrightarrow> list_all (\<lambda>r. qr_request_key r = k \<longrightarrow> qr_status r \<noteq> ''pending'') (rd_questions db)
     \<and> exists_where (\<lambda>r. qr_request_key r = k) (rd_questions db)"

end
