(* ===== verification/DomainStore.thy ===== *)
theory DomainStore
  imports Domain Sql
begin

text \<open>
  The business records of \<open>rust/crates/storage-sqlite/src/lib.rs\<close>: the session, approval, artifact
  and event ports, each writing a record and its domain event in one transaction, and the tables
  of prompt intents, questions, plans, thread projections and message fingerprints.
\<close>

section \<open>Tables\<close>

record session_row =
  sr_id :: string
  sr_title :: string
  sr_status :: string
  sr_created_at_ms :: i64
  sr_updated_at_ms :: i64

record approval_row =
  ar_id :: string
  ar_session_id :: string
  ar_action_json :: string
  ar_decision :: string
  ar_requested_at_ms :: i64
  ar_decided_at_ms :: "i64 option"

record artifact_row =
  tr_id :: string
  tr_session_id :: string
  tr_path :: string
  tr_sha256 :: string
  tr_bytes :: i64
  tr_created_at_ms :: i64

record event_row =
  er_id :: string
  er_event_type :: string
  er_payload_json :: string
  er_occurred_at_ms :: i64

record domain_db =
  dd_sessions :: "session_row list"
  dd_approvals :: "approval_row list"
  dd_artifacts :: "artifact_row list"
  dd_events :: "event_row list"

definition domain_empty :: domain_db where
  "domain_empty = \<lparr>dd_sessions = [], dd_approvals = [], dd_artifacts = [], dd_events = []\<rparr>"

text \<open>The derived serializers of the domain types.\<close>

record domain_codec =
  dc_action :: "approval_action serializer"
  dc_read_action :: "approval_action deserializer"
  dc_event :: "domain_event_kind serializer"

section \<open>Reading rows\<close>

text \<open>\<open>DomainError\<close>'s \<open>Display\<close> for an identifier, as \<open>to_from_sql_error\<close> prints it.\<close>

definition blank_id_error :: "string \<Rightarrow> port_error" where
  "blank_id_error name = conversion_error ''0'' (name @ '' cannot be empty'')"

definition parse_status :: "string \<Rightarrow> string + session_status" where
  "parse_status s =
     (if s = ''active'' then Inr Active else if s = ''paused'' then Inr Paused
      else if s = ''closed'' then Inr Closed else Inl (''unknown session status: '' @ s))"

definition parse_decision :: "string \<Rightarrow> string + approval_decision" where
  "parse_decision s =
     (if s = ''pending'' then Inr Pending else if s = ''approved'' then Inr Approved
      else if s = ''rejected'' then Inr Rejected else if s = ''expired'' then Inr Expired
      else Inl (''unknown approval decision: '' @ s))"

definition session_of_row :: "session_row \<Rightarrow> session port_result" where
  "session_of_row r = (case session_id_new (sr_id r) of
     Inl _ \<Rightarrow> Inl (blank_id_error ''SessionId'')
   | Inr i \<Rightarrow> (case parse_status (sr_status r) of
       Inl e \<Rightarrow> Inl (conversion_error ''0'' e)
     | Inr st \<Rightarrow> Inr \<lparr>ses_id = i, ses_title = sr_title r, ses_status = st,
         ses_created_at_ms = sr_created_at_ms r, ses_updated_at_ms = sr_updated_at_ms r\<rparr>))"

definition approval_of_row :: "domain_codec \<Rightarrow> approval_row \<Rightarrow> approval_request port_result" where
  "approval_of_row cd r = (case dc_read_action cd (ar_action_json r) of
     Inl e \<Rightarrow> Inl (conversion_error ''0'' e)
   | Inr action \<Rightarrow> (case approval_id_new (ar_id r) of
       Inl _ \<Rightarrow> Inl (blank_id_error ''ApprovalId'')
     | Inr i \<Rightarrow> (case session_id_new (ar_session_id r) of
         Inl _ \<Rightarrow> Inl (blank_id_error ''SessionId'')
       | Inr sid \<Rightarrow> (case parse_decision (ar_decision r) of
           Inl e \<Rightarrow> Inl (conversion_error ''0'' e)
         | Inr d \<Rightarrow> Inr \<lparr>apr_id = i, apr_session_id = sid, apr_action = action, apr_decision = d,
             apr_requested_at_ms = ar_requested_at_ms r, apr_decided_at_ms = ar_decided_at_ms r\<rparr>))))"

definition artifact_of_row :: "artifact_row \<Rightarrow> artifact port_result" where
  "artifact_of_row r = (case artifact_id_new (tr_id r) of
     Inl _ \<Rightarrow> Inl (blank_id_error ''ArtifactId'')
   | Inr i \<Rightarrow> (case session_id_new (tr_session_id r) of
       Inl _ \<Rightarrow> Inl (blank_id_error ''SessionId'')
     | Inr sid \<Rightarrow>
         if tr_bytes r < 0
         then Inl (conversion_error ''0'' ''out of range integral type conversion attempted'')
         else Inr \<lparr>art_id = i, art_session_id = sid, art_path = tr_path r, art_sha256 = tr_sha256 r,
           art_bytes = nat (tr_bytes r), art_created_at_ms = tr_created_at_ms r\<rparr>))"

section \<open>Ports\<close>

definition append_event :: "domain_codec \<Rightarrow> domain_event \<Rightarrow> event_row list \<Rightarrow> event_row list port_result" where
  "append_event cd e events = (case dc_event cd (evt_kind e) of
     Inl m \<Rightarrow> Inl (Adapter (''serialize event: '' @ m))
   | Inr payload \<Rightarrow>
       if exists_where (\<lambda>r. er_id r = event_id_str (evt_id e)) events
       then Inl (sql_error (UniqueFailed ''domain_events.id''))
       else Inr (events @ [\<lparr>er_id = event_id_str (evt_id e), er_event_type = event_type (evt_kind e),
         er_payload_json = payload, er_occurred_at_ms = evt_occurred_at_ms e\<rparr>]))"

text \<open>The end of each transaction: append the event and commit, or leave the tables as they were.\<close>

definition commit_with_event ::
  "domain_codec \<Rightarrow> domain_event \<Rightarrow> domain_db \<Rightarrow> domain_db \<Rightarrow> unit port_result \<times> domain_db" where
  "commit_with_event cd e db db1 = (case append_event cd e (dd_events db) of
     Inl x \<Rightarrow> (Inl x, db)
   | Inr events \<Rightarrow> (Inr (), db1\<lparr>dd_events := events\<rparr>))"

definition insert_session ::
  "domain_codec \<Rightarrow> session \<Rightarrow> domain_event \<Rightarrow> domain_db \<Rightarrow> unit port_result \<times> domain_db" where
  "insert_session cd s e db =
     (let row = \<lparr>sr_id = session_id_str (ses_id s), sr_title = ses_title s,
            sr_status = session_status_str (ses_status s), sr_created_at_ms = ses_created_at_ms s,
            sr_updated_at_ms = ses_updated_at_ms s\<rparr>
      in if exists_where (\<lambda>r. sr_id r = sr_id row) (dd_sessions db)
         then (Inl (sql_error (UniqueFailed ''sessions.id'')), db)
         else commit_with_event cd e db (db\<lparr>dd_sessions := dd_sessions db @ [row]\<rparr>))"

definition get_session :: "session_id \<Rightarrow> domain_db \<Rightarrow> session option port_result" where
  "get_session i db = (case first_where (\<lambda>r. sr_id r = session_id_str i) (dd_sessions db) of
     None \<Rightarrow> Inr None
   | Some r \<Rightarrow> map_sum id Some (session_of_row r))"

definition session_exists :: "string \<Rightarrow> domain_db \<Rightarrow> bool" where
  "session_exists sid db = exists_where (\<lambda>r. sr_id r = sid) (dd_sessions db)"

definition insert_approval ::
  "domain_codec \<Rightarrow> approval_request \<Rightarrow> domain_event \<Rightarrow> domain_db \<Rightarrow> unit port_result \<times> domain_db" where
  "insert_approval cd a e db = (case dc_action cd (apr_action a) of
     Inl m \<Rightarrow> (Inl (Adapter (''serialize approval action: '' @ m)), db)
   | Inr action \<Rightarrow>
       let row = \<lparr>ar_id = approval_id_str (apr_id a), ar_session_id = session_id_str (apr_session_id a),
             ar_action_json = action, ar_decision = approval_decision_str (apr_decision a),
             ar_requested_at_ms = apr_requested_at_ms a, ar_decided_at_ms = apr_decided_at_ms a\<rparr>
       in if exists_where (\<lambda>r. ar_id r = ar_id row) (dd_approvals db)
          then (Inl (sql_error (UniqueFailed ''approvals.id'')), db)
          else if \<not> session_exists (ar_session_id row) db then (Inl (sql_error ForeignKeyFailed), db)
          else commit_with_event cd e db (db\<lparr>dd_approvals := dd_approvals db @ [row]\<rparr>))"

definition get_approval ::
  "domain_codec \<Rightarrow> approval_id \<Rightarrow> domain_db \<Rightarrow> approval_request option port_result" where
  "get_approval cd i db = (case first_where (\<lambda>r. ar_id r = approval_id_str i) (dd_approvals db) of
     None \<Rightarrow> Inr None
   | Some r \<Rightarrow> map_sum id Some (approval_of_row cd r))"

definition store_decide_approval ::
  "domain_codec \<Rightarrow> approval_request \<Rightarrow> domain_event \<Rightarrow> domain_db \<Rightarrow> unit port_result \<times> domain_db" where
  "store_decide_approval cd a e db =
     (let P = (\<lambda>r. ar_id r = approval_id_str (apr_id a) \<and> ar_decision r = ''pending'')
      in if count_where P (dd_approvals db) \<noteq> 1
         then (Inl (Conflict (''approval '' @ approval_id_str (apr_id a) @ '' is no longer pending'')), db)
         else commit_with_event cd e db (db\<lparr>dd_approvals := update_where P
           (\<lambda>r. r\<lparr>ar_decision := approval_decision_str (apr_decision a),
                 ar_decided_at_ms := apr_decided_at_ms a\<rparr>) (dd_approvals db)\<rparr>))"

definition insert_artifact ::
  "domain_codec \<Rightarrow> artifact \<Rightarrow> domain_event \<Rightarrow> domain_db \<Rightarrow> unit port_result \<times> domain_db" where
  "insert_artifact cd a e db =
     (if i64_max < int (art_bytes a)
      then (Inl (Adapter ''artifact byte count exceeds SQLite INTEGER''), db)
      else
        let row = \<lparr>tr_id = artifact_id_str (art_id a), tr_session_id = session_id_str (art_session_id a),
              tr_path = art_path a, tr_sha256 = art_sha256 a, tr_bytes = int (art_bytes a),
              tr_created_at_ms = art_created_at_ms a\<rparr>
        in if exists_where (\<lambda>r. tr_id r = tr_id row) (dd_artifacts db)
           then (Inl (sql_error (UniqueFailed ''artifacts.id'')), db)
           else if \<not> session_exists (tr_session_id row) db then (Inl (sql_error ForeignKeyFailed), db)
           else commit_with_event cd e db (db\<lparr>dd_artifacts := dd_artifacts db @ [row]\<rparr>))"

fun read_artifacts :: "artifact_row list \<Rightarrow> artifact list port_result" where
  "read_artifacts [] = Inr []"
| "read_artifacts (r # rows) = (case artifact_of_row r of
     Inl e \<Rightarrow> Inl e
   | Inr a \<Rightarrow> map_sum id (\<lambda>as. a # as) (read_artifacts rows))"

definition list_artifacts :: "session_id \<Rightarrow> domain_db \<Rightarrow> artifact list port_result" where
  "list_artifacts sid db = read_artifacts (sort_key (\<lambda>r. (tr_created_at_ms r, tr_id r))
     (filter (\<lambda>r. tr_session_id r = session_id_str sid) (dd_artifacts db)))"

definition artifact_paths :: "domain_db \<Rightarrow> string list" where
  "artifact_paths db = map tr_path (sort_key (\<lambda>r. (tr_created_at_ms r, tr_id r)) (dd_artifacts db))"

definition append_domain_event ::
  "domain_codec \<Rightarrow> domain_event \<Rightarrow> domain_db \<Rightarrow> unit port_result \<times> domain_db" where
  "append_domain_event cd e db = commit_with_event cd e db db"

section \<open>One operation of any kind\<close>

datatype domain_op =
    DoSession session domain_event
  | DoApproval approval_request domain_event
  | DoDecide approval_request domain_event
  | DoArtifact artifact domain_event
  | DoEvent domain_event

fun domain_exec :: "domain_codec \<Rightarrow> domain_op \<Rightarrow> domain_db \<Rightarrow> unit port_result \<times> domain_db" where
  "domain_exec cd (DoSession s e) db = insert_session cd s e db"
| "domain_exec cd (DoApproval a e) db = insert_approval cd a e db"
| "domain_exec cd (DoDecide a e) db = store_decide_approval cd a e db"
| "domain_exec cd (DoArtifact a e) db = insert_artifact cd a e db"
| "domain_exec cd (DoEvent e) db = append_domain_event cd e db"

fun domain_event_of :: "domain_op \<Rightarrow> domain_event" where
  "domain_event_of (DoSession s e) = e"
| "domain_event_of (DoApproval a e) = e"
| "domain_event_of (DoDecide a e) = e"
| "domain_event_of (DoArtifact a e) = e"
| "domain_event_of (DoEvent e) = e"

definition domain_step :: "domain_codec \<Rightarrow> domain_op \<Rightarrow> domain_db \<Rightarrow> domain_db" where
  "domain_step cd op db = snd (domain_exec cd op db)"

end
