(* ===== verification/Engine.thy ===== *)
theory Engine
  imports DomainStore Contracts
begin

text \<open>
  The application service \<open>Engine\<close> of \<open>rust/crates/engine/src/lib.rs\<close> on the SQLite ports. What a
  call reads from its other ports is in the record \<open>engine_env\<close>: the clock, the identifiers the
  generators hand out, the policy, and the scheduler and approval gateway with their state \<open>'x\<close>.
\<close>

section \<open>Ports\<close>

datatype engine_error =
    EngineDomain domain_error
  | EnginePort port_error
  | MissingSession string
  | MissingApproval string

datatype approval_availability = GatewayAvailable | GatewayUnavailable

record 'x engine_env =
  en_codec :: domain_codec
  en_now_ms :: timestamp_ms
  en_session_id :: session_id
  en_approval_id :: approval_id
  en_event_id :: event_id
  en_authorize :: "session \<Rightarrow> approval_action \<Rightarrow> unit port_result"
  en_enqueue :: "scheduled_command \<Rightarrow> 'x \<Rightarrow> unit port_result \<times> 'x"
  en_availability :: approval_availability
  en_publish :: "approval_request \<Rightarrow> 'x \<Rightarrow> string port_result \<times> 'x"

record 'x world =
  wo_db :: domain_db
  wo_ext :: 'x

section \<open>Operations\<close>

definition engine_event :: "'x engine_env \<Rightarrow> timestamp_ms \<Rightarrow> domain_event_kind \<Rightarrow> domain_event" where
  "engine_event env t kind = \<lparr>evt_id = en_event_id env, evt_occurred_at_ms = t, evt_kind = kind\<rparr>"

text \<open>A port call whose error the service passes on.\<close>

definition run_port :: "unit port_result \<times> domain_db \<Rightarrow> 'a \<Rightarrow> 'x world \<Rightarrow> (engine_error + 'a) \<times> 'x world" where
  "run_port r v w = (case r of
     (Inl e, db) \<Rightarrow> (Inl (EnginePort e), w\<lparr>wo_db := db\<rparr>)
   | (Inr _, db) \<Rightarrow> (Inr v, w\<lparr>wo_db := db\<rparr>))"

definition required_session :: "session_id \<Rightarrow> domain_db \<Rightarrow> engine_error + session" where
  "required_session sid db = (case get_session sid db of
     Inl e \<Rightarrow> Inl (EnginePort e)
   | Inr None \<Rightarrow> Inl (MissingSession (session_id_str sid))
   | Inr (Some s) \<Rightarrow> Inr s)"

definition create_session ::
  "'x engine_env \<Rightarrow> string \<Rightarrow> 'x world \<Rightarrow> (engine_error + session) \<times> 'x world" where
  "create_session env title w = (case session_new (en_session_id env) title (en_now_ms env) of
     Inl e \<Rightarrow> (Inl (EngineDomain e), w)
   | Inr s \<Rightarrow> run_port (insert_session (en_codec env) s
       (engine_event env (en_now_ms env) (SessionCreated s)) (wo_db w)) s w)"

definition request_approval ::
  "'x engine_env \<Rightarrow> session_id \<Rightarrow> approval_action \<Rightarrow> 'x world \<Rightarrow>
    (engine_error + approval_request) \<times> 'x world" where
  "request_approval env sid action w = (case required_session sid (wo_db w) of
     Inl e \<Rightarrow> (Inl e, w)
   | Inr s \<Rightarrow> (case en_authorize env s action of
       Inl e \<Rightarrow> (Inl (EnginePort e), w)
     | Inr _ \<Rightarrow>
         let a = approval_pending (en_approval_id env) sid action (en_now_ms env)
         in run_port (insert_approval (en_codec env) a
              (engine_event env (en_now_ms env) (ApprovalRequested a)) (wo_db w)) a w))"

definition request_high_risk_approval ::
  "'x engine_env \<Rightarrow> session_id \<Rightarrow> approval_action \<Rightarrow> 'x world \<Rightarrow>
    (engine_error + approval_request) \<times> 'x world" where
  "request_high_risk_approval env sid action w =
     (if en_availability env \<noteq> GatewayAvailable
      then (Inl (EnginePort (Denied ''high-risk approval gateway is unavailable'')), w)
      else case request_approval env sid action w of
        (Inl e, w1) \<Rightarrow> (Inl e, w1)
      | (Inr a, w1) \<Rightarrow> (case en_publish env a (wo_ext w1) of
          (Inl e, x) \<Rightarrow> (Inl (EnginePort e), w1\<lparr>wo_ext := x\<rparr>)
        | (Inr _, x) \<Rightarrow> (Inr a, w1\<lparr>wo_ext := x\<rparr>)))"

definition decide_approval ::
  "'x engine_env \<Rightarrow> approval_id \<Rightarrow> approval_decision \<Rightarrow> 'x world \<Rightarrow>
    (engine_error + approval_request) \<times> 'x world" where
  "decide_approval env i decision w = (case get_approval (en_codec env) i (wo_db w) of
     Inl e \<Rightarrow> (Inl (EnginePort e), w)
   | Inr None \<Rightarrow> (Inl (MissingApproval (approval_id_str i)), w)
   | Inr (Some a) \<Rightarrow> (case approval_decide decision (en_now_ms env) a of
       Inl e \<Rightarrow> (Inl (EngineDomain e), w)
     | Inr b \<Rightarrow> run_port (store_decide_approval (en_codec env) b
         (engine_event env (en_now_ms env) (ApprovalDecided b)) (wo_db w)) b w))"

definition schedule ::
  "'x engine_env \<Rightarrow> scheduled_command \<Rightarrow> 'x world \<Rightarrow> (engine_error + unit) \<times> 'x world" where
  "schedule env c w = (case required_session (cmd_session_id c) (wo_db w) of
     Inl e \<Rightarrow> (Inl e, w)
   | Inr s \<Rightarrow> (case en_authorize env s (SendPrompt (cmd_prompt c)) of
       Inl e \<Rightarrow> (Inl (EnginePort e), w)
     | Inr _ \<Rightarrow> (case en_enqueue env c (wo_ext w) of
         (Inl e, x) \<Rightarrow> (Inl (EnginePort e), w\<lparr>wo_ext := x\<rparr>)
       | (Inr _, x) \<Rightarrow> (Inr (), w\<lparr>wo_ext := x\<rparr>))))"

definition record_artifact ::
  "'x engine_env \<Rightarrow> artifact \<Rightarrow> 'x world \<Rightarrow> (engine_error + unit) \<times> 'x world" where
  "record_artifact env a w = (case required_session (art_session_id a) (wo_db w) of
     Inl e \<Rightarrow> (Inl e, w)
   | Inr _ \<Rightarrow> run_port (insert_artifact (en_codec env) a
       (engine_event env (en_now_ms env) (ArtifactRecorded a)) (wo_db w)) () w)"

end
