(* ===== verification/EngineProps.thy ===== *)
theory EngineProps
  imports Engine
begin

text \<open>
  The business records through the ports: a record and its event are written together or not at
  all, what was written reads back, an approval keeps its first decision, and an approval that
  needs the gateway is denied without it.
\<close>

section \<open>The store\<close>

definition event_row_of :: "string \<Rightarrow> domain_event \<Rightarrow> event_row" where
  "event_row_of payload e = \<lparr>er_id = event_id_str (evt_id e), er_event_type = event_type (evt_kind e),
     er_payload_json = payload, er_occurred_at_ms = evt_occurred_at_ms e\<rparr>"

lemma commit_cases:
  obtains (fails) x where "commit_with_event cd e db db1 = (Inl x, db)"
  | (commits) payload where "dc_event cd (evt_kind e) = Inr payload"
      "commit_with_event cd e db db1 = (Inr (), db1\<lparr>dd_events := dd_events db @ [event_row_of payload e]\<rparr>)"
  by (cases "append_event cd e (dd_events db)")
    (auto simp: commit_with_event_def append_event_def event_row_of_def split: sum.splits if_splits)

definition domain_inv :: "domain_db \<Rightarrow> bool" where
  "domain_inv db \<longleftrightarrow> distinct (map sr_id (dd_sessions db)) \<and> distinct (map ar_id (dd_approvals db))
     \<and> distinct (map tr_id (dd_artifacts db)) \<and> distinct (map er_id (dd_events db))"

lemma commit_inv:
  assumes "domain_inv db1" and "dd_events db1 = dd_events db" and "domain_inv db"
  shows "domain_inv (snd (commit_with_event cd e db db1))"
  using assms by (auto simp: commit_with_event_def append_event_def domain_inv_def exists_where_def
      list_ex_iff split: sum.split)

lemma domain_inv_add:
  "domain_inv db \<Longrightarrow> \<not> exists_where (\<lambda>r. sr_id r = sr_id srow) (dd_sessions db) \<Longrightarrow>
     domain_inv (db\<lparr>dd_sessions := dd_sessions db @ [srow]\<rparr>)"
  "domain_inv db \<Longrightarrow> \<not> exists_where (\<lambda>r. ar_id r = ar_id arow) (dd_approvals db) \<Longrightarrow>
     domain_inv (db\<lparr>dd_approvals := dd_approvals db @ [arow]\<rparr>)"
  "domain_inv db \<Longrightarrow> \<not> exists_where (\<lambda>r. tr_id r = tr_id trow) (dd_artifacts db) \<Longrightarrow>
     domain_inv (db\<lparr>dd_artifacts := dd_artifacts db @ [trow]\<rparr>)"
  "domain_inv db \<Longrightarrow> domain_inv (db\<lparr>dd_approvals := update_where P
     (\<lambda>r. r\<lparr>ar_decision := d, ar_decided_at_ms := t\<rparr>) (dd_approvals db)\<rparr>)"
  by (auto simp: domain_inv_def exists_where_def list_ex_iff update_where_keys)

lemma domain_step_inv: "domain_inv db \<Longrightarrow> domain_inv (domain_step cd op db)"
  by (cases op) (auto simp: domain_step_def insert_session_def insert_approval_def store_decide_approval_def
      insert_artifact_def append_domain_event_def Let_def
      intro!: commit_inv domain_inv_add split: sum.split)

interpretation domain: machine "domain_step cd" domain_inv for cd
  by unfold_locales (rule domain_step_inv)

lemma domain_run_inv: "domain_inv (fold (domain_step cd) ops domain_empty)"
  by (rule domain.run_inv) (simp add: domain_inv_def domain_empty_def)

definition approval_at :: "string \<Rightarrow> domain_db \<Rightarrow> approval_row option" where
  "approval_at i db = first_where (\<lambda>r. ar_id r = i) (dd_approvals db)"

text \<open>The row of an approval is decided once: then its decision and its time stay.\<close>

lemma approval_at_events [simp]:
  "approval_at i (db\<lparr>dd_events := es\<rparr>) = approval_at i db"
  "approval_at i (db\<lparr>dd_sessions := ss\<rparr>) = approval_at i db"
  "approval_at i (db\<lparr>dd_artifacts := rs\<rparr>) = approval_at i db"
  by (simp_all add: approval_at_def)

lemma approval_at_update:
  assumes "\<And>r. P r \<Longrightarrow> ar_id (f r) = ar_id r"
  shows "approval_at i (db\<lparr>dd_approvals := update_where P f (dd_approvals db)\<rparr>)
    = map_option (\<lambda>r. if P r then f r else r) (approval_at i db)"
  unfolding approval_at_def by (simp, rule first_where_update, rule assms)

lemma commit_approval:
  "approval_at i db1 = Some r \<Longrightarrow> approval_at i db = Some r \<Longrightarrow>
     approval_at i (snd (commit_with_event cd e db db1)) = Some r"
  by (cases rule: commit_cases [of cd e db db1]) simp_all

lemma decided_kept:
  assumes "approval_at i db = Some r" and "ar_decision r \<noteq> ''pending''"
  shows "approval_at i (domain_step cd op db) = Some r"
proof (cases op)
  case (DoApproval a e)
  have "approval_at i (db\<lparr>dd_approvals := dd_approvals db @ [row]\<rparr>) = Some r" for row
    using assms(1) by (simp add: approval_at_def first_where_append)
  with DoApproval assms(1) show ?thesis
    by (auto simp: domain_step_def insert_approval_def Let_def intro!: commit_approval split: sum.split)
next
  case (DoDecide a e)
  have "approval_at i (db\<lparr>dd_approvals := update_where (\<lambda>r. ar_id r = x \<and> ar_decision r = ''pending'')
      (\<lambda>r. r\<lparr>ar_decision := d, ar_decided_at_ms := t\<rparr>) (dd_approvals db)\<rparr>) = Some r" for x d t
    using assms by (subst approval_at_update) simp_all
  with DoDecide assms(1) show ?thesis
    by (auto simp: domain_step_def store_decide_approval_def Let_def intro!: commit_approval)
qed (use assms in \<open>auto simp: domain_step_def insert_session_def insert_artifact_def append_domain_event_def Let_def
    intro!: commit_approval\<close>)

lemma decided_run:
  "approval_at i db = Some r \<Longrightarrow> ar_decision r \<noteq> ''pending'' \<Longrightarrow>
     approval_at i (fold (domain_step cd) ops db) = Some r"
  by (induction ops arbitrary: db) (auto intro: decided_kept)

definition approval_decided :: "string \<Rightarrow> domain_db \<Rightarrow> bool" where
  "approval_decided i db \<longleftrightarrow> (\<exists>r. approval_at i db = Some r \<and> ar_decision r \<noteq> ''pending'')"

text \<open>A decision that goes through writes exactly its row.\<close>

lemma decide_at:
  assumes "domain_inv db" and "store_decide_approval cd a e db = (Inr (), db')"
  shows "\<exists>r. approval_at (approval_id_str (apr_id a)) db = Some r \<and> ar_decision r = ''pending''
    \<and> approval_at (approval_id_str (apr_id a)) db' = Some (r\<lparr>ar_decision := approval_decision_str (apr_decision a),
        ar_decided_at_ms := apr_decided_at_ms a\<rparr>)"
proof -
  let ?P = "\<lambda>r. ar_id r = approval_id_str (apr_id a) \<and> ar_decision r = ''pending''"
  let ?f = "\<lambda>r. r\<lparr>ar_decision := approval_decision_str (apr_decision a), ar_decided_at_ms := apr_decided_at_ms a\<rparr>"
  have dist: "distinct (map ar_id (dd_approvals db))" using assms(1) by (simp add: domain_inv_def)
  have one: "count_where ?P (dd_approvals db) = 1"
    and c: "commit_with_event cd e db (db\<lparr>dd_approvals := update_where ?P ?f (dd_approvals db)\<rparr>) = (Inr (), db')"
    using assms(2) by (auto simp: store_decide_approval_def Let_def split: if_splits)
  from one obtain r where r: "first_where ?P (dd_approvals db) = Some r"
    unfolding count_where_key [OF dist] by (auto split: option.splits)
  then have row: "approval_at (approval_id_str (apr_id a)) db = Some r" "ar_decision r = ''pending''"
    unfolding first_where_key_cases [OF dist] by (simp_all add: approval_at_def)
  have "approval_at (approval_id_str (apr_id a)) db' =
      approval_at (approval_id_str (apr_id a)) (db\<lparr>dd_approvals := update_where ?P ?f (dd_approvals db)\<rparr>)"
    using c by (cases rule: commit_cases [of cd e db "db\<lparr>dd_approvals := update_where ?P ?f (dd_approvals db)\<rparr>"]) auto
  also have "\<dots> = Some (?f r)"
    using row first_where_SomeD [OF r] by (subst approval_at_update) simp_all
  finally show ?thesis using row by blast
qed

interpretation approval_token: one_shot "domain_step cd" domain_inv
  "\<lambda>k. approval_decided (approval_id_str (apr_id (fst k)))"
  "\<lambda>k db. fst (store_decide_approval cd (fst k) (snd k) db) = Inr () \<and> apr_decision (fst k) \<noteq> Pending"
  "\<lambda>k db. snd (store_decide_approval cd (fst k) (snd k) db)" for cd
proof unfold_locales
  fix k :: "approval_request \<times> domain_event" and db :: domain_db and op
  assume inv: "domain_inv db"
  show "domain_inv (snd (store_decide_approval cd (fst k) (snd k) db))"
    using domain_step_inv [OF inv, of cd "DoDecide (fst k) (snd k)"] by (simp add: domain_step_def)
  show "approval_decided (approval_id_str (apr_id (fst k))) db \<Longrightarrow>
      approval_decided (approval_id_str (apr_id (fst k))) (domain_step cd op db)"
    by (auto simp: approval_decided_def dest: decided_kept)
  show "approval_decided (approval_id_str (apr_id (fst k))) (snd (store_decide_approval cd (fst k) (snd k) db))"
    if t: "fst (store_decide_approval cd (fst k) (snd k) db) = Inr () \<and> apr_decision (fst k) \<noteq> Pending"
  proof -
    from t have "store_decide_approval cd (fst k) (snd k) db
        = (Inr (), snd (store_decide_approval cd (fst k) (snd k) db))" by (simp add: prod_eq_iff)
    from decide_at [OF inv this] t show ?thesis
      by (cases "apr_decision (fst k)") (auto simp: approval_decided_def approval_decision_str_def)
  qed
  show "\<not> (fst (store_decide_approval cd (fst k) (snd k) db) = Inr () \<and> apr_decision (fst k) \<noteq> Pending)"
    if d: "approval_decided (approval_id_str (apr_id (fst k))) db"
  proof
    assume "fst (store_decide_approval cd (fst k) (snd k) db) = Inr () \<and> apr_decision (fst k) \<noteq> Pending"
    then have "store_decide_approval cd (fst k) (snd k) db
        = (Inr (), snd (store_decide_approval cd (fst k) (snd k) db))" by (simp add: prod_eq_iff)
    from decide_at [OF inv this] d show False by (auto simp: approval_decided_def)
  qed
qed

section \<open>Sessions\<close>

definition session_at :: "string \<Rightarrow> domain_db \<Rightarrow> session_row option" where
  "session_at i db = first_where (\<lambda>r. sr_id r = i) (dd_sessions db)"

lemma session_at_kept:
  "session_at i db = Some r \<Longrightarrow> session_at i (domain_step cd op db) = Some r"
proof -
  assume r: "session_at i db = Some r"
  have "session_at i (snd (commit_with_event cd e db db1)) = Some r"
    if "session_at i db1 = Some r" for e db1
    using that r by (cases rule: commit_cases [of cd e db db1]) (simp_all add: session_at_def)
  with r show ?thesis
    by (cases op) (auto simp: domain_step_def insert_session_def insert_approval_def
        store_decide_approval_def insert_artifact_def append_domain_event_def Let_def session_at_def
        first_where_append split: sum.split)
qed

lemma session_at_run:
  "session_at i db = Some r \<Longrightarrow> session_at i (fold (domain_step cd) ops db) = Some r"
  by (induction ops arbitrary: db) (auto intro: session_at_kept)

lemma parse_status_str [simp]: "parse_status (session_status_str st) = Inr st"
  by (cases st) (simp_all add: parse_status_def session_status_str_def)

lemma parse_decision_str [simp]: "parse_decision (approval_decision_str d) = Inr d"
  by (cases d) (simp_all add: parse_decision_def approval_decision_str_def)

lemma map_sum_Inr_Some: "map_sum id Some x = Inr (Some y) \<longleftrightarrow> x = Inr y"
  by (cases x) auto

lemma get_approval_Some:
  "get_approval cd i db = Inr (Some a) \<longleftrightarrow>
     (\<exists>r. approval_at (approval_id_str i) db = Some r \<and> approval_of_row cd r = Inr a)"
  by (simp add: get_approval_def approval_at_def map_sum_Inr_Some split: option.split)

lemma get_session_Some:
  "get_session i db = Inr (Some s) \<longleftrightarrow>
     (\<exists>r. session_at (session_id_str i) db = Some r \<and> session_of_row r = Inr s)"
  by (simp add: get_session_def session_at_def map_sum_Inr_Some split: option.split)

lemma session_of_written_row:
  assumes "\<not> is_blank (session_id_str (ses_id s))"
  shows "session_of_row \<lparr>sr_id = session_id_str (ses_id s), sr_title = ses_title s,
      sr_status = session_status_str (ses_status s), sr_created_at_ms = ses_created_at_ms s,
      sr_updated_at_ms = ses_updated_at_ms s\<rparr> = Inr s"
  using assms by (simp add: session_of_row_def session_id_new_def identifier_new_def)

section \<open>Properties\<close>

text \<open>
  A business record and its event are written together. Each of the five writes of the ports
  either reports success and has appended exactly its event to the event log, or reports an error
  and has changed no table at all.
\<close>

theorem record_and_event_together:
  "case domain_exec cd op db of
     (Inl _, db') \<Rightarrow> db' = db
   | (Inr _, db') \<Rightarrow> (\<exists>payload. dc_event cd (evt_kind (domain_event_of op)) = Inr payload
       \<and> dd_events db' = dd_events db @ [\<lparr>er_id = event_id_str (evt_id (domain_event_of op)),
           er_event_type = event_type (evt_kind (domain_event_of op)), er_payload_json = payload,
           er_occurred_at_ms = evt_occurred_at_ms (domain_event_of op)\<rparr>]
       \<and> length (dd_sessions db') = length (dd_sessions db) + (case op of DoSession _ _ \<Rightarrow> 1 | _ \<Rightarrow> 0)
       \<and> length (dd_approvals db') = length (dd_approvals db) + (case op of DoApproval _ _ \<Rightarrow> 1 | _ \<Rightarrow> 0)
       \<and> length (dd_artifacts db') = length (dd_artifacts db) + (case op of DoArtifact _ _ \<Rightarrow> 1 | _ \<Rightarrow> 0))"
  by (cases op)
    (simp_all add: insert_session_def insert_approval_def store_decide_approval_def insert_artifact_def
      append_domain_event_def Let_def commit_with_event_def append_event_def update_where_def
      split: sum.split)

text \<open>
  An approval keeps its first decision. Once the service recorded a decision, the approval
  reads back with that decision after any further writes, and every later attempt to decide it is
  refused by the domain rule and changes nothing.
\<close>

theorem approval_keeps_first_decision:
  assumes "wo_db w = fold (domain_step (en_codec env)) ops domain_empty"
    and "decide_approval env i d w = (Inr a, w')"
    and "wo_db w2 = fold (domain_step (en_codec env)) ops' (wo_db w')"
    and "en_codec env2 = en_codec env"
  shows "apr_decision a = d \<and> get_approval (en_codec env) i (wo_db w2) = Inr (Some a)
    \<and> decide_approval env2 i d2 w2 =
        (Inl (EngineDomain (if d2 = Pending then InvalidApprovalTransition else ApprovalAlreadyDecided)), w2)"
proof -
  let ?cd = "en_codec env"
  have inv: "domain_inv (wo_db w)" unfolding assms(1) by (rule domain_run_inv)
  obtain a0 where a0: "get_approval ?cd i (wo_db w) = Inr (Some a0)"
    and dec: "approval_decide d (en_now_ms env) a0 = Inr a"
    and st: "store_decide_approval ?cd a (engine_event env (en_now_ms env) (ApprovalDecided a)) (wo_db w)
      = (Inr (), wo_db w')"
    using assms(2) by (auto simp: decide_approval_def run_port_def split: sum.splits option.splits prod.splits)
  from a0 obtain r0 where r0: "approval_at (approval_id_str i) (wo_db w) = Some r0"
    and of: "approval_of_row ?cd r0 = Inr a0"
    by (auto simp: get_approval_Some)
  have id0: "ar_id r0 = approval_id_str i" using r0 by (auto simp: approval_at_def dest: first_where_SomeD)
  from dec have d: "d \<noteq> Pending" "apr_decision a = d"
    and a: "a = a0\<lparr>apr_decision := d, apr_decided_at_ms := Some (en_now_ms env)\<rparr>"
    by (auto simp: approval_decide_Inr)
  have ida: "approval_id_str (apr_id a) = approval_id_str i"
    using of id0 by (auto simp: a approval_of_row_def split: sum.splits)
  from decide_at [OF inv st] r0 ida
  have r1: "approval_at (approval_id_str i) (wo_db w') = Some (r0\<lparr>ar_decision := approval_decision_str d,
      ar_decided_at_ms := Some (en_now_ms env)\<rparr>)" (is "_ = Some ?r1")
    using d(2) by (auto simp: a)
  have np: "ar_decision ?r1 \<noteq> ''pending''" using d(1) by (cases d) (auto simp: approval_decision_str_def)
  from decided_run [OF r1 np, of ?cd ops']
  have r2: "approval_at (approval_id_str i) (wo_db w2) = Some ?r1" by (simp add: assms(3))
  have "approval_of_row ?cd ?r1 = Inr a"
    using of by (auto simp: approval_of_row_def a approval_id_new_def session_id_new_def identifier_new_def
        split: sum.splits if_splits)
  with r2 have g: "get_approval ?cd i (wo_db w2) = Inr (Some a)"
    by (simp add: get_approval_Some)
  moreover have "decide_approval env2 i d2 w2 =
      (Inl (EngineDomain (if d2 = Pending then InvalidApprovalTransition else ApprovalAlreadyDecided)), w2)"
    using g d by (simp add: decide_approval_def assms(4) approval_decide_def)
  ultimately show ?thesis using d(2) by simp
qed

text \<open>
  A created session is there to stay: after the service created it, whatever is written
  later, the store hands out the same session.
\<close>

theorem created_session_reads_back:
  assumes "create_session env title w = (Inr s, w')" and "\<not> is_blank (session_id_str (en_session_id env))"
    and "wo_db w2 = fold (domain_step cd) ops (wo_db w')"
  shows "get_session (ses_id s) (wo_db w2) = Inr (Some s) \<and> ses_status s = Active \<and> ses_title s = title"
proof -
  let ?row = "\<lparr>sr_id = session_id_str (ses_id s), sr_title = ses_title s,
      sr_status = session_status_str (ses_status s), sr_created_at_ms = ses_created_at_ms s,
      sr_updated_at_ms = ses_updated_at_ms s\<rparr>"
  obtain e where s: "session_new (en_session_id env) title (en_now_ms env) = Inr s"
    and ins: "insert_session (en_codec env) s e (wo_db w) = (Inr (), wo_db w')"
    using assms(1) by (auto simp: create_session_def run_port_def split: sum.splits prod.splits)
  from ins have "session_at (session_id_str (ses_id s)) (wo_db w') = Some ?row"
    by (cases rule: commit_cases [of "en_codec env" e "wo_db w" "wo_db w\<lparr>dd_sessions := dd_sessions (wo_db w) @ [?row]\<rparr>"])
      (auto simp: insert_session_def Let_def session_at_def first_where_append exists_where_first
        split: if_splits option.splits)
  from session_at_run [OF this, of cd ops] have "session_at (session_id_str (ses_id s)) (wo_db w2) = Some ?row"
    by (simp add: assms(3))
  moreover from s assms(2) have nb: "\<not> is_blank (session_id_str (ses_id s))" and "ses_status s = Active" "ses_title s = title"
    by (auto simp: session_new_def split: if_splits)
  moreover note session_of_written_row [OF nb]
  ultimately show ?thesis unfolding get_session_Some by blast
qed

text \<open>
  A high-risk approval is never granted by the absence of its gateway: without one the request
  is denied and nothing is written; with one, it succeeds only with a pending approval on record.
\<close>

theorem high_risk_needs_gateway:
  "(en_availability env = GatewayUnavailable \<longrightarrow> request_high_risk_approval env sid action w =
      (Inl (EnginePort (Denied ''high-risk approval gateway is unavailable'')), w))
   \<and> (\<forall>a w'. request_high_risk_approval env sid action w = (Inr a, w') \<longrightarrow>
        en_availability env = GatewayAvailable \<and> apr_decision a = Pending \<and> apr_decided_at_ms a = None
        \<and> (\<exists>s. required_session sid (wo_db w) = Inr s \<and> en_authorize env s action = Inr ())
        \<and> (\<exists>r. approval_at (approval_id_str (en_approval_id env)) (wo_db w') = Some r
             \<and> ar_decision r = ''pending''))"
proof (intro conjI impI allI)
  show "request_high_risk_approval env sid action w =
      (Inl (EnginePort (Denied ''high-risk approval gateway is unavailable'')), w)"
    if "en_availability env = GatewayUnavailable"
    using that by (simp add: request_high_risk_approval_def)
  fix a w' assume "request_high_risk_approval env sid action w = (Inr a, w')"
  then obtain w1 where av: "en_availability env = GatewayAvailable"
    and req: "request_approval env sid action w = (Inr a, w1)" and w': "wo_db w' = wo_db w1"
    by (auto simp: request_high_risk_approval_def split: if_splits prod.splits sum.splits)
  show "en_availability env = GatewayAvailable" by fact
  from req obtain s e where s: "required_session sid (wo_db w) = Inr s" "en_authorize env s action = Inr ()"
    and a: "a = approval_pending (en_approval_id env) sid action (en_now_ms env)"
    and ins: "insert_approval (en_codec env) a e (wo_db w) = (Inr (), wo_db w1)"
    by (auto simp: request_approval_def run_port_def Let_def split: sum.splits prod.splits)
  show "apr_decision a = Pending" "apr_decided_at_ms a = None" by (simp_all add: a approval_pending_def)
  show "\<exists>s. required_session sid (wo_db w) = Inr s \<and> en_authorize env s action = Inr ()" using s by blast
  obtain t where t: "dc_action (en_codec env) (apr_action a) = Inr t"
    using ins by (auto simp: insert_approval_def split: sum.splits)
  let ?row = "\<lparr>ar_id = approval_id_str (apr_id a), ar_session_id = session_id_str (apr_session_id a),
      ar_action_json = t, ar_decision = approval_decision_str (apr_decision a),
      ar_requested_at_ms = apr_requested_at_ms a, ar_decided_at_ms = apr_decided_at_ms a\<rparr>"
  have "approval_at (approval_id_str (apr_id a)) (wo_db w1) = Some ?row"
    using ins t by (cases rule: commit_cases [of "en_codec env" e "wo_db w"
          "wo_db w\<lparr>dd_approvals := dd_approvals (wo_db w) @ [?row]\<rparr>"])
      (auto simp: insert_approval_def Let_def approval_at_def first_where_append exists_where_first
        split: if_splits option.splits)
  then show "\<exists>r. approval_at (approval_id_str (en_approval_id env)) (wo_db w') = Some r \<and> ar_decision r = ''pending''"
    by (simp add: a w' approval_pending_def approval_decision_str_def)
qed

section \<open>Concrete runs\<close>

text \<open>A codec that can only write one kind of action, an open policy and a gateway that accepts.\<close>

definition toy_codec :: domain_codec where
  "toy_codec = \<lparr>dc_action = (\<lambda>_. Inr ''a''), dc_read_action = (\<lambda>_. Inr (SendPrompt ''p'')),
     dc_event = (\<lambda>_. Inr ''{}'')\<rparr>"

definition toy_env :: "string \<Rightarrow> i64 \<Rightarrow> unit engine_env" where
  "toy_env e now = \<lparr>en_codec = toy_codec, en_now_ms = now, en_session_id = SessionId ''s1'',
     en_approval_id = ApprovalId ''a1'', en_event_id = EventId e, en_authorize = (\<lambda>_ _. Inr ()),
     en_enqueue = (\<lambda>_ x. (Inr (), x)), en_availability = GatewayAvailable, en_publish = (\<lambda>_ x. (Inr ''m'', x))\<rparr>"

definition toy_session :: session where
  "toy_session = \<lparr>ses_id = SessionId ''s1'', ses_title = ''t'', ses_status = Active,
     ses_created_at_ms = 1, ses_updated_at_ms = 1\<rparr>"

definition toy_approval :: approval_request where
  "toy_approval = approval_pending (ApprovalId ''a1'') (SessionId ''s1'') (SendPrompt ''p'') 2"

definition toy_event :: "string \<Rightarrow> domain_event_kind \<Rightarrow> domain_event" where
  "toy_event e k = \<lparr>evt_id = EventId e, evt_occurred_at_ms = 2, evt_kind = k\<rparr>"

definition toy_ops :: "domain_op list" where
  "toy_ops = [DoSession toy_session (toy_event ''e1'' (SessionCreated toy_session)),
     DoApproval toy_approval (toy_event ''e2'' (ApprovalRequested toy_approval))]"

definition toy_world :: "unit world" where
  "toy_world = \<lparr>wo_db = fold (domain_step toy_codec) toy_ops domain_empty, wo_ext = ()\<rparr>"

definition toy_decided :: "(engine_error + approval_request) \<times> unit world" where
  "toy_decided = decide_approval (toy_env ''e3'' 5) (ApprovalId ''a1'') Approved toy_world"

theorem approval_keeps_first_decision_witness:
  "\<exists>a. fst toy_decided = Inr a \<and> apr_decision a = Approved
     \<and> get_approval toy_codec (ApprovalId ''a1'') (wo_db (snd toy_decided)) = Inr (Some a)
     \<and> decide_approval (toy_env ''e4'' 6) (ApprovalId ''a1'') Rejected (snd toy_decided)
        = (Inl (EngineDomain ApprovalAlreadyDecided), snd toy_decided)"
proof -
  have "case fst toy_decided of Inr a \<Rightarrow> True | Inl _ \<Rightarrow> False" by code_simp
  then obtain a where a: "toy_decided = (Inr a, snd toy_decided)"
    by (cases "fst toy_decided") (auto simp: prod_eq_iff)
  have w: "wo_db toy_world = fold (domain_step (en_codec (toy_env ''e3'' 5))) toy_ops domain_empty"
    and w2: "wo_db (snd toy_decided) = fold (domain_step (en_codec (toy_env ''e3'' 5))) [] (wo_db (snd toy_decided))"
    and cd: "en_codec (toy_env ''e4'' 6) = en_codec (toy_env ''e3'' 5)" "en_codec (toy_env ''e3'' 5) = toy_codec"
    by (simp_all add: toy_world_def toy_env_def)
  have run: "decide_approval (toy_env ''e3'' 5) (ApprovalId ''a1'') Approved toy_world = (Inr a, snd toy_decided)"
    using a by (simp only: toy_decided_def)
  have f: "fst toy_decided = Inr a" using arg_cong [OF a, of fst] by (simp only: fst_conv)
  from approval_keeps_first_decision [OF w run w2 cd(1), of Rejected] f
  show ?thesis by (intro exI [of _ a]) (simp only: cd(2) approval_decision.distinct if_False simp_thms)
qed

theorem created_session_reads_back_witness:
  "\<exists>s. fst (create_session (toy_env ''e9'' 5) ''t'' \<lparr>wo_db = domain_empty, wo_ext = ()\<rparr>) = Inr s
     \<and> get_session (ses_id s) (fold (domain_step toy_codec)
         [DoApproval toy_approval (toy_event ''e2'' (ApprovalRequested toy_approval))]
         (wo_db (snd (create_session (toy_env ''e9'' 5) ''t'' \<lparr>wo_db = domain_empty, wo_ext = ()\<rparr>))))
       = Inr (Some s)"
proof -
  let ?r = "create_session (toy_env ''e9'' 5) ''t'' \<lparr>wo_db = domain_empty, wo_ext = ()\<rparr>"
  have "case fst ?r of Inr a \<Rightarrow> True | Inl _ \<Rightarrow> False" by code_simp
  then obtain s where s: "?r = (Inr s, snd ?r)" by (cases "fst ?r") (auto simp: prod_eq_iff)
  have b: "\<not> is_blank (session_id_str (en_session_id (toy_env ''e9'' 5)))" by code_simp
  let ?ops = "[DoApproval toy_approval (toy_event ''e2'' (ApprovalRequested toy_approval))]"
  have w2: "wo_db \<lparr>wo_db = fold (domain_step toy_codec) ?ops (wo_db (snd ?r)), wo_ext = ()\<rparr>
      = fold (domain_step toy_codec) ?ops (wo_db (snd ?r))" by (rule world.select_convs(1))
  have f: "fst ?r = Inr s" using arg_cong [OF s, of fst] by (simp only: fst_conv)
  from created_session_reads_back [OF s b w2] f show ?thesis
    by (intro exI [of _ s]) (simp only: world.select_convs simp_thms)
qed

theorem high_risk_needs_gateway_witness:
  "request_high_risk_approval ((toy_env ''e3'' 5)\<lparr>en_availability := GatewayUnavailable\<rparr>) (SessionId ''s1'')
     (SendPrompt ''p'') toy_world
     = (Inl (EnginePort (Denied ''high-risk approval gateway is unavailable'')), toy_world)"
  using high_risk_needs_gateway [of "(toy_env ''e3'' 5)\<lparr>en_availability := GatewayUnavailable\<rparr>"
      "SessionId ''s1''" "SendPrompt ''p''" toy_world] by simp

end
