(* ===== verification/Commands.thy ===== *)
theory Commands
  imports RustText
begin

text \<open>
  The command vocabulary of \<open>rust/crates/telegram/src/lib.rs\<close>: the roles of the bots, the
  commands, which role owns which command, and \<open>ParsedTelegramCommand::parse\<close>.
\<close>

section \<open>Roles and commands\<close>

datatype runtime_bot_role = RoleControl | RoleStatus | RoleDiscussion | RoleAlert

definition polls_updates :: "runtime_bot_role \<Rightarrow> bool" where
  "polls_updates role \<longleftrightarrow> role \<noteq> RoleAlert"

datatype telegram_command =
    CmdPair | CmdBind | CmdNew | CmdTotp | CmdLock | CmdStatus | CmdPerf | CmdHelp | CmdSessions
  | CmdTopics | CmdPrompt | CmdAsk | CmdQueue | CmdPlanMode | CmdChangeModel | CmdPlan
  | CmdTimeline | CmdAttach | CmdGetFile | CmdUnwatch | CmdReview | CmdAnswer | CmdCancel
  | CmdUnknown string

datatype workflow_command =
    WfPair | WfBind | WfNew | WfTotp | WfLock | WfStatus | WfPerf | WfHelp | WfSessions
  | WfTopics | WfPrompt | WfAsk | WfQueue | WfPlanMode | WfChangeModel | WfPlan
  | WfTimeline | WfAttach | WfGetFile | WfUnwatch | WfAnswer | WfReview | WfCancel
  | WfUnknown string

definition command_name :: "telegram_command \<Rightarrow> string" where
  "command_name c = (case c of
     CmdPair \<Rightarrow> ''pair'' | CmdBind \<Rightarrow> ''bind'' | CmdNew \<Rightarrow> ''new'' | CmdTotp \<Rightarrow> ''totp''
   | CmdLock \<Rightarrow> ''lock'' | CmdStatus \<Rightarrow> ''status'' | CmdPerf \<Rightarrow> ''perf'' | CmdHelp \<Rightarrow> ''help''
   | CmdSessions \<Rightarrow> ''sessions'' | CmdTopics \<Rightarrow> ''topics'' | CmdPrompt \<Rightarrow> ''prompt''
   | CmdAsk \<Rightarrow> ''ask'' | CmdQueue \<Rightarrow> ''queue'' | CmdPlanMode \<Rightarrow> ''planmode''
   | CmdChangeModel \<Rightarrow> ''changemodel'' | CmdPlan \<Rightarrow> ''plan'' | CmdTimeline \<Rightarrow> ''timeline''
   | CmdAttach \<Rightarrow> ''attach'' | CmdGetFile \<Rightarrow> ''getfile'' | CmdUnwatch \<Rightarrow> ''unwatch''
   | CmdReview \<Rightarrow> ''review'' | CmdAnswer \<Rightarrow> ''answer'' | CmdCancel \<Rightarrow> ''cancel''
   | CmdUnknown s \<Rightarrow> s)"

text \<open>The arms of the match in \<open>parse_name\<close>, as a table.\<close>

definition command_table :: "(string \<times> telegram_command) list" where
  "command_table = [(''pair'', CmdPair), (''bind'', CmdBind), (''new'', CmdNew), (''totp'', CmdTotp),
     (''lock'', CmdLock), (''status'', CmdStatus), (''perf'', CmdPerf), (''help'', CmdHelp),
     (''start'', CmdHelp), (''sessions'', CmdSessions), (''topics'', CmdTopics),
     (''prompt'', CmdPrompt), (''ask'', CmdAsk), (''queue'', CmdQueue), (''planmode'', CmdPlanMode),
     (''changemodel'', CmdChangeModel), (''plan'', CmdPlan), (''timeline'', CmdTimeline),
     (''attach'', CmdAttach), (''getfile'', CmdGetFile), (''unwatch'', CmdUnwatch),
     (''review'', CmdReview), (''answer'', CmdAnswer), (''cancel'', CmdCancel)]"

definition parse_name :: "string \<Rightarrow> telegram_command" where
  "parse_name s = (case map_of command_table s of Some c \<Rightarrow> c | None \<Rightarrow> CmdUnknown s)"

fun is_unknown :: "telegram_command \<Rightarrow> bool" where
  "is_unknown (CmdUnknown s) = True"
| "is_unknown c = False"

definition allowed_for_role :: "telegram_command \<Rightarrow> runtime_bot_role \<Rightarrow> bool" where
  "allowed_for_role c role = (case role of
     RoleControl \<Rightarrow> c \<in> set [CmdPair, CmdHelp, CmdSessions, CmdTopics, CmdNew, CmdPerf] \<or> is_unknown c
   | RoleDiscussion \<Rightarrow> c \<in> set [CmdBind, CmdHelp, CmdStatus, CmdTotp, CmdLock, CmdPrompt, CmdAsk,
       CmdQueue, CmdPlanMode, CmdReview, CmdChangeModel, CmdPlan, CmdTimeline, CmdAttach, CmdGetFile,
       CmdUnwatch, CmdAnswer, CmdCancel] \<or> is_unknown c
   | RoleStatus \<Rightarrow> False
   | RoleAlert \<Rightarrow> False)"

definition command_into_legacy :: "telegram_command \<Rightarrow> workflow_command" where
  "command_into_legacy c = (case c of
     CmdPair \<Rightarrow> WfPair | CmdBind \<Rightarrow> WfBind | CmdNew \<Rightarrow> WfNew | CmdTotp \<Rightarrow> WfTotp
   | CmdLock \<Rightarrow> WfLock | CmdStatus \<Rightarrow> WfStatus | CmdPerf \<Rightarrow> WfPerf | CmdHelp \<Rightarrow> WfHelp
   | CmdSessions \<Rightarrow> WfSessions | CmdTopics \<Rightarrow> WfTopics | CmdPrompt \<Rightarrow> WfPrompt
   | CmdAsk \<Rightarrow> WfAsk | CmdQueue \<Rightarrow> WfQueue | CmdPlanMode \<Rightarrow> WfPlanMode
   | CmdChangeModel \<Rightarrow> WfChangeModel | CmdPlan \<Rightarrow> WfPlan | CmdTimeline \<Rightarrow> WfTimeline
   | CmdAttach \<Rightarrow> WfAttach | CmdGetFile \<Rightarrow> WfGetFile | CmdUnwatch \<Rightarrow> WfUnwatch
   | CmdAnswer \<Rightarrow> WfAnswer | CmdReview \<Rightarrow> WfReview | CmdCancel \<Rightarrow> WfCancel
   | CmdUnknown s \<Rightarrow> WfUnknown (command_name (CmdUnknown s)))"

fun is_wf_unknown :: "workflow_command \<Rightarrow> bool" where
  "is_wf_unknown (WfUnknown s) = True"
| "is_wf_unknown c = False"

definition workflow_allowed_for_role :: "workflow_command \<Rightarrow> runtime_bot_role \<Rightarrow> bool" where
  "workflow_allowed_for_role c role = (case role of
     RoleControl \<Rightarrow> c \<in> set [WfPair, WfNew, WfPerf, WfHelp, WfSessions, WfTopics] \<or> is_wf_unknown c
   | RoleDiscussion \<Rightarrow> c \<in> set [WfBind, WfStatus, WfTotp, WfLock, WfPrompt, WfAsk, WfQueue, WfPlanMode,
       WfChangeModel, WfPlan, WfTimeline, WfAttach, WfGetFile, WfUnwatch, WfAnswer, WfReview, WfCancel,
       WfHelp] \<or> is_wf_unknown c
   | RoleStatus \<Rightarrow> False
   | RoleAlert \<Rightarrow> False)"

section \<open>Parsing\<close>

record parsed_telegram_command =
  ptc_command :: telegram_command
  ptc_addressed_bot_username :: "string option"

definition parsed_command_parse :: "string \<Rightarrow> parsed_telegram_command option" where
  "parsed_command_parse text = (case first_word text of
     None \<Rightarrow> None
   | Some [] \<Rightarrow> None
   | Some (c # rest) \<Rightarrow>
       if c \<noteq> CHR ''/'' then None
       else
         let (name, target) = (case split_once (CHR ''@'') rest of
               Some (name, target) \<Rightarrow>
                 (name, if target \<noteq> [] then Some (to_ascii_lowercase target) else None)
             | None \<Rightarrow> (rest, None))
         in if name = [] then None
            else Some \<lparr>ptc_command = parse_name (to_ascii_lowercase name),
              ptc_addressed_bot_username = target\<rparr>)"

definition workflow_command_parse :: "string \<Rightarrow> workflow_command option" where
  "workflow_command_parse text = map_option (\<lambda>p. command_into_legacy (ptc_command p)) (parsed_command_parse text)"

section \<open>Laws\<close>

lemma parse_name_command_name: "\<not> is_unknown c \<Longrightarrow> parse_name (command_name c) = c"
  by (cases c) (simp_all add: parse_name_def command_name_def command_table_def)

lemma legacy_unknown [simp]: "is_wf_unknown (command_into_legacy c) = is_unknown c"
  by (cases c) (simp_all add: command_into_legacy_def)

lemma take_word_append:
  "list_all visible s \<Longrightarrow> rest = [] \<or> ws_width rest \<noteq> 0 \<Longrightarrow> take_word (s @ rest) = s"
proof (induction s)
  case Nil
  then show ?case by (cases rest) auto
qed (simp add: ws_width_visible)

lemma first_word_visible:
  assumes "list_all visible (c # s)" and "rest = [] \<or> ws_width rest \<noteq> 0"
  shows "first_word (c # s @ rest) = Some (c # s)"
proof -
  have "trim_start (c # s @ rest) = c # s @ rest"
    using assms(1) by (simp add: trim_start_def strip_ws_stop ws_width_visible)
  with take_word_append [OF assms] show ?thesis by (simp add: first_word_def)
qed

lemma slash_visible: "visible (CHR ''/'')" "visible (CHR ''@'')"
  by (simp_all add: visible_def byte_def ws1_def)

definition letter :: "char \<Rightarrow> bool" where
  "letter c \<longleftrightarrow> 97 \<le> byte (ascii_lower c) \<and> byte (ascii_lower c) \<le> 122"

lemma letter_visible: "letter c \<Longrightarrow> visible c \<and> c \<noteq> CHR ''@''"
  by (auto simp: letter_def visible_def ascii_lower_def byte_char_of ws1_def byte_def split: if_splits)

lemma command_name_letters: "\<not> is_unknown c \<Longrightarrow> list_all letter (command_name c)"
  by (cases c) (simp_all add: command_name_def letter_def ascii_lower_def byte_def)

lemma letter_lower: "list_all letter (to_ascii_lowercase s) = list_all letter s"
  by (simp add: to_ascii_lowercase_def list_all_iff letter_def)

lemma command_word:
  assumes "to_ascii_lowercase w = command_name c" and "\<not> is_unknown c"
  shows "w \<noteq> []" "list_all visible w" "CHR ''@'' \<notin> set w" "parse_name (to_ascii_lowercase w) = c"
proof -
  have l: "list_all letter w"
    using command_name_letters [OF assms(2)] by (simp add: letter_lower assms(1) [symmetric])
  then show "list_all visible w" "CHR ''@'' \<notin> set w"
    by (auto simp: list_all_iff dest: letter_visible)
  show "w \<noteq> []" using assms by (cases c) (auto simp: command_name_def to_ascii_lowercase_def)
  show "parse_name (to_ascii_lowercase w) = c"
    using assms by (simp add: parse_name_command_name)
qed

section \<open>Properties\<close>

text \<open>
  C40. A command is understood however it is written. The name of every command, in any mix of
  upper and lower case, alone or addressed to a bot, and with any arguments after white space,
  parses to that command and to the bot's name in lower case.
\<close>

theorem command_parses:
  assumes "\<not> is_unknown c" and "to_ascii_lowercase w = command_name c"
    and "who \<noteq> []" and "list_all visible who" and "args = [] \<or> ws_width args \<noteq> 0"
  shows "parsed_command_parse (''/'' @ w @ args) =
      Some \<lparr>ptc_command = c, ptc_addressed_bot_username = None\<rparr>
    \<and> parsed_command_parse (''/'' @ w @ ''@'' @ who @ args) =
      Some \<lparr>ptc_command = c, ptc_addressed_bot_username = Some (to_ascii_lowercase who)\<rparr>"
proof -
  note w = command_word [OF assms(2,1)]
  from w(2) assms(4) have v: "list_all visible (CHR ''/'' # w)"
      "list_all visible (CHR ''/'' # (w @ CHR ''@'' # who))"
    by (simp_all add: slash_visible)
  from first_word_visible [OF v(1) assms(5)] first_word_visible [OF v(2) assms(5)] w assms(3)
  show ?thesis
    by (simp add: parsed_command_parse_def split_once_append split_once_None [THEN iffD2])
qed

theorem command_parses_witness:
  "parsed_command_parse ''/StaTus@My_Bot now'' =
     Some \<lparr>ptc_command = CmdStatus, ptc_addressed_bot_username = Some ''my_bot''\<rparr>"
proof -
  have "to_ascii_lowercase ''StaTus'' = command_name CmdStatus" "list_all visible ''My_Bot''"
    "ws_width '' now'' \<noteq> 0" "to_ascii_lowercase ''My_Bot'' = ''my_bot''" by code_simp+
  with command_parses [of CmdStatus "''StaTus''" "''My_Bot''" "'' now''"] show ?thesis by simp
qed

text \<open>
  The two command tables agree. The vocabulary the routing uses and the vocabulary the daemon
  uses were written out separately; a command is allowed to a bot in one exactly when its
  translation is allowed in the other, no two commands of the first are confused in the second,
  and a name no table knows keeps its text and is never dropped by a bot that talks.
\<close>

theorem command_tables_agree:
  "workflow_allowed_for_role (command_into_legacy c) role = allowed_for_role c role
   \<and> (command_into_legacy c = command_into_legacy d) = (c = d)
   \<and> workflow_command_parse text = map_option command_into_legacy (map_option ptc_command (parsed_command_parse text))
   \<and> allowed_for_role (CmdUnknown name) role = (role \<in> {RoleControl, RoleDiscussion})"
proof (intro conjI)
  show "workflow_allowed_for_role (command_into_legacy c) role = allowed_for_role c role"
    by (cases role; cases c)
      (simp_all add: workflow_allowed_for_role_def allowed_for_role_def command_into_legacy_def)
  show "(command_into_legacy c = command_into_legacy d) = (c = d)"
    by (cases c; cases d) (simp_all add: command_into_legacy_def command_name_def)
  show "workflow_command_parse text =
      map_option command_into_legacy (map_option ptc_command (parsed_command_parse text))"
    by (simp add: workflow_command_parse_def option.map_comp comp_def)
  show "allowed_for_role (CmdUnknown name) role = (role \<in> {RoleControl, RoleDiscussion})"
    by (cases role) (simp_all add: allowed_for_role_def)
qed

end
