(* ===== verification/Routing.thy ===== *)
theory Routing
  imports Commands Json
begin

text \<open>
  The update routing of \<open>rust/crates/telegram/src/lib.rs\<close>: an update of the Bot API is parsed into
  a message, callback or membership change, checked against the bot's role, its chats and the
  owner, and turned into an effect. An update is its JSON payload; the dispatch of
  \<open>controllers.rs\<close> and the daemon's choice of authorization are at the end.
\<close>

section \<open>Policy\<close>

datatype chat_kind = ChatPrivate | ChatGroup | ChatSupergroup | ChatChannel | ChatUnknown

definition chat_kind_from_api :: "string option \<Rightarrow> chat_kind" where
  "chat_kind_from_api v =
     (if v = Some ''private'' then ChatPrivate else if v = Some ''group'' then ChatGroup
      else if v = Some ''supergroup'' then ChatSupergroup else if v = Some ''channel'' then ChatChannel
      else ChatUnknown)"

record telegram_actor =
  act_user_id :: "i64 option"
  act_sender_chat_id :: "i64 option"

definition is_personal :: "telegram_actor \<Rightarrow> bool" where
  "is_personal a \<longleftrightarrow> act_sender_chat_id a = None"

datatype routing_error = InvalidTopology | AlertBotMustNotPoll

record linked_discussion =
  ld_channel_chat_id :: i64
  ld_discussion_chat_id :: i64

definition linked_discussion_new :: "i64 \<Rightarrow> i64 \<Rightarrow> routing_error + linked_discussion" where
  "linked_discussion_new channel discussion =
     (if 0 \<le> channel \<or> 0 \<le> discussion then Inl InvalidTopology
      else Inr \<lparr>ld_channel_chat_id = channel, ld_discussion_chat_id = discussion\<rparr>)"

record routing_policy =
  rp_control_owner_chat_id :: i64
  rp_linked_discussion :: linked_discussion

record update_authorization =
  au_owner_user_id :: "i64 option"
  au_bot_username :: "string option"
  au_enforce_chat_kind :: bool
  au_reject_sender_chat :: bool
  au_bootstrap_only :: bool

text \<open>The derived \<open>Default\<close>.\<close>

definition authorization_default :: update_authorization where
  "authorization_default = \<lparr>au_owner_user_id = None, au_bot_username = None,
     au_enforce_chat_kind = False, au_reject_sender_chat = False, au_bootstrap_only = False\<rparr>"

definition python_owner :: "i64 \<Rightarrow> string \<Rightarrow> update_authorization" where
  "python_owner owner username = \<lparr>au_owner_user_id = Some owner,
     au_bot_username = Some (to_ascii_lowercase username), au_enforce_chat_kind = True,
     au_reject_sender_chat = True, au_bootstrap_only = False\<rparr>"

definition allows_actor :: "update_authorization \<Rightarrow> telegram_actor \<Rightarrow> bool" where
  "allows_actor au a \<longleftrightarrow>
     (case au_owner_user_id au of None \<Rightarrow> True | Some owner \<Rightarrow> act_user_id a = Some owner)
   \<and> (\<not> au_reject_sender_chat au \<or> is_personal a)"

definition targets_this_bot :: "update_authorization \<Rightarrow> string option \<Rightarrow> bool" where
  "targets_this_bot au target = (case (target, au_bot_username au) of
     (Some t, Some expected) \<Rightarrow> to_ascii_lowercase t = to_ascii_lowercase expected
   | _ \<Rightarrow> True)"

section \<open>Updates\<close>

record telegram_message =
  msg_chat_id :: i64
  msg_chat_kind :: chat_kind
  msg_message_id :: i64
  msg_text :: "string option"
  msg_caption :: "string option"
  msg_document_file_id :: "string option"
  msg_document_file_name :: "string option"
  msg_photo_file_id :: "string option"
  msg_is_photo :: bool
  msg_actor :: telegram_actor
  msg_reply_to_message_id :: "i64 option"
  msg_reply_to_message_thread_id :: "i64 option"
  msg_reply_to_is_automatic_forward :: bool
  msg_message_thread_id :: "i64 option"
  msg_automatic_forward_from_channel :: "i64 option"
  msg_automatic_forward_channel_post_id :: "i64 option"

record telegram_callback =
  tcb_id :: string
  tcb_chat_id :: i64
  tcb_chat_kind :: chat_kind
  tcb_message_id :: i64
  tcb_data :: string
  tcb_actor :: telegram_actor

record telegram_membership =
  mem_chat_id :: i64
  mem_chat_kind :: chat_kind
  mem_actor :: telegram_actor

datatype incoming_update =
    InMessage telegram_message
  | InEditedMessage telegram_message
  | InCallback telegram_callback
  | InMembership telegram_membership
  | InUnsupported

definition jpath_i64 :: "string list \<Rightarrow> json \<Rightarrow> i64 option" where
  "jpath_i64 p v = Option.bind (jpointer p v) as_i64"

definition jpath_str :: "string list \<Rightarrow> json \<Rightarrow> string option" where
  "jpath_str p v = Option.bind (jpointer p v) as_str"

text \<open>\<open>is_automatic_forward\<close> is the boolean true.\<close>

definition forward_flag :: "json \<Rightarrow> bool" where
  "forward_flag v \<longleftrightarrow> jbool ''is_automatic_forward'' v = Some True"

definition photo_file_id :: "json \<Rightarrow> string option" where
  "photo_file_id v = Option.bind (Option.bind (jget ''photo'' v) as_array)
     (\<lambda>photos. if photos = [] then None else jstr ''file_id'' (last photos))"

definition photo_present :: "json \<Rightarrow> bool" where
  "photo_present v = (case Option.bind (jget ''photo'' v) as_array of None \<Rightarrow> False | Some photos \<Rightarrow> photos \<noteq> [])"

definition parse_message :: "json \<Rightarrow> telegram_message option" where
  "parse_message v = (case (jpath_i64 [''chat'', ''id''] v, ji64 ''message_id'' v) of
     (Some chat, Some mid) \<Rightarrow> Some
       \<lparr>msg_chat_id = chat,
        msg_chat_kind = chat_kind_from_api (jpath_str [''chat'', ''type''] v),
        msg_message_id = mid,
        msg_text = Option.bind (or_else (jget ''text'' v) (jget ''caption'' v)) as_str,
        msg_caption = jstr ''caption'' v,
        msg_document_file_id = jpath_str [''document'', ''file_id''] v,
        msg_document_file_name = jpath_str [''document'', ''file_name''] v,
        msg_photo_file_id = photo_file_id v,
        msg_is_photo = photo_present v,
        msg_actor = \<lparr>act_user_id = jpath_i64 [''from'', ''id''] v,
          act_sender_chat_id = jpath_i64 [''sender_chat'', ''id''] v\<rparr>,
        msg_reply_to_message_id = jpath_i64 [''reply_to_message'', ''message_id''] v,
        msg_reply_to_message_thread_id = jpath_i64 [''reply_to_message'', ''message_thread_id''] v,
        msg_reply_to_is_automatic_forward =
          unwrap_or (Option.bind (jpointer [''reply_to_message'', ''is_automatic_forward''] v) as_bool) False,
        msg_message_thread_id = ji64 ''message_thread_id'' v,
        msg_automatic_forward_from_channel = (if forward_flag v
          then Option.bind (or_else (jpointer [''sender_chat'', ''id''] v)
            (jpointer [''forward_from_chat'', ''id''] v)) as_i64 else None),
        msg_automatic_forward_channel_post_id = (if forward_flag v
          then ji64 ''forward_from_message_id'' v else None)\<rparr>
   | _ \<Rightarrow> None)"

definition parse_callback :: "json \<Rightarrow> telegram_callback option" where
  "parse_callback v = (case (jstr ''id'' v, jpath_i64 [''message'', ''chat'', ''id''] v,
       jpath_i64 [''message'', ''message_id''] v, jstr ''data'' v) of
     (Some i, Some chat, Some mid, Some data) \<Rightarrow> Some
       \<lparr>tcb_id = i, tcb_chat_id = chat,
        tcb_chat_kind = chat_kind_from_api (jpath_str [''message'', ''chat'', ''type''] v),
        tcb_message_id = mid, tcb_data = data,
        tcb_actor = \<lparr>act_user_id = jpath_i64 [''from'', ''id''] v, act_sender_chat_id = None\<rparr>\<rparr>
   | _ \<Rightarrow> None)"

definition parse_membership :: "json \<Rightarrow> telegram_membership option" where
  "parse_membership v = (case jpath_i64 [''chat'', ''id''] v of
     None \<Rightarrow> None
   | Some chat \<Rightarrow> Some \<lparr>mem_chat_id = chat,
       mem_chat_kind = chat_kind_from_api (jpath_str [''chat'', ''type''] v),
       mem_actor = \<lparr>act_user_id = jpath_i64 [''from'', ''id''] v, act_sender_chat_id = None\<rparr>\<rparr>)"

definition from_update :: "json \<Rightarrow> incoming_update" where
  "from_update payload =
     (case Option.bind (jget ''message'' payload) parse_message of
        Some m \<Rightarrow> InMessage m
      | None \<Rightarrow> (case Option.bind (jget ''edited_message'' payload) parse_message of
          Some m \<Rightarrow> InEditedMessage m
        | None \<Rightarrow> (case Option.bind (jget ''callback_query'' payload) parse_callback of
            Some c \<Rightarrow> InCallback c
          | None \<Rightarrow> (case Option.bind (jget ''my_chat_member'' payload) parse_membership of
              Some m \<Rightarrow> InMembership m
            | None \<Rightarrow> InUnsupported))))"

section \<open>Effects\<close>

datatype telegram_effect =
    EffCommand (ef_command: telegram_command) (ef_chat_id: i64) (ef_message_id: i64)
      (ef_message_thread_id: "i64 option") (ef_root_message_id: "i64 option") (ef_text: string)
      (ef_actor: telegram_actor)
  | EffPrompt (ef_chat_id: i64) (ef_message_id: i64) (ef_message_thread_id: "i64 option")
      (ef_text: string) (ef_root_message_id: "i64 option") (ef_actor: telegram_actor)
  | EffAttachment (ef_chat_id: i64) (ef_message_id: i64) (ef_message_thread_id: "i64 option")
      (ef_caption: "string option") (ef_file_id: string) (ef_file_name: "string option")
      (ef_is_photo: bool) (ef_root_message_id: "i64 option") (ef_actor: telegram_actor)
  | EffCallback telegram_callback
  | EffNativeCommentPost (ef_channel_chat_id: i64) (ef_channel_post_id: i64)
      (ef_discussion_chat_id: i64) (ef_discussion_root_message_id: i64)
  | EffMembershipChanged telegram_membership

datatype routed_effect = RoutedDispatch telegram_effect | RoutedIgnore

datatype workflow_action =
    ActCommand workflow_command i64 i64 "i64 option" string
  | ActPrompt i64 i64 string "i64 option"
  | ActAttachment i64 i64 "string option" string "string option" bool "i64 option"
  | ActCallback telegram_callback
  | ActNativeCommentPost i64 i64 i64 i64
  | ActMembershipChanged

datatype routed_update = UpdDispatch workflow_action | UpdIgnore

definition into_legacy :: "routed_effect \<Rightarrow> routed_update" where
  "into_legacy r = (case r of
     RoutedIgnore \<Rightarrow> UpdIgnore
   | RoutedDispatch e \<Rightarrow> UpdDispatch (case e of
       EffCommand c chat mid thread root txt actor \<Rightarrow> ActCommand (command_into_legacy c) chat mid root txt
     | EffPrompt chat mid thread txt root actor \<Rightarrow> ActPrompt chat mid txt root
     | EffAttachment chat mid thread caption file name photo root actor \<Rightarrow>
         ActAttachment chat mid caption file name photo root
     | EffCallback c \<Rightarrow> ActCallback c
     | EffNativeCommentPost channel post discussion root \<Rightarrow> ActNativeCommentPost channel post discussion root
     | EffMembershipChanged m \<Rightarrow> ActMembershipChanged))"

section \<open>The router\<close>

record update_router =
  ro_role :: runtime_bot_role
  ro_policy :: routing_policy
  ro_authorization :: update_authorization

definition router_new :: "runtime_bot_role \<Rightarrow> routing_policy \<Rightarrow> routing_error + update_router" where
  "router_new role policy =
     (if \<not> polls_updates role then Inl AlertBotMustNotPoll
      else Inr \<lparr>ro_role = role, ro_policy = policy, ro_authorization = authorization_default\<rparr>)"

definition router_new_with_authorization ::
  "runtime_bot_role \<Rightarrow> routing_policy \<Rightarrow> update_authorization \<Rightarrow> routing_error + update_router" where
  "router_new_with_authorization role policy au = (case router_new role policy of
     Inl e \<Rightarrow> Inl e
   | Inr r \<Rightarrow> Inr (r\<lparr>ro_authorization := au\<rparr>))"

text \<open>No owner is known yet and only the pairing commands may pass.\<close>

definition bootstrapping :: "update_router \<Rightarrow> bool" where
  "bootstrapping r \<longleftrightarrow> au_bootstrap_only (ro_authorization r) \<and> au_owner_user_id (ro_authorization r) = None"

definition discussion_chat :: "update_router \<Rightarrow> i64" where
  "discussion_chat r = ld_discussion_chat_id (rp_linked_discussion (ro_policy r))"

definition channel_chat :: "update_router \<Rightarrow> i64" where
  "channel_chat r = ld_channel_chat_id (rp_linked_discussion (ro_policy r))"

definition message_is_authorized :: "update_router \<Rightarrow> telegram_message \<Rightarrow> bool \<Rightarrow> bool" where
  "message_is_authorized r m forward =
     (if au_enforce_chat_kind (ro_authorization r)
         \<and> (ro_role r, msg_chat_kind m) \<notin> set [(RoleControl, ChatPrivate), (RoleDiscussion, ChatSupergroup)]
      then False
      else if bootstrapping r \<and> ro_role r = RoleStatus then False
      else if forward \<and> bootstrapping r then False
      else forward \<or> allows_actor (ro_authorization r) (msg_actor m))"

definition callback_is_authorized :: "update_router \<Rightarrow> telegram_callback \<Rightarrow> bool" where
  "callback_is_authorized r c =
     (if au_enforce_chat_kind (ro_authorization r)
         \<and> (ro_role r, tcb_chat_kind c) \<notin> set [(RoleControl, ChatPrivate),
           (RoleDiscussion, ChatSupergroup), (RoleStatus, ChatSupergroup)]
      then False
      else if bootstrapping r then False
      else allows_actor (ro_authorization r) (tcb_actor c))"

definition membership_is_authorized :: "update_router \<Rightarrow> telegram_membership \<Rightarrow> bool" where
  "membership_is_authorized r m =
     (if \<not> au_enforce_chat_kind (ro_authorization r) then True
      else case ro_role r of
        RoleControl \<Rightarrow> mem_chat_id m = rp_control_owner_chat_id (ro_policy r) \<and> mem_chat_kind m = ChatPrivate
      | RoleDiscussion \<Rightarrow> mem_chat_id m = discussion_chat r \<and> mem_chat_kind m = ChatSupergroup
      | RoleStatus \<Rightarrow> mem_chat_id m = discussion_chat r \<and> mem_chat_kind m = ChatSupergroup
      | RoleAlert \<Rightarrow> False)"

definition bootstrap_command_allowed :: "runtime_bot_role \<Rightarrow> telegram_command \<Rightarrow> bool" where
  "bootstrap_command_allowed role c = (case role of
     RoleControl \<Rightarrow> c \<in> set [CmdPair, CmdHelp]
   | RoleDiscussion \<Rightarrow> c \<in> set [CmdBind, CmdHelp]
   | _ \<Rightarrow> False)"

definition route_message_effect :: "update_router \<Rightarrow> telegram_message \<Rightarrow> i64 option \<Rightarrow> routed_effect" where
  "route_message_effect r m root =
     (let au = ro_authorization r;
          txt = or_else (msg_text m) (msg_caption m);
          file = or_else (msg_document_file_id m) (msg_photo_file_id m)
      in if bootstrapping r \<and> file \<noteq> None then RoutedIgnore
         else case file of
           Some f \<Rightarrow> RoutedDispatch (EffAttachment (msg_chat_id m) (msg_message_id m)
             (msg_message_thread_id m) (or_else (msg_caption m) txt) f (msg_document_file_name m)
             (msg_is_photo m) root (msg_actor m))
         | None \<Rightarrow> (case filter_opt (\<lambda>t. \<not> is_blank t) txt of
             None \<Rightarrow> RoutedIgnore
           | Some t \<Rightarrow> (case parsed_command_parse t of
               Some p \<Rightarrow>
                 if \<not> targets_this_bot au (ptc_addressed_bot_username p)
                    \<or> \<not> allowed_for_role (ptc_command p) (ro_role r)
                    \<or> (au_bootstrap_only au \<and> \<not> bootstrap_command_allowed (ro_role r) (ptc_command p))
                 then RoutedIgnore
                 else RoutedDispatch (EffCommand (ptc_command p) (msg_chat_id m) (msg_message_id m)
                   (msg_message_thread_id m) root t (msg_actor m))
             | None \<Rightarrow>
                 if au_bootstrap_only au then RoutedIgnore
                 else RoutedDispatch (EffPrompt (msg_chat_id m) (msg_message_id m)
                   (msg_message_thread_id m) t root (msg_actor m)))))"

text \<open>
  The root of the comment thread a message belongs to. The closure of the third alternative
  returns early without a reply, so it is \<open>None\<close> there.
\<close>

definition comment_root_id :: "telegram_message \<Rightarrow> i64 option" where
  "comment_root_id m =
     or_else (or_else (or_else (msg_message_thread_id m) (msg_reply_to_message_thread_id m))
       (case msg_reply_to_message_id m of
          None \<Rightarrow> None
        | Some i \<Rightarrow> if msg_reply_to_is_automatic_forward m then Some i else None))
       (msg_reply_to_message_id m)"

definition route_effect :: "update_router \<Rightarrow> json \<Rightarrow> routed_effect" where
  "route_effect r payload = (case (ro_role r, from_update payload) of
     (RoleControl, InMessage m) \<Rightarrow>
       if msg_chat_id m = rp_control_owner_chat_id (ro_policy r) \<and> message_is_authorized r m False
       then route_message_effect r m None else RoutedIgnore
   | (RoleControl, InCallback c) \<Rightarrow>
       if tcb_chat_id c = rp_control_owner_chat_id (ro_policy r) \<and> callback_is_authorized r c
       then RoutedDispatch (EffCallback c) else RoutedIgnore
   | (RoleStatus, InCallback c) \<Rightarrow>
       if tcb_chat_id c = discussion_chat r \<and> callback_is_authorized r c
       then RoutedDispatch (EffCallback c) else RoutedIgnore
   | (RoleDiscussion, InMessage m) \<Rightarrow>
       if msg_chat_id m = discussion_chat r
       then (if msg_automatic_forward_from_channel m = Some (channel_chat r)
         then (if \<not> message_is_authorized r m True then RoutedIgnore
           else RoutedDispatch (EffNativeCommentPost (channel_chat r)
             (unwrap_or (msg_automatic_forward_channel_post_id m) (msg_message_id m))
             (msg_chat_id m) (msg_message_id m)))
         else (if \<not> message_is_authorized r m False then RoutedIgnore
           else route_message_effect r m (comment_root_id m)))
       else RoutedIgnore
   | (RoleDiscussion, InCallback c) \<Rightarrow>
       if tcb_chat_id c = discussion_chat r \<and> callback_is_authorized r c
       then RoutedDispatch (EffCallback c) else RoutedIgnore
   | (_, InMembership m) \<Rightarrow>
       if membership_is_authorized r m then RoutedDispatch (EffMembershipChanged m) else RoutedIgnore
   | _ \<Rightarrow> RoutedIgnore)"

definition route :: "update_router \<Rightarrow> json \<Rightarrow> routed_update" where
  "route r payload = into_legacy (route_effect r payload)"

section \<open>Dispatch to the controllers\<close>

datatype controller_effect = CtlNoop | CtlAccepted

record ('c, 'd, 's) controllers =
  co_control :: 'c
  co_discussion :: 'd
  co_status :: 's

text \<open>A controller's \<open>handle\<close> takes its own state and an action.\<close>

type_synonym 'c handler = "workflow_action \<Rightarrow> 'c \<Rightarrow> (string + controller_effect) \<times> 'c"

definition controllers_dispatch ::
  "'c handler \<Rightarrow> 'd handler \<Rightarrow> 's handler \<Rightarrow> runtime_bot_role \<Rightarrow> routed_update \<Rightarrow>
    ('c, 'd, 's) controllers \<Rightarrow> (string + controller_effect) \<times> ('c, 'd, 's) controllers" where
  "controllers_dispatch hc hm hs role routed cs = (case routed of
     UpdIgnore \<Rightarrow> (Inr CtlNoop, cs)
   | UpdDispatch a \<Rightarrow> (case role of
       RoleControl \<Rightarrow> (let (r, c) = hc a (co_control cs) in (r, cs\<lparr>co_control := c\<rparr>))
     | RoleDiscussion \<Rightarrow> (let (r, d) = hm a (co_discussion cs) in (r, cs\<lparr>co_discussion := d\<rparr>))
     | RoleStatus \<Rightarrow> (let (r, s) = hs a (co_status cs) in (r, cs\<lparr>co_status := s\<rparr>))
     | RoleAlert \<Rightarrow> (Inr CtlNoop, cs)))"

text \<open>
  The authorization the daemon builds for an update: the owner is the user id of the onboarding
  record, and without one the bot only bootstraps.
\<close>

definition daemon_authorization :: "json option \<Rightarrow> string \<Rightarrow> update_authorization" where
  "daemon_authorization owner_record username =
     (let owner = Option.bind owner_record (ji64 ''user_id'')
      in \<lparr>au_owner_user_id = owner, au_bot_username = Some username, au_enforce_chat_kind = True,
          au_reject_sender_chat = True, au_bootstrap_only = (owner = None)\<rparr>)"

end
