(* ===== verification/RoutingProps.thy ===== *)
theory RoutingProps
  imports Routing
begin

text \<open>
  Who the bots listen to: the owner, in the chats of the configuration, with the commands of the
  role; before pairing only the pairing commands.
\<close>

section \<open>Cases of the routing\<close>

lemma router_new_Inr:
  "router_new_with_authorization role policy au = Inr r \<longleftrightarrow>
     role \<noteq> RoleAlert \<and> r = \<lparr>ro_role = role, ro_policy = policy, ro_authorization = au\<rparr>"
  by (auto simp: router_new_with_authorization_def router_new_def polls_updates_def)

lemma daemon_authorization_simps [simp]:
  "au_owner_user_id (daemon_authorization rec name) = Option.bind rec (ji64 ''user_id'')"
  "au_bot_username (daemon_authorization rec name) = Some name"
  "au_enforce_chat_kind (daemon_authorization rec name)"
  "au_reject_sender_chat (daemon_authorization rec name)"
  "au_bootstrap_only (daemon_authorization rec name) = (Option.bind rec (ji64 ''user_id'') = None)"
  by (simp_all add: daemon_authorization_def Let_def)

text \<open>The one chat a bot serves.\<close>

definition served_chat :: "runtime_bot_role \<Rightarrow> routing_policy \<Rightarrow> i64" where
  "served_chat role policy = (if role = RoleControl then rp_control_owner_chat_id policy
     else ld_discussion_chat_id (rp_linked_discussion policy))"

lemma route_message_cases:
  assumes "route_message_effect r m root = RoutedDispatch e"
  obtains (attachment) caption f name photo where
      "e = EffAttachment (msg_chat_id m) (msg_message_id m) (msg_message_thread_id m) caption f name photo root (msg_actor m)"
      "\<not> bootstrapping r"
  | (command) p t where
      "e = EffCommand (ptc_command p) (msg_chat_id m) (msg_message_id m) (msg_message_thread_id m) root t (msg_actor m)"
      "parsed_command_parse t = Some p" "or_else (msg_text m) (msg_caption m) = Some t"
      "targets_this_bot (ro_authorization r) (ptc_addressed_bot_username p)"
      "allowed_for_role (ptc_command p) (ro_role r)"
      "au_bootstrap_only (ro_authorization r) \<Longrightarrow> bootstrap_command_allowed (ro_role r) (ptc_command p)"
  | (prompt) t where
      "e = EffPrompt (msg_chat_id m) (msg_message_id m) (msg_message_thread_id m) t root (msg_actor m)"
      "\<not> au_bootstrap_only (ro_authorization r)" "\<not> is_blank t"
proof (cases "or_else (msg_document_file_id m) (msg_photo_file_id m)")
  case (Some f)
  with assms attachment show ?thesis
    by (auto simp: route_message_effect_def Let_def split: if_splits)
next
  case None
  with assms obtain t where t: "or_else (msg_text m) (msg_caption m) = Some t" "\<not> is_blank t"
    by (auto simp: route_message_effect_def Let_def split: if_splits option.splits)
  show ?thesis
  proof (cases "parsed_command_parse t")
    case (Some p)
    with assms None t command [of p t] show ?thesis
      by (auto simp: route_message_effect_def Let_def filter_opt_def split: if_splits)
  next
    case None
    with assms \<open>or_else (msg_document_file_id m) _ = None\<close> t prompt [of t] show ?thesis
      by (auto simp: route_message_effect_def Let_def filter_opt_def split: if_splits)
  qed
qed

lemma route_effect_cases:
  assumes "route_effect r payload = RoutedDispatch e" and "ro_role r \<noteq> RoleAlert"
  obtains (message) m root where "from_update payload = InMessage m" "ro_role r \<in> {RoleControl, RoleDiscussion}"
      "msg_chat_id m = served_chat (ro_role r) (ro_policy r)" "message_is_authorized r m False"
      "route_message_effect r m root = RoutedDispatch e"
      "root = (if ro_role r = RoleControl then None else comment_root_id m)"
      "ro_role r = RoleDiscussion \<Longrightarrow> msg_automatic_forward_from_channel m \<noteq> Some (channel_chat r)"
  | (callback) c where "from_update payload = InCallback c" "e = EffCallback c"
      "tcb_chat_id c = served_chat (ro_role r) (ro_policy r)" "callback_is_authorized r c"
  | (post) m where "from_update payload = InMessage m" "ro_role r = RoleDiscussion"
      "msg_chat_id m = discussion_chat r" "msg_automatic_forward_from_channel m = Some (channel_chat r)"
      "message_is_authorized r m True"
      "e = EffNativeCommentPost (channel_chat r)
         (unwrap_or (msg_automatic_forward_channel_post_id m) (msg_message_id m)) (msg_chat_id m) (msg_message_id m)"
  | (membership) m where "from_update payload = InMembership m" "e = EffMembershipChanged m"
      "membership_is_authorized r m"
proof (cases "from_update payload")
  case (InMessage m)
  show ?thesis
  proof (cases "ro_role r")
    case RoleControl
    with assms InMessage message [of m] show ?thesis
      by (auto simp: route_effect_def served_chat_def split: if_splits)
  next
    case RoleDiscussion
    with assms InMessage message [of m] post [of m] show ?thesis
      by (auto simp: route_effect_def served_chat_def discussion_chat_def split: if_splits)
  qed (use assms InMessage in \<open>auto simp: route_effect_def\<close>)
next
  case (InCallback c)
  with assms callback [of c] show ?thesis
    by (cases "ro_role r") (auto simp: route_effect_def served_chat_def discussion_chat_def split: if_splits)
next
  case (InMembership m)
  with assms membership [of m] show ?thesis
    by (cases "ro_role r") (auto simp: route_effect_def split: if_splits)
qed (use assms in \<open>cases "ro_role r"; auto simp: route_effect_def\<close>)+

section \<open>Properties\<close>

text \<open>
  C3. After pairing, the bots serve the owner only. Whatever an update contains, a command, prompt,
  attachment or callback that reaches the workflow comes from the owner's own account, never from
  an anonymous administrator, and from the one chat the bot serves; a command is one the role
  owns, so the status bot takes none. A channel post is taken up only in the linked discussion,
  and a membership change only in the served chat.
\<close>

theorem only_the_owner_is_served:
  assumes "router_new_with_authorization role policy (daemon_authorization owner_record name) = Inr r"
    and "Option.bind owner_record (ji64 ''user_id'') = Some owner"
    and "route_effect r payload = RoutedDispatch e"
  shows "case e of
      EffCommand c chat mid thread root txt actor \<Rightarrow> role \<noteq> RoleStatus \<and> allowed_for_role c role
        \<and> actor = \<lparr>act_user_id = Some owner, act_sender_chat_id = None\<rparr> \<and> chat = served_chat role policy
    | EffPrompt chat mid thread txt root actor \<Rightarrow> role \<noteq> RoleStatus \<and> \<not> is_blank txt
        \<and> actor = \<lparr>act_user_id = Some owner, act_sender_chat_id = None\<rparr> \<and> chat = served_chat role policy
    | EffAttachment chat mid thread caption file file_name photo root actor \<Rightarrow> role \<noteq> RoleStatus
        \<and> actor = \<lparr>act_user_id = Some owner, act_sender_chat_id = None\<rparr> \<and> chat = served_chat role policy
    | EffCallback c \<Rightarrow> act_user_id (tcb_actor c) = Some owner \<and> tcb_chat_id c = served_chat role policy
    | EffNativeCommentPost channel post discussion root \<Rightarrow> role = RoleDiscussion
        \<and> channel = ld_channel_chat_id (rp_linked_discussion policy) \<and> discussion = served_chat role policy
    | EffMembershipChanged m \<Rightarrow> mem_chat_id m = served_chat role policy"
proof -
  from assms(1) have alert: "ro_role r \<noteq> RoleAlert"
    and r: "ro_role r = role" "ro_policy r = policy" "ro_authorization r = daemon_authorization owner_record name"
    by (auto simp: router_new_Inr)
  from assms(3) alert show ?thesis
  proof (cases rule: route_effect_cases)
    case (message m root)
    from message(4) have "msg_actor m = \<lparr>act_user_id = Some owner, act_sender_chat_id = None\<rparr>"
      by (cases "msg_actor m")
        (auto simp: message_is_authorized_def allows_actor_def is_personal_def r assms(2) split: if_splits)
    with message(5) show ?thesis
      by (cases rule: route_message_cases) (use message r in auto)
  next
    case (callback c)
    then show ?thesis
      by (auto simp: callback_is_authorized_def allows_actor_def r assms(2) split: if_splits)
  next
    case (post m)
    then show ?thesis by (simp add: served_chat_def channel_chat_def discussion_chat_def r)
  next
    case (membership m)
    with alert show ?thesis
      by (cases role) (auto simp: membership_is_authorized_def served_chat_def discussion_chat_def r)
  qed
qed

text \<open>
  C18. Before pairing, only pairing is possible. Without an owner on record, nothing but the
  commands of the bootstrap gets through: \<open>/pair\<close> and \<open>/help\<close> at the control bot, \<open>/bind\<close> and
  \<open>/help\<close> at the discussion bot, addressed to that bot if to any; no prompt, no attachment, no
  callback, no channel post. Membership changes of the served chat are still reported.
\<close>

theorem bootstrap_is_closed:
  assumes "router_new_with_authorization role policy (daemon_authorization owner_record name) = Inr r"
    and "Option.bind owner_record (ji64 ''user_id'') = None"
    and "route_effect r payload = RoutedDispatch e"
  shows "case e of
      EffCommand c chat mid thread root txt actor \<Rightarrow>
        (role, c) \<in> {(RoleControl, CmdPair), (RoleControl, CmdHelp), (RoleDiscussion, CmdBind), (RoleDiscussion, CmdHelp)}
        \<and> chat = served_chat role policy \<and> act_sender_chat_id actor = None
        \<and> (\<exists>p. parsed_command_parse txt = Some p \<and> ptc_command p = c
            \<and> ptc_addressed_bot_username p \<in> {None, Some (to_ascii_lowercase name)})
    | EffMembershipChanged m \<Rightarrow> mem_chat_id m = served_chat role policy
    | _ \<Rightarrow> False"
proof -
  from assms(1) have alert: "ro_role r \<noteq> RoleAlert"
    and r: "ro_role r = role" "ro_policy r = policy" "ro_authorization r = daemon_authorization owner_record name"
    by (auto simp: router_new_Inr)
  have boot: "bootstrapping r" by (simp add: bootstrapping_def r assms(2))
  from assms(3) alert show ?thesis
  proof (cases rule: route_effect_cases)
    case (message m root)
    from message(4) have personal: "act_sender_chat_id (msg_actor m) = None"
      by (auto simp: message_is_authorized_def allows_actor_def is_personal_def r split: if_splits)
    from message(5) show ?thesis
    proof (cases rule: route_message_cases)
      case (command p t)
      from command(2,4) have "ptc_addressed_bot_username p \<in> {None, Some (to_ascii_lowercase name)}"
        by (auto simp: targets_this_bot_def parsed_command_parse_def r Let_def
            split: option.splits list.splits if_splits prod.splits)
      moreover have "(role, ptc_command p) \<in> {(RoleControl, CmdPair), (RoleControl, CmdHelp),
          (RoleDiscussion, CmdBind), (RoleDiscussion, CmdHelp)}"
        using command(6) assms(2) by (cases role) (auto simp: bootstrap_command_allowed_def r)
      ultimately show ?thesis using command(1,2) message(3) personal by (auto simp: r)
    qed (use boot assms(2) in \<open>auto simp: r\<close>)
  next
    case (membership m)
    with alert show ?thesis
      by (cases role) (auto simp: membership_is_authorized_def served_chat_def discussion_chat_def r)
  qed (use boot in \<open>auto simp: callback_is_authorized_def message_is_authorized_def split: if_splits\<close>)
qed

section \<open>Concrete updates\<close>

definition demo_policy :: routing_policy where
  "demo_policy = \<lparr>rp_control_owner_chat_id = 7,
     rp_linked_discussion = \<lparr>ld_channel_chat_id = -100, ld_discussion_chat_id = -200\<rparr>\<rparr>"

definition demo_update :: "int \<Rightarrow> string \<Rightarrow> string \<Rightarrow> json" where
  "demo_update chat kind txt = jobj [(''message'', jobj [(''message_id'', JInt 5), (''text'', JStr txt),
     (''chat'', jobj [(''id'', JInt chat), (''type'', JStr kind)]), (''from'', jobj [(''id'', JInt 42)])])]"

definition demo_router :: "runtime_bot_role \<Rightarrow> json option \<Rightarrow> update_router" where
  "demo_router role rec = \<lparr>ro_role = role, ro_policy = demo_policy,
     ro_authorization = daemon_authorization rec ''bridge''\<rparr>"

definition demo_owner :: "json option" where
  "demo_owner = Some (jobj [(''user_id'', JInt 42)])"

theorem only_the_owner_is_served_witness:
  "route_effect (demo_router RoleDiscussion demo_owner) (demo_update (-200) ''supergroup'' ''/status'')
     = RoutedDispatch (EffCommand CmdStatus (-200) 5 None None ''/status''
         \<lparr>act_user_id = Some 42, act_sender_chat_id = None\<rparr>)
   \<and> allowed_for_role CmdStatus RoleDiscussion \<and> served_chat RoleDiscussion demo_policy = -200"
proof -
  have r: "router_new_with_authorization RoleDiscussion demo_policy (daemon_authorization demo_owner ''bridge'')
      = Inr (demo_router RoleDiscussion demo_owner)" by (simp add: router_new_Inr demo_router_def)
  have o: "Option.bind demo_owner (ji64 ''user_id'') = Some 42" by code_simp
  have e: "route_effect (demo_router RoleDiscussion demo_owner) (demo_update (-200) ''supergroup'' ''/status'')
     = RoutedDispatch (EffCommand CmdStatus (-200) 5 None None ''/status''
         \<lparr>act_user_id = Some 42, act_sender_chat_id = None\<rparr>)" by code_simp
  from only_the_owner_is_served [OF r o e] e show ?thesis by (auto simp: eq_commute)
qed

theorem bootstrap_is_closed_witness:
  "route_effect (demo_router RoleControl None) (demo_update 7 ''private'' ''/Pair@bridge 123'')
     = RoutedDispatch (EffCommand CmdPair 7 5 None None ''/Pair@bridge 123''
         \<lparr>act_user_id = Some 42, act_sender_chat_id = None\<rparr>)
   \<and> served_chat RoleControl demo_policy = 7"
proof -
  have r: "router_new_with_authorization RoleControl demo_policy (daemon_authorization None ''bridge'')
      = Inr (demo_router RoleControl None)" by (simp add: router_new_Inr demo_router_def)
  have e: "route_effect (demo_router RoleControl None) (demo_update 7 ''private'' ''/Pair@bridge 123'')
     = RoutedDispatch (EffCommand CmdPair 7 5 None None ''/Pair@bridge 123''
         \<lparr>act_user_id = Some 42, act_sender_chat_id = None\<rparr>)" by code_simp
  from bootstrap_is_closed [OF r _ e] e show ?thesis by (auto simp: eq_commute)
qed

end
