(* ===== verification/Menus.thy ===== *)
theory Menus
  imports RoutingProps
begin

text \<open>
  The command menus of \<open>rust/crates/telegram/src/lib.rs\<close> and the scopes they are installed for.
  The descriptions are Chinese text, given by its UTF-8 bytes.
\<close>

section \<open>Menus\<close>

record menu_entry =
  cme_command :: string
  cme_description :: string

definition menu_entry_to_value :: "menu_entry \<Rightarrow> json" where
  "menu_entry_to_value e = jobj [(''command'', JStr (cme_command e)), (''description'', JStr (cme_description e))]"

datatype bot_command_scope =
    ScopeDefault
  | ScopeAllPrivateChats
  | ScopeAllGroupChats
  | ScopeAllChatAdministrators
  | ScopeChat i64
  | ScopeChatAdministrators i64
  | ScopeChatMember i64 i64

definition scope_to_value :: "bot_command_scope \<Rightarrow> json" where
  "scope_to_value s = (case s of
     ScopeDefault \<Rightarrow> jobj [(''type'', JStr ''default'')]
   | ScopeAllPrivateChats \<Rightarrow> jobj [(''type'', JStr ''all_private_chats'')]
   | ScopeAllGroupChats \<Rightarrow> jobj [(''type'', JStr ''all_group_chats'')]
   | ScopeAllChatAdministrators \<Rightarrow> jobj [(''type'', JStr ''all_chat_administrators'')]
   | ScopeChat chat \<Rightarrow> jobj [(''type'', JStr ''chat''), (''chat_id'', JInt chat)]
   | ScopeChatAdministrators chat \<Rightarrow> jobj [(''type'', JStr ''chat_administrators''), (''chat_id'', JInt chat)]
   | ScopeChatMember chat user \<Rightarrow> jobj [(''type'', JStr ''chat_member''), (''chat_id'', JInt chat),
       (''user_id'', JInt user)])"

datatype command_menu_scope = MenuBootstrap | MenuOwner

definition entry :: "string \<Rightarrow> string \<Rightarrow> menu_entry" where
  "entry command description = \<lparr>cme_command = command, cme_description = description\<rparr>"

definition control_bootstrap_commands :: "menu_entry list" where
  "control_bootstrap_commands = [
     entry ''pair'' ([CHR 0xE5, CHR 0xAE, CHR 0x8C, CHR 0xE6, CHR 0x88, CHR 0x90] @ '' owner '' @ [CHR 0xE9, CHR 0x85,
         CHR 0x8D, CHR 0xE5, CHR 0xAF, CHR 0xB9]),
     entry ''help'' ([CHR 0xE6, CHR 0x98, CHR 0xBE, CHR 0xE7, CHR 0xA4, CHR 0xBA, CHR 0xE5, CHR 0xB8, CHR 0xAE,
         CHR 0xE5, CHR 0x8A, CHR 0xA9])]"

definition control_owner_commands :: "menu_entry list" where
  "control_owner_commands = [
     entry ''sessions'' ([CHR 0xE6, CHR 0x9F, CHR 0xA5, CHR 0xE6, CHR 0x89, CHR 0xBE] @ '' Codex sessions''),
     entry ''topics'' ([CHR 0xE6, CHR 0x9F, CHR 0xA5, CHR 0xE7, CHR 0x9C, CHR 0x8B] @ '' Session '' @ [CHR 0xE5,
         CHR 0xB8, CHR 0x96, CHR 0xE5, CHR 0xAD, CHR 0x90]),
     entry ''new'' ([CHR 0xE5, CHR 0x88, CHR 0x9B, CHR 0xE5, CHR 0xBB, CHR 0xBA, CHR 0xE5, CHR 0xBE, CHR 0x85,
         CHR 0xE8, CHR 0xAE, CHR 0xA4, CHR 0xE8, CHR 0xAF, CHR 0x81] @ '' Session '' @ [CHR 0xE5, CHR 0xB8, CHR 0x96,
         CHR 0xE5, CHR 0xAD, CHR 0x90]),
     entry ''perf'' ([CHR 0xE6, CHR 0x9F, CHR 0xA5, CHR 0xE7, CHR 0x9C, CHR 0x8B] @ '' WSL '' @ [CHR 0xE4, CHR 0xB8,
         CHR 0x8E] @ '' GPU '' @ [CHR 0xE6, CHR 0x80, CHR 0xA7, CHR 0xE8, CHR 0x83, CHR 0xBD]),
     entry ''help'' ([CHR 0xE6, CHR 0x98, CHR 0xBE, CHR 0xE7, CHR 0xA4, CHR 0xBA, CHR 0xE5, CHR 0xB8, CHR 0xAE,
         CHR 0xE5, CHR 0x8A, CHR 0xA9])]"

definition discussion_bootstrap_commands :: "menu_entry list" where
  "discussion_bootstrap_commands = [
     entry ''bind'' ([CHR 0xE7, CHR 0xBB, CHR 0x91, CHR 0xE5, CHR 0xAE, CHR 0x9A, CHR 0xE9, CHR 0xA2, CHR 0x91,
         CHR 0xE9, CHR 0x81, CHR 0x93, CHR 0xE8, CHR 0xAE, CHR 0xA8, CHR 0xE8, CHR 0xAE, CHR 0xBA, CHR 0xE7, CHR 0xBB,
         CHR 0x84]),
     entry ''help'' ([CHR 0xE6, CHR 0x98, CHR 0xBE, CHR 0xE7, CHR 0xA4, CHR 0xBA, CHR 0xE5, CHR 0xB8, CHR 0xAE,
         CHR 0xE5, CHR 0x8A, CHR 0xA9])]"

definition discussion_owner_commands :: "menu_entry list" where
  "discussion_owner_commands = [
     entry ''status'' ([CHR 0xE5, CHR 0x88, CHR 0xB7, CHR 0xE6, CHR 0x96, CHR 0xB0, CHR 0xE5, CHR 0xBD, CHR 0x93,
         CHR 0xE5, CHR 0x89, CHR 0x8D] @ '' Session '' @ [CHR 0xE7, CHR 0x8A, CHR 0xB6, CHR 0xE6, CHR 0x80, CHR 0x81]),
     entry ''totp'' ([CHR 0xE8, CHR 0xAE, CHR 0xA4, CHR 0xE8, CHR 0xAF, CHR 0x81, CHR 0xE5, CHR 0xBD, CHR 0x93,
         CHR 0xE5, CHR 0x89, CHR 0x8D] @ '' Session''),
     entry ''lock'' ([CHR 0xE9, CHR 0x94, CHR 0x81, CHR 0xE5, CHR 0xAE, CHR 0x9A, CHR 0xE5, CHR 0xBD, CHR 0x93,
         CHR 0xE5, CHR 0x89, CHR 0x8D] @ '' Session''),
     entry ''prompt'' ([CHR 0xE5, CHR 0x8F, CHR 0x91, CHR 0xE9, CHR 0x80, CHR 0x81] @ '' prompt''),
     entry ''ask'' ([CHR 0xE7, CHR 0x8B, CHR 0xAC, CHR 0xE7, CHR 0xAB, CHR 0x8B, CHR 0xE8, CHR 0xAF, CHR 0xA2,
         CHR 0xE9, CHR 0x97, CHR 0xAE] @ '' Codex''),
     entry ''queue'' ([CHR 0xE6, CHR 0x9F, CHR 0xA5, CHR 0xE7, CHR 0x9C, CHR 0x8B, CHR 0xE9, CHR 0x98, CHR 0x9F,
         CHR 0xE5, CHR 0x88, CHR 0x97, CHR 0xE6, CHR 0x88, CHR 0x96, CHR 0xE5, CHR 0x8A, CHR 0xA0, CHR 0xE5, CHR 0x85,
         CHR 0xA5] @ '' prompt''),
     entry ''planmode'' ([CHR 0xE8, CHR 0xBF, CHR 0x9B, CHR 0xE5, CHR 0x85, CHR 0xA5] @ '' Plan Mode''),
     entry ''review'' ([CHR 0xE6, CHR 0x89, CHR 0xA7, CHR 0xE8, CHR 0xA1, CHR 0x8C, CHR 0xE4, CHR 0xB8, CHR 0x80,
         CHR 0xE6, CHR 0xAC, CHR 0xA1] @ '' Codex Review''),
     entry ''changemodel'' ([CHR 0xE5, CHR 0x88, CHR 0x87, CHR 0xE6, CHR 0x8D, CHR 0xA2, CHR 0xE5, CHR 0xBD, CHR 0x93,
         CHR 0xE5, CHR 0x89, CHR 0x8D, CHR 0xE6, CHR 0xA8, CHR 0xA1, CHR 0xE5, CHR 0xBC, CHR 0x8F, CHR 0xE7, CHR 0x9A,
         CHR 0x84, CHR 0xE6, CHR 0xA8, CHR 0xA1, CHR 0xE5, CHR 0x9E, CHR 0x8B]),
     entry ''plan'' ([CHR 0xE6, CHR 0x9F, CHR 0xA5, CHR 0xE7, CHR 0x9C, CHR 0x8B, CHR 0xE5, CHR 0xAE, CHR 0x8C,
         CHR 0xE6, CHR 0x95, CHR 0xB4, CHR 0xE8, CHR 0xAE, CHR 0xA1, CHR 0xE5, CHR 0x88, CHR 0x92]),
     entry ''timeline'' ([CHR 0xE6, CHR 0x9F, CHR 0xA5, CHR 0xE7, CHR 0x9C, CHR 0x8B, CHR 0xE8, CHR 0xBF, CHR 0x91,
         CHR 0xE6, CHR 0x9C, CHR 0x9F, CHR 0xE4, CHR 0xBA, CHR 0x8B, CHR 0xE4, CHR 0xBB, CHR 0xB6]),
     entry ''attach'' ([CHR 0xE6, CHR 0x8E, CHR 0xA5, CHR 0xE5, CHR 0x85, CHR 0xA5] @ '' tmux''),
     entry ''getfile'' ([CHR 0xE8, CHR 0x8E, CHR 0xB7, CHR 0xE5, CHR 0x8F, CHR 0x96, CHR 0xE6, CHR 0x9C, CHR 0xAC,
         CHR 0xE6, CHR 0x9C, CHR 0xBA, CHR 0xE6, CHR 0x96, CHR 0x87, CHR 0xE4, CHR 0xBB, CHR 0xB6]),
     entry ''unwatch'' ([CHR 0xE5, CHR 0x8F, CHR 0x96, CHR 0xE6, CHR 0xB6, CHR 0x88, CHR 0xE5, CHR 0x85, CHR 0xB3,
         CHR 0xE6, CHR 0xB3, CHR 0xA8]),
     entry ''help'' ([CHR 0xE6, CHR 0x98, CHR 0xBE, CHR 0xE7, CHR 0xA4, CHR 0xBA, CHR 0xE5, CHR 0xB8, CHR 0xAE,
         CHR 0xE5, CHR 0x8A, CHR 0xA9])]"

definition command_menu :: "runtime_bot_role \<Rightarrow> command_menu_scope \<Rightarrow> menu_entry list" where
  "command_menu role scope = (case role of
     RoleControl \<Rightarrow> (case scope of MenuBootstrap \<Rightarrow> control_bootstrap_commands | MenuOwner \<Rightarrow> control_owner_commands)
   | RoleDiscussion \<Rightarrow> (case scope of MenuBootstrap \<Rightarrow> discussion_bootstrap_commands
       | MenuOwner \<Rightarrow> discussion_owner_commands)
   | RoleStatus \<Rightarrow> []
   | RoleAlert \<Rightarrow> [])"

lemmas menu_defs = command_menu_def control_bootstrap_commands_def control_owner_commands_def
  discussion_bootstrap_commands_def discussion_owner_commands_def entry_def

lemma menu_commands:
  "map cme_command (command_menu RoleControl MenuBootstrap) = [''pair'', ''help'']"
  "map cme_command (command_menu RoleControl MenuOwner) = [''sessions'', ''topics'', ''new'', ''perf'', ''help'']"
  "map cme_command (command_menu RoleDiscussion MenuBootstrap) = [''bind'', ''help'']"
  "map cme_command (command_menu RoleDiscussion MenuOwner) = [''status'', ''totp'', ''lock'', ''prompt'',
     ''ask'', ''queue'', ''planmode'', ''review'', ''changemodel'', ''plan'', ''timeline'', ''attach'',
     ''getfile'', ''unwatch'', ''help'']"
  "map cme_command (command_menu RoleStatus scope) = []"
  "map cme_command (command_menu RoleAlert scope) = []"
  by (simp_all add: menu_defs)

text \<open>What the name of an entry must be for the routing to serve it.\<close>

definition name_served :: "runtime_bot_role \<Rightarrow> command_menu_scope \<Rightarrow> string \<Rightarrow> bool" where
  "name_served role scope n \<longleftrightarrow>
     (let c = parse_name n in
        \<not> is_unknown c \<and> allowed_for_role c role \<and> command_name c = n \<and> to_ascii_lowercase n = n
      \<and> (scope = MenuBootstrap \<longrightarrow> bootstrap_command_allowed role c) \<and> \<not> is_blank (''/'' @ n))"

lemma menu_entry_served: "e \<in> set (command_menu role scope) \<Longrightarrow> name_served role scope (cme_command e)"
proof -
  have "list_all (name_served role scope) (map cme_command (command_menu role scope))"
    by (cases role; cases scope; simp only: menu_commands; code_simp)
  then show "e \<in> set (command_menu role scope) \<Longrightarrow> ?thesis" by (simp add: list_all_iff)
qed

lemma offered_iff:
  "\<not> is_unknown c \<Longrightarrow>
     (command_name c \<in> set (map cme_command (command_menu role MenuBootstrap @ command_menu role MenuOwner)))
     = (allowed_for_role c role \<and> c \<notin> {CmdAnswer, CmdCancel})"
  unfolding map_append
  by (cases role; simp only: menu_commands append.simps; cases c;
      simp add: command_name_def allowed_for_role_def)

text \<open>
  What the menus offer works, and nothing else is missing from them. Sending any entry of a
  bot's menu as a message gets that command through the routing, the bootstrap menu already before
  pairing; and together the two menus of a bot offer every command its role owns except
  \<open>/answer\<close> and \<open>/cancel\<close>, which are never offered.
\<close>

theorem menus_are_served:
  assumes "e \<in> set (command_menu role scope)" and "\<not> is_unknown c"
    and "scope = MenuBootstrap \<or> Option.bind owner_record (ji64 ''user_id'') = Some owner"
    and "msg_text m = Some (''/'' @ cme_command e)"
    and "msg_document_file_id m = None" and "msg_photo_file_id m = None"
    and "r = \<lparr>ro_role = role, ro_policy = policy, ro_authorization = daemon_authorization owner_record name\<rparr>"
  shows "route_message_effect r m root = RoutedDispatch (EffCommand (parse_name (cme_command e))
      (msg_chat_id m) (msg_message_id m) (msg_message_thread_id m) root (''/'' @ cme_command e) (msg_actor m))
    \<and> ((command_name c \<in> set (map cme_command (command_menu role MenuBootstrap @ command_menu role MenuOwner)))
        = (allowed_for_role c role \<and> c \<notin> {CmdAnswer, CmdCancel}))"
proof
  let ?c = "parse_name (cme_command e)"
  from menu_entry_served [OF assms(1)] have e: "\<not> is_unknown ?c" "allowed_for_role ?c role"
      "command_name ?c = cme_command e" "to_ascii_lowercase (cme_command e) = cme_command e"
      "scope = MenuBootstrap \<Longrightarrow> bootstrap_command_allowed role ?c" "\<not> is_blank (''/'' @ cme_command e)"
    by (auto simp: name_served_def Let_def)
  note w = command_word [of "cme_command e" ?c, OF _ e(1)]
  have "first_word (''/'' @ cme_command e) = Some (''/'' @ cme_command e)"
    using first_word_visible [of "CHR ''/''" "cme_command e" "[]"] w(2) e(3,4) by (simp add: slash_visible)
  then have parse: "parsed_command_parse (''/'' @ cme_command e) =
      Some \<lparr>ptc_command = ?c, ptc_addressed_bot_username = None\<rparr>"
    using w e(3,4) by (simp add: parsed_command_parse_def split_once_None [THEN iffD2])
  have "au_bootstrap_only (ro_authorization r) \<Longrightarrow> bootstrap_command_allowed role ?c"
    using assms(3) e(5) by (auto simp: assms(7))
  then show "route_message_effect r m root = RoutedDispatch (EffCommand ?c
      (msg_chat_id m) (msg_message_id m) (msg_message_thread_id m) root (''/'' @ cme_command e) (msg_actor m))"
    using parse e(2,6) assms(4-6)
    by (auto simp: route_message_effect_def Let_def filter_opt_def targets_this_bot_def assms(7))
  show "(command_name c \<in> set (map cme_command (command_menu role MenuBootstrap @ command_menu role MenuOwner)))
      = (allowed_for_role c role \<and> c \<notin> {CmdAnswer, CmdCancel})"
    using offered_iff [OF assms(2), of role] .
qed

theorem menus_are_served_witness:
  "route_message_effect (demo_router RoleControl None) (the (parse_message (the (jget ''message''
     (demo_update 7 ''private'' ''/pair''))))) None
     = RoutedDispatch (EffCommand CmdPair 7 5 None None ''/pair'' \<lparr>act_user_id = Some 42, act_sender_chat_id = None\<rparr>)
   \<and> command_name CmdSessions \<in> set (map cme_command (command_menu RoleControl MenuBootstrap @
        command_menu RoleControl MenuOwner))"
proof -
  let ?m = "the (parse_message (the (jget ''message'' (demo_update 7 ''private'' ''/pair''))))"
  let ?e = "hd (command_menu RoleControl MenuBootstrap)"
  have e: "?e \<in> set (command_menu RoleControl MenuBootstrap)" "cme_command ?e = ''pair''" by (simp_all add: menu_defs)
  have m: "msg_text ?m = Some (''/'' @ ''pair'')" "msg_document_file_id ?m = None" "msg_photo_file_id ?m = None"
    "msg_chat_id ?m = 7" "msg_message_id ?m = 5" "msg_message_thread_id ?m = None"
    "msg_actor ?m = \<lparr>act_user_id = Some 42, act_sender_chat_id = None\<rparr>"
    "parse_name ''pair'' = CmdPair" by code_simp+
  have c: "\<not> is_unknown CmdSessions" "allowed_for_role CmdSessions RoleControl"
    by (simp_all add: allowed_for_role_def)
  from menus_are_served [OF e(1) c(1) _ _ m(2,3) demo_router_def, of None undefined, unfolded e(2)] m c(2)
  show ?thesis by simp
qed

end
