(* ===== verification/Credentials.thy ===== *)
theory Credentials
  imports RustText BTree
begin

unbundle bit_operations_syntax

text \<open>
  The bot credentials of \<open>rust/crates/credentials/src/lib.rs\<close>: tokens, the token files with their
  permission rules, and the registry \<open>~/.tgrc\<close> with its line parser. The file system is a
  function from a path to what \<open>symlink_metadata\<close> and \<open>read_to_string\<close> see there.
\<close>

section \<open>Roles and tokens\<close>

datatype credential_role =
    CredControl | CredDiscussion | CredStatus | CredProductionAlert | CredCanaryAlert | CredApproval
  | CredArtifact

definition all_roles :: "credential_role list" where
  "all_roles = [CredControl, CredDiscussion, CredStatus, CredProductionAlert, CredCanaryAlert,
     CredApproval, CredArtifact]"

definition role_display :: "credential_role \<Rightarrow> string" where
  "role_display r = (case r of
     CredControl \<Rightarrow> ''control'' | CredDiscussion \<Rightarrow> ''discussion'' | CredStatus \<Rightarrow> ''status''
   | CredProductionAlert \<Rightarrow> ''production-alert'' | CredCanaryAlert \<Rightarrow> ''canary-alert''
   | CredApproval \<Rightarrow> ''approval'' | CredArtifact \<Rightarrow> ''artifact'')"

definition role_file_name :: "credential_role \<Rightarrow> string" where
  "role_file_name r = (case r of
     CredControl \<Rightarrow> ''control.token'' | CredDiscussion \<Rightarrow> ''discussion.token''
   | CredStatus \<Rightarrow> ''status.token'' | CredProductionAlert \<Rightarrow> ''production-alert.token''
   | CredCanaryAlert \<Rightarrow> ''canary-alert.token'' | CredApproval \<Rightarrow> ''approval.token''
   | CredArtifact \<Rightarrow> ''artifact.token'')"

definition default_tgrc_key :: "credential_role \<Rightarrow> string" where
  "default_tgrc_key r = (case r of
     CredControl \<Rightarrow> ''rust_9527_bot_key'' | CredDiscussion \<Rightarrow> ''rust_91_bot_key''
   | CredStatus \<Rightarrow> ''rust_818_bot_key'' | CredProductionAlert \<Rightarrow> ''rust_826_bot_key''
   | CredCanaryAlert \<Rightarrow> ''rust_411_bot_key'' | CredApproval \<Rightarrow> ''rust_69_bot_key''
   | CredArtifact \<Rightarrow> ''rust_426_bot_key'')"

datatype credential_error =
    CredMissing credential_role string
  | CredNotRegularFile credential_role string
  | CredInsecurePermissions credential_role string
  | CredUnreadable credential_role string
  | EmptyToken
  | MalformedToken
  | TgrcMissing string
  | TgrcNotRegularFile string
  | TgrcInsecurePermissions string
  | TgrcUnreadable string
  | InvalidTgrcLine nat
  | InvalidTgrcKey nat
  | DuplicateTgrcKey nat

datatype bot_token = BotToken (token_str: string)

definition bot_token_parse :: "string \<Rightarrow> credential_error + bot_token" where
  "bot_token_parse value =
     (let v = trim value in
      if v = [] then Inl EmptyToken
      else if has_whitespace v then Inl MalformedToken
      else Inr (BotToken v))"

section \<open>The registry\<close>

definition is_credential_key :: "string \<Rightarrow> bool" where
  "is_credential_key key \<longleftrightarrow> key \<noteq> [] \<and>
     list_all (\<lambda>c. is_digit c \<or> (65 \<le> byte c \<and> byte c \<le> 90) \<or> (97 \<le> byte c \<and> byte c \<le> 122) \<or> c = CHR ''_'') key"

text \<open>A pair of double quotes around the value, else a pair of single quotes.\<close>

definition within :: "string \<Rightarrow> string \<Rightarrow> string option" where
  "within q v = Option.bind (strip_prefix q v) (strip_suffix q)"

definition unquote :: "string \<Rightarrow> string" where
  "unquote v = unwrap_or (or_else (within [CHR 0x22] v) (within [CHR 0x27] v)) v"

type_synonym tgrc = "(string, bot_token) btree"

definition tgrc_line :: "nat \<Rightarrow> string \<Rightarrow> tgrc \<Rightarrow> credential_error + tgrc" where
  "tgrc_line n raw entries =
     (let line = trim raw in
      if line = [] \<or> starts_with ''#'' line then Inr entries
      else case strip_prefix ''export '' line of
        None \<Rightarrow> Inl (InvalidTgrcLine n)
      | Some assignment \<Rightarrow> (case split_once (CHR ''='') assignment of
          None \<Rightarrow> Inl (InvalidTgrcLine n)
        | Some (key, raw_value) \<Rightarrow>
            if \<not> is_credential_key key then Inl (InvalidTgrcKey n)
            else (case bot_token_parse (unquote (trim raw_value)) of
                Inl e \<Rightarrow> Inl e
              | Inr token \<Rightarrow>
                  if bt_get entries key \<noteq> None then Inl (DuplicateTgrcKey n)
                  else Inr (bt_insert key token entries))))"

fun tgrc_lines :: "nat \<Rightarrow> string list \<Rightarrow> tgrc \<Rightarrow> credential_error + tgrc" where
  "tgrc_lines n [] entries = Inr entries"
| "tgrc_lines n (raw # lines) entries = (case tgrc_line n raw entries of
     Inl e \<Rightarrow> Inl e
   | Inr entries1 \<Rightarrow> tgrc_lines (n + 1) lines entries1)"

definition tgrc_parse :: "string \<Rightarrow> credential_error + tgrc" where
  "tgrc_parse text = tgrc_lines 1 (rust_lines text) []"

definition tgrc_get :: "string \<Rightarrow> tgrc \<Rightarrow> bot_token option" where
  "tgrc_get key entries = bt_get entries key"

section \<open>Files\<close>

text \<open>A file: whether it is regular, its mode, and its bytes if they can be read.\<close>

record file_entry =
  fe_regular :: bool
  fe_mode :: nat
  fe_bytes :: "string option"

type_synonym file_system = "string \<Rightarrow> file_entry option"

definition private_mode :: "file_entry \<Rightarrow> bool" where
  "private_mode f \<longleftrightarrow> fe_mode f AND 63 = 0"

definition read_to_string :: "file_entry \<Rightarrow> string option" where
  "read_to_string f = filter_opt utf8_valid (fe_bytes f)"

definition tgrc_load :: "file_system \<Rightarrow> string \<Rightarrow> credential_error + tgrc" where
  "tgrc_load fs path = (case fs path of
     None \<Rightarrow> Inl (TgrcMissing path)
   | Some f \<Rightarrow>
       if \<not> fe_regular f then Inl (TgrcNotRegularFile path)
       else if \<not> private_mode f then Inl (TgrcInsecurePermissions path)
       else (case read_to_string f of
           None \<Rightarrow> Inl (TgrcUnreadable path)
         | Some content \<Rightarrow> tgrc_parse content))"

text \<open>\<open>Path::join\<close> of a relative name.\<close>

definition path_join :: "string \<Rightarrow> string \<Rightarrow> string" where
  "path_join root name = (if root = [] \<or> last root = CHR ''/'' then root @ name else root @ ''/'' @ name)"

definition path_for :: "string \<Rightarrow> credential_role \<Rightarrow> string" where
  "path_for root role = path_join root (role_file_name role)"

definition read_path :: "file_system \<Rightarrow> credential_role \<Rightarrow> string \<Rightarrow> credential_error + bot_token" where
  "read_path fs role path = (case fs path of
     None \<Rightarrow> Inl (CredMissing role path)
   | Some f \<Rightarrow>
       if \<not> fe_regular f then Inl (CredNotRegularFile role path)
       else if \<not> private_mode f then Inl (CredInsecurePermissions role path)
       else (case read_to_string f of
           None \<Rightarrow> Inl (CredUnreadable role path)
         | Some content \<Rightarrow> bot_token_parse content))"

definition read_role :: "file_system \<Rightarrow> string \<Rightarrow> credential_role \<Rightarrow> credential_error + bot_token" where
  "read_role fs root role = read_path fs role (path_for root role)"

fun is_missing :: "credential_error \<Rightarrow> bool" where
  "is_missing (CredMissing role path) = True"
| "is_missing e = False"

definition read_role_or_tgrc ::
  "file_system \<Rightarrow> string \<Rightarrow> credential_role \<Rightarrow> tgrc option \<Rightarrow> credential_error + bot_token" where
  "read_role_or_tgrc fs root role registry = (case read_role fs root role of
     Inr token \<Rightarrow> Inr token
   | Inl e \<Rightarrow>
       if is_missing e
       then ok_or (Option.bind registry (tgrc_get (default_tgrc_key role))) (CredMissing role (path_for root role))
       else Inl e)"

text \<open>\<open>is_file\<close> follows links, so the roles present are decided by a second view of the files.\<close>

definition present_roles :: "(string \<Rightarrow> bool) \<Rightarrow> string \<Rightarrow> credential_role list" where
  "present_roles is_file root = filter (\<lambda>r. is_file (path_for root r)) all_roles"

section \<open>Messages\<close>

definition credential_error_display :: "credential_error \<Rightarrow> string" where
  "credential_error_display e = (case e of
     CredMissing r p \<Rightarrow> role_display r @ '' credential is missing at '' @ p
   | CredNotRegularFile r p \<Rightarrow> role_display r @ '' credential is not a regular file at '' @ p
   | CredInsecurePermissions r p \<Rightarrow> role_display r @ '' credential has insecure permissions at '' @ p
   | CredUnreadable r p \<Rightarrow> role_display r @ '' credential is unreadable at '' @ p
   | EmptyToken \<Rightarrow> ''credential token is empty''
   | MalformedToken \<Rightarrow> ''credential token has whitespace''
   | TgrcMissing p \<Rightarrow> ''credential registry is missing at '' @ p
   | TgrcNotRegularFile p \<Rightarrow> ''credential registry is not a regular file at '' @ p
   | TgrcInsecurePermissions p \<Rightarrow> ''credential registry has insecure permissions at '' @ p
   | TgrcUnreadable p \<Rightarrow> ''credential registry is unreadable at '' @ p
   | InvalidTgrcLine n \<Rightarrow> ''invalid credential registry line '' @ show_nat n
   | InvalidTgrcKey n \<Rightarrow> ''invalid credential registry key at line '' @ show_nat n
   | DuplicateTgrcKey n \<Rightarrow> ''duplicate credential registry key at line '' @ show_nat n)"

section \<open>Laws of the registry\<close>

text \<open>How a registry line is written by hand: bare, or between quotes.\<close>

datatype quoting = Bare | Double | Single

definition quoted :: "quoting \<Rightarrow> string \<Rightarrow> string" where
  "quoted q v = (case q of Bare \<Rightarrow> v | Double \<Rightarrow> [CHR 0x22] @ v @ [CHR 0x22] | Single \<Rightarrow> [CHR 0x27] @ v @ [CHR 0x27])"

definition registry_line :: "string \<times> quoting \<times> string \<Rightarrow> string" where
  "registry_line e = (case e of (key, q, v) \<Rightarrow> ''export '' @ key @ ''='' @ quoted q v)"

definition writable :: "string \<times> quoting \<times> string \<Rightarrow> bool" where
  "writable e \<longleftrightarrow> (case e of (key, q, v) \<Rightarrow> is_credential_key key \<and> v \<noteq> [] \<and> list_all visible v
     \<and> (q = Bare \<longrightarrow> hd v \<noteq> CHR 0x22 \<and> hd v \<noteq> CHR 0x27))"

lemma key_visible: "is_credential_key key \<Longrightarrow> list_all visible key \<and> CHR ''='' \<notin> set key"
  by (auto simp: is_credential_key_def list_all_iff visible_def is_digit_def ws1_def byte_def)

lemma quote_visible: "visible (CHR 0x22)" "visible (CHR 0x27)" "visible (CHR ''='')" "visible (CHR ''e'')"
  by (simp_all add: visible_def byte_def ws1_def)

lemma quoted_visible: "list_all visible v \<Longrightarrow> list_all visible (quoted q v)" "v \<noteq> [] \<Longrightarrow> quoted q v \<noteq> []"
  by (auto simp: quoted_def quote_visible split: quoting.splits)

lemma unquote_quoted:
  assumes "v \<noteq> []" and "q = Bare \<longrightarrow> hd v \<noteq> CHR 0x22 \<and> hd v \<noteq> CHR 0x27"
  shows "unquote (quoted q v) = v"
proof (cases q)
  case Bare
  with assms have "within [CHR 0x22] v = None" "within [CHR 0x27] v = None"
    by (cases v; simp add: within_def strip_prefix_def)+
  with Bare show ?thesis by (simp add: unquote_def quoted_def)
next
  case Double
  have "within [CHR 0x22] (CHR 0x22 # v @ [CHR 0x22]) = Some v"
    using strip_prefix_append [of "[CHR 0x22]" "v @ [CHR 0x22]"] by (simp add: within_def)
  with Double show ?thesis by (simp add: unquote_def quoted_def)
next
  case Single
  have "within [CHR 0x27] (CHR 0x27 # v @ [CHR 0x27]) = Some v"
    using strip_prefix_append [of "[CHR 0x27]" "v @ [CHR 0x27]"] by (simp add: within_def)
  moreover have "within [CHR 0x22] (CHR 0x27 # v @ [CHR 0x27]) = None"
    by (simp add: within_def strip_prefix_def)
  ultimately show ?thesis using Single by (simp add: unquote_def quoted_def)
qed

lemma bot_token_visible: "v \<noteq> [] \<Longrightarrow> list_all visible v \<Longrightarrow> bot_token_parse v = Inr (BotToken v)"
  by (simp add: bot_token_parse_def Let_def trim_visible_ends visible_no_whitespace list_all_iff)

lemma tgrc_line_written:
  assumes "writable (key, q, v)"
  shows "tgrc_line n (registry_line (key, q, v)) entries =
    (if bt_get entries key \<noteq> None then Inl (DuplicateTgrcKey n) else Inr (bt_insert key (BotToken v) entries))"
proof -
  from assms have k: "is_credential_key key" and v: "v \<noteq> []" "list_all visible v"
    and q: "q = Bare \<longrightarrow> hd v \<noteq> CHR 0x22 \<and> hd v \<noteq> CHR 0x27" by (simp_all add: writable_def)
  let ?w = "quoted q v"
  let ?line = "''export '' @ key @ ''='' @ ?w"
  have w: "?w \<noteq> []" "list_all visible ?w" using quoted_visible v by simp_all
  have "last ?line \<in> set ?w" using w(1) by simp
  then have line: "trim ?line = ?line" using w(2)
    by (intro trim_visible_ends) (simp_all add: quote_visible list_all_iff)
  have val: "trim ?w = ?w" using w by (intro trim_visible_ends) (simp_all add: list_all_iff)
  have pre: "strip_prefix ''export '' ?line = Some (key @ ''='' @ ?w)" by (rule strip_prefix_append)
  have eq: "split_once (CHR ''='') (key @ ''='' @ ?w) = Some (key, ?w)"
    using key_visible [OF k] by (simp add: split_once_append)
  have "\<not> starts_with ''#'' ?line" by (simp add: starts_with_def strip_prefix_def)
  then show ?thesis
    using pre eq k by (simp add: tgrc_line_def registry_line_def Let_def line val unquote_quoted [OF v(1) q]
        bot_token_visible [OF v] del: append.simps)
qed

definition registry_text :: "(string \<times> quoting \<times> string) list \<Rightarrow> string" where
  "registry_text es = concat (map (\<lambda>e. registry_line e @ [newline]) es)"

lemma registry_line_plain:
  assumes "writable e"
  shows "newline \<notin> set (registry_line e)" "carriage_return \<notin> set (registry_line e)"
proof -
  obtain key q v where e: "e = (key, q, v)" by (cases e)
  from assms have "list_all visible key" "list_all visible (quoted q v)"
    using key_visible quoted_visible by (auto simp: writable_def e)
  then have "\<forall>c \<in> set (registry_line e). visible c \<or> c = CHR '' ''"
    by (auto simp: registry_line_def e list_all_iff visible_def byte_def ws1_def)
  moreover have "CHR '' '' \<noteq> newline" "CHR '' '' \<noteq> carriage_return"
    by (simp_all add: newline_def carriage_return_def char_of_def)
  moreover have "\<not> visible newline" "\<not> visible carriage_return" using newline_invisible by blast+
  ultimately show "newline \<notin> set (registry_line e)" "carriage_return \<notin> set (registry_line e)"
    by metis+
qed

lemma rust_lines_registry:
  "list_all writable es \<Longrightarrow> rust_lines (registry_text es) = map registry_line es"
  by (induction es) (auto simp: registry_text_def rust_lines_Cons registry_line_plain)

section \<open>Properties\<close>

lemma tgrc_lines_written:
  assumes "list_all writable es"
  shows "case tgrc_lines n (map registry_line es) m of
     Inr m' \<Rightarrow> distinct (map fst es) \<and> (\<forall>e \<in> set es. bt_get m (fst e) = None)
       \<and> (\<forall>k. tgrc_get k m' = (case map_of es k of None \<Rightarrow> tgrc_get k m | Some e \<Rightarrow> Some (BotToken (snd e))))
   | Inl e \<Rightarrow> \<exists>i < length es. e = DuplicateTgrcKey (n + i)
       \<and> distinct (map fst (take i es)) \<and> (fst (es ! i) \<in> fst ` set (take i es) \<or> bt_get m (fst (es ! i)) \<noteq> None)
       \<and> (\<forall>e \<in> set (take i es). bt_get m (fst e) = None)"
  using assms
proof (induction es arbitrary: n m)
  case Nil
  then show ?case by (simp add: tgrc_get_def)
next
  case (Cons e es)
  obtain key q v where e: "e = (key, q, v)" by (cases e)
  show ?case
  proof (cases "bt_get m key")
    case (Some t)
    with Cons.prems show ?thesis by (auto simp: e tgrc_line_written)
  next
    case None
    let ?m = "bt_insert key (BotToken v) m"
    have step: "tgrc_lines n (map registry_line (e # es)) m = tgrc_lines (n + 1) (map registry_line es) ?m"
      using Cons.prems None by (simp add: e tgrc_line_written)
    show ?thesis
    proof (cases "tgrc_lines (n + 1) (map registry_line es) ?m")
      case (Inr m')
      with Cons.IH [of "n + 1" ?m] Cons.prems
      have "distinct (map fst es)" and new: "\<forall>e \<in> set es. bt_get ?m (fst e) = None"
        and get: "\<forall>k. tgrc_get k m' = (case map_of es k of None \<Rightarrow> tgrc_get k ?m | Some e \<Rightarrow> Some (BotToken (snd e)))"
        by auto
      moreover have "key \<notin> fst ` set es" using new by auto
      moreover from this have "map_of es key = None" by (simp add: map_of_eq_None_iff)
      moreover have "\<forall>e \<in> set es. bt_get m (fst e) = None" using new by (auto split: if_splits)
      ultimately show ?thesis using None unfolding step Inr
        by (auto simp: e tgrc_get_def split: option.splits)
    next
      case (Inl err)
      with Cons.IH [of "n + 1" ?m] Cons.prems obtain i where "i < length es" "err = DuplicateTgrcKey (n + 1 + i)"
        "distinct (map fst (take i es))"
        "fst (es ! i) \<in> fst ` set (take i es) \<or> bt_get ?m (fst (es ! i)) \<noteq> None"
        and new: "\<forall>e \<in> set (take i es). bt_get ?m (fst e) = None" by auto
      moreover have "key \<notin> fst ` set (take i es)" "\<forall>e \<in> set (take i es). bt_get m (fst e) = None"
        using new by (auto split: if_splits)
      ultimately show ?thesis using None unfolding step Inl
        by (auto simp: e split: if_splits intro!: exI [of _ "Suc i"])
    qed
  qed
qed

section \<open>Properties\<close>

text \<open>
  A registry reads back. The text of any list of entries with keys the registry allows and
  visible tokens, each bare or between either kind of quotes, is refused exactly when a key occurs
  twice, at the line of the first repeated key; otherwise every key reads exactly its own token,
  without the quotes, and no other key reads anything.
\<close>

theorem registry_reads_back:
  assumes "list_all writable es"
  shows "case tgrc_parse (registry_text es) of
     Inr m \<Rightarrow> distinct (map fst es)
       \<and> (\<lambda>k. tgrc_get k m) = map_option (\<lambda>e. BotToken (snd e)) \<circ> map_of es
   | Inl e \<Rightarrow> \<exists>i < length es. e = DuplicateTgrcKey (i + 1)
       \<and> distinct (map fst (take i es)) \<and> fst (es ! i) \<in> fst ` set (take i es)"
  using tgrc_lines_written [OF assms, of 1 "[]"]
  by (auto simp: tgrc_parse_def rust_lines_registry [OF assms] tgrc_get_def fun_eq_iff
      split: sum.splits option.splits)

definition demo_entries :: "(string \<times> quoting \<times> string) list" where
  "demo_entries = [(''rust_9527_bot_key'', Double, ''9527:AAbb''), (''rust_91_bot_key'', Bare, ''91:xyz'')]"

theorem registry_reads_back_witness:
  "\<exists>m. tgrc_parse (registry_text demo_entries) = Inr m
     \<and> tgrc_get ''rust_91_bot_key'' m = Some (BotToken ''91:xyz'')"
proof -
  have w: "list_all writable demo_entries" by code_simp
  have "case tgrc_parse (registry_text demo_entries) of Inr m \<Rightarrow> True | Inl _ \<Rightarrow> False" by code_simp
  then obtain m where m: "tgrc_parse (registry_text demo_entries) = Inr m" by (auto split: sum.splits)
  have "(\<lambda>k. tgrc_get k m) = map_option (\<lambda>e. BotToken (snd e)) \<circ> map_of demo_entries"
    using registry_reads_back [OF w] m by simp
  then have "tgrc_get ''rust_91_bot_key'' m = Some (BotToken ''91:xyz'')"
    by (auto dest!: fun_cong [of _ _ "''rust_91_bot_key''"] simp: demo_entries_def)
  with m show ?thesis by blast
qed

text \<open>
  A role's token comes from its own file whenever that file exists: it must be a regular file
  that neither the group nor others can use, with well-formed text whose trimmed content is one
  word. The registry answers only when the file is missing; a file that is insecure, unreadable or
  malformed is an error and is never bypassed.
\<close>

theorem file_before_registry:
  assumes "read_role_or_tgrc fs root role registry = Inr token"
  shows "case fs (path_for root role) of
     Some f \<Rightarrow> fe_regular f \<and> fe_mode f AND 63 = 0 \<and> (\<exists>content. fe_bytes f = Some content
       \<and> utf8_valid content \<and> token = BotToken (trim content)
       \<and> trim content \<noteq> [] \<and> \<not> has_whitespace (trim content))
   | None \<Rightarrow> \<exists>m. registry = Some m \<and> tgrc_get (default_tgrc_key role) m = Some token"
  using assms
  by (auto simp: read_role_or_tgrc_def read_role_def read_path_def private_mode_def read_to_string_def
      bot_token_parse_def Let_def bind_eq_Some_conv ok_or_def split: option.splits sum.splits if_splits)

definition demo_files :: file_system where
  "demo_files p = (if p = ''/etc/bot/control.token''
     then Some \<lparr> fe_regular = True, fe_mode = 384, fe_bytes = Some (''9527:AAbb'' @ [newline]) \<rparr> else None)"

theorem file_before_registry_witness:
  "trim (''9527:AAbb'' @ [newline]) = ''9527:AAbb''
   \<and> (384 :: nat) AND 63 = 0
   \<and> read_role_or_tgrc demo_files ''/etc/bot'' CredControl None = Inr (BotToken ''9527:AAbb'')"
proof -
  have r: "read_role_or_tgrc demo_files ''/etc/bot'' CredControl None = Inr (BotToken ''9527:AAbb'')"
    by code_simp
  have p: "demo_files (path_for ''/etc/bot'' CredControl)
    = Some \<lparr> fe_regular = True, fe_mode = 384, fe_bytes = Some (''9527:AAbb'' @ [newline]) \<rparr>"
    by code_simp
  have "(384 :: nat) AND 63 = 0" using file_before_registry [OF r] unfolding p by simp
  moreover have "trim (''9527:AAbb'' @ [newline]) = ''9527:AAbb''" by code_simp
  ultimately show ?thesis using r by blast
qed

end
