(* ===== verification/Surfaces.thy ===== *)
theory Surfaces
  imports Routing Credentials
begin

text \<open>
  The surfaces of \<open>rust/crates/telegram/src/lib.rs\<close>: which bot owns which token and chat, buttons
  and keyboards, message requests and the payloads they are rendered to, and callback tickets.
\<close>

section \<open>Errors\<close>

datatype telegram_error =
    TgTransport string
  | TgInvalidInput string
  | TgInvalidResponse string
  | TgApiRejected string "i64 option"

definition telegram_error_display :: "telegram_error \<Rightarrow> string" where
  "telegram_error_display e = (case e of
     TgTransport kind \<Rightarrow> ''Telegram transport failure: '' @ kind
   | TgInvalidInput message \<Rightarrow> message
   | TgInvalidResponse method \<Rightarrow> ''Telegram returned an invalid response to '' @ method
   | TgApiRejected method (Some code) \<Rightarrow>
       ''Telegram rejected '' @ method @ '' with error code '' @ show_int code
   | TgApiRejected method None \<Rightarrow> ''Telegram rejected '' @ method)"

record binding_issue =
  bi_code :: string
  bi_message :: string

definition binding_issue :: "string \<Rightarrow> string \<Rightarrow> binding_issue" where
  "binding_issue code message = \<lparr>bi_code = code, bi_message = message\<rparr>"

section \<open>Bots and their tokens\<close>

datatype bot_capability =
    CapControl | CapDiscussion | CapStatus | CapProductionAlert | CapCanaryAlert | CapApproval | CapArtifact

definition capability_role :: "bot_capability \<Rightarrow> credential_role" where
  "capability_role c = (case c of
     CapControl \<Rightarrow> CredControl | CapDiscussion \<Rightarrow> CredDiscussion | CapStatus \<Rightarrow> CredStatus
   | CapProductionAlert \<Rightarrow> CredProductionAlert | CapCanaryAlert \<Rightarrow> CredCanaryAlert
   | CapApproval \<Rightarrow> CredApproval | CapArtifact \<Rightarrow> CredArtifact)"

datatype update_consumer_id = UpdateConsumerId (consumer_str: string)

definition update_consumer_parse :: "string \<Rightarrow> binding_issue + update_consumer_id" where
  "update_consumer_parse v =
     (if is_blank v then Inl (binding_issue ''empty-update-consumer'' ''update consumer cannot be empty'')
      else Inr (UpdateConsumerId v))"

record bot_instance_binding =
  bib_instance_id :: string
  bib_capability :: bot_capability
  bib_credential_role :: credential_role
  bib_update_consumer :: "update_consumer_id option"

definition bot_instance_binding_new :: "string \<Rightarrow> bot_capability \<Rightarrow> bot_instance_binding" where
  "bot_instance_binding_new i c = \<lparr>bib_instance_id = i, bib_capability = c,
     bib_credential_role = capability_role c, bib_update_consumer = None\<rparr>"

definition with_update_consumer ::
  "bot_instance_binding \<Rightarrow> string \<Rightarrow> binding_issue + bot_instance_binding" where
  "with_update_consumer b consumer = (case update_consumer_parse consumer of
     Inl e \<Rightarrow> Inl e
   | Inr c \<Rightarrow> Inr (b\<lparr>bib_update_consumer := Some c\<rparr>))"

text \<open>The issues of one binding, after the instance ids and capabilities already seen.\<close>

definition binding_issues ::
  "string list \<Rightarrow> bot_capability list \<Rightarrow> bot_instance_binding \<Rightarrow> binding_issue list" where
  "binding_issues ids caps b =
     (if is_blank (bib_instance_id b)
      then [binding_issue ''empty-bot-instance'' ''bot instance id cannot be empty'']
      else if bib_instance_id b \<in> set ids
      then [binding_issue ''duplicate-bot-instance'' ''bot instance ids must be unique''] else [])
   @ (if bib_capability b \<in> set caps
      then [binding_issue ''duplicate-capability'' ''each bot capability can have one instance''] else [])
   @ (if bib_credential_role b \<noteq> capability_role (bib_capability b)
      then [binding_issue ''credential-role-mismatch''
        ''bot capability must use its matching credential role''] else [])"

fun validate_from ::
  "string list \<Rightarrow> bot_capability list \<Rightarrow> bot_instance_binding list \<Rightarrow> binding_issue list" where
  "validate_from ids caps [] = []"
| "validate_from ids caps (b # bs) = binding_issues ids caps b
     @ validate_from (if is_blank (bib_instance_id b) then ids else bib_instance_id b # ids)
         (bib_capability b # caps) bs"

definition validate_bindings :: "bot_instance_binding list \<Rightarrow> binding_issue list" where
  "validate_bindings bs = validate_from [] [] bs"

section \<open>Surfaces\<close>

record channel_binding =
  cb_bot_instance_id :: string
  cb_chat_id :: string

definition channel_binding_new :: "string \<Rightarrow> string \<Rightarrow> binding_issue + channel_binding" where
  "channel_binding_new instance chat =
     (if is_blank instance
      then Inl (binding_issue ''empty-bot-instance'' ''channel binding needs a bot instance id'')
      else if is_blank chat
      then Inl (binding_issue ''empty-chat-id'' ''channel binding needs a chat id'')
      else Inr \<lparr>cb_bot_instance_id = instance, cb_chat_id = chat\<rparr>)"

record forum_topic_binding =
  ft_channel :: channel_binding
  ft_message_thread_id :: i64

definition forum_topic_binding_new :: "channel_binding \<Rightarrow> i64 \<Rightarrow> binding_issue + forum_topic_binding" where
  "forum_topic_binding_new channel thread =
     (if thread \<le> 0 then Inl (binding_issue ''invalid-message-thread-id''
        ''forum topic needs a positive message thread id'')
      else Inr \<lparr>ft_channel = channel, ft_message_thread_id = thread\<rparr>)"

record native_comment_binding =
  nc_channel :: channel_binding
  nc_discussion_chat_id :: string
  nc_root_message_id :: i64

definition native_comment_binding_new ::
  "channel_binding \<Rightarrow> string \<Rightarrow> i64 \<Rightarrow> binding_issue + native_comment_binding" where
  "native_comment_binding_new channel chat root =
     (if is_blank chat \<or> root \<le> 0 then Inl (binding_issue ''invalid-native-comment-root''
        ''native comment binding needs a discussion chat and positive root message id'')
      else Inr \<lparr>nc_channel = channel, nc_discussion_chat_id = chat, nc_root_message_id = root\<rparr>)"

datatype surface_binding =
    SurfChannel channel_binding
  | SurfForumTopic forum_topic_binding
  | SurfNativeComment native_comment_binding

definition surface_instance_id :: "surface_binding \<Rightarrow> string" where
  "surface_instance_id s = (case s of
     SurfChannel c \<Rightarrow> cb_bot_instance_id c
   | SurfForumTopic t \<Rightarrow> cb_bot_instance_id (ft_channel t)
   | SurfNativeComment n \<Rightarrow> cb_bot_instance_id (nc_channel n))"

text \<open>The chat a message to a surface goes to.\<close>

definition surface_chat :: "surface_binding \<Rightarrow> string" where
  "surface_chat s = (case s of
     SurfChannel c \<Rightarrow> cb_chat_id c
   | SurfForumTopic t \<Rightarrow> cb_chat_id (ft_channel t)
   | SurfNativeComment n \<Rightarrow> nc_discussion_chat_id n)"

record message_reference =
  mr_chat_id :: string
  mr_message_id :: i64

definition message_reference_new :: "string \<Rightarrow> i64 \<Rightarrow> telegram_error + message_reference" where
  "message_reference_new chat message =
     (if is_blank chat \<or> message \<le> 0
      then Inl (TgInvalidInput ''message reference needs a chat id and positive message id'')
      else Inr \<lparr>mr_chat_id = chat, mr_message_id = message\<rparr>)"

definition surface_message_reference ::
  "surface_binding \<Rightarrow> i64 \<Rightarrow> telegram_error + message_reference" where
  "surface_message_reference s message = message_reference_new (surface_chat s) message"

section \<open>Keyboards\<close>

datatype parse_mode = MarkdownV2 | Html

definition parse_mode_api :: "parse_mode \<Rightarrow> string" where
  "parse_mode_api m = (case m of MarkdownV2 \<Rightarrow> ''MarkdownV2'' | Html \<Rightarrow> ''HTML'')"

record reply_parameters =
  rep_message_id :: i64
  rep_allow_without_reply :: "bool option"

definition reply_parameters_new :: "i64 \<Rightarrow> reply_parameters" where
  "reply_parameters_new m = \<lparr>rep_message_id = m, rep_allow_without_reply = None\<rparr>"

definition reply_parameters_value :: "reply_parameters \<Rightarrow> json" where
  "reply_parameters_value r = JObj
     (let v = jmap [(''message_id'', JInt (rep_message_id r))] in
      case rep_allow_without_reply r of None \<Rightarrow> v
      | Some b \<Rightarrow> bt_insert ''allow_sending_without_reply'' (JBool b) v)"

datatype button = CallbackButton string string | UrlButton string string

definition callback_button :: "string \<Rightarrow> string \<Rightarrow> telegram_error + button" where
  "callback_button text data =
     (if is_blank text then Inl (TgInvalidInput ''button text cannot be empty'')
      else if data = [] then Inl (TgInvalidInput ''callback data cannot be empty'')
      else if 64 < length data then Inl (TgInvalidInput ''callback data must be at most 64 bytes'')
      else Inr (CallbackButton text data))"

definition url_button :: "string \<Rightarrow> string \<Rightarrow> telegram_error + button" where
  "url_button text url =
     (if is_blank text then Inl (TgInvalidInput ''button text cannot be empty'')
      else if is_blank url then Inl (TgInvalidInput ''button URL cannot be empty'')
      else Inr (UrlButton text url))"

definition button_value :: "button \<Rightarrow> json" where
  "button_value b = (case b of
     CallbackButton text data \<Rightarrow> jobj [(''text'', JStr text), (''callback_data'', JStr data)]
   | UrlButton text url \<Rightarrow> jobj [(''text'', JStr text), (''url'', JStr url)])"

type_synonym keyboard = "button list list"

definition keyboard_new :: "keyboard \<Rightarrow> telegram_error + keyboard" where
  "keyboard_new rows =
     (if rows = [] \<or> list_ex (\<lambda>row. row = []) rows
      then Inl (TgInvalidInput ''inline keyboard rows cannot be empty'') else Inr rows)"

definition keyboard_value :: "keyboard \<Rightarrow> json" where
  "keyboard_value rows = JObj [(''inline_keyboard'', JArr (map (\<lambda>row. JArr (map button_value row)) rows))]"

section \<open>Message requests\<close>

record message_request =
  mq_text :: string
  mq_plain_fallback :: "string option"
  mq_parse_mode :: "parse_mode option"
  mq_reply_markup :: "keyboard option"
  mq_reply_parameters :: "reply_parameters option"
  mq_disable_link_preview :: bool

definition message_request_new :: "string \<Rightarrow> message_request" where
  "message_request_new text = \<lparr>mq_text = text, mq_plain_fallback = None, mq_parse_mode = None,
     mq_reply_markup = None, mq_reply_parameters = None, mq_disable_link_preview = True\<rparr>"

definition markdown_v2 :: "string \<Rightarrow> string \<Rightarrow> message_request" where
  "markdown_v2 markdown plain = (message_request_new markdown)
     \<lparr>mq_plain_fallback := Some plain, mq_parse_mode := Some MarkdownV2\<rparr>"

definition fallback :: "message_request \<Rightarrow> message_request option" where
  "fallback r = map_option (\<lambda>plain. r\<lparr>mq_text := plain, mq_plain_fallback := None, mq_parse_mode := None\<rparr>)
     (filter_opt (\<lambda>plain. plain \<noteq> mq_text r) (mq_plain_fallback r))"

record document_request =
  dr_file_name :: string
  dr_file_bytes :: string
  dr_caption :: "string option"
  dr_caption_parse_mode :: "parse_mode option"
  dr_reply_markup :: "keyboard option"

definition document_request_new :: "string \<Rightarrow> string \<Rightarrow> document_request" where
  "document_request_new name bytes = \<lparr>dr_file_name = name, dr_file_bytes = bytes, dr_caption = None,
     dr_caption_parse_mode = None, dr_reply_markup = None\<rparr>"

record callback_answer =
  ca_text :: "string option"
  ca_show_alert :: bool

section \<open>Payloads\<close>

text \<open>The reply to the root of a comment thread, which every message to the thread carries.\<close>

definition root_reply :: "native_comment_binding \<Rightarrow> json" where
  "root_reply n = jobj [(''message_id'', JInt (nc_root_message_id n)),
     (''allow_sending_without_reply'', JBool True)]"

definition base_payload :: "surface_binding \<Rightarrow> string \<Rightarrow> (string \<times> json) list" where
  "base_payload s text = (case s of
     SurfChannel c \<Rightarrow> jmap [(''chat_id'', JStr (cb_chat_id c)), (''text'', JStr text)]
   | SurfForumTopic t \<Rightarrow> jmap [(''chat_id'', JStr (cb_chat_id (ft_channel t))),
       (''message_thread_id'', JInt (ft_message_thread_id t)), (''text'', JStr text)]
   | SurfNativeComment n \<Rightarrow> jmap [(''chat_id'', JStr (nc_discussion_chat_id n)),
       (''text'', JStr text), (''reply_parameters'', root_reply n)])"

text \<open>\<open>payload[key] = value\<close>, if there is a value.\<close>

definition put_opt :: "string \<Rightarrow> json option \<Rightarrow> (string \<times> json) list \<Rightarrow> (string \<times> json) list" where
  "put_opt k v m = (case v of None \<Rightarrow> m | Some x \<Rightarrow> bt_insert k x m)"

definition no_preview :: json where
  "no_preview = jobj [(''is_disabled'', JBool True)]"

definition render_message_payload :: "surface_binding \<Rightarrow> message_request \<Rightarrow> json" where
  "render_message_payload s r =
     (let p0 = base_payload s (mq_text r);
          p1 = put_opt ''parse_mode'' (map_option (JStr \<circ> parse_mode_api) (mq_parse_mode r)) p0;
          p2 = put_opt ''reply_markup'' (map_option keyboard_value (mq_reply_markup r)) p1;
          p3 = (if bt_get p2 ''reply_parameters'' = None
                then put_opt ''reply_parameters'' (map_option reply_parameters_value (mq_reply_parameters r)) p2
                else p2)
      in JObj (if mq_disable_link_preview r then bt_insert ''link_preview_options'' no_preview p3 else p3))"

definition render_edit_text_payload :: "message_reference \<Rightarrow> message_request \<Rightarrow> json" where
  "render_edit_text_payload m r =
     (let p0 = jmap [(''chat_id'', JStr (mr_chat_id m)), (''message_id'', JInt (mr_message_id m)),
            (''text'', JStr (mq_text r))];
          p1 = put_opt ''parse_mode'' (map_option (JStr \<circ> parse_mode_api) (mq_parse_mode r)) p0;
          p2 = put_opt ''reply_markup'' (map_option keyboard_value (mq_reply_markup r)) p1
      in JObj (if mq_disable_link_preview r then bt_insert ''link_preview_options'' no_preview p2 else p2))"

definition document_fields :: "(nat \<Rightarrow> string) \<Rightarrow> surface_binding \<Rightarrow> (string \<times> string) list" where
  "document_fields fl s = (case s of
     SurfChannel c \<Rightarrow> [(''chat_id'', cb_chat_id c)]
   | SurfForumTopic t \<Rightarrow> [(''chat_id'', cb_chat_id (ft_channel t)),
       (''message_thread_id'', show_int (ft_message_thread_id t))]
   | SurfNativeComment n \<Rightarrow> [(''chat_id'', nc_discussion_chat_id n),
       (''reply_parameters'', json_text fl (root_reply n))])"

section \<open>Callback tickets\<close>

record callback_ticket =
  tk_nonce :: string
  tk_action :: string
  tk_bot_role :: runtime_bot_role
  tk_user_id :: i64
  tk_chat_id :: i64
  tk_space_id :: "string option"
  tk_generation :: i64
  tk_expires_at_ms :: i64

datatype ticket_validation =
    Accepted | Expired | WrongNonce | WrongRole | WrongUser | WrongChat | WrongSpace | WrongGeneration

definition ticket_data :: "callback_ticket \<Rightarrow> telegram_error + string" where
  "ticket_data t =
     (if is_blank (tk_nonce t) then Inl (TgInvalidInput ''callback nonce cannot be empty'')
      else let data = ''cb:'' @ tk_nonce t in
        if 64 < length data then Inl (TgInvalidInput ''callback data must be at most 64 bytes'')
        else Inr data)"

definition ticket_button :: "callback_ticket \<Rightarrow> string \<Rightarrow> telegram_error + button" where
  "ticket_button t text = (case ticket_data t of Inl e \<Rightarrow> Inl e | Inr data \<Rightarrow> callback_button text data)"

definition ticket_validate ::
  "callback_ticket \<Rightarrow> runtime_bot_role \<Rightarrow> telegram_callback \<Rightarrow> i64 \<Rightarrow> string option \<Rightarrow> i64
   \<Rightarrow> ticket_validation" where
  "ticket_validate t role c now space generation =
     (if tk_expires_at_ms t < now then Expired
      else if tcb_data c \<noteq> ''cb:'' @ tk_nonce t then WrongNonce
      else if role \<noteq> tk_bot_role t then WrongRole
      else if act_user_id (tcb_actor c) \<noteq> Some (tk_user_id t) then WrongUser
      else if tcb_chat_id c \<noteq> tk_chat_id t then WrongChat
      else if tk_space_id t \<noteq> space then WrongSpace
      else if tk_generation t \<noteq> generation then WrongGeneration
      else Accepted)"

section \<open>Laws of the bindings\<close>

lemma binding_issues_Nil:
  "binding_issues ids caps b = [] \<longleftrightarrow> \<not> is_blank (bib_instance_id b) \<and> bib_instance_id b \<notin> set ids
     \<and> bib_capability b \<notin> set caps \<and> bib_credential_role b = capability_role (bib_capability b)"
  by (auto simp: binding_issues_def)

lemma validate_from_Nil:
  "validate_from ids caps bs = [] \<longleftrightarrow>
     list_all (\<lambda>b. \<not> is_blank (bib_instance_id b) \<and> bib_credential_role b = capability_role (bib_capability b)) bs
   \<and> distinct (map bib_instance_id bs) \<and> set ids \<inter> bib_instance_id ` set bs = {}
   \<and> distinct (map bib_capability bs) \<and> set caps \<inter> bib_capability ` set bs = {}"
  by (induction ids caps bs rule: validate_from.induct) (auto simp: binding_issues_Nil)

lemma capability_role_inj: "inj capability_role"
  by (auto simp: inj_def capability_role_def split: bot_capability.splits)

section \<open>Properties\<close>

text \<open>
  The bindings of the bots raise no issue exactly when every instance has a name of its own, no
  capability is given twice and each uses the credential of its capability; no token file then
  serves two bots.
\<close>

theorem bindings_are_exclusive:
  "(validate_bindings bs = []) =
     (list_all (\<lambda>b. \<not> is_blank (bib_instance_id b) \<and> bib_credential_role b = capability_role (bib_capability b)) bs
    \<and> distinct (map bib_instance_id bs) \<and> distinct (map bib_capability bs)
    \<and> distinct (map (\<lambda>b. role_file_name (bib_credential_role b)) bs))"
proof -
  have names: "inj role_file_name"
    by (auto simp: inj_def role_file_name_def split: credential_role.splits)
  have "list_all (\<lambda>b. bib_credential_role b = capability_role (bib_capability b)) bs \<Longrightarrow>
      map (\<lambda>b. role_file_name (bib_credential_role b)) bs
        = map (role_file_name \<circ> capability_role) (map bib_capability bs)"
    by (simp add: list_all_iff)
  moreover have "inj (role_file_name \<circ> capability_role)"
    using names capability_role_inj by (rule inj_compose)
  ultimately have "list_all (\<lambda>b. bib_credential_role b = capability_role (bib_capability b)) bs \<Longrightarrow>
      distinct (map bib_capability bs) \<Longrightarrow> distinct (map (\<lambda>b. role_file_name (bib_credential_role b)) bs)"
    by (metis distinct_map inj_on_subset subset_UNIV)
  then show ?thesis by (auto simp: validate_bindings_def validate_from_Nil list_all_iff)
qed

end
