(* ===== verification/BotApi.thy ===== *)
theory BotApi
  imports Surfaces Menus
begin

text \<open>
  The Bot API client \<open>TelegramBotApi\<close> of \<open>rust/crates/telegram/src/lib.rs\<close> and its transports. The
  network is a state \<open>'n\<close> a request runs on. The HTTP client and the decoding of a response body,
  which are third-party code, are parameters.
\<close>

section \<open>Transports\<close>

type_synonym ('a, 'n) net = "'n \<Rightarrow> (string + 'a) \<times> 'n"

record 'n transport =
  tp_post_json :: "string \<Rightarrow> bot_token \<Rightarrow> string \<Rightarrow> json \<Rightarrow> nat option \<Rightarrow> (string, 'n) net"
  tp_post_multipart :: "string \<Rightarrow> bot_token \<Rightarrow> string \<Rightarrow> (string \<times> string) list \<Rightarrow> string \<Rightarrow> string
     \<Rightarrow> (string, 'n) net"
  tp_get_bytes :: "string \<Rightarrow> bot_token \<Rightarrow> string \<Rightarrow> (string, 'n) net"

text \<open>The default methods of the trait, around the one method every transport has.\<close>

definition text_only_transport ::
  "(string \<Rightarrow> bot_token \<Rightarrow> string \<Rightarrow> json \<Rightarrow> (string, 'n) net) \<Rightarrow> 'n transport" where
  "text_only_transport post = \<lparr>
     tp_post_json = (\<lambda>base token method payload _. post base token method payload),
     tp_post_multipart = (\<lambda>_ _ _ _ _ _ w. (Inl ''multipart-unsupported'', w)),
     tp_get_bytes = (\<lambda>_ _ _ w. (Inl ''download-unsupported'', w))\<rparr>"

datatype send_failure = SendTimeout | SendConnect | SendOther

record 'n http_client =
  hc_post_json :: "string \<Rightarrow> json \<Rightarrow> nat option \<Rightarrow> 'n \<Rightarrow> (send_failure + (nat \<times> string option)) \<times> 'n"
  hc_post_form :: "string \<Rightarrow> (string \<times> string) list \<Rightarrow> string \<times> string
     \<Rightarrow> 'n \<Rightarrow> (send_failure + (nat \<times> string option)) \<times> 'n"
  hc_get :: "string \<Rightarrow> 'n \<Rightarrow> (send_failure + (nat \<times> string option)) \<times> 'n"

definition trim_start_matches :: "char \<Rightarrow> string \<Rightarrow> string" where
  "trim_start_matches d s = dropWhile (\<lambda>c. c = d) s"

definition is_success :: "nat \<Rightarrow> bool" where
  "is_success status \<longleftrightarrow> 200 \<le> status \<and> status < 300"

definition should_parse_bot_api_response :: "nat \<Rightarrow> bool" where
  "should_parse_bot_api_response status \<longleftrightarrow> is_success status \<or> status = 400"

definition failure_kind :: "send_failure \<Rightarrow> string" where
  "failure_kind f = (case f of
     SendTimeout \<Rightarrow> ''timeout'' | SendConnect \<Rightarrow> ''connect'' | SendOther \<Rightarrow> ''request'')"

definition http_result :: "(nat \<Rightarrow> bool) \<Rightarrow> send_failure + (nat \<times> string option) \<Rightarrow> string + string" where
  "http_result accepted r = (case r of
     Inl f \<Rightarrow> Inl (failure_kind f)
   | Inr (status, body) \<Rightarrow>
       if \<not> accepted status then Inl ''http-status'' else ok_or body ''response-body'')"

definition method_url :: "string \<Rightarrow> bot_token \<Rightarrow> string \<Rightarrow> string" where
  "method_url base token method =
     trim_end_matches (CHR ''/'') base @ ''/bot'' @ token_str token @ ''/'' @ method"

definition file_url :: "string \<Rightarrow> bot_token \<Rightarrow> string \<Rightarrow> string" where
  "file_url base token path = trim_end_matches (CHR ''/'') base @ ''/file/bot'' @ token_str token
     @ ''/'' @ trim_start_matches (CHR ''/'') path"

definition reqwest_transport :: "'n http_client \<Rightarrow> 'n transport" where
  "reqwest_transport client = \<lparr>
     tp_post_json = (\<lambda>base token method payload timeout w.
       case hc_post_json client (method_url base token method) payload timeout w of
         (r, w1) \<Rightarrow> (http_result should_parse_bot_api_response r, w1)),
     tp_post_multipart = (\<lambda>base token method fields name bytes w.
       case hc_post_form client (method_url base token method) fields (name, bytes) w of
         (r, w1) \<Rightarrow> (http_result should_parse_bot_api_response r, w1)),
     tp_get_bytes = (\<lambda>base token path w.
       case hc_get client (file_url base token path) w of
         (r, w1) \<Rightarrow> (http_result is_success r, w1))\<rparr>"

section \<open>Responses\<close>

record 'r bot_api_response =
  br_ok :: bool
  br_result :: "'r option"
  br_error_code :: "i64 option"

definition parse_api_response ::
  "(string \<Rightarrow> 'r bot_api_response option) \<Rightarrow> string \<Rightarrow> string \<Rightarrow> telegram_error + 'r" where
  "parse_api_response decode body method = (case decode body of
     None \<Rightarrow> Inl (TgInvalidResponse method)
   | Some response \<Rightarrow>
       if br_ok response then ok_or (br_result response) (TgInvalidResponse method)
       else Inl (TgApiRejected method (br_error_code response)))"

section \<open>Calls\<close>

record 'n bot_api =
  ba_transport :: "'n transport"
  ba_base :: string

definition with_api_base :: "'n transport \<Rightarrow> string \<Rightarrow> 'n bot_api" where
  "with_api_base tp base = \<lparr>ba_transport = tp, ba_base = trim_end_matches (CHR ''/'') base\<rparr>"

definition bot_api_new :: "'n transport \<Rightarrow> 'n bot_api" where
  "bot_api_new tp = with_api_base tp ''https://api.telegram.org''"

type_synonym ('r, 'n) call = "'n \<Rightarrow> (telegram_error + 'r) \<times> 'n"

definition invalid :: "string \<Rightarrow> ('r, 'n) call" where
  "invalid message w = (Inl (TgInvalidInput message), w)"

definition call_with_timeout ::
  "(string \<Rightarrow> 'r bot_api_response option) \<Rightarrow> 'n bot_api \<Rightarrow> bot_token \<Rightarrow> string \<Rightarrow> json \<Rightarrow> nat option
   \<Rightarrow> ('r, 'n) call" where
  "call_with_timeout decode api token method payload timeout w =
     (case tp_post_json (ba_transport api) (ba_base api) token method payload timeout w of
        (Inl kind, w1) \<Rightarrow> (Inl (TgTransport kind), w1)
      | (Inr body, w1) \<Rightarrow> (parse_api_response decode body method, w1))"

definition call ::
  "(string \<Rightarrow> 'r bot_api_response option) \<Rightarrow> 'n bot_api \<Rightarrow> bot_token \<Rightarrow> string \<Rightarrow> json
   \<Rightarrow> ('r, 'n) call" where
  "call decode api token method payload = call_with_timeout decode api token method payload None"

text \<open>A request with formatted text; Telegram's rejection with code 400 is retried once in plain text.\<close>

definition call_rendered_with_timeout ::
  "(string \<Rightarrow> 'r bot_api_response option) \<Rightarrow> 'n bot_api \<Rightarrow> bot_token \<Rightarrow> string \<Rightarrow> message_request
   \<Rightarrow> (message_request \<Rightarrow> json) \<Rightarrow> nat option \<Rightarrow> ('r, 'n) call" where
  "call_rendered_with_timeout decode api token method request render timeout w =
     (if mq_text request = [] then invalid ''message text cannot be empty'' w
      else case call_with_timeout decode api token method (render request) timeout w of
        (Inl (TgApiRejected m (Some code)), w1) \<Rightarrow>
          if code = 400 then (case fallback request of
              Some plain \<Rightarrow> call_with_timeout decode api token method (render plain) timeout w1
            | None \<Rightarrow> (Inl (TgApiRejected m (Some code)), w1))
          else (Inl (TgApiRejected m (Some code)), w1)
      | (r, w1) \<Rightarrow> (r, w1))"

section \<open>Methods\<close>

definition get_me :: "(string \<Rightarrow> 'r bot_api_response option) \<Rightarrow> 'n bot_api \<Rightarrow> bot_token \<Rightarrow> ('r, 'n) call" where
  "get_me decode api token = call decode api token ''getMe'' (jobj [])"

definition get_file ::
  "(string \<Rightarrow> 'r bot_api_response option) \<Rightarrow> 'n bot_api \<Rightarrow> bot_token \<Rightarrow> string \<Rightarrow> ('r, 'n) call" where
  "get_file decode api token file_id =
     (if is_blank file_id then invalid ''file id cannot be empty''
      else call decode api token ''getFile'' (jobj [(''file_id'', JStr file_id)]))"

definition download_file :: "'n bot_api \<Rightarrow> bot_token \<Rightarrow> string \<Rightarrow> nat \<Rightarrow> (string, 'n) call" where
  "download_file api token path max_bytes w =
     (if is_blank path then invalid ''file path cannot be empty'' w
      else if max_bytes = 0 then invalid ''download limit cannot be zero'' w
      else case tp_get_bytes (ba_transport api) (ba_base api) token path w of
        (Inl kind, w1) \<Rightarrow> (Inl (TgTransport kind), w1)
      | (Inr bytes, w1) \<Rightarrow>
          if max_bytes < length bytes then invalid ''download exceeds configured limit'' w1
          else (Inr bytes, w1))"

definition allowed_updates :: "string list" where
  "allowed_updates = [''message'', ''edited_message'', ''callback_query'', ''my_chat_member'']"

definition or_null :: "json option \<Rightarrow> json" where
  "or_null v = unwrap_or v JNull"

text \<open>The token is the one of the caller's lease.\<close>

definition get_updates ::
  "(string \<Rightarrow> 'r bot_api_response option) \<Rightarrow> 'n bot_api \<Rightarrow> bot_token \<Rightarrow> i64 option \<Rightarrow> nat
   \<Rightarrow> ('r, 'n) call" where
  "get_updates decode api token offset timeout_seconds = call decode api token ''getUpdates''
     (jobj [(''offset'', or_null (map_option JInt offset)),
       (''timeout'', JInt (int (min timeout_seconds 50))),
       (''allowed_updates'', JArr (map JStr allowed_updates))])"

definition set_my_commands ::
  "(string \<Rightarrow> 'r bot_api_response option) \<Rightarrow> 'n bot_api \<Rightarrow> bot_token \<Rightarrow> menu_entry list
   \<Rightarrow> bot_command_scope \<Rightarrow> ('r, 'n) call" where
  "set_my_commands decode api token commands scope =
     (if commands = [] then invalid ''command menu cannot be empty''
      else call decode api token ''setMyCommands''
        (jobj [(''commands'', JArr (map menu_entry_to_value commands)), (''scope'', scope_to_value scope)]))"

definition delete_my_commands ::
  "(string \<Rightarrow> 'r bot_api_response option) \<Rightarrow> 'n bot_api \<Rightarrow> bot_token \<Rightarrow> bot_command_scope
   \<Rightarrow> ('r, 'n) call" where
  "delete_my_commands decode api token scope =
     call decode api token ''deleteMyCommands'' (jobj [(''scope'', scope_to_value scope)])"

definition send_text_with_markup ::
  "(string \<Rightarrow> 'r bot_api_response option) \<Rightarrow> 'n bot_api \<Rightarrow> bot_token \<Rightarrow> surface_binding \<Rightarrow> string
   \<Rightarrow> json option \<Rightarrow> ('r, 'n) call" where
  "send_text_with_markup decode api token surface text markup =
     (if text = [] then invalid ''message text cannot be empty''
      else call decode api token ''sendMessage''
        (JObj (put_opt ''reply_markup'' markup (base_payload surface text))))"

definition send_text ::
  "(string \<Rightarrow> 'r bot_api_response option) \<Rightarrow> 'n bot_api \<Rightarrow> bot_token \<Rightarrow> surface_binding \<Rightarrow> string
   \<Rightarrow> ('r, 'n) call" where
  "send_text decode api token surface text = send_text_with_markup decode api token surface text None"

definition send_rendered_with_timeout ::
  "(string \<Rightarrow> 'r bot_api_response option) \<Rightarrow> 'n bot_api \<Rightarrow> bot_token \<Rightarrow> surface_binding
   \<Rightarrow> message_request \<Rightarrow> nat option \<Rightarrow> ('r, 'n) call" where
  "send_rendered_with_timeout decode api token surface request timeout =
     call_rendered_with_timeout decode api token ''sendMessage'' request (render_message_payload surface) timeout"

definition edit_text_with_timeout ::
  "(string \<Rightarrow> 'r bot_api_response option) \<Rightarrow> 'n bot_api \<Rightarrow> bot_token \<Rightarrow> message_reference
   \<Rightarrow> message_request \<Rightarrow> nat option \<Rightarrow> ('r, 'n) call" where
  "edit_text_with_timeout decode api token m request timeout =
     call_rendered_with_timeout decode api token ''editMessageText'' request (render_edit_text_payload m) timeout"

definition edit_text_with_markup ::
  "(string \<Rightarrow> 'r bot_api_response option) \<Rightarrow> 'n bot_api \<Rightarrow> bot_token \<Rightarrow> message_reference \<Rightarrow> string
   \<Rightarrow> json option \<Rightarrow> ('r, 'n) call" where
  "edit_text_with_markup decode api token m text markup =
     (if text = [] then invalid ''message text cannot be empty''
      else call decode api token ''editMessageText''
        (JObj (put_opt ''reply_markup'' markup (jmap [(''chat_id'', JStr (mr_chat_id m)),
           (''message_id'', JInt (mr_message_id m)), (''text'', JStr text),
           (''link_preview_options'', no_preview)]))))"

definition edit_reply_markup ::
  "(string \<Rightarrow> 'r bot_api_response option) \<Rightarrow> 'n bot_api \<Rightarrow> bot_token \<Rightarrow> message_reference
   \<Rightarrow> keyboard option \<Rightarrow> ('r, 'n) call" where
  "edit_reply_markup decode api token m markup = call decode api token ''editMessageReplyMarkup''
     (jobj [(''chat_id'', JStr (mr_chat_id m)), (''message_id'', JInt (mr_message_id m)),
       (''reply_markup'', or_null (map_option keyboard_value markup))])"

definition delete_message_with_timeout ::
  "(string \<Rightarrow> 'r bot_api_response option) \<Rightarrow> 'n bot_api \<Rightarrow> bot_token \<Rightarrow> message_reference
   \<Rightarrow> nat option \<Rightarrow> ('r, 'n) call" where
  "delete_message_with_timeout decode api token m timeout =
     call_with_timeout decode api token ''deleteMessage''
       (jobj [(''chat_id'', JStr (mr_chat_id m)), (''message_id'', JInt (mr_message_id m))]) timeout"

definition document_form :: "(nat \<Rightarrow> string) \<Rightarrow> surface_binding \<Rightarrow> document_request \<Rightarrow> (string \<times> string) list" where
  "document_form fl surface r = document_fields fl surface
     @ (case filter_opt (\<lambda>c. c \<noteq> []) (dr_caption r) of None \<Rightarrow> [] | Some c \<Rightarrow> [(''caption'', c)])
     @ (case (dr_caption r, dr_caption_parse_mode r) of
          (Some c, Some mode) \<Rightarrow> [(''parse_mode'', parse_mode_api mode)] | _ \<Rightarrow> [])
     @ (case dr_reply_markup r of None \<Rightarrow> [] | Some k \<Rightarrow> [(''reply_markup'', json_text fl (keyboard_value k))])"

definition send_document_rendered ::
  "(nat \<Rightarrow> string) \<Rightarrow> (string \<Rightarrow> 'r bot_api_response option) \<Rightarrow> 'n bot_api \<Rightarrow> bot_token \<Rightarrow> surface_binding
   \<Rightarrow> document_request \<Rightarrow> ('r, 'n) call" where
  "send_document_rendered fl decode api token surface r w =
     (if is_blank (dr_file_name r) then invalid ''document file name cannot be empty'' w
      else if dr_file_bytes r = [] then invalid ''document cannot be empty'' w
      else case tp_post_multipart (ba_transport api) (ba_base api) token ''sendDocument''
          (document_form fl surface r) (dr_file_name r) (dr_file_bytes r) w of
        (Inl kind, w1) \<Rightarrow> (Inl (TgTransport kind), w1)
      | (Inr body, w1) \<Rightarrow> (parse_api_response decode body ''sendDocument'', w1))"

definition send_document ::
  "(nat \<Rightarrow> string) \<Rightarrow> (string \<Rightarrow> 'r bot_api_response option) \<Rightarrow> 'n bot_api \<Rightarrow> bot_token \<Rightarrow> surface_binding
   \<Rightarrow> string \<Rightarrow> string \<Rightarrow> string option \<Rightarrow> ('r, 'n) call" where
  "send_document fl decode api token surface name bytes caption =
     send_document_rendered fl decode api token surface
       ((document_request_new name bytes)\<lparr>dr_caption := filter_opt (\<lambda>c. c \<noteq> []) caption\<rparr>)"

definition answer_callback ::
  "(string \<Rightarrow> 'r bot_api_response option) \<Rightarrow> 'n bot_api \<Rightarrow> bot_token \<Rightarrow> string \<Rightarrow> callback_answer
   \<Rightarrow> ('r, 'n) call" where
  "answer_callback decode api token query answer =
     (if is_blank query then invalid ''callback query id cannot be empty''
      else call decode api token ''answerCallbackQuery''
        (JObj (put_opt ''text'' (map_option JStr (filter_opt (\<lambda>t. t \<noteq> []) (ca_text answer)))
          (jmap [(''callback_query_id'', JStr query), (''show_alert'', JBool (ca_show_alert answer))]))))"

definition answer_callback_query ::
  "(string \<Rightarrow> 'r bot_api_response option) \<Rightarrow> 'n bot_api \<Rightarrow> bot_token \<Rightarrow> string \<Rightarrow> string option
   \<Rightarrow> ('r, 'n) call" where
  "answer_callback_query decode api token query text = answer_callback decode api token query
     \<lparr>ca_text = filter_opt (\<lambda>t. t \<noteq> []) text, ca_show_alert = False\<rparr>"

definition get_chat ::
  "(string \<Rightarrow> 'r bot_api_response option) \<Rightarrow> 'n bot_api \<Rightarrow> bot_token \<Rightarrow> i64 \<Rightarrow> ('r, 'n) call" where
  "get_chat decode api token chat = call decode api token ''getChat'' (jobj [(''chat_id'', JInt chat)])"

definition get_chat_member ::
  "(string \<Rightarrow> 'r bot_api_response option) \<Rightarrow> 'n bot_api \<Rightarrow> bot_token \<Rightarrow> i64 \<Rightarrow> i64 \<Rightarrow> ('r, 'n) call" where
  "get_chat_member decode api token chat user = call decode api token ''getChatMember''
     (jobj [(''chat_id'', JInt chat), (''user_id'', JInt user)])"

section \<open>Laws\<close>

lemma bt_get_put_opt: "bt_get (put_opt k v m) j = (if j = k \<and> v \<noteq> None then v else bt_get m j)"
  by (auto simp: put_opt_def split: option.splits)

lemma bt_get_base:
  "bt_get (base_payload s text) k =
     (if k = ''text'' then Some (JStr text) else if k = ''chat_id'' then Some (JStr (surface_chat s))
      else bt_get (base_payload s []) k)"
  by (cases s) (simp_all add: base_payload_def surface_chat_def jmap_def bt_get_def)

lemma bt_get_base_other:
  "bt_get (base_payload s text) ''parse_mode'' = None" "bt_get (base_payload s text) ''reply_markup'' = None"
  "bt_get (base_payload s text) ''link_preview_options'' = None"
  by (cases s; simp add: base_payload_def jmap_def bt_get_def)+

lemma fallback_Some:
  "fallback r = Some q \<longleftrightarrow> (\<exists>plain. mq_plain_fallback r = Some plain \<and> plain \<noteq> mq_text r
     \<and> q = r\<lparr>mq_text := plain, mq_plain_fallback := None, mq_parse_mode := None\<rparr>)"
  by (auto simp: fallback_def)

lemma payload_chat: "jget ''chat_id'' (render_message_payload s r) = Some (JStr (surface_chat s))"
  by (simp add: render_message_payload_def Let_def bt_get_put_opt bt_get_base [of s "mq_text r"])

lemma payload_text: "jget ''text'' (render_message_payload s r) = Some (JStr (mq_text r))"
  by (simp add: render_message_payload_def Let_def bt_get_put_opt bt_get_base [of s "mq_text r"])

lemma payload_fallback:
  assumes "fallback r = Some q"
  shows "(\<lambda>k. jget k (render_message_payload s q)) =
    (\<lambda>k. jget k (render_message_payload s r))(''text'' := Some (JStr (mq_text q)), ''parse_mode'' := None)"
proof -
  from assms obtain plain where q: "q = r\<lparr>mq_text := plain, mq_plain_fallback := None, mq_parse_mode := None\<rparr>"
    by (auto simp: fallback_Some)
  show ?thesis
    by (cases "mq_reply_markup r"; cases "mq_disable_link_preview r"; rule ext)
      (simp_all add: q render_message_payload_def Let_def bt_get_put_opt
        bt_get_base [of s plain] bt_get_base [of s "mq_text r"] bt_get_base_other)
qed

text \<open>A transport that keeps a log of the method and payload of every request.\<close>

definition logged :: "'n transport \<Rightarrow> ((string \<times> json) list \<times> 'n) transport" where
  "logged tp = \<lparr>
     tp_post_json = (\<lambda>base token method payload timeout (sent, w).
       case tp_post_json tp base token method payload timeout w of
         (r, w1) \<Rightarrow> (r, sent @ [(method, payload)], w1)),
     tp_post_multipart = (\<lambda>base token method fields name bytes (sent, w).
       case tp_post_multipart tp base token method fields name bytes w of (r, w1) \<Rightarrow> (r, sent, w1)),
     tp_get_bytes = (\<lambda>base token path (sent, w).
       case tp_get_bytes tp base token path w of (r, w1) \<Rightarrow> (r, sent, w1))\<rparr>"

lemma call_logged:
  "call_with_timeout decode (with_api_base (logged tp) base) token method payload timeout (sent, w) =
    (case call_with_timeout decode (with_api_base tp base) token method payload timeout w of
      (r, w1) \<Rightarrow> (r, sent @ [(method, payload)], w1))"
  by (auto simp: call_with_timeout_def with_api_base_def logged_def split: prod.splits sum.splits)

text \<open>Whether a result is Telegram's rejection with code 400.\<close>

definition rejected_400 :: "telegram_error + 'r \<Rightarrow> bool" where
  "rejected_400 r = (case r of Inl (TgApiRejected _ (Some code)) \<Rightarrow> code = 400 | _ \<Rightarrow> False)"

lemma call_rendered_steps:
  "call_rendered_with_timeout decode api token method request render timeout w =
    (if mq_text request = [] then invalid ''message text cannot be empty'' w
     else let (r, w1) = call_with_timeout decode api token method (render request) timeout w in
       case fallback request of
         Some plain \<Rightarrow> if rejected_400 r then call_with_timeout decode api token method (render plain) timeout w1
           else (r, w1)
       | None \<Rightarrow> (r, w1))"
  by (auto simp: call_rendered_with_timeout_def rejected_400_def
      split: prod.splits sum.splits option.splits telegram_error.splits)

section \<open>Properties\<close>

text \<open>
  A formatted message is sent once and, only if Telegram rejects it with code 400 and a different
  plain text is given, sent once more in plain text. The retry goes to the same chat, topic and
  reply target with the same keyboard: the two payloads differ in the text and the parse mode only.
  An empty text sends nothing.
\<close>

theorem rendered_falls_back_once:
  "send_rendered_with_timeout decode (with_api_base (logged tp) base) token s r timeout ([], w) =
    (if mq_text r = [] then (Inl (TgInvalidInput ''message text cannot be empty''), [], w)
     else case call_with_timeout decode (with_api_base tp base) token ''sendMessage''
         (render_message_payload s r) timeout w of
       (first, w1) \<Rightarrow> (case (rejected_400 first, fallback r) of
           (True, Some plain) \<Rightarrow> (case call_with_timeout decode (with_api_base tp base) token ''sendMessage''
               (render_message_payload s plain) timeout w1 of
             (second, w2) \<Rightarrow> (second, [(''sendMessage'', render_message_payload s r),
                 (''sendMessage'', render_message_payload s plain)], w2))
         | _ \<Rightarrow> (first, [(''sendMessage'', render_message_payload s r)], w1)))
   \<and> jget ''chat_id'' (render_message_payload s r) = Some (JStr (surface_chat s))
   \<and> (case fallback r of None \<Rightarrow> True | Some plain \<Rightarrow>
        mq_plain_fallback r = Some (mq_text plain) \<and> mq_text plain \<noteq> mq_text r
      \<and> (\<lambda>k. jget k (render_message_payload s plain)) =
          (\<lambda>k. jget k (render_message_payload s r))(''text'' := Some (JStr (mq_text plain)), ''parse_mode'' := None))"
proof (intro conjI)
  show "case fallback r of None \<Rightarrow> True | Some plain \<Rightarrow>
        mq_plain_fallback r = Some (mq_text plain) \<and> mq_text plain \<noteq> mq_text r
      \<and> (\<lambda>k. jget k (render_message_payload s plain)) =
          (\<lambda>k. jget k (render_message_payload s r))(''text'' := Some (JStr (mq_text plain)), ''parse_mode'' := None)"
    using payload_fallback [of r _ s] by (auto simp: fallback_Some split: option.split)
qed (auto simp: payload_chat send_rendered_with_timeout_def call_rendered_steps invalid_def Let_def call_logged
    split: prod.splits option.splits bool.splits)

end
