(* ===== verification/Lease.thy ===== *)
theory Lease
  imports Surfaces
begin

text \<open>
  Ownership of a polling token, of \<open>rust/crates/telegram/src/lib.rs\<close>: a registry per process and an
  advisory lock file per token across processes. The digest of the lock file's name (SHA-256 of a
  third-party crate) is a parameter; \<open>lock_env\<close> says which file operations succeed.
\<close>

section \<open>Leases of one process\<close>

datatype lease_error = AlreadyLeased update_consumer_id update_consumer_id | LockUnavailable | LeasePanics

definition lease_error_display :: "lease_error \<Rightarrow> string option" where
  "lease_error_display e = (case e of
     AlreadyLeased requested active \<Rightarrow> Some (''update consumer '' @ consumer_str requested
       @ '' cannot acquire a token leased by '' @ consumer_str active)
   | LockUnavailable \<Rightarrow> Some ''token ownership lock is unavailable''
   | LeasePanics \<Rightarrow> None)"

record token_lease =
  tl_token :: bot_token
  tl_consumer :: update_consumer_id
  tl_process_lock :: "string option"

type_synonym lease_registry = "bot_token \<Rightarrow> update_consumer_id option"

definition lease_acquire ::
  "bot_token \<Rightarrow> update_consumer_id \<Rightarrow> lease_registry \<Rightarrow> (lease_error + token_lease) \<times> lease_registry" where
  "lease_acquire token consumer reg = (case reg token of
     Some owner \<Rightarrow> (Inl (AlreadyLeased consumer owner), reg)
   | None \<Rightarrow> (Inr \<lparr>tl_token = token, tl_consumer = consumer, tl_process_lock = None\<rparr>,
       reg(token \<mapsto> consumer)))"

text \<open>\<open>Drop for TokenLease\<close>: the registration, then the fields, of which the lock is one.\<close>

definition lease_release :: "token_lease \<Rightarrow> lease_registry \<Rightarrow> lease_registry" where
  "lease_release l reg = (if reg (tl_token l) = Some (tl_consumer l) then reg(tl_token l := None) else reg)"

section \<open>The lock file\<close>

record lock_env =
  le_pid :: nat
  le_opened :: bool
  le_written :: bool

definition lock_path :: "(string \<Rightarrow> string) \<Rightarrow> string \<Rightarrow> bot_token \<Rightarrow> string" where
  "lock_path digest dir token = path_join dir (''telegram-'' @ digest (token_str token) @ ''.lock'')"

text \<open>\<open>String::truncate\<close> panics inside a character.\<close>

definition str_truncate :: "nat \<Rightarrow> string \<Rightarrow> string option" where
  "str_truncate n s = (if length s \<le> n then Some s else if cont_byte (s ! n) then None else Some (take n s))"

definition lock_owner :: "nat \<Rightarrow> update_consumer_id \<Rightarrow> string" where
  "lock_owner pid consumer = ''pid='' @ show_nat pid @ '' consumer='' @ consumer_str consumer @ [newline]"

text \<open>The paths in \<open>held\<close> are locked by an open file; an error closes the file and with it the lock.\<close>

definition lock_acquire ::
  "lock_env \<Rightarrow> (string \<Rightarrow> string) \<Rightarrow> string \<Rightarrow> bot_token \<Rightarrow> update_consumer_id \<Rightarrow> string list
   \<Rightarrow> (lease_error + string) \<times> string list" where
  "lock_acquire env digest dir token consumer held =
     (let path = lock_path digest dir token in
      if \<not> le_opened env then (Inl LockUnavailable, held)
      else if path \<in> set held
      then (Inl (AlreadyLeased consumer (UpdateConsumerId ''external-process'')), held)
      else case str_truncate 256 (lock_owner (le_pid env) consumer) of
          None \<Rightarrow> (Inl LeasePanics, held)
        | Some owner \<Rightarrow> if le_written env then (Inr path, path # held) else (Inl LockUnavailable, held))"

definition acquire_with_lock ::
  "lock_env \<Rightarrow> (string \<Rightarrow> string) \<Rightarrow> string \<Rightarrow> bot_token \<Rightarrow> update_consumer_id \<Rightarrow> lease_registry
   \<Rightarrow> string list \<Rightarrow> (lease_error + token_lease) \<times> lease_registry \<times> string list" where
  "acquire_with_lock env digest dir token consumer reg held =
     (case lease_acquire token consumer reg of
        (Inl e, reg1) \<Rightarrow> (Inl e, reg1, held)
      | (Inr l, reg1) \<Rightarrow> (case lock_acquire env digest dir token consumer held of
            (Inr path, held1) \<Rightarrow> (Inr (l\<lparr>tl_process_lock := Some path\<rparr>), reg1, held1)
          | (Inl e, held1) \<Rightarrow> (Inl e, lease_release l reg1, held1)))"

definition lease_drop :: "token_lease \<Rightarrow> lease_registry \<Rightarrow> string list \<Rightarrow> lease_registry \<times> string list" where
  "lease_drop l reg held = (lease_release l reg,
     (case tl_process_lock l of None \<Rightarrow> held | Some path \<Rightarrow> removeAll path held))"

section \<open>Processes that poll\<close>

text \<open>Every process with its registry, the locks of the machine and the leases in use.\<close>

record lease_world =
  lw_registry :: "nat \<Rightarrow> lease_registry"
  lw_held :: "string list"
  lw_live :: "(nat \<times> token_lease) list"

definition lease_start :: lease_world where
  "lease_start = \<lparr>lw_registry = (\<lambda>_. Map.empty), lw_held = [], lw_live = []\<rparr>"

definition acquire_step ::
  "lock_env \<Rightarrow> (string \<Rightarrow> string) \<Rightarrow> string \<Rightarrow> nat \<Rightarrow> bot_token \<Rightarrow> update_consumer_id \<Rightarrow> lease_world
   \<Rightarrow> lease_world" where
  "acquire_step env digest dir p token consumer w =
     (case acquire_with_lock env digest dir token consumer (lw_registry w p) (lw_held w) of
        (r, reg, held) \<Rightarrow> w\<lparr>lw_registry := (lw_registry w)(p := reg), lw_held := held,
          lw_live := (case r of Inl _ \<Rightarrow> lw_live w | Inr l \<Rightarrow> (p, l) # lw_live w)\<rparr>)"

definition drop_step :: "nat \<times> token_lease \<Rightarrow> lease_world \<Rightarrow> lease_world" where
  "drop_step e w = (case lease_drop (snd e) (lw_registry w (fst e)) (lw_held w) of
     (reg, held) \<Rightarrow> w\<lparr>lw_registry := (lw_registry w)(fst e := reg), lw_held := held,
       lw_live := removeAll e (lw_live w)\<rparr>)"

text \<open>A process that dies: the system closes its files, and a new process starts with an empty registry.\<close>

definition crash_step :: "nat \<Rightarrow> lease_world \<Rightarrow> lease_world" where
  "crash_step p w = w\<lparr>lw_registry := (lw_registry w)(p := Map.empty),
     lw_held := filter (\<lambda>path. \<not> list_ex (\<lambda>(q, l). q = p \<and> tl_process_lock l = Some path) (lw_live w)) (lw_held w),
     lw_live := filter (\<lambda>(q, l). q \<noteq> p) (lw_live w)\<rparr>"

inductive lease_step :: "(string \<Rightarrow> string) \<Rightarrow> string \<Rightarrow> lease_world \<Rightarrow> lease_world \<Rightarrow> bool"
  for digest :: "string \<Rightarrow> string" and dir :: string where
  lease_acquires: "lease_step digest dir w (acquire_step env digest dir p token consumer w)"
| lease_drops: "e \<in> set (lw_live w) \<Longrightarrow> lease_step digest dir w (drop_step e w)"
| lease_crashes: "lease_step digest dir w (crash_step p w)"

inductive lease_reachable :: "(string \<Rightarrow> string) \<Rightarrow> string \<Rightarrow> lease_world \<Rightarrow> bool"
  for digest :: "string \<Rightarrow> string" and dir :: string where
  lease_starts: "lease_reachable digest dir lease_start"
| lease_runs: "lease_reachable digest dir w \<Longrightarrow> lease_step digest dir w w1 \<Longrightarrow> lease_reachable digest dir w1"

inductive_cases lease_step_cases: "lease_step digest dir w w1"

section \<open>Invariant\<close>

text \<open>
  The locks held are those of the leases in use, each once, and the registries hold exactly the
  leases in use.
\<close>

definition entry_path :: "(string \<Rightarrow> string) \<Rightarrow> string \<Rightarrow> nat \<times> token_lease \<Rightarrow> string" where
  "entry_path digest dir e = lock_path digest dir (tl_token (snd e))"

definition lease_ok :: "(string \<Rightarrow> string) \<Rightarrow> string \<Rightarrow> lease_world \<Rightarrow> bool" where
  "lease_ok digest dir w \<longleftrightarrow>
     (\<forall>e \<in> set (lw_live w). tl_process_lock (snd e) = Some (entry_path digest dir e))
   \<and> lw_held w = map (entry_path digest dir) (lw_live w)
   \<and> distinct (map (entry_path digest dir) (lw_live w))
   \<and> (\<forall>p t c. lw_registry w p t = Some c \<longleftrightarrow> (\<exists>l. (p, l) \<in> set (lw_live w) \<and> tl_token l = t \<and> tl_consumer l = c))"

lemma lease_ok_start: "lease_ok digest dir lease_start"
  by (simp add: lease_ok_def lease_start_def)

text \<open>An acquisition succeeds with both the registration and the lock, or changes nothing.\<close>

lemma acquire_with_lock_cases:
  "(\<exists>e. acquire_with_lock env digest dir token consumer reg held = (Inl e, reg, held))
   \<or> (reg token = None \<and> lock_path digest dir token \<notin> set held
      \<and> acquire_with_lock env digest dir token consumer reg held =
        (Inr \<lparr>tl_token = token, tl_consumer = consumer, tl_process_lock = Some (lock_path digest dir token)\<rparr>,
         reg(token \<mapsto> consumer), lock_path digest dir token # held))"
  by (auto simp: acquire_with_lock_def lease_acquire_def lock_acquire_def lease_release_def Let_def
      fun_upd_idem split: option.splits)

lemma lease_ok_registry:
  "lease_ok digest dir w \<Longrightarrow> lw_registry w p t = Some c
     \<longleftrightarrow> (\<exists>l. (p, l) \<in> set (lw_live w) \<and> tl_token l = t \<and> tl_consumer l = c)"
  by (simp add: lease_ok_def)

lemma lease_ok_acquire:
  assumes "lease_ok digest dir w"
  shows "lease_ok digest dir (acquire_step env digest dir p token consumer w)"
  using acquire_with_lock_cases [of env digest dir token consumer "lw_registry w p" "lw_held w"]
proof (elim disjE exE conjE)
  fix e
  assume "acquire_with_lock env digest dir token consumer (lw_registry w p) (lw_held w) =
    (Inl e, lw_registry w p, lw_held w)"
  then show ?thesis using assms by (simp add: acquire_step_def)
next
  define new where "new = \<lparr>tl_token = token, tl_consumer = consumer,
    tl_process_lock = Some (lock_path digest dir token)\<rparr>"
  then have new: "tl_token new = token" "tl_consumer new = consumer"
    "tl_process_lock new = Some (lock_path digest dir token)" by simp_all
  assume none: "lw_registry w p token = None" and free: "lock_path digest dir token \<notin> set (lw_held w)"
    and "acquire_with_lock env digest dir token consumer (lw_registry w p) (lw_held w) =
     (Inr \<lparr>tl_token = token, tl_consumer = consumer, tl_process_lock = Some (lock_path digest dir token)\<rparr>,
      (lw_registry w p)(token \<mapsto> consumer), lock_path digest dir token # lw_held w)"
  then have step: "acquire_step env digest dir p token consumer w =
      w\<lparr>lw_registry := (lw_registry w)(p := (lw_registry w p)(token \<mapsto> consumer)),
        lw_held := lock_path digest dir token # lw_held w, lw_live := (p, new) # lw_live w\<rparr>"
    by (simp add: acquire_step_def new_def)
  have other: "tl_token l \<noteq> token" if "(p, l) \<in> set (lw_live w)" for l
    using that none lease_ok_registry [OF assms, of p token "tl_consumer l"] by auto
  then have "((lw_registry w)(p := (lw_registry w p)(token \<mapsto> consumer))) q t = Some c
      \<longleftrightarrow> (\<exists>l. (q, l) \<in> set ((p, new) # lw_live w) \<and> tl_token l = t \<and> tl_consumer l = c)" for q t c
  proof (cases "q = p \<and> t = token")
    case True
    then have "((lw_registry w)(p := (lw_registry w p)(token \<mapsto> consumer))) q t = Some c \<longleftrightarrow> consumer = c" by simp
    with True other new(1,2) show ?thesis by (metis list.set_intros(1) prod.inject set_ConsD)
  next
    case False
    then have "((lw_registry w)(p := (lw_registry w p)(token \<mapsto> consumer))) q t = lw_registry w q t" by auto
    with False show ?thesis using lease_ok_registry [OF assms, of q t c] by (auto simp: new)
  qed
  then show ?thesis
    unfolding step using assms free by (auto simp: lease_ok_def entry_path_def new)
qed

lemma lease_ok_path:
  assumes "lease_ok digest dir w" and "e \<in> set (lw_live w)" and "f \<in> set (lw_live w)"
    and "entry_path digest dir e = entry_path digest dir f"
  shows "e = f"
  using assms by (auto simp: lease_ok_def distinct_map dest: inj_onD)

lemma entry_path_tokens:
  "map (entry_path digest dir) es = map (lock_path digest dir) (map (tl_token \<circ> snd) es)"
  by (simp add: entry_path_def)

lemma lease_ok_distinct: "lease_ok digest dir w \<Longrightarrow> distinct (map (entry_path digest dir) (lw_live w))"
  by (simp add: lease_ok_def)

lemma lease_ok_held: "lease_ok digest dir w \<Longrightarrow> lw_held w = map (entry_path digest dir) (lw_live w)"
  by (simp add: lease_ok_def)

lemma lease_ok_tokens: "lease_ok digest dir w \<Longrightarrow> distinct (map (tl_token \<circ> snd) (lw_live w))"
  by (drule lease_ok_distinct) (auto simp: entry_path_tokens distinct_map dest: inj_on_imageI2)

lemma lease_ok_filter:
  assumes "lease_ok digest dir w" and "\<And>e. e \<in> set (lw_live w) \<Longrightarrow> P (entry_path digest dir e) = Q e"
  shows "filter P (lw_held w) = map (entry_path digest dir) (filter Q (lw_live w))"
proof -
  have "filter (P \<circ> entry_path digest dir) (lw_live w) = filter Q (lw_live w)"
    using assms(2) by (intro filter_cong) simp_all
  then show ?thesis by (simp add: lease_ok_held [OF assms(1)] filter_map)
qed

text \<open>Leases leave together with their locks and registrations.\<close>

lemma lease_ok_fewer:
  assumes ok: "lease_ok digest dir w"
    and held: "held = map (entry_path digest dir) (filter Q (lw_live w))"
    and reg: "\<And>p t c. reg p t = Some c \<longleftrightarrow> (\<exists>l. (p, l) \<in> set (lw_live w) \<and> Q (p, l) \<and> tl_token l = t \<and> tl_consumer l = c)"
  shows "lease_ok digest dir (w\<lparr>lw_registry := reg, lw_held := held, lw_live := filter Q (lw_live w)\<rparr>)"
proof -
  have "distinct held" using distinct_map_filter [OF lease_ok_distinct [OF ok]] by (simp add: held)
  then show ?thesis using ok unfolding lease_ok_def by (simp add: held reg)
qed

lemma lease_ok_lock:
  "lease_ok digest dir w \<Longrightarrow> e \<in> set (lw_live w) \<Longrightarrow> tl_process_lock (snd e) = Some (entry_path digest dir e)"
  by (simp add: lease_ok_def)

lemma lease_ok_crash:
  assumes ok: "lease_ok digest dir w"
  shows "lease_ok digest dir (crash_step p w)"
proof -
  have "list_ex (\<lambda>(q, l). q = p \<and> tl_process_lock l = Some (entry_path digest dir e)) (lw_live w) \<longleftrightarrow> fst e = p"
    if "e \<in> set (lw_live w)" for e
  proof
    assume "list_ex (\<lambda>(q, l). q = p \<and> tl_process_lock l = Some (entry_path digest dir e)) (lw_live w)"
    then obtain f where f: "f \<in> set (lw_live w)" "fst f = p" "tl_process_lock (snd f) = Some (entry_path digest dir e)"
      by (auto simp: list_ex_iff)
    then have "entry_path digest dir e = entry_path digest dir f" using lease_ok_lock [OF ok f(1)] by simp
    then show "fst e = p" using lease_ok_path [OF ok that f(1)] f(2) by simp
  next
    assume "fst e = p"
    then show "list_ex (\<lambda>(q, l). q = p \<and> tl_process_lock l = Some (entry_path digest dir e)) (lw_live w)"
      using that lease_ok_lock [OF ok that] by (auto simp: list_ex_iff intro!: bexI [of _ e])
  qed
  then have "filter (\<lambda>path. \<not> list_ex (\<lambda>(q, l). q = p \<and> tl_process_lock l = Some path) (lw_live w)) (lw_held w)
    = map (entry_path digest dir) (filter (\<lambda>e. fst e \<noteq> p) (lw_live w))"
    by (intro lease_ok_filter [OF ok]) auto
  then show ?thesis
    unfolding crash_step_def case_prod_beta
    using lease_ok_fewer [OF ok, of _ "\<lambda>e. fst e \<noteq> p" "(lw_registry w)(p := Map.empty)"]
    by (simp add: lease_ok_registry [OF ok] case_prod_beta)
qed

lemma lease_ok_drop:
  assumes ok: "lease_ok digest dir w" and e: "(p, l) \<in> set (lw_live w)"
  shows "lease_ok digest dir (drop_step (p, l) w)"
proof -
  have "lw_registry w p (tl_token l) = Some (tl_consumer l)" using e by (auto simp: lease_ok_registry [OF ok])
  then have "drop_step (p, l) w = w\<lparr>lw_registry := (lw_registry w)(p := (lw_registry w p)(tl_token l := None)),
      lw_held := filter (\<lambda>path. path \<noteq> entry_path digest dir (p, l)) (lw_held w),
      lw_live := filter (\<lambda>f. f \<noteq> (p, l)) (lw_live w)\<rparr>"
    using lease_ok_lock [OF ok e]
    by (simp add: drop_step_def lease_drop_def lease_release_def removeAll_filter_not_eq eq_commute)
  moreover have "filter (\<lambda>path. path \<noteq> entry_path digest dir (p, l)) (lw_held w)
      = map (entry_path digest dir) (filter (\<lambda>f. f \<noteq> (p, l)) (lw_live w))"
    using lease_ok_path [OF ok _ e] by (intro lease_ok_filter [OF ok]) auto
  moreover have same: "k = l" if "(p, k) \<in> set (lw_live w)" "tl_token k = tl_token l" for k
    using lease_ok_path [OF ok e that(1)] that(2) by (simp add: entry_path_def)
  have "((lw_registry w)(p := (lw_registry w p)(tl_token l := None))) q t = Some c
      \<longleftrightarrow> (\<exists>k. (q, k) \<in> set (lw_live w) \<and> (q, k) \<noteq> (p, l) \<and> tl_token k = t \<and> tl_consumer k = c)" for q t c
  proof (cases "q = p \<and> t = tl_token l")
    case True
    then show ?thesis using same by auto
  next
    case False
    then have "((lw_registry w)(p := (lw_registry w p)(tl_token l := None))) q t = lw_registry w q t" by auto
    with False show ?thesis using lease_ok_registry [OF ok, of q t c] by auto
  qed
  ultimately show ?thesis using lease_ok_fewer [OF ok] by simp
qed

lemma lease_reachable_ok: "lease_reachable digest dir w \<Longrightarrow> lease_ok digest dir w"
proof (induction rule: lease_reachable.induct)
  case lease_starts
  then show ?case by (rule lease_ok_start)
next
  case (lease_runs w w1)
  then show ?case
    by (auto elim!: lease_step_cases intro: lease_ok_acquire lease_ok_drop lease_ok_crash)
qed

section \<open>Properties\<close>

text \<open>
  C25. However many processes acquire, drop and lose leases on the same lock directory, in whatever
  order, no two leases in use are for the same token: at most one consumer polls a bot.
\<close>

theorem one_poller_per_token:
  assumes "lease_reachable digest dir w"
  shows "distinct (map (tl_token \<circ> snd) (lw_live w))"
  using lease_ok_tokens [OF lease_reachable_ok [OF assms]] .

definition demo_env :: lock_env where
  "demo_env = \<lparr>le_pid = 7, le_opened = True, le_written = True\<rparr>"

text \<open>Two processes, two bots, and a refused third acquisition.\<close>

definition demo_leases :: lease_world where
  "demo_leases = acquire_step demo_env id ''/run'' 2 (BotToken ''1:a'') (UpdateConsumerId ''late'')
     (acquire_step demo_env id ''/run'' 2 (BotToken ''2:b'') (UpdateConsumerId ''discussion'')
       (acquire_step demo_env id ''/run'' 1 (BotToken ''1:a'') (UpdateConsumerId ''control'') lease_start))"

lemma demo_leases_reachable: "lease_reachable id ''/run'' demo_leases"
  unfolding demo_leases_def
  by (intro lease_runs [OF _ lease_acquires] lease_starts)

lemma demo_leases_tokens: "map (tl_token \<circ> snd) (lw_live demo_leases) = [BotToken ''2:b'', BotToken ''1:a'']"
  by code_simp

theorem one_poller_per_token_witness:
  "distinct (map (tl_token \<circ> snd) (lw_live demo_leases)) \<and> length (lw_live demo_leases) = 2"
  using one_poller_per_token [OF demo_leases_reachable] demo_leases_tokens
  by (metis length_map length_Cons list.size(3) One_nat_def Suc_1)

text \<open>
  A token nobody polls can always be polled: whatever happened before, refused and dropped
  leases and dead processes included, any process acquires it at once when its file operations
  succeed, its name fits the owner line, and the digests of the tokens in use differ.
\<close>

theorem free_token_is_acquired:
  assumes "lease_reachable digest dir w"
    and "token \<notin> set (map (tl_token \<circ> snd) (lw_live w))"
    and "inj digest" and "le_opened env \<and> le_written env"
    and "length (lock_owner (le_pid env) consumer) \<le> 256"
  shows "lw_live (acquire_step env digest dir p token consumer w) =
    (p, \<lparr>tl_token = token, tl_consumer = consumer,
      tl_process_lock = Some (lock_path digest dir token)\<rparr>) # lw_live w"
proof -
  note ok = lease_reachable_ok [OF assms(1)]
  have path: "t = token" if "lock_path digest dir t = lock_path digest dir token" for t
  proof -
    from that have "digest (token_str t) = digest (token_str token)"
      by (simp add: lock_path_def path_join_def split: if_splits)
    with assms(3) have "token_str t = token_str token" by (rule injD)
    then show ?thesis by (rule bot_token.expand)
  qed
  have "lock_path digest dir token \<notin> set (lw_held w)"
  proof
    assume "lock_path digest dir token \<in> set (lw_held w)"
    then obtain e where "e \<in> set (lw_live w)" "lock_path digest dir (tl_token (snd e)) = lock_path digest dir token"
      by (auto simp: lease_ok_held [OF ok] entry_path_def)
    with path assms(2) show False by auto
  qed
  moreover have "lw_registry w p token = None"
  proof (rule ccontr)
    assume "lw_registry w p token \<noteq> None"
    then obtain l where "(p, l) \<in> set (lw_live w)" "tl_token l = token"
      using lease_ok_registry [OF ok] by blast
    with assms(2) show False by force
  qed
  ultimately show ?thesis
    using assms(4,5) by (simp add: acquire_step_def acquire_with_lock_def lease_acquire_def lock_acquire_def
        str_truncate_def Let_def)
qed

theorem free_token_is_acquired_witness:
  "fst (hd (lw_live (acquire_step demo_env id ''/run'' 3 (BotToken ''3:c'') (UpdateConsumerId ''status'') demo_leases))) = 3"
proof -
  have "BotToken ''3:c'' \<notin> set (map (tl_token \<circ> snd) (lw_live demo_leases))"
    unfolding demo_leases_tokens by simp
  moreover have "le_opened demo_env \<and> le_written demo_env" by (simp add: demo_env_def)
  moreover have "length (lock_owner (le_pid demo_env) (UpdateConsumerId ''status'')) \<le> 256" by code_simp
  ultimately show ?thesis
    using free_token_is_acquired [OF demo_leases_reachable, of "BotToken ''3:c''" demo_env "UpdateConsumerId ''status''" 3]
    by simp
qed

end
