(* ===== verification/Poller.thy ===== *)
theory Poller
  imports UpdateStore BTree Contracts
begin

text \<open>
  The polling loop of one bot (\<open>spawn_poller\<close> of \<open>rust/crates/cli/src/daemon.rs\<close>): updates are
  handed to the dispatcher without waiting, and Telegram's offset moves over the updates whose
  handlers have finished. Telegram itself is the queue its documentation describes: updates arrive
  with increasing ids, \<open>getUpdates\<close> returns them in order and forgets those below the offset.
\<close>

section \<open>The loop\<close>

text \<open>\<open>pl_sent\<close> is what the dispatcher has received, in order.\<close>

record poller =
  pl_offset :: "i64 option"
  pl_pending :: "(i64, bool) btree"
  pl_sent :: "i64 list"

text \<open>A poller starts at the stored offset; a store that cannot be read gives none.\<close>

definition poller_start :: "bool \<Rightarrow> string \<Rightarrow> update_db \<Rightarrow> poller" where
  "poller_start readable bot_id db =
     \<lparr>pl_offset = (if readable then next_update_offset bot_id db else None), pl_pending = [], pl_sent = []\<rparr>"

definition take_update :: "string \<Rightarrow> update_db \<Rightarrow> i64 \<Rightarrow> poller \<Rightarrow> poller" where
  "take_update bot_id db u pl =
     (if bt_get (pl_pending pl) u \<noteq> None then pl
      else if processed_update_exists bot_id u db then pl\<lparr>pl_pending := bt_insert u True (pl_pending pl)\<rparr>
      else pl\<lparr>pl_pending := bt_insert u False (pl_pending pl), pl_sent := pl_sent pl @ [u]\<rparr>)"

definition take_updates :: "nat \<Rightarrow> string \<Rightarrow> update_db \<Rightarrow> i64 list \<Rightarrow> poller \<Rightarrow> poller" where
  "take_updates max_backlog bot_id db updates pl = fold (take_update bot_id db) (take max_backlog updates) pl"

definition take_completion :: "i64 \<times> bool \<Rightarrow> poller \<Rightarrow> poller" where
  "take_completion c pl = (case c of (u, handled) \<Rightarrow>
     pl\<lparr>pl_pending := (if handled
        then (if bt_get (pl_pending pl) u = None then pl_pending pl else bt_insert u True (pl_pending pl))
        else bt_remove u (pl_pending pl))\<rparr>)"

definition confirmed_update_prefix :: "(i64, bool) btree \<Rightarrow> i64 list" where
  "confirmed_update_prefix pending = map fst (takeWhile snd pending)"

fun record_confirmed ::
  "string \<Rightarrow> (i64 \<Rightarrow> i64) \<Rightarrow> i64 list \<Rightarrow> poller \<times> update_db \<Rightarrow> poller \<times> update_db" where
  "record_confirmed bot_id clock [] s = s"
| "record_confirmed bot_id clock (u # us) (pl, db) = (case record_processed_update bot_id u (clock u) db of
     (Inl e, db1) \<Rightarrow> (pl, db1)
   | (Inr _, db1) \<Rightarrow> record_confirmed bot_id clock us
       (pl\<lparr>pl_pending := bt_remove u (pl_pending pl), pl_offset := Some (saturating_add u 1)\<rparr>, db1))"

definition confirm_updates :: "string \<Rightarrow> (i64 \<Rightarrow> i64) \<Rightarrow> poller \<times> update_db \<Rightarrow> poller \<times> update_db" where
  "confirm_updates bot_id clock s =
     record_confirmed bot_id clock (confirmed_update_prefix (pl_pending (fst s))) s"

section \<open>Telegram, the store and the loop\<close>

text \<open>
  \<open>pw_queue\<close> is what Telegram still keeps; \<open>pw_arrived\<close> and \<open>pw_handled\<close> record what was sent to
  the bot and which handlers have finished.
\<close>

record poll_world =
  pw_poller :: poller
  pw_db :: update_db
  pw_queue :: "i64 list"
  pw_arrived :: "i64 list"
  pw_handled :: "i64 list"

definition poll_world_start :: poll_world where
  "poll_world_start = \<lparr>pw_poller = poller_start True [] update_empty, pw_db = update_empty,
     pw_queue = [], pw_arrived = [], pw_handled = []\<rparr>"

text \<open>
  \<open>Answered\<close> is a completion of a handler at work; \<open>Restarted\<close> is a new process on the same store,
  whatever the old one was doing. An operation that cannot happen changes nothing.
\<close>

datatype poll_op =
    Arrived i64
  | Fetched nat
  | Answered i64 bool
  | Confirmed "i64 \<Rightarrow> i64"
  | Restarted bool

definition from_offset :: "i64 option \<Rightarrow> i64 list \<Rightarrow> i64 list" where
  "from_offset offset q = (case offset of None \<Rightarrow> q | Some n \<Rightarrow> filter (\<lambda>u. n \<le> u) q)"

definition poll_step :: "string \<Rightarrow> nat \<Rightarrow> poll_op \<Rightarrow> poll_world \<Rightarrow> poll_world" where
  "poll_step bot_id max_backlog op w = (case op of
     Arrived u \<Rightarrow>
       if list_all (\<lambda>v. v < u) (pw_arrived w) \<and> in_i64 u \<and> in_i64 (u + 1)
       then w\<lparr>pw_queue := pw_queue w @ [u], pw_arrived := pw_arrived w @ [u]\<rparr> else w
   | Fetched limit \<Rightarrow>
       let q = from_offset (pl_offset (pw_poller w)) (pw_queue w)
       in w\<lparr>pw_queue := q, pw_poller := take_updates max_backlog bot_id (pw_db w) (take limit q) (pw_poller w)\<rparr>
   | Answered u handled \<Rightarrow>
       if bt_get (pl_pending (pw_poller w)) u = Some False
       then w\<lparr>pw_poller := take_completion (u, handled) (pw_poller w),
         pw_handled := (if handled then u # pw_handled w else pw_handled w)\<rparr> else w
   | Confirmed clock \<Rightarrow> (case confirm_updates bot_id clock (pw_poller w, pw_db w) of
       (pl, db) \<Rightarrow> w\<lparr>pw_poller := pl, pw_db := db\<rparr>)
   | Restarted readable \<Rightarrow> w\<lparr>pw_poller := poller_start readable bot_id (pw_db w)\<rparr>)"

section \<open>Laws\<close>

lemma take_update_get:
  "bt_get (pl_pending (take_update bot_id db u pl)) k =
     (if k = u \<and> bt_get (pl_pending pl) u = None then Some (processed_update_exists bot_id u db)
      else bt_get (pl_pending pl) k)"
  by (auto simp: take_update_def)

lemma take_update_fields [simp]:
  "pl_offset (take_update bot_id db u pl) = pl_offset pl"
  "bt_ok (pl_pending pl) \<Longrightarrow> bt_ok (pl_pending (take_update bot_id db u pl))"
  by (auto simp: take_update_def)

lemma take_all_fields [simp]:
  "pl_offset (fold (take_update bot_id db) us pl) = pl_offset pl"
  "bt_ok (pl_pending pl) \<Longrightarrow> bt_ok (pl_pending (fold (take_update bot_id db) us pl))"
  by (induction us arbitrary: pl) auto

lemma take_all_get:
  "bt_get (pl_pending (fold (take_update bot_id db) us pl)) k =
     (if k \<in> set us \<and> bt_get (pl_pending pl) k = None then Some (processed_update_exists bot_id k db)
      else bt_get (pl_pending pl) k)"
  by (induction us arbitrary: pl) (auto simp: take_update_get)

text \<open>Every update sent is at work, waits for confirmation or is recorded; none is sent twice.\<close>

definition sent_once :: "string \<Rightarrow> update_db \<Rightarrow> poller \<Rightarrow> bool" where
  "sent_once bot_id db pl \<longleftrightarrow> distinct (pl_sent pl)
     \<and> (\<forall>u \<in> set (pl_sent pl). bt_get (pl_pending pl) u \<noteq> None \<or> processed_update_exists bot_id u db)"

lemma sent_once_take: "sent_once bot_id db pl \<Longrightarrow> sent_once bot_id db (take_update bot_id db u pl)"
  by (auto simp: sent_once_def take_update_def)

lemma sent_once_take_all: "sent_once bot_id db pl \<Longrightarrow> sent_once bot_id db (fold (take_update bot_id db) us pl)"
  by (induction us arbitrary: pl) (auto simp: sent_once_take)

text \<open>An offset that only leaves handled updates behind.\<close>

definition passed :: "i64 list \<Rightarrow> i64 list \<Rightarrow> i64 option \<Rightarrow> bool" where
  "passed arrived handled offset \<longleftrightarrow> (case offset of None \<Rightarrow> True
     | Some n \<Rightarrow> n - 1 \<in> set arrived \<and> (\<forall>u \<in> set arrived. u < n \<longrightarrow> u \<in> set handled))"

text \<open>The updates not yet handled nor pending come after all that are pending.\<close>

definition gapless :: "i64 list \<Rightarrow> i64 list \<Rightarrow> (i64, bool) btree \<Rightarrow> bool" where
  "gapless arrived handled pending \<longleftrightarrow> (\<forall>u \<in> set arrived.
     u \<in> set handled \<or> bt_get pending u \<noteq> None \<or> (\<forall>k. bt_get pending k \<noteq> None \<longrightarrow> k < u))"

definition loop_ok :: "string \<Rightarrow> i64 list \<Rightarrow> i64 list \<Rightarrow> poller \<times> update_db \<Rightarrow> bool" where
  "loop_ok bot_id arrived handled s \<longleftrightarrow> (case s of (pl, db) \<Rightarrow>
     bt_ok (pl_pending pl) \<and> passed arrived handled (pl_offset pl)
   \<and> passed arrived handled (next_update_offset bot_id db)
   \<and> (\<forall>u. processed_update_exists bot_id u db \<longrightarrow> u \<in> set handled)
   \<and> (\<forall>u. bt_get (pl_pending pl) u = Some True \<longrightarrow> u \<in> set handled)
   \<and> (\<forall>u. bt_get (pl_pending pl) u \<noteq> None \<longrightarrow> u \<in> set arrived)
   \<and> gapless arrived handled (pl_pending pl) \<and> sent_once bot_id db pl)"

definition poll_ok :: "string \<Rightarrow> poll_world \<Rightarrow> bool" where
  "poll_ok bot_id w \<longleftrightarrow> loop_ok bot_id (pw_arrived w) (pw_handled w) (pw_poller w, pw_db w)
   \<and> sorted_wrt (<) (pw_queue w) \<and> set (pw_queue w) \<subseteq> set (pw_arrived w)
   \<and> (\<forall>u \<in> set (pw_arrived w). u \<in> set (pw_queue w) \<or> u \<in> set (pw_handled w))
   \<and> (\<forall>u \<in> set (pw_arrived w). in_i64 u \<and> in_i64 (u + 1))"

lemma bt_least: "bt_ok ((u, v) # m) \<Longrightarrow> bt_get ((u, v) # m) k \<noteq> None \<Longrightarrow> u \<le> k"
  by (auto simp: bt_ok_def bt_get_def dest!: map_of_SomeD split: if_splits)

lemma bt_remove_first: "bt_ok ((u, v) # m) \<Longrightarrow> bt_remove u ((u, v) # m) = m"
  by (auto simp: bt_ok_def bt_remove_def intro!: filter_True)

lemma processed_record:
  "processed_update_exists b u db \<Longrightarrow> processed_update_exists b u (snd (record_processed_update b2 v t db))"
  using processed_kept [of b u db "(b2, v, t)"] by (simp add: record_step_def)

lemma processed_record_iff:
  "processed_update_exists b u (snd (record_processed_update b v t db))
   \<longleftrightarrow> processed_update_exists b u db \<or> (u = v \<and> \<not> is_blank b)"
  by (auto simp: processed_update_exists_def record_processed_update_def exists_where_def Let_def)

lemma record_step_ok:
  assumes ok: "loop_ok bot_id arrived handled (pl, db)" and first: "pl_pending pl = (u, True) # rest"
    and range: "\<forall>u \<in> set arrived. in_i64 u \<and> in_i64 (u + 1)"
    and rec: "record_processed_update bot_id u t db = (Inr b, db1)"
  shows "loop_ok bot_id arrived handled
    (pl\<lparr>pl_pending := bt_remove u (pl_pending pl), pl_offset := Some (saturating_add u 1)\<rparr>, db1)"
proof -
  have get: "bt_get (pl_pending pl) u = Some True" by (simp add: first bt_get_def)
  have bok: "bt_ok ((u, True) # rest)" using ok by (simp add: loop_ok_def first)
  have u: "u \<in> set handled" "u \<in> set arrived" using ok get by (auto simp: loop_ok_def)
  have sat: "saturating_add u 1 = u + 1" using range u(2) by (simp add: saturating_add_eq)
  have below: "v \<in> set handled" if "v \<in> set arrived" "v < u + 1" for v
  proof (cases "v = u")
    case False
    with that have "v < u" by simp
    moreover have "bt_get (pl_pending pl) u \<noteq> None" by (simp add: get)
    ultimately show ?thesis
      using ok that(1) bt_least [OF bok, of v] first by (force simp: loop_ok_def gapless_def)
  qed (use u in simp)
  have db1: "db1 = snd (record_processed_update bot_id u t db)" and nb: "\<not> is_blank bot_id"
    using rec by (auto simp: record_processed_update_def split: if_splits)
  have pu: "passed arrived handled (Some (u + 1))" using below u by (simp add: passed_def)
  have "passed arrived handled (next_update_offset bot_id db1)"
    using ok pu by (auto simp: db1 offset_step sat loop_ok_def max_def split: option.splits)
  moreover have "gapless arrived handled (bt_remove u (pl_pending pl))"
    using ok u by (auto simp: loop_ok_def gapless_def)
  moreover have "sent_once bot_id db1 (pl\<lparr>pl_pending := bt_remove u (pl_pending pl),
      pl_offset := Some (saturating_add u 1)\<rparr>)"
    using ok nb by (auto simp: loop_ok_def sent_once_def db1 processed_record_iff)
  ultimately show ?thesis
    using ok pu u by (auto simp: loop_ok_def sat db1 processed_record_iff)
qed

lemma record_confirmed_ok:
  assumes "loop_ok bot_id arrived handled (pl, db)"
    and "pl_pending pl = map (\<lambda>u. (u, True)) us @ rest"
    and "\<forall>u \<in> set arrived. in_i64 u \<and> in_i64 (u + 1)"
  shows "loop_ok bot_id arrived handled (record_confirmed bot_id clock us (pl, db))"
  using assms
proof (induction us arbitrary: pl db)
  case Nil
  then show ?case by simp
next
  case (Cons u us)
  obtain r db1 where rec: "record_processed_update bot_id u (clock u) db = (r, db1)" by fastforce
  show ?case
  proof (cases r)
    case (Inl e)
    then have "db1 = db" using rec by (auto simp: record_processed_update_def Let_def split: if_splits)
    then show ?thesis using rec Inl Cons.prems by simp
  next
    case (Inr b)
    have "bt_ok ((u, True) # map (\<lambda>u. (u, True)) us @ rest)"
      using Cons.prems(1,2) by (simp add: loop_ok_def)
    then have "bt_remove u (pl_pending pl) = map (\<lambda>u. (u, True)) us @ rest"
      using Cons.prems(2) by (simp add: bt_remove_first)
    moreover have "loop_ok bot_id arrived handled
        (pl\<lparr>pl_pending := bt_remove u (pl_pending pl), pl_offset := Some (saturating_add u 1)\<rparr>, db1)"
      using record_step_ok [OF Cons.prems(1) _ Cons.prems(3) rec [unfolded Inr]] Cons.prems(2) by simp
    ultimately show ?thesis using rec Inr Cons.IH Cons.prems(3) by simp
  qed
qed

lemma confirmed_prefix:
  "pending = map (\<lambda>u. (u, True)) (confirmed_update_prefix pending) @ dropWhile snd pending"
proof -
  have "map (\<lambda>u. (u, True)) (map fst (takeWhile snd pending)) = takeWhile snd pending"
    by (auto simp: comp_def dest: set_takeWhileD intro!: map_idI)
  then show ?thesis by (simp add: confirmed_update_prefix_def)
qed

text \<open>Taking the first updates of the queue from the offset on keeps the loop in order.\<close>

lemma loop_ok_take:
  assumes ok: "loop_ok bot_id arrived handled (pl, db)" and q: "sorted_wrt (<) q" "set q \<subseteq> set arrived"
    and rest: "\<forall>u \<in> set arrived. u \<in> set q \<or> u \<in> set handled"
  shows "loop_ok bot_id arrived handled (fold (take_update bot_id db) (take n q) pl, db)"
proof -
  have taken: "set (take n q) \<subseteq> set q" by (rule set_take_subset)
  have after: "v < u" if "v \<in> set (take n q)" "u \<in> set q" "u \<notin> set (take n q)" for u v
  proof -
    from that(2,3) have "u \<in> set (drop n q)" by (metis Un_iff append_take_drop_id set_append)
    moreover have "sorted_wrt (<) (take n q @ drop n q)" using q(1) by simp
    ultimately show ?thesis using that(1) unfolding sorted_wrt_append by blast
  qed
  let ?pl = "fold (take_update bot_id db) (take n q) pl"
  have "gapless arrived handled (pl_pending ?pl)"
    unfolding gapless_def
  proof
    fix u
    assume u: "u \<in> set arrived"
    show "u \<in> set handled \<or> bt_get (pl_pending ?pl) u \<noteq> None \<or> (\<forall>k. bt_get (pl_pending ?pl) k \<noteq> None \<longrightarrow> k < u)"
    proof (cases "u \<in> set handled \<or> bt_get (pl_pending ?pl) u \<noteq> None")
      case False
      then have "u \<notin> set (take n q)" "bt_get (pl_pending pl) u = None" "u \<in> set q"
        using rest u by (auto simp: take_all_get split: if_splits)
      moreover have "\<forall>k. bt_get (pl_pending pl) k \<noteq> None \<longrightarrow> k < u"
        using ok u False calculation by (auto simp: loop_ok_def gapless_def)
      ultimately show ?thesis using after by (auto simp: take_all_get split: if_splits)
    qed auto
  qed
  moreover have "sent_once bot_id db ?pl" using ok by (auto simp: loop_ok_def intro: sent_once_take_all)
  ultimately show ?thesis
    using ok q(2) taken by (auto simp: loop_ok_def take_all_get split: if_splits)
qed

lemma passed_from_offset:
  assumes "passed arrived handled offset" and "\<forall>u \<in> set arrived. u \<in> set q \<or> u \<in> set handled"
  shows "\<forall>u \<in> set arrived. u \<in> set (from_offset offset q) \<or> u \<in> set handled"
  using assms by (auto simp: passed_def from_offset_def split: option.splits)

lemma from_offset_sorted:
  "sorted_wrt (<) q \<Longrightarrow> sorted_wrt (<) (from_offset offset q)" "set (from_offset offset q) \<subseteq> set q"
  by (auto simp: from_offset_def sorted_wrt_filter split: option.splits)

lemma poll_ok_fetched:
  assumes "poll_ok bot_id w"
  shows "poll_ok bot_id (poll_step bot_id n (Fetched limit) w)"
proof -
  let ?q = "from_offset (pl_offset (pw_poller w)) (pw_queue w)"
  have kept: "\<forall>u \<in> set (pw_arrived w). u \<in> set ?q \<or> u \<in> set (pw_handled w)"
    using assms by (intro passed_from_offset) (auto simp: poll_ok_def loop_ok_def)
  have q: "sorted_wrt (<) ?q" "set ?q \<subseteq> set (pw_arrived w)"
    using assms from_offset_sorted [where q = "pw_queue w"] by (auto simp: poll_ok_def)
  have "loop_ok bot_id (pw_arrived w) (pw_handled w) (pw_poller w, pw_db w)" using assms by (simp add: poll_ok_def)
  from loop_ok_take [OF this q kept, of "min n limit"] kept q assms show ?thesis
    by (simp add: poll_ok_def poll_step_def Let_def take_updates_def)
qed

lemma poll_ok_confirmed:
  assumes "poll_ok bot_id w"
  shows "poll_ok bot_id (poll_step bot_id n (Confirmed clock) w)"
proof -
  let ?s = "confirm_updates bot_id clock (pw_poller w, pw_db w)"
  have "loop_ok bot_id (pw_arrived w) (pw_handled w) ?s"
    unfolding confirm_updates_def
    using assms confirmed_prefix by (intro record_confirmed_ok) (auto simp: poll_ok_def)
  then show ?thesis
    using assms by (cases ?s) (simp add: poll_ok_def poll_step_def)
qed

lemma poll_ok_arrived:
  assumes "poll_ok bot_id w"
  shows "poll_ok bot_id (poll_step bot_id n (Arrived u) w)"
proof (cases "list_all (\<lambda>v. v < u) (pw_arrived w) \<and> in_i64 u \<and> in_i64 (u + 1)")
  case True
  then have new: "\<forall>v \<in> set (pw_arrived w). v < u" by (simp add: list_all_iff)
  have passed: "passed (pw_arrived w @ [u]) (pw_handled w) offset"
    if "passed (pw_arrived w) (pw_handled w) offset" for offset
    using that new by (fastforce simp: passed_def split: option.splits)
  have "loop_ok bot_id (pw_arrived w @ [u]) (pw_handled w) (pw_poller w, pw_db w)"
    using assms new passed by (auto simp: poll_ok_def loop_ok_def gapless_def)
  moreover have "sorted_wrt (<) (pw_queue w @ [u])"
    using assms new by (auto simp: poll_ok_def sorted_wrt_append)
  ultimately show ?thesis
    using assms True by (auto simp: poll_ok_def poll_step_def)
qed (use assms in \<open>auto simp: poll_step_def\<close>)

lemma passed_more: "passed arrived handled offset \<Longrightarrow> passed arrived (u # handled) offset"
  by (auto simp: passed_def split: option.splits)

lemma gapless_handled:
  assumes "gapless arrived handled pending" and "bt_get pending u \<noteq> None"
  shows "gapless arrived (u # handled) (bt_insert u v pending)"
proof -
  have "{k. bt_get (bt_insert u v pending) k \<noteq> None} = {k. bt_get pending k \<noteq> None}" using assms(2) by auto
  then have "bt_get (bt_insert u v pending) k \<noteq> None \<longleftrightarrow> bt_get pending k \<noteq> None" for k by blast
  with assms(1) show ?thesis unfolding gapless_def by (metis list.set_intros(2))
qed

lemma poll_ok_answered:
  assumes "poll_ok bot_id w"
  shows "poll_ok bot_id (poll_step bot_id n (Answered u True) w)"
proof (cases "bt_get (pl_pending (pw_poller w)) u = Some False")
  case True
  have "loop_ok bot_id (pw_arrived w) (u # pw_handled w) (take_completion (u, True) (pw_poller w), pw_db w)"
    using assms True
    by (auto simp: poll_ok_def loop_ok_def take_completion_def passed_more gapless_handled sent_once_def)
  with True assms show ?thesis by (auto simp: poll_ok_def poll_step_def)
qed (use assms in \<open>auto simp: poll_step_def\<close>)

lemma poll_ok_restarted:
  assumes "poll_ok bot_id w"
  shows "poll_ok bot_id (poll_step bot_id n (Restarted readable) w)"
  using assms by (auto simp: poll_ok_def loop_ok_def poll_step_def poller_start_def gapless_def sent_once_def passed_def)

lemma poll_ok_start: "poll_ok bot_id poll_world_start"
  by (auto simp: poll_ok_def loop_ok_def poll_world_start_def poller_start_def gapless_def sent_once_def passed_def
      update_empty_def next_update_offset_def first_where_def processed_update_exists_def exists_where_def)

text \<open>Runs in which every handler that finishes reports the update as handled.\<close>

definition orderly :: "poll_op \<Rightarrow> bool" where
  "orderly op = (case op of Answered u handled \<Rightarrow> handled | _ \<Rightarrow> True)"

definition orderly_step :: "string \<Rightarrow> nat \<Rightarrow> poll_op \<Rightarrow> poll_world \<Rightarrow> poll_world" where
  "orderly_step bot_id n op w = (if orderly op then poll_step bot_id n op w else w)"

lemma poll_ok_step: "poll_ok bot_id w \<Longrightarrow> poll_ok bot_id (orderly_step bot_id n op w)"
  by (cases op) (auto simp: orderly_step_def orderly_def poll_ok_fetched poll_ok_confirmed poll_ok_arrived
      poll_ok_answered poll_ok_restarted)

interpretation polling: machine "orderly_step bot_id n" "poll_ok bot_id"
  by unfold_locales (rule poll_ok_step)

lemma orderly_run: "list_all orderly ops \<Longrightarrow> fold (poll_step bot_id n) ops w = fold (orderly_step bot_id n) ops w"
  by (induction ops arbitrary: w) (auto simp: orderly_step_def)

lemma poll_run_ok:
  "list_all orderly ops \<Longrightarrow> poll_ok bot_id (fold (poll_step bot_id n) ops poll_world_start)"
  by (simp add: orderly_run polling.run_inv poll_ok_start)

section \<open>Properties\<close>


definition demo_polling :: "poll_op list" where
  "demo_polling = [Arrived 1, Arrived 2, Arrived 3, Fetched 10, Answered 2 True, Confirmed (\<lambda>_. 0),
     Answered 1 True, Confirmed (\<lambda>_. 0), Restarted True, Arrived 4, Fetched 10, Answered 4 True,
     Confirmed (\<lambda>_. 0), Restarted False, Fetched 10]"

lemma demo_polling_orderly: "list_all orderly demo_polling"
  by (simp add: demo_polling_def orderly_def)

lemma demo_polling_end:
  "pw_arrived (fold (poll_step ''b'' 5) demo_polling poll_world_start) = [1, 2, 3, 4]
   \<and> pw_queue (fold (poll_step ''b'' 5) demo_polling poll_world_start) = [3, 4]
   \<and> pl_sent (pw_poller (fold (poll_step ''b'' 5) demo_polling poll_world_start)) = [3, 4]"
  by code_simp


text \<open>
  A process hands an update to the dispatcher at most once, however often Telegram returns it
  before it is confirmed.
\<close>

theorem update_dispatched_once:
  assumes "list_all orderly ops"
  shows "distinct (pl_sent (pw_poller (fold (poll_step bot_id n) ops poll_world_start)))"
  using poll_run_ok [OF assms, of bot_id n] by (simp add: poll_ok_def loop_ok_def sent_once_def)

theorem update_dispatched_once_witness:
  "distinct (pl_sent (pw_poller (fold (poll_step ''b'' 5) demo_polling poll_world_start)))
   \<and> pl_sent (pw_poller (fold (poll_step ''b'' 5) demo_polling poll_world_start)) = [3, 4]"
  using update_dispatched_once [OF demo_polling_orderly, of "''b''" 5] demo_polling_end by blast

section \<open>Handlers that fail\<close>

text \<open>
  An update whose handler reports that it was not handled leaves \<open>pending\<close>, and the confirmation of
  a later update passes it: Telegram forgets it although nobody handled it. The comment in the loop
  says that it stays below the confirmed prefix and is fetched again. No handler of the daemon
  reports so for one update and not for the next: an unknown bot or a wrong topology fail them all.
\<close>

definition failing_handler :: "poll_op list" where
  "failing_handler = [Arrived 1, Arrived 2, Fetched 10, Answered 1 False, Answered 2 True,
     Confirmed (\<lambda>_. 0), Fetched 10]"

lemma failing_handler_loses: "(pw_handled (fold (poll_step ''b'' 5) failing_handler poll_world_start),
   pw_queue (fold (poll_step ''b'' 5) failing_handler poll_world_start)) = ([2], [])"
  by code_simp

end
