(* ===== verification/Dispatch.thy ===== *)
theory Dispatch
  imports RoutingProps
begin

text \<open>
  What the daemon does with an update it received: the per-chat queues of \<open>KeyedDispatcher\<close> and the
  decision of \<open>DispatchContext::process\<close>, of \<open>rust/crates/cli/src/daemon.rs\<close>.
\<close>

section \<open>Queues per chat\<close>

record dispatch_key =
  dk_bot_instance_id :: string
  dk_chat_id :: i64

definition update_chat :: "incoming_update \<Rightarrow> i64" where
  "update_chat u = (case u of
     InMessage m \<Rightarrow> msg_chat_id m
   | InEditedMessage m \<Rightarrow> msg_chat_id m
   | InCallback c \<Rightarrow> tcb_chat_id c
   | InMembership m \<Rightarrow> mem_chat_id m
   | InUnsupported \<Rightarrow> 0)"

definition dispatch_key_for :: "string \<Rightarrow> json \<Rightarrow> dispatch_key" where
  "dispatch_key_for bot_id payload = \<lparr>dk_bot_instance_id = bot_id, dk_chat_id = update_chat (from_update payload)\<rparr>"

text \<open>A worker per key, with the items it has not taken; no worker is there before the first item.\<close>

type_synonym ('k, 'a) workers = "'k \<Rightarrow> 'a list option"

definition dispatch :: "'k \<Rightarrow> 'a \<Rightarrow> ('k, 'a) workers \<Rightarrow> ('k, 'a) workers" where
  "dispatch key item ws = ws(key \<mapsto> unwrap_or (ws key) [] @ [item])"

text \<open>The worker of a key runs the handler on its next item, if there is one.\<close>

definition worker_next :: "'k \<Rightarrow> ('k, 'a) workers \<Rightarrow> ('a \<times> ('k, 'a) workers) option" where
  "worker_next key ws = (case ws key of
     Some (item # rest) \<Rightarrow> Some (item, ws(key \<mapsto> rest))
   | _ \<Rightarrow> None)"

text \<open>Dispatching and working in any order; the log holds what was handled, in time order.\<close>

datatype ('k, 'a) dispatch_op = Received 'k 'a | Worked 'k

definition dispatch_step ::
  "('k, 'a) dispatch_op \<Rightarrow> ('k, 'a) workers \<times> ('k \<times> 'a) list \<Rightarrow> ('k, 'a) workers \<times> ('k \<times> 'a) list" where
  "dispatch_step op s = (case (op, s) of
     (Received key item, (ws, log)) \<Rightarrow> (dispatch key item ws, log)
   | (Worked key, (ws, log)) \<Rightarrow> (case worker_next key ws of
       None \<Rightarrow> (ws, log)
     | Some (item, ws') \<Rightarrow> (ws', log @ [(key, item)])))"

definition of_key :: "'k \<Rightarrow> ('k \<times> 'a) list \<Rightarrow> 'a list" where
  "of_key k es = map snd (filter (\<lambda>e. fst e = k) es)"

definition received :: "('k, 'a) dispatch_op list \<Rightarrow> ('k \<times> 'a) list" where
  "received ops = concat (map (\<lambda>op. case op of Received k a \<Rightarrow> [(k, a)] | Worked _ \<Rightarrow> []) ops)"

section \<open>The decision for one update\<close>

text \<open>
  \<open>process\<close> answers a \<open>/bind\<close> sent under the identity of a chat with a notice, and hands everything
  else to the action handler; only an unknown bot or a wrong topology leave the update unhandled.
\<close>

datatype process_outcome =
    NotHandled
  | BindIdentityNotice i64
  | HandleAction routed_update "i64 option"

definition update_actor :: "incoming_update \<Rightarrow> i64 option" where
  "update_actor u = (case u of
     InMessage m \<Rightarrow> act_user_id (msg_actor m)
   | InEditedMessage m \<Rightarrow> act_user_id (msg_actor m)
   | InCallback c \<Rightarrow> act_user_id (tcb_actor c)
   | InMembership m \<Rightarrow> act_user_id (mem_actor m)
   | InUnsupported \<Rightarrow> None)"

definition bind_identity_warning :: "i64 \<Rightarrow> string \<Rightarrow> incoming_update \<Rightarrow> telegram_message option" where
  "bind_identity_warning discussion username u = (case u of
     InMessage m \<Rightarrow>
       if msg_chat_id m = discussion \<and> act_sender_chat_id (msg_actor m) \<noteq> None
          \<and> msg_automatic_forward_from_channel m = None
          \<and> (case Option.bind (msg_text m) parsed_command_parse of
               None \<Rightarrow> False
             | Some p \<Rightarrow> ptc_command p = CmdBind \<and> (case ptc_addressed_bot_username p of
                 None \<Rightarrow> True | Some target \<Rightarrow> to_ascii_lowercase target = to_ascii_lowercase username))
       then Some m else None
   | _ \<Rightarrow> None)"

text \<open>\<open>bots\<close> gives the role and user name of an instance; \<open>owner_record\<close> is the stored owner.\<close>

definition process_update ::
  "(string \<Rightarrow> (runtime_bot_role \<times> string) option) \<Rightarrow> routing_policy \<Rightarrow> i64 \<Rightarrow> json option \<Rightarrow> string \<Rightarrow> json
   \<Rightarrow> process_outcome" where
  "process_update bots policy discussion owner_record bot_id payload = (case bots bot_id of
     None \<Rightarrow> NotHandled
   | Some (role, username) \<Rightarrow>
       (case router_new_with_authorization role policy (daemon_authorization owner_record username) of
          Inl e \<Rightarrow> NotHandled
        | Inr router \<Rightarrow> (case bind_identity_warning discussion username (from_update payload) of
            Some m \<Rightarrow> BindIdentityNotice (msg_chat_id m)
          | None \<Rightarrow> HandleAction (route router payload) (update_actor (from_update payload)))))"

section \<open>Laws\<close>

lemma of_key_append [simp]: "of_key k (es @ fs) = of_key k es @ of_key k fs"
  by (simp add: of_key_def)

lemma of_key_Cons: "of_key k ((j, a) # es) = (if j = k then [a] else []) @ of_key k es"
  by (simp add: of_key_def)

lemma of_key_Nil [simp]: "of_key k [] = []"
  by (simp add: of_key_def)

lemma dispatch_step_queue:
  assumes "dispatch_step op (ws, log) = (ws', log1)"
  shows "of_key k log1 @ unwrap_or (ws' k) [] =
    of_key k log @ unwrap_or (ws k) [] @ of_key k (received [op])"
  using assms
  by (auto simp: dispatch_step_def dispatch_def worker_next_def received_def of_key_Cons
      split: dispatch_op.splits option.splits list.splits)

lemma received_Cons: "received (op # ops) = received [op] @ received ops"
  by (simp add: received_def)

lemma dispatch_run_queue:
  "fold dispatch_step ops (ws, log) = (ws', log1) \<Longrightarrow>
    of_key k log1 @ unwrap_or (ws' k) [] = of_key k log @ unwrap_or (ws k) [] @ of_key k (received ops)"
proof (induction ops arbitrary: ws log)
  case Nil
  then show ?case by (simp add: received_def)
next
  case (Cons op ops)
  obtain ws'' log2 where s: "dispatch_step op (ws, log) = (ws'', log2)" by fastforce
  then have "fold dispatch_step ops (ws'', log2) = (ws', log1)" using Cons.prems by simp
  from Cons.IH [OF this] dispatch_step_queue [OF s, of k] show ?case
    by (simp add: received_Cons [of op ops] append_assoc flip: append_assoc)
qed

section \<open>Properties\<close>

text \<open>
  The updates of one chat are handled in the order they were received, each once, whatever is
  received or handled for other chats in between: what was handled for a key, followed by what its
  worker still has to take, is what was received for it.
\<close>

theorem chat_order_kept:
  "case fold dispatch_step ops (Map.empty, []) of (ws, log) \<Rightarrow>
     of_key k log @ unwrap_or (ws k) [] = of_key k (received ops)"
  using dispatch_run_queue [of ops Map.empty "[]" _ _ k] by (auto split: prod.split)

end
