(* ===== verification/Sessions.thy ===== *)
theory Sessions
  imports SpaceProps SecurityProps Commands "HOL-Library.AList"
begin

text \<open>
  The registry of running sessions of \<open>rust/crates/cli/src/daemon.rs\<close> and how a prompt finds the
  session it goes to. Lock poisoning is left out.
\<close>

section \<open>The registry\<close>

record session_record =
  sr_thread_id :: string
  sr_turn_id :: "string option"
  sr_chat_id :: i64
  sr_root_message_id :: "i64 option"
  sr_sender_instance_id :: string

record ask_context =
  ask_chat_id :: i64
  ask_root_message_id :: "i64 option"
  ask_sender_instance_id :: string
  ask_turn_id :: "string option"
  ask_created_at_ms :: i64

record session_registry =
  by_chat :: "i64 \<Rightarrow> session_record option"
  by_thread :: "string \<Rightarrow> session_record option"
  ask_threads :: "(string \<times> ask_context) list"

definition registry_empty :: session_registry where
  "registry_empty = \<lparr>by_chat = (\<lambda>_. None), by_thread = (\<lambda>_. None), ask_threads = []\<rparr>"

definition registry_insert :: "session_record \<Rightarrow> session_registry \<Rightarrow> session_registry" where
  "registry_insert s reg = reg\<lparr>by_thread := (by_thread reg)(sr_thread_id s := Some s),
     by_chat := (by_chat reg)(sr_chat_id s := Some s)\<rparr>"

definition set_turn :: "string \<Rightarrow> string option \<Rightarrow> session_registry \<Rightarrow> session_registry" where
  "set_turn thread turn reg = (case by_thread reg thread of
     None \<Rightarrow> reg
   | Some s \<Rightarrow> let s1 = s\<lparr>sr_turn_id := turn\<rparr> in
       reg\<lparr>by_thread := (by_thread reg)(thread := Some s1), by_chat := (by_chat reg)(sr_chat_id s1 := Some s1)\<rparr>)"

definition set_root :: "i64 \<Rightarrow> i64 option \<Rightarrow> session_registry \<Rightarrow> session_registry" where
  "set_root chat root reg = (case by_chat reg chat of
     None \<Rightarrow> reg
   | Some s \<Rightarrow> let s1 = s\<lparr>sr_root_message_id := root\<rparr> in
       reg\<lparr>by_chat := (by_chat reg)(chat := Some s1), by_thread := (by_thread reg)(sr_thread_id s1 := Some s1)\<rparr>)"

definition registry_remove :: "string \<Rightarrow> session_registry \<Rightarrow> session_record option \<times> session_registry" where
  "registry_remove thread reg = (let removed = by_thread reg thread in
     (removed, reg\<lparr>by_thread := (by_thread reg)(thread := None),
        by_chat := (case removed of None \<Rightarrow> by_chat reg | Some s \<Rightarrow> (by_chat reg)(sr_chat_id s := None))\<rparr>))"

text \<open>The ephemeral threads of \<open>/ask\<close>.\<close>

definition register_ask_thread :: "string \<Rightarrow> ask_context \<Rightarrow> session_registry \<Rightarrow> session_registry" where
  "register_ask_thread thread c reg = reg\<lparr>ask_threads := AList.update thread c (ask_threads reg)\<rparr>"

definition contains_ask_thread :: "string \<Rightarrow> session_registry \<Rightarrow> bool" where
  "contains_ask_thread thread reg \<longleftrightarrow> map_of (ask_threads reg) thread \<noteq> None"

definition set_ask_turn :: "string \<Rightarrow> string \<Rightarrow> session_registry \<Rightarrow> session_registry" where
  "set_ask_turn thread turn reg = reg\<lparr>ask_threads :=
     AList.map_entry thread (\<lambda>c. c\<lparr>ask_turn_id := Some turn\<rparr>) (ask_threads reg)\<rparr>"

definition remove_ask_thread :: "string \<Rightarrow> session_registry \<Rightarrow> ask_context option \<times> session_registry" where
  "remove_ask_thread thread reg = (map_of (ask_threads reg) thread,
     reg\<lparr>ask_threads := AList.delete thread (ask_threads reg)\<rparr>)"

definition expired_ask_threads :: "i64 \<Rightarrow> i64 \<Rightarrow> session_registry \<Rightarrow> (string \<times> ask_context) list" where
  "expired_ask_threads now max_age reg =
     filter (\<lambda>(_, c). max_age \<le> saturating_sub now (ask_created_at_ms c)) (ask_threads reg)"

section \<open>Where a prompt goes\<close>

datatype prompt_outcome =
    TakenByNew
  | NoExactRoot
  | PromptLocked
  | NoSession
  | PromptFor session_record

text \<open>
  The prompt arm of \<open>handle_action\<close>; \<open>taken\<close> is whether the interaction of \<open>/new\<close> takes the text at
  the control bot.
\<close>

definition route_prompt ::
  "runtime_bot_role \<Rightarrow> bool \<Rightarrow> i64 \<Rightarrow> i64 option \<Rightarrow> space_db \<Rightarrow> i64 \<Rightarrow> totp_manager \<Rightarrow> session_registry
   \<Rightarrow> prompt_outcome \<times> totp_manager \<times> session_registry" where
  "route_prompt role taken chat root db now m reg =
     (if role = RoleControl \<and> taken then (TakenByNew, m, reg)
      else let space = (if role = RoleDiscussion
            then Option.bind root (\<lambda>r. session_space_for_discussion_root chat r db) else None)
        in if role = RoleDiscussion \<and> space = None then (NoExactRoot, m, reg)
        else case (case space of Some s \<Rightarrow> is_unlocked_for_space (sps_space_id s) now m
               | None \<Rightarrow> (is_unlocked now m, m)) of
          (unlocked, m1) \<Rightarrow>
            if \<not> unlocked then (PromptLocked, m1, reg)
            else (case by_chat reg chat of
                None \<Rightarrow> (NoSession, m1, reg)
              | Some s \<Rightarrow> (PromptFor s, m1, set_root chat root reg)))"

section \<open>Laws\<close>

datatype registry_op =
    RegInsert session_record | RegTurn string "string option" | RegRoot i64 "i64 option" | RegRemove string

definition registry_step :: "(string \<Rightarrow> i64) \<Rightarrow> registry_op \<Rightarrow> session_registry \<Rightarrow> session_registry" where
  "registry_step home op reg = (case op of
     RegInsert s \<Rightarrow> if sr_chat_id s = home (sr_thread_id s) then registry_insert s reg else reg
   | RegTurn thread turn \<Rightarrow> set_turn thread turn reg
   | RegRoot chat root \<Rightarrow> set_root chat root reg
   | RegRemove thread \<Rightarrow> snd (registry_remove thread reg))"

text \<open>With one chat per thread, what a chat shows is what the thread of the shown session has.\<close>

definition registry_ok :: "(string \<Rightarrow> i64) \<Rightarrow> session_registry \<Rightarrow> bool" where
  "registry_ok home reg \<longleftrightarrow>
     (\<forall>t s. by_thread reg t = Some s \<longrightarrow> sr_thread_id s = t \<and> sr_chat_id s = home t)
   \<and> (\<forall>c s. by_chat reg c = Some s \<longrightarrow> by_thread reg (sr_thread_id s) = Some s \<and> sr_chat_id s = c
       \<and> home (sr_thread_id s) = c)"

lemma registry_ok_empty: "registry_ok home registry_empty"
  by (simp add: registry_ok_def registry_empty_def)

lemma registry_ok_step: "registry_ok home reg \<Longrightarrow> registry_ok home (registry_step home op reg)"
  unfolding registry_ok_def registry_step_def registry_insert_def set_turn_def set_root_def registry_remove_def Let_def
  by (cases op) (auto split: option.splits if_splits, metis+)

interpretation registry: machine "registry_step home" "registry_ok home"
  by unfold_locales (rule registry_ok_step)

text \<open>Every session of the registry is in a chat of its own, so a chat names one session.\<close>

lemma registry_run_ok: "registry_ok home (fold (registry_step home) ops registry_empty)"
  by (rule registry.run_inv) (rule registry_ok_empty)

lemma route_prompt_cases:
  assumes "fst (route_prompt role taken chat root db now m reg) = PromptFor s"
  obtains (discussion) r space where "role = RoleDiscussion" "root = Some r"
      "session_space_for_discussion_root chat r db = Some space"
      "fst (is_unlocked_for_space (sps_space_id space) now m)" "by_chat reg chat = Some s"
  | (other) "role \<noteq> RoleDiscussion" "is_unlocked now m" "by_chat reg chat = Some s"
  using assms
  by (auto simp: route_prompt_def Let_def bind_eq_Some_conv split: if_splits option.splits prod.splits)

section \<open>Properties\<close>


definition demo_space :: "string \<Rightarrow> string \<Rightarrow> i64 \<Rightarrow> session_space" where
  "demo_space sid thread root = \<lparr>sps_space_id = sid, sps_thread_id = Some thread, sps_lifecycle = ''active'',
     sps_generation = 1, sps_channel_chat_id = -5, sps_channel_post_id = root,
     sps_discussion_chat_id = Some (-9), sps_discussion_root_message_id = Some root,
     sps_status_message_id = None, sps_status_bot_instance = None, sps_owner_chat_id = Some (-9),
     sps_plan_mode = False, sps_observed_mode = None, sps_normal_model = None, sps_normal_effort = None,
     sps_plan_model = None, sps_plan_effort = None, sps_closed_at_ms = None, sps_created_at_ms = 0,
     sps_updated_at_ms = 0\<rparr>"

definition demo_record :: "string \<Rightarrow> i64 \<Rightarrow> session_record" where
  "demo_record thread root = \<lparr>sr_thread_id = thread, sr_turn_id = None, sr_chat_id = -9,
     sr_root_message_id = Some root, sr_sender_instance_id = ''discussion''\<rparr>"

definition demo_spaces :: space_db where
  "demo_spaces = space_empty\<lparr>sp_spaces := [demo_space ''s'' ''ours'' 10, demo_space ''z'' ''theirs'' 20]\<rparr>"

definition demo_sessions :: "registry_op list" where
  "demo_sessions = [RegInsert (demo_record ''ours'' 10), RegInsert (demo_record ''theirs'' 20)]"

lemma demo_root: "session_space_for_discussion_root (-9) 10 demo_spaces = Some (demo_space ''s'' ''ours'' 10)"
  by (simp add: session_space_for_discussion_root_def demo_spaces_def space_empty_def first_where_def
      with_root_def root_of_def post_key_def demo_space_def)

lemma demo_registry: "by_chat (fold (registry_step (\<lambda>_. -9)) demo_sessions registry_empty) (-9) = Some (demo_record ''theirs'' 20)"
  by (simp add: demo_sessions_def registry_step_def registry_insert_def registry_empty_def demo_record_def)

lemma demo_prompt:
  "fst (route_prompt RoleDiscussion False (-9) (Some 10) demo_spaces 100000 demo_unlocked
     (fold (registry_step (\<lambda>_. -9)) demo_sessions registry_empty)) = PromptFor (demo_record ''theirs'' 20)"
proof -
  have "fst (is_unlocked_for_space ''s'' 100000 demo_unlocked)"
    by (simp add: is_unlocked_for_space_def demo_unlock_facts demo_state)
  then show ?thesis
    by (cases "is_unlocked_for_space ''s'' 100000 demo_unlocked")
      (simp add: route_prompt_def demo_root demo_registry demo_space_def)
qed


section \<open>Two sessions in one chat\<close>

text \<open>
  The session a prompt goes to is the one the registry shows for the chat, not the one of the
  space whose lease was checked: with two sessions in the discussion chat, a prompt in the comment
  thread of the first, whose space is unlocked, goes to the second, whose space holds no lease.
\<close>

theorem prompt_reaches_the_other_session:
  "fst (route_prompt RoleDiscussion False (-9) (Some 10) demo_spaces 100000 demo_unlocked
     (fold (registry_step (\<lambda>_. -9)) demo_sessions registry_empty)) = PromptFor (demo_record ''theirs'' 20)
   \<and> map_option sps_thread_id (session_space_for_discussion_root (-9) 10 demo_spaces) = Some (Some ''ours'')
   \<and> map_option sps_space_id (session_space_for_thread ''theirs'' demo_spaces) = Some ''z''
   \<and> fst (is_unlocked_for_space ''z'' 100000 demo_unlocked) = False"
proof (intro conjI)
  show "map_option sps_thread_id (session_space_for_discussion_root (-9) 10 demo_spaces) = Some (Some ''ours'')"
    by (simp add: demo_root demo_space_def)
  show "map_option sps_space_id (session_space_for_thread ''theirs'' demo_spaces) = Some ''z''"
    by (simp add: session_space_for_thread_def demo_spaces_def space_empty_def demo_space_def)
  have "\<not> is_blank ''z''" by code_simp
  then show "fst (is_unlocked_for_space ''z'' 100000 demo_unlocked) = False"
    by (simp add: is_unlocked_for_space_def demo_defs demo_unlocked_def accept_totp_timecode_for_space_def)
qed (rule demo_prompt)

end
