(* ===== verification/Approvals.thy ===== *)
theory Approvals
  imports DomainStore Sessions Surfaces
begin

text \<open>
  Approvals in the daemon (\<open>rust/crates/cli/src/daemon.rs\<close>): what a request of Codex becomes on
  Telegram, what each button answers, and what a press of a button is checked against before the
  answer goes out. Codex and Telegram are a state \<open>'n\<close>; the clock is read by index.
\<close>

section \<open>Texts\<close>

text \<open>At most 3900 bytes, cut at a character boundary.\<close>

fun boundary_below :: "nat \<Rightarrow> string \<Rightarrow> nat" where
  "boundary_below 0 s = 0"
| "boundary_below (Suc n) s = (if length s \<le> Suc n \<or> \<not> cont_byte (s ! Suc n) then Suc n else boundary_below n s)"

definition truncate_text :: "string \<Rightarrow> string" where
  "truncate_text s = (if length s \<le> 3900 then s
     else take (boundary_below 3900 s) s @ [newline] @ ''...[truncated]'')"

definition value_text :: "(nat \<Rightarrow> string) \<Rightarrow> json \<Rightarrow> string" where
  "value_text fl v = truncate_text (unwrap_or (as_str v) (json_text fl v))"

fun space_join :: "string list \<Rightarrow> string" where
  "space_join [] = []"
| "space_join [s] = s"
| "space_join (s # t # ss) = s @ '' '' @ space_join (t # ss)"

definition command_text :: "(nat \<Rightarrow> string) \<Rightarrow> json \<Rightarrow> string" where
  "command_text fl params = (case jget ''command'' params of
     Some (JArr vs) \<Rightarrow> space_join (map (value_text fl) vs)
   | Some v \<Rightarrow> value_text fl v
   | None \<Rightarrow> ''unknown command'')"

section \<open>Requests\<close>

definition get_or :: "string \<Rightarrow> string \<Rightarrow> json \<Rightarrow> json option" where
  "get_or k j v = or_else (jget k v) (jget j v)"

text \<open>The requests of the older protocol get the names of the newer one.\<close>

definition normalize_server_request_params :: "string \<Rightarrow> json \<Rightarrow> json" where
  "normalize_server_request_params method params = (case params of
     JObj m \<Rightarrow>
       if method = ''execCommandApproval'' \<or> method = ''applyPatchApproval''
       then JObj (bt_insert ''itemId'' (unwrap_or (get_or ''callId'' ''itemId'' params) (JStr []))
         (bt_insert ''turnId'' (unwrap_or (jget ''turnId'' params) (JStr []))
           (bt_insert ''threadId'' (unwrap_or (get_or ''conversationId'' ''threadId'' params) (JStr [])) m)))
       else params
   | _ \<Rightarrow> params)"

definition all_decisions :: "string list" where
  "all_decisions = [''accept'', ''acceptForSession'', ''decline'', ''cancel'']"

definition default_decisions :: "string \<Rightarrow> string list" where
  "default_decisions method =
     (if method = ''execCommandApproval'' \<or> method = ''applyPatchApproval'' then all_decisions
      else if method = ''item/permissions/requestApproval'' then [''accept'', ''decline'']
      else [''accept'', ''acceptForSession'', ''decline''])"

definition available_approval_decisions :: "string \<Rightarrow> json \<Rightarrow> string list" where
  "available_approval_decisions method params =
     (if method = ''item/permissions/requestApproval'' then default_decisions method
      else case Option.bind (jget ''availableDecisions'' params) as_array of
          None \<Rightarrow> default_decisions method
        | Some vs \<Rightarrow> filter (\<lambda>d. d \<in> set all_decisions) (List.map_filter as_str vs))"

definition requested_permissions :: "json \<Rightarrow> json option" where
  "requested_permissions params = get_or ''permissions'' ''requestedPermissions'' params"

definition legacy_decision :: "string \<Rightarrow> string option" where
  "legacy_decision d = map_of [(''accept'', ''approved''), (''acceptForSession'', ''approved_for_session''),
     (''decline'', ''denied''), (''cancel'', ''abort'')] d"

definition approval_response_payload :: "string \<Rightarrow> string \<Rightarrow> json \<Rightarrow> string + json" where
  "approval_response_payload method decision params =
     (if method = ''item/commandExecution/requestApproval'' \<or> method = ''item/fileChange/requestApproval''
      then Inr (jobj [(''decision'', JStr decision)])
      else if method = ''execCommandApproval'' \<or> method = ''applyPatchApproval''
      then (case legacy_decision decision of
          None \<Rightarrow> Inl ''unsupported legacy approval decision''
        | Some mapped \<Rightarrow> Inr (jobj [(''decision'', JStr mapped)]))
      else if method = ''item/permissions/requestApproval''
      then Inr (jobj [(''permissions'', if decision = ''accept''
            then unwrap_or (requested_permissions params) (jobj []) else jobj []),
          (''scope'', JStr ''turn'')])
      else Inl ''unsupported approval method'')"

definition is_file_change :: "string \<Rightarrow> bool" where
  "is_file_change method \<longleftrightarrow> method = ''item/fileChange/requestApproval'' \<or> method = ''applyPatchApproval''"

definition approval_action_of :: "(nat \<Rightarrow> string) \<Rightarrow> string \<Rightarrow> json \<Rightarrow> approval_action" where
  "approval_action_of fl method params =
     (if method = ''item/permissions/requestApproval''
      then SendPrompt (unwrap_or (map_option (json_text fl) (requested_permissions params)) ''permissions'')
      else ExecuteCommand (if is_file_change method
        then unwrap_or (map_option (value_text fl) (get_or ''grantRoot'' ''cwd'' params)) ''file change''
        else command_text fl params))"

definition approval_message :: "(nat \<Rightarrow> string) \<Rightarrow> string \<Rightarrow> json \<Rightarrow> string \<Rightarrow> string" where
  "approval_message fl method params thread =
     (let subject = (if is_file_change method then ''file change''
            else if method = ''item/permissions/requestApproval'' then ''permissions'' else ''command'');
          detail = (if method = ''item/permissions/requestApproval''
            then unwrap_or (map_option (value_text fl) (requested_permissions params)) ''unknown permissions''
            else if is_file_change method
            then unwrap_or (map_option (value_text fl) (get_or ''grantRoot'' ''cwd'' params)) ''current workspace''
            else command_text fl params);
          cwd = unwrap_or (map_option (value_text fl) (jget ''cwd'' params)) ''unknown'';
          reason = unwrap_or (map_option (value_text fl) (jget ''reason'' params))
            ''Codex requested an additional decision.''
      in truncate_text (''[Codex approval]'' @ [newline] @ ''thread='' @ truncate_text thread @ [newline]
           @ subject @ '': '' @ detail @ [newline] @ ''cwd: '' @ cwd @ [newline]
           @ ''reason: '' @ reason @ [newline] @ ''Choose a decision below.''))"

definition approval_button_label :: "string \<Rightarrow> string" where
  "approval_button_label d = unwrap_or (map_of [(''accept'', ''Allow''), (''acceptForSession'', ''Allow session''),
     (''decline'', ''Deny''), (''cancel'', ''Cancel'')] d) ''Decide''"

definition approval_confirmation :: "json \<Rightarrow> string \<Rightarrow> string" where
  "approval_confirmation decision method =
     (let d = unwrap_or (as_str decision) [] in
      if method = ''item/permissions/requestApproval''
      then (if d = ''accept'' then ''Codex permissions approved.'' else ''Codex permissions denied.'')
      else unwrap_or (map_of [(''accept'', ''Codex approval accepted.''),
          (''acceptForSession'', ''Codex approval accepted for this session.''),
          (''decline'', ''Codex approval denied.''), (''cancel'', ''Codex request cancelled.'')] d)
        ''Codex approval submitted.'')"

definition domain_decision :: "json \<Rightarrow> approval_decision option" where
  "domain_decision v = Option.bind (as_str v) (\<lambda>d.
     if d = ''accept'' \<or> d = ''acceptForSession'' then Some Approved
     else if d = ''decline'' \<or> d = ''cancel'' then Some Rejected else None)"

definition parse_approval_callback :: "string \<Rightarrow> (string \<times> string) option" where
  "parse_approval_callback data = (case split_once (CHR '':'') data of
     None \<Rightarrow> None
   | Some (kind, rest) \<Rightarrow>
       if kind \<noteq> ''ra'' then None
       else (case split_once (CHR '':'') rest of
           None \<Rightarrow> None
         | Some (nonce, decision) \<Rightarrow>
             if trim nonce \<noteq> [] \<and> trim decision \<noteq> [] then Some (trim nonce, trim decision) else None))"

section \<open>What a button stores\<close>

record stored_approval_action =
  saa_request_id :: json
  saa_generation :: u64
  saa_method :: string
  saa_thread_id :: string
  saa_approval_id :: string
  saa_decision :: json
  saa_response :: json

text \<open>The derived serializer and deserializer, on values.\<close>

definition stored_action_value :: "stored_approval_action \<Rightarrow> json" where
  "stored_action_value a = jobj [(''request_id'', saa_request_id a), (''generation'', JInt (int (saa_generation a))),
     (''method'', JStr (saa_method a)), (''thread_id'', JStr (saa_thread_id a)),
     (''approval_id'', JStr (saa_approval_id a)), (''decision'', saa_decision a), (''response'', saa_response a)]"

definition stored_action_of :: "json \<Rightarrow> stored_approval_action option" where
  "stored_action_of v =
     (case (jget ''request_id'' v, Option.bind (jget ''generation'' v) as_u64, jstr ''method'' v, jstr ''thread_id'' v,
        jstr ''approval_id'' v, jget ''decision'' v, jget ''response'' v) of
        (Some i, Some g, Some method, Some thread, Some approval, Some d, Some r) \<Rightarrow> Some
          \<lparr>saa_request_id = i, saa_generation = g, saa_method = method, saa_thread_id = thread,
           saa_approval_id = approval, saa_decision = d, saa_response = r\<rparr>
      | _ \<Rightarrow> None)"

definition read_stored_action :: "json deserializer \<Rightarrow> string \<Rightarrow> stored_approval_action option" where
  "read_stored_action de s = (case de s of Inl _ \<Rightarrow> None | Inr v \<Rightarrow> stored_action_of v)"

section \<open>The world of the handlers\<close>

record 'n bridge_io =
  io_respond :: "json \<Rightarrow> json \<Rightarrow> 'n \<Rightarrow> (string + unit) \<times> 'n"
  io_respond_error :: "json \<Rightarrow> int \<Rightarrow> string \<Rightarrow> 'n \<Rightarrow> (string + unit) \<times> 'n"
  io_send :: "string \<Rightarrow> json \<Rightarrow> 'n \<Rightarrow> (string + unit) \<times> 'n"

record 'n bridge =
  bg_spaces :: space_db
  bg_domain :: domain_db
  bg_totp :: totp_manager
  bg_io :: 'n

record bridge_codec =
  bc_json :: "json serializer"
  bc_read_json :: "json deserializer"
  bc_domain :: domain_codec

definition approval_callback_ttl_ms :: i64 where
  "approval_callback_ttl_ms = 15 * 60 * 1000"

section \<open>Presenting a request\<close>

definition port_str :: "'a port_result \<Rightarrow> string + 'a" where
  "port_str r = (case r of Inl e \<Rightarrow> Inl (port_error_display e) | Inr x \<Rightarrow> Inr x)"

definition ensure_approval_session ::
  "domain_codec \<Rightarrow> string \<Rightarrow> i64 \<Rightarrow> domain_db \<Rightarrow> (string + session_id) \<times> domain_db" where
  "ensure_approval_session cd thread now db =
     (let sid = SessionId (''codex-'' @ thread) in
      case port_str (get_session sid db) of
        Inl e \<Rightarrow> (Inl e, db)
      | Inr (Some s) \<Rightarrow> (Inr sid, db)
      | Inr None \<Rightarrow> (case session_new sid (''Codex '' @ thread) now of
          Inl e \<Rightarrow> (Inl ''session title cannot be empty'', db)
        | Inr s \<Rightarrow> (case insert_session cd s \<lparr>evt_id = EventId (''session-created-'' @ thread),
              evt_occurred_at_ms = now, evt_kind = SessionCreated s\<rparr> db of
            (Inl e, db1) \<Rightarrow> (Inl (port_error_display e), db1)
          | (Inr _, db1) \<Rightarrow> (Inr sid, db1))))"

text \<open>The button of a decision and the callback it stores, under a fresh nonce.\<close>

definition create_button ::
  "bridge_codec \<Rightarrow> agent_server_request \<Rightarrow> string \<Rightarrow> json \<Rightarrow> string \<Rightarrow> string \<Rightarrow> string \<Rightarrow> i64 \<Rightarrow> string
   \<Rightarrow> space_db \<Rightarrow> (string + json \<times> string) \<times> space_db" where
  "create_button bc req thread params approval space nonce now d db =
     (case approval_response_payload (asr_method req) d params of
        Inl e \<Rightarrow> (Inl e, db)
      | Inr response \<Rightarrow>
          (case bc_json bc (stored_action_value \<lparr>saa_request_id = asr_id req, saa_generation = asr_generation req,
              saa_method = asr_method req, saa_thread_id = thread, saa_approval_id = approval,
              saa_decision = JStr d, saa_response = response\<rparr>) of
            Inl e \<Rightarrow> (Inl e, db)
          | Inr action \<Rightarrow>
              if i64_max < int (asr_generation req) then (Inl ''app-server generation exceeds SQLite range'', db)
              else (case create_callback \<lparr>cb_nonce = nonce, cb_space_id = space,
                  cb_generation = int (asr_generation req), cb_action = action,
                  cb_expires_at_ms = now + approval_callback_ttl_ms\<rparr> db of
                (Inl e, db1) \<Rightarrow> (Inl (port_error_display e), db1)
              | (Inr _, db1) \<Rightarrow> (Inr (jobj [(''text'', JStr (approval_button_label d)),
                  (''callback_data'', JStr (''ra:'' @ nonce @ '':'' @ d))], nonce), db1))))"

fun create_buttons ::
  "bridge_codec \<Rightarrow> agent_server_request \<Rightarrow> string \<Rightarrow> json \<Rightarrow> string \<Rightarrow> string \<Rightarrow> (nat \<Rightarrow> string) \<Rightarrow> (nat \<Rightarrow> i64)
   \<Rightarrow> nat \<Rightarrow> string list \<Rightarrow> space_db \<Rightarrow> (string + (json \<times> string) list) \<times> space_db" where
  "create_buttons bc req thread params approval space nonce clock k [] db = (Inr [], db)"
| "create_buttons bc req thread params approval space nonce clock k (d # ds) db =
     (case create_button bc req thread params approval space (nonce k) (clock k) d db of
        (Inl e, db1) \<Rightarrow> (Inl e, db1)
      | (Inr button, db1) \<Rightarrow>
          (case create_buttons bc req thread params approval space nonce clock (k + 1) ds db1 of
            (Inl e, db2) \<Rightarrow> (Inl e, db2)
          | (Inr buttons, db2) \<Rightarrow> (Inr (button # buttons), db2)))"

definition reject_undelivered_approval ::
  "domain_codec \<Rightarrow> approval_request \<Rightarrow> string \<Rightarrow> i64 \<Rightarrow> domain_db \<Rightarrow> (string + unit) \<times> domain_db" where
  "reject_undelivered_approval cd a nonce now db =
     (if apr_decision a \<noteq> Pending then (Inr (), db)
      else case approval_decide Rejected now a of
        Inl e \<Rightarrow> (Inl ''invalid approval transition'', db)
      | Inr rejected \<Rightarrow> (case store_decide_approval cd rejected
            \<lparr>evt_id = EventId (''approval-delivery-failed-'' @ nonce), evt_occurred_at_ms = now,
             evt_kind = ApprovalDecided rejected\<rparr> db of
          (r, db1) \<Rightarrow> (port_str r, db1)))"

definition supported_requests :: "string list" where
  "supported_requests = [''item/commandExecution/requestApproval'', ''item/fileChange/requestApproval'',
     ''item/permissions/requestApproval'', ''execCommandApproval'', ''applyPatchApproval'',
     ''item/tool/requestUserInput'']"

text \<open>
  \<open>RqRefused\<close> is an error response to Codex, \<open>RqUserInput\<close> a question that another handler presents,
  \<open>RqShown\<close> the buttons that were sent, \<open>RqFailed\<close> an error of the handler.
\<close>

datatype request_outcome =
    RqRefused int string
  | RqUserInput
  | RqShown "(json \<times> string) list"
  | RqFailed string

definition refuse ::
  "'n bridge_io \<Rightarrow> agent_server_request \<Rightarrow> int \<Rightarrow> string \<Rightarrow> 'n bridge \<Rightarrow> request_outcome \<times> 'n bridge" where
  "refuse io req code message b = (case io_respond_error io (asr_id req) code message (bg_io b) of
     (Inl e, n) \<Rightarrow> (RqFailed e, b\<lparr>bg_io := n\<rparr>)
   | (Inr _, n) \<Rightarrow> (RqRefused code message, b\<lparr>bg_io := n\<rparr>))"

definition present_approval ::
  "bridge_codec \<Rightarrow> (nat \<Rightarrow> string) \<Rightarrow> 'n bridge_io \<Rightarrow> (nat \<Rightarrow> string) \<Rightarrow> (nat \<Rightarrow> i64) \<Rightarrow> agent_server_request
   \<Rightarrow> json \<Rightarrow> string \<Rightarrow> string \<Rightarrow> 'n bridge \<Rightarrow> request_outcome \<times> 'n bridge" where
  "present_approval bc fl io nonce clock req params thread space b =
     (let decisions = available_approval_decisions (asr_method req) params in
      if decisions = [] then refuse io req (-32602) ''No Telegram-safe approval decision is available'' b
      else case ensure_approval_session (bc_domain bc) thread (clock 0) (bg_domain b) of
        (Inl e, dd) \<Rightarrow> (RqFailed e, b\<lparr>bg_domain := dd\<rparr>)
      | (Inr sid, dd) \<Rightarrow>
          let a = approval_pending (ApprovalId (''approval-'' @ nonce 0)) sid
                (approval_action_of fl (asr_method req) params) (clock 1) in
          (case insert_approval (bc_domain bc) a \<lparr>evt_id = EventId (''approval-requested-'' @ nonce 0),
              evt_occurred_at_ms = clock 2, evt_kind = ApprovalRequested a\<rparr> dd of
            (Inl e, dd1) \<Rightarrow> (RqFailed (port_error_display e), b\<lparr>bg_domain := dd1\<rparr>)
          | (Inr _, dd1) \<Rightarrow>
              (case create_buttons bc req thread params (''approval-'' @ nonce 0) space (\<lambda>k. nonce (k + 1))
                  (\<lambda>k. clock (k + 3)) 0 decisions (bg_spaces b) of
                (Inl e, sp) \<Rightarrow> (RqFailed e, b\<lparr>bg_domain := dd1, bg_spaces := sp\<rparr>)
              | (Inr buttons, sp) \<Rightarrow>
                  (case io_send io (approval_message fl (asr_method req) params thread)
                      (jobj [(''inline_keyboard'', JArr [JArr (map fst buttons)])]) (bg_io b) of
                    (Inr _, n) \<Rightarrow> (RqShown buttons, b\<lparr>bg_domain := dd1, bg_spaces := sp, bg_io := n\<rparr>)
                  | (Inl e, n) \<Rightarrow>
                      let sp1 = fold (\<lambda>(_, c) db. snd (take_callback c (clock 99) db)) buttons sp in
                      (case reject_undelivered_approval (bc_domain bc) a (nonce 0) (clock 100) dd1 of
                        (Inl m, dd2) \<Rightarrow> (RqFailed m, b\<lparr>bg_domain := dd2, bg_spaces := sp1, bg_io := n\<rparr>)
                      | (Inr _, dd2) \<Rightarrow> (case io_respond_error io (asr_id req) (-32001)
                            ''Rust Bridge could not deliver the approval prompt to Telegram'' n of
                          (Inr _, n1) \<Rightarrow> (RqFailed (''Telegram approval delivery failed: '' @ e),
                            b\<lparr>bg_domain := dd2, bg_spaces := sp1, bg_io := n1\<rparr>)
                        | (Inl f, n1) \<Rightarrow> (RqFailed (''Telegram approval delivery failed: '' @ e
                              @ ''; app-server response failed: '' @ f),
                            b\<lparr>bg_domain := dd2, bg_spaces := sp1, bg_io := n1\<rparr>)))))))"

definition handle_server_request ::
  "bridge_codec \<Rightarrow> (nat \<Rightarrow> string) \<Rightarrow> 'n bridge_io \<Rightarrow> (nat \<Rightarrow> string) \<Rightarrow> (nat \<Rightarrow> i64) \<Rightarrow> string list
   \<Rightarrow> session_registry \<Rightarrow> agent_server_request \<Rightarrow> 'n bridge \<Rightarrow> request_outcome \<times> 'n bridge" where
  "handle_server_request bc fl io nonce clock bots reg req b =
     (let params = normalize_server_request_params (asr_method req) (asr_params req) in
      if asr_method req \<notin> set supported_requests
      then refuse io req (-32601) ''Rust Bridge does not support this Codex server request'' b
      else case filter_opt (\<lambda>t. \<not> is_blank t) (jstr ''threadId'' params) of
        None \<Rightarrow> refuse io req (-32600) ''Interactive request did not identify a managed Codex thread'' b
      | Some thread \<Rightarrow> (case by_thread reg thread of
          None \<Rightarrow> refuse io req (-32600) ''Interactive requests are disabled for unmanaged sessions'' b
        | Some s \<Rightarrow>
            if sr_sender_instance_id s \<notin> set bots
            then refuse io req (-32000) ''No Telegram delivery Bot is available'' b
            else (case session_space_for_thread thread (bg_spaces b) of
                None \<Rightarrow> refuse io req (-32600) ''Managed thread has no durable Telegram session space'' b
              | Some space \<Rightarrow>
                  if asr_method req = ''item/tool/requestUserInput'' then (RqUserInput, b)
                  else present_approval bc fl io nonce clock req params thread (sps_space_id space) b)))"

section \<open>Pressing a button\<close>

definition owner_id :: "json deserializer \<Rightarrow> space_db \<Rightarrow> i64 option port_result" where
  "owner_id de db = (case workflow_record de ''onboarding'' ''owner'' db of
     Inl e \<Rightarrow> Inl e
   | Inr v \<Rightarrow> Inr (Option.bind v (ji64 ''user_id'')))"

definition workflow_callback_bot_allowed :: "runtime_bot_role \<Rightarrow> bool" where
  "workflow_callback_bot_allowed role \<longleftrightarrow> role = RoleControl \<or> role = RoleDiscussion"

definition workflow_callback_owner_authorized ::
  "json deserializer \<Rightarrow> telegram_callback \<Rightarrow> space_db \<Rightarrow> bool port_result" where
  "workflow_callback_owner_authorized de c db = (case act_user_id (tcb_actor c) of
     None \<Rightarrow> Inr False
   | Some actor \<Rightarrow> (case owner_id de db of Inl e \<Rightarrow> Inl e | Inr owner \<Rightarrow> Inr (owner = Some actor)))"

text \<open>The ends of the handler; \<open>PressFailed\<close> is an error, everything else was answered on Telegram.\<close>

datatype press_outcome =
    PressEchoed
  | PressUnauthorized
  | PressExpired
  | PressNoSession
  | PressWrongSession
  | PressLocked
  | PressStaleConnection
  | PressAlreadyDecided
  | PressUndelivered string
  | PressChanged
  | PressDamaged
  | PressNoRecord
  | PressInvalid
  | PressSubmitted approval_id
  | PressFailed string

text \<open>The part behind the checks: the callback is taken, the answer sent and the decision recorded.\<close>

definition restore :: "string \<Rightarrow> 'n bridge \<Rightarrow> 'n bridge" where
  "restore nonce b = b\<lparr>bg_spaces := snd (restore_callback nonce (bg_spaces b))\<rparr>"

definition submit_press ::
  "bridge_codec \<Rightarrow> 'n bridge_io \<Rightarrow> u64 \<Rightarrow> (nat \<Rightarrow> i64) \<Rightarrow> string \<Rightarrow> stored_approval_action \<Rightarrow> 'n bridge
   \<Rightarrow> press_outcome \<times> 'n bridge" where
  "submit_press bc io generation clock nonce action b =
     (if saa_generation action \<noteq> generation then (PressStaleConnection, b)
      else case approval_id_new (saa_approval_id action) of
        Inl e \<Rightarrow> (PressFailed ''ApprovalId cannot be empty'', b)
      | Inr i \<Rightarrow> (case get_approval (bc_domain bc) i (bg_domain b) of
          Inl e \<Rightarrow> (PressFailed (port_error_display e), b)
        | Inr None \<Rightarrow> (PressNoRecord, b)
        | Inr (Some a) \<Rightarrow>
            if apr_decision a \<noteq> Pending then (PressAlreadyDecided, b)
            else (case domain_decision (saa_decision action) of
                None \<Rightarrow> (PressInvalid, b)
              | Some d \<Rightarrow> (case io_respond io (saa_request_id action) (saa_response action) (bg_io b) of
                  (Inl e, n) \<Rightarrow> (PressUndelivered e, restore nonce (b\<lparr>bg_io := n\<rparr>))
                | (Inr _, n) \<Rightarrow> (case approval_decide d (clock 3) a of
                    Inl e \<Rightarrow> (PressChanged, restore nonce (b\<lparr>bg_io := n\<rparr>))
                  | Inr a1 \<Rightarrow> (case store_decide_approval (bc_domain bc) a1
                        \<lparr>evt_id = EventId (''approval-decided-'' @ nonce), evt_occurred_at_ms = clock 4,
                         evt_kind = ApprovalDecided a1\<rparr> (bg_domain b) of
                      (Inl e, dd) \<Rightarrow> (PressFailed (port_error_display e),
                        restore nonce (b\<lparr>bg_io := n, bg_domain := dd\<rparr>))
                    | (Inr _, dd) \<Rightarrow> (PressSubmitted i, b\<lparr>bg_io := n, bg_domain := dd\<rparr>)))))))"

text \<open>The button is of the space of its thread, and pressed in the chat of the session.\<close>

definition press_in_session :: "space_db \<Rightarrow> string \<Rightarrow> string \<Rightarrow> i64 \<Rightarrow> i64 \<Rightarrow> bool" where
  "press_in_session db space thread pressed_in chat \<longleftrightarrow> \<not> (space = []
     \<or> space \<noteq> unwrap_or (map_option sps_space_id (session_space_for_thread thread db)) []
     \<or> pressed_in \<noteq> chat)"

definition approval_callback ::
  "bridge_codec \<Rightarrow> 'n bridge_io \<Rightarrow> runtime_bot_role \<Rightarrow> session_registry \<Rightarrow> u64 \<Rightarrow> (nat \<Rightarrow> i64)
   \<Rightarrow> telegram_callback \<Rightarrow> 'n bridge \<Rightarrow> press_outcome \<times> 'n bridge" where
  "approval_callback bc io role reg generation clock c b =
     (case parse_approval_callback (tcb_data c) of
        None \<Rightarrow> (PressEchoed, b)
      | Some (nonce, _) \<Rightarrow>
          (case (if workflow_callback_bot_allowed role
              then workflow_callback_owner_authorized (bc_read_json bc) c (bg_spaces b) else Inr False) of
            Inl e \<Rightarrow> (PressFailed (port_error_display e), b)
          | Inr False \<Rightarrow> (PressUnauthorized, b)
          | Inr True \<Rightarrow> (case peek_callback nonce (clock 0) (bg_spaces b) of
              None \<Rightarrow> (PressExpired, b)
            | Some preview \<Rightarrow> (case read_stored_action (bc_read_json bc) (cb_action preview) of
                None \<Rightarrow> (PressDamaged, b)
              | Some shown \<Rightarrow> (case by_thread reg (saa_thread_id shown) of
                  None \<Rightarrow> (PressNoSession, b)
                | Some s \<Rightarrow>
                    if \<not> press_in_session (bg_spaces b) (cb_space_id preview) (saa_thread_id shown)
                         (tcb_chat_id c) (sr_chat_id s)
                    then (PressWrongSession, b)
                    else (case is_unlocked_for_space (cb_space_id preview) (clock 1) (bg_totp b) of
                      (False, m) \<Rightarrow> (PressLocked, b\<lparr>bg_totp := m\<rparr>)
                    | (True, m) \<Rightarrow> (case take_callback_scoped nonce (clock 2) (Some (cb_space_id preview))
                          (Some (cb_generation preview)) (bg_spaces b) of
                        (Inl e, sp) \<Rightarrow> (PressFailed (port_error_display e), b\<lparr>bg_totp := m, bg_spaces := sp\<rparr>)
                      | (Inr None, sp) \<Rightarrow> (PressExpired, b\<lparr>bg_totp := m, bg_spaces := sp\<rparr>)
                      | (Inr (Some stored), sp) \<Rightarrow>
                          (case read_stored_action (bc_read_json bc) (cb_action stored) of
                            None \<Rightarrow> (PressDamaged, b\<lparr>bg_totp := m, bg_spaces := sp\<rparr>)
                          | Some action \<Rightarrow> submit_press bc io generation clock nonce action
                              (b\<lparr>bg_totp := m, bg_spaces := sp\<rparr>)))))))))"

end
