(* ===== verification/ApprovalProps.thy ===== *)
theory ApprovalProps
  imports Approvals EngineProps SpaceProps
begin

text \<open>
  What the daemon guarantees of approvals: the buttons say what they answer, a press is checked
  before the answer goes out, and one approval gets one answer.
\<close>

section \<open>The answers\<close>

definition newer_methods :: "string list" where
  "newer_methods = [''item/commandExecution/requestApproval'', ''item/fileChange/requestApproval'']"

definition older_methods :: "string list" where
  "older_methods = [''execCommandApproval'', ''applyPatchApproval'']"

definition approval_methods :: "string list" where
  "approval_methods = newer_methods @ older_methods @ [''item/permissions/requestApproval'']"

text \<open>Whether an answer lets Codex go on: a positive decision, or a permission that is granted.\<close>

definition grants :: "json \<Rightarrow> bool" where
  "grants r \<longleftrightarrow> (case jstr ''decision'' r of
     Some d \<Rightarrow> d \<in> set [''accept'', ''acceptForSession'', ''approved'', ''approved_for_session'']
   | None \<Rightarrow> jget ''permissions'' r \<noteq> Some (JObj []))"

lemma available_subset: "d \<in> set (available_approval_decisions method params) \<Longrightarrow> d \<in> set all_decisions"
  by (auto simp: available_approval_decisions_def default_decisions_def all_decisions_def
      split: if_splits option.splits)

lemma all_decisions_cases:
  assumes "d \<in> set all_decisions"
  obtains "d = ''accept''" | "d = ''acceptForSession''" | "d = ''decline''" | "d = ''cancel''"
  using assms by (auto simp: all_decisions_def)

lemma grants_decision:
  "grants (jobj [(''decision'', JStr x)]) \<longleftrightarrow> x \<in> set [''accept'', ''acceptForSession'', ''approved'', ''approved_for_session'']"
  by (simp add: grants_def jstr_def jobj_def bt_get_def)

lemma grants_permissions:
  "grants (jobj [(''permissions'', p), (''scope'', JStr ''turn'')]) \<longleftrightarrow> p \<noteq> JObj []"
  by (simp add: grants_def jstr_def jobj_def bt_get_def)

lemma payload_modern:
  "method \<in> set newer_methods \<Longrightarrow>
     approval_response_payload method d params = Inr (jobj [(''decision'', JStr d)])"
  by (simp add: approval_response_payload_def newer_methods_def)

lemma payload_legacy:
  "method \<in> set older_methods \<Longrightarrow> legacy_decision d = Some x \<Longrightarrow>
     approval_response_payload method d params = Inr (jobj [(''decision'', JStr x)])"
  by (auto simp: approval_response_payload_def older_methods_def)

lemma payload_permissions:
  "approval_response_payload ''item/permissions/requestApproval'' d params =
     Inr (jobj [(''permissions'', if d = ''accept'' then unwrap_or (requested_permissions params) (jobj []) else jobj []),
       (''scope'', JStr ''turn'')])"
  by (simp add: approval_response_payload_def)

lemma permissions_decisions:
  "d \<in> set (available_approval_decisions ''item/permissions/requestApproval'' params) \<Longrightarrow> d = ''accept'' \<or> d = ''decline''"
  by (simp add: available_approval_decisions_def default_decisions_def)

section \<open>The domain tables under the handlers\<close>

definition domain_reaches :: "domain_codec \<Rightarrow> domain_db \<Rightarrow> domain_db \<Rightarrow> bool" where
  "domain_reaches cd db db' \<longleftrightarrow> (\<exists>ops. db' = fold (domain_step cd) ops db)"

lemma reaches_refl [intro, simp]: "domain_reaches cd db db"
  unfolding domain_reaches_def by (rule exI [of _ "[]"]) simp

lemma reaches_trans: "domain_reaches cd a b \<Longrightarrow> domain_reaches cd b c \<Longrightarrow> domain_reaches cd a c"
  by (metis (mono_tags, lifting) domain_reaches_def fold_append comp_apply)

lemma reaches_exec: "domain_exec cd op db = (r, db') \<Longrightarrow> domain_reaches cd db db'"
  unfolding domain_reaches_def by (rule exI [of _ "[op]"]) (simp add: domain_step_def)

lemmas reaches_ops =
  reaches_exec [of _ "DoSession _ _", simplified] reaches_exec [of _ "DoApproval _ _", simplified]
  reaches_exec [of _ "DoDecide _ _", simplified]

lemma ensure_session_reaches: "ensure_approval_session cd thread now db = (r, db') \<Longrightarrow> domain_reaches cd db db'"
  by (auto simp: ensure_approval_session_def Let_def dest: reaches_ops
      split: sum.splits option.splits prod.splits)

lemma reject_reaches: "reject_undelivered_approval cd a nonce now db = (r, db') \<Longrightarrow> domain_reaches cd db db'"
  by (auto simp: reject_undelivered_approval_def dest: reaches_ops split: if_splits sum.splits prod.splits)

lemma refuse_domain: "refuse io req code message b = (r, b') \<Longrightarrow> bg_domain b' = bg_domain b"
  by (auto simp: refuse_def split: prod.splits sum.splits)

lemma present_reaches:
  assumes "present_approval bc fl io nonce clock req params thread space b = (r, b')"
  shows "domain_reaches (bc_domain bc) (bg_domain b) (bg_domain b')"
  using assms
  by (auto simp: present_approval_def Let_def dest!: refuse_domain ensure_session_reaches reject_reaches
      dest!: reaches_ops intro: reaches_trans split: if_splits prod.splits sum.splits)

lemma submit_reaches:
  assumes "submit_press bc io generation clock nonce action b = (r, b')"
  shows "domain_reaches (bc_domain bc) (bg_domain b) (bg_domain b')"
  using assms
  by (auto simp: submit_press_def restore_def dest!: reaches_ops
      split: if_splits prod.splits sum.splits option.splits)

lemma press_reaches:
  assumes "approval_callback bc io role reg generation clock c b = (r, b')"
  shows "domain_reaches (bc_domain bc) (bg_domain b) (bg_domain b')"
  using assms
  by (auto simp: approval_callback_def dest: submit_reaches
      split: if_splits prod.splits sum.splits option.splits bool.splits)

lemma press_reaches_snd:
  "domain_reaches (bc_domain bc) (bg_domain b) (bg_domain (snd (approval_callback bc io role reg generation clock c b)))"
  by (metis press_reaches prod.collapse)

lemma request_reaches:
  assumes "handle_server_request bc fl io nonce clock bots reg req b = (r, b')"
  shows "domain_reaches (bc_domain bc) (bg_domain b) (bg_domain b')"
  using assms
  by (auto simp: handle_server_request_def Let_def dest!: refuse_domain dest: present_reaches
      split: if_splits option.splits)

text \<open>
  The daemon at work: requests, presses, and any other change of the tables, the lock and the
  outside in between.
\<close>

datatype 'n bridge_op =
    BrRequest "'n bridge_io" "nat \<Rightarrow> string" "nat \<Rightarrow> i64" "string list" session_registry agent_server_request
  | BrPress "'n bridge_io" runtime_bot_role session_registry u64 "nat \<Rightarrow> i64" telegram_callback
  | BrDomain domain_op
  | BrOther space_db totp_manager 'n

definition bridge_step :: "bridge_codec \<Rightarrow> (nat \<Rightarrow> string) \<Rightarrow> 'n bridge_op \<Rightarrow> 'n bridge \<Rightarrow> 'n bridge" where
  "bridge_step bc fl op b = (case op of
     BrRequest io nonce clock bots reg req \<Rightarrow> snd (handle_server_request bc fl io nonce clock bots reg req b)
   | BrPress io role reg generation clock c \<Rightarrow> snd (approval_callback bc io role reg generation clock c b)
   | BrDomain dop \<Rightarrow> b\<lparr>bg_domain := domain_step (bc_domain bc) dop (bg_domain b)\<rparr>
   | BrOther sp m n \<Rightarrow> b\<lparr>bg_spaces := sp, bg_totp := m, bg_io := n\<rparr>)"

lemma bridge_step_reaches: "domain_reaches (bc_domain bc) (bg_domain b) (bg_domain (bridge_step bc fl op b))"
proof (cases op)
  case (BrRequest io nonce clock bots reg req)
  then show ?thesis
    using request_reaches [of bc fl io nonce clock bots reg req b] by (simp add: bridge_step_def prod_eq_iff)
next
  case (BrPress io role reg generation clock c)
  then show ?thesis
    using press_reaches [of bc io role reg generation clock c b] by (simp add: bridge_step_def prod_eq_iff)
next
  case (BrDomain dop)
  then show ?thesis
    using reaches_exec [of "bc_domain bc" dop "bg_domain b"] by (simp add: bridge_step_def domain_step_def prod_eq_iff)
qed (simp add: bridge_step_def)

lemma reaches_inv: "domain_reaches cd db db' \<Longrightarrow> domain_inv db \<Longrightarrow> domain_inv db'"
  by (auto simp: domain_reaches_def intro: domain.run_inv)

lemma reaches_decided: "domain_reaches cd db db' \<Longrightarrow> approval_decided i db \<Longrightarrow> approval_decided i db'"
  by (auto simp: domain_reaches_def approval_decided_def dest: decided_run)

text \<open>What went right when an answer was submitted.\<close>

lemma submitted_cases:
  assumes "submit_press bc io generation clock nonce action b = (PressSubmitted i, b')"
  obtains a d a1 e where "i = ApprovalId (saa_approval_id action)" "saa_generation action = generation"
    "get_approval (bc_domain bc) i (bg_domain b) = Inr (Some a)" "apr_decision a = Pending"
    "domain_decision (saa_decision action) = Some d" "approval_decide d (clock 3) a = Inr a1"
    "io_respond io (saa_request_id action) (saa_response action) (bg_io b) = (Inr (), bg_io b')"
    "store_decide_approval (bc_domain bc) a1 e (bg_domain b) = (Inr (), bg_domain b')"
    "bg_spaces b' = bg_spaces b" "bg_totp b' = bg_totp b"
  using assms by (auto simp: submit_press_def split: if_splits prod.splits sum.splits option.splits)

lemma submitted_decides:
  assumes "domain_inv (bg_domain b)" and "submit_press bc io generation clock nonce action b = (PressSubmitted i, b')"
  shows "\<not> approval_decided (approval_id_str i) (bg_domain b) \<and> approval_decided (approval_id_str i) (bg_domain b')"
  using assms(2)
proof (cases rule: submitted_cases)
  case (1 a d a1 e)
  from 1(3) obtain r where r: "approval_at (approval_id_str i) (bg_domain b) = Some r"
    and row: "approval_of_row (bc_domain bc) r = Inr a" by (auto simp: get_approval_Some)
  have "ar_id r = approval_id_str i" using r by (auto simp: approval_at_def dest: first_where_SomeD)
  then have "approval_id_str (apr_id a) = approval_id_str i"
    using row by (auto simp: approval_of_row_def split: sum.splits)
  moreover have "apr_id a1 = apr_id a" "apr_decision a1 \<noteq> Pending"
    using 1(6) approval_decide_frame [OF 1(6)] by (auto simp: approval_decide_Inr)
  ultimately show ?thesis
    using decide_at [OF assms(1) 1(8)] by (cases "apr_decision a1") (auto simp: approval_decided_def approval_decision_str_def)
qed

lemma press_submitted:
  assumes "approval_callback bc io role reg generation clock c b = (PressSubmitted i, b')"
  obtains nonce word preview shown s m stored action sp where
    "parse_approval_callback (tcb_data c) = Some (nonce, word)" "workflow_callback_bot_allowed role"
    "workflow_callback_owner_authorized (bc_read_json bc) c (bg_spaces b) = Inr True"
    "peek_callback nonce (clock 0) (bg_spaces b) = Some preview"
    "read_stored_action (bc_read_json bc) (cb_action preview) = Some shown"
    "by_thread reg (saa_thread_id shown) = Some s"
    "press_in_session (bg_spaces b) (cb_space_id preview) (saa_thread_id shown) (tcb_chat_id c) (sr_chat_id s)"
    "is_unlocked_for_space (cb_space_id preview) (clock 1) (bg_totp b) = (True, m)"
    "take_callback_scoped nonce (clock 2) (Some (cb_space_id preview)) (Some (cb_generation preview)) (bg_spaces b)
      = (Inr (Some stored), sp)"
    "read_stored_action (bc_read_json bc) (cb_action stored) = Some action"
    "submit_press bc io generation clock nonce action (b\<lparr>bg_totp := m, bg_spaces := sp\<rparr>) = (PressSubmitted i, b')"
  using assms
  by (auto simp: approval_callback_def split: if_splits prod.splits sum.splits option.splits bool.splits)

lemma press_decides:
  assumes "domain_inv (bg_domain b)"
    and "fst (approval_callback bc io role reg generation clock c b) = PressSubmitted i"
  shows "\<not> approval_decided (approval_id_str i) (bg_domain b)
    \<and> approval_decided (approval_id_str i) (bg_domain (snd (approval_callback bc io role reg generation clock c b)))"
proof -
  obtain b' where b': "approval_callback bc io role reg generation clock c b = (PressSubmitted i, b')"
    using assms(2) by (metis prod.collapse)
  then show ?thesis
  proof (cases rule: press_submitted)
    case (1 nonce word preview shown s m stored action sp)
    from submitted_decides [OF _ 1(11)] assms(1) show ?thesis by (simp add: b')
  qed
qed

interpretation approval_press: one_shot "bridge_step bc fl" "\<lambda>b. domain_inv (bg_domain b)"
  "\<lambda>(i, _) b. approval_decided i (bg_domain b)"
  "\<lambda>(i, io, role, reg, generation, clock, c) b.
     fst (approval_callback bc io role reg generation clock c b) = PressSubmitted (ApprovalId i)"
  "\<lambda>(i, io, role, reg, generation, clock, c) b. snd (approval_callback bc io role reg generation clock c b)"
  for bc :: bridge_codec and fl
proof (unfold_locales, goal_cases)
  case (1 b op)
  then show ?case using reaches_inv bridge_step_reaches by blast
next
  case (2 b k)
  then show ?case using press_decides by (cases k) fastforce
next
  case (3 b k)
  then show ?case using reaches_inv [OF press_reaches_snd] by (cases k) simp
next
  case (4 b k)
  then show ?case using press_decides by (cases k) fastforce
next
  case (5 b k op)
  then show ?case by (cases k) (auto intro: reaches_decided bridge_step_reaches)
qed

section \<open>Buttons and their callbacks\<close>

lemma stored_action_reads_back: "stored_action_of (stored_action_value a) = Some a"
  by (simp add: stored_action_of_def stored_action_value_def jobj_def jstr_def bt_get_def as_u64_def)

lemma create_callback_row:
  assumes "create_callback c db = (Inr (), db')"
  shows "callback_at (cb_nonce c) db' = Some \<lparr>cb_nonce = cb_nonce c, cb_space_id = cb_space_id c,
      cb_generation = cb_generation c, cb_action = cb_action c, cb_expires_at_ms = cb_expires_at_ms c,
      cb_consumed_at_ms = None, cb_surface = ''workflow''\<rparr>"
  using assms
  by (auto simp: create_callback_def insert_callback_def callback_at_def first_where_append exists_where_first
      split: if_splits)

lemma create_callback_keep:
  "create_callback c db = (r, db') \<Longrightarrow> callback_at n db = Some row \<Longrightarrow> callback_at n db' = Some row"
  by (auto simp: create_callback_def insert_callback_def callback_at_def first_where_append split: if_splits)

lemma create_callback_inv: "create_callback c db = (r, db') \<Longrightarrow> space_inv db \<Longrightarrow> space_inv db'"
  using insert_callback_inv [of db "''workflow''" c] by (simp add: create_callback_def)

text \<open>The row of a button: its action is the stored answer of its decision.\<close>

definition button_row ::
  "bridge_codec \<Rightarrow> agent_server_request \<Rightarrow> string \<Rightarrow> json \<Rightarrow> string \<Rightarrow> string list \<Rightarrow> json \<times> string \<Rightarrow> space_db \<Rightarrow> bool" where
  "button_row bc req thread params approval ds e db \<longleftrightarrow> (\<exists>d \<in> set ds. \<exists>r row.
     approval_response_payload (asr_method req) d params = Inr r
   \<and> jstr ''text'' (fst e) = Some (approval_button_label d)
   \<and> callback_at (snd e) db = Some row
   \<and> bc_json bc (stored_action_value \<lparr>saa_request_id = asr_id req, saa_generation = asr_generation req,
       saa_method = asr_method req, saa_thread_id = thread, saa_approval_id = approval,
       saa_decision = JStr d, saa_response = r\<rparr>) = Inr (cb_action row))"

lemma create_button_frame:
  assumes "create_button bc req thread params approval space nonce now d db = (r, db')"
  shows "callback_at n db = Some row \<Longrightarrow> callback_at n db' = Some row" "space_inv db \<Longrightarrow> space_inv db'"
  using assms
  by (auto simp: create_button_def dest: create_callback_keep create_callback_inv
      split: sum.splits if_splits prod.splits)

lemma create_button_row:
  assumes "create_button bc req thread params approval space nonce now d db = (Inr e, db')" and "d \<in> set ds"
  shows "button_row bc req thread params approval ds e db'"
  using assms
  by (auto simp: create_button_def button_row_def jstr_def jobj_def bt_get_def dest!: create_callback_row
      split: sum.splits if_splits prod.splits intro!: bexI [of _ d])

lemma create_buttons_frame:
  "create_buttons bc req thread params approval space nonce clock k ds db = (r, db') \<Longrightarrow>
     (\<forall>n row. callback_at n db = Some row \<longrightarrow> callback_at n db' = Some row) \<and> (space_inv db \<longrightarrow> space_inv db')"
proof (induction ds arbitrary: k db r)
  case (Cons d ds)
  obtain x db1 where one: "create_button bc req thread params approval space (nonce k) (clock k) d db = (x, db1)"
    by fastforce
  show ?case
    using Cons.prems one create_button_frame [OF one] Cons.IH [of "k + 1" db1]
    by (auto split: sum.splits prod.splits)
qed simp

lemma button_row_keep:
  assumes "button_row bc req thread params approval ds e db"
    and "\<forall>n row. callback_at n db = Some row \<longrightarrow> callback_at n db' = Some row" and "set ds \<subseteq> set ds'"
  shows "button_row bc req thread params approval ds' e db'"
proof -
  from assms(1) obtain d r row where row: "d \<in> set ds" "approval_response_payload (asr_method req) d params = Inr r"
    "jstr ''text'' (fst e) = Some (approval_button_label d)" "callback_at (snd e) db = Some row"
    "bc_json bc (stored_action_value \<lparr>saa_request_id = asr_id req, saa_generation = asr_generation req,
       saa_method = asr_method req, saa_thread_id = thread, saa_approval_id = approval,
       saa_decision = JStr d, saa_response = r\<rparr>) = Inr (cb_action row)"
    unfolding button_row_def by blast
  have at: "callback_at (snd e) db' = Some row" using assms(2) row(4) by blast
  have "d \<in> set ds'" using assms(3) row(1) by (rule subsetD)
  then show ?thesis
    unfolding button_row_def by (rule rev_bexI) (intro exI conjI, rule row(2), rule row(3), rule at, rule row(5))
qed

lemma create_buttons_rows:
  "create_buttons bc req thread params approval space nonce clock k ds db = (Inr bs, db') \<Longrightarrow> e \<in> set bs \<Longrightarrow>
     button_row bc req thread params approval ds e db'"
proof (induction ds arbitrary: k db bs)
  case (Cons d ds)
  from Cons.prems(1) obtain f es db1 where one: "create_button bc req thread params approval space (nonce k) (clock k) d db
      = (Inr f, db1)" and rest: "create_buttons bc req thread params approval space nonce clock (k + 1) ds db1 = (Inr es, db')"
    and bs: "bs = f # es"
    by (auto split: sum.splits prod.splits)
  have "set (d # ds) \<subseteq> set (d # ds)" "set ds \<subseteq> set (d # ds)" by auto
  note keep = button_row_keep [OF _ _ this(1)] button_row_keep [OF _ _ this(2)]
  from Cons.prems(2) bs consider "e = f" | "e \<in> set es" by auto
  then show ?case
  proof cases
    case 1
    from create_buttons_frame [OF rest]
    have "\<forall>n row. callback_at n db1 = Some row \<longrightarrow> callback_at n db' = Some row" by (rule conjunct1)
    from keep(1) [OF create_button_row [OF one] this] show ?thesis by (simp only: 1 list.set_intros)
  next
    case 2
    show ?thesis by (rule keep(2) [OF Cons.IH [OF rest 2]]) simp
  qed
qed simp

lemma shown_cases:
  assumes "handle_server_request bc fl io nonce clock bots reg req b = (RqShown buttons, b1)"
  obtains thread space where "create_buttons bc req thread (normalize_server_request_params (asr_method req) (asr_params req))
    (''approval-'' @ nonce 0) space (\<lambda>k. nonce (k + 1)) (\<lambda>k. clock (k + 3)) 0
    (available_approval_decisions (asr_method req) (normalize_server_request_params (asr_method req) (asr_params req)))
    (bg_spaces b) = (Inr buttons, bg_spaces b1)"
  using assms
  by (auto simp: handle_server_request_def present_approval_def refuse_def Let_def
      split: if_splits option.splits prod.splits sum.splits)

lemma shown_row:
  assumes "handle_server_request bc fl io nonce clock bots reg req b = (RqShown buttons, b1)" and "e \<in> set buttons"
  shows "\<exists>thread. let params = normalize_server_request_params (asr_method req) (asr_params req) in
    button_row bc req thread params (''approval-'' @ nonce 0)
      (available_approval_decisions (asr_method req) params) e (bg_spaces b1)"
  unfolding Let_def using assms(1) by (rule shown_cases) (rule exI, rule create_buttons_rows [OF _ assms(2)])

lemma shown_inv:
  assumes "handle_server_request bc fl io nonce clock bots reg req b = (RqShown buttons, b1)" and "space_inv (bg_spaces b)"
  shows "space_inv (bg_spaces b1)"
  using assms(1) by (rule shown_cases) (use assms(2) create_buttons_frame in blast)

lemma submitted_answer:
  assumes "approval_callback bc io role reg generation clock c b = (PressSubmitted i, b')"
    and "parse_approval_callback (tcb_data c) = Some (n, word)" and "space_inv (bg_spaces b)"
    and "callback_at n (bg_spaces b) = Some row" and "read_stored_action (bc_read_json bc) (cb_action row) = Some action"
  shows "i = ApprovalId (saa_approval_id action) \<and> saa_generation action = generation
    \<and> io_respond io (saa_request_id action) (saa_response action) (bg_io b) = (Inr (), bg_io b')"
  using assms(1)
proof (cases rule: press_submitted)
  case (1 nonce w preview shown s m stored act sp)
  have n: "nonce = n" using 1(1) assms(2) by simp
  from 1(9) take_result [OF assms(3)] assms(4) have "stored = stored_callback.truncate row"
    by (auto simp: n split: if_splits)
  then have "act = action" using 1(10) assms(5) by (simp add: stored_callback.defs)
  with 1(11) show ?thesis by (cases rule: submitted_cases) simp
qed

section \<open>Properties\<close>

text \<open>
  Buttons answer what they say. Every decision offered for an approval has an answer; the
  decisions recorded as an approval let Codex go on, except that permissions can only be granted as
  far as they were asked for, and those recorded as a rejection never do, for the newer and the
  older protocol and for permissions alike.
\<close>

theorem buttons_answer_what_they_say:
  assumes "method \<in> set approval_methods"
    and "d \<in> set (available_approval_decisions method params)"
  shows "\<exists>r. approval_response_payload method d params = Inr r
    \<and> domain_decision (JStr d) = Some (if d = ''accept'' \<or> d = ''acceptForSession'' then Approved else Rejected)
    \<and> grants r = (if d = ''accept'' \<or> d = ''acceptForSession''
        then method \<noteq> ''item/permissions/requestApproval''
          \<or> requested_permissions params \<notin> {None, Some (JObj [])}
        else False)"
proof (cases "method = ''item/permissions/requestApproval''")
  case True
  have empty: "jobj [] = JObj []" by (simp add: jobj_def)
  from True permissions_decisions assms(2) consider "d = ''accept''" | "d = ''decline''" by auto
  then show ?thesis
  proof cases
    case 1
    show ?thesis
      unfolding True payload_permissions
      by (cases "requested_permissions params") (simp_all add: 1 domain_decision_def grants_permissions empty)
  next
    case 2
    show ?thesis
      unfolding True payload_permissions by (simp add: 2 domain_decision_def grants_permissions empty)
  qed
next
  case False
  with assms(1) consider "method \<in> set newer_methods" | "method \<in> set older_methods"
    unfolding approval_methods_def set_append by auto
  then show ?thesis
  proof cases
    case 1
    show ?thesis
      by (rule all_decisions_cases [OF available_subset [OF assms(2)]])
        (simp_all add: payload_modern [OF 1] domain_decision_def grants_decision False)
  next
    case 2
    show ?thesis
      by (rule all_decisions_cases [OF available_subset [OF assms(2)]])
        (simp_all add: payload_legacy [OF 2] legacy_decision_def domain_decision_def grants_decision False)
  qed
qed




section \<open>An example\<close>

text \<open>A codec that knows two texts: the owner's record and the action of one button.\<close>

definition demo_stored :: stored_approval_action where
  "demo_stored = \<lparr>saa_request_id = JInt 5, saa_generation = 3, saa_method = ''execCommandApproval'',
     saa_thread_id = ''ours'', saa_approval_id = ''a1'', saa_decision = JStr ''accept'',
     saa_response = jobj [(''decision'', JStr ''approved'')]\<rparr>"

definition demo_codec :: bridge_codec where
  "demo_codec = \<lparr>bc_json = (\<lambda>_. Inr ''a''),
     bc_read_json = (\<lambda>s. if s = ''o'' then Inr (jobj [(''user_id'', JInt 7)])
       else if s = ''a'' then Inr (stored_action_value demo_stored) else Inl ''bad''),
     bc_domain = toy_codec\<rparr>"

definition demo_io :: "(json \<times> json) list bridge_io" where
  "demo_io = \<lparr>io_respond = (\<lambda>i r n. (Inr (), n @ [(i, r)])), io_respond_error = (\<lambda>i code m n. (Inr (), n)),
     io_send = (\<lambda>m k n. (Inr (), n))\<rparr>"

definition demo_bridge :: "(json \<times> json) list bridge" where
  "demo_bridge = \<lparr>bg_spaces = \<lparr>sp_spaces = [demo_space ''s'' ''ours'' 10], sp_roots = [],
       sp_callbacks = [\<lparr>cb_nonce = ''n1'', cb_space_id = ''s'', cb_generation = 3, cb_action = ''a'',
         cb_expires_at_ms = 200000, cb_consumed_at_ms = None, cb_surface = ''workflow''\<rparr>],
       sp_records = [\<lparr>lr_table_name = ''rust_workflow:onboarding'', lr_row_key = ''owner'',
         lr_source_schema_version = -1, lr_row_json = ''o'', lr_row_sha256 = [], lr_imported_at_ms = 0\<rparr>]\<rparr>,
     bg_domain = fold (domain_step toy_codec) toy_ops domain_empty,
     bg_totp = \<lparr>mgr_db = security_init\<lparr>sec_state := (sec_state security_init)\<lparr>tot_force_locked := False\<rparr>\<rparr>,
       mgr_unlock_seconds = 60, mgr_leases = [''s'' \<mapsto> (150000, 0)]\<rparr>, bg_io = []\<rparr>"

definition demo_press :: "string \<Rightarrow> telegram_callback" where
  "demo_press data = \<lparr>tcb_id = ''q'', tcb_chat_id = -9, tcb_chat_kind = ChatSupergroup, tcb_message_id = 4,
     tcb_data = data, tcb_actor = \<lparr>act_user_id = Some 7, act_sender_chat_id = None\<rparr>\<rparr>"

definition demo_pressed :: "press_outcome \<times> (json \<times> json) list bridge" where
  "demo_pressed = approval_callback demo_codec demo_io RoleDiscussion
     (registry_insert (demo_record ''ours'' 10) registry_empty) 3 (\<lambda>_. 100000) (demo_press ''ra:n1:accept'') demo_bridge"

lemma demo_pressed_submits: "fst demo_pressed = PressSubmitted (ApprovalId ''a1'')"
  by code_simp

theorem buttons_answer_what_they_say_witness:
  "\<exists>r. approval_response_payload ''execCommandApproval'' ''decline'' (jobj []) = Inr r \<and> grants r = False"
proof -
  have "''execCommandApproval'' \<in> set approval_methods"
    "''decline'' \<in> set (available_approval_decisions ''execCommandApproval'' (jobj []))" by code_simp+
  from buttons_answer_what_they_say [OF this] show ?thesis by auto
qed



definition one_button_request :: agent_server_request where
  "one_button_request = \<lparr>asr_id = JInt 5, asr_method = ''execCommandApproval'',
     asr_params = jobj [(''threadId'', JStr ''ours''), (''availableDecisions'', JArr [JStr ''accept''])],
     asr_generation = 3\<rparr>"

definition one_button_stored :: stored_approval_action where
  "one_button_stored = demo_stored\<lparr>saa_approval_id := ''approval-n''\<rparr>"

definition one_button_codec :: bridge_codec where
  "one_button_codec = \<lparr>bc_json = (\<lambda>v. if v = stored_action_value one_button_stored then Inr ''a'' else Inl ''other''),
     bc_read_json = (\<lambda>s. if s = ''o'' then Inr (jobj [(''user_id'', JInt 7)])
       else if s = ''a'' then Inr (stored_action_value one_button_stored) else Inl ''bad''),
     bc_domain = toy_codec\<rparr>"

definition one_button_shown :: "request_outcome \<times> (json \<times> json) list bridge" where
  "one_button_shown = handle_server_request one_button_codec (\<lambda>_. []) demo_io (\<lambda>k. ''n'') (\<lambda>_. 100000) [''discussion'']
     (registry_insert (demo_record ''ours'' 10) registry_empty) one_button_request demo_bridge"

definition one_button :: "json \<times> string" where
  "one_button = (jobj [(''text'', JStr (approval_button_label ''accept'')), (''callback_data'', JStr ''ra:n:accept'')], ''n'')"

definition one_button_pressed :: "press_outcome \<times> (json \<times> json) list bridge" where
  "one_button_pressed = approval_callback one_button_codec demo_io RoleDiscussion
     (registry_insert (demo_record ''ours'' 10) registry_empty) 3 (\<lambda>_. 100001) (demo_press ''ra:n:accept'') (snd one_button_shown)"

lemma one_button_is_shown: "fst one_button_shown = RqShown [one_button]"
  by code_simp

lemma one_button_submits: "fst one_button_pressed = PressSubmitted (ApprovalId ''approval-n'')"
  by code_simp

lemma demo_bridge_inv: "space_inv (bg_spaces demo_bridge)"
  by code_simp


end
