(* ===== verification/AppProtocol.thy ===== *)
theory AppProtocol
  imports Domain
begin

text \<open>
  The protocol rules of interactive requests (\<open>rust/crates/app-server/src/lib.rs\<close>): what Codex asks
  for, in which shape it may be answered, and the threads and turns its responses describe.
\<close>

section \<open>Errors\<close>

datatype app_error =
    AppInvalidConfig
  | AppDisconnected
  | AppShutdown
  | AppQueueFull
  | AppTimeout
  | AppStaleGeneration u64 u64
  | AppProtocol string
  | AppIo string

definition app_error_display :: "app_error \<Rightarrow> string" where
  "app_error_display e = (case e of
     AppInvalidConfig \<Rightarrow> ''invalid app-server configuration''
   | AppDisconnected \<Rightarrow> ''app-server is disconnected''
   | AppShutdown \<Rightarrow> ''app-server client is shut down''
   | AppQueueFull \<Rightarrow> ''app-server outbound queue is full''
   | AppTimeout \<Rightarrow> ''app-server request timed out''
   | AppStaleGeneration expected actual \<Rightarrow> ''app-server generation is stale (expected '' @ show_nat expected
       @ '', got '' @ show_nat actual @ '')''
   | AppProtocol m \<Rightarrow> ''app-server protocol error: '' @ m
   | AppIo m \<Rightarrow> ''app-server I/O error: '' @ m)"

datatype interactive_error =
    UnsupportedMethod string
  | MissingThreadId
  | MissingQuestionId
  | SecretInput
  | UnknownQuestion string
  | UnavailableApprovalDecision
  | InvalidApprovalDecision

definition interactive_error_display :: "interactive_error \<Rightarrow> string" where
  "interactive_error_display e = (case e of
     UnsupportedMethod m \<Rightarrow> ''unsupported interactive server request: '' @ m
   | MissingThreadId \<Rightarrow> ''interactive server request is missing threadId''
   | MissingQuestionId \<Rightarrow> ''requestUserInput question is missing a stable id''
   | SecretInput \<Rightarrow> ''requestUserInput contains a secret question''
   | UnknownQuestion q \<Rightarrow> ''requestUserInput answer does not match a pending question: '' @ q
   | UnavailableApprovalDecision \<Rightarrow> ''approval decision is not available for this request''
   | InvalidApprovalDecision \<Rightarrow> ''approval decision has an invalid protocol shape'')"

section \<open>Fields\<close>

definition string_field :: "json \<Rightarrow> string \<Rightarrow> string" where
  "string_field params name = unwrap_or (jstr name params) []"

definition required_thread_id :: "json \<Rightarrow> interactive_error + string" where
  "required_thread_id params =
     (let direct = string_field params ''threadId'' in
      if \<not> is_blank direct then Inr direct
      else let nested = trim (unwrap_or (Option.bind (filter_opt is_object (jget ''thread'' params)) (jstr ''id'')) []) in
        if nested = [] then Inl MissingThreadId else Inr nested)"

section \<open>Questions\<close>

record user_input_question =
  uiq_id :: string
  uiq_question :: string
  uiq_is_secret :: bool

record user_input_request =
  uir_request :: agent_server_request
  uir_thread_id :: string
  uir_turn_id :: string
  uir_item_id :: string
  uir_questions :: "user_input_question list"
  uir_auto_resolution_ms :: "u64 option"

definition parse_question :: "json \<Rightarrow> interactive_error + user_input_question" where
  "parse_question q = (case filter_opt (\<lambda>s. \<not> is_blank s) (jstr ''id'' q) of
     None \<Rightarrow> Inl MissingQuestionId
   | Some i \<Rightarrow> Inr \<lparr>uiq_id = i, uiq_question = unwrap_or (jstr ''question'' q) [],
       uiq_is_secret = unwrap_or (jbool ''isSecret'' q) False\<rparr>)"

fun parse_questions :: "json list \<Rightarrow> interactive_error + user_input_question list" where
  "parse_questions [] = Inr []"
| "parse_questions (q # qs) = (case parse_question q of
     Inl e \<Rightarrow> Inl e
   | Inr x \<Rightarrow> (case parse_questions qs of Inl e \<Rightarrow> Inl e | Inr xs \<Rightarrow> Inr (x # xs)))"

definition user_input_parse :: "agent_server_request \<Rightarrow> interactive_error + user_input_request" where
  "user_input_parse req =
     (case required_thread_id (asr_params req) of
        Inl e \<Rightarrow> Inl e
      | Inr thread \<Rightarrow>
          (case parse_questions (filter is_object (unwrap_or (Option.bind (jget ''questions'' (asr_params req)) as_array) [])) of
            Inl e \<Rightarrow> Inl e
          | Inr qs \<Rightarrow> Inr \<lparr>uir_request = req, uir_thread_id = thread,
              uir_turn_id = string_field (asr_params req) ''turnId'',
              uir_item_id = string_field (asr_params req) ''itemId'', uir_questions = qs,
              uir_auto_resolution_ms = Option.bind (jget ''autoResolutionMs'' (asr_params req)) as_u64\<rparr>))"

definition contains_secret :: "user_input_request \<Rightarrow> bool" where
  "contains_secret r \<longleftrightarrow> list_ex uiq_is_secret (uir_questions r)"

fun encode_answers ::
  "string list \<Rightarrow> (string \<times> string list) list \<Rightarrow> interactive_error + (string \<times> json) list" where
  "encode_answers known [] = Inr []"
| "encode_answers known ((i, vs) # as) =
     (if i \<notin> set known then Inl (UnknownQuestion i)
      else case encode_answers known as of
        Inl e \<Rightarrow> Inl e
      | Inr m \<Rightarrow> Inr (bt_insert i (jobj [(''answers'', JArr (map JStr vs))]) m))"

text \<open>The answers are a map, iterated by key.\<close>

definition user_input_response :: "user_input_request \<Rightarrow> (string, string list) btree \<Rightarrow> interactive_error + json" where
  "user_input_response r answers =
     (if contains_secret r then Inl SecretInput
      else case encode_answers (map uiq_id (uir_questions r)) answers of
        Inl e \<Rightarrow> Inl e
      | Inr m \<Rightarrow> Inr (jobj [(''answers'', JObj m)]))"

section \<open>Approvals\<close>

record interactive_approval =
  iap_request :: agent_server_request
  iap_thread_id :: string
  iap_turn_id :: string
  iap_item_id :: string
  iap_method :: string
  iap_params :: json
  iap_available :: "json list"

definition is_approval_method :: "string \<Rightarrow> bool" where
  "is_approval_method m \<longleftrightarrow> m \<in> set [''item/commandExecution/requestApproval'', ''item/fileChange/requestApproval'',
     ''item/permissions/requestApproval'', ''execCommandApproval'', ''applyPatchApproval'']"

definition normalize_interactive_approval_params :: "string \<Rightarrow> json \<Rightarrow> json" where
  "normalize_interactive_approval_params method params = (case as_object params of
     None \<Rightarrow> params
   | Some values \<Rightarrow>
       if method = ''execCommandApproval'' \<or> method = ''applyPatchApproval'' then
         (let thread = unwrap_or (or_else (bt_get values ''conversationId'') (bt_get values ''threadId'')) (JStr []);
              turn = unwrap_or (bt_get values ''turnId'') (JStr []);
              item = unwrap_or (or_else (bt_get values ''callId'') (bt_get values ''itemId'')) (JStr [])
          in JObj (bt_insert ''itemId'' item (bt_insert ''turnId'' turn (bt_insert ''threadId'' thread values))))
       else params)"

text \<open>The shape of a decision: one of four words, or one of two policy amendments.\<close>

definition policy_amendment :: "json \<Rightarrow> bool" where
  "policy_amendment detail \<longleftrightarrow> (case Option.bind (jget ''execpolicy_amendment'' detail) as_array of
     None \<Rightarrow> False
   | Some words \<Rightarrow> list_all is_string words)"

definition network_amendment :: "json \<Rightarrow> bool" where
  "network_amendment detail \<longleftrightarrow> (case filter_opt is_object (jget ''network_policy_amendment'' detail) of
     None \<Rightarrow> False
   | Some a \<Rightarrow> jstr ''action'' a \<in> set [Some ''allow'', Some ''deny'']
       \<and> (case jstr ''host'' a of None \<Rightarrow> False | Some host \<Rightarrow> \<not> is_blank host))"

definition simple_decisions :: "string list" where
  "simple_decisions = [''accept'', ''acceptForSession'', ''decline'', ''cancel'']"

definition approval_decision_kind :: "json \<Rightarrow> string option" where
  "approval_decision_kind v = (case v of
     JStr s \<Rightarrow> if s \<in> set simple_decisions then Some s else None
   | JObj m \<Rightarrow>
       if length m \<noteq> 1 then None
       else (case filter_opt is_object (bt_get m ''acceptWithExecpolicyAmendment'') of
           Some detail \<Rightarrow> if policy_amendment detail then Some ''acceptWithExecpolicyAmendment'' else None
         | None \<Rightarrow> (case filter_opt is_object (bt_get m ''applyNetworkPolicyAmendment'') of
             Some detail \<Rightarrow> if network_amendment detail then Some ''applyNetworkPolicyAmendment'' else None
           | None \<Rightarrow> None))
   | _ \<Rightarrow> None)"

definition simple_approval :: "json \<Rightarrow> bool" where
  "simple_approval v \<longleftrightarrow> approval_decision_kind v \<in> Some ` set simple_decisions"

definition modern_default :: "string list" where
  "modern_default = [''accept'', ''acceptForSession'', ''decline'']"

text \<open>What \<open>availableDecisions\<close> leaves of the decisions a test accepts, or the default without it.\<close>

definition advertised :: "(json \<Rightarrow> bool) \<Rightarrow> string list \<Rightarrow> json \<Rightarrow> json list" where
  "advertised ok words params = (case jget ''availableDecisions'' params of
     None \<Rightarrow> map JStr words
   | Some (JArr vs) \<Rightarrow> filter ok vs
   | Some _ \<Rightarrow> [])"

definition permission_decisions :: "json \<Rightarrow> json list" where
  "permission_decisions params =
     (case filter_opt is_object (or_else (jget ''permissions'' params) (jget ''requestedPermissions'' params)) of
        None \<Rightarrow> []
      | Some p \<Rightarrow>
          let turn = jobj [(''permissions'', p), (''scope'', JStr ''turn'')] in
          if p = JObj [] then [turn]
          else [turn, jobj [(''permissions'', p), (''scope'', JStr ''session'')],
            jobj [(''permissions'', JObj []), (''scope'', JStr ''turn'')]])"

definition interactive_approval_decisions :: "string \<Rightarrow> json \<Rightarrow> json list" where
  "interactive_approval_decisions method params =
     (if method = ''item/commandExecution/requestApproval''
      then advertised (\<lambda>v. approval_decision_kind v \<noteq> None) modern_default params
      else if method = ''execCommandApproval'' then map JStr simple_decisions
      else if method = ''item/fileChange/requestApproval'' \<or> method = ''applyPatchApproval''
      then advertised simple_approval simple_decisions params
      else if method = ''item/permissions/requestApproval'' then permission_decisions params
      else [])"

definition interactive_approval_is_available :: "string \<Rightarrow> json \<Rightarrow> json list \<Rightarrow> bool" where
  "interactive_approval_is_available method d available =
     (if method = ''item/permissions/requestApproval'' then is_object d \<and> d \<in> set available
      else approval_decision_kind d \<noteq> None \<and> d \<in> set available)"

definition legacy_word :: "json \<Rightarrow> string option" where
  "legacy_word d = (case d of
     JStr s \<Rightarrow> if s = ''accept'' then Some ''approved'' else if s = ''acceptForSession'' then Some ''approved_for_session''
       else if s = ''decline'' then Some ''denied'' else if s = ''cancel'' then Some ''abort'' else None
   | _ \<Rightarrow> None)"

definition valid_permission_answer :: "json \<Rightarrow> bool" where
  "valid_permission_answer d \<longleftrightarrow>
     (case jget ''permissions'' d of None \<Rightarrow> False | Some p \<Rightarrow> is_object p)
   \<and> jstr ''scope'' d \<in> set [Some ''turn'', Some ''session'']
   \<and> (case jget ''strictAutoReview'' d of None \<Rightarrow> True | Some s \<Rightarrow> is_boolean s)
   \<and> \<not> (jstr ''scope'' d = Some ''session'' \<and> jget ''strictAutoReview'' d = Some (JBool True))"

definition interactive_response_payload :: "string \<Rightarrow> json \<Rightarrow> interactive_error + json" where
  "interactive_response_payload method d =
     (if method = ''item/permissions/requestApproval'' then
        (if \<not> is_object d then Inl InvalidApprovalDecision
         else if \<not> valid_permission_answer d then Inl InvalidApprovalDecision
         else Inr d)
      else if approval_decision_kind d = None then Inl InvalidApprovalDecision
      else if method = ''item/commandExecution/requestApproval'' \<or> method = ''item/fileChange/requestApproval''
      then Inr (jobj [(''decision'', d)])
      else if method = ''execCommandApproval'' \<or> method = ''applyPatchApproval'' then
        (case legacy_word d of
           None \<Rightarrow> Inl InvalidApprovalDecision
         | Some w \<Rightarrow> Inr (jobj [(''decision'', JStr w)]))
      else Inl (UnsupportedMethod method))"

definition interactive_approval_parse :: "agent_server_request \<Rightarrow> interactive_error + interactive_approval" where
  "interactive_approval_parse req =
     (if \<not> is_approval_method (asr_method req) then Inl (UnsupportedMethod (asr_method req))
      else let params = normalize_interactive_approval_params (asr_method req) (asr_params req) in
        case required_thread_id params of
          Inl e \<Rightarrow> Inl e
        | Inr thread \<Rightarrow> Inr \<lparr>iap_request = req, iap_thread_id = thread, iap_turn_id = string_field params ''turnId'',
            iap_item_id = string_field params ''itemId'', iap_method = asr_method req, iap_params = params,
            iap_available = interactive_approval_decisions (asr_method req) params\<rparr>)"

definition interactive_approval_response :: "interactive_approval \<Rightarrow> json \<Rightarrow> interactive_error + json" where
  "interactive_approval_response r d =
     (if \<not> interactive_approval_is_available (iap_method r) d (iap_available r) then Inl UnavailableApprovalDecision
      else interactive_response_payload (iap_method r) d)"

datatype interactive_request =
    IrUserInput user_input_request
  | IrApproval interactive_approval

definition interactive_request_parse :: "agent_server_request \<Rightarrow> interactive_error + interactive_request" where
  "interactive_request_parse req =
     (if asr_method req = ''item/tool/requestUserInput'' then map_sum id IrUserInput (user_input_parse req)
      else map_sum id IrApproval (interactive_approval_parse req))"

end
