(* ===== verification/AppProps.thy ===== *)
theory AppProps
  imports AppProtocol Approvals
begin

text \<open>
  The protocol rules are consistent: what a request offers can be answered, and what the daemon
  answers to its buttons is what the protocol rules would have answered.
\<close>

section \<open>Offers\<close>

lemma simple_approval_JStr: "simple_approval v \<Longrightarrow> \<exists>s \<in> set simple_decisions. v = JStr s"
  by (auto simp: simple_approval_def approval_decision_kind_def simple_decisions_def split: json.splits if_splits option.splits)

lemma simple_kind [simp]: "s \<in> set simple_decisions \<Longrightarrow> approval_decision_kind (JStr s) = Some s"
  by (simp add: approval_decision_kind_def)

lemma simple_cases:
  assumes "s \<in> set simple_decisions"
  obtains "s = ''accept''" | "s = ''acceptForSession''" | "s = ''decline''" | "s = ''cancel''"
  using assms by (auto simp: simple_decisions_def)

lemma legacy_word_simple: "s \<in> set simple_decisions \<Longrightarrow> legacy_word (JStr s) = legacy_decision s \<and> legacy_decision s \<noteq> None"
  by (erule simple_cases) (simp_all add: legacy_word_def legacy_decision_def)

lemma advertised_ok:
  "d \<in> set (advertised ok words params) \<Longrightarrow> (\<And>s. s \<in> set words \<Longrightarrow> ok (JStr s)) \<Longrightarrow> ok d"
  by (auto simp: advertised_def split: option.splits json.splits)

lemma command_offer: "d \<in> set (advertised (\<lambda>v. approval_decision_kind v \<noteq> None) modern_default params) \<Longrightarrow>
    approval_decision_kind d \<noteq> None"
  by (erule advertised_ok) (auto simp: modern_default_def approval_decision_kind_def simple_decisions_def)

lemma simple_offer: "d \<in> set (advertised simple_approval simple_decisions params) \<Longrightarrow> \<exists>s \<in> set simple_decisions. d = JStr s"
  by (rule simple_approval_JStr, erule advertised_ok) (simp add: simple_approval_def)

lemma permission_offer:
  assumes "d \<in> set (permission_decisions params)"
  shows "is_object d \<and> valid_permission_answer d"
proof -
  have scoped: "is_object (jobj [(''permissions'', p), (''scope'', JStr s)])
      \<and> valid_permission_answer (jobj [(''permissions'', p), (''scope'', JStr s)])"
    if "is_object p" "s = ''turn'' \<or> s = ''session''" for p s
    using that by (auto simp: valid_permission_answer_def jobj_def jstr_def bt_get_def)
  obtain p where p: "is_object p" and some: "filter_opt is_object (or_else (jget ''permissions'' params)
      (jget ''requestedPermissions'' params)) = Some p"
    using assms by (cases "filter_opt is_object (or_else (jget ''permissions'' params) (jget ''requestedPermissions'' params))")
      (auto simp: permission_decisions_def)
  from assms have d: "d = jobj [(''permissions'', p), (''scope'', JStr ''turn'')]
      \<or> d = jobj [(''permissions'', p), (''scope'', JStr ''session'')]
      \<or> d = jobj [(''permissions'', JObj []), (''scope'', JStr ''turn'')]"
    by (simp only: permission_decisions_def some option.case Let_def list.set insert_iff empty_iff simp_thms split: if_splits)
  from d consider "d = jobj [(''permissions'', p), (''scope'', JStr ''turn'')]"
    | "d = jobj [(''permissions'', p), (''scope'', JStr ''session'')]"
    | "d = jobj [(''permissions'', JObj []), (''scope'', JStr ''turn'')]"
    by (elim disjE)
  then show ?thesis
  proof cases
    case 1
    show ?thesis unfolding 1 by (rule scoped [OF p]) simp
  next
    case 2
    show ?thesis unfolding 2 by (rule scoped [OF p]) simp
  next
    case 3
    show ?thesis unfolding 3 by (rule scoped) simp_all
  qed
qed

lemma approval_method_cases [consumes 1]:
  assumes "is_approval_method m"
  obtains (command) "m = ''item/commandExecution/requestApproval''" | (file_change) "m = ''item/fileChange/requestApproval''"
    | (permissions) "m = ''item/permissions/requestApproval''" | (exec) "m = ''execCommandApproval''"
    | (patch) "m = ''applyPatchApproval''"
proof -
  from assms have "m = ''item/commandExecution/requestApproval'' \<or> m = ''item/fileChange/requestApproval''
      \<or> m = ''item/permissions/requestApproval'' \<or> m = ''execCommandApproval'' \<or> m = ''applyPatchApproval''"
    by (simp only: is_approval_method_def list.set insert_iff empty_iff simp_thms)
  then show ?thesis by - (elim disjE; rule that; assumption)
qed

lemma simple_payload:
  assumes "is_approval_method m" and "m \<noteq> ''item/permissions/requestApproval''" and "d \<in> set simple_decisions"
  shows "interactive_response_payload m (JStr d) = Inr
    (if m = ''execCommandApproval'' \<or> m = ''applyPatchApproval'' then jobj [(''decision'', JStr (the (legacy_word (JStr d))))]
     else jobj [(''decision'', JStr d)])"
  using assms(1) assms(2) legacy_word_simple [OF assms(3)] assms(3)
  by (cases rule: approval_method_cases) (auto simp: interactive_response_payload_def)

lemma permission_payload:
  "is_object d \<Longrightarrow> valid_permission_answer d \<Longrightarrow>
     interactive_response_payload ''item/permissions/requestApproval'' d = Inr d"
  by (simp add: interactive_response_payload_def)

lemma offered_payload:
  assumes "is_approval_method m" and "d \<in> set (interactive_approval_decisions m params)"
  shows "interactive_approval_is_available m d (interactive_approval_decisions m params)
    \<and> interactive_response_payload m d = Inr
      (if m = ''item/permissions/requestApproval'' then d
       else if m = ''execCommandApproval'' \<or> m = ''applyPatchApproval'' then jobj [(''decision'', JStr (the (legacy_word d)))]
       else jobj [(''decision'', d)])"
proof -
  have simple: ?thesis if "m \<noteq> ''item/permissions/requestApproval''" "\<exists>s \<in> set simple_decisions. d = JStr s"
  proof -
    from that(2) obtain s where s: "s \<in> set simple_decisions" "d = JStr s" by blast
    from simple_payload [OF assms(1) that(1) s(1)] assms(2) that(1) s show ?thesis
      by (simp add: interactive_approval_is_available_def)
  qed
  from assms(1) show ?thesis
  proof (cases rule: approval_method_cases)
    case command
    with assms(2) have "approval_decision_kind d \<noteq> None"
      by (intro command_offer) (simp add: interactive_approval_decisions_def)
    with command assms(2) show ?thesis
      by (simp add: interactive_approval_is_available_def interactive_response_payload_def)
  next
    case file_change
    with assms(2) show ?thesis by (intro simple simple_offer) (simp_all add: interactive_approval_decisions_def)
  next
    case permissions
    with assms(2) have "d \<in> set (permission_decisions params)" by (simp add: interactive_approval_decisions_def)
    from permission_offer [OF this] permission_payload [of d] assms(2) permissions show ?thesis
      by (simp add: interactive_approval_is_available_def)
  next
    case exec
    with assms(2) show ?thesis by (intro simple) (auto simp: interactive_approval_decisions_def)
  next
    case patch
    with assms(2) show ?thesis by (intro simple simple_offer) (simp_all add: interactive_approval_decisions_def)
  qed
qed

section \<open>Properties\<close>

text \<open>
  C29. Exactly what was offered can be answered. Of an approval request that parses, each decision it
  offers has an answer that carries it: as it is for permissions, as the older protocol's word for
  the two old methods, as \<open>decision\<close> otherwise. Every other value is refused as not available.
\<close>

theorem offers_can_be_answered:
  assumes "interactive_approval_parse req = Inr r"
  shows "interactive_approval_response r d =
    (if d \<in> set (iap_available r) then Inr
      (if asr_method req = ''item/permissions/requestApproval'' then d
       else if asr_method req = ''execCommandApproval'' \<or> asr_method req = ''applyPatchApproval''
       then jobj [(''decision'', JStr (the (legacy_word d)))] else jobj [(''decision'', d)])
     else Inl UnavailableApprovalDecision)"
proof -
  from assms have r: "is_approval_method (asr_method req)" "iap_method r = asr_method req"
    "iap_available r = interactive_approval_decisions (asr_method req)
      (normalize_interactive_approval_params (asr_method req) (asr_params req))"
    by (auto simp: interactive_approval_parse_def Let_def split: if_splits sum.splits)
  show ?thesis
  proof (cases "d \<in> set (iap_available r)")
    case True
    from offered_payload [OF r(1) True [unfolded r(3)]] True show ?thesis
      by (simp add: interactive_approval_response_def r(2,3))
  next
    case False
    then show ?thesis by (simp add: interactive_approval_response_def interactive_approval_is_available_def)
  qed
qed

lemma normalize_agrees: "normalize_interactive_approval_params m params = normalize_server_request_params m params"
  by (simp add: normalize_interactive_approval_params_def normalize_server_request_params_def get_or_def as_object_def
      Let_def split: json.split)

lemma daemon_offer:
  assumes "m \<noteq> ''item/permissions/requestApproval''" and "d \<in> set (available_approval_decisions m params)"
    and "\<forall>v. jget ''availableDecisions'' params = Some v \<longrightarrow> as_array v \<noteq> None" and "is_approval_method m"
  shows "JStr d \<in> set (interactive_approval_decisions m params) \<and> d \<in> set simple_decisions"
proof -
  have all: "all_decisions = simple_decisions" by (simp add: all_decisions_def simple_decisions_def)
  have modern: "set modern_default \<subseteq> set simple_decisions" by (auto simp: modern_default_def simple_decisions_def)
  show ?thesis
  proof (cases "jget ''availableDecisions'' params")
    case None
    with assms(1,2) have d: "d \<in> set (default_decisions m)" by (simp add: available_approval_decisions_def)
    from assms(4) show ?thesis
      using None d modern assms(1)
      by (cases rule: approval_method_cases)
        (auto simp: interactive_approval_decisions_def advertised_def default_decisions_def all modern_default_def [symmetric])
  next
    case (Some v)
    with assms(3) obtain vs where v: "v = JArr vs" by (auto simp: as_array_def split: json.splits)
    with assms(1,2) Some have d: "JStr d \<in> set vs" "d \<in> set simple_decisions"
      by (auto simp: available_approval_decisions_def all map_filter_def)
    from assms(4) show ?thesis
      using Some v d assms(1)
      by (cases rule: approval_method_cases) (auto simp: interactive_approval_decisions_def advertised_def simple_approval_def)
  qed
qed

lemma daemon_payload:
  assumes "is_approval_method m" and "m \<noteq> ''item/permissions/requestApproval''" and "d \<in> set simple_decisions"
    and "interactive_response_payload m (JStr d) = Inr x"
  shows "approval_response_payload m d params = Inr x"
  using assms(1) assms(2,4) legacy_word_simple [OF assms(3)] simple_payload [OF assms(1-3)]
  by (cases rule: approval_method_cases) (auto simp: approval_response_payload_def)


section \<open>Examples\<close>

definition demo_offer :: agent_server_request where
  "demo_offer = \<lparr>asr_id = JInt 4, asr_method = ''applyPatchApproval'',
     asr_params = jobj [(''conversationId'', JStr ''t''), (''availableDecisions'', JArr [JStr ''accept'', JInt 3])],
     asr_generation = 1\<rparr>"

lemma demo_offer_parses:
  "case interactive_approval_parse demo_offer of Inl _ \<Rightarrow> False | Inr r \<Rightarrow> iap_available r = [JStr ''accept'']"
  by code_simp

theorem offers_can_be_answered_witness:
  "\<exists>r. interactive_approval_parse demo_offer = Inr r
     \<and> interactive_approval_response r (JStr ''accept'') = Inr (jobj [(''decision'', JStr ''approved'')])
     \<and> interactive_approval_response r (JStr ''cancel'') = Inl UnavailableApprovalDecision"
proof -
  from demo_offer_parses obtain r where r: "interactive_approval_parse demo_offer = Inr r" "iap_available r = [JStr ''accept'']"
    by (auto split: sum.splits)
  have "asr_method demo_offer = ''applyPatchApproval''" "the (legacy_word (JStr ''accept'')) = ''approved''" by code_simp+
  with offers_can_be_answered [OF r(1), of "JStr ''accept''"] offers_can_be_answered [OF r(1), of "JStr ''cancel''"] r
  show ?thesis by simp
qed


end
