(* ===== verification/AppClient.thy ===== *)
theory AppClient
  imports AppProtocol Sql Contracts
begin

text \<open>
  The client of the app-server (\<open>rust/crates/app-server/src/lib.rs\<close>): calls that wait for a response,
  answers to server requests, the connection with its handshake, and the supervisor that opens one
  connection after another. A connection is cut at the branches of its \<open>select!\<close>; a write to the
  transport succeeds or fails by a flag. A reply channel is named by the number of its call; what is
  sent on it, also by dropping it, is kept in \<open>cl_answers\<close>.
\<close>

section \<open>Configuration\<close>

datatype app_transport =
    UnixSocket string
  | Stdio string "string list"

record app_config =
  acf_socket_path :: string
  acf_transport :: app_transport
  acf_client_name :: string
  acf_client_title :: string
  acf_client_version :: string
  acf_outbound_capacity :: nat
  acf_pending_capacity :: nat
  acf_notification_capacity :: nat
  acf_reconnect_initial :: nat
  acf_reconnect_max :: nat

text \<open>Durations in milliseconds. The version is the one of the package.\<close>

definition config_managed :: "string \<Rightarrow> string \<Rightarrow> app_config" where
  "config_managed version path =
     \<lparr>acf_socket_path = path, acf_transport = UnixSocket path, acf_client_name = ''codex_telegram_bridge_rust'',
      acf_client_title = ''Codex Telegram Bridge (Rust)'', acf_client_version = version,
      acf_outbound_capacity = 128, acf_pending_capacity = 128, acf_notification_capacity = 256,
      acf_reconnect_initial = 1000, acf_reconnect_max = 30000\<rparr>"

definition config_stdio :: "string \<Rightarrow> string \<Rightarrow> string list \<Rightarrow> app_config" where
  "config_stdio version program args = (config_managed version ''stdio'')\<lparr>acf_transport := Stdio program args\<rparr>"

definition config_validate :: "app_config \<Rightarrow> app_error + unit" where
  "config_validate c =
     (if acf_socket_path c = []
         \<or> (case acf_transport c of UnixSocket path \<Rightarrow> path = [] | _ \<Rightarrow> False)
         \<or> (case acf_transport c of Stdio program _ \<Rightarrow> program = [] | _ \<Rightarrow> False)
         \<or> acf_outbound_capacity c = 0 \<or> acf_pending_capacity c = 0 \<or> acf_notification_capacity c = 0
         \<or> acf_reconnect_initial c = 0 \<or> acf_reconnect_max c < acf_reconnect_initial c
      then Inl AppInvalidConfig else Inr ())"

section \<open>State\<close>

record connection_state =
  cs_generation :: u64
  cs_connected :: bool

datatype outbound =
    OutRequest u64 u64 string json
  | OutResponse u64 json nat

record app_client =
  cl_config :: app_config
  cl_state :: connection_state
  cl_transport_generation :: u64
  cl_transport_active :: bool
  cl_ids :: u64
  cl_permits :: nat
  cl_outbound :: "outbound list"
  cl_closed :: bool
  cl_events :: "agent_event list"
  cl_server_requests :: "agent_server_request list"
  cl_answers :: "(u64 \<times> (app_error + json)) list"
  cl_acks :: "(nat \<times> (app_error + unit)) list"

definition client_new :: "app_config \<Rightarrow> app_client" where
  "client_new c = \<lparr>cl_config = c, cl_state = \<lparr>cs_generation = 0, cs_connected = False\<rparr>,
     cl_transport_generation = 0, cl_transport_active = False, cl_ids = 1,
     cl_permits = acf_pending_capacity c, cl_outbound = [], cl_closed = False, cl_events = [],
     cl_server_requests = [], cl_answers = [], cl_acks = []\<rparr>"

definition app_connect :: "app_config \<Rightarrow> app_error + app_client" where
  "app_connect c = (case config_validate c of Inl e \<Rightarrow> Inl e | Inr _ \<Rightarrow> Inr (client_new c))"

text \<open>A result on a reply channel; the permit of the call is free again.\<close>

definition answer :: "u64 \<Rightarrow> app_error + json \<Rightarrow> app_client \<Rightarrow> app_client" where
  "answer i r cl = cl\<lparr>cl_answers := cl_answers cl @ [(i, r)], cl_permits := cl_permits cl + 1\<rparr>"

definition acknowledge :: "nat \<Rightarrow> app_error + unit \<Rightarrow> app_client \<Rightarrow> app_client" where
  "acknowledge h r cl = cl\<lparr>cl_acks := cl_acks cl @ [(h, r)]\<rparr>"

section \<open>Calls and answers\<close>

definition try_send :: "outbound \<Rightarrow> app_client \<Rightarrow> (app_error + unit) \<times> app_client" where
  "try_send m cl =
     (if cl_closed cl then (Inl AppShutdown, cl)
      else if acf_outbound_capacity (cl_config cl) \<le> length (cl_outbound cl) then (Inl AppQueueFull, cl)
      else (Inr (), cl\<lparr>cl_outbound := cl_outbound cl @ [m]\<rparr>))"

text \<open>
  The part of a call between its waits: \<open>generation\<close> is the one it saw connected, a permit is taken,
  and the request goes to the queue under a number of its own. Without a permit it waits in vain.
\<close>

definition request_submit :: "u64 \<Rightarrow> string \<Rightarrow> json \<Rightarrow> app_client \<Rightarrow> (app_error + u64) \<times> app_client" where
  "request_submit generation method params cl =
     (if cl_permits cl = 0 then (Inl AppTimeout, cl)
      else let i = cl_ids cl; cl1 = cl\<lparr>cl_ids := i + 1\<rparr> in
        case try_send (OutRequest generation i method params) cl1 of
          (Inl e, cl2) \<Rightarrow> (Inl e, cl2)
        | (Inr _, cl2) \<Rightarrow> (Inr i, cl2\<lparr>cl_permits := cl_permits cl2 - 1\<rparr>))"

text \<open>
  A call is tried twice within its deadline; \<open>left\<close> is what is left of it before each attempt and
  \<open>once\<close> the attempt.
\<close>

definition app_request ::
  "(nat \<Rightarrow> nat) \<Rightarrow> (nat \<Rightarrow> 'w \<Rightarrow> (app_error + json) \<times> 'w) \<Rightarrow> 'w \<Rightarrow> (app_error + json) \<times> 'w" where
  "app_request left once w =
     (if left 0 = 0 then (Inl AppTimeout, w)
      else case once 0 w of
        (Inl AppDisconnected, w1) \<Rightarrow> if left 1 = 0 then (Inl AppTimeout, w1) else once 1 w1
      | r \<Rightarrow> r)"

definition response_message :: "json \<Rightarrow> json \<Rightarrow> json" where
  "response_message payload i = JObj (bt_insert ''id'' i (unwrap_or (as_object payload) []))"

definition send_response_for_generation ::
  "u64 \<Rightarrow> json \<Rightarrow> json \<Rightarrow> nat \<Rightarrow> app_client \<Rightarrow> (app_error + unit) \<times> app_client" where
  "send_response_for_generation generation i payload h cl =
     (let active = cl_transport_generation cl in
      if \<not> cl_transport_active cl then (Inl AppDisconnected, cl)
      else if generation = 0 \<or> active \<noteq> generation then (Inl (AppStaleGeneration active generation), cl)
      else try_send (OutResponse generation (response_message payload i) h) cl)"

definition send_response :: "json \<Rightarrow> json \<Rightarrow> nat \<Rightarrow> app_client \<Rightarrow> (app_error + unit) \<times> app_client" where
  "send_response i payload h cl = send_response_for_generation (cl_transport_generation cl) i payload h cl"

definition result_payload :: "json \<Rightarrow> json" where
  "result_payload v = jobj [(''result'', v)]"

definition error_payload :: "int \<Rightarrow> string \<Rightarrow> json" where
  "error_payload code message = jobj [(''error'', jobj [(''code'', JInt code), (''message'', JStr message)])]"

definition respond_to_server_request ::
  "agent_server_request \<Rightarrow> json \<Rightarrow> nat \<Rightarrow> app_client \<Rightarrow> (app_error + unit) \<times> app_client" where
  "respond_to_server_request req v h cl =
     send_response_for_generation (asr_generation req) (asr_id req) (result_payload v) h cl"

definition respond_error_to_server_request ::
  "agent_server_request \<Rightarrow> int \<Rightarrow> string \<Rightarrow> nat \<Rightarrow> app_client \<Rightarrow> (app_error + unit) \<times> app_client" where
  "respond_error_to_server_request req code message h cl =
     send_response_for_generation (asr_generation req) (asr_id req) (error_payload code message) h cl"

definition app_respond :: "json \<Rightarrow> json \<Rightarrow> nat \<Rightarrow> app_client \<Rightarrow> (app_error + unit) \<times> app_client" where
  "app_respond i v h cl = send_response i (result_payload v) h cl"

definition app_respond_error :: "json \<Rightarrow> int \<Rightarrow> string \<Rightarrow> nat \<Rightarrow> app_client \<Rightarrow> (app_error + unit) \<times> app_client" where
  "app_respond_error i code message h cl = send_response i (error_payload code message) h cl"

section \<open>A connection\<close>

record app_connection =
  cn_generation :: u64
  cn_initialize_id :: u64
  cn_initialized :: bool
  cn_pending :: "u64 list"

definition initialize_frame :: "app_config \<Rightarrow> u64 \<Rightarrow> json" where
  "initialize_frame c i = jobj [(''id'', JInt (int i)), (''method'', JStr ''initialize''),
     (''params'', jobj [(''clientInfo'', jobj [(''name'', JStr (acf_client_name c)),
         (''title'', JStr (acf_client_title c)), (''version'', JStr (acf_client_version c))]),
       (''capabilities'', jobj [(''experimentalApi'', JBool True)])])]"

definition initialized_frame :: json where
  "initialized_frame = jobj [(''method'', JStr ''initialized''), (''params'', jobj [])]"

definition request_frame :: "u64 \<Rightarrow> string \<Rightarrow> json \<Rightarrow> json" where
  "request_frame i method params = jobj [(''id'', JInt (int i)), (''method'', JStr method), (''params'', params)]"

text \<open>\<open>Some\<close> is what was written; a failed write and every error end the connection.\<close>

definition write_outbound ::
  "bool \<Rightarrow> outbound \<Rightarrow> app_connection \<Rightarrow> app_client \<Rightarrow> (app_error + json option) \<times> app_connection \<times> app_client" where
  "write_outbound ok m cn cl = (case m of
     OutRequest g i method params \<Rightarrow>
       if g \<noteq> cn_generation cn \<or> \<not> cs_connected (cl_state cl)
       then (Inr None, cn, answer i (Inl AppDisconnected) cl)
       else if \<not> ok then (Inl AppDisconnected, cn, answer i (Inl AppDisconnected) cl)
       else (Inr (Some (request_frame i method params)), cn\<lparr>cn_pending := i # cn_pending cn\<rparr>, cl)
   | OutResponse g message h \<Rightarrow>
       let active = cl_transport_generation cl in
       if \<not> cl_transport_active cl then (Inr None, cn, acknowledge h (Inl AppDisconnected) cl)
       else if g \<noteq> cn_generation cn \<or> active \<noteq> g
       then (Inr None, cn, acknowledge h (Inl (AppStaleGeneration active g)) cl)
       else if \<not> ok then (Inl AppDisconnected, cn, acknowledge h (Inl AppDisconnected) cl)
       else (Inr (Some message), cn, acknowledge h (Inr ()) cl))"

text \<open>The same for the other transport, which the code writes out again.\<close>

definition write_stdio_outbound ::
  "bool \<Rightarrow> outbound \<Rightarrow> app_connection \<Rightarrow> app_client \<Rightarrow> (app_error + json option) \<times> app_connection \<times> app_client" where
  "write_stdio_outbound ok m cn cl = (case m of
     OutRequest g i method params \<Rightarrow>
       if g \<noteq> cn_generation cn \<or> \<not> cs_connected (cl_state cl)
       then (Inr None, cn, answer i (Inl AppDisconnected) cl)
       else if \<not> ok then (Inl AppDisconnected, cn, answer i (Inl AppDisconnected) cl)
       else (Inr (Some (request_frame i method params)), cn\<lparr>cn_pending := i # cn_pending cn\<rparr>, cl)
   | OutResponse g message h \<Rightarrow>
       let active = cl_transport_generation cl in
       if \<not> cl_transport_active cl then (Inr None, cn, acknowledge h (Inl AppDisconnected) cl)
       else if g \<noteq> cn_generation cn \<or> active \<noteq> g
       then (Inr None, cn, acknowledge h (Inl (AppStaleGeneration active g)) cl)
       else if \<not> ok then (Inl AppDisconnected, cn, acknowledge h (Inl AppDisconnected) cl)
       else (Inr (Some message), cn, acknowledge h (Inr ()) cl))"

lemma stdio_writes_alike [simp]: "write_stdio_outbound = write_outbound"
  by (intro ext) (simp only: write_stdio_outbound_def write_outbound_def)

definition transport_write ::
  "bool \<Rightarrow> outbound \<Rightarrow> app_connection \<Rightarrow> app_client \<Rightarrow> (app_error + json option) \<times> app_connection \<times> app_client" where
  "transport_write ok m cn cl = (case acf_transport (cl_config cl) of
     UnixSocket _ \<Rightarrow> write_outbound ok m cn cl
   | Stdio _ _ \<Rightarrow> write_stdio_outbound ok m cn cl)"

lemma transport_write_eq [simp]: "transport_write = write_outbound"
  by (intro ext) (simp add: transport_write_def split: app_transport.split)

text \<open>A response goes to its call; \<open>fl\<close> prints floats.\<close>

definition handle_response ::
  "(nat \<Rightarrow> string) \<Rightarrow> json \<Rightarrow> json \<Rightarrow> app_connection \<Rightarrow> app_client \<Rightarrow> (app_error + unit) \<times> app_connection \<times> app_client" where
  "handle_response fl i message cn cl = (case as_u64 i of
     None \<Rightarrow> (Inl (AppProtocol ''response id must be an unsigned integer''), cn, cl)
   | Some n \<Rightarrow>
       if n = cn_initialize_id cn then
         (if filter_opt is_object (jget ''result'' message) = None
          then (Inl (AppProtocol ''initialize did not return an object''), cn, cl)
          else (Inr (), cn\<lparr>cn_initialized := True\<rparr>, cl))
       else if n \<in> set (cn_pending cn) then
         (Inr (), cn\<lparr>cn_pending := remove1 n (cn_pending cn)\<rparr>,
          answer n (case jget ''error'' message of
            Some e \<Rightarrow> Inl (AppProtocol (json_text fl e))
          | None \<Rightarrow> Inr (unwrap_or (jget ''result'' message) JNull)) cl)
       else (Inr (), cn, cl))"

definition handle_inbound ::
  "(nat \<Rightarrow> string) \<Rightarrow> json \<Rightarrow> app_connection \<Rightarrow> app_client \<Rightarrow> (app_error + unit) \<times> app_connection \<times> app_client" where
  "handle_inbound fl message cn cl =
     (if \<not> is_object message then (Inl (AppProtocol ''frame must be an object''), cn, cl)
      else let params = unwrap_or (jget ''params'' message) (jobj []) in
        case (jget ''id'' message, jstr ''method'' message) of
          (Some i, None) \<Rightarrow> handle_response fl i message cn cl
        | (Some i, Some method) \<Rightarrow> (Inr (), cn, cl\<lparr>cl_server_requests := cl_server_requests cl @
            [\<lparr>asr_id = i, asr_method = method, asr_params = params, asr_generation = cn_generation cn\<rparr>]\<rparr>)
        | (None, Some method) \<Rightarrow> (Inr (), cn, cl\<lparr>cl_events := cl_events cl @
            [\<lparr>aev_method = method, aev_params = params, aev_generation = cn_generation cn\<rparr>]\<rparr>)
        | (None, None) \<Rightarrow> (Inl (AppProtocol ''frame has neither id nor method''), cn, cl))"

text \<open>The end of the handshake: the client says so and the calls that wait may go on.\<close>

definition finish_handshake ::
  "bool \<Rightarrow> app_connection \<Rightarrow> app_client \<Rightarrow> (app_error + json option) \<times> app_client" where
  "finish_handshake ok cn cl =
     (if cn_initialized cn \<and> \<not> cs_connected (cl_state cl) then
        (if \<not> ok then (Inl AppDisconnected, cl)
         else (Inr (Some initialized_frame),
           cl\<lparr>cl_state := \<lparr>cs_generation = cn_generation cn, cs_connected = True\<rparr>\<rparr>))
      else (Inr None, cl))"

definition receive ::
  "(nat \<Rightarrow> string) \<Rightarrow> bool \<Rightarrow> json \<Rightarrow> app_connection \<Rightarrow> app_client
   \<Rightarrow> (app_error + json option) \<times> app_connection \<times> app_client" where
  "receive fl ok message cn cl = (case handle_inbound fl message cn cl of
     (Inl e, cn1, cl1) \<Rightarrow> (Inl e, cn1, cl1)
   | (Inr _, cn1, cl1) \<Rightarrow> (case finish_handshake ok cn1 cl1 of (r, cl2) \<Rightarrow> (r, cn1, cl2)))"

text \<open>The frames of a WebSocket; a text carries the result of parsing it.\<close>

datatype ws_frame =
    WsText "string + json"
  | WsBinary
  | WsPing
  | WsPong
  | WsClose
  | WsOther

definition receive_frame ::
  "(nat \<Rightarrow> string) \<Rightarrow> bool \<Rightarrow> ws_frame \<Rightarrow> app_connection \<Rightarrow> app_client
   \<Rightarrow> (app_error + json option) \<times> app_connection \<times> app_client" where
  "receive_frame fl ok frame cn cl = (case frame of
     WsText (Inl e) \<Rightarrow> (Inl (AppProtocol (''invalid JSON frame: '' @ e)), cn, cl)
   | WsText (Inr message) \<Rightarrow> receive fl ok message cn cl
   | WsBinary \<Rightarrow> (Inl (AppProtocol ''binary WebSocket frame is not supported''), cn, cl)
   | WsPing \<Rightarrow> if ok then (Inr None, cn, cl) else (Inl AppDisconnected, cn, cl)
   | WsPong \<Rightarrow> (Inr None, cn, cl)
   | WsClose \<Rightarrow> (Inl AppDisconnected, cn, cl)
   | WsOther \<Rightarrow> (Inr None, cn, cl))"

text \<open>A line of the other transport; an empty read is the end of the stream.\<close>

definition receive_line ::
  "(nat \<Rightarrow> string) \<Rightarrow> bool \<Rightarrow> (string + json) option \<Rightarrow> app_connection \<Rightarrow> app_client
   \<Rightarrow> (app_error + json option) \<times> app_connection \<times> app_client" where
  "receive_line fl ok line cn cl = (case line of
     None \<Rightarrow> (Inl AppDisconnected, cn, cl)
   | Some (Inl e) \<Rightarrow> (Inl (AppProtocol (''invalid JSON line: '' @ e)), cn, cl)
   | Some (Inr message) \<Rightarrow> receive fl ok message cn cl)"

section \<open>The supervisor\<close>

text \<open>
  Besides its state the world keeps what happened: the calls that were taken in, the messages of the
  queue that were written with the connection they were written on, the connections whose
  handshake was finished, the messages that were received, and the pauses before a new connection.
\<close>

record app_world =
  aw_client :: app_client
  aw_generation :: u64
  aw_delay :: nat
  aw_connection :: "app_connection option"
  aw_calls :: "u64 list"
  aw_sent :: "(u64 \<times> outbound) list"
  aw_greeted :: "u64 list"
  aw_received :: "(u64 \<times> json) list"
  aw_pauses :: "nat list"

definition app_world_start :: "app_config \<Rightarrow> app_world" where
  "app_world_start c = \<lparr>aw_client = client_new c, aw_generation = 0, aw_delay = acf_reconnect_initial c,
     aw_connection = None, aw_calls = [], aw_sent = [], aw_greeted = [], aw_received = [], aw_pauses = []\<rparr>"

definition fail_outbound :: "app_error \<Rightarrow> outbound \<Rightarrow> app_client \<Rightarrow> app_client" where
  "fail_outbound e m cl = (case m of
     OutRequest _ i _ _ \<Rightarrow> answer i (Inl e) cl
   | OutResponse _ _ h \<Rightarrow> acknowledge h (Inl e) cl)"

text \<open>The calls of a connection that ends are told so by their dropped channels.\<close>

definition drop_pending :: "app_connection option \<Rightarrow> app_client \<Rightarrow> app_client" where
  "drop_pending cn cl = (case cn of
     None \<Rightarrow> cl
   | Some c \<Rightarrow> fold (\<lambda>i. answer i (Inl AppDisconnected)) (cn_pending c) cl)"

definition deactivate :: "u64 \<Rightarrow> app_client \<Rightarrow> app_client" where
  "deactivate generation cl =
     (cl\<lparr>cl_transport_active := cl_transport_active cl \<and> cl_transport_generation cl \<noteq> generation,
         cl_state := \<lparr>cs_generation = generation, cs_connected = False\<rparr>\<rparr>)"

text \<open>After a connection or an attempt that ended with \<open>ok\<close> or an error: a pause, then the next.\<close>

definition connection_over :: "bool \<Rightarrow> app_world \<Rightarrow> app_world" where
  "connection_over ok w =
     (let c = cl_config (aw_client w); delay = if ok then acf_reconnect_initial c else aw_delay w in
      w\<lparr>aw_client := deactivate (aw_generation w) (drop_pending (aw_connection w) (aw_client w)),
        aw_connection := None, aw_pauses := aw_pauses w @ [delay], aw_delay := min (2 * delay) (acf_reconnect_max c)\<rparr>)"

text \<open>A transport that opened; \<open>ok\<close> is whether the first frame was written.\<close>

definition connection_opened :: "bool \<Rightarrow> app_world \<Rightarrow> app_world" where
  "connection_opened ok w =
     (let g = aw_generation w + 1; cl = aw_client w;
          w1 = w\<lparr>aw_generation := g,
            aw_connection := Some \<lparr>cn_generation = g, cn_initialize_id = cl_ids cl, cn_initialized = False, cn_pending = []\<rparr>,
            aw_client := cl\<lparr>cl_transport_generation := g, cl_transport_active := True,
              cl_state := \<lparr>cs_generation = g, cs_connected = False\<rparr>, cl_ids := cl_ids cl + 1\<rparr>\<rparr>
      in if ok then w1 else connection_over False w1)"

definition connection_refused :: "app_world \<Rightarrow> app_world" where
  "connection_refused w = connection_over False (w\<lparr>aw_generation := aw_generation w + 1\<rparr>)"

definition take_outbound :: "bool \<Rightarrow> app_connection \<Rightarrow> outbound \<Rightarrow> app_world \<Rightarrow> app_world" where
  "take_outbound ok cn m w =
     (case transport_write ok m cn (aw_client w) of
        (Inl e, cn1, cl) \<Rightarrow> connection_over False (w\<lparr>aw_client := cl, aw_connection := Some cn1\<rparr>)
      | (Inr None, cn1, cl) \<Rightarrow> w\<lparr>aw_client := cl, aw_connection := Some cn1\<rparr>
      | (Inr (Some frame), cn1, cl) \<Rightarrow>
          w\<lparr>aw_client := cl, aw_connection := Some cn1, aw_sent := aw_sent w @ [(cn_generation cn, m)]\<rparr>)"

definition after_receive ::
  "app_connection \<Rightarrow> (app_error + json option) \<times> app_connection \<times> app_client \<Rightarrow> app_world \<Rightarrow> app_world" where
  "after_receive cn r w = (case r of
     (Inl e, cn1, cl) \<Rightarrow> connection_over False (w\<lparr>aw_client := cl, aw_connection := Some cn1\<rparr>)
   | (Inr None, cn1, cl) \<Rightarrow> w\<lparr>aw_client := cl, aw_connection := Some cn1\<rparr>
   | (Inr (Some frame), cn1, cl) \<Rightarrow>
       w\<lparr>aw_client := cl, aw_connection := Some cn1, aw_greeted := aw_greeted w @ [cn_generation cn]\<rparr>)"

definition note_received :: "app_connection \<Rightarrow> json \<Rightarrow> app_world \<Rightarrow> app_world" where
  "note_received cn message w = w\<lparr>aw_received := aw_received w @ [(cn_generation cn, message)]\<rparr>"

text \<open>The end: the connection closes, the queue is emptied and nothing can be queued any more.\<close>

definition supervisor_stopped :: "app_world \<Rightarrow> app_world" where
  "supervisor_stopped w =
     (let cl = deactivate (aw_generation w) (drop_pending (aw_connection w) (aw_client w)) in
      w\<lparr>aw_connection := None,
        aw_client := (fold (fail_outbound AppShutdown) (cl_outbound cl) (cl\<lparr>cl_outbound := []\<rparr>))\<lparr>cl_closed := True\<rparr>\<rparr>)"

datatype app_op =
    Called u64 string json
  | Responded u64 json json nat
  | Opened bool
  | OpenFailed
  | TookOutbound bool
  | ReceivedFrame bool ws_frame
  | ReceivedLine bool "(string + json) option"
  | ConnectionLost
  | SupervisorStopped

text \<open>An event that the state does not allow changes nothing.\<close>

definition app_step :: "(nat \<Rightarrow> string) \<Rightarrow> app_op \<Rightarrow> app_world \<Rightarrow> app_world" where
  "app_step fl op w = (case op of
     Called g method params \<Rightarrow> (case request_submit g method params (aw_client w) of
         (Inl e, cl) \<Rightarrow> w\<lparr>aw_client := cl\<rparr>
       | (Inr i, cl) \<Rightarrow> w\<lparr>aw_client := cl, aw_calls := aw_calls w @ [i]\<rparr>)
   | Responded g i payload h \<Rightarrow> w\<lparr>aw_client := snd (send_response_for_generation g i payload h (aw_client w))\<rparr>
   | _ \<Rightarrow> if cl_closed (aw_client w) then w else (case (op, aw_connection w) of
       (Opened ok, None) \<Rightarrow> connection_opened ok w
     | (OpenFailed, None) \<Rightarrow> connection_refused w
     | (TookOutbound ok, Some cn) \<Rightarrow> (case cl_outbound (aw_client w) of
           [] \<Rightarrow> w
         | m # ms \<Rightarrow> take_outbound ok cn m (w\<lparr>aw_client := (aw_client w)\<lparr>cl_outbound := ms\<rparr>\<rparr>))
     | (ReceivedFrame ok frame, Some cn) \<Rightarrow>
         after_receive cn (receive_frame fl ok frame cn (aw_client w))
           (case frame of WsText (Inr message) \<Rightarrow> note_received cn message w | _ \<Rightarrow> w)
     | (ReceivedLine ok line, Some cn) \<Rightarrow>
         after_receive cn (receive_line fl ok line cn (aw_client w))
           (case line of Some (Inr message) \<Rightarrow> note_received cn message w | _ \<Rightarrow> w)
     | (ConnectionLost, Some cn) \<Rightarrow> connection_over False w
     | (SupervisorStopped, _) \<Rightarrow> supervisor_stopped w
     | _ \<Rightarrow> w))"

section \<open>Threads and turns\<close>

record agent_thread =
  agt_id :: thread_id
  agt_status :: "string option"
  agt_ephemeral :: bool

record agent_turn =
  agu_id :: turn_id
  agu_thread_id :: thread_id
  agu_status :: string

definition parse_thread :: "json \<Rightarrow> agent_thread port_result" where
  "parse_thread v =
     (let thread = unwrap_or (jget ''thread'' v) v in
      case jstr ''id'' thread of
        None \<Rightarrow> Inl (Adapter ''Codex response did not include thread.id'')
      | Some i \<Rightarrow> if is_blank i then Inl (Adapter ''ThreadId cannot be empty'')
          else Inr \<lparr>agt_id = ThreadId i, agt_status = jstr ''status'' thread,
            agt_ephemeral = unwrap_or (jbool ''ephemeral'' thread) False\<rparr>)"

definition parse_turn :: "thread_id \<Rightarrow> json \<Rightarrow> agent_turn port_result" where
  "parse_turn thread v =
     (let turn = unwrap_or (jget ''turn'' v) v in
      case jstr ''id'' turn of
        None \<Rightarrow> Inl (Adapter ''Codex response did not include turn.id'')
      | Some i \<Rightarrow> if is_blank i then Inl (Adapter ''TurnId cannot be empty'')
          else Inr \<lparr>agu_id = TurnId i, agu_thread_id = thread, agu_status = unwrap_or (jstr ''status'' turn) ''inProgress''\<rparr>)"

definition prompt_input_value :: "prompt_input \<Rightarrow> json" where
  "prompt_input_value x = (case x of
     PText text elements \<Rightarrow> jobj [(''type'', JStr ''text''), (''text'', JStr text), (''text_elements'', JArr elements)]
   | PLocalImage path detail \<Rightarrow> jobj [(''type'', JStr ''localImage''), (''path'', JStr path), (''detail'', JStr detail)]
   | PMention name path \<Rightarrow> jobj [(''type'', JStr ''mention''), (''name'', JStr name), (''path'', JStr path)])"

definition port_then :: "(app_error + json) \<times> 'w \<Rightarrow> (json \<Rightarrow> 'a port_result) \<Rightarrow> 'a port_result \<times> 'w" where
  "port_then r f = (case r of (Inl e, w) \<Rightarrow> (Inl (Adapter (app_error_display e)), w) | (Inr v, w) \<Rightarrow> (f v, w))"

text \<open>The calls: a method with its parameters, and what its result is read as.\<close>

type_synonym 'w app_call = "string \<Rightarrow> json \<Rightarrow> nat \<Rightarrow> 'w \<Rightarrow> (app_error + json) \<times> 'w"

definition put_text :: "string \<Rightarrow> string option \<Rightarrow> (string \<times> json) list \<Rightarrow> (string \<times> json) list" where
  "put_text k v m = (case filter_opt (\<lambda>s. s \<noteq> []) v of None \<Rightarrow> m | Some s \<Rightarrow> bt_insert k (JStr s) m)"

definition turn_start_params :: "thread_id \<Rightarrow> prompt_input list \<Rightarrow> string option \<Rightarrow> (string \<times> json) list" where
  "turn_start_params thread inp client_message_id = put_text ''clientUserMessageId'' client_message_id
     (jmap [(''threadId'', JStr (thread_id_str thread)), (''input'', JArr (map prompt_input_value inp))])"

definition start_turn_with_collaboration_mode ::
  "'w app_call \<Rightarrow> thread_id \<Rightarrow> prompt_input list \<Rightarrow> string option \<Rightarrow> json option \<Rightarrow> 'w \<Rightarrow> agent_turn port_result \<times> 'w" where
  "start_turn_with_collaboration_mode call thread inp client_message_id mode w =
     (let params = turn_start_params thread inp client_message_id;
          params = (case mode of None \<Rightarrow> params | Some v \<Rightarrow> bt_insert ''collaborationMode'' v params)
      in port_then (call ''turn/start'' (JObj params) 60000 w) (parse_turn thread))"

definition start_turn_with_model ::
  "'w app_call \<Rightarrow> thread_id \<Rightarrow> prompt_input list \<Rightarrow> string option \<Rightarrow> string option \<Rightarrow> string option \<Rightarrow> 'w
   \<Rightarrow> agent_turn port_result \<times> 'w" where
  "start_turn_with_model call thread inp client_message_id model effort w =
     (let params = turn_start_params thread inp client_message_id;
          params = put_text ''model'' (map_option trim model) params;
          params = put_text ''effort'' (map_option trim effort) params
      in port_then (call ''turn/start'' (JObj params) 60000 w) (parse_turn thread))"

definition start_turn ::
  "'w app_call \<Rightarrow> thread_id \<Rightarrow> prompt_input list \<Rightarrow> string option \<Rightarrow> 'w \<Rightarrow> agent_turn port_result \<times> 'w" where
  "start_turn call thread inp client_message_id w = start_turn_with_collaboration_mode call thread inp client_message_id None w"

definition start_thread :: "'w app_call \<Rightarrow> string \<Rightarrow> bool \<Rightarrow> bool \<Rightarrow> 'w \<Rightarrow> agent_thread port_result \<times> 'w" where
  "start_thread call cwd ephemeral read_only w =
     port_then (call ''thread/start'' (jobj [(''cwd'', JStr cwd), (''ephemeral'', JBool ephemeral),
        (''sandbox'', JStr (if read_only then ''read-only'' else ''workspace-write'')),
        (''approvalPolicy'', JStr (if read_only then ''never'' else ''on-request''))]) 60000 w) parse_thread"

definition resume_thread :: "'w app_call \<Rightarrow> thread_id \<Rightarrow> 'w \<Rightarrow> agent_thread port_result \<times> 'w" where
  "resume_thread call thread w =
     port_then (call ''thread/resume'' (jobj [(''threadId'', JStr (thread_id_str thread)), (''excludeTurns'', JBool True),
        (''initialTurnsPage'', jobj [(''limit'', JInt 1), (''sortDirection'', JStr ''desc''),
          (''itemsView'', JStr ''notLoaded'')])]) 60000 w) parse_thread"

definition read_thread :: "'w app_call \<Rightarrow> thread_id \<Rightarrow> bool \<Rightarrow> 'w \<Rightarrow> json port_result \<times> 'w" where
  "read_thread call thread include_turns w =
     port_then (call ''thread/read'' (jobj [(''threadId'', JStr (thread_id_str thread)),
        (''includeTurns'', JBool include_turns)]) 30000 w) Inr"

definition list_threads :: "'w app_call \<Rightarrow> nat \<Rightarrow> string option \<Rightarrow> 'w \<Rightarrow> json port_result \<times> 'w" where
  "list_threads call limit cursor w =
     port_then (call ''thread/list'' (JObj (put_text ''cursor'' cursor (jmap [(''limit'', JInt (int (max 1 limit))),
        (''sortKey'', JStr ''recency_at''), (''sortDirection'', JStr ''desc''), (''useStateDbOnly'', JBool True)]))) 30000 w) Inr"

definition steer_turn ::
  "'w app_call \<Rightarrow> thread_id \<Rightarrow> turn_id \<Rightarrow> prompt_input list \<Rightarrow> string option \<Rightarrow> 'w \<Rightarrow> turn_id port_result \<times> 'w" where
  "steer_turn call thread expected inp client_message_id w =
     port_then (call ''turn/steer'' (JObj (put_text ''clientUserMessageId'' client_message_id
        (jmap [(''threadId'', JStr (thread_id_str thread)), (''expectedTurnId'', JStr (turn_id_str expected)),
          (''input'', JArr (map prompt_input_value inp))]))) 30000 w)
       (\<lambda>v. let t = unwrap_or (jstr ''turnId'' v) (turn_id_str expected) in
         if is_blank t then Inl (Adapter ''TurnId cannot be empty'') else Inr (TurnId t))"

end
