(* ===== verification/AppClientProps.thy ===== *)
theory AppClientProps
  imports AppClient "HOL-Library.Multiset"
begin

text \<open>
  What the client of the app-server guarantees to its callers: every call gets one result, of its own
  response; answers and calls keep to the connection they belong to; and how long the pauses are.
\<close>

section \<open>Where the calls are\<close>

definition queued_calls :: "outbound list \<Rightarrow> u64 list" where
  "queued_calls q = List.map_filter (\<lambda>m. case m of OutRequest _ i _ _ \<Rightarrow> Some i | OutResponse _ _ _ \<Rightarrow> None) q"

definition pending_calls :: "app_world \<Rightarrow> u64 list" where
  "pending_calls w = (case aw_connection w of None \<Rightarrow> [] | Some cn \<Rightarrow> cn_pending cn)"

definition answered :: "app_world \<Rightarrow> u64 list" where
  "answered w = map fst (cl_answers (aw_client w))"

lemma queued_calls_simps [simp]:
  "queued_calls [] = []" "queued_calls (OutRequest g i m p # q) = i # queued_calls q"
  "queued_calls (OutResponse g x h # q) = queued_calls q" "queued_calls (q @ r) = queued_calls q @ queued_calls r"
  by (simp_all add: queued_calls_def map_filter_def)

definition calls_ok :: "app_world \<Rightarrow> bool" where
  "calls_ok w \<longleftrightarrow> mset (queued_calls (cl_outbound (aw_client w))) + mset (pending_calls w) + mset (answered w) = mset (aw_calls w)
     \<and> distinct (aw_calls w) \<and> (\<forall>i \<in> set (aw_calls w). i < cl_ids (aw_client w))
     \<and> cl_permits (aw_client w) + length (queued_calls (cl_outbound (aw_client w))) + length (pending_calls w)
         = acf_pending_capacity (cl_config (aw_client w))"

lemma fold_answer:
  "fold (\<lambda>i. answer i r) is cl = cl\<lparr>cl_answers := cl_answers cl @ map (\<lambda>i. (i, r)) is,
     cl_permits := cl_permits cl + length is\<rparr>"
  by (induction "is" arbitrary: cl) (simp_all add: answer_def)

lemma fold_fail:
  "\<exists>acks. fold (fail_outbound e) q cl = cl\<lparr>cl_answers := cl_answers cl @ map (\<lambda>i. (i, Inl e)) (queued_calls q),
     cl_permits := cl_permits cl + length (queued_calls q), cl_acks := acks\<rparr>"
proof (induction q arbitrary: cl)
  case Nil
  show ?case by (rule exI [of _ "cl_acks cl"]) simp
next
  case (Cons m q)
  from Cons.IH [of "fail_outbound e m cl"] show ?case
    by (cases m) (auto simp: fail_outbound_def answer_def acknowledge_def)
qed

lemma connection_over_calls:
  "calls_ok w \<Longrightarrow> calls_ok (connection_over ok w)"
  by (cases "aw_connection w")
    (auto simp: calls_ok_def connection_over_def Let_def deactivate_def drop_pending_def fold_answer pending_calls_def
      answered_def comp_def ac_simps)

lemma stopped_calls:
  assumes "calls_ok w"
  shows "calls_ok (supervisor_stopped w)"
proof -
  define cl where "cl = deactivate (aw_generation w) (drop_pending (aw_connection w) (aw_client w))"
  obtain acks where fold: "fold (fail_outbound AppShutdown) (cl_outbound cl) (cl\<lparr>cl_outbound := []\<rparr>) =
      cl\<lparr>cl_outbound := [], cl_answers := cl_answers cl @ map (\<lambda>i. (i, Inl AppShutdown)) (queued_calls (cl_outbound cl)),
        cl_permits := cl_permits cl + length (queued_calls (cl_outbound cl)), cl_acks := acks\<rparr>"
    using fold_fail [of AppShutdown "cl_outbound cl" "cl\<lparr>cl_outbound := []\<rparr>"] by auto
  have "calls_ok (connection_over True w)" by (rule connection_over_calls [OF assms])
  then show ?thesis
    unfolding supervisor_stopped_def cl_def [symmetric] Let_def fold
    by (auto simp: calls_ok_def connection_over_def Let_def cl_def pending_calls_def answered_def comp_def ac_simps)
qed

lemma opened_calls: "calls_ok w \<Longrightarrow> aw_connection w = None \<Longrightarrow> calls_ok (connection_opened ok w)"
proof -
  assume "calls_ok w" "aw_connection w = None"
  then have "calls_ok (connection_opened True w)"
    by (auto simp: connection_opened_def calls_ok_def Let_def pending_calls_def answered_def less_Suc_eq)
  then show ?thesis using connection_over_calls [of "connection_opened True w" False]
    by (cases ok) (simp_all add: connection_opened_def Let_def)
qed

lemma refused_calls: "calls_ok w \<Longrightarrow> calls_ok (connection_refused w)"
  unfolding connection_refused_def
  by (rule connection_over_calls) (simp add: calls_ok_def pending_calls_def answered_def)

lemma outbound_calls:
  assumes "calls_ok w" and "aw_connection w = Some cn" and "cl_outbound (aw_client w) = m # ms"
  shows "calls_ok (take_outbound ok cn m (w\<lparr>aw_client := (aw_client w)\<lparr>cl_outbound := ms\<rparr>\<rparr>))"
proof -
  obtain r cn1 cl1 where wr: "write_outbound ok m cn ((aw_client w)\<lparr>cl_outbound := ms\<rparr>) = (r, cn1, cl1)"
    using prod_cases3 by blast
  have "calls_ok (w\<lparr>aw_client := cl1, aw_connection := Some cn1\<rparr>)"
    using assms wr
    by (auto simp: write_outbound_def answer_def acknowledge_def Let_def calls_ok_def pending_calls_def answered_def
        split: outbound.splits if_splits)
  then show ?thesis
    using connection_over_calls [of "w\<lparr>aw_client := cl1, aw_connection := Some cn1\<rparr>" False]
    by (auto simp: take_outbound_def wr split: sum.split option.split)
      (simp add: calls_ok_def pending_calls_def answered_def)
qed

lemma response_calls:
  assumes "calls_ok w" and "aw_connection w = Some cn" and "n \<in> set (cn_pending cn)"
  shows "calls_ok (w\<lparr>aw_client := answer n r (aw_client w),
    aw_connection := Some (cn\<lparr>cn_pending := remove1 n (cn_pending cn)\<rparr>)\<rparr>)"
proof -
  from assms(3) have "mset (cn_pending cn) = add_mset n (mset (remove1 n (cn_pending cn)))"
    "length (cn_pending cn) = Suc (length (remove1 n (cn_pending cn)))"
    by (simp, metis One_nat_def Suc_pred length_pos_if_in_set length_remove1)
  with assms(1,2) show ?thesis
    by (simp add: calls_ok_def pending_calls_def answered_def answer_def del: mset_remove1 length_remove1)
qed

lemma handle_inbound_client:
  assumes "handle_inbound fl message cn cl = (r, cn1, cl1)"
  obtains (same) "cn_pending cn1 = cn_pending cn" "cl_answers cl1 = cl_answers cl" "cl_permits cl1 = cl_permits cl"
      "cl_outbound cl1 = cl_outbound cl" "cl_ids cl1 = cl_ids cl" "cl_config cl1 = cl_config cl"
    | (answered) n v where "n \<in> set (cn_pending cn)" "jget ''id'' message = Some (JInt (int n))"
      "cn1 = cn\<lparr>cn_pending := remove1 n (cn_pending cn)\<rparr>" "cl1 = answer n v cl"
      "v = (case jget ''error'' message of Some e \<Rightarrow> Inl (AppProtocol (json_text fl e))
         | None \<Rightarrow> Inr (unwrap_or (jget ''result'' message) JNull))"
proof (cases "is_object message")
  case False
  with assms show ?thesis by (intro same) (simp_all add: handle_inbound_def)
next
  case True
  show ?thesis
  proof (cases "jget ''id'' message")
    case None
    with assms True show ?thesis by (intro same) (auto simp: handle_inbound_def Let_def split: option.splits)
  next
    case (Some i)
    show ?thesis
    proof (cases "jstr ''method'' message")
      case (Some m)
      with assms True \<open>jget ''id'' message = Some i\<close> show ?thesis by (intro same) (auto simp: handle_inbound_def Let_def)
    next
      case None
      with assms True \<open>jget ''id'' message = Some i\<close>
      have r: "handle_response fl i message cn cl = (r, cn1, cl1)" by (simp add: handle_inbound_def Let_def)
      show ?thesis
      proof (cases "\<exists>n. as_u64 i = Some n \<and> n \<noteq> cn_initialize_id cn \<and> n \<in> set (cn_pending cn)")
        case True
        then obtain n where n: "as_u64 i = Some n" "n \<noteq> cn_initialize_id cn" "n \<in> set (cn_pending cn)" by blast
        from n(1) have "i = JInt (int n)" by (auto simp: as_u64_def split: json.splits if_splits)
        with r n \<open>jget ''id'' message = Some i\<close> show ?thesis
          by (intro answered [of n]) (simp_all add: handle_response_def)
      next
        case False
        with r show ?thesis
          by (intro same) (auto simp: handle_response_def split: option.splits if_splits)
      qed
    qed
  qed
qed

lemma calls_ok_cong:
  assumes "calls_ok w" and "cl_answers cl = cl_answers (aw_client w)" "cl_permits cl = cl_permits (aw_client w)"
    "cl_outbound cl = cl_outbound (aw_client w)" "cl_ids cl = cl_ids (aw_client w)" "cl_config cl = cl_config (aw_client w)"
    and "pending_calls w = (case c of None \<Rightarrow> [] | Some cn \<Rightarrow> cn_pending cn)"
  shows "calls_ok (w\<lparr>aw_client := cl, aw_connection := c\<rparr>)"
  using assms by (simp add: calls_ok_def pending_calls_def answered_def)

lemma finish_handshake_frame:
  "finish_handshake ok cn cl = (r, cl1) \<Longrightarrow> \<exists>st. cl1 = cl\<lparr>cl_state := st\<rparr>"
  by (auto simp: finish_handshake_def split: if_splits intro: exI [of _ "cl_state cl"])

lemma receive_calls:
  assumes "calls_ok w" and "aw_connection w = Some cn" and "receive fl ok message cn (aw_client w) = (r, cn1, cl1)"
  shows "calls_ok (w\<lparr>aw_client := cl1, aw_connection := Some cn1\<rparr>)"
proof -
  obtain r0 cn0 cl0 where h: "handle_inbound fl message cn (aw_client w) = (r0, cn0, cl0)" using prod_cases3 by blast
  from h have calls: "calls_ok (w\<lparr>aw_client := cl0, aw_connection := Some cn0\<rparr>)"
  proof (cases rule: handle_inbound_client)
    case same
    with assms(1,2) show ?thesis by (intro calls_ok_cong) (simp_all add: pending_calls_def)
  next
    case (answered n v)
    with response_calls [OF assms(1,2)] show ?thesis by simp
  qed
  from assms(3) h obtain st where "cn1 = cn0" "cl1 = cl0\<lparr>cl_state := st\<rparr> \<or> cl1 = cl0"
    by (auto simp: receive_def dest: finish_handshake_frame split: sum.splits prod.splits)
  then show ?thesis using calls calls_ok_cong [OF calls, of cl1 "Some cn1"] by (auto simp: pending_calls_def)
qed

lemma receives_calls:
  assumes "calls_ok w" and "aw_connection w = Some cn"
    and "calls_ok (w\<lparr>aw_client := cl1, aw_connection := Some cn1\<rparr>)"
  shows "calls_ok (after_receive cn (r, cn1, cl1) w)"
  using assms(3) connection_over_calls [OF assms(3), of False]
  by (auto simp: after_receive_def split: sum.split option.split)
    (simp add: calls_ok_def pending_calls_def answered_def)

lemma noted_calls [simp]: "calls_ok (note_received cn message w) = calls_ok w"
  by (simp add: note_received_def calls_ok_def pending_calls_def answered_def)

lemma noted_fields [simp]: "aw_client (note_received cn message w) = aw_client w"
  "aw_connection (note_received cn message w) = aw_connection w"
  by (simp_all add: note_received_def)

lemma submit_calls:
  assumes "calls_ok w" and "request_submit g m p (aw_client w) = (r, cl)"
  shows "calls_ok (case r of Inl e \<Rightarrow> w\<lparr>aw_client := cl\<rparr> | Inr i \<Rightarrow> w\<lparr>aw_client := cl, aw_calls := aw_calls w @ [i]\<rparr>)"
  using assms
  by (auto simp: request_submit_def try_send_def Let_def calls_ok_def pending_calls_def answered_def less_Suc_eq
      split: if_splits)

lemma respond_calls:
  "calls_ok w \<Longrightarrow> calls_ok (w\<lparr>aw_client := snd (send_response_for_generation g i payload h (aw_client w))\<rparr>)"
  by (simp add: send_response_for_generation_def try_send_def Let_def calls_ok_def pending_calls_def answered_def)

text \<open>A property of the world that each kind of event keeps is kept by every step.\<close>

lemma same_connection [simp]: "aw_connection w = c \<Longrightarrow> w\<lparr>aw_connection := c\<rparr> = w"
  by (cases w) simp

lemma same_client [simp]: "w\<lparr>aw_client := aw_client w\<rparr> = w"
  by (cases w) simp

lemma app_step_cases:
  assumes "I w"
    and "\<And>g m p r cl. request_submit g m p (aw_client w) = (r, cl) \<Longrightarrow>
      I (case r of Inl e \<Rightarrow> w\<lparr>aw_client := cl\<rparr> | Inr i \<Rightarrow> w\<lparr>aw_client := cl, aw_calls := aw_calls w @ [i]\<rparr>)"
    and "\<And>g i payload h. I (w\<lparr>aw_client := snd (send_response_for_generation g i payload h (aw_client w))\<rparr>)"
    and "\<And>ok. aw_connection w = None \<Longrightarrow> \<not> cl_closed (aw_client w) \<Longrightarrow> I (connection_opened ok w)"
    and "aw_connection w = None \<Longrightarrow> \<not> cl_closed (aw_client w) \<Longrightarrow> I (connection_refused w)"
    and "\<And>cn. aw_connection w = Some cn \<Longrightarrow> I (connection_over False w)"
    and "\<And>ok cn m ms. aw_connection w = Some cn \<Longrightarrow> cl_outbound (aw_client w) = m # ms \<Longrightarrow>
      I (take_outbound ok cn m (w\<lparr>aw_client := (aw_client w)\<lparr>cl_outbound := ms\<rparr>\<rparr>))"
    and "\<And>ok cn message. aw_connection w = Some cn \<Longrightarrow>
      I (after_receive cn (receive fl ok message cn (aw_client w)) (note_received cn message w))"
    and "I (supervisor_stopped w)"
  shows "I (app_step fl op w)"
proof (cases op)
  case (Called g m p)
  then show ?thesis
    using assms(2) [of g m p] by (cases "request_submit g m p (aw_client w)") (auto simp: app_step_def split: sum.split)
next
  case (ReceivedFrame ok frame)
  then show ?thesis using assms
    by (auto simp: app_step_def receive_frame_def after_receive_def [of _ "(Inl _, _)"] after_receive_def [of _ "(Inr None, _)"]
        split: option.split ws_frame.split sum.split)
next
  case (ReceivedLine ok line)
  then show ?thesis using assms
    by (auto simp: app_step_def receive_line_def after_receive_def [of _ "(Inl _, _)"] split: option.split sum.split)
qed (use assms in \<open>auto simp: app_step_def split: option.split list.split\<close>)

lemma app_step_calls: "calls_ok w \<Longrightarrow> calls_ok (app_step fl op w)"
proof (rule app_step_cases)
  fix ok cn message assume "calls_ok w" "aw_connection w = Some cn"
  moreover obtain r cn1 cl1 where r: "receive fl ok message cn (aw_client w) = (r, cn1, cl1)" using prod_cases3 by blast
  ultimately have "calls_ok (w\<lparr>aw_client := cl1, aw_connection := Some cn1\<rparr>)" by (rule receive_calls)
  then have "calls_ok ((note_received cn message w)\<lparr>aw_client := cl1, aw_connection := Some cn1\<rparr>)"
    by (simp add: note_received_def calls_ok_def pending_calls_def answered_def)
  with \<open>calls_ok w\<close> \<open>aw_connection w = Some cn\<close>
  show "calls_ok (after_receive cn (receive fl ok message cn (aw_client w)) (note_received cn message w))"
    unfolding r by (intro receives_calls) simp_all
qed (auto intro: submit_calls respond_calls opened_calls refused_calls connection_over_calls outbound_calls stopped_calls)

section \<open>Which connection\<close>

definition sent_calls :: "u64 \<Rightarrow> (u64 \<times> outbound) list \<Rightarrow> u64 set" where
  "sent_calls g sent = {i. \<exists>m p. (g, OutRequest g i m p) \<in> set sent}"

lemma sent_calls_more [simp]:
  "sent_calls g (sent @ [(g1, OutRequest g2 i m p)]) = (if g1 = g \<and> g2 = g then insert i (sent_calls g sent) else sent_calls g sent)"
  "sent_calls g (sent @ [(g1, OutResponse g2 x h)]) = sent_calls g sent"
  by (auto simp: sent_calls_def)

definition connection_ok :: "app_world \<Rightarrow> bool" where
  "connection_ok w \<longleftrightarrow> (case aw_connection w of
     None \<Rightarrow> \<not> cl_transport_active (aw_client w) \<and> \<not> cs_connected (cl_state (aw_client w))
   | Some cn \<Rightarrow> cn_generation cn = aw_generation w \<and> cl_transport_generation (aw_client w) = aw_generation w
       \<and> (cs_connected (cl_state (aw_client w)) \<longrightarrow> aw_generation w \<in> set (aw_greeted w))
       \<and> set (cn_pending cn) \<subseteq> sent_calls (aw_generation w) (aw_sent w))"

text \<open>What was written on a connection was meant for it, and calls only after its handshake.\<close>

definition sent_ok :: "app_world \<Rightarrow> bool" where
  "sent_ok w \<longleftrightarrow> (\<forall>(g, m) \<in> set (aw_sent w). case m of
     OutRequest g1 i _ _ \<Rightarrow> g1 = g \<and> g \<in> set (aw_greeted w)
   | OutResponse g1 _ _ \<Rightarrow> g1 = g)"

text \<open>A result that is no error is the result of a response to the call, on its own connection.\<close>

definition result_ok :: "app_world \<Rightarrow> u64 \<times> (app_error + json) \<Rightarrow> bool" where
  "result_ok w e \<longleftrightarrow> (case e of (i, Inr v) \<Rightarrow> (\<exists>g m p message. (g, OutRequest g i m p) \<in> set (aw_sent w)
       \<and> (g, message) \<in> set (aw_received w) \<and> jget ''id'' message = Some (JInt (int i))
       \<and> jget ''error'' message = None \<and> v = unwrap_or (jget ''result'' message) JNull)
     | (i, Inl _) \<Rightarrow> True)"

definition results_ok :: "app_world \<Rightarrow> bool" where
  "results_ok w \<longleftrightarrow> (\<forall>e \<in> set (cl_answers (aw_client w)). result_ok w e)"

definition traffic_ok :: "app_world \<Rightarrow> bool" where
  "traffic_ok w \<longleftrightarrow> connection_ok w \<and> sent_ok w \<and> results_ok w"

lemma result_ok_mono:
  "result_ok w e \<Longrightarrow> set (aw_sent w) \<subseteq> set (aw_sent w1) \<Longrightarrow> set (aw_received w) \<subseteq> set (aw_received w1) \<Longrightarrow> result_ok w1 e"
  unfolding result_ok_def by (cases e) (auto split: sum.splits; blast)

lemma result_okI:
  "(g, OutRequest g i m p) \<in> set (aw_sent w) \<Longrightarrow> (g, message) \<in> set (aw_received w) \<Longrightarrow>
     jget ''id'' message = Some (JInt (int i)) \<Longrightarrow> jget ''error'' message = None \<Longrightarrow>
     result_ok w (i, Inr (unwrap_or (jget ''result'' message) JNull))"
  unfolding result_ok_def prod.case sum.case by blast

lemma result_ok_Inl [simp]: "result_ok w (i, Inl e)"
  by (simp add: result_ok_def)

lemma results_ok_mono:
  assumes "results_ok w" and "set (aw_sent w) \<subseteq> set (aw_sent w1)" and "set (aw_received w) \<subseteq> set (aw_received w1)"
    and "\<And>e. e \<in> set (cl_answers (aw_client w1)) \<Longrightarrow> e \<in> set (cl_answers (aw_client w)) \<or> result_ok w1 e"
  shows "results_ok w1"
  using assms result_ok_mono [OF _ assms(2,3)] unfolding results_ok_def by blast

lemma sent_ok_mono:
  "sent_ok w \<Longrightarrow> aw_sent w1 = aw_sent w \<Longrightarrow> set (aw_greeted w) \<subseteq> set (aw_greeted w1) \<Longrightarrow> sent_ok w1"
  unfolding sent_ok_def by (force split: outbound.splits)

text \<open>Steps that write nothing.\<close>

lemma traffic_ok_keep:
  assumes "traffic_ok w" and "connection_ok w1" and "aw_sent w1 = aw_sent w"
    and "set (aw_greeted w) \<subseteq> set (aw_greeted w1)" and "set (aw_received w) \<subseteq> set (aw_received w1)"
    and "\<And>e. e \<in> set (cl_answers (aw_client w1)) \<Longrightarrow> e \<in> set (cl_answers (aw_client w)) \<or> result_ok w1 e"
  shows "traffic_ok w1"
proof -
  have "results_ok w1"
    by (rule results_ok_mono [OF _ _ assms(5)]) (use assms in \<open>auto simp: traffic_ok_def\<close>)
  with assms sent_ok_mono [OF _ assms(3,4)] show ?thesis by (simp add: traffic_ok_def)
qed

lemma dropped_answers:
  "e \<in> set (cl_answers (deactivate g (drop_pending c cl))) \<Longrightarrow> e \<in> set (cl_answers cl) \<or> (\<exists>i x. e = (i, Inl x))"
  by (auto simp: deactivate_def drop_pending_def fold_answer split: option.splits)

lemma deactivated:
  "connection_ok w \<Longrightarrow> \<not> cl_transport_active (deactivate (aw_generation w) (drop_pending (aw_connection w) (aw_client w)))
     \<and> \<not> cs_connected (cl_state (deactivate (aw_generation w) (drop_pending (aw_connection w) (aw_client w))))"
  by (auto simp: connection_ok_def deactivate_def drop_pending_def fold_answer split: option.splits)

lemma over_traffic:
  assumes "traffic_ok w"
  shows "traffic_ok (connection_over ok w)"
proof (rule traffic_ok_keep [OF assms])
  show "connection_ok (connection_over ok w)"
    using deactivated [of w] assms by (simp add: traffic_ok_def connection_over_def Let_def connection_ok_def [of "_\<lparr>aw_pauses := _\<rparr>"]
        connection_ok_def [of "_\<lparr>aw_delay := _\<rparr>"])
  fix e assume "e \<in> set (cl_answers (aw_client (connection_over ok w)))"
  then show "e \<in> set (cl_answers (aw_client w)) \<or> result_ok (connection_over ok w) e"
    using dropped_answers [of e "aw_generation w" "aw_connection w" "aw_client w"] by (auto simp: connection_over_def Let_def)
qed (simp_all add: connection_over_def Let_def)

lemma stopped_traffic:
  assumes "traffic_ok w"
  shows "traffic_ok (supervisor_stopped w)"
proof -
  define cl where "cl = deactivate (aw_generation w) (drop_pending (aw_connection w) (aw_client w))"
  obtain acks where fold: "fold (fail_outbound AppShutdown) (cl_outbound cl) (cl\<lparr>cl_outbound := []\<rparr>) =
      cl\<lparr>cl_outbound := [], cl_answers := cl_answers cl @ map (\<lambda>i. (i, Inl AppShutdown)) (queued_calls (cl_outbound cl)),
        cl_permits := cl_permits cl + length (queued_calls (cl_outbound cl)), cl_acks := acks\<rparr>"
    using fold_fail [of AppShutdown "cl_outbound cl" "cl\<lparr>cl_outbound := []\<rparr>"] by auto
  note stopped = supervisor_stopped_def [of w, folded cl_def, unfolded Let_def fold]
  show ?thesis
  proof (rule traffic_ok_keep [OF assms])
    show "connection_ok (supervisor_stopped w)"
      using deactivated [of w, folded cl_def] assms unfolding stopped by (simp add: traffic_ok_def connection_ok_def)
    fix e assume "e \<in> set (cl_answers (aw_client (supervisor_stopped w)))"
    then show "e \<in> set (cl_answers (aw_client w)) \<or> result_ok (supervisor_stopped w) e"
      using dropped_answers [of e "aw_generation w" "aw_connection w" "aw_client w", folded cl_def] unfolding stopped by auto
  qed (simp_all add: stopped)
qed

lemma opened_traffic:
  assumes "traffic_ok w" and "aw_connection w = None"
  shows "traffic_ok (connection_opened ok w)"
proof -
  have "traffic_ok (connection_opened True w)"
    by (rule traffic_ok_keep [OF assms(1)]) (simp_all add: connection_opened_def Let_def connection_ok_def)
  then show ?thesis using over_traffic [of "connection_opened True w" False]
    by (cases ok) (simp_all add: connection_opened_def Let_def)
qed

lemma refused_traffic:
  assumes "traffic_ok w" and "aw_connection w = None"
  shows "traffic_ok (connection_refused w)"
  unfolding connection_refused_def
  by (rule over_traffic, rule traffic_ok_keep [OF assms(1)]) (use assms in \<open>simp_all add: traffic_ok_def connection_ok_def\<close>)

lemma submit_frame:
  "request_submit g m p cl = (r, cl1) \<Longrightarrow> cl_state cl1 = cl_state cl \<and> cl_transport_active cl1 = cl_transport_active cl
    \<and> cl_transport_generation cl1 = cl_transport_generation cl \<and> cl_answers cl1 = cl_answers cl"
  by (auto simp: request_submit_def try_send_def Let_def split: if_splits)

lemma submit_traffic:
  assumes "traffic_ok w" and "request_submit g m p (aw_client w) = (r, cl)"
  shows "traffic_ok (case r of Inl e \<Rightarrow> w\<lparr>aw_client := cl\<rparr> | Inr i \<Rightarrow> w\<lparr>aw_client := cl, aw_calls := aw_calls w @ [i]\<rparr>)"
proof -
  have "connection_ok w" using assms(1) by (simp add: traffic_ok_def)
  with submit_frame [OF assms(2)] show ?thesis
    by (cases r; simp; intro traffic_ok_keep [OF assms(1)]; auto simp: connection_ok_def split: option.splits)
qed

lemma respond_frame:
  "\<exists>q. snd (send_response_for_generation g i payload h cl) = cl\<lparr>cl_outbound := q\<rparr>"
  by (auto simp: send_response_for_generation_def try_send_def Let_def intro: exI [of _ "cl_outbound cl"])

lemma respond_traffic:
  assumes "traffic_ok w"
  shows "traffic_ok (w\<lparr>aw_client := snd (send_response_for_generation g i payload h (aw_client w))\<rparr>)"
proof -
  obtain q where q: "snd (send_response_for_generation g i payload h (aw_client w)) = (aw_client w)\<lparr>cl_outbound := q\<rparr>"
    using respond_frame by blast
  have "connection_ok w" using assms by (simp add: traffic_ok_def)
  then show ?thesis
    unfolding q by (intro traffic_ok_keep [OF assms]; auto simp: connection_ok_def split: option.splits)
qed

lemma write_outbound_cases:
  assumes "write_outbound ok m cn cl = (r, cn1, cl1)"
  obtains (unsent) "\<And>frame. r \<noteq> Inr (Some frame)" "cn1 = cn" "cl_state cl1 = cl_state cl"
      "cl_transport_generation cl1 = cl_transport_generation cl"
      "\<And>e. e \<in> set (cl_answers cl1) \<Longrightarrow> e \<in> set (cl_answers cl) \<or> (\<exists>i x. e = (i, Inl x))"
    | (request) frame i mth ps where "r = Inr (Some frame)" "m = OutRequest (cn_generation cn) i mth ps"
      "cs_connected (cl_state cl)" "cn1 = cn\<lparr>cn_pending := i # cn_pending cn\<rparr>" "cl1 = cl"
    | (response) frame message h where "r = Inr (Some frame)" "m = OutResponse (cn_generation cn) message h"
      "cn1 = cn" "cl1 = acknowledge h (Inr ()) cl"
proof (cases m)
  case (OutRequest g i mth ps)
  show ?thesis
  proof (cases "g \<noteq> cn_generation cn \<or> \<not> cs_connected (cl_state cl) \<or> \<not> ok")
    case True
    with OutRequest assms show ?thesis
      by (intro unsent) (auto simp: write_outbound_def answer_def split: if_splits)
  next
    case False
    with OutRequest assms show ?thesis by (intro request [of _ i mth ps]) (auto simp: write_outbound_def)
  qed
next
  case (OutResponse g message h)
  show ?thesis
  proof (cases "\<not> cl_transport_active cl \<or> g \<noteq> cn_generation cn \<or> cl_transport_generation cl \<noteq> g \<or> \<not> ok")
    case True
    with OutResponse assms show ?thesis
      by (intro unsent) (auto simp: write_outbound_def acknowledge_def Let_def split: if_splits)
  next
    case False
    with OutResponse assms show ?thesis by (intro response [of _ message h]) (auto simp: write_outbound_def Let_def)
  qed
qed

lemma outbound_traffic:
  assumes "traffic_ok w" and "aw_connection w = Some cn" and "cl_outbound (aw_client w) = m # ms"
  shows "traffic_ok (take_outbound ok cn m (w\<lparr>aw_client := (aw_client w)\<lparr>cl_outbound := ms\<rparr>\<rparr>))"
proof -
  let ?w = "w\<lparr>aw_client := (aw_client w)\<lparr>cl_outbound := ms\<rparr>\<rparr>"
  obtain r cn1 cl1 where wr: "write_outbound ok m cn ((aw_client w)\<lparr>cl_outbound := ms\<rparr>) = (r, cn1, cl1)"
    using prod_cases3 by blast
  from assms(1,2) have cn: "cn_generation cn = aw_generation w" "cl_transport_generation (aw_client w) = aw_generation w"
    "cs_connected (cl_state (aw_client w)) \<Longrightarrow> aw_generation w \<in> set (aw_greeted w)"
    and old: "connection_ok w" "sent_ok w" "results_ok w"
    by (simp_all add: traffic_ok_def connection_ok_def)
  from wr show ?thesis
  proof (cases rule: write_outbound_cases)
    case unsent
    have "traffic_ok (?w\<lparr>aw_client := cl1, aw_connection := Some cn1\<rparr>)"
    proof (rule traffic_ok_keep [OF assms(1)])
      show "connection_ok (?w\<lparr>aw_client := cl1, aw_connection := Some cn1\<rparr>)"
        using unsent old(1) assms(2) by (simp add: connection_ok_def)
      show "e \<in> set (cl_answers (aw_client w)) \<or> result_ok (?w\<lparr>aw_client := cl1, aw_connection := Some cn1\<rparr>) e"
        if "e \<in> set (cl_answers (aw_client (?w\<lparr>aw_client := cl1, aw_connection := Some cn1\<rparr>)))" for e
        using unsent(5) [of e] that by auto
    qed simp_all
    with over_traffic [OF this, of False] unsent(1) show ?thesis
      by (auto simp: take_outbound_def wr split: sum.split option.split)
  next
    case (request frame i mth ps)
    let ?v = "?w\<lparr>aw_client := cl1, aw_connection := Some cn1, aw_sent := aw_sent w @ [(cn_generation cn, m)]\<rparr>"
    have "connection_ok ?v" using request old(1) assms(2) by (auto simp: connection_ok_def)
    moreover have "sent_ok ?v" using request old(2) cn by (auto simp: sent_ok_def)
    moreover have "results_ok ?v" by (rule results_ok_mono [OF old(3)]) (use request in auto)
    moreover have "take_outbound ok cn m ?w = ?v" by (simp add: take_outbound_def wr request(1))
    ultimately show ?thesis by (simp add: traffic_ok_def)
  next
    case (response frame message h)
    let ?v = "?w\<lparr>aw_client := cl1, aw_connection := Some cn1, aw_sent := aw_sent w @ [(cn_generation cn, m)]\<rparr>"
    have "connection_ok ?v" using response old(1) assms(2) by (auto simp: connection_ok_def acknowledge_def)
    moreover have "sent_ok ?v" using response old(2) cn by (auto simp: sent_ok_def)
    moreover have "results_ok ?v" by (rule results_ok_mono [OF old(3)]) (use response in \<open>auto simp: acknowledge_def\<close>)
    moreover have "take_outbound ok cn m ?w = ?v" by (simp add: take_outbound_def wr response(1))
    ultimately show ?thesis by (simp add: traffic_ok_def)
  qed
qed

lemma receive_traffic:
  assumes "traffic_ok w" and "aw_connection w = Some cn"
  shows "traffic_ok (after_receive cn (receive fl ok message cn (aw_client w)) (note_received cn message w))"
proof -
  let ?n = "note_received cn message w"
  obtain r0 cn0 cl0 where h: "handle_inbound fl message cn (aw_client w) = (r0, cn0, cl0)" using prod_cases3 by blast
  from assms have ok: "connection_ok w" by (simp add: traffic_ok_def)
  have gen: "cn_generation cn0 = cn_generation cn" "cl_state cl0 = cl_state (aw_client w)"
    "cl_transport_generation cl0 = cl_transport_generation (aw_client w)"
    using h by (auto simp: handle_inbound_def handle_response_def Let_def answer_def split: if_splits option.splits)
  have both: "set (cn_pending cn0) \<subseteq> set (cn_pending cn)
      \<and> (e \<in> set (cl_answers cl0) \<longrightarrow> e \<in> set (cl_answers (aw_client w)) \<or> result_ok ?n e)" for e
  proof -
    from h show ?thesis
    proof (cases rule: handle_inbound_client)
      case (answered n v)
      from ok assms(2) answered(1) obtain m p where sent: "(cn_generation cn, OutRequest (cn_generation cn) n m p) \<in> set (aw_sent w)"
        by (auto simp: connection_ok_def sent_calls_def)
      have "result_ok ?n (n, v)"
      proof (cases "jget ''error'' message")
        case None
        have "(cn_generation cn, OutRequest (cn_generation cn) n m p) \<in> set (aw_sent ?n)"
          "(cn_generation cn, message) \<in> set (aw_received ?n)" using sent by (simp_all add: note_received_def)
        from result_okI [OF this answered(2) None] show ?thesis by (simp add: answered(5) None)
      qed (simp add: answered(5))
      moreover have "set (cn_pending cn0) \<subseteq> set (cn_pending cn)" using answered(3) set_remove1_subset by (simp, fast)
      ultimately show ?thesis unfolding answered(4) answer_def by auto
    qed simp
  qed
  then have pend: "set (cn_pending cn0) \<subseteq> set (cn_pending cn)"
    and ans: "\<And>e. e \<in> set (cl_answers cl0) \<Longrightarrow> e \<in> set (cl_answers (aw_client w)) \<or> result_ok ?n e" by blast+
  obtain r cn1 cl1 where r: "receive fl ok message cn (aw_client w) = (r, cn1, cl1)" using prod_cases3 by blast
  have state: "cn_generation cn1 = cn_generation cn" "set (cn_pending cn1) \<subseteq> set (cn_pending cn)"
    "cl_transport_generation cl1 = cl_transport_generation (aw_client w)" "cl_answers cl1 = cl_answers cl0"
    "cs_connected (cl_state cl1) \<Longrightarrow> cs_connected (cl_state (aw_client w)) \<or> (\<exists>frame. r = Inr (Some frame))"
    using r h gen pend by (auto simp: receive_def finish_handshake_def split: sum.splits if_splits)
  define v where "v = (case r of Inr (Some frame) \<Rightarrow>
      ?n\<lparr>aw_client := cl1, aw_connection := Some cn1, aw_greeted := aw_greeted w @ [cn_generation cn]\<rparr>
    | _ \<Rightarrow> ?n\<lparr>aw_client := cl1, aw_connection := Some cn1\<rparr>)"
  have fields: "aw_client v = cl1" "aw_connection v = Some cn1" "aw_sent v = aw_sent w" "aw_generation v = aw_generation w"
    "aw_received v = aw_received ?n"
    "aw_greeted v = aw_greeted w @ (if \<exists>frame. r = Inr (Some frame) then [cn_generation cn] else [])"
    by (auto simp: v_def note_received_def split: sum.split option.split)
  have "traffic_ok v"
  proof (rule traffic_ok_keep [OF assms(1)])
    show "connection_ok v"
      using ok assms(2) state unfolding connection_ok_def fields by auto
    show "e \<in> set (cl_answers (aw_client w)) \<or> result_ok v e" if "e \<in> set (cl_answers (aw_client v))" for e
      using ans [of e] that result_ok_mono [of ?n e v] by (auto simp: fields state note_received_def)
  qed (auto simp: fields note_received_def)
  then show ?thesis
    using over_traffic [of v False]
    by (auto simp: after_receive_def r v_def note_received_def split: sum.splits option.splits)
qed

lemma app_step_traffic: "traffic_ok w \<Longrightarrow> traffic_ok (app_step fl op w)"
  by (rule app_step_cases)
    (auto intro: submit_traffic respond_traffic opened_traffic refused_traffic over_traffic outbound_traffic
      receive_traffic stopped_traffic)

section \<open>Pauses and the end\<close>

definition pauses_ok :: "app_config \<Rightarrow> app_world \<Rightarrow> bool" where
  "pauses_ok c w \<longleftrightarrow> cl_config (aw_client w) = c
     \<and> aw_pauses w = map (\<lambda>k. min (acf_reconnect_initial c * 2 ^ k) (acf_reconnect_max c)) [0..<length (aw_pauses w)]
     \<and> aw_delay w = min (acf_reconnect_initial c * 2 ^ length (aw_pauses w)) (acf_reconnect_max c)"

lemma config_frame [simp]:
  "cl_config (deactivate g cl) = cl_config cl" "cl_config (drop_pending conn cl) = cl_config cl"
  "cl_config (snd (send_response_for_generation g i payload h cl)) = cl_config cl"
  "cl_config (fold (fail_outbound e) q cl) = cl_config cl"
  "request_submit g m p cl = (r, cl1) \<Longrightarrow> cl_config cl1 = cl_config cl"
  "write_outbound ok msg cn cl = (r1, cn1, cl1) \<Longrightarrow> cl_config cl1 = cl_config cl"
  "receive fl ok message cn cl = (r1, cn1, cl1) \<Longrightarrow> cl_config cl1 = cl_config cl"
proof -
  show "cl_config (fold (fail_outbound e) q cl) = cl_config cl" using fold_fail [of e q cl] by auto
  show "receive fl ok message cn cl = (r1, cn1, cl1) \<Longrightarrow> cl_config cl1 = cl_config cl"
    by (auto simp: receive_def finish_handshake_def handle_inbound_def handle_response_def Let_def answer_def
        split: prod.splits sum.splits if_splits option.splits)
  show "write_outbound ok msg cn cl = (r1, cn1, cl1) \<Longrightarrow> cl_config cl1 = cl_config cl"
    by (auto simp: write_outbound_def answer_def acknowledge_def Let_def split: outbound.splits if_splits)
qed (auto simp: deactivate_def drop_pending_def fold_answer send_response_for_generation_def try_send_def Let_def
    request_submit_def split: option.split if_splits)

lemma min_double: "min (2 * min a b) b = min (2 * a) (b::nat)"
  by (simp add: min_def)

lemma pauses_ok_cong:
  "pauses_ok c w \<Longrightarrow> cl_config (aw_client w1) = cl_config (aw_client w) \<Longrightarrow> aw_pauses w1 = aw_pauses w \<Longrightarrow>
     aw_delay w1 = aw_delay w \<Longrightarrow> pauses_ok c w1"
  by (simp add: pauses_ok_def)

lemma over_pauses: "pauses_ok c w \<Longrightarrow> pauses_ok c (connection_over False w)"
  by (auto simp: pauses_ok_def connection_over_def Let_def min_double mult.left_commute)

lemma take_outbound_pauses:
  assumes "pauses_ok c w"
  shows "pauses_ok c (take_outbound ok cn m (w\<lparr>aw_client := (aw_client w)\<lparr>cl_outbound := ms\<rparr>\<rparr>))"
proof -
  obtain r cn1 cl1 where wr: "write_outbound ok m cn ((aw_client w)\<lparr>cl_outbound := ms\<rparr>) = (r, cn1, cl1)"
    using prod_cases3 by blast
  then have "pauses_ok c (w\<lparr>aw_client := cl1, aw_connection := Some cn1\<rparr>)"
    using assms by (intro pauses_ok_cong [OF assms]) (simp_all add: config_frame(6) [OF wr])
  with over_pauses [OF this] show ?thesis
    by (auto simp: take_outbound_def wr split: sum.split option.split) (auto simp: pauses_ok_def)
qed

lemma after_receive_pauses:
  assumes "pauses_ok c w"
  shows "pauses_ok c (after_receive cn (receive fl ok message cn (aw_client w)) (note_received cn message w))"
proof -
  obtain r cn1 cl1 where rc: "receive fl ok message cn (aw_client w) = (r, cn1, cl1)" using prod_cases3 by blast
  then have "pauses_ok c ((note_received cn message w)\<lparr>aw_client := cl1, aw_connection := Some cn1\<rparr>)"
    using assms by (intro pauses_ok_cong [OF assms]) (simp_all add: config_frame(7) [OF rc] note_received_def)
  with over_pauses [OF this] show ?thesis
    by (auto simp: after_receive_def rc split: sum.split option.split) (auto simp: pauses_ok_def)
qed

lemma app_step_pauses: "pauses_ok c w \<Longrightarrow> pauses_ok c (app_step fl op w)"
proof (rule app_step_cases)
  fix g m p r cl assume "pauses_ok c w" "request_submit g m p (aw_client w) = (r, cl)"
  then show "pauses_ok c (case r of Inl e \<Rightarrow> w\<lparr>aw_client := cl\<rparr> | Inr i \<Rightarrow> w\<lparr>aw_client := cl, aw_calls := aw_calls w @ [i]\<rparr>)"
    by (cases r) (auto simp: pauses_ok_def)
next
  fix ok assume w: "pauses_ok c w"
  then have "pauses_ok c (connection_opened True w)" by (simp add: pauses_ok_def connection_opened_def Let_def)
  with over_pauses [OF this] show "pauses_ok c (connection_opened ok w)"
    by (cases ok) (simp_all add: connection_opened_def Let_def)
next
  assume "pauses_ok c w"
  then show "pauses_ok c (connection_refused w)"
    unfolding connection_refused_def by (intro over_pauses) (simp add: pauses_ok_def)
next
  assume "pauses_ok c w"
  then show "pauses_ok c (supervisor_stopped w)"
    by (simp add: pauses_ok_def supervisor_stopped_def Let_def)
qed (auto intro: over_pauses take_outbound_pauses after_receive_pauses simp: pauses_ok_def [of _ "w\<lparr>aw_client := _\<rparr>"]
    pauses_ok_def [of _ w])

text \<open>What every step keeps.\<close>

definition app_ok :: "app_config \<Rightarrow> app_world \<Rightarrow> bool" where
  "app_ok c w \<longleftrightarrow> calls_ok w \<and> traffic_ok w \<and> pauses_ok c w"

interpretation app_client: machine "app_step fl" "app_ok c" for fl c
  by unfold_locales (simp add: app_ok_def app_step_calls app_step_traffic app_step_pauses)

lemma app_start_ok:
  assumes "app_connect c = Inr cl"
  shows "app_ok c (app_world_start c)"
proof -
  have "acf_reconnect_initial c \<le> acf_reconnect_max c"
    using assms by (auto simp: app_connect_def config_validate_def split: if_splits)
  then show ?thesis
    by (simp add: app_ok_def app_world_start_def client_new_def calls_ok_def traffic_ok_def connection_ok_def sent_ok_def
        results_ok_def pauses_ok_def pending_calls_def answered_def)
qed

lemma app_run_ok: "app_connect c = Inr cl \<Longrightarrow> app_ok c (fold (app_step fl) ops (app_world_start c))"
  by (rule app_client.run_inv) (rule app_start_ok)

lemma stopped_empty:
  "cl_outbound (aw_client (supervisor_stopped w)) = [] \<and> aw_connection (supervisor_stopped w) = None"
proof -
  define cl where "cl = deactivate (aw_generation w) (drop_pending (aw_connection w) (aw_client w))"
  from fold_fail [of AppShutdown "cl_outbound cl" "cl\<lparr>cl_outbound := []\<rparr>"] show ?thesis
    by (auto simp: supervisor_stopped_def cl_def [symmetric] Let_def)
qed

section \<open>Properties\<close>



text \<open>
  The pauses between connections double from the first to the longest, counted from the start of
  the client: the n-th pause is the initial one times two to the n, at most the longest. A connection
  that worked in between does not make the next pause short again.
\<close>

theorem pauses_only_grow:
  assumes "app_connect c = Inr cl" and "w = fold (app_step fl) ops (app_world_start c)"
  shows "aw_pauses w = map (\<lambda>n. min (acf_reconnect_initial c * 2 ^ n) (acf_reconnect_max c)) [0..<length (aw_pauses w)]"
  using app_run_ok [OF assms(1), of fl ops] unfolding assms(2) app_ok_def pauses_ok_def by blast

section \<open>A run\<close>

text \<open>A handshake, two calls of which one is answered, a lost connection and a failed attempt.\<close>

definition demo_config :: app_config where
  "demo_config = \<lparr>acf_socket_path = ''/s'', acf_transport = UnixSocket ''/s'', acf_client_name = ''c'',
     acf_client_title = ''t'', acf_client_version = ''1'', acf_outbound_capacity = 4, acf_pending_capacity = 4,
     acf_notification_capacity = 4, acf_reconnect_initial = 2, acf_reconnect_max = 3\<rparr>"

definition demo_client_ops :: "app_op list" where
  "demo_client_ops = [Opened True, ReceivedFrame True (WsText (Inr (jobj [(''id'', JInt 1), (''result'', jobj [])]))),
     Called 1 ''thread/read'' JNull, Called 1 ''turn/start'' JNull, TookOutbound True, TookOutbound True,
     ReceivedFrame True (WsText (Inr (jobj [(''id'', JInt 2), (''result'', JInt 7)]))), ConnectionLost, OpenFailed]"

definition demo_client :: app_world where
  "demo_client = fold (app_step (\<lambda>_. [])) demo_client_ops (app_world_start demo_config)"

lemma demo_config_connects: "app_connect demo_config = Inr (client_new demo_config)"
  by (simp add: app_connect_def config_validate_def demo_config_def)

lemma demo_client_end:
  "cl_answers (aw_client demo_client) = [(2, Inr (JInt 7)), (3, Inl AppDisconnected)]" "aw_calls demo_client = [2, 3]"
  "length (aw_pauses demo_client) = 2" "aw_sent demo_client \<noteq> []"
  by code_simp+



theorem pauses_only_grow_witness: "aw_pauses demo_client = [2, 3]"
  using pauses_only_grow [OF demo_config_connects demo_client_def] demo_client_end(3)
  by (simp add: demo_config_def upt_rec numeral_eq_Suc)

end
