(* ===== verification/TextOps.thy ===== *)
theory TextOps
  imports RustText
begin

text \<open>
  What the panels use of Rust's \<open>str\<close> beyond \<open>RustText\<close>: joining and splitting at a byte, searching,
  replacing, and case-insensitive comparison of ASCII.
\<close>

fun join :: "string \<Rightarrow> string list \<Rightarrow> string" where
  "join d [] = []"
| "join d [s] = s"
| "join d (s # t # ss) = s @ d @ join d (t # ss)"

text \<open>\<open>split\<close> at every occurrence of a byte, \<open>splitn\<close> into at most \<open>n\<close> parts.\<close>

fun split_on :: "char \<Rightarrow> string \<Rightarrow> string list" where
  "split_on d [] = [[]]"
| "split_on d (c # s) = (if c = d then [] # split_on d s
     else case split_on d s of [] \<Rightarrow> [[c]] | t # ts \<Rightarrow> (c # t) # ts)"

fun splitn :: "nat \<Rightarrow> char \<Rightarrow> string \<Rightarrow> string list" where
  "splitn 0 d s = []"
| "splitn (Suc 0) d s = [s]"
| "splitn (Suc (Suc n)) d s = (case split_once d s of
     None \<Rightarrow> [s]
   | Some (a, b) \<Rightarrow> a # splitn (Suc n) d b)"

fun contains_text :: "string \<Rightarrow> string \<Rightarrow> bool" where
  "contains_text p [] \<longleftrightarrow> p = []"
| "contains_text p (c # s) \<longleftrightarrow> starts_with p (c # s) \<or> contains_text p s"

definition replace_byte :: "char \<Rightarrow> string \<Rightarrow> string \<Rightarrow> string" where
  "replace_byte c r s = concat (map (\<lambda>x. if x = c then r else [x]) s)"

definition eq_ignore_ascii_case :: "string \<Rightarrow> string \<Rightarrow> bool" where
  "eq_ignore_ascii_case s t \<longleftrightarrow> to_ascii_lowercase s = to_ascii_lowercase t"

text \<open>\<open>rsplit(d).next()\<close>: what follows the last occurrence.\<close>

definition last_part :: "char \<Rightarrow> string \<Rightarrow> string" where
  "last_part d s = last (split_on d s)"

text \<open>\<open>get(i)\<close> of a slice.\<close>

definition get_at :: "'a list \<Rightarrow> nat \<Rightarrow> 'a option" where
  "get_at xs i = (if i < length xs then Some (xs ! i) else None)"

lemma split_on_not_Nil [simp]: "split_on d s \<noteq> []"
  by (cases s) (auto split: list.splits)

lemma split_on_single: "d \<notin> set s \<Longrightarrow> split_on d s = [s]"
  by (induction s) auto

lemma split_on_append: "d \<notin> set a \<Longrightarrow> split_on d (a @ d # s) = a # split_on d s"
  by (induction a) auto

text \<open>Joining with the separator between parts without it and splitting again gives the parts.\<close>

lemma split_on_join:
  assumes "ss \<noteq> []" and "list_all (\<lambda>s. d \<notin> set s) ss"
  shows "split_on d (join [d] ss) = ss"
  using assms by (induction "[d]" ss rule: join.induct) (auto simp: split_on_single split_on_append)

lemma join_split_on: "join [d] (split_on d s) = s"
proof (induction s)
  case Nil
  then show ?case by simp
next
  case (Cons c s)
  obtain t ts where "split_on d s = t # ts" by (cases "split_on d s") simp_all
  with Cons show ?case by (cases ts) auto
qed

lemma split_on_parts: "t \<in> set (split_on d s) \<Longrightarrow> d \<notin> set t"
  by (induction s arbitrary: t) (auto split: if_splits list.splits)

lemma get_at_simps [simp]: "get_at [] i = None" "get_at (x # xs) 0 = Some x" "get_at (x # xs) (Suc i) = get_at xs i"
  by (simp_all add: get_at_def)

lemma get_at_numeral [simp]: "get_at (x # xs) (numeral k) = get_at xs (pred_numeral k)"
  by (simp add: numeral_eq_Suc)

lemma eq_ignore_ascii_case_refl [simp]: "eq_ignore_ascii_case s s"
  by (simp add: eq_ignore_ascii_case_def)

lemma contains_text_append: "contains_text p (a @ p @ b)"
proof (induction a)
  case Nil
  have "starts_with p (p @ b)" by (simp add: starts_with_def)
  then show ?case by (cases "p @ b") auto
next
  case (Cons c a)
  then show ?case by simp
qed

end
