(* ===== verification/Panels.thy ===== *)
theory Panels
  imports TextOps BTree "HOL-Library.Signed_Division"
begin

text \<open>
  The panels of the control bot, \<open>rust/crates/cli/src/control.rs\<close>: a request becomes a list of logical
  effects (render a message with a keyboard, answer a callback, set a deadline), from which the
  daemon makes Telegram messages. Chinese text and pictograms are given by their UTF-8 bytes. The
  table of Unicode lower case behind \<open>str::to_lowercase\<close> is the parameter \<open>lower\<close>.
\<close>

section \<open>Requests and effects\<close>

definition sessions_delete_seconds :: nat where "sessions_delete_seconds = 15 * 60"
definition perf_lifetime_seconds :: nat where "perf_lifetime_seconds = 30"
definition perf_update_seconds :: nat where "perf_update_seconds = 5"
definition new_interaction_seconds :: nat where "new_interaction_seconds = 5 * 60"
definition new_prompt_seconds :: nat where "new_prompt_seconds = 30"
definition session_refresh_seconds :: nat where "session_refresh_seconds = 5"
definition session_page_size :: nat where "session_page_size = 5"

record listed_session =
  lse_thread_id :: string
  lse_title :: string
  lse_status :: string
  lse_turn_status :: string
  lse_lifecycle :: string
  lse_active_flags :: "string list"
  lse_error :: string
  lse_created_at :: "i64 option"
  lse_updated_at :: "i64 option"
  lse_cwd :: string

record sessions_request =
  srq_query :: string
  srq_page :: nat
  srq_now :: i64
  srq_utc_offset_seconds :: i64
  srq_sessions :: "listed_session list"

record topic =
  tpc_title :: string
  tpc_lifecycle :: string
  tpc_url :: "string option"

record model_option =
  mop_model :: string
  mop_display_name :: string
  mop_supported_efforts :: "string list"

datatype new_phase =
  PhNormalModel | PhNormalEffort | PhPlanChoice | PhPlanModel | PhPlanEffort | PhProject | PhPrompt

datatype new_event =
  EvCancel | EvNormalModel | EvNormalEffort | EvPlanChoice | EvPlanModel | EvPlanEffort | EvHello

record new_draft =
  ndr_phase :: new_phase
  ndr_normal_model :: "string option"
  ndr_plan_model :: "string option"

datatype callback_disposition = CbMissing | CbCurrent | CbQueueFull | CbAccepted

datatype control_request =
    ReqHelp string bool
  | ReqSessions sessions_request
  | ReqTopics "topic list"
  | ReqNew new_draft "model_option list"
  | ReqNewCallback new_draft new_event string "model_option list"
  | ReqPerf nat string string
  | ReqCallback callback_disposition

datatype render_operation = RenderSend | RenderEdit

datatype button_target =
    TargetCallback string "(string, string) btree"
  | TargetUrl string

record control_button =
  cbt_label :: string
  cbt_target :: button_target

record rendered_effect =
  rde_operation :: render_operation
  rde_markdown :: string
  rde_plain :: "string option"
  rde_keyboard :: "control_button list list option"

datatype delete_target = DeleteCommand | DeleteReply

datatype control_effect =
    Render rendered_effect
  | CallbackAnswer "string option" bool
  | InteractionDeadline new_phase nat
  | DeleteDeadline "delete_target list" nat string
  | PerfTicker nat nat
  | SessionRefresh nat

datatype control_error =
    NoModels
  | UnknownModel string
  | UnsupportedNewTransition new_phase new_event

section \<open>Text of a panel\<close>

definition markdown_special :: "char \<Rightarrow> bool" where
  "markdown_special c \<longleftrightarrow> c \<in> set (''_*[]()~'' @ [CHR 0x60] @ ''>#+-=|{}.!'')"

definition escape_markdown :: "string \<Rightarrow> string" where
  "escape_markdown s = filter (\<lambda>c. c \<noteq> CHR 0x00)
     (concat (map (\<lambda>c. if markdown_special c then [CHR 0x5C, c] else [CHR 0x00, c]) s))"

definition inline_code :: "string \<Rightarrow> string" where
  "inline_code s = [CHR 0x60]
     @ replace_byte (CHR 0x5C) [CHR 0x5C, CHR 0x5C] (replace_byte (CHR 0x60) [CHR 0x5C, CHR 0x60] s)
     @ [CHR 0x60]"

definition render :: "render_operation \<Rightarrow> string \<Rightarrow> string option \<Rightarrow> control_button list list option \<Rightarrow> control_effect" where
  "render operation markdown plain kb = Render \<lparr>rde_operation = operation, rde_markdown = markdown,
     rde_plain = plain, rde_keyboard = kb\<rparr>"

definition panel_button :: "string \<Rightarrow> string \<Rightarrow> (string \<times> string) list \<Rightarrow> control_button" where
  "panel_button label action payload = \<lparr>cbt_label = label,
     cbt_target = TargetCallback action (fold (\<lambda>(k, v). bt_insert k v) payload [])\<rparr>"

text \<open>\<open>chunks\<close>, for a positive number of columns.\<close>

function chunks :: "nat \<Rightarrow> 'a list \<Rightarrow> 'a list list" where
  "chunks n xs = (if n = 0 \<or> xs = [] then [] else take n xs # chunks n (drop n xs))"
  by pat_completeness auto
termination by (relation "measure (\<lambda>(n, xs). length xs)") auto

declare chunks.simps [simp del]

definition balanced_rows :: "'a list \<Rightarrow> nat \<Rightarrow> 'a list list" where
  "balanced_rows buttons columns =
     (if columns = 0 then []
      else let rows = chunks columns buttons in
        if 1 < columns \<and> 1 < length rows \<and> length (last rows) = 1 then
          let previous = length rows - 2 in
          if rows ! previous = [] then rows
          else (rows[previous := butlast (rows ! previous)])
                 [length rows - 1 := last (rows ! previous) # last rows]
        else rows)"

definition pagination :: "nat \<Rightarrow> nat \<Rightarrow> (string \<times> nat \<times> bool) list" where
  "pagination page pages = (let it = (\<lambda>label target. (label, target, target = page \<and> list_all is_digit label)) in
     if pages = 1 then [it ''1'' 1]
     else if page = 1 then [it ''1'' 1, it ''>>'' 2]
     else if page = pages then [it ''1'' 1, it ''<<'' (page - 1), it (show_nat page) page]
     else if page = 2 then [it ''<<'' 1, it ''2'' 2, it ''>>'' 3]
     else if page = pages - 1 then
       [it ''1'' 1, it ''<<'' (page - 1), it (show_nat page) page, it (show_nat pages) pages]
     else [it ''1'' 1, it ''<<'' (page - 1), it (show_nat page) page, it ''>>'' (page + 1)])"

section \<open>Times\<close>

text \<open>Division of \<open>i64\<close> rounds towards zero; \<open>div_euclid\<close> and \<open>rem_euclid\<close> are \<open>div\<close> and \<open>mod\<close>.\<close>

definition civil_date :: "int \<Rightarrow> int \<times> int \<times> int" where
  "civil_date days = (let
     z = days + 719468;
     era = (if 0 \<le> z then z else z - 146096) sdiv 146097;
     day_of_era = z - era * 146097;
     year_of_era = (day_of_era - day_of_era sdiv 1460 + day_of_era sdiv 36524 - day_of_era sdiv 146096) sdiv 365;
     year = year_of_era + era * 400;
     day_of_year = day_of_era - (365 * year_of_era + year_of_era sdiv 4 - year_of_era sdiv 100);
     month_prime = (5 * day_of_year + 2) sdiv 153;
     day = day_of_year - (153 * month_prime + 2) sdiv 5 + 1;
     month = month_prime + (if month_prime < 10 then 3 else - 9)
   in (year + (if month \<le> 2 then 1 else 0), month, day))"

definition clock :: "i64 option \<Rightarrow> i64 \<Rightarrow> string" where
  "clock v utc_offset_seconds = (case v of
     None \<Rightarrow> ''N/A''
   | Some epoch \<Rightarrow> let
       local = saturating_add epoch utc_offset_seconds;
       days = local div 86400;
       seconds = local mod 86400;
       (year, month, day) = civil_date days
     in show_padded 2 (nat month) @ ''-'' @ show_padded 2 (nat day) @ '' ''
        @ show_padded 2 (nat (seconds sdiv 3600)) @ '':'' @ show_padded 2 (nat (seconds mod 3600 sdiv 60)))"

definition relative :: "i64 option \<Rightarrow> i64 \<Rightarrow> string" where
  "relative v now = (case v of
     None \<Rightarrow> ''N/A''
   | Some t \<Rightarrow> let seconds = max (now - t) 0 in
       if seconds < 60 then ''now''
       else if seconds < 3600 then show_int (seconds sdiv 60) @ ''m ago''
       else if seconds < 86400 then show_int (seconds sdiv 3600) @ ''h ago''
       else show_int (seconds sdiv 86400) @ ''d ago'')"

section \<open>Help, sessions, topics, performance\<close>

definition help_commands :: "bool \<Rightarrow> (string \<times> string) list" where
  "help_commands paired = (if paired then [
       ((''/sessions ['' @ [CHR 0xE5, CHR 0x85, CHR 0xB3, CHR 0xE9, CHR 0x94, CHR 0xAE, CHR 0xE8, CHR 0xAF, CHR 0x8D]
           @ '']''), ([CHR 0xE6, CHR 0x9F, CHR 0xA5, CHR 0xE6, CHR 0x89, CHR 0xBE] @ '' Codex sessions'')),
       (''/topics'', ([CHR 0xE6, CHR 0x9F, CHR 0xA5, CHR 0xE7, CHR 0x9C, CHR 0x8B] @ '' Session '' @ [CHR 0xE5,
           CHR 0xB8, CHR 0x96, CHR 0xE5, CHR 0xAD, CHR 0x90])),
       (''/new [model | effort | ...]'', ([CHR 0xE4, CHR 0xBA, CHR 0xA4, CHR 0xE4, CHR 0xBA, CHR 0x92, CHR 0xE6,
           CHR 0x88, CHR 0x96, CHR 0xE5, CHR 0x8F, CHR 0x82, CHR 0xE6, CHR 0x95, CHR 0xB0, CHR 0xE5, CHR 0x8C,
           CHR 0x96, CHR 0xE5, CHR 0x88, CHR 0x9B, CHR 0xE5, CHR 0xBB, CHR 0xBA] @ '' Session'')),
       (''/perf'', ([CHR 0xE5, CHR 0x8A, CHR 0xA8, CHR 0xE6, CHR 0x80, CHR 0x81, CHR 0xE6, CHR 0x9F, CHR 0xA5,
           CHR 0xE7, CHR 0x9C, CHR 0x8B] @ '' 30 '' @ [CHR 0xE7, CHR 0xA7, CHR 0x92] @ '' WSL '' @ [CHR 0xE6,
           CHR 0x80, CHR 0xA7, CHR 0xE8, CHR 0x83, CHR 0xBD])),
       (''/help'', ([CHR 0xE6, CHR 0x98, CHR 0xBE, CHR 0xE7, CHR 0xA4, CHR 0xBA, CHR 0xE5, CHR 0xB8, CHR 0xAE,
           CHR 0xE5, CHR 0x8A, CHR 0xA9]))]
     else [(''/pair'', ([CHR 0xE5, CHR 0xAE, CHR 0x8C, CHR 0xE6, CHR 0x88, CHR 0x90] @ '' owner '' @ [CHR 0xE9,
         CHR 0x85, CHR 0x8D, CHR 0xE5, CHR 0xAF, CHR 0xB9])),
         (''/help'', ([CHR 0xE6, CHR 0x98, CHR 0xBE, CHR 0xE7, CHR 0xA4, CHR 0xBA, CHR 0xE5, CHR 0xB8, CHR 0xAE,
             CHR 0xE5, CHR 0x8A, CHR 0xA9]))])"

definition render_help :: "string \<Rightarrow> bool \<Rightarrow> control_effect" where
  "render_help label paired = (let
     commands = help_commands paired;
     title = ([CHR 0xF0, CHR 0x9F, CHR 0xA4, CHR 0x96] @ '' '') @ label;
     markdown = join [newline] ((''*'' @ escape_markdown title @ ''*'')
       # map (\<lambda>(command, description). inline_code command @ ''  '' @ escape_markdown description) commands);
     plain = join [newline] (title # map (\<lambda>(command, description). command @ ''  '' @ description) commands)
   in render RenderSend markdown (Some plain) None)"

definition session_status_shown :: "listed_session \<Rightarrow> string \<times> string" where
  "session_status_shown s =
     (if lse_lifecycle s = ''pending'' then (([CHR 0xF0, CHR 0x9F, CHR 0x9F, CHR 0xA1]), ([CHR 0xE5, CHR 0xBE,
         CHR 0x85, CHR 0xE8, CHR 0xAE, CHR 0xA4, CHR 0xE8, CHR 0xAF, CHR 0x81]))
      else if lse_lifecycle s = ''closed'' then (([CHR 0xE2, CHR 0x9A, CHR 0xAB]), ([CHR 0xE5, CHR 0xB7, CHR 0xB2,
          CHR 0xE5, CHR 0x85, CHR 0xB3, CHR 0xE9, CHR 0x97, CHR 0xAD]))
      else if lse_lifecycle s = ''repair_required'' then (([CHR 0xF0, CHR 0x9F, CHR 0x9F, CHR 0xA0]), ([CHR 0xE9,
          CHR 0x9C, CHR 0x80, CHR 0xE8, CHR 0xA6, CHR 0x81, CHR 0xE4, CHR 0xBF, CHR 0xAE, CHR 0xE5, CHR 0xA4, CHR 0x8D]))
      else if lse_error s \<noteq> [] \<or> lse_status s = ''systemError'' \<or> lse_turn_status s = ''failed''
      then (([CHR 0xF0, CHR 0x9F, CHR 0x94, CHR 0xB4]), ([CHR 0xE9, CHR 0x94, CHR 0x99, CHR 0xE8, CHR 0xAF, CHR 0xAF]))
      else if list_ex (\<lambda>flag. flag = ''waitingOnUserInput'' \<or> flag = ''waitingOnApproval'') (lse_active_flags s)
      then (([CHR 0xF0, CHR 0x9F, CHR 0x9F, CHR 0xA1]), ([CHR 0xE7, CHR 0xAD, CHR 0x89, CHR 0xE5, CHR 0xBE, CHR 0x85]))
      else if lse_turn_status s = ''completed'' \<or> lse_turn_status s = ''interrupted'' \<or> lse_status s = ''idle''
      then (([CHR 0xE2, CHR 0x9A, CHR 0xAA]), ([CHR 0xE7, CHR 0xA9, CHR 0xBA, CHR 0xE9, CHR 0x97, CHR 0xB2]))
      else if lse_status s = ''active'' \<or> lse_turn_status s = ''inProgress'' then (([CHR 0xF0, CHR 0x9F, CHR 0x9F,
          CHR 0xA2]),
          ([CHR 0xE6, CHR 0x89, CHR 0xA7, CHR 0xE8, CHR 0xA1, CHR 0x8C, CHR 0xE4, CHR 0xB8, CHR 0xAD]))
      else (([CHR 0xE2, CHR 0x9A, CHR 0xAB]), ([CHR 0xE6, CHR 0x9C, CHR 0xAA, CHR 0xE5, CHR 0x8A, CHR 0xA0, CHR 0xE8,
          CHR 0xBD, CHR 0xBD])))"

definition page_labels :: "string list" where
  "page_labels = [([CHR 0xE2, CHR 0x91, CHR 0xA0]), ([CHR 0xE2, CHR 0x91, CHR 0xA1]), ([CHR 0xE2, CHR 0x91,
      CHR 0xA2]), ([CHR 0xE2, CHR 0x91, CHR 0xA3]),
      ([CHR 0xE2, CHR 0x91, CHR 0xA4])]"

text \<open>The sessions a query asks for, the number of pages they need, and the page that is shown.\<close>

definition matching_sessions :: "(string \<Rightarrow> string) \<Rightarrow> string \<Rightarrow> listed_session list \<Rightarrow> listed_session list" where
  "matching_sessions lower query sessions = filter (\<lambda>s. query = []
     \<or> contains_text (lower query) (lower (lse_thread_id s))
     \<or> contains_text (lower query) (lower (lse_title s))) sessions"

definition page_count :: "nat \<Rightarrow> nat" where
  "page_count n = max ((n + session_page_size - 1) div session_page_size) 1"

definition page_of :: "'a list \<Rightarrow> nat \<Rightarrow> 'a list" where
  "page_of xs page = drop ((page - 1) * session_page_size) (take (min (length xs) (page * session_page_size)) xs)"

definition session_markdown :: "sessions_request \<Rightarrow> nat \<times> listed_session \<Rightarrow> string list" where
  "session_markdown req = (\<lambda>(index, s). [[],
     page_labels ! index @ '' '' @ fst (session_status_shown s) @ '' '' @ inline_code (lse_thread_id s),
     ([CHR 0xF0, CHR 0x9F, CHR 0x93, CHR 0x9D] @ '' '') @ escape_markdown (lse_title s),
     ([CHR 0xF0, CHR 0x9F, CHR 0x97, CHR 0x93] @ '' Created '')
         @ inline_code (clock (lse_created_at s) (srq_utc_offset_seconds req))
       @ ('' '' @ [CHR 0xC2, CHR 0xB7] @ '' Updated '') @ inline_code (relative (lse_updated_at s) (srq_now req)),
     ([CHR 0xF0, CHR 0x9F, CHR 0x93, CHR 0x81] @ '' '') @ inline_code (lse_cwd s)])"

definition session_plain :: "sessions_request \<Rightarrow> nat \<times> listed_session \<Rightarrow> string list" where
  "session_plain req = (\<lambda>(index, s). [[],
     page_labels ! index @ '' '' @ fst (session_status_shown s) @ '' '' @ lse_thread_id s,
     ([CHR 0xF0, CHR 0x9F, CHR 0x93, CHR 0x9D] @ '' '') @ lse_title s,
     ([CHR 0xF0, CHR 0x9F, CHR 0x97, CHR 0x93] @ '' Created '') @ clock (lse_created_at s) (srq_utc_offset_seconds req)
       @ ('' '' @ [CHR 0xC2, CHR 0xB7] @ '' Updated '') @ relative (lse_updated_at s) (srq_now req),
     ([CHR 0xF0, CHR 0x9F, CHR 0x93, CHR 0x81] @ '' '') @ lse_cwd s])"

definition render_sessions :: "(string \<Rightarrow> string) \<Rightarrow> sessions_request \<Rightarrow> control_effect list" where
  "render_sessions lower req = (let
     query = trim (srq_query req);
     found = matching_sessions lower query (srq_sessions req);
     total_pages = page_count (length found);
     page = min (max (srq_page req) 1) total_pages;
     selected = page_of found page;
     heading = ([CHR 0xF0, CHR 0x9F, CHR 0xA4, CHR 0x96] @ '' Codex Sessions '' @ [CHR 0xC2, CHR 0xB7] @ '' '')
         @ show_nat page @ ''/''
         @ show_nat total_pages;
     nothing = (if selected = [] then [[], ([CHR 0xE5, CHR 0xBD, CHR 0x93, CHR 0xE5, CHR 0x89, CHR 0x8D, CHR 0xE6,
         CHR 0xB2, CHR 0xA1, CHR 0xE6, CHR 0x9C, CHR 0x89]
         @ '' Codex session'' @ [CHR 0xE3, CHR 0x80, CHR 0x82])] else []);
     markdown_lines = [''*'' @ escape_markdown heading @ ''*'']
       @ (if query = [] then [] else [([CHR 0xE6, CHR 0x90, CHR 0x9C, CHR 0xE7, CHR 0xB4, CHR 0xA2] @ '' '')
           @ inline_code query])
       @ nothing @ concat (map (session_markdown req) (enumerate 0 selected));
     plain_lines = [heading] @ (if query = [] then [] else [([CHR 0xE6, CHR 0x90, CHR 0x9C, CHR 0xE7, CHR 0xB4,
         CHR 0xA2] @ '' '') @ query])
       @ nothing @ concat (map (session_plain req) (enumerate 0 selected));
     rows = (if selected = [] then []
         else [map (\<lambda>(index, s). panel_button (page_labels ! index) ''session_detail''
             [(''thread_id'', lse_thread_id s)]) (enumerate 0 selected)])
       @ [map (\<lambda>(label, target, current). panel_button label
             (if current then ''sessions_current'' else ''sessions_page'')
             [(''page'', show_nat target), (''query'', query)]) (pagination page total_pages)]
   in [DeleteDeadline [DeleteCommand, DeleteReply] sessions_delete_seconds ''sessions'',
       render RenderSend (join [newline] markdown_lines) (Some (join [newline] plain_lines)) (Some rows),
       SessionRefresh session_refresh_seconds])"

definition render_topics :: "topic list \<Rightarrow> control_effect" where
  "render_topics topics =
     (if topics = [] then render RenderSend ([CHR 0xE5, CHR 0xBD, CHR 0x93, CHR 0xE5, CHR 0x89, CHR 0x8D, CHR 0xE6,
         CHR 0xB2, CHR 0xA1, CHR 0xE6, CHR 0x9C, CHR 0x89]
         @ '' Session '' @ [CHR 0xE5, CHR 0xB8, CHR 0x96, CHR 0xE5, CHR 0xAD, CHR 0x90, CHR 0xE3, CHR 0x80,
             CHR 0x82]) None None
      else let
        shown = enumerate 1 (take 30 topics);
        lines = (''*'' @ [CHR 0xF0, CHR 0x9F, CHR 0xA4, CHR 0x96] @ '' Session '' @ [CHR 0xE5, CHR 0xB8, CHR 0x96,
            CHR 0xE5, CHR 0xAD, CHR 0x90]
            @ ''*'') # map (\<lambda>(number, t). show_nat number @ ([CHR 0x5C] @ ''. '') @ escape_markdown (tpc_title t)
          @ ('' '' @ [CHR 0xC2, CHR 0xB7] @ '' '') @ inline_code (tpc_lifecycle t)) shown;
        buttons = concat (map (\<lambda>(number, t). case tpc_url t of
            None \<Rightarrow> []
          | Some url \<Rightarrow> [\<lparr>cbt_label = ([CHR 0xE6, CHR 0x89, CHR 0x93, CHR 0xE5, CHR 0xBC, CHR 0x80] @ '' '')
              @ show_nat number, cbt_target = TargetUrl url\<rparr>]) shown)
      in render RenderSend (join [newline] lines) None
           (if buttons = [] then None else Some (balanced_rows buttons 3)))"

definition render_perf :: "nat \<Rightarrow> string \<Rightarrow> string \<Rightarrow> control_effect list" where
  "render_perf frame markdown_body plain_body = (let
     frames = [([CHR 0xF0, CHR 0x9F, CHR 0x95, CHR 0x9B]), ([CHR 0xF0, CHR 0x9F, CHR 0x95, CHR 0x92]), ([CHR 0xF0,
         CHR 0x9F, CHR 0x95, CHR 0x95]), ([CHR 0xF0, CHR 0x9F, CHR 0x95, CHR 0x98])];
     f = frames ! (frame mod length frames)
   in [render RenderSend (''*'' @ f @ ('' '' @ [CHR 0xE5, CHR 0x8A, CHR 0xA8, CHR 0xE6, CHR 0x80, CHR 0x81, CHR 0xE6,
       CHR 0x80, CHR 0xA7, CHR 0xE8, CHR 0x83, CHR 0xBD]
       @ ''*'') @ [newline] @ markdown_body)
         (Some (f @ ('' '' @ [CHR 0xE5, CHR 0x8A, CHR 0xA8, CHR 0xE6, CHR 0x80, CHR 0x81, CHR 0xE6, CHR 0x80,
             CHR 0xA7, CHR 0xE8, CHR 0x83, CHR 0xBD]) @ [newline]
             @ plain_body)) None,
       DeleteDeadline [DeleteCommand, DeleteReply] perf_lifetime_seconds ''perf'',
       PerfTicker perf_lifetime_seconds perf_update_seconds])"

definition render_callback :: "callback_disposition \<Rightarrow> control_effect list" where
  "render_callback d = (case d of
     CbCurrent \<Rightarrow> [CallbackAnswer None False]
   | CbAccepted \<Rightarrow> [CallbackAnswer None False]
   | CbMissing \<Rightarrow> [CallbackAnswer (Some ([CHR 0xE6, CHR 0x8C, CHR 0x89, CHR 0xE9, CHR 0x92, CHR 0xAE,
       CHR 0xE5, CHR 0xB7, CHR 0xB2, CHR 0xE4, CHR 0xBD, CHR 0xBF, CHR 0xE7, CHR 0x94, CHR 0xA8, CHR 0xE6, CHR 0x88,
       CHR 0x96, CHR 0xE8, CHR 0xBF, CHR 0x87, CHR 0xE6, CHR 0x9C, CHR 0x9F, CHR 0xEF, CHR 0xBC, CHR 0x8C, CHR 0xE8,
       CHR 0xAF, CHR 0xB7, CHR 0xE9, CHR 0x87, CHR 0x8D, CHR 0xE6, CHR 0x96, CHR 0xB0, CHR 0xE6, CHR 0x89, CHR 0xA7,
       CHR 0xE8, CHR 0xA1, CHR 0x8C, CHR 0xE5, CHR 0x91, CHR 0xBD, CHR 0xE4, CHR 0xBB, CHR 0xA4, CHR 0xE3, CHR 0x80,
       CHR 0x82])) True]
   | CbQueueFull \<Rightarrow> [CallbackAnswer (Some ([CHR 0xE8, CHR 0xAF, CHR 0xB7, CHR 0xE6, CHR 0xB1, CHR 0x82,
       CHR 0xE9, CHR 0x98, CHR 0x9F, CHR 0xE5, CHR 0x88, CHR 0x97, CHR 0xE5, CHR 0xB7, CHR 0xB2, CHR 0xE6, CHR 0xBB,
       CHR 0xA1, CHR 0xEF, CHR 0xBC, CHR 0x8C, CHR 0xE8, CHR 0xAF, CHR 0xB7, CHR 0xE7, CHR 0xA8, CHR 0x8D, CHR 0xE5,
       CHR 0x90, CHR 0x8E, CHR 0xE9, CHR 0x87, CHR 0x8D, CHR 0xE8, CHR 0xAF, CHR 0x95, CHR 0xE3, CHR 0x80,
       CHR 0x82])) True])"

section \<open>The conversation of /new\<close>

definition find_model :: "model_option list \<Rightarrow> string \<Rightarrow> control_error + model_option" where
  "find_model models v = ok_or (find (\<lambda>o1. mop_model o1 = v) models) (UnknownModel v)"

definition cancel_row :: "control_button list" where
  "cancel_row = [panel_button ([CHR 0xE9, CHR 0x80, CHR 0x80, CHR 0xE5, CHR 0x87, CHR 0xBA]) ''cancel'' []]"

definition model_choices :: "model_option list \<Rightarrow> bool \<Rightarrow> control_error + control_effect" where
  "model_choices models plan =
     (if models = [] then Inl NoModels
      else let
        event = (if plan then ''plan_model'' else ''normal_model'');
        buttons = map (\<lambda>o1. panel_button (mop_display_name o1) event [(''value'', mop_model o1)]) models;
        mode = (if plan then ''Plan Mode'' else ([CHR 0xE5, CHR 0xBD, CHR 0x93, CHR 0xE5, CHR 0x89, CHR 0x8D,
            CHR 0xE6, CHR 0xA8, CHR 0xA1, CHR 0xE5, CHR 0xBC, CHR 0x8F]))
      in Inr (render RenderSend (([CHR 0xE8, CHR 0xAF, CHR 0xB7, CHR 0xE9, CHR 0x80, CHR 0x89, CHR 0xE6, CHR 0x8B,
          CHR 0xA9] @ '' '') @ mode @ ('' ''
          @ [CHR 0xE4, CHR 0xBD, CHR 0xBF, CHR 0xE7, CHR 0x94, CHR 0xA8, CHR 0xE7, CHR 0x9A, CHR 0x84, CHR 0xE6,
              CHR 0xA8, CHR 0xA1, CHR 0xE5, CHR 0x9E, CHR 0x8B, CHR 0xEF, CHR 0xBC, CHR 0x9A])) None
           (Some (balanced_rows buttons 2 @ [cancel_row]))))"

definition effort_choices :: "model_option \<Rightarrow> bool \<Rightarrow> control_effect" where
  "effort_choices o1 plan = (let
     event = (if plan then ''plan_effort'' else ''normal_effort'')
   in render RenderSend (([CHR 0xE6, CHR 0xA8, CHR 0xA1, CHR 0xE5, CHR 0x9E, CHR 0x8B] @ '' '')
       @ inline_code (mop_model o1) @ ('' ''
       @ [CHR 0xE6, CHR 0x94, CHR 0xAF, CHR 0xE6, CHR 0x8C, CHR 0x81, CHR 0xE4, CHR 0xBB, CHR 0xA5, CHR 0xE4,
           CHR 0xB8, CHR 0x8B] @ '' effort'' @ [CHR 0xEF, CHR 0xBC, CHR 0x9A])) None
        (Some (balanced_rows (map (\<lambda>e. panel_button e event [(''value'', e)]) (mop_supported_efforts o1)) 3
          @ [cancel_row])))"

definition plan_choice :: control_effect where
  "plan_choice = render RenderSend ([CHR 0xE6, CHR 0x96, CHR 0xB0] @ '' Session '' @ [CHR 0xE6, CHR 0x98, CHR 0xAF,
      CHR 0xE5, CHR 0x90, CHR 0xA6, CHR 0xE5, CHR 0x85, CHR 0x88, CHR 0xE8, CHR 0xBF, CHR 0x9B, CHR 0xE5, CHR 0x85,
      CHR 0xA5] @ '' Plan Mode'' @ [CHR 0xEF, CHR 0xBC, CHR 0x9F]) None (Some [
     [panel_button ([CHR 0xE6, CHR 0x98, CHR 0xAF]) ''plan_choice'' [(''value'', ''yes'')]],
     [panel_button ([CHR 0xE5, CHR 0x90, CHR 0xA6]) ''plan_choice'' [(''value'', ''no'')]],
     cancel_row])"

definition project_prompt :: control_effect where
  "project_prompt = render RenderSend ([CHR 0xE8, CHR 0xAF, CHR 0xB7, CHR 0xE5, CHR 0x8F, CHR 0x91, CHR 0xE9,
      CHR 0x80, CHR 0x81, CHR 0xE9, CHR 0xA1, CHR 0xB9, CHR 0xE7, CHR 0x9B, CHR 0xAE, CHR 0xE5, CHR 0x9C, CHR 0xB0,
      CHR 0xE5, CHR 0x9D, CHR 0x80, CHR 0xE6, CHR 0x88, CHR 0x96, CHR 0xE9, CHR 0xA1, CHR 0xB9, CHR 0xE7, CHR 0x9B,
      CHR 0xAE, CHR 0xE6, CHR 0x8F, CHR 0x8F, CHR 0xE8, CHR 0xBF, CHR 0xB0, CHR 0xEF, CHR 0xBC, CHR 0x9B, CHR 0xE4,
      CHR 0xB8, CHR 0x8B, CHR 0xE4, CHR 0xB8, CHR 0x80, CHR 0xE6, CHR 0x9D, CHR 0xA1, CHR 0xE6, CHR 0x96, CHR 0x87,
      CHR 0xE6, CHR 0x9C, CHR 0xAC, CHR 0xE6, CHR 0xB6, CHR 0x88, CHR 0xE6, CHR 0x81, CHR 0xAF, CHR 0xE4, CHR 0xBC,
      CHR 0x9A, CHR 0xE8, CHR 0xA2, CHR 0xAB, CHR 0xE8, CHR 0xAF, CHR 0x86, CHR 0xE5, CHR 0x88, CHR 0xAB, CHR 0xE4,
      CHR 0xB8, CHR 0xBA, CHR 0xE9, CHR 0xA1, CHR 0xB9, CHR 0xE7, CHR 0x9B, CHR 0xAE, CHR 0xE3, CHR 0x80, CHR 0x82])
     None (Some [cancel_row])"

definition render_new :: "new_draft \<Rightarrow> model_option list \<Rightarrow> control_error + control_effect list" where
  "render_new draft models =
     (if ndr_phase draft \<noteq> PhNormalModel then Inl (UnsupportedNewTransition (ndr_phase draft) EvNormalModel)
      else map_sum id (\<lambda>choices. [InteractionDeadline PhNormalModel new_interaction_seconds, choices])
        (model_choices models False))"

definition acknowledged :: control_effect where
  "acknowledged = CallbackAnswer None False"

definition chosen_model :: "string \<Rightarrow> control_effect" where
  "chosen_model v = render RenderEdit (([CHR 0xE5, CHR 0xB7, CHR 0xB2, CHR 0xE9, CHR 0x80, CHR 0x89, CHR 0xE6,
      CHR 0x8B, CHR 0xA9, CHR 0xE6, CHR 0xA8, CHR 0xA1, CHR 0xE5, CHR 0x9E, CHR 0x8B] @ '' '') @ inline_code v
      @ ([CHR 0xE3, CHR 0x80, CHR 0x82]))
     (Some (([CHR 0xE5, CHR 0xB7, CHR 0xB2, CHR 0xE9, CHR 0x80, CHR 0x89, CHR 0xE6, CHR 0x8B, CHR 0xA9, CHR 0xE6,
         CHR 0xA8, CHR 0xA1, CHR 0xE5, CHR 0x9E, CHR 0x8B] @ '' '') @ v
         @ ([CHR 0xE3, CHR 0x80, CHR 0x82]))) None"

definition chosen_effort :: "string \<Rightarrow> control_effect" where
  "chosen_effort v = render RenderEdit (([CHR 0xE5, CHR 0xB7, CHR 0xB2, CHR 0xE9, CHR 0x80, CHR 0x89, CHR 0xE6,
      CHR 0x8B, CHR 0xA9] @ '' effort '')
      @ inline_code v @ ([CHR 0xE3, CHR 0x80, CHR 0x82]))
     (Some (([CHR 0xE5, CHR 0xB7, CHR 0xB2, CHR 0xE9, CHR 0x80, CHR 0x89, CHR 0xE6, CHR 0x8B, CHR 0xA9]
         @ '' effort '') @ v @ ([CHR 0xE3, CHR 0x80, CHR 0x82]))) None"

text \<open>An effort is checked against the model the draft names; its errors name the effort.\<close>

definition check_effort :: "model_option list \<Rightarrow> string option \<Rightarrow> string \<Rightarrow> control_error + unit" where
  "check_effort models selected v = (case selected of
     None \<Rightarrow> Inl (UnknownModel v)
   | Some m \<Rightarrow> (case find_model models m of
       Inl e \<Rightarrow> Inl e
     | Inr o1 \<Rightarrow> if v \<in> set (mop_supported_efforts o1) then Inr () else Inl (UnknownModel v)))"

definition render_new_callback ::
  "new_draft \<Rightarrow> new_event \<Rightarrow> string \<Rightarrow> model_option list \<Rightarrow> control_error + control_effect list" where
  "render_new_callback draft event v models = (case (ndr_phase draft, event) of
     (_, EvCancel) \<Rightarrow> Inr [acknowledged, render RenderEdit ([CHR 0xE5, CHR 0xB7, CHR 0xB2, CHR 0xE9,
         CHR 0x80, CHR 0x80, CHR 0xE5, CHR 0x87, CHR 0xBA] @ '' '' @ [CHR 0x60] @ ''/new'' @ [CHR 0x60] @ [CHR 0xE3,
         CHR 0x80, CHR 0x82]) (Some ([CHR 0xE5, CHR 0xB7, CHR 0xB2, CHR 0xE9, CHR 0x80, CHR 0x80, CHR 0xE5, CHR 0x87,
         CHR 0xBA] @ '' /new'' @ [CHR 0xE3, CHR 0x80, CHR 0x82])) None]
   | (PhNormalModel, EvNormalModel) \<Rightarrow> (case find_model models v of
       Inl e \<Rightarrow> Inl e
     | Inr o1 \<Rightarrow> Inr [acknowledged, chosen_model v,
         InteractionDeadline PhNormalEffort new_interaction_seconds, effort_choices o1 False])
   | (PhNormalEffort, EvNormalEffort) \<Rightarrow> map_sum id (\<lambda>_. [acknowledged, chosen_effort v,
         InteractionDeadline PhPlanChoice new_interaction_seconds, plan_choice])
       (check_effort models (ndr_normal_model draft) v)
   | (PhPlanChoice, EvPlanChoice) \<Rightarrow>
       if v = ''yes'' then map_sum id (\<lambda>choices. [acknowledged,
           render RenderEdit ([CHR 0xE5, CHR 0xB7, CHR 0xB2, CHR 0xE9, CHR 0x80, CHR 0x89, CHR 0xE6, CHR 0x8B,
               CHR 0xA9, CHR 0xEF, CHR 0xBC, CHR 0x9A, CHR 0xE8, CHR 0xBF, CHR 0x9B, CHR 0xE5, CHR 0x85, CHR 0xA5]
               @ '' Plan Mode'' @ [CHR 0xE3, CHR 0x80, CHR 0x82]) (Some ([CHR 0xE5, CHR 0xB7, CHR 0xB2, CHR 0xE9,
               CHR 0x80, CHR 0x89, CHR 0xE6, CHR 0x8B, CHR 0xA9, CHR 0xEF, CHR 0xBC, CHR 0x9A, CHR 0xE8, CHR 0xBF,
               CHR 0x9B, CHR 0xE5, CHR 0x85, CHR 0xA5] @ '' Plan Mode'' @ [CHR 0xE3, CHR 0x80, CHR 0x82])) None,
           InteractionDeadline PhPlanModel new_interaction_seconds, choices])
         (model_choices models True)
       else if v = ''no'' then Inr [acknowledged,
           render RenderEdit ([CHR 0xE5, CHR 0xB7, CHR 0xB2, CHR 0xE9, CHR 0x80, CHR 0x89, CHR 0xE6, CHR 0x8B,
               CHR 0xA9, CHR 0xEF, CHR 0xBC, CHR 0x9A, CHR 0xE4, CHR 0xB8, CHR 0x8D, CHR 0xE8, CHR 0xBF, CHR 0x9B,
               CHR 0xE5, CHR 0x85, CHR 0xA5] @ '' Plan Mode'' @ [CHR 0xE3, CHR 0x80, CHR 0x82]) (Some ([CHR 0xE5,
               CHR 0xB7, CHR 0xB2, CHR 0xE9, CHR 0x80, CHR 0x89, CHR 0xE6, CHR 0x8B, CHR 0xA9, CHR 0xEF, CHR 0xBC,
               CHR 0x9A, CHR 0xE4, CHR 0xB8, CHR 0x8D, CHR 0xE8, CHR 0xBF, CHR 0x9B, CHR 0xE5, CHR 0x85, CHR 0xA5]
               @ '' Plan Mode''
               @ [CHR 0xE3, CHR 0x80, CHR 0x82])) None,
           InteractionDeadline PhProject new_interaction_seconds, project_prompt]
       else Inl (UnsupportedNewTransition PhPlanChoice EvPlanChoice)
   | (PhPlanModel, EvPlanModel) \<Rightarrow> (case find_model models v of
       Inl e \<Rightarrow> Inl e
     | Inr o1 \<Rightarrow> Inr [acknowledged, chosen_model v,
         InteractionDeadline PhPlanEffort new_interaction_seconds, effort_choices o1 True])
   | (PhPlanEffort, EvPlanEffort) \<Rightarrow> map_sum id (\<lambda>_. [acknowledged, chosen_effort v,
         InteractionDeadline PhProject new_interaction_seconds, project_prompt])
       (check_effort models (ndr_plan_model draft) v)
   | (PhPrompt, EvHello) \<Rightarrow> Inr [acknowledged, InteractionDeadline PhPrompt new_prompt_seconds]
   | (phase, ev) \<Rightarrow> Inl (UnsupportedNewTransition phase ev))"

text \<open>The names under which the daemon keeps phases and events.\<close>

definition new_control_phase :: "string \<Rightarrow> new_phase option" where
  "new_control_phase v =
     (if v = ''normal_model'' then Some PhNormalModel
      else if v = ''normal_effort'' then Some PhNormalEffort
      else if v = ''plan_choice'' then Some PhPlanChoice
      else if v = ''plan_model'' then Some PhPlanModel
      else if v = ''plan_effort'' then Some PhPlanEffort
      else if v = ''project'' then Some PhProject
      else if v = ''prompt'' then Some PhPrompt
      else None)"

definition new_control_event :: "string \<Rightarrow> new_event option" where
  "new_control_event v =
     (if v = ''cancel'' then Some EvCancel
      else if v = ''normal_model'' then Some EvNormalModel
      else if v = ''normal_effort'' then Some EvNormalEffort
      else if v = ''plan_choice'' then Some EvPlanChoice
      else if v = ''plan_model'' then Some EvPlanModel
      else if v = ''plan_effort'' then Some EvPlanEffort
      else if v = ''hello'' then Some EvHello
      else None)"

section \<open>The dispatcher\<close>

definition control_dispatch :: "(string \<Rightarrow> string) \<Rightarrow> control_request \<Rightarrow> control_error + control_effect list" where
  "control_dispatch lower req = (case req of
     ReqHelp label paired \<Rightarrow> Inr [render_help label paired]
   | ReqSessions r \<Rightarrow> Inr (render_sessions lower r)
   | ReqTopics topics \<Rightarrow> Inr [render_topics topics]
   | ReqNew draft models \<Rightarrow> render_new draft models
   | ReqNewCallback draft event v models \<Rightarrow> render_new_callback draft event v models
   | ReqPerf frame markdown_body plain_body \<Rightarrow> Inr (render_perf frame markdown_body plain_body)
   | ReqCallback d \<Rightarrow> Inr (render_callback d))"

section \<open>Arguments of /new\<close>

record new_arguments =
  nar_model :: string
  nar_effort :: string
  nar_mode :: "string option"
  nar_plan_model :: "string option"
  nar_plan_effort :: "string option"
  nar_cwd :: "string option"
  nar_prompt :: "string option"

definition arguments_interactive :: "string \<Rightarrow> string \<Rightarrow> new_arguments" where
  "arguments_interactive m e = \<lparr>nar_model = m, nar_effort = e, nar_mode = None, nar_plan_model = None,
     nar_plan_effort = None, nar_cwd = None, nar_prompt = None\<rparr>"

definition nonempty :: "string option \<Rightarrow> string option" where
  "nonempty = filter_opt (\<lambda>s. s \<noteq> [])"

definition parse_new_arguments_contract :: "string \<Rightarrow> new_arguments option" where
  "parse_new_arguments_contract v = (let leading = splitn 3 CHR ''|'' v in
     case (get_at leading 0, get_at leading 1) of
       (Some m0, Some e0) \<Rightarrow>
         let m = trim m0; e = trim e0 in
         if m = [] \<or> e = [] then None
         else let remaining = unwrap_or (map_option trim (get_at leading 2)) [] in
           if remaining = [] then Some (arguments_interactive m e)
           else let
             (mode0, tail) = unwrap_or (split_once CHR ''|'' remaining) (remaining, []);
             mode = to_ascii_lowercase (trim mode0)
           in if mode = ''planmode'' then
                let fields = map trim (splitn 4 CHR ''|'' tail) in
                (case (get_at fields 0, get_at fields 1) of
                  (Some pm, Some pe) \<Rightarrow>
                    if pm = [] \<or> pe = [] then None
                    else Some \<lparr>nar_model = m, nar_effort = e, nar_mode = Some ''planmode'',
                      nar_plan_model = Some pm, nar_plan_effort = Some pe,
                      nar_cwd = nonempty (get_at fields 2), nar_prompt = nonempty (get_at fields 3)\<rparr>
                | _ \<Rightarrow> None)
              else if mode = ''noplan'' then
                let fields = map trim (splitn 2 CHR ''|'' tail) in
                Some \<lparr>nar_model = m, nar_effort = e, nar_mode = Some ''noplan'', nar_plan_model = None,
                  nar_plan_effort = None, nar_cwd = nonempty (get_at fields 0), nar_prompt = nonempty (get_at fields 1)\<rparr>
              else Some ((arguments_interactive m e)\<lparr>nar_mode := Some mode\<rparr>)
     | _ \<Rightarrow> None)"

end
