(* ===== verification/PanelProps.thy ===== *)
theory PanelProps
  imports Panels
begin

text \<open>
  What the panels of the control bot promise: paging shows every session once and every page can be
  reached, a button that the conversation of \<open>/new\<close> offers is accepted when it is pressed, and the
  conversation ends.
\<close>

section \<open>Buttons of a panel\<close>

definition panel_buttons :: "control_effect list \<Rightarrow> control_button list" where
  "panel_buttons effects = concat (map (\<lambda>e. case e of
     Render r \<Rightarrow> concat (unwrap_or (rde_keyboard r) []) | _ \<Rightarrow> []) effects)"

definition button_values :: "string list \<Rightarrow> string \<Rightarrow> control_button list \<Rightarrow> string list" where
  "button_values actions k buttons = concat (map (\<lambda>b. case cbt_target b of
     TargetCallback a payload \<Rightarrow> if a \<in> set actions then (case bt_get payload k of None \<Rightarrow> [] | Some v \<Rightarrow> [v]) else []
   | TargetUrl url \<Rightarrow> []) buttons)"

lemma button_values_simps [simp]:
  "button_values actions k [] = []"
  "button_values actions k (xs @ ys) = button_values actions k xs @ button_values actions k ys"
  by (simp_all add: button_values_def)

lemma button_values_panel [simp]:
  "button_values actions k (panel_button label a payload # bs) =
     (if a \<in> set actions then (case bt_get (fold (\<lambda>(k, v). bt_insert k v) payload []) k of None \<Rightarrow> [] | Some v \<Rightarrow> [v])
      else []) @ button_values actions k bs"
  by (simp add: button_values_def panel_button_def)

lemma panel_buttons_simps [simp]:
  "panel_buttons [] = []"
  "panel_buttons (render operation markdown plain kb # es) = concat (unwrap_or kb []) @ panel_buttons es"
  "panel_buttons (CallbackAnswer text alert # es) = panel_buttons es"
  "panel_buttons (InteractionDeadline phase seconds # es) = panel_buttons es"
  "panel_buttons (DeleteDeadline targets seconds group_key # es) = panel_buttons es"
  "panel_buttons (SessionRefresh seconds # es) = panel_buttons es"
  by (simp_all add: panel_buttons_def render_def)

section \<open>Pages\<close>

lemma page_of_take:
  "concat (map (page_of xs) [1..<Suc n]) = take (n * session_page_size) xs"
proof (induction n)
  case 0
  then show ?case by simp
next
  case (Suc n)
  have "take (n * k) xs @ drop (n * k) (take (min (length xs) (Suc n * k)) xs) = take (Suc n * k) xs" for k
    by (metis append_take_drop_id min.cobounded1 min_def mult_le_mono1 le_SucI order_refl take_all_iff take_take linorder_linear)
  with Suc show ?case by (simp add: page_of_def)
qed

lemma page_of_length: "length (page_of xs p) \<le> session_page_size"
  by (auto simp: page_of_def session_page_size_def min_def)

lemma page_count_covers: "n \<le> page_count n * session_page_size"
proof -
  have "n \<le> (n + 4) div 5 * 5" by presburger
  then show ?thesis by (simp add: page_count_def session_page_size_def)
qed

lemma detail_values:
  "button_values [''session_detail''] ''thread_id''
     (map (\<lambda>(i, s). panel_button (labels i) ''session_detail'' [(''thread_id'', lse_thread_id s)]) (enumerate k ss))
   = map lse_thread_id ss"
  by (induction ss arbitrary: k) (simp_all add: bt_get_def)

lemma page_values:
  "button_values [''sessions_current'', ''sessions_page''] ''page''
     (map (\<lambda>(label, target, current). panel_button label (if current then ''sessions_current'' else ''sessions_page'')
        [(''page'', show_nat target), (''query'', query)]) ps)
   = map (\<lambda>(label, target, current). show_nat target) ps"
  by (induction ps) (auto simp: bt_get_def)

lemma no_detail_values:
  "button_values [''session_detail''] ''thread_id''
     (map (\<lambda>(label, target, current). panel_button label (if current then ''sessions_current'' else ''sessions_page'')
        [(''page'', show_nat target), (''query'', query)]) ps) = []"
  by (induction ps) auto

lemma no_page_values:
  "button_values [''sessions_current'', ''sessions_page''] ''page''
     (map (\<lambda>(i, s). panel_button (labels i) ''session_detail'' [(''thread_id'', lse_thread_id s)]) (enumerate k ss)) = []"
  by (induction ss arbitrary: k) auto

text \<open>The sessions a panel lists, as the targets of its buttons, and the pages it leads to.\<close>

definition shown_sessions :: "control_effect list \<Rightarrow> string list" where
  "shown_sessions effects = button_values [''session_detail''] ''thread_id'' (panel_buttons effects)"

definition shown_pages :: "control_effect list \<Rightarrow> string list" where
  "shown_pages effects = button_values [''sessions_current'', ''sessions_page''] ''page'' (panel_buttons effects)"

definition pages_of :: "(string \<Rightarrow> string) \<Rightarrow> sessions_request \<Rightarrow> nat" where
  "pages_of lower req = page_count (length (matching_sessions lower (trim (srq_query req)) (srq_sessions req)))"

lemma shown_sessions_eq:
  "shown_sessions (render_sessions lower req) =
     map lse_thread_id (page_of (matching_sessions lower (trim (srq_query req)) (srq_sessions req))
       (min (max (srq_page req) 1) (pages_of lower req)))"
  by (simp add: shown_sessions_def render_sessions_def Let_def detail_values no_detail_values pages_of_def)

lemma shown_pages_eq:
  "shown_pages (render_sessions lower req) = map (\<lambda>(label, target, current). show_nat target)
     (pagination (min (max (srq_page req) 1) (pages_of lower req)) (pages_of lower req))"
  by (simp add: shown_pages_def render_sessions_def Let_def page_values no_page_values pages_of_def)

lemma pagination_targets:
  assumes "1 \<le> q" and "q \<le> n"
  defines "ts \<equiv> (fst \<circ> snd) ` set (pagination q n)"
  shows "ts \<subseteq> {1..n}" and "{1, q - 1, q, q + 1} \<inter> {1..n} \<subseteq> ts"
  using assms by (auto simp: pagination_def Let_def)

text \<open>
  Paging of \<open>/sessions\<close>. Over all the pages of a query, the buttons list every matching session exactly
  once and in order. On the page that is shown for any number in the request, the page buttons
  lead to existing pages only, and among them are the first, this one and its two neighbours, so
  every page can be reached from every other.
\<close>

theorem every_session_on_one_page:
  "concat (map (\<lambda>p. shown_sessions (render_sessions lower (req\<lparr>srq_page := p\<rparr>))) [1..<Suc (pages_of lower req)])
     = map lse_thread_id (matching_sessions lower (trim (srq_query req)) (srq_sessions req))
   \<and> (let n = pages_of lower req; q = min (max (srq_page req) 1) n;
          targets = set (shown_pages (render_sessions lower req)) in
        targets \<subseteq> show_nat ` {1..n} \<and> show_nat ` ({1, q - 1, q, q + 1} \<inter> {1..n}) \<subseteq> targets)"
proof
  let ?xs = "matching_sessions lower (trim (srq_query req)) (srq_sessions req)" and ?n = "pages_of lower req"
  have "map (\<lambda>p. shown_sessions (render_sessions lower (req\<lparr>srq_page := p\<rparr>))) [1..<Suc ?n]
      = map (map lse_thread_id) (map (page_of ?xs) [1..<Suc ?n])"
    by (auto simp: shown_sessions_eq pages_of_def)
  then show "concat (map (\<lambda>p. shown_sessions (render_sessions lower (req\<lparr>srq_page := p\<rparr>))) [1..<Suc ?n])
      = map lse_thread_id ?xs"
    using page_of_take [of ?xs ?n] page_count_covers [of "length ?xs"]
    by (simp only: map_concat [symmetric]) (simp add: pages_of_def)
  let ?q = "min (max (srq_page req) 1) ?n"
  have "1 \<le> ?n" by (simp add: pages_of_def page_count_def)
  then have q: "1 \<le> ?q" "?q \<le> ?n" by auto
  have targets: "set (shown_pages (render_sessions lower req)) = show_nat ` ((fst \<circ> snd) ` set (pagination ?q ?n))"
    by (force simp: shown_pages_eq)
  show "let n = ?n; q = min (max (srq_page req) 1) n; targets = set (shown_pages (render_sessions lower req)) in
      targets \<subseteq> show_nat ` {1..n} \<and> show_nat ` ({1, q - 1, q, q + 1} \<inter> {1..n}) \<subseteq> targets"
    unfolding Let_def targets using pagination_targets [OF q] by (intro conjI image_mono)
qed

section \<open>Rows of a keyboard\<close>

lemma concat_chunks: "0 < n \<Longrightarrow> concat (chunks n xs) = xs"
  by (induction n xs rule: chunks.induct) (subst chunks.simps, auto)

lemma chunks_rows: "r \<in> set (chunks n xs) \<Longrightarrow> r \<noteq> [] \<and> length r \<le> n"
  by (induction n xs rule: chunks.induct) (subst (asm) (2) chunks.simps, auto split: if_splits)

text \<open>Moving the last button of the last but one row to the start of a last row of one keeps the order.\<close>

lemma concat_last_two:
  assumes "1 < length rows" and "p = length rows - 2" and "rows ! p \<noteq> []"
  shows "concat (rows[p := butlast (rows ! p), length rows - 1 := last (rows ! p) # last rows]) = concat rows"
proof -
  obtain front a b where rows: "rows = front @ [a, b]"
    using assms(1) by (metis One_nat_def append_Cons append_Nil append_assoc append_butlast_last_id diff_less length_butlast
        length_greater_0_conv less_numeral_extra(1) list.size(3) not_less_zero zero_less_diff)
  then have "p = length front" "rows ! p = a" using assms(2) by simp_all
  with rows assms(3) show ?thesis by (simp add: list_update_append)
qed

lemma concat_balanced_rows [simp]: "0 < k \<Longrightarrow> concat (balanced_rows bs k) = bs"
  using concat_last_two [of "chunks k bs"] concat_chunks [of k bs] by (auto simp: balanced_rows_def Let_def)

section \<open>The conversation of /new\<close>

text \<open>
  What the daemon keeps of a press: the phase that the answer announces and the chosen model.
  A conversation starts with \<open>/new\<close> and goes on with a press of any button that is offered.
\<close>

definition updated_draft :: "new_draft \<Rightarrow> new_event \<Rightarrow> string \<Rightarrow> new_phase \<Rightarrow> new_draft" where
  "updated_draft d ev v ph = \<lparr>ndr_phase = ph,
     ndr_normal_model = (if ev = EvNormalModel then Some v else ndr_normal_model d),
     ndr_plan_model = (if ev = EvPlanModel then Some v else ndr_plan_model d)\<rparr>"

definition pressed_event :: "control_button \<Rightarrow> (new_event \<times> string) option" where
  "pressed_event b = (case cbt_target b of
     TargetCallback a payload \<Rightarrow> map_option (\<lambda>ev. (ev, unwrap_or (bt_get payload ''value'') [])) (new_control_event a)
   | TargetUrl url \<Rightarrow> None)"

definition announced_phase :: "control_effect list \<Rightarrow> new_phase option" where
  "announced_phase effects = (case concat (map (\<lambda>e. case e of InteractionDeadline ph s \<Rightarrow> [ph] | _ \<Rightarrow> []) effects) of
     [] \<Rightarrow> None | ph # _ \<Rightarrow> Some ph)"

inductive conversation :: "model_option list \<Rightarrow> nat \<Rightarrow> new_draft \<Rightarrow> control_effect list \<Rightarrow> bool" for ms where
  started: "render_new d ms = Inr effects \<Longrightarrow> conversation ms 0 d effects"
| pressed: "conversation ms n d effects \<Longrightarrow> b \<in> set (panel_buttons effects) \<Longrightarrow> pressed_event b = Some (ev, v)
    \<Longrightarrow> render_new_callback d ev v ms = Inr answer \<Longrightarrow> announced_phase answer = Some ph
    \<Longrightarrow> conversation ms (Suc n) (updated_draft d ev v ph) answer"

definition button_accepted :: "model_option list \<Rightarrow> new_draft \<Rightarrow> control_button \<Rightarrow> bool" where
  "button_accepted ms d b \<longleftrightarrow> (case pressed_event b of
     None \<Rightarrow> False | Some (ev, v) \<Rightarrow> is_ok (render_new_callback d ev v ms))"

definition model_buttons :: "model_option list \<Rightarrow> string \<Rightarrow> control_button list" where
  "model_buttons ms event = map (\<lambda>o1. panel_button (mop_display_name o1) event [(''value'', mop_model o1)]) ms"

definition effort_buttons :: "model_option \<Rightarrow> string \<Rightarrow> control_button list" where
  "effort_buttons o1 event = map (\<lambda>e. panel_button e event [(''value'', e)]) (mop_supported_efforts o1)"

lemma panel_render_list [simp]:
  "panel_buttons (x # render operation markdown plain kb # es) = panel_buttons [x] @ concat (unwrap_or kb [])
      @ panel_buttons es"
  by (simp add: panel_buttons_def render_def)

lemma offered_models:
  assumes "model_choices ms plan = Inr e"
  shows "panel_buttons [e] = model_buttons ms (if plan then ''plan_model'' else ''normal_model'') @ cancel_row"
  using assms by (auto simp: model_choices_def Let_def model_buttons_def split: if_splits)

lemma offered_efforts:
  "panel_buttons [effort_choices o1 plan] = effort_buttons o1 (if plan then ''plan_effort'' else ''normal_effort'')
      @ cancel_row"
  by (auto simp: effort_choices_def Let_def effort_buttons_def)

lemma pressed_button [simp]:
  "pressed_event (panel_button label a [(''value'', v)]) = map_option (\<lambda>ev. (ev, v)) (new_control_event a)"
  "pressed_event (panel_button label a []) = map_option (\<lambda>ev. (ev, [])) (new_control_event a)"
  by (simp_all add: pressed_event_def panel_button_def bt_get_def)

lemma control_event_simps [simp]:
  "new_control_event ''cancel'' = Some EvCancel"
  "new_control_event ''normal_model'' = Some EvNormalModel"
  "new_control_event ''normal_effort'' = Some EvNormalEffort"
  "new_control_event ''plan_choice'' = Some EvPlanChoice"
  "new_control_event ''plan_model'' = Some EvPlanModel"
  "new_control_event ''plan_effort'' = Some EvPlanEffort"
  by (simp_all add: new_control_event_def)

text \<open>What is on the screen in each phase, and after how many presses.\<close>

definition on_screen :: "model_option list \<Rightarrow> nat \<Rightarrow> new_draft \<Rightarrow> control_button list \<Rightarrow> bool" where
  "on_screen ms n d buttons = (case ndr_phase d of
     PhNormalModel \<Rightarrow> n = 0 \<and> ms \<noteq> [] \<and> buttons = model_buttons ms ''normal_model'' @ cancel_row
   | PhNormalEffort \<Rightarrow> n = 1 \<and> (\<exists>v o1. ndr_normal_model d = Some v \<and> find_model ms v = Inr o1
       \<and> buttons = effort_buttons o1 ''normal_effort'' @ cancel_row)
   | PhPlanChoice \<Rightarrow> n = 2 \<and> ms \<noteq> [] \<and> buttons = panel_buttons [plan_choice]
   | PhPlanModel \<Rightarrow> n = 3 \<and> ms \<noteq> [] \<and> buttons = model_buttons ms ''plan_model'' @ cancel_row
   | PhPlanEffort \<Rightarrow> n = 4 \<and> (\<exists>v o1. ndr_plan_model d = Some v \<and> find_model ms v = Inr o1
       \<and> buttons = effort_buttons o1 ''plan_effort'' @ cancel_row)
   | PhProject \<Rightarrow> n \<in> {3, 5} \<and> buttons = cancel_row
   | PhPrompt \<Rightarrow> False)"

lemma find_model_member: "o1 \<in> set ms \<Longrightarrow> \<exists>o2. find_model ms (mop_model o1) = Inr o2"
  by (induction ms) (auto simp: find_model_def)

lemma find_model_models: "find_model ms v = Inr o1 \<Longrightarrow> ms \<noteq> []"
  by (auto simp: find_model_def)

lemma model_choices_ok: "ms \<noteq> [] \<Longrightarrow> is_ok (model_choices ms plan)"
  by (simp add: model_choices_def Let_def)

lemma check_effort_ok:
  "find_model ms v = Inr o1 \<Longrightarrow> e \<in> set (mop_supported_efforts o1) \<Longrightarrow> check_effort ms (Some v) e = Inr ()"
  by (simp add: check_effort_def)

lemma on_screen_accepted:
  assumes "on_screen ms n d buttons" and "b \<in> set buttons"
  shows "button_accepted ms d b"
proof (cases "ndr_phase d")
  case PhNormalModel
  with assms show ?thesis
    by (auto simp: on_screen_def button_accepted_def model_buttons_def cancel_row_def render_new_callback_def
        dest!: find_model_member)
next
  case PhNormalEffort
  with assms show ?thesis
    by (auto simp: on_screen_def button_accepted_def effort_buttons_def cancel_row_def render_new_callback_def
        check_effort_ok)
next
  case PhPlanChoice
  with assms model_choices_ok [of ms True] show ?thesis
    by (auto simp: on_screen_def button_accepted_def plan_choice_def cancel_row_def render_new_callback_def is_ok_def
        split: sum.splits)
next
  case PhPlanModel
  with assms show ?thesis
    by (auto simp: on_screen_def button_accepted_def model_buttons_def cancel_row_def render_new_callback_def
        dest!: find_model_member)
next
  case PhPlanEffort
  with assms show ?thesis
    by (auto simp: on_screen_def button_accepted_def effort_buttons_def cancel_row_def render_new_callback_def
        check_effort_ok)
next
  case PhProject
  with assms show ?thesis
    by (auto simp: on_screen_def button_accepted_def cancel_row_def render_new_callback_def)
next
  case PhPrompt
  with assms show ?thesis by (simp add: on_screen_def)
qed

lemma announced_simps [simp]:
  "announced_phase (CallbackAnswer text alert # es) = announced_phase es"
  "announced_phase (render operation markdown plain kb # es) = announced_phase es"
  "announced_phase (InteractionDeadline ph seconds # es) = Some ph"
  "announced_phase [] = None"
  by (simp_all add: announced_phase_def render_def)

lemma panel_buttons_four:
  "panel_buttons [CallbackAnswer t alert, chosen, InteractionDeadline p q, e] = panel_buttons [chosen] @ panel_buttons [e]"
  by (simp add: panel_buttons_def)

lemma plan_answer:
  assumes "ndr_phase d = PhPlanChoice" and "render_new_callback d EvPlanChoice v ms = Inr answer"
  obtains e ph where "panel_buttons answer = panel_buttons [e]" "announced_phase answer = Some ph"
    "ph = PhPlanModel \<and> model_choices ms True = Inr e \<or> ph = PhProject \<and> e = project_prompt"
proof (cases "v = ''yes''")
  case True
  with assms obtain e where e: "model_choices ms True = Inr e"
    by (cases "model_choices ms True") (simp_all add: render_new_callback_def)
  with assms True have "\<exists>t. answer = [CallbackAnswer None False, render RenderEdit t (Some t) None,
      InteractionDeadline PhPlanModel new_interaction_seconds, e]"
    by (auto simp: render_new_callback_def acknowledged_def)
  with e show ?thesis by (intro that [of e PhPlanModel]) (auto simp: panel_buttons_four)
next
  case False
  with assms have "\<exists>t. answer = [CallbackAnswer None False, render RenderEdit t (Some t) None,
      InteractionDeadline PhProject new_interaction_seconds, project_prompt]"
    by (auto simp: render_new_callback_def acknowledged_def split: if_splits)
  then show ?thesis by (intro that [of project_prompt PhProject]) (auto simp: panel_buttons_four)
qed

lemma pressed_cases:
  assumes "render_new_callback d ev v ms = Inr answer" and "announced_phase answer = Some ph"
  obtains (model) o1 where "ndr_phase d = PhNormalModel" "ev = EvNormalModel" "find_model ms v = Inr o1"
      "ph = PhNormalEffort" "panel_buttons answer = panel_buttons [effort_choices o1 False]"
    | (effort) "ndr_phase d = PhNormalEffort" "ev = EvNormalEffort" "ph = PhPlanChoice"
      "panel_buttons answer = panel_buttons [plan_choice]"
    | (plan) e where "ndr_phase d = PhPlanChoice" "ev = EvPlanChoice" "ph = PhPlanModel" "model_choices ms True = Inr e"
      "panel_buttons answer = panel_buttons [e]"
    | (direct) "ndr_phase d = PhPlanChoice" "ev = EvPlanChoice" "ph = PhProject"
      "panel_buttons answer = panel_buttons [project_prompt]"
    | (plan_model) o1 where "ndr_phase d = PhPlanModel" "ev = EvPlanModel" "find_model ms v = Inr o1"
      "ph = PhPlanEffort" "panel_buttons answer = panel_buttons [effort_choices o1 True]"
    | (plan_effort) "ndr_phase d = PhPlanEffort" "ev = EvPlanEffort" "ph = PhProject"
      "panel_buttons answer = panel_buttons [project_prompt]"
    | (hello) "ndr_phase d = PhPrompt"
proof -
  note defs = render_new_callback_def acknowledged_def chosen_model_def chosen_effort_def
  show ?thesis
  proof (cases "ev = EvCancel")
    case True
    with assms show ?thesis by (cases "ndr_phase d") (auto simp: defs)
  next
    case False
    show ?thesis
    proof (cases "ndr_phase d")
      case PhNormalModel
      with False assms(1) have ev: "ev = EvNormalModel" by (cases ev) (simp_all add: render_new_callback_def)
      with PhNormalModel assms(1) obtain o1 where o1: "find_model ms v = Inr o1"
        by (cases "find_model ms v") (simp_all add: render_new_callback_def)
      show ?thesis
        by (rule model [OF PhNormalModel ev o1]) (use assms ev PhNormalModel o1 in \<open>auto simp: defs panel_buttons_four\<close>)
    next
      case PhNormalEffort
      with False assms(1) have ev: "ev = EvNormalEffort" by (cases ev) (simp_all add: render_new_callback_def)
      with PhNormalEffort assms(1) have "check_effort ms (ndr_normal_model d) v = Inr ()"
        by (cases "check_effort ms (ndr_normal_model d) v") (simp_all add: render_new_callback_def)
      then show ?thesis
        by (intro effort [OF PhNormalEffort ev]) (use assms ev PhNormalEffort in \<open>auto simp: defs panel_buttons_four\<close>)
    next
      case PhPlanChoice
      with False assms(1) have ev: "ev = EvPlanChoice" by (cases ev) (simp_all add: render_new_callback_def)
      from assms(1) obtain e ph1 where e: "panel_buttons answer = panel_buttons [e]" "announced_phase answer = Some ph1"
        and cases: "ph1 = PhPlanModel \<and> model_choices ms True = Inr e \<or> ph1 = PhProject \<and> e = project_prompt"
        unfolding ev by (rule plan_answer [OF PhPlanChoice])
      from e(2) assms(2) have ph1: "ph1 = ph" by simp
      from cases show ?thesis
      proof
        assume "ph1 = PhPlanModel \<and> model_choices ms True = Inr e"
        with ph1 have "ph = PhPlanModel" "model_choices ms True = Inr e" by blast+
        then show ?thesis using plan [OF PhPlanChoice ev] e(1) by blast
      next
        assume "ph1 = PhProject \<and> e = project_prompt"
        with ph1 e(1) have "ph = PhProject" "panel_buttons answer = panel_buttons [project_prompt]" by blast+
        then show ?thesis by (rule direct [OF PhPlanChoice ev])
      qed
    next
      case PhPlanModel
      with False assms(1) have ev: "ev = EvPlanModel" by (cases ev) (simp_all add: render_new_callback_def)
      with PhPlanModel assms(1) obtain o1 where o1: "find_model ms v = Inr o1"
        by (cases "find_model ms v") (simp_all add: render_new_callback_def)
      show ?thesis
        by (rule plan_model [OF PhPlanModel ev o1]) (use assms ev PhPlanModel o1 in \<open>auto simp: defs panel_buttons_four\<close>)
    next
      case PhPlanEffort
      with False assms(1) have ev: "ev = EvPlanEffort" by (cases ev) (simp_all add: render_new_callback_def)
      with PhPlanEffort assms(1) have "check_effort ms (ndr_plan_model d) v = Inr ()"
        by (cases "check_effort ms (ndr_plan_model d) v") (simp_all add: render_new_callback_def)
      then show ?thesis
        by (intro plan_effort [OF PhPlanEffort ev]) (use assms ev PhPlanEffort in \<open>auto simp: defs panel_buttons_four\<close>)
    next
      case PhProject
      with False assms show ?thesis by (cases ev) (auto simp: defs)
    next
      case PhPrompt
      then show ?thesis by (rule hello)
    qed
  qed
qed

lemma started_screen:
  assumes "render_new d ms = Inr effects"
  shows "on_screen ms 0 d (panel_buttons effects)"
  using assms offered_models [of ms False]
  by (cases "model_choices ms False")
    (auto simp: render_new_def on_screen_def panel_buttons_def model_choices_def split: if_splits)

lemma pressed_screen:
  assumes "on_screen ms n d buttons" and "render_new_callback d ev v ms = Inr answer" and "announced_phase answer = Some ph"
  shows "on_screen ms (Suc n) (updated_draft d ev v ph) (panel_buttons answer)"
  using assms(2,3)
proof (cases rule: pressed_cases)
  case (model o1)
  with assms(1) show ?thesis by (auto simp: on_screen_def updated_draft_def offered_efforts)
next
  case effort
  with assms(1) show ?thesis by (auto simp: on_screen_def updated_draft_def dest: find_model_models)
next
  case (plan e)
  with assms(1) offered_models [OF plan(4)] show ?thesis by (auto simp: on_screen_def updated_draft_def)
next
  case direct
  with assms(1) show ?thesis by (auto simp: on_screen_def updated_draft_def project_prompt_def)
next
  case (plan_model o1)
  with assms(1) show ?thesis by (auto simp: on_screen_def updated_draft_def offered_efforts)
next
  case plan_effort
  with assms(1) show ?thesis by (auto simp: on_screen_def updated_draft_def project_prompt_def)
next
  case hello
  with assms(1) show ?thesis by (simp add: on_screen_def)
qed

lemma conversation_screen: "conversation ms n d effects \<Longrightarrow> on_screen ms n d (panel_buttons effects)"
  by (induction rule: conversation.induct) (auto intro: started_screen pressed_screen)


definition demo_models :: "model_option list" where
  "demo_models = [\<lparr>mop_model = ''luna'', mop_display_name = ''Luna'', mop_supported_efforts = [''low'', ''max'']\<rparr>]"

definition demo_start :: new_draft where
  "demo_start = \<lparr>ndr_phase = PhNormalModel, ndr_normal_model = None, ndr_plan_model = None\<rparr>"


section \<open>Text in Telegram's Markdown\<close>

text \<open>
  How a text reads in MarkdownV2: a backslash makes the next character plain, an unescaped special
  character is markup (\<open>None\<close>). In an inline code span a backslash does the same, and an unescaped
  backquote ends the span.
\<close>

fun markdown_reads :: "string \<Rightarrow> string option" where
  "markdown_reads [] = Some []"
| "markdown_reads (c # s) =
     (if c = CHR 0x5C then (case s of [] \<Rightarrow> None | d # t \<Rightarrow> map_option ((#) d) (markdown_reads t))
      else if markdown_special c then None
      else map_option ((#) c) (markdown_reads s))"

fun span_reads :: "string \<Rightarrow> string option" where
  "span_reads [] = None"
| "span_reads (c # s) =
     (if c = CHR 0x5C then (case s of [] \<Rightarrow> None | d # t \<Rightarrow> map_option ((#) d) (span_reads t))
      else if c = CHR 0x60 then (if s = [] then Some [] else None)
      else map_option ((#) c) (span_reads s))"

lemma escape_simps [simp]:
  "escape_markdown [] = []"
  "escape_markdown (c # s) = (if markdown_special c then CHR 0x5C # c # escape_markdown s
     else if c = CHR 0x00 then escape_markdown s else c # escape_markdown s)"
  by (auto simp: escape_markdown_def markdown_special_def)

lemma special_plain [simp]: "\<not> markdown_special (CHR 0x5C)" "\<not> markdown_special (CHR 0x00)"
  by (simp_all add: markdown_special_def)

lemma escape_reads: "CHR 0x5C \<notin> set s \<Longrightarrow> CHR 0x00 \<notin> set s \<Longrightarrow> markdown_reads (escape_markdown s) = Some s"
  by (induction s) auto

lemma escape_shrinks:
  "markdown_reads (escape_markdown s) = Some u \<Longrightarrow>
     length u \<le> length s \<and> (length u = length s \<longrightarrow> CHR 0x5C \<notin> set s \<and> CHR 0x00 \<notin> set s)"
proof (induction "length s" arbitrary: s u rule: less_induct)
  case less
  show ?case
  proof (cases s)
    case Nil
    with less.prems show ?thesis by simp
  next
    case (Cons c t)
    show ?thesis
    proof (cases "c = CHR 0x5C")
      case False
      with Cons less.prems less.hyps [of t] show ?thesis by (fastforce split: if_splits)
    next
      case True
      define t1 where "t1 = dropWhile (\<lambda>c. c = CHR 0x00) t"
      have t1: "escape_markdown t = escape_markdown t1" "length t1 \<le> length t"
        unfolding t1_def by (induction t) auto
      have "t1 \<noteq> [] \<Longrightarrow> hd t1 \<noteq> CHR 0x00" unfolding t1_def using hd_dropWhile by blast
      with less.prems True Cons t1(1) obtain d t2 where t2: "t1 = d # t2" "d \<noteq> CHR 0x00"
        by (cases t1) auto
      with less.prems True Cons t1(1) have "\<not> markdown_special d" by (auto split: if_splits)
      with less.prems True Cons t1(1) t2 obtain u1 where "u = d # u1" "markdown_reads (escape_markdown t2) = Some u1"
        by (auto split: if_splits)
      with less.hyps [of t2 u1] t1(2) t2 Cons show ?thesis by auto
    qed
  qed
qed

lemma inline_simps:
  "replace_byte (CHR 0x5C) [CHR 0x5C, CHR 0x5C] (replace_byte (CHR 0x60) [CHR 0x5C, CHR 0x60] (c # s)) =
     (if c = CHR 0x60 then [CHR 0x5C, CHR 0x5C, CHR 0x60] else if c = CHR 0x5C then [CHR 0x5C, CHR 0x5C] else [c])
     @ replace_byte (CHR 0x5C) [CHR 0x5C, CHR 0x5C] (replace_byte (CHR 0x60) [CHR 0x5C, CHR 0x60] s)"
  by (simp add: replace_byte_def)

lemma span_reads_inline:
  "span_reads (replace_byte (CHR 0x5C) [CHR 0x5C, CHR 0x5C] (replace_byte (CHR 0x60) [CHR 0x5C, CHR 0x60] s) @ [CHR 0x60])
     = (if CHR 0x60 \<in> set s then None else Some s)"
  by (induction s) (simp_all add: inline_simps, simp add: replace_byte_def)

text \<open>
  Which texts survive their way into Markdown. Escaping a text for a message is the inverse of
  reading it exactly for texts without backslashes (and without NUL, which is dropped); putting a
  text into a code span is right exactly for texts without backquotes: a backslash is not escaped by
  the one, and the other escapes the backslash of its own escape.
\<close>

theorem escaped_text_reads_back:
  "(markdown_reads (escape_markdown s) = Some s \<longleftrightarrow> CHR 0x5C \<notin> set s \<and> CHR 0x00 \<notin> set s)
   \<and> (\<exists>t. inline_code s = CHR 0x60 # t \<and> (span_reads t = Some s \<longleftrightarrow> CHR 0x60 \<notin> set s))"
  using escape_reads [of s] escape_shrinks [of s s] by (auto simp: inline_code_def span_reads_inline)

section \<open>Keyboards are well formed\<close>

definition keyboard_ok :: "'a list list \<Rightarrow> bool" where
  "keyboard_ok rows \<longleftrightarrow> rows \<noteq> [] \<and> list_all (\<lambda>r. r \<noteq> [] \<and> length r \<le> 5) rows"

definition effect_ok :: "control_effect \<Rightarrow> bool" where
  "effect_ok e \<longleftrightarrow> (case e of
     Render r \<Rightarrow> (case rde_keyboard r of None \<Rightarrow> True | Some rows \<Rightarrow> keyboard_ok rows)
   | _ \<Rightarrow> True)"

lemma keyboard_ok_append: "rows = [] \<or> keyboard_ok rows \<Longrightarrow> keyboard_ok rest \<Longrightarrow> keyboard_ok (rows @ rest)"
  by (auto simp: keyboard_ok_def)

lemma chunks_init: "r \<in> set (butlast (chunks n xs)) \<Longrightarrow> length r = n"
proof (induction n xs rule: chunks.induct)
  case (1 n xs)
  show ?case
  proof (cases "n = 0 \<or> xs = []")
    case True
    with 1(2) show ?thesis by (subst (asm) chunks.simps) simp
  next
    case False
    with 1(2) have r: "r \<in> set (butlast (take n xs # chunks n (drop n xs)))" by (subst (asm) chunks.simps) simp
    show ?thesis
    proof (cases "chunks n (drop n xs) = []")
      case True
      with r show ?thesis by simp
    next
      case nonempty: False
      then have "drop n xs \<noteq> []" by (subst (asm) chunks.simps) (auto split: if_splits)
      with r nonempty 1(1) False show ?thesis by (auto simp: min_def)
    qed
  qed
qed

lemma balanced_rows_ok:
  assumes "2 \<le> k" and "k \<le> 5"
  shows "balanced_rows bs k = [] \<or> keyboard_ok (balanced_rows bs k)"
proof -
  let ?rows = "chunks k bs" and ?p = "length (chunks k bs) - 2"
  have small: "r \<noteq> [] \<and> length r \<le> 5" if "r \<in> set ?rows" for r
    using chunks_rows [OF that] assms(2) by auto
  show ?thesis
  proof (cases "1 < length ?rows \<and> length (last ?rows) = 1")
    case False
    with small assms(1) show ?thesis by (auto simp: balanced_rows_def Let_def keyboard_ok_def list_all_iff)
  next
    case True
    then have "?p < length (butlast ?rows)" by auto
    then have "?rows ! ?p = butlast ?rows ! ?p" by (simp only: nth_butlast)
    with \<open>?p < length (butlast ?rows)\<close> have "?rows ! ?p \<in> set (butlast ?rows)" by (metis nth_mem)
    then have len: "length (?rows ! ?p) = k" by (rule chunks_init)
    with assms(1) have p: "?rows ! ?p \<noteq> []" "butlast (?rows ! ?p) \<noteq> []" "length (butlast (?rows ! ?p)) \<le> 5"
      using assms(2) by (auto simp flip: length_greater_0_conv)
    have "r \<noteq> [] \<and> length r \<le> 5"
      if "r \<in> set (?rows[?p := butlast (?rows ! ?p), length ?rows - 1 := last (?rows ! ?p) # last ?rows])" for r
      using that p(2,3) small True by (auto dest!: set_update_subset_insert [THEN subsetD] split: if_splits)
    moreover have "?rows \<noteq> []" using True by auto
    ultimately show ?thesis using True p(1) assms(1) by (simp add: balanced_rows_def Let_def keyboard_ok_def list_all_iff)
  qed
qed

lemma effect_ok_simps [simp]:
  "effect_ok (render operation markdown plain kb) = (case kb of None \<Rightarrow> True | Some rows \<Rightarrow> keyboard_ok rows)"
  "effect_ok (CallbackAnswer text alert)" "effect_ok (InteractionDeadline ph seconds)"
  "effect_ok (DeleteDeadline targets seconds group_key)" "effect_ok (PerfTicker seconds update)" "effect_ok (SessionRefresh seconds)"
  by (simp_all add: effect_ok_def render_def)

lemma one_row_ok [simp]: "keyboard_ok [r] = (r \<noteq> [] \<and> length r \<le> 5)"
  by (simp add: keyboard_ok_def)

lemma cancel_ok [simp]: "keyboard_ok (balanced_rows bs 2 @ [cancel_row])" "keyboard_ok (balanced_rows bs 3 @ [cancel_row])"
  by (intro keyboard_ok_append balanced_rows_ok; simp add: cancel_row_def)+

lemma choices_ok [simp]:
  "model_choices ms plan = Inr e \<Longrightarrow> effect_ok e" "effect_ok (effort_choices o1 plan)"
  "effect_ok plan_choice" "effect_ok project_prompt"
  by (auto simp: model_choices_def effort_choices_def plan_choice_def project_prompt_def Let_def
      keyboard_ok_def [of "[a, b, c]" for a b c] split: if_splits) (simp_all add: cancel_row_def)

lemma new_effects_ok:
  "render_new d ms = Inr effects \<Longrightarrow> list_all effect_ok effects"
  "render_new_callback d ev v ms = Inr effects \<Longrightarrow> list_all effect_ok effects"
   apply (cases "model_choices ms False"; simp add: render_new_def split: if_splits; fastforce)
  apply (cases "ndr_phase d"; cases ev; cases "model_choices ms True"; cases "find_model ms v";
      auto simp: render_new_callback_def acknowledged_def chosen_model_def chosen_effort_def map_sum_def split: if_splits sum.splits)
  done

lemma sessions_ok: "list_all effect_ok (render_sessions lower req)"
proof -
  let ?xs = "matching_sessions lower (trim (srq_query req)) (srq_sessions req)"
  have "pagination p n \<noteq> [] \<and> length (pagination p n) \<le> 5" for p n by (simp add: pagination_def Let_def)
  moreover have "enumerate 0 ys = [] \<longleftrightarrow> ys = []" for ys :: "listed_session list" by (cases ys) simp_all
  ultimately show ?thesis using page_of_length [of ?xs]
    by (auto simp: render_sessions_def Let_def keyboard_ok_def session_page_size_def)
qed

lemma topics_ok: "effect_ok (render_topics ts)"
proof -
  have "bs \<noteq> [] \<Longrightarrow> keyboard_ok (balanced_rows bs 3)" for bs :: "control_button list"
    using balanced_rows_ok [of 3 bs] concat_balanced_rows [of 3 bs] by fastforce
  then show ?thesis by (simp add: render_topics_def Let_def)
qed

text \<open>
  C39. Every keyboard that a panel shows is one that Telegram takes: it has a row, no row is empty, and
  none has more than five buttons, for every request, and also when there are no models, efforts,
  sessions or links.
\<close>

theorem keyboards_well_formed:
  "list_all effect_ok (case control_dispatch lower req of Inl e \<Rightarrow> [] | Inr effects \<Rightarrow> effects)"
proof (cases req)
  case (ReqSessions r)
  then show ?thesis by (simp add: control_dispatch_def sessions_ok)
next
  case (ReqTopics ts)
  then show ?thesis by (simp add: control_dispatch_def topics_ok)
next
  case (ReqNew d ms)
  then show ?thesis using new_effects_ok(1) by (auto simp: control_dispatch_def split: sum.split)
next
  case (ReqNewCallback d ev v ms)
  then show ?thesis using new_effects_ok(2) by (auto simp: control_dispatch_def split: sum.split)
next
  case (ReqCallback d)
  then show ?thesis by (cases d) (simp_all add: control_dispatch_def render_callback_def)
qed (simp_all add: control_dispatch_def render_help_def render_perf_def Let_def)

end
