(* ===== verification/Calendar.thy ===== *)
theory Calendar
  imports Panels
begin

text \<open>
  The calendar of the panels. \<open>civil_date\<close> turns a number of days into a date with a few divisions and no
  table; here it is compared with the rules of the Gregorian calendar.
\<close>

section \<open>The Gregorian calendar\<close>

definition is_leap :: "int \<Rightarrow> bool" where
  "is_leap y \<longleftrightarrow> y mod 4 = 0 \<and> (y mod 100 \<noteq> 0 \<or> y mod 400 = 0)"

definition month_days :: "int \<Rightarrow> int \<Rightarrow> int" where
  "month_days y m = (if m = 2 then if is_leap y then 29 else 28
     else if m = 4 \<or> m = 6 \<or> m = 9 \<or> m = 11 then 30 else 31)"

definition next_day :: "int \<times> int \<times> int \<Rightarrow> int \<times> int \<times> int" where
  "next_day = (\<lambda>(y, m, d). if d < month_days y m then (y, m, d + 1)
     else if m < 12 then (y, m + 1, 1) else (y + 1, 1, 1))"

section \<open>Years and days of a period of 400 years\<close>

text \<open>
  The code counts from 1 March of year 0 in periods of 146097 days. \<open>year_start y\<close> is the first day of
  the year \<open>y\<close> of a period, \<open>scaled\<close> the number that the code divides by 365.
\<close>

definition year_start :: "int \<Rightarrow> int" where
  "year_start y = 365 * y + y div 4 - y div 100 + y div 400"

definition scaled :: "int \<Rightarrow> int" where
  "scaled n = n - n div 1460 + n div 36524 - n div 146096"

definition month_day :: "int \<Rightarrow> int \<times> int" where
  "month_day d = (let mp = (5 * d + 2) div 153 in
     (mp + (if mp < 10 then 3 else - 9), d - (153 * mp + 2) div 5 + 1))"

lemma sdiv_nonneg: "0 \<le> a \<Longrightarrow> 0 < b \<Longrightarrow> (a::int) sdiv b = a div b"
  by (cases "a = 0") (simp_all add: signed_divide_int_def)

lemma era_floor: "(if 0 \<le> z then z else z - 146096) sdiv 146097 = (z::int) div 146097"
proof (cases "0 \<le> z")
  case True
  then show ?thesis by (simp add: sdiv_nonneg)
next
  case False
  have "z = 146097 * (z div 146097) + z mod 146097" "0 \<le> z mod 146097" "z mod 146097 < 146097" by simp_all
  then have "(146096 - z) div 146097 = - (z div 146097)"
    by (intro int_div_pos_eq [of _ _ _ "146096 - z mod 146097"]) linarith+
  with False show ?thesis by (simp add: signed_divide_int_def)
qed

lemma div_next: "(n + 1) div b \<le> (n::int) div b + 1" "n div b \<le> (n + 1) div b" if "0 < b" for n :: int
proof -
  have "(n + 1) div b \<le> (n + b) div b" using that by (intro zdiv_mono1) auto
  then show "(n + 1) div b \<le> n div b + 1" using that div_add_self2 [of b n] by linarith
  show "n div b \<le> (n + 1) div b" using that by (intro zdiv_mono1) auto
qed

lemma scaled_step: "scaled n \<le> scaled (n + 1)"
proof -
  have *: "m div 146096 = m div 36524 div 4" for m :: int by (simp add: zdiv_zmult2_eq [symmetric])
  have "(n + 1) div 1460 \<le> n div 1460 + 1" by (rule div_next) simp
  moreover have "n div 36524 \<le> (n + 1) div 36524" "(n + 1) div 36524 \<le> n div 36524 + 1"
    by (rule div_next; simp)+
  then have "(n + 1) div 36524 = n div 36524 \<or> (n + 1) div 36524 = n div 36524 + 1" by linarith
  then have "(n + 1) div 146096 - n div 146096 \<le> (n + 1) div 36524 - n div 36524"
    unfolding * using div_next(1) [of 4 "n div 36524"] by auto
  ultimately show ?thesis unfolding scaled_def by linarith
qed

lemma scaled_mono:
  assumes "0 \<le> a" and "a \<le> b"
  shows "scaled a \<le> scaled b"
proof -
  have "scaled a \<le> scaled (a + int k)" for k
  proof (induction k)
    case 0
    then show ?case by simp
  next
    case (Suc k)
    with scaled_step [of "a + int k"] show ?case by (simp add: add.assoc add.commute [of 1])
  qed
  from this [of "nat (b - a)"] assms show ?thesis by simp
qed

lemma year_table:
  "\<forall>y \<in> set [0..399]. 365 * y \<le> scaled (year_start y) \<and> scaled (year_start (y + 1) - 1) < 365 * (y + 1)
     \<and> year_start (y + 1) - year_start y = (if is_leap (y + 1) then 366 else 365)
     \<and> year_start (y + 1) \<le> 146097"
  by code_simp

lemma month_table:
  "\<forall>d \<in> set [0..363]. case month_day d of (m, k) \<Rightarrow> 1 \<le> m \<and> m \<le> 12 \<and> 1 \<le> k
     \<and> (m = 12 \<or> 3 \<le> m \<or> m \<le> 1 \<or> k < 28)
     \<and> month_day (d + 1) = (if k < month_days 1 m then (m, k + 1) else if m < 12 then (m + 1, 1) else (1, 1))"
  by code_simp


lemma year_tableD:
  assumes "0 \<le> y" and "y \<le> 399"
  shows "365 * y \<le> scaled (year_start y)" and "scaled (year_start (y + 1) - 1) < 365 * (y + 1)"
    and "year_start (y + 1) - year_start y = (if is_leap (y + 1) then 366 else 365)"
    and "year_start (y + 1) \<le> 146097"
  using year_table assms by simp_all

lemma year_start_0 [simp]: "year_start 0 = 0" and year_start_400: "year_start 400 = 146097"
  by (simp_all add: year_start_def)

lemma year_start_pos: "0 \<le> y \<Longrightarrow> 0 \<le> year_start y"
  unfolding year_start_def using zdiv_mono2 [of y 4 100] pos_imp_zdiv_nonneg_iff [of 400 y] by linarith

text \<open>The year of a day, found by dividing, is the one whose days hold it.\<close>

lemma year_found:
  assumes "0 \<le> y" and "y \<le> 399" and "year_start y \<le> n" and "n < year_start (y + 1)"
  shows "scaled n div 365 = y"
proof -
  have 0: "0 \<le> year_start y" by (rule year_start_pos [OF assms(1)])
  have "365 * y \<le> scaled n"
    using scaled_mono [OF 0 assms(3)] year_tableD(1) [OF assms(1,2)] by simp
  moreover have "scaled n < 365 * y + 365"
    using scaled_mono [of n "year_start (y + 1) - 1"] year_tableD(2) [OF assms(1,2)] 0 assms(3,4) by simp
  ultimately show ?thesis by (intro int_div_pos_eq [of _ _ _ "scaled n - 365 * y"]) linarith+
qed

lemma year_exists:
  assumes "0 \<le> n" and "n < year_start (int k)"
  obtains y where "0 \<le> y" "y < int k" "year_start y \<le> n" "n < year_start (y + 1)"
  using assms
proof (induction k arbitrary: thesis)
  case 0
  then show ?case by simp
next
  case (Suc k)
  show ?case
  proof (cases "n < year_start (int k)")
    case True
    with Suc.IH Suc.prems show ?thesis by (metis less_Suc_eq of_nat_less_iff of_nat_Suc zless_add1_eq add.commute)
  next
    case False
    with Suc.prems show ?thesis by (intro Suc.prems(1) [of "int k"]) (simp_all add: add.commute)
  qed
qed

lemma leap_period: "is_leap (y + 400 * e) = is_leap y"
proof -
  have "(y + 400 * e) mod 4 = y mod 4" "(y + 400 * e) mod 100 = y mod 100"
    using mod_mult_self2 [of y 4 "100 * e"] mod_mult_self2 [of y 100 "4 * e"] by (simp_all add: algebra_simps)
  then show ?thesis by (simp add: is_leap_def)
qed

definition date_of :: "int \<Rightarrow> int \<Rightarrow> int \<times> int \<times> int" where
  "date_of y d = (case month_day d of (m, k) \<Rightarrow> (y + (if m \<le> 2 then 1 else 0), m, k))"

lemma let_eq: "a = b \<Longrightarrow> f b = c \<Longrightarrow> Let a f = c"
  by simp

lemma civil_date_in_year:
  assumes "0 \<le> y" and "y \<le> 399" and "year_start y \<le> n" and "n < year_start (y + 1)"
  shows "civil_date (146097 * e + n - 719468) = date_of (y + 400 * e) (n - year_start y)"
proof -
  let ?d = "n - year_start y"
  have n: "0 \<le> n" "n < 146097"
    using year_start_pos [OF assms(1)] year_tableD(4) [OF assms(1,2)] assms by linarith+
  have starts: "?d = n - (365 * y + y div 4 - y div 100)" using assms by (simp add: year_start_def)
  have "0 \<le> scaled n" using scaled_mono [of 0 n] n by (simp add: scaled_def)
  then have year: "(n - n sdiv 1460 + n sdiv 36524 - n sdiv 146096) sdiv 365 = y"
    using year_found [OF assms] n by (simp add: sdiv_nonneg scaled_def)
  have month: "(5 * ?d + 2) sdiv 153 = (5 * ?d + 2) div 153" "0 \<le> (5 * ?d + 2) div 153"
    using assms(3) by (simp_all add: sdiv_nonneg)
  show ?thesis
    unfolding civil_date_def
    apply (rule let_eq [of _ "146097 * e + n"], simp)
    apply (rule let_eq [of _ e], use n in \<open>simp add: era_floor\<close>)
    apply (rule let_eq [of _ n], simp)
    apply (rule let_eq [OF year])
    apply (rule let_eq [OF refl])
    apply (rule let_eq [of _ ?d], use assms in \<open>simp add: starts sdiv_nonneg\<close>)
    apply (rule let_eq [OF month(1)])
    apply (use month(2) in \<open>simp add: date_of_def month_day_def sdiv_nonneg Let_def\<close>)
    done
qed

section \<open>The next day\<close>

text \<open>Within a year that starts in March: the next day of the same year, and the first day of the next one.\<close>

lemma month_tableD:
  assumes "0 \<le> d" and "d < 364" and "month_day d = (m, k)"
  shows "1 \<le> m" and "m \<le> 12" and "m = 2 \<Longrightarrow> k < 28"
    and "month_day (d + 1) = (if k < month_days 1 m then (m, k + 1) else if m < 12 then (m + 1, 1) else (1, 1))"
proof -
  from assms have "d \<in> set [0..363]" by simp
  from bspec [OF month_table this] assms(3)
  show "1 \<le> m" and "m \<le> 12" and "m = 2 \<Longrightarrow> k < 28"
    and "month_day (d + 1) = (if k < month_days 1 m then (m, k + 1) else if m < 12 then (m + 1, 1) else (1, 1))"
    by (simp_all del: upto.simps)
qed

lemma month_day_last: "month_day 364 = (2, 28)" "month_day 365 = (2, 29)" "month_day 0 = (3, 1)"
  by code_simp+

lemma date_next:
  assumes "0 \<le> d" and "d < 364"
  shows "date_of y (d + 1) = next_day (date_of y d)"
proof -
  obtain m k where m: "month_day d = (m, k)" by fastforce
  have "month_days z m = month_days 1 m \<or> (m = 2 \<and> 28 \<le> month_days z m)" for z by (auto simp: month_days_def)
  with month_tableD [OF assms m] m show ?thesis
    by (cases "m = 2") (auto simp: date_of_def next_day_def month_days_def)
qed

lemma civil_date_step:
  assumes "0 \<le> n" and "n < 146097"
  shows "civil_date (146097 * e + (n + 1) - 719468) = next_day (civil_date (146097 * e + n - 719468))"
proof -
  have "n < year_start (int 400)" using assms by (simp add: year_start_400)
  then obtain y where y400: "y < int 400" and y0: "0 \<le> y" "year_start y \<le> n" "n < year_start (y + 1)"
    by (rule year_exists [OF assms(1)])
  then have y: "0 \<le> y" "y \<le> 399" "year_start y \<le> n" "n < year_start (y + 1)" by simp_all
  let ?d = "n - year_start y" and ?y = "y + 400 * e"
  have len: "year_start (y + 1) - year_start y = (if is_leap (?y + 1) then 366 else 365)"
    using year_tableD(3) [OF y(1,2)] leap_period [of "y + 1" e] by (simp add: add.assoc add.commute [of 1])
  have today: "civil_date (146097 * e + n - 719468) = date_of ?y ?d" by (rule civil_date_in_year [OF y])
  show ?thesis
  proof (cases "n + 1 < year_start (y + 1)")
    case True
    with civil_date_in_year [of y "n + 1" e] y
    have tomorrow: "civil_date (146097 * e + (n + 1) - 719468) = date_of ?y (?d + 1)"
      by (simp add: algebra_simps)
    show ?thesis
    proof (cases "?d < 364")
      case True
      with y(3) show ?thesis unfolding today tomorrow by (intro date_next) simp_all
    next
      case False
      with True len have "?d = 364" "is_leap (?y + 1)" by (auto split: if_splits)
      then show ?thesis unfolding today tomorrow
        by (simp add: date_of_def month_day_last next_day_def month_days_def)
    qed
  next
    case False
    with y(4) have last: "n + 1 = year_start (y + 1)" by simp
    have tomorrow: "civil_date (146097 * e + (n + 1) - 719468) = date_of (?y + 1) 0"
    proof (cases "y = 399")
      case True
      then have "146097 * e + (n + 1) - 719468 = 146097 * (e + 1) + 0 - 719468" using last year_start_400 by simp
      with True civil_date_in_year [of 0 0 "e + 1"] show ?thesis
        by (simp add: year_start_def add.commute)
    next
      case False
      have "year_start (y + 1) < year_start (y + 1 + 1)"
        using year_tableD(3) [of "y + 1"] False y(1,2) by (auto split: if_splits)
      then have "civil_date (146097 * e + (n + 1) - 719468) = date_of (y + 1 + 400 * e) (n + 1 - year_start (y + 1))"
        using False y(1,2) last by (intro civil_date_in_year) linarith+
      moreover have "n + 1 - year_start (y + 1) = 0" "y + 1 + 400 * e = ?y + 1" by (simp_all add: last)
      ultimately show ?thesis by (simp only:)
    qed
    have "?d = (if is_leap (?y + 1) then 365 else 364)" using len last by (auto split: if_splits)
    then show ?thesis unfolding today tomorrow
      by (cases "is_leap (?y + 1)") (simp_all add: date_of_def month_day_last next_day_def month_days_def)
  qed
qed

text \<open>
  The dates of the panels are those of the Gregorian calendar: day 0 is 1 January 1970, and the day
  after a day is the next day of the calendar, with its leap years, forwards and backwards without
  end. The code finds the date with truncating divisions and an adjustment for negative days.
\<close>

theorem civil_date_is_gregorian:
  "civil_date 0 = (1970, 1, 1) \<and> civil_date (d + 1) = next_day (civil_date d)"
proof
  show "civil_date 0 = (1970, 1, 1)" by code_simp
  have "d = 146097 * ((d + 719468) div 146097) + (d + 719468) mod 146097 - 719468" by simp
  with civil_date_step [of "(d + 719468) mod 146097" "(d + 719468) div 146097"]
  show "civil_date (d + 1) = next_day (civil_date d)" by (simp add: algebra_simps)
qed

end
