(* ===== verification/NewArgs.thy ===== *)
theory NewArgs
  imports Panels Json
begin

text \<open>
  The arguments of \<open>/new\<close> and the list of models, from \<open>rust/crates/cli/src/daemon.rs\<close>: the parser of
  the command, the correction it suggests, and how the answer of \<open>model/list\<close> is read.
\<close>

section \<open>Models\<close>

record model_choice =
  mch_model :: string
  mch_display_name :: string
  mch_efforts :: "string list"
  mch_default_effort :: string

record model_catalog =
  mct_entries :: "model_choice list"
  mct_summary :: string

text \<open>A text that is not empty after trimming.\<close>

definition trimmed :: "string option \<Rightarrow> string option" where
  "trimmed v = nonempty (map_option trim v)"

fun add_efforts :: "json list \<Rightarrow> string list \<Rightarrow> string list" where
  "add_efforts [] efforts = efforts"
| "add_efforts (e # es) efforts =
     (case trimmed (Option.bind (or_else (jget ''reasoningEffort'' e) (jget ''effort'' e)) as_str) of
        None \<Rightarrow> add_efforts es efforts
      | Some v \<Rightarrow> add_efforts es (if v \<in> set efforts then efforts else efforts @ [v]))"

definition model_of_item :: "json \<Rightarrow> string + model_choice" where
  "model_of_item item =
     (case trimmed (Option.bind (or_else (jget ''model'' item) (jget ''id'' item)) as_str) of
        None \<Rightarrow> Inl ''Codex model/list returned a model without an id''
      | Some m \<Rightarrow> let
          default_effort = unwrap_or (trimmed (jstr ''defaultReasoningEffort'' item)) ''medium'';
          efforts = (case Option.bind (jget ''supportedReasoningEfforts'' item) as_array of
              None \<Rightarrow> [] | Some es \<Rightarrow> add_efforts es [])
        in Inr \<lparr>mch_model = m, mch_display_name = trim (unwrap_or (jstr ''displayName'' item) m),
             mch_efforts = (if efforts = [] then [default_effort] else efforts),
             mch_default_effort = default_effort\<rparr>)"

fun add_models :: "json list \<Rightarrow> model_choice list \<Rightarrow> string + model_choice list" where
  "add_models [] entries = Inr entries"
| "add_models (item # items) entries = (case model_of_item item of
     Inl e \<Rightarrow> Inl e
   | Inr m \<Rightarrow> add_models items
       (if list_ex (\<lambda>known. mch_model known = mch_model m) entries then entries else entries @ [m]))"

text \<open>
  \<open>list_model_choices\<close>: at most sixteen pages. \<open>ask k\<close> is the answer to the k-th request, with its
  parameters.
\<close>

definition model_list_params :: "string option \<Rightarrow> json" where
  "model_list_params cursor = jobj ([(''limit'', JInt 100), (''includeHidden'', JBool False)]
     @ (case cursor of None \<Rightarrow> [] | Some c \<Rightarrow> [(''cursor'', JStr c)]))"

fun model_pages :: "(nat \<Rightarrow> json \<Rightarrow> string + json) \<Rightarrow> nat \<Rightarrow> nat \<Rightarrow> string option \<Rightarrow> model_choice list
    \<Rightarrow> string + model_choice list" where
  "model_pages ask k 0 cursor entries = Inr entries"
| "model_pages ask k (Suc n) cursor entries = (case ask k (model_list_params cursor) of
     Inl e \<Rightarrow> Inl e
   | Inr result \<Rightarrow> (case Option.bind (jget ''data'' result) as_array of
       None \<Rightarrow> Inl ''Codex model/list response did not include data''
     | Some items \<Rightarrow> (case add_models items entries of
         Inl e \<Rightarrow> Inl e
       | Inr entries1 \<Rightarrow> (case trimmed (jstr ''nextCursor'' result) of
           None \<Rightarrow> Inr entries1
         | Some c \<Rightarrow> model_pages ask (Suc k) n (Some c) entries1))))"

definition model_summary :: "model_choice list \<Rightarrow> string" where
  "model_summary entries = join [newline] (map (\<lambda>m. mch_model m @ '' ('' @ mch_display_name m @ '') [''
     @ join '', '' (mch_efforts m) @ '']'') entries)"

definition list_model_choices :: "(nat \<Rightarrow> json \<Rightarrow> string + json) \<Rightarrow> string + model_catalog" where
  "list_model_choices ask = (case model_pages ask 0 16 None [] of
     Inl e \<Rightarrow> Inl e
   | Inr entries \<Rightarrow> if entries = [] then Inl ''Codex model/list returned no visible models''
       else Inr \<lparr>mct_entries = entries, mct_summary = model_summary entries\<rparr>)"

definition control_models :: "model_catalog \<Rightarrow> model_option list" where
  "control_models models = map (\<lambda>m. \<lparr>mop_model = mch_model m, mop_display_name = mch_display_name m,
     mop_supported_efforts = mch_efforts m\<rparr>) (mct_entries models)"

definition model_choice_named :: "model_catalog \<Rightarrow> string \<Rightarrow> model_choice option" where
  "model_choice_named models requested = (let normalized = to_ascii_lowercase (trim requested) in
     find (\<lambda>e. eq_ignore_ascii_case (mch_model e) requested
       \<or> eq_ignore_ascii_case (mch_display_name e) requested
       \<or> eq_ignore_ascii_case (last_part CHR ''-'' (mch_model e)) normalized) (mct_entries models))"

section \<open>Arguments\<close>

text \<open>\<open>split_once(char::is_whitespace)\<close>.\<close>

definition split_whitespace_once :: "string \<Rightarrow> (string \<times> string) option" where
  "split_whitespace_once s = (let w = take_word s; r = drop (length w) s in
     if r = [] then None else Some (w, drop (ws_width r) r))"

definition new_command_arguments :: "string \<Rightarrow> string" where
  "new_command_arguments text = (case split_whitespace_once text of None \<Rightarrow> [] | Some (w, v) \<Rightarrow> trim v)"

definition bar :: string where "bar = '' | ''"

definition joined_from :: "nat \<Rightarrow> string list \<Rightarrow> string option" where
  "joined_from k parts = (if k < length parts then nonempty (Some (join bar (drop k parts))) else None)"

definition parse_new_arguments :: "string \<Rightarrow> string + new_arguments" where
  "parse_new_arguments text = (let
     parts = map trim (split_on CHR ''|'' (new_command_arguments text)) in
     if length parts < 2 \<or> parts ! 0 = [] \<or> parts ! 1 = [] then
       Inl ([CHR 0xE5, CHR 0x8F, CHR 0x82, CHR 0xE6, CHR 0x95, CHR 0xB0, CHR 0xE4, CHR 0xB8, CHR 0x8D, CHR 0xE5,
           CHR 0xAE, CHR 0x8C, CHR 0xE6, CHR 0x95, CHR 0xB4, CHR 0xE3, CHR 0x80, CHR 0x82, CHR 0xE5, CHR 0x8F,
           CHR 0xAF, CHR 0xE7, CHR 0x94, CHR 0xA8, CHR 0xE6, CHR 0xA0, CHR 0xBC, CHR 0xE5, CHR 0xBC, CHR 0x8F,
           CHR 0xEF, CHR 0xBC, CHR 0x9A]
           @ ''/new <model> | <effort> | noplan [ | <cwd> [ | <prompt> ] ] '' @ [CHR 0xE6, CHR 0x88, CHR 0x96]
           @ '' /new <model> | <effort> | planmode | <plan_model> | <plan_effort> [ | <cwd> [ | <prompt> ] ]'')
     else let m = parts ! 0; e = parts ! 1 in
       (case nonempty (get_at parts 2) of
          None \<Rightarrow> Inr (arguments_interactive m e)
        | Some mode0 \<Rightarrow> let mode = to_ascii_lowercase mode0 in
            if mode = ''noplan'' then
              Inr \<lparr>nar_model = m, nar_effort = e, nar_mode = Some mode, nar_plan_model = None, nar_plan_effort = None,
                nar_cwd = nonempty (get_at parts 3), nar_prompt = joined_from 4 parts\<rparr>
            else if mode = ''planmode'' then
              (if length parts < 5 \<or> parts ! 3 = [] \<or> parts ! 4 = []
               then Inl (''Plan Mode '' @ [CHR 0xE9, CHR 0x9C, CHR 0x80, CHR 0xE8, CHR 0xA6, CHR 0x81, CHR 0xE5,
                   CHR 0x90, CHR 0x8C, CHR 0xE6, CHR 0x97, CHR 0xB6, CHR 0xE6, CHR 0x8F, CHR 0x90, CHR 0xE4, CHR 0xBE,
                   CHR 0x9B] @ '' plan model '' @ [CHR 0xE5, CHR 0x92, CHR 0x8C] @ '' plan effort'' @ [CHR 0xE3,
                   CHR 0x80, CHR 0x82])
               else Inr \<lparr>nar_model = m, nar_effort = e, nar_mode = Some mode, nar_plan_model = Some (parts ! 3),
                 nar_plan_effort = Some (parts ! 4), nar_cwd = nonempty (get_at parts 5),
                 nar_prompt = joined_from 6 parts\<rparr>)
            else Inl ([CHR 0xE6, CHR 0xA8, CHR 0xA1, CHR 0xE5, CHR 0xBC, CHR 0x8F, CHR 0xE5, CHR 0x8F, CHR 0xAA,
                CHR 0xE8, CHR 0x83, CHR 0xBD, CHR 0xE6, CHR 0x98, CHR 0xAF]
                @ '' planmode '' @ [CHR 0xE6, CHR 0x88, CHR 0x96] @ '' noplan'' @ [CHR 0xE3, CHR 0x80, CHR 0x82])))"

text \<open>The effort a field names if the model has it, otherwise the model's default.\<close>

definition effort_or_default :: "model_choice \<Rightarrow> string option \<Rightarrow> string" where
  "effort_or_default m field = unwrap_or (filter_opt (\<lambda>v. v \<in> set (mch_efforts m)) field) (mch_default_effort m)"

definition suggested_rest :: "nat \<Rightarrow> string list \<Rightarrow> string list" where
  "suggested_rest k parts = (case nonempty (get_at parts k) of
     None \<Rightarrow> []
   | Some cwd \<Rightarrow> cwd # (if Suc k < length parts then [join bar (drop (Suc k) parts)] else []))"

definition new_argument_suggestion :: "model_catalog \<Rightarrow> string \<Rightarrow> string" where
  "new_argument_suggestion models arguments = (let
     parts = map trim (split_on CHR ''|'' arguments);
     first = get_at (mct_entries models) 0 in
     case or_else (Option.bind (get_at parts 0) (model_choice_named models)) first of
       None \<Rightarrow> ''/new <model> | <effort>''
     | Some m \<Rightarrow> let start = [''/new '' @ mch_model m, effort_or_default m (get_at parts 1)] in
         (case nonempty (get_at parts 2) of
            None \<Rightarrow> join bar start
          | Some raw_mode \<Rightarrow>
              if contains_text ''plan'' (to_ascii_lowercase raw_mode) then
                let plan_model = or_else (or_else (Option.bind (get_at parts 3) (model_choice_named models))
                      (model_choice_named models (unwrap_or (get_at parts 0) []))) first
                in join bar (start @ [''planmode'']
                  @ (case plan_model of None \<Rightarrow> [] | Some p \<Rightarrow> [mch_model p, effort_or_default p (get_at parts 4)])
                  @ suggested_rest 5 parts)
              else join bar (start @ [''noplan''] @ suggested_rest 3 parts)))"

section \<open>What is shown of them\<close>

definition catalog_ok :: "model_choice list \<Rightarrow> bool" where
  "catalog_ok entries \<longleftrightarrow> distinct (map mch_model entries)
     \<and> list_all (\<lambda>m. mch_model m \<noteq> [] \<and> mch_efforts m \<noteq> [] \<and> distinct (mch_efforts m)
         \<and> list_all (\<lambda>e. e \<noteq> []) (mch_efforts m)) entries"

lemma trimmed_Some: "trimmed v = Some t \<Longrightarrow> t \<noteq> []"
  by (auto simp: trimmed_def nonempty_def filter_opt_def split: option.splits if_splits)

lemma add_efforts_ok:
  "distinct efforts \<Longrightarrow> list_all (\<lambda>e. e \<noteq> []) efforts \<Longrightarrow>
     distinct (add_efforts es efforts) \<and> list_all (\<lambda>e. e \<noteq> []) (add_efforts es efforts)"
proof (induction es efforts rule: add_efforts.induct)
  case (1 efforts)
  then show ?case by simp
next
  case (2 e es efforts)
  let ?v = "trimmed (Option.bind (or_else (jget ''reasoningEffort'' e) (jget ''effort'' e)) as_str)"
  show ?case
  proof (cases ?v)
    case None
    with 2 show ?thesis by simp
  next
    case (Some v)
    with 2(2)[OF Some] 2(3,4) trimmed_Some [OF Some] show ?thesis by auto
  qed
qed

lemma model_of_item_ok:
  assumes "model_of_item item = Inr m"
  shows "mch_model m \<noteq> [] \<and> mch_efforts m \<noteq> [] \<and> distinct (mch_efforts m) \<and> list_all (\<lambda>e. e \<noteq> []) (mch_efforts m)"
proof -
  have "unwrap_or (trimmed v) ''medium'' \<noteq> []" for v by (cases "trimmed v") (auto dest: trimmed_Some)
  moreover have "distinct (add_efforts es []) \<and> list_all (\<lambda>e. e \<noteq> []) (add_efforts es [])" for es
    by (rule add_efforts_ok) simp_all
  ultimately show ?thesis using assms
    by (auto simp: model_of_item_def Let_def split: option.splits if_splits dest: trimmed_Some)
qed

lemma add_models_ok: "catalog_ok entries \<Longrightarrow> add_models items entries = Inr entries1 \<Longrightarrow> catalog_ok entries1"
proof (induction items entries rule: add_models.induct)
  case (1 entries)
  then show ?case by simp
next
  case (2 item items entries)
  then obtain m where m: "model_of_item item = Inr m" by (auto split: sum.splits)
  let ?e = "if list_ex (\<lambda>known. mch_model known = mch_model m) entries then entries else entries @ [m]"
  have "catalog_ok ?e" using 2(2) model_of_item_ok [OF m] by (auto simp: catalog_ok_def list_ex_iff)
  with 2(1) [OF m] 2(3) m show ?case by simp
qed

lemma model_pages_ok: "catalog_ok entries \<Longrightarrow> model_pages ask k n cursor entries = Inr entries1 \<Longrightarrow> catalog_ok entries1"
  by (induction ask k n cursor entries rule: model_pages.induct)
    (auto split: sum.splits option.splits dest: add_models_ok)

text \<open>
  The list of models is well formed, whatever Codex answers: there is at least one model, no model
  is listed twice, none is without a name, and each has at least one effort, none empty or
  repeated. The keyboards of \<open>/new\<close> are built from it.
\<close>

theorem model_list_well_formed:
  "case list_model_choices ask of
     Inl e \<Rightarrow> True
   | Inr models \<Rightarrow> mct_entries models \<noteq> [] \<and> catalog_ok (mct_entries models)"
proof -
  have "catalog_ok []" by (simp add: catalog_ok_def)
  then have "model_pages ask 0 16 None [] = Inr entries \<Longrightarrow> catalog_ok entries" for entries by (rule model_pages_ok)
  then show ?thesis by (auto simp: list_model_choices_def split: sum.splits)
qed

text \<open>
  The correction that is suggested for a command with \<open>noplan\<close> switches the plan mode on: \<open>noplan\<close>
  contains \<open>plan\<close>.
\<close>

theorem suggestion_turns_plan_on:
  assumes "mct_entries models \<noteq> []" and "CHR ''|'' \<notin> set m" and "CHR ''|'' \<notin> set e"
  shows "\<exists>m1 e1 m2 e2. new_argument_suggestion models (m @ ''|'' @ e @ ''|noplan'') =
    join bar [''/new '' @ m1, e1, ''planmode'', m2, e2]"
proof -
  have "map trim (split_on CHR ''|'' (m @ ''|'' @ e @ ''|noplan'')) = [trim m, trim e, ''noplan'']"
    using assms(2,3) by (simp add: split_on_append) code_simp
  moreover have "contains_text ''plan'' (to_ascii_lowercase ''noplan'')" by code_simp
  moreover obtain x xs where "mct_entries models = x # xs" using assms(1) by (cases "mct_entries models") auto
  ultimately show ?thesis
    by (cases "model_choice_named models (trim m)")
      (auto simp: new_argument_suggestion_def Let_def nonempty_def filter_opt_def suggested_rest_def)
qed

end
