(* ===== verification/Projects.thy ===== *)
theory Projects
  imports TextOps Credentials "HOL-Library.Multiset"
begin

text \<open>
  How the daemon finds the directory of a new session, \<open>new_existing_projects\<close> and its helpers in
  \<open>rust/crates/cli/src/daemon.rs\<close>. A path is its text; the file system is a record of what the code asks
  it. Names of files are UTF-8 text.
\<close>

section \<open>Paths\<close>

text \<open>
  \<open>std::path\<close> on Unix. The components leave out empty parts and \<open>.\<close> except at the start of a
  relative path; a parent is spelled with single separators.
\<close>

definition is_absolute :: "string \<Rightarrow> bool" where
  "is_absolute p \<longleftrightarrow> starts_with ''/'' p"

definition path_components :: "string \<Rightarrow> string list" where
  "path_components p = (let parts = split_on CHR ''/'' p;
      normal = filter (\<lambda>c. c \<noteq> [] \<and> c \<noteq> ''.'') parts
    in if hd parts = ''.'' then ''.'' # normal else normal)"

definition path_starts_with :: "string \<Rightarrow> string \<Rightarrow> bool" where
  "path_starts_with root p \<longleftrightarrow> is_absolute root = is_absolute p
     \<and> take (length (path_components root)) (path_components p) = path_components root"

definition path_text :: "bool \<Rightarrow> string list \<Rightarrow> string" where
  "path_text absolute cs = (if absolute then ''/'' else []) @ join ''/'' cs"

definition path_parent :: "string \<Rightarrow> string option" where
  "path_parent p = (case path_components p of [] \<Rightarrow> None
     | c # cs \<Rightarrow> Some (path_text (is_absolute p) (butlast (c # cs))))"

definition path_push :: "string \<Rightarrow> string \<Rightarrow> string" where
  "path_push base p = (if is_absolute p then p else if base = [] then p else path_join base p)"

definition path_file_name :: "string \<Rightarrow> string option" where
  "path_file_name p = (case rev (path_components p) of [] \<Rightarrow> None
     | c # _ \<Rightarrow> if c = ''..'' \<or> c = ''.'' then None else Some c)"

section \<open>The file system\<close>

record fs =
  fs_canonicalize :: "string \<Rightarrow> string + string"
  fs_exists :: "string \<Rightarrow> bool"
  fs_is_dir :: "string \<Rightarrow> bool"
  fs_entries :: "string \<Rightarrow> string + string list"

text \<open>\<open>home\<close> is \<open>HOME\<close>, or \<open>USERPROFILE\<close> when it is not set.\<close>

definition expand_user_path :: "string option \<Rightarrow> string \<Rightarrow> string" where
  "expand_user_path home v0 = (let v = trim v0; h = unwrap_or home ''.'' in
     if v = ''~'' then h
     else case strip_prefix ''~/'' v of
       Some relative \<Rightarrow> path_push h relative
     | None \<Rightarrow> (case strip_prefix [CHR ''~'', CHR 0x5C] v of
         Some relative \<Rightarrow> path_push h relative
       | None \<Rightarrow> v))"

lemma components_no_slash: "c \<in> set (path_components p) \<Longrightarrow> CHR ''/'' \<notin> set c"
  by (auto simp: path_components_def Let_def split: if_splits dest: split_on_parts)

lemma length_components_text:
  assumes "list_all (\<lambda>c. CHR ''/'' \<notin> set c) cs"
  shows "length (path_components (path_text absolute cs)) \<le> length cs"
proof -
  have "split_on CHR ''/'' (join ''/'' cs) = (if cs = [] then [[]] else cs)"
    using assms split_on_join [of cs "CHR ''/''"] by simp
  then show ?thesis
    by (cases cs) (auto simp: path_components_def path_text_def Let_def le_SucI)
qed

text \<open>
  The ancestors of a path have fewer components: the loop over them ends. The first that exists
  decides.
\<close>

lemma parent_shorter:
  assumes "path_parent p = Some q"
  shows "length (path_components q) < length (path_components p)"
proof -
  from assms have p: "path_components p \<noteq> []" "q = path_text (is_absolute p) (butlast (path_components p))"
    by (auto simp: path_parent_def split: list.splits)
  have "list_all (\<lambda>c. CHR ''/'' \<notin> set c) (butlast (path_components p))"
    by (auto simp: list_all_iff dest!: in_set_butlastD components_no_slash)
  from length_components_text [OF this, of "is_absolute p"] p show ?thesis
    by (cases "path_components p" rule: rev_cases) simp_all
qed

function missing_path_has_safe_ancestor :: "fs \<Rightarrow> string \<Rightarrow> string \<Rightarrow> bool" where
  "missing_path_has_safe_ancestor f root target =
     (if fs_exists f target
      then (case fs_canonicalize f target of Inl e \<Rightarrow> False | Inr resolved \<Rightarrow> path_starts_with root resolved)
      else case path_parent target of
        None \<Rightarrow> False
      | Some p \<Rightarrow> if p = target then False else missing_path_has_safe_ancestor f root p)"
  by pat_completeness auto
termination by (relation "measure (\<lambda>(f, root, target). length (path_components target))") (auto dest: parent_shorter)

declare missing_path_has_safe_ancestor.simps [simp del]

section \<open>The search\<close>

text \<open>
  One directory of the search: matches are added, sub-directories are put on the stack, and eight
  matches end the whole search (\<open>Inl\<close>).
\<close>

fun scan_entries :: "fs \<Rightarrow> string \<Rightarrow> string \<Rightarrow> nat \<Rightarrow> string list \<Rightarrow> string list \<Rightarrow> (string \<times> nat) list
    \<Rightarrow> string list + string list \<times> (string \<times> nat) list" where
  "scan_entries f needle directory depth [] found stack = Inr (found, stack)"
| "scan_entries f needle directory depth (n # ns) found stack =
     (let path = path_push directory n in
      if \<not> fs_is_dir f path then scan_entries f needle directory depth ns found stack
      else let
        name = to_ascii_lowercase (unwrap_or (path_file_name path) []);
        found1 = (if contains_text needle name \<or> contains_text needle (to_ascii_lowercase path)
          then found @ [path] else found);
        stack1 = (path, depth + 1) # stack
      in if 8 \<le> length found1 then Inl found1
         else scan_entries f needle directory depth ns found1 stack1)"

text \<open>The loop over the stack, as a function that may not return.\<close>

partial_function (option) project_search ::
  "fs \<Rightarrow> string \<Rightarrow> (string \<times> nat) list \<Rightarrow> string list \<Rightarrow> (string + string list) option" where
  "project_search f needle stack found = (case stack of
     [] \<Rightarrow> Some (Inr found)
   | (directory, depth) # rest \<Rightarrow>
       if 3 \<le> depth then project_search f needle rest found
       else case fs_entries f directory of
         Inl e \<Rightarrow> Some (Inl e)
       | Inr names \<Rightarrow> (case scan_entries f needle directory depth names found rest of
           Inl found1 \<Rightarrow> Some (Inr found1)
         | Inr (found1, stack1) \<Rightarrow> project_search f needle stack1 found1))"

definition outside_message :: string where
  "outside_message = ([CHR 0xE9, CHR 0xA1, CHR 0xB9, CHR 0xE7, CHR 0x9B, CHR 0xAE, CHR 0xE8, CHR 0xB7, CHR 0xAF,
      CHR 0xE5, CHR 0xBE, CHR 0x84, CHR 0xE5, CHR 0xBF, CHR 0x85, CHR 0xE9, CHR 0xA1, CHR 0xBB, CHR 0xE4, CHR 0xBD,
      CHR 0x8D, CHR 0xE4, CHR 0xBA, CHR 0x8E] @ '' workspace '' @ [CHR 0xE6, CHR 0xA0, CHR 0xB9, CHR 0xE7, CHR 0x9B,
      CHR 0xAE, CHR 0xE5, CHR 0xBD, CHR 0x95, CHR 0xE5, CHR 0x86, CHR 0x85, CHR 0xE3, CHR 0x80, CHR 0x82])"

definition new_existing_projects ::
  "fs \<Rightarrow> string option \<Rightarrow> string \<Rightarrow> string \<Rightarrow> (string + string list) option" where
  "new_existing_projects f home root0 v0 = (case fs_canonicalize f root0 of
     Inl e \<Rightarrow> Some (Inl ((''workspace '' @ [CHR 0xE6, CHR 0xA0, CHR 0xB9, CHR 0xE7, CHR 0x9B, CHR 0xAE,
         CHR 0xE5, CHR 0xBD, CHR 0x95, CHR 0xE4, CHR 0xB8, CHR 0x8D, CHR 0xE5, CHR 0x8F, CHR 0xAF, CHR 0xE7, CHR 0x94,
         CHR 0xA8] @ '': '') @ e))
   | Inr root \<Rightarrow> let v = trim v0 in
       if v = [] then Some (Inr [])
       else let candidate = expand_user_path home v in
         if is_absolute candidate then
           (if \<not> fs_exists f candidate then Some (Inr [])
            else case fs_canonicalize f candidate of
              Inl e \<Rightarrow> Some (Inl e)
            | Inr resolved \<Rightarrow>
                if fs_is_dir f resolved \<and> path_starts_with root resolved then Some (Inr [resolved])
                else Some (Inl outside_message))
         else let direct = path_push root v in
           if fs_is_dir f direct then
             (case fs_canonicalize f direct of
               Inl e \<Rightarrow> Some (Inl e)
             | Inr resolved \<Rightarrow>
                 if \<not> path_starts_with root resolved then Some (Inl outside_message)
                 else Some (Inr [resolved]))
           else project_search f (to_ascii_lowercase v) [(root, 0)] [])"

section \<open>The search ends\<close>

text \<open>
  The stack measured by what its entries may still grow to: a directory is replaced by its
  sub-directories, which are one level deeper, and the third level is not entered.
\<close>

definition stack_levels :: "(string \<times> nat) list \<Rightarrow> nat multiset" where
  "stack_levels stack = mset (map (\<lambda>(d, depth). 3 - depth) stack)"

lemma scan_levels:
  assumes "scan_entries f needle directory depth names found stack = Inr (found1, stack1)" and "depth < 3"
  shows "\<exists>new. stack_levels stack1 = stack_levels stack + new \<and> (\<forall>k \<in># new. k < 3 - depth)"
  using assms(1)
proof (induction names arbitrary: found stack)
  case Nil
  then show ?case by (intro exI [of _ "{#}"]) simp
next
  case (Cons n ns)
  let ?path = "path_push directory n"
  show ?case
  proof (cases "fs_is_dir f ?path")
    case False
    with Cons show ?thesis by simp
  next
    case True
    with Cons.prems obtain found2 where
      "scan_entries f needle directory depth ns found2 ((?path, depth + 1) # stack) = Inr (found1, stack1)"
      by (auto simp: Let_def split: if_splits)
    from Cons.IH [OF this] obtain new where
      new: "stack_levels stack1 = stack_levels ((?path, depth + 1) # stack) + new" "\<forall>k \<in># new. k < 3 - depth" by blast
    then show ?thesis using assms(2)
      by (intro exI [of _ "add_mset (3 - Suc depth) new"]) (simp add: stack_levels_def)
  qed
qed

lemma pop_levels: "(stack_levels rest, stack_levels (e # rest)) \<in> mult less_than"
  using one_step_implies_mult [of "{#3 - snd e#}" "{#}" less_than "stack_levels rest"]
  by (cases e) (simp add: stack_levels_def)

lemma scan_smaller:
  assumes "scan_entries f needle directory depth names found rest = Inr (found1, stack1)" and "depth < 3"
  shows "(stack_levels stack1, stack_levels ((directory, depth) # rest)) \<in> mult less_than"
proof -
  from scan_levels [OF assms] obtain new where
    "stack_levels stack1 = stack_levels rest + new" "\<forall>k \<in># new. k < 3 - depth" by blast
  then show ?thesis using one_step_implies_mult [of "{#3 - depth#}" new less_than "stack_levels rest"]
    by (simp add: stack_levels_def)
qed

lemma scan_found:
  "length found < 8 \<Longrightarrow> (case scan_entries f needle directory depth names found stack of
     Inl found1 \<Rightarrow> length found1 = 8 | Inr (found1, stack1) \<Rightarrow> length found1 < 8)"
  by (induction f needle directory depth names found stack rule: scan_entries.induct) (auto simp: Let_def)

lemma search_returns:
  "length found < 8 \<Longrightarrow> \<exists>r. project_search f needle stack found = Some r \<and> (\<forall>ps. r = Inr ps \<longrightarrow> length ps \<le> 8)"
proof (induction "stack_levels stack" arbitrary: stack found rule: wf_induct_rule [OF wf_mult [OF wf_less_than]])
  case less: 1
  show ?case
  proof (cases stack)
    case Nil
    with less(2) show ?thesis by (simp add: project_search.simps)
  next
    case (Cons top rest)
    obtain directory depth where top: "top = (directory, depth)" by fastforce
    have fewer: "(stack_levels rest, stack_levels stack) \<in> mult less_than" unfolding Cons by (rule pop_levels)
    show ?thesis
    proof (cases "3 \<le> depth")
      case True
      with less(1) [OF fewer less(2)] Cons top show ?thesis by (subst project_search.simps) simp
    next
      case False
      show ?thesis
      proof (cases "fs_entries f directory")
        case (Inl e)
        with False Cons top show ?thesis by (subst project_search.simps) simp
      next
        case (Inr names)
        show ?thesis
        proof (cases "scan_entries f needle directory depth names found rest")
          case (Inl found1)
          with scan_found [OF less(2), of f needle directory depth names rest] Inr False Cons top show ?thesis
            by (subst project_search.simps) simp
        next
          case scanned: (Inr r)
          obtain found1 stack1 where r: "r = (found1, stack1)" by fastforce
          have "(stack_levels stack1, stack_levels stack) \<in> mult less_than"
            using scan_smaller [of f needle directory depth names found rest found1 stack1] scanned r False Cons top by simp
          moreover have "length found1 < 8" using scan_found [OF less(2),
              of f needle directory depth names rest] scanned r by simp
          ultimately show ?thesis using less(1) scanned r Inr False Cons top by (subst project_search.simps) simp
        qed
      qed
    qed
  qed
qed

text \<open>
  C27. Looking for a project always comes to an end, for every file system, also one whose links make
  its directories endless, and it offers at most eight directories.
\<close>

theorem project_search_ends:
  "\<exists>r. new_existing_projects f home root v = Some r \<and> (case r of Inl e \<Rightarrow> True | Inr ps \<Rightarrow> length ps \<le> 8)"
proof -
  have *: "\<exists>r. project_search f needle [(d, 0)] [] = Some r \<and> (case r of Inl e \<Rightarrow> True | Inr ps \<Rightarrow> length ps \<le> 8)"
    for needle d using search_returns [of "[]" f needle "[(d, 0)]"] by (auto split: sum.splits)
  show ?thesis unfolding new_existing_projects_def Let_def using * by (auto split: sum.split if_split)
qed

section \<open>Where the results lie\<close>

lemma split_on_append_any: "split_on d (a @ d # s) = split_on d a @ split_on d s"
  by (induction a) (auto split: list.splits)

lemma path_push_below:
  assumes "is_absolute d" and "\<not> is_absolute n"
  shows "path_starts_with d (path_push d n)"
proof -
  from assms(1) obtain d1 where d: "d = CHR ''/'' # d1"
    by (auto simp: is_absolute_def starts_with_def strip_prefix_Some)
  have "\<exists>tail. path_components (path_push d n) = path_components d @ tail \<and> is_absolute (path_push d n)"
  proof (cases "last d = CHR ''/''")
    case True
    then have "d = butlast d @ [CHR ''/'']" using d by (metis append_butlast_last_id list.distinct(1))
    then have *: "split_on CHR ''/'' d = split_on CHR ''/'' (butlast d) @ [[]]"
      "split_on CHR ''/'' (d @ n) = split_on CHR ''/'' (butlast d) @ split_on CHR ''/'' n"
      using split_on_append_any [of "CHR ''/''" "butlast d"] by (metis append.assoc append_Cons append_Nil split_on.simps(1))+
    have "hd (split_on CHR ''/'' (d @ n)) = []" "hd (split_on CHR ''/'' d) = []" unfolding d by simp_all
    then show ?thesis using True assms d *
      by (auto simp: path_push_def path_join_def path_components_def Let_def is_absolute_def starts_with_def strip_prefix_def)
  next
    case False
    have *: "split_on CHR ''/'' (d @ CHR ''/'' # n) = split_on CHR ''/'' d @ split_on CHR ''/'' n"
      by (rule split_on_append_any)
    have "hd (split_on CHR ''/'' (d @ CHR ''/'' # n)) = []" "hd (split_on CHR ''/'' d) = []" unfolding d by simp_all
    then show ?thesis using False assms d *
      by (auto simp: path_push_def path_join_def path_components_def Let_def is_absolute_def starts_with_def strip_prefix_def)
  qed
  then show ?thesis using assms(1) by (auto simp: path_starts_with_def)
qed

lemma path_starts_with_iff:
  "path_starts_with root p \<longleftrightarrow> is_absolute root = is_absolute p \<and> (\<exists>tail. path_components p = path_components root @ tail)"
  unfolding path_starts_with_def by (metis append_eq_conv_conj append_take_drop_id)

lemma path_starts_with_trans: "path_starts_with a b \<Longrightarrow> path_starts_with b c \<Longrightarrow> path_starts_with a c"
  by (auto simp: path_starts_with_iff)

lemma path_starts_with_refl [simp]: "path_starts_with a a"
  by (simp add: path_starts_with_def)

definition all_below :: "string \<Rightarrow> string list \<Rightarrow> (string \<times> nat) list \<Rightarrow> bool" where
  "all_below root found stack \<longleftrightarrow> list_all (path_starts_with root) found
     \<and> list_all (\<lambda>(d, k). is_absolute d \<and> path_starts_with root d) stack"

lemma scan_below:
  assumes "is_absolute directory" and "path_starts_with root directory"
  shows "all_below root found stack \<Longrightarrow> list_all (\<lambda>n. \<not> is_absolute n) names \<Longrightarrow>
    (case scan_entries f needle directory depth names found stack of
       Inl found1 \<Rightarrow> list_all (path_starts_with root) found1 | Inr (found1, stack1) \<Rightarrow> all_below root found1 stack1)"
  using assms
proof (induction f needle directory depth names found stack rule: scan_entries.induct)
  case (1 f needle directory depth found stack)
  then show ?case by simp
next
  case (2 f needle directory depth n ns found stack)
  let ?path = "path_push directory n"
  have path: "path_starts_with root ?path" "is_absolute ?path"
    using 2(4-6) path_push_below [of directory n] path_starts_with_trans by (auto simp: path_starts_with_def)
  show ?case
  proof (cases "fs_is_dir f ?path")
    case False
    with 2 show ?thesis by simp
  next
    case True
    with 2 path show ?thesis by (auto simp: Let_def all_below_def)
  qed
qed

lemma search_below:
  assumes "\<And>d names. fs_entries f d = Inr names \<Longrightarrow> list_all (\<lambda>n. \<not> is_absolute n) names"
  shows "project_search f needle stack found = Some r \<Longrightarrow> all_below root found stack \<Longrightarrow>
    (case r of Inl e \<Rightarrow> True | Inr ps \<Rightarrow> list_all (path_starts_with root) ps)"
proof (induction "stack_levels stack" arbitrary: stack found rule: wf_induct_rule [OF wf_mult [OF wf_less_than]])
  case less: 1
  show ?case
  proof (cases stack)
    case Nil
    with less(2,3) show ?thesis by (auto simp: all_below_def project_search.simps)
  next
    case (Cons top rest)
    obtain directory depth where top: "top = (directory, depth)" by fastforce
    have fewer: "(stack_levels rest, stack_levels stack) \<in> mult less_than" unfolding Cons by (rule pop_levels)
    have dir: "is_absolute directory" "path_starts_with root directory" "all_below root found rest"
      using less(3) Cons top by (auto simp: all_below_def)
    show ?thesis
    proof (cases "3 \<le> depth")
      case True
      with less(2) Cons top have "project_search f needle rest found = Some r" by (subst (asm) project_search.simps) simp
      with less(1) [OF fewer] dir(3) Cons show ?thesis by blast
    next
      case False
      show ?thesis
      proof (cases "fs_entries f directory")
        case (Inl e)
        with False less(2) Cons top show ?thesis by (subst (asm) project_search.simps) auto
      next
        case (Inr names)
        note below = scan_below [OF dir assms [OF Inr], of f needle depth]
        show ?thesis
        proof (cases "scan_entries f needle directory depth names found rest")
          case (Inl found1)
          with below \<open>fs_entries f directory = Inr names\<close> False less(2) Cons top show ?thesis
            by (subst (asm) project_search.simps) auto
        next
          case scanned: (Inr st)
          obtain found1 stack1 where st: "st = (found1, stack1)" by fastforce
          with below scanned have "all_below root found1 stack1" by simp
          moreover have "project_search f needle stack1 found1 = Some r"
            using less(2) scanned st Inr False Cons top by (subst (asm) project_search.simps) simp
          moreover have "(stack_levels stack1, stack_levels stack) \<in> mult less_than"
            using scan_smaller [of f needle directory depth names found rest found1 stack1] scanned st False Cons top by simp
          ultimately show ?thesis using less(1) by blast
        qed
      qed
    qed
  qed
qed


text \<open>
  But the search does not look where its results lead: a link inside the workspace to a directory
  outside is refused under its name and offered under a part of its name.
\<close>

definition demo_links :: fs where
  "demo_links = \<lparr>fs_canonicalize = (\<lambda>p. Inr (if p = ''/w/link'' then ''/etc'' else p)),
     fs_exists = (\<lambda>p. p \<in> {''/w'', ''/w/link'', ''/etc''}), fs_is_dir = (\<lambda>p. p \<in> {''/w'', ''/w/link'', ''/etc''}),
     fs_entries = (\<lambda>p. Inr (if p = ''/w'' then [''link''] else []))\<rparr>"

lemma trim_link: "trim ''link'' = ''link''" "trim ''lin'' = ''lin''"
  by code_simp+

theorem search_follows_links:
  "new_existing_projects demo_links None ''/w'' ''link'' = Some (Inl outside_message)
   \<and> new_existing_projects demo_links None ''/w'' ''lin'' = Some (Inr [''/w/link''])
   \<and> fs_canonicalize demo_links ''/w/link'' = Inr ''/etc'' \<and> \<not> path_starts_with ''/w'' ''/etc''"
proof -
  have "expand_user_path None ''link'' = ''link''" "expand_user_path None ''lin'' = ''lin''"
    "path_push ''/w'' ''link'' = ''/w/link''" "path_push ''/w'' ''lin'' = ''/w/lin''"
    "\<not> is_absolute ''link''" "\<not> is_absolute ''lin''" "\<not> path_starts_with ''/w'' ''/etc''"
    "contains_text (to_ascii_lowercase ''lin'') (to_ascii_lowercase (unwrap_or (path_file_name ''/w/link'') []))"
    by code_simp+
  then show ?thesis
    by (simp add: new_existing_projects_def Let_def demo_links_def trim_link project_search.simps)
qed


text \<open>
  Nor does the check before a directory is created look where its path leads. A path that goes on
  below a directory that does not exist, and from there back up, is taken to be below the
  workspace; when \<open>create_dir_all\<close> has made that directory, the rest of the path leads out.
\<close>

definition demo_bare :: fs where
  "demo_bare = \<lparr>fs_canonicalize = Inr, fs_exists = (\<lambda>p. p \<in> {''/w'', ''/etc''}),
     fs_is_dir = (\<lambda>p. p \<in> {''/w'', ''/etc''}), fs_entries = (\<lambda>_. Inr [])\<rparr>"

theorem creation_leads_out:
  "new_existing_projects demo_bare None ''/w'' ''/w/x/../../etc'' = Some (Inr [])
   \<and> path_starts_with ''/w'' ''/w/x/../../etc'' \<and> missing_path_has_safe_ancestor demo_bare ''/w'' ''/w/x/../../etc''"
proof -
  have "trim ''/w/x/../../etc'' = ''/w/x/../../etc''" "expand_user_path None ''/w/x/../../etc'' = ''/w/x/../../etc''"
    "is_absolute ''/w/x/../../etc''" "path_starts_with ''/w'' ''/w/x/../../etc''" "path_starts_with ''/w'' ''/w''"
    "path_parent ''/w/x/../../etc'' = Some ''/w/x/../..''" "path_parent ''/w/x/../..'' = Some ''/w/x/..''"
    "path_parent ''/w/x/..'' = Some ''/w/x''" "path_parent ''/w/x'' = Some ''/w''"
    by code_simp+
  then show ?thesis
    by (simp add: new_existing_projects_def Let_def demo_bare_def missing_path_has_safe_ancestor.simps)
qed

end
