(* ===== verification/Handlers.thy ===== *)
theory Handlers
  imports Approvals
begin

text \<open>
  Handlers of the daemon (\<open>rust/crates/cli/src/daemon.rs\<close>) as functions on a state: an \<open>async fn\<close> that
  returns \<open>Result<T, String>\<close> is a \<open>handler\<close>, \<open>?\<close> is \<open>and_then\<close>, and a write before an error stays. The
  locale \<open>handler_relation\<close> carries a relation between the states before and after through a handler.
\<close>

section \<open>Handlers\<close>

type_synonym ('s, 'a) handler = "'s \<Rightarrow> (string + 'a) \<times> 's"

definition act_ok :: "'a \<Rightarrow> ('s, 'a) handler" where
  "act_ok x w = (Inr x, w)"

definition act_err :: "string \<Rightarrow> ('s, 'a) handler" where
  "act_err e w = (Inl e, w)"

definition and_then :: "('s, 'a) handler \<Rightarrow> ('a \<Rightarrow> ('s, 'b) handler) \<Rightarrow> ('s, 'b) handler" where
  "and_then m f w = (case m w of (Inl e, w1) \<Rightarrow> (Inl e, w1) | (Inr x, w1) \<Rightarrow> f x w1)"

definition from_result :: "string + 'a \<Rightarrow> ('s, 'a) handler" where
  "from_result r w = (r, w)"

text \<open>\<open>let _ = ...\<close> and \<open>.unwrap_or(...)\<close>: an error is dropped.\<close>

definition ignoring :: "('s, 'a) handler \<Rightarrow> ('s, unit) handler" where
  "ignoring m w = (Inr (), snd (m w))"

definition attempt :: "('s, 'a) handler \<Rightarrow> ('s, string + 'a) handler" where
  "attempt m w = (case m w of (r, w1) \<Rightarrow> (Inr r, w1))"

fun each_one :: "('a \<Rightarrow> ('s, unit) handler) \<Rightarrow> 'a list \<Rightarrow> ('s, unit) handler" where
  "each_one f [] = act_ok ()"
| "each_one f (x # xs) = and_then (f x) (\<lambda>_. each_one f xs)"

text \<open>\<open>draft[key] = v\<close> panics on a value that is not an object.\<close>

definition put_field :: "string \<Rightarrow> json \<Rightarrow> json \<Rightarrow> ('s, json) handler" where
  "put_field k v j = (case jset k v j of Some j1 \<Rightarrow> act_ok j1 | None \<Rightarrow> act_err ''panicked'')"

section \<open>What a handler keeps\<close>

definition stays :: "('s \<Rightarrow> 's \<Rightarrow> bool) \<Rightarrow> ('s, 'a) handler \<Rightarrow> bool" where
  "stays R m \<longleftrightarrow> (\<forall>w. R w (snd (m w)))"

locale handler_relation =
  fixes R :: "'s \<Rightarrow> 's \<Rightarrow> bool"
  assumes rel_refl: "R w w"
    and rel_trans: "R w w1 \<Longrightarrow> R w1 w2 \<Longrightarrow> R w w2"
begin

lemma stays_pure: "stays R (act_ok x)" "stays R (act_err e)" "stays R (from_result r)"
  by (simp_all add: stays_def act_ok_def act_err_def from_result_def rel_refl)

lemma stays_and_then: "stays R m \<Longrightarrow> (\<And>x. stays R (f x)) \<Longrightarrow> stays R (and_then m f)"
  unfolding stays_def and_then_def
  by (auto split: prod.split sum.split) (metis rel_trans snd_conv)+

lemma stays_wrapped: "stays R m \<Longrightarrow> stays R (ignoring m)" "stays R m \<Longrightarrow> stays R (attempt m)"
  by (simp_all add: stays_def ignoring_def attempt_def case_prod_beta)

lemma stays_each: "(\<And>x. stays R (f x)) \<Longrightarrow> stays R (each_one f xs)"
  by (induction xs) (simp_all add: stays_pure stays_and_then)

lemma stays_put_field: "stays R (put_field k v j)"
  by (simp add: put_field_def stays_pure split: option.split)

lemma stays_cases:
  "stays R a \<Longrightarrow> stays R b \<Longrightarrow> stays R (if c then a else b)"
  "stays R a \<Longrightarrow> (\<And>x. stays R (f x)) \<Longrightarrow> stays R (case v of None \<Rightarrow> a | Some x \<Rightarrow> f x)"
  "(\<And>x. stays R (g x)) \<Longrightarrow> (\<And>x. stays R (f' x)) \<Longrightarrow> stays R (case r of Inl x \<Rightarrow> g x | Inr x \<Rightarrow> f' x)"
  "(\<And>x y. stays R (h x y)) \<Longrightarrow> stays R (case p of (x, y) \<Rightarrow> h x y)"
  "stays R (i t) \<Longrightarrow> stays R (Let t i)"
  by (simp_all split: option.split sum.split prod.split)

lemmas stays_rules = stays_cases stays_pure stays_and_then stays_wrapped stays_each stays_put_field

end

lemma staysD: "stays R m \<Longrightarrow> R w (snd (m w))"
  by (simp add: stays_def)

section \<open>How a handler runs\<close>

lemma and_then_Inr: "and_then m f w = (Inr y, w2) \<longleftrightarrow> (\<exists>x w1. m w = (Inr x, w1) \<and> f x w1 = (Inr y, w2))"
  by (auto simp: and_then_def split: prod.splits sum.splits)

lemma and_then_run: "and_then m f w = (case fst (m w) of Inl e \<Rightarrow> (Inl e, snd (m w)) | Inr x \<Rightarrow> f x (snd (m w)))"
  by (simp add: and_then_def split: prod.split sum.split)

lemmas handler_defs = act_ok_def act_err_def from_result_def ignoring_def attempt_def

end
