(* ===== verification/NewFlow.thy ===== *)
theory NewFlow
  imports NewArgs Projects ControlStore SpaceStore Handlers
begin

text \<open>
  The command \<open>/new\<close> in the daemon (\<open>rust/crates/cli/src/daemon.rs\<close>): the draft of a session and the
  control interaction it is kept with, the buttons of each step, the handlers of a press and of a
  text, the search of a project and the pending session that a finished conversation leaves. A
  handler is a function on the world: the two groups of tables, the messages sent so far, and how
  often the clock, the nonces and Codex have been asked.
\<close>

section \<open>The world of the handlers\<close>

text \<open>What the handlers ask of code outside the repository, by the number of the question.\<close>

record new_env =
  ne_ser :: "json serializer"
  ne_de :: "json deserializer"
  ne_sha256_hex :: "string \<Rightarrow> string"
  ne_now :: "nat \<Rightarrow> i64"
  ne_nonce :: "nat \<Rightarrow> string"
  ne_send :: "nat \<Rightarrow> string + i64"
  ne_ask :: "nat \<Rightarrow> nat \<Rightarrow> json \<Rightarrow> string + json"
  ne_generation :: "nat \<Rightarrow> u64"
  ne_fs :: fs
  ne_create_dir :: "string \<Rightarrow> string + unit"
  ne_home :: "string option"
  ne_workspace_root :: string
  ne_channel_chat_id :: i64
  ne_instance :: string

datatype new_message =
    NmText i64 string "json option"
  | NmRendered i64 string string "keyboard option"
  | NmEdited i64 i64 string string
  | NmAnswered string string
  | NmPosted string

record new_world =
  nw_control :: control_db
  nw_spaces :: space_db
  nw_sent :: "new_message list"
  nw_clock :: nat
  nw_nonces :: nat
  nw_asked :: nat

type_synonym 'a act = "(new_world, 'a) handler"

definition on_control :: "(control_db \<Rightarrow> 'a port_result \<times> control_db) \<Rightarrow> 'a act" where
  "on_control f w = (case f (nw_control w) of (r, db) \<Rightarrow> (port_str r, w\<lparr>nw_control := db\<rparr>))"

definition on_spaces :: "(space_db \<Rightarrow> 'a port_result \<times> space_db) \<Rightarrow> 'a act" where
  "on_spaces f w = (case f (nw_spaces w) of (r, db) \<Rightarrow> (port_str r, w\<lparr>nw_spaces := db\<rparr>))"

definition see_control :: "(control_db \<Rightarrow> 'a port_result) \<Rightarrow> 'a act" where
  "see_control f w = (port_str (f (nw_control w)), w)"

definition see_spaces :: "(space_db \<Rightarrow> 'a port_result) \<Rightarrow> 'a act" where
  "see_spaces f w = (port_str (f (nw_spaces w)), w)"

definition now_ms :: "new_env \<Rightarrow> i64 act" where
  "now_ms env w = (Inr (ne_now env (nw_clock w)), w\<lparr>nw_clock := Suc (nw_clock w)\<rparr>)"

definition next_nonce :: "new_env \<Rightarrow> string act" where
  "next_nonce env w = (Inr (ne_nonce env (nw_nonces w)), w\<lparr>nw_nonces := Suc (nw_nonces w)\<rparr>)"

definition sending :: "new_env \<Rightarrow> new_message \<Rightarrow> i64 act" where
  "sending env m w = (ne_send env (length (nw_sent w)), w\<lparr>nw_sent := nw_sent w @ [m]\<rparr>)"

definition choosing_models :: "new_env \<Rightarrow> model_catalog act" where
  "choosing_models env w = (list_model_choices (ne_ask env (nw_asked w)), w\<lparr>nw_asked := Suc (nw_asked w)\<rparr>)"

section \<open>Messages\<close>

definition say :: "new_env \<Rightarrow> i64 \<Rightarrow> string \<Rightarrow> unit act" where
  "say env chat text = and_then (sending env (NmText chat (truncate_text text) None)) (\<lambda>_. act_ok ())"

definition say_with_markup :: "new_env \<Rightarrow> i64 \<Rightarrow> string \<Rightarrow> json option \<Rightarrow> unit act" where
  "say_with_markup env chat text markup =
     and_then (sending env (NmText chat (truncate_text text) markup)) (\<lambda>_. act_ok ())"

definition send_control_rendered :: "new_env \<Rightarrow> i64 \<Rightarrow> rendered_effect \<Rightarrow> keyboard option \<Rightarrow> i64 act" where
  "send_control_rendered env chat r markup =
     sending env (NmRendered chat (rde_markdown r) (unwrap_or (rde_plain r) (rde_markdown r)) markup)"

definition acknowledge_callback :: "new_env \<Rightarrow> string \<Rightarrow> string \<Rightarrow> unit act" where
  "acknowledge_callback env callback text = ignoring (sending env (NmAnswered callback text))"

definition tg_result :: "telegram_error + 'a \<Rightarrow> string + 'a" where
  "tg_result r = map_sum telegram_error_display id r"

definition edit_rendered :: "new_env \<Rightarrow> i64 \<Rightarrow> i64 \<Rightarrow> rendered_effect \<Rightarrow> unit act" where
  "edit_rendered env chat message r =
     and_then (from_result (tg_result (message_reference_new (show_int chat) message))) (\<lambda>_.
     and_then (sending env (NmEdited chat message (rde_markdown r) (unwrap_or (rde_plain r) (rde_markdown r)))) (\<lambda>_.
     act_ok ()))"

text \<open>Buttons that are JSON become typed buttons again; what is not a button is left out.\<close>

definition typed_button :: "json \<Rightarrow> (string + button) option" where
  "typed_button b = (let label = unwrap_or (jstr ''text'' b) [] in
     case jstr ''callback_data'' b of
       Some data \<Rightarrow> Some (tg_result (callback_button label data))
     | None \<Rightarrow> map_option (\<lambda>url. tg_result (url_button label url)) (jstr ''url'' b))"

fun typed_row :: "json list \<Rightarrow> string + button list" where
  "typed_row [] = Inr []"
| "typed_row (b # bs) = (case typed_button b of
     None \<Rightarrow> typed_row bs
   | Some (Inl e) \<Rightarrow> Inl e
   | Some (Inr x) \<Rightarrow> map_sum id (\<lambda>xs. x # xs) (typed_row bs))"

fun typed_rows :: "json list \<Rightarrow> string + keyboard" where
  "typed_rows [] = Inr []"
| "typed_rows (r # rs) = (case as_array r of
     None \<Rightarrow> typed_rows rs
   | Some bs \<Rightarrow> (case typed_row bs of
       Inl e \<Rightarrow> Inl e
     | Inr [] \<Rightarrow> typed_rows rs
     | Inr (x # xs) \<Rightarrow> map_sum id (\<lambda>rows. (x # xs) # rows) (typed_rows rs)))"

definition typed_markup_from_json :: "json option \<Rightarrow> string + keyboard option" where
  "typed_markup_from_json v = (case Option.bind (Option.bind v (jget ''inline_keyboard'')) as_array of
     None \<Rightarrow> Inr None
   | Some rows \<Rightarrow> (case typed_rows rows of
       Inl e \<Rightarrow> Inl e
     | Inr typed \<Rightarrow> if typed = [] then Inr None else map_sum id Some (tg_result (keyboard_new typed))))"

definition send_new_render_effect ::
  "new_env \<Rightarrow> i64 \<Rightarrow> rendered_effect option \<Rightarrow> string \<Rightarrow> string \<Rightarrow> json option \<Rightarrow> unit act" where
  "send_new_render_effect env chat rendered fallback_markdown fallback_plain markup = (let
     r = unwrap_or rendered \<lparr>rde_operation = RenderSend, rde_markdown = fallback_markdown,
       rde_plain = Some fallback_plain, rde_keyboard = None\<rparr> in
     and_then (from_result (typed_markup_from_json markup)) (\<lambda>kb.
     and_then (send_control_rendered env chat r kb) (\<lambda>_. act_ok ())))"

definition new_render_effect :: "control_effect list \<Rightarrow> render_operation \<Rightarrow> rendered_effect option" where
  "new_render_effect effects operation = (case List.map_filter (\<lambda>e. case e of
       Render r \<Rightarrow> if rde_operation r = operation then Some r else None | _ \<Rightarrow> None) effects of
     [] \<Rightarrow> None | r # _ \<Rightarrow> Some r)"

section \<open>The draft\<close>

definition new_interaction_ttl_ms :: i64 where "new_interaction_ttl_ms = 5 * 60 * 1000"
definition new_prompt_ttl_ms :: i64 where "new_prompt_ttl_ms = 30 * 1000"

definition new_draft_key :: "i64 \<Rightarrow> string" where
  "new_draft_key chat = show_int chat"

definition make_draft :: "new_env \<Rightarrow> i64 \<Rightarrow> i64 \<Rightarrow> string \<Rightarrow> json \<Rightarrow> json act" where
  "make_draft env chat user phase payload = and_then (now_ms env) (\<lambda>now. act_ok (jobj [
     (''chat_id'', JInt chat), (''user_id'', JInt user), (''phase'', JStr phase), (''revision'', JInt 0),
     (''payload'', payload), (''choices'', jobj []),
     (''expires_at_ms'', JInt (saturating_add now new_interaction_ttl_ms))]))"

definition new_draft_expired :: "new_env \<Rightarrow> json \<Rightarrow> bool act" where
  "new_draft_expired env draft = (case ji64 ''expires_at_ms'' draft of
     None \<Rightarrow> act_ok False
   | Some expires \<Rightarrow> and_then (now_ms env) (\<lambda>now. act_ok (expires < now)))"

definition new_record :: "new_env \<Rightarrow> string \<Rightarrow> json option act" where
  "new_record env k = see_spaces (workflow_record (ne_de env) ''new'' k)"

definition save_record :: "new_env \<Rightarrow> string \<Rightarrow> string \<Rightarrow> json \<Rightarrow> unit act" where
  "save_record env kind k v = and_then (now_ms env) (\<lambda>now.
     on_spaces (upsert_workflow_record (ne_ser env) (ne_sha256_hex env) kind k v now))"

definition drop_record :: "string \<Rightarrow> bool act" where
  "drop_record k = on_spaces (delete_workflow_record ''new'' k)"

definition drop_interaction :: "new_env \<Rightarrow> string \<Rightarrow> bool act" where
  "drop_interaction env k = and_then (now_ms env) (\<lambda>now. on_control (delete_control_interaction k now))"

definition expiry_of :: "new_env \<Rightarrow> json \<Rightarrow> i64 act" where
  "expiry_of env draft = (case ji64 ''expires_at_ms'' draft of
     Some expires \<Rightarrow> act_ok expires
   | None \<Rightarrow> and_then (now_ms env) (\<lambda>now. act_ok (saturating_add now new_interaction_ttl_ms)))"

definition draft_chat :: "json \<Rightarrow> i64 act" where
  "draft_chat draft = from_result (ok_or (ji64 ''chat_id'' draft) ''new draft chat_id missing'')"

definition draft_user :: "json \<Rightarrow> i64 act" where
  "draft_user draft = from_result (ok_or (ji64 ''user_id'' draft) ''new draft user_id missing'')"

definition persist_new_draft :: "new_env \<Rightarrow> string \<Rightarrow> json \<Rightarrow> unit act" where
  "persist_new_draft env k draft =
     and_then (draft_chat draft) (\<lambda>chat.
     and_then (draft_user draft) (\<lambda>user. let phase = unwrap_or (jstr ''phase'' draft) ''unknown'' in
     and_then (expiry_of env draft) (\<lambda>expires.
     and_then (now_ms env) (\<lambda>now.
     and_then (on_control (replace_control_interaction (ne_ser env) k ''new'' phase
       (unwrap_or (jget ''payload'' draft) JNull) user chat None expires now)) (\<lambda>interaction.
     and_then (put_field ''revision'' (JInt (ci_revision interaction)) draft) (\<lambda>persisted.
     save_record env ''new'' k persisted))))))"

definition new_interaction_revision :: "new_env \<Rightarrow> string \<Rightarrow> json \<Rightarrow> (json control_interaction \<times> i64) act" where
  "new_interaction_revision env k draft =
     and_then (see_control (read_interaction (ne_de env) k)) (\<lambda>found. case found of
       None \<Rightarrow> act_err ''new interaction is no longer active''
     | Some i \<Rightarrow> let draft_revision = unwrap_or (ji64 ''revision'' draft) 0 in
         if draft_revision \<noteq> ci_revision i
            \<and> \<not> (saturating_add draft_revision 1 = ci_revision i
                \<and> jstr ''phase'' draft = Some (ci_phase i) \<and> jget ''payload'' draft = Some (ci_payload i))
         then act_err ''new interaction changed; selection was already handled''
         else act_ok (i, ci_revision i))"

text \<open>\<open>u64\<close> arithmetic on a revision read with \<open>as_u64\<close>: what is stored first is overwritten below.\<close>

definition advance_new_draft :: "new_env \<Rightarrow> string \<Rightarrow> json \<Rightarrow> string \<Rightarrow> json \<Rightarrow> bool \<Rightarrow> json act" where
  "advance_new_draft env k draft phase payload prompt_phase =
     and_then (put_field ''phase'' (JStr phase) draft) (\<lambda>d1.
     and_then (put_field ''revision'' (JInt (min (int (unwrap_or (Option.bind (jget ''revision'' draft) as_u64) 0) + 1)
       18446744073709551615)) d1) (\<lambda>d2.
     and_then (put_field ''payload'' payload d2) (\<lambda>d3.
     and_then (put_field ''choices'' (jobj []) d3) (\<lambda>d4.
     and_then (now_ms env) (\<lambda>now.
     let expires = saturating_add now (if prompt_phase then new_prompt_ttl_ms else new_interaction_ttl_ms) in
     and_then (put_field ''expires_at_ms'' (JInt expires) d4) (\<lambda>updated.
     and_then (new_interaction_revision env k draft) (\<lambda>(current, expected).
     and_then (now_ms env) (\<lambda>_.
     and_then (now_ms env) (\<lambda>now1.
     and_then (on_control (advance_control_interaction (ne_ser env) (ne_de env) k expected phase
       (unwrap_or (jget ''payload'' updated) JNull) (ci_user_id current) (ci_chat_id current) (ci_message_id current)
       expires now1)) (\<lambda>moved. case moved of
         None \<Rightarrow> act_err ''new interaction changed; selection was already handled''
       | Some next \<Rightarrow>
           and_then (put_field ''revision'' (JInt (ci_revision next)) updated) (\<lambda>final.
           and_then (save_record env ''new'' k final) (\<lambda>_. act_ok final))))))))))))"

section \<open>Buttons\<close>

definition offer :: "new_env \<Rightarrow> string \<Rightarrow> i64 \<Rightarrow> i64 \<Rightarrow> i64 \<Rightarrow> i64 \<Rightarrow> string \<Rightarrow> string \<Rightarrow> string \<Rightarrow> unit act" where
  "offer env k revision user chat expires nonce event v = and_then (now_ms env) (\<lambda>now.
     on_control (upsert_control_callback (ne_ser env) \<lparr>cc_nonce = nonce, cc_scope_key = Some k,
       cc_revision = Some revision, cc_user_id = user, cc_chat_id = chat, cc_action = event,
       cc_payload = jobj [(''value'', JStr v)], cc_expires_at_ms = expires, cc_consumed_at_ms = None,
       cc_invalidated_at_ms = None, cc_created_at_ms = now\<rparr>))"

definition choice_value :: "string \<Rightarrow> string \<Rightarrow> json" where
  "choice_value event v = jobj [(''event'', JStr event), (''value'', JStr v)]"

definition new_button :: "string \<Rightarrow> string \<Rightarrow> json" where
  "new_button label nonce = jobj [(''text'', JStr label), (''callback_data'', JStr (''new:'' @ nonce))]"

text \<open>A choice is its event, its value and the label of its button.\<close>

fun offer_choices :: "new_env \<Rightarrow> string \<Rightarrow> i64 \<Rightarrow> i64 \<Rightarrow> i64 \<Rightarrow> i64 \<Rightarrow> (string \<times> string \<times> string) list
    \<Rightarrow> (string, json) btree \<Rightarrow> json list \<Rightarrow> ((string, json) btree \<times> json list) act" where
  "offer_choices env k revision user chat expires [] stored buttons = act_ok (stored, buttons)"
| "offer_choices env k revision user chat expires ((event, v, label) # choices) stored buttons =
     and_then (next_nonce env) (\<lambda>nonce.
     and_then (offer env k revision user chat expires nonce event v) (\<lambda>_.
     offer_choices env k revision user chat expires choices (bt_insert nonce (choice_value event v) stored)
       (buttons @ [new_button (truncate_text label) nonce])))"

definition choice_columns :: "(string \<times> string \<times> string) list \<Rightarrow> nat" where
  "choice_columns choices = (let event = (case choices of [] \<Rightarrow> [] | (event, v, label) # _ \<Rightarrow> event) in
     if contains_text ''model'' event then 2 else if contains_text ''effort'' event then 3 else 1)"

text \<open>The markup, and the draft with the choices noted in it.\<close>

definition new_choice_markup :: "new_env \<Rightarrow> string \<Rightarrow> json \<Rightarrow> (string \<times> string \<times> string) list \<Rightarrow> (json \<times> json) act" where
  "new_choice_markup env k draft choices =
     and_then (draft_chat draft) (\<lambda>chat.
     and_then (draft_user draft) (\<lambda>user.
     and_then (see_control (read_interaction (ne_de env) k)) (\<lambda>found.
     let revision = unwrap_or (or_else (map_option ci_revision found) (ji64 ''revision'' draft)) 0 in
     and_then (expiry_of env draft) (\<lambda>expires.
     and_then (offer_choices env k revision user chat expires choices [] []) (\<lambda>(stored, buttons).
     and_then (next_nonce env) (\<lambda>cancel.
     and_then (offer env k revision user chat expires cancel ''cancel'' []) (\<lambda>_.
     and_then (put_field ''choices'' (JObj (bt_insert cancel (choice_value ''cancel'' []) stored)) draft) (\<lambda>draft1.
     and_then (save_record env ''new'' k draft1) (\<lambda>_.
     act_ok (jobj [(''inline_keyboard'', JArr (map JArr (balanced_rows buttons (choice_columns choices))
       @ [JArr [new_button [CHR 0xE9, CHR 0x80, CHR 0x80, CHR 0xE5, CHR 0x87, CHR 0xBA] cancel]]))], draft1))))))))))"

section \<open>The pending session\<close>

definition profile_text :: "json \<Rightarrow> string \<Rightarrow> string option" where
  "profile_text payload k = trimmed (jstr k payload)"

definition plan_text :: "json \<Rightarrow> string \<Rightarrow> string option" where
  "plan_text payload k = filter_opt (\<lambda>v. trim v \<noteq> []) (jstr k payload)"

definition pending_space :: "string \<Rightarrow> i64 \<Rightarrow> i64 \<Rightarrow> i64 \<Rightarrow> comment_root option \<Rightarrow> i64 \<Rightarrow> json \<Rightarrow> i64 \<Rightarrow> i64 \<Rightarrow> session_space" where
  "pending_space space_id generation channel post root owner payload created updated =
     \<lparr>sps_space_id = space_id, sps_thread_id = None, sps_lifecycle = ''pending'', sps_generation = generation,
      sps_channel_chat_id = channel, sps_channel_post_id = post,
      sps_discussion_chat_id = map_option rot_discussion_chat_id root,
      sps_discussion_root_message_id = map_option rot_root_message_id root, sps_status_message_id = None,
      sps_status_bot_instance = None, sps_owner_chat_id = Some owner,
      sps_plan_mode = (plan_text payload ''plan_model'' \<noteq> None), sps_observed_mode = None,
      sps_normal_model = profile_text payload ''normal_model'', sps_normal_effort = profile_text payload ''normal_effort'',
      sps_plan_model = plan_text payload ''plan_model'', sps_plan_effort = plan_text payload ''plan_effort'',
      sps_closed_at_ms = None, sps_created_at_ms = created, sps_updated_at_ms = updated\<rparr>"

text \<open>A space is stored; when that fails, an open space of the same post takes its place.\<close>

definition store_pending :: "session_space \<Rightarrow> i64 \<Rightarrow> (session_space \<times> i64) act" where
  "store_pending space message = and_then (attempt (on_spaces (upsert_session_space space))) (\<lambda>r. case r of
     Inr _ \<Rightarrow> act_ok (space, message)
   | Inl e \<Rightarrow> (\<lambda>w. case filter_opt (\<lambda>s. sps_lifecycle s \<noteq> ''closed'')
         (session_space_for_channel_post (sps_channel_chat_id space) (sps_channel_post_id space) (nw_spaces w)) of
       Some existing \<Rightarrow> act_ok (existing, sps_channel_post_id existing) w
     | None \<Rightarrow> act_err e w))"

definition channel_text :: "string \<Rightarrow> string \<Rightarrow> bool \<Rightarrow> string" where
  "channel_text cwd prompt plan = ([CHR 0xF0, CHR 0x9F, CHR 0x86, CHR 0x95] @ '' '' @ [CHR 0xE5, CHR 0xBE, CHR 0x85,
      CHR 0xE8, CHR 0xAE, CHR 0xA4, CHR 0xE8, CHR 0xAF, CHR 0x81] @ '' Codex Session'') @ [newline] @ ([CHR 0xF0,
      CHR 0x9F, CHR 0x93, CHR 0x81] @ '' '') @ truncate_text cwd @ [newline]
     @ ([CHR 0xF0, CHR 0x9F, CHR 0x93, CHR 0x9D] @ '' '') @ truncate_text prompt @ [newline] @ [CHR 0xE6, CHR 0xA8,
         CHR 0xA1, CHR 0xE5, CHR 0xBC, CHR 0x8F, CHR 0xEF, CHR 0xBC, CHR 0x9A]
         @ (if plan then ''Plan'' else [CHR 0xE6, CHR 0x99, CHR 0xAE, CHR 0xE9, CHR 0x80, CHR 0x9A]) @ [newline, newline]
     @ ([CHR 0xE8, CHR 0xAF, CHR 0xB7, CHR 0xE5, CHR 0x9C, CHR 0xA8, CHR 0xE8, CHR 0xAF, CHR 0x84, CHR 0xE8, CHR 0xAE,
         CHR 0xBA, CHR 0xE4, CHR 0xB8, CHR 0xB2, CHR 0xE5, CHR 0x8F, CHR 0x91, CHR 0xE9, CHR 0x80, CHR 0x81]
         @ '' /totp <'' @ [CHR 0xE9, CHR 0xAA, CHR 0x8C, CHR 0xE8, CHR 0xAF, CHR 0x81, CHR 0xE7, CHR 0xA0, CHR 0x81]
         @ ''> '' @ [CHR 0xE5, CHR 0xAE, CHR 0x8C, CHR 0xE6, CHR 0x88, CHR 0x90, CHR 0xE6, CHR 0xBF, CHR 0x80,
         CHR 0xE6, CHR 0xB4, CHR 0xBB, CHR 0xE3, CHR 0x80, CHR 0x82])"

definition create_pending_session_space ::
  "new_env \<Rightarrow> i64 \<Rightarrow> i64 \<Rightarrow> json \<Rightarrow> string \<Rightarrow> string \<Rightarrow> (session_space \<times> i64) act" where
  "create_pending_session_space env owner generation payload prompt space_id =
     and_then (from_result (ok_or (jstr ''cwd'' payload) [CHR 0xE9, CHR 0xA1, CHR 0xB9, CHR 0xE7, CHR 0x9B, CHR 0xAE,
         CHR 0xE7, CHR 0x9B, CHR 0xAE, CHR 0xE5, CHR 0xBD, CHR 0x95, CHR 0xE6, CHR 0x9C, CHR 0xAA, CHR 0xE9, CHR 0x80,
         CHR 0x89, CHR 0xE6, CHR 0x8B, CHR 0xA9])) (\<lambda>cwd.
     and_then (see_spaces (workflow_record (ne_de env) ''onboarding'' ''binding'')) (\<lambda>binding.
     if binding = None then act_err ([CHR 0xE9, CHR 0xA2, CHR 0x91, CHR 0xE9, CHR 0x81, CHR 0x93, CHR 0xE4, CHR 0xB8,
         CHR 0x8E, CHR 0xE8, CHR 0xAE, CHR 0xA8, CHR 0xE8, CHR 0xAE, CHR 0xBA, CHR 0xE7, CHR 0xBB, CHR 0x84, CHR 0xE5,
         CHR 0xB0, CHR 0x9A, CHR 0xE6, CHR 0x9C, CHR 0xAA, CHR 0xE7, CHR 0xBB, CHR 0x91, CHR 0xE5, CHR 0xAE, CHR 0x9A,
         CHR 0xEF, CHR 0xBC, CHR 0x8C, CHR 0xE8, CHR 0xAF, CHR 0xB7, CHR 0xE5, CHR 0x85, CHR 0x88, CHR 0xE5, CHR 0xAE,
         CHR 0x8C, CHR 0xE6, CHR 0x88, CHR 0x90] @ '' /bind'' @ [CHR 0xE3, CHR 0x80, CHR 0x82])
     else if (plan_text payload ''plan_model'' \<noteq> None) \<noteq> (plan_text payload ''plan_effort'' \<noteq> None)
     then act_err (''Plan model '' @ [CHR 0xE5, CHR 0x92, CHR 0x8C] @ '' effort '' @ [CHR 0xE5, CHR 0xBF, CHR 0x85,
         CHR 0xE9, CHR 0xA1, CHR 0xBB, CHR 0xE5, CHR 0x90, CHR 0x8C, CHR 0xE6, CHR 0x97, CHR 0xB6, CHR 0xE5, CHR 0xAD,
         CHR 0x98, CHR 0xE5, CHR 0x9C, CHR 0xA8])
     else and_then (\<lambda>w. (Inr (get_session_space space_id (nw_spaces w)), w)) (\<lambda>known.
     case filter_opt (\<lambda>s. sps_lifecycle s = ''pending'' \<or> sps_lifecycle s = ''repair_required'') known of
       Some existing \<Rightarrow> act_ok (existing, sps_channel_post_id existing)
     | None \<Rightarrow>
     and_then (see_spaces (workflow_record (ne_de env) ''pending_space'' space_id)) (\<lambda>previous.
     case filter_opt (\<lambda>post. 0 < post) (Option.bind previous (ji64 ''channel_post_id'')) of
       Some post \<Rightarrow>
         and_then (\<lambda>w. (Inr (native_comment_root (ne_channel_chat_id env) post (nw_spaces w)), w)) (\<lambda>root.
         and_then (now_ms env) (\<lambda>created. and_then (now_ms env) (\<lambda>updated.
         store_pending (pending_space space_id generation (ne_channel_chat_id env) post root owner payload
           created updated) post)))
     | None \<Rightarrow>
     and_then (from_result (map_sum bi_message id
       (channel_binding_new (ne_instance env) (show_int (ne_channel_chat_id env))))) (\<lambda>_.
     and_then (now_ms env) (\<lambda>now.
     and_then (put_field ''space_id'' (JStr space_id) payload) (\<lambda>p1.
     and_then (put_field ''pending_cwd'' (JStr cwd) p1) (\<lambda>p2.
     and_then (put_field ''pending_prompt'' (JStr prompt) p2) (\<lambda>pending.
     and_then (on_spaces (upsert_workflow_record (ne_ser env) (ne_sha256_hex env) ''pending_space'' space_id pending now)) (\<lambda>_.
     and_then (sending env (NmPosted (truncate_text (channel_text cwd prompt (plan_text payload ''plan_model'' \<noteq> None))))) (\<lambda>message.
     and_then (put_field ''channel_post_id'' (JInt (max message 1)) pending) (\<lambda>posted.
     and_then (save_record env ''pending_space'' space_id posted) (\<lambda>_.
     and_then (\<lambda>w. (Inr (native_comment_root (ne_channel_chat_id env) message (nw_spaces w)), w)) (\<lambda>root.
     store_pending (pending_space space_id generation (ne_channel_chat_id env) (max message 1) root owner payload
       now now) message))))))))))))))"

definition saturating_abs :: "i64 \<Rightarrow> i64" where
  "saturating_abs i = clamp_i64 \<bar>i\<bar>"

definition telegram_message_link :: "i64 \<Rightarrow> i64 \<Rightarrow> string" where
  "telegram_message_link chat message = (let normalized = saturating_abs chat;
      internal = (if chat \<le> -1000000000000 then saturating_sub normalized 1000000000000 else normalized)
    in ''https://t.me/c/'' @ show_int internal @ ''/'' @ show_int message)"

definition pending_session_confirmation :: "string \<Rightarrow> string + rendered_effect \<times> keyboard" where
  "pending_session_confirmation link = (case tg_result (url_button [CHR 0xE6, CHR 0x89, CHR 0x93, CHR 0xE5, CHR 0xBC,
      CHR 0x80, CHR 0xE5, CHR 0xB8, CHR 0x96, CHR 0xE5, CHR 0xAD, CHR 0x90] link) of
     Inl e \<Rightarrow> Inl e
   | Inr b \<Rightarrow> map_sum id (\<lambda>kb. (\<lparr>rde_operation = RenderSend,
         rde_markdown = ([CHR 0xE5, CHR 0xBE, CHR 0x85, CHR 0xE8, CHR 0xAE, CHR 0xA4, CHR 0xE8, CHR 0xAF, CHR 0x81]
             @ '' Session '' @ [CHR 0xE5, CHR 0xB8, CHR 0x96, CHR 0xE5, CHR 0xAD, CHR 0x90, CHR 0xE5, CHR 0xB7,
             CHR 0xB2, CHR 0xE5, CHR 0x88, CHR 0x9B, CHR 0xE5, CHR 0xBB, CHR 0xBA, CHR 0xE3, CHR 0x80, CHR 0x82,
             CHR 0xE8, CHR 0xBF, CHR 0x9B, CHR 0xE5, CHR 0x85, CHR 0xA5, CHR 0xE8, CHR 0xAF, CHR 0x84, CHR 0xE8,
             CHR 0xAE, CHR 0xBA, CHR 0xE4, CHR 0xB8, CHR 0xB2, CHR 0xE5, CHR 0xB9, CHR 0xB6, CHR 0xE5, CHR 0x8F,
             CHR 0x91, CHR 0xE9, CHR 0x80, CHR 0x81] @ '' '' @ [CHR 0x60] @ ''/totp <'' @ [CHR 0xE9, CHR 0xAA,
             CHR 0x8C, CHR 0xE8, CHR 0xAF, CHR 0x81, CHR 0xE7, CHR 0xA0, CHR 0x81] @ ''>'' @ [CHR 0x60] @ [CHR 0xE3,
             CHR 0x80, CHR 0x82]),
         rde_plain = Some ([CHR 0xE5, CHR 0xBE, CHR 0x85, CHR 0xE8, CHR 0xAE, CHR 0xA4, CHR 0xE8, CHR 0xAF, CHR 0x81]
             @ '' Session '' @ [CHR 0xE5, CHR 0xB8, CHR 0x96, CHR 0xE5, CHR 0xAD, CHR 0x90, CHR 0xE5, CHR 0xB7,
             CHR 0xB2, CHR 0xE5, CHR 0x88, CHR 0x9B, CHR 0xE5, CHR 0xBB, CHR 0xBA, CHR 0xE3, CHR 0x80, CHR 0x82,
             CHR 0xE8, CHR 0xBF, CHR 0x9B, CHR 0xE5, CHR 0x85, CHR 0xA5, CHR 0xE8, CHR 0xAF, CHR 0x84, CHR 0xE8,
             CHR 0xAE, CHR 0xBA, CHR 0xE4, CHR 0xB8, CHR 0xB2, CHR 0xE5, CHR 0xB9, CHR 0xB6, CHR 0xE5, CHR 0x8F,
             CHR 0x91, CHR 0xE9, CHR 0x80, CHR 0x81] @ '' /totp <'' @ [CHR 0xE9, CHR 0xAA, CHR 0x8C, CHR 0xE8,
             CHR 0xAF, CHR 0x81, CHR 0xE7, CHR 0xA0, CHR 0x81] @ ''>'' @ [CHR 0xE3, CHR 0x80, CHR 0x82]),
             rde_keyboard = None\<rparr>, kb))
       (tg_result (keyboard_new [[b]])))"

definition generation_i64 :: "u64 \<Rightarrow> i64" where
  "generation_i64 g = (if int g \<le> i64_max then int g else 0)"

definition forget_new :: "new_env \<Rightarrow> string \<Rightarrow> unit act" where
  "forget_new env k = and_then (ignoring (drop_record k)) (\<lambda>_. ignoring (drop_interaction env k))"

definition finish_new_prompt :: "new_env \<Rightarrow> string \<Rightarrow> json \<Rightarrow> string \<Rightarrow> bool \<Rightarrow> unit act" where
  "finish_new_prompt env k draft prompt expired =
     and_then (new_interaction_revision env k draft) (\<lambda>(current, revision).
     and_then (now_ms env) (\<lambda>now.
     and_then (on_control ((if expired then claim_expired_control_interaction else claim_control_interaction)
       (ne_de env) k (ci_user_id current) (ci_chat_id current) revision now)) (\<lambda>claim. case claim of
       None \<Rightarrow> act_ok ()
     | Some claimed \<Rightarrow> let chat = ci_chat_id claimed;
         space_id = ''telegram-pending-'' @ show_int chat @ ''-'' @ show_int (ci_created_at_ms claimed) in
         and_then (\<lambda>w. (Inr (generation_i64 (ne_generation env (nw_asked w))), w)) (\<lambda>generation.
         and_then (attempt (create_pending_session_space env chat generation (ci_payload claimed) prompt space_id)) (\<lambda>r.
         case r of
           Inl e \<Rightarrow>
             and_then (forget_new env k) (\<lambda>_.
             and_then (say env chat ((''Session '' @ [CHR 0xE5, CHR 0x88, CHR 0x9B, CHR 0xE5, CHR 0xBB, CHR 0xBA,
                 CHR 0xE5, CHR 0xA4, CHR 0xB1, CHR 0xE8, CHR 0xB4, CHR 0xA5, CHR 0xEF, CHR 0xBC, CHR 0x8C, CHR 0xE8,
                 CHR 0xAF, CHR 0xB7, CHR 0xE9, CHR 0x87, CHR 0x8D, CHR 0xE6, CHR 0x96, CHR 0xB0, CHR 0xE6, CHR 0x89,
                 CHR 0xA7, CHR 0xE8, CHR 0xA1, CHR 0x8C] @ '' /new'' @ [CHR 0xEF, CHR 0xBC, CHR 0x9A])
                 @ e)) (\<lambda>_. act_err e))
         | Inr (space, post) \<Rightarrow>
             and_then (drop_record k) (\<lambda>_.
             and_then (drop_interaction env k) (\<lambda>_.
             and_then (from_result (pending_session_confirmation
               (telegram_message_link (sps_channel_chat_id space) post))) (\<lambda>(rendered, markup).
             and_then (send_control_rendered env chat rendered (Some markup)) (\<lambda>_. act_ok ())))))))))"

section \<open>Project and prompt\<close>

definition index_i64 :: "string \<Rightarrow> json \<Rightarrow> i64" where
  "index_i64 k v = unwrap_or (ji64 k v) 0"

definition payload_of :: "json \<Rightarrow> json" where
  "payload_of draft = unwrap_or (jget ''payload'' draft) (jobj [])"

definition send_new_prompt_or_finish :: "new_env \<Rightarrow> string \<Rightarrow> json \<Rightarrow> unit act" where
  "send_new_prompt_or_finish env k draft = (case Option.bind (jget ''payload'' draft) (jstr ''initial_prompt'') of
     Some prompt \<Rightarrow> finish_new_prompt env k draft prompt False
   | None \<Rightarrow>
       and_then (new_choice_markup env k draft [(''hello'', ''Hello'', ''Hello'')]) (\<lambda>(markup, next).
       say_with_markup env (index_i64 ''chat_id'' next)
         ([CHR 0xE8, CHR 0xAF, CHR 0xB7, CHR 0xE5, CHR 0x8F, CHR 0x91, CHR 0xE9, CHR 0x80, CHR 0x81, CHR 0xE7,
             CHR 0xAC, CHR 0xAC, CHR 0xE4, CHR 0xB8, CHR 0x80, CHR 0xE6, CHR 0x9D, CHR 0xA1] @ '' prompt''
             @ [CHR 0xE3, CHR 0x80, CHR 0x82] @ ''30 '' @ [CHR 0xE7, CHR 0xA7, CHR 0x92, CHR 0xE5, CHR 0x86, CHR 0x85,
             CHR 0xE6, CHR 0x9C, CHR 0xAA, CHR 0xE5, CHR 0x8F, CHR 0x91, CHR 0xE9, CHR 0x80, CHR 0x81, CHR 0xE6,
             CHR 0x97, CHR 0xB6, CHR 0xE5, CHR 0xB0, CHR 0x86, CHR 0xE4, CHR 0xBD, CHR 0xBF, CHR 0xE7, CHR 0x94,
             CHR 0xA8] @ '' '' @ [CHR 0x60] @ ''Hello'' @ [CHR 0x60] @ [CHR 0xE3, CHR 0x80, CHR 0x82]) (Some markup)))"

text \<open>The search of projects always returns (\<open>project_search_ends\<close>), so the first case does not arise.\<close>

definition searching :: "(string + 'a) option \<Rightarrow> 'a act" where
  "searching r = (case r of None \<Rightarrow> act_err ''search did not return'' | Some x \<Rightarrow> from_result x)"

definition handle_new_project_value :: "new_env \<Rightarrow> string \<Rightarrow> json \<Rightarrow> string \<Rightarrow> unit act" where
  "handle_new_project_value env k draft v =
     and_then (searching (new_existing_projects (ne_fs env) (ne_home env) (ne_workspace_root env) v)) (\<lambda>candidates.
     case candidates of
       [only] \<Rightarrow>
         and_then (put_field ''cwd'' (JStr only) (payload_of draft)) (\<lambda>payload.
         and_then (advance_new_draft env k draft ''prompt'' payload True) (\<lambda>next.
         send_new_prompt_or_finish env k next))
     | c1 # c2 # cs \<Rightarrow>
         and_then (advance_new_draft env k draft ''project_choice'' (payload_of draft) False) (\<lambda>next.
         and_then (new_choice_markup env k next (map (\<lambda>c. (''project'', c, c)) candidates)) (\<lambda>(markup, next1).
         say_with_markup env (index_i64 ''chat_id'' next1) [CHR 0xE6, CHR 0x89, CHR 0xBE, CHR 0xE5, CHR 0x88,
             CHR 0xB0, CHR 0xE5, CHR 0xA4, CHR 0x9A, CHR 0xE4, CHR 0xB8, CHR 0xAA, CHR 0xE9, CHR 0xA1, CHR 0xB9,
             CHR 0xE7, CHR 0x9B, CHR 0xAE, CHR 0xEF, CHR 0xBC, CHR 0x8C, CHR 0xE8, CHR 0xAF, CHR 0xB7, CHR 0xE9,
             CHR 0x80, CHR 0x89, CHR 0xE6, CHR 0x8B, CHR 0xA9, CHR 0xE5, CHR 0xB7, CHR 0xA5, CHR 0xE4, CHR 0xBD,
             CHR 0x9C, CHR 0xE7, CHR 0x9B, CHR 0xAE, CHR 0xE5, CHR 0xBD, CHR 0x95, CHR 0xEF, CHR 0xBC,
             CHR 0x9A] (Some markup)))
     | [] \<Rightarrow> let raw = expand_user_path (ne_home env) (trim v);
           nothing = say env (index_i64 ''chat_id'' draft) [CHR 0xE6, CHR 0xB2, CHR 0xA1, CHR 0xE6, CHR 0x9C,
               CHR 0x89, CHR 0xE6, CHR 0x89, CHR 0xBE, CHR 0xE5, CHR 0x88, CHR 0xB0, CHR 0xE5, CHR 0x8C, CHR 0xB9,
               CHR 0xE9, CHR 0x85, CHR 0x8D, CHR 0xE9, CHR 0xA1, CHR 0xB9, CHR 0xE7, CHR 0x9B, CHR 0xAE, CHR 0xE3,
               CHR 0x80, CHR 0x82, CHR 0xE8, CHR 0xAF, CHR 0xB7, CHR 0xE5, CHR 0x8F, CHR 0x91, CHR 0xE9, CHR 0x80,
               CHR 0x81, CHR 0xE5, CHR 0x85, CHR 0x81, CHR 0xE8, CHR 0xAE, CHR 0xB8, CHR 0xE7, CHR 0x9B, CHR 0xAE,
               CHR 0xE5, CHR 0xBD, CHR 0x95, CHR 0xE4, CHR 0xB8, CHR 0xAD, CHR 0xE7, CHR 0x9A, CHR 0x84, CHR 0xE6,
               CHR 0x98, CHR 0x8E, CHR 0xE7, CHR 0xA1, CHR 0xAE, CHR 0xE8, CHR 0xB7, CHR 0xAF, CHR 0xE5, CHR 0xBE,
               CHR 0x84, CHR 0xE3, CHR 0x80, CHR 0x82] in
         if is_absolute raw \<and> \<not> fs_exists (ne_fs env) raw then
           and_then (from_result (fs_canonicalize (ne_fs env) (ne_workspace_root env))) (\<lambda>root.
           if path_starts_with root raw \<and> missing_path_has_safe_ancestor (ne_fs env) root raw then
             and_then (put_field ''project_target'' (JStr raw) (payload_of draft)) (\<lambda>payload.
             and_then (advance_new_draft env k draft ''project_confirmation'' payload False) (\<lambda>next.
             and_then (new_choice_markup env k next [(''create_project'', raw, [CHR 0xE5, CHR 0x88, CHR 0x9B,
                 CHR 0xE5, CHR 0xBB, CHR 0xBA, CHR 0xE7, CHR 0x9B, CHR 0xAE, CHR 0xE5, CHR 0xBD,
                 CHR 0x95])]) (\<lambda>(markup, next1).
             say_with_markup env (index_i64 ''chat_id'' next1)
               (([CHR 0xE7, CHR 0x9B, CHR 0xAE, CHR 0xE5, CHR 0xBD, CHR 0x95] @ '' '' @ [CHR 0x60])
                   @ truncate_text raw @ ([CHR 0x60] @ '' '' @ [CHR 0xE4, CHR 0xB8, CHR 0x8D, CHR 0xE5, CHR 0xAD,
                   CHR 0x98, CHR 0xE5, CHR 0x9C, CHR 0xA8, CHR 0xEF, CHR 0xBC, CHR 0x8C, CHR 0xE6, CHR 0x98, CHR 0xAF,
                   CHR 0xE5, CHR 0x90, CHR 0xA6, CHR 0xE5, CHR 0x88, CHR 0x9B, CHR 0xE5, CHR 0xBB, CHR 0xBA, CHR 0xEF,
                   CHR 0xBC, CHR 0x9F])) (Some markup))))
           else nothing)
         else nothing)"

section \<open>Starting with /new\<close>

definition model_choices_of :: "string \<Rightarrow> model_catalog \<Rightarrow> (string \<times> string \<times> string) list" where
  "model_choices_of event models = map (\<lambda>m. (event, mch_model m, mch_display_name m)) (mct_entries models)"

definition effort_choices_of :: "string \<Rightarrow> model_choice \<Rightarrow> (string \<times> string \<times> string) list" where
  "effort_choices_of event m = map (\<lambda>e. (event, e, e)) (mch_efforts m)"

definition plan_choices :: "(string \<times> string \<times> string) list" where
  "plan_choices = [(''plan_choice'', ''yes'', [CHR 0xE6, CHR 0x98, CHR 0xAF]), (''plan_choice'', ''no'', [CHR 0xE5,
      CHR 0x90, CHR 0xA6])]"

text \<open>With the phase fixed, the contract can only fail for want of models.\<close>

definition contract_failed :: "control_error \<Rightarrow> string" where
  "contract_failed e = ''control /new contract failed: '' @ (case e of NoModels \<Rightarrow> ''NoModels'' | _ \<Rightarrow> [])"

definition begin_interactive :: "new_env \<Rightarrow> string \<Rightarrow> i64 \<Rightarrow> i64 \<Rightarrow> i64 \<Rightarrow> unit act" where
  "begin_interactive env k chat user message =
     and_then (choosing_models env) (\<lambda>models.
     and_then (from_result (map_sum contract_failed id (control_dispatch id (ReqNew
       \<lparr>ndr_phase = PhNormalModel, ndr_normal_model = None, ndr_plan_model = None\<rparr> (control_models models))))) (\<lambda>effects.
     and_then (make_draft env chat user ''normal_model'' (jobj [(''channel_post_id'', JInt (max message 1))])) (\<lambda>draft.
     and_then (persist_new_draft env k draft) (\<lambda>_.
     and_then (new_choice_markup env k draft (model_choices_of ''normal_model'' models)) (\<lambda>(markup, draft1).
     send_new_render_effect env chat (new_render_effect effects RenderSend)
       ([CHR 0xE8, CHR 0xAF, CHR 0xB7, CHR 0xE9, CHR 0x80, CHR 0x89, CHR 0xE6, CHR 0x8B, CHR 0xA9] @ '' ''
           @ [CHR 0xE5, CHR 0xBD, CHR 0x93, CHR 0xE5, CHR 0x89, CHR 0x8D, CHR 0xE6, CHR 0xA8, CHR 0xA1, CHR 0xE5,
           CHR 0xBC, CHR 0x8F] @ '' '' @ [CHR 0xE4, CHR 0xBD, CHR 0xBF, CHR 0xE7, CHR 0x94, CHR 0xA8, CHR 0xE7,
           CHR 0x9A, CHR 0x84, CHR 0xE6, CHR 0xA8, CHR 0xA1, CHR 0xE5, CHR 0x9E, CHR 0x8B, CHR 0xEF, CHR 0xBC,
           CHR 0x9A]) ([CHR 0xE8, CHR 0xAF, CHR 0xB7, CHR 0xE9, CHR 0x80, CHR 0x89, CHR 0xE6, CHR 0x8B, CHR 0xA9]
           @ '' '' @ [CHR 0xE5, CHR 0xBD, CHR 0x93, CHR 0xE5, CHR 0x89, CHR 0x8D, CHR 0xE6, CHR 0xA8, CHR 0xA1,
           CHR 0xE5, CHR 0xBC, CHR 0x8F] @ '' '' @ [CHR 0xE4, CHR 0xBD, CHR 0xBF, CHR 0xE7, CHR 0x94, CHR 0xA8,
           CHR 0xE7, CHR 0x9A, CHR 0x84, CHR 0xE6, CHR 0xA8, CHR 0xA1, CHR 0xE5, CHR 0x9E, CHR 0x8B, CHR 0xEF,
           CHR 0xBC, CHR 0x9A]) (Some markup))))))"

definition invalid_choice :: "string \<Rightarrow> string" where
  "invalid_choice suggestion = ([CHR 0xE6, CHR 0xA8, CHR 0xA1, CHR 0xE5, CHR 0x9E, CHR 0x8B, CHR 0xE3, CHR 0x80,
      CHR 0x81] @ ''effort '' @ [CHR 0xE6, CHR 0x88, CHR 0x96, CHR 0xE6, CHR 0xA8, CHR 0xA1, CHR 0xE5, CHR 0xBC,
      CHR 0x8F, CHR 0xE6, CHR 0x97, CHR 0xA0, CHR 0xE6, CHR 0x95, CHR 0x88, CHR 0xE3, CHR 0x80, CHR 0x82, CHR 0xE4,
      CHR 0xBD, CHR 0xA0, CHR 0xE5, CHR 0x8F, CHR 0xAF, CHR 0xE8, CHR 0x83, CHR 0xBD, CHR 0xE6, CHR 0x83, CHR 0xB3,
      CHR 0xE5, CHR 0x8F, CHR 0x91, CHR 0xE9, CHR 0x80, CHR 0x81, CHR 0xEF, CHR 0xBC, CHR 0x9A]) @ [newline]
      @ [CHR 0x60] @ suggestion @ [CHR 0x60]"

text \<open>The models that the arguments name and the payload of the draft; \<open>None\<close> when one of them is unknown.\<close>

definition arguments_payload :: "model_catalog \<Rightarrow> new_arguments \<Rightarrow> i64 \<Rightarrow> json option" where
  "arguments_payload models a message = (case model_choice_named models (nar_model a) of
     None \<Rightarrow> None
   | Some normal \<Rightarrow>
       if nar_effort a \<notin> set (mch_efforts normal) then None
       else let payload = jmap [(''normal_model'', JStr (mch_model normal)), (''normal_effort'', JStr (nar_effort a)),
           (''channel_post_id'', JInt (max message 1))] in
         if nar_mode a \<noteq> Some ''planmode'' then Some (JObj payload)
         else (case model_choice_named models (unwrap_or (nar_plan_model a) []) of
             None \<Rightarrow> None
           | Some plan \<Rightarrow>
               if unwrap_or (nar_plan_effort a) [] \<notin> set (mch_efforts plan) then None
               else Some (JObj (bt_insert ''plan_effort'' (JStr (unwrap_or (nar_plan_effort a) []))
                 (bt_insert ''plan_model'' (JStr (mch_model plan)) payload)))))"

text \<open>\<open>draft["payload"][key] = v\<close>.\<close>

definition put_payload :: "string \<Rightarrow> json \<Rightarrow> json \<Rightarrow> json act" where
  "put_payload k v draft = and_then (put_field k v (unwrap_or (jget ''payload'' draft) JNull)) (\<lambda>payload.
     put_field ''payload'' payload draft)"

definition begin_with_arguments :: "new_env \<Rightarrow> string \<Rightarrow> i64 \<Rightarrow> i64 \<Rightarrow> i64 \<Rightarrow> string \<Rightarrow> unit act" where
  "begin_with_arguments env k chat user message text =
     and_then (choosing_models env) (\<lambda>models.
     let suggestion = new_argument_suggestion models (new_command_arguments text) in
     case parse_new_arguments text of
       Inl e \<Rightarrow> say env chat (e @ [newline] @ ([CHR 0xE4, CHR 0xBD, CHR 0xA0, CHR 0xE5, CHR 0x8F, CHR 0xAF,
           CHR 0xE8, CHR 0x83, CHR 0xBD, CHR 0xE6, CHR 0x83, CHR 0xB3, CHR 0xE5, CHR 0x8F, CHR 0x91, CHR 0xE9,
           CHR 0x80, CHR 0x81, CHR 0xEF, CHR 0xBC, CHR 0x9A] @ [CHR 0x60]) @ suggestion @ [CHR 0x60])
     | Inr a \<Rightarrow> (case arguments_payload models a message of
         None \<Rightarrow> say env chat (invalid_choice suggestion)
       | Some payload \<Rightarrow> let phase = (if nar_mode a = None then ''plan_choice'' else ''project'') in
           and_then (make_draft env chat user phase payload) (\<lambda>draft.
           case nar_cwd a of
             Some cwd \<Rightarrow>
               and_then (put_payload ''cwd'' (JStr cwd) draft) (\<lambda>d1.
               and_then (case nar_prompt a of
                   None \<Rightarrow> act_ok d1
                 | Some prompt \<Rightarrow> put_payload ''initial_prompt'' (JStr prompt) d1) (\<lambda>d2.
               and_then (persist_new_draft env k d2) (\<lambda>_. send_new_prompt_or_finish env k d2)))
           | None \<Rightarrow>
               and_then (persist_new_draft env k draft) (\<lambda>_.
               if phase = ''plan_choice'' then
                 and_then (new_choice_markup env k draft plan_choices) (\<lambda>(markup, d1).
                 say_with_markup env chat ([CHR 0xE6, CHR 0x96, CHR 0xB0] @ '' Session '' @ [CHR 0xE6, CHR 0x98,
                     CHR 0xAF, CHR 0xE5, CHR 0x90, CHR 0xA6, CHR 0xE5, CHR 0x85, CHR 0x88, CHR 0xE8, CHR 0xBF,
                     CHR 0x9B, CHR 0xE5, CHR 0x85, CHR 0xA5] @ '' Plan Mode'' @ [CHR 0xEF, CHR 0xBC,
                     CHR 0x9F]) (Some markup))
               else say env chat [CHR 0xE8, CHR 0xAF, CHR 0xB7, CHR 0xE5, CHR 0x8F, CHR 0x91, CHR 0xE9, CHR 0x80,
                   CHR 0x81, CHR 0xE9, CHR 0xA1, CHR 0xB9, CHR 0xE7, CHR 0x9B, CHR 0xAE, CHR 0xE5, CHR 0x9C, CHR 0xB0,
                   CHR 0xE5, CHR 0x9D, CHR 0x80, CHR 0xE6, CHR 0x88, CHR 0x96, CHR 0xE9, CHR 0xA1, CHR 0xB9, CHR 0xE7,
                   CHR 0x9B, CHR 0xAE, CHR 0xE6, CHR 0x8F, CHR 0x8F, CHR 0xE8, CHR 0xBF, CHR 0xB0, CHR 0xEF, CHR 0xBC,
                   CHR 0x9B, CHR 0xE4, CHR 0xB8, CHR 0x8B, CHR 0xE4, CHR 0xB8, CHR 0x80, CHR 0xE6, CHR 0x9D, CHR 0xA1,
                   CHR 0xE6, CHR 0x96, CHR 0x87, CHR 0xE6, CHR 0x9C, CHR 0xAC, CHR 0xE6, CHR 0xB6, CHR 0x88, CHR 0xE6,
                   CHR 0x81, CHR 0xAF, CHR 0xE4, CHR 0xBC, CHR 0x9A, CHR 0xE8, CHR 0xA2, CHR 0xAB, CHR 0xE8, CHR 0xAF,
                   CHR 0x86, CHR 0xE5, CHR 0x88, CHR 0xAB, CHR 0xE4, CHR 0xB8, CHR 0xBA, CHR 0xE9, CHR 0xA1, CHR 0xB9,
                   CHR 0xE7, CHR 0x9B, CHR 0xAE, CHR 0xE3, CHR 0x80, CHR 0x82]))))"

text \<open>A draft of another person stops the command, an expired one is cleared away.\<close>

definition another_drafts :: "new_env \<Rightarrow> string \<Rightarrow> i64 \<Rightarrow> bool act" where
  "another_drafts env k user = and_then (new_record env k) (\<lambda>found. case found of
     None \<Rightarrow> act_ok False
   | Some existing \<Rightarrow> and_then (new_draft_expired env existing) (\<lambda>expired.
       act_ok (\<not> expired \<and> ji64 ''user_id'' existing \<noteq> Some user)))"

definition clear_expired :: "new_env \<Rightarrow> string \<Rightarrow> unit act" where
  "clear_expired env k = and_then (new_record env k) (\<lambda>found. case found of
     None \<Rightarrow> act_ok ()
   | Some existing \<Rightarrow> and_then (new_draft_expired env existing) (\<lambda>expired.
       if expired then forget_new env k else act_ok ()))"

definition begin_new_interaction :: "new_env \<Rightarrow> i64 \<Rightarrow> i64 option \<Rightarrow> i64 \<Rightarrow> string \<Rightarrow> unit act" where
  "begin_new_interaction env chat actor message text = (case actor of
     None \<Rightarrow> say env chat [CHR 0xE6, CHR 0x97, CHR 0xA0, CHR 0xE6, CHR 0xB3, CHR 0x95, CHR 0xE7, CHR 0xA1,
         CHR 0xAE, CHR 0xE8, CHR 0xAE, CHR 0xA4, CHR 0xE4, CHR 0xB8, CHR 0xAA, CHR 0xE4, CHR 0xBA, CHR 0xBA, CHR 0xE5,
         CHR 0x8F, CHR 0x91, CHR 0xE9, CHR 0x80, CHR 0x81, CHR 0xE8, CHR 0xBA, CHR 0xAB, CHR 0xE4, CHR 0xBB, CHR 0xBD,
         CHR 0xEF, CHR 0xBC, CHR 0x9B, CHR 0xE8, CHR 0xAF, CHR 0xB7, CHR 0xE5, CHR 0x85, CHR 0xB3, CHR 0xE9, CHR 0x97,
         CHR 0xAD, CHR 0xE5, CHR 0x8C, CHR 0xBF, CHR 0xE5, CHR 0x90, CHR 0x8D, CHR 0xE7, CHR 0xAE, CHR 0xA1, CHR 0xE7,
         CHR 0x90, CHR 0x86, CHR 0xE5, CHR 0x91, CHR 0x98, CHR 0xE5, CHR 0x90, CHR 0x8E, CHR 0xE9, CHR 0x87, CHR 0x8D,
         CHR 0xE8, CHR 0xAF, CHR 0x95, CHR 0xE3, CHR 0x80, CHR 0x82]
   | Some user \<Rightarrow> let k = new_draft_key chat in
       and_then (another_drafts env k user) (\<lambda>other.
       if other then say env chat ([CHR 0xE5, CHR 0xBD, CHR 0x93, CHR 0xE5, CHR 0x89, CHR 0x8D, CHR 0xE5, CHR 0xB7,
           CHR 0xB2, CHR 0xE6, CHR 0x9C, CHR 0x89, CHR 0xE5, CHR 0x8F, CHR 0xA6, CHR 0xE4, CHR 0xB8, CHR 0x80,
           CHR 0xE6, CHR 0x9D, CHR 0xA1] @ '' /new '' @ [CHR 0xE4, CHR 0xBA, CHR 0xA4, CHR 0xE4, CHR 0xBA, CHR 0x92,
           CHR 0xEF, CHR 0xBC, CHR 0x8C, CHR 0xE8, CHR 0xAF, CHR 0xB7, CHR 0xE5, CHR 0x85, CHR 0x88, CHR 0xE5,
           CHR 0xAE, CHR 0x8C, CHR 0xE6, CHR 0x88, CHR 0x90, CHR 0xE6, CHR 0x88, CHR 0x96, CHR 0xE7, CHR 0xAD,
           CHR 0x89, CHR 0xE5, CHR 0xBE, CHR 0x85, CHR 0xE5, CHR 0xAE, CHR 0x83, CHR 0xE8, CHR 0xBF, CHR 0x87,
           CHR 0xE6, CHR 0x9C, CHR 0x9F, CHR 0xE3, CHR 0x80, CHR 0x82])
       else and_then (clear_expired env k) (\<lambda>_.
         if new_command_arguments text = [] then begin_interactive env k chat user message
         else begin_with_arguments env k chat user message text)))"

section \<open>A press of a button\<close>

definition draft_of_record :: "new_phase \<Rightarrow> json \<Rightarrow> new_draft" where
  "draft_of_record phase payload = \<lparr>ndr_phase = phase, ndr_normal_model = jstr ''normal_model'' payload,
     ndr_plan_model = jstr ''plan_model'' payload\<rparr>"

definition dispatch_new_control_effects ::
  "json \<Rightarrow> string \<Rightarrow> string \<Rightarrow> model_option list \<Rightarrow> control_error + control_effect list" where
  "dispatch_new_control_effects draft event v models =
     (case (Option.bind (jstr ''phase'' draft) new_control_phase, new_control_event event) of
        (Some phase, Some ev) \<Rightarrow>
          control_dispatch id (ReqNewCallback (draft_of_record phase (payload_of draft)) ev v models)
      | _ \<Rightarrow> Inr [])"

text \<open>The texts the contract has for the event; whatever goes wrong there, the press goes on without.\<close>

definition logical_effects :: "new_env \<Rightarrow> json \<Rightarrow> string \<Rightarrow> string \<Rightarrow> control_effect list act" where
  "logical_effects env draft event v =
     (if new_control_event event = None then act_ok []
      else and_then (if event = ''cancel'' then act_ok [] else and_then (attempt (choosing_models env)) (\<lambda>r.
          act_ok (case r of Inl e \<Rightarrow> [] | Inr models \<Rightarrow> control_models models))) (\<lambda>models.
        act_ok (case dispatch_new_control_effects draft event v models of Inl e \<Rightarrow> [] | Inr effects \<Rightarrow> effects)))"

definition jget_or_null :: "string \<Rightarrow> json \<Rightarrow> json" where
  "jget_or_null k v = unwrap_or (jget k v) JNull"

definition without_target :: "json \<Rightarrow> json" where
  "without_target payload = (case payload of JObj m \<Rightarrow> JObj (bt_remove ''project_target'' m) | _ \<Rightarrow> payload)"

text \<open>One step forward: the draft is advanced, its buttons are made and sent.\<close>

definition next_step :: "new_env \<Rightarrow> string \<Rightarrow> i64 \<Rightarrow> json \<Rightarrow> string \<Rightarrow> json \<Rightarrow> (string \<times> string \<times> string) list
    \<Rightarrow> rendered_effect option \<Rightarrow> string \<Rightarrow> unit act" where
  "next_step env k chat draft phase payload choices rendered fallback_text =
     and_then (advance_new_draft env k draft phase payload False) (\<lambda>next.
     and_then (new_choice_markup env k next choices) (\<lambda>(markup, next1).
     send_new_render_effect env chat rendered fallback_text fallback_text (Some markup)))"

definition pressed_event_step ::
  "new_env \<Rightarrow> string \<Rightarrow> i64 \<Rightarrow> json \<Rightarrow> json \<Rightarrow> string \<Rightarrow> string \<Rightarrow> rendered_effect option \<Rightarrow> unit act" where
  "pressed_event_step env k chat draft payload event v rendered =
     (if event = ''cancel'' then
        and_then (drop_record k) (\<lambda>_. and_then (drop_interaction env k) (\<lambda>_. act_ok ()))
      else if event = ''normal_model'' then
        and_then (choosing_models env) (\<lambda>models. case model_choice_named models v of
          None \<Rightarrow> say env chat ([CHR 0xE6, CHR 0xA8, CHR 0xA1, CHR 0xE5, CHR 0x9E, CHR 0x8B, CHR 0xE5,
              CHR 0xB7, CHR 0xB2, CHR 0xE4, CHR 0xB8, CHR 0x8D, CHR 0xE5, CHR 0x8F, CHR 0xAF, CHR 0xE7, CHR 0x94,
              CHR 0xA8, CHR 0xEF, CHR 0xBC, CHR 0x8C, CHR 0xE8, CHR 0xAF, CHR 0xB7, CHR 0xE9, CHR 0x87, CHR 0x8D,
              CHR 0xE6, CHR 0x96, CHR 0xB0, CHR 0xE6, CHR 0x89, CHR 0xA7, CHR 0xE8, CHR 0xA1, CHR 0x8C] @ '' /new''
              @ [CHR 0xE3, CHR 0x80, CHR 0x82])
        | Some m \<Rightarrow> next_step env k chat draft ''normal_effort'' (jobj [(''normal_model'', JStr (mch_model m))])
            (effort_choices_of ''normal_effort'' m) rendered ([CHR 0xE6, CHR 0xA8, CHR 0xA1, CHR 0xE5, CHR 0x9E,
                CHR 0x8B, CHR 0xE6, CHR 0x94, CHR 0xAF, CHR 0xE6, CHR 0x8C, CHR 0x81, CHR 0xE4, CHR 0xBB, CHR 0xA5,
                CHR 0xE4, CHR 0xB8, CHR 0x8B] @ '' effort'' @ [CHR 0xEF, CHR 0xBC, CHR 0x9A]))
      else if event = ''normal_effort'' then
        and_then (put_field ''normal_effort'' (JStr v) payload) (\<lambda>next_payload.
        next_step env k chat draft ''plan_choice'' next_payload plan_choices rendered ([CHR 0xE6, CHR 0x96, CHR 0xB0]
            @ '' Session '' @ [CHR 0xE6, CHR 0x98, CHR 0xAF, CHR 0xE5, CHR 0x90, CHR 0xA6, CHR 0xE5, CHR 0x85,
            CHR 0x88, CHR 0xE8, CHR 0xBF, CHR 0x9B, CHR 0xE5, CHR 0x85, CHR 0xA5] @ '' Plan Mode'' @ [CHR 0xEF,
            CHR 0xBC, CHR 0x9F]))
      else if event = ''plan_choice'' then
        (if v = ''yes'' then
           and_then (advance_new_draft env k draft ''plan_model'' payload False) (\<lambda>next.
           and_then (choosing_models env) (\<lambda>models.
           and_then (new_choice_markup env k next (model_choices_of ''plan_model'' models)) (\<lambda>(markup, next1).
           send_new_render_effect env chat rendered ([CHR 0xE8, CHR 0xAF, CHR 0xB7, CHR 0xE9, CHR 0x80, CHR 0x89,
               CHR 0xE6, CHR 0x8B, CHR 0xA9] @ '' Plan Mode '' @ [CHR 0xE4, CHR 0xBD, CHR 0xBF, CHR 0xE7, CHR 0x94,
               CHR 0xA8, CHR 0xE7, CHR 0x9A, CHR 0x84, CHR 0xE6, CHR 0xA8, CHR 0xA1, CHR 0xE5, CHR 0x9E, CHR 0x8B,
               CHR 0xEF, CHR 0xBC, CHR 0x9A])
             ([CHR 0xE8, CHR 0xAF, CHR 0xB7, CHR 0xE9, CHR 0x80, CHR 0x89, CHR 0xE6, CHR 0x8B, CHR 0xA9]
                 @ '' Plan Mode '' @ [CHR 0xE4, CHR 0xBD, CHR 0xBF, CHR 0xE7, CHR 0x94, CHR 0xA8, CHR 0xE7, CHR 0x9A,
                 CHR 0x84, CHR 0xE6, CHR 0xA8, CHR 0xA1, CHR 0xE5, CHR 0x9E, CHR 0x8B, CHR 0xEF, CHR 0xBC,
                 CHR 0x9A]) (Some markup))))
         else next_step env k chat draft ''project'' payload [] rendered
           [CHR 0xE8, CHR 0xAF, CHR 0xB7, CHR 0xE5, CHR 0x8F, CHR 0x91, CHR 0xE9, CHR 0x80, CHR 0x81, CHR 0xE9,
               CHR 0xA1, CHR 0xB9, CHR 0xE7, CHR 0x9B, CHR 0xAE, CHR 0xE5, CHR 0x9C, CHR 0xB0, CHR 0xE5, CHR 0x9D,
               CHR 0x80, CHR 0xE6, CHR 0x88, CHR 0x96, CHR 0xE9, CHR 0xA1, CHR 0xB9, CHR 0xE7, CHR 0x9B, CHR 0xAE,
               CHR 0xE6, CHR 0x8F, CHR 0x8F, CHR 0xE8, CHR 0xBF, CHR 0xB0, CHR 0xEF, CHR 0xBC, CHR 0x9B, CHR 0xE4,
               CHR 0xB8, CHR 0x8B, CHR 0xE4, CHR 0xB8, CHR 0x80, CHR 0xE6, CHR 0x9D, CHR 0xA1, CHR 0xE6, CHR 0x96,
               CHR 0x87, CHR 0xE6, CHR 0x9C, CHR 0xAC, CHR 0xE6, CHR 0xB6, CHR 0x88, CHR 0xE6, CHR 0x81, CHR 0xAF,
               CHR 0xE4, CHR 0xBC, CHR 0x9A, CHR 0xE8, CHR 0xA2, CHR 0xAB, CHR 0xE8, CHR 0xAF, CHR 0x86, CHR 0xE5,
               CHR 0x88, CHR 0xAB, CHR 0xE4, CHR 0xB8, CHR 0xBA, CHR 0xE9, CHR 0xA1, CHR 0xB9, CHR 0xE7, CHR 0x9B,
               CHR 0xAE, CHR 0xE3, CHR 0x80, CHR 0x82])
      else if event = ''plan_model'' then
        and_then (choosing_models env) (\<lambda>models. case model_choice_named models v of
          None \<Rightarrow> say env chat (''Plan model '' @ [CHR 0xE5, CHR 0xB7, CHR 0xB2, CHR 0xE4, CHR 0xB8,
              CHR 0x8D, CHR 0xE5, CHR 0x8F, CHR 0xAF, CHR 0xE7, CHR 0x94, CHR 0xA8, CHR 0xEF, CHR 0xBC, CHR 0x8C,
              CHR 0xE8, CHR 0xAF, CHR 0xB7, CHR 0xE9, CHR 0x87, CHR 0x8D, CHR 0xE6, CHR 0x96, CHR 0xB0, CHR 0xE6,
              CHR 0x89, CHR 0xA7, CHR 0xE8, CHR 0xA1, CHR 0x8C] @ '' /new'' @ [CHR 0xE3, CHR 0x80, CHR 0x82])
        | Some m \<Rightarrow> next_step env k chat draft ''plan_effort'' (jobj [
              (''normal_model'', jget_or_null ''normal_model'' payload),
              (''normal_effort'', jget_or_null ''normal_effort'' payload), (''plan_model'', JStr (mch_model m))])
            (effort_choices_of ''plan_effort'' m) rendered ([CHR 0xE6, CHR 0xA8, CHR 0xA1, CHR 0xE5, CHR 0x9E,
                CHR 0x8B, CHR 0xE6, CHR 0x94, CHR 0xAF, CHR 0xE6, CHR 0x8C, CHR 0x81, CHR 0xE4, CHR 0xBB, CHR 0xA5,
                CHR 0xE4, CHR 0xB8, CHR 0x8B] @ '' effort'' @ [CHR 0xEF, CHR 0xBC, CHR 0x9A]))
      else if event = ''plan_effort'' then
        and_then (put_field ''plan_effort'' (JStr v) payload) (\<lambda>next_payload.
        next_step env k chat draft ''project'' next_payload [] rendered
          [CHR 0xE8, CHR 0xAF, CHR 0xB7, CHR 0xE5, CHR 0x8F, CHR 0x91, CHR 0xE9, CHR 0x80, CHR 0x81, CHR 0xE9,
              CHR 0xA1, CHR 0xB9, CHR 0xE7, CHR 0x9B, CHR 0xAE, CHR 0xE5, CHR 0x9C, CHR 0xB0, CHR 0xE5, CHR 0x9D,
              CHR 0x80, CHR 0xE6, CHR 0x88, CHR 0x96, CHR 0xE9, CHR 0xA1, CHR 0xB9, CHR 0xE7, CHR 0x9B, CHR 0xAE,
              CHR 0xE6, CHR 0x8F, CHR 0x8F, CHR 0xE8, CHR 0xBF, CHR 0xB0, CHR 0xEF, CHR 0xBC, CHR 0x9B, CHR 0xE4,
              CHR 0xB8, CHR 0x8B, CHR 0xE4, CHR 0xB8, CHR 0x80, CHR 0xE6, CHR 0x9D, CHR 0xA1, CHR 0xE6, CHR 0x96,
              CHR 0x87, CHR 0xE6, CHR 0x9C, CHR 0xAC, CHR 0xE6, CHR 0xB6, CHR 0x88, CHR 0xE6, CHR 0x81, CHR 0xAF,
              CHR 0xE4, CHR 0xBC, CHR 0x9A, CHR 0xE8, CHR 0xA2, CHR 0xAB, CHR 0xE8, CHR 0xAF, CHR 0x86, CHR 0xE5,
              CHR 0x88, CHR 0xAB, CHR 0xE4, CHR 0xB8, CHR 0xBA, CHR 0xE9, CHR 0xA1, CHR 0xB9, CHR 0xE7, CHR 0x9B,
              CHR 0xAE, CHR 0xE3, CHR 0x80, CHR 0x82])
      else if event = ''project'' then handle_new_project_value env k draft v
      else if event = ''create_project'' then let target = unwrap_or (jstr ''project_target'' payload) [] in
        and_then (from_result (ne_create_dir env target)) (\<lambda>_.
        and_then (put_field ''cwd'' (JStr target) payload) (\<lambda>p1.
        and_then (advance_new_draft env k draft ''prompt'' (without_target p1) True) (\<lambda>next.
        send_new_prompt_or_finish env k next)))
      else if event = ''hello'' then finish_new_prompt env k draft ''Hello'' False
      else say env chat ([CHR 0xE8, CHR 0xAF, CHR 0xA5, CHR 0xE9, CHR 0x80, CHR 0x89, CHR 0xE6, CHR 0x8B, CHR 0xA9,
          CHR 0xE4, CHR 0xB8, CHR 0x8E, CHR 0xE5, CHR 0xBD, CHR 0x93, CHR 0xE5, CHR 0x89, CHR 0x8D, CHR 0xE6,
          CHR 0xAD, CHR 0xA5, CHR 0xE9, CHR 0xAA, CHR 0xA4, CHR 0xE4, CHR 0xB8, CHR 0x8D, CHR 0xE5, CHR 0x8C,
          CHR 0xB9, CHR 0xE9, CHR 0x85, CHR 0x8D, CHR 0xEF, CHR 0xBC, CHR 0x8C, CHR 0xE8, CHR 0xAF, CHR 0xB7,
          CHR 0xE9, CHR 0x87, CHR 0x8D, CHR 0xE6, CHR 0x96, CHR 0xB0, CHR 0xE6, CHR 0x89, CHR 0xA7, CHR 0xE8,
          CHR 0xA1, CHR 0x8C] @ '' /new'' @ [CHR 0xE3, CHR 0x80, CHR 0x82]))"

text \<open>The checks of a press: the draft, and the callback that the press used up.\<close>

definition take_new_press :: "new_env \<Rightarrow> telegram_callback \<Rightarrow> (json \<times> json control_callback) option act" where
  "take_new_press env c = (let
     nonce = unwrap_or (strip_prefix ''new:'' (tcb_data c)) [];
     chat = tcb_chat_id c;
     refused = (\<lambda>text. and_then (acknowledge_callback env (tcb_id c) text) (\<lambda>_. act_ok None)) in
     and_then (new_record env (new_draft_key chat)) (\<lambda>found. case found of
       None \<Rightarrow> refused [CHR 0xE9, CHR 0x80, CHR 0x89, CHR 0xE6, CHR 0x8B, CHR 0xA9, CHR 0xE5, CHR 0xB7,
           CHR 0xB2, CHR 0xE5, CHR 0xA4, CHR 0xB1, CHR 0xE6, CHR 0x95, CHR 0x88]
     | Some draft \<Rightarrow>
         and_then (new_draft_expired env draft) (\<lambda>expired.
         if expired \<or> ji64 ''user_id'' draft \<noteq> act_user_id (tcb_actor c) then refused [CHR 0xE9, CHR 0x80,
             CHR 0x89, CHR 0xE6, CHR 0x8B, CHR 0xA9, CHR 0xE5, CHR 0xB7, CHR 0xB2, CHR 0xE8, CHR 0xBF, CHR 0x87,
             CHR 0xE6, CHR 0x9C, CHR 0x9F, CHR 0xE6, CHR 0x88, CHR 0x96, CHR 0xE6, CHR 0x97, CHR 0xA0, CHR 0xE6,
             CHR 0x9D, CHR 0x83, CHR 0xE6, CHR 0x93, CHR 0x8D, CHR 0xE4, CHR 0xBD, CHR 0x9C]
         else (case act_user_id (tcb_actor c) of
           None \<Rightarrow> refused [CHR 0xE6, CHR 0x97, CHR 0xA0, CHR 0xE6, CHR 0xB3, CHR 0x95, CHR 0xE7, CHR 0xA1,
               CHR 0xAE, CHR 0xE8, CHR 0xAE, CHR 0xA4, CHR 0xE5, CHR 0x8F, CHR 0x91, CHR 0xE9, CHR 0x80, CHR 0x81,
               CHR 0xE8, CHR 0x80, CHR 0x85]
         | Some user \<Rightarrow>
             and_then (now_ms env) (\<lambda>now.
             and_then (on_control (consume_control_callback (ne_de env) nonce user chat now)) (\<lambda>taken. case taken of
               None \<Rightarrow> refused [CHR 0xE9, CHR 0x80, CHR 0x89, CHR 0xE6, CHR 0x8B, CHR 0xA9, CHR 0xE5,
                   CHR 0xB7, CHR 0xB2, CHR 0xE5, CHR 0xA4, CHR 0x84, CHR 0xE7, CHR 0x90, CHR 0x86, CHR 0xE6, CHR 0x88,
                   CHR 0x96, CHR 0xE5, CHR 0xB7, CHR 0xB2, CHR 0xE8, CHR 0xBF, CHR 0x87, CHR 0xE6, CHR 0x9C, CHR 0x9F]
             | Some stored \<Rightarrow> act_ok (Some (draft, stored))))))))"

definition handle_new_callback :: "new_env \<Rightarrow> telegram_callback \<Rightarrow> unit act" where
  "handle_new_callback env c = (let chat = tcb_chat_id c; k = new_draft_key chat in
     and_then (take_new_press env c) (\<lambda>taken. case taken of
       None \<Rightarrow> act_ok ()
     | Some (draft0, stored) \<Rightarrow> let event = cc_action stored; v = unwrap_or (jstr ''value'' (cc_payload stored)) [] in
         and_then (acknowledge_callback env (tcb_id c) [CHR 0xE5, CHR 0xB7, CHR 0xB2, CHR 0xE6, CHR 0x94, CHR 0xB6,
             CHR 0xE5, CHR 0x88, CHR 0xB0]) (\<lambda>_.
         and_then (put_field ''choices'' (jobj []) draft0) (\<lambda>draft.
         and_then (logical_effects env draft event v) (\<lambda>effects.
         and_then (case new_render_effect effects RenderEdit of
             None \<Rightarrow> act_ok () | Some r \<Rightarrow> edit_rendered env chat (tcb_message_id c) r) (\<lambda>_.
         pressed_event_step env k chat draft (payload_of draft) event v
           (new_render_effect effects RenderSend)))))))"

section \<open>A text, and time running out\<close>

text \<open>\<open>True\<close>: the text belonged to the conversation.\<close>

definition handle_new_text :: "new_env \<Rightarrow> i64 \<Rightarrow> i64 option \<Rightarrow> string \<Rightarrow> bool act" where
  "handle_new_text env chat actor text = (let k = new_draft_key chat in
     and_then (new_record env k) (\<lambda>found. case found of
       None \<Rightarrow> act_ok False
     | Some draft \<Rightarrow>
         if ji64 ''user_id'' draft \<noteq> actor then act_ok False
         else and_then (new_draft_expired env draft) (\<lambda>expired.
           and_then (if expired then
               and_then (drop_record k) (\<lambda>_.
               and_then (ignoring (drop_interaction env k)) (\<lambda>_.
               say env chat ('' /new '' @ [CHR 0xE4, CHR 0xBA, CHR 0xA4, CHR 0xE4, CHR 0xBA, CHR 0x92, CHR 0xE5,
                   CHR 0xB7, CHR 0xB2, CHR 0xE8, CHR 0xBF, CHR 0x87, CHR 0xE6, CHR 0x9C, CHR 0x9F, CHR 0xEF, CHR 0xBC,
                   CHR 0x8C, CHR 0xE8, CHR 0xAF, CHR 0xB7, CHR 0xE9, CHR 0x87, CHR 0x8D, CHR 0xE6, CHR 0x96, CHR 0xB0,
                   CHR 0xE6, CHR 0x89, CHR 0xA7, CHR 0xE8, CHR 0xA1, CHR 0x8C] @ '' /new'' @ [CHR 0xE3, CHR 0x80,
                   CHR 0x82])))
             else let phase = unwrap_or (jstr ''phase'' draft) [] in
               if phase = ''project'' \<or> phase = ''project_choice'' \<or> phase = ''project_confirmation''
               then handle_new_project_value env k draft (trim text)
               else if phase = ''prompt'' then finish_new_prompt env k draft (trim text) False
               else say env chat ([CHR 0xE8, CHR 0xAF, CHR 0xB7, CHR 0xE4, CHR 0xBD, CHR 0xBF, CHR 0xE7, CHR 0x94,
                   CHR 0xA8, CHR 0xE5, CHR 0xBD, CHR 0x93, CHR 0xE5, CHR 0x89, CHR 0x8D, CHR 0xE6, CHR 0x8C, CHR 0x89,
                   CHR 0xE9, CHR 0x92, CHR 0xAE, CHR 0xE5, CHR 0xAE, CHR 0x8C, CHR 0xE6, CHR 0x88, CHR 0x90]
                   @ '' /new '' @ [CHR 0xE9, CHR 0x80, CHR 0x89, CHR 0xE6, CHR 0x8B, CHR 0xA9, CHR 0xE3, CHR 0x80,
                   CHR 0x82])) (\<lambda>_. act_ok True))))"

definition expire_new_interaction :: "new_env \<Rightarrow> string \<times> json \<Rightarrow> unit act" where
  "expire_new_interaction env = (\<lambda>(k, draft). let expires = unwrap_or (ji64 ''expires_at_ms'' draft) i64_max in
     and_then (now_ms env) (\<lambda>now.
     if now < expires then act_ok ()
     else if unwrap_or (jstr ''phase'' draft) [] = ''prompt''
     then ignoring (finish_new_prompt env k draft ''Hello'' True)
     else (case (ji64 ''user_id'' draft, ji64 ''chat_id'' draft) of
         (Some user, Some chat) \<Rightarrow> and_then (attempt (new_interaction_revision env k draft)) (\<lambda>r. case r of
           Inl e \<Rightarrow> act_ok ()
         | Inr (current, revision) \<Rightarrow>
             and_then (now_ms env) (\<lambda>now1.
             and_then (attempt (on_control (claim_expired_control_interaction (ne_de env) k user chat revision now1))) (\<lambda>claim.
             case claim of
               Inr (Some i) \<Rightarrow> forget_new env k
             | _ \<Rightarrow> act_ok ())))
       | _ \<Rightarrow> act_ok ())))"

definition run_new_interaction_expirer :: "new_env \<Rightarrow> unit act" where
  "run_new_interaction_expirer env =
     and_then (attempt (see_spaces (workflow_records (ne_de env) ''new''))) (\<lambda>r. case r of
       Inl e \<Rightarrow> act_ok ()
     | Inr records \<Rightarrow> each_one (expire_new_interaction env) records)"

end
