(* ===== verification/NewFlowProps.thy ===== *)
theory NewFlowProps
  imports NewFlow ControlProps
begin

text \<open>
  The conversation of \<open>/new\<close> in the daemon: a press is taken once whatever happens later, a
  conversation is closed to everybody but the person who started it, and two ways in which it goes
  astray.
\<close>

section \<open>Actions that leave a nonce dead\<close>

text \<open>\<open>spent env n w\<close>: no callback with the nonce \<open>n\<close> is live, and the nonce is not drawn again.\<close>

definition spent :: "new_env \<Rightarrow> string \<Rightarrow> new_world \<Rightarrow> bool" where
  "spent env n w \<longleftrightarrow> callback_dead n (nw_control w) \<and> (\<forall>k \<ge> nw_nonces w. ne_nonce env k \<noteq> n)"

definition keeps :: "new_env \<Rightarrow> string \<Rightarrow> 'a act \<Rightarrow> bool" where
  "keeps env n m \<longleftrightarrow> (\<forall>w. spent env n w \<longrightarrow> spent env n (snd (m w)))"

named_theorems keeping

lemma keeps_same:
  assumes "\<And>w. nw_control (snd (m w)) = nw_control w" and "\<And>w. nw_nonces (snd (m w)) = nw_nonces w"
  shows "keeps env n m"
  using assms by (simp add: keeps_def spent_def)

lemma keeps_basic [keeping]:
  "keeps env n (act_ok x)" "keeps env n (act_err e)" "keeps env n (from_result r)" "keeps env n (see_control f)"
  "keeps env n (see_spaces g)" "keeps env n (now_ms env1)" "keeps env n (sending env1 msg)"
  "keeps env n (choosing_models env1)" "keeps env n (on_spaces h)" "keeps env n (put_field k v j)"
  "keeps env n (\<lambda>w. (Inr (q w), w))"
  by (rule keeps_same; simp add: act_ok_def act_err_def from_result_def see_control_def see_spaces_def now_ms_def
      sending_def choosing_models_def on_spaces_def put_field_def split: prod.split option.split)+

lemma keeps_and_then [keeping]:
  "keeps env n m \<Longrightarrow> (\<And>x. keeps env n (f x)) \<Longrightarrow> keeps env n (and_then m f)"
  by (force simp: keeps_def and_then_def split: prod.split sum.split)

lemma keeps_next_nonce:
  assumes "\<And>x. x \<noteq> n \<Longrightarrow> keeps env n (f x)"
  shows "keeps env n (and_then (next_nonce env) f)"
  unfolding keeps_def
proof (intro allI impI)
  fix w assume w: "spent env n w"
  then have "ne_nonce env (nw_nonces w) \<noteq> n" by (simp add: spent_def)
  moreover have "spent env n (w\<lparr>nw_nonces := Suc (nw_nonces w)\<rparr>)" using w by (auto simp: spent_def)
  ultimately show "spent env n (snd (and_then (next_nonce env) f w))"
    using assms by (auto simp: and_then_def next_nonce_def keeps_def)
qed

lemma keeps_wrapped [keeping]: "keeps env n m \<Longrightarrow> keeps env n (ignoring m)" "keeps env n m \<Longrightarrow> keeps env n (attempt m)"
  by (force simp: keeps_def ignoring_def attempt_def split: prod.split)+

lemma keeps_choice [keeping]:
  "(b \<Longrightarrow> keeps env n m1) \<Longrightarrow> (\<not> b \<Longrightarrow> keeps env n m2) \<Longrightarrow> keeps env n (if b then m1 else m2)"
  "keeps env n m1 \<Longrightarrow> (\<And>x. keeps env n (f x)) \<Longrightarrow> keeps env n (case v of None \<Rightarrow> m1 | Some x \<Rightarrow> f x)"
  "(\<And>e. keeps env n (g e)) \<Longrightarrow> (\<And>x. keeps env n (f x)) \<Longrightarrow> keeps env n (case r of Inl e \<Rightarrow> g e | Inr x \<Rightarrow> f x)"
  "(\<And>x y. keeps env n (h x y)) \<Longrightarrow> keeps env n (case p of (x, y) \<Rightarrow> h x y)"
  by (auto split: option.split sum.split prod.split)

lemma keeps_control:
  assumes "\<And>db. callback_dead n db \<Longrightarrow> callback_dead n (snd (f db))"
  shows "keeps env n (on_control f)"
  using assms by (force simp: keeps_def spent_def on_control_def split: prod.split)

text \<open>Every operation of the store keeps a dead callback dead, unless it stores that nonce again.\<close>

lemma keeps_operations [keeping]:
  "keeps env n (on_control (replace_control_interaction ser k kind phase payload user chat message expires now))"
  "keeps env n (on_control (advance_control_interaction ser de k expected phase payload user chat message expires now))"
  "keeps env n (on_control (delete_control_interaction k now))"
  "keeps env n (on_control (claim_expired_control_interaction de k user chat revision now))"
  "keeps env n (on_control (claim_control_interaction de k user chat revision now))"
  "keeps env n (on_control (consume_control_callback de nonce user chat now))"
proof -
  note step = dead_step [where n = n]
  show "keeps env n (on_control (replace_control_interaction ser k kind phase payload user chat message expires now))"
    by (rule keeps_control) (use step [of _ "CReplace _ _ _ _ _ _ _ _ _"] in simp)
  show "keeps env n (on_control (advance_control_interaction ser de k expected phase payload user chat message expires now))"
    by (rule keeps_control) (use step [of _ "CAdvance _ _ _ _ _ _ _ _ _"] in simp)
  show "keeps env n (on_control (delete_control_interaction k now))"
    by (rule keeps_control) (use step [of _ "CDelete _ _"] in simp)
  show "keeps env n (on_control (claim_expired_control_interaction de k user chat revision now))"
    by (rule keeps_control) (use step [of _ "CClaim _ _ _ _ _ False"] in \<open>simp add: claim_expired_control_interaction_def\<close>)
  show "keeps env n (on_control (claim_control_interaction de k user chat revision now))"
    by (rule keeps_control) (use step [of _ "CClaim _ _ _ _ _ True"] in \<open>simp add: claim_control_interaction_def\<close>)
  show "keeps env n (on_control (consume_control_callback de nonce user chat now))"
    by (rule keeps_control) (use step [of _ "CConsume _ _ _ _"] in simp)
qed

lemma keeps_claim [keeping]:
  "keeps env n (on_control ((if b then claim_expired_control_interaction else claim_control_interaction) de k user chat revision now))"
  by (cases b) (simp_all add: keeping)

lemma keeps_upsert: "cc_nonce c \<noteq> n \<Longrightarrow> keeps env n (on_control (upsert_control_callback ser c))"
  by (rule keeps_control) (use dead_step [where n = n and op = "CUpsert c"] in simp)

section \<open>The handlers leave a nonce dead\<close>

lemma keeps_offer: "nonce \<noteq> n \<Longrightarrow> keeps env n (offer env k revision user chat expires nonce event v)"
  unfolding offer_def by (intro keeping keeps_upsert) simp

lemma keeps_offers [keeping]: "keeps env n (offer_choices env k revision user chat expires choices stored buttons)"
  by (induction env k revision user chat expires choices stored buttons rule: offer_choices.induct)
    (auto intro!: keeping keeps_next_nonce keeps_offer)

lemma keeps_messages [keeping]:
  "keeps env n (say env1 chat text)" "keeps env n (say_with_markup env1 chat text markup)"
  "keeps env n (send_control_rendered env1 chat r kb)" "keeps env n (acknowledge_callback env1 callback text)"
  "keeps env n (edit_rendered env1 chat message r)" "keeps env n (send_new_render_effect env1 chat r1 a b markup)"
  unfolding say_def say_with_markup_def send_control_rendered_def acknowledge_callback_def edit_rendered_def
    send_new_render_effect_def Let_def by (intro keeping)+

lemma keeps_draft [keeping]:
  "keeps env n (new_record env k)" "keeps env n (save_record env kind k v)" "keeps env n (drop_record k)"
  "keeps env n (drop_interaction env k)" "keeps env n (expiry_of env d)" "keeps env n (new_draft_expired env d)"
  "keeps env n (draft_chat d)" "keeps env n (draft_user d)" "keeps env n (make_draft env chat user phase payload)"
  "keeps env n (new_interaction_revision env k d)"
  unfolding new_record_def save_record_def drop_record_def drop_interaction_def expiry_of_def new_draft_expired_def
    draft_chat_def draft_user_def make_draft_def new_interaction_revision_def Let_def by (intro keeping)+

lemma keeps_steps [keeping]:
  "keeps env n (persist_new_draft env k d)" "keeps env n (advance_new_draft env k d phase payload p)"
  "keeps env n (forget_new env k)" "keeps env n (store_pending space message)"
  unfolding persist_new_draft_def advance_new_draft_def forget_new_def store_pending_def Let_def
     apply (intro keeping)+
  apply (rule keeps_same; simp add: act_ok_def act_err_def split: option.split)
  done

lemma keeps_markup [keeping]: "keeps env n (new_choice_markup env k d choices)"
  unfolding new_choice_markup_def Let_def by (intro keeping keeps_next_nonce keeps_offer)

lemma keeps_pending [keeping]:
  "keeps env n (create_pending_session_space env owner generation payload prompt space_id)"
  "keeps env n (finish_new_prompt env k d prompt expired)"
proof -
  show create: "keeps env n (create_pending_session_space env owner generation payload prompt space_id)" for owner generation payload prompt space_id
    unfolding create_pending_session_space_def Let_def by (intro keeping)
  show "keeps env n (finish_new_prompt env k d prompt expired)"
    unfolding finish_new_prompt_def Let_def by (intro keeping create)
qed

lemma keeps_project [keeping]:
  "keeps env n (send_new_prompt_or_finish env k d)" "keeps env n (handle_new_project_value env k d v)"
proof -
  show send: "keeps env n (send_new_prompt_or_finish env k d)" for d
    unfolding send_new_prompt_or_finish_def by (intro keeping)
  have "keeps env n (searching r)" for r :: "(string + string list) option"
    unfolding searching_def by (intro keeping)
  moreover have list_case: "keeps env n m0 \<Longrightarrow> (\<And>x. keeps env n (m1 x)) \<Longrightarrow> (\<And>x y zs. keeps env n (m2 x y zs))
      \<Longrightarrow> keeps env n (case cs of [] \<Rightarrow> m0 | [x] \<Rightarrow> m1 x | x # y # zs \<Rightarrow> m2 x y zs)"
    for m0 :: "unit act" and m1 m2 and cs :: "string list" by (auto split: list.split)
  ultimately show "keeps env n (handle_new_project_value env k d v)"
    unfolding handle_new_project_value_def Let_def by (intro keeping send list_case)
qed

lemma keeps_begin [keeping]: "keeps env n (begin_new_interaction env chat actor message text)"
proof -
  have "keeps env n (begin_interactive env k chat user message)" for k user
    unfolding begin_interactive_def by (intro keeping)
  moreover have "keeps env n (begin_with_arguments env k chat user message text)" for k user
    unfolding begin_with_arguments_def put_payload_def Let_def by (intro keeping)
  moreover have "keeps env n (another_drafts env k user)" "keeps env n (clear_expired env k)" for k user
    unfolding another_drafts_def clear_expired_def by (intro keeping)+
  ultimately show ?thesis unfolding begin_new_interaction_def Let_def by (intro keeping)
qed

lemma keeps_take [keeping]: "keeps env n (take_new_press env c)"
  unfolding take_new_press_def Let_def by (intro keeping)

lemma keeps_press: "keeps env n (pressed_event_step env k chat d payload event v rendered)"
  unfolding pressed_event_step_def next_step_def Let_def by (intro keeping)

definition after_taken :: "new_env \<Rightarrow> telegram_callback \<Rightarrow> (json \<times> json control_callback) option \<Rightarrow> unit act" where
  "after_taken env c taken = (case taken of
     None \<Rightarrow> act_ok ()
   | Some (draft0, stored) \<Rightarrow> let chat = tcb_chat_id c; k = new_draft_key chat; event = cc_action stored;
         v = unwrap_or (jstr ''value'' (cc_payload stored)) [] in
       and_then (acknowledge_callback env (tcb_id c) ([CHR 0xE5, CHR 0xB7, CHR 0xB2, CHR 0xE6, CHR 0x94, CHR 0xB6,
           CHR 0xE5, CHR 0x88, CHR 0xB0])) (\<lambda>_.
       and_then (put_field ''choices'' (jobj []) draft0) (\<lambda>draft.
       and_then (logical_effects env draft event v) (\<lambda>effects.
       and_then (case new_render_effect effects RenderEdit of
           None \<Rightarrow> act_ok () | Some r \<Rightarrow> edit_rendered env chat (tcb_message_id c) r) (\<lambda>_.
       pressed_event_step env k chat draft (payload_of draft) event v
         (new_render_effect effects RenderSend))))))"

lemma handle_new_callback_eq: "handle_new_callback env c = and_then (take_new_press env c) (after_taken env c)"
  unfolding handle_new_callback_def Let_def after_taken_def ..

lemma keeps_after [keeping]: "keeps env n (after_taken env c taken)"
  unfolding after_taken_def logical_effects_def Let_def by (intro keeping keeps_press)

lemma keeps_callback [keeping]: "keeps env n (handle_new_callback env c)"
  unfolding handle_new_callback_eq by (intro keeping)

lemma keeps_text [keeping]: "keeps env n (handle_new_text env chat actor text)"
  unfolding handle_new_text_def Let_def by (intro keeping)

lemma keeps_each: "(\<And>x. keeps env n (f x)) \<Longrightarrow> keeps env n (each_one f xs)"
  by (induction xs) (auto intro: keeping)

lemma keeps_expirer [keeping]: "keeps env n (run_new_interaction_expirer env)"
proof -
  have "keeps env n (case claim of Inl e \<Rightarrow> act_ok () | Inr None \<Rightarrow> act_ok () | Inr (Some i) \<Rightarrow> forget_new env k)" for claim k
    by (auto split: sum.split option.split intro: keeping)
  moreover have "keeps env n m1 \<Longrightarrow> (\<And>x y. keeps env n (m2 x y)) \<Longrightarrow>
      keeps env n (case p of (None, b) \<Rightarrow> m1 | (Some x, None) \<Rightarrow> m1 | (Some x, Some y) \<Rightarrow> m2 x y)"
    for p :: "i64 option \<times> i64 option" and m1 :: "unit act" and m2
    by (auto split: prod.split option.split)
  ultimately have "keeps env n (expire_new_interaction env r)" for r
    unfolding expire_new_interaction_def Let_def by (intro keeping)
  then show ?thesis unfolding run_new_interaction_expirer_def by (intro keeping keeps_each)
qed

section \<open>A press is taken once\<close>

text \<open>What may happen to a conversation, and to the tables it shares with the other panels.\<close>

datatype new_op =
    NewBegin i64 "i64 option" i64 string
  | NewPress telegram_callback
  | NewText i64 "i64 option" string
  | NewExpire
  | NewOther control_op

fun new_step :: "new_env \<Rightarrow> new_op \<Rightarrow> new_world \<Rightarrow> new_world" where
  "new_step env (NewBegin chat actor message text) w = snd (begin_new_interaction env chat actor message text w)"
| "new_step env (NewPress c) w = snd (handle_new_callback env c w)"
| "new_step env (NewText chat actor text) w = snd (handle_new_text env chat actor text w)"
| "new_step env NewExpire w = snd (run_new_interaction_expirer env w)"
| "new_step env (NewOther op) w = w\<lparr>nw_control := control_step (ne_ser env) (ne_de env) op (nw_control w)\<rparr>"

definition draws :: "string \<Rightarrow> new_op \<Rightarrow> bool" where
  "draws n op \<longleftrightarrow> (case op of NewOther o1 \<Rightarrow> upserts n o1 | _ \<Rightarrow> False)"

lemma keepsD: "keeps env n m \<Longrightarrow> spent env n w \<Longrightarrow> spent env n (snd (m w))"
  by (simp add: keeps_def)

definition undrawn :: "new_env \<Rightarrow> string \<Rightarrow> new_op \<Rightarrow> new_world \<Rightarrow> new_world" where
  "undrawn env n op w = (if draws n op then w else new_step env op w)"

interpretation new_talk: machine "undrawn env n" "spent env n" for env n
proof
  fix op w assume w: "spent env n w"
  show "spent env n (undrawn env n op w)"
  proof (cases op)
    case (NewOther o1)
    with w show ?thesis by (auto simp: undrawn_def draws_def spent_def intro: dead_step)
  qed (simp_all add: undrawn_def draws_def keepsD [OF keeps_begin w] keepsD [OF keeps_callback w]
      keepsD [OF keeps_text w] keepsD [OF keeps_expirer w])
qed

lemma undrawn_run: "list_all (\<lambda>op. \<not> draws n op) ops \<Longrightarrow> fold (new_step env) ops w = fold (undrawn env n) ops w"
  by (induction ops arbitrary: w) (auto simp: undrawn_def)

definition press_nonce :: "telegram_callback \<Rightarrow> string" where
  "press_nonce c = unwrap_or (strip_prefix ''new:'' (tcb_data c)) []"

lemma refused_none [simp]:
  "and_then (acknowledge_callback env i t) (\<lambda>_. act_ok None) v = (Inr None, snd (acknowledge_callback env i t v))"
  by (simp add: and_then_def acknowledge_callback_def ignoring_def act_ok_def)

lemma draft_expired_result:
  obtains b v where "new_draft_expired env draft w = (Inr b, v)" "nw_control v = nw_control w"
    "nw_spaces v = nw_spaces w" "nw_nonces v = nw_nonces w"
  by (cases "ji64 ''expires_at_ms'' draft") (auto simp: new_draft_expired_def act_ok_def and_then_def now_ms_def)

text \<open>What a press went through that was taken.\<close>

lemma taken_cases:
  assumes "take_new_press env c w = (Inr (Some x), w1)"
  obtains draft user now stored v db where "new_record env (new_draft_key (tcb_chat_id c)) w = (Inr (Some draft), w)"
    "act_user_id (tcb_actor c) = Some user" "ji64 ''user_id'' draft = Some user" "new_draft_expired env draft w = (Inr False, v)"
    "consume_control_callback (ne_de env) (press_nonce c) user (tcb_chat_id c) now (nw_control w) = (Inr (Some stored), db)"
    "w1 = v\<lparr>nw_clock := Suc (nw_clock v), nw_control := db\<rparr>" "nw_nonces v = nw_nonces w"
proof -
  let ?k = "new_draft_key (tcb_chat_id c)"
  have rec: "new_record env ?k w = (fst (new_record env ?k w), w)" by (simp add: new_record_def see_spaces_def)
  note eqs = take_new_press_def Let_def press_nonce_def [symmetric]
  show ?thesis
  proof (cases "fst (new_record env ?k w)")
    case (Inl e)
    with assms rec show ?thesis by (simp add: eqs and_then_def)
  next
    case (Inr found)
    show ?thesis
    proof (cases found)
      case None
      with Inr assms rec show ?thesis by (subst (asm) eqs(1)) (simp add: eqs(2) and_then_def [of "new_record env ?k"])
    next
      case (Some draft)
      obtain b v where b: "new_draft_expired env draft w = (Inr b,
          v)" "nw_control v = nw_control w" "nw_nonces v = nw_nonces w"
        by (rule draft_expired_result)
      from rec Inr Some have rec1: "new_record env ?k w = (Inr (Some draft), w)" by simp
      show ?thesis
      proof (cases "b \<or> ji64 ''user_id'' draft \<noteq> act_user_id (tcb_actor c) \<or> act_user_id (tcb_actor c) = None")
        case True
        with rec1 b assms show ?thesis
          by (subst (asm) eqs(1)) (auto simp: eqs(2) and_then_def [of "new_record env ?k"]
              and_then_def [of "new_draft_expired env draft"] split: if_splits option.splits)
      next
        case False
        then obtain user where user: "act_user_id (tcb_actor c) = Some user" "ji64 ''user_id'' draft = Some user" "b = False" by auto
        let ?now = "ne_now env (nw_clock v)"
        obtain r db where r: "consume_control_callback (ne_de env) (press_nonce c) user (tcb_chat_id c) ?now (nw_control w) = (r, db)"
          by fastforce
        have "(case port_str r of Inl e \<Rightarrow> (Inl e, v\<lparr>nw_clock := Suc (nw_clock v), nw_control := db\<rparr>)
            | Inr None \<Rightarrow> (Inr None, snd (acknowledge_callback env (tcb_id c) ([CHR 0xE9, CHR 0x80,
                CHR 0x89, CHR 0xE6, CHR 0x8B, CHR 0xA9, CHR 0xE5, CHR 0xB7, CHR 0xB2, CHR 0xE5, CHR 0xA4, CHR 0x84,
                CHR 0xE7, CHR 0x90, CHR 0x86, CHR 0xE6, CHR 0x88, CHR 0x96, CHR 0xE5, CHR 0xB7, CHR 0xB2, CHR 0xE8,
                CHR 0xBF, CHR 0x87, CHR 0xE6, CHR 0x9C, CHR 0x9F])
                (v\<lparr>nw_clock := Suc (nw_clock v), nw_control := db\<rparr>)))
            | Inr (Some stored) \<Rightarrow> (Inr (Some (draft, stored)), v\<lparr>nw_clock := Suc (nw_clock v), nw_control := db\<rparr>))
          = (Inr (Some x), w1)"
          using assms rec1 b user r
          by (subst (asm) eqs(1)) (simp add: eqs(2,3) and_then_def [of "new_record env ?k"]
              and_then_def [of "new_draft_expired env draft"] and_then_def [of "now_ms env"] now_ms_def
              and_then_def [of "on_control q" for q] on_control_def act_ok_def cong: option.case_cong split: sum.splits option.splits)
        then obtain stored where "r = Inr (Some stored)" "w1 = v\<lparr>nw_clock := Suc (nw_clock v), nw_control := db\<rparr>"
          by (auto simp: port_str_def split: sum.splits option.splits)
        with rec1 user b r show ?thesis by (intro that [of draft user v ?now stored db]) simp_all
      qed
    qed
  qed
qed

lemma taken_now:
  assumes "take_new_press env c w = (Inr (Some x), w1)"
  shows "callback_dead (press_nonce c) (nw_control w1) \<and> nw_nonces w1 = nw_nonces w"
  using assms
proof (cases rule: taken_cases)
  case (1 draft user now stored v db)
  from consumed_dead [of "ne_de env" "press_nonce c" user "tcb_chat_id c" now "nw_control w" stored] 1 show ?thesis by simp
qed

lemma dead_not_taken:
  assumes "callback_dead (press_nonce c) (nw_control w)"
  shows "take_new_press env c w \<noteq> (Inr (Some x), w1)"
proof
  assume "take_new_press env c w = (Inr (Some x), w1)"
  then show False
  proof (cases rule: taken_cases)
    case (1 draft user now stored v db)
    with dead_refused [OF assms, of "ne_de env" user "tcb_chat_id c" now] show ?thesis by simp
  qed
qed

text \<open>
  C15. A press in the conversation of \<open>/new\<close> is taken at most once. Once the checks of a press have let
  it through, no later press of the same button gets through, by whomever and whatever has been
  done in between: further commands, presses, texts, expired conversations, other panels. The nonces
  the daemon draws later are different from the one of the button.
\<close>

theorem new_press_taken_once:
  assumes "take_new_press env c w = (Inr (Some x), w1)" and "\<forall>k \<ge> nw_nonces w. ne_nonce env k \<noteq> press_nonce c"
    and "list_all (\<lambda>op. \<not> draws (press_nonce c) op) ops"
    and "w2 = fold (new_step env) ops (snd (handle_new_callback env c w))" and "tcb_data c2 = tcb_data c"
  shows "fst (take_new_press env c2 w2) \<noteq> Inr (Some y)"
proof
  from taken_now [OF assms(1)] assms(2) have "spent env (press_nonce c) w1" by (simp add: spent_def)
  then have "spent env (press_nonce c) (snd (handle_new_callback env c w))"
    using keepsD [OF keeps_after] assms(1) by (simp add: handle_new_callback_eq and_then_def)
  then have sp: "spent env (press_nonce c) w2"
    unfolding assms(4) undrawn_run [OF assms(3)] by (rule new_talk.run_inv)
  assume "fst (take_new_press env c2 w2) = Inr (Some y)"
  then obtain w3 where w3: "take_new_press env c2 w2 = (Inr (Some y), w3)" by (cases "take_new_press env c2 w2") simp
  have "press_nonce c2 = press_nonce c" by (simp add: press_nonce_def assms(5))
  with sp have "callback_dead (press_nonce c2) (nw_control w2)" by (simp add: spent_def)
  with w3 show False by (simp add: dead_not_taken)
qed

text \<open>A conversation under way: its draft, and one live button of it.\<close>

definition demo_talk_env :: new_env where
  "demo_talk_env = \<lparr>ne_ser = (\<lambda>_. Inr ''null''), ne_de = (\<lambda>_. Inr (jobj [(''user_id'', JInt 1)])),
     ne_sha256_hex = (\<lambda>_. ''00''), ne_now = (\<lambda>_. 10), ne_nonce = (\<lambda>_. ''x''), ne_send = (\<lambda>_. Inr 1),
     ne_ask = (\<lambda>_ _ _. Inl ''down''), ne_generation = (\<lambda>_. 1), ne_fs = demo_links, ne_create_dir = (\<lambda>_. Inr ()),
     ne_home = None, ne_workspace_root = ''/w'', ne_channel_chat_id = 5, ne_instance = ''b''\<rparr>"

definition demo_talk :: new_world where
  "demo_talk = (let c = snd (upsert_control_callback (ne_ser demo_talk_env) \<lparr>cc_nonce = ''n'', cc_scope_key = None,
       cc_revision = None, cc_user_id = 1, cc_chat_id = 7, cc_action = ''cancel'', cc_payload = JNull,
       cc_expires_at_ms = 20, cc_consumed_at_ms = None, cc_invalidated_at_ms = None, cc_created_at_ms = 10\<rparr>
       \<lparr>ctl_interactions = [], ctl_callbacks = []\<rparr>);
     s = snd (upsert_workflow_record (ne_ser demo_talk_env) (ne_sha256_hex demo_talk_env) ''new'' (new_draft_key 7)
       JNull 10 space_empty) in
     \<lparr>nw_control = c, nw_spaces = s, nw_sent = [], nw_clock = 0, nw_nonces = 0, nw_asked = 0\<rparr>)"

definition demo_press :: "i64 \<Rightarrow> telegram_callback" where
  "demo_press user = \<lparr>tcb_id = ''c'', tcb_chat_id = 7, tcb_chat_kind = ChatPrivate, tcb_message_id = 3,
      tcb_data = ''new:n'',
     tcb_actor = \<lparr>act_user_id = Some user, act_sender_chat_id = None\<rparr>\<rparr>"

lemma new_press_taken_once_witness:
  "\<exists>x w1. take_new_press demo_talk_env (demo_press 1) demo_talk = (Inr (Some x), w1)
    \<and> fst (take_new_press demo_talk_env (demo_press 1)
        (snd (handle_new_callback demo_talk_env (demo_press 1) demo_talk))) \<noteq> Inr (Some x)"
proof -
  have "case fst (take_new_press demo_talk_env (demo_press 1) demo_talk) of Inr (Some x) \<Rightarrow> True | _ \<Rightarrow> False" by code_simp
  then obtain x w1 where x: "take_new_press demo_talk_env (demo_press 1) demo_talk = (Inr (Some x), w1)"
    by (cases "take_new_press demo_talk_env (demo_press 1) demo_talk") (auto split: sum.splits option.splits)
  have unx: "press_nonce (demo_press 1) = ''n''" by code_simp
  have n: "\<forall>k \<ge> nw_nonces demo_talk. ne_nonce demo_talk_env k \<noteq> press_nonce (demo_press 1)" 
    by (simp add: demo_talk_env_def unx)
  have "fst (take_new_press demo_talk_env (demo_press 1) w2) \<noteq> Inr (Some x)"
    if "w2 = snd (handle_new_callback demo_talk_env (demo_press 1) demo_talk)" for w2
    by (rule new_press_taken_once [OF x n, of "[]"]) (simp_all add: that)
  with x show ?thesis by blast
qed

section \<open>A conversation is closed to others\<close>

definition tables_kept :: "new_world \<Rightarrow> new_world \<Rightarrow> bool" where
  "tables_kept w w1 \<longleftrightarrow> nw_control w1 = nw_control w \<and> nw_spaces w1 = nw_spaces w"

lemma and_then_step: "m w = (Inr x, w1) \<Longrightarrow> and_then m f w = f x w1"
  by (simp add: and_then_def)

lemma say_keeps: "tables_kept w v \<Longrightarrow> tables_kept w (snd (say env chat text v))"
  by (simp add: say_def and_then_def sending_def act_ok_def tables_kept_def split: sum.split)

lemma answer_keeps: "tables_kept w v \<Longrightarrow> tables_kept w (snd (acknowledge_callback env i text v))"
  by (simp add: acknowledge_callback_def ignoring_def sending_def tables_kept_def)

text \<open>
  C16. A conversation of \<open>/new\<close> belongs to the person who started it. While it lasts, no command, text or
  press of anybody else in that chat changes a draft, an interaction, a callback or a session.
\<close>

theorem conversation_is_private:
  assumes "new_record env (new_draft_key chat) w = (Inr (Some d), w)" and "ji64 ''user_id'' d \<noteq> Some user"
    and "fst (new_draft_expired env d w) = Inr False"
    and "tcb_chat_id c = chat" and "act_user_id (tcb_actor c) = Some user"
  shows "tables_kept w (snd (begin_new_interaction env chat (Some user) message text w))
    \<and> tables_kept w (snd (handle_new_text env chat (Some user) text w))
    \<and> tables_kept w (snd (handle_new_callback env c w))"
proof (intro conjI)
  obtain b v where v: "new_draft_expired env d w = (Inr b, v)" "nw_control v = nw_control w" "nw_spaces v = nw_spaces w"
    by (rule draft_expired_result)
  with assms(3) have b: "new_draft_expired env d w = (Inr False, v)" by simp
  from v have kept: "tables_kept w v" by (simp add: tables_kept_def)
  note rec = and_then_step [where m = "new_record env (new_draft_key chat)", OF assms(1)]
    and unexpired = and_then_step [where m = "new_draft_expired env d", OF b]
  have "another_drafts env (new_draft_key chat) user w = (Inr True, v)"
    using assms(2) by (simp add: another_drafts_def rec unexpired act_ok_def)
  then show "tables_kept w (snd (begin_new_interaction env chat (Some user) message text w))"
    by (simp add: begin_new_interaction_def Let_def and_then_step say_keeps kept)
  show "tables_kept w (snd (handle_new_text env chat (Some user) text w))"
    using assms(2) by (simp add: handle_new_text_def Let_def rec act_ok_def tables_kept_def)
  have "take_new_press env c w = (Inr None, snd (acknowledge_callback env (tcb_id c) ([CHR 0xE9, CHR 0x80, CHR 0x89,
      CHR 0xE6, CHR 0x8B, CHR 0xA9, CHR 0xE5, CHR 0xB7, CHR 0xB2, CHR 0xE8, CHR 0xBF, CHR 0x87, CHR 0xE6, CHR 0x9C,
      CHR 0x9F, CHR 0xE6, CHR 0x88, CHR 0x96, CHR 0xE6, CHR 0x97, CHR 0xA0, CHR 0xE6, CHR 0x9D, CHR 0x83, CHR 0xE6,
      CHR 0x93, CHR 0x8D, CHR 0xE4, CHR 0xBD, CHR 0x9C]) v))"
    using assms(2,4,5) by (simp add: take_new_press_def Let_def rec unexpired)
  then show "tables_kept w (snd (handle_new_callback env c w))"
    by (simp add: handle_new_callback_eq and_then_step after_taken_def act_ok_def answer_keeps kept)
qed

lemma conversation_is_private_witness:
  "tables_kept demo_talk (snd (handle_new_callback demo_talk_env (demo_press 2) demo_talk))
   \<and> new_record demo_talk_env (new_draft_key 7) demo_talk = (Inr (Some (jobj [(''user_id'', JInt 1)])), demo_talk)"
proof -
  have "fst (new_record demo_talk_env (new_draft_key 7) demo_talk) = Inr (Some (jobj [(''user_id'', JInt 1)]))" by code_simp
  then have d: "new_record demo_talk_env (new_draft_key 7) demo_talk = (Inr (Some (jobj [(''user_id'', JInt 1)])),
      demo_talk)"
    by (simp add: new_record_def see_spaces_def)
  have "ji64 ''user_id'' (jobj [(''user_id'', JInt 1)]) \<noteq> Some 2" by code_simp
  moreover have "fst (new_draft_expired demo_talk_env (jobj [(''user_id'', JInt 1)]) demo_talk) = Inr False" by code_simp
  ultimately show ?thesis
    using conversation_is_private [OF d, of 2 "demo_press 2"] d by (simp add: demo_press_def)
qed

section \<open>Starting again\<close>

lemma port_str_Inr [simp]: "port_str r = Inr x \<longleftrightarrow> r = Inr x"
  by (simp add: port_str_def split: sum.split)

definition revision_at :: "string \<Rightarrow> new_world \<Rightarrow> i64 option" where
  "revision_at k w = revision_of k (nw_control w)"

lemma revision_changed:
  assumes "revision_at k w = Some r" and "2 \<le> r" and "ji64 ''revision'' d = Some 0"
  shows "\<exists>e. fst (new_interaction_revision env k d w) = Inl e"
  using assms by (auto simp: revision_at_def revision_of_def new_interaction_revision_def and_then_def see_control_def port_str_def
      read_interaction_def control_interaction_from_row_def Let_def act_err_def saturating_add_def clamp_i64_def i64_max_def i64_min_def
      split: sum.splits option.splits)

lemma and_then_E:
  assumes "and_then m f w = (Inr y, w2)"
  obtains x w1 where "m w = (Inr x, w1)" "f x w1 = (Inr y, w2)"
  using assms by (auto simp: and_then_def split: prod.splits sum.splits)

lemma case_prod_E:
  assumes "(case p of (a, b) \<Rightarrow> h a b) w = r"
  obtains a b where "p = (a, b)" "h a b w = r"
  using assms by (cases p) simp

text \<open>Making buttons changes neither interactions nor records.\<close>

definition steady :: "new_world \<Rightarrow> new_world \<Rightarrow> bool" where
  "steady w w1 \<longleftrightarrow> ctl_interactions (nw_control w1) = ctl_interactions (nw_control w) \<and> nw_spaces w1 = nw_spaces w"

lemma steady_refl [simp]: "steady w w"
  by (simp add: steady_def)

lemma steady_trans: "steady a b \<Longrightarrow> steady b c \<Longrightarrow> steady a c"
  by (simp add: steady_def)

lemma steady_offer: "steady w (snd (offer env k revision user chat expires nonce event v w))"
  by (auto simp: offer_def and_then_def now_ms_def on_control_def steady_def upsert_control_callback_def Let_def
      split: prod.splits sum.splits option.splits if_splits)

lemma steady_offers: "steady w (snd (offer_choices env k revision user chat expires choices stored buttons w))"
proof (induction env k revision user chat expires choices stored buttons arbitrary: w rule: offer_choices.induct)
  case (1 env k revision user chat expires stored buttons)
  then show ?case by (simp add: act_ok_def)
next
  case (2 env k revision user chat expires event v label choices stored buttons)
  let ?n = "ne_nonce env (nw_nonces w)" and ?w = "w\<lparr>nw_nonces := Suc (nw_nonces w)\<rparr>"
  have start: "steady w ?w" by (simp add: steady_def)
  have one: "steady ?w (snd (offer env k revision user chat expires ?n event v ?w))" by (rule steady_offer)
  show ?case
  proof (cases "offer env k revision user chat expires ?n event v ?w")
    case (Pair r w2)
    with one 2 start show ?thesis
      by (cases r) (auto simp: and_then_def next_nonce_def intro: steady_trans)
  qed
qed

text \<open>What is written as JSON reads back as the value that was written.\<close>

definition reads_back :: "new_env \<Rightarrow> bool" where
  "reads_back env \<longleftrightarrow> (\<forall>v s. ne_ser env v = Inr s \<longrightarrow> ne_de env s = Inr v)"

lemma saved_record:
  assumes "reads_back env" and "save_record env ''new'' k v w = (Inr (), w1)"
  shows "new_record env k w1 = (Inr (Some v), w1) \<and> nw_control w1 = nw_control w"
proof -
  let ?K = "(workflow_table ''new'', k)" and ?now = "ne_now env (nw_clock w)"
  have saved: "is_ok (fst (upsert_workflow_record (ne_ser env) (ne_sha256_hex env) ''new'' k v ?now (nw_spaces w)))"
    and w1: "nw_spaces w1 = snd (upsert_workflow_record (ne_ser env) (ne_sha256_hex env) ''new'' k v ?now (nw_spaces w))"
      "nw_control w1 = nw_control w"
    using assms(2) by (auto simp: save_record_def and_then_def now_ms_def on_spaces_def port_str_def
        split: sum.splits prod.splits)
  then obtain t where t: "ne_ser env v = Inr t"
    by (auto simp: upsert_workflow_record_def is_ok_def split: sum.splits if_splits)
  have up: "\<exists>r. first_where (\<lambda>r. record_key r = ?K) (upsert (\<lambda>r. record_key r = ?K) row (\<lambda>r. r\<lparr>lr_row_json := t,
      lr_row_sha256 := h, lr_imported_at_ms := now\<rparr>) rows) = Some r \<and> lr_row_json r = t"
    if "record_key row = ?K" "lr_row_json row = t" for row h now rows
    using that first_where_upsert [of record_key row "\<lambda>r. r\<lparr>lr_row_json := t, lr_row_sha256 := h,
        lr_imported_at_ms := now\<rparr>" ?K rows]
    by (auto simp: record_key_def split: option.splits)
  have "\<exists>r. first_where (\<lambda>r. record_key r = ?K) (sp_records (nw_spaces w1)) = Some r \<and> lr_row_json r = t"
    using saved t unfolding w1
    by (auto simp: upsert_workflow_record_def Let_def is_ok_def split: if_splits) (rule up; simp add: record_key_def)
  with assms(1) t w1(2) show ?thesis
    by (auto simp: reads_back_def new_record_def see_spaces_def workflow_record_def port_str_def)
qed

lemma put_field_Inr: "put_field k v j w = (Inr j1, w1) \<longleftrightarrow> jset k v j = Some j1 \<and> w1 = w"
  by (auto simp: put_field_def act_ok_def act_err_def split: option.splits)

lemma jset_ji64: "jset k v j = Some j1 \<Longrightarrow> k \<noteq> k1 \<Longrightarrow> ji64 k1 j1 = ji64 k1 j"
  by (simp add: ji64_def jset_get)

lemma steady_revision: "steady w w1 \<Longrightarrow> revision_at k w1 = revision_at k w"
  by (simp add: steady_def revision_at_def revision_of_def)

lemma expiry_steady: "expiry_of env d w = (r, w1) \<Longrightarrow> steady w w1"
  by (auto simp: expiry_of_def act_ok_def and_then_def now_ms_def steady_def split: option.splits)

text \<open>The markup keeps the revision of the interaction, and stores the draft it was given with its own revision.\<close>

lemma markup_stores:
  assumes "reads_back env"
    and "new_choice_markup env k d choices w = (Inr (markup, d1), w1)"
  shows "new_record env k w1 = (Inr (Some d1), w1) \<and> revision_at k w1 = revision_at k w
    \<and> (\<forall>j. j \<noteq> ''choices'' \<longrightarrow> jget j d1 = jget j d)"
proof -
  from assms(2) show ?thesis unfolding new_choice_markup_def Let_def
  proof (elim and_then_E case_prod_E, goal_cases)
    case (1 chat v1 user v2 found v3 expires v4 p v5 stored buttons cancel v6 u v7 d2 v8 u2 v9)
    then have start: "v3 = w" "v6 = v5\<lparr>nw_nonces := Suc (nw_nonces v5)\<rparr>" "v8 = v7" "v9 = w1" "d2 = d1"
      by (auto simp: draft_chat_def draft_user_def from_result_def see_control_def next_nonce_def put_field_Inr act_ok_def)
    have "steady w v4" using expiry_steady [OF 1(4)] start by simp
    moreover have "steady v4 v5" by (metis 1(5) snd_conv steady_offers)
    moreover have "steady v5 v6" using start by (simp add: steady_def)
    moreover have "steady v6 v7" by (metis 1(8) snd_conv steady_offer)
    ultimately have "steady w v7" by (metis steady_trans)
    moreover have "save_record env ''new'' k d1 v7 = (Inr (), w1)" using 1(10) start by simp
    then have "new_record env k w1 = (Inr (Some d1), w1) \<and> nw_control w1 = nw_control v7"
      by (rule saved_record [OF assms(1)])
    moreover have "\<forall>j. j \<noteq> ''choices'' \<longrightarrow> jget j d1 = jget j d"
      using 1(9) start by (auto simp: put_field_Inr jset_get)
    ultimately show ?thesis using steady_revision [of w v7 k] by (simp add: revision_at_def)
  qed
qed

lemma persist_raises:
  assumes "persist_new_draft env k d w = (Inr (), w1)" and "revision_at k w = Some r"
  shows "revision_at k w1 = Some (saturating_add r 1)"
proof -
  from assms(1) show ?thesis unfolding persist_new_draft_def Let_def
  proof (elim and_then_E case_prod_E, goal_cases)
    case (1 chat v1 user v2 expires v3 now v4 i v5 d2 v6)
    then have start: "v2 = w" "nw_control v4 = nw_control v3" "v6 = v5"
      by (auto simp: draft_chat_def draft_user_def from_result_def now_ms_def put_field_Inr)
    have "revision_at k v4 = Some r"
      using steady_revision [OF expiry_steady [OF 1(3)], of k] assms(2) start by (simp add: revision_at_def)
    moreover from 1(5) have "fst (replace_control_interaction (ne_ser env) k ''new'' (unwrap_or (jstr ''phase'' d) ''unknown'')
          (unwrap_or (jget ''payload'' d) JNull) user chat None expires now (nw_control v4)) = Inr i"
      "nw_control v5 = snd (replace_control_interaction (ne_ser env) k ''new'' (unwrap_or (jstr ''phase'' d) ''unknown'')
          (unwrap_or (jget ''payload'' d) JNull) user chat None expires now (nw_control v4))"
      by (auto simp: on_control_def split: prod.splits)
    moreover have "nw_control w1 = nw_control v6"
      using 1(7) by (auto simp: save_record_def and_then_def now_ms_def on_spaces_def split: prod.splits)
    ultimately show ?thesis using revision_of_replace [of "ne_ser env" k "''new''"] start by (simp add: revision_at_def)
  qed
qed

lemma choosing_same: "choosing_models env w = (r, w1) \<Longrightarrow> steady w w1"
  by (auto simp: choosing_models_def steady_def)

lemma sending_same: "send_new_render_effect env chat e a b markup w = (r, w1) \<Longrightarrow> steady w w1"
  by (auto simp: send_new_render_effect_def Let_def and_then_def from_result_def send_control_rendered_def sending_def
      act_ok_def steady_def split: sum.splits prod.splits)

lemma make_draft_same:
  assumes "make_draft env chat user phase payload w = (Inr d, w1)"
  shows "steady w w1 \<and> ji64 ''revision'' d = Some 0"
  using assms by (auto simp: make_draft_def and_then_def now_ms_def act_ok_def steady_def ji64_def jget_def jobj_def bt_get_def)

lemma stale_advance:
  assumes "revision_at k w = Some r" and "2 \<le> r" and "ji64 ''revision'' d = Some 0"
  shows "\<exists>e. fst (advance_new_draft env k d phase payload prompt_phase w) = Inl e"
proof (rule ccontr)
  assume none: "\<not> ?thesis"
  then obtain x v where "advance_new_draft env k d phase payload prompt_phase w = (Inr x, v)"
    by (cases "advance_new_draft env k d phase payload prompt_phase w"; cases "fst (advance_new_draft env k d phase payload prompt_phase w)") auto
  then show False unfolding advance_new_draft_def Let_def
  proof (elim and_then_E case_prod_E, goal_cases)
    case (1 d1 v1 d2 v2 d3 v3 d4 v4 now v5 d5 v6 p v7)
    then have "steady w v6" by (auto simp: put_field_Inr now_ms_def steady_def)
    then have "revision_at k v6 = Some r" using assms(1) by (simp add: steady_revision)
    from revision_changed [OF this assms(2,3), of env] 1(7) show ?case by simp
  qed
qed

text \<open>
  Starting \<open>/new\<close> again before the first conversation is over ends in a dead end. The buttons are made
  from a draft with revision 0, which is what is stored, while the interaction has gone on to its
  next revision; the code allows for a difference of one. So no step of the second conversation is
  ever accepted: each ends with an error, until the draft expires or is cancelled.
\<close>

theorem restarted_conversation_is_stuck:
  assumes "reads_back env"
    and "begin_interactive env k chat user message w = (Inr (), w1)"
    and "revision_of k (nw_control w) = Some r" and "1 \<le> r"
  shows "\<exists>d. new_record env k w1 = (Inr (Some d), w1) \<and>
    (case jset ''choices'' (jobj []) d of None \<Rightarrow> True
     | Some d1 \<Rightarrow> \<exists>e. fst (advance_new_draft env k d1 phase payload prompt_phase w1) = Inl e)"
proof -
  from assms(2) show ?thesis unfolding begin_interactive_def
  proof (elim and_then_E case_prod_E, goal_cases)
    case (1 models v1 effects v2 d v3 u v4 p v5 markup d1)
    have "steady w v1" by (rule choosing_same [OF 1(1)])
    moreover have "v2 = v1" using 1(2) by (simp add: from_result_def)
    moreover have d: "steady v2 v3" "ji64 ''revision'' d = Some 0" using make_draft_same [OF 1(3)] by simp_all
    ultimately have "revision_at k v3 = Some r"
      using assms(3) steady_revision by (metis revision_at_def)
    moreover have "persist_new_draft env k d v3 = (Inr (), v4)" using 1(4) by simp
    ultimately have raised: "revision_at k v4 = Some (saturating_add r 1)" by (intro persist_raises)
    have "new_choice_markup env k d (model_choices_of ''normal_model'' models) v4 = (Inr (markup, d1), v5)"
      using 1(5,6) by simp
    from markup_stores [OF assms(1) this] raised d(2)
    have v5: "new_record env k v5 = (Inr (Some d1),
        v5)" "revision_at k v5 = Some (saturating_add r 1)" "ji64 ''revision'' d1 = Some 0"
      by (simp_all add: ji64_def)
    have sent: "steady v5 w1" by (rule sending_same [OF 1(7)])
    then have rev: "revision_at k w1 = Some (saturating_add r 1)" using v5(2) by (simp add: steady_revision)
    have two: "2 \<le> saturating_add r 1"
      using assms(4) by (simp add: saturating_add_def clamp_i64_def i64_max_def i64_min_def)
    have "new_record env k w1 = (Inr (Some d1), w1)"
      using v5(1) sent by (auto simp: new_record_def see_spaces_def steady_def)
    moreover have "\<exists>e. fst (advance_new_draft env k d2 phase payload prompt_phase w1) = Inl e"
      if "jset ''choices'' (jobj []) d1 = Some d2" for d2
    proof -
      have "ji64 ''revision'' d2 = Some 0" using jset_ji64 [OF that, of "''revision''"] v5(3) by simp
      then show ?thesis using stale_advance [OF rev two] by simp
    qed
    ultimately show ?thesis by (auto split: option.split)
  qed
qed

section \<open>A directory in the command\<close>

lemma saying_same: "say_with_markup env chat text markup w = (r, w1) \<Longrightarrow> steady w w1"
  by (auto simp: say_with_markup_def and_then_def sending_def act_ok_def steady_def split: sum.splits)

text \<open>
  A command that names the directory but no prompt asks for the prompt and then takes it for a
  project. The draft it leaves is in the phase of the project, with the directory filled in, so
  the next text, which the bot has just asked for, is searched for as a project.
\<close>

theorem prompt_is_taken_for_project:
  assumes "reads_back env"
    and "list_model_choices (ne_ask env (nw_asked w)) = Inr models" and "parse_new_arguments text = Inr a"
    and "arguments_payload models a message = Some payload"
    and "nar_mode a \<noteq> None" and "nar_cwd a = Some cwd" and "nar_prompt a = None"
    and "jget ''initial_prompt'' payload = None"
    and "begin_with_arguments env (new_draft_key chat) chat user message text w = (Inr (), w1)"
  shows "\<exists>d. new_record env (new_draft_key chat) w1 = (Inr (Some d), w1)
    \<and> (\<forall>v. ji64 ''user_id'' d = Some user \<longrightarrow> new_draft_expired env d w1 = (Inr False, v) \<longrightarrow>
        handle_new_text env chat (Some user) answer w1 =
          and_then (handle_new_project_value env (new_draft_key chat) d (trim answer)) (\<lambda>_. act_ok True) v)"
proof -
  let ?k = "new_draft_key chat"
  have models: "choosing_models env w = (Inr models, w\<lparr>nw_asked := Suc (nw_asked w)\<rparr>)"
    using assms(2) by (simp add: choosing_models_def)
  from assms(9) have run: "and_then (make_draft env chat user ''project'' payload) (\<lambda>draft.
      and_then (put_payload ''cwd'' (JStr cwd) draft) (\<lambda>d1. and_then (act_ok d1) (\<lambda>d2.
      and_then (persist_new_draft env ?k d2) (\<lambda>_. send_new_prompt_or_finish env ?k d2))))
        (w\<lparr>nw_asked := Suc (nw_asked w)\<rparr>) = (Inr (), w1)"
    using assms(3-7) by (simp add: begin_with_arguments_def and_then_step [where m = "choosing_models env",
        OF models] Let_def)
  then show ?thesis
  proof (elim and_then_E, goal_cases)
    case (1 d v1 d1 v2 d2 v3 u v4)
    have d: "jget ''payload'' d = Some payload" "jstr ''phase'' d = Some ''project''"
      using 1(1) by (auto simp: make_draft_def and_then_def now_ms_def act_ok_def jget_def jstr_def jobj_def bt_get_def)
    from 1(2) d(1) obtain p1 where p1: "jset ''cwd'' (JStr cwd) payload = Some p1" "jset ''payload'' p1 d = Some d1"
      by (auto simp: put_payload_def put_field_Inr elim!: and_then_E)
    have d2: "d2 = d1" using 1(3) by (simp add: act_ok_def)
    have phase: "jstr ''phase'' d1 = Some ''project''" using jset_get [OF p1(2),
        of "''phase''"] d(2) by (simp add: jstr_def)
    have "jget ''payload'' d1 = Some p1" using jset_get [OF p1(2)] by simp
    moreover have "jget ''initial_prompt'' p1 = None" using jset_get [OF p1(1)] assms(8) by simp
    ultimately have "Option.bind (jget ''payload'' d1) (jstr ''initial_prompt'') = None" by (simp add: jstr_def)
    with 1(5) d2 show ?thesis unfolding send_new_prompt_or_finish_def
    proof (simp, elim and_then_E case_prod_E, goal_cases)
      case (1 p v5 markup d9)
      have mk: "new_choice_markup env ?k d1 [(''hello'', ''Hello'', ''Hello'')] v4 = (Inr (markup, d9), v5)"
        using 1 by simp
      from markup_stores [OF assms(1) mk] have stored: "new_record env ?k v5 = (Inr (Some d9), v5)" by simp
      have "steady v5 w1" using 1 saying_same by blast
      with stored have rec: "new_record env ?k w1 = (Inr (Some d9), w1)"
        by (auto simp: new_record_def see_spaces_def steady_def)
      have "jstr ''phase'' d9 = Some ''project''" using markup_stores [OF assms(1) mk] phase by (simp add: jstr_def)
      have "handle_new_text env chat (Some user) answer w1 =
          and_then (handle_new_project_value env ?k d9 (trim answer)) (\<lambda>_. act_ok True) v"
        if "ji64 ''user_id'' d9 = Some user" "new_draft_expired env d9 w1 = (Inr False, v)" for v
        using that \<open>jstr ''phase'' d9 = Some ''project''\<close>
        by (simp add: handle_new_text_def Let_def and_then_step [where m = "new_record env ?k", OF rec]
            and_then_step [where m = "new_draft_expired env d9", OF that(2)])
      with rec show ?case by auto
    qed
  qed
qed

end
