(* ===== verification/Projector.thy ===== *)
theory Projector
  imports TextOps Json Domain
begin

text \<open>
  The projection of app-server events, \<open>rust/crates/engine/src/projector.rs\<close>: what the daemon knows of
  each thread, kept up to date by the events of the connection. Every function that reads the clock
  more than once takes it as a function from the number of the reading.
\<close>

section \<open>The state\<close>

record projected_thread =
  tpr_thread_id :: string
  tpr_title :: "string option"
  tpr_cwd :: "string option"
  tpr_status :: "string option"
  tpr_turn_id :: "string option"
  tpr_turn_status :: "string option"
  tpr_goal :: "json option"
  tpr_plan :: "json option"
  tpr_review_status :: "string option"
  tpr_desired_mode :: "string option"
  tpr_observed_mode :: "string option"
  tpr_active_flags :: "string list"
  tpr_model :: "string option"
  tpr_effort :: "string option"
  tpr_started_at_ms :: "i64 option"
  tpr_finished_at_ms :: "i64 option"
  tpr_completed_turns_duration_ms :: i64
  tpr_completed_turn_ids :: "string set"
  tpr_items :: "(string, json) btree"
  tpr_item_order :: "string list"
  tpr_subagents :: "(string, json) btree"
  tpr_last_error :: "string option"
  tpr_last_error_recoverable :: bool
  tpr_generation :: u64
  tpr_updated_at_ms :: i64

definition projection_default :: projected_thread where
  "projection_default = \<lparr>tpr_thread_id = [], tpr_title = None, tpr_cwd = None, tpr_status = None,
     tpr_turn_id = None, tpr_turn_status = None, tpr_goal = None, tpr_plan = None, tpr_review_status = None,
     tpr_desired_mode = None, tpr_observed_mode = None, tpr_active_flags = [], tpr_model = None,
     tpr_effort = None, tpr_started_at_ms = None, tpr_finished_at_ms = None,
     tpr_completed_turns_duration_ms = 0, tpr_completed_turn_ids = {}, tpr_items = [], tpr_item_order = [],
     tpr_subagents = [], tpr_last_error = None, tpr_last_error_recoverable = False, tpr_generation = 0,
     tpr_updated_at_ms = 0\<rparr>"

datatype projection_effect = EffNone | EffRefreshStatus | EffTurnCompleted | EffError

type_synonym event_projector = "(string, projected_thread) btree"

type_synonym clock_readings = "nat \<Rightarrow> i64"

section \<open>Reading events\<close>

fun first_some :: "('a \<Rightarrow> 'b option) \<Rightarrow> 'a list \<Rightarrow> 'b option" where
  "first_some f [] = None"
| "first_some f (x # xs) = (case f x of None \<Rightarrow> first_some f xs | Some y \<Rightarrow> Some y)"

definition thread_id_from_params :: "json \<Rightarrow> string option" where
  "thread_id_from_params v = filter_opt (\<lambda>s. trim s \<noteq> [])
     (first_some (\<lambda>found. Option.bind found as_str)
       [jget ''threadId'' v, jpointer [''thread'', ''id''] v, jpointer [''turn'', ''threadId''] v,
        jpointer [''item'', ''threadId''] v])"

definition string_at :: "json \<Rightarrow> string list \<Rightarrow> string option" where
  "string_at v paths = first_some (\<lambda>p. Option.bind
     (if CHR ''/'' \<in> set p then (case split_on CHR ''/'' p of [] # ks \<Rightarrow> jpointer ks v | _ \<Rightarrow> None) else jget p v) as_str) paths"

definition normalized_mode :: "json \<Rightarrow> string option" where
  "normalized_mode v = filter_opt (\<lambda>raw. raw = ''plan'' \<or> raw = ''default'')
     (map_option (\<lambda>s. to_ascii_lowercase (trim s)) (or_else (as_str v) (jstr ''mode'' v)))"

definition mode_from_fields :: "json \<Rightarrow> string list \<Rightarrow> string option" where
  "mode_from_fields v ks = first_some (\<lambda>k. Option.bind (jget k v) normalized_mode) ks"

definition recoverable_error_text :: "string \<Rightarrow> bool" where
  "recoverable_error_text message = (let normalized = to_ascii_lowercase message in
     contains_text ''reconnecting'' normalized \<or> contains_text ''will retry'' normalized)"

definition status_is_healthy :: "string option \<Rightarrow> bool" where
  "status_is_healthy status = (case status of None \<Rightarrow> False
     | Some s \<Rightarrow> s \<notin> {''systemError'', ''failed'', ''error''})"

definition clear_recoverable_error :: "projected_thread \<Rightarrow> projected_thread" where
  "clear_recoverable_error p = (if tpr_last_error_recoverable p
     then p\<lparr>tpr_last_error := None, tpr_last_error_recoverable := False\<rparr> else p)"

definition clear_recoverable_error_on_healthy_projection :: "projected_thread \<Rightarrow> projected_thread" where
  "clear_recoverable_error_on_healthy_projection p =
     (if status_is_healthy (tpr_status p) then clear_recoverable_error p else p)"

text \<open>A status is a text or an object with a type; its flags are the texts among the values.\<close>

definition status_text :: "json \<Rightarrow> string option" where
  "status_text v = or_else (as_str v) (jstr ''type'' v)"

definition status_flags :: "json \<Rightarrow> string list" where
  "status_flags v = (case Option.bind (or_else (jget ''activeFlags'' v) (jget ''active_flags'' v)) as_array of
     None \<Rightarrow> [] | Some vs \<Rightarrow> List.map_filter as_str vs)"

definition merge_thread :: "projected_thread \<Rightarrow> json \<Rightarrow> projected_thread" where
  "merge_thread p v = (let
     source = unwrap_or (jget ''thread'' v) v;
     confirmed = mode_from_fields source [''collaborationMode'', ''collaboration_mode''];
     observed = or_else (mode_from_fields source [''observedMode'', ''observed_mode'']) confirmed in
     p\<lparr>tpr_title := or_else (first_some (\<lambda>k. jstr k source) [''title'', ''name'', ''naturalSummary'',
         ''summary'']) (tpr_title p),
       tpr_cwd := or_else (Option.bind (or_else (jget ''cwd'' source) (jget ''directory'' source)) as_str) (tpr_cwd p),
       tpr_status := or_else (Option.bind (jget ''status'' source) status_text) (tpr_status p),
       tpr_desired_mode := or_else confirmed (tpr_desired_mode p),
       tpr_observed_mode := or_else observed (tpr_observed_mode p),
       tpr_model := or_else (jstr ''model'' source) (tpr_model p),
       tpr_effort := or_else (Option.bind (or_else (jget ''effort'' source) (jget ''reasoningEffort'' source)) as_str) (tpr_effort p),
       tpr_active_flags := (case jget ''status'' source of None \<Rightarrow> tpr_active_flags p | Some s \<Rightarrow> status_flags s)\<rparr>)"

definition projection_thread_id :: "projected_thread \<Rightarrow> thread_id option" where
  "projection_thread_id p = (case thread_id_new (tpr_thread_id p) of Inl e \<Rightarrow> None | Inr i \<Rightarrow> Some i)"

section \<open>Items\<close>

definition max_projection_items :: nat where "max_projection_items = 200"

text \<open>The loop over \<open>item_order\<close>, oldest first.\<close>

fun drop_oldest :: "(string, json) btree \<Rightarrow> string list \<Rightarrow> (string, json) btree \<times> string list" where
  "drop_oldest items [] = (items, [])"
| "drop_oldest items (oldest # order) =
     (if max_projection_items < length (oldest # order) then drop_oldest (bt_remove oldest items) order
      else (items, oldest # order))"

definition truncate_items :: "projected_thread \<Rightarrow> projected_thread" where
  "truncate_items p = (case drop_oldest (tpr_items p) (tpr_item_order p) of (items, order) \<Rightarrow>
     p\<lparr>tpr_items := (if max_projection_items < length items then filter (\<lambda>e. fst e \<in> set order) items else items),
       tpr_item_order := order\<rparr>)"

section \<open>Tasks of sub-agents\<close>

definition max_subagent_tasks :: nat where "max_subagent_tasks = 50"

definition active_task_statuses :: "string list" where
  "active_task_statuses = [''pending'', ''pendingInit'', ''active'', ''running'', ''inProgress'']"

definition terminal_task_statuses :: "string list" where
  "terminal_task_statuses = [''completed'', ''shutdown'', ''failed'', ''errored'', ''interrupted'', ''notFound'']"

definition normalize_task_status :: "string \<Rightarrow> string" where
  "normalize_task_status s = (if s \<in> {''completed'', ''shutdown'', ''interrupted'', ''notFound''} then s
     else if s = ''errored'' then ''failed'' else if s = ''running'' then ''inProgress'' else ''pending'')"

definition task_text :: "json option \<Rightarrow> string \<Rightarrow> string option" where
  "task_text task k = filter_opt (\<lambda>s. s \<noteq> []) (Option.bind task (jstr k))"

definition task_i64 :: "json option \<Rightarrow> string \<Rightarrow> i64 option" where
  "task_i64 task k = Option.bind task (ji64 k)"

text \<open>\<open>chars().take(n)\<close>: a character is a byte that does not continue one, with those that continue it.\<close>

fun take_chars :: "nat \<Rightarrow> string \<Rightarrow> string" where
  "take_chars n [] = []"
| "take_chars n (c # s) = (if cont_byte c then c # take_chars n s
     else case n of 0 \<Rightarrow> [] | Suc m \<Rightarrow> c # take_chars m s)"

text \<open>\<open>split_whitespace\<close>.\<close>

lemma length_strip_ws: "length (strip_ws w s) \<le> length s"
  by (induction w s rule: strip_ws.induct) (subst strip_ws.simps, force)

lemma take_word_nonempty: "trim_start s \<noteq> [] \<Longrightarrow> take_word (trim_start s) \<noteq> []"
  using strip_ws_fixed [of ws_width s] by (cases "trim_start s") (auto simp: trim_start_def)

function split_whitespace :: "string \<Rightarrow> string list" where
  "split_whitespace s = (let t = trim_start s in
     if t = [] then [] else take_word t # split_whitespace (drop (length (take_word t)) t))"
  by pat_completeness auto
termination
proof (relation "measure length")
  fix s t assume t: "t = trim_start s" "t \<noteq> []"
  then have "0 < length (take_word t)" using take_word_nonempty by blast
  moreover have "length t \<le> length s" using t length_strip_ws by (simp add: trim_start_def)
  ultimately show "(drop (length (take_word t)) t,
      s) \<in> measure length" using t(2) by (simp add: less_le_trans [OF diff_less])
qed simp

declare split_whitespace.simps [simp del]

definition compact_text :: "string \<Rightarrow> nat \<Rightarrow> string" where
  "compact_text v limit = take_chars limit (join '' '' (split_whitespace v))"

definition short_id_prefix :: "string \<Rightarrow> string" where
  "short_id_prefix s = take_chars 8 s"

definition subagent_task_value :: "string \<Rightarrow> string \<Rightarrow> string \<Rightarrow> string option \<Rightarrow> string option \<Rightarrow> string option
    \<Rightarrow> string option \<Rightarrow> string option \<Rightarrow> string \<Rightarrow> i64 \<Rightarrow> i64 \<Rightarrow> i64 \<Rightarrow> json" where
  "subagent_task_value task_id title status path nickname role m effort message started finished updated = jobj [
     (''task_id'', JStr task_id), (''title'', JStr title), (''status'', JStr status),
     (''agent_thread_id'', JStr task_id), (''agent_path'', JStr (unwrap_or path [])),
     (''agent_nickname'', JStr (unwrap_or nickname [])), (''agent_role'', JStr (unwrap_or role [])),
     (''model'', JStr (unwrap_or m [])), (''reasoning_effort'', JStr (unwrap_or effort [])),
     (''message'', JStr message), (''started_at'', JInt started), (''finished_at'', JInt finished),
     (''updated_at'', JInt updated)]"

text \<open>The task that was updated longest ago goes first; of two, the one whose key is less.\<close>

definition oldest_task :: "(string, json) btree \<Rightarrow> string option" where
  "oldest_task tasks = (case map (\<lambda>(k, task). (unwrap_or (ji64 ''updated_at'' task) 0, k)) tasks of
     [] \<Rightarrow> None | x # xs \<Rightarrow> Some (snd (fold min xs x)))"

lemma oldest_task_key: "oldest_task tasks = Some k \<Longrightarrow> k \<in> fst ` set tasks"
proof -
  have member: "fold min xs x \<in> insert x (set xs)" for xs and x :: "i64 \<times> string"
    by (induction xs arbitrary: x) (auto simp: min_def)
  assume "oldest_task tasks = Some k"
  then obtain x xs where x: "map (\<lambda>(k, task). (unwrap_or (ji64 ''updated_at'' task) 0,
      k)) tasks = x # xs" "k = snd (fold min xs x)"
    by (auto simp: oldest_task_def split: list.splits)
  then have "fold min xs x \<in> set (map (\<lambda>(k, task). (unwrap_or (ji64 ''updated_at'' task) 0, k)) tasks)"
    using member [of xs x] by simp
  with x(2) show ?thesis by (force simp: case_prod_beta)
qed

function trim_tasks :: "(string, json) btree \<Rightarrow> (string, json) btree" where
  "trim_tasks tasks = (if length tasks \<le> max_subagent_tasks then tasks
     else case oldest_task tasks of None \<Rightarrow> tasks | Some k \<Rightarrow> trim_tasks (bt_remove k tasks))"
  by pat_completeness auto
termination
  by (relation "measure length") (auto simp: bt_remove_def length_filter_less dest!: oldest_task_key)

declare trim_tasks.simps [simp del]

definition trim_subagent_tasks :: "projected_thread \<Rightarrow> projected_thread" where
  "trim_subagent_tasks p = p\<lparr>tpr_subagents := trim_tasks (tpr_subagents p)\<rparr>"

text \<open>One agent of a tool call. A replay of history does not bring a task that has ended back to work.\<close>

definition collab_status :: "bool \<Rightarrow> json option \<Rightarrow> string \<Rightarrow> string" where
  "collab_status historical current raw_status = (let
     current_status = task_text current ''status''; task_status = normalize_task_status raw_status in
     if historical \<and> unwrap_or (map_option (\<lambda>s. s \<in> set terminal_task_statuses) current_status) False
        \<and> task_status \<in> set active_task_statuses
     then unwrap_or current_status task_status else task_status)"

definition collab_started :: "json option \<Rightarrow> string \<Rightarrow> i64 \<Rightarrow> i64" where
  "collab_started current task_status now = (let started = unwrap_or (task_i64 current ''started_at'') 0 in
     if started = 0 \<and> task_status \<in> {''pending'', ''inProgress''} then now else started)"

definition collab_finished :: "json option \<Rightarrow> string \<Rightarrow> i64 \<Rightarrow> i64" where
  "collab_finished current task_status now = (let finished = unwrap_or (task_i64 current ''finished_at'') 0 in
     if task_status \<in> set terminal_task_statuses then (if finished = 0 then now else finished)
     else if task_status \<in> {''pending'', ''inProgress''} then 0 else finished)"

definition collab_task :: "json \<Rightarrow> bool \<Rightarrow> i64 \<Rightarrow> json option \<Rightarrow> string \<Rightarrow> json \<Rightarrow> json" where
  "collab_task item historical now current task_id v = (let
     prompt = compact_text (unwrap_or (jstr ''prompt'' item) []) 160;
     tool = unwrap_or (jstr ''tool'' item) [];
     is_spawn = (tool = ''spawnAgent'' \<or> tool = ''spawn_agent'');
     receivers = (case Option.bind (or_else (jget ''receiverThreadIds'' item) (jget ''receiver_thread_ids'' item)) as_array of
       None \<Rightarrow> [] | Some vs \<Rightarrow> List.map_filter as_str vs);
     spawned_model = unwrap_or (jstr ''model'' item) [];
     spawned_effort = unwrap_or (Option.bind (or_else (jget ''reasoningEffort'' item) (jget ''reasoning_effort'' item)) as_str) [];
     task_status = collab_status historical current (unwrap_or (jstr ''status'' v) ''pendingInit'');
     is_spawn_receiver = (is_spawn \<and> task_id \<in> set receivers);
     title = (if prompt \<noteq> [] \<and> (is_spawn \<or> current = None) then prompt
       else unwrap_or (task_text current ''title'') (''Agent '' @ short_id_prefix task_id)) in
     subagent_task_value task_id title task_status
       (task_text current ''agent_path'') (task_text current ''agent_nickname'') (task_text current ''agent_role'')
       (if is_spawn_receiver \<and> spawned_model \<noteq> [] then Some spawned_model else task_text current ''model'')
       (if is_spawn_receiver \<and> spawned_effort \<noteq> [] then Some spawned_effort else task_text current ''reasoning_effort'')
       (unwrap_or (or_else (jstr ''message'' v) (task_text current ''message'')) [])
       (collab_started current task_status now) (collab_finished current task_status now) now)"

fun collab_states :: "json \<Rightarrow> bool \<Rightarrow> i64 \<Rightarrow> (string \<times> json) list \<Rightarrow> (string, json) btree \<Rightarrow> (string, json) btree" where
  "collab_states item historical now [] tasks = tasks"
| "collab_states item historical now ((task_id, v) # states) tasks = collab_states item historical now states
     (if is_object v then bt_insert task_id (collab_task item historical now (bt_get tasks task_id) task_id v) tasks
      else tasks)"

definition project_collab_agent_tool_call :: "i64 \<Rightarrow> projected_thread \<Rightarrow> json \<Rightarrow> bool \<Rightarrow> projected_thread" where
  "project_collab_agent_tool_call now p item historical =
     (case Option.bind (or_else (jget ''agentsStates'' item) (jget ''agents_states'' item)) as_object of
        None \<Rightarrow> p
      | Some states \<Rightarrow> trim_subagent_tasks
          (p\<lparr>tpr_subagents := collab_states item historical now states (tpr_subagents p)\<rparr>))"

definition activity_status :: "bool \<Rightarrow> json option \<Rightarrow> string \<Rightarrow> string" where
  "activity_status historical current kind = (let current_status = task_text current ''status'' in
     if kind = ''interrupted'' then ''interrupted''
     else if kind = ''started'' \<or> kind = ''interacted'' then
       (if historical \<and> unwrap_or (map_option (\<lambda>s. s \<in> set terminal_task_statuses) current_status) False
        then unwrap_or current_status ''inProgress'' else ''inProgress'')
     else unwrap_or current_status ''pending'')"

definition activity_task :: "bool \<Rightarrow> i64 \<Rightarrow> json option \<Rightarrow> string \<Rightarrow> string \<Rightarrow> string \<Rightarrow> json" where
  "activity_task historical now current task_id agent_path kind = (let
     task_status = activity_status historical current kind;
     finished = (if task_status \<in> set terminal_task_statuses
       then (let existing = unwrap_or (task_i64 current ''finished_at'') 0 in if existing = 0 then now else existing)
       else 0);
     started = unwrap_or (filter_opt (\<lambda>s. 0 < s) (task_i64 current ''started_at'')) now;
     title = unwrap_or (task_text current ''title'')
       (if agent_path = [] then ''Agent '' @ short_id_prefix task_id else ''Agent '' @ agent_path);
     path = (if agent_path = [] then task_text current ''agent_path'' else Some agent_path) in
     subagent_task_value task_id title task_status path
       (task_text current ''agent_nickname'') (task_text current ''agent_role'') (task_text current ''model'')
       (task_text current ''reasoning_effort'') (unwrap_or (task_text current ''message'') []) started finished now)"

definition project_subagent_activity :: "i64 \<Rightarrow> projected_thread \<Rightarrow> json \<Rightarrow> bool \<Rightarrow> projected_thread" where
  "project_subagent_activity now p item historical = (let
     task_id = unwrap_or (Option.bind (or_else (jget ''agentThreadId'' item) (jget ''agent_thread_id'' item)) as_str) [] in
     if task_id = [] then p
     else let
       agent_path = compact_text (unwrap_or (Option.bind (or_else (jget ''agentPath'' item) (jget ''agent_path'' item)) as_str) []) 120;
       kind = unwrap_or (jstr ''kind'' item) [] in
       trim_subagent_tasks (p\<lparr>tpr_subagents := bt_insert task_id
         (activity_task historical now (bt_get (tpr_subagents p) task_id) task_id agent_path kind) (tpr_subagents p)\<rparr>))"

definition project_item_subagents :: "i64 \<Rightarrow> projected_thread \<Rightarrow> json \<Rightarrow> bool \<Rightarrow> projected_thread" where
  "project_item_subagents now p item historical =
     (if jstr ''type'' item = Some ''collabAgentToolCall'' then project_collab_agent_tool_call now p item historical
      else if jstr ''type'' item = Some ''subAgentActivity'' then project_subagent_activity now p item historical
      else p)"

text \<open>\<open>div_euclid\<close> of a positive divisor.\<close>

definition to_secs :: "i64 \<Rightarrow> i64" where
  "to_secs ms = ms div 1000"

section \<open>The events\<close>

definition project_status :: "json \<Rightarrow> projected_thread \<Rightarrow> projected_thread" where
  "project_status v p = (let status = or_else (jget ''status'' v) (jpointer [''thread'', ''status''] v);
     p1 = p\<lparr>tpr_status := Option.bind status status_text,
       tpr_active_flags := (case status of None \<Rightarrow> [] | Some s \<Rightarrow> status_flags s)\<rparr> in
     clear_recoverable_error_on_healthy_projection p1)"

definition project_settings :: "json \<Rightarrow> projected_thread \<Rightarrow> projected_thread" where
  "project_settings v p = (let
     settings = unwrap_or (or_else (jget ''threadSettings'' v) (jget ''settings'' v)) v;
     mode = (\<lambda>ks. or_else (mode_from_fields settings ks) (mode_from_fields v ks));
     confirmed = mode [''collaborationMode'', ''collaboration_mode''];
     observed = mode [''observedMode'', ''observed_mode''] in
     p\<lparr>tpr_desired_mode := or_else confirmed (tpr_desired_mode p),
       tpr_observed_mode := or_else (or_else observed confirmed) (tpr_observed_mode p),
       tpr_model := or_else (jstr ''model'' settings) (tpr_model p),
       tpr_effort := or_else (Option.bind (or_else (jget ''effort'' settings) (jget ''reasoning_effort'' settings)) as_str)
         (tpr_effort p)\<rparr>)"

definition project_turn_started :: "i64 \<Rightarrow> json \<Rightarrow> projected_thread \<Rightarrow> projected_thread" where
  "project_turn_started now v p = (clear_recoverable_error p)\<lparr>
     tpr_turn_id := string_at v [''turnId'', ''turn'', ''id''], tpr_turn_status := Some ''inProgress'',
     tpr_started_at_ms := Some now, tpr_finished_at_ms := None\<rparr>"

definition project_turn_updated :: "json \<Rightarrow> projected_thread \<Rightarrow> projected_thread" where
  "project_turn_updated v p = (let p1 = (case jget ''turn'' v of None \<Rightarrow> p
       | Some turn \<Rightarrow> p\<lparr>tpr_turn_id := jstr ''id'' turn, tpr_turn_status := jstr ''status'' turn\<rparr>) in
     if tpr_turn_status p1 = Some ''failed'' then p1 else clear_recoverable_error p1)"

definition ended_turn_duration :: "i64 \<Rightarrow> json \<Rightarrow> projected_thread \<Rightarrow> i64" where
  "ended_turn_duration now v p = (case Option.bind (Option.bind (jget ''turn'' v)
       (\<lambda>turn. or_else (jget ''durationMs'' turn) (jget ''duration_ms'' turn))) as_i64 of
     Some d \<Rightarrow> d
   | None \<Rightarrow> unwrap_or (map_option (\<lambda>started. saturating_sub now started) (tpr_started_at_ms p)) 0)"

definition ended_turn_id :: "json \<Rightarrow> projected_thread \<Rightarrow> string option" where
  "ended_turn_id v p = or_else (Option.bind (jget ''turn'' v) (jstr ''id'')) (tpr_turn_id p)"

text \<open>In the events below the method starts with \<open>turn/\<close> or \<open>review/\<close> once.\<close>

definition project_turn_ended :: "clock_readings \<Rightarrow> string \<Rightarrow> json \<Rightarrow> projected_thread \<Rightarrow> projected_thread" where
  "project_turn_ended now event v p = (let
     p1 = p\<lparr>tpr_turn_status := or_else (Option.bind (jget ''turn'' v) (jstr ''status'')) (strip_prefix ''turn/'' event),
       tpr_finished_at_ms := Some (now 1)\<rparr>;
     duration = ended_turn_duration (now 2) v p1;
     turn_id = ended_turn_id v p1 in
     if unwrap_or (map_option (\<lambda>i. i \<in> tpr_completed_turn_ids p1) turn_id) False then p1
     else p1\<lparr>tpr_completed_turn_ids := set_option turn_id \<union> tpr_completed_turn_ids p1,
       tpr_completed_turns_duration_ms := saturating_add (tpr_completed_turns_duration_ms p1) (max duration 0)\<rparr>)"

definition project_item :: "i64 \<Rightarrow> json \<Rightarrow> projected_thread \<Rightarrow> projected_thread" where
  "project_item now v p = (case jget ''item'' v of
     None \<Rightarrow> p
   | Some item \<Rightarrow> let p1 = (case jstr ''id'' item of
         None \<Rightarrow> p
       | Some i \<Rightarrow> p\<lparr>tpr_item_order := (if bt_get (tpr_items p) i = None then tpr_item_order p @ [i] else tpr_item_order p),
           tpr_items := bt_insert i item (tpr_items p)\<rparr>) in
       truncate_items (project_item_subagents (to_secs now) p1 item False))"

definition project_subagent :: "json \<Rightarrow> projected_thread \<Rightarrow> projected_thread" where
  "project_subagent v p = (case or_else (jget ''task'' v) (jget ''subagent'' v) of
     None \<Rightarrow> p
   | Some task \<Rightarrow> (case jstr ''id'' task of
       None \<Rightarrow> p
     | Some i \<Rightarrow> p\<lparr>tpr_subagents := bt_insert i task (tpr_subagents p)\<rparr>))"

definition error_message :: "json \<Rightarrow> string" where
  "error_message v = unwrap_or (Option.bind (Option.bind (jget ''error'' v)
     (\<lambda>e. or_else (jget ''message'' e) (Some e))) as_str) ''Codex error''"

definition error_recoverable :: "json \<Rightarrow> bool" where
  "error_recoverable v = unwrap_or (Option.bind (or_else (jget ''willRetry'' v) (jget ''will_retry'' v)) as_bool)
     (recoverable_error_text (error_message v))"

definition project_error :: "i64 \<Rightarrow> json \<Rightarrow> projected_thread \<Rightarrow> projected_thread" where
  "project_error now v p = (let p1 = p\<lparr>tpr_last_error := Some (error_message v),
       tpr_last_error_recoverable := error_recoverable v\<rparr> in
     if error_recoverable v then p1
     else p1\<lparr>tpr_turn_status := Some ''failed'', tpr_finished_at_ms := Some now\<rparr>)"

text \<open>What an event does to the projection of its thread. The first reading of the clock is in \<open>projector_apply\<close>.\<close>

definition project_event :: "clock_readings \<Rightarrow> string \<Rightarrow> json \<Rightarrow> projected_thread \<Rightarrow> projection_effect \<times> projected_thread" where
  "project_event now event v p =
     (if event \<in> {''thread/started'', ''thread/created'', ''thread/updated''}
      then (EffRefreshStatus, clear_recoverable_error_on_healthy_projection (merge_thread p v))
      else if event \<in> {''thread/status/updated'', ''thread/status/changed''} then (EffRefreshStatus, project_status v p)
      else if event \<in> {''thread/settings/updated'', ''thread/settings/update''} then (EffRefreshStatus,
          project_settings v p)
      else if event \<in> {''turn/started'', ''turn/created''} then (EffRefreshStatus, project_turn_started (now 1) v p)
      else if event = ''turn/updated'' then (EffRefreshStatus, project_turn_updated v p)
      else if event \<in> {''turn/completed'', ''turn/failed'', ''turn/interrupted''}
      then (EffTurnCompleted, project_turn_ended now event v p)
      else if event \<in> {''item/started'', ''item/updated'', ''item/completed'', ''item/failed''}
      then (EffRefreshStatus, project_item (now 1) v p)
      else if event \<in> {''item/agentMessage/delta'', ''item/plan/delta'',
          ''item/reasoning/delta''} then (EffRefreshStatus, p)
      else if event \<in> {''turn/plan/updated'', ''thread/plan/updated'', ''plan/updated'', ''plan/published''}
      then (EffRefreshStatus, p\<lparr>tpr_plan := Some (unwrap_or (jget ''plan'' v) v)\<rparr>)
      else if event \<in> {''goal/updated'', ''thread/goal/updated''}
      then (EffRefreshStatus, p\<lparr>tpr_goal := Some (unwrap_or (jget ''goal'' v) v)\<rparr>)
      else if event \<in> {''subagent/started'', ''subagent/updated'', ''subagent/completed''}
      then (EffRefreshStatus, project_subagent v p)
      else if event \<in> {''review/started'', ''review/updated'', ''review/completed''}
      then (EffRefreshStatus, p\<lparr>tpr_review_status := or_else (jstr ''status'' v) (strip_prefix ''review/'' event)\<rparr>)
      else if event \<in> {''error'', ''turn/error''}
      then (if error_recoverable v then EffRefreshStatus else EffError, project_error (now 1) v p)
      else (EffNone, p))"

section \<open>The projector\<close>

definition projector_apply :: "clock_readings \<Rightarrow> agent_event \<Rightarrow> event_projector \<Rightarrow> projection_effect \<times> event_projector" where
  "projector_apply now ev threads = (case thread_id_from_params (aev_params ev) of
     None \<Rightarrow> (EffNone, threads)
   | Some t \<Rightarrow> let
       p0 = unwrap_or (bt_get threads t) (projection_default\<lparr>tpr_thread_id := t, tpr_generation := aev_generation ev\<rparr>);
       p1 = p0\<lparr>tpr_generation := aev_generation ev, tpr_updated_at_ms := max (tpr_updated_at_ms p0) (now 0)\<rparr> in
       (case project_event now (aev_method ev) (aev_params ev) p1 of (e, p2) \<Rightarrow> (e, bt_insert t p2 threads)))"

definition projector_restore :: "projected_thread \<Rightarrow> event_projector \<Rightarrow> event_projector" where
  "projector_restore p threads = (if trim (tpr_thread_id p) \<noteq> []
     then bt_insert (tpr_thread_id p) (truncate_items p) threads else threads)"

definition evictable :: "i64 \<Rightarrow> projected_thread \<Rightarrow> bool" where
  "evictable cutoff p \<longleftrightarrow> ((case tpr_finished_at_ms p of None \<Rightarrow> False | Some finished \<Rightarrow> finished < cutoff)
      \<or> (0 < tpr_updated_at_ms p \<and> tpr_updated_at_ms p < cutoff))
   \<and> tpr_turn_status p \<noteq> Some ''inProgress''"

definition evict_finished_before :: "i64 \<Rightarrow> event_projector \<Rightarrow> nat \<times> event_projector" where
  "evict_finished_before cutoff threads = (let gone = map fst (filter (\<lambda>(t, p). evictable cutoff p) threads) in
     (length gone, fold bt_remove gone threads))"

end
