(* ===== verification/Hydration.thy ===== *)
theory Hydration
  imports Projector NewArgs Panels SpaceStore
begin

text \<open>
  How the daemon (\<open>rust/crates/cli/src/daemon.rs\<close>) brings what it knows of the sessions up to date: the
  rows of \<open>/sessions\<close>, the projection rebuilt from \<open>thread/read\<close>, and the profile of models that a session
  space keeps.
\<close>

section \<open>Reading values\<close>

text \<open>\<open>str::parse::<i64>\<close>: an optional sign, then digits, in range.\<close>

definition parse_i64 :: "string \<Rightarrow> i64 option" where
  "parse_i64 s = (let
     digits = (case s of [] \<Rightarrow> [] | c # r \<Rightarrow> if c = CHR ''-'' \<or> c = CHR ''+'' then r else s);
     n = foldl (\<lambda>k c. 10 * k + (int (byte c) - 48)) 0 digits;
     v = (if starts_with ''-'' s then - n else n) in
     if digits \<noteq> [] \<and> list_all is_digit digits \<and> in_i64 v then Some v else None)"

text \<open>A text, or the first text that is not blank under one of four keys, which may be nested.\<close>

fun normalized_status :: "json \<Rightarrow> string \<Rightarrow> string" where
  "normalized_status (JStr s) d = (if trim s \<noteq> [] then trim s else d)"
| "normalized_status (JObj m) d = unwrap_or (first_some (\<lambda>k.
     filter_opt (\<lambda>s. s \<noteq> []) (map_of (map (\<lambda>(key, v). (key, normalized_status v [])) m) k))
     [''type'', ''status'', ''state'', ''name'']) d"
| "normalized_status v d = d"

definition normalized_status_opt :: "json option \<Rightarrow> string \<Rightarrow> string" where
  "normalized_status_opt v d = (case v of None \<Rightarrow> d | Some x \<Rightarrow> normalized_status x d)"

definition status_active_flags :: "json option \<Rightarrow> string list" where
  "status_active_flags v = (case Option.bind v as_object of None \<Rightarrow> []
     | Some m \<Rightarrow> status_flags (JObj m))"

definition control_epoch_value :: "json option \<Rightarrow> i64 option" where
  "control_epoch_value v = (case v of
     Some (JInt n) \<Rightarrow> if in_i64 n then Some n else None
   | Some (JStr s) \<Rightarrow> parse_i64 (trim s)
   | _ \<Rightarrow> None)"

definition control_epoch_ms :: "json option \<Rightarrow> i64 option" where
  "control_epoch_ms v = map_option (\<lambda>raw. if 100000000000 < raw then raw else saturating_mul raw 1000) (control_epoch_value v)"

definition message_of_error :: "json option \<Rightarrow> string option" where
  "message_of_error v = Option.bind v (\<lambda>e. trimmed (Option.bind (or_else (jget ''message'' e) (Some e)) as_str))"

definition either_key :: "string \<Rightarrow> string \<Rightarrow> json \<Rightarrow> json option" where
  "either_key k1 k2 v = or_else (jget k1 v) (jget k2 v)"

section \<open>Rows of \<open>/sessions\<close>\<close>

definition session_title_keys :: "string list" where
  "session_title_keys = [''naturalSummary'', ''summary'', ''title'', ''name'', ''preview'']"

text \<open>Division by 1000 truncates towards zero; here the number is positive.\<close>

definition epoch_secs :: "string \<Rightarrow> json \<Rightarrow> i64 option" where
  "epoch_secs k v = map_option (\<lambda>raw. if 100000000000 < raw then raw div 1000 else raw) (control_epoch_value (jget k v))"

definition control_session_from_value :: "json \<Rightarrow> listed_session option" where
  "control_session_from_value v = (case jstr ''id'' v of
     None \<Rightarrow> None
   | Some raw \<Rightarrow> if trim raw = [] \<or> jbool ''ephemeral'' v = Some True then None
     else let status = jget ''status'' v in Some \<lparr>lse_thread_id = trim raw,
       lse_title = unwrap_or (first_some (\<lambda>k. jstr k v) session_title_keys) ''Codex session'',
       lse_status = normalized_status_opt status ''unknown'',
       lse_turn_status = normalized_status_opt (either_key ''turnStatus'' ''turn_status'' v) ''idle'',
       lse_lifecycle = unwrap_or (jstr ''lifecycle'' v) [],
       lse_active_flags = (if status_active_flags status = [] then status_flags v else status_active_flags status),
       lse_error = unwrap_or (Option.bind (Option.bind (jget ''error'' v) (\<lambda>e. or_else (jget ''message'' e) (Some e))) as_str) [],
       lse_created_at = or_else (epoch_secs ''createdAt'' v) (epoch_secs ''created_at'' v),
       lse_updated_at = or_else (epoch_secs ''updatedAt'' v) (epoch_secs ''updated_at'' v),
       lse_cwd = unwrap_or (Option.bind (either_key ''cwd'' ''path'' v) as_str) ''-''\<rparr>)"

definition listed_threads :: "json \<Rightarrow> listed_session list" where
  "listed_threads response = (case Option.bind (either_key ''data'' ''threads'' response) as_array of
     None \<Rightarrow> [] | Some items \<Rightarrow> List.map_filter control_session_from_value items)"

definition session_of_projection :: "(string \<Rightarrow> i64 option) \<Rightarrow> (string \<Rightarrow> string option) \<Rightarrow> string \<times> projected_thread \<Rightarrow> listed_session" where
  "session_of_projection created lifecycle = (\<lambda>(t, p). \<lparr>lse_thread_id = t,
     lse_title = unwrap_or (filter_opt (\<lambda>s. trim s \<noteq> []) (tpr_title p)) ''Codex session'',
     lse_status = unwrap_or (tpr_status p) ''unknown'', lse_turn_status = unwrap_or (tpr_turn_status p) ''idle'',
     lse_lifecycle = unwrap_or (lifecycle t) [], lse_active_flags = tpr_active_flags p,
     lse_error = (if tpr_last_error_recoverable p then [] else unwrap_or (tpr_last_error p) []),
     lse_created_at = created t,
     lse_updated_at = (if 0 < tpr_updated_at_ms p then Some (to_secs (tpr_updated_at_ms p)) else None),
     lse_cwd = unwrap_or (tpr_cwd p) ''-''\<rparr>)"

text \<open>
  Latest first, threads of the same second by name. \<open>sort_by\<close> is stable; no time at all is before every
  time. The key turns the order of the times round.
\<close>

definition recency_key :: "listed_session \<Rightarrow> bool \<times> int \<times> string" where
  "recency_key s = (lse_updated_at s = None, - unwrap_or (lse_updated_at s) 0, lse_thread_id s)"

text \<open>\<open>decode\<close> is the derived decoder of a stored projection; a row that it refuses is left out.\<close>

definition control_sessions_from_projections :: "(json \<Rightarrow> projected_thread option) \<Rightarrow> (string \<times> json) list
    \<Rightarrow> (string \<Rightarrow> i64 option) \<Rightarrow> (string \<Rightarrow> string option) \<Rightarrow> listed_session list" where
  "control_sessions_from_projections decode rows created lifecycle =
     sort_key recency_key (List.map_filter (\<lambda>(t, payload).
       map_option (\<lambda>p. session_of_projection created lifecycle (t, p)) (decode payload)) rows)"

section \<open>The cache of the listing\<close>

definition sessions_cache_ttl_ms :: i64 where "sessions_cache_ttl_ms = 15000"
definition sessions_created_backfill_backoff_ms :: i64 where "sessions_created_backfill_backoff_ms = 60000"

record sessions_cache =
  sca_sessions :: "listed_session list"
  sca_built_at_ms :: i64
  sca_created_at_ms :: "string \<rightharpoonup> i64"
  sca_backfill_attempted_at_ms :: i64
  sca_dirty :: bool

text \<open>The creation times of a listing are kept; a later one replaces an earlier one.\<close>

definition harvest :: "listed_session list \<Rightarrow> (string \<rightharpoonup> i64) \<Rightarrow> (string \<rightharpoonup> i64)" where
  "harvest listed created = fold (\<lambda>s m. case lse_created_at s of None \<Rightarrow> m | Some c \<Rightarrow> m(lse_thread_id s \<mapsto> c)) listed created"

definition fill_created :: "(string \<rightharpoonup> i64) \<Rightarrow> listed_session \<Rightarrow> listed_session" where
  "fill_created created s = s\<lparr>lse_created_at := or_else (lse_created_at s) (created (lse_thread_id s))\<rparr>"

text \<open>\<open>listing\<close> is the answer of \<open>thread/list\<close> should it be asked; \<open>now\<close> is read at the start and at the end.\<close>

definition list_control_sessions_cached ::
  "(json \<Rightarrow> projected_thread option) \<Rightarrow> clock_readings \<Rightarrow> (string \<times> json) list \<Rightarrow> (string \<Rightarrow> string option)
    \<Rightarrow> string + listed_session list \<Rightarrow> sessions_cache \<Rightarrow> (string + listed_session list) \<times> sessions_cache" where
  "list_control_sessions_cached decode now rows lifecycle listing cache =
     (if 0 < sca_built_at_ms cache \<and> saturating_sub (now 0) (sca_built_at_ms cache) < sessions_cache_ttl_ms
         \<and> \<not> sca_dirty cache
      then (Inr (sca_sessions cache), cache)
      else let c1 = cache\<lparr>sca_dirty := False\<rparr>;
        built = (\<lambda>sessions c. (Inr sessions, c\<lparr>sca_sessions := sessions, sca_built_at_ms := now 1\<rparr>)) in
        if rows \<noteq> [] then let
            sessions = control_sessions_from_projections decode rows (sca_created_at_ms c1) lifecycle;
            missing = list_ex (\<lambda>s. lse_created_at s = None) sessions;
            due = (sessions_created_backfill_backoff_ms \<le> saturating_sub (now 0) (sca_backfill_attempted_at_ms c1)) in
          if missing \<and> due then (case listing of
              Inl e \<Rightarrow> built sessions (c1\<lparr>sca_backfill_attempted_at_ms := now 0\<rparr>)
            | Inr listed \<Rightarrow> let created = harvest listed (sca_created_at_ms c1) in
                built (map (fill_created created) sessions)
                  (c1\<lparr>sca_created_at_ms := created, sca_backfill_attempted_at_ms := now 0\<rparr>))
          else built sessions c1
        else (case listing of
            Inl e \<Rightarrow> (Inl e, c1)
          | Inr listed \<Rightarrow> built listed (c1\<lparr>sca_created_at_ms := harvest listed (sca_created_at_ms c1)\<rparr>)))"

section \<open>A projection from \<open>thread/read\<close>\<close>

definition thread_read_source :: "json \<Rightarrow> json" where
  "thread_read_source response = unwrap_or (filter_opt is_object (jget ''thread'' response)) response"

definition thread_read_turns :: "json \<Rightarrow> json \<Rightarrow> json list" where
  "thread_read_turns source response = unwrap_or (Option.bind (or_else (jget ''turns'' source) (jget ''turns'' response))
     (\<lambda>v. or_else (as_array v) (Option.bind (jget ''data'' v) as_array))) []"

definition latest_turn :: "json list \<Rightarrow> json option" where
  "latest_turn turns = find is_object (rev turns)"

definition not_null :: "json option \<Rightarrow> json option" where
  "not_null v = filter_opt (\<lambda>x. x \<noteq> JNull) v"

text \<open>The fields of the thread and of its latest turn.\<close>

definition read_thread_fields :: "string \<Rightarrow> json \<Rightarrow> json \<Rightarrow> json option \<Rightarrow> projected_thread" where
  "read_thread_fields thread_id response source latest = \<lparr>tpr_thread_id = thread_id,
     tpr_title = first_some (\<lambda>k. jstr k source) session_title_keys,
     tpr_cwd = Option.bind (or_else (either_key ''cwd'' ''directory'' source) (jget ''path'' source)) as_str,
     tpr_status = Some (normalized_status_opt (jget ''status'' source) ''unknown''),
     tpr_turn_id = Option.bind latest (jstr ''id''),
     tpr_turn_status = or_else
       (map_option (\<lambda>v. normalized_status v ''idle'') (Option.bind latest (jget ''status'')))
       (map_option (\<lambda>v. normalized_status v ''idle'') (either_key ''turnStatus'' ''turn_status'' source)),
     tpr_goal = not_null (or_else (jget ''goal'' source) (jget ''goal'' response)),
     tpr_plan = not_null (or_else (jget ''plan'' source) (jget ''plan'' response)),
     tpr_review_status = None,
     tpr_desired_mode = Option.bind (either_key ''collaborationMode'' ''collaboration_mode'' source) as_str,
     tpr_observed_mode = Option.bind (either_key ''observedMode'' ''observed_mode'' source) as_str,
     tpr_active_flags = status_active_flags (jget ''status'' source),
     tpr_model = jstr ''model'' source,
     tpr_effort = Option.bind (either_key ''effort'' ''reasoningEffort'' source) as_str,
     tpr_started_at_ms = Option.bind (Option.bind latest (either_key ''startedAt'' ''started_at''))
       (\<lambda>v. control_epoch_ms (Some v)),
     tpr_finished_at_ms = Option.bind (Option.bind latest (\<lambda>turn.
         or_else (either_key ''completedAt'' ''completed_at'' turn) (either_key ''finishedAt'' ''finished_at'' turn)))
       (\<lambda>v. control_epoch_ms (Some v)),
     tpr_completed_turns_duration_ms = 0, tpr_completed_turn_ids = {}, tpr_items = [], tpr_item_order = [],
     tpr_subagents = [],
     tpr_last_error = message_of_error (or_else (jget ''error'' source) (Option.bind latest (jget ''error''))),
     tpr_last_error_recoverable = False,
     tpr_generation = unwrap_or (Option.bind (or_else (jget ''generation'' source) (jget ''generation'' response)) as_u64) 0,
     tpr_updated_at_ms = unwrap_or (control_epoch_ms (or_else (either_key ''updatedAt'' ''updated_at'' source)
       (jget ''updatedAt'' response))) 0\<rparr>"

definition read_finished :: "projected_thread \<Rightarrow> projected_thread" where
  "read_finished p = (if tpr_finished_at_ms p = None
       \<and> tpr_turn_status p \<in> {Some ''completed'', Some ''failed'', Some ''interrupted''} \<and> 0 < tpr_updated_at_ms p
     then p\<lparr>tpr_finished_at_ms := Some (tpr_updated_at_ms p)\<rparr> else p)"

definition read_settings :: "json \<Rightarrow> projected_thread \<Rightarrow> projected_thread" where
  "read_settings source p = (if tpr_observed_mode p \<noteq> None then p
     else case either_key ''threadSettings'' ''settings'' source of
       None \<Rightarrow> p
     | Some settings \<Rightarrow> p\<lparr>
         tpr_observed_mode := Option.bind (either_key ''observedMode'' ''observed_mode'' settings) as_str,
         tpr_desired_mode := or_else (tpr_desired_mode p)
           (Option.bind (either_key ''collaborationMode'' ''collaboration_mode'' settings) as_str),
         tpr_model := or_else (tpr_model p) (jstr ''model'' settings),
         tpr_effort := or_else (tpr_effort p) (Option.bind (either_key ''effort'' ''reasoning_effort'' settings) as_str)\<rparr>)"

text \<open>A turn that is over and says how long it took is counted, under its name once.\<close>

definition read_duration :: "json \<Rightarrow> projected_thread \<Rightarrow> projected_thread" where
  "read_duration turn p = (case Option.bind (either_key ''durationMs'' ''duration_ms'' turn) as_i64 of
     None \<Rightarrow> p
   | Some d \<Rightarrow>
       if map_option (\<lambda>v. normalized_status v []) (jget ''status'' turn) = Some ''inProgress'' then p
       else (case jstr ''id'' turn of
           Some i \<Rightarrow> if i \<in> tpr_completed_turn_ids p then p
             else p\<lparr>tpr_completed_turn_ids := insert i (tpr_completed_turn_ids p),
               tpr_completed_turns_duration_ms := saturating_add (tpr_completed_turns_duration_ms p) (max d 0)\<rparr>
         | None \<Rightarrow> p\<lparr>tpr_completed_turns_duration_ms := saturating_add (tpr_completed_turns_duration_ms p) (max d 0)\<rparr>))"

definition read_item_id :: "nat \<Rightarrow> nat \<Rightarrow> json \<Rightarrow> string" where
  "read_item_id ti ii item = unwrap_or (filter_opt (\<lambda>s. trim s \<noteq> []) (jstr ''id'' item))
     (''item-'' @ show_nat ti @ ''-'' @ show_nat ii)"

text \<open>The plan that an item holds is kept beside the projection.\<close>

definition read_item :: "i64 \<Rightarrow> nat \<Rightarrow> nat \<Rightarrow> json \<Rightarrow> projected_thread \<times> json option \<Rightarrow> projected_thread \<times> json option" where
  "read_item now ti ii item = (\<lambda>(p, plan). let
     i = read_item_id ti ii item;
     p1 = p\<lparr>tpr_item_order := (if bt_get (tpr_items p) i = None then tpr_item_order p @ [i] else tpr_item_order p),
       tpr_items := bt_insert i item (tpr_items p)\<rparr>;
     p2 = project_item_subagents (to_secs now) p1 item True;
     p3 = (case Option.bind (filter_opt is_object (either_key ''task'' ''subagent'' item))
           (\<lambda>task. map_option (\<lambda>a. (a, task)) (jstr ''id'' task)) of
         None \<Rightarrow> p2 | Some (a, task) \<Rightarrow> p2\<lparr>tpr_subagents := bt_insert a task (tpr_subagents p2)\<rparr>) in
     case jstr ''type'' item of
       None \<Rightarrow> (p3, plan)
     | Some kind \<Rightarrow>
         if kind = ''plan'' then (p3, Some (unwrap_or (either_key ''plan'' ''steps'' item) item))
         else if kind = ''enteredReviewMode'' then (p3\<lparr>tpr_review_status := Some ''inProgress''\<rparr>, plan)
         else if kind = ''exitedReviewMode'' then (p3\<lparr>tpr_review_status := Some ''completed''\<rparr>, plan)
         else if kind = ''error'' \<or> kind = ''turnError'' then
           (p3\<lparr>tpr_last_error := or_else (tpr_last_error p3) (message_of_error (or_else (jget ''error'' item) (Some item)))\<rparr>, plan)
         else (p3, plan))"

fun read_items :: "(nat \<Rightarrow> nat \<Rightarrow> i64) \<Rightarrow> nat \<Rightarrow> nat \<Rightarrow> json list \<Rightarrow> projected_thread \<times> json option \<Rightarrow> projected_thread \<times> json option" where
  "read_items now ti ii [] st = st"
| "read_items now ti ii (item # items) st = read_items now ti (Suc ii) items (read_item (now ti ii) ti ii item st)"

fun read_turns :: "(nat \<Rightarrow> nat \<Rightarrow> i64) \<Rightarrow> nat \<Rightarrow> json list \<Rightarrow> projected_thread \<times> json option \<Rightarrow> projected_thread \<times> json option" where
  "read_turns now ti [] st = st"
| "read_turns now ti (turn # turns) (p, plan) = read_turns now (Suc ti) turns
     (case Option.bind (jget ''items'' turn) as_array of
        None \<Rightarrow> (read_duration turn p, plan)
      | Some items \<Rightarrow> read_items now ti 0 items (read_duration turn p, plan))"

definition projection_from_thread_read :: "(nat \<Rightarrow> nat \<Rightarrow> i64) \<Rightarrow> string \<Rightarrow> json \<Rightarrow> projected_thread" where
  "projection_from_thread_read now thread_id response = (let
     source = thread_read_source response;
     turns = thread_read_turns source response;
     p0 = read_settings source (read_finished (read_thread_fields thread_id response source (latest_turn turns))) in
     case read_turns now 0 turns (p0, None) of (p, plan_from_item) \<Rightarrow>
       truncate_items (if tpr_plan p = None then p\<lparr>tpr_plan := plan_from_item\<rparr> else p))"

section \<open>The profile of a space\<close>

definition backfill_space_profile :: "session_space \<Rightarrow> projected_thread \<Rightarrow> bool \<times> session_space" where
  "backfill_space_profile s p =
     (if sps_normal_model s \<noteq> None \<and> sps_normal_effort s \<noteq> None then (False, s)
      else case (tpr_model p, tpr_effort p) of
        (Some m, Some e) \<Rightarrow>
          (sps_normal_model s = None \<or> sps_normal_effort s = None \<or> sps_plan_model s = None \<or> sps_plan_effort s = None,
           s\<lparr>sps_normal_model := or_else (sps_normal_model s) (Some m),
               sps_normal_effort := or_else (sps_normal_effort s) (Some e),
             sps_plan_model := or_else (sps_plan_model s) (Some m),
                 sps_plan_effort := or_else (sps_plan_effort s) (Some e)\<rparr>)
      | _ \<Rightarrow> (False, s))"

definition legacy_model_remap_target :: string where "legacy_model_remap_target = ''gpt-5.6-terra''"
definition legacy_model_remap_effort :: string where "legacy_model_remap_effort = ''low''"

definition retired_model :: "model_choice list \<Rightarrow> string option \<Rightarrow> bool" where
  "retired_model available m = (case m of None \<Rightarrow> False
     | Some stored \<Rightarrow> stored = ''gpt-5.6-luna'' \<or> \<not> list_ex (\<lambda>e. mch_model e = stored) available)"

definition remap_legacy_session_models :: "i64 \<Rightarrow> session_space \<Rightarrow> model_choice list \<Rightarrow> bool \<times> session_space" where
  "remap_legacy_session_models now s available = (let
     normal = retired_model available (sps_normal_model s); plan = retired_model available (sps_plan_model s);
     s1 = (if normal then s\<lparr>sps_normal_model := Some legacy_model_remap_target,
       sps_normal_effort := Some legacy_model_remap_effort\<rparr> else s);
     s2 = (if plan then s1\<lparr>sps_plan_model := Some legacy_model_remap_target,
       sps_plan_effort := Some legacy_model_remap_effort\<rparr> else s1) in
     (normal \<or> plan, if normal \<or> plan then s2\<lparr>sps_updated_at_ms := now\<rparr> else s2))"

text \<open>What an event says of the mode: the mode, and the model and effort that go with it.\<close>

definition event_profile :: "json \<Rightarrow> (string \<times> string option \<times> string option) option" where
  "event_profile v = Option.bind (either_key ''threadSettings'' ''settings'' v) (\<lambda>thread_settings.
     Option.bind (either_key ''collaborationMode'' ''collaboration_mode'' thread_settings) (\<lambda>collaboration.
     map_option (\<lambda>mode. let settings = jget ''settings'' collaboration in
       (mode, trimmed (Option.bind settings (jstr ''model'')),
        trimmed (Option.bind (or_else (Option.bind settings (either_key ''reasoning_effort'' ''reasoningEffort''))
          (jget ''effort'' thread_settings)) as_str)))
       (filter_opt (\<lambda>m. m = ''default'' \<or> m = ''plan'') (or_else (jstr ''mode'' collaboration) (as_str collaboration)))))"

definition with_profile :: "i64 \<Rightarrow> string \<times> string option \<times> string option \<Rightarrow> session_space \<Rightarrow> session_space" where
  "with_profile now = (\<lambda>(mode, model, effort) s. let s1 = s\<lparr>sps_observed_mode := Some mode\<rparr> in
     (case (model, effort) of
        (Some m, Some e) \<Rightarrow> if mode = ''plan'' then s1\<lparr>sps_plan_model := Some m, sps_plan_effort := Some e\<rparr>
          else s1\<lparr>sps_normal_model := Some m, sps_normal_effort := Some e\<rparr>
      | _ \<Rightarrow> s1)\<lparr>sps_updated_at_ms := now\<rparr>)"

text \<open>The spaces are read once; a write that fails is reported and the next is tried.\<close>

fun sync_spaces :: "clock_readings \<Rightarrow> nat \<Rightarrow> string \<Rightarrow> string \<times> string option \<times> string option \<Rightarrow> session_space list \<Rightarrow> space_db \<Rightarrow> space_db" where
  "sync_spaces now k thread profile [] db = db"
| "sync_spaces now k thread profile (s # spaces) db =
     (if sps_thread_id s \<noteq> Some thread \<or> sps_lifecycle s = ''closed'' then sync_spaces now k thread profile spaces db
      else sync_spaces now (Suc k) thread profile spaces (snd (upsert_session_space (with_profile (now k) profile s) db)))"

definition sync_space_settings_from_event :: "clock_readings \<Rightarrow> string \<Rightarrow> json \<Rightarrow> space_db \<Rightarrow> space_db" where
  "sync_space_settings_from_event now thread v db = (case event_profile v of
     None \<Rightarrow> db
   | Some profile \<Rightarrow> sync_spaces now 0 thread profile (session_spaces db) db)"

end
