(* ===== verification/ProjectorProps.thy ===== *)
theory ProjectorProps
  imports Projector Contracts
begin

text \<open>
  Results on the projection of events: the memory of a thread is bounded, the duration of a turn is
  counted once, a fatal error stays, a replay of history revives no task, eviction spares live
  threads.
\<close>

section \<open>What an event changes\<close>

lemma project_event_induct:
  assumes "P (EffRefreshStatus, clear_recoverable_error_on_healthy_projection (merge_thread p v))"
    and "P (EffRefreshStatus, project_status v p)" and "P (EffRefreshStatus, project_settings v p)"
    and "event \<in> {''turn/started'', ''turn/created''} \<Longrightarrow> P (EffRefreshStatus, project_turn_started (now 1) v p)"
    and "P (EffRefreshStatus, project_turn_updated v p)"
    and "event \<in> {''turn/completed'', ''turn/failed'', ''turn/interrupted''} \<Longrightarrow>
      P (EffTurnCompleted, project_turn_ended now event v p)"
    and "P (EffRefreshStatus, project_item (now 1) v p)" and "\<And>e. P (e, p)"
    and "\<And>x. P (EffRefreshStatus, p\<lparr>tpr_plan := x\<rparr>)" and "\<And>x. P (EffRefreshStatus, p\<lparr>tpr_goal := x\<rparr>)"
    and "P (EffRefreshStatus, project_subagent v p)" and "\<And>x. P (EffRefreshStatus, p\<lparr>tpr_review_status := x\<rparr>)"
    and "\<And>e. event \<in> {''error'', ''turn/error''} \<Longrightarrow> P (e, project_error (now 1) v p)"
  shows "P (project_event now event v p)"
proof -
  have choice: "(c \<Longrightarrow> P x) \<Longrightarrow> (\<not> c \<Longrightarrow> P y) \<Longrightarrow> P (if c then x else y)" for c x y by simp
  show ?thesis unfolding project_event_def by (rule choice | rule assms | assumption)+
qed

lemmas project_defs = merge_thread_def project_status_def project_settings_def project_turn_started_def
  project_turn_updated_def project_turn_ended_def project_subagent_def project_error_def Let_def
  clear_recoverable_error_on_healthy_projection_def clear_recoverable_error_def

lemma trim_frame [simp]:
  "tpr_items (trim_subagent_tasks p) = tpr_items p" "tpr_item_order (trim_subagent_tasks p) = tpr_item_order p"
  "tpr_completed_turn_ids (trim_subagent_tasks p) = tpr_completed_turn_ids p"
  "tpr_completed_turns_duration_ms (trim_subagent_tasks p) = tpr_completed_turns_duration_ms p"
  "tpr_last_error (trim_subagent_tasks p) = tpr_last_error p"
  "tpr_last_error_recoverable (trim_subagent_tasks p) = tpr_last_error_recoverable p"
  "tpr_thread_id (trim_subagent_tasks p) = tpr_thread_id p"
  by (simp_all add: trim_subagent_tasks_def)

lemma subagents_frame [simp]:
  "tpr_items (project_item_subagents now p item h) = tpr_items p"
  "tpr_item_order (project_item_subagents now p item h) = tpr_item_order p"
  "tpr_completed_turn_ids (project_item_subagents now p item h) = tpr_completed_turn_ids p"
  "tpr_completed_turns_duration_ms (project_item_subagents now p item h) = tpr_completed_turns_duration_ms p"
  "tpr_last_error (project_item_subagents now p item h) = tpr_last_error p"
  "tpr_last_error_recoverable (project_item_subagents now p item h) = tpr_last_error_recoverable p"
  "tpr_thread_id (project_item_subagents now p item h) = tpr_thread_id p"
  by (simp_all add: project_item_subagents_def project_collab_agent_tool_call_def project_subagent_activity_def
      Let_def split: option.split)

lemma truncate_frame [simp]:
  "tpr_completed_turn_ids (truncate_items p) = tpr_completed_turn_ids p"
  "tpr_completed_turns_duration_ms (truncate_items p) = tpr_completed_turns_duration_ms p"
  "tpr_last_error (truncate_items p) = tpr_last_error p"
  "tpr_last_error_recoverable (truncate_items p) = tpr_last_error_recoverable p"
  "tpr_thread_id (truncate_items p) = tpr_thread_id p"
  by (simp_all add: truncate_items_def split: prod.split)

lemma item_frame [simp]:
  "tpr_completed_turn_ids (project_item now v p) = tpr_completed_turn_ids p"
  "tpr_completed_turns_duration_ms (project_item now v p) = tpr_completed_turns_duration_ms p"
  "tpr_last_error (project_item now v p) = tpr_last_error p"
  "tpr_last_error_recoverable (project_item now v p) = tpr_last_error_recoverable p"
  "tpr_thread_id (project_item now v p) = tpr_thread_id p"
  by (simp_all add: project_item_def Let_def split: option.split)

section \<open>The history of items is bounded\<close>

lemma drop_oldest_length: "drop_oldest items order = (items1, order1) \<Longrightarrow> length order1 \<le> max_projection_items"
  by (induction items order rule: drop_oldest.induct) (auto split: if_splits)

lemma drop_oldest_ok: "drop_oldest items order = (items1, order1) \<Longrightarrow> bt_ok items \<Longrightarrow> bt_ok items1"
  by (induction items order rule: drop_oldest.induct) (auto split: if_splits)

definition items_bounded :: "projected_thread \<Rightarrow> bool" where
  "items_bounded p \<longleftrightarrow> bt_ok (tpr_items p) \<and> length (tpr_items p) \<le> max_projection_items
     \<and> length (tpr_item_order p) \<le> max_projection_items"

lemma truncate_bounded:
  assumes "bt_ok (tpr_items p)"
  shows "items_bounded (truncate_items p)"
proof -
  obtain items order where d: "drop_oldest (tpr_items p) (tpr_item_order p) = (items, order)" by fastforce
  with assms have ok: "bt_ok items" and len: "length order \<le> max_projection_items"
    by (auto intro: drop_oldest_ok drop_oldest_length)
  let ?kept = "filter (\<lambda>e. fst e \<in> set order) items"
  have "distinct (map fst ?kept)" using bt_ok_distinct [OF ok] by (simp add: bt_keys_def distinct_map_filter)
  then have "length ?kept = card (fst ` set ?kept)" by (metis distinct_card length_map set_map)
  also have "\<dots> \<le> card (set order)" by (rule card_mono) auto
  also have "\<dots> \<le> length order" by (rule card_length)
  finally have "length ?kept \<le> max_projection_items" using len by simp
  moreover have "bt_ok ?kept" using ok by (simp add: bt_ok_def sorted_wrt_map sorted_wrt_filter)
  ultimately show ?thesis using d ok len by (simp add: items_bounded_def truncate_items_def)
qed

lemma project_item_bounded: "items_bounded p \<Longrightarrow> items_bounded (project_item now v p)"
  by (auto simp: project_item_def Let_def items_bounded_def [of p] bt_ok_insert intro!: truncate_bounded split: option.split)

lemma items_bounded_cong:
  "items_bounded p \<Longrightarrow> tpr_items q = tpr_items p \<Longrightarrow> tpr_item_order q = tpr_item_order p \<Longrightarrow> items_bounded q"
  by (simp add: items_bounded_def)

lemma project_event_bounded: "items_bounded p \<Longrightarrow> items_bounded (snd (project_event now event v p))"
  by (rule project_event_induct [where P = "\<lambda>r. items_bounded (snd r)"])
    (simp_all add: project_item_bounded, (erule items_bounded_cong; simp add: project_defs split: option.split)+)

lemma project_event_thread [simp]: "tpr_thread_id (snd (project_event now event v p)) = tpr_thread_id p"
  by (rule project_event_induct [where P = "\<lambda>r. tpr_thread_id (snd r) = tpr_thread_id p"])
    (simp_all add: project_defs split: option.split)

text \<open>The total of a thread never shrinks, and a turn once counted stays counted.\<close>

definition counts_more :: "projected_thread \<Rightarrow> projected_thread \<Rightarrow> bool" where
  "counts_more p q \<longleftrightarrow> tpr_completed_turn_ids p \<subseteq> tpr_completed_turn_ids q \<and> in_i64 (tpr_completed_turns_duration_ms q)
     \<and> tpr_completed_turns_duration_ms p \<le> tpr_completed_turns_duration_ms q"

lemma counts_more_trans: "counts_more p q \<Longrightarrow> counts_more q r \<Longrightarrow> counts_more p r"
  by (auto simp: counts_more_def)

lemma saturating_in_range: "in_i64 (saturating_add a b)"
  by (simp add: saturating_add_def)

lemma turn_ended_counts: "in_i64 (tpr_completed_turns_duration_ms p) \<Longrightarrow> counts_more p (project_turn_ended now event v p)"
  by (auto simp: project_turn_ended_def Let_def counts_more_def saturating_add_ge saturating_in_range)

lemma project_event_counts: "in_i64 (tpr_completed_turns_duration_ms p) \<Longrightarrow> counts_more p (snd (project_event now event v p))"
  by (rule project_event_induct [where P = "\<lambda>r. counts_more p (snd r)"])
    (simp_all add: turn_ended_counts, simp_all add: counts_more_def, simp_all add: project_defs split: option.split)

section \<open>Runs of the projector\<close>

datatype projector_op =
    PApply clock_readings agent_event
  | PRestore projected_thread
  | PEvict i64

fun projector_step :: "projector_op \<Rightarrow> event_projector \<Rightarrow> event_projector" where
  "projector_step (PApply now ev) threads = snd (projector_apply now ev threads)"
| "projector_step (PRestore p) threads = projector_restore p threads"
| "projector_step (PEvict cutoff) threads = snd (evict_finished_before cutoff threads)"

text \<open>A stored projection is decoded into a \<open>BTreeMap\<close> of items and an \<open>i64\<close>.\<close>

definition decodable :: "projector_op \<Rightarrow> bool" where
  "decodable op \<longleftrightarrow> (case op of PRestore p \<Rightarrow> bt_ok (tpr_items p) \<and> in_i64 (tpr_completed_turns_duration_ms p) | _ \<Rightarrow> True)"

definition projection_ok :: "string \<Rightarrow> projected_thread \<Rightarrow> bool" where
  "projection_ok t p \<longleftrightarrow> tpr_thread_id p = t \<and> trim t \<noteq> [] \<and> items_bounded p \<and> in_i64 (tpr_completed_turns_duration_ms p)"

definition projector_ok :: "event_projector \<Rightarrow> bool" where
  "projector_ok threads \<longleftrightarrow> bt_ok threads \<and> (\<forall>t p. bt_get threads t = Some p \<longrightarrow> projection_ok t p)"

definition decoded_step :: "projector_op \<Rightarrow> event_projector \<Rightarrow> event_projector" where
  "decoded_step op threads = (if decodable op then projector_step op threads else threads)"

lemma thread_id_visible: "thread_id_from_params v = Some t \<Longrightarrow> trim t \<noteq> []"
  by (auto simp: thread_id_from_params_def filter_opt_Some)

lemma default_ok: "items_bounded (projection_default\<lparr>tpr_thread_id := t, tpr_generation := g\<rparr>)"
  by (simp add: items_bounded_def projection_default_def)

text \<open>The projection an event finds, and what becomes of it.\<close>

definition found_projection :: "clock_readings \<Rightarrow> agent_event \<Rightarrow> string \<Rightarrow> event_projector \<Rightarrow> projected_thread" where
  "found_projection now ev t threads = (let
     p0 = unwrap_or (bt_get threads t) (projection_default\<lparr>tpr_thread_id := t, tpr_generation := aev_generation ev\<rparr>) in
     p0\<lparr>tpr_generation := aev_generation ev, tpr_updated_at_ms := max (tpr_updated_at_ms p0) (now 0)\<rparr>)"

lemma apply_thread:
  assumes "thread_id_from_params (aev_params ev) = Some t"
  shows "projector_apply now ev threads =
    (case project_event now (aev_method ev) (aev_params ev) (found_projection now ev t threads) of
      (e, p) \<Rightarrow> (e, bt_insert t p threads))"
  using assms by (simp add: projector_apply_def found_projection_def Let_def)

lemma apply_get:
  "bt_get (snd (projector_apply now ev threads)) t =
    (if thread_id_from_params (aev_params ev) = Some t
     then Some (snd (project_event now (aev_method ev) (aev_params ev) (found_projection now ev t threads)))
     else bt_get threads t)"
proof (cases "thread_id_from_params (aev_params ev)")
  case None
  then show ?thesis by (simp add: projector_apply_def)
next
  case (Some u)
  then show ?thesis by (auto simp: apply_thread [OF Some] split: prod.split)
qed

lemma found_ok:
  assumes "projector_ok threads" and "trim t \<noteq> []"
  shows "projection_ok t (found_projection now ev t threads)"
proof (cases "bt_get threads t")
  case None
  with assms(2) default_ok show ?thesis
    by (simp add: found_projection_def Let_def projection_ok_def items_bounded_def projection_default_def in_i64_def
        i64_min_def i64_max_def)
next
  case (Some p)
  with assms have "projection_ok t p" by (simp add: projector_ok_def)
  with Some show ?thesis by (simp add: found_projection_def Let_def projection_ok_def items_bounded_def)
qed

lemma apply_ok:
  assumes "projector_ok threads"
  shows "projector_ok (snd (projector_apply now ev threads))"
proof (cases "thread_id_from_params (aev_params ev)")
  case None
  with assms show ?thesis by (simp add: projector_apply_def)
next
  case (Some t)
  let ?p = "found_projection now ev t threads"
  have p: "projection_ok t ?p" using found_ok [OF assms thread_id_visible [OF Some]] .
  then have "counts_more ?p (snd (project_event now (aev_method ev) (aev_params ev) ?p))"
    by (intro project_event_counts) (simp add: projection_ok_def)
  with p have "projection_ok t (snd (project_event now (aev_method ev) (aev_params ev) ?p))"
    by (simp add: projection_ok_def project_event_bounded counts_more_def)
  moreover have "bt_ok (snd (projector_apply now ev threads))"
    using assms by (simp add: apply_thread [OF Some] projector_ok_def split: prod.split)
  ultimately show ?thesis using assms Some by (auto simp: projector_ok_def apply_get)
qed

lemma evict_eq:
  assumes "bt_ok threads"
  shows "snd (evict_finished_before cutoff threads) = filter (\<lambda>(t, p). \<not> evictable cutoff p) threads"
proof -
  have fold: "fold bt_remove ks m = filter (\<lambda>e. fst e \<notin> set ks) m" for ks :: "string list" and m :: event_projector
    by (induction ks arbitrary: m) (auto simp: bt_remove_def intro: filter_cong)
  have "fst e \<in> fst ` {x \<in> set threads. case x of (t,
      p) \<Rightarrow> evictable cutoff p} \<longleftrightarrow> evictable cutoff (snd e)" if e: "e \<in> set threads" for e
  proof
    assume "fst e \<in> fst ` {x \<in> set threads. case x of (t, p) \<Rightarrow> evictable cutoff p}"
    then obtain p where p: "(fst e, p) \<in> set threads" "evictable cutoff p" by force
    with e have "p = snd e" using bt_in_set [OF assms] by (metis option.inject prod.collapse)
    with p show "evictable cutoff (snd e)" by simp
  qed (use e in force)
  then have "filter (\<lambda>e. fst e \<notin> fst ` {x \<in> set threads. case x of (t, p) \<Rightarrow> evictable cutoff p}) threads
      = filter (\<lambda>(t, p). \<not> evictable cutoff p) threads"
    by (intro filter_cong) (auto simp: case_prod_beta)
  then show ?thesis by (simp add: evict_finished_before_def Let_def fold)
qed

lemma evict_get:
  assumes "bt_ok threads"
  shows "bt_get (snd (evict_finished_before cutoff threads)) t = filter_opt (\<lambda>p. \<not> evictable cutoff p) (bt_get threads t)"
proof -
  have ok: "bt_ok (filter (\<lambda>(t, p). \<not> evictable cutoff p) threads)"
    using assms by (simp add: bt_ok_def sorted_wrt_map sorted_wrt_filter)
  have "bt_get (filter (\<lambda>(t, p). \<not> evictable cutoff p) threads) t = Some p
      \<longleftrightarrow> bt_get threads t = Some p \<and> \<not> evictable cutoff p" for p
    unfolding bt_in_set [OF ok, symmetric] bt_in_set [OF assms, symmetric] by simp
  then have "bt_get (filter (\<lambda>(t, p). \<not> evictable cutoff p) threads) t = Some p
      \<longleftrightarrow> filter_opt (\<lambda>p. \<not> evictable cutoff p) (bt_get threads t) = Some p" for p
    by (simp add: filter_opt_Some)
  then show ?thesis unfolding evict_eq [OF assms] by (metis option.exhaust)
qed

lemma evict_ok: "projector_ok threads \<Longrightarrow> projector_ok (snd (evict_finished_before cutoff threads))"
  by (auto simp: projector_ok_def evict_get filter_opt_Some)
    (simp add: evict_eq bt_ok_def sorted_wrt_map sorted_wrt_filter)

lemma restore_ok:
  assumes "projector_ok threads" and "decodable (PRestore p)"
  shows "projector_ok (projector_restore p threads)"
  using assms by (auto simp: projector_ok_def projector_restore_def decodable_def projection_ok_def truncate_bounded)

interpretation projecting: machine decoded_step projector_ok
proof
  fix op threads assume ok: "projector_ok threads"
  show "projector_ok (decoded_step op threads)"
    by (cases op) (simp_all add: decoded_step_def ok apply_ok evict_ok restore_ok)
qed

lemma decoded_run: "list_all decodable ops \<Longrightarrow> fold projector_step ops threads = fold decoded_step ops threads"
  by (induction ops arbitrary: threads) (auto simp: decoded_step_def)

text \<open>
  C33. The memory of a thread is bounded, whatever events arrive, however often threads are restored and
  evicted: a projection keeps at most 200 items, and at most 200 names in their order, under the
  name of its thread, which is not blank.
\<close>

theorem projection_is_bounded:
  assumes "list_all decodable ops" and "bt_get (fold projector_step ops []) t = Some p"
  shows "tpr_thread_id p = t \<and> trim t \<noteq> [] \<and> length (tpr_items p) \<le> 200 \<and> length (tpr_item_order p) \<le> 200"
proof -
  have "projector_ok []" by (simp add: projector_ok_def)
  then have "projector_ok (fold projector_step ops [])"
    unfolding decoded_run [OF assms(1)] by (rule projecting.run_inv)
  with assms(2) show ?thesis
    by (auto simp: projector_ok_def projection_ok_def items_bounded_def max_projection_items_def)
qed

section \<open>The duration of a turn is counted once\<close>

definition counted :: "string \<Rightarrow> string \<Rightarrow> event_projector \<Rightarrow> bool" where
  "counted t i threads \<longleftrightarrow> (\<exists>p. bt_get threads t = Some p \<and> i \<in> tpr_completed_turn_ids p)"

definition total_of :: "string \<Rightarrow> event_projector \<Rightarrow> i64" where
  "total_of t threads = unwrap_or (map_option tpr_completed_turns_duration_ms (bt_get threads t)) 0"

text \<open>An event that ends the turn \<open>i\<close> of the thread \<open>t\<close>.\<close>

definition ends_turn :: "string \<Rightarrow> string \<Rightarrow> agent_event \<Rightarrow> bool" where
  "ends_turn t i ev \<longleftrightarrow> aev_method ev \<in> {''turn/completed'', ''turn/failed'', ''turn/interrupted''}
     \<and> thread_id_from_params (aev_params ev) = Some t \<and> Option.bind (jget ''turn'' (aev_params ev)) (jstr ''id'') = Some i"

lemma ended_event:
  assumes "ends_turn t i ev"
  shows "project_event now (aev_method ev) (aev_params ev) p =
    (EffTurnCompleted, project_turn_ended now (aev_method ev) (aev_params ev) p)"
  using assms by (auto simp: ends_turn_def project_event_def)

lemma ended_id: "ends_turn t i ev \<Longrightarrow> ended_turn_id (aev_params ev) p = Some i"
  by (simp add: ends_turn_def ended_turn_id_def)

lemma ended_counted:
  assumes "ends_turn t i ev"
  shows "counted t i (snd (projector_apply now ev threads))"
proof -
  have "thread_id_from_params (aev_params ev) = Some t" using assms by (simp add: ends_turn_def)
  then show ?thesis
    using ended_event [OF assms] ended_id [OF assms] by (auto simp: counted_def apply_get project_turn_ended_def Let_def)
qed

lemma found_counts:
  "bt_get threads t = Some p \<Longrightarrow> tpr_completed_turn_ids (found_projection now ev t threads) = tpr_completed_turn_ids p"
  "bt_get threads t = Some p \<Longrightarrow>
    tpr_completed_turns_duration_ms (found_projection now ev t threads) = tpr_completed_turns_duration_ms p"
  by (simp_all add: found_projection_def Let_def)

lemma apply_counts:
  assumes "projector_ok threads" and "bt_get threads t = Some p"
  shows "\<exists>q. bt_get (snd (projector_apply now ev threads)) t = Some q \<and> counts_more p q"
proof (cases "thread_id_from_params (aev_params ev) = Some t")
  case True
  let ?p = "found_projection now ev t threads"
  have "in_i64 (tpr_completed_turns_duration_ms ?p)"
    using assms by (simp add: found_counts projector_ok_def projection_ok_def)
  then have "counts_more ?p (snd (project_event now (aev_method ev) (aev_params ev) ?p))" by (rule project_event_counts)
  with True assms(2) show ?thesis by (simp add: apply_get found_counts counts_more_def)
next
  case False
  with assms show ?thesis by (simp add: apply_get counts_more_def projector_ok_def projection_ok_def)
qed

definition is_apply :: "projector_op \<Rightarrow> bool" where
  "is_apply op \<longleftrightarrow> (case op of PApply now ev \<Rightarrow> True | _ \<Rightarrow> False)"

lemma applies_count:
  assumes "projector_ok threads" and "list_all is_apply ops" and "bt_get threads t = Some p"
  shows "\<exists>q. bt_get (fold projector_step ops threads) t = Some q \<and> counts_more p q"
  using assms
proof (induction ops arbitrary: threads p)
  case Nil
  then show ?case by (auto simp: counts_more_def projector_ok_def projection_ok_def)
next
  case (Cons op ops)
  from Cons.prems(2) obtain now ev where op: "op = PApply now ev" by (cases op) (auto simp: is_apply_def)
  from apply_counts [OF Cons.prems(1,3)] obtain q where
    q: "bt_get (snd (projector_apply now ev threads)) t = Some q" "counts_more p q" by blast
  from Cons.IH [OF apply_ok [OF Cons.prems(1)] _ q(1)] Cons.prems(2) op q(2) show ?case
    by (auto intro: counts_more_trans)
qed

text \<open>
  C32. The total of a thread counts a turn once. An event that reports again that a turn has ended, as
  Codex does after a reconnection, leaves the total alone, whatever other events came in between;
  and no event ever lowers the total.
\<close>

theorem turn_counted_once:
  assumes "projector_ok threads" and "ends_turn t i ev" and "ends_turn t i again" and "list_all is_apply ops"
    and "threads1 = snd (projector_apply now ev threads)" and "threads2 = fold projector_step ops threads1"
  shows "total_of t (snd (projector_apply now1 again threads2)) = total_of t threads2
    \<and> total_of t threads1 \<le> total_of t threads2"
proof -
  have ok: "projector_ok threads1" using apply_ok [OF assms(1)] assms(5) by simp
  from ended_counted [OF assms(2), of now threads] assms(5) obtain p where
    p: "bt_get threads1 t = Some p" "i \<in> tpr_completed_turn_ids p" by (auto simp: counted_def)
  from applies_count [OF ok assms(4) p(1)] obtain q where
    q: "bt_get threads2 t = Some q" "counts_more p q" unfolding assms(6) by blast
  then have "i \<in> tpr_completed_turn_ids q" using p(2) by (auto simp: counts_more_def)
  moreover have "thread_id_from_params (aev_params again) = Some t" using assms(3) by (simp add: ends_turn_def)
  ultimately have "total_of t (snd (projector_apply now1 again threads2)) = total_of t threads2"
    using q(1) ended_event [OF assms(3)] ended_id [OF assms(3)]
    by (simp add: total_of_def apply_get project_turn_ended_def Let_def found_counts)
  moreover have "total_of t threads1 \<le> total_of t threads2" using p(1) q by (simp add: total_of_def counts_more_def)
  ultimately show ?thesis by simp
qed

section \<open>Errors\<close>

definition is_error_event :: "agent_event \<Rightarrow> bool" where
  "is_error_event ev \<longleftrightarrow> aev_method ev \<in> {''error'', ''turn/error''}"

definition no_error_op :: "projector_op \<Rightarrow> bool" where
  "no_error_op op \<longleftrightarrow> (case op of PApply now ev \<Rightarrow> \<not> is_error_event ev | _ \<Rightarrow> False)"

definition fatal :: "string \<Rightarrow> string \<Rightarrow> event_projector \<Rightarrow> bool" where
  "fatal t message threads \<longleftrightarrow> (\<exists>p. bt_get threads t = Some p \<and> tpr_last_error p = Some message \<and> \<not> tpr_last_error_recoverable p)"

lemma project_event_fatal:
  assumes "tpr_last_error p = Some m" and "\<not> tpr_last_error_recoverable p" and "event \<notin> {''error'', ''turn/error''}"
  shows "tpr_last_error (snd (project_event now event v p)) = Some m \<and> \<not> tpr_last_error_recoverable (snd (project_event now event v p))"
  by (rule project_event_induct [where P = "\<lambda>r. tpr_last_error (snd r) = Some m \<and> \<not> tpr_last_error_recoverable (snd r)"])
    (use assms in \<open>simp_all add: project_defs split: option.split\<close>)

lemma apply_fatal:
  assumes "fatal t m threads" and "\<not> is_error_event ev"
  shows "fatal t m (snd (projector_apply now ev threads))"
proof -
  from assms(1) obtain p where p: "bt_get threads t = Some p" "tpr_last_error p = Some m" "\<not> tpr_last_error_recoverable p"
    by (auto simp: fatal_def)
  then have "tpr_last_error (found_projection now ev t threads) = Some m"
    "\<not> tpr_last_error_recoverable (found_projection now ev t threads)"
    by (simp_all add: found_projection_def Let_def)
  then have "tpr_last_error (snd (project_event now (aev_method ev) (aev_params ev) (found_projection now ev t threads))) = Some m
      \<and> \<not> tpr_last_error_recoverable (snd (project_event now (aev_method ev) (aev_params ev) (found_projection now ev t threads)))"
    by (rule project_event_fatal) (use assms(2) in \<open>simp add: is_error_event_def\<close>)
  with p show ?thesis by (simp add: fatal_def apply_get)
qed


lemma project_cleared: "tpr_last_error_recoverable p \<Longrightarrow> tpr_last_error (project_turn_started now v p) = None"
  by (simp add: project_turn_started_def clear_recoverable_error_def)

text \<open>An error that Codex retries goes with the next turn, and with the next healthy status.\<close>

theorem retried_error_goes:
  assumes "bt_get threads t = Some p" and "tpr_last_error_recoverable p"
    and "thread_id_from_params (aev_params ev) = Some t"
    and "aev_method ev = ''turn/started'' \<or> (aev_method ev = ''thread/status/changed''
      \<and> status_is_healthy (Option.bind (jget ''status'' (aev_params ev)) status_text))"
  shows "\<exists>q. bt_get (snd (projector_apply now ev threads)) t = Some q \<and> tpr_last_error q = None"
proof -
  let ?p = "found_projection now ev t threads"
  have "tpr_last_error_recoverable ?p" using assms(1,2) by (simp add: found_projection_def Let_def)
  moreover have "\<exists>e. project_event now ''turn/started'' v q = (e, project_turn_started (now 1) v q)"
    "\<exists>e. project_event now ''thread/status/changed'' v q = (e, project_status v q)" for v q
    by (simp_all add: project_event_def)
  moreover have "status_is_healthy (Option.bind (jget ''status'' v) status_text) \<Longrightarrow> tpr_last_error_recoverable q
      \<Longrightarrow> tpr_last_error (project_status v q) = None" for v q
    by (cases "jget ''status'' v") (simp_all add: project_defs status_is_healthy_def)
  ultimately have "tpr_last_error (snd (project_event now (aev_method ev) (aev_params ev) ?p)) = None"
    using assms(4) by (metis clear_recoverable_error_def project_cleared snd_conv)
  with assms(3) show ?thesis by (simp add: apply_get)
qed

section \<open>The name of a turn\<close>

text \<open>
  The start of a turn names it in \<open>turn.id\<close>; the code reads \<open>turnId\<close>, \<open>turn\<close> and \<open>id\<close> of the event instead of
  following the path, and forgets which turn runs.
\<close>

theorem started_turn_is_forgotten:
  assumes "aev_method ev = ''turn/started''" and "thread_id_from_params (aev_params ev) = Some t"
    and "jget ''turnId'' (aev_params ev) = None" and "jget ''id'' (aev_params ev) = None"
    and "jget ''turn'' (aev_params ev) = Some (JObj turn)"
  shows "\<exists>q. bt_get (snd (projector_apply now ev threads)) t = Some q \<and> tpr_turn_status q = Some ''inProgress''
    \<and> tpr_turn_id q = None"
  using assms by (simp add: apply_get project_event_def project_turn_started_def string_at_def as_str_def)

section \<open>A replay of history revives no task\<close>

definition task_ended :: "json \<Rightarrow> bool" where
  "task_ended task \<longleftrightarrow> (case jstr ''status'' task of None \<Rightarrow> False | Some s \<Rightarrow> s \<in> set terminal_task_statuses)"

lemma task_value_status: "jstr ''status'' (subagent_task_value i title status path nick role m effort msg started finished updated) = Some status"
  by (simp add: subagent_task_value_def jstr_def jobj_def bt_get_def)

lemma ended_status: "task_ended task \<Longrightarrow> \<exists>s. task_text (Some task) ''status'' = Some s \<and> s \<in> set terminal_task_statuses"
  by (auto simp: task_ended_def task_text_def terminal_task_statuses_def split: option.splits)

lemma normalized_statuses: "normalize_task_status s \<in> set active_task_statuses \<or> normalize_task_status s \<in> set terminal_task_statuses"
  by (auto simp: normalize_task_status_def active_task_statuses_def terminal_task_statuses_def)

lemma collab_task_ended:
  assumes "task_ended task"
  shows "task_ended (collab_task item True now (Some task) i v)"
proof -
  from ended_status [OF assms] obtain s where s: "task_text (Some task) ''status'' = Some s" "s \<in> set terminal_task_statuses" by blast
  then have "collab_status True (Some task) raw \<in> set terminal_task_statuses" for raw
    using normalized_statuses [of raw] by (auto simp: collab_status_def Let_def)
  then show ?thesis by (simp add: collab_task_def Let_def task_ended_def task_value_status)
qed

lemma activity_task_ended:
  assumes "task_ended task"
  shows "task_ended (activity_task True now (Some task) i path kind)"
proof -
  from ended_status [OF assms] obtain s where "task_text (Some task) ''status'' = Some s" "s \<in> set terminal_task_statuses" by blast
  then have "activity_status True (Some task) kind \<in> set terminal_task_statuses"
    by (auto simp: activity_status_def Let_def terminal_task_statuses_def)
  then show ?thesis by (simp add: activity_task_def Let_def task_ended_def task_value_status)
qed

definition tasks_kept_ended :: "(string, json) btree \<Rightarrow> (string, json) btree \<Rightarrow> bool" where
  "tasks_kept_ended before after \<longleftrightarrow> (\<forall>i task task1. bt_get before i = Some task \<longrightarrow> task_ended task
     \<longrightarrow> bt_get after i = Some task1 \<longrightarrow> task_ended task1)"

lemma collab_states_keep:
  "(\<And>i task. bt_get before i = Some task \<Longrightarrow> task_ended task \<Longrightarrow> \<exists>task1. bt_get tasks i = Some task1 \<and> task_ended task1)
    \<Longrightarrow> bt_get before i = Some task \<Longrightarrow> task_ended task
    \<Longrightarrow> \<exists>task1. bt_get (collab_states item True now states tasks) i = Some task1 \<and> task_ended task1"
proof (induction states arbitrary: tasks)
  case (Cons e states)
  obtain k v where e: "e = (k, v)" by (cases e)
  let ?tasks = "if is_object v then bt_insert k (collab_task item True now (bt_get tasks k) k v) tasks else tasks"
  have "\<exists>task1. bt_get ?tasks j = Some task1 \<and> task_ended task1" if j: "bt_get before j = Some tj" "task_ended tj" for j tj
    using Cons.prems(1) [OF j] by (auto intro: collab_task_ended)
  from Cons.IH [OF this Cons.prems(2,3)] show ?case by (simp add: e)
qed simp

lemma trim_tasks_subset: "bt_get (trim_tasks tasks) i = Some task \<Longrightarrow> bt_get tasks i = Some task"
proof (induction tasks rule: trim_tasks.induct)
  case (1 tasks)
  then show ?case by (subst (asm) (2) trim_tasks.simps) (auto split: if_splits option.splits)
qed

text \<open>
  C34. Reading the history of a thread again never brings a task back to work that has ended: whatever
  the item says, a task that is kept and had ended has ended.
\<close>

theorem history_revives_no_task:
  "tasks_kept_ended (tpr_subagents p) (tpr_subagents (project_item_subagents now p item True))"
  unfolding tasks_kept_ended_def
proof (intro allI impI)
  fix i task task1
  assume before: "bt_get (tpr_subagents p) i = Some task" "task_ended task"
    and "bt_get (tpr_subagents (project_item_subagents now p item True)) i = Some task1"
  then consider (same) "task1 = task"
    | (collab) states where "bt_get (collab_states item True now states (tpr_subagents p)) i = Some task1"
    | (activity) k path kind where "bt_get (bt_insert k (activity_task True now (bt_get (tpr_subagents p) k) k path kind)
        (tpr_subagents p)) i = Some task1"
    by (auto simp: project_item_subagents_def project_collab_agent_tool_call_def project_subagent_activity_def Let_def
        trim_subagent_tasks_def dest!: trim_tasks_subset split: if_splits option.splits)
  then show "task_ended task1"
  proof cases
    case collab
    with collab_states_keep [of "tpr_subagents p" "tpr_subagents p", OF _ before, of item now states] show ?thesis by force
  next
    case activity
    with before show ?thesis by (auto split: if_splits intro: activity_task_ended)
  qed (use before in simp)
qed

section \<open>Eviction\<close>

text \<open>
  Eviction takes only threads that have not been heard of since the cutoff or whose last turn ended
  before it, and none whose turn is running; it says how many it took.
\<close>

theorem eviction_spares_running:
  assumes "projector_ok threads"
  shows "bt_get (snd (evict_finished_before cutoff threads)) t = filter_opt (\<lambda>p. \<not> evictable cutoff p) (bt_get threads t)
    \<and> fst (evict_finished_before cutoff threads) + length (snd (evict_finished_before cutoff threads)) = length threads"
proof -
  have ok: "bt_ok threads" using assms by (simp add: projector_ok_def)
  have "length (filter (\<lambda>(t, p). evictable cutoff p) threads) + length (filter (\<lambda>(t,
      p). \<not> evictable cutoff p) threads) = length threads"
    using sum_length_filter_compl [of "\<lambda>(t, p). evictable cutoff p" threads] by (simp add: case_prod_unfold)
  with evict_get [OF ok] evict_eq [OF ok] show ?thesis by (simp add: evict_finished_before_def Let_def)
qed

section \<open>Witnesses\<close>

definition demo_ended :: agent_event where
  "demo_ended = \<lparr>aev_method = ''turn/completed'', aev_params = jobj [(''threadId'', JStr ''t''),
     (''turn'', jobj [(''id'', JStr ''u''), (''durationMs'', JInt 5)])], aev_generation = 1\<rparr>"

definition demo_fatal :: agent_event where
  "demo_fatal = \<lparr>aev_method = ''error'', aev_params = jobj [(''threadId'', JStr ''t''), (''willRetry'', JBool False),
     (''error'', JStr ''boom'')], aev_generation = 1\<rparr>"

lemma demo_threads [simp]:
  "thread_id_from_params (aev_params demo_ended) = Some ''t''" "thread_id_from_params (aev_params demo_fatal) = Some ''t''"
  by code_simp+

lemma demo_ends: "ends_turn ''t'' ''u'' demo_ended"
  by (simp add: ends_turn_def) (simp add: demo_ended_def jobj_def jget_def jstr_def bt_get_def)

lemma demo_ended_projected:
  "bt_get (snd (projector_apply now demo_ended [])) ''t'' =
     Some (project_turn_ended now (aev_method demo_ended) (aev_params demo_ended) (found_projection now demo_ended ''t'' []))"
  by (simp add: apply_get ended_event [OF demo_ends])

lemma demo_ended_parts:
  "project_turn_ended now (aev_method demo_ended) (aev_params demo_ended) (found_projection now demo_ended ''t'' []) = p \<Longrightarrow>
    tpr_completed_turns_duration_ms p = 5 \<and> tpr_finished_at_ms p = Some (now 1) \<and> tpr_turn_status p = Some ''completed''"
  using ended_id [OF demo_ends]
  by (auto simp: project_turn_ended_def Let_def found_projection_def projection_default_def ended_turn_duration_def
      demo_ended_def jobj_def jget_def jstr_def bt_get_def as_i64_def in_i64_def i64_min_def i64_max_def saturating_add_def clamp_i64_def strip_prefix_def)

lemma demo_fatal_projected: "fatal ''t'' ''boom'' (snd (projector_apply now demo_fatal []))"
  by (simp add: fatal_def apply_get) (simp add: demo_fatal_def project_event_def project_error_def Let_def
      error_message_def error_recoverable_def jobj_def jget_def bt_get_def as_bool_def)

lemma projection_is_bounded_witness:
  "\<exists>p. bt_get (fold projector_step [PApply (\<lambda>_. 3) demo_ended] []) ''t'' = Some p \<and> length (tpr_items p) \<le> 200"
proof -
  obtain p where p: "bt_get (fold projector_step [PApply (\<lambda>_. 3) demo_ended] []) ''t'' = Some p"
    using demo_ended_projected [of "\<lambda>_. 3"] by simp
  have "list_all decodable [PApply (\<lambda>_. 3) demo_ended]" by (simp add: decodable_def)
  from projection_is_bounded [OF this p] p show ?thesis by blast
qed

lemma turn_counted_once_witness:
  "total_of ''t'' (snd (projector_apply (\<lambda>_. 9) demo_ended (snd (projector_apply (\<lambda>_. 3) demo_ended [])))) = 5"
proof -
  have "projector_ok []" by (simp add: projector_ok_def)
  then have "total_of ''t'' (snd (projector_apply (\<lambda>_. 9) demo_ended (snd (projector_apply (\<lambda>_. 3) demo_ended []))))
     = total_of ''t'' (snd (projector_apply (\<lambda>_. 3) demo_ended []))"
    using turn_counted_once [of "[]" "''t''" "''u''" demo_ended demo_ended "[]"] demo_ends by simp
  then show ?thesis using demo_ended_parts [OF refl, of "\<lambda>_. 3"] by (simp add: total_of_def demo_ended_projected)
qed


lemma eviction_spares_running_witness:
  "bt_get (snd (evict_finished_before 5 (snd (projector_apply (\<lambda>_. 3) demo_ended [])))) ''t'' = None"
proof -
  have "projector_ok []" by (simp add: projector_ok_def)
  then have ok: "projector_ok (snd (projector_apply (\<lambda>_. 3) demo_ended []))" by (rule apply_ok)
  from eviction_spares_running [OF ok, of 5 "''t''"] demo_ended_parts [OF refl, of "\<lambda>_. 3"] show ?thesis
    by (simp add: demo_ended_projected filter_opt_def evictable_def)
qed

end
