(* ===== verification/HydrationProps.thy ===== *)
theory HydrationProps
  imports Hydration ProjectorProps SpaceProps "HOL-Library.Multiset"
begin

text \<open>
  Results on the rebuilt state: a projection read back from Codex is bounded and counts every turn
  once, also together with the events that follow; the listing is in order and its cache may go
  stale; profiles are filled, kept and remapped as the comments say.
\<close>

section \<open>The rebuilt projection\<close>

lemma read_item_frame [simp]:
  "tpr_completed_turn_ids (fst (read_item now ti ii item st)) = tpr_completed_turn_ids (fst st)"
  "tpr_completed_turns_duration_ms (fst (read_item now ti ii item st)) = tpr_completed_turns_duration_ms (fst st)"
  "tpr_thread_id (fst (read_item now ti ii item st)) = tpr_thread_id (fst st)"
  by (simp_all add: read_item_def Let_def case_prod_beta split: option.split)

lemma read_item_ok: "bt_ok (tpr_items (fst st)) \<Longrightarrow> bt_ok (tpr_items (fst (read_item now ti ii item st)))"
  by (simp add: read_item_def Let_def case_prod_beta split: option.split)

lemma read_items_frame [simp]:
  "tpr_completed_turn_ids (fst (read_items now ti ii items st)) = tpr_completed_turn_ids (fst st)"
  "tpr_completed_turns_duration_ms (fst (read_items now ti ii items st)) = tpr_completed_turns_duration_ms (fst st)"
  "tpr_thread_id (fst (read_items now ti ii items st)) = tpr_thread_id (fst st)"
  by (induction now ti ii items st rule: read_items.induct) simp_all

lemma read_items_ok: "bt_ok (tpr_items (fst st)) \<Longrightarrow> bt_ok (tpr_items (fst (read_items now ti ii items st)))"
  by (induction now ti ii items st rule: read_items.induct) (simp_all add: read_item_ok)

lemma read_duration_frame [simp]:
  "tpr_items (read_duration turn p) = tpr_items p" "tpr_thread_id (read_duration turn p) = tpr_thread_id p"
  by (simp_all add: read_duration_def split: option.split)

lemma read_duration_counts: "in_i64 (tpr_completed_turns_duration_ms p) \<Longrightarrow> counts_more p (read_duration turn p)"
  by (auto simp: read_duration_def counts_more_def saturating_add_ge saturating_in_range split: option.split)

lemma read_turns_ok:
  "bt_ok (tpr_items (fst st)) \<Longrightarrow> in_i64 (tpr_completed_turns_duration_ms (fst st)) \<Longrightarrow>
    bt_ok (tpr_items (fst (read_turns now ti turns st))) \<and> counts_more (fst st) (fst (read_turns now ti turns st))
    \<and> tpr_thread_id (fst (read_turns now ti turns st)) = tpr_thread_id (fst st)"
proof (induction now ti turns st rule: read_turns.induct)
  case (1 now ti st)
  then show ?case by (simp add: counts_more_def)
next
  case (2 now ti turn turns p plan)
  let ?st = "case Option.bind (jget ''items'' turn) as_array of None \<Rightarrow> (read_duration turn p, plan)
      | Some items \<Rightarrow> read_items now ti 0 items (read_duration turn p, plan)"
  have p: "counts_more p (read_duration turn p)" using 2(3) by (simp add: read_duration_counts)
  then have st: "counts_more p (fst ?st)" "tpr_thread_id (fst ?st) = tpr_thread_id p" "bt_ok (tpr_items (fst ?st))"
    using 2(2) by (auto simp: counts_more_def read_items_ok split: option.split)
  from 2(1) [OF st(3)] st 2(2,3) show ?case by (auto simp: counts_more_def)
qed

text \<open>A turn of the history that is over and says how long it took is counted.\<close>

definition says_duration :: "json \<Rightarrow> string \<Rightarrow> bool" where
  "says_duration turn i \<longleftrightarrow> jstr ''id'' turn = Some i \<and> Option.bind (either_key ''durationMs'' ''duration_ms'' turn) as_i64 \<noteq> None
     \<and> map_option (\<lambda>v. normalized_status v []) (jget ''status'' turn) \<noteq> Some ''inProgress''"

lemma read_turns_count:
  "bt_ok (tpr_items (fst st)) \<Longrightarrow> in_i64 (tpr_completed_turns_duration_ms (fst st)) \<Longrightarrow> turn \<in> set turns \<Longrightarrow> says_duration turn i
    \<Longrightarrow> i \<in> tpr_completed_turn_ids (fst (read_turns now ti turns st))"
proof (induction now ti turns st rule: read_turns.induct)
  case (2 now ti head turns p plan)
  let ?st = "case Option.bind (jget ''items'' head) as_array of None \<Rightarrow> (read_duration head p, plan)
      | Some items \<Rightarrow> read_items now ti 0 items (read_duration head p, plan)"
  have p: "counts_more p (read_duration head p)" using 2(3) by (simp add: read_duration_counts)
  then have st: "in_i64 (tpr_completed_turns_duration_ms (fst ?st))" "bt_ok (tpr_items (fst ?st))"
    "tpr_completed_turn_ids (fst ?st) = tpr_completed_turn_ids (read_duration head p)"
    using 2(2) by (auto simp: counts_more_def read_items_ok split: option.split)
  show ?case
  proof (cases "turn \<in> set turns")
    case True
    from 2(1) [OF st(2,1) True 2(5)] show ?thesis by simp
  next
    case False
    with 2(4,5) have "i \<in> tpr_completed_turn_ids (read_duration head p)"
      by (auto simp: says_duration_def read_duration_def split: option.split)
    then show ?thesis using read_turns_ok [OF st(2,1), of now "Suc ti" turns] st(3) by (auto simp: counts_more_def)
  qed
qed simp

definition read_start :: "string \<Rightarrow> json \<Rightarrow> json \<Rightarrow> json list \<Rightarrow> projected_thread" where
  "read_start t response source turns = read_settings source (read_finished (read_thread_fields t response source (latest_turn turns)))"

lemma read_steps_frame [simp]:
  "tpr_items (read_settings source p) = tpr_items p" "tpr_items (read_finished p) = tpr_items p"
  "tpr_completed_turns_duration_ms (read_settings source p) = tpr_completed_turns_duration_ms p"
  "tpr_completed_turns_duration_ms (read_finished p) = tpr_completed_turns_duration_ms p"
  "tpr_thread_id (read_settings source p) = tpr_thread_id p" "tpr_thread_id (read_finished p) = tpr_thread_id p"
  by (simp_all add: read_settings_def read_finished_def option.case_distrib cong: option.case_cong split: if_split)
    (simp_all split: option.split)

lemma read_start_frame [simp]:
  "tpr_items (read_start t response source turns) = []" "tpr_completed_turns_duration_ms (read_start t response source turns) = 0"
  "tpr_thread_id (read_start t response source turns) = t"
  by (simp_all add: read_start_def) (simp_all add: read_thread_fields_def)

lemma thread_read_eq:
  "projection_from_thread_read now t response = (let source = thread_read_source response; turns = thread_read_turns source response;
     st = read_turns now 0 turns (read_start t response source turns, None) in
     truncate_items (if tpr_plan (fst st) = None then (fst st)\<lparr>tpr_plan := snd st\<rparr> else fst st))"
  by (simp add: projection_from_thread_read_def Let_def read_start_def case_prod_beta)

lemma in_i64_zero: "in_i64 0"
  by (simp add: in_i64_def i64_min_def i64_max_def)

text \<open>
  What is rebuilt from \<open>thread/read\<close> can be restored: whatever Codex answers, it is the thread that was
  asked for, with at most 200 items and a total in range.
\<close>

theorem rebuilt_projection_is_bounded:
  "items_bounded (projection_from_thread_read now t response) \<and> tpr_thread_id (projection_from_thread_read now t response) = t
   \<and> decodable (PRestore (projection_from_thread_read now t response))"
proof -
  let ?source = "thread_read_source response"
  let ?turns = "thread_read_turns ?source response"
  let ?st = "read_turns now 0 ?turns (read_start t response ?source ?turns, None)"
  have st: "bt_ok (tpr_items (fst ?st))" "in_i64 (tpr_completed_turns_duration_ms (fst ?st))" "tpr_thread_id (fst ?st) = t"
    using read_turns_ok [of "(read_start t response ?source ?turns,
        None)" now 0 ?turns] in_i64_zero by (auto simp: counts_more_def)
  then have "items_bounded (projection_from_thread_read now t response)"
    by (auto simp: thread_read_eq Let_def intro!: truncate_bounded)
  then show ?thesis using st by (simp add: thread_read_eq Let_def decodable_def items_bounded_def)
qed

text \<open>
  A turn of the history is not counted again: after a thread has been rebuilt from Codex, the event
  that ends one of the turns it was rebuilt from leaves its total alone, whatever events came
  before it.
\<close>

theorem history_not_counted_again:
  assumes "projector_ok threads" and "trim t \<noteq> []"
    and "turn \<in> set (thread_read_turns (thread_read_source response) response)" and "says_duration turn i"
    and "list_all is_apply ops" and "ends_turn t i ev"
    and "threads1 = fold projector_step ops (projector_restore (projection_from_thread_read now t response) threads)"
  shows "total_of t (snd (projector_apply now1 ev threads1)) = total_of t threads1"
proof -
  let ?p = "projection_from_thread_read now t response"
  let ?source = "thread_read_source response"
  let ?turns = "thread_read_turns ?source response"
  note rebuilt = rebuilt_projection_is_bounded [of now t response]
  have i: "i \<in> tpr_completed_turn_ids ?p"
    using read_turns_count [of "(read_start t response ?source ?turns, None)" turn ?turns i now 0] assms(3,4) in_i64_zero
    by (simp add: thread_read_eq Let_def)
  have ok: "projector_ok (projector_restore ?p threads)" using restore_ok [OF assms(1)] rebuilt by blast
  have "bt_get (projector_restore ?p threads) t = Some (truncate_items ?p)"
    using assms(2) rebuilt by (simp add: projector_restore_def)
  from applies_count [OF ok assms(5) this] obtain q where
    q: "bt_get threads1 t = Some q" "i \<in> tpr_completed_turn_ids q" unfolding assms(7) using i by (auto simp: counts_more_def)
  have "thread_id_from_params (aev_params ev) = Some t" using assms(6) by (simp add: ends_turn_def)
  with q show ?thesis using ended_event [OF assms(6)] ended_id [OF assms(6)]
    by (simp add: total_of_def apply_get project_turn_ended_def Let_def found_counts)
qed

section \<open>Profiles\<close>

text \<open>
  Filling the gaps of a profile overwrites nothing, changes nothing else, and leaves nothing to do a
  second time.
\<close>

theorem backfill_fills_only_gaps:
  "let s1 = snd (backfill_space_profile s p) in
     (\<forall>m. sps_normal_model s = Some m \<longrightarrow> sps_normal_model s1 = Some m)
   \<and> (\<forall>e. sps_normal_effort s = Some e \<longrightarrow> sps_normal_effort s1 = Some e)
   \<and> (\<forall>m. sps_plan_model s = Some m \<longrightarrow> sps_plan_model s1 = Some m)
   \<and> (\<forall>e. sps_plan_effort s = Some e \<longrightarrow> sps_plan_effort s1 = Some e)
   \<and> s1\<lparr>sps_normal_model := None, sps_normal_effort := None, sps_plan_model := None, sps_plan_effort := None\<rparr>
     = s\<lparr>sps_normal_model := None, sps_normal_effort := None, sps_plan_model := None, sps_plan_effort := None\<rparr>
   \<and> backfill_space_profile s1 p = (False, s1)"
  by (cases "sps_normal_model s"; cases "sps_normal_effort s") (auto simp: backfill_space_profile_def Let_def split: option.split)

definition served :: "model_choice list \<Rightarrow> string option \<Rightarrow> bool" where
  "served available m \<longleftrightarrow> (case m of None \<Rightarrow> True
     | Some stored \<Rightarrow> stored = legacy_model_remap_target \<or> stored \<in> mch_model ` set available)"

text \<open>
  After the remapping no space names a model that Codex does not list, but for the one target of the
  remapping, which is not checked; models that are listed are kept, and a second remapping changes
  no model.
\<close>

theorem remapped_models_are_served:
  "let s1 = snd (remap_legacy_session_models now s available) in
     served available (sps_normal_model s1) \<and> served available (sps_plan_model s1)
   \<and> (\<forall>m. sps_normal_model s = Some m \<longrightarrow> m \<noteq> ''gpt-5.6-luna'' \<longrightarrow> m \<in> mch_model ` set available \<longrightarrow> sps_normal_model s1 = Some m)
   \<and> sps_normal_model (snd (remap_legacy_session_models now2 s1 available)) = sps_normal_model s1
   \<and> sps_plan_model (snd (remap_legacy_session_models now2 s1 available)) = sps_plan_model s1"
  by (auto simp: remap_legacy_session_models_def Let_def retired_model_def served_def legacy_model_remap_target_def
      list_ex_iff split: option.split)

section \<open>Settings of an event\<close>

lemma with_profile_id [simp]: "sps_space_id (with_profile now profile s) = sps_space_id s"
  by (simp add: with_profile_def Let_def case_prod_beta split: option.split)

lemma upsert_other_space:
  assumes "sid \<noteq> sps_space_id s"
  shows "get_session_space sid (snd (upsert_session_space s db)) = get_session_space sid db"
proof -
  have "get_session_space sid (db\<lparr>sp_spaces := update_where (\<lambda>r. sps_space_id r = sps_space_id s) (merge_space s) (sp_spaces db)\<rparr>)
      = get_session_space sid db"
    using assms by (cases "get_session_space sid db") (auto simp: space_at_update dest: get_space_key)
  then show ?thesis using assms
    by (auto simp: upsert_session_space_def get_session_space_def first_where_append split: sum.split option.split)
qed

lemma sync_other_space:
  "list_all (\<lambda>s. sps_thread_id s = Some thread \<longrightarrow> sps_lifecycle s \<noteq> ''closed'' \<longrightarrow> sps_space_id s \<noteq> sid) spaces \<Longrightarrow>
    get_session_space sid (sync_spaces now k thread profile spaces db) = get_session_space sid db"
  by (induction now k thread profile spaces db rule: sync_spaces.induct) (auto simp: upsert_other_space)

text \<open>
  The settings of a thread reach only its own open spaces: a space of another thread, of none, or a
  closed one stays as it is.
\<close>

theorem settings_stay_in_their_thread:
  assumes "space_inv db" and "get_session_space sid db = Some s"
    and "sps_thread_id s \<noteq> Some thread \<or> sps_lifecycle s = ''closed''"
  shows "get_session_space sid (sync_space_settings_from_event now thread v db) = Some s"
proof -
  have distinct: "distinct (map sps_space_id (sp_spaces db))" using assms(1) by (simp add: space_inv_def)
  have "s1 = s" if "s1 \<in> set (sp_spaces db)" "sps_space_id s1 = sid" for s1
  proof -
    have "s \<in> set (sp_spaces db)" "sps_space_id s = sid"
      using assms(2) by (auto simp: get_session_space_def dest: first_where_SomeD)
    with that show ?thesis using distinct by (auto simp: distinct_map dest: inj_onD)
  qed
  then have "list_all (\<lambda>s. sps_thread_id s = Some thread \<longrightarrow> sps_lifecycle s \<noteq> ''closed'' \<longrightarrow> sps_space_id s \<noteq> sid) (session_spaces db)"
    using assms(3) by (auto simp: session_spaces_def list_all_iff)
  from sync_other_space [OF this] assms(2) show ?thesis
    by (simp add: sync_space_settings_from_event_def split: option.split)
qed

section \<open>The listing\<close>

text \<open>\<open>later s1 s2\<close>: the row \<open>s1\<close> stands before \<open>s2\<close>.\<close>

definition later :: "listed_session \<Rightarrow> listed_session \<Rightarrow> bool" where
  "later s1 s2 \<longleftrightarrow> (case (lse_updated_at s1, lse_updated_at s2) of
     (Some a, Some b) \<Rightarrow> b < a \<or> a = b \<and> lse_thread_id s1 \<le> lse_thread_id s2
   | (Some _, None) \<Rightarrow> True | (None, Some _) \<Rightarrow> False | (None, None) \<Rightarrow> lse_thread_id s1 \<le> lse_thread_id s2)"

lemma later_iff: "later s1 s2 \<longleftrightarrow> recency_key s1 \<le> recency_key s2"
  by (auto simp: later_def recency_key_def less_eq_prod_def split: option.split)

text \<open>
  The listing built from the stored projections has a row for each of them that can be read, the
  latest first, those of the same second by name, and those without a time at the end.
\<close>

theorem listing_latest_first:
  "sorted_wrt later (control_sessions_from_projections decode rows created lifecycle)
   \<and> mset (map lse_thread_id (control_sessions_from_projections decode rows created lifecycle))
     = mset (map fst (filter (\<lambda>(t, payload). decode payload \<noteq> None) rows))"
proof -
  have "sorted_wrt (\<lambda>a b. recency_key a \<le> recency_key b) (sort_key recency_key xs)" for xs
    using sorted_sort_key [of recency_key xs] by (simp add: sorted_map)
  moreover have "map lse_thread_id (List.map_filter (\<lambda>(t,
      payload). map_option (\<lambda>p. session_of_projection created lifecycle (t, p)) (decode payload)) rows)
      = map fst (filter (\<lambda>(t, payload). decode payload \<noteq> None) rows)"
    by (induction rows) (auto simp: session_of_projection_def map_filter_simps split: option.split)
  moreover have "mset (map lse_thread_id (sort_key recency_key xs)) = mset (map lse_thread_id xs)" for xs
    by (metis mset_map mset_sort)
  ultimately show ?thesis
    by (simp add: control_sessions_from_projections_def later_iff [abs_def] del: mset_map mset_filter)
qed

text \<open>
  The flag that the cache is out of date is cleared before the rows are read again. When that fails,
  the flag is gone: within the life of the cache the next listing is the old one.
\<close>

theorem failed_refresh_serves_stale:
  assumes "sca_dirty cache" and "0 < sca_built_at_ms cache"
    and "list_control_sessions_cached decode now [] lifecycle (Inl e) cache = (r, cache1)"
    and "saturating_sub (now1 0) (sca_built_at_ms cache) < sessions_cache_ttl_ms"
  shows "r = Inl e \<and> list_control_sessions_cached decode now1 rows lifecycle1 listing cache1 = (Inr (sca_sessions cache), cache1)"
  using assms by (auto simp: list_control_sessions_cached_def Let_def)

end
