(* ===== verification/Watch.thy ===== *)
theory Watch
  imports HydrationProps RecordStore Sessions AppClient
begin

text \<open>
  The watch over the events of Codex in the daemon (\<open>rust/crates/cli/src/daemon.rs\<close>): the rebuilding of
  the projections at the start, \<open>hydrate_thread_projections\<close>, and what the loop of
  \<open>forward_codex_events\<close> does to its state with each event: the reload of a projection that was evicted,
  the projection, the settings, and the write to the store, which is limited in its rate. What an
  event sends to Telegram comes after that and does not change this state.
\<close>

section \<open>The state\<close>

definition projection_persist_interval_ms :: i64 where "projection_persist_interval_ms = 2000"
definition projection_terminal_retention_ms :: i64 where "projection_terminal_retention_ms = 60 * 60 * 1000"
definition hydration_max_attempts :: nat where "hydration_max_attempts = 3"

text \<open>The derived encoder and decoder of projections, the store's codec and the app-server are parameters.\<close>

record 'w watch_env =
  we_codec :: record_codec
  we_encode :: "projected_thread \<Rightarrow> json option"
  we_decode :: "json \<Rightarrow> projected_thread option"
  we_call :: "'w app_call"

record 'w watch =
  wt_projector :: event_projector
  wt_records :: record_db
  wt_spaces :: space_db
  wt_persisted :: "string \<rightharpoonup> i64"
  wt_sessions_dirty :: bool
  wt_agent :: 'w

definition generation_column :: "u64 \<Rightarrow> i64" where
  "generation_column g = (if int g \<le> i64_max then int g else i64_max)"

section \<open>Hydration\<close>

definition hydrate_thread_once :: "'w watch_env \<Rightarrow> (nat \<Rightarrow> nat \<Rightarrow> i64) \<Rightarrow> i64 \<Rightarrow> thread_id \<Rightarrow> 'w \<Rightarrow> (string + projected_thread) \<times> 'w" where
  "hydrate_thread_once env item_now now thread w = (case resume_thread (we_call env) thread w of
     (Inl e, w1) \<Rightarrow> (Inl (port_error_display e), w1)
   | (Inr _, w1) \<Rightarrow>
     (case we_call env ''thread/read'' (jobj [(''threadId'', JStr (thread_id_str thread)), (''includeTurns'',
         JBool True)]) 30000 w1 of
        (Inl e, w2) \<Rightarrow> (Inl (app_error_display e), w2)
      | (Inr response, w2) \<Rightarrow> let p = projection_from_thread_read item_now (thread_id_str thread) response in
        (case we_call env ''thread/goal/get'' (jobj [(''threadId'', JStr (thread_id_str thread))]) 30000 w2 of
          (r, w3) \<Rightarrow> let
            goal = (case r of Inl e \<Rightarrow> None | Inr found \<Rightarrow> filter_opt is_object (jget ''goal'' found));
            p1 = (case goal of None \<Rightarrow> p | Some g \<Rightarrow> p\<lparr>tpr_goal := Some g\<rparr>) in
            (Inr (if tpr_updated_at_ms p1 \<le> 0 then p1\<lparr>tpr_updated_at_ms := now\<rparr> else p1), w3))))"

fun hydrate_attempts :: "'w watch_env \<Rightarrow> (nat \<Rightarrow> nat \<Rightarrow> i64) \<Rightarrow> i64 \<Rightarrow> thread_id \<Rightarrow> nat \<Rightarrow> 'w \<Rightarrow> projected_thread option \<times> 'w" where
  "hydrate_attempts env item_now now thread 0 w = (None, w)"
| "hydrate_attempts env item_now now thread (Suc n) w = (case hydrate_thread_once env item_now now thread w of
     (Inr p, w1) \<Rightarrow> (Some p, w1)
   | (Inl e, w1) \<Rightarrow> hydrate_attempts env item_now now thread n w1)"

definition hydrate_thread_with_retry ::
  "'w watch_env \<Rightarrow> (nat \<Rightarrow> nat \<Rightarrow> i64) \<Rightarrow> i64 \<Rightarrow> thread_id \<Rightarrow> 'w \<Rightarrow> projected_thread option \<times> 'w" where
  "hydrate_thread_with_retry env item_now now thread w = hydrate_attempts env item_now now thread hydration_max_attempts w"

text \<open>One space: \<open>None\<close> when its thread could not be read; a write that fails is passed over.\<close>

definition hydrate_space :: "'w watch_env \<Rightarrow> (nat \<Rightarrow> nat \<Rightarrow> i64) \<Rightarrow> clock_readings \<Rightarrow> session_space \<Rightarrow> 'w watch
    \<Rightarrow> (session_space \<times> projected_thread) option \<times> 'w watch" where
  "hydrate_space env item_now now s st =
     (case Option.bind (sps_thread_id s) (\<lambda>t. case thread_id_new t of Inl e \<Rightarrow> None | Inr i \<Rightarrow> Some i) of
        None \<Rightarrow> (None, st)
      | Some thread \<Rightarrow> (case hydrate_thread_with_retry env item_now (now 0) thread (wt_agent st) of
          (None, w) \<Rightarrow> (None, st\<lparr>wt_agent := w\<rparr>)
        | (Some p, w) \<Rightarrow> let
            filled = backfill_space_profile s p;
            s1 = (if fst filled then (snd filled)\<lparr>sps_updated_at_ms := now 1\<rparr> else snd filled);
            spaces = (if fst filled then snd (upsert_session_space s1 (wt_spaces st)) else wt_spaces st);
            records = (case we_encode env p of None \<Rightarrow> wt_records st
              | Some payload \<Rightarrow> snd (upsert_thread_projection (we_codec env) (thread_id_str thread)
                  (generation_column (tpr_generation p)) payload (now 2) (wt_records st))) in
            (Some (s1, p), st\<lparr>wt_agent := w, wt_spaces := spaces, wt_records := records,
               wt_projector := projector_restore p (wt_projector st)\<rparr>)))"

fun hydrate_spaces :: "'w watch_env \<Rightarrow> (nat \<Rightarrow> nat \<Rightarrow> nat \<Rightarrow> i64) \<Rightarrow> (nat \<Rightarrow> clock_readings) \<Rightarrow> nat \<Rightarrow> session_space list \<Rightarrow> 'w watch
    \<Rightarrow> (session_space \<times> projected_thread) list \<times> 'w watch" where
  "hydrate_spaces env item_now now k [] st = ([], st)"
| "hydrate_spaces env item_now now k (s # spaces) st = (case hydrate_space env (item_now k) (now k) s st of
     (r, st1) \<Rightarrow> (case hydrate_spaces env item_now now (Suc k) spaces st1 of
       (rs, st2) \<Rightarrow> (case r of None \<Rightarrow> rs | Some x \<Rightarrow> x # rs, st2)))"

definition hydrate_thread_projections :: "'w watch_env \<Rightarrow> (nat \<Rightarrow> nat \<Rightarrow> nat \<Rightarrow> i64) \<Rightarrow> (nat \<Rightarrow> clock_readings) \<Rightarrow> 'w watch
    \<Rightarrow> (session_space \<times> projected_thread) list \<times> 'w watch" where
  "hydrate_thread_projections env item_now now st =
     hydrate_spaces env item_now now 0 (active_session_spaces (wt_spaces st)) st"

text \<open>Before it, the stored projections are restored, and retired models are replaced in every space.\<close>

definition restore_projections :: "'w watch_env \<Rightarrow> 'w watch \<Rightarrow> 'w watch" where
  "restore_projections env st = (case thread_projections (we_codec env) (wt_records st) of
     Inl e \<Rightarrow> st
   | Inr rows \<Rightarrow> st\<lparr>wt_projector := fold projector_restore
       (List.map_filter (\<lambda>(t, g, payload, u). we_decode env payload) rows) (wt_projector st)\<rparr>)"

fun remap_spaces :: "clock_readings \<Rightarrow> nat \<Rightarrow> model_choice list \<Rightarrow> session_space list \<Rightarrow> space_db \<Rightarrow> space_db" where
  "remap_spaces now k available [] db = db"
| "remap_spaces now k available (s # spaces) db = (case remap_legacy_session_models (now k) s available of
     (changed, s1) \<Rightarrow> remap_spaces now (Suc k) available spaces
       (if changed then snd (upsert_session_space s1 db) else db))"

section \<open>One event\<close>

definition listing_events :: "string list" where
  "listing_events = [''thread/started'', ''thread/created'', ''thread/updated'', ''thread/status/updated'',
     ''thread/status/changed'', ''turn/started'', ''turn/created'', ''turn/completed'', ''turn/failed'',
         ''turn/interrupted'']"

text \<open>The row of a thread, decoded.\<close>

definition stored_projection :: "'w watch_env \<Rightarrow> string \<Rightarrow> 'w watch \<Rightarrow> projected_thread option" where
  "stored_projection env t st = (case thread_projection (we_codec env) t (wt_records st) of
     Inr (Some (t1, g, payload, u)) \<Rightarrow> we_decode env payload
   | _ \<Rightarrow> None)"

definition reload_projection :: "'w watch_env \<Rightarrow> string option \<Rightarrow> 'w watch \<Rightarrow> 'w watch" where
  "reload_projection env thread st = (case thread of
     None \<Rightarrow> st
   | Some t \<Rightarrow> (case bt_get (wt_projector st) t of
       Some p \<Rightarrow> st
     | None \<Rightarrow> (case stored_projection env t st of
         None \<Rightarrow> st
       | Some p \<Rightarrow> st\<lparr>wt_projector := projector_restore p (wt_projector st)\<rparr>)))"

definition is_terminal_effect :: "projection_effect \<Rightarrow> bool" where
  "is_terminal_effect e \<longleftrightarrow> e = EffTurnCompleted \<or> e = EffError"

definition touched_projection :: "i64 \<Rightarrow> projected_thread \<Rightarrow> projected_thread" where
  "touched_projection now p = (let p1 = p\<lparr>tpr_updated_at_ms := now\<rparr> in
     if tpr_turn_status p1 = Some ''inProgress'' \<and> tpr_started_at_ms p1 = None
     then p1\<lparr>tpr_started_at_ms := Some now\<rparr> else p1)"

definition persist_due :: "i64 \<Rightarrow> string \<Rightarrow> 'w watch \<Rightarrow> bool" where
  "persist_due now t st \<longleftrightarrow> (case wt_persisted st t of None \<Rightarrow> True
     | Some written \<Rightarrow> projection_persist_interval_ms \<le> saturating_sub now written)"

definition persist_projection :: "'w watch_env \<Rightarrow> i64 \<Rightarrow> projection_effect \<Rightarrow> string option \<Rightarrow> 'w watch \<Rightarrow> 'w watch" where
  "persist_projection env now effect thread st = (case thread of
     None \<Rightarrow> st
   | Some t \<Rightarrow> (case bt_get (wt_projector st) t of
       None \<Rightarrow> st
     | Some p \<Rightarrow> let p1 = touched_projection now p; st1 = st\<lparr>wt_projector := bt_insert t p1 (wt_projector st)\<rparr> in
         if persist_due now t st \<or> is_terminal_effect effect then (case we_encode env p1 of
             None \<Rightarrow> st1
           | Some payload \<Rightarrow> (case upsert_thread_projection (we_codec env) t (generation_column (tpr_generation p1)) payload now
                 (wt_records st) of
               (Inl e, db) \<Rightarrow> st1\<lparr>wt_records := db\<rparr>
             | (Inr _, db) \<Rightarrow> st1\<lparr>wt_records := db, wt_persisted := (wt_persisted st)(t \<mapsto> now)\<rparr>))
         else st1))"

text \<open>
  The readings of the clock: 0 to 2 in the projection, 3 for the write, the rest for the settings.
  The events of an \<open>/ask\<close> thread are handled elsewhere.
\<close>

definition observe_event :: "'w watch_env \<Rightarrow> session_registry \<Rightarrow> clock_readings \<Rightarrow> agent_event \<Rightarrow> 'w watch \<Rightarrow> projection_effect \<times> 'w watch" where
  "observe_event env reg now ev st = (let thread = thread_id_from_params (aev_params ev) in
     if strip_suffix ''/delta'' (aev_method ev) \<noteq> None then (EffNone, st)
     else if (case thread of None \<Rightarrow> False | Some t \<Rightarrow> contains_ask_thread t reg) then (EffNone, st)
     else let
       st1 = reload_projection env thread st;
       applied = projector_apply now ev (wt_projector st1);
       st2 = st1\<lparr>wt_projector := snd applied,
         wt_sessions_dirty := (wt_sessions_dirty st1 \<or> aev_method ev \<in> set listing_events)\<rparr>;
       st3 = (case thread of None \<Rightarrow> st2 | Some t \<Rightarrow>
         if aev_method ev = ''thread/settings/updated''
         then st2\<lparr>wt_spaces := sync_space_settings_from_event (\<lambda>k. now (4 + k)) t (aev_params ev) (wt_spaces st2)\<rparr> else st2) in
       (fst applied, persist_projection env (now 3) (fst applied) thread st3))"

definition eviction_sweep :: "i64 \<Rightarrow> 'w watch \<Rightarrow> 'w watch" where
  "eviction_sweep now st = st\<lparr>wt_projector :=
     snd (evict_finished_before (saturating_sub now projection_terminal_retention_ms) (wt_projector st))\<rparr>"

section \<open>Nothing is lost when a turn has ended\<close>

text \<open>A projection can be written and reads back as it was; the decoder builds maps and numbers in range.\<close>

definition reads_back_projection :: "'w watch_env \<Rightarrow> projected_thread \<Rightarrow> bool" where
  "reads_back_projection env p \<longleftrightarrow> (\<exists>v s. we_encode env p = Some v \<and> rc_json (we_codec env) v = Inr s
     \<and> rc_read_json (we_codec env) s = Inr v \<and> we_decode env v = Some p)"

definition decodes_maps :: "'w watch_env \<Rightarrow> bool" where
  "decodes_maps env \<longleftrightarrow> (\<forall>v p. we_decode env v = Some p \<longrightarrow> decodable (PRestore p))"

lemma upsert_projection_row:
  assumes "rc_json cd v = Inr s" and "rc_read_json cd s = Inr v" and "\<not> is_blank t"
  shows "fst (upsert_thread_projection cd t g v u db) = Inr ()"
    and "thread_projection cd t (snd (upsert_thread_projection cd t g v u db)) = Inr (Some (t, g, v, u))"
proof -
  let ?row = "\<lparr>jr_thread_id = t, jr_generation = g, jr_projection_json = s, jr_updated_at_ms = u\<rparr>"
  have "first_where (\<lambda>r. jr_thread_id r = t) (upsert (\<lambda>r. jr_thread_id r = t) ?row (\<lambda>_. ?row) (rd_projections db)) = Some ?row"
    using first_where_upsert [of jr_thread_id ?row "\<lambda>_. ?row" t "rd_projections db"] by (auto split: option.splits)
  then show "fst (upsert_thread_projection cd t g v u db) = Inr ()"
    "thread_projection cd t (snd (upsert_thread_projection cd t g v u db)) = Inr (Some (t, g, v, u))"
    using assms by (simp_all add: upsert_thread_projection_def Let_def thread_projection_def projection_of_row_def)
qed

lemma terminal_is_stored:
  assumes "trim t \<noteq> []" and "is_terminal_effect effect" and "bt_get (wt_projector st) t = Some p"
    and "reads_back_projection env (touched_projection now p)"
  shows "stored_projection env t (persist_projection env now effect (Some t) st) = Some (touched_projection now p)
    \<and> bt_get (wt_projector (persist_projection env now effect (Some t) st)) t = Some (touched_projection now p)"
proof -
  let ?p = "touched_projection now p"
  from assms(4) obtain v s where v: "we_encode env ?p = Some v" "rc_json (we_codec env) v = Inr s"
    "rc_read_json (we_codec env) s = Inr v" "we_decode env v = Some ?p" unfolding reads_back_projection_def by metis
  have "\<not> is_blank t" using assms(1) by (simp add: is_blank_def)
  note row = upsert_projection_row [OF v(2,3) this]
  show ?thesis using assms(2,3) v row [of "generation_column (tpr_generation ?p)" now "wt_records st"]
    by (auto simp: persist_projection_def Let_def stored_projection_def split: prod.split sum.split)
qed

lemma persist_projector:
  "wt_projector (persist_projection env now effect thread st) = (case thread of None \<Rightarrow> wt_projector st
     | Some t \<Rightarrow> (case bt_get (wt_projector st) t of None \<Rightarrow> wt_projector st
       | Some p \<Rightarrow> bt_insert t (touched_projection now p) (wt_projector st)))"
  by (simp add: persist_projection_def Let_def split: option.split sum.split prod.split)

lemma touched_frame [simp]:
  "tpr_thread_id (touched_projection now p) = tpr_thread_id p" "tpr_items (touched_projection now p) = tpr_items p"
  "tpr_item_order (touched_projection now p) = tpr_item_order p" "tpr_turn_status (touched_projection now p) = tpr_turn_status p"
  "tpr_completed_turns_duration_ms (touched_projection now p) = tpr_completed_turns_duration_ms p"
  by (simp_all add: touched_projection_def Let_def)

lemma touched_ok [simp]: "projection_ok t (touched_projection now p) = projection_ok t p"
  by (simp add: projection_ok_def items_bounded_def)

lemma persist_ok: "projector_ok (wt_projector st) \<Longrightarrow> projector_ok (wt_projector (persist_projection env now effect thread st))"
  by (auto simp: persist_projector projector_ok_def split: option.split)

lemma reload_ok:
  assumes "decodes_maps env" and "projector_ok (wt_projector st)"
  shows "projector_ok (wt_projector (reload_projection env thread st))"
proof -
  have "decodable (PRestore p)" if "stored_projection env t st = Some p" for t p
    using that assms(1) by (auto simp: stored_projection_def decodes_maps_def split: sum.splits option.splits)
  then show ?thesis using assms(2) by (auto simp: reload_projection_def restore_ok split: option.split)
qed

lemma truncate_bounded_id: "items_bounded p \<Longrightarrow> truncate_items p = p"
proof -
  assume b: "items_bounded p"
  then have "drop_oldest (tpr_items p) (tpr_item_order p) = (tpr_items p, tpr_item_order p)"
    by (cases "tpr_item_order p") (auto simp: items_bounded_def)
  with b show ?thesis by (simp add: truncate_items_def items_bounded_def)
qed

text \<open>What an event of a thread leaves in memory, before it is written.\<close>

lemma observe_thread:
  assumes "thread_id_from_params (aev_params ev) = Some t" and "strip_suffix ''/delta'' (aev_method ev) = None"
    and "\<not> contains_ask_thread t reg"
  obtains st3 where "wt_projector st3 = snd (projector_apply now ev (wt_projector (reload_projection env (Some t) st)))"
    "wt_records st3 = wt_records st" "wt_persisted st3 = wt_persisted st"
    "observe_event env reg now ev st =
      (fst (projector_apply now ev (wt_projector (reload_projection env (Some t) st))),
       persist_projection env (now 3) (fst (projector_apply now ev (wt_projector (reload_projection env (Some t) st)))) (Some t) st3)"
proof -
  have "wt_records (reload_projection env (Some t) st) = wt_records st" "wt_persisted (reload_projection env (Some t) st) = wt_persisted st"
    by (simp_all add: reload_projection_def split: option.split)
  then show ?thesis using assms by (intro that) (auto simp: observe_event_def Let_def)
qed

lemma terminal_not_skipped:
  assumes "observe_event env reg now ev st = (e, st1)" and "is_terminal_effect e"
    and "thread_id_from_params (aev_params ev) = Some t"
  shows "strip_suffix ''/delta'' (aev_method ev) = None \<and> \<not> contains_ask_thread t reg"
  using assms by (auto simp: observe_event_def Let_def is_terminal_effect_def split: if_splits)


text \<open>
  An update that does not end a turn is written only when the last write of the thread is two seconds
  old, and eviction writes nothing. So an update that comes within two seconds of the last write
  and is the last one of its thread is forgotten with its projection: the next event finds the
  projection as it was written before.
\<close>

theorem late_update_lost:
  assumes "thread_id_from_params (aev_params ev) = Some t" and "strip_suffix ''/delta'' (aev_method ev) = None"
    and "\<not> contains_ask_thread t reg" and "projector_ok (wt_projector st)" and "decodes_maps env"
    and "stored_projection env t st = Some p0" and "tpr_thread_id p0 = t"
    and "wt_persisted st t = Some written" and "saturating_sub (now 3) written < projection_persist_interval_ms"
    and "observe_event env reg now ev st = (e, st1)" and "\<not> is_terminal_effect e"
    and "bt_get (wt_projector st1) t = Some p1"
    and "evictable (saturating_sub now1 projection_terminal_retention_ms) p1"
  shows "bt_get (wt_projector (reload_projection env (Some t) (eviction_sweep now1 st1))) t = Some (truncate_items p0)"
proof -
  obtain st3 where st3: "wt_projector st3 = snd (projector_apply now ev (wt_projector (reload_projection env (Some t) st)))"
    "wt_records st3 = wt_records st" "wt_persisted st3 = wt_persisted st"
    "observe_event env reg now ev st =
      (fst (projector_apply now ev (wt_projector (reload_projection env (Some t) st))),
       persist_projection env (now 3) (fst (projector_apply now ev (wt_projector (reload_projection env (Some t) st)))) (Some t) st3)"
    by (rule observe_thread [OF assms(1-3)])
  have st1: "st1 = persist_projection env (now 3) e (Some t) st3" using st3(4) assms(10) by simp
  have "projector_ok (wt_projector st3)" unfolding st3(1) by (rule apply_ok [OF reload_ok [OF assms(5,4)]])
  then have ok: "projector_ok (wt_projector st1)" unfolding st1 by (rule persist_ok)
  have "\<not> persist_due (now 3) t st3" using assms(8,9) st3(3) by (simp add: persist_due_def)
  then have "wt_records st1 = wt_records st3"
    using assms(11) by (simp add: st1 persist_projection_def Let_def split: option.split)
  then have "stored_projection env t (eviction_sweep now1 st1) = Some p0"
    using assms(6) st3(2) by (simp add: stored_projection_def eviction_sweep_def)
  moreover have "bt_get (wt_projector (eviction_sweep now1 st1)) t = None"
    using ok assms(12,13) evict_get [of "wt_projector st1" _ t] by (simp add: eviction_sweep_def projector_ok_def filter_opt_def)
  ultimately show ?thesis using assms(7) thread_id_visible [OF assms(1)]
    by (simp add: reload_projection_def projector_restore_def)
qed

section \<open>A witness\<close>

definition demo_watch :: "unit watch" where
  "demo_watch = \<lparr>wt_projector = [], wt_records = record_empty, wt_spaces = space_empty, wt_persisted = Map.empty,
     wt_sessions_dirty = False, wt_agent = ()\<rparr>"

text \<open>The projection that the end of a turn leaves, and a codec that knows only that one.\<close>

definition demo_after :: projected_thread where
  "demo_after = touched_projection 3 (project_turn_ended (\<lambda>_. 3) (aev_method demo_ended) (aev_params demo_ended)
     (found_projection (\<lambda>_. 3) demo_ended ''t'' []))"

definition demo_watch_env :: "unit watch_env" where
  "demo_watch_env = \<lparr>we_codec = \<lparr>rc_intent = (\<lambda>_. Inl []), rc_read_intent = (\<lambda>_. Inl []), rc_question = (\<lambda>_. Inl []),
       rc_plan = (\<lambda>_. Inl []), rc_json = (\<lambda>_. Inr ''null''), rc_read_json = (\<lambda>_. Inr JNull)\<rparr>,
     we_encode = (\<lambda>_. Some JNull), we_decode = (\<lambda>_. Some demo_after), we_call = (\<lambda>_ _ _ w. (Inr JNull, w))\<rparr>"

lemma demo_after_stays: "projector_ok (snd (projector_apply (\<lambda>_. 3) demo_ended []))"
  by (rule apply_ok) (simp add: projector_ok_def)

lemma demo_observed:
  "\<exists>st1. observe_event demo_watch_env registry_empty (\<lambda>_. 3) demo_ended demo_watch = (EffTurnCompleted, st1)
    \<and> bt_get (wt_projector st1) ''t'' = Some demo_after"
proof -
  have method_name: "strip_suffix ''/delta'' (aev_method demo_ended) = None" by code_simp
  have "thread_projection (we_codec demo_watch_env) ''t'' record_empty = Inr None"
    by (simp add: thread_projection_def record_empty_def)
  then have reload: "reload_projection demo_watch_env (Some ''t'') demo_watch = demo_watch"
    by (simp add: reload_projection_def demo_watch_def stored_projection_def)
  have "fst (projector_apply (\<lambda>_. 3) demo_ended []) = EffTurnCompleted"
    by (simp add: apply_thread [OF demo_threads(1)] ended_event [OF demo_ends])
  moreover have "\<not> contains_ask_thread ''t'' registry_empty" by (simp add: contains_ask_thread_def registry_empty_def)
  moreover have "aev_method demo_ended \<noteq> ''thread/settings/updated''" by (simp add: demo_ended_def)
  ultimately show ?thesis
    using demo_ended_projected [of "\<lambda>_. 3"] method_name reload
    by (simp add: observe_event_def Let_def persist_projector demo_after_def) (simp add: demo_watch_def)
qed


end
