(* ===== verification/Runtime.thy ===== *)
theory Runtime
  imports Handlers RecordStore Sessions AppClient Projects
begin

text \<open>
  The state that the handlers of prompts, plans, questions and pairing in the daemon
  (\<open>rust/crates/cli/src/daemon.rs\<close>) share: the tables, the registry of sessions, the connection to Codex
  and what was sent to Telegram, with the helpers that write a record, send a message or ask Codex.
\<close>

section \<open>The state\<close>

text \<open>What the handlers ask of code outside the repository; the clock, the nonces and Telegram by index.\<close>

record 'w runtime_env =
  re_ser :: "json serializer"
  re_de :: "json deserializer"
  re_sha256_hex :: "string \<Rightarrow> string"
  re_records :: record_codec
  re_read_plan :: "json \<Rightarrow> plan_publication option"
  re_write_plan :: "plan_publication \<Rightarrow> string + json"
  re_now :: "nat \<Rightarrow> i64"
  re_nonce :: "nat \<Rightarrow> string"
  re_send :: "nat \<Rightarrow> string + i64"
  re_call :: "'w app_call"
  re_respond :: "json \<Rightarrow> json \<Rightarrow> 'w \<Rightarrow> (app_error + unit) \<times> 'w"
  re_respond_error :: "json \<Rightarrow> int \<Rightarrow> string \<Rightarrow> 'w \<Rightarrow> (app_error + unit) \<times> 'w"
  re_generation :: "'w \<Rightarrow> u64"
  re_bot :: string
  re_bots :: "string \<Rightarrow> bool"
  re_channel_chat_id :: i64
  re_discussion_chat_id :: i64
  re_fs :: fs
  re_workspace_root :: string
  re_ask_model :: string
  re_ask_effort :: string

datatype runtime_message =
    RmText surface_binding string "json option"
  | RmEdit string message_reference string "json option"
  | RmDelete string message_reference
  | RmAnswer string string
  | RmMenus string "(json \<times> json list) list"

record 'w runtime =
  rt_spaces :: space_db
  rt_records :: record_db
  rt_sessions :: session_registry
  rt_agent :: 'w
  rt_sent :: "runtime_message list"
  rt_clock :: nat
  rt_nonces :: nat

type_synonym ('w, 'a) task = "('w runtime, 'a) handler"

section \<open>Helpers\<close>

definition domain_error_display :: "domain_error \<Rightarrow> string" where
  "domain_error_display e = (case e of
     EmptyIdentifier name \<Rightarrow> name @ '' cannot be empty''
   | EmptyTitle \<Rightarrow> ''session title cannot be empty''
   | EmptyArtifactPath \<Rightarrow> ''artifact path cannot be empty''
   | InvalidSha256 \<Rightarrow> ''artifact digest must be a 64-character hexadecimal SHA-256''
   | EmptyPrompt \<Rightarrow> ''command prompt cannot be empty''
   | InvalidApprovalTransition \<Rightarrow> ''approval can only transition from pending to a terminal decision''
   | ApprovalAlreadyDecided \<Rightarrow> ''approval was already decided'')"

definition turn_id_new :: "string \<Rightarrow> domain_error + turn_id" where
  "turn_id_new s = map_sum id TurnId (identifier_new ''TurnId'' s)"

definition domain_result :: "domain_error + 'a \<Rightarrow> string + 'a" where
  "domain_result r = map_sum domain_error_display id r"

definition ok_option :: "'e + 'a \<Rightarrow> 'a option" where
  "ok_option r = (case r of Inl e \<Rightarrow> None | Inr x \<Rightarrow> Some x)"

definition reading_clock :: "'w runtime_env \<Rightarrow> ('w, i64) task" where
  "reading_clock env w = (Inr (re_now env (rt_clock w)), w\<lparr>rt_clock := Suc (rt_clock w)\<rparr>)"

definition drawing_nonce :: "'w runtime_env \<Rightarrow> ('w, string) task" where
  "drawing_nonce env w = (Inr (re_nonce env (rt_nonces w)), w\<lparr>rt_nonces := Suc (rt_nonces w)\<rparr>)"

definition generation_now :: "'w runtime_env \<Rightarrow> ('w, u64) task" where
  "generation_now env w = (Inr (re_generation env (rt_agent w)), w)"

definition with_spaces :: "(space_db \<Rightarrow> 'a port_result \<times> space_db) \<Rightarrow> ('w, 'a) task" where
  "with_spaces f w = (case f (rt_spaces w) of (r, db) \<Rightarrow> (port_str r, w\<lparr>rt_spaces := db\<rparr>))"

definition with_records :: "(record_db \<Rightarrow> 'a port_result \<times> record_db) \<Rightarrow> ('w, 'a) task" where
  "with_records f w = (case f (rt_records w) of (r, db) \<Rightarrow> (port_str r, w\<lparr>rt_records := db\<rparr>))"

definition in_spaces :: "(space_db \<Rightarrow> 'a) \<Rightarrow> ('w, 'a) task" where
  "in_spaces f w = (Inr (f (rt_spaces w)), w)"

definition in_sessions :: "(session_registry \<Rightarrow> 'a) \<Rightarrow> ('w, 'a) task" where
  "in_sessions f w = (Inr (f (rt_sessions w)), w)"

definition changing_sessions :: "(session_registry \<Rightarrow> session_registry) \<Rightarrow> ('w, unit) task" where
  "changing_sessions f w = (Inr (), w\<lparr>rt_sessions := f (rt_sessions w)\<rparr>)"

text \<open>A call of Codex; the outcome is a value, as at a \<open>match\<close> on the result.\<close>

definition asking :: "('w \<Rightarrow> 'r \<times> 'w) \<Rightarrow> ('w, 'r) task" where
  "asking f w = (case f (rt_agent w) of (r, a) \<Rightarrow> (Inr r, w\<lparr>rt_agent := a\<rparr>))"

definition sending_message :: "'w runtime_env \<Rightarrow> runtime_message \<Rightarrow> ('w, i64) task" where
  "sending_message env m w = (re_send env (length (rt_sent w)), w\<lparr>rt_sent := rt_sent w @ [m]\<rparr>)"

text \<open>Records of the workflow: read one, read a kind, write one at the present time.\<close>

definition record_of :: "'w runtime_env \<Rightarrow> string \<Rightarrow> string \<Rightarrow> ('w, json option) task" where
  "record_of env kind key = with_spaces (\<lambda>db. (workflow_record (re_de env) kind key db, db))"

definition records_of :: "'w runtime_env \<Rightarrow> string \<Rightarrow> ('w, (string \<times> json) list) task" where
  "records_of env kind = with_spaces (\<lambda>db. (workflow_records (re_de env) kind db, db))"

definition write_record :: "'w runtime_env \<Rightarrow> string \<Rightarrow> string \<Rightarrow> json \<Rightarrow> i64 \<Rightarrow> ('w, unit) task" where
  "write_record env kind key v now =
     with_spaces (upsert_workflow_record (re_ser env) (re_sha256_hex env) kind key v now)"

definition put_record :: "'w runtime_env \<Rightarrow> string \<Rightarrow> string \<Rightarrow> json \<Rightarrow> ('w, unit) task" where
  "put_record env kind key v = and_then (reading_clock env) (write_record env kind key v)"

definition store_intent :: "'w runtime_env \<Rightarrow> prompt_intent \<Rightarrow> ('w, unit) task" where
  "store_intent env i = with_records (upsert_prompt_intent (re_records env) i)"

definition intent_of :: "'w runtime_env \<Rightarrow> string \<Rightarrow> ('w, prompt_intent option) task" where
  "intent_of env cid = with_records (\<lambda>db. (prompt_intent_by_client_message_id (re_records env) cid db, db))"

text \<open>A replaced field of an object; the values here are objects.\<close>

definition set_field :: "string \<Rightarrow> json \<Rightarrow> json \<Rightarrow> json" where
  "set_field k v j = unwrap_or (jset k v j) j"

section \<open>Messages\<close>

definition surface_for :: "'w runtime_env \<Rightarrow> string \<Rightarrow> i64 \<Rightarrow> i64 option \<Rightarrow> surface_binding" where
  "surface_for env inst chat root = (let
     comment = Option.bind (filter_opt (\<lambda>_. chat = re_discussion_chat_id env) root) (\<lambda>r. ok_option
       (native_comment_binding_new \<lparr>cb_bot_instance_id = inst, cb_chat_id = show_int (re_channel_chat_id env)\<rparr>
         (show_int (re_discussion_chat_id env)) r)) in
     case comment of Some c \<Rightarrow> SurfNativeComment c
     | None \<Rightarrow> SurfChannel \<lparr>cb_bot_instance_id = inst, cb_chat_id = show_int chat\<rparr>)"

definition send_text_with_markup_message :: "'w runtime_env \<Rightarrow> surface_binding \<Rightarrow> string \<Rightarrow> json option \<Rightarrow> ('w, i64) task" where
  "send_text_with_markup_message env surface text markup = sending_message env (RmText surface (truncate_text text) markup)"

definition send_text_with_markup_task :: "'w runtime_env \<Rightarrow> surface_binding \<Rightarrow> string \<Rightarrow> json option \<Rightarrow> ('w, unit) task" where
  "send_text_with_markup_task env surface text markup =
     and_then (send_text_with_markup_message env surface text markup) (\<lambda>_. act_ok ())"

definition send_text_message :: "'w runtime_env \<Rightarrow> surface_binding \<Rightarrow> string \<Rightarrow> ('w, i64) task" where
  "send_text_message env surface text = sending_message env (RmText surface (truncate_text text) None)"

definition send_text_task :: "'w runtime_env \<Rightarrow> surface_binding \<Rightarrow> string \<Rightarrow> ('w, unit) task" where
  "send_text_task env surface text = and_then (send_text_message env surface text) (\<lambda>_. act_ok ())"

definition edit_text_with_markup_task :: "'w runtime_env \<Rightarrow> string \<Rightarrow> message_reference \<Rightarrow> string \<Rightarrow> json option \<Rightarrow> ('w, unit) task" where
  "edit_text_with_markup_task env inst m text markup =
     and_then (sending_message env (RmEdit inst m (truncate_text text) markup)) (\<lambda>_. act_ok ())"

text \<open>The markup goes only after the text was changed, and whether that works does not count.\<close>

definition edit_text_message :: "'w runtime_env \<Rightarrow> string \<Rightarrow> message_reference \<Rightarrow> string \<Rightarrow> ('w, unit) task" where
  "edit_text_message env inst m text = and_then (sending_message env (RmEdit inst m (truncate_text text) None))
     (\<lambda>_. ignoring (sending_message env (RmEdit inst m [] None)))"

definition acknowledge_callback_task :: "'w runtime_env \<Rightarrow> string \<Rightarrow> string \<Rightarrow> ('w, unit) task" where
  "acknowledge_callback_task env callback text = ignoring (sending_message env (RmAnswer callback text))"

text \<open>To the thread of a session, by the bot that handles the message.\<close>

definition tell_by :: "'w runtime_env \<Rightarrow> string \<Rightarrow> session_record \<Rightarrow> string \<Rightarrow> ('w, unit) task" where
  "tell_by env inst s text = send_text_task env (surface_for env inst (sr_chat_id s) (sr_root_message_id s)) text"

definition tell_chat :: "'w runtime_env \<Rightarrow> i64 \<Rightarrow> string \<Rightarrow> ('w, unit) task" where
  "tell_chat env chat text = send_text_task env (surface_for env (re_bot env) chat None) text"

definition tell :: "'w runtime_env \<Rightarrow> session_record \<Rightarrow> string \<Rightarrow> ('w, unit) task" where
  "tell env = tell_by env (re_bot env)"

section \<open>What the helpers leave as it is\<close>

text \<open>Each helper changes one part of the state; with a relation on that part it stays in the relation.\<close>

lemmas runtime_defs = reading_clock_def drawing_nonce_def generation_now_def with_spaces_def with_records_def in_spaces_def
  in_sessions_def changing_sessions_def asking_def sending_message_def

lemma with_spaces_run: "with_spaces f w = (port_str (fst (f (rt_spaces w))), w\<lparr>rt_spaces := snd (f (rt_spaces w))\<rparr>)"
  by (simp add: with_spaces_def case_prod_beta)

lemma with_records_run: "with_records f w = (port_str (fst (f (rt_records w))), w\<lparr>rt_records := snd (f (rt_records w))\<rparr>)"
  by (simp add: with_records_def case_prod_beta)

lemma asking_run: "asking f w = (Inr (fst (f (rt_agent w))), w\<lparr>rt_agent := snd (f (rt_agent w))\<rparr>)"
  by (simp add: asking_def case_prod_beta)

text \<open>Relations for which only a change of the spaces counts; nonces may be drawn meanwhile.\<close>

locale runtime_relation = handler_relation R for R :: "'w runtime \<Rightarrow> 'w runtime \<Rightarrow> bool" +
  assumes rel_other: "rt_spaces w1 = rt_spaces w \<Longrightarrow> rt_nonces w \<le> rt_nonces w1 \<Longrightarrow> R w w1"
begin

lemma stays_spaces: "(\<And>w. R w (w\<lparr>rt_spaces := snd (f (rt_spaces w))\<rparr>)) \<Longrightarrow> stays R (with_spaces f)"
  by (simp add: stays_def with_spaces_run)

lemma stays_other:
  "stays R (reading_clock env)" "stays R (drawing_nonce env)" "stays R (generation_now env)" "stays R (with_records g)"
  "stays R (in_spaces h)" "stays R (in_sessions i)" "stays R (changing_sessions j)" "stays R (asking k)"
  "stays R (sending_message env m)" "stays R (record_of env kind key)" "stays R (records_of env kind)"
  by (auto simp: stays_def runtime_defs with_spaces_run with_records_run record_of_def records_of_def case_prod_beta
      intro!: rel_other)

lemma stays_messages:
  "stays R (send_text_with_markup_message env surface text markup)" "stays R (send_text_with_markup_task env surface text markup)"
  "stays R (send_text_message env surface text)" "stays R (send_text_task env surface text)"
  "stays R (edit_text_with_markup_task env inst r text markup)" "stays R (edit_text_message env inst r text)"
  "stays R (acknowledge_callback_task env c text)" "stays R (tell_by env inst s text)" "stays R (tell env s text)"
  unfolding send_text_with_markup_message_def send_text_with_markup_task_def send_text_message_def send_text_task_def
    edit_text_with_markup_task_def edit_text_message_def acknowledge_callback_task_def tell_by_def tell_def
  by (intro stays_rules stays_other)+

lemma stays_intents: "stays R (store_intent env i)" "stays R (intent_of env cid)"
  unfolding store_intent_def intent_of_def by (intro stays_other)+

lemma stays_put_record:
  "(\<And>now w. R w (w\<lparr>rt_spaces := snd (upsert_workflow_record (re_ser env) (re_sha256_hex env) kind key v now (rt_spaces w))\<rparr>))
   \<Longrightarrow> stays R (put_record env kind key v)"
  unfolding put_record_def write_record_def by (intro stays_rules stays_other stays_spaces)

lemmas stays_helpers = stays_rules stays_other stays_messages stays_intents

end

text \<open>Nonces are drawn in order: the number of the next one only grows.\<close>

definition draws_on :: "'w runtime \<Rightarrow> 'w runtime \<Rightarrow> bool" where
  "draws_on w w1 \<longleftrightarrow> rt_nonces w \<le> rt_nonces w1"

interpretation drawing: runtime_relation draws_on
  by unfold_locales (simp_all add: draws_on_def)

end
