(* ===== verification/Turns.thy ===== *)
theory Turns
  imports Runtime
begin

text \<open>
  Prompts from their arrival to the end of their turn (\<open>rust/crates/cli/src/daemon.rs\<close>): the submission
  with its intent, the queue of a thread and the dispatch of its next entry, what the end of a turn
  does to prompts, queue entries and plans, and the answer that is read from a turn.
\<close>

section \<open>Submitting a prompt\<close>

definition with_intent_state :: "prompt_intent_state \<Rightarrow> i64 \<Rightarrow> prompt_intent \<Rightarrow> prompt_intent" where
  "with_intent_state s now i = i\<lparr>pin_state := s, pin_updated_at_ms := now\<rparr>"

text \<open>The turn of a running session is steered; otherwise a turn is started. The outcome is a value.\<close>

definition send_turn :: "'w runtime_env \<Rightarrow> session_record \<Rightarrow> prompt_input list \<Rightarrow> string \<Rightarrow> ('w, agent_turn port_result) task" where
  "send_turn env s inp cid = (case sr_turn_id s of
     Some turn \<Rightarrow> asking (\<lambda>a. case steer_turn (re_call env) (ThreadId (sr_thread_id s)) (TurnId turn) inp (Some cid) a of
       (r, a1) \<Rightarrow> (map_sum id (\<lambda>t. \<lparr>agu_id = t, agu_thread_id = ThreadId (sr_thread_id s),
           agu_status = ''inProgress''\<rparr>) r, a1))
   | None \<Rightarrow> asking (start_turn (re_call env) (ThreadId (sr_thread_id s)) inp (Some cid)))"

definition new_intent :: "string \<Rightarrow> string \<Rightarrow> string \<Rightarrow> string \<Rightarrow> string \<Rightarrow> string \<Rightarrow> u64 \<Rightarrow> i64 \<Rightarrow> prompt_intent" where
  "new_intent nonce cid prompt mode thread space generation now = \<lparr>pin_intent_id = ''intent-'' @ nonce,
     pin_client_message_id = cid, pin_source = ''telegram'', pin_prompt = prompt, pin_mode = mode,
     pin_thread_id = Some (ThreadId thread), pin_space_id = Some space, pin_generation = generation,
     pin_state = PiReceived, pin_turn_id = None, pin_queue_id = None, pin_error = None,
     pin_created_at_ms = now, pin_updated_at_ms = now\<rparr>"

text \<open>What is left of a submission that Codex has accepted, or whose fate is not known.\<close>

definition prompt_started :: "'w runtime_env \<Rightarrow> session_record \<Rightarrow> prompt_intent \<Rightarrow> string \<Rightarrow> bool \<Rightarrow> agent_turn \<Rightarrow> ('w, unit) task" where
  "prompt_started env s i cid receipt turn = (let steered = (sr_turn_id s \<noteq> None); t = turn_id_str (agu_id turn);
       thread = thread_id_str (agu_thread_id turn) in
     and_then (changing_sessions (set_turn thread (Some t))) (\<lambda>_.
     and_then (reading_clock env) (\<lambda>now.
     and_then (store_intent env (with_intent_state (if steered then PiSteered else PiStarted) now (i\<lparr>pin_turn_id := Some (agu_id turn)\<rparr>))) (\<lambda>_.
     and_then (put_record env ''prompt'' cid (jobj [(''intent_id'', JStr (pin_intent_id i)), (''client_message_id'',
         JStr cid),
       (''thread_id'', JStr thread), (''turn_id'', JStr t), (''chat_id'', JInt (sr_chat_id s)), (''receipt_sent'',
           JBool receipt),
       (''state'', JStr (if steered then ''steered'' else ''started''))])) (\<lambda>_.
     tell env s (if steered then ([CHR 0xE2, CHR 0x86, CHR 0xAA, CHR 0xEF, CHR 0xB8, CHR 0x8F] @ '' '' @ [CHR 0xE5,
         CHR 0xB7, CHR 0xB2, CHR 0xE6, CHR 0xB3, CHR 0xA8, CHR 0xE5, CHR 0x85, CHR 0xA5, CHR 0xE5, CHR 0xBD, CHR 0x93,
         CHR 0xE5, CHR 0x89, CHR 0x8D] @ '' Codex turn'' @ [CHR 0xE3, CHR 0x80, CHR 0x82]) else ([CHR 0xE2, CHR 0x96,
         CHR 0xB6, CHR 0xEF, CHR 0xB8, CHR 0x8F] @ '' '' @ [CHR 0xE5, CHR 0xB7, CHR 0xB2, CHR 0xE5, CHR 0xBC,
         CHR 0x80, CHR 0xE5, CHR 0xA7, CHR 0x8B, CHR 0xE6, CHR 0x89, CHR 0xA7, CHR 0xE8, CHR 0xA1, CHR 0x8C, CHR 0xE3,
         CHR 0x80, CHR 0x82])))))))"

definition prompt_uncertain :: "'w runtime_env \<Rightarrow> session_record \<Rightarrow> prompt_intent \<Rightarrow> string \<Rightarrow> string \<Rightarrow> ('w, unit) task" where
  "prompt_uncertain env s i e text =
     and_then (reading_clock env) (\<lambda>now.
     and_then (store_intent env (with_intent_state PiUncertain now (i\<lparr>pin_error := Some e\<rparr>))) (\<lambda>_.
     tell env s text))"

section \<open>Side questions\<close>

definition side_question_instructions :: string where
  "side_question_instructions = ''Answer this one-off side question using the inherited session context. Do not modify files, change the session goal, plan, tasks, or queue, contact the parent thread, use the network, or request interactive input or approval. Return only the answer to the side question.''"

definition ask_thread_timeout_ms :: i64 where "ask_thread_timeout_ms = 300000"

text \<open>The payload of a pending space; fields that an imported row lacks come from its state.\<close>

definition pending_keys :: "string list" where
  "pending_keys = [''pending_cwd'', ''pending_prompt'', ''normal_model'', ''normal_effort'', ''plan_model'',
     ''plan_effort'', ''current_mode'']"

definition inherit_key :: "json \<Rightarrow> string \<Rightarrow> json \<Rightarrow> json" where
  "inherit_key source k target = (case (jget k target, jget k source) of
     (None, Some v) \<Rightarrow> set_field k v target | _ \<Rightarrow> target)"

definition pending_space_payload :: "'w runtime_env \<Rightarrow> string \<Rightarrow> ('w, json) task" where
  "pending_space_payload env space = and_then (record_of env ''pending_space'' space) (\<lambda>pending. case pending of
     Some payload \<Rightarrow> act_ok payload
   | None \<Rightarrow> and_then (record_of env ''space'' space) (\<lambda>found. case found of
       None \<Rightarrow> act_err ([CHR 0xE5, CHR 0xBE, CHR 0x85, CHR 0xE8, CHR 0xAE, CHR 0xA4, CHR 0xE8, CHR 0xAF,
           CHR 0x81] @ '' Session '' @ [CHR 0xE7, CHR 0x9A, CHR 0x84, CHR 0xE6, CHR 0x8C, CHR 0x81, CHR 0xE4,
           CHR 0xB9, CHR 0x85, CHR 0xE5, CHR 0x8C, CHR 0x96, CHR 0xE8, CHR 0x8D, CHR 0x89, CHR 0xE7, CHR 0xA8,
           CHR 0xBF, CHR 0xE4, CHR 0xB8, CHR 0x8D, CHR 0xE5, CHR 0xAD, CHR 0x98, CHR 0xE5, CHR 0x9C, CHR 0xA8])
     | Some payload \<Rightarrow> act_ok (case Option.bind (jstr ''state_json'' payload) (\<lambda>text. ok_option (re_de env text)) of
         Some state \<Rightarrow> if is_object payload \<and> is_object state then fold (inherit_key state) pending_keys payload else payload
       | None \<Rightarrow> payload)))"

definition no_project :: string where
  "no_project = (''Session '' @ [CHR 0xE7, CHR 0xBC, CHR 0xBA, CHR 0xE5, CHR 0xB0, CHR 0x91, CHR 0xE9, CHR 0xA1,
      CHR 0xB9, CHR 0xE7, CHR 0x9B, CHR 0xAE, CHR 0xE7, CHR 0x9B, CHR 0xAE, CHR 0xE5, CHR 0xBD, CHR 0x95, CHR 0xEF,
      CHR 0xBC, CHR 0x8C, CHR 0xE6, CHR 0x97, CHR 0xA0, CHR 0xE6, CHR 0xB3, CHR 0x95, CHR 0xE5, CHR 0x8F, CHR 0x91,
      CHR 0xE8, CHR 0xB5, CHR 0xB7] @ '' /ask'' @ [CHR 0xE3, CHR 0x80, CHR 0x82])"

definition ask_session_cwd :: "'w runtime_env \<Rightarrow> session_record \<Rightarrow> ('w, string) task" where
  "ask_session_cwd env s = and_then (in_spaces (session_space_for_thread (sr_thread_id s))) (\<lambda>found. case found of
     None \<Rightarrow> act_err (''Session '' @ [CHR 0xE7, CHR 0xBC, CHR 0xBA, CHR 0xE5, CHR 0xB0, CHR 0x91, CHR 0xE7,
         CHR 0xA9, CHR 0xBA, CHR 0xE9, CHR 0x97, CHR 0xB4, CHR 0xE8, CHR 0xAE, CHR 0xB0, CHR 0xE5, CHR 0xBD, CHR 0x95,
         CHR 0xEF, CHR 0xBC, CHR 0x8C, CHR 0xE6, CHR 0x97, CHR 0xA0, CHR 0xE6, CHR 0xB3, CHR 0x95, CHR 0xE5, CHR 0x8F,
         CHR 0x91, CHR 0xE8, CHR 0xB5, CHR 0xB7] @ '' /ask'' @ [CHR 0xE3, CHR 0x80, CHR 0x82])
   | Some space \<Rightarrow> and_then (attempt (pending_space_payload env (sps_space_id space))) (\<lambda>r. case r of
       Inl e \<Rightarrow> act_err no_project
     | Inr payload \<Rightarrow> (case Option.bind (or_else (jget ''pending_cwd'' payload) (jget ''cwd'' payload)) as_str of
         None \<Rightarrow> act_err no_project
       | Some cwd \<Rightarrow> (case fs_canonicalize (re_fs env) (re_workspace_root env) of
           Inl e \<Rightarrow> act_err ((''workspace '' @ [CHR 0xE6, CHR 0xA0, CHR 0xB9, CHR 0xE7, CHR 0x9B, CHR 0xAE,
               CHR 0xE5, CHR 0xBD, CHR 0x95, CHR 0xE4, CHR 0xB8, CHR 0x8D, CHR 0xE5, CHR 0x8F, CHR 0xAF, CHR 0xE7,
               CHR 0x94, CHR 0xA8] @ '': '') @ e)
         | Inr base \<Rightarrow> (case fs_canonicalize (re_fs env) cwd of
             Inl e \<Rightarrow> act_err (([CHR 0xE9, CHR 0xA1, CHR 0xB9, CHR 0xE7, CHR 0x9B, CHR 0xAE, CHR 0xE7,
                 CHR 0x9B, CHR 0xAE, CHR 0xE5, CHR 0xBD, CHR 0x95, CHR 0xE4, CHR 0xB8, CHR 0x8D, CHR 0xE5, CHR 0x8F,
                 CHR 0xAF, CHR 0xE7, CHR 0x94, CHR 0xA8] @ '': '') @ e)
           | Inr path \<Rightarrow> if fs_is_dir (re_fs env) path \<and> path_starts_with base path then act_ok path
               else act_err ([CHR 0xE9, CHR 0xA1, CHR 0xB9, CHR 0xE7, CHR 0x9B, CHR 0xAE, CHR 0xE7, CHR 0x9B,
                   CHR 0xAE, CHR 0xE5, CHR 0xBD, CHR 0x95, CHR 0xE5, CHR 0xBF, CHR 0x85, CHR 0xE9, CHR 0xA1, CHR 0xBB,
                   CHR 0xE6, CHR 0x98, CHR 0xAF] @ '' workspace '' @ [CHR 0xE6, CHR 0xA0, CHR 0xB9, CHR 0xE7,
                   CHR 0x9B, CHR 0xAE, CHR 0xE5, CHR 0xBD, CHR 0x95, CHR 0xE5, CHR 0x86, CHR 0x85, CHR 0xE7, CHR 0x9A,
                   CHR 0x84, CHR 0xE7, CHR 0x8E, CHR 0xB0, CHR 0xE6, CHR 0x9C, CHR 0x89, CHR 0xE7, CHR 0x9B, CHR 0xAE,
                   CHR 0xE5, CHR 0xBD, CHR 0x95, CHR 0xE3, CHR 0x80, CHR 0x82]))))))"

definition cleanup_ask_thread :: "'w runtime_env \<Rightarrow> string \<Rightarrow> string option \<Rightarrow> ('w, unit) task" where
  "cleanup_ask_thread env thread turn = and_then (case turn of None \<Rightarrow> act_ok ()
     | Some t \<Rightarrow> and_then (asking (re_call env ''turn/interrupt'' (jobj [(''threadId'', JStr thread),
         (''turnId'', JStr t)]) 5000)) (\<lambda>_. act_ok ()))
     (\<lambda>_. and_then (asking (re_call env ''thread/delete'' (jobj [(''threadId'', JStr thread)]) 5000)) (\<lambda>_. act_ok ()))"

definition fork_params :: "session_record \<Rightarrow> string \<Rightarrow> json" where
  "fork_params s cwd = jobj [(''threadId'', JStr (sr_thread_id s)), (''cwd'', JStr cwd), (''ephemeral'', JBool True),
     (''excludeTurns'', JBool True), (''sandbox'', JStr ''read-only''), (''approvalPolicy'', JStr ''never''),
     (''developerInstructions'', JStr side_question_instructions)]"

definition ask_params :: "'w runtime_env \<Rightarrow> string \<Rightarrow> string \<Rightarrow> string \<Rightarrow> json" where
  "ask_params env fork prompt cid = jobj [(''threadId'', JStr fork),
     (''input'', JArr [jobj [(''type'', JStr ''text''), (''text'', JStr prompt)]]), (''clientUserMessageId'', JStr cid),
     (''model'', JStr (re_ask_model env)), (''effort'', JStr (re_ask_effort env)),
     (''sandboxPolicy'', jobj [(''type'', JStr ''readOnly''), (''networkAccess'', JBool False)]), (''approvalPolicy'',
         JStr ''never'')]"

text \<open>An id at a path or at the top, trimmed and not empty.\<close>

definition returned_id :: "string \<Rightarrow> json \<Rightarrow> string option" where
  "returned_id k v = filter_opt (\<lambda>s. s \<noteq> []) (map_option trim (Option.bind (or_else (jpointer [k,
      ''id''] v) (jget ''id'' v)) as_str))"

definition ask_fork_turn :: "'w runtime_env \<Rightarrow> session_record \<Rightarrow> string \<Rightarrow> string \<Rightarrow> ('w, string \<times> string) task" where
  "ask_fork_turn env s prompt cid = and_then (ask_session_cwd env s) (\<lambda>cwd.
     and_then (asking (re_call env ''thread/fork'' (fork_params s cwd) 60000)) (\<lambda>r. case r of
       Inl e \<Rightarrow> act_err (app_error_display e)
     | Inr reply \<Rightarrow> (case returned_id ''thread'' reply of
         None \<Rightarrow> act_err (''Codex '' @ [CHR 0xE6, CHR 0x9C, CHR 0xAA, CHR 0xE8, CHR 0xBF, CHR 0x94,
             CHR 0xE5, CHR 0x9B, CHR 0x9E] @ '' ephemeral fork '' @ [CHR 0xE7, CHR 0x9A, CHR 0x84] @ '' thread id''
             @ [CHR 0xE3, CHR 0x80, CHR 0x82])
       | Some fork \<Rightarrow> and_then (reading_clock env) (\<lambda>now.
         and_then (changing_sessions (register_ask_thread fork \<lparr>ask_chat_id = sr_chat_id s,
             ask_root_message_id = sr_root_message_id s,
           ask_sender_instance_id = sr_sender_instance_id s, ask_turn_id = None, ask_created_at_ms = now\<rparr>)) (\<lambda>_.
         and_then (asking (re_call env ''turn/start'' (ask_params env fork prompt cid) 60000)) (\<lambda>started. case started of
           Inl e \<Rightarrow> and_then (changing_sessions (\<lambda>reg. snd (remove_ask_thread fork reg))) (\<lambda>_.
             and_then (cleanup_ask_thread env fork None) (\<lambda>_. act_err (app_error_display e)))
         | Inr turn \<Rightarrow> (case returned_id ''turn'' turn of
             None \<Rightarrow> act_err (''Codex '' @ [CHR 0xE6, CHR 0x9C, CHR 0xAA, CHR 0xE8, CHR 0xBF, CHR 0x94,
                 CHR 0xE5, CHR 0x9B, CHR 0x9E] @ '' ephemeral turn '' @ [CHR 0xE7, CHR 0x9A, CHR 0x84] @ '' id''
                 @ [CHR 0xE3, CHR 0x80, CHR 0x82])
           | Some t \<Rightarrow> act_ok (fork, t))))))))"

definition submit_ask_fork :: "'w runtime_env \<Rightarrow> session_record \<Rightarrow> string \<Rightarrow> prompt_intent \<Rightarrow> string \<Rightarrow> bool \<Rightarrow> ('w, unit) task" where
  "submit_ask_fork env s prompt i cid receipt = and_then (attempt (ask_fork_turn env s prompt cid)) (\<lambda>r. case r of
     Inl e \<Rightarrow> prompt_uncertain env s i e (([CHR 0xE2, CHR 0x9A, CHR 0xA0, CHR 0xEF, CHR 0xB8, CHR 0x8F]
         @ '' /ask '' @ [CHR 0xE6, CHR 0x8F, CHR 0x90, CHR 0xE4, CHR 0xBA, CHR 0xA4, CHR 0xE5, CHR 0xA4, CHR 0xB1,
         CHR 0xE8, CHR 0xB4, CHR 0xA5, CHR 0xEF, CHR 0xBC, CHR 0x9A]) @ e)
   | Inr (fork, t) \<Rightarrow>
     and_then (changing_sessions (set_ask_turn fork t)) (\<lambda>_.
     and_then (from_result (domain_result (turn_id_new t))) (\<lambda>turn.
     and_then (reading_clock env) (\<lambda>now.
     and_then (store_intent env (with_intent_state PiStarted now (i\<lparr>pin_turn_id := Some turn\<rparr>))) (\<lambda>_.
     and_then (put_record env ''prompt'' cid (jobj [(''intent_id'', JStr (pin_intent_id i)), (''client_message_id'',
         JStr cid),
       (''thread_id'', JStr fork), (''turn_id'', JStr t), (''chat_id'', JInt (sr_chat_id s)), (''receipt_sent'',
           JBool receipt),
       (''state'', JStr ''started''), (''mode'', JStr ''ask'')])) (\<lambda>_.
     tell env s ([CHR 0xE2, CHR 0x96, CHR 0xB6, CHR 0xEF, CHR 0xB8, CHR 0x8F] @ '' '' @ [CHR 0xE5, CHR 0xB7, CHR 0xB2,
         CHR 0xE5, CHR 0xBC, CHR 0x80, CHR 0xE5, CHR 0xA7, CHR 0x8B, CHR 0xE6, CHR 0x89, CHR 0xA7, CHR 0xE8, CHR 0xA1,
         CHR 0x8C, CHR 0xE3, CHR 0x80, CHR 0x82])))))))"

section \<open>The submission\<close>

definition prompt_client_id :: "session_record \<Rightarrow> i64 \<Rightarrow> string \<Rightarrow> string" where
  "prompt_client_id s message nonce = ''telegram-'' @ show_int (sr_chat_id s) @ ''-'' @ show_int message @ ''-'' @ nonce"

text \<open>The submission after its intent was written as being submitted.\<close>

definition submitting ::
  "'w runtime_env \<Rightarrow> session_record \<Rightarrow> string \<Rightarrow> string \<Rightarrow> prompt_input list option \<Rightarrow> string \<Rightarrow> prompt_intent \<Rightarrow> bool \<Rightarrow> ('w, unit) task" where
  "submitting env s prompt mode inputs cid i receipt =
     (if mode = ''ask'' then submit_ask_fork env s prompt i cid receipt else
      and_then (case inputs of Some xs \<Rightarrow> act_ok xs
        | None \<Rightarrow> from_result (domain_result (map_sum id (\<lambda>x. [x]) (prompt_input_text prompt)))) (\<lambda>inp.
      and_then (send_turn env s inp cid) (\<lambda>r. case r of
        Inr turn \<Rightarrow> prompt_started env s i cid receipt turn
      | Inl e \<Rightarrow> prompt_uncertain env s i (port_error_display e) ([CHR 0xE2, CHR 0x9A, CHR 0xA0, CHR 0xEF,
          CHR 0xB8, CHR 0x8F] @ '' '' @ [CHR 0xE8, CHR 0xAF, CHR 0xB7, CHR 0xE6, CHR 0xB1, CHR 0x82, CHR 0xE9,
          CHR 0x80, CHR 0x81, CHR 0xE8, CHR 0xBE, CHR 0xBE, CHR 0xE7, CHR 0x8A, CHR 0xB6, CHR 0xE6, CHR 0x80,
          CHR 0x81, CHR 0xE5, CHR 0xBE, CHR 0x85, CHR 0xE7, CHR 0xA1, CHR 0xAE, CHR 0xE8, CHR 0xAE, CHR 0xA4,
          CHR 0xEF, CHR 0xBC, CHR 0x9B, CHR 0xE8, CHR 0xAF, CHR 0xB7, CHR 0xE7, CHR 0xAD, CHR 0x89, CHR 0xE5,
          CHR 0xBE, CHR 0x85] @ '' Codex '' @ [CHR 0xE7, CHR 0x8A, CHR 0xB6, CHR 0xE6, CHR 0x80, CHR 0x81, CHR 0xE6,
          CHR 0x9B, CHR 0xB4, CHR 0xE6, CHR 0x96, CHR 0xB0, CHR 0xE5, CHR 0x90, CHR 0x8E, CHR 0xE5, CHR 0x86,
          CHR 0x8D, CHR 0xE9, CHR 0x87, CHR 0x8D, CHR 0xE8, CHR 0xAF, CHR 0x95, CHR 0xE3, CHR 0x80, CHR 0x82]))))"

definition submit_prompt_intent_with_inputs ::
  "'w runtime_env \<Rightarrow> session_record \<Rightarrow> string \<Rightarrow> string \<Rightarrow> i64 \<Rightarrow> prompt_input list option \<Rightarrow> ('w, unit) task" where
  "submit_prompt_intent_with_inputs env s prompt mode message inputs =
     and_then (drawing_nonce env) (\<lambda>n. let cid = prompt_client_id s message n in
     and_then (intent_of env cid) (\<lambda>known. if known \<noteq> None then tell env s [CHR 0xE8, CHR 0xAF,
         CHR 0xA5, CHR 0xE8, CHR 0xAF, CHR 0xB7, CHR 0xE6, CHR 0xB1, CHR 0x82, CHR 0xE5, CHR 0xB7, CHR 0xB2, CHR 0xE7,
         CHR 0xBB, CHR 0x8F, CHR 0xE6, CHR 0x8F, CHR 0x90, CHR 0xE4, CHR 0xBA, CHR 0xA4, CHR 0xEF, CHR 0xBC, CHR 0x8C,
         CHR 0xE6, CHR 0x9C, CHR 0xAA, CHR 0xE9, CHR 0x87, CHR 0x8D, CHR 0xE5, CHR 0xA4, CHR 0x8D, CHR 0xE5, CHR 0x8F,
         CHR 0x91, CHR 0xE9, CHR 0x80, CHR 0x81, CHR 0xE3, CHR 0x80, CHR 0x82] else
     and_then (reading_clock env) (\<lambda>now.
     and_then (drawing_nonce env) (\<lambda>n1.
     and_then (generation_now env) (\<lambda>g. let i = new_intent n1 cid prompt mode (sr_thread_id s) (''telegram-''
         @ show_int (sr_chat_id s)) g now in
     and_then (store_intent env i) (\<lambda>_.
     and_then (attempt (tell env s ([CHR 0xF0, CHR 0x9F, CHR 0x93, CHR 0xA8] @ '' '' @ [CHR 0xE5, CHR 0xB7, CHR 0xB2,
         CHR 0xE6, CHR 0x94, CHR 0xB6, CHR 0xE5, CHR 0x88, CHR 0xB0, CHR 0xE8, CHR 0xAF, CHR 0xB7, CHR 0xE6, CHR 0xB1,
         CHR 0x82, CHR 0xEF, CHR 0xBC, CHR 0x8C, CHR 0xE6, CHR 0xAD, CHR 0xA3, CHR 0xE5, CHR 0x9C, CHR 0xA8, CHR 0xE6,
         CHR 0x8F, CHR 0x90, CHR 0xE4, CHR 0xBA, CHR 0xA4, CHR 0xE7, CHR 0xBB, CHR 0x99] @ '' Codex'' @ [CHR 0xE3,
         CHR 0x80, CHR 0x82]))) (\<lambda>receipt.
     and_then (reading_clock env) (\<lambda>now1. let i1 = with_intent_state PiSubmitting now1 i in
     and_then (store_intent env i1) (\<lambda>_.
     submitting env s prompt mode inputs cid i1 (is_ok receipt))))))))))"

definition submit_prompt_intent :: "'w runtime_env \<Rightarrow> session_record \<Rightarrow> string \<Rightarrow> string \<Rightarrow> i64 \<Rightarrow> ('w, unit) task" where
  "submit_prompt_intent env s prompt mode message = submit_prompt_intent_with_inputs env s prompt mode message None"

section \<open>The queue\<close>

definition queue_entry :: "string \<Rightarrow> session_record \<Rightarrow> session_space option \<Rightarrow> string \<Rightarrow> i64 \<Rightarrow> i64 \<Rightarrow> json" where
  "queue_entry key s space prompt message now = jobj [(''queue_id'', JStr key), (''thread_id'', JStr (sr_thread_id s)),
     (''space_id'', case space of None \<Rightarrow> JNull | Some x \<Rightarrow> JStr (sps_space_id x)),
     (''generation'', JInt (case space of None \<Rightarrow> 0 | Some x \<Rightarrow> sps_generation x)), (''chat_id'', JInt (sr_chat_id s)),
     (''message_id'', JInt message), (''prompt'', JStr prompt), (''status'', JStr ''queued''), (''created_at_ms'',
         JInt now)]"

definition enqueue_prompt :: "'w runtime_env \<Rightarrow> session_record \<Rightarrow> string \<Rightarrow> i64 \<Rightarrow> ('w, string) task" where
  "enqueue_prompt env s prompt message = and_then (drawing_nonce env) (\<lambda>key.
     and_then (in_spaces (session_space_for_thread (sr_thread_id s))) (\<lambda>space.
     and_then (reading_clock env) (\<lambda>now.
     and_then (put_record env ''queue'' key (queue_entry key s space prompt message now)) (\<lambda>_.
     act_ok key))))"

definition queue_callback_scope :: "json \<Rightarrow> session_space option \<Rightarrow> (string \<times> i64) option" where
  "queue_callback_scope v space = (case (filter_opt (\<lambda>s. trim s \<noteq> []) (jstr ''space_id'' v), space) of
     (Some i, x) \<Rightarrow> Some (i, unwrap_or (or_else (ji64 ''generation'' v) (map_option sps_generation x)) 0)
   | (None, Some x) \<Rightarrow> Some (sps_space_id x, sps_generation x)
   | (None, None) \<Rightarrow> None)"

definition in_thread :: "string \<Rightarrow> json \<Rightarrow> bool" where
  "in_thread thread v \<longleftrightarrow> jstr ''thread_id'' v = Some thread"

definition is_queued :: "string \<Rightarrow> json \<Rightarrow> bool" where
  "is_queued thread v \<longleftrightarrow> in_thread thread v \<and> jstr ''status'' v = Some ''queued''"

text \<open>The list shows at most 20 entries, each with a button of its own that cancels it.\<close>

fun queue_rows :: "'w runtime_env \<Rightarrow> session_space option \<Rightarrow> nat \<Rightarrow> (string \<times> json) list \<Rightarrow> ('w, string list \<times> json list) task" where
  "queue_rows env space k [] = act_ok ([], [])"
| "queue_rows env space k ((key, v) # entries) = and_then (drawing_nonce env) (\<lambda>n. let nonce = ''qc:'' @ n in
     and_then (case queue_callback_scope v space of
         None \<Rightarrow> act_ok []
       | Some (i, g) \<Rightarrow> and_then (reading_clock env) (\<lambda>now.
           and_then (with_spaces (create_callback \<lparr>cb_nonce = nonce, cb_space_id = i, cb_generation = g, cb_action = key,
             cb_expires_at_ms = now + approval_callback_ttl_ms\<rparr>)) (\<lambda>_.
           act_ok [JArr [jobj [(''text'', JStr (([CHR 0xE5, CHR 0x8F, CHR 0x96, CHR 0xE6, CHR 0xB6, CHR 0x88]
               @ '' '') @ show_nat k)), (''callback_data'', JStr (''qcancel:'' @ nonce))]]]))) (\<lambda>row.
     and_then (queue_rows env space (Suc k) entries) (\<lambda>(lines, rows).
     act_ok ((show_nat k @ ''. '' @ truncate_text (unwrap_or (jstr ''prompt'' v) ''-'')) # lines, row @ rows))))"

definition render_queue :: "'w runtime_env \<Rightarrow> session_record \<Rightarrow> ('w, unit) task" where
  "render_queue env s = and_then (records_of env ''queue'') (\<lambda>records.
     and_then (in_spaces (session_space_for_thread (sr_thread_id s))) (\<lambda>space.
     and_then (queue_rows env space 1 (take 20 (filter (\<lambda>(key, v). is_queued (sr_thread_id s) v) records))) (\<lambda>(lines, rows).
     send_text_with_markup_task env (surface_for env (re_bot env) (sr_chat_id s) (sr_root_message_id s))
       (join [newline] (([CHR 0xF0, CHR 0x9F, CHR 0x93, CHR 0xA5] @ '' Queue'') # (if lines = [] then [[CHR 0xE9,
           CHR 0x98, CHR 0x9F, CHR 0xE5, CHR 0x88, CHR 0x97, CHR 0xE4, CHR 0xB8, CHR 0xBA, CHR 0xE7, CHR 0xA9,
           CHR 0xBA, CHR 0xE3, CHR 0x80, CHR 0x82]] else lines)))
       (if rows = [] then None else Some (jobj [(''inline_keyboard'', JArr rows)])))))"

text \<open>The first entry of the thread that waits, in the order of the table, is marked before Codex is asked.\<close>

definition dispatch_outcome :: "'w runtime_env \<Rightarrow> session_record \<Rightarrow> string \<Rightarrow> json \<Rightarrow> agent_turn port_result \<Rightarrow> ('w, unit) task" where
  "dispatch_outcome env s key entry r = (let inst = sr_sender_instance_id s in
     if \<not> re_bots env inst then act_ok () else case r of
       Inr turn \<Rightarrow>
         and_then (changing_sessions (set_turn (sr_thread_id s) (Some (turn_id_str (agu_id turn))))) (\<lambda>_.
         and_then (put_record env ''queue'' key (set_field ''turn_id'' (JStr (turn_id_str (agu_id turn)))
           (set_field ''status'' (JStr ''started'') entry))) (\<lambda>_.
         tell_by env inst s ([CHR 0xE2, CHR 0x96, CHR 0xB6, CHR 0xEF, CHR 0xB8, CHR 0x8F] @ '' '' @ [CHR 0xE5,
             CHR 0xB7, CHR 0xB2, CHR 0xE4, CHR 0xBB, CHR 0x8E, CHR 0xE9, CHR 0x98, CHR 0x9F, CHR 0xE5, CHR 0x88,
             CHR 0x97, CHR 0xE6, CHR 0x8F, CHR 0x90, CHR 0xE4, CHR 0xBA, CHR 0xA4, CHR 0xE4, CHR 0xB8, CHR 0x8B,
             CHR 0xE4, CHR 0xB8, CHR 0x80, CHR 0xE6, CHR 0x9D, CHR 0xA1, CHR 0xE8, CHR 0xAF, CHR 0xB7, CHR 0xE6,
             CHR 0xB1, CHR 0x82, CHR 0xE3, CHR 0x80, CHR 0x82])))
     | Inl e \<Rightarrow>
         and_then (put_record env ''queue'' key (set_field ''error'' (JStr (port_error_display e))
           (set_field ''status'' (JStr ''uncertain'') entry))) (\<lambda>_.
         tell_by env inst s ([CHR 0xE2, CHR 0x9A, CHR 0xA0, CHR 0xEF, CHR 0xB8, CHR 0x8F] @ '' '' @ [CHR 0xE9,
             CHR 0x98, CHR 0x9F, CHR 0xE5, CHR 0x88, CHR 0x97, CHR 0xE8, CHR 0xAF, CHR 0xB7, CHR 0xE6, CHR 0xB1,
             CHR 0x82, CHR 0xE9, CHR 0x80, CHR 0x81, CHR 0xE8, CHR 0xBE, CHR 0xBE, CHR 0xE7, CHR 0x8A, CHR 0xB6,
             CHR 0xE6, CHR 0x80, CHR 0x81, CHR 0xE5, CHR 0xBE, CHR 0x85, CHR 0xE7, CHR 0xA1, CHR 0xAE, CHR 0xE8,
             CHR 0xAE, CHR 0xA4, CHR 0xEF, CHR 0xBC, CHR 0x9B, CHR 0xE8, CHR 0xAF, CHR 0xB7, CHR 0xE4, CHR 0xBD,
             CHR 0xBF, CHR 0xE7, CHR 0x94, CHR 0xA8] @ '' /queue '' @ [CHR 0xE6, CHR 0xA3, CHR 0x80, CHR 0xE6,
             CHR 0x9F, CHR 0xA5, CHR 0xE3, CHR 0x80, CHR 0x82])))"

definition dispatch_entry :: "'w runtime_env \<Rightarrow> session_record \<Rightarrow> string \<Rightarrow> json \<Rightarrow> ('w, unit) task" where
  "dispatch_entry env s key entry = (let marked = set_field ''status'' (JStr ''submitting'') entry in
     and_then (put_record env ''queue'' key marked) (\<lambda>_.
     and_then (from_result (domain_result (prompt_input_text (unwrap_or (jstr ''prompt'' entry) [])))) (\<lambda>inp.
     and_then (asking (start_turn (re_call env) (ThreadId (sr_thread_id s)) [inp] (Some (''queue-'' @ key))))
       (dispatch_outcome env s key marked))))"

definition dispatch_next_queued :: "'w runtime_env \<Rightarrow> session_record \<Rightarrow> ('w, unit) task" where
  "dispatch_next_queued env s = (if sr_turn_id s \<noteq> None then act_ok () else
     and_then (records_of env ''queue'') (\<lambda>records.
       case find (\<lambda>(key, v). is_queued (sr_thread_id s) v) records of
         None \<Rightarrow> act_ok ()
       | Some (key, entry) \<Rightarrow> dispatch_entry env s key entry))"

section \<open>The end of a turn\<close>

definition finish_intent :: "'w runtime_env \<Rightarrow> json \<Rightarrow> (prompt_intent \<Rightarrow> prompt_intent) \<Rightarrow> ('w, unit) task" where
  "finish_intent env v f = (case jstr ''client_message_id'' v of
     None \<Rightarrow> act_ok ()
   | Some cid \<Rightarrow> and_then (attempt (intent_of env cid)) (\<lambda>r. case r of
       Inr (Some i) \<Rightarrow> and_then (reading_clock env) (\<lambda>now. ignoring (store_intent env ((f i)\<lparr>pin_updated_at_ms := now\<rparr>)))
     | _ \<Rightarrow> act_ok ()))"

definition with_error :: "string option \<Rightarrow> json \<Rightarrow> json" where
  "with_error e v = (case e of None \<Rightarrow> v | Some text \<Rightarrow> set_field ''error'' (JStr (truncate_text text)) v)"

definition prompt_of_turn :: "string \<Rightarrow> string \<Rightarrow> json \<Rightarrow> bool" where
  "prompt_of_turn thread turn v \<longleftrightarrow> in_thread thread v \<and> (turn = [] \<or> jstr ''turn_id'' v = Some turn)"

definition ended_prompt_state :: "string \<Rightarrow> prompt_intent_state \<Rightarrow> prompt_intent_state" where
  "ended_prompt_state state old = (if state = ''completed'' then PiCompleted else if state = ''failed'' then PiFailed
     else if state = ''interrupted'' then PiCancelled else old)"

definition mark_prompt :: "'w runtime_env \<Rightarrow> string \<Rightarrow> string \<Rightarrow> string \<Rightarrow> string option \<Rightarrow> string \<times> json \<Rightarrow> ('w, unit) task" where
  "mark_prompt env thread turn state e = (\<lambda>(key, v). if \<not> prompt_of_turn thread turn v then act_ok ()
     else let v1 = with_error e (set_field ''state'' (JStr state) v) in
       and_then (ignoring (put_record env ''prompt'' key v1)) (\<lambda>_.
       finish_intent env v1 (\<lambda>i. i\<lparr>pin_state := ended_prompt_state state (pin_state i), pin_error := e\<rparr>)))"

definition entry_of_turn :: "string \<Rightarrow> string \<Rightarrow> json \<Rightarrow> bool" where
  "entry_of_turn thread turn v \<longleftrightarrow> in_thread thread v \<and> jstr ''status'' v \<in> {Some ''submitting'', Some ''started''}
     \<and> (jstr ''turn_id'' v = Some turn \<or> turn = [] \<or> jstr ''turn_id'' v \<noteq> None)"

definition ended_queue_status :: "string \<Rightarrow> string" where
  "ended_queue_status state = (if state = ''completed'' then ''completed''
     else if state = ''interrupted'' then ''cancelled'' else ''failed'')"

definition ended_queue_state :: "string \<Rightarrow> prompt_intent_state" where
  "ended_queue_state state = (if state = ''completed'' then PiCompleted
     else if state = ''interrupted'' then PiCancelled else PiFailed)"

definition mark_entry :: "'w runtime_env \<Rightarrow> string \<Rightarrow> string \<Rightarrow> string \<Rightarrow> string option \<Rightarrow> string \<times> json \<Rightarrow> ('w, unit) task" where
  "mark_entry env thread turn state e = (\<lambda>(key, v). if \<not> entry_of_turn thread turn v then act_ok ()
     else and_then (reading_clock env) (\<lambda>now.
       let v1 = with_error e (set_field ''finished_at_ms'' (JInt now) (set_field ''status'' (JStr (ended_queue_status state)) v)) in
       and_then (ignoring (put_record env ''queue'' key v1)) (\<lambda>_.
       finish_intent env v1 (\<lambda>i. i\<lparr>pin_state := ended_queue_state state,
           pin_turn_id := ok_option (turn_id_new turn), pin_error := e\<rparr>))))"

definition ended_plan_status :: "string \<Rightarrow> string \<Rightarrow> plan_publication_state option" where
  "ended_plan_status state current =
     (if state = ''completed'' \<and> current = ''executing'' then Some PpExecuted
      else if state \<in> {''failed'', ''interrupted''} \<and> current \<in> {''executing'', ''revising''} then Some PpFailed else None)"

definition plan_payload :: "'w runtime_env \<Rightarrow> plan_publication \<Rightarrow> json" where
  "plan_payload env p = unwrap_or (ok_option (re_write_plan env p)) JNull"

text \<open>A plan counts as finished when both of its rows are written.\<close>

definition mark_plan :: "'w runtime_env \<Rightarrow> string \<Rightarrow> string \<Rightarrow> string \<Rightarrow> string \<times> json \<Rightarrow> ('w, plan_publication option) task" where
  "mark_plan env thread turn state = (\<lambda>(key, v). if \<not> in_thread thread v then act_ok None
     else case Option.bind (ended_plan_status state (unwrap_or (jstr ''status'' v) []))
         (\<lambda>status. map_option (\<lambda>p. (status, p)) (re_read_plan env v)) of
       None \<Rightarrow> act_ok None
     | Some (status, p) \<Rightarrow> and_then (reading_clock env) (\<lambda>now.
         let p1 = p\<lparr>ppu_status := status,
             ppu_decision_turn_id := or_else (ppu_decision_turn_id p) (ok_option (turn_id_new turn)),
           ppu_updated_at_ms := now\<rparr> in
         and_then (attempt (with_records (upsert_plan_publication (re_records env) p1))) (\<lambda>r. case r of
           Inl e \<Rightarrow> act_ok None
         | Inr _ \<Rightarrow> and_then (attempt (put_record env ''plan'' key (plan_payload env p1))) (\<lambda>r1.
             act_ok (if is_ok r1 then Some p1 else None)))))"

fun mark_plans :: "'w runtime_env \<Rightarrow> string \<Rightarrow> string \<Rightarrow> string \<Rightarrow> (string \<times> json) list \<Rightarrow> ('w, plan_publication list) task" where
  "mark_plans env thread turn state [] = act_ok []"
| "mark_plans env thread turn state (x # xs) = and_then (mark_plan env thread turn state x) (\<lambda>p.
     and_then (mark_plans env thread turn state xs) (\<lambda>ps. act_ok (case p of None \<Rightarrow> ps | Some y \<Rightarrow> y # ps)))"

text \<open>A kind of records that cannot be read is passed over.\<close>

definition records_or_none :: "'w runtime_env \<Rightarrow> string \<Rightarrow> ('w, (string \<times> json) list) task" where
  "records_or_none env kind = and_then (attempt (records_of env kind)) (\<lambda>r. act_ok (unwrap_or (ok_option r) []))"

definition mark_turn_workflows :: "'w runtime_env \<Rightarrow> string \<Rightarrow> string \<Rightarrow> string \<Rightarrow> string option \<Rightarrow> ('w, plan_publication list) task" where
  "mark_turn_workflows env thread turn state e =
     and_then (records_or_none env ''prompt'') (\<lambda>prompts.
     and_then (each_one (mark_prompt env thread turn state e) prompts) (\<lambda>_.
     and_then (records_or_none env ''queue'') (\<lambda>entries.
     and_then (each_one (mark_entry env thread turn state e) entries) (\<lambda>_.
     and_then (records_or_none env ''plan'') (\<lambda>plans.
     mark_plans env thread turn state plans)))))"

section \<open>What a turn answers\<close>

text \<open>The last text that is not empty,
    unless one is marked as the final answer. A message without a text ends the search with nothing.\<close>

fun final_answer_in :: "json list \<Rightarrow> string option \<Rightarrow> string option" where
  "final_answer_in [] legacy = legacy"
| "final_answer_in (item # items) legacy =
     (if jstr ''type'' item \<noteq> Some ''agentMessage'' then final_answer_in items legacy
      else case jstr ''text'' item of
        None \<Rightarrow> None
      | Some raw \<Rightarrow> if trim raw = [] then final_answer_in items legacy
          else if jstr ''phase'' item = Some ''final_answer'' then Some (trim raw)
          else final_answer_in items (Some (trim raw)))"

definition turn_items :: "json \<Rightarrow> json list option" where
  "turn_items turn = Option.bind (jget ''items'' turn) as_array"

definition extract_final_answer :: "json \<Rightarrow> string option" where
  "extract_final_answer turn = Option.bind (turn_items turn) (\<lambda>items. final_answer_in items None)"

definition review_of_item :: "json \<Rightarrow> string option" where
  "review_of_item item = (if jstr ''type'' item \<noteq> Some ''exitedReviewMode'' then None
     else filter_opt (\<lambda>s. s \<noteq> []) (map_option trim (jstr ''review'' item)))"

fun first_review :: "json list \<Rightarrow> string option" where
  "first_review [] = None"
| "first_review (item # items) = or_else (review_of_item item) (first_review items)"

definition extract_review_answer :: "json \<Rightarrow> string option" where
  "extract_review_answer turn = Option.bind (turn_items turn) (\<lambda>items. first_review (rev items))"

definition extract_turn_error :: "json \<Rightarrow> string option" where
  "extract_turn_error turn = filter_opt (\<lambda>s. s \<noteq> []) (map_option trim
     (Option.bind (Option.bind (jget ''error'' turn) (\<lambda>e. or_else (jget ''message'' e) (Some e))) as_str))"

end
