(* ===== verification/RecordLaws.thy ===== *)
theory RecordLaws
  imports Runtime
begin

text \<open>
  What the records of the workflow hold after a write or a deletion, in the terms the handlers use, and
  serializers that read back what they wrote.
\<close>

section \<open>Records after a write\<close>

text \<open>What is written reads back; a serializer may refuse a value.\<close>

definition reads_back_json :: "json serializer \<Rightarrow> json deserializer \<Rightarrow> bool" where
  "reads_back_json ser de \<longleftrightarrow> (\<forall>v s. ser v = Inr s \<longrightarrow> de s = Inr v)"

lemma workflow_table_eq [simp]: "workflow_table k = workflow_table k' \<longleftrightarrow> k = k'"
  by (simp add: workflow_table_def)

lemma upsert_record_cases:
  obtains (failed) e where "upsert_workflow_record ser sha kind key v now db = (Inl e, db)"
  | (written) s new where "upsert_workflow_record ser sha kind key v now db = (Inr (), db\<lparr>sp_records :=
        upsert (\<lambda>r. record_key r = (workflow_table kind, key)) new (\<lambda>r. r\<lparr>lr_row_json := s, lr_row_sha256 := sha s,
          lr_imported_at_ms := now\<rparr>) (sp_records db)\<rparr>)"
      "ser v = Inr s" "record_key new = (workflow_table kind, key)" "lr_row_json new = s" "lr_imported_at_ms new = now"
proof (cases "is_blank kind \<or> is_blank key")
  case False
  then show ?thesis
    using failed written by (cases "ser v") (simp_all add: upsert_workflow_record_def Let_def record_key_def)
qed (use failed in \<open>simp add: upsert_workflow_record_def\<close>)

lemma upserted_row:
  assumes "r \<in> set (upsert (\<lambda>r. record_key r = k) new (\<lambda>r. r\<lparr>lr_row_json := s,
      lr_row_sha256 := h, lr_imported_at_ms := now\<rparr>) rows)"
    and "record_key new = k" "lr_row_json new = s"
  shows "if record_key r = k then lr_row_json r = s else r \<in> set rows"
  using assms by (auto simp: upsert_def update_where_def exists_where_def list_ex_iff record_key_def split: if_splits)

lemma record_after_write:
  assumes "upsert_workflow_record ser sha kind key v now db = (Inr (), db1)" and "reads_back_json ser de"
  shows "workflow_record de kind' key' db1 = (if (kind', key') = (kind,
      key) then Inr (Some v) else workflow_record de kind' key' db)"
proof (cases rule: upsert_record_cases [of ser sha kind key v now db])
  case (written s new)
  let ?merge = "\<lambda>r. r\<lparr>lr_row_json := s, lr_row_sha256 := sha s, lr_imported_at_ms := now\<rparr>"
  have "de s = Inr v" using assms(2) written(2) by (simp add: reads_back_json_def)
  moreover have "first_where (\<lambda>r. record_key r = x) (upsert (\<lambda>r. record_key r = record_key new) new ?merge (sp_records db)) =
    (if x = record_key new then Some (case first_where (\<lambda>r. record_key r = x) (sp_records db) of None \<Rightarrow> new | Some r \<Rightarrow> ?merge r)
     else first_where (\<lambda>r. record_key r = x) (sp_records db))" for x
    by (rule first_where_upsert) (simp add: record_key_def)
  ultimately show ?thesis
    using assms(1) written by (auto simp: workflow_record_def split: option.split)
qed (use assms(1) in simp)

lemma record_after_failed_write: "upsert_workflow_record ser sha kind key v now db = (Inl e, db1) \<Longrightarrow> db1 = db"
  by (cases rule: upsert_record_cases [of ser sha kind key v now db]) auto

lemma record_after_delete:
  "workflow_record de kind' key' (snd (delete_workflow_record kind key db)) =
     (if (kind', key') = (kind, key) then Inr None else workflow_record de kind' key' db)"
proof (cases "(kind', key') = (kind, key)")
  case True
  have "first_where (\<lambda>r. record_key r = (workflow_table kind,
      key)) (delete_where (\<lambda>r. record_key r = (workflow_table kind, key)) (sp_records db)) = None"
    by (rule first_where_deleted)
  with True show ?thesis by (simp add: workflow_record_def delete_workflow_record_def Let_def)
next
  case False
  then have "first_where (\<lambda>r. record_key r = (workflow_table kind',
      key')) (delete_where (\<lambda>r. record_key r = (workflow_table kind, key)) (sp_records db))
    = first_where (\<lambda>r. record_key r = (workflow_table kind', key')) (sp_records db)"
    by (intro first_where_delete) auto
  with False show ?thesis by (auto simp: workflow_record_def delete_workflow_record_def Let_def)
qed

section \<open>The rows of a key\<close>

lemma decoded_record:
  assumes "decode_records de rows = Inr vs" and "(key, v) \<in> set vs"
  shows "\<exists>r \<in> set rows. lr_row_key r = key \<and> de (lr_row_json r) = Inr v"
  using assms
proof (induction rows arbitrary: vs)
  case (Cons r rows)
  then show ?case
    by (cases "de (lr_row_json r)"; cases "decode_records de rows") auto
qed simp

text \<open>What is read at a key satisfies a condition; a key has a row.\<close>

definition rows_read :: "json deserializer \<Rightarrow> string \<Rightarrow> string \<Rightarrow> (json \<Rightarrow> bool) \<Rightarrow> space_db \<Rightarrow> bool" where
  "rows_read de kind key Q db \<longleftrightarrow> (\<forall>r \<in> set (sp_records db). record_key r = (workflow_table kind, key)
     \<longrightarrow> (\<forall>v. de (lr_row_json r) = Inr v \<longrightarrow> Q v))"

definition has_row :: "string \<Rightarrow> string \<Rightarrow> space_db \<Rightarrow> bool" where
  "has_row kind key db \<longleftrightarrow> (\<exists>r \<in> set (sp_records db). record_key r = (workflow_table kind, key))"

lemma rows_read_write:
  assumes "rows_read de kind' key' Q db" and "reads_back_json ser de" and "(kind', key') = (kind, key) \<Longrightarrow> Q v"
  shows "rows_read de kind' key' Q (snd (upsert_workflow_record ser sha kind key v now db))"
proof (cases rule: upsert_record_cases [of ser sha kind key v now db])
  case (written s new)
  have "de s = Inr v" using assms(2) written(2) by (simp add: reads_back_json_def)
  with upserted_row [OF _ written(3,4)] assms(1,3) show ?thesis
    unfolding rows_read_def written(1) by (fastforce split: if_splits)
qed (use assms(1) in simp)

lemma has_row_keys: "has_row kind key db \<longleftrightarrow> (workflow_table kind, key) \<in> record_key ` set (sp_records db)"
  by (force simp: has_row_def)

lemma has_row_write:
  "has_row kind' key' db \<Longrightarrow> has_row kind' key' (snd (upsert_workflow_record ser sha kind key v now db))"
proof (cases rule: upsert_record_cases [of ser sha kind key v now db])
  case (written s new)
  let ?f = "\<lambda>r. r\<lparr>lr_row_json := s, lr_row_sha256 := sha s, lr_imported_at_ms := now\<rparr>"
  have "record_key ` set (update_where P ?f rows) = record_key ` set rows" for P rows
    unfolding update_where_def set_map image_image by (intro image_cong refl) (simp add: record_key_def)
  moreover assume "has_row kind' key' db"
  ultimately show ?thesis by (auto simp: has_row_keys written(1) upsert_def)
qed simp

lemma workflow_record_None: "workflow_record de kind key db = Inr None \<longleftrightarrow> \<not> has_row kind key db"
  by (auto simp: workflow_record_def has_row_def first_where_None split: option.splits sum.splits dest: first_where_SomeD)

lemma workflow_record_read: "workflow_record de kind key db = Inr (Some v) \<Longrightarrow> rows_read de kind key Q db \<Longrightarrow> Q v"
  by (auto simp: workflow_record_def rows_read_def split: option.splits sum.splits dest!: first_where_SomeD)

section \<open>Fields of a record\<close>

lemma set_field_other: "k \<noteq> k' \<Longrightarrow> jstr k (set_field k' x v) = jstr k v"
  by (cases "jset k' x v") (simp_all add: set_field_def jstr_def jset_get)

lemma set_field_same: "jstr k (set_field k (JStr s) v) = Some s \<or> jstr k (set_field k (JStr s) v) = None"
proof (cases "jset k (JStr s) v")
  case None
  then have "jget k v = None" by (auto simp: jset_def jget_def split: json.splits)
  with None show ?thesis by (simp add: set_field_def jstr_def)
qed (simp add: set_field_def jstr_def jset_get)

section \<open>The records by their keys\<close>

definition record_view :: "'w runtime_env \<Rightarrow> 'w runtime \<Rightarrow> string \<times> string \<Rightarrow> json option port_result" where
  "record_view env w = (\<lambda>(kind, key). workflow_record (re_de env) kind key (rt_spaces w))"

definition keeps_view :: "'w runtime_env \<Rightarrow> 'w runtime \<Rightarrow> 'w runtime \<Rightarrow> bool" where
  "keeps_view env w w1 \<longleftrightarrow> record_view env w1 = record_view env w"

interpretation viewing: handler_relation "keeps_view env" for env
  by unfold_locales (simp_all add: keeps_view_def)

lemma view_basic:
  "stays (keeps_view env) (reading_clock env')" "stays (keeps_view env) (sending_message env' m)" "stays (keeps_view env) (record_of env kind key)"
  by (simp_all add: stays_def keeps_view_def runtime_defs record_of_def record_view_def case_prod_beta)

lemma viewD: "stays (keeps_view env) m \<Longrightarrow> m w = (r, w1) \<Longrightarrow> record_view env w1 = record_view env w"
  by (drule staysD [of _ _ w]) (simp add: keeps_view_def)

lemma record_of_run: "record_of env kind key w = (port_str (record_view env w (kind, key)), w)"
  by (simp add: record_of_def with_spaces_run record_view_def)

lemma write_view:
  assumes "write_record env kind key v now w = (r, w1)" and "reads_back_json (re_ser env) (re_de env)"
  shows "(\<exists>e. r = Inl e) \<and> record_view env w1 = record_view env w \<or> r = Inr () \<and> record_view env w1 = (record_view env w)((kind, key) := Inr (Some v))"
proof -
  obtain r' db1 where run: "upsert_workflow_record (re_ser env) (re_sha256_hex env) kind key v now (rt_spaces w) = (r', db1)" by force
  show ?thesis
  proof (cases r')
    case (Inl e)
    with run have "db1 = rt_spaces w" using record_after_failed_write by blast
    with run Inl assms(1) show ?thesis by (auto simp: write_record_def with_spaces_run port_str_def record_view_def)
  next
    case (Inr u)
    then have "workflow_record (re_de env) kind' key' db1 = (if (kind', key') = (kind,
        key) then Inr (Some v) else workflow_record (re_de env) kind' key' (rt_spaces w))" for kind' key'
      using record_after_write [OF _ assms(2)] run by simp
    with run Inr assms(1) show ?thesis by (auto simp: write_record_def with_spaces_run port_str_def record_view_def fun_eq_iff)
  qed
qed

lemma put_record_view:
  assumes "put_record env kind key v w = (r, w1)" and "reads_back_json (re_ser env) (re_de env)"
  shows "(\<exists>e. r = Inl e) \<and> record_view env w1 = record_view env w \<or> r = Inr () \<and> record_view env w1 = (record_view env w)((kind, key) := Inr (Some v))"
  using write_view [of env kind key v "re_now env (rt_clock w)" "w\<lparr>rt_clock := Suc (rt_clock w)\<rparr>" r w1] assms
  by (auto simp: put_record_def and_then_run reading_clock_def record_view_def)

lemma delete_view: "record_view env (snd (with_spaces (delete_workflow_record kind key) w)) = (record_view env w)((kind, key) := Inr None)"
  by (auto simp: with_spaces_run record_view_def fun_eq_iff record_after_delete)

section \<open>What asks Codex nothing\<close>

definition keeps_agent :: "'w runtime \<Rightarrow> 'w runtime \<Rightarrow> bool" where
  "keeps_agent w w1 \<longleftrightarrow> rt_agent w1 = rt_agent w"

interpretation unasked: handler_relation keeps_agent
  by unfold_locales (simp_all add: keeps_agent_def)

lemma unasked_basic:
  "stays keeps_agent (reading_clock env)" "stays keeps_agent (with_records g)" "stays keeps_agent (with_spaces h)" "stays keeps_agent (sending_message env m)"
  "stays keeps_agent (drawing_nonce env)" "stays keeps_agent (in_spaces i)"
  by (simp_all add: stays_def keeps_agent_def runtime_defs case_prod_beta)

lemma unasked_put: "stays keeps_agent (put_record env kind key v)"
  unfolding put_record_def write_record_def by (intro unasked.stays_and_then unasked_basic)

lemma agentD: "stays keeps_agent m \<Longrightarrow> m w = (r, w1) \<Longrightarrow> rt_agent w1 = rt_agent w"
  by (drule staysD [of _ _ w]) (simp add: keeps_agent_def)

section \<open>Serializers of a list\<close>

text \<open>Values of a list, written as their position in it.\<close>

definition listed_ser :: "'a list \<Rightarrow> 'a serializer" where
  "listed_ser xs v = (case find (\<lambda>i. xs ! i = v) [0..<length xs] of None \<Rightarrow> Inl ''unknown'' | Some i \<Rightarrow> Inr (replicate i CHR ''i''))"

definition listed_de :: "'a list \<Rightarrow> 'a deserializer" where
  "listed_de xs s = (if length s < length xs then Inr (xs ! length s) else Inl ''unknown'')"

lemma listed_back: "listed_ser xs v = Inr s \<Longrightarrow> listed_de xs s = Inr v"
  by (auto simp: listed_ser_def listed_de_def find_Some_iff split: option.splits)

section \<open>A world to run in\<close>

definition demo_turn_env :: "app_error + json \<Rightarrow> json list \<Rightarrow> prompt_intent list \<Rightarrow> nat runtime_env" where
  "demo_turn_env reply values intents = \<lparr>re_ser = listed_ser values, re_de = listed_de values, re_sha256_hex = (\<lambda>s. s),
     re_records = \<lparr>rc_intent = listed_ser intents, rc_read_intent = listed_de intents, rc_question = (\<lambda>_. Inl ''no''),
       rc_plan = (\<lambda>_. Inl ''no''), rc_json = listed_ser values, rc_read_json = listed_de values\<rparr>,
     re_read_plan = (\<lambda>_. None), re_write_plan = (\<lambda>_. Inl ''no''), re_now = (\<lambda>n. int n),
         re_nonce = (\<lambda>n. CHR ''n'' # replicate n CHR ''i''),
     re_send = (\<lambda>n. Inr (int n)), re_call = (\<lambda>_ _ _ w. (reply, Suc w)),
     re_respond = (\<lambda>_ _ w. (Inr (), w)), re_respond_error = (\<lambda>_ _ _ w. (Inr (), w)), re_generation = (\<lambda>_. 1),
     re_bot = ''b'', re_bots = (\<lambda>_. True), re_channel_chat_id = 1, re_discussion_chat_id = 2,
     re_fs = \<lparr>fs_canonicalize = (\<lambda>p. Inr p), fs_exists = (\<lambda>_. True), fs_is_dir = (\<lambda>_. True), fs_entries = (\<lambda>_. Inr [])\<rparr>,
     re_workspace_root = ''/w'', re_ask_model = ''m'', re_ask_effort = ''low''\<rparr>"

definition demo_turn_session :: session_record where
  "demo_turn_session = \<lparr>sr_thread_id = ''T'', sr_turn_id = None, sr_chat_id = 5, sr_root_message_id = None,
      sr_sender_instance_id = ''b''\<rparr>"

definition demo_tables :: "legacy_record list \<Rightarrow> nat runtime" where
  "demo_tables rows = \<lparr>rt_spaces = space_empty\<lparr>sp_records := rows\<rparr>,
     rt_records = \<lparr>rd_intents = [], rd_questions = [], rd_plans = [], rd_projections = [], rd_fingerprints = []\<rparr>,
     rt_sessions = registry_empty, rt_agent = 0, rt_sent = [], rt_clock = 0, rt_nonces = 0\<rparr>"

text \<open>A record that holds the value of the list at a position.\<close>

definition demo_row_of :: "string \<Rightarrow> string \<Rightarrow> nat \<Rightarrow> legacy_record" where
  "demo_row_of kind key n = \<lparr>lr_table_name = workflow_table kind, lr_row_key = key, lr_source_schema_version = -1,
     lr_row_json = replicate n CHR ''i'', lr_row_sha256 = [], lr_imported_at_ms = 0\<rparr>"

lemma demo_reads_back: "reads_back_json (re_ser (demo_turn_env reply values intents)) (re_de (demo_turn_env reply values intents))"
  by (simp add: reads_back_json_def demo_turn_env_def listed_back)

end
