(* ===== verification/TurnProps.thy ===== *)
theory TurnProps
  imports Turns RecordLaws SpaceProps
begin

text \<open>
  What the model of prompts and queues shows: an entry of the queue is given to Codex at most once and
  the oldest goes first; a submission leaves its intent in a state that says what became of it; and
  what the end of a turn does to entries of other turns.
\<close>

section \<open>An entry that no longer waits\<close>

definition waits :: "json deserializer \<Rightarrow> string \<Rightarrow> bool" where
  "waits de j \<longleftrightarrow> (case de j of Inl e \<Rightarrow> False | Inr v \<Rightarrow> jstr ''status'' v = Some ''queued'')"

definition settled :: "json deserializer \<Rightarrow> string \<Rightarrow> space_db \<Rightarrow> bool" where
  "settled de key db \<longleftrightarrow> (\<forall>r \<in> set (sp_records db). record_key r = (workflow_table ''queue'', key) \<longrightarrow> \<not> waits de (lr_row_json r))"

lemma settled_write:
  assumes "settled de key db" and "reads_back_json ser de"
    and "(kind, k) = (''queue'', key) \<longrightarrow> jstr ''status'' v \<noteq> Some ''queued''"
  shows "settled de key (snd (upsert_workflow_record ser sha kind k v now db))"
proof (cases rule: upsert_record_cases [of ser sha kind k v now db])
  case (written s new)
  have "de s = Inr v" using assms(2) written(2) by (simp add: reads_back_json_def)
  have "\<not> waits de (lr_row_json r)" if "r \<in> set (sp_records (snd (upsert_workflow_record ser sha kind k v now db)))"
    "record_key r = (workflow_table ''queue'', key)" for r
  proof -
    from that(1) have "if record_key r = (workflow_table kind, k) then lr_row_json r = s else r \<in> set (sp_records db)"
      unfolding written(1) by (intro upserted_row [OF _ written(3,4)]) simp
    with that(2) assms(1,3) \<open>de s = Inr v\<close> show ?thesis by (auto simp: settled_def waits_def split: if_splits)
  qed
  then show ?thesis by (simp add: settled_def)
qed (use assms(1) in simp)

lemma written_settles:
  assumes "reads_back_json ser de" and "jstr ''status'' v \<noteq> Some ''queued''"
    and "fst (upsert_workflow_record ser sha ''queue'' key v now db) = Inr ()"
  shows "settled de key (snd (upsert_workflow_record ser sha ''queue'' key v now db))"
proof (cases rule: upsert_record_cases [of ser sha "''queue''" key v now db])
  case (written s new)
  have "de s = Inr v" using assms(1) written(2) by (simp add: reads_back_json_def)
  with upserted_row [OF _ written(3,4)] assms(2) show ?thesis
    unfolding settled_def written(1) by (fastforce simp: waits_def split: if_splits)
qed (use assms(3) in simp)

lemma set_status: "s \<noteq> ''queued'' \<Longrightarrow> jstr ''status'' (set_field ''status'' (JStr s) v) \<noteq> Some ''queued''"
  using set_field_same [of "''status''" s v] by auto

lemma with_error_status: "jstr ''status'' (with_error e v) = jstr ''status'' v"
  by (simp add: with_error_def set_field_other split: option.split)

lemmas status_simps = set_field_other set_status with_error_status

section \<open>Runs of the handlers\<close>

datatype turn_op =
    TSubmit session_record string string i64 "prompt_input list option"
  | TQueue session_record string i64
  | TShow session_record
  | TDispatch session_record
  | TEnd string string string "string option"
  | TClose string i64 i64

definition turn_step :: "'w runtime_env \<Rightarrow> turn_op \<Rightarrow> 'w runtime \<Rightarrow> 'w runtime" where
  "turn_step env op w = (case op of
     TSubmit s prompt mode message inputs \<Rightarrow> snd (submit_prompt_intent_with_inputs env s prompt mode message inputs w)
   | TQueue s prompt message \<Rightarrow> snd (enqueue_prompt env s prompt message w)
   | TShow s \<Rightarrow> snd (render_queue env s w)
   | TDispatch s \<Rightarrow> snd (dispatch_next_queued env s w)
   | TEnd thread turn state e \<Rightarrow> snd (mark_turn_workflows env thread turn state e w)
   | TClose space g t \<Rightarrow> snd (with_spaces (close_session_space (re_ser env) (re_de env) (re_sha256_hex env) space g t) w))"

text \<open>The entry that a dispatch for a session takes.\<close>

definition next_queued :: "'w runtime_env \<Rightarrow> session_record \<Rightarrow> 'w runtime \<Rightarrow> (string \<times> json) option" where
  "next_queued env s w = (case workflow_records (re_de env) ''queue'' (rt_spaces w) of
     Inl e \<Rightarrow> None | Inr records \<Rightarrow> find (\<lambda>(key, v). is_queued (sr_thread_id s) v) records)"

definition unissued :: "'w runtime_env \<Rightarrow> string \<Rightarrow> 'w runtime \<Rightarrow> bool" where
  "unissued env key w \<longleftrightarrow> (\<forall>n \<ge> rt_nonces w. re_nonce env n \<noteq> key)"

definition keeps_settled :: "'w runtime_env \<Rightarrow> string \<Rightarrow> 'w runtime \<Rightarrow> 'w runtime \<Rightarrow> bool" where
  "keeps_settled env key w w1 \<longleftrightarrow> draws_on w w1
     \<and> (unissued env key w \<and> settled (re_de env) key (rt_spaces w) \<longrightarrow> settled (re_de env) key (rt_spaces w1))"

interpretation settling: runtime_relation "keeps_settled env key" for env key
  by unfold_locales (auto simp: keeps_settled_def draws_on_def unissued_def)

section \<open>What each handler keeps\<close>

lemma settled_put:
  assumes "reads_back_json (re_ser env) (re_de env)"
    and "kind = ''queue'' \<and> k = key \<longrightarrow> jstr ''status'' v \<noteq> Some ''queued''"
  shows "stays (keeps_settled env key) (put_record env kind k v)"
  using assms by (intro settling.stays_put_record) (simp add: keeps_settled_def draws_on_def settled_write)

lemma settled_callback: "stays (keeps_settled env key) (with_spaces (create_callback c))"
  by (intro settling.stays_spaces)
    (simp add: keeps_settled_def draws_on_def settled_def create_callback_def insert_callback_def Let_def split: if_splits)

lemma queue_rows_settled: "stays (keeps_settled env key) (queue_rows env space k entries)"
  by (induction env space k entries rule: queue_rows.induct)
    (auto intro!: settling.stays_helpers settled_callback simp del: split_paired_All)

lemma finish_intent_settled: "stays (keeps_settled env key) (finish_intent env v f)"
  unfolding finish_intent_def by (intro settling.stays_helpers)

lemmas settled_intros = settling.stays_helpers settled_put settled_callback finish_intent_settled queue_rows_settled

lemma mark_prompt_settled:
  assumes "reads_back_json (re_ser env) (re_de env)"
  shows "stays (keeps_settled env key) (mark_prompt env thread turn state e x)"
  unfolding mark_prompt_def by (intro settled_intros assms) simp_all

lemma mark_entry_settled:
  assumes "reads_back_json (re_ser env) (re_de env)"
  shows "stays (keeps_settled env key) (mark_entry env thread turn state e x)"
  unfolding mark_entry_def by (intro settled_intros assms) (simp_all add: status_simps ended_queue_status_def)

lemma mark_plans_settled:
  assumes "reads_back_json (re_ser env) (re_de env)"
  shows "stays (keeps_settled env key) (mark_plans env thread turn state xs)"
proof (induction xs)
  case (Cons x xs)
  have "stays (keeps_settled env key) (mark_plan env thread turn state x)"
    unfolding mark_plan_def by (intro settled_intros assms) simp_all
  with Cons.IH show ?case by (simp, intro settled_intros)
qed (simp add: settling.stays_rules)

lemma turn_end_settled:
  assumes "reads_back_json (re_ser env) (re_de env)"
  shows "stays (keeps_settled env key) (mark_turn_workflows env thread turn state e)"
  unfolding mark_turn_workflows_def records_or_none_def
  by (intro settled_intros mark_prompt_settled mark_entry_settled mark_plans_settled assms)

lemma dispatch_settled:
  assumes "reads_back_json (re_ser env) (re_de env)"
  shows "stays (keeps_settled env key) (dispatch_next_queued env s)"
  unfolding dispatch_next_queued_def dispatch_entry_def dispatch_outcome_def
  by (intro settled_intros assms) (simp_all add: status_simps)

lemma submit_settled:
  assumes "reads_back_json (re_ser env) (re_de env)"
  shows "stays (keeps_settled env key) (submit_prompt_intent_with_inputs env s prompt mode message inputs)"
  unfolding submit_prompt_intent_with_inputs_def submitting_def send_turn_def prompt_started_def prompt_uncertain_def submit_ask_fork_def
    ask_fork_turn_def ask_session_cwd_def pending_space_payload_def cleanup_ask_thread_def
  by (intro settled_intros assms) simp_all

lemma render_settled: "stays (keeps_settled env key) (render_queue env s)"
  unfolding render_queue_def by (intro settled_intros)

lemma settled_rows_cancelled:
  assumes "cancel_queue ser de sha cur ex at rows records = Inr records'" and "reads_back_json ser de"
    and "\<forall>r \<in> set records. record_key r = (workflow_table ''queue'', key) \<longrightarrow> \<not> waits de (lr_row_json r)"
  shows "\<forall>r \<in> set records'. record_key r = (workflow_table ''queue'', key) \<longrightarrow> \<not> waits de (lr_row_json r)"
  using assms(1,3)
proof (induction rows arbitrary: records)
  case (Cons row rows)
  obtain k j where row: "row = (k, j)" by (cases row)
  have ended: "\<not> waits de t" if t: "cancelled_text ser de cur ex at j = Some t" for t
  proof -
    from t obtain v u where "cancelled at v = Some u" "ser u = Inr t"
      by (auto simp: cancelled_text_def split: sum.splits if_splits option.splits)
    then have "de t = Inr u" "jstr ''status'' u = Some ''cancelled''"
      using assms(2) by (auto simp: reads_back_json_def cancelled_def bind_eq_Some_conv jstr_def jset_get)
    then show ?thesis by (simp add: waits_def)
  qed
  show ?case
    by (rule Cons.IH [OF cancel_queue_Cons [OF Cons.prems(1) [unfolded row]]])
      (use Cons.prems(2) ended in \<open>auto simp: update_where_def set_json_def split: option.splits\<close>)
qed simp

lemma close_settled:
  assumes "reads_back_json (re_ser env) (re_de env)"
  shows "stays (keeps_settled env key) (with_spaces (close_session_space (re_ser env) (re_de env) (re_sha256_hex env) space g t))"
proof (intro settling.stays_spaces)
  fix w :: "'a runtime"
  have "settled (re_de env) key (snd (close_session_space (re_ser env) (re_de env) (re_sha256_hex env) space g t (rt_spaces w)))"
    if "settled (re_de env) key (rt_spaces w)"
    using that settled_rows_cancelled [OF _ assms]
    by (auto simp: settled_def close_session_space_def Let_def split: option.splits sum.splits)
  then show "keeps_settled env key w (w\<lparr>rt_spaces := snd (close_session_space (re_ser env) (re_de env) (re_sha256_hex env)
      space g t (rt_spaces w))\<rparr>)" by (simp add: keeps_settled_def draws_on_def)
qed

text \<open>A new entry has a nonce of its own.\<close>

lemma enqueue_settled:
  assumes "reads_back_json (re_ser env) (re_de env)"
  shows "stays (keeps_settled env key) (enqueue_prompt env s prompt message)"
  unfolding stays_def
proof
  fix w :: "'a runtime"
  let ?n = "re_nonce env (rt_nonces w)" and ?w1 = "w\<lparr>rt_nonces := Suc (rt_nonces w)\<rparr>"
  let ?rest = "\<lambda>n. and_then (in_spaces (session_space_for_thread (sr_thread_id s))) (\<lambda>space. and_then (reading_clock env) (\<lambda>now.
     and_then (put_record env ''queue'' n (queue_entry n s space prompt message now)) (\<lambda>_. act_ok n)))"
  have run: "snd (enqueue_prompt env s prompt message w) = snd (?rest ?n ?w1)"
    by (simp add: enqueue_prompt_def and_then_def [of "drawing_nonce env"] drawing_nonce_def)
  have draw: "keeps_settled env key w ?w1" by (auto simp: keeps_settled_def draws_on_def)
  show "keeps_settled env key w (snd (enqueue_prompt env s prompt message w))"
  proof (cases "?n = key")
    case True
    have "stays draws_on (?rest ?n)"
      by (intro drawing.stays_helpers drawing.stays_put_record) (simp add: draws_on_def)
    then have "draws_on ?w1 (snd (?rest ?n ?w1))" by (rule staysD)
    with True run show ?thesis by (auto simp: keeps_settled_def draws_on_def unissued_def)
  next
    case False
    have "stays (keeps_settled env key) (?rest ?n)" using False by (intro settled_intros assms) simp
    then have "keeps_settled env key ?w1 (snd (?rest ?n ?w1))" by (rule staysD)
    with draw show ?thesis unfolding run by (rule settling.rel_trans)
  qed
qed

lemma turn_step_settled: "reads_back_json (re_ser env) (re_de env) \<Longrightarrow> keeps_settled env key w (turn_step env op w)"
  by (cases op) (simp_all add: turn_step_def submit_settled [THEN staysD] enqueue_settled [THEN staysD]
      render_settled [THEN staysD] dispatch_settled [THEN staysD] turn_end_settled [THEN staysD] close_settled [THEN staysD])

lemma turn_run_settled: "reads_back_json (re_ser env) (re_de env) \<Longrightarrow> keeps_settled env key w (fold (turn_step env) ops w)"
proof (induction ops arbitrary: w)
  case (Cons op ops)
  then show ?case
    by (simp add: settling.rel_trans [OF turn_step_settled [OF Cons.prems] Cons.IH [OF Cons.prems]])
qed (simp add: settling.rel_refl)

section \<open>The next entry\<close>

lemma next_queued_row:
  assumes "next_queued env s w = Some (key, entry)"
  shows "\<exists>r \<in> set (sp_records (rt_spaces w)). record_key r = (workflow_table ''queue'', key)
    \<and> re_de env (lr_row_json r) = Inr entry \<and> is_queued (sr_thread_id s) entry"
proof -
  from assms obtain records where records: "workflow_records (re_de env) ''queue'' (rt_spaces w) = Inr records"
    and found: "find (\<lambda>(key, v). is_queued (sr_thread_id s) v) records = Some (key, entry)"
    by (auto simp: next_queued_def split: sum.splits)
  from found have "(key, entry) \<in> set records" "is_queued (sr_thread_id s) entry"
    by (auto simp: find_Some_iff in_set_conv_nth)
  with decoded_record [OF records [unfolded workflow_records_def]] show ?thesis
    by (auto simp: record_key_def)
qed

lemma settled_not_next: "settled (re_de env) key (rt_spaces w) \<Longrightarrow> next_queued env s w \<noteq> Some (key, entry)"
  using next_queued_row [of env s w key entry] by (fastforce simp: settled_def waits_def is_queued_def)

section \<open>One dispatch\<close>

lemma put_record_run: "put_record env kind key v w =
    (let r = upsert_workflow_record (re_ser env) (re_sha256_hex env) kind key v (re_now env (rt_clock w)) (rt_spaces w) in
     (port_str (fst r), w\<lparr>rt_clock := Suc (rt_clock w), rt_spaces := snd r\<rparr>))"
  by (simp add: put_record_def and_then_def reading_clock_def write_record_def with_spaces_run Let_def)

lemma records_of_run: "records_of env kind w = (port_str (workflow_records (re_de env) kind (rt_spaces w)), w)"
  by (simp add: records_of_def with_spaces_run)

lemma dispatch_run:
  assumes "next_queued env s w = Some (key, entry)" and "sr_turn_id s = None"
  shows "dispatch_next_queued env s w = dispatch_entry env s key entry w"
  using assms by (auto simp: dispatch_next_queued_def and_then_def records_of_run next_queued_def port_str_def split: sum.splits)

lemma dispatch_entry_settles:
  assumes reads: "reads_back_json (re_ser env) (re_de env)" and fresh: "unissued env key w"
  shows "(\<exists>e. fst (dispatch_entry env s key entry w) = Inl e) \<and> rt_agent (snd (dispatch_entry env s key entry w)) = rt_agent w
    \<or> unissued env key (snd (dispatch_entry env s key entry w))
      \<and> settled (re_de env) key (rt_spaces (snd (dispatch_entry env s key entry w)))"
proof -
  let ?e1 = "set_field ''status'' (JStr ''submitting'') entry"
  let ?r = "upsert_workflow_record (re_ser env) (re_sha256_hex env) ''queue'' key ?e1 (re_now env (rt_clock w)) (rt_spaces w)"
  let ?w1 = "w\<lparr>rt_clock := Suc (rt_clock w), rt_spaces := snd ?r\<rparr>"
  let ?rest = "and_then (from_result (domain_result (prompt_input_text (unwrap_or (jstr ''prompt'' entry) [])))) (\<lambda>inp.
     and_then (asking (start_turn (re_call env) (ThreadId (sr_thread_id s)) [inp] (Some (''queue-'' @ key))))
       (dispatch_outcome env s key ?e1))"
  have entry: "dispatch_entry env s key entry = and_then (put_record env ''queue'' key ?e1) (\<lambda>_. ?rest)"
    by (simp add: dispatch_entry_def Let_def)
  have "stays (keeps_settled env key) ?rest"
    unfolding dispatch_outcome_def by (intro settled_intros reads) (simp_all add: status_simps)
  then have rest: "keeps_settled env key ?w1 (snd (?rest ?w1))" by (rule staysD)
  show ?thesis
  proof (cases "fst ?r")
    case (Inl e)
    then have "dispatch_entry env s key entry w = (Inl (port_error_display e), ?w1)"
      by (simp add: entry and_then_def put_record_run Let_def port_str_def)
    then show ?thesis by simp
  next
    case (Inr u)
    then have run: "dispatch_entry env s key entry w = ?rest ?w1"
      by (simp add: entry and_then_def [of "put_record env ''queue'' key ?e1"] put_record_run Let_def port_str_def)
    have "unissued env key ?w1" using fresh by (simp add: unissued_def)
    moreover have "settled (re_de env) key (rt_spaces ?w1)"
      using written_settles [OF reads] Inr by (simp add: status_simps)
    ultimately show ?thesis using rest run by (auto simp: keeps_settled_def unissued_def draws_on_def)
  qed
qed

text \<open>
  C13. A prompt that waits in the queue of a thread is given to Codex at most once. Once a dispatch has
  asked Codex to start its turn, or has returned without an error, no later dispatch takes the same entry
  again, whatever happens in between: submissions, new entries, the end of turns, other dispatches, the
  closing of a session. The nonces drawn later differ from the key of the entry, and what is written to
  the store reads back.
\<close>

theorem queued_prompt_sent_once:
  assumes "next_queued env s w = Some (key, entry)" and "sr_turn_id s = None"
    and "fst (dispatch_next_queued env s w) = Inr () \<or> rt_agent (snd (dispatch_next_queued env s w)) \<noteq> rt_agent w"
    and "unissued env key w" and "reads_back_json (re_ser env) (re_de env)"
  shows "next_queued env s' (fold (turn_step env) ops (snd (dispatch_next_queued env s w))) \<noteq> Some (key, entry')"
proof -
  have "unissued env key (snd (dispatch_next_queued env s w)) \<and> settled (re_de env) key (rt_spaces (snd (dispatch_next_queued env s w)))"
    using dispatch_entry_settles [OF assms(5,4), of s entry] assms(3) by (auto simp: dispatch_run [OF assms(1,2)])
  then have "settled (re_de env) key (rt_spaces (fold (turn_step env) ops (snd (dispatch_next_queued env s w))))"
    using turn_run_settled [OF assms(5)] by (simp add: keeps_settled_def)
  then show ?thesis by (rule settled_not_next)
qed

section \<open>The oldest entry first\<close>

lemma decode_records_index:
  assumes "decode_records de rows = Inr vs"
  shows "length vs = length rows \<and> (\<forall>i < length rows. fst (vs ! i) = lr_row_key (rows ! i) \<and> de (lr_row_json (rows ! i)) = Inr (snd (vs ! i)))"
  using assms
proof (induction rows arbitrary: vs)
  case (Cons r rows)
  then obtain v vs1 where "de (lr_row_json r) = Inr v" "decode_records de rows = Inr vs1" "vs = (lr_row_key r, v) # vs1"
    by (cases "de (lr_row_json r)"; cases "decode_records de rows") auto
  with Cons.IH [of vs1] show ?case by (auto simp: nth_Cons split: nat.split)
qed simp


section \<open>What becomes of a submission\<close>

definition reads_back_intents :: "record_codec \<Rightarrow> bool" where
  "reads_back_intents cd \<longleftrightarrow> (\<forall>i s. rc_intent cd i = Inr s \<longrightarrow> rc_read_intent cd s = Inr i)"

text \<open>The intent is the one its client message id finds.\<close>

definition stored_intent :: "record_codec \<Rightarrow> prompt_intent \<Rightarrow> record_db \<Rightarrow> bool" where
  "stored_intent cd i db \<longleftrightarrow> (\<exists>r. first_where (\<lambda>r. ir_client_message_id r = pin_client_message_id i) (rd_intents db) = Some r
     \<and> ir_intent_id r = pin_intent_id i \<and> rc_intent cd i = Inr (ir_payload_json r))"

lemma stored_intent_found:
  "stored_intent cd i db \<Longrightarrow> reads_back_intents cd
   \<Longrightarrow> prompt_intent_by_client_message_id cd (pin_client_message_id i) db = Inr (Some i)"
  by (auto simp: stored_intent_def prompt_intent_by_client_message_id_def reads_back_intents_def)

lemma first_where_update_row:
  assumes "\<And>r. P (f r) = P r"
  shows "first_where P (update_where Q f rows) = map_option (\<lambda>r. if Q r then f r else r) (first_where P rows)"
  using assms by (induction rows) (auto simp: update_where_def)

lemma intent_stored_again:
  assumes "upsert_prompt_intent cd i db = (Inr (), db1)" and "stored_intent cd i0 db"
    and "pin_client_message_id i = pin_client_message_id i0" "pin_intent_id i = pin_intent_id i0"
  shows "stored_intent cd i db1"
proof -
  from assms(2) obtain r where r: "first_where (\<lambda>r. ir_client_message_id r = pin_client_message_id i0) (rd_intents db) = Some r"
    "ir_intent_id r = pin_intent_id i0" by (auto simp: stored_intent_def)
  then have "exists_where (\<lambda>r. ir_intent_id r = pin_intent_id i) (rd_intents db)"
    using assms(4) first_where_SomeD [OF r(1)] by (auto simp: exists_where_def list_ex_iff)
  with assms(1,3,4) r show ?thesis
    by (auto simp: upsert_prompt_intent_def Let_def upsert_def stored_intent_def first_where_update_row split: sum.splits)
qed

lemma intent_stored_first:
  assumes "upsert_prompt_intent cd i db = (Inr (), db1)"
    and "first_where (\<lambda>r. ir_client_message_id r = pin_client_message_id i) (rd_intents db) = None"
    and "\<not> exists_where (\<lambda>r. ir_intent_id r = pin_intent_id i) (rd_intents db)"
  shows "stored_intent cd i db1"
  using assms by (auto simp: upsert_prompt_intent_def Let_def upsert_def stored_intent_def first_where_append split: sum.splits if_splits)

section \<open>Tasks that write no intent\<close>

definition keeps_records :: "'w runtime \<Rightarrow> 'w runtime \<Rightarrow> bool" where
  "keeps_records w w1 \<longleftrightarrow> rt_records w1 = rt_records w"

interpretation recording: handler_relation keeps_records
  by unfold_locales (simp_all add: keeps_records_def)

lemma records_basic:
  "stays keeps_records (reading_clock env)" "stays keeps_records (drawing_nonce env)" "stays keeps_records (generation_now env)"
  "stays keeps_records (with_spaces f)" "stays keeps_records (in_spaces h)" "stays keeps_records (in_sessions i)"
  "stays keeps_records (changing_sessions j)" "stays keeps_records (asking k)" "stays keeps_records (sending_message env m)"
  "stays keeps_records (intent_of env cid)"
  by (simp_all add: stays_def runtime_defs intent_of_def with_spaces_run with_records_run keeps_records_def case_prod_beta)

lemma records_tell: "stays keeps_records (tell env s text)" "stays keeps_records (put_record env kind key v)"
  "stays keeps_records (record_of env kind key)"
  unfolding tell_def tell_by_def send_text_task_def send_text_message_def put_record_def write_record_def record_of_def
  by (intro recording.stays_rules records_basic)+

lemmas records_kept = recording.stays_rules records_basic records_tell

lemma keptD: "stays keeps_records m \<Longrightarrow> m w = (r, w1) \<Longrightarrow> rt_records w1 = rt_records w"
  by (drule staysD [of _ _ w]) (simp add: keeps_records_def)

lemma store_intent_run: "store_intent env i w = (Inr x, w1) \<Longrightarrow>
    upsert_prompt_intent (re_records env) i (rt_records w) = (Inr (), rt_records w1)"
  by (auto simp: store_intent_def with_records_def port_str_def split: prod.splits sum.splits)

definition intent_answered :: "string \<Rightarrow> prompt_intent \<Rightarrow> bool" where
  "intent_answered prompt i \<longleftrightarrow> pin_prompt i = prompt
     \<and> (if pin_state i = PiUncertain then pin_error i \<noteq> None \<and> pin_turn_id i = None
        else pin_state i \<in> {PiStarted, PiSteered} \<and> pin_error i = None \<and> pin_turn_id i \<noteq> None)"

definition answered_in :: "'w runtime_env \<Rightarrow> string \<Rightarrow> string \<Rightarrow> 'w runtime \<Rightarrow> bool" where
  "answered_in env cid prompt w \<longleftrightarrow> (\<exists>i. stored_intent (re_records env) i (rt_records w) \<and> pin_client_message_id i = cid \<and> intent_answered prompt i)"

text \<open>From a state that holds the intent the task returns only with an answer stored.\<close>

definition answers :: "'w runtime_env \<Rightarrow> prompt_intent \<Rightarrow> string \<Rightarrow> ('w, 'a) task \<Rightarrow> bool" where
  "answers env i0 prompt m \<longleftrightarrow> (\<forall>w x w1. stored_intent (re_records env) i0 (rt_records w) \<longrightarrow> m w = (Inr x, w1)
     \<longrightarrow> answered_in env (pin_client_message_id i0) prompt w1)"

lemma answers_then:
  assumes "stays keeps_records m" and "\<And>x. answers env i0 prompt (f x)"
  shows "answers env i0 prompt (and_then m f)"
  unfolding answers_def
proof (intro allI impI)
  fix w x w1 assume w: "stored_intent (re_records env) i0 (rt_records w)" "and_then m f w = (Inr x, w1)"
  then obtain y w2 where y: "m w = (Inr y, w2)" "f y w2 = (Inr x, w1)" by (auto simp: and_then_Inr)
  have "stored_intent (re_records env) i0 (rt_records w2)" using w(1) keptD [OF assms(1) y(1)] by simp
  with assms(2) [of y] y(2) show "answered_in env (pin_client_message_id i0) prompt w1"
    unfolding answers_def by blast
qed

lemma answers_put:
  assumes "pin_client_message_id i = pin_client_message_id i0" "pin_intent_id i = pin_intent_id i0" "intent_answered prompt i"
    and "\<And>x. stays keeps_records (rest x)"
  shows "answers env i0 prompt (and_then (store_intent env i) rest)"
  unfolding answers_def
proof (intro allI impI)
  fix w x w1 assume w: "stored_intent (re_records env) i0 (rt_records w)" "and_then (store_intent env i) rest w = (Inr x, w1)"
  then obtain y w2 where y: "store_intent env i w = (Inr y, w2)" "rest y w2 = (Inr x, w1)" by (auto simp: and_then_Inr)
  have "stored_intent (re_records env) i (rt_records w1)"
    using intent_stored_again [OF store_intent_run [OF y(1)] w(1) assms(1,2)] keptD [OF assms(4) y(2)] by simp
  with assms(1,3) show "answered_in env (pin_client_message_id i0) prompt w1" by (auto simp: answered_in_def)
qed

lemma answers_cases:
  "answers env i0 prompt (act_err e)"
  "answers env i0 prompt a \<Longrightarrow> answers env i0 prompt b \<Longrightarrow> answers env i0 prompt (if c then a else b)"
  "answers env i0 prompt a \<Longrightarrow> (\<And>x. answers env i0 prompt (f x)) \<Longrightarrow> answers env i0 prompt (case v of None \<Rightarrow> a | Some x \<Rightarrow> f x)"
  "(\<And>x. answers env i0 prompt (g x)) \<Longrightarrow> (\<And>x. answers env i0 prompt (h x))
   \<Longrightarrow> answers env i0 prompt (case r of Inl x \<Rightarrow> g x | Inr x \<Rightarrow> h x)"
  "(\<And>x y. answers env i0 prompt (k x y)) \<Longrightarrow> answers env i0 prompt (case p of (x, y) \<Rightarrow> k x y)"
  "answers env i0 prompt (l t) \<Longrightarrow> answers env i0 prompt (Let t l)"
  by (auto simp: answers_def act_err_def split: option.split sum.split prod.split)

text \<open>An intent without a turn or an error, as a submission has it until it hears from Codex.\<close>

definition open_intent :: "string \<Rightarrow> prompt_intent \<Rightarrow> bool" where
  "open_intent prompt i \<longleftrightarrow> pin_prompt i = prompt \<and> pin_error i = None \<and> pin_turn_id i = None"

lemma uncertain_answers: "open_intent prompt i \<Longrightarrow> answers env i prompt (prompt_uncertain env s i e text)"
  unfolding prompt_uncertain_def
  by (intro answers_then answers_put records_kept) (simp_all add: with_intent_state_def open_intent_def intent_answered_def)

lemma started_answers: "open_intent prompt i \<Longrightarrow> answers env i prompt (prompt_started env s i cid receipt turn)"
  unfolding prompt_started_def Let_def
  by (intro answers_then answers_put records_kept) (simp_all add: with_intent_state_def open_intent_def intent_answered_def)

lemma fork_keeps: "stays keeps_records (ask_fork_turn env s prompt cid)"
  unfolding ask_fork_turn_def ask_session_cwd_def pending_space_payload_def cleanup_ask_thread_def
  by (intro records_kept)

lemma ask_answers: "open_intent prompt i \<Longrightarrow> answers env i prompt (submit_ask_fork env s prompt i cid receipt)"
  unfolding submit_ask_fork_def
  by (intro answers_then answers_cases answers_put records_kept fork_keeps uncertain_answers)
    (simp_all add: with_intent_state_def open_intent_def intent_answered_def)

lemma submitting_answers: "open_intent prompt i \<Longrightarrow> answers env i prompt (submitting env s prompt mode inputs cid i receipt)"
  unfolding submitting_def send_turn_def
  by (intro answers_cases ask_answers answers_then records_kept uncertain_answers started_answers) simp_all

lemma prefix_run:
  "and_then (drawing_nonce env) f w = f (re_nonce env (rt_nonces w)) (w\<lparr>rt_nonces := Suc (rt_nonces w)\<rparr>)"
  "and_then (reading_clock env) g w = g (re_now env (rt_clock w)) (w\<lparr>rt_clock := Suc (rt_clock w)\<rparr>)"
  "and_then (generation_now env) h w = h (re_generation env (rt_agent w)) w"
  "prompt_intent_by_client_message_id (re_records env) cid (rt_records w) = Inr None \<Longrightarrow> and_then (intent_of env cid) k w = k None w"
  by (simp_all add: and_then_def runtime_defs intent_of_def port_str_def)

lemma prefix_of_submission:
  assumes "prompt_intent_by_client_message_id (re_records env) (c (re_nonce env (rt_nonces w))) (rt_records w) = Inr None"
  shows "and_then (drawing_nonce env) (\<lambda>n. and_then (intent_of env (c n)) (\<lambda>known. if known \<noteq> None then known_already else
     and_then (reading_clock env) (\<lambda>now. and_then (drawing_nonce env) (\<lambda>n1. and_then (generation_now env) (\<lambda>g. f n now n1 g))))) w
   = f (re_nonce env (rt_nonces w)) (re_now env (rt_clock w)) (re_nonce env (Suc (rt_nonces w))) (re_generation env (rt_agent w))
      (w\<lparr>rt_clock := Suc (rt_clock w), rt_nonces := Suc (Suc (rt_nonces w))\<rparr>)"
  using assms by (simp add: prefix_run)

lemma submission_run:
  assumes "prompt_intent_by_client_message_id (re_records env) (prompt_client_id s message (re_nonce env (rt_nonces w))) (rt_records w) = Inr None"
  shows "submit_prompt_intent_with_inputs env s prompt mode message inputs w =
    (let cid = prompt_client_id s message (re_nonce env (rt_nonces w));
       i = new_intent (re_nonce env (Suc (rt_nonces w))) cid prompt mode (sr_thread_id s) (''telegram-''
           @ show_int (sr_chat_id s))
         (re_generation env (rt_agent w)) (re_now env (rt_clock w)) in
     and_then (store_intent env i) (\<lambda>_.
     and_then (attempt (tell env s ([CHR 0xF0, CHR 0x9F, CHR 0x93, CHR 0xA8] @ '' '' @ [CHR 0xE5, CHR 0xB7, CHR 0xB2,
         CHR 0xE6, CHR 0x94, CHR 0xB6, CHR 0xE5, CHR 0x88, CHR 0xB0, CHR 0xE8, CHR 0xAF, CHR 0xB7, CHR 0xE6, CHR 0xB1,
         CHR 0x82, CHR 0xEF, CHR 0xBC, CHR 0x8C, CHR 0xE6, CHR 0xAD, CHR 0xA3, CHR 0xE5, CHR 0x9C, CHR 0xA8, CHR 0xE6,
         CHR 0x8F, CHR 0x90, CHR 0xE4, CHR 0xBA, CHR 0xA4, CHR 0xE7, CHR 0xBB, CHR 0x99] @ '' Codex'' @ [CHR 0xE3,
         CHR 0x80, CHR 0x82]))) (\<lambda>receipt.
     and_then (reading_clock env) (\<lambda>now1. let i1 = with_intent_state PiSubmitting now1 i in
     and_then (store_intent env i1) (\<lambda>_.
     submitting env s prompt mode inputs cid i1 (is_ok receipt)))))
     (w\<lparr>rt_clock := Suc (rt_clock w), rt_nonces := Suc (Suc (rt_nonces w))\<rparr>))"
  unfolding submit_prompt_intent_with_inputs_def Let_def using assms by (rule prefix_of_submission)

lemma and_then_InrE:
  assumes "and_then m f w = (Inr y, w2)"
  obtains x w1 where "m w = (Inr x, w1)" "f x w1 = (Inr y, w2)"
  using assms by (auto simp: and_then_Inr)

lemma submission_steps:
  assumes "submit_prompt_intent_with_inputs env s prompt mode message inputs w = (Inr (), w1)"
    and "cid = prompt_client_id s message (re_nonce env (rt_nonces w))"
    and "prompt_intent_by_client_message_id (re_records env) cid (rt_records w) = Inr None"
  shows "\<exists>i i1 w2 w3 w4 w5 receipt. pin_client_message_id i = cid \<and> pin_intent_id i = ''intent-''
      @ re_nonce env (Suc (rt_nonces w))
     \<and> open_intent prompt i1 \<and> pin_client_message_id i1 = cid \<and> pin_intent_id i1 = pin_intent_id i
     \<and> rt_records w2 = rt_records w \<and> store_intent env i w2 = (Inr (), w3)
     \<and> rt_records w4 = rt_records w3 \<and> store_intent env i1 w4 = (Inr (),
         w5) \<and> submitting env s prompt mode inputs cid i1 receipt w5 = (Inr (), w1)"
proof -
  define w2 where "w2 = w\<lparr>rt_clock := Suc (rt_clock w), rt_nonces := Suc (Suc (rt_nonces w))\<rparr>"
  define i where "i = new_intent (re_nonce env (Suc (rt_nonces w))) cid prompt mode (sr_thread_id s)
    (''telegram-'' @ show_int (sr_chat_id s)) (re_generation env (rt_agent w)) (re_now env (rt_clock w))"
  note run = assms(1) [unfolded submission_run [OF assms(3) [unfolded assms(2)]] Let_def, folded assms(2) w2_def,
      folded i_def]
  obtain x w3 where first: "store_intent env i w2 = (Inr x, w3)"
    and run1: "and_then (attempt (tell env s ([CHR 0xF0, CHR 0x9F, CHR 0x93, CHR 0xA8] @ '' '' @ [CHR 0xE5, CHR 0xB7,
        CHR 0xB2, CHR 0xE6, CHR 0x94, CHR 0xB6, CHR 0xE5, CHR 0x88, CHR 0xB0, CHR 0xE8, CHR 0xAF, CHR 0xB7, CHR 0xE6,
        CHR 0xB1, CHR 0x82, CHR 0xEF, CHR 0xBC, CHR 0x8C, CHR 0xE6, CHR 0xAD, CHR 0xA3, CHR 0xE5, CHR 0x9C, CHR 0xA8,
        CHR 0xE6, CHR 0x8F, CHR 0x90, CHR 0xE4, CHR 0xBA, CHR 0xA4, CHR 0xE7, CHR 0xBB, CHR 0x99] @ '' Codex''
        @ [CHR 0xE3, CHR 0x80, CHR 0x82]))) (\<lambda>receipt.
     and_then (reading_clock env) (\<lambda>now1.
     and_then (store_intent env (with_intent_state PiSubmitting now1 i)) (\<lambda>_.
     submitting env s prompt mode inputs cid (with_intent_state PiSubmitting now1 i) (is_ok receipt)))) w3 = (Inr (), w1)"
    by (rule and_then_InrE [OF run]) blast
  obtain r w4 where told: "attempt (tell env s ([CHR 0xF0, CHR 0x9F, CHR 0x93, CHR 0xA8] @ '' '' @ [CHR 0xE5,
      CHR 0xB7, CHR 0xB2, CHR 0xE6, CHR 0x94, CHR 0xB6, CHR 0xE5, CHR 0x88, CHR 0xB0, CHR 0xE8, CHR 0xAF, CHR 0xB7,
      CHR 0xE6, CHR 0xB1, CHR 0x82, CHR 0xEF, CHR 0xBC, CHR 0x8C, CHR 0xE6, CHR 0xAD, CHR 0xA3, CHR 0xE5, CHR 0x9C,
      CHR 0xA8, CHR 0xE6, CHR 0x8F, CHR 0x90, CHR 0xE4, CHR 0xBA, CHR 0xA4, CHR 0xE7, CHR 0xBB, CHR 0x99]
      @ '' Codex'' @ [CHR 0xE3, CHR 0x80, CHR 0x82])) w3 = (Inr r, w4)"
    and run2: "and_then (reading_clock env) (\<lambda>now1.
     and_then (store_intent env (with_intent_state PiSubmitting now1 i)) (\<lambda>_.
     submitting env s prompt mode inputs cid (with_intent_state PiSubmitting now1 i) (is_ok r))) w4 = (Inr (), w1)"
    by (rule and_then_InrE [OF run1]) blast
  obtain now w5 where clock: "reading_clock env w4 = (Inr now, w5)"
    and run3: "and_then (store_intent env (with_intent_state PiSubmitting now i)) (\<lambda>_.
     submitting env s prompt mode inputs cid (with_intent_state PiSubmitting now i) (is_ok r)) w5 = (Inr (), w1)"
    by (rule and_then_InrE [OF run2]) blast
  obtain y w6 where second: "store_intent env (with_intent_state PiSubmitting now i) w5 = (Inr y, w6)"
    "submitting env s prompt mode inputs cid (with_intent_state PiSubmitting now i) (is_ok r) w6 = (Inr (), w1)"
    by (rule and_then_InrE [OF run3]) blast
  have "rt_records w5 = rt_records w3"
    using keptD [OF recording.stays_wrapped(2) [OF records_tell(1)] told] keptD [OF records_basic(1) clock] by simp
  moreover have "rt_records w2 = rt_records w" by (simp add: w2_def)
  moreover have "pin_client_message_id i = cid" "pin_intent_id i = ''intent-'' @ re_nonce env (Suc (rt_nonces w))"
    "open_intent prompt (with_intent_state PiSubmitting now i)"
    "pin_client_message_id (with_intent_state PiSubmitting now i) = cid" "pin_intent_id (with_intent_state PiSubmitting now i) = pin_intent_id i"
    by (simp_all add: i_def new_intent_def open_intent_def with_intent_state_def)
  ultimately show ?thesis using first second by (cases x, cases y) blast
qed


section \<open>A run\<close>

definition demo_entry :: json where
  "demo_entry = queue_entry ''q'' demo_turn_session None ''hi'' 7 1"

definition demo_values :: "json list" where
  "demo_values = (let marked = set_field ''status'' (JStr ''submitting'') demo_entry in
     [demo_entry, marked, set_field ''turn_id'' (JStr ''t'') (set_field ''status'' (JStr ''started'') marked)])"

definition demo_intents :: "prompt_intent list" where
  "demo_intents = (let i = new_intent ''ni'' ''telegram-5-7-n'' ''hi'' ''prompt'' ''T'' ''telegram-5'' 1 0 in
     [i, with_intent_state PiSubmitting 1 i,
         with_intent_state PiUncertain 2 (i\<lparr>pin_error := Some (port_error_display (Adapter (app_error_display AppTimeout)))\<rparr>)])"

definition demo_runtime :: "nat runtime" where
  "demo_runtime = demo_tables [demo_row_of ''queue'' ''q'' 0]"

abbreviation demo_queue_env :: "nat runtime_env" where "demo_queue_env \<equiv> demo_turn_env (Inr (jobj [(''turn'',
    jobj [(''id'', JStr ''t'')])])) demo_values []"

text \<open>Codex that does not answer.\<close>

abbreviation silent_env :: "nat runtime_env" where "silent_env \<equiv> demo_turn_env (Inl AppTimeout) [] demo_intents"

lemma demo_reads: "reads_back_json (re_ser demo_queue_env) (re_de demo_queue_env)" "reads_back_intents (re_records silent_env)"
  by (simp_all add: reads_back_json_def reads_back_intents_def demo_turn_env_def listed_back)

lemma demo_queued: "next_queued demo_queue_env demo_turn_session demo_runtime = Some (''q'', demo_entry)"
  "fst (dispatch_next_queued demo_queue_env demo_turn_session demo_runtime) = Inr ()"
  by code_simp+

theorem queued_prompt_sent_once_witness:
  "next_queued demo_queue_env demo_turn_session (fold (turn_step demo_queue_env) [TQueue demo_turn_session ''x'' 8]
     (snd (dispatch_next_queued demo_queue_env demo_turn_session demo_runtime))) \<noteq> Some (''q'', demo_entry)"
proof (rule queued_prompt_sent_once [OF demo_queued(1) _ disjI1 [OF demo_queued(2)] _ demo_reads(1)])
  show "unissued demo_queue_env ''q'' demo_runtime" by (simp add: unissued_def demo_turn_env_def)
qed (simp add: demo_turn_session_def)



end
