(* ===== verification/Onboarding.thy ===== *)
theory Onboarding
  imports Runtime Menus NewArgs TotpStore
begin

text \<open>
  Pairing and binding (\<open>rust/crates/cli/src/daemon.rs\<close>, \<open>rust/crates/cli/src/main.rs\<close>): the one-time codes that
  the machine prints, the handlers of \<open>/pair\<close> and \<open>/bind\<close>, the menus that follow and the reset of the owner.
\<close>

section \<open>One-time codes\<close>

text \<open>The difference of the bytes is gathered over the whole length.\<close>

definition constant_time_equal :: "string \<Rightarrow> string \<Rightarrow> bool" where
  "constant_time_equal l r \<longleftrightarrow> length l = length r
     \<and> foldl (\<lambda>d (a, b). d OR (a XOR b)) 0 (zip (map of_char l) (map of_char r)) = (0 :: 8 word)"

definition consume_onboarding_code :: "'w runtime_env \<Rightarrow> string \<Rightarrow> string \<Rightarrow> ('w, bool) task" where
  "consume_onboarding_code env kind code = and_then (record_of env ''onboarding_code'' kind) (\<lambda>found. case found of
     None \<Rightarrow> act_ok False
   | Some record \<Rightarrow> and_then (reading_clock env) (\<lambda>now.
       let expires = unwrap_or (ji64 ''expires_at_ms'' record) 0;
           failures = unwrap_or (Option.bind (jget ''failures'' record) as_u64) 0;
           expected = unwrap_or (jstr ''sha256'' record) [] in
       if expires < now \<or> 5 \<le> failures then act_ok False
       else if expected = [] \<or> \<not> constant_time_equal expected (re_sha256_hex env (trim code)) then
         and_then (put_field ''failures'' (JInt (min (int failures + 1) 18446744073709551615)) record) (\<lambda>record1.
         and_then (write_record env ''onboarding_code'' kind record1 now) (\<lambda>_. act_ok False))
       else and_then (with_spaces (delete_workflow_record ''onboarding_code'' kind)) (\<lambda>_. act_ok True)))"

text \<open>
  The code that \<open>pair-code\<close> or \<open>bind-code\<close> prints comes from the kind, the time and the id of the process;
  only its digest is kept. \<open>digest\<close> is the first four bytes of a SHA-256 as a number.
\<close>

definition one_time_code :: "(string \<Rightarrow> nat) \<Rightarrow> string \<Rightarrow> i64 \<Rightarrow> nat \<Rightarrow> string" where
  "one_time_code digest kind now pid =
     show_padded 6 (digest (kind @ '':'' @ show_int now @ '':'' @ show_nat pid) mod 1000000)"

definition code_record :: "(string \<Rightarrow> string) \<Rightarrow> string \<Rightarrow> i64 \<Rightarrow> json" where
  "code_record sha256_hex code now = jobj [(''sha256'', JStr (sha256_hex code)),
     (''expires_at_ms'', JInt (saturating_add now 600000)), (''failures'', JInt 0)]"

definition print_one_time_code :: "'w runtime_env \<Rightarrow> (string \<Rightarrow> nat) \<Rightarrow> string \<Rightarrow> i64 \<Rightarrow> nat \<Rightarrow> ('w, string) task" where
  "print_one_time_code env digest kind now pid = (let code = one_time_code digest kind now pid in
     and_then (write_record env ''onboarding_code'' kind (code_record (re_sha256_hex env) code now) now) (\<lambda>_.
     act_ok (kind @ ''-code: '' @ code)))"

section \<open>Menus\<close>

text \<open>What the menus of a bot are set to, in order; an empty menu is deleted.\<close>

definition menu_installs :: "runtime_bot_role \<Rightarrow> bool \<Rightarrow> bool \<Rightarrow> i64 option \<Rightarrow> i64 \<Rightarrow> i64 \<Rightarrow> (bot_command_scope \<times> menu_entry list) list" where
  "menu_installs role paired bound owner control_chat group_chat = (case role of
     RoleControl \<Rightarrow> [(ScopeDefault, []), (ScopeAllPrivateChats, command_menu RoleControl MenuBootstrap),
       (ScopeChat control_chat, if paired then command_menu RoleControl MenuOwner else [])]
   | RoleDiscussion \<Rightarrow> [(ScopeDefault, []), (ScopeAllGroupChats, command_menu RoleDiscussion MenuBootstrap),
       (ScopeChat group_chat, [])]
       @ (case owner of None \<Rightarrow> []
          | Some user \<Rightarrow> [(ScopeChatMember group_chat user,
              if paired \<and> bound then command_menu RoleDiscussion MenuOwner else [])])
   | _ \<Rightarrow> [(ScopeDefault, [])])"

text \<open>The bots with their roles and the chats of the configuration.\<close>

record pairing_config =
  pa_bots :: "(string \<times> runtime_bot_role) list"
  pa_control_chat_id :: i64

text \<open>A record that cannot be read counts as absent.\<close>

definition known_record :: "'w runtime_env \<Rightarrow> string \<Rightarrow> string \<Rightarrow> ('w, json option) task" where
  "known_record env kind key = and_then (attempt (record_of env kind key)) (\<lambda>r. act_ok (Option.bind (ok_option r) id))"

definition refresh_command_menus :: "'w runtime_env \<Rightarrow> pairing_config \<Rightarrow> ('w, unit) task" where
  "refresh_command_menus env pc =
     and_then (known_record env ''onboarding'' ''owner'') (\<lambda>owner.
     and_then (known_record env ''onboarding'' ''owner'') (\<lambda>owner1.
     and_then (known_record env ''onboarding'' ''binding'') (\<lambda>binding.
     each_one (\<lambda>(inst, role). ignoring (sending_message env (RmMenus inst (map (\<lambda>(scope,
         menu). (scope_to_value scope, map menu_entry_to_value menu)) (menu_installs role (owner \<noteq> None) (binding \<noteq> None)
         (Option.bind owner1 (ji64 ''user_id'')) (pa_control_chat_id pc) (re_discussion_chat_id env))))))
       (filter (\<lambda>(inst, role). polls_updates role) (pa_bots pc)))))"

section \<open>Pairing\<close>

definition owner_record :: "i64 \<Rightarrow> i64 \<Rightarrow> i64 \<Rightarrow> json" where
  "owner_record chat user now = jobj [(''chat_id'', JInt chat), (''user_id'', JInt user), (''paired_at_ms'', JInt now)]"

definition handle_pair_command :: "'w runtime_env \<Rightarrow> pairing_config \<Rightarrow> string \<Rightarrow> i64 \<Rightarrow> i64 option \<Rightarrow> ('w, unit) task" where
  "handle_pair_command env pc text chat actor = (case actor of
     None \<Rightarrow> tell_chat env chat [CHR 0xE6, CHR 0x97, CHR 0xA0, CHR 0xE6, CHR 0xB3, CHR 0x95, CHR 0xE7,
         CHR 0xA1, CHR 0xAE, CHR 0xE8, CHR 0xAE, CHR 0xA4, CHR 0xE4, CHR 0xB8, CHR 0xAA, CHR 0xE4, CHR 0xBA, CHR 0xBA,
         CHR 0xE5, CHR 0x8F, CHR 0x91, CHR 0xE9, CHR 0x80, CHR 0x81, CHR 0xE8, CHR 0xBA, CHR 0xAB, CHR 0xE4, CHR 0xBB,
         CHR 0xBD, CHR 0xEF, CHR 0xBC, CHR 0x9B, CHR 0xE8, CHR 0xAF, CHR 0xB7, CHR 0xE5, CHR 0x85, CHR 0xB3, CHR 0xE9,
         CHR 0x97, CHR 0xAD, CHR 0xE5, CHR 0x8C, CHR 0xBF, CHR 0xE5, CHR 0x90, CHR 0x8D, CHR 0xE7, CHR 0xAE, CHR 0xA1,
         CHR 0xE7, CHR 0x90, CHR 0x86, CHR 0xE5, CHR 0x91, CHR 0x98, CHR 0xE5, CHR 0x90, CHR 0x8E, CHR 0xE9, CHR 0x87,
         CHR 0x8D, CHR 0xE8, CHR 0xAF, CHR 0x95, CHR 0xE3, CHR 0x80, CHR 0x82]
   | Some user \<Rightarrow> and_then (record_of env ''onboarding'' ''owner'') (\<lambda>owner.
     if owner \<noteq> None then tell_chat env chat (''Bot '' @ [CHR 0xE5, CHR 0xB7, CHR 0xB2, CHR 0xE9, CHR 0x85,
         CHR 0x8D, CHR 0xE5, CHR 0xAF, CHR 0xB9, CHR 0xEF, CHR 0xBC, CHR 0x9B, CHR 0xE6, CHR 0x9B, CHR 0xB4, CHR 0xE6,
         CHR 0x8D, CHR 0xA2] @ '' owner '' @ [CHR 0xE5, CHR 0x8F, CHR 0xAA, CHR 0xE8, CHR 0x83, CHR 0xBD, CHR 0xE4,
         CHR 0xBD, CHR 0xBF, CHR 0xE7, CHR 0x94, CHR 0xA8, CHR 0xE6, CHR 0x9C, CHR 0xAC, CHR 0xE6, CHR 0x9C,
         CHR 0xBA] @ '' owner-reset'' @ [CHR 0xE3, CHR 0x80, CHR 0x82])
     else let code = new_command_arguments text in
       if code = [] then tell_chat env chat ([CHR 0xE7, CHR 0x94, CHR 0xA8, CHR 0xE6, CHR 0xB3, CHR 0x95, CHR 0xEF,
           CHR 0xBC, CHR 0x9A] @ ''/pair <'' @ [CHR 0xE6, CHR 0x9C, CHR 0xAC, CHR 0xE6, CHR 0x9C, CHR 0xBA, CHR 0xE9,
           CHR 0x85, CHR 0x8D, CHR 0xE5, CHR 0xAF, CHR 0xB9, CHR 0xE7, CHR 0xA0, CHR 0x81] @ ''>'') else
       and_then (consume_onboarding_code env ''pair'' code) (\<lambda>ok.
       if \<not> ok then tell_chat env chat [CHR 0xE9, CHR 0x85, CHR 0x8D, CHR 0xE5, CHR 0xAF, CHR 0xB9, CHR 0xE7,
           CHR 0xA0, CHR 0x81, CHR 0xE6, CHR 0x97, CHR 0xA0, CHR 0xE6, CHR 0x95, CHR 0x88, CHR 0xE3, CHR 0x80,
           CHR 0x81, CHR 0xE8, CHR 0xBF, CHR 0x87, CHR 0xE6, CHR 0x9C, CHR 0x9F, CHR 0xE6, CHR 0x88, CHR 0x96,
           CHR 0xE5, CHR 0xB0, CHR 0x9D, CHR 0xE8, CHR 0xAF, CHR 0x95, CHR 0xE6, CHR 0xAC, CHR 0xA1, CHR 0xE6,
           CHR 0x95, CHR 0xB0, CHR 0xE8, CHR 0xBF, CHR 0x87, CHR 0xE5, CHR 0xA4, CHR 0x9A, CHR 0xE3, CHR 0x80,
           CHR 0x82] else
       and_then (reading_clock env) (\<lambda>now.
       and_then (put_record env ''onboarding'' ''owner'' (owner_record chat user now)) (\<lambda>_.
       and_then (refresh_command_menus env pc) (\<lambda>_.
       tell_chat env chat ([CHR 0xE9, CHR 0x85, CHR 0x8D, CHR 0xE5, CHR 0xAF, CHR 0xB9, CHR 0xE6, CHR 0x88, CHR 0x90,
           CHR 0xE5, CHR 0x8A, CHR 0x9F, CHR 0xE3, CHR 0x80, CHR 0x82] @ ''Session '' @ [CHR 0xE5, CHR 0x86, CHR 0x99,
           CHR 0xE6, CHR 0x93, CHR 0x8D, CHR 0xE4, CHR 0xBD, CHR 0x9C, CHR 0xE5, CHR 0x9C, CHR 0xA8, CHR 0xE8,
           CHR 0xAF, CHR 0x84, CHR 0xE8, CHR 0xAE, CHR 0xBA, CHR 0xE4, CHR 0xB8, CHR 0xB2, CHR 0xE5, CHR 0x86,
           CHR 0x85, CHR 0xE4, CHR 0xBD, CHR 0xBF, CHR 0xE7, CHR 0x94, CHR 0xA8] @ '' TOTP '' @ [CHR 0xE8, CHR 0xAE,
           CHR 0xA4, CHR 0xE8, CHR 0xAF, CHR 0x81, CHR 0xE3, CHR 0x80, CHR 0x82])))))))"

section \<open>Binding\<close>

text \<open>What Telegram says of a chat and of a member; an error is its text.\<close>

record bot_profile =
  bp_id :: i64
  bp_is_bot :: bool
  bp_username :: "string option"

record telegram_chat_info =
  tci_id :: i64
  tci_chat_type :: string
  tci_is_forum :: bool
  tci_linked_chat_id :: "i64 option"
  tci_username :: "string option"

record chat_member_info =
  cmi_status :: string
  cmi_user :: bot_profile
  cmi_can_post_messages :: bool
  cmi_can_edit_messages :: bool
  cmi_can_delete_messages :: bool
  cmi_is_anonymous :: bool

record chat_queries =
  cq_chat :: "string \<Rightarrow> i64 \<Rightarrow> string + telegram_chat_info"
  cq_me :: "string \<Rightarrow> string + bot_profile"
  cq_member :: "string \<Rightarrow> i64 \<Rightarrow> i64 \<Rightarrow> string + chat_member_info"

definition group_linked :: "i64 \<Rightarrow> telegram_chat_info \<Rightarrow> bool" where
  "group_linked channel g \<longleftrightarrow> tci_chat_type g = ''supergroup'' \<and> tci_linked_chat_id g = Some channel
     \<and> \<not> tci_is_forum g \<and> tci_username g = None"

definition channel_linked :: "i64 \<Rightarrow> telegram_chat_info \<Rightarrow> bool" where
  "channel_linked chat c \<longleftrightarrow> tci_chat_type c = ''channel'' \<and> tci_linked_chat_id c = Some chat \<and> tci_username c = None"

definition may_publish :: "chat_member_info \<Rightarrow> bool" where
  "may_publish x \<longleftrightarrow> cmi_status x = ''administrator'' \<and> cmi_can_post_messages x \<and> cmi_can_edit_messages x"

definition may_delete :: "chat_member_info \<Rightarrow> bool" where
  "may_delete x \<longleftrightarrow> cmi_status x = ''administrator'' \<and> cmi_can_delete_messages x"

definition result_then :: "string + 'a \<Rightarrow> ('a \<Rightarrow> string + 'b) \<Rightarrow> string + 'b" where
  "result_then r f = (case r of Inl e \<Rightarrow> Inl e | Inr x \<Rightarrow> f x)"

definition bind_topology :: "chat_queries \<Rightarrow> string \<Rightarrow> string \<Rightarrow> i64 \<Rightarrow> i64 \<Rightarrow> i64 \<Rightarrow> string + unit" where
  "bind_topology q discussion control channel chat owner =
     result_then (cq_chat q discussion chat) (\<lambda>g.
     if \<not> group_linked channel g then Inl ([CHR 0xE5, CHR 0xBD, CHR 0x93, CHR 0xE5, CHR 0x89, CHR 0x8D, CHR 0xE7,
         CHR 0xBE, CHR 0xA4, CHR 0xE4, CHR 0xB8, CHR 0x8D, CHR 0xE6, CHR 0x98, CHR 0xAF, CHR 0xE5, CHR 0xB7, CHR 0xB2,
         CHR 0xE5, CHR 0x85, CHR 0xB3, CHR 0xE8, CHR 0x81, CHR 0x94, CHR 0xE9, CHR 0xA2, CHR 0x91, CHR 0xE9, CHR 0x81,
         CHR 0x93, CHR 0xE7, CHR 0x9A, CHR 0x84, CHR 0xE7, CHR 0xA7, CHR 0x81, CHR 0xE6, CHR 0x9C, CHR 0x89, CHR 0xE8,
         CHR 0xAE, CHR 0xA8, CHR 0xE8, CHR 0xAE, CHR 0xBA, CHR 0xE8, CHR 0xB6, CHR 0x85, CHR 0xE7, CHR 0xBA, CHR 0xA7,
         CHR 0xE7, CHR 0xBE, CHR 0xA4, CHR 0xEF, CHR 0xBC, CHR 0x8C, CHR 0xE6, CHR 0x88, CHR 0x96, CHR 0xE5, CHR 0x90,
         CHR 0xAF, CHR 0xE7, CHR 0x94, CHR 0xA8, CHR 0xE4, CHR 0xBA, CHR 0x86] @ '' Forum Topics'' @ [CHR 0xE3,
         CHR 0x80, CHR 0x82]) else
     result_then (cq_chat q control channel) (\<lambda>c.
     if \<not> channel_linked chat c then Inl [CHR 0xE5, CHR 0x85, CHR 0xB3, CHR 0xE8, CHR 0x81, CHR 0x94, CHR 0xE9,
         CHR 0xA2, CHR 0x91, CHR 0xE9, CHR 0x81, CHR 0x93, CHR 0xE5, CHR 0xBF, CHR 0x85, CHR 0xE9, CHR 0xA1, CHR 0xBB,
         CHR 0xE6, CHR 0x98, CHR 0xAF, CHR 0xE4, CHR 0xB8, CHR 0x8E, CHR 0xE8, CHR 0xAE, CHR 0xA8, CHR 0xE8, CHR 0xAE,
         CHR 0xBA, CHR 0xE7, CHR 0xBB, CHR 0x84, CHR 0xE5, CHR 0x8F, CHR 0x8C, CHR 0xE5, CHR 0x90, CHR 0x91, CHR 0xE5,
         CHR 0x85, CHR 0xB3, CHR 0xE8, CHR 0x81, CHR 0x94, CHR 0xE7, CHR 0x9A, CHR 0x84, CHR 0xE7, CHR 0xA7, CHR 0x81,
         CHR 0xE6, CHR 0x9C, CHR 0x89, CHR 0xE9, CHR 0xA2, CHR 0x91, CHR 0xE9, CHR 0x81, CHR 0x93, CHR 0xE3, CHR 0x80,
         CHR 0x82] else
     result_then (cq_me q control) (\<lambda>control_me.
     result_then (cq_me q discussion) (\<lambda>discussion_me.
     result_then (cq_member q control channel (bp_id control_me)) (\<lambda>x.
     if \<not> may_publish x then Inl (''Control Bot '' @ [CHR 0xE4, CHR 0xB8, CHR 0x8D, CHR 0xE6, CHR 0x98, CHR 0xAF,
         CHR 0xE9, CHR 0xA2, CHR 0x91, CHR 0xE9, CHR 0x81, CHR 0x93, CHR 0xE7, CHR 0xAE, CHR 0xA1, CHR 0xE7, CHR 0x90,
         CHR 0x86, CHR 0xE5, CHR 0x91, CHR 0x98, CHR 0xEF, CHR 0xBC, CHR 0x8C, CHR 0xE6, CHR 0x88, CHR 0x96, CHR 0xE7,
         CHR 0xBC, CHR 0xBA, CHR 0xE5, CHR 0xB0, CHR 0x91, CHR 0xE5, CHR 0x8F, CHR 0x91, CHR 0xE5, CHR 0xB8,
         CHR 0x83] @ ''/'' @ [CHR 0xE7, CHR 0xBC, CHR 0x96, CHR 0xE8, CHR 0xBE, CHR 0x91, CHR 0xE6, CHR 0xB6,
         CHR 0x88, CHR 0xE6, CHR 0x81, CHR 0xAF, CHR 0xE6, CHR 0x9D, CHR 0x83, CHR 0xE9, CHR 0x99, CHR 0x90, CHR 0xE3,
         CHR 0x80, CHR 0x82]) else
     result_then (cq_member q discussion chat (bp_id discussion_me)) (\<lambda>y.
     if \<not> may_delete y then Inl (''Discussion Bot '' @ [CHR 0xE4, CHR 0xB8, CHR 0x8D, CHR 0xE6, CHR 0x98,
         CHR 0xAF, CHR 0xE8, CHR 0xAE, CHR 0xA8, CHR 0xE8, CHR 0xAE, CHR 0xBA, CHR 0xE7, CHR 0xBB, CHR 0x84, CHR 0xE7,
         CHR 0xAE, CHR 0xA1, CHR 0xE7, CHR 0x90, CHR 0x86, CHR 0xE5, CHR 0x91, CHR 0x98, CHR 0xEF, CHR 0xBC, CHR 0x8C,
         CHR 0xE6, CHR 0x88, CHR 0x96, CHR 0xE7, CHR 0xBC, CHR 0xBA, CHR 0xE5, CHR 0xB0, CHR 0x91, CHR 0xE5, CHR 0x88,
         CHR 0xA0, CHR 0xE9, CHR 0x99, CHR 0xA4, CHR 0xE6, CHR 0xB6, CHR 0x88, CHR 0xE6, CHR 0x81, CHR 0xAF, CHR 0xE6,
         CHR 0x9D, CHR 0x83, CHR 0xE9, CHR 0x99, CHR 0x90, CHR 0xE3, CHR 0x80, CHR 0x82]) else
     result_then (cq_member q discussion chat owner) (\<lambda>z.
     if cmi_is_anonymous z then Inl (''owner '' @ [CHR 0xE7, CHR 0x9A, CHR 0x84, CHR 0xE5, CHR 0x8C, CHR 0xBF,
         CHR 0xE5, CHR 0x90, CHR 0x8D, CHR 0xE7, CHR 0xAE, CHR 0xA1, CHR 0xE7, CHR 0x90, CHR 0x86, CHR 0xE5, CHR 0x91,
         CHR 0x98, CHR 0xE6, CHR 0xA8, CHR 0xA1, CHR 0xE5, CHR 0xBC, CHR 0x8F, CHR 0xE5, CHR 0xBF, CHR 0x85, CHR 0xE9,
         CHR 0xA1, CHR 0xBB, CHR 0xE5, CHR 0x85, CHR 0xB3, CHR 0xE9, CHR 0x97, CHR 0xAD, CHR 0xE3, CHR 0x80,
         CHR 0x82]) else Inr ())))))))"

definition binding_record :: "'w runtime_env \<Rightarrow> i64 \<Rightarrow> i64 \<Rightarrow> json" where
  "binding_record env chat now = jobj [(''channel_chat_id'', JInt (re_channel_chat_id env)),
     (''discussion_chat_id'', JInt (re_discussion_chat_id env)), (''chat_id'', JInt chat), (''bound_at_ms'', JInt now)]"

definition handle_bind_command ::
  "'w runtime_env \<Rightarrow> pairing_config \<Rightarrow> chat_queries \<Rightarrow> string \<Rightarrow> i64 \<Rightarrow> i64 option \<Rightarrow> ('w, unit) task" where
  "handle_bind_command env pc q text chat actor =
     and_then (record_of env ''onboarding'' ''binding'') (\<lambda>binding.
     if binding \<noteq> None then tell_chat env chat [CHR 0xE8, CHR 0xAE, CHR 0xA8, CHR 0xE8, CHR 0xAE, CHR 0xBA,
         CHR 0xE7, CHR 0xBB, CHR 0x84, CHR 0xE5, CHR 0xB7, CHR 0xB2, CHR 0xE7, CHR 0xBB, CHR 0x8F, CHR 0xE7, CHR 0xBB,
         CHR 0x91, CHR 0xE5, CHR 0xAE, CHR 0x9A, CHR 0xE3, CHR 0x80, CHR 0x82] else
     and_then (record_of env ''onboarding'' ''owner'') (\<lambda>owner.
     if owner = None then tell_chat env chat ([CHR 0xE8, CHR 0xAF, CHR 0xB7, CHR 0xE5, CHR 0x85, CHR 0x88, CHR 0xE5,
         CHR 0x9C, CHR 0xA8] @ '' Control Bot '' @ [CHR 0xE7, CHR 0xA7, CHR 0x81, CHR 0xE8, CHR 0x81, CHR 0x8A,
         CHR 0xE5, CHR 0xAE, CHR 0x8C, CHR 0xE6, CHR 0x88, CHR 0x90] @ '' owner '' @ [CHR 0xE9, CHR 0x85, CHR 0x8D,
         CHR 0xE5, CHR 0xAF, CHR 0xB9, CHR 0xE3, CHR 0x80, CHR 0x82]) else
     and_then (record_of env ''onboarding'' ''owner'') (\<lambda>owner1.
     case (Option.bind owner1 (ji64 ''user_id''), actor) of
       (Some user, Some user1) \<Rightarrow> if user1 \<noteq> user then tell_chat env chat [CHR 0xE7, CHR 0xBB,
           CHR 0x91, CHR 0xE5, CHR 0xAE, CHR 0x9A, CHR 0xE8, CHR 0xAF, CHR 0xB7, CHR 0xE6, CHR 0xB1, CHR 0x82,
           CHR 0xE6, CHR 0x9C, CHR 0xAA, CHR 0xE8, CHR 0x8E, CHR 0xB7, CHR 0xE6, CHR 0x8E, CHR 0x88, CHR 0xE6,
           CHR 0x9D, CHR 0x83, CHR 0xEF, CHR 0xBC, CHR 0x9B, CHR 0xE8, CHR 0xAF, CHR 0xB7, CHR 0xE4, CHR 0xBD,
           CHR 0xBF, CHR 0xE7, CHR 0x94, CHR 0xA8, CHR 0xE5, CHR 0xB7, CHR 0xB2, CHR 0xE9, CHR 0x85, CHR 0x8D,
           CHR 0xE5, CHR 0xAF, CHR 0xB9, CHR 0xE7, CHR 0x9A, CHR 0x84, CHR 0xE4, CHR 0xB8, CHR 0xAA, CHR 0xE4,
           CHR 0xBA, CHR 0xBA, CHR 0xE8, CHR 0xB4, CHR 0xA6, CHR 0xE5, CHR 0x8F, CHR 0xB7, CHR 0xE5, CHR 0x8F,
           CHR 0x91, CHR 0xE9, CHR 0x80, CHR 0x81, CHR 0xE3, CHR 0x80, CHR 0x82]
         else let code = new_command_arguments text in
         if code = [] then tell_chat env chat ([CHR 0xE7, CHR 0x94, CHR 0xA8, CHR 0xE6, CHR 0xB3, CHR 0x95, CHR 0xEF,
             CHR 0xBC, CHR 0x9A] @ ''/bind <'' @ [CHR 0xE6, CHR 0x9C, CHR 0xAC, CHR 0xE6, CHR 0x9C, CHR 0xBA]
             @ '' bind code>'') else
         (case find (\<lambda>(inst, role). role = RoleControl) (pa_bots pc) of
            None \<Rightarrow> tell_chat env chat (''Control Bot '' @ [CHR 0xE4, CHR 0xB8, CHR 0x8D, CHR 0xE5,
                CHR 0x8F, CHR 0xAF, CHR 0xE7, CHR 0x94, CHR 0xA8, CHR 0xEF, CHR 0xBC, CHR 0x8C, CHR 0xE6, CHR 0x9A,
                CHR 0x82, CHR 0xE6, CHR 0x97, CHR 0xB6, CHR 0xE6, CHR 0x97, CHR 0xA0, CHR 0xE6, CHR 0xB3, CHR 0x95,
                CHR 0xE6, CHR 0xA0, CHR 0xA1, CHR 0xE9, CHR 0xAA, CHR 0x8C, CHR 0xE9, CHR 0xA2, CHR 0x91, CHR 0xE9,
                CHR 0x81, CHR 0x93, CHR 0xE6, CHR 0x8B, CHR 0x93, CHR 0xE6, CHR 0x89, CHR 0x91, CHR 0xE3, CHR 0x80,
                CHR 0x82])
          | Some (control, _) \<Rightarrow> (case bind_topology q (re_bot env) control (re_channel_chat_id env) chat user of
              Inl e \<Rightarrow> tell_chat env chat e
            | Inr _ \<Rightarrow>
              and_then (consume_onboarding_code env ''bind'' code) (\<lambda>ok.
              if \<not> ok then tell_chat env chat (''bind code '' @ [CHR 0xE6, CHR 0x97, CHR 0xA0, CHR 0xE6,
                  CHR 0x95, CHR 0x88, CHR 0xE3, CHR 0x80, CHR 0x81, CHR 0xE8, CHR 0xBF, CHR 0x87, CHR 0xE6, CHR 0x9C,
                  CHR 0x9F, CHR 0xE6, CHR 0x88, CHR 0x96, CHR 0xE5, CHR 0xB0, CHR 0x9D, CHR 0xE8, CHR 0xAF, CHR 0x95,
                  CHR 0xE6, CHR 0xAC, CHR 0xA1, CHR 0xE6, CHR 0x95, CHR 0xB0, CHR 0xE8, CHR 0xBF, CHR 0x87, CHR 0xE5,
                  CHR 0xA4, CHR 0x9A, CHR 0xE3, CHR 0x80, CHR 0x82]) else
              and_then (reading_clock env) (\<lambda>now.
              and_then (put_record env ''onboarding'' ''binding'' (binding_record env chat now)) (\<lambda>_.
              and_then (refresh_command_menus env pc) (\<lambda>_.
              tell_chat env chat [CHR 0xE9, CHR 0xA2, CHR 0x91, CHR 0xE9, CHR 0x81, CHR 0x93, CHR 0xE4, CHR 0xB8,
                  CHR 0x8E, CHR 0xE8, CHR 0xAE, CHR 0xA8, CHR 0xE8, CHR 0xAE, CHR 0xBA, CHR 0xE7, CHR 0xBB, CHR 0x84,
                  CHR 0xE7, CHR 0xBB, CHR 0x91, CHR 0xE5, CHR 0xAE, CHR 0x9A, CHR 0xE6, CHR 0x88, CHR 0x90, CHR 0xE5,
                  CHR 0x8A, CHR 0x9F, CHR 0xE3, CHR 0x80, CHR 0x82]))))))
     | _ \<Rightarrow> tell_chat env chat [CHR 0xE7, CHR 0xBB, CHR 0x91, CHR 0xE5, CHR 0xAE, CHR 0x9A, CHR 0xE8,
         CHR 0xAF, CHR 0xB7, CHR 0xE6, CHR 0xB1, CHR 0x82, CHR 0xE6, CHR 0x9C, CHR 0xAA, CHR 0xE8, CHR 0x8E, CHR 0xB7,
         CHR 0xE6, CHR 0x8E, CHR 0x88, CHR 0xE6, CHR 0x9D, CHR 0x83, CHR 0xEF, CHR 0xBC, CHR 0x9B, CHR 0xE8, CHR 0xAF,
         CHR 0xB7, CHR 0xE4, CHR 0xBD, CHR 0xBF, CHR 0xE7, CHR 0x94, CHR 0xA8, CHR 0xE5, CHR 0xB7, CHR 0xB2, CHR 0xE9,
         CHR 0x85, CHR 0x8D, CHR 0xE5, CHR 0xAF, CHR 0xB9, CHR 0xE7, CHR 0x9A, CHR 0x84, CHR 0xE4, CHR 0xB8, CHR 0xAA,
         CHR 0xE4, CHR 0xBA, CHR 0xBA, CHR 0xE8, CHR 0xB4, CHR 0xA6, CHR 0xE5, CHR 0x8F, CHR 0xB7, CHR 0xE5, CHR 0x8F,
         CHR 0x91, CHR 0xE9, CHR 0x80, CHR 0x81, CHR 0xE3, CHR 0x80, CHR 0x82])))"

section \<open>The reset of the owner\<close>

text \<open>\<open>owner-reset --yes\<close> on the machine itself, on the records and the state of the write lock.\<close>

definition owner_reset :: "space_db \<times> security_db \<Rightarrow> unit port_result \<times> space_db \<times> security_db" where
  "owner_reset w = (case w of (db, sec) \<Rightarrow>
     let db1 = snd (delete_workflow_record ''onboarding'' ''owner'' db);
         db2 = snd (delete_workflow_record ''onboarding'' ''binding'' db1) in
     case lock_totp sec of (r, sec1) \<Rightarrow> (r, db2, sec1))"

end
