(* ===== verification/OnboardingProps.thy ===== *)
theory OnboardingProps
  imports Onboarding RecordLaws
begin

text \<open>
  What the model of pairing shows: the owner is who first sent the code that the machine printed, a code
  opens once, and five refused attempts close it.
\<close>

section \<open>The comparison of digests\<close>

lemma or_word_0: "d OR x = (0 :: 8 word) \<longleftrightarrow> d = 0 \<and> x = 0"
  by (simp add: or_eq_0_iff)

lemma xor_word_0: "a XOR b = (0 :: 8 word) \<longleftrightarrow> a = b"
  by (metis xor.assoc xor.right_neutral xor_self_eq)

lemma gathered_difference:
  "foldl (\<lambda>d (a, b). d OR (a XOR b)) d zs = (0 :: 8 word) \<longleftrightarrow> d = 0 \<and> (\<forall>(a, b) \<in> set zs. a = b)"
  by (induction zs arbitrary: d) (auto simp: or_word_0 xor_word_0)

lemma unat_of_char: "unat (of_char c :: 8 word) = of_char c"
proof -
  have "unat (of_char c :: 8 word) = unat (of_nat (of_char c) :: 8 word)" by (simp only: of_nat_of_char)
  also have "\<dots> = of_char c mod 256" by (simp add: unat_of_nat)
  finally show ?thesis by simp
qed

lemma same_bytes: "length l = length r \<Longrightarrow> (\<forall>(a, b) \<in> set (zip (map of_char l) (map of_char r)). a = (b :: 8 word)) \<longleftrightarrow> l = r"
  by (induction l r rule: list_induct2) (auto, metis unat_of_char of_char_eq_iff)

text \<open>The comparison that always looks at every byte is equality.\<close>

lemma constant_time_equal_eq: "constant_time_equal l r \<longleftrightarrow> l = r"
  by (cases "length l = length r") (auto simp: constant_time_equal_def gathered_difference same_bytes)

lemma view_helpers: "stays (keeps_view env) (tell_chat env' chat text)" "stays (keeps_view env) (refresh_command_menus env pc)"
  unfolding tell_chat_def send_text_task_def send_text_message_def refresh_command_menus_def known_record_def
  by (intro viewing.stays_rules view_basic)+

section \<open>A code that is tried\<close>

definition code_expires :: "json \<Rightarrow> i64" where
  "code_expires v = unwrap_or (ji64 ''expires_at_ms'' v) 0"

definition code_failures :: "json \<Rightarrow> nat" where
  "code_failures v = unwrap_or (Option.bind (jget ''failures'' v) as_u64) 0"

text \<open>The record can be tried at the time, and the code is the one it was made for.\<close>

definition code_open :: "json \<Rightarrow> i64 \<Rightarrow> bool" where
  "code_open v now \<longleftrightarrow> now \<le> code_expires v \<and> code_failures v < 5"

definition code_fits :: "'w runtime_env \<Rightarrow> json \<Rightarrow> string \<Rightarrow> bool" where
  "code_fits env v code \<longleftrightarrow> jstr ''sha256'' v = Some (re_sha256_hex env (trim code)) \<and> re_sha256_hex env (trim code) \<noteq> []"

text \<open>What a trial of a code does: it opens and the record is gone, it is counted, or nothing changes.\<close>

lemma consume_cases:
  assumes run: "consume_onboarding_code env kind code w = (r, w1)" and reads: "reads_back_json (re_ser env) (re_de env)"
  shows "(\<exists>v. record_view env w (''onboarding_code'',
      kind) = Inr (Some v) \<and> code_open v (re_now env (rt_clock w)) \<and> code_fits env v code
        \<and> r = Inr True \<and> record_view env w1 = (record_view env w)((''onboarding_code'', kind) := Inr None))
    \<or> (\<exists>v v1. record_view env w (''onboarding_code'',
        kind) = Inr (Some v) \<and> code_open v (re_now env (rt_clock w)) \<and> \<not> code_fits env v code
        \<and> jset ''failures'' (JInt (min (int (code_failures v) + 1) 18446744073709551615)) v = Some v1
        \<and> r = Inr False \<and> record_view env w1 = (record_view env w)((''onboarding_code'', kind) := Inr (Some v1)))
    \<or> r \<noteq> Inr True \<and> record_view env w1 = record_view env w
        \<and> (r = Inr False \<longrightarrow> record_view env w (''onboarding_code'', kind) = Inr None
             \<or> (\<exists>v. record_view env w (''onboarding_code'',
                 kind) = Inr (Some v) \<and> \<not> code_open v (re_now env (rt_clock w))))"
proof (cases "record_view env w (''onboarding_code'', kind)")
  case (Inl e)
  with run show ?thesis by (auto simp: consume_onboarding_code_def and_then_def record_of_run port_str_def)
next
  case (Inr found)
  show ?thesis
  proof (cases found)
    case None
    with run Inr show ?thesis by (auto simp: consume_onboarding_code_def and_then_def record_of_run port_str_def act_ok_def)
  next
    case (Some v)
    let ?now = "re_now env (rt_clock w)" and ?w = "w\<lparr>rt_clock := Suc (rt_clock w)\<rparr>"
    have same: "record_view env ?w = record_view env w" by (simp add: record_view_def)
    have start: "consume_onboarding_code env kind code w =
      (if \<not> code_open v ?now then act_ok False
       else if \<not> code_fits env v code then
         and_then (put_field ''failures'' (JInt (min (int (code_failures v) + 1) 18446744073709551615)) v) (\<lambda>v1.
         and_then (write_record env ''onboarding_code'' kind v1 ?now) (\<lambda>_. act_ok False))
       else and_then (with_spaces (delete_workflow_record ''onboarding_code'' kind)) (\<lambda>_. act_ok True)) ?w"
      using Inr Some by (cases "jstr ''sha256'' v") (auto simp: consume_onboarding_code_def and_then_def [of "record_of env k1 k2" for k1 k2]
          and_then_def [of "reading_clock env"] record_of_run port_str_def reading_clock_def Let_def constant_time_equal_eq
          code_open_def code_expires_def code_failures_def code_fits_def split: option.splits)
    consider (shut) "\<not> code_open v ?now" | (wrong) "code_open v ?now" "\<not> code_fits env v code" | (fits) "code_open v ?now" "code_fits env v code"
      by blast
    then show ?thesis
    proof cases
      case shut
      with start run same Inr Some show ?thesis by (auto simp: act_ok_def)
    next
      case fits
      with start run Inr Some delete_view [of env "''onboarding_code''" kind ?w] same show ?thesis
        by (auto simp: and_then_run act_ok_def with_spaces_run delete_workflow_record_def Let_def port_str_def)
    next
      case wrong
      let ?f = "JInt (min (int (code_failures v) + 1) 18446744073709551615)"
      show ?thesis
      proof (cases "jset ''failures'' ?f v")
        case None
        with wrong start run same show ?thesis by (auto simp: and_then_run put_field_def act_err_def)
      next
        case (Some v1)
        obtain r2 w2 where written: "write_record env ''onboarding_code'' kind v1 ?now ?w = (r2, w2)" by force
        with wrong Some start run have "(r, w1) = (case r2 of Inl e \<Rightarrow> (Inl e, w2) | Inr _ \<Rightarrow> (Inr False, w2))"
          by (auto simp: and_then_run put_field_def act_ok_def split: sum.splits)
        with write_view [OF written reads] same wrong Some Inr \<open>found = Some v\<close> show ?thesis by auto
      qed
    qed
  qed
qed

section \<open>Five refusals\<close>

definition ticks :: "'w runtime \<Rightarrow> 'w runtime \<Rightarrow> bool" where
  "ticks w w1 \<longleftrightarrow> rt_clock w \<le> rt_clock w1"

interpretation ticking: handler_relation ticks
  by unfold_locales (simp_all add: ticks_def)

lemma ticks_basic: "stays ticks (reading_clock env)" "stays ticks (with_spaces f)"
  by (simp_all add: stays_def ticks_def reading_clock_def with_spaces_run)

lemma consume_ticks: "stays ticks (consume_onboarding_code env kind code)"
  unfolding consume_onboarding_code_def record_of_def write_record_def
  by (intro ticking.stays_rules ticks_basic)

text \<open>Attempts in a row that are all refused, without an error.\<close>

fun refused_codes :: "'w runtime_env \<Rightarrow> string \<Rightarrow> string list \<Rightarrow> 'w runtime \<Rightarrow> 'w runtime option" where
  "refused_codes env kind [] w = Some w"
| "refused_codes env kind (code # codes) w = (case consume_onboarding_code env kind code w of
     (Inr False, w1) \<Rightarrow> refused_codes env kind codes w1 | _ \<Rightarrow> None)"

definition refused_times :: "'w runtime_env \<Rightarrow> string \<Rightarrow> nat \<Rightarrow> 'w runtime \<Rightarrow> bool" where
  "refused_times env kind n w \<longleftrightarrow> (\<forall>v. record_view env w (''onboarding_code'', kind) = Inr (Some v)
     \<longrightarrow> code_expires v < re_now env (rt_clock w) \<or> min n 5 \<le> code_failures v)"

lemma counted_failures: "jset ''failures'' (JInt (min (int k + 1) 18446744073709551615)) v = Some v1
    \<Longrightarrow> code_failures v1 = nat (min (int k + 1) 18446744073709551615) \<and> code_expires v1 = code_expires v"
  by (simp add: code_failures_def code_expires_def ji64_def jset_get as_u64_def)

lemma refused_step:
  assumes run: "consume_onboarding_code env kind code w = (Inr False,
      w1)" and reads: "reads_back_json (re_ser env) (re_de env)"
    and mono: "mono (re_now env)" and n: "refused_times env kind n w"
  shows "refused_times env kind (Suc n) w1"
proof -
  have "rt_clock w \<le> rt_clock w1" using staysD [OF consume_ticks, of w env kind code] run by (simp add: ticks_def)
  then have now: "re_now env (rt_clock w) \<le> re_now env (rt_clock w1)" using mono by (rule monoD [rotated])
  from consume_cases [OF run reads] show ?thesis
  proof (elim disjE exE conjE)
    fix v v1 assume v: "record_view env w (''onboarding_code'',
        kind) = Inr (Some v)" "code_open v (re_now env (rt_clock w))"
      "jset ''failures'' (JInt (min (int (code_failures v) + 1) 18446744073709551615)) v = Some v1"
      "record_view env w1 = (record_view env w)((''onboarding_code'', kind) := Inr (Some v1))"
    from n v(1,2) have "min n 5 \<le> code_failures v" by (auto simp: refused_times_def code_open_def)
    with counted_failures [OF v(3)] v(4) show ?thesis by (auto simp: refused_times_def)
  qed (use n now in \<open>auto simp: refused_times_def code_open_def\<close>)
qed

lemma refused_run:
  assumes "refused_codes env kind codes w = Some w1" "reads_back_json (re_ser env) (re_de env)" "mono (re_now env)" "refused_times env kind n w"
  shows "refused_times env kind (n + length codes) w1"
  using assms(1,4)
proof (induction codes arbitrary: w n)
  case (Cons code codes)
  from Cons.prems(1) obtain w2 where w2: "consume_onboarding_code env kind code w = (Inr False,
      w2)" "refused_codes env kind codes w2 = Some w1"
    by (auto split: prod.splits sum.splits bool.splits)
  from Cons.IH [OF w2(2) refused_step [OF w2(1) assms(2,3) Cons.prems(2)]] show ?case by simp
qed simp

text \<open>
  C24. Five wrong guesses end a code. After five attempts in a row that were refused, whatever was sent,
  the code of the machine opens nothing any more, even the right one. The attempts are counted in the
  store, so a restart does not help; time does not run backwards, and what the store writes it reads back.
\<close>

theorem five_refusals_end_a_code:
  assumes "refused_codes env kind codes w = Some w1" and "5 \<le> length codes"
    and "reads_back_json (re_ser env) (re_de env)" and "mono (re_now env)"
  shows "fst (consume_onboarding_code env kind code w1) \<noteq> Inr True"
proof -
  have "refused_times env kind (0 + length codes) w1"
    by (rule refused_run [OF assms(1,3,4)]) (simp add: refused_times_def)
  moreover obtain r w2 where run: "consume_onboarding_code env kind code w1 = (r, w2)" by force
  ultimately show ?thesis
    using consume_cases [OF run assms(3)] assms(2) by (auto simp: refused_times_def code_open_def)
qed

section \<open>Pairing\<close>

text \<open>The part of a handler after its code has opened: one record is written, and people are told.\<close>

lemma record_then_told:
  assumes "and_then (reading_clock env) (\<lambda>now. and_then (put_record env kind key (f now)) (\<lambda>_.
      and_then (refresh_command_menus env pc) (\<lambda>_. tell_chat env chat text))) w = (r, w1)"
    and "reads_back_json (re_ser env) (re_de env)"
  shows "record_view env w1 = record_view env w
    \<or> record_view env w1 = (record_view env w)((kind, key) := Inr (Some (f (re_now env (rt_clock w)))))"
proof -
  let ?v = "f (re_now env (rt_clock w))" and ?w = "w\<lparr>rt_clock := Suc (rt_clock w)\<rparr>"
  let ?rest = "and_then (refresh_command_menus env pc) (\<lambda>_. tell_chat env chat text)"
  obtain r2 w2 where put: "put_record env kind key ?v ?w = (r2, w2)" by force
  have "record_view env (snd (?rest w2)) = record_view env w2"
    by (rule viewD [of env ?rest w2 "fst (?rest w2)"]) (intro viewing.stays_and_then view_helpers, simp)
  moreover have "w1 = (case r2 of Inl e \<Rightarrow> w2 | Inr _ \<Rightarrow> snd (?rest w2))"
    using assms(1) put by (auto simp: and_then_run [of "reading_clock env"] and_then_run [of "put_record env kind key ?v"] reading_clock_def
        split: sum.splits)
  moreover have "record_view env ?w = record_view env w" by (simp add: record_view_def)
  ultimately show ?thesis using put_record_view [OF put assms(2)] by (auto split: sum.splits)
qed

abbreviation owner_key :: "string \<times> string" where "owner_key \<equiv> (''onboarding'', ''owner'')"
abbreviation pair_code :: "string \<times> string" where "pair_code \<equiv> (''onboarding_code'', ''pair'')"

lemma pair_cases:
  assumes run: "handle_pair_command env pc text chat actor w = (r,
      w1)" and reads: "reads_back_json (re_ser env) (re_de env)"
  shows "record_view env w1 = record_view env w
    \<or> (\<exists>v v1. record_view env w pair_code = Inr (Some v) \<and> jstr ''sha256'' v1 = jstr ''sha256'' v
        \<and> record_view env w1 = (record_view env w)(pair_code := Inr (Some v1)))
    \<or> (\<exists>user v. actor = Some user \<and> record_view env w owner_key = Inr None \<and> record_view env w pair_code = Inr (Some v)
        \<and> code_fits env v (new_command_arguments text) \<and> (record_view env w1 = (record_view env w)(pair_code := Inr None)
          \<or> (\<exists>t. record_view env w1 = (record_view env w)(pair_code := Inr None,
              owner_key := Inr (Some (owner_record chat user t))))))"
proof (cases "actor = None \<or> record_view env w owner_key \<noteq> Inr None \<or> new_command_arguments text = []")
  case True
  then have "handle_pair_command env pc text chat actor w = (fst (handle_pair_command env pc text chat actor w), w)
      \<or> (\<exists>t. handle_pair_command env pc text chat actor w = tell_chat env chat t w)"
    by (cases "record_view env w owner_key")
      (auto simp: handle_pair_command_def and_then_run record_of_run port_str_def Let_def split: option.splits)
  with run viewD [OF view_helpers(1)] show ?thesis by fastforce
next
  case False
  then obtain user where actor: "actor = Some user" by auto
  obtain r2 w2 where code: "consume_onboarding_code env ''pair'' (new_command_arguments text) w = (r2, w2)" by force
  let ?rest = "and_then (reading_clock env) (\<lambda>now. and_then (put_record env ''onboarding'' ''owner'' (owner_record chat user now)) (\<lambda>_.
     and_then (refresh_command_menus env pc) (\<lambda>_. tell_chat env chat ([CHR 0xE9, CHR 0x85, CHR 0x8D, CHR 0xE5,
         CHR 0xAF, CHR 0xB9, CHR 0xE6, CHR 0x88, CHR 0x90, CHR 0xE5, CHR 0x8A, CHR 0x9F, CHR 0xE3, CHR 0x80,
         CHR 0x82] @ ''Session '' @ [CHR 0xE5, CHR 0x86, CHR 0x99, CHR 0xE6, CHR 0x93, CHR 0x8D, CHR 0xE4, CHR 0xBD,
         CHR 0x9C, CHR 0xE5, CHR 0x9C, CHR 0xA8, CHR 0xE8, CHR 0xAF, CHR 0x84, CHR 0xE8, CHR 0xAE, CHR 0xBA, CHR 0xE4,
         CHR 0xB8, CHR 0xB2, CHR 0xE5, CHR 0x86, CHR 0x85, CHR 0xE4, CHR 0xBD, CHR 0xBF, CHR 0xE7, CHR 0x94,
         CHR 0xA8] @ '' TOTP '' @ [CHR 0xE8, CHR 0xAE, CHR 0xA4, CHR 0xE8, CHR 0xAF, CHR 0x81, CHR 0xE3, CHR 0x80,
         CHR 0x82]))))"
  have "handle_pair_command env pc text chat actor w = (case r2 of Inl e \<Rightarrow> (Inl e, w2)
      | Inr ok \<Rightarrow> if \<not> ok then tell_chat env chat [CHR 0xE9, CHR 0x85, CHR 0x8D, CHR 0xE5, CHR 0xAF,
          CHR 0xB9, CHR 0xE7, CHR 0xA0, CHR 0x81, CHR 0xE6, CHR 0x97, CHR 0xA0, CHR 0xE6, CHR 0x95, CHR 0x88,
          CHR 0xE3, CHR 0x80, CHR 0x81, CHR 0xE8, CHR 0xBF, CHR 0x87, CHR 0xE6, CHR 0x9C, CHR 0x9F, CHR 0xE6,
          CHR 0x88, CHR 0x96, CHR 0xE5, CHR 0xB0, CHR 0x9D, CHR 0xE8, CHR 0xAF, CHR 0x95, CHR 0xE6, CHR 0xAC,
          CHR 0xA1, CHR 0xE6, CHR 0x95, CHR 0xB0, CHR 0xE8, CHR 0xBF, CHR 0x87, CHR 0xE5, CHR 0xA4, CHR 0x9A,
          CHR 0xE3, CHR 0x80, CHR 0x82] w2 else ?rest w2)"
    using False actor code by (simp add: handle_pair_command_def and_then_run [of "record_of env k1 k2" for k1 k2]
        and_then_run [of "consume_onboarding_code env k c" for k c] record_of_run port_str_def Let_def split: sum.split)
  then have w1: "record_view env w1 = record_view env w2 \<and> r2 \<noteq> Inr True \<or> r2 = Inr True \<and> ?rest w2 = (r, w1)"
    using run viewD [OF view_helpers(1), of env chat _ w2 r w1] by (auto split: sum.splits if_splits)
  from consume_cases [OF code reads] show ?thesis
  proof (elim disjE exE conjE)
    fix v assume v: "record_view env w pair_code = Inr (Some v)" "code_fits env v (new_command_arguments text)"
      "record_view env w2 = (record_view env w)(pair_code := Inr None)" "r2 = Inr True"
    with w1 record_then_told [OF _ reads, of "''onboarding''" "''owner''" "owner_record chat user" pc chat _ w2 r w1]
    have "record_view env w1 = record_view env w2 \<or> record_view env w1 = (record_view env w2)(owner_key := Inr (Some (owner_record chat user (re_now env (rt_clock w2)))))"
      by blast
    with v actor False show ?thesis by (intro disjI2 exI [of _ user] exI [of _ v]) auto
  next
    fix v v1 assume "record_view env w pair_code = Inr (Some v)" "record_view env w2 = (record_view env w)(pair_code := Inr (Some v1))"
      "jset ''failures'' (JInt (min (int (code_failures v) + 1) 18446744073709551615)) v = Some v1" "r2 = Inr False"
    with w1 show ?thesis by (intro disjI2 disjI1 exI [of _ v] exI [of _ v1]) (auto simp: jstr_def jset_get)
  next
    assume "r2 \<noteq> Inr True" "record_view env w2 = record_view env w"
    with w1 show ?thesis by auto
  qed
qed

definition keeps_pairing :: "'w runtime_env \<Rightarrow> 'w runtime \<Rightarrow> 'w runtime \<Rightarrow> bool" where
  "keeps_pairing env w w1 \<longleftrightarrow> record_view env w1 owner_key = record_view env w owner_key
     \<and> record_view env w1 pair_code = record_view env w pair_code"

interpretation unpaired: handler_relation "keeps_pairing env" for env
  by unfold_locales (simp_all add: keeps_pairing_def)

lemma pairing_view: "stays (keeps_view env) m \<Longrightarrow> stays (keeps_pairing env) m"
  by (simp add: stays_def keeps_view_def keeps_pairing_def)

lemma pairing_consume:
  assumes "kind \<noteq> ''pair''" and "reads_back_json (re_ser env) (re_de env)"
  shows "stays (keeps_pairing env) (consume_onboarding_code env kind code)"
  unfolding stays_def
proof
  fix w
  obtain r w1 where run: "consume_onboarding_code env kind code w = (r, w1)" by force
  with consume_cases [OF run assms(2)] assms(1) show "keeps_pairing env w (snd (consume_onboarding_code env kind code w))"
    by (auto simp: keeps_pairing_def)
qed

lemma pairing_put:
  assumes "(kind, key) \<notin> {owner_key, pair_code}" and "reads_back_json (re_ser env) (re_de env)"
  shows "stays (keeps_pairing env) (put_record env kind key v)"
  unfolding stays_def
proof
  fix w
  obtain r w1 where run: "put_record env kind key v w = (r, w1)" by force
  with put_record_view [OF run assms(2)] assms(1) show "keeps_pairing env w (snd (put_record env kind key v w))"
    by (auto simp: keeps_pairing_def)
qed

text \<open>\<open>/bind\<close> leaves the owner and the code of the pairing alone.\<close>

lemma bind_keeps_pairing:
  assumes "reads_back_json (re_ser env) (re_de env)"
  shows "stays (keeps_pairing env) (handle_bind_command env pc q text chat actor)"
  unfolding handle_bind_command_def
  by (intro unpaired.stays_rules pairing_view [OF view_basic(1)] pairing_view [OF view_basic(3)] pairing_view [OF view_helpers(1)]
      pairing_view [OF view_helpers(2)] pairing_consume pairing_put assms) simp_all

section \<open>Runs of pairing and binding\<close>

datatype pairing_op =
    PaPair string i64 "i64 option"
  | PaBind chat_queries string i64 "i64 option"

definition pairing_step :: "'w runtime_env \<Rightarrow> pairing_config \<Rightarrow> pairing_op \<Rightarrow> 'w runtime \<Rightarrow> 'w runtime" where
  "pairing_step env pc op w = (case op of
     PaPair text chat actor \<Rightarrow> snd (handle_pair_command env pc text chat actor w)
   | PaBind q text chat actor \<Rightarrow> snd (handle_bind_command env pc q text chat actor w))"

text \<open>Nobody is paired and the code can only be the one printed; or the sender of that code is the owner and the code is gone.\<close>

definition paired_by :: "'w runtime_env \<Rightarrow> json \<Rightarrow> pairing_op list \<Rightarrow> 'w runtime \<Rightarrow> bool" where
  "paired_by env printed ops w \<longleftrightarrow> record_view env w pair_code = Inr None
     \<and> (\<exists>text chat user t. PaPair text chat (Some user) \<in> set ops \<and> code_fits env printed (new_command_arguments text)
          \<and> record_view env w owner_key = Inr (Some (owner_record chat user t)))"

definition unpaired_yet :: "'w runtime_env \<Rightarrow> json \<Rightarrow> 'w runtime \<Rightarrow> bool" where
  "unpaired_yet env printed w \<longleftrightarrow> record_view env w owner_key = Inr None
     \<and> (record_view env w pair_code = Inr None
        \<or> (\<exists>v. record_view env w pair_code = Inr (Some v) \<and> jstr ''sha256'' v = jstr ''sha256'' printed))"

lemma pairing_op_step:
  assumes inv: "unpaired_yet env printed w \<or> paired_by env printed ops w" and "op \<in> set ops"
    and reads: "reads_back_json (re_ser env) (re_de env)"
  shows "unpaired_yet env printed (pairing_step env pc op w) \<or> paired_by env printed ops (pairing_step env pc op w)"
proof (cases op)
  case (PaBind q m chat actor)
  with staysD [OF bind_keeps_pairing [OF reads], of w pc q m chat actor] inv show ?thesis
    by (simp add: pairing_step_def unpaired_yet_def paired_by_def keeps_pairing_def)
next
  case (PaPair m chat actor)
  obtain r w1 where run: "handle_pair_command env pc m chat actor w = (r, w1)" by force
  then have step: "pairing_step env pc op w = w1" by (simp add: pairing_step_def PaPair)
  from pair_cases [OF run reads] show ?thesis
  proof (elim disjE exE conjE)
    assume "record_view env w1 = record_view env w"
    with inv step show ?thesis by (simp add: unpaired_yet_def paired_by_def)
  next
    fix v v1 assume "record_view env w pair_code = Inr (Some v)" "jstr ''sha256'' v1 = jstr ''sha256'' v"
      "record_view env w1 = (record_view env w)(pair_code := Inr (Some v1))"
    with inv step show ?thesis by (auto simp: unpaired_yet_def paired_by_def)
  next
    fix user v assume "record_view env w owner_key = Inr None" "record_view env w1 = (record_view env w)(pair_code := Inr None)"
    with inv step show ?thesis by (auto simp: unpaired_yet_def paired_by_def)
  next
    fix user v t assume *: "actor = Some user" "record_view env w owner_key = Inr None" "record_view env w pair_code = Inr (Some v)"
      "code_fits env v (new_command_arguments m)"
      "record_view env w1 = (record_view env w)(pair_code := Inr None, owner_key := Inr (Some (owner_record chat user t)))"
    with inv have "code_fits env printed (new_command_arguments m)" by (auto simp: unpaired_yet_def paired_by_def code_fits_def)
    with * step assms(2) PaPair have "paired_by env printed ops w1" unfolding paired_by_def by fastforce
    with step show ?thesis by simp
  qed
qed

lemma pairing_run:
  assumes "unpaired_yet env printed w \<or> paired_by env printed ops w" "set ops' \<subseteq> set ops" "reads_back_json (re_ser env) (re_de env)"
  shows "unpaired_yet env printed (fold (pairing_step env pc) ops' w) \<or> paired_by env printed ops (fold (pairing_step env pc) ops' w)"
  using assms(1,2)
proof (induction ops' arbitrary: w)
  case (Cons op ops')
  from Cons.IH [OF pairing_op_step [OF Cons.prems(1) _ assms(3), of op pc]] Cons.prems(2) show ?case by simp
qed simp

lemma owner_stays_step:
  assumes "record_view env w owner_key = Inr (Some v)" and "reads_back_json (re_ser env) (re_de env)"
  shows "record_view env (pairing_step env pc op w) owner_key = Inr (Some v)"
proof (cases op)
  case (PaBind q m chat actor)
  with staysD [OF bind_keeps_pairing [OF assms(2)], of w pc q m chat actor] assms(1) show ?thesis
    by (simp add: pairing_step_def keeps_pairing_def)
next
  case (PaPair m chat actor)
  obtain r w1 where run: "handle_pair_command env pc m chat actor w = (r, w1)" by force
  with pair_cases [OF run assms(2)] assms(1) PaPair show ?thesis by (auto simp: pairing_step_def)
qed

lemma owner_stays:
  "record_view env w owner_key = Inr (Some v) \<Longrightarrow> reads_back_json (re_ser env) (re_de env)
   \<Longrightarrow> record_view env (fold (pairing_step env pc) ops w) owner_key = Inr (Some v)"
  by (induction ops arbitrary: w) (simp_all add: owner_stays_step)

text \<open>
  C21. Only who sends the printed code becomes the owner. Before anybody is paired, let the machine have
  printed one code. If after any messages \<open>/pair\<close> and \<open>/bind\<close> of anybody there is an owner, the owner is the
  sender of a \<open>/pair\<close> that carried a text with the digest of the printed code, under a personal account,
  and the code is gone; no later message changes the owner. What the store writes it reads back.
\<close>

theorem owner_sent_the_code:
  assumes "record_view env w owner_key = Inr None" and "record_view env w pair_code = Inr (Some printed)"
    and "reads_back_json (re_ser env) (re_de env)"
    and "record_view env (fold (pairing_step env pc) ops w) owner_key \<noteq> Inr None"
  shows "\<exists>text chat user t. PaPair text chat (Some user) \<in> set ops
    \<and> jstr ''sha256'' printed = Some (re_sha256_hex env (trim (new_command_arguments text)))
    \<and> record_view env (fold (pairing_step env pc) ops w) pair_code = Inr None
    \<and> record_view env (fold (pairing_step env pc) (ops @ later) w) owner_key = Inr (Some (owner_record chat user t))"
proof -
  let ?w = "fold (pairing_step env pc) ops w"
  have "unpaired_yet env printed w" using assms(1,2) by (simp add: unpaired_yet_def)
  with pairing_run [OF _ subset_refl assms(3)] assms(4) have "paired_by env printed ops ?w"
    by (fastforce simp: unpaired_yet_def)
  then obtain m chat user t where o: "PaPair m chat (Some user) \<in> set ops" "code_fits env printed (new_command_arguments m)"
    "record_view env ?w owner_key = Inr (Some (owner_record chat user t))" "record_view env ?w pair_code = Inr None"
    by (auto simp: paired_by_def)
  from owner_stays [OF o(3) assms(3)] have "record_view env (fold (pairing_step env pc) later ?w) owner_key = Inr (Some (owner_record chat user t))" .
  with o show ?thesis by (auto simp: code_fits_def)
qed

section \<open>A run\<close>

definition demo_code :: "nat \<Rightarrow> json" where
  "demo_code n = jobj [(''sha256'', JStr ''000042''), (''expires_at_ms'', JInt 600000), (''failures'', JInt (int n))]"

definition demo_pairing :: "nat runtime_env" where
  "demo_pairing = demo_turn_env (Inl AppTimeout) (map demo_code [0..<6] @ [owner_record 9 4 1]) []"

definition demo_printed :: "nat runtime" where
  "demo_printed = demo_tables [demo_row_of ''onboarding_code'' ''pair'' 0]"

definition demo_bots :: pairing_config where
  "demo_bots = \<lparr>pa_bots = [(''b'', RoleControl)], pa_control_chat_id = 9\<rparr>"

lemma demo_pairing_reads: "reads_back_json (re_ser demo_pairing) (re_de demo_pairing)" "mono (re_now demo_pairing)"
  unfolding demo_pairing_def by (rule demo_reads_back) (simp add: demo_turn_env_def mono_def)

theorem owner_sent_the_code_witness:
  "\<exists>t. record_view demo_pairing (fold (pairing_step demo_pairing demo_bots) ([PaPair ''/pair 000042'' 9 (Some 4)]
     @ [PaPair ''/pair 000042'' 8 (Some 5)]) demo_printed) owner_key = Inr (Some (owner_record 9 4 t))"
proof -
  have "record_view demo_pairing demo_printed owner_key = Inr None"
    "record_view demo_pairing demo_printed pair_code = Inr (Some (demo_code 0))"
    "record_view demo_pairing (fold (pairing_step demo_pairing demo_bots) [PaPair ''/pair 000042'' 9 (Some 4)] demo_printed) owner_key \<noteq> Inr None"
    by code_simp+
  from owner_sent_the_code [OF this(1,2) demo_pairing_reads(1) this(3),
      of "[PaPair ''/pair 000042'' 8 (Some 5)]"] show ?thesis by fastforce
qed

theorem five_refusals_end_a_code_witness:
  "\<exists>w1. refused_codes demo_pairing ''pair'' [''1'', ''2'', ''3'', ''4'', ''5''] demo_printed = Some w1
    \<and> fst (consume_onboarding_code demo_pairing ''pair'' ''000042'' w1) \<noteq> Inr True"
proof -
  have "refused_codes demo_pairing ''pair'' [''1'', ''2'', ''3'', ''4'', ''5''] demo_printed \<noteq> None" by code_simp
  then obtain w1 where "refused_codes demo_pairing ''pair'' [''1'', ''2'', ''3'', ''4'',
      ''5''] demo_printed = Some w1" by blast
  with five_refusals_end_a_code [OF this _ demo_pairing_reads] show ?thesis by simp
qed

end
