(* ===== verification/Plans.thy ===== *)
theory Plans
  imports Turns Projector
begin

text \<open>
  Plans of Codex (\<open>rust/crates/cli/src/daemon.rs\<close>): a plan is published with two buttons, one approves it and
  starts its execution, the other asks for a change; a reply to that question is sent to Codex as a prompt.
\<close>

section \<open>The text of a plan\<close>

definition nonempty_text :: "json option \<Rightarrow> string option" where
  "nonempty_text v = filter_opt (\<lambda>s. s \<noteq> []) (map_option trim (Option.bind v as_str))"

fun first_text :: "string list \<Rightarrow> json \<Rightarrow> string option" where
  "first_text [] v = None"
| "first_text (k # ks) v = or_else (nonempty_text (jget k v)) (first_text ks v)"

definition plan_step_line :: "nat \<Rightarrow> json \<Rightarrow> string option" where
  "plan_step_line i item = map_option (\<lambda>text. show_nat (i + 1) @ ''. [''
      @ unwrap_or (jstr ''status'' item) ''pending'' @ ''] '' @ text)
     (nonempty_text (or_else (jget ''step'' item) (or_else (jget ''title'' item) (jget ''text'' item))))"

definition plan_text_from_value :: "json \<Rightarrow> string option" where
  "plan_text_from_value v = or_else (nonempty_text (Some v)) (or_else (first_text [''text'', ''content'', ''plan'',
      ''summary''] v)
     (Option.bind (as_array v) (\<lambda>items. let lines = List.map_filter (\<lambda>(i,
         item). plan_step_line i item) (enumerate 0 items) in
        if lines = [] then None else Some (join [newline] lines))))"

section \<open>Publishing\<close>

record stored_plan_action =
  spa_space_id :: string
  spa_generation :: u64
  spa_thread_id :: string
  spa_item_id :: string
  spa_revision_key :: string
  spa_decision :: string

text \<open>How the action of a button is written in the store, and read.\<close>

record plan_codec =
  pl_write :: "stored_plan_action \<Rightarrow> string + string"
  pl_read :: "string \<Rightarrow> string + stored_plan_action"

definition generation_or :: "string \<Rightarrow> u64 \<Rightarrow> string + i64" where
  "generation_or e g = (if int g \<le> i64_max then Inr (int g) else Inl e)"

definition plan_publication_key :: "string \<Rightarrow> u64 \<Rightarrow> string \<Rightarrow> string \<Rightarrow> string" where
  "plan_publication_key space g item revision = space @ '':'' @ show_nat g @ '':'' @ item @ '':'' @ revision"

definition plan_button :: "'w runtime_env \<Rightarrow> plan_codec \<Rightarrow> stored_plan_action \<Rightarrow> ('w, json) task" where
  "plan_button env pl a = and_then (drawing_nonce env) (\<lambda>n. let nonce = ''plan-'' @ n in
     and_then (from_result (generation_or ''plan generation exceeds SQLite range'' (spa_generation a))) (\<lambda>g.
     and_then (from_result (pl_write pl a)) (\<lambda>action.
     and_then (reading_clock env) (\<lambda>now.
     and_then (with_spaces (create_callback \<lparr>cb_nonce = nonce, cb_space_id = spa_space_id a, cb_generation = g,
         cb_action = action,
         cb_expires_at_ms = now + approval_callback_ttl_ms\<rparr>)) (\<lambda>_.
     act_ok (jobj [(''text'', JStr (if spa_decision a = ''execute'' then [CHR 0xE6, CHR 0x89, CHR 0xB9, CHR 0xE5,
         CHR 0x87, CHR 0x86, CHR 0xE5, CHR 0xB9, CHR 0xB6, CHR 0xE6, CHR 0x89, CHR 0xA7, CHR 0xE8, CHR 0xA1,
         CHR 0x8C] else [CHR 0xE7, CHR 0xBB, CHR 0xA7, CHR 0xE7, CHR 0xBB, CHR 0xAD, CHR 0xE5, CHR 0xAE, CHR 0x8C,
         CHR 0xE5, CHR 0x96, CHR 0x84, CHR 0xE8, CHR 0xAE, CHR 0xA1, CHR 0xE5, CHR 0x88, CHR 0x92])),
       (''callback_data'', JStr (''rp:'' @ nonce @ '':'' @ spa_decision a))]))))))"

definition plan_markup :: "'w runtime_env \<Rightarrow> plan_codec \<Rightarrow> string \<Rightarrow> u64 \<Rightarrow> string \<Rightarrow> string \<Rightarrow> string \<Rightarrow> ('w, json) task" where
  "plan_markup env pl space g thread item revision = (let action = (\<lambda>decision. \<lparr>spa_space_id = space, spa_generation = g,
       spa_thread_id = thread, spa_item_id = item, spa_revision_key = revision, spa_decision = decision\<rparr>) in
     and_then (plan_button env pl (action ''execute'')) (\<lambda>b1.
     and_then (plan_button env pl (action ''revise'')) (\<lambda>b2.
     act_ok (jobj [(''inline_keyboard'', JArr [JArr [b1, b2]])]))))"

text \<open>The plan of a space that is still published, when a new one comes.\<close>

definition supersedes :: "string \<Rightarrow> u64 \<Rightarrow> string \<Rightarrow> string \<times> json \<Rightarrow> bool" where
  "supersedes space g key = (\<lambda>(old_key,
      old). jstr ''space_id'' old = Some space \<and> Option.bind (jget ''generation'' old) as_u64 = Some g
     \<and> jstr ''status'' old = Some ''published'' \<and> old_key \<noteq> key)"

definition supersede :: "'w runtime_env \<Rightarrow> string \<Rightarrow> u64 \<Rightarrow> string \<Rightarrow> string \<times> json \<Rightarrow> ('w, unit) task" where
  "supersede env space g key = (\<lambda>(old_key, old). if supersedes space g key (old_key, old)
     then put_record env ''plan'' old_key (set_field ''status'' (JStr ''superseded'') old) else act_ok ())"

definition new_publication :: "string \<Rightarrow> u64 \<Rightarrow> string \<Rightarrow> string \<Rightarrow> string \<Rightarrow> turn_id \<Rightarrow> plan_publication_state \<Rightarrow> string \<Rightarrow> i64 list \<Rightarrow> i64 \<Rightarrow> plan_publication" where
  "new_publication space g item revision thread turn status text messages now = \<lparr>ppu_space_id = space, ppu_generation = g,
     ppu_item_id = item, ppu_revision_key = revision, ppu_thread_id = ThreadId thread, ppu_turn_id = turn,
         ppu_status = status,
     ppu_plan_text = text, ppu_message_ids = messages, ppu_action_message_ids = [], ppu_revision_prompt_message_id = None,
     ppu_decision_turn_id = None, ppu_updated_at_ms = now\<rparr>"

definition store_publication :: "'w runtime_env \<Rightarrow> plan_publication \<Rightarrow> ('w, unit) task" where
  "store_publication env p = with_records (upsert_plan_publication (re_records env) p)"

text \<open>Both rows of a publication, its own table and the record that the handlers read.\<close>

definition keep_publication :: "'w runtime_env \<Rightarrow> string \<Rightarrow> plan_publication \<Rightarrow> ('w, unit) task" where
  "keep_publication env key p = and_then (store_publication env p) (\<lambda>_.
     and_then (from_result (re_write_plan env p)) (\<lambda>v.
     put_record env ''plan'' key v))"

definition plan_revision_key :: "'w runtime_env \<Rightarrow> turn_id \<Rightarrow> string \<Rightarrow> string" where
  "plan_revision_key env turn text = re_sha256_hex env (turn_id_str turn @ [CHR 0x00] @ text)"

text \<open>The message goes out, and the outcome is kept.\<close>

definition publish_fresh ::
  "'w runtime_env \<Rightarrow> plan_codec \<Rightarrow> session_record \<Rightarrow> string \<Rightarrow> u64 \<Rightarrow> string \<Rightarrow> string \<Rightarrow> turn_id \<Rightarrow> string \<Rightarrow> ('w, unit) task" where
  "publish_fresh env pl s space g item revision turn text = (let key = plan_publication_key space g item revision;
       publication = new_publication space g item revision (sr_thread_id s) turn in
     and_then (plan_markup env pl space g (sr_thread_id s) item revision) (\<lambda>markup.
     and_then (attempt (send_text_with_markup_message env (surface_for env (re_bot env) (sr_chat_id s) (sr_root_message_id s))
         (([CHR 0xF0, CHR 0x9F, CHR 0x93, CHR 0x8B] @ '' Codex Plan'') @ [newline, newline] @ truncate_text text
             @ [newline, newline] @ ([CHR 0xE7, CHR 0x8A, CHR 0xB6, CHR 0xE6, CHR 0x80, CHR 0x81, CHR 0xEF, CHR 0xBC,
             CHR 0x9A, CHR 0xE7, CHR 0xAD, CHR 0x89, CHR 0xE5, CHR 0xBE, CHR 0x85] @ '' Telegram '' @ [CHR 0xE9,
             CHR 0x80, CHR 0x89, CHR 0xE6, CHR 0x8B, CHR 0xA9, CHR 0xE3, CHR 0x80, CHR 0x82])) (Some markup))) (\<lambda>sent.
     and_then (reading_clock env) (\<lambda>now. case sent of
       Inl e \<Rightarrow> let p = publication PpFailed text [] now in
         and_then (ignoring (store_publication env p)) (\<lambda>_.
         and_then (ignoring (put_record env ''plan'' key (plan_payload env p))) (\<lambda>_. act_err e))
     | Inr message \<Rightarrow> let p = publication PpPublished text [message] now in
         keep_publication env key p))))"

text \<open>A plan that is not known yet supersedes the older ones of its space.\<close>

definition publish_new ::
  "'w runtime_env \<Rightarrow> plan_codec \<Rightarrow> session_record \<Rightarrow> string \<Rightarrow> u64 \<Rightarrow> string \<Rightarrow> string \<Rightarrow> turn_id \<Rightarrow> string \<Rightarrow> ('w, unit) task" where
  "publish_new env pl s space g item revision turn text =
     and_then (records_of env ''plan'') (\<lambda>olds.
     and_then (each_one (supersede env space g (plan_publication_key space g item revision)) olds) (\<lambda>_.
     publish_fresh env pl s space g item revision turn text))"

definition publish_plan_message ::
  "'w runtime_env \<Rightarrow> plan_codec \<Rightarrow> session_record \<Rightarrow> session_space \<Rightarrow> string \<Rightarrow> turn_id \<Rightarrow> string \<Rightarrow> ('w, unit) task" where
  "publish_plan_message env pl s sp item turn text = and_then (generation_now env) (\<lambda>g.
     let space = sps_space_id sp; revision = plan_revision_key env turn text in
     and_then (record_of env ''plan'' (plan_publication_key space g item revision)) (\<lambda>known.
     if known \<noteq> None then act_ok () else publish_new env pl s space g item revision turn text))"

section \<open>Plans, timelines and threads on request\<close>

definition no_session :: string where
  "no_session = ([CHR 0xE8, CHR 0xAF, CHR 0xB7, CHR 0xE5, CHR 0x85, CHR 0x88, CHR 0xE5, CHR 0x8F, CHR 0x91, CHR 0xE9,
      CHR 0x80, CHR 0x81] @ '' /new '' @ [CHR 0xE5, CHR 0x88, CHR 0x9B, CHR 0xE5, CHR 0xBB, CHR 0xBA, CHR 0xE4,
      CHR 0xB8, CHR 0x80, CHR 0xE4, CHR 0xB8, CHR 0xAA] @ '' Codex Session'' @ [CHR 0xE3, CHR 0x80, CHR 0x82])"

definition ask_codex :: "'w runtime_env \<Rightarrow> string \<Rightarrow> json \<Rightarrow> nat \<Rightarrow> ('w, json) task" where
  "ask_codex env f params timeout = and_then (asking (re_call env f params timeout)) (\<lambda>r. case r of
     Inl e \<Rightarrow> act_err (app_error_display e) | Inr v \<Rightarrow> act_ok v)"

definition read_turns_of :: "json \<Rightarrow> json list" where
  "read_turns_of v = unwrap_or (Option.bind (or_else (Option.bind (jget ''thread'' v) (jget ''turns'')) (jget ''turns'' v)) as_array) []"

definition is_plan_item :: "json \<Rightarrow> bool" where
  "is_plan_item item \<longleftrightarrow> unwrap_or (jstr ''type'' item) [] \<in> {''plan'', ''planUpdate'', ''plan_updated'', ''plan/updated''}"

definition plan_of_item :: "turn_id \<Rightarrow> json \<Rightarrow> (string \<times> turn_id \<times> string) option" where
  "plan_of_item turn item = (if \<not> is_plan_item item then None
     else map_option (\<lambda>text. (unwrap_or (jstr ''id'' item) ''plan'', turn, text))
       (filter_opt (\<lambda>s. s \<noteq> []) (map_option trim (or_else (jstr ''text'' item) (or_else (jstr ''content'' item) (jstr ''plan'' item))))))"

fun first_plan :: "turn_id \<Rightarrow> json list \<Rightarrow> (string \<times> turn_id \<times> string) option" where
  "first_plan turn [] = None"
| "first_plan turn (item # items) = or_else (plan_of_item turn item) (first_plan turn items)"

text \<open>The last plan of the last turn that has one.\<close>

fun plan_of_turns :: "json list \<Rightarrow> (string \<times> turn_id \<times> string) option" where
  "plan_of_turns [] = None"
| "plan_of_turns (turn # turns) = or_else (case Option.bind (jstr ''id'' turn) (\<lambda>i. ok_option (turn_id_new i)) of
     None \<Rightarrow> None
   | Some t \<Rightarrow> first_plan t (rev (unwrap_or (Option.bind (jget ''items'' turn) as_array) []))) (plan_of_turns turns)"

definition thread_read :: "'w runtime_env \<Rightarrow> string \<Rightarrow> ('w, json list) task" where
  "thread_read env thread = and_then (ask_codex env ''thread/read'' (jobj [(''threadId'', JStr thread),
      (''includeTurns'', JBool True)]) 30000)
     (\<lambda>v. act_ok (read_turns_of v))"

definition extract_plan_from_thread :: "'w runtime_env \<Rightarrow> string \<Rightarrow> ('w, (string \<times> turn_id \<times> string) option) task" where
  "extract_plan_from_thread env thread = and_then (thread_read env thread) (\<lambda>turns. act_ok (plan_of_turns (rev turns)))"

definition render_plan_command :: "'w runtime_env \<Rightarrow> plan_codec \<Rightarrow> i64 \<Rightarrow> session_record option \<Rightarrow> ('w, unit) task" where
  "render_plan_command env pl chat session = (case session of
     None \<Rightarrow> tell_chat env chat no_session
   | Some s \<Rightarrow> and_then (extract_plan_from_thread env (sr_thread_id s)) (\<lambda>plan. case plan of
       None \<Rightarrow> tell env s (join [newline] [([CHR 0xF0, CHR 0x9F, CHR 0xA7, CHR 0xAD] @ '' Plan''),
           [CHR 0xE5, CHR 0xB0, CHR 0x9A, CHR 0xE6, CHR 0x9C, CHR 0xAA, CHR 0xE5, CHR 0x88, CHR 0x9B, CHR 0xE5,
           CHR 0xBB, CHR 0xBA, CHR 0xE8, CHR 0xAE, CHR 0xA1, CHR 0xE5, CHR 0x88, CHR 0x92, CHR 0xE3, CHR 0x80, CHR 0x82]])
     | Some (item, turn, text) \<Rightarrow> and_then (in_spaces (session_space_for_thread (sr_thread_id s))) (\<lambda>sp. case sp of
         None \<Rightarrow> tell env s ([CHR 0xE5, CHR 0xBD, CHR 0x93, CHR 0xE5, CHR 0x89, CHR 0x8D] @ '' Session ''
             @ [CHR 0xE7, CHR 0xBC, CHR 0xBA, CHR 0xE5, CHR 0xB0, CHR 0x91] @ '' durable Telegram space'' @ [CHR 0xE3,
             CHR 0x80, CHR 0x82])
       | Some space \<Rightarrow> publish_plan_message env pl s space item turn text)))"

definition timeline_line :: "json \<Rightarrow> string" where
  "timeline_line turn = ([CHR 0xE2, CHR 0x80, CHR 0xA2] @ '' '')
      @ short_id_prefix (unwrap_or (jstr ''id'' turn) ''-'') @ ('' '' @ [CHR 0xC2, CHR 0xB7] @ '' '')
      @ unwrap_or (jstr ''status'' turn) ''unknown''
     @ ('' '' @ [CHR 0xC2, CHR 0xB7] @ '' items='')
         @ show_nat (case Option.bind (jget ''items'' turn) as_array of None \<Rightarrow> 0 | Some xs \<Rightarrow> length xs)"

definition render_timeline_command :: "'w runtime_env \<Rightarrow> i64 \<Rightarrow> session_record option \<Rightarrow> ('w, unit) task" where
  "render_timeline_command env chat session = (case session of
     None \<Rightarrow> tell_chat env chat no_session
   | Some s \<Rightarrow> and_then (thread_read env (sr_thread_id s)) (\<lambda>turns.
       tell env s (join [newline] ((([CHR 0xF0, CHR 0x9F, CHR 0x95, CHR 0x92] @ '' Timeline '' @ [CHR 0xC2, CHR 0xB7]
           @ '' '') @ sr_thread_id s) # (if turns = [] then [[CHR 0xE5, CHR 0xB0, CHR 0x9A, CHR 0xE6, CHR 0x97,
           CHR 0xA0, CHR 0xE4, CHR 0xBA, CHR 0x8B, CHR 0xE4, CHR 0xBB, CHR 0xB6, CHR 0xE3, CHR 0x80, CHR 0x82]] else [])
         @ map timeline_line (take 20 (rev turns))))))"

definition handle_attach_command :: "'w runtime_env \<Rightarrow> i64 \<Rightarrow> session_record option \<Rightarrow> ('w, unit) task" where
  "handle_attach_command env chat session = (case session of
     None \<Rightarrow> tell_chat env chat no_session
   | Some s \<Rightarrow> and_then (ask_codex env ''thread/resume'' (jobj [(''threadId'', JStr (sr_thread_id s))]) 30000) (\<lambda>_.
       tell env s ((''tmux '' @ [CHR 0xE5, CHR 0xB7, CHR 0xB2, CHR 0xE5, CHR 0xB0, CHR 0xB1, CHR 0xE7, CHR 0xBB,
           CHR 0xAA, CHR 0xEF, CHR 0xBC, CHR 0x9A]) @ sr_thread_id s @ ([CHR 0xEF, CHR 0xBC, CHR 0x9B, CHR 0xE8,
           CHR 0xAF, CHR 0xB7, CHR 0xE5, CHR 0x9C, CHR 0xA8, CHR 0xE6, CHR 0x9C, CHR 0xAC, CHR 0xE6, CHR 0x9C,
           CHR 0xBA] @ '' Codex '' @ [CHR 0xE5, CHR 0xAE, CHR 0xA2, CHR 0xE6, CHR 0x88, CHR 0xB7, CHR 0xE7, CHR 0xAB,
           CHR 0xAF, CHR 0xE7, CHR 0xBB, CHR 0xA7, CHR 0xE7, CHR 0xBB, CHR 0xAD, CHR 0xE4, CHR 0xBA, CHR 0xA4,
           CHR 0xE4, CHR 0xBA, CHR 0x92, CHR 0xE3, CHR 0x80, CHR 0x82]))))"

section \<open>The state of a plan\<close>

definition parse_plan_callback :: "string \<Rightarrow> (string \<times> string) option" where
  "parse_plan_callback data = (case split_on CHR '':'' data of
     kind # nonce # decision # _ \<Rightarrow> if kind = ''rp'' \<and> trim nonce \<noteq> [] \<and> trim decision \<in> {''execute'', ''revise''}
       then Some (trim nonce, trim decision) else None
   | _ \<Rightarrow> None)"

definition plan_status_label :: "plan_publication_state \<Rightarrow> turn_id option \<Rightarrow> string" where
  "plan_status_label status turn = (let base = (case status of
       PpPublished \<Rightarrow> ([CHR 0xE7, CHR 0x8A, CHR 0xB6, CHR 0xE6, CHR 0x80, CHR 0x81, CHR 0xEF, CHR 0xBC,
           CHR 0x9A, CHR 0xE7, CHR 0xAD, CHR 0x89, CHR 0xE5, CHR 0xBE, CHR 0x85] @ '' Telegram '' @ [CHR 0xE9,
           CHR 0x80, CHR 0x89, CHR 0xE6, CHR 0x8B, CHR 0xA9, CHR 0xE3, CHR 0x80, CHR 0x82])
     | PpExecuting \<Rightarrow> ([CHR 0xE2, CHR 0x8F, CHR 0xB3] @ '' '' @ [CHR 0xE7, CHR 0x8A, CHR 0xB6, CHR 0xE6,
         CHR 0x80, CHR 0x81, CHR 0xEF, CHR 0xBC, CHR 0x9A, CHR 0xE5, CHR 0xB7, CHR 0xB2, CHR 0xE5, CHR 0x9C,
         CHR 0xA8] @ '' Telegram '' @ [CHR 0xE6, CHR 0x89, CHR 0xB9, CHR 0xE5, CHR 0x87, CHR 0x86, CHR 0xEF, CHR 0xBC,
         CHR 0x8C, CHR 0xE6, CHR 0xAD, CHR 0xA3, CHR 0xE5, CHR 0x9C, CHR 0xA8, CHR 0xE5, CHR 0x90, CHR 0xAF, CHR 0xE5,
         CHR 0x8A, CHR 0xA8, CHR 0xE6, CHR 0x89, CHR 0xA7, CHR 0xE8, CHR 0xA1, CHR 0x8C, CHR 0xE3, CHR 0x80, CHR 0x82])
     | PpRevising \<Rightarrow> ([CHR 0xF0, CHR 0x9F, CHR 0x93, CHR 0x9D] @ '' '' @ [CHR 0xE7, CHR 0x8A, CHR 0xB6,
         CHR 0xE6, CHR 0x80, CHR 0x81, CHR 0xEF, CHR 0xBC, CHR 0x9A, CHR 0xE5, CHR 0xB7, CHR 0xB2, CHR 0xE9, CHR 0x80,
         CHR 0x89, CHR 0xE6, CHR 0x8B, CHR 0xA9, CHR 0xE7, CHR 0xBB, CHR 0xA7, CHR 0xE7, CHR 0xBB, CHR 0xAD, CHR 0xE5,
         CHR 0xAE, CHR 0x8C, CHR 0xE5, CHR 0x96, CHR 0x84, CHR 0xE8, CHR 0xAE, CHR 0xA1, CHR 0xE5, CHR 0x88, CHR 0x92,
         CHR 0xE3, CHR 0x80, CHR 0x82])
     | PpRevisionStarted \<Rightarrow> ([CHR 0xF0, CHR 0x9F, CHR 0x93, CHR 0x9D] @ '' '' @ [CHR 0xE7, CHR 0x8A,
         CHR 0xB6, CHR 0xE6, CHR 0x80, CHR 0x81, CHR 0xEF, CHR 0xBC, CHR 0x9A, CHR 0xE5, CHR 0xB7, CHR 0xB2, CHR 0xE6,
         CHR 0x8F, CHR 0x90, CHR 0xE4, CHR 0xBA, CHR 0xA4, CHR 0xE7, CHR 0xBB, CHR 0xA7, CHR 0xE7, CHR 0xBB, CHR 0xAD,
         CHR 0xE5, CHR 0xAE, CHR 0x8C, CHR 0xE5, CHR 0x96, CHR 0x84, CHR 0xE8, CHR 0xAF, CHR 0xB7, CHR 0xE6, CHR 0xB1,
         CHR 0x82, CHR 0xE3, CHR 0x80, CHR 0x82])
     | PpExecuted \<Rightarrow> ([CHR 0xE2, CHR 0x9C, CHR 0x85] @ '' '' @ [CHR 0xE7, CHR 0x8A, CHR 0xB6, CHR 0xE6,
         CHR 0x80, CHR 0x81, CHR 0xEF, CHR 0xBC, CHR 0x9A, CHR 0xE5, CHR 0xB7, CHR 0xB2, CHR 0xE6, CHR 0x89, CHR 0xB9,
         CHR 0xE5, CHR 0x87, CHR 0x86, CHR 0xE5, CHR 0xB9, CHR 0xB6, CHR 0xE5, CHR 0xBC, CHR 0x80, CHR 0xE5, CHR 0xA7,
         CHR 0x8B, CHR 0xE6, CHR 0x89, CHR 0xA7, CHR 0xE8, CHR 0xA1, CHR 0x8C, CHR 0xE3, CHR 0x80, CHR 0x82])
     | PpFailed \<Rightarrow> ([CHR 0xE2, CHR 0x9D, CHR 0x8C] @ '' '' @ [CHR 0xE7, CHR 0x8A, CHR 0xB6, CHR 0xE6,
         CHR 0x80, CHR 0x81, CHR 0xEF, CHR 0xBC, CHR 0x9A] @ ''Plan '' @ [CHR 0xE6, CHR 0x89, CHR 0xA7, CHR 0xE8,
         CHR 0xA1, CHR 0x8C, CHR 0xE5, CHR 0xA4, CHR 0xB1, CHR 0xE8, CHR 0xB4, CHR 0xA5, CHR 0xE3, CHR 0x80, CHR 0x82])
     | PpDismissed \<Rightarrow> ([CHR 0xE7, CHR 0x8A, CHR 0xB6, CHR 0xE6, CHR 0x80, CHR 0x81, CHR 0xEF, CHR 0xBC,
         CHR 0x9A] @ ''Plan '' @ [CHR 0xE5, CHR 0xB7, CHR 0xB2, CHR 0xE5, CHR 0x8F, CHR 0x96, CHR 0xE6, CHR 0xB6,
         CHR 0x88, CHR 0xE3, CHR 0x80, CHR 0x82])
     | PpSuperseded \<Rightarrow> ([CHR 0xE2, CHR 0x86, CHR 0xAA] @ '' '' @ [CHR 0xE7, CHR 0x8A, CHR 0xB6, CHR 0xE6,
         CHR 0x80, CHR 0x81, CHR 0xEF, CHR 0xBC, CHR 0x9A, CHR 0xE5, CHR 0xB7, CHR 0xB2, CHR 0xE8, CHR 0xA2, CHR 0xAB,
         CHR 0xE6, CHR 0x9B, CHR 0xB4, CHR 0xE6, CHR 0x96, CHR 0xB0, CHR 0xE7, CHR 0x89, CHR 0x88, CHR 0xE6, CHR 0x9C,
         CHR 0xAC, CHR 0xE6, CHR 0x9B, CHR 0xBF, CHR 0xE4, CHR 0xBB, CHR 0xA3, CHR 0xE3, CHR 0x80, CHR 0x82])) in
     case turn of None \<Rightarrow> base | Some t \<Rightarrow> base @ '' Turn '' @ take_chars 8 (turn_id_str t))"

definition last_of :: "'a list \<Rightarrow> 'a option" where
  "last_of xs = (if xs = [] then None else Some (last xs))"

definition edit_plan_publication :: "'w runtime_env \<Rightarrow> session_record \<Rightarrow> plan_publication \<Rightarrow> ('w, unit) task" where
  "edit_plan_publication env s p = (case or_else (last_of (ppu_message_ids p)) (last_of (ppu_action_message_ids p)) of
     None \<Rightarrow> act_ok ()
   | Some m \<Rightarrow> and_then (from_result (map_sum telegram_error_display id (message_reference_new (show_int (sr_chat_id s)) m))) (\<lambda>reference.
       edit_text_with_markup_task env (re_bot env) reference (join [newline, newline]
         [([CHR 0xF0, CHR 0x9F, CHR 0x93, CHR 0x8B] @ '' Codex Plan''), truncate_text (ppu_plan_text p),
             plan_status_label (ppu_status p) (ppu_decision_turn_id p)]) None))"

definition update_plan_publication ::
  "'w runtime_env \<Rightarrow> plan_publication_state \<Rightarrow> turn_id option \<Rightarrow> plan_publication \<Rightarrow> ('w, plan_publication) task" where
  "update_plan_publication env status turn p = and_then (reading_clock env) (\<lambda>now.
     let p1 = p\<lparr>ppu_status := status, ppu_decision_turn_id := turn, ppu_updated_at_ms := now\<rparr> in
     and_then (keep_publication env (plan_publication_key (ppu_space_id p1) (ppu_generation p1) (ppu_item_id p1) (ppu_revision_key p1)) p1) (\<lambda>_.
     act_ok p1))"

section \<open>A press of a button\<close>

definition answer_in_chat :: "'w runtime_env \<Rightarrow> telegram_callback \<Rightarrow> i64 option \<Rightarrow> string \<Rightarrow> ('w, unit) task" where
  "answer_in_chat env c root text = send_text_task env (surface_for env (re_bot env) (tcb_chat_id c) root) text"

text \<open>A step whose failure gives the button back.\<close>

definition or_restore :: "string \<Rightarrow> ('w, 'a) task \<Rightarrow> ('w, 'a) task" where
  "or_restore nonce m = and_then (attempt m) (\<lambda>r. case r of
     Inl e \<Rightarrow> and_then (ignoring (with_spaces (restore_callback nonce))) (\<lambda>_. act_err e)
   | Inr x \<Rightarrow> act_ok x)"

definition set_plan_state ::
  "'w runtime_env \<Rightarrow> string \<Rightarrow> session_record \<Rightarrow> plan_publication_state \<Rightarrow> turn_id option \<Rightarrow> plan_publication \<Rightarrow> ('w, plan_publication) task" where
  "set_plan_state env nonce s status turn p = and_then (or_restore nonce (update_plan_publication env status turn p)) (\<lambda>p1.
     and_then (ignoring (edit_plan_publication env s p1)) (\<lambda>_. act_ok p1))"

text \<open>What was decided is taken back: the button and the plan are as before the press.\<close>

definition take_back :: "'w runtime_env \<Rightarrow> string \<Rightarrow> session_record \<Rightarrow> plan_publication \<Rightarrow> ('w, unit) task" where
  "take_back env nonce s p = and_then (ignoring (with_spaces (restore_callback nonce))) (\<lambda>_.
     and_then (update_plan_publication env PpPublished None p) (\<lambda>p1.
     ignoring (edit_plan_publication env s p1)))"

definition execution_prompt :: string where
  "execution_prompt = ([CHR 0xE8, CHR 0xAF, CHR 0xB7, CHR 0xE6, CHR 0x8C, CHR 0x89, CHR 0xE7, CHR 0x85, CHR 0xA7,
      CHR 0xE5, CHR 0x88, CHR 0x9A, CHR 0xE6, CHR 0x89, CHR 0x8D, CHR 0xE5, CHR 0x8F, CHR 0x91, CHR 0xE5, CHR 0xB8,
      CHR 0x83, CHR 0xE7, CHR 0x9A, CHR 0x84] @ '' Plan '' @ [CHR 0xE5, CHR 0xBC, CHR 0x80, CHR 0xE5, CHR 0xA7,
      CHR 0x8B, CHR 0xE6, CHR 0x89, CHR 0xA7, CHR 0xE8, CHR 0xA1, CHR 0x8C, CHR 0xEF, CHR 0xBC, CHR 0x8C, CHR 0xE5,
      CHR 0xAE, CHR 0x8C, CHR 0xE6, CHR 0x88, CHR 0x90, CHR 0xE5, CHR 0x90, CHR 0x8E, CHR 0xE6, CHR 0x8A, CHR 0xA5,
      CHR 0xE5, CHR 0x91, CHR 0x8A, CHR 0xE7, CHR 0xBB, CHR 0x93, CHR 0xE6, CHR 0x9E, CHR 0x9C, CHR 0xE3, CHR 0x80,
      CHR 0x82])"

definition execute_plan :: "'w runtime_env \<Rightarrow> string \<Rightarrow> string \<Rightarrow> session_record \<Rightarrow> telegram_callback \<Rightarrow> plan_publication \<Rightarrow> ('w, unit) task" where
  "execute_plan env nonce item s c p = and_then (set_plan_state env nonce s PpExecuting None p) (\<lambda>p1.
     and_then (from_result (domain_result (prompt_input_text execution_prompt))) (\<lambda>inp.
     and_then (send_turn env s [inp] (''plan-execute-'' @ item)) (\<lambda>r. case r of
       Inl e \<Rightarrow> and_then (take_back env nonce s p1) (\<lambda>_.
         answer_in_chat env c (sr_root_message_id s) ((''Plan '' @ [CHR 0xE6, CHR 0x89, CHR 0xA7, CHR 0xE8, CHR 0xA1,
             CHR 0x8C, CHR 0xE6, CHR 0x9C, CHR 0xAA, CHR 0xE9, CHR 0x80, CHR 0x81, CHR 0xE8, CHR 0xBE, CHR 0xBE]
             @ '' Codex'' @ [CHR 0xEF, CHR 0xBC, CHR 0x9A]) @ port_error_display e))
     | Inr turn \<Rightarrow> and_then (changing_sessions (set_turn (sr_thread_id s) (Some (turn_id_str (agu_id turn))))) (\<lambda>_.
         and_then (set_plan_state env nonce s PpExecuting (Some (agu_id turn)) p1) (\<lambda>_.
         answer_in_chat env c (sr_root_message_id s) ([CHR 0xE2, CHR 0x9C, CHR 0x85] @ '' '' @ [CHR 0xE5, CHR 0xB7,
             CHR 0xB2, CHR 0xE6, CHR 0x89, CHR 0xB9, CHR 0xE5, CHR 0x87, CHR 0x86] @ '' Plan'' @ [CHR 0xEF, CHR 0xBC,
             CHR 0x8C, CHR 0xE6, CHR 0xAD, CHR 0xA3, CHR 0xE5, CHR 0x9C, CHR 0xA8, CHR 0xE5, CHR 0x90, CHR 0xAF,
             CHR 0xE5, CHR 0x8A, CHR 0xA8, CHR 0xE6, CHR 0x89, CHR 0xA7, CHR 0xE8, CHR 0xA1, CHR 0x8C, CHR 0xE3,
             CHR 0x80, CHR 0x82]))))))"

definition revision_question :: json where
  "revision_question = jobj [(''force_reply'', JBool True), (''selective'', JBool True),
     (''input_field_placeholder'', JStr ([CHR 0xE8, CHR 0xBE, CHR 0x93, CHR 0xE5, CHR 0x85, CHR 0xA5] @ '' Plan ''
         @ [CHR 0xE4, CHR 0xBF, CHR 0xAE, CHR 0xE6, CHR 0x94, CHR 0xB9, CHR 0xE6, CHR 0x84, CHR 0x8F, CHR 0xE8,
         CHR 0xA7, CHR 0x81]))]"

definition revise_plan :: "'w runtime_env \<Rightarrow> string \<Rightarrow> session_record \<Rightarrow> telegram_callback \<Rightarrow> plan_publication \<Rightarrow> ('w, unit) task" where
  "revise_plan env nonce s c p = and_then (set_plan_state env nonce s PpRevising None p) (\<lambda>p1.
     and_then (attempt (send_text_with_markup_message env (surface_for env (re_bot env) (tcb_chat_id c) (sr_root_message_id s))
       ([CHR 0xE8, CHR 0xAF, CHR 0xB7, CHR 0xE5, CHR 0x9B, CHR 0x9E, CHR 0xE5, CHR 0xA4, CHR 0x8D, CHR 0xE8, CHR 0xBF,
           CHR 0x99, CHR 0xE6, CHR 0x9D, CHR 0xA1, CHR 0xE6, CHR 0xB6, CHR 0x88, CHR 0xE6, CHR 0x81, CHR 0xAF,
           CHR 0xEF, CHR 0xBC, CHR 0x8C, CHR 0xE8, CHR 0xAF, CHR 0xB4, CHR 0xE6, CHR 0x98, CHR 0x8E, CHR 0xE9,
           CHR 0x9C, CHR 0x80, CHR 0xE8, CHR 0xA6, CHR 0x81, CHR 0xE5, CHR 0xA6, CHR 0x82, CHR 0xE4, CHR 0xBD,
           CHR 0x95, CHR 0xE7, CHR 0xBB, CHR 0xA7, CHR 0xE7, CHR 0xBB, CHR 0xAD, CHR 0xE5, CHR 0xAE, CHR 0x8C,
           CHR 0xE5, CHR 0x96, CHR 0x84] @ '' Plan'' @ [CHR 0xE3, CHR 0x80,
           CHR 0x82]) (Some revision_question))) (\<lambda>r. case r of
       Inr message \<Rightarrow>
         and_then (or_restore nonce (update_plan_publication env PpRevising None (p1\<lparr>ppu_revision_prompt_message_id := Some message\<rparr>))) (\<lambda>_.
         answer_in_chat env c (sr_root_message_id s) ([CHR 0xF0, CHR 0x9F, CHR 0x93, CHR 0x9D] @ '' '' @ [CHR 0xE5,
             CHR 0xB7, CHR 0xB2, CHR 0xE9, CHR 0x80, CHR 0x89, CHR 0xE6, CHR 0x8B, CHR 0xA9, CHR 0xE7, CHR 0xBB,
             CHR 0xA7, CHR 0xE7, CHR 0xBB, CHR 0xAD, CHR 0xE5, CHR 0xAE, CHR 0x8C, CHR 0xE5, CHR 0x96, CHR 0x84,
             CHR 0xE8, CHR 0xAE, CHR 0xA1, CHR 0xE5, CHR 0x88, CHR 0x92, CHR 0xEF, CHR 0xBC, CHR 0x8C, CHR 0xE8,
             CHR 0xAF, CHR 0xB7, CHR 0xE5, CHR 0x9B, CHR 0x9E, CHR 0xE5, CHR 0xA4, CHR 0x8D, CHR 0xE4, CHR 0xB8,
             CHR 0x8A, CHR 0xE9, CHR 0x9D, CHR 0xA2, CHR 0xE7, CHR 0x9A, CHR 0x84, CHR 0xE6, CHR 0xB6, CHR 0x88,
             CHR 0xE6, CHR 0x81, CHR 0xAF, CHR 0xE5, CHR 0x8F, CHR 0x91, CHR 0xE9, CHR 0x80, CHR 0x81, CHR 0xE4,
             CHR 0xBF, CHR 0xAE, CHR 0xE6, CHR 0x94, CHR 0xB9, CHR 0xE6, CHR 0x84, CHR 0x8F, CHR 0xE8, CHR 0xA7,
             CHR 0x81, CHR 0xE3, CHR 0x80, CHR 0x82]))
     | Inl e \<Rightarrow> and_then (take_back env nonce s p1) (\<lambda>_. act_err (([CHR 0xE6, CHR 0x97, CHR 0xA0,
         CHR 0xE6, CHR 0xB3, CHR 0x95, CHR 0xE5, CHR 0x88, CHR 0x9B, CHR 0xE5, CHR 0xBB, CHR 0xBA] @ '' Plan ''
         @ [CHR 0xE4, CHR 0xBF, CHR 0xAE, CHR 0xE6, CHR 0x94, CHR 0xB9, CHR 0xE8, CHR 0xAF, CHR 0xB7, CHR 0xE6,
         CHR 0xB1, CHR 0x82, CHR 0xEF, CHR 0xBC, CHR 0x9A]) @ e))))"

text \<open>The publication a button is about; the older key is asked only when the store fails.\<close>

definition pressed_publication :: "'w runtime_env \<Rightarrow> stored_plan_action \<Rightarrow> ('w, plan_publication option) task" where
  "pressed_publication env a = and_then (attempt (record_of env ''plan''
       (plan_publication_key (spa_space_id a) (spa_generation a) (spa_item_id a) (spa_revision_key a)))) (\<lambda>r.
     and_then (case r of Inr found \<Rightarrow> act_ok found
       | Inl e \<Rightarrow> record_of env ''plan'' (spa_space_id a @ '':'' @ show_nat (spa_generation a) @ '':''
           @ spa_item_id a)) (\<lambda>found.
     act_ok (Option.bind found (re_read_plan env))))"

definition decide_plan :: "'w runtime_env \<Rightarrow> string \<Rightarrow> string \<Rightarrow> telegram_callback \<Rightarrow> session_record \<Rightarrow> stored_plan_action \<Rightarrow> plan_publication option \<Rightarrow> ('w, unit) task" where
  "decide_plan env nonce decision c s a found = (case found of
     None \<Rightarrow> answer_in_chat env c (sr_root_message_id s) ([CHR 0xE8, CHR 0xBF, CHR 0x99, CHR 0xE4,
         CHR 0xB8, CHR 0xAA] @ '' Plan '' @ [CHR 0xE5, CHR 0xB7, CHR 0xB2, CHR 0xE8, CHR 0xBF, CHR 0x87, CHR 0xE6,
         CHR 0x9C, CHR 0x9F, CHR 0xE6, CHR 0x88, CHR 0x96, CHR 0xE5, CHR 0xB7, CHR 0xB2, CHR 0xE7, CHR 0xBB, CHR 0x8F,
         CHR 0xE5, CHR 0xA4, CHR 0x84, CHR 0xE7, CHR 0x90, CHR 0x86, CHR 0xE3, CHR 0x80, CHR 0x82])
   | Some p \<Rightarrow>
       if ppu_status p \<noteq> PpPublished then answer_in_chat env c (sr_root_message_id s) ([CHR 0xE8, CHR 0xBF,
           CHR 0x99, CHR 0xE4, CHR 0xB8, CHR 0xAA] @ '' Plan '' @ [CHR 0xE5, CHR 0xB7, CHR 0xB2, CHR 0xE8, CHR 0xBF,
           CHR 0x87, CHR 0xE6, CHR 0x9C, CHR 0x9F, CHR 0xE6, CHR 0x88, CHR 0x96, CHR 0xE5, CHR 0xB7, CHR 0xB2,
           CHR 0xE7, CHR 0xBB, CHR 0x8F, CHR 0xE5, CHR 0xA4, CHR 0x84, CHR 0xE7, CHR 0x90, CHR 0x86, CHR 0xE3,
           CHR 0x80, CHR 0x82])
       else if decision = ''execute'' then execute_plan env nonce (spa_item_id a) s c p
       else revise_plan env nonce s c p)"

definition press_plan :: "'w runtime_env \<Rightarrow> string \<Rightarrow> string \<Rightarrow> telegram_callback \<Rightarrow> session_record \<Rightarrow> stored_plan_action \<Rightarrow> ('w, unit) task" where
  "press_plan env nonce decision c s a = and_then (reading_clock env) (\<lambda>now.
     and_then (from_result (generation_or ''Plan generation exceeds SQLite range'' (spa_generation a))) (\<lambda>g.
     and_then (with_spaces (take_callback_scoped nonce now (Some (spa_space_id a)) (Some g))) (\<lambda>taken.
     if taken = None then answer_in_chat env c None ([CHR 0xE8, CHR 0xBF, CHR 0x99, CHR 0xE4, CHR 0xB8, CHR 0xAA]
         @ '' Plan '' @ [CHR 0xE6, CHR 0x8C, CHR 0x89, CHR 0xE9, CHR 0x92, CHR 0xAE, CHR 0xE5, CHR 0xB7, CHR 0xB2,
         CHR 0xE8, CHR 0xBF, CHR 0x87, CHR 0xE6, CHR 0x9C, CHR 0x9F, CHR 0xE6, CHR 0x88, CHR 0x96, CHR 0xE5, CHR 0xB7,
         CHR 0xB2, CHR 0xE7, CHR 0xBB, CHR 0x8F, CHR 0xE5, CHR 0xA4, CHR 0x84, CHR 0xE7, CHR 0x90, CHR 0x86, CHR 0xE3,
         CHR 0x80, CHR 0x82]) else
     and_then (pressed_publication env a) (decide_plan env nonce decision c s a))))"

definition handle_plan_callback ::
  "'w runtime_env \<Rightarrow> plan_codec \<Rightarrow> runtime_bot_role \<Rightarrow> string \<Rightarrow> string \<Rightarrow> telegram_callback \<Rightarrow> ('w, unit) task" where
  "handle_plan_callback env pl role nonce decision c =
     and_then (if \<not> workflow_callback_bot_allowed role then act_ok False
       else with_spaces (\<lambda>db. (workflow_callback_owner_authorized (re_de env) c db, db))) (\<lambda>allowed.
     if \<not> allowed then acknowledge_callback_task env (tcb_id c) ([CHR 0xE6, CHR 0x97, CHR 0xA0, CHR 0xE6,
         CHR 0x9D, CHR 0x83, CHR 0xE6, CHR 0x93, CHR 0x8D, CHR 0xE4, CHR 0xBD, CHR 0x9C, CHR 0xE6, CHR 0xAD,
         CHR 0xA4] @ '' Plan '' @ [CHR 0xE6, CHR 0x8C, CHR 0x89, CHR 0xE9, CHR 0x92, CHR 0xAE]) else
     and_then (acknowledge_callback_task env (tcb_id c) ([CHR 0xE6, CHR 0xAD, CHR 0xA3, CHR 0xE5, CHR 0x9C, CHR 0xA8,
         CHR 0xE5, CHR 0xA4, CHR 0x84, CHR 0xE7, CHR 0x90, CHR 0x86] @ '' Plan'')) (\<lambda>_.
     and_then (reading_clock env) (\<lambda>now.
     and_then (in_spaces (peek_callback nonce now)) (\<lambda>preview. case preview of
       None \<Rightarrow> answer_in_chat env c None ([CHR 0xE8, CHR 0xBF, CHR 0x99, CHR 0xE4, CHR 0xB8, CHR 0xAA]
           @ '' Plan '' @ [CHR 0xE6, CHR 0x8C, CHR 0x89, CHR 0xE9, CHR 0x92, CHR 0xAE, CHR 0xE5, CHR 0xB7, CHR 0xB2,
           CHR 0xE8, CHR 0xBF, CHR 0x87, CHR 0xE6, CHR 0x9C, CHR 0x9F, CHR 0xE6, CHR 0x88, CHR 0x96, CHR 0xE5,
           CHR 0xB7, CHR 0xB2, CHR 0xE7, CHR 0xBB, CHR 0x8F, CHR 0xE5, CHR 0xA4, CHR 0x84, CHR 0xE7, CHR 0x90,
           CHR 0x86, CHR 0xE3, CHR 0x80, CHR 0x82])
     | Some cb \<Rightarrow> and_then (from_result (pl_read pl (cb_action cb))) (\<lambda>a.
       and_then (generation_now env) (\<lambda>g.
       if spa_decision a \<noteq> decision \<or> spa_generation a \<noteq> g then answer_in_chat env c None (''Plan '' @ [CHR 0xE5, CHR 0xB7, CHR 0xB2, CHR 0xE8, CHR 0xBF, CHR 0x87, CHR 0xE6, CHR 0x9C, CHR 0x9F, CHR 0xE6, CHR 0x88, CHR 0x96] @ '' Codex '' @ [CHR 0xE8, CHR 0xBF, CHR 0x9E, CHR 0xE6, CHR 0x8E, CHR 0xA5, CHR 0xE5, CHR 0xB7, CHR 0xB2, CHR 0xE7, CHR 0xBB, CHR 0x8F, CHR 0xE9, CHR 0x87, CHR 0x8D, CHR 0xE5, CHR 0xBB, CHR 0xBA, CHR 0xE3, CHR 0x80, CHR 0x82]) else
       and_then (in_sessions (\<lambda>reg. by_thread reg (spa_thread_id a))) (\<lambda>session. case session of
         None \<Rightarrow> answer_in_chat env c None ([CHR 0xE5, CHR 0xBD, CHR 0x93, CHR 0xE5, CHR 0x89, CHR 0x8D]
             @ '' Session '' @ [CHR 0xE5, CHR 0xB7, CHR 0xB2, CHR 0xE4, CHR 0xB8, CHR 0x8D, CHR 0xE5, CHR 0x86,
             CHR 0x8D, CHR 0xE7, CHR 0x94, CHR 0xB1] @ '' Rust Bridge '' @ [CHR 0xE7, CHR 0xAE, CHR 0xA1, CHR 0xE7,
             CHR 0x90, CHR 0x86, CHR 0xE3, CHR 0x80, CHR 0x82])
       | Some s \<Rightarrow>
           if cb_space_id cb \<noteq> spa_space_id a \<or> tcb_chat_id c \<noteq> sr_chat_id s then answer_in_chat env c None (''Plan '' @ [CHR 0xE6, CHR 0x8C, CHR 0x89, CHR 0xE9, CHR 0x92, CHR 0xAE, CHR 0xE4, CHR 0xB8, CHR 0x8D, CHR 0xE5, CHR 0xB1, CHR 0x9E, CHR 0xE4, CHR 0xBA, CHR 0x8E, CHR 0xE5, CHR 0xBD, CHR 0x93, CHR 0xE5, CHR 0x89, CHR 0x8D] @ '' Session'' @ [CHR 0xE3, CHR 0x80, CHR 0x82])
           else press_plan env nonce decision c s a)))))))"

section \<open>A change that is asked for\<close>

definition revises :: "'w runtime_env \<Rightarrow> string \<Rightarrow> i64 \<Rightarrow> json \<Rightarrow> plan_publication option" where
  "revises env thread reply v = filter_opt (\<lambda>p. ppu_status p = PpRevising \<and> ppu_thread_id p = ThreadId thread
     \<and> ppu_revision_prompt_message_id p = Some reply) (re_read_plan env v)"

fun first_revising :: "'w runtime_env \<Rightarrow> string \<Rightarrow> i64 \<Rightarrow> (string \<times> json) list \<Rightarrow> plan_publication option" where
  "first_revising env thread reply [] = None"
| "first_revising env thread reply ((key,
    v) # rows) = or_else (revises env thread reply v) (first_revising env thread reply rows)"

definition revising_plan_for_reply :: "'w runtime_env \<Rightarrow> string \<Rightarrow> i64 \<Rightarrow> ('w, plan_publication option) task" where
  "revising_plan_for_reply env thread reply = and_then (records_of env ''plan'') (\<lambda>rows. act_ok (first_revising env thread reply rows))"

definition revision_client_id :: "plan_publication \<Rightarrow> string" where
  "revision_client_id p = ''telegram-plan-revise-'' @ ppu_space_id p @ ''-'' @ show_nat (ppu_generation p) @ ''-''
      @ ppu_item_id p
     @ ''-'' @ ppu_revision_key p"

definition revision_prompt :: "string \<Rightarrow> string" where
  "revision_prompt feedback = ''Continue refining the current plan based on this feedback. Do not implement it yet.''
      @ [newline, newline] @ feedback"

definition revision_started :: "'w runtime_env \<Rightarrow> session_record \<Rightarrow> plan_publication \<Rightarrow> prompt_intent \<Rightarrow> string \<Rightarrow> i64 \<Rightarrow> agent_turn \<Rightarrow> ('w, unit) task" where
  "revision_started env s p i cid message turn = (let steered = (sr_turn_id s \<noteq> None); t = turn_id_str (agu_id turn);
       thread = thread_id_str (agu_thread_id turn) in
     and_then (changing_sessions (set_turn thread (Some t))) (\<lambda>_.
     and_then (reading_clock env) (\<lambda>now.
     and_then (store_intent env (with_intent_state (if steered then PiSteered else PiStarted) now (i\<lparr>pin_turn_id := Some (agu_id turn)\<rparr>))) (\<lambda>_.
     and_then (put_record env ''prompt'' cid (jobj [(''intent_id'', JStr (pin_intent_id i)), (''client_message_id'',
         JStr cid),
       (''thread_id'', JStr thread), (''turn_id'', JStr t), (''chat_id'', JInt (sr_chat_id s)), (''message_id'',
           JInt message),
       (''state'', JStr (if steered then ''steered'' else ''started'')), (''plan_revision'', JBool True)])) (\<lambda>_.
     and_then (update_plan_publication env PpRevisionStarted (Some (agu_id turn)) (p\<lparr>ppu_revision_prompt_message_id := None\<rparr>)) (\<lambda>p1.
     and_then (ignoring (edit_plan_publication env s p1)) (\<lambda>_.
     tell env s (if steered then ([CHR 0xF0, CHR 0x9F, CHR 0x93, CHR 0x9D] @ '' Plan '' @ [CHR 0xE4, CHR 0xBF,
         CHR 0xAE, CHR 0xE6, CHR 0x94, CHR 0xB9, CHR 0xE6, CHR 0x84, CHR 0x8F, CHR 0xE8, CHR 0xA7, CHR 0x81, CHR 0xE5,
         CHR 0xB7, CHR 0xB2, CHR 0xE6, CHR 0xB3, CHR 0xA8, CHR 0xE5, CHR 0x85, CHR 0xA5, CHR 0xE5, CHR 0xBD, CHR 0x93,
         CHR 0xE5, CHR 0x89, CHR 0x8D] @ '' turn'' @ [CHR 0xE3, CHR 0x80, CHR 0x82]) else ([CHR 0xF0, CHR 0x9F,
         CHR 0x93, CHR 0x9D] @ '' Plan '' @ [CHR 0xE4, CHR 0xBF, CHR 0xAE, CHR 0xE6, CHR 0x94, CHR 0xB9, CHR 0xE6,
         CHR 0x84, CHR 0x8F, CHR 0xE8, CHR 0xA7, CHR 0x81, CHR 0xE5, CHR 0xB7, CHR 0xB2, CHR 0xE6, CHR 0x8F, CHR 0x90,
         CHR 0xE4, CHR 0xBA, CHR 0xA4, CHR 0xEF, CHR 0xBC, CHR 0x8C, CHR 0xE6, CHR 0xAD, CHR 0xA3, CHR 0xE5, CHR 0x9C,
         CHR 0xA8, CHR 0xE7, CHR 0xBB, CHR 0xA7, CHR 0xE7, CHR 0xBB, CHR 0xAD, CHR 0xE5, CHR 0xAE, CHR 0x8C, CHR 0xE5,
         CHR 0x96, CHR 0x84, CHR 0xE3, CHR 0x80, CHR 0x82])))))))))"

definition submit_plan_revision_feedback ::
  "'w runtime_env \<Rightarrow> session_record \<Rightarrow> plan_publication \<Rightarrow> string \<Rightarrow> i64 \<Rightarrow> ('w, unit) task" where
  "submit_plan_revision_feedback env s p feedback message = (let cid = revision_client_id p; prompt = revision_prompt feedback in
     and_then (intent_of env cid) (\<lambda>known. if known \<noteq> None then tell env s ([CHR 0xE8, CHR 0xBF,
         CHR 0x99, CHR 0xE6, CHR 0x9D, CHR 0xA1] @ '' Plan '' @ [CHR 0xE4, CHR 0xBF, CHR 0xAE, CHR 0xE6, CHR 0x94,
         CHR 0xB9, CHR 0xE6, CHR 0x84, CHR 0x8F, CHR 0xE8, CHR 0xA7, CHR 0x81, CHR 0xE5, CHR 0xB7, CHR 0xB2, CHR 0xE7,
         CHR 0xBB, CHR 0x8F, CHR 0xE6, CHR 0x8F, CHR 0x90, CHR 0xE4, CHR 0xBA, CHR 0xA4, CHR 0xEF, CHR 0xBC, CHR 0x8C,
         CHR 0xE6, CHR 0x9C, CHR 0xAA, CHR 0xE9, CHR 0x87, CHR 0x8D, CHR 0xE5, CHR 0xA4, CHR 0x8D, CHR 0xE5, CHR 0x8F,
         CHR 0x91, CHR 0xE9, CHR 0x80, CHR 0x81, CHR 0xE3, CHR 0x80, CHR 0x82]) else
     and_then (reading_clock env) (\<lambda>now.
     and_then (drawing_nonce env) (\<lambda>n. let i = new_intent n cid prompt ''plan'' (sr_thread_id s) (ppu_space_id p) (ppu_generation p) now in
     and_then (store_intent env i) (\<lambda>_.
     and_then (ignoring (tell env s ([CHR 0xF0, CHR 0x9F, CHR 0x93, CHR 0xA8] @ '' '' @ [CHR 0xE5, CHR 0xB7, CHR 0xB2,
         CHR 0xE6, CHR 0x94, CHR 0xB6, CHR 0xE5, CHR 0x88, CHR 0xB0] @ '' Plan '' @ [CHR 0xE4, CHR 0xBF, CHR 0xAE,
         CHR 0xE6, CHR 0x94, CHR 0xB9, CHR 0xE6, CHR 0x84, CHR 0x8F, CHR 0xE8, CHR 0xA7, CHR 0x81, CHR 0xEF, CHR 0xBC,
         CHR 0x8C, CHR 0xE6, CHR 0xAD, CHR 0xA3, CHR 0xE5, CHR 0x9C, CHR 0xA8, CHR 0xE6, CHR 0x8F, CHR 0x90, CHR 0xE4,
         CHR 0xBA, CHR 0xA4, CHR 0xE7, CHR 0xBB, CHR 0x99] @ '' Codex'' @ [CHR 0xE3, CHR 0x80, CHR 0x82]))) (\<lambda>_.
     and_then (reading_clock env) (\<lambda>now1. let i1 = with_intent_state PiSubmitting now1 i in
     and_then (store_intent env i1) (\<lambda>_.
     and_then (from_result (domain_result (prompt_input_text prompt))) (\<lambda>inp.
     and_then (send_turn env s [inp] cid) (\<lambda>r. case r of
       Inr turn \<Rightarrow> revision_started env s p i1 cid message turn
     | Inl e \<Rightarrow> prompt_uncertain env s i1 (port_error_display e) ([CHR 0xE2, CHR 0x9A, CHR 0xA0, CHR 0xEF,
         CHR 0xB8, CHR 0x8F] @ '' Plan '' @ [CHR 0xE4, CHR 0xBF, CHR 0xAE, CHR 0xE6, CHR 0x94, CHR 0xB9, CHR 0xE6,
         CHR 0x84, CHR 0x8F, CHR 0xE8, CHR 0xA7, CHR 0x81, CHR 0xE9, CHR 0x80, CHR 0x81, CHR 0xE8, CHR 0xBE, CHR 0xBE,
         CHR 0xE7, CHR 0x8A, CHR 0xB6, CHR 0xE6, CHR 0x80, CHR 0x81, CHR 0xE5, CHR 0xBE, CHR 0x85, CHR 0xE7, CHR 0xA1,
         CHR 0xAE, CHR 0xE8, CHR 0xAE, CHR 0xA4, CHR 0xEF, CHR 0xBC, CHR 0x9B, CHR 0xE8, CHR 0xAF, CHR 0xB7, CHR 0xE7,
         CHR 0xAD, CHR 0x89, CHR 0xE5, CHR 0xBE, CHR 0x85] @ '' Codex '' @ [CHR 0xE7, CHR 0x8A, CHR 0xB6, CHR 0xE6,
         CHR 0x80, CHR 0x81, CHR 0xE6, CHR 0x9B, CHR 0xB4, CHR 0xE6, CHR 0x96, CHR 0xB0, CHR 0xE5, CHR 0x90, CHR 0x8E,
         CHR 0xE5, CHR 0x86, CHR 0x8D, CHR 0xE9, CHR 0x87, CHR 0x8D, CHR 0xE8, CHR 0xAF, CHR 0x95, CHR 0xE3, CHR 0x80,
         CHR 0x82])))))))))))"

end
