(* ===== verification/PlanProps.thy ===== *)
theory PlanProps
  imports Plans RecordLaws
begin

text \<open>
  What the model of plans shows: a plan that was approved is started once. No press of a button, no
  publication, no feedback and no end of a turn brings a plan back to its state of waiting.
\<close>

section \<open>Plans by their keys\<close>

definition publication_key :: "plan_publication \<Rightarrow> string" where
  "publication_key p = plan_publication_key (ppu_space_id p) (ppu_generation p) (ppu_item_id p) (ppu_revision_key p)"

text \<open>What the serde derive of a publication does: it reads back, a replaced status is read as such, null is none.\<close>

definition plan_serde :: "'w runtime_env \<Rightarrow> bool" where
  "plan_serde env \<longleftrightarrow> (\<forall>p v. re_write_plan env p = Inr v \<longrightarrow> re_read_plan env v = Some p)
     \<and> (\<forall>v p. re_read_plan env (set_field ''status'' (JStr ''superseded'') v) = Some p
          \<longrightarrow> ppu_status p = PpSuperseded \<and> (\<exists>p0. re_read_plan env v = Some p0 \<and> publication_key p0 = publication_key p))
     \<and> re_read_plan env JNull = None"

definition keyed :: "'w runtime_env \<Rightarrow> string \<Rightarrow> json \<Rightarrow> bool" where
  "keyed env key v \<longleftrightarrow> (\<forall>p. re_read_plan env v = Some p \<longrightarrow> publication_key p = key)"

definition waits_no_more :: "'w runtime_env \<Rightarrow> json \<Rightarrow> bool" where
  "waits_no_more env v \<longleftrightarrow> (\<forall>p. re_read_plan env v = Some p \<longrightarrow> ppu_status p \<noteq> PpPublished)"

definition well_keyed :: "'w runtime_env \<Rightarrow> 'w runtime \<Rightarrow> bool" where
  "well_keyed env w \<longleftrightarrow> (\<forall>key. rows_read (re_de env) ''plan'' key (keyed env key) (rt_spaces w))"

definition plan_closed :: "'w runtime_env \<Rightarrow> string \<Rightarrow> 'w runtime \<Rightarrow> bool" where
  "plan_closed env k w \<longleftrightarrow> (\<exists>v. record_view env w (''plan'', k) = Inr (Some v) \<and> waits_no_more env v)"

definition keeps_plans :: "'w runtime_env \<Rightarrow> string \<Rightarrow> 'w runtime \<Rightarrow> 'w runtime \<Rightarrow> bool" where
  "keeps_plans env k w w1 \<longleftrightarrow> (well_keyed env w \<longrightarrow> well_keyed env w1 \<and> (plan_closed env k w \<longrightarrow> plan_closed env k w1))"

interpretation planning: handler_relation "keeps_plans env k" for env k
  by unfold_locales (auto simp: keeps_plans_def)

lemma plans_basic:
  "stays (keeps_plans env k) (reading_clock env')" "stays (keeps_plans env k) (drawing_nonce env')" "stays (keeps_plans env k) (generation_now env')"
  "stays (keeps_plans env k) (with_records g)" "stays (keeps_plans env k) (in_spaces h)" "stays (keeps_plans env k) (in_sessions i)"
  "stays (keeps_plans env k) (changing_sessions j)" "stays (keeps_plans env k) (asking f)" "stays (keeps_plans env k) (sending_message env' m)"
  "stays (keeps_plans env k) (record_of env' kind key)" "stays (keeps_plans env k) (records_of env' kind)"
  by (auto simp: stays_def runtime_defs record_of_def records_of_def case_prod_beta keeps_plans_def well_keyed_def plan_closed_def record_view_def)

lemma plans_same_records: "(\<And>db. sp_records (snd (f db)) = sp_records db) \<Longrightarrow> stays (keeps_plans env k) (with_spaces f)"
  by (auto simp: stays_def with_spaces_run keeps_plans_def well_keyed_def plan_closed_def rows_read_def
      record_view_def workflow_record_def)

lemma plans_callbacks:
  "stays (keeps_plans env k) (with_spaces (create_callback c))" "stays (keeps_plans env k) (with_spaces (restore_callback nonce))"
  "stays (keeps_plans env k) (with_spaces (take_callback_scoped nonce now space g))"
  "stays (keeps_plans env k) (with_spaces (\<lambda>db. (h db, db)))"
  by (intro plans_same_records; simp add: create_callback_def insert_callback_def restore_callback_def take_callback_scoped_def Let_def
      split: option.split)+

lemma plans_messages:
  "stays (keeps_plans env k) (tell env' s text)" "stays (keeps_plans env k) (tell_chat env' chat text)"
  "stays (keeps_plans env k) (answer_in_chat env' c root text)" "stays (keeps_plans env k) (acknowledge_callback_task env' i text)"
  "stays (keeps_plans env k) (send_text_with_markup_message env' surface text markup)" "stays (keeps_plans env k) (edit_plan_publication env' s p)"
  "stays (keeps_plans env k) (store_intent env' i')" "stays (keeps_plans env k) (intent_of env' cid)" "stays (keeps_plans env k) (store_publication env' p)"
  "stays (keeps_plans env k) (send_turn env' s inp cid)"
  unfolding tell_def tell_by_def tell_chat_def answer_in_chat_def acknowledge_callback_task_def send_text_with_markup_message_def send_text_task_def
    send_text_message_def edit_plan_publication_def edit_text_with_markup_task_def store_intent_def intent_of_def store_publication_def send_turn_def
  by (intro planning.stays_rules plans_basic)+

text \<open>A record that is written: a plan goes to its own key, and the closed one does not wait again.\<close>

definition plan_write_ok :: "'w runtime_env \<Rightarrow> string \<Rightarrow> string \<Rightarrow> string \<Rightarrow> json \<Rightarrow> bool" where
  "plan_write_ok env k kind key v \<longleftrightarrow> (kind = ''plan'' \<longrightarrow> keyed env key v \<and> (key = k \<longrightarrow> waits_no_more env v))"

lemma plans_put:
  assumes ok: "plan_write_ok env k kind key v" and reads: "reads_back_json (re_ser env) (re_de env)"
  shows "stays (keeps_plans env k) (put_record env kind key v)"
  unfolding stays_def
proof
  fix w
  obtain r w1 where run: "put_record env kind key v w = (r, w1)" by force
  have "rt_spaces w1 = snd (upsert_workflow_record (re_ser env) (re_sha256_hex env) kind key v (re_now env (rt_clock w)) (rt_spaces w))"
    using run by (auto simp: put_record_def write_record_def and_then_run reading_clock_def with_spaces_run)
  then have "well_keyed env w \<Longrightarrow> well_keyed env w1"
    using ok reads by (auto simp: well_keyed_def plan_write_ok_def intro!: rows_read_write)
  moreover have "plan_closed env k w \<Longrightarrow> plan_closed env k w1"
    using put_record_view [OF run reads] ok by (auto simp: plan_closed_def plan_write_ok_def)
  ultimately show "keeps_plans env k w (snd (put_record env kind key v w))" using run by (simp add: keeps_plans_def)
qed

lemmas plans_kept = planning.stays_rules plans_basic plans_callbacks plans_messages

text \<open>A condition on the value that a handler returns may be used by what follows.\<close>

lemma plans_then:
  assumes "stays (keeps_plans env k) m" and "\<And>w x w1. well_keyed env w \<Longrightarrow> m w = (Inr x,
      w1) \<Longrightarrow> Q x" and "\<And>x. Q x \<Longrightarrow> stays (keeps_plans env k) (f x)"
  shows "stays (keeps_plans env k) (and_then m f)"
  unfolding stays_def
proof
  fix w
  show "keeps_plans env k w (snd (and_then m f w))"
  proof (cases "well_keyed env w")
    case True
    obtain r w1 where r: "m w = (r, w1)" by force
    have m: "keeps_plans env k w w1" using staysD [OF assms(1), of w] r by simp
    show ?thesis
    proof (cases r)
      case (Inr x)
      then have "keeps_plans env k w1 (snd (f x w1))" using staysD [OF assms(3) [OF assms(2) [OF True]]] r by simp
      with m Inr r show ?thesis by (auto simp: and_then_run intro: planning.rel_trans)
    qed (use m r in \<open>simp add: and_then_run\<close>)
  qed (simp add: keeps_plans_def)
qed

section \<open>What each handler keeps\<close>

lemma written_plan:
  assumes "plan_serde env" "re_write_plan env p = Inr v" "publication_key p = k \<Longrightarrow> ppu_status p \<noteq> PpPublished"
  shows "plan_write_ok env k ''plan'' (publication_key p) v"
  using assms by (auto simp: plan_serde_def plan_write_ok_def keyed_def waits_no_more_def)

lemma from_result_run: "from_result r w = (Inr x, w1) \<longleftrightarrow> r = Inr x \<and> w1 = w"
  by (auto simp: from_result_def)

lemma keep_plans:
  assumes "reads_back_json (re_ser env) (re_de env)" "plan_serde env" "publication_key p = key" "key = k \<Longrightarrow> ppu_status p \<noteq> PpPublished"
  shows "stays (keeps_plans env k) (keep_publication env key p)"
proof -
  have "stays (keeps_plans env k) (and_then (from_result (re_write_plan env p)) (put_record env ''plan'' key))"
    by (intro plans_then [where Q = "\<lambda>v. re_write_plan env p = Inr v"] planning.stays_pure)
      (use assms(3,4) written_plan [OF assms(2)] in \<open>auto simp: from_result_run intro: plans_put [OF _ assms(1)]\<close>)
  then show ?thesis unfolding keep_publication_def by (rule planning.stays_and_then [OF plans_messages(9)])
qed

lemma update_plans:
  assumes "reads_back_json (re_ser env) (re_de env)" "plan_serde env" "publication_key p = k \<Longrightarrow> status \<noteq> PpPublished"
  shows "stays (keeps_plans env k) (update_plan_publication env status turn p)"
  unfolding update_plan_publication_def Let_def publication_key_def [symmetric]
  by (intro planning.stays_and_then planning.stays_pure plans_basic keep_plans [OF assms(1,2)])
    (use assms(3) in \<open>auto simp: publication_key_def\<close>)

lemma update_keeps_key: "update_plan_publication env status turn p w = (Inr p1,
    w1) \<Longrightarrow> publication_key p1 = publication_key p"
  by (auto simp: update_plan_publication_def and_then_Inr Let_def act_ok_def publication_key_def)

lemma or_restore_plans: "stays (keeps_plans env k) m \<Longrightarrow> stays (keeps_plans env k) (or_restore nonce m)"
  unfolding or_restore_def by (intro plans_kept)

lemma or_restore_Inr: "or_restore nonce m w = (Inr x, w1) \<Longrightarrow> m w = (Inr x, w1)"
  by (auto simp: or_restore_def and_then_run attempt_def act_ok_def act_err_def ignoring_def with_spaces_run split: sum.splits prod.splits)

lemma set_plan_state_plans:
  assumes "reads_back_json (re_ser env) (re_de env)" "plan_serde env" "publication_key p = k \<Longrightarrow> status \<noteq> PpPublished"
  shows "stays (keeps_plans env k) (set_plan_state env nonce s status turn p)"
  unfolding set_plan_state_def by (intro plans_kept or_restore_plans update_plans assms)

lemma set_plan_state_key: "set_plan_state env nonce s status turn p w = (Inr p1,
    w1) \<Longrightarrow> publication_key p1 = publication_key p"
  by (auto simp: set_plan_state_def and_then_Inr act_ok_def dest!: or_restore_Inr update_keeps_key)

lemma take_back_plans:
  assumes "reads_back_json (re_ser env) (re_de env)" "plan_serde env" "publication_key p \<noteq> k"
  shows "stays (keeps_plans env k) (take_back env nonce s p)"
  unfolding take_back_def using assms(3) by (intro plans_kept update_plans assms(1,2)) simp

text \<open>The flow of a decision writes the plan it is about, and no other.\<close>

lemma decision_plans:
  assumes "reads_back_json (re_ser env) (re_de env)" "plan_serde env" "publication_key p \<noteq> k"
  shows "stays (keeps_plans env k) (execute_plan env nonce item s c p)" "stays (keeps_plans env k) (revise_plan env nonce s c p)"
proof -
  note updates = set_plan_state_plans [OF assms(1,2)] take_back_plans [OF assms(1,2)] or_restore_plans update_plans [OF assms(1,2)]
  show "stays (keeps_plans env k) (execute_plan env nonce item s c p)"
    unfolding execute_plan_def
    by (rule plans_then [where Q = "\<lambda>p1. publication_key p1 = publication_key p"]; (intro plans_kept updates)?)
      (use assms(3) in \<open>auto dest: set_plan_state_key\<close>)
  show "stays (keeps_plans env k) (revise_plan env nonce s c p)"
    unfolding revise_plan_def
    by (rule plans_then [where Q = "\<lambda>p1. publication_key p1 = publication_key p"]; (intro plans_kept updates)?)
      (use assms(3) in \<open>auto dest: set_plan_state_key simp: publication_key_def\<close>)
qed

lemma pressed_result:
  assumes "pressed_publication env a w = (r, w1)"
  shows "w1 = w \<and> (\<forall>p. r = Inr (Some p) \<longrightarrow> (\<exists>key v. workflow_record (re_de env) ''plan'' key (rt_spaces w) = Inr (Some v) \<and> re_read_plan env v = Some p))"
  using assms by (auto simp: pressed_publication_def and_then_run attempt_def record_of_run record_view_def port_str_def act_ok_def
      split: sum.splits prod.splits option.splits bind_splits)

lemma keeps_plans_other: "keeps_plans env k' w w1 \<Longrightarrow> \<not> plan_closed env k w \<Longrightarrow> keeps_plans env k w w1"
  by (simp add: keeps_plans_def)

lemma decide_plans:
  assumes "reads_back_json (re_ser env) (re_de env)" "plan_serde env"
  shows "stays (keeps_plans env k) (and_then (pressed_publication env a) (decide_plan env nonce decision c s a))"
proof -
  let ?g = "decide_plan env nonce decision c s a"
  have g: "stays (keeps_plans env k') (?g found)" if "\<And>p. found = Some p \<Longrightarrow> ppu_status p = PpPublished \<Longrightarrow> publication_key p \<noteq> k'" for k' found
    using that by (cases found) (auto simp: decide_plan_def intro!: plans_kept decision_plans [OF assms])
  have "keeps_plans env k w (snd (and_then (pressed_publication env a) ?g w))" for w
  proof (cases "well_keyed env w")
    case True
    obtain r where r: "pressed_publication env a w = (r, w)" using pressed_result by (metis surj_pair)
    show ?thesis
    proof (cases r)
      case (Inr found)
      have found: "\<exists>key v. workflow_record (re_de env) ''plan'' key (rt_spaces w) = Inr (Some v) \<and> re_read_plan env v = Some p" if "found = Some p" for p
        using pressed_result [OF r] Inr that by blast
      have run: "snd (and_then (pressed_publication env a) ?g w) = snd (?g found w)" using r Inr by (simp add: and_then_run)
      show ?thesis
      proof (cases "plan_closed env k w")
        case closed: True
        have "publication_key p \<noteq> k" if p: "found = Some p" "ppu_status p = PpPublished" for p
        proof -
          obtain key v where v: "workflow_record (re_de env) ''plan'' key (rt_spaces w) = Inr (Some v)" "re_read_plan env v = Some p"
            using found [OF p(1)] by blast
          have "keyed env key v" by (rule workflow_record_read [OF v(1)]) (use True in \<open>simp add: well_keyed_def\<close>)
          moreover have "waits_no_more env v" if "key = k" using closed v(1) that by (auto simp: plan_closed_def record_view_def)
          ultimately show ?thesis using v(2) p(2) by (auto simp: keyed_def waits_no_more_def)
        qed
        then have "stays (keeps_plans env k) (?g found)" by (rule g)
        from staysD [OF this] show ?thesis unfolding run .
      next
        case False
        have "stays (keeps_plans env (case found of None \<Rightarrow> k | Some p \<Rightarrow> CHR ''x'' # publication_key p)) (?g found)"
          by (intro g) (auto dest: arg_cong [of _ _ length])
        from keeps_plans_other [OF staysD [OF this] False] show ?thesis unfolding run .
      qed
    qed (use r in \<open>simp add: and_then_run keeps_plans_def\<close>)
  qed (simp add: keeps_plans_def)
  then show ?thesis by (simp add: stays_def)
qed

lemma press_plans:
  assumes "reads_back_json (re_ser env) (re_de env)" "plan_serde env"
  shows "stays (keeps_plans env k) (press_plan env nonce decision c s a)"
  unfolding press_plan_def
  by (rule planning.stays_and_then plans_basic planning.stays_pure plans_callbacks planning.stays_cases plans_messages decide_plans [OF assms])+

lemma callback_plans:
  assumes "reads_back_json (re_ser env) (re_de env)" "plan_serde env"
  shows "stays (keeps_plans env k) (handle_plan_callback env pl role nonce decision c)"
  unfolding handle_plan_callback_def by (intro plans_kept press_plans [OF assms])

text \<open>Records that are read have their own keys.\<close>

lemma read_keyed:
  assumes "well_keyed env w" and "records_of env ''plan'' w = (Inr rows, w1)" and "(key, v) \<in> set rows"
  shows "keyed env key v"
proof -
  from assms(2) have "workflow_records (re_de env) ''plan'' (rt_spaces w) = Inr rows"
    by (auto simp: records_of_def with_spaces_run port_str_def split: sum.splits)
  from decoded_record [OF this [unfolded workflow_records_def] assms(3)] assms(1) show ?thesis
    by (auto simp: well_keyed_def rows_read_def record_key_def)
qed

lemma each_plans: "(\<And>x. x \<in> set xs \<Longrightarrow> stays (keeps_plans env k) (f x)) \<Longrightarrow> stays (keeps_plans env k) (each_one f xs)"
  by (induction xs) (auto intro: planning.stays_pure planning.stays_and_then)

lemma supersede_plans:
  assumes "reads_back_json (re_ser env) (re_de env)" "plan_serde env" "keyed env old_key old"
  shows "stays (keeps_plans env k) (supersede env space g key (old_key, old))"
proof -
  have "plan_write_ok env k ''plan'' old_key (set_field ''status'' (JStr ''superseded'') old)"
    using assms(2,3) by (fastforce simp: plan_serde_def plan_write_ok_def keyed_def waits_no_more_def)
  with plans_put [OF this assms(1)] show ?thesis by (auto simp: supersede_def intro: planning.stays_pure)
qed

lemma payload_ok:
  "plan_serde env \<Longrightarrow> publication_key p = key \<Longrightarrow> key = k \<longrightarrow> ppu_status p \<noteq> PpPublished \<Longrightarrow> plan_write_ok env k ''plan'' key (plan_payload env p)"
  by (cases "re_write_plan env p") (auto simp: plan_payload_def ok_option_def plan_serde_def plan_write_ok_def keyed_def waits_no_more_def)

lemma markup_plans: "stays (keeps_plans env k) (plan_markup env' pl space g thread item revision)"
  unfolding plan_markup_def plan_button_def by (intro plans_kept)

lemma fresh_plans:
  assumes "reads_back_json (re_ser env) (re_de env)" "plan_serde env" "plan_publication_key space g item revision \<noteq> k"
  shows "stays (keeps_plans env k) (publish_fresh env pl s space g item revision turn text)"
proof -
  let ?p = "\<lambda>status messages now. new_publication space g item revision (sr_thread_id s) turn status text messages now"
  have put: "stays (keeps_plans env k) (put_record env ''plan'' (plan_publication_key space g item revision) (plan_payload env (?p status messages now)))" for status messages now
    by (intro plans_put payload_ok assms(1,2)) (use assms(3) in \<open>simp_all add: publication_key_def new_publication_def\<close>)
  show ?thesis
    unfolding publish_fresh_def Let_def
    by (intro planning.stays_and_then planning.stays_wrapped planning.stays_cases planning.stays_pure plans_basic plans_messages markup_plans put
        keep_plans [OF assms(1,2)]) (use assms(3) in \<open>simp_all add: publication_key_def new_publication_def\<close>)
qed

lemma publish_new_plans:
  assumes "reads_back_json (re_ser env) (re_de env)" "plan_serde env" "plan_publication_key space g item revision \<noteq> k"
  shows "stays (keeps_plans env k) (publish_new env pl s space g item revision turn text)"
  unfolding publish_new_def
proof (rule plans_then [where Q = "\<lambda>olds. \<forall>(key, v) \<in> set olds. keyed env key v"])
  fix olds assume olds: "\<forall>(key, v) \<in> set olds. keyed env key v"
  have "stays (keeps_plans env k) (each_one (supersede env space g (plan_publication_key space g item revision)) olds)"
    by (rule each_plans) (use olds supersede_plans [OF assms(1,2)] in fastforce)
  with fresh_plans [OF assms] show "stays (keeps_plans env k) (and_then (each_one (supersede env space g
      (plan_publication_key space g item revision)) olds) (\<lambda>_. publish_fresh env pl s space g item revision turn text))"
    by (intro planning.stays_and_then)
qed (auto intro: plans_basic read_keyed)

text \<open>A plan that is closed is known, so it is not published again under its key.\<close>

lemma publish_plans:
  assumes "reads_back_json (re_ser env) (re_de env)" "plan_serde env"
  shows "stays (keeps_plans env k) (publish_plan_message env pl s sp item turn text)"
proof -
  have fresh: "stays (keeps_plans env k) (and_then (record_of env ''plan'' key) (\<lambda>known. if known \<noteq> None then act_ok () else publish_new env pl s space g item revision turn text))"
    if key: "key = plan_publication_key space g item revision" for space g revision key
    unfolding stays_def
  proof
    fix w
    have new: "stays (keeps_plans env k') (publish_new env pl s space g item revision turn text)" if "key \<noteq> k'" for k'
      using publish_new_plans [OF assms] that key by simp
    show "keeps_plans env k w (snd (and_then (record_of env ''plan'' key) (\<lambda>known. if known \<noteq> None then act_ok ()
        else publish_new env pl s space g item revision turn text) w))" (is "keeps_plans env k w (snd (?m w))")
    proof (cases "record_view env w (''plan'', key) = Inr None")
      case True
      then have run: "?m w = publish_new env pl s space g item revision turn text w"
        by (simp add: and_then_run record_of_run port_str_def)
      show ?thesis
      proof (cases "key = k")
        case same: True
        then have "\<not> plan_closed env k w" using True by (simp add: plan_closed_def)
        moreover have "stays (keeps_plans env (CHR ''x'' # key)) (publish_new env pl s space g item revision turn text)" by (rule new) simp
        from staysD [OF this] have "keeps_plans env (CHR ''x'' # key) w (snd (publish_new env pl s space g item revision turn text w))" .
        ultimately show ?thesis unfolding run using keeps_plans_other by blast
      next
        case False
        from staysD [OF new [OF this]] show ?thesis unfolding run .
      qed
    next
      case False
      then have "snd (?m w) = w" by (auto simp: and_then_run record_of_run port_str_def act_ok_def split: sum.split)
      then show ?thesis by (simp add: keeps_plans_def)
    qed
  qed
  show ?thesis
    unfolding publish_plan_message_def Let_def by (rule planning.stays_and_then [OF plans_basic(3)], rule fresh, rule refl)
qed

lemma show_plans:
  assumes "reads_back_json (re_ser env) (re_de env)" "plan_serde env"
  shows "stays (keeps_plans env k) (render_plan_command env pl chat session)"
  unfolding render_plan_command_def extract_plan_from_thread_def thread_read_def ask_codex_def
  by (intro plans_kept publish_plans [OF assms])

lemma other_write: "kind \<noteq> ''plan'' \<Longrightarrow> plan_write_ok env k kind key v"
  by (simp add: plan_write_ok_def)

lemma finish_plans: "stays (keeps_plans env k) (finish_intent env v f)" "stays (keeps_plans env k) (prompt_uncertain env s i e text)"
  unfolding finish_intent_def prompt_uncertain_def by (intro plans_kept)+

lemma feedback_plans:
  assumes "reads_back_json (re_ser env) (re_de env)" "plan_serde env"
  shows "stays (keeps_plans env k) (submit_plan_revision_feedback env s p feedback message)"
  unfolding submit_plan_revision_feedback_def revision_started_def Let_def
  by (intro plans_kept finish_plans plans_put [OF other_write assms(1)] update_plans [OF assms]) simp_all

lemma mark_plan_plans:
  assumes "reads_back_json (re_ser env) (re_de env)" "plan_serde env" "keyed env key v"
  shows "stays (keeps_plans env k) (mark_plan env thread turn state (key, v))"
proof -
  have ended: "ended_plan_status state current = Some status \<Longrightarrow> status \<noteq> PpPublished" for current status
    by (auto simp: ended_plan_status_def split: if_splits)
  have "stays (keeps_plans env k) (put_record env ''plan'' key (plan_payload env p1))"
    if "ppu_status p1 \<noteq> PpPublished" "publication_key p1 = key" for p1
    using that by (intro plans_put payload_ok assms(1,2)) auto
  with ended assms(3) show ?thesis
    unfolding mark_plan_def
    by (auto simp: Let_def keyed_def publication_key_def store_publication_def [symmetric] split: option.split bind_splits
        intro!: plans_kept)
qed

lemma mark_plans_plans:
  assumes "reads_back_json (re_ser env) (re_de env)" "plan_serde env"
  shows "\<forall>(key, v) \<in> set rows. keyed env key v \<Longrightarrow> stays (keeps_plans env k) (mark_plans env thread turn state rows)"
  by (induction rows) (auto intro!: plans_kept mark_plan_plans [OF assms])

lemma turn_end_plans:
  assumes "reads_back_json (re_ser env) (re_de env)" "plan_serde env"
  shows "stays (keeps_plans env k) (mark_turn_workflows env thread turn state e)"
proof -
  have prompt: "stays (keeps_plans env k) (mark_prompt env thread turn state e x)" for x
    unfolding mark_prompt_def Let_def by (intro plans_kept finish_plans plans_put [OF other_write assms(1)]) simp
  have entry: "stays (keeps_plans env k) (mark_entry env thread turn state e x)" for x
    unfolding mark_entry_def Let_def by (intro plans_kept finish_plans plans_put [OF other_write assms(1)]) simp
  have rows: "stays (keeps_plans env k) (records_or_none env kind)" for kind
    unfolding records_or_none_def by (intro plans_kept)
  have plans: "stays (keeps_plans env k) (and_then (records_or_none env ''plan'') (mark_plans env thread turn state))"
  proof (rule plans_then [where Q = "\<lambda>rows. \<forall>(key, v) \<in> set rows. keyed env key v"])
    fix w rows w1 assume w: "well_keyed env w" "records_or_none env ''plan'' w = (Inr rows, w1)"
    obtain r w2 where r: "records_of env ''plan'' w = (r, w2)" by force
    with w(2) have "rows = unwrap_or (ok_option r) []"
      by (simp add: records_or_none_def and_then_run attempt_def act_ok_def)
    with read_keyed [OF w(1)] r show "\<forall>(key, v) \<in> set rows. keyed env key v"
      by (cases r) (auto simp: ok_option_def)
  qed (auto intro: rows mark_plans_plans [OF assms])
  show ?thesis
    unfolding mark_turn_workflows_def
    by (rule planning.stays_and_then [OF rows], rule planning.stays_and_then [OF planning.stays_each [OF prompt]],
        rule planning.stays_and_then [OF rows], rule planning.stays_and_then [OF planning.stays_each [OF entry]],
            rule plans)
qed

lemma submit_plans:
  assumes "reads_back_json (re_ser env) (re_de env)"
  shows "stays (keeps_plans env k) (submit_prompt_intent_with_inputs env s prompt mode message inputs)"
  unfolding submit_prompt_intent_with_inputs_def submitting_def prompt_started_def submit_ask_fork_def
    ask_fork_turn_def ask_session_cwd_def pending_space_payload_def cleanup_ask_thread_def Let_def
  by (intro plans_kept finish_plans plans_put [OF other_write assms]) simp_all

lemma dispatch_plans:
  assumes "reads_back_json (re_ser env) (re_de env)"
  shows "stays (keeps_plans env k) (dispatch_next_queued env s)"
  unfolding dispatch_next_queued_def dispatch_entry_def dispatch_outcome_def tell_by_def send_text_task_def send_text_message_def Let_def
  by (intro plans_kept plans_put [OF other_write assms]) simp_all

section \<open>Runs\<close>

datatype plan_op =
    PoPublish session_record session_space string turn_id string
  | PoShow i64 "session_record option"
  | PoPress runtime_bot_role string string telegram_callback
  | PoReply session_record i64 string i64
  | PoSubmit session_record string string i64 "prompt_input list option"
  | PoDispatch session_record
  | PoEnd string string string "string option"

definition plan_step :: "'w runtime_env \<Rightarrow> plan_codec \<Rightarrow> plan_op \<Rightarrow> 'w runtime \<Rightarrow> 'w runtime" where
  "plan_step env pl op w = (case op of
     PoPublish s sp item turn plan \<Rightarrow> snd (publish_plan_message env pl s sp item turn plan w)
   | PoShow chat session \<Rightarrow> snd (render_plan_command env pl chat session w)
   | PoPress role nonce decision c \<Rightarrow> snd (handle_plan_callback env pl role nonce decision c w)
   | PoReply s reply feedback message \<Rightarrow> snd (and_then (revising_plan_for_reply env (sr_thread_id s) reply) (\<lambda>found. case found of
       None \<Rightarrow> act_ok () | Some p \<Rightarrow> submit_plan_revision_feedback env s p feedback message) w)
   | PoSubmit s prompt mode message inputs \<Rightarrow> snd (submit_prompt_intent_with_inputs env s prompt mode message inputs w)
   | PoDispatch s \<Rightarrow> snd (dispatch_next_queued env s w)
   | PoEnd thread turn state e \<Rightarrow> snd (mark_turn_workflows env thread turn state e w))"

lemma plan_step_keeps:
  assumes "reads_back_json (re_ser env) (re_de env)" "plan_serde env"
  shows "keeps_plans env k w (plan_step env pl op w)"
proof (cases op)
  case (PoReply s reply feedback message)
  have "stays (keeps_plans env k) (and_then (revising_plan_for_reply env (sr_thread_id s) reply) (\<lambda>found. case found of
       None \<Rightarrow> act_ok () | Some p \<Rightarrow> submit_plan_revision_feedback env s p feedback message))"
    unfolding revising_plan_for_reply_def by (intro plans_kept feedback_plans [OF assms])
  then show ?thesis by (simp add: plan_step_def PoReply staysD)
qed (simp_all add: plan_step_def staysD publish_plans show_plans callback_plans submit_plans dispatch_plans turn_end_plans assms)

lemma plan_run_keeps:
  assumes "reads_back_json (re_ser env) (re_de env)" "plan_serde env"
  shows "keeps_plans env k w (fold (plan_step env pl) ops w)"
  by (induction ops arbitrary: w) (auto intro: planning.rel_refl planning.rel_trans plan_step_keeps [OF assms])

section \<open>What a press reaches\<close>

text \<open>Codex was not asked and no record was written.\<close>

definition idle :: "'w runtime \<Rightarrow> 'w runtime \<Rightarrow> bool" where
  "idle w w1 \<longleftrightarrow> rt_agent w1 = rt_agent w \<and> sp_records (rt_spaces w1) = sp_records (rt_spaces w)"

interpretation idling: handler_relation idle
  by unfold_locales (simp_all add: idle_def)

lemma idle_answers: "stays idle (answer_in_chat env c root t)" "stays idle (acknowledge_callback_task env i t)"
  by (simp_all add: stays_def idle_def answer_in_chat_def acknowledge_callback_task_def send_text_task_def send_text_message_def
      sending_message_def ignoring_def and_then_run act_ok_def split: sum.split)

lemma idle_edit: "stays idle (edit_plan_publication env s p)"
  unfolding edit_plan_publication_def edit_text_with_markup_task_def
  by (intro idling.stays_rules) (simp add: stays_def idle_def sending_message_def)

lemma idle_view: "idle w w1 \<Longrightarrow> record_view env w1 = record_view env w \<and> well_keyed env w1 = well_keyed env w"
  by (simp add: idle_def record_view_def workflow_record_def well_keyed_def rows_read_def)

lemma idle_steps: "idle w (w\<lparr>rt_sent := x\<rparr>)" "idle w (w\<lparr>rt_clock := n\<rparr>)" "idle w (w\<lparr>rt_sent := x, rt_clock := n\<rparr>)"
  by (simp_all add: idle_def)

definition action_key :: "stored_plan_action \<Rightarrow> string" where
  "action_key a = plan_publication_key (spa_space_id a) (spa_generation a) (spa_item_id a) (spa_revision_key a)"

lemma callback_reaches:
  assumes "peek_callback nonce (re_now env (rt_clock w)) (rt_spaces w) = Some cb" and "pl_read pl (cb_action cb) = Inr a"
  shows "idle w (snd (handle_plan_callback env pl role nonce decision c w))
    \<or> (\<exists>s w2. idle w w2 \<and> by_thread (rt_sessions w) (spa_thread_id a) = Some s
         \<and> handle_plan_callback env pl role nonce decision c w = press_plan env nonce decision c s a w2)"
proof -
  let ?w2 = "w\<lparr>rt_sent := rt_sent w @ [RmAnswer (tcb_id c) ([CHR 0xE6, CHR 0xAD, CHR 0xA3, CHR 0xE5, CHR 0x9C,
      CHR 0xA8, CHR 0xE5, CHR 0xA4, CHR 0x84, CHR 0xE7, CHR 0x90, CHR 0x86] @ '' Plan'')], rt_clock := Suc (rt_clock w)\<rparr>"
  have answers: "idle w (snd (answer_in_chat env c root t ?w2))" for root t
    using staysD [OF idle_answers(1), of ?w2 env c root t] by (rule idling.rel_trans [OF idle_steps(3)])
  have "idle w (snd (acknowledge_callback_task env i t w))" for i t by (rule staysD [OF idle_answers(2)])
  with assms answers show ?thesis
    by (auto simp: handle_plan_callback_def and_then_run [where w = w] and_then_run with_spaces_run act_ok_def port_str_def reading_clock_def in_spaces_def
        in_sessions_def generation_now_def from_result_def acknowledge_callback_task_def ignoring_def sending_message_def idling.rel_refl
        intro: idle_steps split: sum.splits option.splits)
qed

lemma plan_press_reaches:
  "idle w (snd (press_plan env nonce decision c s a w))
    \<or> (\<exists>w2. idle w w2 \<and> press_plan env nonce decision c s a w = and_then (pressed_publication env a) (decide_plan env nonce decision c s a) w2)"
proof -
  let ?now = "re_now env (rt_clock w)" and ?w1 = "w\<lparr>rt_clock := Suc (rt_clock w)\<rparr>"
  let ?take = "take_callback_scoped nonce ?now (Some (spa_space_id a))"
  have kept: "sp_records (snd (?take g db)) = sp_records db" for g db
    by (simp add: take_callback_scoped_def Let_def split: option.split)
  have answers: "idle w2 (snd (answer_in_chat env c root t w2))" for root t w2
    by (rule staysD [OF idle_answers(1)])
  show ?thesis
  proof (cases "generation_or ''Plan generation exceeds SQLite range'' (spa_generation a)")
    case (Inl e)
    then have "snd (press_plan env nonce decision c s a w) = ?w1"
      by (simp add: press_plan_def and_then_run reading_clock_def from_result_def)
    then show ?thesis using idle_steps(2) by metis
  next
    case (Inr g)
    let ?w2 = "?w1\<lparr>rt_spaces := snd (?take (Some g) (rt_spaces w))\<rparr>"
    have w2: "idle w ?w2" using kept by (simp add: idle_def)
    have run: "press_plan env nonce decision c s a w = (case port_str (fst (?take (Some g) (rt_spaces w))) of Inl e \<Rightarrow> (Inl e, ?w2)
      | Inr taken \<Rightarrow> (if taken = None then answer_in_chat env c None ([CHR 0xE8, CHR 0xBF, CHR 0x99,
          CHR 0xE4, CHR 0xB8, CHR 0xAA] @ '' Plan '' @ [CHR 0xE6, CHR 0x8C, CHR 0x89, CHR 0xE9, CHR 0x92, CHR 0xAE,
          CHR 0xE5, CHR 0xB7, CHR 0xB2, CHR 0xE8, CHR 0xBF, CHR 0x87, CHR 0xE6, CHR 0x9C, CHR 0x9F, CHR 0xE6,
          CHR 0x88, CHR 0x96, CHR 0xE5, CHR 0xB7, CHR 0xB2, CHR 0xE7, CHR 0xBB, CHR 0x8F, CHR 0xE5, CHR 0xA4,
          CHR 0x84, CHR 0xE7, CHR 0x90, CHR 0x86, CHR 0xE3, CHR 0x80, CHR 0x82])
          else and_then (pressed_publication env a) (decide_plan env nonce decision c s a)) ?w2)"
      using Inr by (simp add: press_plan_def and_then_run [where w = w] and_then_run [where w = ?w1] and_then_run [of "with_spaces f" for f]
          reading_clock_def from_result_def with_spaces_run split: sum.split)
    show ?thesis
      using run w2 idling.rel_trans [OF w2 answers [of ?w2]] by (auto split: sum.splits if_splits)
  qed
qed

text \<open>A plan that is closed: the press finds it so, and is answered.\<close>

lemma closed_press_idle:
  assumes "plan_closed env (action_key a) w"
  shows "idle w (snd (and_then (pressed_publication env a) (decide_plan env nonce decision c s a) w))"
proof -
  from assms obtain v where "record_view env w (''plan'',
      action_key a) = Inr (Some v)" "waits_no_more env v" by (auto simp: plan_closed_def)
  then have "pressed_publication env a w = (Inr (re_read_plan env v),
      w)" "\<And>p. re_read_plan env v = Some p \<Longrightarrow> ppu_status p \<noteq> PpPublished"
    by (auto simp: pressed_publication_def and_then_run attempt_def record_of_run port_str_def act_ok_def action_key_def waits_no_more_def)
  then have "snd (and_then (pressed_publication env a) (decide_plan env nonce decision c s a) w) = snd (answer_in_chat env c (sr_root_message_id s)
      ([CHR 0xE8, CHR 0xBF, CHR 0x99, CHR 0xE4, CHR 0xB8, CHR 0xAA] @ '' Plan '' @ [CHR 0xE5, CHR 0xB7, CHR 0xB2,
          CHR 0xE8, CHR 0xBF, CHR 0x87, CHR 0xE6, CHR 0x9C, CHR 0x9F, CHR 0xE6, CHR 0x88, CHR 0x96, CHR 0xE5,
          CHR 0xB7, CHR 0xB2, CHR 0xE7, CHR 0xBB, CHR 0x8F, CHR 0xE5, CHR 0xA4, CHR 0x84, CHR 0xE7, CHR 0x90,
          CHR 0x86, CHR 0xE3, CHR 0x80, CHR 0x82]) w)"
    by (auto simp: and_then_run decide_plan_def split: option.split)
  then show ?thesis using staysD [OF idle_answers(1)] by metis
qed

lemma closed_callback_idle:
  assumes "plan_closed env (action_key a) w" "peek_callback nonce (re_now env (rt_clock w)) (rt_spaces w) = Some cb" "pl_read pl (cb_action cb) = Inr a"
  shows "idle w (snd (handle_plan_callback env pl role nonce decision c w))"
  using callback_reaches [OF assms(2,3), of role decision c]
proof (elim disjE exE conjE)
  fix s w2 assume w2: "idle w w2" "handle_plan_callback env pl role nonce decision c w = press_plan env nonce decision c s a w2"
  have "idle w2 (snd (press_plan env nonce decision c s a w2))"
    using plan_press_reaches [of w2 env nonce decision c s a]
  proof (elim disjE exE conjE)
    fix w3 assume w3: "idle w2 w3" "press_plan env nonce decision c s a w2 = and_then (pressed_publication env a) (decide_plan env nonce decision c s a) w3"
    have "plan_closed env (action_key a) w3" using assms(1) idle_view [OF w2(1)] idle_view [OF w3(1)] by (simp add: plan_closed_def)
    from idling.rel_trans [OF w3(1) closed_press_idle [OF this]] show ?thesis by (simp add: w3(2))
  qed
  from idling.rel_trans [OF w2(1) this] show ?thesis by (simp add: w2(2))
qed

section \<open>A plan that Codex has accepted\<close>

definition codex_accepts :: "'w runtime_env \<Rightarrow> session_record \<Rightarrow> prompt_input list \<Rightarrow> string \<Rightarrow> 'w runtime \<Rightarrow> bool" where
  "codex_accepts env s inp cid w \<longleftrightarrow> (\<exists>turn. fst (send_turn env s inp cid w) = Inr (Inr turn))"

lemma accepts_agent: "rt_agent w1 = rt_agent w \<Longrightarrow> codex_accepts env s inp cid w1 = codex_accepts env s inp cid w"
  by (auto simp: codex_accepts_def send_turn_def asking_run split: option.split)

lemma execution_input: "prompt_input_text execution_prompt = Inr (PText execution_prompt [])"
  by code_simp

lemma update_closes:
  assumes "update_plan_publication env status turn p w = (Inr p1, w1)" "status \<noteq> PpPublished"
    and "reads_back_json (re_ser env) (re_de env)" "plan_serde env"
  shows "plan_closed env (publication_key p) w1"
proof -
  from assms(1) obtain now v w2 where run: "p1 = p\<lparr>ppu_status := status, ppu_decision_turn_id := turn,
      ppu_updated_at_ms := now\<rparr>"
    "re_write_plan env p1 = Inr v" "put_record env ''plan'' (publication_key p1) v w2 = (Inr (), w1)"
    by (auto simp: update_plan_publication_def keep_publication_def and_then_Inr Let_def act_ok_def from_result_run publication_key_def)
  have "record_view env w1 (''plan'', publication_key p1) = Inr (Some v)"
    using put_record_view [OF run(3) assms(3)] by auto
  moreover have "waits_no_more env v" using assms(2,4) run(1,2) by (auto simp: plan_serde_def waits_no_more_def)
  moreover have "publication_key p1 = publication_key p" by (rule update_keeps_key [OF assms(1)])
  ultimately show ?thesis by (auto simp: plan_closed_def)
qed

text \<open>The states of a plan are written without asking Codex.\<close>

lemma unasked_state: "stays keeps_agent (set_plan_state env nonce s status turn p)" "stays keeps_agent (answer_in_chat env c root t)"
  unfolding set_plan_state_def or_restore_def update_plan_publication_def keep_publication_def store_publication_def put_record_def
    write_record_def edit_plan_publication_def edit_text_with_markup_task_def answer_in_chat_def send_text_task_def send_text_message_def Let_def
  by (intro unasked.stays_rules unasked_basic)+

lemma execute_closes:
  assumes reads: "reads_back_json (re_ser env) (re_de env)" "plan_serde env" and w: "well_keyed env w" "publication_key p = k"
    and accepts: "codex_accepts env s [PText execution_prompt []] (''plan-execute-'' @ item) w"
    and asked: "rt_agent (snd (execute_plan env nonce item s c p w)) \<noteq> rt_agent w"
  shows "plan_closed env k (snd (execute_plan env nonce item s c p w))"
proof -
  obtain r w1 where r: "set_plan_state env nonce s PpExecuting None p w = (r, w1)" by force
  have agent: "rt_agent w1 = rt_agent w" by (rule agentD [OF unasked_state(1) r])
  show ?thesis
  proof (cases r)
    case (Inl e)
    with r agent asked show ?thesis by (simp add: execute_plan_def and_then_run)
  next
    case (Inr p1)
    have "stays (keeps_plans env k) (set_plan_state env nonce s PpExecuting None p)" by (rule set_plan_state_plans [OF reads]) simp
    from staysD [OF this, of w] have "keeps_plans env k w w1" using r by simp
    with w(1) have keyed: "well_keyed env w1" by (simp add: keeps_plans_def)
    from r Inr obtain w0 where w0: "update_plan_publication env PpExecuting None p w = (Inr p1,
        w0)" "w1 = snd (edit_plan_publication env s p1 w0)"
      by (auto simp: set_plan_state_def and_then_Inr act_ok_def ignoring_def dest!: or_restore_Inr)
    have "plan_closed env k w0" using update_closes [OF w0(1) _ reads] w(2) by simp
    then have closed: "plan_closed env k w1" using idle_view [OF staysD [OF idle_edit,
        of w0 env s p1]] w0(2) by (simp add: plan_closed_def)
    obtain turn w2 where turn: "send_turn env s [PText execution_prompt []] (''plan-execute-''
        @ item) w1 = (Inr (Inr turn), w2)"
      using accepts accepts_agent [OF agent] by (fastforce simp: codex_accepts_def prod_eq_iff)
    let ?rest = "and_then (changing_sessions (set_turn (sr_thread_id s) (Some (turn_id_str (agu_id turn))))) (\<lambda>_.
         and_then (set_plan_state env nonce s PpExecuting (Some (agu_id turn)) p1) (\<lambda>_.
         answer_in_chat env c (sr_root_message_id s) ([CHR 0xE2, CHR 0x9C, CHR 0x85] @ '' '' @ [CHR 0xE5, CHR 0xB7,
             CHR 0xB2, CHR 0xE6, CHR 0x89, CHR 0xB9, CHR 0xE5, CHR 0x87, CHR 0x86] @ '' Plan'' @ [CHR 0xEF, CHR 0xBC,
             CHR 0x8C, CHR 0xE6, CHR 0xAD, CHR 0xA3, CHR 0xE5, CHR 0x9C, CHR 0xA8, CHR 0xE5, CHR 0x90, CHR 0xAF,
             CHR 0xE5, CHR 0x8A, CHR 0xA8, CHR 0xE6, CHR 0x89, CHR 0xA7, CHR 0xE8, CHR 0xA1, CHR 0x8C, CHR 0xE3,
             CHR 0x80, CHR 0x82])))"
    have run: "snd (execute_plan env nonce item s c p w) = snd (?rest w2)"
      using r Inr turn by (simp add: execute_plan_def and_then_run [of "set_plan_state env nonce s PpExecuting None p"] execution_input domain_result_def
          and_then_run [of "from_result x" for x] from_result_def and_then_run [of "send_turn env s i cid" for i cid])
    have "stays (keeps_plans env k) (send_turn env s [PText execution_prompt []] (''plan-execute-''
        @ item))" by (rule plans_messages)
    from staysD [OF this, of w1] have "keeps_plans env k w1 w2" using turn by simp
    moreover have "keeps_plans env k w2 (snd (?rest w2))"
      by (rule staysD) (intro planning.stays_and_then plans_basic plans_messages set_plan_state_plans [OF reads], simp)
    ultimately have "plan_closed env k (snd (?rest w2))" using keyed closed by (simp add: keeps_plans_def)
    with run show ?thesis by simp
  qed
qed

text \<open>
  C22. An approved plan is started once. When a press of its button has asked Codex to start and Codex
  accepted, no later press of a button of that plan asks Codex again, neither the same button nor another
  one, after whatever happens in between: presses, publications, replies with feedback, prompts, dispatches
  and the ends of turns. What is written to the store reads back, and each plan is stored under its key.
\<close>

theorem approved_plan_started_once:
  assumes "reads_back_json (re_ser env) (re_de env)" and "plan_serde env" and "well_keyed env w"
    and "peek_callback nonce (re_now env (rt_clock w)) (rt_spaces w) = Some cb" and "pl_read pl (cb_action cb) = Inr a"
    and "by_thread (rt_sessions w) (spa_thread_id a) = Some s" and "record_view env w (''plan'',
        action_key a) = Inr (Some v)"
    and "codex_accepts env s [PText execution_prompt []] (''plan-execute-'' @ spa_item_id a) w"
    and "w1 = snd (handle_plan_callback env pl role nonce ''execute'' c w)" and "rt_agent w1 \<noteq> rt_agent w"
    and "w2 = fold (plan_step env pl) ops w1"
    and "peek_callback nonce' (re_now env (rt_clock w2)) (rt_spaces w2) = Some cb'" and "pl_read pl (cb_action cb') = Inr a'" and "action_key a' = action_key a"
  shows "rt_agent (snd (handle_plan_callback env pl role' nonce' decision c' w2)) = rt_agent w2"
proof -
  let ?k = "action_key a"
  have "plan_closed env ?k w1 \<and> well_keyed env w1"
    using callback_reaches [OF assms(4,5), of role "''execute''" c]
  proof (elim disjE exE conjE)
    assume "idle w (snd (handle_plan_callback env pl role nonce ''execute'' c w))"
    with assms(9,10) show ?thesis by (simp add: idle_def)
  next
    fix s' u assume u: "idle w u" "by_thread (rt_sessions w) (spa_thread_id a) = Some s'"
      "handle_plan_callback env pl role nonce ''execute'' c w = press_plan env nonce ''execute'' c s' a u"
    with assms(6) have s': "s' = s" by simp
    from plan_press_reaches [of u env nonce "''execute''" c s a] show ?thesis
    proof (elim disjE exE conjE)
      assume "idle u (snd (press_plan env nonce ''execute'' c s a u))"
      with idling.rel_trans [OF u(1)] u(3) s' assms(9,10) show ?thesis by (auto simp: idle_def)
    next
      fix u2 assume u2: "idle u u2" "press_plan env nonce ''execute'' c s a u = and_then (pressed_publication env a) (decide_plan env nonce ''execute'' c s a) u2"
      have idle: "idle w u2" by (rule idling.rel_trans [OF u(1) u2(1)])
      have view: "record_view env u2 = record_view env w" "well_keyed env u2" using idle_view [OF idle] assms(3) by auto
      have found: "pressed_publication env a u2 = (Inr (re_read_plan env v), u2)"
        using assms(7) view(1) by (simp add: pressed_publication_def and_then_run attempt_def record_of_run port_str_def act_ok_def action_key_def)
      then have w1: "w1 = snd (decide_plan env nonce ''execute'' c s a (re_read_plan env v) u2)"
        using assms(9) u(3) u2(2) s' by (simp add: and_then_run)
      show ?thesis
      proof (cases "\<exists>p. re_read_plan env v = Some p \<and> ppu_status p = PpPublished")
        case False
        then have "idle u2 w1" unfolding w1 decide_plan_def using staysD [OF idle_answers(1)] by (auto split: option.split)
        with idle assms(10) show ?thesis by (simp add: idle_def)
      next
        case True
        then obtain p where p: "re_read_plan env v = Some p" "ppu_status p = PpPublished" by blast
        have key: "publication_key p = ?k"
        proof -
          have "keyed env ?k v"
            by (rule workflow_record_read [of "re_de env" "''plan''" ?k "rt_spaces u2"])
              (use assms(7) view(2) fun_cong [OF view(1), of "(''plan'',
                  ?k)"] in \<open>simp_all add: record_view_def well_keyed_def\<close>)
          with p(1) show ?thesis by (simp add: keyed_def)
        qed
        have w1': "w1 = snd (execute_plan env nonce (spa_item_id a) s c p u2)" using w1 p by (simp add: decide_plan_def)
        have "codex_accepts env s [PText execution_prompt []] (''plan-execute-'' @ spa_item_id a) u2"
          using assms(8) accepts_agent [of u2 w env s] idle by (simp add: idle_def)
        moreover have "rt_agent w1 \<noteq> rt_agent u2" using assms(10) idle by (simp add: idle_def)
        ultimately have "plan_closed env ?k w1" using execute_closes [OF assms(1,2) view(2) key] w1' by simp
        moreover have "well_keyed env w1"
          using plan_step_keeps [OF assms(1,2),
              of ?k w pl "PoPress role nonce ''execute'' c"] assms(3,9) by (simp add: keeps_plans_def plan_step_def)
        ultimately show ?thesis by simp
      qed
    qed
  qed
  then have "plan_closed env ?k w2" using plan_run_keeps [OF assms(1,2),
      of ?k w1 pl ops] assms(11) by (simp add: keeps_plans_def)
  with closed_callback_idle [OF _ assms(12,13)] assms(14) show ?thesis by (simp add: idle_def)
qed

section \<open>A run\<close>

definition demo_action :: stored_plan_action where
  "demo_action = \<lparr>spa_space_id = ''s'', spa_generation = 1, spa_thread_id = ''T'', spa_item_id = ''i'',
      spa_revision_key = ''r'',
     spa_decision = ''execute''\<rparr>"

definition demo_plans :: "(json \<times> plan_publication) list" where
  "demo_plans = (let p = new_publication ''s'' 1 ''i'' ''r'' ''T'' (TurnId ''u'') PpPublished ''plan'' [3] 0 in
     [(jobj [(''status'', JStr ''published'')], p),
      (jobj [(''status'', JStr ''executing'')], p\<lparr>ppu_status := PpExecuting, ppu_updated_at_ms := 2\<rparr>),
      (jobj [(''n'', JInt 2), (''status'', JStr ''executing'')], p\<lparr>ppu_status := PpExecuting,
          ppu_decision_turn_id := Some (TurnId ''t''), ppu_updated_at_ms := 4\<rparr>)])"

definition demo_plan_env :: "nat runtime_env" where
  "demo_plan_env = (let env = demo_turn_env (Inr (jobj [(''turn'', jobj [(''id'',
      JStr ''t'')])])) (map fst demo_plans @ [jobj [(''user_id'', JInt 4)]]) [] in
     env\<lparr>re_records := (re_records env)\<lparr>rc_plan := (\<lambda>_. Inr [])\<rparr>, re_read_plan := map_of demo_plans,
       re_write_plan := (\<lambda>p. case find (\<lambda>x. snd x = p) demo_plans of None \<Rightarrow> Inl ''no'' | Some x \<Rightarrow> Inr (fst x))\<rparr>)"

definition demo_plan_world :: "nat runtime" where
  "demo_plan_world = (let w = demo_tables [demo_row_of ''onboarding'' ''owner'' 3,
      demo_row_of ''plan'' (action_key demo_action) 0];
       button = (\<lambda>n. \<lparr>cb_nonce = n, cb_space_id = ''s'', cb_generation = 1, cb_action = ''a'',
           cb_expires_at_ms = 100, cb_consumed_at_ms = None,
         cb_surface = ''workflow''\<rparr>) in
     w\<lparr>rt_spaces := (rt_spaces w)\<lparr>sp_callbacks := [button ''x'', button ''y'']\<rparr>,
         rt_sessions := registry_insert demo_turn_session (rt_sessions w)\<rparr>)"

definition demo_plan_codec :: plan_codec where
  "demo_plan_codec = \<lparr>pl_write = (\<lambda>_. Inr ''a''), pl_read = (\<lambda>_. Inr demo_action)\<rparr>"

definition demo_plan_press :: telegram_callback where
  "demo_plan_press = \<lparr>tcb_id = ''c'', tcb_chat_id = 5, tcb_chat_kind = ChatPrivate, tcb_message_id = 3, tcb_data = [],
     tcb_actor = \<lparr>act_user_id = Some 4, act_sender_chat_id = None\<rparr>\<rparr>"

abbreviation demo_executed :: "nat runtime" where
  "demo_executed \<equiv> snd (handle_plan_callback demo_plan_env demo_plan_codec RoleDiscussion ''x'' ''execute'' demo_plan_press demo_plan_world)"

abbreviation demo_later :: "nat runtime" where
  "demo_later \<equiv> fold (plan_step demo_plan_env demo_plan_codec) [PoDispatch demo_turn_session] demo_executed"

lemma demo_plan_facts:
  "map_option cb_action (peek_callback ''x'' (re_now demo_plan_env (rt_clock demo_plan_world)) (rt_spaces demo_plan_world)) = Some ''a''"
  "by_thread (rt_sessions demo_plan_world) (spa_thread_id demo_action) = Some demo_turn_session"
  "record_view demo_plan_env demo_plan_world (''plan'', action_key demo_action) = Inr (Some (fst (hd demo_plans)))"
  by code_simp+

lemma demo_plan_asks: "rt_agent demo_executed \<noteq> rt_agent demo_plan_world"
  by code_simp

lemma demo_plan_button: "map_option cb_action (peek_callback ''y'' (re_now demo_plan_env (rt_clock demo_later)) (rt_spaces demo_later)) = Some ''a''"
  by code_simp

lemma demo_plan_accepts:
  "codex_accepts demo_plan_env demo_turn_session [PText execution_prompt []] (''plan-execute-''
      @ spa_item_id demo_action) demo_plan_world"
proof -
  have "fst (send_turn demo_plan_env demo_turn_session [PText execution_prompt []] (''plan-execute-''
      @ spa_item_id demo_action) demo_plan_world)
    = Inr (Inr \<lparr>agu_id = TurnId ''t'', agu_thread_id = ThreadId ''T'', agu_status = ''inProgress''\<rparr>)"
    by code_simp
  then show ?thesis by (simp add: codex_accepts_def)
qed

lemma demo_plan_reads: "reads_back_json (re_ser demo_plan_env) (re_de demo_plan_env)"
  using demo_reads_back by (simp add: demo_plan_env_def Let_def)

lemma demo_plan_codes:
  "distinct (map fst demo_plans)" "list_all (\<lambda>x. jstr ''status'' (fst x) \<in> {Some ''published'',
      Some ''executing''}) demo_plans"
  "map_of demo_plans JNull = None" "map_of demo_plans (fst (hd demo_plans)) = Some (snd (hd demo_plans))"
  "publication_key (snd (hd demo_plans)) = action_key demo_action"
  by code_simp+

lemma demo_plan_serde: "plan_serde demo_plan_env"
proof -
  have read: "re_read_plan demo_plan_env = map_of demo_plans" by (simp add: demo_plan_env_def Let_def)
  have "map_of demo_plans v = Some p" if "re_write_plan demo_plan_env p = Inr v" for p v
    using that demo_plan_codes(1) by (auto simp: demo_plan_env_def Let_def find_Some_iff in_set_conv_nth intro!: map_of_is_SomeI split: option.splits)
  moreover have "map_of demo_plans (set_field ''status'' (JStr ''superseded'') v) \<noteq> Some p" for v p
    using demo_plan_codes(2) set_field_same [of "''status''" "''superseded''" v] by (fastforce simp: list_all_iff dest: map_of_SomeD)
  ultimately show ?thesis by (simp add: plan_serde_def read demo_plan_codes(3))
qed

lemma demo_plan_keyed: "well_keyed demo_plan_env demo_plan_world"
proof -
  have "re_de demo_plan_env [] = Inr (fst (hd demo_plans))"
    by (simp add: demo_plan_env_def demo_turn_env_def Let_def listed_de_def demo_plans_def)
  moreover have "re_read_plan demo_plan_env = map_of demo_plans" by (simp add: demo_plan_env_def Let_def)
  ultimately show ?thesis
    using demo_plan_codes(4,5)
    by (auto simp: well_keyed_def rows_read_def keyed_def demo_plan_world_def Let_def demo_tables_def demo_row_of_def record_key_def)
qed

theorem approved_plan_started_once_witness:
  "rt_agent (snd (handle_plan_callback demo_plan_env demo_plan_codec RoleDiscussion ''y'' ''execute'' demo_plan_press demo_later)) = rt_agent demo_later"
proof -
  obtain cb where cb: "peek_callback ''x'' (re_now demo_plan_env (rt_clock demo_plan_world)) (rt_spaces demo_plan_world) = Some cb"
    using demo_plan_facts(1) by auto
  obtain cb' where cb': "peek_callback ''y'' (re_now demo_plan_env (rt_clock demo_later)) (rt_spaces demo_later) = Some cb'"
    using demo_plan_button by auto
  have "pl_read demo_plan_codec action = Inr demo_action" for action by (simp add: demo_plan_codec_def)
  with approved_plan_started_once [OF demo_plan_reads demo_plan_serde demo_plan_keyed cb _ demo_plan_facts(2,3) demo_plan_accepts refl
      demo_plan_asks refl cb'] show ?thesis by blast
qed

end
