(* ===== verification/Questions.thy ===== *)
theory Questions
  imports Plans Projector
begin

text \<open>
  The questions that Codex asks the user (\<open>rust/crates/cli/src/daemon.rs\<close>): a request is kept in the store and
  shown one question at a time, each with its buttons; an answer comes from a button or from \<open>/answer\<close>, and
  when every question has one the answers go to Codex together.
\<close>

section \<open>What is stored\<close>

text \<open>
  The answers are kept by the id of their question; the order of a \<open>HashMap\<close> is never seen, since the
  answers are collected into an object.
\<close>

record stored_workflow_question =
  swq_request_key :: string
  swq_request_id :: json
  swq_generation :: u64
  swq_thread_id :: string
  swq_turn_id :: string
  swq_item_id :: string
  swq_questions :: json
  swq_answers :: "(string \<times> string list) list"
  swq_current_index :: nat
  swq_message_ids :: "i64 list"
  swq_summary_message_id :: "i64 option"
  swq_status :: string
  swq_expires_at_ms :: "i64 option"

record stored_question_action =
  sqa_request_key :: string
  sqa_request_id :: json
  sqa_generation :: u64
  sqa_thread_id :: string
  sqa_space_id :: string
  sqa_question_id :: string
  sqa_question_index :: nat
  sqa_answer :: string

text \<open>How a question and the action of a button are written in the store, and read.\<close>

record question_codec =
  qc_write :: "stored_workflow_question \<Rightarrow> string + json"
  qc_read :: "json \<Rightarrow> stored_workflow_question option"
  qc_write_action :: "stored_question_action \<Rightarrow> string + string"
  qc_read_action :: "string \<Rightarrow> string + stored_question_action"

definition keep_question :: "'w runtime_env \<Rightarrow> question_codec \<Rightarrow> string \<Rightarrow> stored_workflow_question \<Rightarrow> ('w, unit) task" where
  "keep_question env qc key q = and_then (from_result (qc_write qc q)) (put_record env ''question'' key)"

section \<open>Questions and their ids\<close>

definition question_id_at :: "json \<Rightarrow> nat \<Rightarrow> string" where
  "question_id_at v i = unwrap_or (filter_opt (\<lambda>s. s \<noteq> []) (map_option trim (jstr ''id'' v))) (''question-'' @ show_nat (i + 1))"

definition question_ids :: "json list \<Rightarrow> string list" where
  "question_ids vs = map (\<lambda>(i, v). question_id_at v i) (enumerate 0 vs)"

definition normalize_question_values :: "json list \<Rightarrow> json list" where
  "normalize_question_values vs = map (\<lambda>(i, v). case v of
     JObj m \<Rightarrow> JObj (bt_insert ''id'' (JStr (question_id_at v i)) m) | _ \<Rightarrow> v) (enumerate 0 vs)"

definition be_bytes :: "u64 \<Rightarrow> string" where
  "be_bytes n = map (\<lambda>i. char_of (n div 256 ^ i mod 256)) (rev [0..<8])"

text \<open>The key of a request, from the connection, the thread, the item and the id that Codex gave it.\<close>

definition stable_question_request_key :: "'w runtime_env \<Rightarrow> agent_server_request \<Rightarrow> string \<Rightarrow> string \<Rightarrow> string" where
  "stable_question_request_key env req thread item = ''question-'' @ take 20 (re_sha256_hex env
     (be_bytes (asr_generation req) @ thread @ [CHR 0x00] @ item @ [CHR 0x00]
      @ (case re_ser env (asr_id req) of Inl e \<Rightarrow> [] | Inr s \<Rightarrow> s)))"

section \<open>Showing a question\<close>

text \<open>The label of an option; an option without one is passed over.\<close>

definition option_label :: "json \<Rightarrow> string option" where
  "option_label v = filter_opt (\<lambda>l. l \<noteq> []) (map_option trim (jstr ''label'' v))"

definition option_line :: "json \<Rightarrow> string \<Rightarrow> string" where
  "option_line v label = (let d = unwrap_or (jstr ''description'' v) [] in
     if d = [] then ([CHR 0xE2, CHR 0x80, CHR 0xA2] @ '' '') @ truncate_text label
     else ([CHR 0xE2, CHR 0x80, CHR 0xA2] @ '' '') @ truncate_text label @ ('' '' @ [CHR 0xE2, CHR 0x80, CHR 0x94]
         @ '' '') @ truncate_text d)"

text \<open>The button of an option is written to the store before the message goes out.\<close>

definition option_button ::
  "'w runtime_env \<Rightarrow> question_codec \<Rightarrow> stored_workflow_question \<Rightarrow> string \<Rightarrow> string \<Rightarrow> nat \<Rightarrow> string \<Rightarrow> ('w, json) task" where
  "option_button env qc q space qid i label = and_then (drawing_nonce env) (\<lambda>nonce.
     and_then (from_result (generation_or ''question generation exceeds SQLite range'' (swq_generation q))) (\<lambda>g.
     and_then (from_result (qc_write_action qc \<lparr>sqa_request_key = swq_request_key q, sqa_request_id = swq_request_id q,
       sqa_generation = swq_generation q, sqa_thread_id = swq_thread_id q, sqa_space_id = space, sqa_question_id = qid,
       sqa_question_index = i, sqa_answer = label\<rparr>)) (\<lambda>action.
     and_then (reading_clock env) (\<lambda>now.
     and_then (with_spaces (create_callback \<lparr>cb_nonce = nonce, cb_space_id = space, cb_generation = g, cb_action = action,
       cb_expires_at_ms = unwrap_or (swq_expires_at_ms q) (now + approval_callback_ttl_ms)\<rparr>)) (\<lambda>_.
     act_ok (jobj [(''text'', JStr (truncate_text label)), (''callback_data'', JStr (''rq:'' @ nonce))]))))))"

fun option_buttons ::
  "'w runtime_env \<Rightarrow> question_codec \<Rightarrow> stored_workflow_question \<Rightarrow> string \<Rightarrow> string \<Rightarrow> nat \<Rightarrow> json list \<Rightarrow> ('w, (string \<times> json) list) task" where
  "option_buttons env qc q space qid i [] = act_ok []"
| "option_buttons env qc q space qid i (v # vs) = (case option_label v of
     None \<Rightarrow> option_buttons env qc q space qid i vs
   | Some label \<Rightarrow> and_then (option_button env qc q space qid i label) (\<lambda>button.
       and_then (option_buttons env qc q space qid i vs) (\<lambda>rest.
       act_ok ((option_line v label, button) # rest))))"

definition question_text :: "stored_workflow_question \<Rightarrow> json \<Rightarrow> nat \<Rightarrow> nat \<Rightarrow> string list \<Rightarrow> string" where
  "question_text q v i n options = join [newline] ([
     ([CHR 0xE2, CHR 0x9D, CHR 0x93] @ '' '' @ [CHR 0xE7, CHR 0xAC, CHR 0xAC] @ '' '') @ show_nat (i + 1) @ ''/''
         @ show_nat n @ ('' '' @ [CHR 0xE9, CHR 0xA2, CHR 0x98] @ '' '' @ [CHR 0xC2, CHR 0xB7] @ '' '')
         @ truncate_text (unwrap_or
       (Option.bind (or_else (jget ''header'' v) (jget ''title'' v)) as_str) (''Codex '' @ [CHR 0xE8, CHR 0xAF,
           CHR 0xB7, CHR 0xE6, CHR 0xB1, CHR 0x82, CHR 0xE8, CHR 0xBE, CHR 0x93, CHR 0xE5, CHR 0x85, CHR 0xA5])),
     truncate_text (unwrap_or (Option.bind (or_else (jget ''question'' v) (jget ''prompt'' v)) as_str) [CHR 0xE8,
         CHR 0xAF, CHR 0xB7, CHR 0xE9, CHR 0x80, CHR 0x89, CHR 0xE6, CHR 0x8B, CHR 0xA9, CHR 0xE4, CHR 0xB8, CHR 0x80,
         CHR 0xE4, CHR 0xB8, CHR 0xAA, CHR 0xE5, CHR 0x9B, CHR 0x9E, CHR 0xE7, CHR 0xAD, CHR 0x94])]
     @ options @ [([CHR 0xE5, CHR 0x8F, CHR 0xAF, CHR 0xE7, CHR 0x94, CHR 0xA8, CHR 0xE5, CHR 0x91, CHR 0xBD,
         CHR 0xE4, CHR 0xBB, CHR 0xA4, CHR 0xEF, CHR 0xBC, CHR 0x9A] @ ''/answer '') @ swq_request_key q @ '' ''
         @ question_id_at v i @ ('' | <'' @ [CHR 0xE5, CHR 0x9B, CHR 0x9E, CHR 0xE7, CHR 0xAD, CHR 0x94] @ ''>'')])"

definition render_user_question_prompt ::
  "'w runtime_env \<Rightarrow> question_codec \<Rightarrow> string \<Rightarrow> stored_workflow_question \<Rightarrow> session_record \<Rightarrow> string \<Rightarrow> ('w, unit) task" where
  "render_user_question_prompt env qc inst q s space = (let i = swq_current_index q in
     and_then (from_result (ok_or (as_array (swq_questions q)) ''question payload is not an array'')) (\<lambda>vs.
     and_then (from_result (ok_or (get_at vs i) ''question cursor is outside the request'')) (\<lambda>v.
     and_then (option_buttons env qc q space (question_id_at v i) i (unwrap_or (Option.bind (jget ''options'' v) as_array) [])) (\<lambda>options.
     and_then (send_text_with_markup_message env (surface_for env inst (sr_chat_id s) (sr_root_message_id s))
       (question_text q v i (length vs) (map fst options))
       (if options = [] then None else Some (jobj [(''inline_keyboard'', JArr (map (\<lambda>(_,
           b). JArr [b]) options))]))) (\<lambda>message.
     keep_question env qc (swq_request_key q) (q\<lparr>swq_message_ids := swq_message_ids q @ [message]\<rparr>))))))"

section \<open>A request\<close>

definition asked_questions :: "json \<Rightarrow> json list" where
  "asked_questions params = filter is_object (unwrap_or (Option.bind (jget ''questions'' params) as_array) [])"

definition is_secret :: "json \<Rightarrow> bool" where
  "is_secret v = unwrap_or (jbool ''isSecret'' v) False"

definition refuse_request :: "'w runtime_env \<Rightarrow> json \<Rightarrow> int \<Rightarrow> string \<Rightarrow> ('w, app_error + unit) task" where
  "refuse_request env rid code text = asking (re_respond_error env rid code text)"

text \<open>What is kept when the header could not be sent.\<close>

definition failed_question :: "stored_workflow_question \<Rightarrow> json" where
  "failed_question q = jobj [(''request_key'', JStr (swq_request_key q)), (''request_id'', swq_request_id q),
     (''generation'', JInt (int (swq_generation q))), (''thread_id'', JStr (swq_thread_id q)), (''turn_id'',
         JStr (swq_turn_id q)),
     (''item_id'', JStr (swq_item_id q)), (''questions'', swq_questions q), (''answers'', JObj []),
         (''current_index'', JInt 0),
     (''message_ids'', JArr []), (''summary_message_id'', JNull), (''status'', JStr ''failed''),
     (''expires_at_ms'', case swq_expires_at_ms q of None \<Rightarrow> JNull | Some t \<Rightarrow> JInt t)]"

definition undelivered :: string where
  "undelivered = ''Rust Bridge could not deliver the user-input prompt to Telegram''"

definition new_question :: "string \<Rightarrow> agent_server_request \<Rightarrow> string \<Rightarrow> turn_id \<Rightarrow> string \<Rightarrow> json list \<Rightarrow> i64 option \<Rightarrow> stored_workflow_question" where
  "new_question key req thread turn item vs expires = \<lparr>swq_request_key = key, swq_request_id = asr_id req,
      swq_generation = asr_generation req,
     swq_thread_id = thread, swq_turn_id = turn_id_str turn, swq_item_id = item, swq_questions = JArr vs, swq_answers = [],
     swq_current_index = 0, swq_message_ids = [], swq_summary_message_id = None, swq_status = ''pending'',
         swq_expires_at_ms = expires\<rparr>"

text \<open>The request is in the store; the header and the first question go out.\<close>

definition show_request ::
  "'w runtime_env \<Rightarrow> question_codec \<Rightarrow> string \<Rightarrow> stored_workflow_question \<Rightarrow> session_record \<Rightarrow> string \<Rightarrow> ('w, unit) task" where
  "show_request env qc inst q s space = and_then (attempt (send_text_message env (surface_for env inst (sr_chat_id s) (sr_root_message_id s))
       (([CHR 0xE2, CHR 0x9D, CHR 0x93] @ '' Codex '' @ [CHR 0xE8, CHR 0xAF, CHR 0xB7, CHR 0xE6, CHR 0xB1, CHR 0x82,
           CHR 0xE8, CHR 0xBE, CHR 0x93, CHR 0xE5, CHR 0x85, CHR 0xA5]) @ [newline] @ ''Session '' @ sr_thread_id s
           @ [newline] @ [CHR 0xE8, CHR 0xAF, CHR 0xB7, CHR 0xE6, CHR 0x8C, CHR 0x89, CHR 0xE9, CHR 0xA1, CHR 0xBA,
           CHR 0xE5, CHR 0xBA, CHR 0x8F, CHR 0xE5, CHR 0x9B, CHR 0x9E, CHR 0xE7, CHR 0xAD, CHR 0x94, CHR 0xE4,
           CHR 0xB8, CHR 0x8B, CHR 0xE9, CHR 0x9D, CHR 0xA2, CHR 0xE7, CHR 0x9A, CHR 0x84, CHR 0xE9, CHR 0x97,
           CHR 0xAE, CHR 0xE9, CHR 0xA2, CHR 0x98, CHR 0xE3, CHR 0x80, CHR 0x82]))) (\<lambda>sent. case sent of
     Inl e \<Rightarrow> and_then (ignoring (put_record env ''question'' (swq_request_key q) (failed_question q))) (\<lambda>_.
       and_then (refuse_request env (swq_request_id q) (-32001) undelivered) (\<lambda>r. case r of
         Inl e1 \<Rightarrow> act_err (''Telegram question delivery failed: '' @ e
             @ ''; app-server response failed: '' @ app_error_display e1)
       | Inr _ \<Rightarrow> act_err e))
   | Inr header \<Rightarrow> let q1 = q\<lparr>swq_message_ids := swq_message_ids q @ [header], swq_summary_message_id := Some header\<rparr> in
       and_then (keep_question env qc (swq_request_key q) q1) (\<lambda>_.
       and_then (attempt (render_user_question_prompt env qc inst q1 s space)) (\<lambda>r. case r of
         Inl e \<Rightarrow> and_then (ignoring (refuse_request env (swq_request_id q) (-32001) undelivered)) (\<lambda>_. act_err e)
       | Inr _ \<Rightarrow> act_ok ())))"

definition store_question :: "'w runtime_env \<Rightarrow> stored_workflow_question \<Rightarrow> thread_id \<Rightarrow> turn_id \<Rightarrow> ('w, unit) task" where
  "store_question env q thread turn = and_then (reading_clock env) (\<lambda>now. with_records (upsert_question (re_records env)
     \<lparr>qre_request_key = swq_request_key q, qre_request_id = swq_request_id q, qre_generation = swq_generation q,
       qre_thread_id = thread, qre_turn_id = turn, qre_item_id = swq_item_id q, qre_questions = swq_questions q,
       qre_expires_at_ms = swq_expires_at_ms q\<rparr> now))"

definition present_user_input_request ::
  "'w runtime_env \<Rightarrow> question_codec \<Rightarrow> agent_server_request \<Rightarrow> session_record \<Rightarrow> session_space \<Rightarrow> string \<Rightarrow> ('w, unit) task" where
  "present_user_input_request env qc req s sp inst = (let params = asr_params req; asked = asked_questions params in
     if asked = [] then and_then (refuse_request env (asr_id req) (-32602) ''Codex user-input request has no questions'') (\<lambda>r. case r of
       Inl e \<Rightarrow> act_err (app_error_display e) | Inr _ \<Rightarrow> act_ok ())
     else if list_ex is_secret asked then ignoring (tell_by env inst s (''Codex '' @ [CHR 0xE6, CHR 0xAD, CHR 0xA3,
         CHR 0xE5, CHR 0x9C, CHR 0xA8, CHR 0xE8, CHR 0xAF, CHR 0xB7, CHR 0xE6, CHR 0xB1, CHR 0x82, CHR 0xE6, CHR 0x95,
         CHR 0x8F, CHR 0xE6, CHR 0x84, CHR 0x9F, CHR 0xE8, CHR 0xBE, CHR 0x93, CHR 0xE5, CHR 0x85, CHR 0xA5, CHR 0xEF,
         CHR 0xBC, CHR 0x9B, CHR 0xE4, CHR 0xB8, CHR 0xBA, CHR 0xE9, CHR 0x81, CHR 0xBF, CHR 0xE5, CHR 0x85, CHR 0x8D,
         CHR 0xE6, CHR 0xB3, CHR 0x84, CHR 0xE9, CHR 0x9C, CHR 0xB2, CHR 0xEF, CHR 0xBC, CHR 0x8C, CHR 0xE8, CHR 0xAF,
         CHR 0xB7, CHR 0xE5, CHR 0x9B, CHR 0x9E, CHR 0xE5, CHR 0x88, CHR 0xB0, CHR 0xE6, CHR 0x9C, CHR 0xAC, CHR 0xE6,
         CHR 0x9C, CHR 0xBA] @ '' Codex '' @ [CHR 0xE5, CHR 0xAE, CHR 0xA2, CHR 0xE6, CHR 0x88, CHR 0xB7, CHR 0xE7,
         CHR 0xAB, CHR 0xAF, CHR 0xE5, CHR 0x9B, CHR 0x9E, CHR 0xE7, CHR 0xAD, CHR 0x94, CHR 0xE3, CHR 0x80, CHR 0x82]))
     else and_then (from_result (ok_or (or_else (jstr ''turnId'' params) (sr_turn_id s))
         ''Codex user-input request did not identify turnId'')) (\<lambda>t.
       and_then (from_result (domain_result (turn_id_new t))) (\<lambda>turn.
       let item = unwrap_or (Option.bind (or_else (jget ''itemId'' params) (jget ''callId'' params)) as_str) ''user-input'' in
       and_then (reading_clock env) (\<lambda>now.
       let expires = saturating_add now (case ji64 ''autoResolutionMs'' params of Some ms \<Rightarrow> max ms 0 | None \<Rightarrow> approval_callback_ttl_ms);
           q = new_question (stable_question_request_key env req (sr_thread_id s) item) req (sr_thread_id s) turn item
             (normalize_question_values asked) (Some expires) in
       and_then (store_question env q (ThreadId (sr_thread_id s)) turn) (\<lambda>_.
       and_then (keep_question env qc (swq_request_key q) q) (\<lambda>_.
       show_request env qc inst q s (sps_space_id sp)))))))"

section \<open>An answer\<close>

definition answers_payload :: "(string \<times> string list) list \<Rightarrow> json" where
  "answers_payload answers = jobj [(''answers'', JObj (map (\<lambda>(k, xs). (k, jobj [(''answers'',
      JArr (map JStr xs))])) answers))]"

text \<open>When all is answered, the messages of the questions go and the header says so.\<close>

definition clean_message :: "'w runtime_env \<Rightarrow> string \<Rightarrow> session_record \<Rightarrow> i64 option \<Rightarrow> i64 \<Rightarrow> ('w, unit) task" where
  "clean_message env inst s summary message =
     and_then (from_result (map_sum telegram_error_display id (message_reference_new (show_int (sr_chat_id s)) message))) (\<lambda>m.
     if Some message = summary then edit_text_message env inst m ([CHR 0xE2, CHR 0x9C, CHR 0x85] @ '' Codex ''
         @ [CHR 0xE8, CHR 0xBE, CHR 0x93, CHR 0xE5, CHR 0x85, CHR 0xA5, CHR 0xE5, CHR 0xB7, CHR 0xB2, CHR 0xE6,
         CHR 0x8F, CHR 0x90, CHR 0xE4, CHR 0xBA, CHR 0xA4, CHR 0xE3, CHR 0x80, CHR 0x82])
     else ignoring (sending_message env (RmDelete inst m)))"

definition cleanup_question_messages :: "'w runtime_env \<Rightarrow> string \<Rightarrow> stored_workflow_question \<Rightarrow> session_record \<Rightarrow> ('w, unit) task" where
  "cleanup_question_messages env inst q s = each_one (clean_message env inst s (swq_summary_message_id q)) (swq_message_ids q)"

text \<open>The first position whose element satisfies a condition.\<close>

definition position :: "('a \<Rightarrow> bool) \<Rightarrow> 'a list \<Rightarrow> nat option" where
  "position P xs = find (\<lambda>i. P (xs ! i)) [0..<length xs]"

definition submit_answers :: "'w runtime_env \<Rightarrow> question_codec \<Rightarrow> session_record \<Rightarrow> string \<Rightarrow> stored_workflow_question \<Rightarrow> ('w, unit) task" where
  "submit_answers env qc s key q = (let payload = answers_payload (swq_answers q) in
     and_then (asking (re_respond env (swq_request_id q) payload)) (\<lambda>r. case r of
       Inl e \<Rightarrow> tell env s (([CHR 0xE5, CHR 0x9B, CHR 0x9E, CHR 0xE7, CHR 0xAD, CHR 0x94, CHR 0xE6,
           CHR 0x9A, CHR 0x82, CHR 0xE6, CHR 0x9C, CHR 0xAA, CHR 0xE9, CHR 0x80, CHR 0x81, CHR 0xE8, CHR 0xBE,
           CHR 0xBE] @ '' Codex'' @ [CHR 0xEF, CHR 0xBC, CHR 0x9A]) @ app_error_display e)
     | Inr _ \<Rightarrow> and_then (reading_clock env) (\<lambda>now.
         and_then (with_records (resolve_question (re_records env) key payload now)) (\<lambda>_.
         let q1 = q\<lparr>swq_status := ''resolved''\<rparr> in
         and_then (keep_question env qc key q1) (\<lambda>_.
         and_then (cleanup_question_messages env (re_bot env) q1 s) (\<lambda>_.
         tell env s ([CHR 0xE2, CHR 0x9C, CHR 0x85] @ '' '' @ [CHR 0xE5, CHR 0xB7, CHR 0xB2, CHR 0xE5, CHR 0xB0,
             CHR 0x86, CHR 0xE5, CHR 0x9B, CHR 0x9E, CHR 0xE7, CHR 0xAD, CHR 0x94, CHR 0xE6, CHR 0x8F, CHR 0x90,
             CHR 0xE4, CHR 0xBA, CHR 0xA4, CHR 0xE7, CHR 0xBB, CHR 0x99] @ '' Codex'' @ [CHR 0xE3, CHR 0x80,
             CHR 0x82])))))))"

text \<open>Some question still has no answer: it is shown next.\<close>

definition next_question :: "'w runtime_env \<Rightarrow> question_codec \<Rightarrow> session_record \<Rightarrow> string \<Rightarrow> string list \<Rightarrow> stored_workflow_question \<Rightarrow> ('w, unit) task" where
  "next_question env qc s key known q = (let q1 = q\<lparr>swq_current_index :=
       unwrap_or (position (\<lambda>k. bt_get (swq_answers q) k = None) known) (swq_current_index q)\<rparr> in
     and_then (keep_question env qc key q1) (\<lambda>_.
     and_then (in_spaces (session_space_for_thread (sr_thread_id s))) (\<lambda>found.
     and_then (from_result (ok_or found ([CHR 0xE9, CHR 0x97, CHR 0xAE, CHR 0xE9, CHR 0xA2, CHR 0x98, CHR 0xE6,
         CHR 0x89, CHR 0x80, CHR 0xE5, CHR 0xB1, CHR 0x9E] @ '' Session '' @ [CHR 0xE7, CHR 0xBC, CHR 0xBA, CHR 0xE5,
         CHR 0xB0, CHR 0x91] @ '' durable Telegram space''))) (\<lambda>sp.
     render_user_question_prompt env qc (re_bot env) q1 s (sps_space_id sp)))))"

definition record_answer ::
  "'w runtime_env \<Rightarrow> question_codec \<Rightarrow> session_record \<Rightarrow> string \<Rightarrow> string list \<Rightarrow> string \<Rightarrow> string \<Rightarrow> stored_workflow_question \<Rightarrow> ('w, unit) task" where
  "record_answer env qc s key known qid reply q = (let q1 = q\<lparr>swq_answers := bt_insert qid [reply] (swq_answers q)\<rparr> in
     if list_all (\<lambda>k. bt_get (swq_answers q1) k \<noteq> None) known then submit_answers env qc s key q1
     else next_question env qc s key known q1)"

text \<open>The clock is read only for a question that can expire.\<close>

definition question_expired :: "'w runtime_env \<Rightarrow> stored_workflow_question \<Rightarrow> ('w, bool) task" where
  "question_expired env q = (case swq_expires_at_ms q of
     None \<Rightarrow> act_ok False | Some t \<Rightarrow> and_then (reading_clock env) (\<lambda>now. act_ok (t < now)))"

definition answer_open_question ::
  "'w runtime_env \<Rightarrow> question_codec \<Rightarrow> session_record \<Rightarrow> string \<Rightarrow> string \<Rightarrow> string \<Rightarrow> nat option \<Rightarrow> stored_workflow_question \<Rightarrow> ('w, unit) task" where
  "answer_open_question env qc s key qid reply expected q = (let known = question_ids (unwrap_or (as_array (swq_questions q)) []) in
     case position (\<lambda>k. k = qid) known of
       None \<Rightarrow> tell env s ([CHR 0xE9, CHR 0x97, CHR 0xAE, CHR 0xE9, CHR 0xA2, CHR 0x98] @ '' ID ''
           @ [CHR 0xE4, CHR 0xB8, CHR 0x8D, CHR 0xE5, CHR 0x8C, CHR 0xB9, CHR 0xE9, CHR 0x85, CHR 0x8D, CHR 0xE3,
           CHR 0x80, CHR 0x82])
     | Some i \<Rightarrow>
         if expected \<noteq> None \<and> expected \<noteq> Some i then tell env s [CHR 0xE9, CHR 0x97, CHR 0xAE,
             CHR 0xE9, CHR 0xA2, CHR 0x98, CHR 0xE6, CHR 0x8C, CHR 0x89, CHR 0xE9, CHR 0x92, CHR 0xAE, CHR 0xE5,
             CHR 0xB7, CHR 0xB2, CHR 0xE8, CHR 0xBF, CHR 0x87, CHR 0xE6, CHR 0x9C, CHR 0x9F, CHR 0xEF, CHR 0xBC,
             CHR 0x8C, CHR 0xE8, CHR 0xAF, CHR 0xB7, CHR 0xE4, CHR 0xBD, CHR 0xBF, CHR 0xE7, CHR 0x94, CHR 0xA8,
             CHR 0xE5, CHR 0xBD, CHR 0x93, CHR 0xE5, CHR 0x89, CHR 0x8D, CHR 0xE9, CHR 0xA2, CHR 0x98, CHR 0xE7,
             CHR 0x9B, CHR 0xAE, CHR 0xE7, CHR 0x9A, CHR 0x84, CHR 0xE6, CHR 0x8C, CHR 0x89, CHR 0xE9, CHR 0x92,
             CHR 0xAE, CHR 0xE3, CHR 0x80, CHR 0x82]
         else and_then (question_expired env q) (\<lambda>expired.
           if expired then and_then (keep_question env qc key (q\<lparr>swq_status := ''expired''\<rparr>)) (\<lambda>_.
             tell env s ([CHR 0xE8, CHR 0xAF, CHR 0xA5, CHR 0xE9, CHR 0x97, CHR 0xAE, CHR 0xE9, CHR 0xA2, CHR 0x98,
                 CHR 0xE5, CHR 0xB7, CHR 0xB2, CHR 0xE8, CHR 0xBF, CHR 0x87, CHR 0xE6, CHR 0x9C, CHR 0x9F, CHR 0xEF,
                 CHR 0xBC, CHR 0x8C, CHR 0xE8, CHR 0xAF, CHR 0xB7, CHR 0xE5, CHR 0x9B, CHR 0x9E, CHR 0xE5, CHR 0x88,
                 CHR 0xB0, CHR 0xE6, CHR 0x9C, CHR 0xAC, CHR 0xE6, CHR 0x9C, CHR 0xBA] @ '' Codex '' @ [CHR 0xE5,
                 CHR 0xAE, CHR 0xA2, CHR 0xE6, CHR 0x88, CHR 0xB7, CHR 0xE7, CHR 0xAB, CHR 0xAF, CHR 0xE7, CHR 0xBB,
                 CHR 0xA7, CHR 0xE7, CHR 0xBB, CHR 0xAD, CHR 0xE3, CHR 0x80, CHR 0x82]))
           else if is_blank reply then tell env s [CHR 0xE5, CHR 0x9B, CHR 0x9E, CHR 0xE7, CHR 0xAD, CHR 0x94,
               CHR 0xE4, CHR 0xB8, CHR 0x8D, CHR 0xE8, CHR 0x83, CHR 0xBD, CHR 0xE4, CHR 0xB8, CHR 0xBA, CHR 0xE7,
               CHR 0xA9, CHR 0xBA, CHR 0xE3, CHR 0x80, CHR 0x82]
           else record_answer env qc s key known qid reply q))"

definition answer_question ::
  "'w runtime_env \<Rightarrow> question_codec \<Rightarrow> session_record \<Rightarrow> string \<Rightarrow> string \<Rightarrow> string \<Rightarrow> nat option \<Rightarrow> ('w, unit) task" where
  "answer_question env qc s key qid reply expected = and_then (record_of env ''question'' key) (\<lambda>found.
     case Option.bind found (qc_read qc) of
       None \<Rightarrow> tell env s ([CHR 0xE8, CHR 0xAF, CHR 0xA5, CHR 0xE9, CHR 0x97, CHR 0xAE, CHR 0xE9, CHR 0xA2,
           CHR 0x98, CHR 0xE5, CHR 0xB7, CHR 0xB2, CHR 0xE8, CHR 0xBF, CHR 0x87, CHR 0xE6, CHR 0x9C, CHR 0x9F,
           CHR 0xE6, CHR 0x88, CHR 0x96, CHR 0xE4, CHR 0xB8, CHR 0x8D, CHR 0xE5, CHR 0xB1, CHR 0x9E, CHR 0xE4,
           CHR 0xBA, CHR 0x8E, CHR 0xE5, CHR 0xBD, CHR 0x93, CHR 0xE5, CHR 0x89, CHR 0x8D] @ '' Session'' @ [CHR 0xE3,
           CHR 0x80, CHR 0x82])
     | Some q \<Rightarrow>
         if swq_thread_id q \<noteq> sr_thread_id s \<or> swq_status q \<noteq> ''pending'' then tell env s ([CHR 0xE8, CHR 0xAF, CHR 0xA5, CHR 0xE9, CHR 0x97, CHR 0xAE, CHR 0xE9, CHR 0xA2, CHR 0x98, CHR 0xE5, CHR 0xB7, CHR 0xB2, CHR 0xE8, CHR 0xBF, CHR 0x87, CHR 0xE6, CHR 0x9C, CHR 0x9F, CHR 0xE6, CHR 0x88, CHR 0x96, CHR 0xE4, CHR 0xB8, CHR 0x8D, CHR 0xE5, CHR 0xB1, CHR 0x9E, CHR 0xE4, CHR 0xBA, CHR 0x8E, CHR 0xE5, CHR 0xBD, CHR 0x93, CHR 0xE5, CHR 0x89, CHR 0x8D] @ '' Session'' @ [CHR 0xE3, CHR 0x80, CHR 0x82])
         else and_then (generation_now env) (\<lambda>g.
           if swq_generation q \<noteq> g then tell env s (''Codex '' @ [CHR 0xE8, CHR 0xBF, CHR 0x9E, CHR 0xE6,
               CHR 0x8E, CHR 0xA5, CHR 0xE5, CHR 0xB7, CHR 0xB2, CHR 0xE7, CHR 0xBB, CHR 0x8F, CHR 0xE9, CHR 0x87,
               CHR 0x8D, CHR 0xE5, CHR 0xBB, CHR 0xBA, CHR 0xEF, CHR 0xBC, CHR 0x8C, CHR 0xE5, CHR 0x8E, CHR 0x9F,
               CHR 0xE9, CHR 0x97, CHR 0xAE, CHR 0xE9, CHR 0xA2, CHR 0x98, CHR 0xE5, CHR 0xB7, CHR 0xB2, CHR 0xE5,
               CHR 0xA4, CHR 0xB1, CHR 0xE6, CHR 0x95, CHR 0x88, CHR 0xE3, CHR 0x80, CHR 0x82])
           else answer_open_question env qc s key qid reply expected q))"

text \<open>\<open>/answer <request> <question> | <answer>\<close>.\<close>

definition answer_arguments :: "string \<Rightarrow> string \<times> string \<times> string" where
  "answer_arguments raw = (let (left, reply) = (case split_once (CHR 0x7C) raw of None \<Rightarrow> ([],
      []) | Some (l, a) \<Rightarrow> (trim l, trim a));
       ids = split_whitespace left in
     (unwrap_or (get_at ids 0) [], unwrap_or (get_at ids 1) [], reply))"

definition handle_answer_command :: "'w runtime_env \<Rightarrow> question_codec \<Rightarrow> i64 \<Rightarrow> string \<Rightarrow> session_record option \<Rightarrow> ('w, unit) task" where
  "handle_answer_command env qc chat raw session = (case session of
     None \<Rightarrow> tell_chat env chat no_session
   | Some s \<Rightarrow> (case answer_arguments raw of (key, qid, reply) \<Rightarrow>
       if key = [] \<or> qid = [] \<or> reply = [] then tell env s ([CHR 0xE7, CHR 0x94, CHR 0xA8, CHR 0xE6, CHR 0xB3,
           CHR 0x95, CHR 0xEF, CHR 0xBC, CHR 0x9A] @ ''/answer <'' @ [CHR 0xE8, CHR 0xAF, CHR 0xB7, CHR 0xE6,
           CHR 0xB1, CHR 0x82] @ ''ID> <'' @ [CHR 0xE9, CHR 0x97, CHR 0xAE, CHR 0xE9, CHR 0xA2, CHR 0x98]
           @ ''ID> | <'' @ [CHR 0xE5, CHR 0x9B, CHR 0x9E, CHR 0xE7, CHR 0xAD, CHR 0x94] @ ''>'')
       else answer_question env qc s key qid reply None))"

text \<open>A press of the button of an option.\<close>

definition press_option :: "'w runtime_env \<Rightarrow> question_codec \<Rightarrow> string \<Rightarrow> telegram_callback \<Rightarrow> session_record \<Rightarrow> stored_question_action \<Rightarrow> ('w, unit) task" where
  "press_option env qc nonce c s a = and_then (reading_clock env) (\<lambda>now.
     and_then (from_result (generation_or ''question generation exceeds SQLite range'' (sqa_generation a))) (\<lambda>g.
     and_then (with_spaces (take_callback_scoped nonce now (Some (sqa_space_id a)) (Some g))) (\<lambda>taken.
     if taken = None then answer_in_chat env c None [CHR 0xE9, CHR 0x97, CHR 0xAE, CHR 0xE9, CHR 0xA2, CHR 0x98,
         CHR 0xE6, CHR 0x8C, CHR 0x89, CHR 0xE9, CHR 0x92, CHR 0xAE, CHR 0xE5, CHR 0xB7, CHR 0xB2, CHR 0xE8, CHR 0xBF,
         CHR 0x87, CHR 0xE6, CHR 0x9C, CHR 0x9F, CHR 0xE6, CHR 0x88, CHR 0x96, CHR 0xE5, CHR 0xB7, CHR 0xB2, CHR 0xE7,
         CHR 0xBB, CHR 0x8F, CHR 0xE5, CHR 0xA4, CHR 0x84, CHR 0xE7, CHR 0x90, CHR 0x86, CHR 0xE3, CHR 0x80, CHR 0x82]
     else answer_question env qc s (sqa_request_key a) (sqa_question_id a) (sqa_answer a) (Some (sqa_question_index a)))))"

definition handle_question_callback ::
  "'w runtime_env \<Rightarrow> question_codec \<Rightarrow> runtime_bot_role \<Rightarrow> string \<Rightarrow> telegram_callback \<Rightarrow> ('w, unit) task" where
  "handle_question_callback env qc role nonce c =
     and_then (if \<not> workflow_callback_bot_allowed role then act_ok False
       else with_spaces (\<lambda>db. (workflow_callback_owner_authorized (re_de env) c db, db))) (\<lambda>allowed.
     if \<not> allowed then acknowledge_callback_task env (tcb_id c) [CHR 0xE6, CHR 0x97, CHR 0xA0, CHR 0xE6,
         CHR 0x9D, CHR 0x83, CHR 0xE6, CHR 0x93, CHR 0x8D, CHR 0xE4, CHR 0xBD, CHR 0x9C, CHR 0xE6, CHR 0xAD, CHR 0xA4,
         CHR 0xE9, CHR 0x97, CHR 0xAE, CHR 0xE9, CHR 0xA2, CHR 0x98, CHR 0xE6, CHR 0x8C, CHR 0x89, CHR 0xE9, CHR 0x92,
         CHR 0xAE] else
     and_then (acknowledge_callback_task env (tcb_id c) [CHR 0xE5, CHR 0xB7, CHR 0xB2, CHR 0xE9, CHR 0x80, CHR 0x89,
         CHR 0xE6, CHR 0x8B, CHR 0xA9]) (\<lambda>_.
     and_then (reading_clock env) (\<lambda>now.
     and_then (in_spaces (peek_callback nonce now)) (\<lambda>preview. case preview of
       None \<Rightarrow> answer_in_chat env c None [CHR 0xE9, CHR 0x97, CHR 0xAE, CHR 0xE9, CHR 0xA2, CHR 0x98,
           CHR 0xE6, CHR 0x8C, CHR 0x89, CHR 0xE9, CHR 0x92, CHR 0xAE, CHR 0xE5, CHR 0xB7, CHR 0xB2, CHR 0xE8,
           CHR 0xBF, CHR 0x87, CHR 0xE6, CHR 0x9C, CHR 0x9F, CHR 0xE6, CHR 0x88, CHR 0x96, CHR 0xE5, CHR 0xB7,
           CHR 0xB2, CHR 0xE7, CHR 0xBB, CHR 0x8F, CHR 0xE5, CHR 0xA4, CHR 0x84, CHR 0xE7, CHR 0x90, CHR 0x86,
           CHR 0xE3, CHR 0x80, CHR 0x82]
     | Some cb \<Rightarrow> and_then (from_result (qc_read_action qc (cb_action cb))) (\<lambda>a.
       and_then (generation_now env) (\<lambda>g.
       if sqa_generation a \<noteq> g then answer_in_chat env c None (''Codex '' @ [CHR 0xE8, CHR 0xBF, CHR 0x9E,
           CHR 0xE6, CHR 0x8E, CHR 0xA5, CHR 0xE5, CHR 0xB7, CHR 0xB2, CHR 0xE7, CHR 0xBB, CHR 0x8F, CHR 0xE9,
           CHR 0x87, CHR 0x8D, CHR 0xE5, CHR 0xBB, CHR 0xBA, CHR 0xEF, CHR 0xBC, CHR 0x8C, CHR 0xE5, CHR 0x8E,
           CHR 0x9F, CHR 0xE9, CHR 0x97, CHR 0xAE, CHR 0xE9, CHR 0xA2, CHR 0x98, CHR 0xE5, CHR 0xB7, CHR 0xB2,
           CHR 0xE5, CHR 0xA4, CHR 0xB1, CHR 0xE6, CHR 0x95, CHR 0x88, CHR 0xE3, CHR 0x80, CHR 0x82]) else
       and_then (in_sessions (\<lambda>reg. by_thread reg (sqa_thread_id a))) (\<lambda>session. case session of
         None \<Rightarrow> answer_in_chat env c None ([CHR 0xE5, CHR 0xBD, CHR 0x93, CHR 0xE5, CHR 0x89, CHR 0x8D]
             @ '' Session '' @ [CHR 0xE5, CHR 0xB7, CHR 0xB2, CHR 0xE4, CHR 0xB8, CHR 0x8D, CHR 0xE5, CHR 0x86,
             CHR 0x8D, CHR 0xE7, CHR 0x94, CHR 0xB1] @ '' Rust Bridge '' @ [CHR 0xE7, CHR 0xAE, CHR 0xA1, CHR 0xE7,
             CHR 0x90, CHR 0x86, CHR 0xE3, CHR 0x80, CHR 0x82])
       | Some s \<Rightarrow>
           if cb_space_id cb \<noteq> sqa_space_id a \<or> tcb_chat_id c \<noteq> sr_chat_id s then answer_in_chat env c None ([CHR 0xE9, CHR 0x97, CHR 0xAE, CHR 0xE9, CHR 0xA2, CHR 0x98, CHR 0xE6, CHR 0x8C, CHR 0x89, CHR 0xE9, CHR 0x92, CHR 0xAE, CHR 0xE4, CHR 0xB8, CHR 0x8D, CHR 0xE5, CHR 0xB1, CHR 0x9E, CHR 0xE4, CHR 0xBA, CHR 0x8E, CHR 0xE5, CHR 0xBD, CHR 0x93, CHR 0xE5, CHR 0x89, CHR 0x8D] @ '' Session'' @ [CHR 0xE3, CHR 0x80, CHR 0x82])
           else press_option env qc nonce c s a)))))))"

end
