(* ===== verification/QuestionProps.thy ===== *)
theory QuestionProps
  imports Questions RecordLaws
begin

text \<open>
  What the model of questions shows: Codex gets the answers of a request once and all of them together, and no
  later answer, by a button or by the command, reaches it again.
\<close>

section \<open>Questions by their keys\<close>

text \<open>What the serde derive of a stored question does: it reads back, and the form kept of a failure has its key.\<close>

definition question_serde :: "question_codec \<Rightarrow> bool" where
  "question_serde qc \<longleftrightarrow> (\<forall>q v. qc_write qc q = Inr v \<longrightarrow> qc_read qc v = Some q)
     \<and> (\<forall>q q1. qc_read qc (failed_question q) = Some q1 \<longrightarrow> swq_request_key q1 = swq_request_key q)"

definition questions_keyed :: "'w runtime_env \<Rightarrow> question_codec \<Rightarrow> 'w runtime \<Rightarrow> bool" where
  "questions_keyed env qc w \<longleftrightarrow> (\<forall>key v q. record_view env w (''question'', key) = Inr (Some v) \<longrightarrow> qc_read qc v = Some q
     \<longrightarrow> swq_request_key q = key)"

definition question_over :: "'w runtime_env \<Rightarrow> question_codec \<Rightarrow> string \<Rightarrow> 'w runtime \<Rightarrow> bool" where
  "question_over env qc key w \<longleftrightarrow> (\<exists>v q. record_view env w (''question'', key) = Inr (Some v) \<and> qc_read qc v = Some q
     \<and> swq_status q \<noteq> ''pending'')"

definition keeps_questions :: "'w runtime_env \<Rightarrow> question_codec \<Rightarrow> string \<Rightarrow> 'w runtime \<Rightarrow> 'w runtime \<Rightarrow> bool" where
  "keeps_questions env qc k w w1 \<longleftrightarrow> (questions_keyed env qc w \<longrightarrow> questions_keyed env qc w1
     \<and> (question_over env qc k w \<longrightarrow> question_over env qc k w1))"

interpretation questioning: handler_relation "keeps_questions env qc k" for env qc k
  by unfold_locales (auto simp: keeps_questions_def)

text \<open>A handler that asks Codex nothing and leaves the records is quiet.\<close>

definition quiet :: "'w runtime_env \<Rightarrow> 'w runtime \<Rightarrow> 'w runtime \<Rightarrow> bool" where
  "quiet env w w1 \<longleftrightarrow> rt_agent w1 = rt_agent w \<and> record_view env w1 = record_view env w"

interpretation quieting: handler_relation "quiet env" for env
  by unfold_locales (simp_all add: quiet_def)

lemma quiet_basic:
  "stays (quiet env) (reading_clock env')" "stays (quiet env) (drawing_nonce env')" "stays (quiet env) (generation_now env')"
  "stays (quiet env) (with_records g)" "stays (quiet env) (in_spaces h)" "stays (quiet env) (in_sessions i)"
  "stays (quiet env) (sending_message env' m)" "stays (quiet env) (record_of env' kind key)"
  by (auto simp: stays_def runtime_defs record_of_def case_prod_beta quiet_def record_view_def)

lemma quiet_same_records: "(\<And>db. sp_records (snd (f db)) = sp_records db) \<Longrightarrow> stays (quiet env) (with_spaces f)"
  by (auto simp: stays_def with_spaces_run quiet_def record_view_def workflow_record_def)

lemma quiet_callbacks:
  "stays (quiet env) (with_spaces (create_callback c))" "stays (quiet env) (with_spaces (take_callback_scoped nonce now space g))"
  "stays (quiet env) (with_spaces (\<lambda>db. (h db, db)))"
  by (intro quiet_same_records; simp add: create_callback_def insert_callback_def take_callback_scoped_def Let_def split: option.split)+

lemma quiet_messages:
  "stays (quiet env) (tell_by env' inst s t)" "stays (quiet env) (tell env' s t)" "stays (quiet env) (tell_chat env' chat t)"
  "stays (quiet env) (answer_in_chat env' c root t)" "stays (quiet env) (acknowledge_callback_task env' i t)"
  "stays (quiet env) (send_text_message env' surface t)"
  "stays (quiet env) (send_text_with_markup_message env' surface t markup)" "stays (quiet env) (edit_text_message env' inst m t)"
  unfolding tell_def tell_by_def tell_chat_def answer_in_chat_def acknowledge_callback_task_def send_text_with_markup_message_def send_text_task_def
    send_text_message_def edit_text_message_def
  by (intro quieting.stays_rules quiet_basic)+

lemmas quiet_helpers = quieting.stays_rules quiet_basic quiet_callbacks quiet_messages

lemma option_buttons_quiet: "stays (quiet env) (option_buttons env' qc q space qid i vs)"
proof (induction vs)
  case (Cons v vs)
  then show ?case
    unfolding option_buttons.simps option_button_def by (intro quiet_helpers)
qed (simp add: quiet_helpers)

lemma cleanup_quiet: "stays (quiet env) (cleanup_question_messages env' inst q s)"
  unfolding cleanup_question_messages_def clean_message_def by (intro quiet_helpers)

lemma expired_quiet: "stays (quiet env) (question_expired env' q)"
  unfolding question_expired_def by (intro quiet_helpers)

lemma store_question_quiet: "stays (quiet env) (store_question env' q thread turn)"
  unfolding store_question_def by (intro quiet_helpers)

lemma quiet_keeps: "quiet env w w1 \<Longrightarrow> keeps_questions env qc k w w1"
  by (simp add: quiet_def keeps_questions_def questions_keyed_def question_over_def)

lemma quiet_stays: "stays (quiet env) m \<Longrightarrow> stays (keeps_questions env qc k) m"
  by (auto simp: stays_def intro: quiet_keeps)

lemma asking_keeps: "stays (keeps_questions env qc k) (asking f)"
  by (auto simp: stays_def runtime_defs case_prod_beta keeps_questions_def questions_keyed_def question_over_def record_view_def)

section \<open>What each handler keeps\<close>

lemma put_keeps:
  assumes "\<And>q. qc_read qc v = Some q \<Longrightarrow> swq_request_key q = key" and "key = k \<Longrightarrow> \<exists>q. qc_read qc v = Some q \<and> swq_status q \<noteq> ''pending''"
    and reads: "reads_back_json (re_ser env) (re_de env)"
  shows "stays (keeps_questions env qc k) (put_record env ''question'' key v)"
  unfolding stays_def
proof
  fix w
  obtain r w1 where run: "put_record env ''question'' key v w = (r, w1)" by force
  from put_record_view [OF run reads] assms(1,2) show "keeps_questions env qc k w (snd (put_record env ''question'' key v w))"
    by (auto simp: run keeps_questions_def questions_keyed_def question_over_def split: if_splits)
qed

lemma keep_question_run: "keep_question env qc key q = (case qc_write qc q of Inl e \<Rightarrow> act_err e | Inr v \<Rightarrow> put_record env ''question'' key v)"
  by (auto simp: fun_eq_iff keep_question_def and_then_run from_result_def act_err_def split: sum.split)

text \<open>What the store and the serde derives do.\<close>

definition questions_read_back :: "'w runtime_env \<Rightarrow> question_codec \<Rightarrow> bool" where
  "questions_read_back env qc \<longleftrightarrow> reads_back_json (re_ser env) (re_de env) \<and> question_serde qc"

lemma keep_keeps:
  assumes "questions_read_back env qc" and "swq_request_key q = key" and "key = k \<Longrightarrow> swq_status q \<noteq> ''pending''"
  shows "stays (keeps_questions env qc k) (keep_question env qc key q)"
proof (cases "qc_write qc q")
  case (Inr v)
  then have "qc_read qc v = Some q" using assms(1) by (simp add: questions_read_back_def question_serde_def)
  then have "stays (keeps_questions env qc k) (put_record env ''question'' key v)"
    using assms by (intro put_keeps) (auto simp: questions_read_back_def)
  then show ?thesis by (simp add: keep_question_run Inr)
qed (simp add: keep_question_run questioning.stays_pure)

lemma failed_keeps:
  assumes "questions_read_back env qc" and "swq_request_key q \<noteq> k"
  shows "stays (keeps_questions env qc k) (put_record env ''question'' (swq_request_key q) (failed_question q))"
  using assms by (intro put_keeps) (auto simp: questions_read_back_def question_serde_def)

text \<open>The handlers of a request write the record of its own key, and no other.\<close>

lemma render_keeps:
  assumes "questions_read_back env qc" and "swq_request_key q \<noteq> k"
  shows "stays (keeps_questions env qc k) (render_user_question_prompt env qc inst q s space)"
  unfolding render_user_question_prompt_def Let_def
  by (intro questioning.stays_and_then questioning.stays_pure keep_keeps [OF assms(1)] quiet_stays [OF option_buttons_quiet]
      quiet_stays [OF quiet_messages(7)]) (use assms(2) in simp_all)

lemma show_request_keeps:
  assumes "questions_read_back env qc" and "swq_request_key q \<noteq> k"
  shows "stays (keeps_questions env qc k) (show_request env qc inst q s space)"
  unfolding show_request_def refuse_request_def
  by (intro questioning.stays_rules asking_keeps failed_keeps [OF assms] keep_keeps [OF assms(1)] render_keeps [OF assms(1)]
      quiet_stays [OF quiet_messages(6)]) (use assms(2) in simp_all)

definition asked_item :: "json \<Rightarrow> string" where
  "asked_item params = unwrap_or (Option.bind (or_else (jget ''itemId'' params) (jget ''callId'' params)) as_str) ''user-input''"

lemma present_keeps:
  assumes "questions_read_back env qc" and "stable_question_request_key env req (sr_thread_id s) (asked_item (asr_params req)) \<noteq> k"
  shows "stays (keeps_questions env qc k) (present_user_input_request env qc req s sp inst)"
  unfolding present_user_input_request_def refuse_request_def asked_item_def [symmetric] Let_def
  by (intro questioning.stays_rules asking_keeps keep_keeps [OF assms(1)] show_request_keeps [OF assms(1)]
      quiet_stays [OF store_question_quiet] quiet_stays [OF quiet_messages(1)] quiet_stays [OF quiet_basic(1)])
    (use assms(2) in \<open>simp_all add: new_question_def\<close>)

lemma record_answer_keeps:
  assumes "questions_read_back env qc" and "swq_request_key q = key" and "key \<noteq> k"
  shows "stays (keeps_questions env qc k) (record_answer env qc s key known qid reply q)"
  unfolding record_answer_def submit_answers_def next_question_def Let_def
  by (intro questioning.stays_rules asking_keeps keep_keeps [OF assms(1)] render_keeps [OF assms(1)] quiet_stays [OF cleanup_quiet]
      quiet_stays [OF quiet_messages(2)] quiet_stays [OF quiet_basic(1)] quiet_stays [OF quiet_basic(4)] quiet_stays [OF quiet_basic(5)])
    (use assms(2,3) in simp_all)

lemma answer_open_keeps:
  assumes "questions_read_back env qc" and "swq_request_key q = key" and "key \<noteq> k"
  shows "stays (keeps_questions env qc k) (answer_open_question env qc s key qid reply expected q)"
  unfolding answer_open_question_def Let_def
  by (intro questioning.stays_rules keep_keeps [OF assms(1)] record_answer_keeps [OF assms] quiet_stays [OF expired_quiet]
      quiet_stays [OF quiet_messages(2)]) (use assms(2,3) in simp_all)

text \<open>An answer to a question that is read: what runs on.\<close>

lemma answer_question_run:
  "snd (answer_question env qc s key qid reply expected w) = (case record_view env w (''question'', key) of
     Inl e \<Rightarrow> w
   | Inr found \<Rightarrow> (case Option.bind found (qc_read qc) of
       None \<Rightarrow> snd (tell env s ([CHR 0xE8, CHR 0xAF, CHR 0xA5, CHR 0xE9, CHR 0x97, CHR 0xAE, CHR 0xE9,
           CHR 0xA2, CHR 0x98, CHR 0xE5, CHR 0xB7, CHR 0xB2, CHR 0xE8, CHR 0xBF, CHR 0x87, CHR 0xE6, CHR 0x9C,
           CHR 0x9F, CHR 0xE6, CHR 0x88, CHR 0x96, CHR 0xE4, CHR 0xB8, CHR 0x8D, CHR 0xE5, CHR 0xB1, CHR 0x9E,
           CHR 0xE4, CHR 0xBA, CHR 0x8E, CHR 0xE5, CHR 0xBD, CHR 0x93, CHR 0xE5, CHR 0x89, CHR 0x8D] @ '' Session''
           @ [CHR 0xE3, CHR 0x80, CHR 0x82]) w)
     | Some q \<Rightarrow>
         if swq_thread_id q \<noteq> sr_thread_id s \<or> swq_status q \<noteq> ''pending'' then snd (tell env s ([CHR 0xE8, CHR 0xAF, CHR 0xA5, CHR 0xE9, CHR 0x97, CHR 0xAE, CHR 0xE9, CHR 0xA2, CHR 0x98, CHR 0xE5, CHR 0xB7, CHR 0xB2, CHR 0xE8, CHR 0xBF, CHR 0x87, CHR 0xE6, CHR 0x9C, CHR 0x9F, CHR 0xE6, CHR 0x88, CHR 0x96, CHR 0xE4, CHR 0xB8, CHR 0x8D, CHR 0xE5, CHR 0xB1, CHR 0x9E, CHR 0xE4, CHR 0xBA, CHR 0x8E, CHR 0xE5, CHR 0xBD, CHR 0x93, CHR 0xE5, CHR 0x89, CHR 0x8D] @ '' Session'' @ [CHR 0xE3, CHR 0x80, CHR 0x82]) w)
         else if swq_generation q \<noteq> re_generation env (rt_agent w) then snd (tell env s (''Codex ''
             @ [CHR 0xE8, CHR 0xBF, CHR 0x9E, CHR 0xE6, CHR 0x8E, CHR 0xA5, CHR 0xE5, CHR 0xB7, CHR 0xB2, CHR 0xE7,
             CHR 0xBB, CHR 0x8F, CHR 0xE9, CHR 0x87, CHR 0x8D, CHR 0xE5, CHR 0xBB, CHR 0xBA, CHR 0xEF, CHR 0xBC,
             CHR 0x8C, CHR 0xE5, CHR 0x8E, CHR 0x9F, CHR 0xE9, CHR 0x97, CHR 0xAE, CHR 0xE9, CHR 0xA2, CHR 0x98,
             CHR 0xE5, CHR 0xB7, CHR 0xB2, CHR 0xE5, CHR 0xA4, CHR 0xB1, CHR 0xE6, CHR 0x95, CHR 0x88, CHR 0xE3,
             CHR 0x80, CHR 0x82]) w)
         else snd (answer_open_question env qc s key qid reply expected q w)))"
  by (auto simp: answer_question_def and_then_run record_of_run port_str_def generation_now_def split: sum.split option.split)

lemma tell_keeps: "keeps_questions env qc k w (snd (tell env' s t w))"
  by (rule quiet_keeps [OF staysD [OF quiet_messages(2)]])

lemma answered_keeps:
  assumes "questions_read_back env qc"
  shows "stays (keeps_questions env qc k) (answer_question env qc s key qid reply expected)"
  unfolding stays_def
proof
  fix w
  let ?w = "snd (answer_question env qc s key qid reply expected w)"
  show "keeps_questions env qc k w ?w"
  proof (cases "questions_keyed env qc w")
    case keyed: True
    have open_keeps: "keeps_questions env qc k w (snd (answer_open_question env qc s key qid reply expected q w))"
      if q: "record_view env w (''question'',
          key) = Inr (Some v)" "qc_read qc v = Some q" "swq_status q = ''pending''" for v q
    proof -
      have key: "swq_request_key q = key" using keyed q(1,2) by (auto simp: questions_keyed_def)
      show ?thesis
      proof (cases "key = k")
        case True
        with q have "\<not> question_over env qc k w" by (auto simp: question_over_def)
        moreover have "keeps_questions env qc (CHR ''x'' # key) w (snd (answer_open_question env qc s key qid reply expected q w))"
          by (rule staysD [OF answer_open_keeps [OF assms key]]) simp
        ultimately show ?thesis by (simp add: keeps_questions_def)
      qed (rule staysD [OF answer_open_keeps [OF assms key]])
    qed
    then show ?thesis
      unfolding answer_question_run
      by (auto intro: tell_keeps questioning.rel_refl split: sum.split option.split bind_split)
  qed (simp add: keeps_questions_def)
qed

lemma command_keeps: "questions_read_back env qc \<Longrightarrow> stays (keeps_questions env qc k) (handle_answer_command env qc chat raw session)"
  unfolding handle_answer_command_def by (intro questioning.stays_rules answered_keeps quiet_stays [OF quiet_messages(2)] quiet_stays [OF quiet_messages(3)])

lemma press_keeps: "questions_read_back env qc \<Longrightarrow> stays (keeps_questions env qc k) (press_option env qc nonce c s a)"
  unfolding press_option_def
  by (intro questioning.stays_rules answered_keeps quiet_stays [OF quiet_messages(4)] quiet_stays [OF quiet_basic(1)] quiet_stays [OF quiet_callbacks(2)])

lemma callback_keeps: "questions_read_back env qc \<Longrightarrow> stays (keeps_questions env qc k) (handle_question_callback env qc role nonce c)"
  unfolding handle_question_callback_def
  by (intro questioning.stays_rules press_keeps quiet_stays [OF quiet_messages(4)] quiet_stays [OF quiet_messages(5)]
      quiet_stays [OF quiet_basic(1)] quiet_stays [OF quiet_basic(3)] quiet_stays [OF quiet_basic(5)] quiet_stays [OF quiet_basic(6)]
      quiet_stays [OF quiet_callbacks(3)])

section \<open>What may happen to a question\<close>

datatype asked_op =
    AoCommand i64 string "session_record option"
  | AoPress runtime_bot_role string telegram_callback
  | AoPresent agent_server_request session_record session_space string

fun asked_step :: "'w runtime_env \<Rightarrow> question_codec \<Rightarrow> asked_op \<Rightarrow> 'w runtime \<Rightarrow> 'w runtime" where
  "asked_step env qc (AoCommand chat raw session) w = snd (handle_answer_command env qc chat raw session w)"
| "asked_step env qc (AoPress role nonce c) w = snd (handle_question_callback env qc role nonce c w)"
| "asked_step env qc (AoPresent req s sp inst) w = snd (present_user_input_request env qc req s sp inst w)"

text \<open>The request itself comes again, with the key of the question.\<close>

fun asks_again :: "'w runtime_env \<Rightarrow> string \<Rightarrow> asked_op \<Rightarrow> bool" where
  "asks_again env key (AoPresent req s sp inst) \<longleftrightarrow>
     stable_question_request_key env req (sr_thread_id s) (asked_item (asr_params req)) = key"
| "asks_again env key op \<longleftrightarrow> False"

lemma asked_step_keeps: "questions_read_back env qc \<Longrightarrow> \<not> asks_again env k op \<Longrightarrow> keeps_questions env qc k w (asked_step env qc op w)"
  by (cases op) (simp_all add: staysD [OF command_keeps] staysD [OF callback_keeps] staysD [OF present_keeps])

lemma asked_run_keeps:
  "questions_read_back env qc \<Longrightarrow> \<forall>op \<in> set ops. \<not> asks_again env k op \<Longrightarrow> keeps_questions env qc k w (fold (asked_step env qc) ops w)"
  by (induction ops arbitrary: w) (auto intro: questioning.rel_refl questioning.rel_trans [OF asked_step_keeps])

text \<open>A question that is over takes no answer.\<close>

lemma over_quiet:
  assumes "question_over env qc key w"
  shows "quiet env w (snd (answer_question env qc s key qid reply expected w))"
  using assms staysD [OF quiet_messages(2)] by (auto simp: answer_question_run question_over_def)

section \<open>Answers that reach Codex\<close>

lemma quietD: "stays (quiet env) m \<Longrightarrow> m w = (r, w1) \<Longrightarrow> rt_agent w1 = rt_agent w \<and> record_view env w1 = record_view env w"
  by (drule staysD [of _ _ w]) (simp add: quiet_def)

lemma kept_question:
  assumes "keep_question env qc key q w = (Inr (), w1)" and "questions_read_back env qc"
  shows "rt_agent w1 = rt_agent w \<and> (\<exists>v. record_view env w1 (''question'', key) = Inr (Some v) \<and> qc_read qc v = Some q)"
proof (cases "qc_write qc q")
  case (Inr v)
  with assms(1) have put: "put_record env ''question'' key v w = (Inr (), w1)" by (simp add: keep_question_run)
  have "record_view env w1 (''question'', key) = Inr (Some v)"
    using put_record_view [OF put] assms(2) by (auto simp: questions_read_back_def)
  moreover have "qc_read qc v = Some q" using assms(2) Inr by (simp add: questions_read_back_def question_serde_def)
  ultimately show ?thesis using agentD [OF unasked_put put] by blast
qed (use assms(1) in \<open>simp add: keep_question_run act_err_def\<close>)

text \<open>Answers that Codex accepts: the question is over when the handler has run through.\<close>

lemma submitted_answers:
  assumes "submit_answers env qc s key q w = (Inr (), w1)" and "questions_read_back env qc"
    and "fst (re_respond env (swq_request_id q) (answers_payload (swq_answers q)) (rt_agent w)) = Inr ()"
  shows "rt_agent w1 = snd (re_respond env (swq_request_id q) (answers_payload (swq_answers q)) (rt_agent w)) \<and> question_over env qc key w1"
proof -
  let ?q = "q\<lparr>swq_status := ''resolved''\<rparr>"
  obtain w2 w3 w4 w5 w6 where run: "asking (re_respond env (swq_request_id q) (answers_payload (swq_answers q))) w = (Inr (Inr ()), w2)"
      "(\<exists>now. reading_clock env w2 = (Inr now,
          w3) \<and> with_records (resolve_question (re_records env) key (answers_payload (swq_answers q)) now) w3 = (Inr (), w4))"
      "keep_question env qc key ?q w4 = (Inr (), w5)" "cleanup_question_messages env (re_bot env) ?q s w5 = (Inr (), w6)"
      "tell env s ([CHR 0xE2, CHR 0x9C, CHR 0x85] @ '' '' @ [CHR 0xE5, CHR 0xB7, CHR 0xB2, CHR 0xE5, CHR 0xB0,
          CHR 0x86, CHR 0xE5, CHR 0x9B, CHR 0x9E, CHR 0xE7, CHR 0xAD, CHR 0x94, CHR 0xE6, CHR 0x8F, CHR 0x90,
          CHR 0xE4, CHR 0xBA, CHR 0xA4, CHR 0xE7, CHR 0xBB, CHR 0x99] @ '' Codex'' @ [CHR 0xE3, CHR 0x80,
          CHR 0x82]) w6 = (Inr (), w1)"
    using assms(1,3) by (auto simp: submit_answers_def Let_def and_then_Inr asking_run split: sum.splits)
  have "rt_agent w4 = rt_agent w2" using run(2) quietD [OF quiet_basic(1)] quietD [OF quiet_basic(4)] by metis
  moreover have "rt_agent w2 = snd (re_respond env (swq_request_id q) (answers_payload (swq_answers q)) (rt_agent w))"
    using run(1) by (auto simp: asking_run)
  moreover have "rt_agent w1 = rt_agent w5" "record_view env w1 = record_view env w5"
    using quietD [OF cleanup_quiet run(4)] quietD [OF quiet_messages(2) run(5)] by simp_all
  ultimately show ?thesis using kept_question [OF run(3) assms(2)] by (fastforce simp: question_over_def)
qed

lemma unasked_quiet: "stays (quiet env) m \<Longrightarrow> stays keeps_agent m"
  by (simp add: stays_def quiet_def keeps_agent_def)

lemma next_question_unasked: "stays keeps_agent (next_question env qc s key known q)"
  unfolding next_question_def render_user_question_prompt_def keep_question_def Let_def
  by (intro unasked.stays_and_then unasked.stays_pure unasked_put unasked_basic unasked_quiet [OF option_buttons_quiet]
      unasked_quiet [OF quiet_messages(7)])

text \<open>All the answers of a request, when the last one was given.\<close>

definition last_answer :: "question_codec \<Rightarrow> json \<Rightarrow> stored_workflow_question \<Rightarrow> string \<Rightarrow> string \<Rightarrow> (string \<times> string list) list \<Rightarrow> bool" where
  "last_answer qc v q qid reply answers \<longleftrightarrow> qc_read qc v = Some q \<and> swq_status q = ''pending''
     \<and> answers = bt_insert qid [reply] (swq_answers q)
     \<and> list_all (\<lambda>k. bt_get answers k \<noteq> None) (question_ids (unwrap_or (as_array (swq_questions q)) []))"

lemma answer_reaches:
  assumes "answer_question env qc s key qid reply expected w = (Inr (),
      w1)" and "rt_agent w1 \<noteq> rt_agent w" and "questions_read_back env qc"
    and accepts: "\<And>i p. fst (re_respond env i p (rt_agent w)) = Inr ()"
  shows "\<exists>v q answers. record_view env w (''question'', key) = Inr (Some v) \<and> last_answer qc v q qid reply answers
    \<and> rt_agent w1 = snd (re_respond env (swq_request_id q) (answers_payload answers) (rt_agent w)) \<and> question_over env qc key w1"
proof -
  let ?known = "\<lambda>q. question_ids (unwrap_or (as_array (swq_questions q)) [])"
  have told: False if "tell env s t w2 = (Inr (), w1)" "rt_agent w2 = rt_agent w" for t w2
    using quietD [OF quiet_messages(2) that(1)] that(2) assms(2) by simp
  have "\<exists>v q. record_view env w (''question'', key) = Inr (Some v) \<and> qc_read qc v = Some q \<and> swq_status q = ''pending''
      \<and> answer_open_question env qc s key qid reply expected q w = (Inr (), w1)"
    using assms(1) told by (fastforce simp: answer_question_def and_then_run record_of_run port_str_def generation_now_def bind_eq_Some_conv
        split: sum.splits option.splits if_splits)
  then obtain v q where q: "record_view env w (''question'',
      key) = Inr (Some v)" "qc_read qc v = Some q" "swq_status q = ''pending''"
      "answer_open_question env qc s key qid reply expected q w = (Inr (), w1)" by blast
  have "and_then (question_expired env q) (\<lambda>b. if b then and_then (keep_question env qc key (q\<lparr>swq_status := ''expired''\<rparr>)) (\<lambda>_.
             tell env s ([CHR 0xE8, CHR 0xAF, CHR 0xA5, CHR 0xE9, CHR 0x97, CHR 0xAE, CHR 0xE9, CHR 0xA2, CHR 0x98,
                 CHR 0xE5, CHR 0xB7, CHR 0xB2, CHR 0xE8, CHR 0xBF, CHR 0x87, CHR 0xE6, CHR 0x9C, CHR 0x9F, CHR 0xEF,
                 CHR 0xBC, CHR 0x8C, CHR 0xE8, CHR 0xAF, CHR 0xB7, CHR 0xE5, CHR 0x9B, CHR 0x9E, CHR 0xE5, CHR 0x88,
                 CHR 0xB0, CHR 0xE6, CHR 0x9C, CHR 0xAC, CHR 0xE6, CHR 0x9C, CHR 0xBA] @ '' Codex '' @ [CHR 0xE5,
                 CHR 0xAE, CHR 0xA2, CHR 0xE6, CHR 0x88, CHR 0xB7, CHR 0xE7, CHR 0xAB, CHR 0xAF, CHR 0xE7, CHR 0xBB,
                 CHR 0xA7, CHR 0xE7, CHR 0xBB, CHR 0xAD, CHR 0xE3, CHR 0x80, CHR 0x82]))
           else if is_blank reply then tell env s [CHR 0xE5, CHR 0x9B, CHR 0x9E, CHR 0xE7, CHR 0xAD, CHR 0x94,
               CHR 0xE4, CHR 0xB8, CHR 0x8D, CHR 0xE8, CHR 0x83, CHR 0xBD, CHR 0xE4, CHR 0xB8, CHR 0xBA, CHR 0xE7,
               CHR 0xA9, CHR 0xBA, CHR 0xE3, CHR 0x80, CHR 0x82]
           else record_answer env qc s key (?known q) qid reply q) w = (Inr (), w1)" (is "and_then _ ?rest w = _")
  proof (cases "position (\<lambda>k. k = qid) (?known q)")
    case (Some i)
    let ?c = "expected \<noteq> None \<and> expected \<noteq> Some i"
    note run = q(4) [unfolded answer_open_question_def Let_def Some option.case]
    have c: "\<not> ?c"
    proof
      assume ?c
      from run [unfolded if_P [OF this]] told show False by blast
    qed
    from run [unfolded if_not_P [OF c]] show ?thesis .
  next
    case None
    from q(4) [unfolded answer_open_question_def Let_def None option.case] told show ?thesis by blast
  qed
  then obtain b w2 where e: "question_expired env q w = (Inr b, w2)" and r: "?rest b w2 = (Inr (), w1)"
    unfolding and_then_Inr by blast
  have w2: "rt_agent w2 = rt_agent w" using quietD [OF expired_quiet e] by simp
  have "record_answer env qc s key (?known q) qid reply q w2 = (Inr (), w1)"
  proof (cases b)
    case True
    then obtain w3 where w3: "keep_question env qc key (q\<lparr>swq_status := ''expired''\<rparr>) w2 = (Inr (), w3)"
        "tell env s ([CHR 0xE8, CHR 0xAF, CHR 0xA5, CHR 0xE9, CHR 0x97, CHR 0xAE, CHR 0xE9, CHR 0xA2, CHR 0x98,
            CHR 0xE5, CHR 0xB7, CHR 0xB2, CHR 0xE8, CHR 0xBF, CHR 0x87, CHR 0xE6, CHR 0x9C, CHR 0x9F, CHR 0xEF,
            CHR 0xBC, CHR 0x8C, CHR 0xE8, CHR 0xAF, CHR 0xB7, CHR 0xE5, CHR 0x9B, CHR 0x9E, CHR 0xE5, CHR 0x88,
            CHR 0xB0, CHR 0xE6, CHR 0x9C, CHR 0xAC, CHR 0xE6, CHR 0x9C, CHR 0xBA] @ '' Codex '' @ [CHR 0xE5, CHR 0xAE,
            CHR 0xA2, CHR 0xE6, CHR 0x88, CHR 0xB7, CHR 0xE7, CHR 0xAB, CHR 0xAF, CHR 0xE7, CHR 0xBB, CHR 0xA7,
            CHR 0xE7, CHR 0xBB, CHR 0xAD, CHR 0xE3, CHR 0x80, CHR 0x82]) w3 = (Inr (),
            w1)" using r by (auto simp: and_then_Inr)
    show ?thesis using told [OF w3(2)] kept_question [OF w3(1) assms(3)] w2 by simp
  qed (use r told [OF _ w2] in \<open>auto split: if_splits\<close>)
  note w2 = w2 this
  let ?q = "q\<lparr>swq_answers := bt_insert qid [reply] (swq_answers q)\<rparr>"
  have "next_question env qc s key (?known q) ?q w2 \<noteq> (Inr (), w1)"
    using agentD [OF next_question_unasked] w2(1) assms(2) by metis
  with w2(2) have all: "list_all (\<lambda>k. bt_get (swq_answers ?q) k \<noteq> None) (?known q)" "submit_answers env qc s key ?q w2 = (Inr (), w1)"
    by (simp_all only: record_answer_def Let_def not_True_eq_False simp_thms split: if_split_asm)
  from submitted_answers [OF all(2) assms(3)] accepts w2(1) all(1) q show ?thesis
    by (auto simp: last_answer_def)
qed


section \<open>Old buttons\<close>

text \<open>
  A button carries the place of its question, which the handler compares with the place where it finds the id
  of the question again. When the ids differ that is the same place, so the reply that asks for the
  buttons of the present question is never given: a button of an earlier question changes its answer.
\<close>

lemma button_is_never_stale:
  assumes "distinct ids" and "i < length ids"
  shows "position (\<lambda>k. k = ids ! i) ids = Some i"
  using assms by (auto simp: position_def find_Some_iff nth_eq_iff_index_eq intro!: exI [of _ i])

section \<open>A request to run\<close>

definition demo_question :: stored_workflow_question where
  "demo_question = \<lparr>swq_request_key = ''k'', swq_request_id = JInt 7, swq_generation = 1,
      swq_thread_id = ''T'', swq_turn_id = ''t'',
     swq_item_id = ''i'', swq_questions = JArr [jobj [(''id'', JStr ''a'')]], swq_answers = [], swq_current_index = 0,
     swq_message_ids = [], swq_summary_message_id = None, swq_status = ''pending'', swq_expires_at_ms = None\<rparr>"

definition demo_questions :: "(json \<times> stored_workflow_question) list" where
  "demo_questions = [(JStr ''pending'', demo_question),
     (JStr ''resolved'', demo_question\<lparr>swq_answers := [(''a'', [''yes''])], swq_status := ''resolved''\<rparr>)]"

definition demo_question_codec :: question_codec where
  "demo_question_codec = \<lparr>qc_write = (\<lambda>q. case find (\<lambda>x. snd x = q) demo_questions of None \<Rightarrow> Inl ''no'' | Some x \<Rightarrow> Inr (fst x)),
     qc_read = map_of demo_questions, qc_write_action = (\<lambda>_. Inl ''no''), qc_read_action = (\<lambda>_. Inl ''no'')\<rparr>"

definition demo_question_env :: "nat runtime_env" where
  "demo_question_env = (demo_turn_env (Inl AppTimeout) (map fst demo_questions @ [answers_payload [(''a'', [''yes''])]]) [])
     \<lparr>re_respond := (\<lambda>_ _ w. (Inr (), Suc w))\<rparr>"

definition demo_question_world :: "nat runtime" where
  "demo_question_world = (let w = demo_tables [demo_row_of ''question'' ''k'' 0] in
     w\<lparr>rt_records := (rt_records w)\<lparr>rd_questions := [\<lparr>qr_request_key = ''k'', qr_generation = 1,
         qr_status = ''pending'', qr_payload_json = [],
       qr_response_json = None, qr_created_at_ms = 0, qr_updated_at_ms = 0\<rparr>]\<rparr>\<rparr>)"

abbreviation demo_asked :: "(string + unit) \<times> nat runtime" where
  "demo_asked \<equiv> answer_question demo_question_env demo_question_codec demo_turn_session ''k'' ''a'' ''yes'' None demo_question_world"

abbreviation demo_asked_later :: "nat runtime" where
  "demo_asked_later \<equiv> fold (asked_step demo_question_env demo_question_codec) [AoCommand 5 ''k a | no'' (Some demo_turn_session)] (snd demo_asked)"

lemma demo_asked_run: "fst demo_asked = Inr ()" "rt_agent (snd demo_asked) \<noteq> rt_agent demo_question_world"
  by code_simp+

lemma demo_question_reads: "questions_read_back demo_question_env demo_question_codec"
proof -
  have keys: "distinct (map fst demo_questions)" "list_all (\<lambda>x. is_string (fst x)) demo_questions" by code_simp+
  have "qc_read demo_question_codec v = Some q" if "qc_write demo_question_codec q = Inr v" for q v
    using that keys(1) by (auto simp: demo_question_codec_def find_Some_iff in_set_conv_nth intro!: map_of_is_SomeI split: option.splits)
  moreover have "qc_read demo_question_codec (failed_question q) \<noteq> Some q1" for q q1
    using keys(2) by (auto simp: demo_question_codec_def failed_question_def jobj_def is_string_def list_all_iff dest!: map_of_SomeD)
  moreover have "reads_back_json (re_ser demo_question_env) (re_de demo_question_env)"
    using demo_reads_back by (simp add: demo_question_env_def)
  ultimately show ?thesis by (simp add: questions_read_back_def question_serde_def)
qed

lemma demo_question_keyed: "questions_keyed demo_question_env demo_question_codec demo_question_world"
proof -
  have "list_all (\<lambda>x. swq_request_key (snd x) = ''k'') demo_questions" by code_simp
  then have "swq_request_key q = ''k''" if "qc_read demo_question_codec v = Some q" for v q
    using that by (auto simp: demo_question_codec_def list_all_iff dest!: map_of_SomeD)
  then show ?thesis
    by (auto simp: questions_keyed_def record_view_def workflow_record_def demo_question_world_def Let_def demo_tables_def demo_row_of_def
        record_key_def split: option.splits sum.splits if_splits)
qed


end
