(* ===== verification/Spec2Isabelle.thy ===== *)
theory Spec2Isabelle
  imports WorkflowSafety SecurityProps ControlProps DeletionStore UpdateStore SpaceProps RecordStore EngineProps
    RoutingProps Menus Credentials BotApi Lease Poller Dispatch Sessions ApprovalProps AppProps AppClientProps
    PanelProps Calendar NewFlowProps Watch TurnProps OnboardingProps PlanProps QuestionProps
begin

text \<open>
  A verification development for the Codex/Telegram bridge, the Rust workspace under \<open>src/rust\<close>.

  \<^bold>\<open>The program.\<close> The bridge lets the owner of a machine drive Codex sessions from Telegram. A poller
  thread per bot fetches updates and hands them to one worker per chat; a worker checks who wrote
  the update, translates it to an action of the workflow and runs the action against the SQLite
  store, the write lock and the connection to the Codex app-server. What Codex asks for, approvals
  above all, goes the other way: it becomes a message with buttons, and a press of a button becomes
  an answer. A session lives in the comment thread of a channel post, its \<open>session space\<close>, and every
  write in it needs a lease of the write lock, which a one-time password or a recovery code opens.

  \<^bold>\<open>The theories,\<close> from the libraries up. Paths are relative to \<open>src/rust/crates\<close>.

    \<^item> \<open>Prelude\<close>, \<open>Contracts\<close>, \<open>BTree\<close>, \<open>RustText\<close>, \<open>Json\<close>: what the program uses of Rust's library.
      64-bit integers are \<open>int\<close> with the saturating operations written out where the code calls
      them; text is the list of its UTF-8 bytes; \<open>BTreeMap\<close> is a sorted association list;
      \<open>serde_json::Value\<close> is a datatype with its accessors, pointers and printer. \<open>Contracts\<close> holds the
      locales: \<open>machine\<close> (a step function that keeps an invariant), \<open>one_shot\<close> (a key that is used up),
      \<open>leased\<close> (a claim that holds for a time); each is interpreted on the model of the component.
    \<^item> \<open>Domain\<close> models \<open>domain/src/lib.rs\<close>: identifiers, sessions, approvals, artifacts, commands, events
      and the transitions of each.
    \<^item> \<open>Workflow\<close> and \<open>WorkflowSafety\<close> model \<open>engine/src/lib.rs\<close>'s \<open>CodexWorkflowProjection\<close>: prompt queues,
      ambiguous deliveries, reconnections, interactive requests and plans. \<open>wf_inv\<close> is its invariant.
    \<^item> \<open>Engine\<close> and \<open>EngineProps\<close> model the application service \<open>Engine\<close> on the adapter below.
    \<^item> \<open>Sql\<close>, \<open>DomainStore\<close>, \<open>ControlStore\<close> (with \<open>ControlProps\<close>), \<open>DeletionStore\<close>, \<open>UpdateStore\<close>, \<open>SpaceStore\<close>
      (with \<open>SpaceProps\<close>), \<open>RecordStore\<close>, \<open>TotpStore\<close> model \<open>storage-sqlite/src/lib.rs\<close>. A table is the
      list of its rows in insertion order, a statement a function on it, a transaction a function
      that returns the old tables on error; \<open>Sql\<close> has the statements' shapes and the error values.
    \<^item> \<open>Security\<close> and \<open>SecurityProps\<close> model \<open>cli/src/security.rs\<close>: one-time passwords on real HMAC and
      truncation, recovery codes, the leases of sessions and the lockout.
    \<^item> \<open>Commands\<close>, \<open>Routing\<close> (with \<open>RoutingProps\<close>) and \<open>Menus\<close> model the command vocabulary, its parser, the
      permissions of each bot, the way from the JSON of an update to the action of the workflow and
      the menus, in \<open>telegram/src/lib.rs\<close> and \<open>telegram/src/controllers.rs\<close>.
    \<^item> \<open>Surfaces\<close>, \<open>BotApi\<close> and \<open>Lease\<close> model the rest of \<open>telegram/src/lib.rs\<close>: bindings, messages,
      keyboards, tickets and their payloads; the client of the Bot API over a transport; the
      leases that keep a bot's token to one poller, with the processes that take and lose them as
      the step relation \<open>lease_step\<close>.
    \<^item> \<open>Credentials\<close> models \<open>credentials/src/lib.rs\<close>: token files, their permissions and the registry.
    \<^item> \<open>Poller\<close>, \<open>Dispatch\<close>, \<open>Sessions\<close>, \<open>Approvals\<close> (with \<open>ApprovalProps\<close>) model parts of
      \<open>cli/src/daemon.rs\<close>: the polling loop, the workers, the registry of sessions with the checks of a
      prompt, and approvals from the request of Codex to the answer.

    \<^item> \<open>AppProtocol\<close> (with \<open>AppProps\<close>) and \<open>AppClient\<close> (with \<open>AppClientProps\<close>) model \<open>app-server/src/lib.rs\<close>:
      the typed requests of Codex and their answers, and the JSON-RPC client, cut at its awaits:
      \<open>app_world\<close> is the client with its connection, \<open>app_step\<close> one event of it (a call, a line that
      arrives, a write that fails, a timeout, a lost connection).
    \<^item> \<open>TextOps\<close>, \<open>Panels\<close>, \<open>Calendar\<close> and \<open>PanelProps\<close> model \<open>cli/src/control.rs\<close>: the panels of the control
      bot with their texts and buttons, the calendar of the clock and the Markdown escapes.
    \<^item> \<open>NewArgs\<close>, \<open>Projects\<close>, \<open>NewFlow\<close> and \<open>NewFlowProps\<close> model the command \<open>/new\<close> of \<open>cli/src/daemon.rs\<close>: its
      arguments and the list of models, the search of a directory, and the conversation. A handler
      there is an \<open>act\<close>, a function on the tables, the messages sent and the readings of the clock.
    \<^item> \<open>Handlers\<close> has the handlers of the daemon in general: an \<open>async fn\<close> with \<open>Result<T, String>\<close> is a
      function on a state, \<open>and_then\<close> is \<open>?\<close>, and a write before an error stays. Its locale
      \<open>handler_relation\<close> carries a relation of states through a handler. \<open>Runtime\<close> is the state that the
      handlers of prompts share, with their helpers; \<open>Turns\<close> and \<open>TurnProps\<close> model the submission of a
      prompt, \<open>/ask\<close>, the queue of a thread and the end of a turn; \<open>Plans\<close> and \<open>PlanProps\<close> the plans that
      Codex proposes, from the message with its buttons to their execution or revision; \<open>Questions\<close> and
      \<open>QuestionProps\<close> the questions that Codex asks the user; all in \<open>cli/src/daemon.rs\<close>. \<open>Onboarding\<close> and \<open>OnboardingProps\<close> model \<open>/pair\<close> and \<open>/bind\<close> there, with the codes that
      \<open>cli/src/main.rs\<close> prints and its \<open>owner-reset\<close>. \<open>RecordLaws\<close> says what the workflow records hold after
      each helper that writes them; its interpretation \<open>viewing\<close> of that locale follows one record through a handler.
    \<^item> \<open>Projector\<close> and \<open>ProjectorProps\<close> model \<open>engine/src/projector.rs\<close>: what is known of each thread, the tasks
      of its sub-agents, and what each event of Codex changes.
    \<^item> \<open>Hydration\<close>, \<open>HydrationProps\<close> and \<open>Watch\<close> model in \<open>cli/src/daemon.rs\<close> the rows of \<open>/sessions\<close> with
      their cache, the projection rebuilt from \<open>thread/read\<close>, the models a space keeps, and the loop over
      the events of Codex, \<open>forward_codex_events\<close>, whose state is the record \<open>watch\<close>.

  \<^bold>\<open>How the code is rendered.\<close> A \<open>&mut self\<close> method or a method behind a mutex takes the state and
  returns it changed; \<open>Result\<close> is a sum with the error on the left, \<open>Option\<close> is \<open>option\<close>, \<open>?\<close> is a branch. Loops
  over collections are recursions on lists and end; the polling loop, which does not end, is cut
  into its steps, and the properties hold for every sequence of steps. A run of operations is a
  \<open>fold\<close> of the component's step function over a list of operations, so a property of every run
  quantifies over that list. Where a handler awaits, other operations may come in between: the
  properties of approvals let any of them (\<open>bridge_step\<close>) happen between two presses.

  \<^bold>\<open>Readings of the clock.\<close> A function that reads the clock several times takes the clock as a function
  from the number of the reading, so that no two readings are assumed equal or ordered.

  \<^bold>\<open>What is a parameter.\<close> Code outside \<open>src\<close> is an argument: SHA-1, SHA-256, base32 and hexadecimal decoding
  (\<open>crypto\<close>), the serde encoders and decoders of typed values (\<open>codec\<close> records), the printer of floats,
  the HTTP client, the file operations of a lock file, the policy and the gateways of the engine,
  the app-server's and Telegram's side of a conversation (\<open>bridge_io\<close>). Hypotheses about them are named
  in the theorem: that a text reads back as the value that was written, that a digest separates
  two tokens.

  \<^bold>\<open>What is shown.\<close> The properties, in order of importance, carry the ids C1, C2, ... in the text before
  each. They fall into groups: one submission at a time per conversation and every prompt reported
  finished once (\<open>WorkflowSafety\<close>); a button answers what it says, to the request it was made for,
  once, and only after every check (\<open>ApprovalProps\<close>); only the owner is served, and before pairing
  nobody (\<open>RoutingProps\<close>); no secret opens the lock twice, a lock ends every lease, failures lock out
  (\<open>SecurityProps\<close>); a closed space stays closed and everything in it ends (\<open>SpaceProps\<close>); no update is
  lost, none is dispatched twice, the order of a chat is kept (\<open>Poller\<close>, \<open>Dispatch\<close>); one poller per token
  and a free token can be taken (\<open>Lease\<close>); revisions, claims, callbacks and deletions are used once
  and within their bounds (\<open>ControlProps\<close>, \<open>DeletionStore\<close>); every button of a panel is understood and
  a conversation ends after at most five presses (\<open>PanelProps\<close>); a press in \<open>/new\<close> is taken once and
  nobody else takes part (\<open>NewFlowProps\<close>); the search of a directory ends (\<open>Projects\<close>);
  the time of a turn is counted once, what is kept of a thread is bounded, a replay of history brings
  no task back (\<open>ProjectorProps\<close>), and a turn that has ended is found again after its projection was
  evicted (\<open>Watch\<close>); a queued prompt is given to Codex at most once, the oldest first, and a
  submission says what became of it (\<open>TurnProps\<close>); only the sender of the printed code becomes the owner,
  and five wrong guesses end a code (\<open>OnboardingProps\<close>); an approved plan is started once (\<open>PlanProps\<close>);
  Codex gets the answers to its questions once and all together (\<open>QuestionProps\<close>). Theorems without an id are results of the
  library that stand beside them; some show that the code does less than its comments say, such
  as \<open>prompt_reaches_the_other_session\<close> in \<open>Sessions\<close> and \<open>failing_handler_loses\<close> in \<open>Poller\<close>.

  \<^bold>\<open>Bounds.\<close> There is no fuel in the development: every function is total by structural recursion or a
  measure, except the search of a project, a \<open>partial_function (option)\<close> that \<open>project_search_ends\<close> shows
  to return for every file system. Numbers that the code keeps in 64 bits are unbounded in the model except where the
  code saturates, checks or casts; SQLite's integer range is checked where the code checks it.

  \<^bold>\<open>Not modelled.\<close> The schema and its migrations; the status cards and the
  commands that only print in the daemon, recovery after a restart, file transfer and start-up in the daemon; what an event of
  Codex sends to Telegram; the configuration and its migration, the rest of the executable's
  entry point, and the side services (alerts, metrics, benchmarks, readings of the machine). Metrics, log
  lines and sleeps are left out everywhere.
\<close>

end
